(* ===== verification/Prelude.thy ===== *)
theory Prelude
  imports Main "HOL-Library.Char_ord" "HOL-Library.List_Lexorder"
begin

text \<open>
  What the whole development shares: the \<open>named_theorems\<close> collections, the part of the Go standard
  library that the follower service uses on strings and integers, and generic lemmas on lists.

  A Go string is a byte string; it is modelled as \<open>string\<close>.  The functions of package
  \<open>strings\<close> are modelled on ASCII text, which is what identifiers, status words, error codes,
  object keys and profile URLs of the service consist of: \<open>strings.TrimSpace\<close> removes the six
  ASCII white space bytes at both ends and \<open>strings.ToLower\<close> lowers the 26 ASCII letters.

  A \<open>uuid.UUID\<close> is represented by its canonical text, the value of its method \<open>String\<close>, so that
  \<open>String\<close> itself is the identity; an instant of time is an integer number of nanoseconds.
\<close>

named_theorems go_string \<open>equations of the Go string functions\<close>
named_theorems go_error_simps \<open>how errors look through wrappers and joins\<close>
named_theorems repo_defs \<open>operations of the repositories and of the statements they run\<close>

type_synonym uuid = string
type_synonym time = int
type_synonym bytes = "nat list"

definition uuid_Nil :: uuid where
  "uuid_Nil = ''00000000-0000-0000-0000-000000000000''"


section \<open>Package strings\<close>

definition is_space :: "char \<Rightarrow> bool" where
  "is_space c \<longleftrightarrow> c \<in> {CHR 0x09, CHR 0x0A, CHR 0x0B, CHR 0x0C, CHR 0x0D, CHR '' ''}"

definition trim_both :: "('a \<Rightarrow> bool) \<Rightarrow> 'a list \<Rightarrow> 'a list" where
  "trim_both P s = rev (dropWhile P (rev (dropWhile P s)))"

definition TrimSpace :: "string \<Rightarrow> string" where
  "TrimSpace s = trim_both is_space s"

definition to_lower_char :: "char \<Rightarrow> char" where
  "to_lower_char c =
     (let n = (of_char c :: nat) in if 65 \<le> n \<and> n \<le> 90 then char_of (n + 32) else c)"

definition ToLower :: "string \<Rightarrow> string" where
  "ToLower s = map to_lower_char s"

definition HasPrefix :: "string \<Rightarrow> string \<Rightarrow> bool" where
  "HasPrefix s p \<longleftrightarrow> take (length p) s = p"

definition HasSuffix :: "string \<Rightarrow> string \<Rightarrow> bool" where
  "HasSuffix s p \<longleftrightarrow> HasPrefix (rev s) (rev p)"

definition TrimPrefix :: "string \<Rightarrow> string \<Rightarrow> string" where
  "TrimPrefix s p = (if HasPrefix s p then drop (length p) s else s)"

text \<open>\<open>strings.Index\<close>: the offset of the first occurrence, \<open>None\<close> for the Go result -1.\<close>

fun StrIndex :: "string \<Rightarrow> string \<Rightarrow> nat option" where
  "StrIndex [] p = (if p = [] then Some 0 else None)"
| "StrIndex (c # s) p =
     (if HasPrefix (c # s) p then Some 0 else map_option Suc (StrIndex s p))"

definition Contains :: "string \<Rightarrow> string \<Rightarrow> bool" where
  "Contains s p \<longleftrightarrow> StrIndex s p \<noteq> None"

definition containsAny :: "string \<Rightarrow> string list \<Rightarrow> bool" where
  "containsAny content markers \<longleftrightarrow> list_ex (Contains content) markers"

definition CountChar :: "string \<Rightarrow> char \<Rightarrow> nat" where
  "CountChar s c = length (filter (\<lambda>d. d = c) s)"

fun Join :: "string list \<Rightarrow> string \<Rightarrow> string" where
  "Join [] sep = ''''"
| "Join [s] sep = s"
| "Join (s # t # ss) sep = s @ sep @ Join (t # ss) sep"


section \<open>Package strconv\<close>

definition digit_char :: "nat \<Rightarrow> char" where
  "digit_char d = char_of (48 + d)"

fun nat_str :: "nat \<Rightarrow> string" where
  "nat_str n = (if n < 10 then [digit_char n] else nat_str (n div 10) @ [digit_char (n mod 10)])"

declare nat_str.simps [simp del]

definition Itoa :: "int \<Rightarrow> string" where
  "Itoa i = (if i < 0 then CHR ''-'' # nat_str (nat (- i)) else nat_str (nat i))"

definition FormatBool :: "bool \<Rightarrow> string" where
  "FormatBool b = (if b then ''true'' else ''false'')"


section \<open>Lemmas\<close>

lemma trim_both_Nil [simp]: "trim_both P [] = []"
  by (simp add: trim_both_def)

lemma trim_both_eq_Nil: "trim_both P s = [] \<longleftrightarrow> (\<forall>c \<in> set s. P c)"
proof
  assume "trim_both P s = []"
  then have "\<forall>c \<in> set (dropWhile P s). P c" by (simp add: trim_both_def)
  moreover have "\<forall>c \<in> set (takeWhile P s). P c" by (auto dest: set_takeWhileD)
  ultimately have "\<forall>c \<in> set (takeWhile P s @ dropWhile P s). P c" by (simp only: set_append) blast
  then show "\<forall>c \<in> set s. P c" by simp
next
  assume all: "\<forall>c \<in> set s. P c"
  then have "dropWhile P s = []" by (simp only: dropWhile_eq_Nil_conv)
  then show "trim_both P s = []" by (simp only: trim_both_def rev.simps dropWhile.simps)
qed

lemma set_trim_both: "set (trim_both P s) \<subseteq> set s"
proof
  fix x assume "x \<in> set (trim_both P s)"
  then have "x \<in> set (dropWhile P (rev (dropWhile P s)))" by (simp add: trim_both_def)
  then have "x \<in> set (rev (dropWhile P s))" by (blast dest: set_dropWhileD)
  then have "x \<in> set (dropWhile P s)" by simp
  then show "x \<in> set s" by (blast dest: set_dropWhileD)
qed

lemma trim_both_id: "s = [] \<or> (\<not> P (hd s) \<and> \<not> P (last s)) \<Longrightarrow> trim_both P s = s"
proof (cases "s = []")
  case False
  assume "s = [] \<or> (\<not> P (hd s) \<and> \<not> P (last s))"
  with False have h: "\<not> P (hd s)" "\<not> P (last s)" by simp_all
  have 1: "dropWhile P s = s" using h(1) False by (simp add: dropWhile_eq_self_iff)
  have 2: "dropWhile P (rev s) = rev s" using h(2) False by (simp add: dropWhile_eq_self_iff hd_rev)
  show ?thesis by (simp add: trim_both_def 1 2)
qed simp

lemma trim_both_ends: "trim_both P s \<noteq> [] \<Longrightarrow> \<not> P (hd (trim_both P s)) \<and> \<not> P (last (trim_both P s))"
proof -
  assume ne: "trim_both P s \<noteq> []"
  let ?t = "dropWhile P s"
  have "\<not> P (last (trim_both P s))"
    using ne by (simp add: trim_both_def last_rev hd_dropWhile)
  moreover obtain us where us: "?t = trim_both P s @ us"
    unfolding trim_both_def
    by (metis rev_append rev_rev_ident takeWhile_dropWhile_id)
  have "hd ?t = hd (trim_both P s)" using ne us by (metis hd_append2)
  moreover have "\<not> P (hd ?t)" using ne us by (metis append_is_Nil_conv hd_dropWhile)
  ultimately show ?thesis by simp
qed

lemma trim_both_idem [simp]: "trim_both P (trim_both P s) = trim_both P s"
  by (metis trim_both_ends trim_both_id)

lemma TrimSpace_Nil [simp, go_string]: "TrimSpace '''' = ''''"
  by (simp add: TrimSpace_def)

lemma TrimSpace_idem [simp, go_string]: "TrimSpace (TrimSpace s) = TrimSpace s"
  by (simp add: TrimSpace_def)

lemma TrimSpace_eq_Nil: "TrimSpace s = '''' \<longleftrightarrow> (\<forall>c \<in> set s. is_space c)"
  by (simp add: TrimSpace_def trim_both_eq_Nil)

lemma TrimSpace_nonempty: "TrimSpace s \<noteq> '''' \<Longrightarrow> s \<noteq> ''''"
  by auto

lemma length_ToLower [simp]: "length (ToLower s) = length s"
  by (simp add: ToLower_def)

lemma HasPrefix_iff: "HasPrefix s p \<longleftrightarrow> (\<exists>t. s = p @ t)"
  unfolding HasPrefix_def by (metis append_eq_conv_conj append_take_drop_id)

lemma HasPrefix_append [simp]: "HasPrefix (p @ s) p"
  by (simp add: HasPrefix_def)

lemma HasSuffix_iff: "HasSuffix s p \<longleftrightarrow> (\<exists>t. s = t @ p)"
proof -
  have "HasSuffix s p \<longleftrightarrow> (\<exists>t. rev s = rev p @ t)" by (simp add: HasSuffix_def HasPrefix_iff)
  also have "\<dots> \<longleftrightarrow> (\<exists>t. s = t @ p)" by (metis rev_append rev_rev_ident)
  finally show ?thesis .
qed

lemma StrIndex_Some: "StrIndex s p = Some i \<Longrightarrow> \<exists>u v. s = u @ p @ v \<and> length u = i"
proof (induction s arbitrary: i)
  case Nil
  then show ?case by (simp split: if_splits)
next
  case (Cons c s)
  show ?case
  proof (cases "HasPrefix (c # s) p")
    case True
    with Cons.prems show ?thesis by (auto simp: HasPrefix_iff)
  next
    case False
    with Cons.prems obtain j where j: "StrIndex s p = Some j" "i = Suc j" by auto
    from Cons.IH [OF j(1)] obtain u v where "s = u @ p @ v" "length u = j" by blast
    then have "c # s = (c # u) @ p @ v \<and> length (c # u) = i" using j(2) by simp
    then show ?thesis by blast
  qed
qed

lemma StrIndex_None: "StrIndex s p = None \<Longrightarrow> s \<noteq> u @ p @ v"
proof (induction u arbitrary: s)
  case Nil
  then show ?case by (cases s) (auto simp: HasPrefix_def split: if_splits)
next
  case (Cons c u)
  then show ?case by (cases s) (auto split: if_splits)
qed

lemma Contains_iff: "Contains s p \<longleftrightarrow> (\<exists>u v. s = u @ p @ v)"
  unfolding Contains_def using StrIndex_Some StrIndex_None by blast

lemma find_map_of: "distinct (map f xs) \<Longrightarrow> x \<in> set xs \<Longrightarrow> find (\<lambda>y. f y = f x) xs = Some x"
  by (induction xs) (auto simp: rev_image_eqI)

lemma find_SomeD: "find P xs = Some x \<Longrightarrow> x \<in> set xs \<and> P x"
  by (induction xs) (auto split: if_splits)

lemma find_NoneD: "find P xs = None \<Longrightarrow> x \<in> set xs \<Longrightarrow> \<not> P x"
  by (induction xs) (auto split: if_splits)

text \<open>Rows kept in a list and looked up by a key; an update replaces the row with the same key.\<close>

lemma find_key_Some: "find (\<lambda>r. k r = a) rs = Some r \<Longrightarrow> r \<in> set rs \<and> k r = a \<and> a \<in> set (map k rs)"
  using find_SomeD by fastforce

lemma find_key_None: "find (\<lambda>r. k r = a) rs = None \<longleftrightarrow> a \<notin> set (map k rs)"
  by (induction rs) auto

lemma find_key_append:
  "find (\<lambda>r. k r = a) (rs @ [r]) =
   (case find (\<lambda>r. k r = a) rs of Some q \<Rightarrow> Some q | None \<Rightarrow> if k r = a then Some r else None)"
  by (induction rs) auto

lemma find_key_put:
  "find (\<lambda>r. k r = a) (map (\<lambda>x. if k x = k r then r else x) rs) =
   (if a = k r then (if a \<in> set (map k rs) then Some r else None) else find (\<lambda>r. k r = a) rs)"
  by (induction rs) auto

lemma map_key_put: "map k (map (\<lambda>x. if k x = k r then r else x) rs) = map k rs"
  by (induction rs) auto

lemma find_key_upsert:
  assumes "k r = a"
  shows "find (\<lambda>r. k r = b)
      (case find (\<lambda>r. k r = a) rs of None \<Rightarrow> rs @ [r] | Some q \<Rightarrow> map (\<lambda>x. if k x = k r then r else x) rs) =
    (if b = a then Some r else find (\<lambda>r. k r = b) rs)"
proof (cases "find (\<lambda>r. k r = a) rs")
  case None
  then show ?thesis using assms by (auto simp: find_key_append split: option.splits)
next
  case (Some q)
  have "a \<in> set (map k rs)" using find_key_Some [OF Some] by blast
  then show ?thesis using Some assms by (auto simp only: find_key_put option.case split: if_splits)
qed

end
