(* ===== verification/Errors.thy ===== *)
theory Errors
  imports Prelude
begin

text \<open>
  Error values: the error codes and \<open>DomainError\<close> of \<open>internal/domain/invariants.go\<close>, the stack
  carrying wrapper of \<open>internal/stackerr/errors.go\<close>, and what the service uses of package
  \<open>errors\<close>: \<open>errors.As\<close> for a \<open>DomainError\<close> or a \<open>stackerr.Error\<close>, \<open>errors.Is\<close> for the
  sentinels it tests, and \<open>errors.Join\<close>.

  The lemmas say that wrapping never hides or invents a domain error, that the first wrapper fixes
  the stack, and what text a wrapped error shows.
\<close>

section \<open>Error codes\<close>

text \<open>\<open>type ErrorCode string\<close> with its constants; \<open>ErrorCodeOther\<close> is any other text.\<close>

datatype error_code =
    ErrorCodeEligible
  | ErrorCodeInternal
  | ErrorCodeAccountNotFound
  | ErrorCodeAccountBusy
  | ErrorCodeAccountInactive
  | ErrorCodeAccountNotReady
  | ErrorCodeAccountQuarantined
  | ErrorCodeAccountRestricted
  | ErrorCodeAccountMissingProxy
  | ErrorCodeAccountProxyInactive
  | ErrorCodeAccountLimitReached
  | ErrorCodeAccountContextMismatch
  | ErrorCodeInvalidOperationalState
  | ErrorCodeInvalidExecutionContext
  | ErrorCodeInvalidAccountIdentifier
  | ErrorCodeSessionMetadataNotFound
  | ErrorCodeSessionPayloadMissing
  | ErrorCodeSessionPayloadCorrupted
  | ErrorCodeSessionOwnershipMismatch
  | ErrorCodeSessionPayloadInvalid
  | ErrorCodeInvalidSessionStatus
  | ErrorCodeInvalidSessionRevision
  | ErrorCodeInvalidSessionObjectKey
  | ErrorCodeTaskNotFound
  | ErrorCodeTaskNotRunning
  | ErrorCodeTaskStateConflict
  | ErrorCodeRetryNotAllowed
  | ErrorCodeCancelNotAllowed
  | ErrorCodeTaskClaimOwnerMismatch
  | ErrorCodeTaskQueueWriteFailed
  | ErrorCodeInvalidTaskIdentifier
  | ErrorCodeInvalidTaskStatus
  | ErrorCodeInvalidTaskTransition
  | ErrorCodeInvalidTaskClaimedBy
  | ErrorCodeTaskCompletionReason
  | ErrorCodeFollowTargetProfile
  | ErrorCodeFollowActionUnavailable
  | ErrorCodeFollowTargetUnreachable
  | ErrorCodeFollowNavigationFailed
  | ErrorCodeFollowVerifyFailed
  | ErrorCodeArtifactPersistFailed
  | ErrorCodeFollowResultPersistFailed
  | ErrorCodeFollowResultNotFound
  | ErrorCodeSessionSaveFailed
  | ErrorCodeAuthBootstrapRequired
  | ErrorCodeAuthBootstrapFailed
  | ErrorCodeAuthInvalidCredentials
  | ErrorCodeAuthChallengeBlocked
  | ErrorCodeAuthBootstrapDisabled
  | ErrorCodeOther string

primrec error_code_str :: "error_code \<Rightarrow> string" where
  "error_code_str ErrorCodeEligible = ''eligible''"
| "error_code_str ErrorCodeInternal = ''internal_error''"
| "error_code_str ErrorCodeAccountNotFound = ''account_not_found''"
| "error_code_str ErrorCodeAccountBusy = ''account_busy''"
| "error_code_str ErrorCodeAccountInactive = ''account_inactive''"
| "error_code_str ErrorCodeAccountNotReady = ''account_not_ready''"
| "error_code_str ErrorCodeAccountQuarantined = ''account_quarantined''"
| "error_code_str ErrorCodeAccountRestricted = ''account_restricted''"
| "error_code_str ErrorCodeAccountMissingProxy = ''account_missing_proxy''"
| "error_code_str ErrorCodeAccountProxyInactive = ''account_proxy_inactive''"
| "error_code_str ErrorCodeAccountLimitReached = ''account_limit_reached''"
| "error_code_str ErrorCodeAccountContextMismatch = ''account_context_mismatch''"
| "error_code_str ErrorCodeInvalidOperationalState = ''invalid_operational_state''"
| "error_code_str ErrorCodeInvalidExecutionContext = ''invalid_execution_context''"
| "error_code_str ErrorCodeInvalidAccountIdentifier = ''invalid_account_identifier''"
| "error_code_str ErrorCodeSessionMetadataNotFound = ''session_metadata_not_found''"
| "error_code_str ErrorCodeSessionPayloadMissing = ''session_payload_missing''"
| "error_code_str ErrorCodeSessionPayloadCorrupted = ''session_payload_corrupted''"
| "error_code_str ErrorCodeSessionOwnershipMismatch = ''session_ownership_mismatch''"
| "error_code_str ErrorCodeSessionPayloadInvalid = ''session_payload_invalid''"
| "error_code_str ErrorCodeInvalidSessionStatus = ''invalid_session_status''"
| "error_code_str ErrorCodeInvalidSessionRevision = ''invalid_session_revision''"
| "error_code_str ErrorCodeInvalidSessionObjectKey = ''invalid_session_object_key''"
| "error_code_str ErrorCodeTaskNotFound = ''task_not_found''"
| "error_code_str ErrorCodeTaskNotRunning = ''task_not_running''"
| "error_code_str ErrorCodeTaskStateConflict = ''task_state_conflict''"
| "error_code_str ErrorCodeRetryNotAllowed = ''retry_not_allowed''"
| "error_code_str ErrorCodeCancelNotAllowed = ''cancel_not_allowed''"
| "error_code_str ErrorCodeTaskClaimOwnerMismatch = ''task_claim_owner_mismatch''"
| "error_code_str ErrorCodeTaskQueueWriteFailed = ''task_queue_write_failed''"
| "error_code_str ErrorCodeInvalidTaskIdentifier = ''invalid_task_identifier''"
| "error_code_str ErrorCodeInvalidTaskStatus = ''invalid_task_status''"
| "error_code_str ErrorCodeInvalidTaskTransition = ''invalid_task_transition''"
| "error_code_str ErrorCodeInvalidTaskClaimedBy = ''invalid_task_claimed_by''"
| "error_code_str ErrorCodeTaskCompletionReason = ''task_completion_reason_required''"
| "error_code_str ErrorCodeFollowTargetProfile = ''follow_target_profile_required''"
| "error_code_str ErrorCodeFollowActionUnavailable = ''follow_action_unavailable''"
| "error_code_str ErrorCodeFollowTargetUnreachable = ''follow_target_unreachable''"
| "error_code_str ErrorCodeFollowNavigationFailed = ''follow_navigation_failed''"
| "error_code_str ErrorCodeFollowVerifyFailed = ''follow_verify_failed''"
| "error_code_str ErrorCodeArtifactPersistFailed = ''artifact_persist_failed''"
| "error_code_str ErrorCodeFollowResultPersistFailed = ''follow_result_persist_failed''"
| "error_code_str ErrorCodeFollowResultNotFound = ''follow_result_not_found''"
| "error_code_str ErrorCodeSessionSaveFailed = ''session_save_failed''"
| "error_code_str ErrorCodeAuthBootstrapRequired = ''auth_bootstrap_required''"
| "error_code_str ErrorCodeAuthBootstrapFailed = ''auth_bootstrap_failed''"
| "error_code_str ErrorCodeAuthInvalidCredentials = ''auth_invalid_credentials''"
| "error_code_str ErrorCodeAuthChallengeBlocked = ''auth_challenge_blocked''"
| "error_code_str ErrorCodeAuthBootstrapDisabled = ''auth_bootstrap_disabled''"
| "error_code_str (ErrorCodeOther s) = s"


section \<open>Error values\<close>

text \<open>
  \<open>DomainErr\<close> is \<open>*domain.DomainError\<close>; \<open>StackErr\<close> is \<open>*stackerr.Error\<close> with its message and its
  cause, \<open>None\<close> for a nil cause.  Its frames are not kept in the value: every error made by
  \<open>New\<close>, \<open>Wrap\<close> or \<open>WithStack\<close> has a non-empty stack (\<open>captureStack_nonempty\<close> below), which is all
  that the rest of the program asks of it.  \<open>JoinErr\<close> is what \<open>errors.Join\<close> returns,
  \<open>FmtWrapErr\<close> a \<open>fmt.Errorf\<close> with a final \<open>%w\<close>, \<open>PlainErr\<close> an error with a text only, and the last
  three are the sentinels \<open>context.Canceled\<close>, \<open>context.DeadlineExceeded\<close> and \<open>pgx.ErrNoRows\<close>.
\<close>

datatype go_error =
    DomainErr error_code string
  | StackErr string "go_error option"
  | JoinErr "go_error list"
  | FmtWrapErr string go_error
  | PlainErr string
  | CtxCanceled
  | CtxDeadlineExceeded
  | NoRows

definition NewDomainError :: "error_code \<Rightarrow> string \<Rightarrow> go_error" where
  "NewDomainError code message = DomainErr code message"

fun error_text :: "go_error \<Rightarrow> string" where
  "error_text (DomainErr code message) = error_code_str code @ '': '' @ message"
| "error_text (StackErr msg None) = (if TrimSpace msg = '''' then ''error'' else TrimSpace msg)"
| "error_text (StackErr msg (Some e)) =
     (if TrimSpace msg = '''' then error_text e else TrimSpace msg @ '': '' @ error_text e)"
| "error_text (JoinErr es) = Join (map error_text es) [CHR 0x0A]"
| "error_text (FmtWrapErr prefix e) = prefix @ error_text e"
| "error_text (PlainErr s) = s"
| "error_text CtxCanceled = ''context canceled''"
| "error_text CtxDeadlineExceeded = ''context deadline exceeded''"
| "error_text NoRows = ''no rows in result set''"

text \<open>\<open>errors.As\<close> for a \<open>*DomainError\<close>: the first one met, depth first.\<close>

fun first_some :: "('a \<Rightarrow> 'b option) \<Rightarrow> 'a list \<Rightarrow> 'b option" where
  "first_some f [] = None"
| "first_some f (x # xs) = (case f x of Some y \<Rightarrow> Some y | None \<Rightarrow> first_some f xs)"

lemma first_some_cong [fundef_cong]:
  "xs = ys \<Longrightarrow> (\<And>x. x \<in> set ys \<Longrightarrow> f x = g x) \<Longrightarrow> first_some f xs = first_some g ys"
  by (induction xs arbitrary: ys) (auto split: option.splits)

fun as_domain :: "go_error \<Rightarrow> (error_code \<times> string) option" where
  "as_domain (DomainErr code message) = Some (code, message)"
| "as_domain (StackErr msg None) = None"
| "as_domain (StackErr msg (Some e)) = as_domain e"
| "as_domain (JoinErr es) = first_some as_domain es"
| "as_domain (FmtWrapErr prefix e) = as_domain e"
| "as_domain _ = None"

definition as_domain_opt :: "go_error option \<Rightarrow> (error_code \<times> string) option" where
  "as_domain_opt err = (case err of None \<Rightarrow> None | Some e \<Rightarrow> as_domain e)"

definition IsDomainErrorCode :: "go_error option \<Rightarrow> error_code \<Rightarrow> bool" where
  "IsDomainErrorCode err code =
     (case as_domain_opt err of
        None \<Rightarrow> False
      | Some (c, _) \<Rightarrow> c = code)"

text \<open>\<open>errors.Is\<close> for the sentinels \<open>CtxCanceled\<close>, \<open>CtxDeadlineExceeded\<close> and \<open>NoRows\<close>.\<close>

fun errors_is :: "go_error \<Rightarrow> go_error \<Rightarrow> bool" where
  "errors_is (StackErr msg None) t = False"
| "errors_is (StackErr msg (Some e)) t = errors_is e t"
| "errors_is (JoinErr es) t = list_ex (\<lambda>e. errors_is e t) es"
| "errors_is (FmtWrapErr prefix e) t = errors_is e t"
| "errors_is (DomainErr code message) t = False"
| "errors_is (PlainErr s) t = False"
| "errors_is CtxCanceled t = (t = CtxCanceled)"
| "errors_is CtxDeadlineExceeded t = (t = CtxDeadlineExceeded)"
| "errors_is NoRows t = (t = NoRows)"

definition isContextDoneError :: "go_error \<Rightarrow> bool" where
  "isContextDoneError e \<longleftrightarrow> errors_is e CtxCanceled \<or> errors_is e CtxDeadlineExceeded"


section \<open>Package stackerr\<close>

text \<open>\<open>stackOf\<close> looks for the first \<open>stackerr.Error\<close>; here whether there is one.\<close>

fun has_stack :: "go_error \<Rightarrow> bool" where
  "has_stack (StackErr msg cause) = True"
| "has_stack (JoinErr es) = list_ex has_stack es"
| "has_stack (FmtWrapErr prefix e) = has_stack e"
| "has_stack _ = False"

definition stackerr_New :: "string \<Rightarrow> go_error" where
  "stackerr_New msg = StackErr (TrimSpace msg) None"

definition stackerr_Wrap :: "go_error option \<Rightarrow> string \<Rightarrow> go_error" where
  "stackerr_Wrap err msg =
     (case err of None \<Rightarrow> stackerr_New msg | Some e \<Rightarrow> StackErr (TrimSpace msg) (Some e))"

definition with_stack :: "go_error \<Rightarrow> go_error" where
  "with_stack e = (if has_stack e then e else StackErr '''' (Some e))"

definition WithStack :: "go_error option \<Rightarrow> go_error option" where
  "WithStack err = map_option with_stack err"

text \<open>\<open>errors.Join\<close> drops nil errors and is nil when nothing is left.\<close>

definition errors_join :: "go_error option list \<Rightarrow> go_error option" where
  "errors_join errs = (let es = List.map_filter id errs in if es = [] then None else Some (JoinErr es))"


section \<open>Stack frames\<close>

text \<open>
  \<open>captureStack\<close> reads the call stack from the runtime; the frames that \<open>runtime.Callers\<close> reports are
  the argument \<open>reported\<close>, at most \<open>limit + skip + 4\<close> of them.
\<close>

record frame =
  frame_Function :: string
  frame_File :: string
  frame_Line :: int

definition defaultMaxStackDepth :: int where
  "defaultMaxStackDepth = 32"

definition skipFrame :: "frame \<Rightarrow> bool" where
  "skipFrame fr = (let fn = frame_Function fr in
     if HasPrefix fn ''runtime.'' then True
     else Contains fn ''/internal/stackerr.'' \<or> Contains fn ''/internal/stackerr/'')"

fun capture_frames :: "nat \<Rightarrow> frame list \<Rightarrow> frame list \<Rightarrow> frame list" where
  "capture_frames limit out [] = out"
| "capture_frames limit out (fr # rest) =
     (if skipFrame fr then capture_frames limit out rest
      else if length (out @ [fr]) \<ge> limit then out @ [fr]
      else capture_frames limit (out @ [fr]) rest)"

definition captureStack :: "int \<Rightarrow> int \<Rightarrow> frame list \<Rightarrow> frame list" where
  "captureStack limit skip reported =
     (if limit \<le> 0 then []
      else let pcs = take (nat (limit + skip + 4)) reported in
        if pcs = [] then [] else capture_frames (nat limit) [] pcs)"


section \<open>Lemmas\<close>

lemma stackerr_transparent [simp, go_error_simps]:
  "as_domain (with_stack e) = as_domain e"
  "errors_is (with_stack e) t = errors_is e t"
  "error_text (with_stack e) = error_text e"
  "has_stack (with_stack e)"
  by (simp_all add: with_stack_def)

lemma with_stack_idem [simp, go_error_simps]: "with_stack (with_stack e) = with_stack e"
  by (simp add: with_stack_def)

lemma stackerr_Wrap_Some [simp, go_error_simps]:
  "as_domain (stackerr_Wrap (Some e) msg) = as_domain e"
  "errors_is (stackerr_Wrap (Some e) msg) t = errors_is e t"
  "has_stack (stackerr_Wrap err msg)"
  "with_stack (stackerr_Wrap err msg) = stackerr_Wrap err msg"
  by (auto simp: stackerr_Wrap_def stackerr_New_def with_stack_def split: option.splits)

lemma stackerr_New_simps [simp, go_error_simps]:
  "as_domain (stackerr_New msg) = None" "has_stack (stackerr_New msg)"
  "with_stack (stackerr_New msg) = stackerr_New msg"
  by (auto simp: stackerr_New_def with_stack_def)

lemma WithStack_simps [simp, go_error_simps]:
  "WithStack None = None" "WithStack (Some e) = Some (with_stack e)"
  by (simp_all add: WithStack_def)

lemma errors_join_simps [simp, go_error_simps]:
  "errors_join [] = None"
  "errors_join [Some a, None] = Some (JoinErr [a])"
  "errors_join [None, None] = None"
  "errors_join [Some a, Some b] = Some (JoinErr [a, b])"
  "errors_join [None, Some b] = Some (JoinErr [b])"
  by (simp_all add: errors_join_def List.map_filter_simps)

lemma NewDomainError_simps [simp, go_error_simps]:
  "as_domain (NewDomainError c m) = Some (c, m)"
  "errors_is (NewDomainError c m) t = False"
  "has_stack (NewDomainError c m) = False"
  by (simp_all add: NewDomainError_def)

lemma as_domain_opt_simps [simp, go_error_simps]:
  "as_domain_opt None = None" "as_domain_opt (Some e) = as_domain e"
  by (simp_all add: as_domain_opt_def)

lemma IsDomainErrorCode_simps [simp, go_error_simps]:
  "IsDomainErrorCode None code = False"
  "IsDomainErrorCode (Some e) code \<longleftrightarrow> (\<exists>m. as_domain e = Some (code, m))"
  by (auto simp: IsDomainErrorCode_def split: option.splits)

lemma first_some_Some: "first_some f xs = Some y \<Longrightarrow> \<exists>x \<in> set xs. f x = Some y"
  by (induction xs) (auto split: option.splits)

lemma capture_frames_eq:
  "length out < limit \<Longrightarrow>
   capture_frames limit out frs = out @ take (limit - length out) (filter (\<lambda>fr. \<not> skipFrame fr) frs)"
proof (induction frs arbitrary: out)
  case (Cons fr frs)
  show ?case
  proof (cases "skipFrame fr")
    case False
    show ?thesis
    proof (cases "limit \<le> Suc (length out)")
      case True
      with Cons.prems have "limit - length out = Suc 0" by simp
      with True False show ?thesis by simp
    next
      case more: False
      then have "limit - length out = Suc (limit - Suc (length out))" by simp
      with more False Cons.IH [of "out @ [fr]"] show ?thesis by simp
    qed
  qed (use Cons in simp)
qed simp

lemma captureStack_eq:
  "0 < limit \<Longrightarrow> captureStack limit skip reported =
     take (nat limit) (filter (\<lambda>fr. \<not> skipFrame fr) (take (nat (limit + skip + 4)) reported))"
  by (simp add: captureStack_def Let_def capture_frames_eq)

lemma captureStack_nonempty:
  assumes "0 < limit" "fr \<in> set (take (nat (limit + skip + 4)) reported)" "\<not> skipFrame fr"
  shows "captureStack limit skip reported \<noteq> []"
  using assms by (auto simp: captureStack_eq filter_empty_conv)

end
