(* ===== verification/Task_Domain.thy ===== *)
theory Task_Domain
  imports Errors
begin

text \<open>
  The task part of \<open>internal/domain\<close>: \<open>task.go\<close>, \<open>task_state.go\<close>, \<open>task_admin_transition.go\<close>,
  \<open>target_profile.go\<close> and the target profile descriptor of \<open>follow_flow.go\<close>.

  A Go string type with constants is a datatype with the constants as constructors and one more for
  any other text; the zero value \<open>""\<close> is that constructor on the empty text.  A validator returns a
  Go \<open>error\<close>, here \<open>go_error option\<close> with \<open>None\<close> for nil.
\<close>

abbreviation no_error_code :: error_code where
  "no_error_code \<equiv> ErrorCodeOther ''''"

text \<open>\<open>fmt.Sprintf("%q")\<close> on text without characters to escape.\<close>

definition Quoted :: "string \<Rightarrow> string" where
  "Quoted s = [CHR 0x22] @ s @ [CHR 0x22]"


section \<open>Task status\<close>

datatype task_status =
    TaskStatusQueued
  | TaskStatusRunning
  | TaskStatusSuccess
  | TaskStatusRetry
  | TaskStatusFail
  | TaskStatusCanceled
  | TaskStatusOther string

primrec task_status_str :: "task_status \<Rightarrow> string" where
  "task_status_str TaskStatusQueued = ''queued''"
| "task_status_str TaskStatusRunning = ''running''"
| "task_status_str TaskStatusSuccess = ''success''"
| "task_status_str TaskStatusRetry = ''retry''"
| "task_status_str TaskStatusFail = ''fail''"
| "task_status_str TaskStatusCanceled = ''canceled''"
| "task_status_str (TaskStatusOther s) = s"

fun TaskStatus_IsValid :: "task_status \<Rightarrow> bool" where
  "TaskStatus_IsValid (TaskStatusOther s) = False"
| "TaskStatus_IsValid status = True"

fun TaskStatus_IsTerminal :: "task_status \<Rightarrow> bool" where
  "TaskStatus_IsTerminal TaskStatusSuccess = True"
| "TaskStatus_IsTerminal TaskStatusRetry = True"
| "TaskStatus_IsTerminal TaskStatusFail = True"
| "TaskStatus_IsTerminal TaskStatusCanceled = True"
| "TaskStatus_IsTerminal status = False"

fun CanTransitionTo :: "task_status \<Rightarrow> task_status \<Rightarrow> bool" where
  "CanTransitionTo TaskStatusQueued nxt = (nxt = TaskStatusRunning)"
| "CanTransitionTo TaskStatusRunning nxt =
     (nxt = TaskStatusSuccess \<or> nxt = TaskStatusRetry \<or> nxt = TaskStatusFail)"
| "CanTransitionTo status nxt = False"


section \<open>Target profile\<close>

definition TargetProfile_Validate :: "string \<Rightarrow> go_error option" where
  "TargetProfile_Validate descriptor =
     (if TrimSpace descriptor = '''' then
        Some (NewDomainError ErrorCodeFollowTargetProfile ''target profile descriptor must not be empty'')
      else None)"

text \<open>
  \<open>OskellyTargetProfileURLPattern\<close> is the regular expression
  \<open>^https://oskelly\.ru/profile/[0-9]+$\<close>, matched here by hand: the fixed prefix and then at least
  one digit up to the end of the text.
\<close>

definition oskelly_profile_prefix :: string where
  "oskelly_profile_prefix = ''https://oskelly.ru/profile/''"

definition is_digit :: "char \<Rightarrow> bool" where
  "is_digit c \<longleftrightarrow> c \<in> set ''0123456789''"

definition oskellyTargetProfileURLMatcher :: "string \<Rightarrow> bool" where
  "oskellyTargetProfileURLMatcher s =
     (HasPrefix s oskelly_profile_prefix \<and>
      (let ds = drop (length oskelly_profile_prefix) s in ds \<noteq> [] \<and> list_all is_digit ds))"

definition NormalizeOskellyTargetProfileURL :: "string \<Rightarrow> go_error + string" where
  "NormalizeOskellyTargetProfileURL target =
     (let normalized = TrimSpace target in
      if normalized = '''' then
        Inl (NewDomainError ErrorCodeFollowTargetProfile ''target_profile must not be empty'')
      else if \<not> oskellyTargetProfileURLMatcher normalized then
        Inl (NewDomainError ErrorCodeFollowTargetProfile
               ''target_profile must match https://oskelly.ru/profile/<NUM>'')
      else Inr normalized)"


section \<open>Task\<close>

record task =
  task_ID :: uuid
  task_SourceTaskID :: "uuid option"
  task_AccountID :: uuid
  task_TargetProfile :: string
  task_Status :: task_status
  task_Attempt :: int
  task_ClaimedBy :: string
  task_ClaimedAt :: "time option"
  task_StartedAt :: "time option"
  task_FinishedAt :: "time option"
  task_ErrorCode :: error_code
  task_ResultReason :: string
  task_CreatedAt :: time
  task_UpdatedAt :: time

definition Task_Validate :: "task \<Rightarrow> go_error option" where
  "Task_Validate tk =
     (if task_ID tk = uuid_Nil then
        Some (NewDomainError ErrorCodeInvalidTaskIdentifier ''task id must not be empty'')
      else if task_SourceTaskID tk = Some (task_ID tk) then
        Some (NewDomainError ErrorCodeInvalidTaskTransition
                ''task source_task_id must not reference the same task id'')
      else if task_AccountID tk = uuid_Nil then
        Some (NewDomainError ErrorCodeInvalidAccountIdentifier ''task account id must not be empty'')
      else case TargetProfile_Validate (task_TargetProfile tk) of
        Some err \<Rightarrow> Some err
      | None \<Rightarrow>
        if \<not> TaskStatus_IsValid (task_Status tk) then
          Some (NewDomainError ErrorCodeInvalidTaskStatus
                  (''invalid task status: '' @ task_status_str (task_Status tk)))
        else if task_Attempt tk < 0 then
          Some (NewDomainError ErrorCodeInvalidTaskTransition
                  (''task attempt must be >= 0, got '' @ Itoa (task_Attempt tk)))
        else None)"

definition ValidateTransition :: "task \<Rightarrow> task_status \<Rightarrow> go_error option" where
  "ValidateTransition tk nextStatus =
     (if \<not> TaskStatus_IsValid (task_Status tk) \<or> \<not> TaskStatus_IsValid nextStatus then
        Some (NewDomainError ErrorCodeInvalidTaskStatus
                (''invalid task transition '' @ task_status_str (task_Status tk) @ '' -> '' @
                 task_status_str nextStatus))
      else if \<not> CanTransitionTo (task_Status tk) nextStatus then
        Some (NewDomainError ErrorCodeInvalidTaskTransition
                (''transition '' @ task_status_str (task_Status tk) @ '' -> '' @
                 task_status_str nextStatus @ '' is not allowed''))
      else None)"

definition ValidateTaskCompletion ::
  "task_status \<Rightarrow> task_status \<Rightarrow> error_code \<Rightarrow> string \<Rightarrow> go_error option" where
  "ValidateTaskCompletion currentStatus nextStatus errorCode resultReason =
     (if currentStatus \<noteq> TaskStatusRunning then
        Some (NewDomainError ErrorCodeTaskNotRunning
                (''task must be in running status, got '' @ task_status_str currentStatus))
      else if \<not> CanTransitionTo currentStatus nextStatus then
        Some (NewDomainError ErrorCodeInvalidTaskTransition
                (''transition '' @ task_status_str currentStatus @ '' -> '' @
                 task_status_str nextStatus @ '' is not allowed''))
      else if (nextStatus = TaskStatusRetry \<or> nextStatus = TaskStatusFail) \<and>
              TrimSpace (error_code_str errorCode) = '''' \<and> TrimSpace resultReason = '''' then
        Some (NewDomainError ErrorCodeTaskCompletionReason
                ''retry/fail completion requires error_code or result_reason'')
      else None)"


section \<open>Transitions an administrator asks for\<close>

datatype task_admin_action =
    TaskAdminActionRetry
  | TaskAdminActionCancel
  | TaskAdminActionOther string

primrec task_admin_action_str :: "task_admin_action \<Rightarrow> string" where
  "task_admin_action_str TaskAdminActionRetry = ''retry''"
| "task_admin_action_str TaskAdminActionCancel = ''cancel''"
| "task_admin_action_str (TaskAdminActionOther s) = s"

record task_admin_transition =
  transition_Action :: task_admin_action
  transition_FromStatus :: task_status
  transition_ToStatus :: task_status

datatype task_admin_transition_error_code =
    TaskAdminTransitionErrorCodeTaskStateConflict
  | TaskAdminTransitionErrorCodeRetryNotAllowed
  | TaskAdminTransitionErrorCodeCancelNotAllowed

text \<open>\<open>taskAdminTransitionMatrix\<close>: a map of actions to maps of statuses.\<close>

definition taskAdminTransitionMatrix :: "(task_admin_action \<times> (task_status \<times> task_status) list) list" where
  "taskAdminTransitionMatrix =
     [(TaskAdminActionRetry,
        [(TaskStatusRetry, TaskStatusQueued),
         (TaskStatusFail, TaskStatusQueued)]),
      (TaskAdminActionCancel,
        [(TaskStatusQueued, TaskStatusCanceled)])]"

fun taskAdminTransitionDeniedCode :: "task_admin_action \<Rightarrow> error_code" where
  "taskAdminTransitionDeniedCode TaskAdminActionRetry = ErrorCodeRetryNotAllowed"
| "taskAdminTransitionDeniedCode TaskAdminActionCancel = ErrorCodeCancelNotAllowed"
| "taskAdminTransitionDeniedCode (TaskAdminActionOther s) = ErrorCodeTaskStateConflict"

definition EvaluateTaskAdminTransition ::
  "task_status \<Rightarrow> task_admin_action \<Rightarrow> go_error + task_admin_transition" where
  "EvaluateTaskAdminTransition fromStatus action =
     (if \<not> TaskStatus_IsValid fromStatus then
        Inl (NewDomainError ErrorCodeTaskStateConflict
               (''admin transition rejected: invalid source status '' @
                Quoted (task_status_str fromStatus)))
      else case map_of taskAdminTransitionMatrix action of
        None \<Rightarrow>
          Inl (NewDomainError ErrorCodeTaskStateConflict
                 (''admin transition rejected: unsupported action '' @
                  Quoted (task_admin_action_str action)))
      | Some actionTransitions \<Rightarrow>
          (case map_of actionTransitions fromStatus of
             None \<Rightarrow>
               Inl (NewDomainError (taskAdminTransitionDeniedCode action)
                      (''admin transition denied: action='' @ task_admin_action_str action @
                       '' source_status='' @ task_status_str fromStatus))
           | Some toStatus \<Rightarrow>
               Inr \<lparr>transition_Action = action, transition_FromStatus = fromStatus,
                     transition_ToStatus = toStatus\<rparr>))"

definition MapTaskAdminTransitionErrorCode :: "go_error option \<Rightarrow> task_admin_transition_error_code" where
  "MapTaskAdminTransitionErrorCode err =
     (if IsDomainErrorCode err ErrorCodeRetryNotAllowed then TaskAdminTransitionErrorCodeRetryNotAllowed
      else if IsDomainErrorCode err ErrorCodeCancelNotAllowed then TaskAdminTransitionErrorCodeCancelNotAllowed
      else TaskAdminTransitionErrorCodeTaskStateConflict)"


section \<open>Lemmas\<close>

lemma CanTransitionTo_valid:
  "CanTransitionTo a b \<Longrightarrow> TaskStatus_IsValid a \<and> TaskStatus_IsValid b \<and> \<not> TaskStatus_IsTerminal a"
  by (cases a) auto

lemma CanTransitionTo_iff:
  "CanTransitionTo a b \<longleftrightarrow>
   (a = TaskStatusQueued \<and> b = TaskStatusRunning) \<or>
   (a = TaskStatusRunning \<and> b \<in> {TaskStatusSuccess, TaskStatusRetry, TaskStatusFail})"
  by (cases a) auto

lemma TaskStatus_IsTerminal_iff:
  "TaskStatus_IsTerminal s \<longleftrightarrow>
   s \<in> {TaskStatusSuccess, TaskStatusRetry, TaskStatusFail, TaskStatusCanceled}"
  by (cases s) auto

lemma EvaluateTaskAdminTransition_retry:
  "EvaluateTaskAdminTransition s TaskAdminActionRetry = Inr tr \<longleftrightarrow>
   s \<in> {TaskStatusRetry, TaskStatusFail} \<and>
   tr = \<lparr>transition_Action = TaskAdminActionRetry, transition_FromStatus = s,
         transition_ToStatus = TaskStatusQueued\<rparr>"
  by (cases s) (auto simp: EvaluateTaskAdminTransition_def taskAdminTransitionMatrix_def)

lemma EvaluateTaskAdminTransition_cancel:
  "EvaluateTaskAdminTransition s TaskAdminActionCancel = Inr tr \<longleftrightarrow>
   s = TaskStatusQueued \<and>
   tr = \<lparr>transition_Action = TaskAdminActionCancel, transition_FromStatus = s,
         transition_ToStatus = TaskStatusCanceled\<rparr>"
  by (cases s) (auto simp: EvaluateTaskAdminTransition_def taskAdminTransitionMatrix_def)

lemma EvaluateTaskAdminTransition_other:
  "EvaluateTaskAdminTransition s (TaskAdminActionOther a) \<noteq> Inr tr"
  by (cases s) (auto simp: EvaluateTaskAdminTransition_def taskAdminTransitionMatrix_def)

lemma EvaluateTaskAdminTransition_error:
  "EvaluateTaskAdminTransition s a = Inl e \<Longrightarrow>
   \<exists>m. e = DomainErr (if TaskStatus_IsValid s then taskAdminTransitionDeniedCode a
                      else ErrorCodeTaskStateConflict) m"
  by (cases s; cases a)
    (auto simp: EvaluateTaskAdminTransition_def taskAdminTransitionMatrix_def NewDomainError_def)

lemma ValidateTaskCompletion_None:
  "ValidateTaskCompletion cur nxt code reason = None \<longleftrightarrow>
   cur = TaskStatusRunning \<and> nxt \<in> {TaskStatusSuccess, TaskStatusRetry, TaskStatusFail} \<and>
   (nxt \<in> {TaskStatusRetry, TaskStatusFail} \<longrightarrow>
      TrimSpace (error_code_str code) \<noteq> '''' \<or> TrimSpace reason \<noteq> '''')"
  by (auto simp: ValidateTaskCompletion_def CanTransitionTo_iff)

lemma TargetProfile_Validate_None:
  "TargetProfile_Validate d = None \<longleftrightarrow> TrimSpace d \<noteq> ''''"
  by (simp add: TargetProfile_Validate_def)

lemma Task_Validate_None:
  "Task_Validate tk = None \<longleftrightarrow>
   task_ID tk \<noteq> uuid_Nil \<and> task_SourceTaskID tk \<noteq> Some (task_ID tk) \<and>
   task_AccountID tk \<noteq> uuid_Nil \<and> TrimSpace (task_TargetProfile tk) \<noteq> '''' \<and>
   TaskStatus_IsValid (task_Status tk) \<and> 0 \<le> task_Attempt tk"
  by (auto simp: Task_Validate_def TargetProfile_Validate_def split: option.splits)

lemma NormalizeOskellyTargetProfileURL_Inr:
  "NormalizeOskellyTargetProfileURL t = Inr u \<Longrightarrow>
   u = TrimSpace t \<and> (\<exists>ds. u = oskelly_profile_prefix @ ds \<and> ds \<noteq> [] \<and> (\<forall>d \<in> set ds. is_digit d))"
  by (auto simp: NormalizeOskellyTargetProfileURL_def oskellyTargetProfileURLMatcher_def Let_def
        HasPrefix_iff list_all_iff split: if_splits)

lemma NormalizeOskellyTargetProfileURL_idem:
  "NormalizeOskellyTargetProfileURL t = Inr u \<Longrightarrow> NormalizeOskellyTargetProfileURL u = Inr u"
  by (auto simp: NormalizeOskellyTargetProfileURL_def Let_def split: if_splits)

end
