(* ===== verification/Json.thy ===== *)
theory Json
  imports Prelude
begin

text \<open>
  \<open>json.Valid\<close> of package \<open>encoding/json\<close>, which the service calls on session payloads: the library's
  scanner is a state machine over the bytes with a stack of the enclosing objects and arrays, and so
  is \<open>json_Valid\<close>.  A string may hold any byte from 0x20 on; nesting deeper than 10000 is refused.
\<close>

datatype json_ctx = ObjectKey | ObjectValue | ArrayValue

datatype json_state =
    BeginValue
  | BeginValueOrEmpty
  | BeginStringOrEmpty
  | BeginString
  | EndValue
  | InString
  | InStringEsc
  | InStringEscU nat
  | InLiteral bytes
  | NumNeg
  | NumZero
  | NumDigits
  | NumDot
  | NumFrac
  | NumExp
  | NumExpSign
  | NumExpDigits

definition ascii :: "string \<Rightarrow> bytes" where
  "ascii s = map of_char s"

definition json_space :: "nat \<Rightarrow> bool" where
  "json_space b \<longleftrightarrow> b = 32 \<or> b = 9 \<or> b = 10 \<or> b = 13"

definition json_digit :: "nat \<Rightarrow> bool" where
  "json_digit b \<longleftrightarrow> 48 \<le> b \<and> b \<le> 57"

definition json_hex :: "nat \<Rightarrow> bool" where
  "json_hex b \<longleftrightarrow> json_digit b \<or> (65 \<le> b \<and> b \<le> 70) \<or> (97 \<le> b \<and> b \<le> 102)"

definition max_nesting :: nat where
  "max_nesting = 10000"

type_synonym json_conf = "json_state \<times> json_ctx list"

definition json_push :: "json_state \<Rightarrow> json_ctx \<Rightarrow> json_ctx list \<Rightarrow> json_conf option" where
  "json_push st c stk = (if length stk < max_nesting then Some (st, c # stk) else None)"

definition json_begin_value :: "nat \<Rightarrow> json_ctx list \<Rightarrow> json_conf option" where
  "json_begin_value b stk =
     (if json_space b then Some (BeginValue, stk)
      else if b = 123 then json_push BeginStringOrEmpty ObjectKey stk
      else if b = 91 then json_push BeginValueOrEmpty ArrayValue stk
      else if b = 34 then Some (InString, stk)
      else if b = 45 then Some (NumNeg, stk)
      else if b = 48 then Some (NumZero, stk)
      else if json_digit b then Some (NumDigits, stk)
      else if b = 116 then Some (InLiteral (ascii ''rue''), stk)
      else if b = 102 then Some (InLiteral (ascii ''alse''), stk)
      else if b = 110 then Some (InLiteral (ascii ''ull''), stk)
      else None)"

fun json_end_value :: "nat \<Rightarrow> json_ctx list \<Rightarrow> json_conf option" where
  "json_end_value b [] = (if json_space b then Some (EndValue, []) else None)"
| "json_end_value b (ObjectKey # stk) =
     (if json_space b then Some (EndValue, ObjectKey # stk)
      else if b = 58 then Some (BeginValue, ObjectValue # stk) else None)"
| "json_end_value b (ObjectValue # stk) =
     (if json_space b then Some (EndValue, ObjectValue # stk)
      else if b = 44 then Some (BeginString, ObjectKey # stk)
      else if b = 125 then Some (EndValue, stk) else None)"
| "json_end_value b (ArrayValue # stk) =
     (if json_space b then Some (EndValue, ArrayValue # stk)
      else if b = 44 then Some (BeginValue, ArrayValue # stk)
      else if b = 93 then Some (EndValue, stk) else None)"

fun json_step :: "nat \<Rightarrow> json_state \<Rightarrow> json_ctx list \<Rightarrow> json_conf option" where
  "json_step b BeginValue stk = json_begin_value b stk"
| "json_step b BeginValueOrEmpty stk =
     (if json_space b then Some (BeginValueOrEmpty, stk)
      else if b = 93 then json_end_value b stk else json_begin_value b stk)"
| "json_step b BeginStringOrEmpty stk =
     (if json_space b then Some (BeginStringOrEmpty, stk)
      else if b = 125 then Some (EndValue, tl stk)
      else if b = 34 then Some (InString, stk) else None)"
| "json_step b BeginString stk =
     (if json_space b then Some (BeginString, stk)
      else if b = 34 then Some (InString, stk) else None)"
| "json_step b EndValue stk = json_end_value b stk"
| "json_step b InString stk =
     (if b = 34 then Some (EndValue, stk)
      else if b = 92 then Some (InStringEsc, stk)
      else if b < 32 then None else Some (InString, stk))"
| "json_step b InStringEsc stk =
     (if b \<in> set (ascii ''bfnrt/'') \<or> b = 92 \<or> b = 34 then Some (InString, stk)
      else if b = 117 then Some (InStringEscU 3, stk) else None)"
| "json_step b (InStringEscU k) stk =
     (if json_hex b then Some (if k = 0 then InString else InStringEscU (k - 1), stk) else None)"
| "json_step b (InLiteral []) stk = None"
| "json_step b (InLiteral (c # cs)) stk =
     (if b = c then Some (if cs = [] then EndValue else InLiteral cs, stk) else None)"
| "json_step b NumNeg stk =
     (if b = 48 then Some (NumZero, stk) else if json_digit b then Some (NumDigits, stk) else None)"
| "json_step b NumZero stk =
     (if b = 46 then Some (NumDot, stk) else if b = 101 \<or> b = 69 then Some (NumExp, stk)
      else json_end_value b stk)"
| "json_step b NumDigits stk =
     (if json_digit b then Some (NumDigits, stk) else if b = 46 then Some (NumDot, stk)
      else if b = 101 \<or> b = 69 then Some (NumExp, stk) else json_end_value b stk)"
| "json_step b NumDot stk = (if json_digit b then Some (NumFrac, stk) else None)"
| "json_step b NumFrac stk =
     (if json_digit b then Some (NumFrac, stk) else if b = 101 \<or> b = 69 then Some (NumExp, stk)
      else json_end_value b stk)"
| "json_step b NumExp stk =
     (if b = 43 \<or> b = 45 then Some (NumExpSign, stk)
      else if json_digit b then Some (NumExpDigits, stk) else None)"
| "json_step b NumExpSign stk = (if json_digit b then Some (NumExpDigits, stk) else None)"
| "json_step b NumExpDigits stk =
     (if json_digit b then Some (NumExpDigits, stk) else json_end_value b stk)"

definition json_accepting :: "json_state \<Rightarrow> bool" where
  "json_accepting st \<longleftrightarrow> st \<in> {EndValue, NumZero, NumDigits, NumFrac, NumExpDigits}"

fun json_scan :: "json_state \<Rightarrow> json_ctx list \<Rightarrow> bytes \<Rightarrow> bool" where
  "json_scan st stk [] = (stk = [] \<and> json_accepting st)"
| "json_scan st stk (b # bs) =
     (case json_step b st stk of None \<Rightarrow> False | Some (st', stk') \<Rightarrow> json_scan st' stk' bs)"

definition json_Valid :: "bytes \<Rightarrow> bool" where
  "json_Valid data = json_scan BeginValue [] data"

lemma json_Valid_Nil [simp]: "\<not> json_Valid []"
  by (simp add: json_Valid_def json_accepting_def)

lemma json_Valid_examples:
  "json_Valid (ascii ''{ }'')"
  "\<not> json_Valid (ascii ''[1,]'')"
  "\<not> json_Valid (ascii ''01'')"
  by code_simp+

end
