(* ===== verification/Account_Domain.thy ===== *)
theory Account_Domain
  imports Task_Domain Json
begin

text \<open>
  The account and session part of \<open>internal/domain\<close>: \<open>account.go\<close>, \<open>account_state.go\<close>, \<open>proxy.go\<close>,
  \<open>limits.go\<close>, \<open>session.go\<close>, the eligibility decision of \<open>invariants.go\<close>, and the credentials and
  bootstrap login types of \<open>bootstrap_login.go\<close>.
\<close>

section \<open>Account and proxy\<close>

datatype account_operational_state =
    AccountStateActive
  | AccountStateBusy
  | AccountStateInvalidSession
  | AccountStateQuarantined
  | AccountStateRestricted
  | AccountStateOther string

primrec account_state_str :: "account_operational_state \<Rightarrow> string" where
  "account_state_str AccountStateActive = ''active''"
| "account_state_str AccountStateBusy = ''busy''"
| "account_state_str AccountStateInvalidSession = ''invalid_session''"
| "account_state_str AccountStateQuarantined = ''quarantined''"
| "account_state_str AccountStateRestricted = ''restricted''"
| "account_state_str (AccountStateOther s) = s"

fun AccountState_IsValid :: "account_operational_state \<Rightarrow> bool" where
  "AccountState_IsValid (AccountStateOther s) = False"
| "AccountState_IsValid st = True"

datatype credential_source =
    CredentialSourceEnv
  | CredentialSourceVault
  | CredentialSourceFile
  | CredentialSourceManual
  | CredentialSourceOther string

primrec credential_source_str :: "credential_source \<Rightarrow> string" where
  "credential_source_str CredentialSourceEnv = ''env''"
| "credential_source_str CredentialSourceVault = ''vault''"
| "credential_source_str CredentialSourceFile = ''file''"
| "credential_source_str CredentialSourceManual = ''manual''"
| "credential_source_str (CredentialSourceOther s) = s"

fun CredentialSource_IsValid :: "credential_source \<Rightarrow> bool" where
  "CredentialSource_IsValid (CredentialSourceOther s) = False"
| "CredentialSource_IsValid source = True"

definition NormalizeCredentialSource :: "credential_source \<Rightarrow> credential_source" where
  "NormalizeCredentialSource source =
     (if CredentialSource_IsValid source then source else CredentialSourceManual)"

record proxy =
  proxy_ID :: uuid
  proxy_Host :: string
  proxy_Port :: int
  proxy_IsActive :: bool
  proxy_CreatedAt :: time
  proxy_UpdatedAt :: time

record account =
  account_ID :: uuid
  account_Username :: string
  account_ProxyID :: uuid
  account_CredentialSource :: credential_source
  account_CredentialRef :: string
  account_OperationalState :: account_operational_state
  account_IsActive :: bool
  account_IsReady :: bool
  account_IsQuarantined :: bool
  account_IsRestricted :: bool
  account_LimitReached :: bool
  account_ActiveExecutionContextID :: string
  account_CreatedAt :: time
  account_UpdatedAt :: time

record account_with_proxy =
  awp_Account :: account
  awp_Proxy :: proxy

record account_limits =
  limits_LimitReached :: bool
  limits_RestrictiveThresholdRaised :: bool

definition Account_Limits :: "account \<Rightarrow> account_limits" where
  "Account_Limits a =
     \<lparr>limits_LimitReached = account_LimitReached a,
      limits_RestrictiveThresholdRaised =
        (account_IsRestricted a \<or> account_OperationalState a = AccountStateRestricted)\<rparr>"


section \<open>Guardrails\<close>

record runtime_guardrails =
  ExcludeWhenLimitReached :: bool
  RestrictWhenThresholdReached :: bool
  QuarantineOnLimitReached :: bool
  RequireProxyBinding :: bool

definition DefaultRuntimeGuardrails :: runtime_guardrails where
  "DefaultRuntimeGuardrails =
     \<lparr>ExcludeWhenLimitReached = True, RestrictWhenThresholdReached = True,
      QuarantineOnLimitReached = True, RequireProxyBinding = True\<rparr>"

definition empty_guardrails :: runtime_guardrails where
  "empty_guardrails =
     \<lparr>ExcludeWhenLimitReached = False, RestrictWhenThresholdReached = False,
      QuarantineOnLimitReached = False, RequireProxyBinding = False\<rparr>"

definition Normalized :: "runtime_guardrails \<Rightarrow> runtime_guardrails" where
  "Normalized g =
     (let defaults = DefaultRuntimeGuardrails;
          normalized =
            (if \<not> ExcludeWhenLimitReached g \<and> \<not> RestrictWhenThresholdReached g then
               g\<lparr>ExcludeWhenLimitReached := ExcludeWhenLimitReached defaults,
                 RestrictWhenThresholdReached := RestrictWhenThresholdReached defaults,
                 QuarantineOnLimitReached := QuarantineOnLimitReached defaults\<rparr>
             else g)
      in if g = empty_guardrails
         then normalized\<lparr>RequireProxyBinding := RequireProxyBinding defaults\<rparr>
         else normalized)"


section \<open>Eligibility\<close>

datatype eligibility_outcome =
    EligibilityOutcomeEligible
  | EligibilityOutcomeExcluded
  | EligibilityOutcomeRestricted
  | EligibilityOutcomeOther string

primrec eligibility_outcome_str :: "eligibility_outcome \<Rightarrow> string" where
  "eligibility_outcome_str EligibilityOutcomeEligible = ''eligible''"
| "eligibility_outcome_str EligibilityOutcomeExcluded = ''excluded''"
| "eligibility_outcome_str EligibilityOutcomeRestricted = ''restricted''"
| "eligibility_outcome_str (EligibilityOutcomeOther s) = s"

record eligibility_decision =
  decision_Eligible :: bool
  decision_Outcome :: eligibility_outcome
  decision_ReasonCode :: error_code

definition ineligibleDecision :: "eligibility_outcome \<Rightarrow> error_code \<Rightarrow> eligibility_decision" where
  "ineligibleDecision outcome reasonCode =
     \<lparr>decision_Eligible = False, decision_Outcome = outcome, decision_ReasonCode = reasonCode\<rparr>"

definition EvaluateAccountEligibilityWithGuardrails ::
  "account \<Rightarrow> proxy option \<Rightarrow> runtime_guardrails \<Rightarrow> eligibility_decision" where
  "EvaluateAccountEligibilityWithGuardrails a prx guardrails0 =
     (let guardrails = Normalized guardrails0; limits = Account_Limits a in
      if account_ID a = uuid_Nil then
        ineligibleDecision EligibilityOutcomeExcluded ErrorCodeInvalidAccountIdentifier
      else if \<not> AccountState_IsValid (account_OperationalState a) then
        ineligibleDecision EligibilityOutcomeExcluded ErrorCodeInvalidOperationalState
      else if RequireProxyBinding guardrails \<and> (account_ProxyID a = uuid_Nil \<or> prx = None) then
        ineligibleDecision EligibilityOutcomeExcluded ErrorCodeAccountMissingProxy
      else if RequireProxyBinding guardrails \<and> \<not> (case prx of None \<Rightarrow> False | Some p \<Rightarrow> proxy_IsActive p) then
        ineligibleDecision EligibilityOutcomeExcluded ErrorCodeAccountProxyInactive
      else if \<not> account_IsActive a then
        ineligibleDecision EligibilityOutcomeExcluded ErrorCodeAccountInactive
      else if \<not> account_IsReady a \<or> account_OperationalState a = AccountStateInvalidSession then
        ineligibleDecision EligibilityOutcomeExcluded ErrorCodeAccountNotReady
      else if account_IsQuarantined a \<or> account_OperationalState a = AccountStateQuarantined then
        ineligibleDecision EligibilityOutcomeExcluded ErrorCodeAccountQuarantined
      else if limits_LimitReached limits \<and> ExcludeWhenLimitReached guardrails then
        ineligibleDecision EligibilityOutcomeExcluded ErrorCodeAccountLimitReached
      else if limits_RestrictiveThresholdRaised limits then
        (if RestrictWhenThresholdReached guardrails then
           ineligibleDecision EligibilityOutcomeRestricted ErrorCodeAccountRestricted
         else ineligibleDecision EligibilityOutcomeExcluded ErrorCodeAccountRestricted)
      else if account_ActiveExecutionContextID a \<noteq> '''' then
        ineligibleDecision EligibilityOutcomeExcluded ErrorCodeAccountBusy
      else
        \<lparr>decision_Eligible = True, decision_Outcome = EligibilityOutcomeEligible,
         decision_ReasonCode = ErrorCodeEligible\<rparr>)"

definition EvaluateAccountEligibility :: "account \<Rightarrow> proxy option \<Rightarrow> eligibility_decision" where
  "EvaluateAccountEligibility a prx =
     EvaluateAccountEligibilityWithGuardrails a prx DefaultRuntimeGuardrails"

definition EnsureSingleActiveExecution :: "account \<Rightarrow> string \<Rightarrow> go_error option" where
  "EnsureSingleActiveExecution a executionContextID =
     (if executionContextID = '''' then
        Some (NewDomainError ErrorCodeInvalidExecutionContext ''execution context id must not be empty'')
      else if account_ActiveExecutionContextID a \<noteq> '''' \<and>
              account_ActiveExecutionContextID a \<noteq> executionContextID then
        Some (NewDomainError ErrorCodeAccountBusy
                (''account '' @ account_ID a @ '' is already claimed by another execution context''))
      else None)"


section \<open>Session metadata\<close>

datatype session_status =
    SessionStatusValid
  | SessionStatusInvalid
  | SessionStatusUnavailable
  | SessionStatusOther string

primrec session_status_str :: "session_status \<Rightarrow> string" where
  "session_status_str SessionStatusValid = ''valid''"
| "session_status_str SessionStatusInvalid = ''invalid''"
| "session_status_str SessionStatusUnavailable = ''unavailable''"
| "session_status_str (SessionStatusOther s) = s"

fun SessionStatus_IsValid :: "session_status \<Rightarrow> bool" where
  "SessionStatus_IsValid (SessionStatusOther s) = False"
| "SessionStatus_IsValid status = True"

record session_metadata =
  session_AccountID :: uuid
  session_Revision :: int
  session_Status :: session_status
  session_ObjectKey :: string
  session_ErrorCode :: error_code
  session_LastRestoredAt :: "time option"
  session_CreatedAt :: time
  session_UpdatedAt :: time

definition SessionMetadata_Validate :: "session_metadata \<Rightarrow> go_error option" where
  "SessionMetadata_Validate m =
     (if session_AccountID m = uuid_Nil then
        Some (NewDomainError ErrorCodeInvalidAccountIdentifier
                ''session metadata requires non-empty account id'')
      else if session_Revision m \<le> 0 then
        Some (NewDomainError ErrorCodeInvalidSessionRevision
                (''session revision must be positive, got '' @ Itoa (session_Revision m)))
      else if \<not> SessionStatus_IsValid (session_Status m) then
        Some (NewDomainError ErrorCodeInvalidSessionStatus
                (''invalid session status: '' @ session_status_str (session_Status m)))
      else if session_ObjectKey m = '''' then
        Some (NewDomainError ErrorCodeInvalidSessionObjectKey ''session object key must not be empty'')
      else if session_Status m = SessionStatusValid \<and> error_code_str (session_ErrorCode m) \<noteq> '''' then
        Some (NewDomainError ErrorCodeInvalidSessionStatus
                ''valid session metadata must not contain error code'')
      else None)"


section \<open>Credentials and bootstrap login\<close>

record account_credentials =
  credentials_Username :: string
  credentials_Password :: string

definition AccountCredentials_Validate :: "account_credentials \<Rightarrow> go_error option" where
  "AccountCredentials_Validate credentials =
     (if TrimSpace (credentials_Username credentials) = '''' then
        Some (NewDomainError ErrorCodeAuthInvalidCredentials ''credential username must not be empty'')
      else if TrimSpace (credentials_Password credentials) = '''' then
        Some (NewDomainError ErrorCodeAuthInvalidCredentials ''credential password must not be empty'')
      else None)"

datatype bootstrap_login_outcome =
    BootstrapLoginOutcomeSuccess
  | BootstrapLoginOutcomeAuthChallenge
  | BootstrapLoginOutcomeAuthInvalidCredentials
  | BootstrapLoginOutcomeAuthRuntimeError
  | BootstrapLoginOutcomeOther string

primrec bootstrap_login_outcome_str :: "bootstrap_login_outcome \<Rightarrow> string" where
  "bootstrap_login_outcome_str BootstrapLoginOutcomeSuccess = ''success''"
| "bootstrap_login_outcome_str BootstrapLoginOutcomeAuthChallenge = ''auth_challenge''"
| "bootstrap_login_outcome_str BootstrapLoginOutcomeAuthInvalidCredentials = ''auth_invalid_credentials''"
| "bootstrap_login_outcome_str BootstrapLoginOutcomeAuthRuntimeError = ''auth_runtime_error''"
| "bootstrap_login_outcome_str (BootstrapLoginOutcomeOther s) = s"

fun BootstrapLoginOutcome_IsValid :: "bootstrap_login_outcome \<Rightarrow> bool" where
  "BootstrapLoginOutcome_IsValid (BootstrapLoginOutcomeOther s) = False"
| "BootstrapLoginOutcome_IsValid outcome = True"

record bootstrap_login_input =
  bli_TaskID :: uuid
  bli_AccountID :: uuid
  bli_Attempt :: int
  bli_ExecutionContextID :: string
  bli_CredentialSource :: credential_source
  bli_CredentialRef :: string

definition BootstrapLoginInput_Validate :: "bootstrap_login_input \<Rightarrow> go_error option" where
  "BootstrapLoginInput_Validate input =
     (if bli_TaskID input = uuid_Nil then
        Some (NewDomainError ErrorCodeInvalidTaskIdentifier
                ''bootstrap login input task id must not be empty'')
      else if bli_AccountID input = uuid_Nil then
        Some (NewDomainError ErrorCodeInvalidAccountIdentifier
                ''bootstrap login input account id must not be empty'')
      else if TrimSpace (bli_ExecutionContextID input) = '''' then
        Some (NewDomainError ErrorCodeInvalidExecutionContext
                ''bootstrap login input execution context id must not be empty'')
      else if bli_Attempt input \<le> 0 then
        Some (NewDomainError ErrorCodeInvalidTaskTransition
                (''bootstrap login input attempt must be > 0, got '' @ Itoa (bli_Attempt input)))
      else if \<not> CredentialSource_IsValid (NormalizeCredentialSource (bli_CredentialSource input)) then
        Some (NewDomainError ErrorCodeAuthBootstrapFailed ''bootstrap login credential source is invalid'')
      else if TrimSpace (bli_CredentialRef input) = '''' then
        Some (NewDomainError ErrorCodeAuthBootstrapFailed
                ''bootstrap login credential ref must not be empty'')
      else None)"

record bootstrap_login_result =
  blr_Outcome :: bootstrap_login_outcome
  blr_SessionPayload :: bytes
  blr_AuthScreenshots :: "(string \<times> bytes) list"
  blr_Engine :: string
  blr_DurationMS :: int

definition BootstrapLoginResult_Validate ::
  "bootstrap_login_result \<Rightarrow> go_error option" where
  "BootstrapLoginResult_Validate result =
     (if \<not> BootstrapLoginOutcome_IsValid (blr_Outcome result) then
        Some (NewDomainError ErrorCodeAuthBootstrapFailed
                (''invalid bootstrap login outcome: '' @ bootstrap_login_outcome_str (blr_Outcome result)))
      else if blr_Outcome result = BootstrapLoginOutcomeSuccess \<and> blr_SessionPayload result = [] then
        Some (NewDomainError ErrorCodeSessionPayloadMissing
                ''bootstrap login success result requires non-empty session payload'')
      else if blr_Outcome result = BootstrapLoginOutcomeSuccess \<and>
              \<not> json_Valid (blr_SessionPayload result) then
        Some (NewDomainError ErrorCodeSessionPayloadInvalid
                ''bootstrap login success session payload must be valid JSON'')
      else if blr_DurationMS result < 0 then
        Some (NewDomainError ErrorCodeInternal ''bootstrap login diagnostics duration must be >= 0'')
      else None)"


section \<open>Lemmas\<close>

lemma NormalizeCredentialSource_valid [simp]:
  "CredentialSource_IsValid (NormalizeCredentialSource source)"
  by (simp add: NormalizeCredentialSource_def)

lemma Normalized_idem: "Normalized (Normalized g) = Normalized g"
  by (cases g) (simp add: Normalized_def Let_def DefaultRuntimeGuardrails_def empty_guardrails_def)

lemma Normalized_limits:
  "ExcludeWhenLimitReached (Normalized g) \<or> RestrictWhenThresholdReached (Normalized g)"
  by (simp add: Normalized_def Let_def DefaultRuntimeGuardrails_def)

lemma ineligibleDecision_simps [simp]:
  "\<not> decision_Eligible (ineligibleDecision ec r)"
  "decision_Outcome (ineligibleDecision ec r) = ec"
  "decision_ReasonCode (ineligibleDecision ec r) = r"
  by (simp_all add: ineligibleDecision_def)

text \<open>What an eligible account looks like, read off the decision.\<close>

definition account_suitable :: "runtime_guardrails \<Rightarrow> account \<Rightarrow> proxy option \<Rightarrow> bool" where
  "account_suitable g a prx \<longleftrightarrow>
     account_ID a \<noteq> uuid_Nil \<and> AccountState_IsValid (account_OperationalState a) \<and>
     (RequireProxyBinding g \<longrightarrow>
        account_ProxyID a \<noteq> uuid_Nil \<and> (\<exists>p. prx = Some p \<and> proxy_IsActive p)) \<and>
     account_IsActive a \<and> account_IsReady a \<and> \<not> account_IsQuarantined a \<and>
     \<not> account_IsRestricted a \<and>
     account_OperationalState a \<in> {AccountStateActive, AccountStateBusy} \<and>
     (account_LimitReached a \<longrightarrow> \<not> ExcludeWhenLimitReached g) \<and>
     account_ActiveExecutionContextID a = ''''"

lemma EvaluateAccountEligibility_iff:
  "decision_Eligible (EvaluateAccountEligibilityWithGuardrails a prx g) \<longleftrightarrow>
   account_suitable (Normalized g) a prx"
  by (cases "account_OperationalState a"; cases prx)
    (auto simp: EvaluateAccountEligibilityWithGuardrails_def account_suitable_def Let_def
      Account_Limits_def)

lemma EvaluateAccountEligibility_reason:
  "decision_Eligible (EvaluateAccountEligibilityWithGuardrails a prx g) \<longleftrightarrow>
   decision_ReasonCode (EvaluateAccountEligibilityWithGuardrails a prx g) = ErrorCodeEligible"
  "decision_Eligible (EvaluateAccountEligibilityWithGuardrails a prx g) \<longleftrightarrow>
   decision_Outcome (EvaluateAccountEligibilityWithGuardrails a prx g) = EligibilityOutcomeEligible"
  by (auto simp: EvaluateAccountEligibilityWithGuardrails_def Let_def)

lemma SessionMetadata_Validate_None:
  "SessionMetadata_Validate m = None \<longleftrightarrow>
   session_AccountID m \<noteq> uuid_Nil \<and> 0 < session_Revision m \<and>
   SessionStatus_IsValid (session_Status m) \<and> session_ObjectKey m \<noteq> '''' \<and>
   (session_Status m = SessionStatusValid \<longrightarrow> error_code_str (session_ErrorCode m) = '''')"
  by (auto simp: SessionMetadata_Validate_def)

end
