(* ===== verification/Follow_Domain.thy ===== *)
theory Follow_Domain
  imports Account_Domain
begin

text \<open>
  The follow part of \<open>internal/domain\<close>: \<open>follow_flow.go\<close> (outcome and input of the browser flow),
  \<open>follow_result.go\<close> (verification, stored result, finalization input) and
  \<open>follow_result_history.go\<close> (the query of the history).  The lemmas list what a validated value
  satisfies.
\<close>

datatype follow_flow_outcome =
    FollowFlowOutcomeCompleted
  | FollowFlowOutcomeAlreadyDone
  | FollowFlowOutcomeActionUnavailable
  | FollowFlowOutcomeTargetUnreachable
  | FollowFlowOutcomeNavigationFailed
  | FollowFlowOutcomeOther string

primrec follow_outcome_str :: "follow_flow_outcome \<Rightarrow> string" where
  "follow_outcome_str FollowFlowOutcomeCompleted = ''follow_completed''"
| "follow_outcome_str FollowFlowOutcomeAlreadyDone = ''follow_already_done''"
| "follow_outcome_str FollowFlowOutcomeActionUnavailable = ''follow_action_unavailable''"
| "follow_outcome_str FollowFlowOutcomeTargetUnreachable = ''follow_target_unreachable''"
| "follow_outcome_str FollowFlowOutcomeNavigationFailed = ''follow_navigation_failed''"
| "follow_outcome_str (FollowFlowOutcomeOther s) = s"

fun FollowFlowOutcome_IsValid :: "follow_flow_outcome \<Rightarrow> bool" where
  "FollowFlowOutcome_IsValid (FollowFlowOutcomeOther s) = False"
| "FollowFlowOutcome_IsValid outcome = True"

record follow_flow_input =
  ffi_TaskID :: uuid
  ffi_AccountID :: uuid
  ffi_Attempt :: int
  ffi_ExecutionContextID :: string
  ffi_SessionMetadata :: session_metadata
  ffi_SessionPayload :: bytes
  ffi_TargetProfile :: string

definition FollowFlowInput_Validate :: "follow_flow_input \<Rightarrow> go_error option" where
  "FollowFlowInput_Validate input =
     (if ffi_TaskID input = uuid_Nil then
        Some (NewDomainError ErrorCodeInvalidTaskIdentifier ''follow flow input task id must not be empty'')
      else if ffi_AccountID input = uuid_Nil then
        Some (NewDomainError ErrorCodeInvalidAccountIdentifier
                ''follow flow input account id must not be empty'')
      else if TrimSpace (ffi_ExecutionContextID input) = '''' then
        Some (NewDomainError ErrorCodeInvalidExecutionContext
                ''follow flow input execution context id must not be empty'')
      else if ffi_Attempt input \<le> 0 then
        Some (NewDomainError ErrorCodeInvalidTaskTransition
                (''follow flow input attempt must be > 0, got '' @ Itoa (ffi_Attempt input)))
      else if ffi_SessionPayload input = [] then
        Some (NewDomainError ErrorCodeSessionPayloadMissing
                ''follow flow input session payload must not be empty'')
      else TargetProfile_Validate (ffi_TargetProfile input))"

record follow_flow_diagnostics =
  ffd_Engine :: string
  ffd_WarmupCompleted :: bool
  ffd_WarmupDurationMS :: int
  ffd_ExecutionDurationMS :: int


section \<open>Verification\<close>

datatype follow_verification_signal =
    FollowVerificationSignalFollowConfirmed
  | FollowVerificationSignalAlreadyDone
  | FollowVerificationSignalActionUnavailable
  | FollowVerificationSignalTargetUnreachable
  | FollowVerificationSignalNavigationFailed
  | FollowVerificationSignalVerifyFailed
  | FollowVerificationSignalOther string

primrec verification_signal_str :: "follow_verification_signal \<Rightarrow> string" where
  "verification_signal_str FollowVerificationSignalFollowConfirmed = ''follow_confirmed''"
| "verification_signal_str FollowVerificationSignalAlreadyDone = ''follow_already_done''"
| "verification_signal_str FollowVerificationSignalActionUnavailable = ''follow_action_unavailable''"
| "verification_signal_str FollowVerificationSignalTargetUnreachable = ''follow_target_unreachable''"
| "verification_signal_str FollowVerificationSignalNavigationFailed = ''follow_navigation_failed''"
| "verification_signal_str FollowVerificationSignalVerifyFailed = ''follow_verify_failed''"
| "verification_signal_str (FollowVerificationSignalOther s) = s"

fun FollowVerificationSignal_IsValid :: "follow_verification_signal \<Rightarrow> bool" where
  "FollowVerificationSignal_IsValid (FollowVerificationSignalOther s) = False"
| "FollowVerificationSignal_IsValid sig = True"

record follow_verification_input =
  fvi_TaskID :: uuid
  fvi_AccountID :: uuid
  fvi_Attempt :: int
  fvi_ExecutionContextID :: string
  fvi_TargetProfile :: string
  fvi_Outcome :: follow_flow_outcome
  fvi_SessionPayload :: bytes

definition FollowVerificationInput_Validate :: "follow_verification_input \<Rightarrow> go_error option" where
  "FollowVerificationInput_Validate input =
     (if fvi_TaskID input = uuid_Nil then
        Some (NewDomainError ErrorCodeInvalidTaskIdentifier
                ''follow verification input task id must not be empty'')
      else if fvi_AccountID input = uuid_Nil then
        Some (NewDomainError ErrorCodeInvalidAccountIdentifier
                ''follow verification input account id must not be empty'')
      else if fvi_Attempt input \<le> 0 then
        Some (NewDomainError ErrorCodeInvalidTaskTransition
                (''follow verification input attempt must be > 0, got '' @ Itoa (fvi_Attempt input)))
      else if TrimSpace (fvi_ExecutionContextID input) = '''' then
        Some (NewDomainError ErrorCodeInvalidExecutionContext
                ''follow verification input execution context id must not be empty'')
      else case TargetProfile_Validate (fvi_TargetProfile input) of
        Some err \<Rightarrow> Some err
      | None \<Rightarrow>
        if \<not> FollowFlowOutcome_IsValid (fvi_Outcome input) then
          Some (NewDomainError ErrorCodeFollowVerifyFailed
                  (''follow verification input outcome is invalid: '' @
                   follow_outcome_str (fvi_Outcome input)))
        else None)"

record follow_verification_result =
  fvr_Verified :: bool
  fvr_Signal :: follow_verification_signal
  fvr_Reason :: string
  fvr_ErrorCode :: error_code
  fvr_SessionChanged :: bool
  fvr_ScreenshotPayload :: bytes
  fvr_SessionPayload :: bytes

definition FollowVerificationResult_Validate :: "follow_verification_result \<Rightarrow> go_error option" where
  "FollowVerificationResult_Validate r =
     (if \<not> FollowVerificationSignal_IsValid (fvr_Signal r) then
        Some (NewDomainError ErrorCodeFollowVerifyFailed
                (''follow verification signal is invalid: '' @ verification_signal_str (fvr_Signal r)))
      else if fvr_ScreenshotPayload r = [] then
        Some (NewDomainError ErrorCodeFollowVerifyFailed
                ''follow verification screenshot payload must not be empty'')
      else if \<not> fvr_Verified r \<and> TrimSpace (error_code_str (fvr_ErrorCode r)) = '''' then
        Some (NewDomainError ErrorCodeFollowVerifyFailed
                ''unverified follow result requires machine-readable error code'')
      else if fvr_Verified r \<and> error_code_str (fvr_ErrorCode r) \<noteq> '''' then
        Some (NewDomainError ErrorCodeFollowVerifyFailed
                ''verified follow result must not contain error code'')
      else if fvr_SessionChanged r \<and> fvr_SessionPayload r = [] then
        Some (NewDomainError ErrorCodeSessionPayloadMissing
                ''follow verification marked session as changed but session payload is empty'')
      else None)"


section \<open>Stored result\<close>

record follow_result =
  fr_TaskID :: uuid
  fr_AccountID :: uuid
  fr_TargetProfile :: string
  fr_Attempt :: int
  fr_Outcome :: follow_flow_outcome
  fr_Verified :: bool
  fr_VerificationSignal :: follow_verification_signal
  fr_VerificationReason :: string
  fr_ErrorCode :: error_code
  fr_ScreenshotObjectKey :: string
  fr_ArtifactObjectKeys :: "string list"
  fr_SessionRevision :: int
  fr_CreatedAt :: time
  fr_UpdatedAt :: time

definition FollowResult_Validate :: "follow_result \<Rightarrow> go_error option" where
  "FollowResult_Validate r =
     (if fr_TaskID r = uuid_Nil then
        Some (NewDomainError ErrorCodeInvalidTaskIdentifier ''follow result task id must not be empty'')
      else if fr_AccountID r = uuid_Nil then
        Some (NewDomainError ErrorCodeInvalidAccountIdentifier ''follow result account id must not be empty'')
      else case TargetProfile_Validate (fr_TargetProfile r) of
        Some err \<Rightarrow> Some err
      | None \<Rightarrow>
        if fr_Attempt r \<le> 0 then
          Some (NewDomainError ErrorCodeInvalidTaskTransition
                  (''follow result attempt must be > 0, got '' @ Itoa (fr_Attempt r)))
        else if \<not> FollowFlowOutcome_IsValid (fr_Outcome r) then
          Some (NewDomainError ErrorCodeFollowResultPersistFailed
                  (''follow result outcome is invalid: '' @ follow_outcome_str (fr_Outcome r)))
        else if \<not> FollowVerificationSignal_IsValid (fr_VerificationSignal r) then
          Some (NewDomainError ErrorCodeFollowResultPersistFailed
                  (''follow verification signal is invalid: '' @
                   verification_signal_str (fr_VerificationSignal r)))
        else if TrimSpace (fr_ScreenshotObjectKey r) = '''' then
          Some (NewDomainError ErrorCodeFollowResultPersistFailed
                  ''follow result screenshot object key must not be empty'')
        else if fr_ArtifactObjectKeys r = [] then
          Some (NewDomainError ErrorCodeFollowResultPersistFailed
                  ''follow result must contain at least one artifact object key'')
        else if fr_Verified r \<and> TrimSpace (error_code_str (fr_ErrorCode r)) \<noteq> '''' then
          Some (NewDomainError ErrorCodeFollowResultPersistFailed
                  ''verified follow result must not contain error code'')
        else if \<not> fr_Verified r \<and> TrimSpace (error_code_str (fr_ErrorCode r)) = '''' then
          Some (NewDomainError ErrorCodeFollowResultPersistFailed
                  ''unverified follow result requires machine-readable error code'')
        else if fr_SessionRevision r < 0 then
          Some (NewDomainError ErrorCodeFollowResultPersistFailed
                  (''session revision must be >= 0, got '' @ Itoa (fr_SessionRevision r)))
        else None)"

record follow_finalization_input =
  ffin_TaskID :: uuid
  ffin_AccountID :: uuid
  ffin_AccountLogin :: string
  ffin_TargetProfile :: string
  ffin_Attempt :: int
  ffin_SessionRevision :: int
  ffin_FollowOutcome :: follow_flow_outcome
  ffin_FollowDiagnostics :: follow_flow_diagnostics
  ffin_Verification :: follow_verification_result
  ffin_SessionPayload :: bytes

definition FollowExecutionFinalizationInput_Validate :: "follow_finalization_input \<Rightarrow> go_error option" where
  "FollowExecutionFinalizationInput_Validate input =
     (if ffin_TaskID input = uuid_Nil then
        Some (NewDomainError ErrorCodeInvalidTaskIdentifier
                ''follow finalization input task id must not be empty'')
      else if ffin_AccountID input = uuid_Nil then
        Some (NewDomainError ErrorCodeInvalidAccountIdentifier
                ''follow finalization input account id must not be empty'')
      else case TargetProfile_Validate (ffin_TargetProfile input) of
        Some err \<Rightarrow> Some err
      | None \<Rightarrow>
        if ffin_Attempt input \<le> 0 then
          Some (NewDomainError ErrorCodeInvalidTaskTransition
                  (''follow finalization input attempt must be > 0, got '' @ Itoa (ffin_Attempt input)))
        else if ffin_SessionRevision input < 0 then
          Some (NewDomainError ErrorCodeInvalidSessionRevision
                  (''follow finalization input session revision must be >= 0, got '' @
                   Itoa (ffin_SessionRevision input)))
        else if \<not> FollowFlowOutcome_IsValid (ffin_FollowOutcome input) then
          Some (NewDomainError ErrorCodeFollowVerifyFailed
                  (''follow finalization input outcome is invalid: '' @
                   follow_outcome_str (ffin_FollowOutcome input)))
        else (case FollowVerificationResult_Validate (ffin_Verification input) of
            Some err \<Rightarrow> Some err
          | None \<Rightarrow>
            if fvr_SessionChanged (ffin_Verification input) \<and> ffin_SessionPayload input = [] then
              Some (NewDomainError ErrorCodeSessionPayloadMissing
                      ''follow finalization input requires session payload when session_changed=true'')
            else None))"


section \<open>History query\<close>

text \<open>\<open>query.Outcome\<close> and \<open>query.TaskStatus\<close> are filters, empty when not given.\<close>

record follow_results_history_query =
  hq_AccountID :: uuid
  hq_TargetProfile :: string
  hq_Outcome :: follow_flow_outcome
  hq_TaskStatus :: task_status
  hq_From :: "time option"
  hq_To :: "time option"
  hq_Limit :: int
  hq_Offset :: int

definition FollowResultsHistoryQuery_Validate :: "follow_results_history_query \<Rightarrow> go_error option" where
  "FollowResultsHistoryQuery_Validate query =
     (let rawTarget = hq_TargetProfile query in
      if rawTarget \<noteq> '''' \<and> TrimSpace rawTarget = '''' then
        Some (NewDomainError ErrorCodeFollowTargetProfile
                ''target profile filter must not be blank when provided'')
      else case (if TrimSpace rawTarget \<noteq> '''' then TargetProfile_Validate rawTarget else None) of
        Some err \<Rightarrow> Some err
      | None \<Rightarrow>
        if follow_outcome_str (hq_Outcome query) \<noteq> '''' \<and> \<not> FollowFlowOutcome_IsValid (hq_Outcome query) then
          Some (NewDomainError ErrorCodeFollowResultPersistFailed
                  (''invalid follow outcome filter: '' @ follow_outcome_str (hq_Outcome query)))
        else if task_status_str (hq_TaskStatus query) \<noteq> '''' \<and>
                \<not> TaskStatus_IsValid (hq_TaskStatus query) then
          Some (NewDomainError ErrorCodeInvalidTaskStatus
                  (''invalid task status filter: '' @ task_status_str (hq_TaskStatus query)))
        else if (case (hq_From query, hq_To query) of (Some f, Some t) \<Rightarrow> f > t | _ \<Rightarrow> False) then
          Some (NewDomainError ErrorCodeInvalidTaskTransition
                  ''history time range is invalid: from must be <= to'')
        else if hq_Limit query \<le> 0 then
          Some (NewDomainError ErrorCodeInvalidTaskTransition
                  (''history limit must be > 0, got '' @ Itoa (hq_Limit query)))
        else if hq_Offset query < 0 then
          Some (NewDomainError ErrorCodeInvalidTaskTransition
                  (''history offset must be >= 0, got '' @ Itoa (hq_Offset query)))
        else None)"


section \<open>Lemmas\<close>

lemma FollowFlowInput_Validate_None:
  "FollowFlowInput_Validate i = None \<longleftrightarrow>
   ffi_TaskID i \<noteq> uuid_Nil \<and> ffi_AccountID i \<noteq> uuid_Nil \<and>
   TrimSpace (ffi_ExecutionContextID i) \<noteq> '''' \<and> 0 < ffi_Attempt i \<and>
   ffi_SessionPayload i \<noteq> [] \<and> TrimSpace (ffi_TargetProfile i) \<noteq> ''''"
  by (auto simp: FollowFlowInput_Validate_def TargetProfile_Validate_def)

lemma FollowVerificationResult_Validate_None:
  "FollowVerificationResult_Validate r = None \<longleftrightarrow>
   FollowVerificationSignal_IsValid (fvr_Signal r) \<and> fvr_ScreenshotPayload r \<noteq> [] \<and>
   (\<not> fvr_Verified r \<longrightarrow> TrimSpace (error_code_str (fvr_ErrorCode r)) \<noteq> '''') \<and>
   (fvr_Verified r \<longrightarrow> error_code_str (fvr_ErrorCode r) = '''') \<and>
   (fvr_SessionChanged r \<longrightarrow> fvr_SessionPayload r \<noteq> [])"
  by (auto simp: FollowVerificationResult_Validate_def)

lemma FollowExecutionFinalizationInput_Validate_None:
  "FollowExecutionFinalizationInput_Validate i = None \<longleftrightarrow>
   ffin_TaskID i \<noteq> uuid_Nil \<and> ffin_AccountID i \<noteq> uuid_Nil \<and>
   TrimSpace (ffin_TargetProfile i) \<noteq> '''' \<and> 0 < ffin_Attempt i \<and> 0 \<le> ffin_SessionRevision i \<and>
   FollowFlowOutcome_IsValid (ffin_FollowOutcome i) \<and>
   FollowVerificationResult_Validate (ffin_Verification i) = None \<and>
   (fvr_SessionChanged (ffin_Verification i) \<longrightarrow> ffin_SessionPayload i \<noteq> [])"
  by (auto simp: FollowExecutionFinalizationInput_Validate_def TargetProfile_Validate_def
      split: option.splits)

lemma FollowResult_Validate_None:
  "FollowResult_Validate r = None \<longleftrightarrow>
   fr_TaskID r \<noteq> uuid_Nil \<and> fr_AccountID r \<noteq> uuid_Nil \<and> TrimSpace (fr_TargetProfile r) \<noteq> '''' \<and>
   0 < fr_Attempt r \<and> FollowFlowOutcome_IsValid (fr_Outcome r) \<and>
   FollowVerificationSignal_IsValid (fr_VerificationSignal r) \<and>
   TrimSpace (fr_ScreenshotObjectKey r) \<noteq> '''' \<and> fr_ArtifactObjectKeys r \<noteq> [] \<and>
   (fr_Verified r \<longleftrightarrow> TrimSpace (error_code_str (fr_ErrorCode r)) = '''') \<and>
   0 \<le> fr_SessionRevision r"
  by (auto simp: FollowResult_Validate_def TargetProfile_Validate_def split: option.splits)

end
