(* ===== verification/Diagnostics.thy ===== *)
theory Diagnostics
  imports Errors
begin

text \<open>
  Who acts and what may be written down: \<open>internal/audit/actor_context.go\<close>, the sanitizer and the
  event check of \<open>internal/audit/audit_log.go\<close>, and the context values and field normalisation of
  \<open>internal/observability/events.go\<close>.

  A \<open>context.Context\<close> is a record of the three values the service stores in one; a nil context, which
  the accessors accept, is the context without values.  A Go map is an association list in the order in
  which a \<open>range\<close> meets its entries.
\<close>

section \<open>Actors\<close>

datatype actor_type =
    ActorTypeSystem
  | ActorTypeAdminOperator
  | ActorTypeInternalProcess
  | ActorTypeOther string

primrec actor_type_str :: "actor_type \<Rightarrow> string" where
  "actor_type_str ActorTypeSystem = ''system''"
| "actor_type_str ActorTypeAdminOperator = ''admin_operator''"
| "actor_type_str ActorTypeInternalProcess = ''internal_process''"
| "actor_type_str (ActorTypeOther s) = s"

record actor =
  actor_Type :: actor_type
  actor_ID :: string

record restore_lifecycle_context =
  rlc_TaskID :: string
  rlc_Attempt :: int

record admin_request_context =
  arc_CorrelationID :: string
  arc_AdminAction :: string
  arc_TaskID :: string

record go_context =
  ctx_Actor :: "actor option"
  ctx_Restore :: "restore_lifecycle_context option"
  ctx_Admin :: "admin_request_context option"

definition Background :: go_context where
  "Background = \<lparr>ctx_Actor = None, ctx_Restore = None, ctx_Admin = None\<rparr>"

definition normalizeActor :: "actor \<Rightarrow> actor" where
  "normalizeActor ac0 =
     (let ac1 = (if actor_type_str (actor_Type ac0) = '''' then ac0\<lparr>actor_Type := ActorTypeSystem\<rparr> else ac0)
      in if actor_ID ac1 = '''' then ac1\<lparr>actor_ID := ''system''\<rparr> else ac1)"

definition WithActor :: "go_context \<Rightarrow> actor \<Rightarrow> go_context" where
  "WithActor ctx ac = ctx\<lparr>ctx_Actor := Some (normalizeActor ac)\<rparr>"

definition ActorFromContext :: "go_context \<Rightarrow> actor" where
  "ActorFromContext ctx =
     (case ctx_Actor ctx of
        None \<Rightarrow> \<lparr>actor_Type = ActorTypeSystem, actor_ID = ''system''\<rparr>
      | Some ac \<Rightarrow> normalizeActor ac)"


section \<open>Context values of package observability\<close>

definition WithRestoreLifecycleContext :: "go_context \<Rightarrow> string \<Rightarrow> int \<Rightarrow> go_context" where
  "WithRestoreLifecycleContext ctx taskID attempt =
     ctx\<lparr>ctx_Restore := Some \<lparr>rlc_TaskID = TrimSpace taskID,
                              rlc_Attempt = (if attempt < 0 then 0 else attempt)\<rparr>\<rparr>"

definition RestoreLifecycleContextFrom :: "go_context \<Rightarrow> restore_lifecycle_context" where
  "RestoreLifecycleContextFrom ctx =
     (case ctx_Restore ctx of
        None \<Rightarrow> \<lparr>rlc_TaskID = ''n/a'', rlc_Attempt = 0\<rparr>
      | Some v \<Rightarrow>
          \<lparr>rlc_TaskID = (if TrimSpace (rlc_TaskID v) = '''' then ''n/a'' else rlc_TaskID v),
           rlc_Attempt = (if rlc_Attempt v < 0 then 0 else rlc_Attempt v)\<rparr>)"

definition normalizeAdminRequestContext :: "admin_request_context \<Rightarrow> admin_request_context" where
  "normalizeAdminRequestContext rc =
     (let correlation = TrimSpace (arc_CorrelationID rc);
          action = TrimSpace (arc_AdminAction rc);
          tid = TrimSpace (arc_TaskID rc)
      in \<lparr>arc_CorrelationID = (if correlation = '''' then ''n/a'' else correlation),
          arc_AdminAction = (if action = '''' then ''admin.unknown'' else action),
          arc_TaskID = (if tid = '''' then ''n/a'' else tid)\<rparr>)"

definition WithAdminRequestContext :: "go_context \<Rightarrow> admin_request_context \<Rightarrow> go_context" where
  "WithAdminRequestContext ctx requestContext =
     ctx\<lparr>ctx_Admin := Some (normalizeAdminRequestContext requestContext)\<rparr>"

definition AdminRequestContextFrom :: "go_context \<Rightarrow> admin_request_context" where
  "AdminRequestContextFrom ctx =
     (case ctx_Admin ctx of
        None \<Rightarrow> \<lparr>arc_CorrelationID = ''n/a'', arc_AdminAction = ''admin.unknown'', arc_TaskID = ''n/a''\<rparr>
      | Some v \<Rightarrow> normalizeAdminRequestContext v)"


section \<open>Sanitizing\<close>

definition sensitiveTokens :: "string list" where
  "sensitiveTokens =
     [''secret'', ''password'', ''token'', ''cookie'', ''session_payload'', ''raw_session'',
      ''access_key'', ''proxy_credential'', ''credentials'']"

definition containsSensitiveToken :: "string \<Rightarrow> bool" where
  "containsSensitiveToken v = list_ex (\<lambda>token. Contains v token) sensitiveTokens"

type_synonym string_map = "(string \<times> string) list"

text \<open>\<open>m[k] = v\<close> on an association list with at most one entry per key.\<close>

fun map_put :: "string \<Rightarrow> 'v \<Rightarrow> (string \<times> 'v) list \<Rightarrow> (string \<times> 'v) list" where
  "map_put k v [] = [(k, v)]"
| "map_put k v ((k', v') # m) = (if k' = k then (k, v) # m else (k', v') # map_put k v m)"

fun sanitize_loop :: "string_map \<Rightarrow> string_map \<Rightarrow> string_map" where
  "sanitize_loop safe [] = safe"
| "sanitize_loop safe ((key, v) # flds) =
     (let normalizedKey = ToLower (TrimSpace key) in
      if normalizedKey = '''' then sanitize_loop safe flds
      else if containsSensitiveToken normalizedKey then sanitize_loop safe flds
      else
        let normalizedValue0 = TrimSpace v;
            normalizedValue =
              (if length normalizedValue0 > 256 then take 256 normalizedValue0 else normalizedValue0)
        in sanitize_loop (map_put normalizedKey normalizedValue safe) flds)"

definition SanitizeDiagnosticFields :: "string_map \<Rightarrow> string_map" where
  "SanitizeDiagnosticFields flds = (if flds = [] then [] else sanitize_loop [] flds)"

text \<open>\<open>strings.Fields\<close> followed by \<open>strings.Join\<close> with a space: the words, one space apart.\<close>

fun fields_loop :: "string \<Rightarrow> string \<Rightarrow> string list" where
  "fields_loop w [] = (if w = [] then [] else [w])"
| "fields_loop w (c # cs) =
     (if is_space c then (if w = [] then fields_loop [] cs else w # fields_loop [] cs)
      else fields_loop (w @ [c]) cs)"

definition Fields :: "string \<Rightarrow> string list" where
  "Fields s = fields_loop [] s"

definition SanitizeDiagnosticMessage :: "string \<Rightarrow> string" where
  "SanitizeDiagnosticMessage message =
     (let normalized = Join (Fields (TrimSpace message)) '' '' in
      if normalized = '''' then ''diagnostic details unavailable''
      else if list_ex (\<lambda>token. Contains (ToLower normalized) token) sensitiveTokens then
        ''diagnostic message redacted''
      else if length normalized > 256 then take 256 normalized
      else normalized)"


section \<open>Normalised log fields\<close>

record lifecycle_context =
  lc_Component :: string
  lc_TaskID :: string
  lc_AccountID :: string
  lc_Attempt :: int
  lc_ErrorCode :: string
  lc_DurationMS :: int

definition normalizeLifecycleContext :: "lifecycle_context \<Rightarrow> lifecycle_context" where
  "normalizeLifecycleContext c =
     \<lparr>lc_Component = (if TrimSpace (lc_Component c) = '''' then ''unknown_component'' else lc_Component c),
      lc_TaskID = (if TrimSpace (lc_TaskID c) = '''' then ''n/a'' else lc_TaskID c),
      lc_AccountID = (if TrimSpace (lc_AccountID c) = '''' then ''n/a'' else lc_AccountID c),
      lc_Attempt = (if lc_Attempt c < 0 then 0 else lc_Attempt c),
      lc_ErrorCode = (if TrimSpace (lc_ErrorCode c) = '''' then ''internal_error'' else lc_ErrorCode c),
      lc_DurationMS = (if lc_DurationMS c < 0 then 0 else lc_DurationMS c)\<rparr>"

record admin_lifecycle_context =
  alc_CorrelationID :: string
  alc_AdminAction :: string
  alc_TaskID :: string
  alc_OperationResult :: string
  alc_ErrorCode :: string
  alc_DurationMS :: int
  alc_HTTPRoute :: string
  alc_HTTPStatusCode :: int

definition normalizeAdminLifecycleContext :: "admin_lifecycle_context \<Rightarrow> admin_lifecycle_context" where
  "normalizeAdminLifecycleContext c =
     (let or_default = (\<lambda>s d. if TrimSpace s = '''' then d else TrimSpace s);
          result0 = TrimSpace (ToLower (alc_OperationResult c));
          result = (if result0 \<in> {''success'', ''error'', ''rejected''} then result0 else ''error'')
      in \<lparr>alc_CorrelationID = or_default (alc_CorrelationID c) ''n/a'',
          alc_AdminAction = or_default (alc_AdminAction c) ''admin.unknown'',
          alc_TaskID = or_default (alc_TaskID c) ''n/a'',
          alc_OperationResult = result,
          alc_ErrorCode = or_default (alc_ErrorCode c)
                            (if result = ''success'' then ''none'' else ''internal_error''),
          alc_DurationMS = (if alc_DurationMS c < 0 then 0 else alc_DurationMS c),
          alc_HTTPRoute = or_default (alc_HTTPRoute c) ''n/a'',
          alc_HTTPStatusCode = (if alc_HTTPStatusCode c < 0 then 0 else alc_HTTPStatusCode c)\<rparr>)"


section \<open>Audit events\<close>

record audit_event =
  event_Actor :: actor
  event_Action :: string
  event_TargetType :: string
  event_TargetID :: string
  event_ChangeSummary :: string
  event_DiagnosticFields :: string_map

definition no_actor :: actor where
  "no_actor = \<lparr>actor_Type = ActorTypeOther '''', actor_ID = ''''\<rparr>"

record audit_record =
  record_ID :: uuid
  record_ActorType :: actor_type
  record_ActorID :: string
  record_Action :: string
  record_TargetType :: string
  record_TargetID :: string
  record_ChangeSummary :: string
  record_DiagnosticFields :: string_map
  record_CreatedAt :: time

definition validateEvent :: "audit_event \<Rightarrow> go_error option" where
  "validateEvent ev =
     (if TrimSpace (event_Action ev) = '''' then Some (PlainErr ''audit action is required'')
      else if TrimSpace (event_TargetType ev) = '''' then Some (PlainErr ''audit target_type is required'')
      else if TrimSpace (event_TargetID ev) = '''' then Some (PlainErr ''audit target_id is required'')
      else if TrimSpace (event_ChangeSummary ev) = '''' then
        Some (PlainErr ''audit change_summary is required'')
      else None)"


section \<open>Lemmas\<close>

lemma normalizeActor_idem [simp]: "normalizeActor (normalizeActor ac) = normalizeActor ac"
  by (simp add: normalizeActor_def Let_def)

lemma ActorFromContext_WithActor [simp]: "ActorFromContext (WithActor ctx ac) = normalizeActor ac"
  by (simp add: ActorFromContext_def WithActor_def)

lemma TrimSpace_defaults [simp]:
  "TrimSpace ''n/a'' = ''n/a''" "TrimSpace ''admin.unknown'' = ''admin.unknown''"
  by code_simp+

lemma normalizeAdminRequestContext_idem [simp]:
  "normalizeAdminRequestContext (normalizeAdminRequestContext rc) = normalizeAdminRequestContext rc"
  by (simp add: normalizeAdminRequestContext_def Let_def)

lemma AdminRequestContextFrom_With [simp]:
  "AdminRequestContextFrom (WithAdminRequestContext ctx rc) = normalizeAdminRequestContext rc"
  by (simp add: AdminRequestContextFrom_def WithAdminRequestContext_def)

lemma set_map_put: "set (map_put k v m) \<subseteq> insert (k, v) (set m)"
  by (induction k v m rule: map_put.induct) auto

lemma keys_map_put: "fst ` set (map_put k v m) = insert k (fst ` set m)"
  by (induction k v m rule: map_put.induct) auto

lemma map_of_map_put: "map_of (map_put k v m) = (map_of m)(k \<mapsto> v)"
  by (induction k v m rule: map_put.induct) auto

text \<open>What a sanitized entry looks like.\<close>

definition safe_entry :: "string \<times> string \<Rightarrow> bool" where
  "safe_entry kv \<longleftrightarrow>
     fst kv \<noteq> '''' \<and> (\<exists>k. fst kv = ToLower (TrimSpace k)) \<and>
     \<not> containsSensitiveToken (fst kv) \<and> length (snd kv) \<le> 256"

lemma safe_entry_put:
  assumes "ToLower (TrimSpace key) \<noteq> ''''" "\<not> containsSensitiveToken (ToLower (TrimSpace key))"
    "length w \<le> 256" "\<forall>kv \<in> set safe. safe_entry kv"
  shows "\<forall>kv \<in> set (map_put (ToLower (TrimSpace key)) w safe). safe_entry kv"
proof -
  have "safe_entry (ToLower (TrimSpace key), w)"
    unfolding safe_entry_def using assms(1,2,3) by auto
  with assms(4) set_map_put [of "ToLower (TrimSpace key)" w safe] show ?thesis by blast
qed

definition kept_key :: "string \<Rightarrow> bool" where
  "kept_key k \<longleftrightarrow> k \<noteq> '''' \<and> \<not> containsSensitiveToken k"

lemma sanitize_loop_Cons:
  "sanitize_loop safe ((key, v) # flds) =
   (if kept_key (ToLower (TrimSpace key))
    then sanitize_loop (map_put (ToLower (TrimSpace key)) (take 256 (TrimSpace v)) safe) flds
    else sanitize_loop safe flds)"
  by (simp add: Let_def kept_key_def)

lemma sanitize_loop_safe:
  "\<forall>kv \<in> set safe. safe_entry kv \<Longrightarrow> \<forall>kv \<in> set (sanitize_loop safe flds). safe_entry kv"
proof (induction flds arbitrary: safe)
  case (Cons kv flds)
  obtain key v where kv: "kv = (key, v)" by (cases kv)
  show ?case
  proof (cases "kept_key (ToLower (TrimSpace key))")
    case True
    then have "\<forall>kv \<in> set (map_put (ToLower (TrimSpace key)) (take 256 (TrimSpace v)) safe). safe_entry kv"
      using Cons.prems by (intro safe_entry_put) (simp_all add: kept_key_def)
    from Cons.IH [OF this] True show ?thesis by (simp only: kv sanitize_loop_Cons if_True)
  next
    case False
    with Cons show ?thesis by (simp only: kv sanitize_loop_Cons if_False)
  qed
qed simp

lemma sanitize_loop_keys:
  "fst ` set (sanitize_loop safe flds) =
   fst ` set safe \<union> {k \<in> set (map (\<lambda>kv. ToLower (TrimSpace (fst kv))) flds). kept_key k}"
proof (induction flds arbitrary: safe)
  case (Cons kv flds)
  obtain key v where kv: "kv = (key, v)" by (cases kv)
  have kept: "insert x (A \<union> {y \<in> B. kept_key y}) = A \<union> {y \<in> insert x B. kept_key y}" if "kept_key x" for x A B
    using that by blast
  have dropped: "{y \<in> insert x B. kept_key y} = {y \<in> B. kept_key y}" if "\<not> kept_key x" for x B
    using that by blast
  show ?case
  proof (cases "kept_key (ToLower (TrimSpace key))")
    case True
    then show ?thesis
      by (simp only: kv sanitize_loop_Cons if_True Cons.IH keys_map_put Un_insert_left kept list.map
          list.set fst_conv)
  next
    case False
    then show ?thesis
      by (simp only: kv sanitize_loop_Cons if_False Cons.IH dropped [OF False] list.map list.set fst_conv)
  qed
qed simp

lemma validateEvent_None:
  "validateEvent ev = None \<longleftrightarrow>
   TrimSpace (event_Action ev) \<noteq> '''' \<and> TrimSpace (event_TargetType ev) \<noteq> '''' \<and>
   TrimSpace (event_TargetID ev) \<noteq> '''' \<and> TrimSpace (event_ChangeSummary ev) \<noteq> ''''"
  by (simp add: validateEvent_def)

end
