(* ===== verification/Database.thy ===== *)
theory Database
  imports Follow_Domain Diagnostics
begin

text \<open>
  The database the repositories of \<open>internal/repository/postgres\<close> work on: one list of rows per table
  of \<open>db/migrations\<close>, the constraints those migrations declare, and how a call of the driver can
  fail.

  A column that may be NULL is an \<open>option\<close>; a text column that the code converts to one of its string
  types is kept at that type.  \<open>NOW()\<close> and \<open>time.Now()\<close> read \<open>db_now\<close>; \<open>uuid.New()\<close> reads the next
  entry of \<open>db_uuid_src\<close>.

  Every call of the driver (begin, query, exec, commit) takes the next entry of \<open>db_faults\<close>: it may
  succeed, fail without effect, or take effect with the reply lost, so that the caller sees an error
  although the write is there.  When the list is used up no call fails any more.  A transaction that
  does not commit leaves the tables as they were.  The text of a constraint error is the driver's own;
  no code depends on it.
\<close>

section \<open>Rows\<close>

record task_row =
  trow_id :: uuid
  trow_source_task_id :: "uuid option"
  trow_account_id :: uuid
  trow_target_profile :: string
  trow_status :: task_status
  trow_attempt :: int
  trow_claimed_by :: "string option"
  trow_claimed_at :: "time option"
  trow_started_at :: "time option"
  trow_finished_at :: "time option"
  trow_error_code :: "error_code option"
  trow_result_reason :: "string option"
  trow_created_at :: time
  trow_updated_at :: time

record account_row =
  arow_id :: uuid
  arow_username :: string
  arow_proxy_id :: "uuid option"
  arow_credential_source :: credential_source
  arow_credential_ref :: string
  arow_operational_state :: account_operational_state
  arow_is_active :: bool
  arow_is_ready :: bool
  arow_is_quarantined :: bool
  arow_is_restricted :: bool
  arow_limit_reached :: bool
  arow_active_execution_context_id :: "string option"
  arow_created_at :: time
  arow_updated_at :: time

record session_row =
  srow_account_id :: uuid
  srow_revision :: int
  srow_status :: session_status
  srow_object_key :: string
  srow_error_code :: "error_code option"
  srow_last_restored_at :: "time option"
  srow_created_at :: time
  srow_updated_at :: time

record result_row =
  rrow_task_id :: uuid
  rrow_attempt :: int
  rrow_account_id :: uuid
  rrow_target_profile :: string
  rrow_outcome :: follow_flow_outcome
  rrow_verified :: bool
  rrow_verification_signal :: follow_verification_signal
  rrow_verification_reason :: "string option"
  rrow_error_code :: "error_code option"
  rrow_screenshot_object_key :: string
  rrow_artifact_object_keys :: "string list"
  rrow_session_revision :: "int option"
  rrow_created_at :: time
  rrow_updated_at :: time

datatype db_fault =
    NoFault
  | Failed go_error
  | ReplyLost go_error

record db =
  db_tasks :: "task_row list"
  db_accounts :: "account_row list"
  db_proxies :: "proxy list"
  db_sessions :: "session_row list"
  db_results :: "result_row list"
  db_audit :: "audit_record list"
  db_now :: time
  db_uuid_src :: "nat \<Rightarrow> uuid"
  db_uuid_next :: nat
  db_faults :: "db_fault list"
  db_locked :: "uuid list"


section \<open>Constraints\<close>

definition BTRIM :: "string \<Rightarrow> string" where
  "BTRIM s = trim_both (\<lambda>c. c = CHR '' '') s"

definition nonblank :: "string option \<Rightarrow> bool" where
  "nonblank v = (case v of None \<Rightarrow> False | Some s \<Rightarrow> BTRIM s \<noteq> '''')"

text \<open>\<open>chk_tasks_lifecycle_consistency\<close> as migration 000014 leaves it, one disjunct per status.\<close>

definition chk_tasks_lifecycle_consistency :: "task_row \<Rightarrow> bool" where
  "chk_tasks_lifecycle_consistency r =
     (let unclaimed = (trow_claimed_by r = None \<and> trow_claimed_at r = None \<and> trow_started_at r = None);
          claimed = (trow_attempt r > 0 \<and> nonblank (trow_claimed_by r) \<and> trow_claimed_at r \<noteq> None \<and>
                     trow_started_at r \<noteq> None);
          no_reason = (trow_error_code r = None \<and> trow_result_reason r = None);
          target = (BTRIM (trow_target_profile r) \<noteq> '''')
      in case trow_status r of
           TaskStatusQueued \<Rightarrow>
             trow_attempt r \<ge> 0 \<and> target \<and> unclaimed \<and> trow_finished_at r = None \<and> no_reason
         | TaskStatusRunning \<Rightarrow> target \<and> claimed \<and> trow_finished_at r = None \<and> no_reason
         | TaskStatusSuccess \<Rightarrow> target \<and> claimed \<and> trow_finished_at r \<noteq> None \<and> no_reason
         | TaskStatusRetry \<Rightarrow> target \<and> claimed \<and> trow_finished_at r \<noteq> None \<and>
             (nonblank (map_option error_code_str (trow_error_code r)) \<or> nonblank (trow_result_reason r))
         | TaskStatusFail \<Rightarrow> target \<and> claimed \<and> trow_finished_at r \<noteq> None \<and>
             (nonblank (map_option error_code_str (trow_error_code r)) \<or> nonblank (trow_result_reason r))
         | TaskStatusCanceled \<Rightarrow>
             trow_attempt r \<ge> 0 \<and> target \<and> unclaimed \<and> trow_finished_at r \<noteq> None \<and>
             trow_error_code r = None \<and> nonblank (trow_result_reason r)
         | TaskStatusOther s \<Rightarrow> False)"

definition le_unless_null :: "time option \<Rightarrow> time option \<Rightarrow> bool" where
  "le_unless_null a b = (case (a, b) of (Some x, Some y) \<Rightarrow> x \<le> y | _ \<Rightarrow> True)"

definition chk_tasks_lifecycle_temporal_order :: "task_row \<Rightarrow> bool" where
  "chk_tasks_lifecycle_temporal_order r \<longleftrightarrow>
     le_unless_null (trow_claimed_at r) (trow_started_at r) \<and>
     le_unless_null (trow_started_at r) (trow_finished_at r)"

definition int4_max :: int where
  "int4_max = 2147483647"

definition task_row_ok :: "task_row \<Rightarrow> bool" where
  "task_row_ok r \<longleftrightarrow>
     TaskStatus_IsValid (trow_status r) \<and>
     0 \<le> trow_attempt r \<and> trow_attempt r \<le> int4_max \<and>
     BTRIM (trow_target_profile r) \<noteq> '''' \<and>
     trow_source_task_id r \<noteq> Some (trow_id r) \<and>
     chk_tasks_lifecycle_consistency r \<and> chk_tasks_lifecycle_temporal_order r"

definition account_row_ok :: "account_row \<Rightarrow> bool" where
  "account_row_ok r \<longleftrightarrow>
     AccountState_IsValid (arow_operational_state r) \<and>
     CredentialSource_IsValid (arow_credential_source r) \<and>
     BTRIM (arow_credential_ref r) \<noteq> ''''"

definition session_row_ok :: "session_row \<Rightarrow> bool" where
  "session_row_ok r \<longleftrightarrow>
     srow_revision r > 0 \<and> SessionStatus_IsValid (srow_status r) \<and>
     \<not> (srow_status r = SessionStatusValid \<and> srow_error_code r \<noteq> None)"

definition result_row_ok :: "result_row \<Rightarrow> bool" where
  "result_row_ok r \<longleftrightarrow>
     rrow_attempt r > 0 \<and> rrow_attempt r \<le> int4_max \<and>
     (case rrow_session_revision r of None \<Rightarrow> True | Some v \<Rightarrow> v > 0) \<and>
     BTRIM (rrow_target_profile r) \<noteq> '''' \<and> FollowFlowOutcome_IsValid (rrow_outcome r) \<and>
     FollowVerificationSignal_IsValid (rrow_verification_signal r) \<and>
     (if rrow_verified r then rrow_error_code r = None
      else nonblank (map_option error_code_str (rrow_error_code r))) \<and>
     BTRIM (rrow_screenshot_object_key r) \<noteq> '''' \<and> rrow_artifact_object_keys r \<noteq> []"

text \<open>
  Constraints between rows: primary keys, \<open>UNIQUE (username)\<close>, the partial unique index
  \<open>ux_accounts_active_execution_context\<close>, and the foreign keys.
\<close>

definition active_contexts :: "account_row list \<Rightarrow> string list" where
  "active_contexts accounts = List.map_filter arow_active_execution_context_id accounts"

definition accounts_ok :: "proxy list \<Rightarrow> account_row list \<Rightarrow> bool" where
  "accounts_ok proxies accounts \<longleftrightarrow>
     distinct (map arow_id accounts) \<and> distinct (map arow_username accounts) \<and>
     distinct (active_contexts accounts) \<and> list_all account_row_ok accounts \<and>
     list_all (\<lambda>a. case arow_proxy_id a of None \<Rightarrow> True | Some p \<Rightarrow> p \<in> set (map proxy_ID proxies)) accounts"

definition tasks_ok :: "account_row list \<Rightarrow> task_row list \<Rightarrow> bool" where
  "tasks_ok accounts tasks \<longleftrightarrow>
     distinct (map trow_id tasks) \<and> list_all task_row_ok tasks \<and>
     list_all (\<lambda>t. trow_account_id t \<in> set (map arow_id accounts)) tasks \<and>
     list_all (\<lambda>t. case trow_source_task_id t of None \<Rightarrow> True | Some i \<Rightarrow> i \<in> set (map trow_id tasks)) tasks"

definition sessions_ok :: "account_row list \<Rightarrow> session_row list \<Rightarrow> bool" where
  "sessions_ok accounts sessions \<longleftrightarrow>
     distinct (map srow_account_id sessions) \<and> list_all session_row_ok sessions \<and>
     list_all (\<lambda>r. srow_account_id r \<in> set (map arow_id accounts)) sessions"

definition results_ok :: "account_row list \<Rightarrow> task_row list \<Rightarrow> result_row list \<Rightarrow> bool" where
  "results_ok accounts tasks results \<longleftrightarrow>
     distinct (map (\<lambda>r. (rrow_task_id r, rrow_attempt r)) results) \<and> list_all result_row_ok results \<and>
     list_all (\<lambda>r. rrow_account_id r \<in> set (map arow_id accounts) \<and>
                   (rrow_task_id r, rrow_account_id r) \<in>
                     set (map (\<lambda>t. (trow_id t, trow_account_id t)) tasks)) results"

definition db_ok :: "('x) db_scheme \<Rightarrow> bool" where
  "db_ok s \<longleftrightarrow>
     distinct (map proxy_ID (db_proxies s)) \<and> list_all (\<lambda>p. proxy_Port p > 0) (db_proxies s) \<and>
     accounts_ok (db_proxies s) (db_accounts s) \<and>
     tasks_ok (db_accounts s) (db_tasks s) \<and>
     sessions_ok (db_accounts s) (db_sessions s) \<and>
     results_ok (db_accounts s) (db_tasks s) (db_results s) \<and>
     distinct (map record_ID (db_audit s))"


section \<open>Calls of the driver\<close>

definition pop_fault :: "('x) db_scheme \<Rightarrow> db_fault \<times> ('x) db_scheme" where
  "pop_fault s = (case db_faults s of [] \<Rightarrow> (NoFault, s) | f # fs \<Rightarrow> (f, s\<lparr>db_faults := fs\<rparr>))"

definition new_uuid :: "('x) db_scheme \<Rightarrow> uuid \<times> ('x) db_scheme" where
  "new_uuid s = (db_uuid_src s (db_uuid_next s), s\<lparr>db_uuid_next := Suc (db_uuid_next s)\<rparr>)"

text \<open>A statement either fails, or returns a value and the new tables.\<close>

type_synonym ('a, 's) stmt = "'s \<Rightarrow> go_error + ('a \<times> 's)"

text \<open>\<open>pool.QueryRow\<close>, \<open>pool.Exec\<close>: the statement is a transaction of its own.\<close>

definition autocommit ::
  "('a, ('x) db_scheme) stmt \<Rightarrow> ('x) db_scheme \<Rightarrow> (go_error + 'a) \<times> ('x) db_scheme" where
  "autocommit st s =
     (case pop_fault s of
        (NoFault, s1) \<Rightarrow> (case st s1 of Inl e \<Rightarrow> (Inl e, s1) | Inr (x, s2) \<Rightarrow> (Inr x, s2))
      | (Failed e, s1) \<Rightarrow> (Inl e, s1)
      | (ReplyLost e, s1) \<Rightarrow> (case st s1 of Inl e' \<Rightarrow> (Inl e, s1) | Inr (x, s2) \<Rightarrow> (Inl e, s2)))"

text \<open>\<open>tx.QueryRow\<close>, \<open>tx.Exec\<close>: any failure ends the transaction.\<close>

definition in_tx ::
  "('a, ('x) db_scheme) stmt \<Rightarrow> ('x) db_scheme \<Rightarrow> (go_error + 'a) \<times> ('x) db_scheme" where
  "in_tx st s =
     (case pop_fault s of
        (NoFault, s1) \<Rightarrow> (case st s1 of Inl e \<Rightarrow> (Inl e, s1) | Inr (x, s2) \<Rightarrow> (Inr x, s2))
      | (Failed e, s1) \<Rightarrow> (Inl e, s1)
      | (ReplyLost e, s1) \<Rightarrow> (Inl e, s1))"

definition rollback :: "('x) db_scheme \<Rightarrow> ('x) db_scheme \<Rightarrow> ('x) db_scheme" where
  "rollback s0 s =
     s0\<lparr>db_faults := db_faults s, db_uuid_next := db_uuid_next s\<rparr>"

text \<open>
  \<open>BeginTx\<close>, a body, \<open>Commit\<close>, with the deferred \<open>Rollback\<close>; \<open>on_begin\<close> and \<open>on_commit\<close> are what the
  code makes of the driver's error.
\<close>

definition transaction ::
  "(go_error \<Rightarrow> go_error) \<Rightarrow> ('a \<Rightarrow> go_error \<Rightarrow> go_error) \<Rightarrow>
   (('x) db_scheme \<Rightarrow> (go_error + 'a) \<times> ('x) db_scheme) \<Rightarrow>
   ('x) db_scheme \<Rightarrow> (go_error + 'a) \<times> ('x) db_scheme" where
  "transaction on_begin on_commit body s =
     (case pop_fault s of
        (Failed e, s1) \<Rightarrow> (Inl (on_begin e), s1)
      | (ReplyLost e, s1) \<Rightarrow> (Inl (on_begin e), s1)
      | (NoFault, s1) \<Rightarrow>
          (case body s1 of
             (Inl e, s2) \<Rightarrow> (Inl e, rollback s1 s2)
           | (Inr x, s2) \<Rightarrow>
               (case pop_fault s2 of
                  (NoFault, s3) \<Rightarrow> (Inr x, s3)
                | (Failed e, s3) \<Rightarrow> (Inl (on_commit x e), rollback s1 s3)
                | (ReplyLost e, s3) \<Rightarrow> (Inl (on_commit x e), s3))))"

definition constraint_error :: "string \<Rightarrow> go_error" where
  "constraint_error name = PlainErr (''violates constraint '' @ name)"


section \<open>Lemmas\<close>

text \<open>\<open>same_tables\<close>: what a failed transaction keeps.\<close>

definition same_tables :: "('x) db_scheme \<Rightarrow> ('x) db_scheme \<Rightarrow> bool" where
  "same_tables s s' \<longleftrightarrow>
     db_tasks s' = db_tasks s \<and> db_accounts s' = db_accounts s \<and> db_proxies s' = db_proxies s \<and>
     db_sessions s' = db_sessions s \<and> db_results s' = db_results s \<and> db_audit s' = db_audit s \<and>
     db_now s' = db_now s \<and> db_locked s' = db_locked s"

lemma same_tables_refl [simp]: "same_tables s s"
  by (simp add: same_tables_def)

lemma same_tables_trans [trans]: "same_tables s t \<Longrightarrow> same_tables t u \<Longrightarrow> same_tables s u"
  by (simp add: same_tables_def)

lemma db_ok_same_tables: "same_tables s s' \<Longrightarrow> db_ok s' = db_ok s"
  by (simp add: same_tables_def db_ok_def)

lemma same_tables_pop_fault: "pop_fault s = (f, s') \<Longrightarrow> same_tables s s'"
  by (auto simp: pop_fault_def same_tables_def split: list.splits)

lemma same_tables_new_uuid: "new_uuid s = (u, s') \<Longrightarrow> same_tables s s'"
  by (auto simp: new_uuid_def same_tables_def)

lemma same_tables_rollback: "same_tables s0 (rollback s0 s)"
  by (simp add: same_tables_def rollback_def)

text \<open>
  A transition property of a statement holds of the call that runs it: \<open>P\<close> relates the tables before
  and after, and depends on the tables only.
\<close>

definition table_relation :: "(('x) db_scheme \<Rightarrow> ('x) db_scheme \<Rightarrow> bool) \<Rightarrow> bool" where
  "table_relation P \<longleftrightarrow>
     (\<forall>s s'. same_tables s s' \<longrightarrow> P s s') \<and>
     (\<forall>s t u. same_tables s t \<longrightarrow> P t u \<longrightarrow> P s u) \<and>
     (\<forall>s t u. P s t \<longrightarrow> same_tables t u \<longrightarrow> P s u)"

lemma table_relationD:
  assumes "table_relation P"
  shows "same_tables s s' \<Longrightarrow> P s s'" "same_tables s t \<Longrightarrow> P t u \<Longrightarrow> P s u"
    "P s t \<Longrightarrow> same_tables t u \<Longrightarrow> P s u"
  using assms unfolding table_relation_def by blast+

lemma autocommit_relation:
  assumes P: "table_relation P" and st: "\<And>s x s'. st s = Inr (x, s') \<Longrightarrow> P s s'"
    and run: "autocommit st s = (r, s')"
  shows "P s s'"
proof -
  obtain f s1 where pf: "pop_fault s = (f, s1)" by (cases "pop_fault s")
  note same = same_tables_pop_fault [OF pf]
  show ?thesis
  proof (cases "st s1")
    case (Inl e)
    then have "s' = s1" using run pf by (auto simp: autocommit_def split: db_fault.splits)
    then show ?thesis using same table_relationD(1) [OF P] by simp
  next
    case (Inr xs)
    then obtain x s2 where "st s1 = Inr (x, s2)" by (cases xs) auto
    then have "P s s2" using st same table_relationD(2) [OF P] by blast
    moreover have "s' = s1 \<or> s' = s2"
      using run pf \<open>st s1 = Inr (x, s2)\<close> by (auto simp: autocommit_def split: db_fault.splits)
    ultimately show ?thesis using same table_relationD(1) [OF P] by blast
  qed
qed

lemma transaction_relation:
  assumes P: "table_relation P" and body: "\<And>s x s'. body s = (Inr x, s') \<Longrightarrow> P s s'"
    and run: "transaction on_begin on_commit body s = (r, s')"
  shows "P s s'"
proof -
  obtain f s1 where pf: "pop_fault s = (f, s1)" by (cases "pop_fault s")
  note same = same_tables_pop_fault [OF pf]
  obtain rb s2 where b: "body s1 = (rb, s2)" by (cases "body s1")
  obtain f2 s3 where pf2: "pop_fault s2 = (f2, s3)" by (cases "pop_fault s2")
  note same2 = same_tables_pop_fault [OF pf2]
  have cases: "same_tables s1 s' \<or> (\<exists>x. rb = Inr x \<and> s' = s3)"
    using run pf b pf2 same_tables_rollback
    by (auto simp: transaction_def split: db_fault.splits sum.splits)
  then show ?thesis
  proof
    assume "same_tables s1 s'"
    then show ?thesis using same same_tables_trans table_relationD(1) [OF P] by blast
  next
    assume "\<exists>x. rb = Inr x \<and> s' = s3"
    then have "P s1 s2" "s' = s3" using body b by blast+
    then show ?thesis using same same2 table_relationD(2,3) [OF P] by blast
  qed
qed

lemma in_tx_Inr: "in_tx st s = (Inr x, s') \<Longrightarrow> \<exists>s1. same_tables s s1 \<and> st s1 = Inr (x, s')"
  using same_tables_pop_fault [of s]
  by (auto simp: in_tx_def split: db_fault.splits sum.splits prod.splits)

lemma autocommit_Inr: "autocommit st s = (Inr x, s') \<Longrightarrow> \<exists>s1. same_tables s s1 \<and> st s1 = Inr (x, s')"
  using same_tables_pop_fault [of s]
  by (auto simp: autocommit_def split: db_fault.splits sum.splits prod.splits)

lemma transaction_Inr:
  "transaction on_begin on_commit body s = (Inr x, s') \<Longrightarrow>
   \<exists>s1 s2. same_tables s s1 \<and> body s1 = (Inr x, s2) \<and> same_tables s2 s'"
  using same_tables_pop_fault
  by (fastforce simp: transaction_def split: db_fault.splits sum.splits prod.splits)

lemma transaction_cases:
  assumes "transaction on_begin on_commit body s = (r, s')"
  shows "(\<exists>e. r = Inl e) \<and> same_tables s s' \<or>
    (\<exists>x s1 s2. same_tables s s1 \<and> body s1 = (Inr x, s2) \<and> same_tables s2 s' \<and>
               (r = Inr x \<or> (\<exists>e. r = Inl e)))"
proof -
  obtain f s1 where pf: "pop_fault s = (f, s1)" by (cases "pop_fault s")
  note same = same_tables_pop_fault [OF pf]
  obtain rb s2 where b: "body s1 = (rb, s2)" by (cases "body s1")
  obtain f2 s3 where pf2: "pop_fault s2 = (f2, s3)" by (cases "pop_fault s2")
  note same2 = same_tables_pop_fault [OF pf2]
  have rolled: "same_tables s (rollback s1 t)" for t
    using same same_tables_rollback same_tables_trans by blast
  show ?thesis
  proof (cases rb)
    case (Inl e)
    then show ?thesis using assms pf b same rolled by (auto simp: transaction_def split: db_fault.splits)
  next
    case (Inr x)
    then have "(\<exists>e. r = Inl e) \<and> same_tables s s' \<or> s' = s3 \<and> (r = Inr x \<or> (\<exists>e. r = Inl e))"
      using assms pf b pf2 same rolled by (cases f; cases f2) (auto simp: transaction_def)
    then show ?thesis using same b Inr same2 by blast
  qed
qed

text \<open>The four ways a transaction ends.\<close>

lemma transaction_ends:
  assumes "transaction on_begin on_commit body s = (r, s')"
  obtains (begin_failed) e where "r = Inl (on_begin e)" "same_tables s s'"
  | (refused) e s1 s2 where "r = Inl e" "same_tables s s1" "body s1 = (Inl e, s2)" "same_tables s s'"
  | (commit_failed) x e where "r = Inl (on_commit x e)" "same_tables s s'"
  | (ran) x s1 s2 where "same_tables s s1" "body s1 = (Inr x, s2)" "same_tables s2 s'" "r = Inr x \<or> (\<exists>e. r = Inl (on_commit x e))"
proof -
  obtain f s1 where pf: "pop_fault s = (f, s1)" by (cases "pop_fault s")
  note same = same_tables_pop_fault [OF pf]
  obtain rb s2 where b: "body s1 = (rb, s2)" by (cases "body s1")
  obtain f2 s3 where pf2: "pop_fault s2 = (f2, s3)" by (cases "pop_fault s2")
  note same2 = same_tables_pop_fault [OF pf2]
  have rolled: "same_tables s (rollback s1 t)" for t
    using same same_tables_rollback same_tables_trans by blast
  show ?thesis
  proof (cases "f = NoFault")
    case False
    then show ?thesis using assms pf same begin_failed by (cases f) (auto simp: transaction_def)
  next
    case NoFault: True
    show ?thesis
    proof (cases rb)
      case (Inl e)
      then show ?thesis
        using assms pf b same rolled refused [of e s1 s2] NoFault by (auto simp: transaction_def)
    next
      case (Inr x)
      then show ?thesis
        using assms pf b pf2 same same2 rolled NoFault commit_failed ran [of s1 x s2]
        by (cases f2) (auto simp: transaction_def)
    qed
  qed
qed

text \<open>Without faults every call goes through.\<close>

lemma pop_fault_Nil [simp]: "db_faults s = [] \<Longrightarrow> pop_fault s = (NoFault, s)"
  by (simp add: pop_fault_def)

lemma trim_space_nonblank: "TrimSpace s \<noteq> '''' \<Longrightarrow> BTRIM s \<noteq> ''''"
  by (auto simp: TrimSpace_eq_Nil BTRIM_def trim_both_eq_Nil is_space_def)

text \<open>A statement run on its own either took effect, or the tables are as they were.\<close>

lemma autocommit_cases:
  assumes "autocommit st s = (r, s')"
  obtains (rejected) e s1 where "same_tables s s1" "s' = s1" "r = Inl e"
  | (ran) x s1 s2 where "same_tables s s1" "st s1 = Inr (x, s2)" "s' = s2" "r = Inr x \<or> (\<exists>e. r = Inl e)"
proof -
  obtain f s1 where pf: "pop_fault s = (f, s1)" by (cases "pop_fault s")
  note same = same_tables_pop_fault [OF pf]
  show ?thesis
    using assms pf same that
    by (cases f; cases "st s1") (auto simp: autocommit_def)
qed

end
