(* ===== verification/Audit_Trail.thy ===== *)
theory Audit_Trail
  imports Database
begin

text \<open>
  \<open>Log.Record\<close> of \<open>internal/audit/audit_log.go\<close> and the store behind it,
  \<open>internal/repository/postgres/audit_postgres.go\<close>.

  The interface \<open>audit.Store\<close> is the locale \<open>audit_store\<close>: what \<open>Record\<close> relies on is that an append
  that succeeds returns the record it was given and adds it at the end, and that an append touches
  nothing else.  \<open>AuditPostgresRepository\<close> is its interpretation.
\<close>

text \<open>Everything but the audit table.\<close>

definition same_core :: "('x) db_scheme \<Rightarrow> ('x) db_scheme \<Rightarrow> bool" where
  "same_core s s' \<longleftrightarrow>
     db_tasks s' = db_tasks s \<and> db_accounts s' = db_accounts s \<and> db_proxies s' = db_proxies s \<and>
     db_sessions s' = db_sessions s \<and> db_results s' = db_results s \<and> db_now s' = db_now s"

lemma same_core_refl [simp]: "same_core s s"
  by (simp add: same_core_def)

lemma same_core_trans [trans]: "same_core s t \<Longrightarrow> same_core t u \<Longrightarrow> same_core s u"
  by (simp add: same_core_def)


section \<open>AuditPostgresRepository\<close>

definition insert_audit :: "audit_record \<Rightarrow> (audit_record, ('x) db_scheme) stmt" where
  "insert_audit r s =
     (if record_ID r \<in> set (map record_ID (db_audit s)) then Inl (constraint_error ''audit_logs_pkey'')
      else Inr (r, s\<lparr>db_audit := db_audit s @ [r]\<rparr>))"

definition Audit_Append ::
  "go_context \<Rightarrow> audit_record \<Rightarrow> ('x) db_scheme \<Rightarrow> (go_error + audit_record) \<times> ('x) db_scheme" where
  "Audit_Append ctx r s =
     (case autocommit (insert_audit r) s of
        (Inl e, s') \<Rightarrow> (Inl (with_stack e), s')
      | (Inr r', s') \<Rightarrow> (Inr r', s'))"

definition select_recent_audit :: "nat \<Rightarrow> (audit_record list, ('x) db_scheme) stmt" where
  "select_recent_audit limit s =
     Inr (take limit (sort_key (\<lambda>r. - record_CreatedAt r) (db_audit s)), s)"

definition Audit_ListRecent ::
  "go_context \<Rightarrow> int \<Rightarrow> ('x) db_scheme \<Rightarrow> (go_error + audit_record list) \<times> ('x) db_scheme" where
  "Audit_ListRecent ctx limit s =
     (case autocommit (select_recent_audit (nat (if limit \<le> 0 then 20 else limit))) s of
        (Inl e, s') \<Rightarrow> (Inl (with_stack e), s')
      | (Inr rs, s') \<Rightarrow> (Inr rs, s'))"


section \<open>Log\<close>

record 'x audit_log =
  alog_store :: "(go_context \<Rightarrow> audit_record \<Rightarrow> 'x db_scheme \<Rightarrow> (go_error + audit_record) \<times> 'x db_scheme) option"

definition Log_Record ::
  "'x audit_log \<Rightarrow> go_context \<Rightarrow> audit_event \<Rightarrow> 'x db_scheme \<Rightarrow> (go_error + audit_record) \<times> 'x db_scheme" where
  "Log_Record l ctx ev s =
     (case alog_store l of
        None \<Rightarrow> (Inl (PlainErr ''audit store is not configured''), s)
      | Some appendRec \<Rightarrow>
        (case validateEvent ev of
           Some err \<Rightarrow> (Inl err, s)
         | None \<Rightarrow>
           let ac = (if actor_type_str (actor_Type (event_Actor ev)) = '''' \<and> actor_ID (event_Actor ev) = ''''
                     then ActorFromContext ctx else normalizeActor (event_Actor ev));
               (uid, s1) = new_uuid s;
               r = \<lparr>record_ID = uid,
                    record_ActorType = actor_Type ac,
                    record_ActorID = actor_ID ac,
                    record_Action = TrimSpace (event_Action ev),
                    record_TargetType = TrimSpace (event_TargetType ev),
                    record_TargetID = TrimSpace (event_TargetID ev),
                    record_ChangeSummary = TrimSpace (event_ChangeSummary ev),
                    record_DiagnosticFields = SanitizeDiagnosticFields (event_DiagnosticFields ev),
                    record_CreatedAt = db_now s1\<rparr>
           in appendRec ctx r s1))"

text \<open>How the repositories call it: the log may be absent and its error is dropped.\<close>

definition audit_best_effort ::
  "'x audit_log option \<Rightarrow> go_context \<Rightarrow> audit_event \<Rightarrow> 'x db_scheme \<Rightarrow> 'x db_scheme" where
  "audit_best_effort auditLog ctx ev s =
     (case auditLog of None \<Rightarrow> s | Some l \<Rightarrow> snd (Log_Record l ctx ev s))"


section \<open>The interface of an audit store\<close>

locale audit_store =
  fixes appendRec :: "go_context \<Rightarrow> audit_record \<Rightarrow> 'x db_scheme \<Rightarrow> (go_error + audit_record) \<times> 'x db_scheme"
  assumes append_Inr: "appendRec ctx r s = (Inr r', s') \<Longrightarrow> r' = r \<and> db_audit s' = db_audit s @ [r]"
    and append_Inl: "appendRec ctx r s = (Inl e, s') \<Longrightarrow> db_audit s' \<in> {db_audit s, db_audit s @ [r]}"
    and append_core: "appendRec ctx r s = (res, s') \<Longrightarrow> same_core s s'"
begin

text \<open>What any record written through \<open>Log.Record\<close> satisfies.\<close>

lemma Record_appends:
  assumes "Log_Record \<lparr>alog_store = Some appendRec\<rparr> ctx ev s = (res, s')"
  shows "same_core s s' \<and>
    (db_audit s' = db_audit s \<or>
     (\<exists>r. db_audit s' = db_audit s @ [r] \<and> (\<forall>kv \<in> set (record_DiagnosticFields r). safe_entry kv) \<and>
          record_Action r \<noteq> '''' \<and> record_TargetType r \<noteq> '''' \<and> record_TargetID r \<noteq> '''' \<and>
          record_ChangeSummary r \<noteq> ''''))"
proof (cases "validateEvent ev")
  case (Some err)
  then show ?thesis using assms by (simp add: Log_Record_def)
next
  case None
  obtain uid s1 where u: "new_uuid s = (uid, s1)" by (cases "new_uuid s")
  have s1: "same_core s s1" "db_audit s1 = db_audit s"
    using u by (auto simp: new_uuid_def same_core_def)
  from assms None u obtain r where r: "appendRec ctx r s1 = (res, s')"
    "record_DiagnosticFields r = SanitizeDiagnosticFields (event_DiagnosticFields ev)"
    "record_Action r = TrimSpace (event_Action ev)" "record_TargetType r = TrimSpace (event_TargetType ev)"
    "record_TargetID r = TrimSpace (event_TargetID ev)"
    "record_ChangeSummary r = TrimSpace (event_ChangeSummary ev)"
    by (auto simp: Log_Record_def Let_def)
  have safe: "\<forall>kv \<in> set (record_DiagnosticFields r). safe_entry kv"
    using sanitize_loop_safe [of "[]" "event_DiagnosticFields ev"]
    by (simp add: r(2) SanitizeDiagnosticFields_def)
  have "same_core s s'" using s1(1) append_core [OF r(1)] by (rule same_core_trans)
  moreover have "db_audit s' = db_audit s \<or> db_audit s' = db_audit s @ [r]"
    using r(1) append_Inr append_Inl s1(2) by (cases res) fastforce+
  ultimately show ?thesis using safe r(3-6) None by (auto simp: validateEvent_None)
qed

lemma best_effort_core:
  "same_core s (audit_best_effort (Some \<lparr>alog_store = Some appendRec\<rparr>) ctx ev s)"
  using Record_appends [of ctx ev s "fst (Log_Record \<lparr>alog_store = Some appendRec\<rparr> ctx ev s)"
      "snd (Log_Record \<lparr>alog_store = Some appendRec\<rparr> ctx ev s)"]
  by (simp add: audit_best_effort_def)

end

lemma insert_audit_Inr:
  "insert_audit r s = Inr (r', s') \<Longrightarrow>
   r' = r \<and> s' = s\<lparr>db_audit := db_audit s @ [r]\<rparr> \<and> record_ID r \<notin> set (map record_ID (db_audit s))"
  by (auto simp: insert_audit_def split: if_splits)

lemma pop_fault_core: "pop_fault s = (f, s') \<Longrightarrow> same_core s s' \<and> db_audit s' = db_audit s"
  by (auto simp: pop_fault_def same_core_def split: list.splits)

lemma Audit_Append_cases:
  assumes "Audit_Append ctx r s = (res, s')"
  shows "same_core s s' \<and>
    (case res of Inr r' \<Rightarrow> r' = r \<and> db_audit s' = db_audit s @ [r]
     | Inl e \<Rightarrow> db_audit s' \<in> {db_audit s, db_audit s @ [r]})"
proof -
  obtain f s1 where pf: "pop_fault s = (f, s1)" by (cases "pop_fault s")
  note core = pop_fault_core [OF pf]
  show ?thesis
    using assms pf core
    by (auto simp: Audit_Append_def autocommit_def insert_audit_def same_core_def
        split: db_fault.splits if_splits)
qed

interpretation pg_audit: audit_store Audit_Append
proof
  fix ctx r and s s' :: "'x db_scheme" and r' e res
  show "Audit_Append ctx r s = (Inr r', s') \<Longrightarrow> r' = r \<and> db_audit s' = db_audit s @ [r]"
    using Audit_Append_cases [of ctx r s "Inr r'" s'] by simp
  show "Audit_Append ctx r s = (Inl e, s') \<Longrightarrow> db_audit s' \<in> {db_audit s, db_audit s @ [r]}"
    using Audit_Append_cases [of ctx r s "Inl e" s'] by simp
  show "Audit_Append ctx r s = (res, s') \<Longrightarrow> same_core s s'"
    using Audit_Append_cases [of ctx r s res s'] by simp
qed

text \<open>The log the application builds: \<open>audit.NewLog(NewAuditRepository(pool), logger)\<close>.\<close>

definition pg_audit_log :: "'x audit_log" where
  "pg_audit_log = \<lparr>alog_store = Some Audit_Append\<rparr>"

text \<open>A repository is given no log, or a log over this store.\<close>

definition audit_wired :: "'x audit_log option \<Rightarrow> bool" where
  "audit_wired auditLog \<longleftrightarrow> auditLog = None \<or> auditLog = Some pg_audit_log"

lemma audit_best_effort_core:
  "audit_wired auditLog \<Longrightarrow> same_core s (audit_best_effort auditLog ctx ev s)"
  using pg_audit.best_effort_core by (auto simp: audit_wired_def pg_audit_log_def audit_best_effort_def)

end
