(* ===== verification/Task_Repository.thy ===== *)
theory Task_Repository
  imports Audit_Trail
begin

text \<open>
  \<open>internal/repository/postgres/task_postgres.go\<close>: the task queue.  A statement of the code is one
  \<open>stmt\<close>; an operation runs it on its own or inside a transaction, maps the driver's errors as the code
  does, and writes its audit record, in the transaction for the administrator's operations and after it,
  best effort, for a claim and a completion.

  \<open>Complete\<close> reads the task and then updates it in a second statement; what other workers do in between
  is the argument \<open>other\<close>.
\<close>

section \<open>Rows and tasks\<close>

definition task_of_row :: "task_row \<Rightarrow> task" where
  "task_of_row r =
     \<lparr>task_ID = trow_id r,
      task_SourceTaskID = trow_source_task_id r,
      task_AccountID = trow_account_id r,
      task_TargetProfile = trow_target_profile r,
      task_Status = trow_status r,
      task_Attempt = trow_attempt r,
      task_ClaimedBy = (case trow_claimed_by r of None \<Rightarrow> '''' | Some c \<Rightarrow> c),
      task_ClaimedAt = trow_claimed_at r,
      task_StartedAt = trow_started_at r,
      task_FinishedAt = trow_finished_at r,
      task_ErrorCode = (case trow_error_code r of None \<Rightarrow> no_error_code | Some c \<Rightarrow> c),
      task_ResultReason = (case trow_result_reason r of None \<Rightarrow> '''' | Some v \<Rightarrow> v),
      task_CreatedAt = trow_created_at r,
      task_UpdatedAt = trow_updated_at r\<rparr>"

definition scanTask :: "(go_error + task_row) \<times> 's \<Rightarrow> (go_error + task) \<times> 's" where
  "scanTask res =
     (case res of
        (Inl e, s) \<Rightarrow> (Inl (with_stack e), s)
      | (Inr r, s) \<Rightarrow> (Inr (task_of_row r), s))"

definition nullableString :: "string \<Rightarrow> string option" where
  "nullableString v = (if v = '''' then None else Some v)"

definition nullableUUID :: "uuid \<Rightarrow> uuid option" where
  "nullableUUID v = (if v = uuid_Nil then None else Some v)"

definition nullableErrorCode :: "error_code \<Rightarrow> error_code option" where
  "nullableErrorCode code = (if error_code_str code = '''' then None else Some code)"


section \<open>Statements\<close>

definition insert_task :: "task_row \<Rightarrow> (task_row, ('x) db_scheme) stmt" where
  "insert_task r s =
     (if trow_id r \<in> set (map trow_id (db_tasks s)) then Inl (constraint_error ''tasks_pkey'')
      else if \<not> task_row_ok r then Inl (constraint_error ''tasks_check'')
      else if trow_account_id r \<notin> set (map arow_id (db_accounts s)) then
        Inl (constraint_error ''tasks_account_id_fkey'')
      else if (case trow_source_task_id r of None \<Rightarrow> False
               | Some i \<Rightarrow> i \<notin> set (map trow_id (db_tasks s))) then
        Inl (constraint_error ''tasks_source_task_id_fkey'')
      else Inr (r, s\<lparr>db_tasks := db_tasks s @ [r]\<rparr>))"

definition queued_row :: "uuid \<Rightarrow> uuid option \<Rightarrow> uuid \<Rightarrow> string \<Rightarrow> int \<Rightarrow> time \<Rightarrow> task_row" where
  "queued_row tid source acc target attempt now =
     \<lparr>trow_id = tid, trow_source_task_id = source, trow_account_id = acc,
      trow_target_profile = target, trow_status = TaskStatusQueued, trow_attempt = attempt,
      trow_claimed_by = None, trow_claimed_at = None, trow_started_at = None,
      trow_finished_at = None, trow_error_code = None, trow_result_reason = None,
      trow_created_at = now, trow_updated_at = now\<rparr>"

definition select_task :: "uuid \<Rightarrow> (task_row, ('x) db_scheme) stmt" where
  "select_task tid s =
     (case find (\<lambda>r. trow_id r = tid) (db_tasks s) of None \<Rightarrow> Inl NoRows | Some r \<Rightarrow> Inr (r, s))"

text \<open>\<open>UPDATE tasks SET ... WHERE id = ... AND ... RETURNING\<close>: at most one row, as \<open>id\<close> is the key.\<close>

definition put_task :: "task_row \<Rightarrow> task_row list \<Rightarrow> task_row list" where
  "put_task r tasks = map (\<lambda>x. if trow_id x = trow_id r then r else x) tasks"

definition update_task ::
  "(task_row \<Rightarrow> bool) \<Rightarrow> (task_row \<Rightarrow> task_row) \<Rightarrow> (task_row, ('x) db_scheme) stmt" where
  "update_task cond upd s =
     (case find cond (db_tasks s) of
        None \<Rightarrow> Inl NoRows
      | Some r \<Rightarrow>
          if task_row_ok (upd r) then
            Inr (upd r, s\<lparr>db_tasks := put_task (upd r) (db_tasks s)\<rparr>)
          else Inl (constraint_error ''tasks_check''))"

text \<open>The claim: the oldest queued task that no other transaction has locked.\<close>

definition claimable :: "('x) db_scheme \<Rightarrow> task_row list" where
  "claimable s =
     sort_key trow_created_at (sort_key trow_id
       (filter (\<lambda>r. trow_status r = TaskStatusQueued \<and> trow_id r \<notin> set (db_locked s)) (db_tasks s)))"

definition claim_row :: "string \<Rightarrow> time \<Rightarrow> task_row \<Rightarrow> task_row" where
  "claim_row claimedBy now r =
     r\<lparr>trow_status := TaskStatusRunning, trow_claimed_by := Some claimedBy,
       trow_claimed_at := Some now, trow_started_at := Some now,
       trow_attempt := trow_attempt r + 1, trow_updated_at := now\<rparr>"

definition claim_next :: "string \<Rightarrow> (task_row, ('x) db_scheme) stmt" where
  "claim_next claimedBy s =
     (case claimable s of
        [] \<Rightarrow> Inl NoRows
      | r # rs \<Rightarrow> update_task (\<lambda>x. trow_id x = trow_id r) (claim_row claimedBy (db_now s)) s)"

definition complete_row :: "task_status \<Rightarrow> error_code option \<Rightarrow> string option \<Rightarrow> time \<Rightarrow> task_row \<Rightarrow> task_row" where
  "complete_row final code reason now r =
     r\<lparr>trow_status := final, trow_finished_at := Some now, trow_error_code := code,
       trow_result_reason := reason, trow_updated_at := now\<rparr>"

definition complete_stmt ::
  "uuid \<Rightarrow> string \<Rightarrow> task_status \<Rightarrow> error_code option \<Rightarrow> string option \<Rightarrow> (task_row, ('x) db_scheme) stmt" where
  "complete_stmt tid claimedBy final code reason s =
     update_task
       (\<lambda>r. trow_id r = tid \<and> trow_claimed_by r = Some claimedBy \<and> trow_status r = TaskStatusRunning)
       (complete_row final code reason (db_now s)) s"

definition admin_row :: "task_status \<Rightarrow> string option \<Rightarrow> time \<Rightarrow> task_row \<Rightarrow> task_row" where
  "admin_row to reason now r =
     r\<lparr>trow_status := to, trow_claimed_by := None, trow_claimed_at := None, trow_started_at := None,
       trow_finished_at := (if to = TaskStatusCanceled then Some now else None),
       trow_error_code := None,
       trow_result_reason := (if to = TaskStatusCanceled then reason else None),
       trow_updated_at := now\<rparr>"

definition admin_stmt :: "uuid \<Rightarrow> task_status \<Rightarrow> string option \<Rightarrow> (task_row, ('x) db_scheme) stmt" where
  "admin_stmt tid to reason s =
     update_task (\<lambda>r. trow_id r = tid) (admin_row to reason (db_now s)) s"


section \<open>Audit records\<close>

definition recordClaimedAudit ::
  "'x audit_log option \<Rightarrow> go_context \<Rightarrow> task \<Rightarrow> 'x db_scheme \<Rightarrow> 'x db_scheme" where
  "recordClaimedAudit auditLog ctx tk s =
     audit_best_effort auditLog ctx
       \<lparr>event_Actor = no_actor, event_Action = ''task.claimed'', event_TargetType = ''task'',
        event_TargetID = task_ID tk, event_ChangeSummary = ''task claimed and moved to running'',
        event_DiagnosticFields =
          [(''account_id'', task_AccountID tk), (''attempt'', Itoa (task_Attempt tk)),
           (''claimed_by'', task_ClaimedBy tk)]\<rparr> s"

definition recordCompletedAudit ::
  "'x audit_log option \<Rightarrow> go_context \<Rightarrow> task \<Rightarrow> 'x db_scheme \<Rightarrow> 'x db_scheme" where
  "recordCompletedAudit auditLog ctx tk s =
     audit_best_effort auditLog ctx
       \<lparr>event_Actor = no_actor,
        event_Action = (if task_Status tk = TaskStatusSuccess then ''task.succeeded'' else ''task.failed''),
        event_TargetType = ''task'', event_TargetID = task_ID tk,
        event_ChangeSummary =
          (if task_Status tk = TaskStatusSuccess then ''task completed with success''
           else ''task completed with '' @ task_status_str (task_Status tk)),
        event_DiagnosticFields =
          [(''account_id'', task_AccountID tk), (''attempt'', Itoa (task_Attempt tk)),
           (''claimed_by'', task_ClaimedBy tk), (''final_status'', task_status_str (task_Status tk)),
           (''error_code'', error_code_str (task_ErrorCode tk)),
           (''result_reason'', task_ResultReason tk)]\<rparr> s"

fun map_put_all :: "string_map \<Rightarrow> string_map \<Rightarrow> string_map" where
  "map_put_all m [] = m"
| "map_put_all m ((k, v) # extra) = map_put_all (map_put k v m) extra"

definition adminMutationDiagnosticFields ::
  "go_context \<Rightarrow> string \<Rightarrow> string \<Rightarrow> string_map \<Rightarrow> string_map" where
  "adminMutationDiagnosticFields ctx adminAction tid extra =
     SanitizeDiagnosticFields
       (map_put_all
          [(''correlation_id'', arc_CorrelationID (AdminRequestContextFrom ctx)),
           (''admin_action'', TrimSpace adminAction), (''operation_result'', ''success''),
           (''error_code'', ''none''), (''task_id'', TrimSpace tid)]
          extra)"

fun adminActionFromTransition :: "task_admin_action \<Rightarrow> string" where
  "adminActionFromTransition TaskAdminActionRetry = ''admin.retry_task''"
| "adminActionFromTransition TaskAdminActionCancel = ''admin.cancel_task''"
| "adminActionFromTransition (TaskAdminActionOther a) = ''admin.unknown''"

definition adminTransitionRecord ::
  "go_context \<Rightarrow> task \<Rightarrow> task \<Rightarrow> task_admin_transition \<Rightarrow> uuid \<Rightarrow> time \<Rightarrow> audit_record" where
  "adminTransitionRecord ctx before after transition uid now =
     (let ac = ActorFromContext ctx;
          diagnosticFields =
            adminMutationDiagnosticFields ctx (adminActionFromTransition (transition_Action transition))
              (task_ID after)
              [(''account_id'', task_AccountID after),
               (''from_status'', task_status_str (transition_FromStatus transition)),
               (''to_status'', task_status_str (transition_ToStatus transition)),
               (''attempt'', Itoa (task_Attempt after))];
          action = (case transition_Action transition of
                      TaskAdminActionRetry \<Rightarrow> ''task.retried''
                    | TaskAdminActionCancel \<Rightarrow> ''task.canceled''
                    | TaskAdminActionOther a \<Rightarrow> ''task.admin_transitioned'');
          changeSummary =
            ''admin transition applied: '' @ task_status_str (task_Status before) @ '' -> '' @
            task_status_str (task_Status after) @ '' ('' @
            task_admin_action_str (transition_Action transition) @ '')''
      in \<lparr>record_ID = uid, record_ActorType = actor_Type ac, record_ActorID = actor_ID ac,
          record_Action = action, record_TargetType = ''task'', record_TargetID = task_ID after,
          record_ChangeSummary = changeSummary, record_DiagnosticFields = diagnosticFields,
          record_CreatedAt = now\<rparr>)"

definition exec_audit :: "(uuid \<Rightarrow> time \<Rightarrow> audit_record) \<Rightarrow> 'x db_scheme \<Rightarrow> (go_error + unit) \<times> 'x db_scheme" where
  "exec_audit mk s =
     (case new_uuid s of (uid, s1) \<Rightarrow>
        (case in_tx (insert_audit (mk uid (db_now s1))) s1 of
           (Inl e, s2) \<Rightarrow> (Inl (with_stack e), s2)
         | (Inr r, s2) \<Rightarrow> (Inr (), s2)))"

definition appendAdminTransitionAuditLog ::
  "go_context \<Rightarrow> task \<Rightarrow> task \<Rightarrow> task_admin_transition \<Rightarrow> 'x db_scheme \<Rightarrow> (go_error + unit) \<times> 'x db_scheme" where
  "appendAdminTransitionAuditLog ctx before after transition s =
     exec_audit (adminTransitionRecord ctx before after transition) s"

definition taskRetryRecord :: "go_context \<Rightarrow> task \<Rightarrow> task \<Rightarrow> uuid \<Rightarrow> time \<Rightarrow> audit_record" where
  "taskRetryRecord ctx sourceTask newTask uid now =
     (let ac = ActorFromContext ctx
      in \<lparr>record_ID = uid, record_ActorType = actor_Type ac, record_ActorID = actor_ID ac,
          record_Action = ''task.retried'', record_TargetType = ''task'',
          record_TargetID = task_ID newTask,
          record_ChangeSummary = ''retry task created from source task '' @ task_ID sourceTask,
          record_DiagnosticFields =
            adminMutationDiagnosticFields ctx ''admin.retry_task'' (task_ID newTask)
              [(''account_id'', task_AccountID newTask), (''source_task_id'', task_ID sourceTask),
               (''new_task_id'', task_ID newTask),
               (''source_status'', task_status_str (task_Status sourceTask)),
               (''new_status'', task_status_str (task_Status newTask))],
          record_CreatedAt = now\<rparr>)"

definition appendTaskRetryAuditLog ::
  "go_context \<Rightarrow> task \<Rightarrow> task \<Rightarrow> 'x db_scheme \<Rightarrow> (go_error + unit) \<times> 'x db_scheme" where
  "appendTaskRetryAuditLog ctx sourceTask newTask s = exec_audit (taskRetryRecord ctx sourceTask newTask) s"


section \<open>Operations\<close>

definition Enqueue :: "go_context \<Rightarrow> task \<Rightarrow> 'x db_scheme \<Rightarrow> (go_error + task) \<times> 'x db_scheme" where
  "Enqueue ctx task0 s0 =
     (let (tk1, s) = (if task_ID task0 = uuid_Nil
                      then (case new_uuid s0 of (u, s) \<Rightarrow> (task0\<lparr>task_ID := u\<rparr>, s)) else (task0, s0));
          tk = (if task_status_str (task_Status tk1) = '''' then tk1\<lparr>task_Status := TaskStatusQueued\<rparr>
                else tk1)
      in if task_Status tk \<noteq> TaskStatusQueued then
           (Inl (NewDomainError ErrorCodeInvalidTaskTransition
                   (''enqueue supports only queued status, got '' @ task_status_str (task_Status tk))), s)
         else case Task_Validate tk of
           Some err \<Rightarrow> (Inl (with_stack err), s)
         | None \<Rightarrow>
           let sourceTaskID = (case task_SourceTaskID tk of None \<Rightarrow> uuid_Nil | Some i \<Rightarrow> i)
           in scanTask (autocommit
                (\<lambda>s. insert_task (queued_row (task_ID tk) (nullableUUID sourceTaskID) (task_AccountID tk)
                       (task_TargetProfile tk) (task_Attempt tk) (db_now s)) s) s))"

definition GetByID :: "go_context \<Rightarrow> uuid \<Rightarrow> 'x db_scheme \<Rightarrow> (go_error + task) \<times> 'x db_scheme" where
  "GetByID ctx taskID s =
     (if taskID = uuid_Nil then
        (Inl (NewDomainError ErrorCodeInvalidTaskIdentifier ''task id must not be empty''), s)
      else case scanTask (autocommit (select_task taskID) s) of
        (Inr tk, s1) \<Rightarrow> (Inr tk, s1)
      | (Inl e, s1) \<Rightarrow>
          if errors_is e NoRows then
            (Inl (NewDomainError ErrorCodeTaskNotFound (''task '' @ taskID @ '' not found'')), s1)
          else (Inl (with_stack e), s1))"

definition select_tasks_page ::
  "(task_row \<Rightarrow> bool) \<Rightarrow> nat \<Rightarrow> nat \<Rightarrow> (task_row list, ('x) db_scheme) stmt" where
  "select_tasks_page cond limit offset s =
     Inr (take limit (drop offset
            (rev (sort_key trow_updated_at (sort_key trow_id (filter cond (db_tasks s)))))), s)"

definition Task_List :: "go_context \<Rightarrow> int \<Rightarrow> int \<Rightarrow> 'x db_scheme \<Rightarrow> (go_error + task list) \<times> 'x db_scheme" where
  "Task_List ctx limit offset s =
     (if limit \<le> 0 then
        (Inl (NewDomainError ErrorCodeInvalidTaskTransition
                (''tasks list limit must be > 0, got '' @ Itoa limit)), s)
      else if offset < 0 then
        (Inl (NewDomainError ErrorCodeInvalidTaskTransition
                (''tasks list offset must be >= 0, got '' @ Itoa offset)), s)
      else case autocommit (select_tasks_page (\<lambda>r. True) (nat limit) (nat offset)) s of
        (Inl e, s1) \<Rightarrow> (Inl (with_stack e), s1)
      | (Inr rs, s1) \<Rightarrow> (Inr (map task_of_row rs), s1))"

definition ListFailures :: "go_context \<Rightarrow> int \<Rightarrow> int \<Rightarrow> 'x db_scheme \<Rightarrow> (go_error + task list) \<times> 'x db_scheme" where
  "ListFailures ctx limit offset s =
     (if limit \<le> 0 then
        (Inl (NewDomainError ErrorCodeInvalidTaskTransition
                (''failures limit must be > 0, got '' @ Itoa limit)), s)
      else if offset < 0 then
        (Inl (NewDomainError ErrorCodeInvalidTaskTransition
                (''failures offset must be >= 0, got '' @ Itoa offset)), s)
      else case autocommit
          (select_tasks_page (\<lambda>r. trow_status r \<in> {TaskStatusFail, TaskStatusRetry}) (nat limit) (nat offset)) s of
        (Inl e, s1) \<Rightarrow> (Inl (with_stack e), s1)
      | (Inr rs, s1) \<Rightarrow> (Inr (map task_of_row rs), s1))"

definition claim_body :: "string \<Rightarrow> 'x db_scheme \<Rightarrow> (go_error + task option) \<times> 'x db_scheme" where
  "claim_body claimedBy s =
     (case scanTask (in_tx (claim_next claimedBy) s) of
        (Inr tk, s1) \<Rightarrow> (Inr (Some tk), s1)
      | (Inl e, s1) \<Rightarrow> if errors_is e NoRows then (Inr None, s1) else (Inl (with_stack e), s1))"

definition ClaimNextQueued ::
  "'x audit_log option \<Rightarrow> go_context \<Rightarrow> string \<Rightarrow> 'x db_scheme \<Rightarrow> (go_error + task option) \<times> 'x db_scheme" where
  "ClaimNextQueued auditLog ctx claimedBy s =
     (if TrimSpace claimedBy = '''' then
        (Inl (NewDomainError ErrorCodeInvalidTaskClaimedBy ''claimed_by must not be empty''), s)
      else case transaction with_stack
          (\<lambda>found e. case found of None \<Rightarrow> e | Some tk \<Rightarrow> with_stack e) (claim_body claimedBy) s of
        (Inl e, s3) \<Rightarrow> (Inl e, s3)
      | (Inr None, s3) \<Rightarrow> (Inr None, s3)
      | (Inr (Some tk), s3) \<Rightarrow> (Inr (Some tk), recordClaimedAudit auditLog ctx tk s3))"

definition owner_mismatch :: "uuid \<Rightarrow> string \<Rightarrow> string \<Rightarrow> go_error" where
  "owner_mismatch taskID owner claimedBy =
     NewDomainError ErrorCodeTaskClaimOwnerMismatch
       (''task '' @ taskID @ '' is claimed by '' @ owner @ '', not '' @ claimedBy)"

definition Complete ::
  "'x audit_log option \<Rightarrow> (nat \<Rightarrow> 'x db_scheme \<Rightarrow> 'x db_scheme) \<Rightarrow> go_context \<Rightarrow> uuid \<Rightarrow> string \<Rightarrow>
   task_status \<Rightarrow> error_code \<Rightarrow> string \<Rightarrow> 'x db_scheme \<Rightarrow> (go_error + task) \<times> 'x db_scheme" where
  "Complete auditLog other ctx taskID claimedBy finalStatus errorCode0 resultReason0 s =
     (if taskID = uuid_Nil then
        (Inl (NewDomainError ErrorCodeInvalidTaskIdentifier ''task id must not be empty''), s)
      else if TrimSpace claimedBy = '''' then
        (Inl (NewDomainError ErrorCodeInvalidTaskClaimedBy ''claimed_by must not be empty''), s)
      else case GetByID ctx taskID s of
        (Inl e, s1) \<Rightarrow> (Inl (with_stack e), s1)
      | (Inr currentTask, s1) \<Rightarrow>
        if task_ClaimedBy currentTask \<noteq> claimedBy then
          (Inl (owner_mismatch taskID (task_ClaimedBy currentTask) claimedBy), s1)
        else case ValidateTaskCompletion (task_Status currentTask) finalStatus errorCode0 resultReason0 of
          Some err \<Rightarrow> (Inl (with_stack err), s1)
        | None \<Rightarrow>
          let errorCode = (if finalStatus = TaskStatusSuccess then no_error_code else errorCode0);
              resultReason = (if finalStatus = TaskStatusSuccess then '''' else resultReason0)
          in case scanTask (autocommit (complete_stmt taskID claimedBy finalStatus
                    (nullableErrorCode errorCode) (nullableString resultReason)) (other 0 s1)) of
            (Inr completedTask, s2) \<Rightarrow>
              (Inr completedTask, recordCompletedAudit auditLog ctx completedTask s2)
          | (Inl e, s2) \<Rightarrow>
              if errors_is e NoRows then
                (case GetByID ctx taskID (other 1 s2) of
                   (Inl latestErr, s3) \<Rightarrow> (Inl latestErr, s3)
                 | (Inr latestTask, s3) \<Rightarrow>
                     if task_ClaimedBy latestTask \<noteq> claimedBy then
                       (Inl (owner_mismatch taskID (task_ClaimedBy latestTask) claimedBy), s3)
                     else
                       (Inl (NewDomainError ErrorCodeTaskNotRunning
                               (''task '' @ taskID @ '' must be running to complete, got '' @
                                task_status_str (task_Status latestTask))), s3))
              else (Inl (with_stack e), s2))"

definition queue_write_failed :: "string \<Rightarrow> go_error \<Rightarrow> go_error" where
  "queue_write_failed what e =
     NewDomainError ErrorCodeTaskQueueWriteFailed (what @ '' failed: '' @ error_text e)"

definition normalizeAdminCancelReason :: "string \<Rightarrow> string" where
  "normalizeAdminCancelReason reason =
     (let normalized = TrimSpace reason in
      if normalized = '''' then ''task canceled by admin operator'' else normalized)"

definition admin_transition_body ::
  "go_context \<Rightarrow> uuid \<Rightarrow> task_admin_action \<Rightarrow> string \<Rightarrow> 'x db_scheme \<Rightarrow> (go_error + task) \<times> 'x db_scheme" where
  "admin_transition_body ctx taskID action cancelReason s =
     (case scanTask (in_tx (select_task taskID) s) of
        (Inl e, s1) \<Rightarrow>
          if errors_is e NoRows then
            (Inl (NewDomainError ErrorCodeTaskNotFound (''task '' @ taskID @ '' not found'')), s1)
          else (Inl (queue_write_failed ''lock task for admin transition'' e), s1)
      | (Inr lockedTask, s1) \<Rightarrow>
        (case EvaluateTaskAdminTransition (task_Status lockedTask) action of
           Inl e \<Rightarrow> (Inl (with_stack e), s1)
         | Inr transition \<Rightarrow>
           let normalizedCancelReason =
                 (if transition_Action transition = TaskAdminActionCancel
                  then normalizeAdminCancelReason cancelReason else '''')
           in case scanTask (in_tx (admin_stmt taskID (transition_ToStatus transition)
                               (nullableString normalizedCancelReason)) s1) of
                (Inl e, s2) \<Rightarrow> (Inl (queue_write_failed ''persist admin transition'' e), s2)
              | (Inr updatedTask, s2) \<Rightarrow>
                (case appendAdminTransitionAuditLog ctx lockedTask updatedTask transition s2 of
                   (Inl e, s3) \<Rightarrow> (Inl (queue_write_failed ''append admin transition audit'' e), s3)
                 | (Inr u, s3) \<Rightarrow> (Inr updatedTask, s3))))"

definition applyAdminTransition ::
  "go_context \<Rightarrow> uuid \<Rightarrow> task_admin_action \<Rightarrow> string \<Rightarrow> 'x db_scheme \<Rightarrow> (go_error + task) \<times> 'x db_scheme" where
  "applyAdminTransition ctx taskID action cancelReason s =
     (if taskID = uuid_Nil then
        (Inl (NewDomainError ErrorCodeInvalidTaskIdentifier ''task id must not be empty''), s)
      else transaction
        (queue_write_failed ''begin admin transition transaction'')
        (\<lambda>x. queue_write_failed ''commit admin transition transaction'')
        (admin_transition_body ctx taskID action cancelReason) s)"

definition ApplyAdminTransition ::
  "go_context \<Rightarrow> uuid \<Rightarrow> task_admin_action \<Rightarrow> 'x db_scheme \<Rightarrow> (go_error + task) \<times> 'x db_scheme" where
  "ApplyAdminTransition ctx taskID action s = applyAdminTransition ctx taskID action '''' s"

definition CancelTask ::
  "go_context \<Rightarrow> uuid \<Rightarrow> string \<Rightarrow> 'x db_scheme \<Rightarrow> (go_error + task) \<times> 'x db_scheme" where
  "CancelTask ctx taskID reason s = applyAdminTransition ctx taskID TaskAdminActionCancel reason s"

definition retry_body ::
  "go_context \<Rightarrow> uuid \<Rightarrow> 'x db_scheme \<Rightarrow> (go_error + task) \<times> 'x db_scheme" where
  "retry_body ctx sourceTaskID s =
     (case scanTask (in_tx (select_task sourceTaskID) s) of
        (Inl e, s1) \<Rightarrow>
          if errors_is e NoRows then
            (Inl (NewDomainError ErrorCodeTaskNotFound (''task '' @ sourceTaskID @ '' not found'')), s1)
          else (Inl (queue_write_failed ''lock source task for retry'' e), s1)
      | (Inr sourceTask, s1) \<Rightarrow>
        (case EvaluateTaskAdminTransition (task_Status sourceTask) TaskAdminActionRetry of
           Inl e \<Rightarrow> (Inl (with_stack e), s1)
         | Inr tr \<Rightarrow>
           let (newTaskID, s2) = new_uuid s1
           in case scanTask (in_tx (\<lambda>s. insert_task (queued_row newTaskID (Some (task_ID sourceTask))
                      (task_AccountID sourceTask) (task_TargetProfile sourceTask) 0 (db_now s)) s) s2) of
                (Inl e, s3) \<Rightarrow> (Inl (queue_write_failed ''insert retry task'' e), s3)
              | (Inr retriedTask, s3) \<Rightarrow>
                (case appendTaskRetryAuditLog ctx sourceTask retriedTask s3 of
                   (Inl e, s4) \<Rightarrow> (Inl (queue_write_failed ''append retry audit'' e), s4)
                 | (Inr u, s4) \<Rightarrow> (Inr retriedTask, s4))))"

definition RetryFromTask ::
  "go_context \<Rightarrow> uuid \<Rightarrow> 'x db_scheme \<Rightarrow> (go_error + task) \<times> 'x db_scheme" where
  "RetryFromTask ctx sourceTaskID s =
     (if sourceTaskID = uuid_Nil then
        (Inl (NewDomainError ErrorCodeInvalidTaskIdentifier ''source task id must not be empty''), s)
      else transaction (queue_write_failed ''begin retry transaction'')
        (\<lambda>x. queue_write_failed ''commit retry transaction'') (retry_body ctx sourceTaskID) s)"


section \<open>Batch import\<close>

record enqueue_row =
  er_Row :: int
  er_AccountID :: uuid
  er_TargetProfile :: string

record skipped_row =
  sk_Row :: int
  sk_Code :: string
  sk_Message :: string

record batch_result =
  br_RowsCreated :: nat
  br_RowsSkipped :: nat
  br_SkippedRows :: "skipped_row list"

definition empty_batch_result :: batch_result where
  "empty_batch_result = \<lparr>br_RowsCreated = 0, br_RowsSkipped = 0, br_SkippedRows = []\<rparr>"

definition enqueueSkipReasonMessage :: "string \<Rightarrow> string" where
  "enqueueSkipReasonMessage reasonCode =
     (let r = TrimSpace reasonCode in
      if r = ''duplicate_active_task'' then
        ''active queued/running task already exists for account_id+target_profile''
      else if r = ''account_not_found'' then ''account_id does not exist''
      else ''row skipped by queue import policy'')"

text \<open>The four parallel arrays the statement is given: row index, new task id, account, target.\<close>

record input_row =
  ir_row_index :: int
  ir_task_id :: uuid
  ir_account_id :: uuid
  ir_target_profile :: string

text \<open>The conversion \<open>int32(inputRow.Row)\<close>.\<close>

definition int32 :: "int \<Rightarrow> int" where
  "int32 i = (i + 2147483648) mod 4294967296 - 2147483648"

fun batch_inputs ::
  "enqueue_row list \<Rightarrow> input_row list \<Rightarrow> 'x db_scheme \<Rightarrow> (go_error + input_row list) \<times> 'x db_scheme" where
  "batch_inputs [] acc s = (Inr acc, s)"
| "batch_inputs (r # rows) acc s =
     (if er_Row r \<le> 0 then
        (Inl (NewDomainError ErrorCodeInvalidTaskTransition
                ''batch enqueue row index must be greater than zero''), s)
      else if er_AccountID r = uuid_Nil then
        (Inl (NewDomainError ErrorCodeInvalidAccountIdentifier
                ''batch enqueue account_id must not be empty''), s)
      else case new_uuid s of (tid, s1) \<Rightarrow>
        batch_inputs rows
          (acc @ [\<lparr>ir_row_index = int32 (er_Row r), ir_task_id = tid, ir_account_id = er_AccountID r,
                   ir_target_profile = TrimSpace (er_TargetProfile r)\<rparr>]) s1)"

text \<open>
  \<open>payload_ranked\<close>: within one account and target the row with the least row index ranks first;
  \<open>payload_split\<close> goes through the rows in that order and separates the first of each group from the
  rest.
\<close>

fun payload_split ::
  "(uuid \<times> string) list \<Rightarrow> input_row list \<Rightarrow> input_row list \<times> input_row list" where
  "payload_split seen [] = ([], [])"
| "payload_split seen (r # rows) =
     (let key = (ir_account_id r, ir_target_profile r) in
      if key \<in> set seen then (case payload_split seen rows of (us, ds) \<Rightarrow> (us, r # ds))
      else (case payload_split (key # seen) rows of (us, ds) \<Rightarrow> (r # us, ds)))"

definition missing_accounts :: "account_row list \<Rightarrow> input_row list \<Rightarrow> int list" where
  "missing_accounts accounts unique =
     map ir_row_index (filter (\<lambda>r. ir_account_id r \<notin> set (map arow_id accounts)) unique)"

text \<open>The inner join: one row for every matching active task.\<close>

definition active_duplicates :: "task_row list \<Rightarrow> input_row list \<Rightarrow> int list" where
  "active_duplicates tasks unique =
     concat (map (\<lambda>r. map (\<lambda>t. ir_row_index r)
       (filter (\<lambda>t. trow_account_id t = ir_account_id r \<and> trow_target_profile t = ir_target_profile r \<and>
                    trow_status t \<in> {TaskStatusQueued, TaskStatusRunning}) tasks)) unique)"

fun insert_all :: "task_row list \<Rightarrow> (unit, 'x db_scheme) stmt" where
  "insert_all [] s = Inr ((), s)"
| "insert_all (r # rows) s =
     (case insert_task r s of Inl e \<Rightarrow> Inl e | Inr (r', s1) \<Rightarrow> insert_all rows s1)"

datatype batch_kind = Created | Skipped string

definition batch_stmt :: "input_row list \<Rightarrow> ((batch_kind \<times> int) list, 'x db_scheme) stmt" where
  "batch_stmt inputs s =
     (let input_rows = map (\<lambda>r. r\<lparr>ir_target_profile := BTRIM (ir_target_profile r)\<rparr>) inputs;
          (unique, duplicates) = payload_split [] (sort_key ir_row_index (sort_key ir_task_id input_rows));
          missing = missing_accounts (db_accounts s) unique;
          active = active_duplicates (db_tasks s) unique;
          insertable = filter (\<lambda>r. ir_row_index r \<notin> set missing \<and> ir_row_index r \<notin> set active) unique
      in case insert_all (map (\<lambda>r. queued_row (ir_task_id r) None (ir_account_id r)
                 (ir_target_profile r) 0 (db_now s)) insertable) s of
           Inl e \<Rightarrow> Inl e
         | Inr (u, s1) \<Rightarrow>
             Inr (sort_key snd
                    (map (\<lambda>r. (Created, ir_row_index r)) insertable @
                     map (\<lambda>r. (Skipped ''duplicate_active_task'', ir_row_index r)) duplicates @
                     map (\<lambda>i. (Skipped ''account_not_found'', i)) missing @
                     map (\<lambda>i. (Skipped ''duplicate_active_task'', i)) active), s1))"

fun batch_collect :: "batch_result \<Rightarrow> (batch_kind \<times> int) list \<Rightarrow> batch_result" where
  "batch_collect res [] = res"
| "batch_collect res ((Created, i) # rows) =
     batch_collect (res\<lparr>br_RowsCreated := Suc (br_RowsCreated res)\<rparr>) rows"
| "batch_collect res ((Skipped code, i) # rows) =
     batch_collect (res\<lparr>br_SkippedRows := br_SkippedRows res @
       [\<lparr>sk_Row = i, sk_Code = code, sk_Message = enqueueSkipReasonMessage code\<rparr>]\<rparr>) rows"

definition batch_body ::
  "input_row list \<Rightarrow> 'x db_scheme \<Rightarrow> (go_error + batch_result) \<times> 'x db_scheme" where
  "batch_body inputs s =
     (case in_tx (batch_stmt inputs) s of
        (Inl e, s1) \<Rightarrow> (Inl (queue_write_failed ''batch enqueue execution'' e), s1)
      | (Inr out, s1) \<Rightarrow>
        (case pop_fault s1 of
           (NoFault, s2) \<Rightarrow>
             (let res = batch_collect empty_batch_result out
              in (Inr (res\<lparr>br_RowsSkipped := length (br_SkippedRows res)\<rparr>), s2))
         | (Failed e, s2) \<Rightarrow> (Inl (queue_write_failed ''batch enqueue rows iteration'' e), s2)
         | (ReplyLost e, s2) \<Rightarrow> (Inl (queue_write_failed ''batch enqueue rows iteration'' e), s2)))"

definition EnqueueValidatedBatch ::
  "go_context \<Rightarrow> enqueue_row list \<Rightarrow> 'x db_scheme \<Rightarrow> (go_error + batch_result) \<times> 'x db_scheme" where
  "EnqueueValidatedBatch ctx rows s =
     (if rows = [] then (Inr empty_batch_result, s)
      else case batch_inputs rows [] s of
        (Inl e, s1) \<Rightarrow> (Inl e, s1)
      | (Inr inputs, s1) \<Rightarrow>
        transaction
          (queue_write_failed ''begin batch enqueue transaction'')
          (\<lambda>x. queue_write_failed ''commit batch enqueue transaction'')
          (batch_body inputs) s1)"


section \<open>Snapshot\<close>

definition count_by_status :: "task_row list \<Rightarrow> (task_status \<times> nat) list" where
  "count_by_status tasks =
     (let valid = filter TaskStatus_IsValid (map trow_status tasks)
      in map (\<lambda>st. (st, count_list valid st)) (remdups valid))"

fun snapshot_loop :: "('k \<Rightarrow> bool) \<Rightarrow> ('k \<Rightarrow> nat option) \<Rightarrow> ('k \<times> nat) list \<Rightarrow> ('k \<Rightarrow> nat option)" where
  "snapshot_loop valid snapshot [] = snapshot"
| "snapshot_loop valid snapshot ((st, n) # rows) =
     (if valid st then snapshot_loop valid (snapshot(st \<mapsto> n)) rows else snapshot_loop valid snapshot rows)"

definition TaskQueueSnapshot ::
  "go_context \<Rightarrow> 'x db_scheme \<Rightarrow> (go_error + (task_status \<Rightarrow> nat option)) \<times> 'x db_scheme" where
  "TaskQueueSnapshot ctx s =
     (let snapshot = Map.empty(TaskStatusQueued \<mapsto> 0, TaskStatusRunning \<mapsto> 0, TaskStatusSuccess \<mapsto> 0,
                               TaskStatusRetry \<mapsto> 0, TaskStatusFail \<mapsto> 0, TaskStatusCanceled \<mapsto> 0)
      in case autocommit (\<lambda>s. Inr (count_by_status (db_tasks s), s)) s of
           (Inl e, s1) \<Rightarrow> (Inl (with_stack e), s1)
         | (Inr rows, s1) \<Rightarrow> (Inr (snapshot_loop TaskStatus_IsValid snapshot rows), s1))"

end
