(* ===== verification/Task_Lifecycle.thy ===== *)
theory Task_Lifecycle
  imports Task_Repository
begin

text \<open>
  What the operations of the task queue do to the tables.  \<open>task_move\<close> is the state machine of one
  task: claim, completion, and the two transitions of an administrator.  \<open>queue_step\<close> says that every
  row of the table has only made such moves, that no row is gone, that new rows started out queued, and
  that the other tables are untouched.  Each operation is shown to make a \<open>queue_step\<close> and to keep
  \<open>db_ok\<close>, whatever calls of the driver fail.
\<close>

section \<open>The state machine of a task\<close>

inductive task_move :: "task_row \<Rightarrow> task_row \<Rightarrow> bool" where
  claim: "trow_status r = TaskStatusQueued \<Longrightarrow> TrimSpace w \<noteq> '''' \<Longrightarrow> task_move r (claim_row w now r)"
| complete: "trow_status r = TaskStatusRunning \<Longrightarrow>
     final \<in> {TaskStatusSuccess, TaskStatusRetry, TaskStatusFail} \<Longrightarrow>
     task_move r (complete_row final code reason now r)"
| retry: "trow_status r \<in> {TaskStatusRetry, TaskStatusFail} \<Longrightarrow>
     task_move r (admin_row TaskStatusQueued reason now r)"
| cancel: "trow_status r = TaskStatusQueued \<Longrightarrow> task_move r (admin_row TaskStatusCanceled reason now r)"

inductive_cases task_moveE: "task_move r r'"

lemmas row_updates = claim_row_def complete_row_def admin_row_def

text \<open>The edges of the status graph.\<close>

definition status_edges :: "(task_status \<times> task_status) set" where
  "status_edges =
     {(TaskStatusQueued, TaskStatusRunning), (TaskStatusRunning, TaskStatusSuccess),
      (TaskStatusRunning, TaskStatusRetry), (TaskStatusRunning, TaskStatusFail),
      (TaskStatusRetry, TaskStatusQueued), (TaskStatusFail, TaskStatusQueued),
      (TaskStatusQueued, TaskStatusCanceled)}"

lemma task_move_edge:
  "task_move r r' \<Longrightarrow>
   (trow_status r, trow_status r') \<in> status_edges \<and> trow_id r' = trow_id r \<and>
   trow_account_id r' = trow_account_id r \<and> trow_source_task_id r' = trow_source_task_id r \<and>
   trow_target_profile r' = trow_target_profile r \<and> trow_created_at r' = trow_created_at r \<and>
   trow_attempt r' = trow_attempt r + (if trow_status r' = TaskStatusRunning then 1 else 0)"
  by (erule task_moveE) (auto simp: row_updates status_edges_def)

lemma task_moves_keep:
  "task_move\<^sup>*\<^sup>* r r' \<Longrightarrow>
   trow_id r' = trow_id r \<and> trow_account_id r' = trow_account_id r \<and>
   trow_source_task_id r' = trow_source_task_id r \<and> trow_target_profile r' = trow_target_profile r \<and>
   trow_created_at r' = trow_created_at r \<and> trow_attempt r \<le> trow_attempt r'"
  by (induction rule: rtranclp_induct) (auto dest: task_move_edge split: if_splits)

lemma task_moves_final:
  assumes "task_move\<^sup>*\<^sup>* r r'" "trow_status r \<in> {TaskStatusSuccess, TaskStatusCanceled}"
  shows "r' = r"
  using assms(1)
proof (cases rule: converse_rtranclpE)
  case (step y)
  then show ?thesis using assms(2) task_move_edge [of r y] by (auto simp: status_edges_def)
qed simp


section \<open>Steps of the queue\<close>

definition fresh_row :: "task_row \<Rightarrow> bool" where
  "fresh_row q \<longleftrightarrow>
     trow_status q = TaskStatusQueued \<and> trow_claimed_by q = None \<and> trow_finished_at q = None"

definition evolves :: "task_row list \<Rightarrow> task_row list \<Rightarrow> bool" where
  "evolves xs ys \<longleftrightarrow>
     (\<exists>zs new. ys = zs @ new \<and> list_all2 task_move\<^sup>*\<^sup>* xs zs \<and>
               (\<forall>n \<in> set new. \<exists>q. fresh_row q \<and> task_move\<^sup>*\<^sup>* q n))"

definition queue_step :: "('x) db_scheme \<Rightarrow> ('x) db_scheme \<Rightarrow> bool" where
  "queue_step s s' \<longleftrightarrow>
     db_accounts s' = db_accounts s \<and> db_proxies s' = db_proxies s \<and>
     db_sessions s' = db_sessions s \<and> db_results s' = db_results s \<and>
     evolves (db_tasks s) (db_tasks s')"

lemma list_all2_moves_refl [simp]: "list_all2 task_move\<^sup>*\<^sup>* xs xs"
  by (simp add: list_all2_refl)

lemma evolves_refl [simp]: "evolves xs xs"
  unfolding evolves_def by (rule exI [of _ xs], rule exI [of _ "[]"]) simp

lemma evolves_trans:
  assumes "evolves xs ys" "evolves ys zs"
  shows "evolves xs zs"
proof -
  from assms(1) obtain ys1 ys2 where ys: "ys = ys1 @ ys2" "list_all2 task_move\<^sup>*\<^sup>* xs ys1"
    "\<forall>n \<in> set ys2. \<exists>q. fresh_row q \<and> task_move\<^sup>*\<^sup>* q n" unfolding evolves_def by blast
  from assms(2) obtain zs1 new where zs: "zs = zs1 @ new" "list_all2 task_move\<^sup>*\<^sup>* ys zs1"
    "\<forall>n \<in> set new. \<exists>q. fresh_row q \<and> task_move\<^sup>*\<^sup>* q n" unfolding evolves_def by blast
  from zs(2) ys(1) obtain u v where uv: "zs1 = u @ v" "list_all2 task_move\<^sup>*\<^sup>* ys1 u"
    "list_all2 task_move\<^sup>*\<^sup>* ys2 v" by (auto simp: list_all2_append1)
  have "list_all2 task_move\<^sup>*\<^sup>* xs u"
    using list_all2_trans [of "task_move\<^sup>*\<^sup>*" "task_move\<^sup>*\<^sup>*" "task_move\<^sup>*\<^sup>*"] ys(2) uv(2)
    by (meson rtranclp_trans)
  moreover have "\<exists>q. fresh_row q \<and> task_move\<^sup>*\<^sup>* q n" if n: "n \<in> set v" for n
  proof -
    from n uv(3) obtain i where i: "i < length v" "v ! i = n" by (auto simp: in_set_conv_nth)
    with uv(3) have "ys2 ! i \<in> set ys2" "task_move\<^sup>*\<^sup>* (ys2 ! i) n"
      by (auto simp: list_all2_conv_all_nth)
    with ys(3) show ?thesis by (meson rtranclp_trans)
  qed
  ultimately show ?thesis
    unfolding evolves_def using zs(1,3) uv(1)
    by (intro exI [of _ u] exI [of _ "v @ new"]) auto
qed

lemma queue_step_refl [simp]: "queue_step s s"
  by (simp add: queue_step_def)

lemma queue_step_trans [trans]: "queue_step s t \<Longrightarrow> queue_step t u \<Longrightarrow> queue_step s u"
  by (auto simp: queue_step_def intro: evolves_trans)

lemma queue_step_same: "same_tables s s' \<Longrightarrow> queue_step s s'"
  by (simp add: queue_step_def same_tables_def)

lemma queue_step_core: "same_core s s' \<Longrightarrow> queue_step s s'"
  by (simp add: queue_step_def same_core_def)

lemma queue_step_row:
  assumes "queue_step s s'" "r \<in> set (db_tasks s)"
  shows "\<exists>r' \<in> set (db_tasks s'). task_move\<^sup>*\<^sup>* r r'"
proof -
  from assms(1) obtain zs new where zs: "db_tasks s' = zs @ new" "list_all2 task_move\<^sup>*\<^sup>* (db_tasks s) zs"
    unfolding queue_step_def evolves_def by blast
  from assms(2) obtain i where "i < length (db_tasks s)" "db_tasks s ! i = r"
    by (auto simp: in_set_conv_nth)
  with zs(2) have "zs ! i \<in> set zs" "task_move\<^sup>*\<^sup>* r (zs ! i)" by (auto simp: list_all2_conv_all_nth)
  with zs(1) show ?thesis by auto
qed

lemma queue_step_final:
  "queue_step s s' \<Longrightarrow> r \<in> set (db_tasks s) \<Longrightarrow>
   trow_status r \<in> {TaskStatusSuccess, TaskStatusCanceled} \<Longrightarrow> r \<in> set (db_tasks s')"
  using queue_step_row [of s s' r] task_moves_final [of r] by blast


section \<open>Statements\<close>

lemma map_put_task:
  assumes "\<And>x. x \<in> set xs \<Longrightarrow> trow_id x = trow_id r' \<Longrightarrow> f x = f r'"
  shows "map f (put_task r' xs) = map f xs"
  using assms by (induction xs) (auto simp: put_task_def)

lemma distinct_id_eq:
  "distinct (map trow_id xs) \<Longrightarrow> x \<in> set xs \<Longrightarrow> r \<in> set xs \<Longrightarrow> trow_id x = trow_id r \<Longrightarrow> x = r"
  by (meson distinct_map inj_onD)

lemma evolves_put:
  assumes "distinct (map trow_id xs)" "r \<in> set xs" "task_move\<^sup>*\<^sup>* r r'"
  shows "evolves xs (put_task r' xs)"
proof -
  have "list_all2 task_move\<^sup>*\<^sup>* xs (put_task r' xs)"
    unfolding put_task_def list_all2_map2
  proof (rule list.rel_refl_strong)
    fix x assume x: "x \<in> set xs"
    show "task_move\<^sup>*\<^sup>* x (if trow_id x = trow_id r' then r' else x)"
      using distinct_id_eq [OF assms(1) x assms(2)] task_moves_keep [OF assms(3)] assms(3) by auto
  qed
  then show ?thesis unfolding evolves_def by (intro exI [of _ "put_task r' xs"] exI [of _ "[]"]) simp
qed

lemma tasks_ok_put:
  assumes ok: "tasks_ok accounts xs" and r: "r \<in> set xs" and r': "task_row_ok r'"
    and keep: "trow_id r' = trow_id r" "trow_account_id r' = trow_account_id r"
      "trow_source_task_id r' = trow_source_task_id r"
  shows "tasks_ok accounts (put_task r' xs)"
    "map (\<lambda>t. (trow_id t, trow_account_id t)) (put_task r' xs) = map (\<lambda>t. (trow_id t, trow_account_id t)) xs"
proof -
  have dist: "distinct (map trow_id xs)" using ok by (simp add: tasks_ok_def)
  have ids: "map trow_id (put_task r' xs) = map trow_id xs" by (rule map_put_task) simp
  have r_eq: "x = r" if "x \<in> set xs" "trow_id x = trow_id r'" for x
    using distinct_id_eq [OF dist that(1) r] that(2) keep(1) by simp
  show "map (\<lambda>t. (trow_id t, trow_account_id t)) (put_task r' xs) = map (\<lambda>t. (trow_id t, trow_account_id t)) xs"
    by (rule map_put_task) (use r_eq keep in auto)
  have mem: "x \<in> set (put_task r' xs) \<Longrightarrow> x = r' \<or> x \<in> set xs" for x
    by (auto simp: put_task_def split: if_splits)
  have row: "trow_account_id r \<in> set (map arow_id accounts)"
    "case trow_source_task_id r of None \<Rightarrow> True | Some i \<Rightarrow> i \<in> set (map trow_id xs)"
    using ok r by (simp_all only: tasks_ok_def list_all_iff)
  have rows: "\<forall>x \<in> set (put_task r' xs). task_row_ok x \<and> trow_account_id x \<in> set (map arow_id accounts) \<and>
      (case trow_source_task_id x of None \<Rightarrow> True | Some i \<Rightarrow> i \<in> set (map trow_id xs))"
  proof
    fix x assume "x \<in> set (put_task r' xs)"
    then consider "x = r'" | "x \<in> set xs" using mem by blast
    then show "task_row_ok x \<and> trow_account_id x \<in> set (map arow_id accounts) \<and>
      (case trow_source_task_id x of None \<Rightarrow> True | Some i \<Rightarrow> i \<in> set (map trow_id xs))"
    proof cases
      case 1 then show ?thesis using r' row keep by simp
    next
      case 2 then show ?thesis using ok by (simp only: tasks_ok_def list_all_iff)
    qed
  qed
  show "tasks_ok accounts (put_task r' xs)"
    using rows dist by (simp only: tasks_ok_def ids list_all_iff) blast
qed

lemma db_ok_put:
  assumes "db_ok s" "r \<in> set (db_tasks s)" "task_row_ok r'"
    "trow_id r' = trow_id r" "trow_account_id r' = trow_account_id r"
    "trow_source_task_id r' = trow_source_task_id r"
  shows "db_ok (s\<lparr>db_tasks := put_task r' (db_tasks s)\<rparr>)"
  using assms tasks_ok_put [of "db_accounts s" "db_tasks s" r r']
  unfolding db_ok_def results_ok_def by simp

text \<open>What an update that succeeds has done.\<close>

lemma update_task_Inr:
  assumes "update_task cond upd s = Inr (r', s')"
  obtains r where "r \<in> set (db_tasks s)" "cond r" "r' = upd r" "task_row_ok r'"
    "s' = s\<lparr>db_tasks := put_task r' (db_tasks s)\<rparr>"
  using assms unfolding update_task_def by (auto split: option.splits if_splits dest: find_SomeD)

lemma update_task_step:
  assumes "update_task cond upd s = Inr (r', s')" "db_ok s"
    and move: "\<And>r. r \<in> set (db_tasks s) \<Longrightarrow> cond r \<Longrightarrow> task_move r (upd r)"
  shows "db_ok s' \<and> queue_step s s'"
proof -
  from assms(1) obtain r where r: "r \<in> set (db_tasks s)" "cond r" "r' = upd r" "task_row_ok r'"
    "s' = s\<lparr>db_tasks := put_task r' (db_tasks s)\<rparr>" by (rule update_task_Inr)
  have m: "task_move r r'" using move r by simp
  have "db_ok s'" unfolding r(5) using task_move_edge [OF m] assms(2) r by (intro db_ok_put) auto
  moreover have "distinct (map trow_id (db_tasks s))" using assms(2) by (simp add: db_ok_def tasks_ok_def)
  then have "evolves (db_tasks s) (put_task r' (db_tasks s))"
    using r(1) m by (intro evolves_put) auto
  then have "queue_step s s'" by (simp add: r(5) queue_step_def)
  ultimately show ?thesis by blast
qed

lemma insert_task_Inr:
  assumes "insert_task r s = Inr (r', s')"
  shows "r' = r \<and> s' = s\<lparr>db_tasks := db_tasks s @ [r]\<rparr> \<and> task_row_ok r \<and>
    trow_id r \<notin> set (map trow_id (db_tasks s)) \<and> trow_account_id r \<in> set (map arow_id (db_accounts s))"
  using assms by (auto simp: insert_task_def split: if_splits)

lemma insert_task_step:
  assumes "insert_task r s = Inr (r', s')" "db_ok s" "fresh_row r"
  shows "db_ok s' \<and> queue_step s s'"
proof -
  from assms(1) have s': "s' = s\<lparr>db_tasks := db_tasks s @ [r]\<rparr>" and new: "task_row_ok r"
    "trow_id r \<notin> set (map trow_id (db_tasks s))" "trow_account_id r \<in> set (map arow_id (db_accounts s))"
    using insert_task_Inr by blast+
  have source: "case trow_source_task_id r of None \<Rightarrow> True | Some i \<Rightarrow> i \<in> set (map trow_id (db_tasks s))"
    using assms(1) by (auto simp: insert_task_def split: if_splits option.splits)
  have "tasks_ok (db_accounts s) (db_tasks s @ [r])"
    using assms(2) new source unfolding db_ok_def tasks_ok_def
    by (fastforce simp: list_all_iff split: option.splits)
  moreover have "results_ok (db_accounts s) (db_tasks s @ [r]) (db_results s)"
    using assms(2) unfolding db_ok_def results_ok_def by (auto simp: list_all_iff)
  ultimately have "db_ok s'" using assms(2) by (simp add: s' db_ok_def)
  moreover have "evolves (db_tasks s) (db_tasks s @ [r])"
    unfolding evolves_def using assms(3)
    by (intro exI [of _ "db_tasks s"] exI [of _ "[r]"]) auto
  then have "queue_step s s'" by (simp add: s' queue_step_def)
  ultimately show ?thesis by blast
qed

lemma insert_audit_step:
  assumes "insert_audit r s = Inr (r', s')" "db_ok s"
  shows "db_ok s' \<and> queue_step s s'"
proof -
  from insert_audit_Inr [OF assms(1)] have s': "s' = s\<lparr>db_audit := db_audit s @ [r]\<rparr>"
    "record_ID r \<notin> set (map record_ID (db_audit s))" by blast+
  then show ?thesis using assms(2) by (auto simp: db_ok_def queue_step_def)
qed

text \<open>The relation every operation of the queue satisfies, as a \<open>table_relation\<close>.\<close>

definition queue_safe :: "('x) db_scheme \<Rightarrow> ('x) db_scheme \<Rightarrow> bool" where
  "queue_safe s s' \<longleftrightarrow> (db_ok s \<longrightarrow> db_ok s' \<and> queue_step s s')"

lemma queue_safe_refl [simp]: "queue_safe s s"
  by (simp add: queue_safe_def)

lemma queue_safe_trans [trans]: "queue_safe s t \<Longrightarrow> queue_safe t u \<Longrightarrow> queue_safe s u"
  by (auto simp: queue_safe_def intro: queue_step_trans)

lemma queue_safe_same: "same_tables s s' \<Longrightarrow> queue_safe s s'"
  by (simp add: queue_safe_def queue_step_same db_ok_same_tables)

lemma queue_safe_relation: "table_relation queue_safe"
  unfolding table_relation_def by (blast intro: queue_safe_same queue_safe_trans)

lemma in_tx_safe:
  assumes "in_tx st s = (Inr x, s')" "\<And>s x s'. st s = Inr (x, s') \<Longrightarrow> queue_safe s s'"
  shows "queue_safe s s'"
  using in_tx_Inr [OF assms(1)] assms(2) queue_safe_same queue_safe_trans by blast

lemma new_uuid_safe: "new_uuid s = (u, s') \<Longrightarrow> queue_safe s s'"
  by (simp add: queue_safe_same same_tables_new_uuid)

lemma scanTask_Inr: "scanTask x = (Inr tk, s') \<Longrightarrow> \<exists>r. x = (Inr r, s') \<and> tk = task_of_row r"
  by (auto simp: scanTask_def split: sum.splits prod.splits)

lemma snd_scanTask: "snd (scanTask x) = snd x"
  by (simp add: scanTask_def split: sum.splits prod.splits)


section \<open>Operations\<close>

lemma Audit_Append_safe: "queue_safe s (snd (Audit_Append ctx r s))"
proof -
  obtain res s' where run: "autocommit (insert_audit r) s = (res, s')"
    by (cases "autocommit (insert_audit r) s")
  have "queue_safe s s'"
    by (rule autocommit_relation [OF queue_safe_relation _ run])
      (simp add: queue_safe_def insert_audit_step)
  then show ?thesis using run by (simp add: Audit_Append_def split: sum.splits)
qed

lemma audit_best_effort_safe:
  assumes "audit_wired auditLog"
  shows "queue_safe s (audit_best_effort auditLog ctx ev s)"
proof (cases auditLog)
  case (Some l)
  then have l: "alog_store l = Some Audit_Append" using assms by (auto simp: audit_wired_def pg_audit_log_def)
  show ?thesis
  proof (cases "validateEvent ev")
    case None
    obtain uid s1 where u: "new_uuid s = (uid, s1)" by (cases "new_uuid s")
    then have "\<exists>r. snd (Log_Record l ctx ev s) = snd (Audit_Append ctx r s1)"
      using l None by (simp add: Log_Record_def Let_def) blast
    then obtain r where r: "snd (Log_Record l ctx ev s) = snd (Audit_Append ctx r s1)" by blast
    have "queue_safe s (snd (Audit_Append ctx r s1))"
      by (rule queue_safe_trans [OF new_uuid_safe [OF u] Audit_Append_safe])
    then show ?thesis by (simp add: Some audit_best_effort_def r)
  qed (use Some l in \<open>simp add: audit_best_effort_def Log_Record_def\<close>)
qed (simp add: audit_best_effort_def)

lemma exec_audit_safe: "exec_audit mk s = (Inr u, s') \<Longrightarrow> queue_safe s s'"
proof -
  assume run: "exec_audit mk s = (Inr u, s')"
  obtain uid s1 where n: "new_uuid s = (uid, s1)" by (cases "new_uuid s")
  with run obtain x where x: "in_tx (insert_audit (mk uid (db_now s1))) s1 = (Inr x, s')"
    by (auto simp: exec_audit_def split: prod.splits sum.splits)
  have "queue_safe s1 s'" by (rule in_tx_safe [OF x]) (simp add: queue_safe_def insert_audit_step)
  then show ?thesis using new_uuid_safe [OF n] queue_safe_trans by blast
qed

lemma append_audit_safe:
  "appendAdminTransitionAuditLog ctx b a tr s = (Inr u, s') \<Longrightarrow> queue_safe s s'"
  "appendTaskRetryAuditLog ctx b a s = (Inr u, s') \<Longrightarrow> queue_safe s s'"
  by (simp_all add: appendAdminTransitionAuditLog_def appendTaskRetryAuditLog_def exec_audit_safe)

lemma autocommit_safe:
  assumes "autocommit st s = (r, s')" "\<And>s x s'. st s = Inr (x, s') \<Longrightarrow> queue_safe s s'"
  shows "queue_safe s s'"
  using autocommit_relation [OF queue_safe_relation assms(2) assms(1)] .

lemma scan_autocommit_safe:
  assumes "scanTask (autocommit st s) = (r, s')" "\<And>s x s'. st s = Inr (x, s') \<Longrightarrow> queue_safe s s'"
  shows "queue_safe s s'"
proof -
  obtain a b where ab: "autocommit st s = (a, b)" by (cases "autocommit st s")
  then have "b = s'" using assms(1) snd_scanTask [of "(a, b)"] by simp
  then show ?thesis using autocommit_safe [OF ab assms(2)] by simp
qed

lemma select_task_safe: "select_task tid s = Inr (r, s') \<Longrightarrow> queue_safe s s'"
  by (simp add: select_task_def split: option.splits)

lemma claim_next_safe:
  assumes "claim_next w s = Inr (r, s')" "TrimSpace w \<noteq> ''''"
  shows "queue_safe s s'"
proof -
  from assms(1) obtain q qs where q: "claimable s = q # qs"
    and up: "update_task (\<lambda>x. trow_id x = trow_id q) (claim_row w (db_now s)) s = Inr (r, s')"
    by (auto simp: claim_next_def split: list.splits)
  have "q \<in> set (claimable s)" using q by simp
  then have q_in: "q \<in> set (db_tasks s)" "trow_status q = TaskStatusQueued"
    by (auto simp: claimable_def)
  show ?thesis
    unfolding queue_safe_def
  proof
    assume ok: "db_ok s"
    then have "distinct (map trow_id (db_tasks s))" by (simp add: db_ok_def tasks_ok_def)
    then have "task_move x (claim_row w (db_now s) x)"
      if "x \<in> set (db_tasks s)" "trow_id x = trow_id q" for x
      using distinct_id_eq [OF _ that(1) q_in(1) that(2)] q_in(2) assms(2) by (simp add: task_move.claim)
    then show "db_ok s' \<and> queue_step s s'" using update_task_step [OF up ok] by blast
  qed
qed

lemma complete_stmt_safe:
  assumes "complete_stmt tid w final code reason s = Inr (r, s')"
    "final \<in> {TaskStatusSuccess, TaskStatusRetry, TaskStatusFail}"
  shows "queue_safe s s'"
  unfolding queue_safe_def
proof
  assume ok: "db_ok s"
  show "db_ok s' \<and> queue_step s s'"
    by (rule update_task_step [OF assms(1) [unfolded complete_stmt_def] ok])
      (blast intro: task_move.complete [OF _ assms(2)])
qed

lemma GetByID_safe: "queue_safe s (snd (GetByID ctx tid s))"
proof -
  obtain r s1 where run: "scanTask (autocommit (select_task tid) s) = (r, s1)"
    by (cases "scanTask (autocommit (select_task tid) s)")
  have "queue_safe s s1" by (rule scan_autocommit_safe [OF run select_task_safe])
  then show ?thesis using run by (simp add: GetByID_def split: sum.splits)
qed

lemma Enqueue_safe: "queue_safe s (snd (Enqueue ctx tk s))"
proof -
  obtain tk1 s1 where p: "(if task_ID tk = uuid_Nil
      then (case new_uuid s of (u, s) \<Rightarrow> (tk\<lparr>task_ID := u\<rparr>, s)) else (tk, s)) = (tk1, s1)"
    by fastforce
  have s1: "queue_safe s s1" using p new_uuid_safe [of s] by (auto split: if_splits prod.splits)
  have ins: "queue_safe t t'" if "insert_task (queued_row a b c d e (db_now t)) t = Inr (x, t')"
    for t t' :: "'a db_scheme" and a b c d e x
    unfolding queue_safe_def using insert_task_step [OF that] by (simp add: fresh_row_def queued_row_def)
  have "queue_safe s1 (snd (scanTask (autocommit
      (\<lambda>s. insert_task (queued_row a b c d e (db_now s)) s) s1)))" for a b c d e
    by (rule scan_autocommit_safe [OF prod.collapse [symmetric]]) (rule ins)
  then show ?thesis using queue_safe_trans [OF s1] s1
    unfolding Enqueue_def p Let_def by (auto split: option.splits)
qed

lemma claim_body_cases:
  assumes "claim_body w s = (Inr found, s')" "TrimSpace w \<noteq> ''''"
  shows "case found of None \<Rightarrow> same_tables s s'
    | Some tk \<Rightarrow> \<exists>r s1. same_tables s s1 \<and> claim_next w s1 = Inr (r, s') \<and> tk = task_of_row r"
proof (cases "in_tx (claim_next w) s")
  case (Pair res s1)
  show ?thesis
  proof (cases res)
    case (Inl e)
    then have "found = None" "s' = s1" using assms(1) Pair
      by (auto simp: claim_body_def scanTask_def split: if_splits)
    then show ?thesis
      using Pair Inl same_tables_pop_fault [of s]
      by (auto simp: in_tx_def split: prod.splits db_fault.splits sum.splits)
  next
    case (Inr r)
    then have "found = Some (task_of_row r)" "s' = s1" using assms(1) Pair
      by (auto simp: claim_body_def scanTask_def)
    then show ?thesis using in_tx_Inr [of "claim_next w" s r s1] Pair Inr by auto
  qed
qed

lemma claim_body_safe:
  assumes "claim_body w s = (Inr found, s')" "TrimSpace w \<noteq> ''''"
  shows "queue_safe s s'"
proof (cases found)
  case None
  then show ?thesis using claim_body_cases [OF assms] by (simp add: queue_safe_same)
next
  case (Some tk)
  then obtain r s1 where "same_tables s s1" "claim_next w s1 = Inr (r, s')"
    using claim_body_cases [OF assms] by auto
  then show ?thesis using queue_safe_same claim_next_safe [OF _ assms(2)] queue_safe_trans by blast
qed

lemma ClaimNextQueued_safe:
  assumes "audit_wired auditLog"
  shows "queue_safe s (snd (ClaimNextQueued auditLog ctx w s))"
proof (cases "TrimSpace w = ''''")
  case False
  let ?tx = "transaction with_stack (\<lambda>found e. case found of None \<Rightarrow> e | Some tk \<Rightarrow> with_stack e) (claim_body w) s"
  have body: "queue_safe t t'" if "claim_body w t = (Inr x, t')" for t t' :: "'a db_scheme" and x
    using claim_body_safe [OF that False] .
  obtain r s3 where tx: "?tx = (r, s3)" by (cases ?tx)
  have safe: "queue_safe s s3" by (rule transaction_relation [OF queue_safe_relation body tx])
  have "snd (ClaimNextQueued auditLog ctx w s) = s3 \<or>
        (\<exists>tk. snd (ClaimNextQueued auditLog ctx w s) = recordClaimedAudit auditLog ctx tk s3)"
    using False tx by (auto simp: ClaimNextQueued_def split: sum.splits option.splits)
  then show ?thesis
    using safe queue_safe_trans [OF safe audit_best_effort_safe [OF assms]]
    by (auto simp: recordClaimedAudit_def)
qed (simp add: ClaimNextQueued_def)

lemma Complete_safe:
  assumes "audit_wired auditLog" and other: "\<And>k t. queue_safe t (other k t)"
  shows "queue_safe s (snd (Complete auditLog other ctx tid w final code reason s))"
proof (cases "tid = uuid_Nil \<or> TrimSpace w = ''''")
  case False
  obtain r1 s1 where g: "GetByID ctx tid s = (r1, s1)" by (cases "GetByID ctx tid s")
  have s1: "queue_safe s s1" using GetByID_safe [of s ctx tid] g by simp
  show ?thesis
  proof (cases "\<exists>cur. r1 = Inr cur \<and> task_ClaimedBy cur = w \<and>
                ValidateTaskCompletion (task_Status cur) final code reason = None")
    case no: False
    then have "snd (Complete auditLog other ctx tid w final code reason s) = s1"
      using False g by (auto simp: Complete_def split: sum.splits option.splits)
    then show ?thesis using s1 by simp
  next
    case True
    then obtain cur where cur: "r1 = Inr cur" "task_ClaimedBy cur = w"
      "ValidateTaskCompletion (task_Status cur) final code reason = None" by blast
    then have final: "final \<in> {TaskStatusSuccess, TaskStatusRetry, TaskStatusFail}"
      by (simp add: ValidateTaskCompletion_None)
    let ?st = "complete_stmt tid w final
       (nullableErrorCode (if final = TaskStatusSuccess then no_error_code else code))
       (nullableString (if final = TaskStatusSuccess then '''' else reason))"
    obtain r2 s2 where c: "scanTask (autocommit ?st (other 0 s1)) = (r2, s2)"
      by (cases "scanTask (autocommit ?st (other 0 s1))")
    have "queue_safe (other 0 s1) s2"
      by (rule scan_autocommit_safe [OF c]) (erule complete_stmt_safe [OF _ final])
    then have s2: "queue_safe s s2"
      by (rule queue_safe_trans [OF queue_safe_trans [OF s1 other]])
    have "snd (Complete auditLog other ctx tid w final code reason s) \<in>
      {s2, snd (GetByID ctx tid (other 1 s2))} \<union> range (\<lambda>tk. recordCompletedAudit auditLog ctx tk s2)"
      using False g cur c unfolding Complete_def Let_def
      by (auto split: sum.splits prod.splits)
    moreover have "queue_safe s (snd (GetByID ctx tid (other 1 s2)))"
      using s2 other [of s2 1] GetByID_safe by (blast intro: queue_safe_trans)
    moreover have "queue_safe s (recordCompletedAudit auditLog ctx tk s2)" for tk
      unfolding recordCompletedAudit_def
      by (rule queue_safe_trans [OF s2 audit_best_effort_safe [OF assms(1)]])
    ultimately show ?thesis using s2 by auto
  qed
qed (auto simp: Complete_def)

lemma scan_in_tx_safe:
  assumes "scanTask (in_tx st s) = (Inr tk, s')" "\<And>s x s'. st s = Inr (x, s') \<Longrightarrow> queue_safe s s'"
  shows "queue_safe s s'"
proof -
  from scanTask_Inr [OF assms(1)] obtain r where "in_tx st s = (Inr r, s')" by blast
  then show ?thesis by (rule in_tx_safe) (rule assms(2))
qed

text \<open>The body of an administrator's transition, step by step.\<close>

lemma admin_transition_body_Inr:
  assumes "admin_transition_body ctx tid action cancelReason s = (Inr tk, s')"
  obtains locked tr s1 s2 reason where
    "scanTask (in_tx (select_task tid) s) = (Inr locked, s1)"
    "EvaluateTaskAdminTransition (task_Status locked) action = Inr tr"
    "reason = nullableString (if transition_Action tr = TaskAdminActionCancel
                              then normalizeAdminCancelReason cancelReason else '''')"
    "scanTask (in_tx (admin_stmt tid (transition_ToStatus tr) reason) s1) = (Inr tk, s2)"
    "appendAdminTransitionAuditLog ctx locked tk tr s2 = (Inr (), s')"
  using assms unfolding admin_transition_body_def Let_def
  by (auto split: sum.splits prod.splits if_splits)

lemma select_task_Inr:
  assumes "scanTask (in_tx (select_task tid) s) = (Inr tk, s')"
  obtains r where "r \<in> set (db_tasks s)" "trow_id r = tid" "tk = task_of_row r" "same_tables s s'"
proof -
  from scanTask_Inr [OF assms] obtain r where r: "in_tx (select_task tid) s = (Inr r, s')"
    "tk = task_of_row r" by blast
  from in_tx_Inr [OF r(1)] obtain t where t: "same_tables s t" "select_task tid t = Inr (r, s')" by blast
  then have "s' = t" "r \<in> set (db_tasks t)" "trow_id r = tid"
    by (auto simp: select_task_def split: option.splits dest: find_SomeD)
  then show ?thesis using that r(2) t(1) by (simp add: same_tables_def)
qed

lemma admin_transition_moves:
  assumes "EvaluateTaskAdminTransition (trow_status r) action = Inr tr"
  shows "task_move r (admin_row (transition_ToStatus tr) reason now r)"
proof (cases action)
  case TaskAdminActionRetry
  then have "trow_status r \<in> {TaskStatusRetry, TaskStatusFail}" "transition_ToStatus tr = TaskStatusQueued"
    using assms by (auto simp: EvaluateTaskAdminTransition_retry)
  then show ?thesis by (simp add: task_move.retry)
next
  case TaskAdminActionCancel
  then have "trow_status r = TaskStatusQueued" "transition_ToStatus tr = TaskStatusCanceled"
    using assms by (auto simp: EvaluateTaskAdminTransition_cancel)
  then show ?thesis by (simp add: task_move.cancel)
qed (use assms EvaluateTaskAdminTransition_other in simp)

lemma applyAdminTransition_safe: "queue_safe s (snd (applyAdminTransition ctx tid action reason s))"
proof (cases "tid = uuid_Nil")
  case False
  have body: "queue_safe t t'" if b: "admin_transition_body ctx tid action reason t = (Inr tk, t')"
    for t t' :: "'a db_scheme" and tk
  proof -
    from b obtain locked tr s1 s2 why where st: "scanTask (in_tx (select_task tid) t) = (Inr locked, s1)"
      "EvaluateTaskAdminTransition (task_Status locked) action = Inr tr"
      "scanTask (in_tx (admin_stmt tid (transition_ToStatus tr) why) s1) = (Inr tk, s2)"
      "appendAdminTransitionAuditLog ctx locked tk tr s2 = (Inr (), t')"
      by (rule admin_transition_body_Inr)
    from st(1) obtain r where r: "r \<in> set (db_tasks t)" "trow_id r = tid" "locked = task_of_row r"
      "same_tables t s1" by (rule select_task_Inr)
    have upd: "queue_safe u u'" if "admin_stmt tid (transition_ToStatus tr) why u = Inr (x, u')"
      "db_tasks u = db_tasks t" for u u' :: "'a db_scheme" and x
      unfolding queue_safe_def
    proof
      assume ok: "db_ok u"
      then have "distinct (map trow_id (db_tasks u))" by (simp add: db_ok_def tasks_ok_def)
      then have "y = r" if "y \<in> set (db_tasks u)" "trow_id y = tid" for y
        using distinct_id_eq [of "db_tasks u" y r] that r(1,2) \<open>db_tasks u = db_tasks t\<close> by simp
      moreover have "task_move r (admin_row (transition_ToStatus tr) why now r)" for now
        by (rule admin_transition_moves) (use st(2) r(3) in \<open>simp add: task_of_row_def\<close>)
      ultimately show "db_ok u' \<and> queue_step u u'"
        using update_task_step [OF that(1) [unfolded admin_stmt_def] ok] by blast
    qed
    from scanTask_Inr [OF st(3)] obtain x where
      "in_tx (admin_stmt tid (transition_ToStatus tr) why) s1 = (Inr x, s2)" by blast
    from in_tx_Inr [OF this] obtain v where v: "same_tables s1 v"
      "admin_stmt tid (transition_ToStatus tr) why v = Inr (x, s2)" by blast
    have "db_tasks v = db_tasks t" using r(4) v(1) by (simp add: same_tables_def)
    with upd v have "queue_safe v s2" by blast
    then show ?thesis
      using queue_safe_same [OF r(4)] queue_safe_same [OF v(1)] append_audit_safe(1) [OF st(4)]
      by (blast intro: queue_safe_trans)
  qed
  show ?thesis
    using transaction_relation [OF queue_safe_relation body prod.collapse [symmetric]] False
    by (simp add: applyAdminTransition_def)
qed (simp add: applyAdminTransition_def)

lemma retry_body_Inr:
  assumes "retry_body ctx tid s = (Inr tk, s')"
  obtains source tr s1 s2 s3 newid where
    "scanTask (in_tx (select_task tid) s) = (Inr source, s1)"
    "EvaluateTaskAdminTransition (task_Status source) TaskAdminActionRetry = Inr tr"
    "new_uuid s1 = (newid, s2)"
    "scanTask (in_tx (\<lambda>s. insert_task (queued_row newid (Some (task_ID source)) (task_AccountID source)
       (task_TargetProfile source) 0 (db_now s)) s) s2) = (Inr tk, s3)"
    "appendTaskRetryAuditLog ctx source tk s3 = (Inr (), s')"
  using assms unfolding retry_body_def Let_def
  by (auto split: sum.splits prod.splits if_splits)

lemma insert_queued_safe:
  "insert_task (queued_row a b c d e now) t = Inr (x, t') \<Longrightarrow> queue_safe t t'"
  unfolding queue_safe_def by (auto dest: insert_task_step simp: fresh_row_def queued_row_def)

lemma RetryFromTask_safe: "queue_safe s (snd (RetryFromTask ctx tid s))"
proof (cases "tid = uuid_Nil")
  case False
  have body: "queue_safe t t'" if b: "retry_body ctx tid t = (Inr tk, t')"
    for t t' :: "'a db_scheme" and tk
  proof -
    from b obtain source tr s1 s2 s3 newid where st:
      "scanTask (in_tx (select_task tid) t) = (Inr source, s1)" "new_uuid s1 = (newid, s2)"
      "scanTask (in_tx (\<lambda>s. insert_task (queued_row newid (Some (task_ID source)) (task_AccountID source)
         (task_TargetProfile source) 0 (db_now s)) s) s2) = (Inr tk, s3)"
      "appendTaskRetryAuditLog ctx source tk s3 = (Inr (), t')"
      by (rule retry_body_Inr)
    have "queue_safe t s1" by (rule scan_in_tx_safe [OF st(1) select_task_safe])
    moreover have "queue_safe s2 s3" by (rule scan_in_tx_safe [OF st(3)]) (rule insert_queued_safe)
    ultimately show ?thesis
      using new_uuid_safe [OF st(2)] append_audit_safe(2) [OF st(4)] by (blast intro: queue_safe_trans)
  qed
  show ?thesis
    using transaction_relation [OF queue_safe_relation body prod.collapse [symmetric]] False
    by (simp add: RetryFromTask_def)
qed (simp add: RetryFromTask_def)

lemma insert_all_safe:
  "insert_all rows s = Inr (u, s') \<Longrightarrow> \<forall>r \<in> set rows. fresh_row r \<Longrightarrow> queue_safe s s'"
proof (induction rows s rule: insert_all.induct)
  case (2 r rows s)
  from "2.prems" obtain r' s1 where r: "insert_task r s = Inr (r', s1)" "insert_all rows s1 = Inr (u, s')"
    by (auto split: sum.splits)
  have "queue_safe s s1" unfolding queue_safe_def using insert_task_step [OF r(1)] "2.prems" by simp
  moreover have "queue_safe s1 s'" using "2.IH" [OF r(1) refl r(2)] "2.prems" by simp
  ultimately show ?case by (rule queue_safe_trans)
qed simp

lemma batch_stmt_Inr:
  assumes "batch_stmt inputs s = Inr (out, s')"
  obtains unique duplicates insertable u where
    "payload_split [] (sort_key ir_row_index (sort_key ir_task_id
       (map (\<lambda>r. r\<lparr>ir_target_profile := BTRIM (ir_target_profile r)\<rparr>) inputs))) = (unique, duplicates)"
    "insertable = filter (\<lambda>r. ir_row_index r \<notin> set (missing_accounts (db_accounts s) unique) \<and>
                        ir_row_index r \<notin> set (active_duplicates (db_tasks s) unique)) unique"
    "insert_all (map (\<lambda>r. queued_row (ir_task_id r) None (ir_account_id r) (ir_target_profile r) 0 (db_now s))
       insertable) s = Inr (u, s')"
    "out = sort_key snd
       (map (\<lambda>r. (Created, ir_row_index r)) insertable @
        map (\<lambda>r. (Skipped ''duplicate_active_task'', ir_row_index r)) duplicates @
        map (\<lambda>i. (Skipped ''account_not_found'', i)) (missing_accounts (db_accounts s) unique) @
        map (\<lambda>i. (Skipped ''duplicate_active_task'', i)) (active_duplicates (db_tasks s) unique))"
  using assms unfolding batch_stmt_def Let_def
  by (auto split: sum.splits prod.splits)

lemma batch_stmt_safe: "batch_stmt inputs s = Inr (out, s') \<Longrightarrow> queue_safe s s'"
  by (erule batch_stmt_Inr, erule insert_all_safe) (auto simp: fresh_row_def queued_row_def)

lemma batch_inputs_same: "batch_inputs rows acc s = (r, s') \<Longrightarrow> same_tables s s'"
  by (induction rows acc s rule: batch_inputs.induct)
    (auto split: if_splits prod.splits dest: same_tables_new_uuid intro: same_tables_trans)

lemma batch_body_Inr:
  assumes "batch_body inputs s = (Inr res, s')"
  obtains out s1 where "in_tx (batch_stmt inputs) s = (Inr out, s1)" "same_tables s1 s'"
    "res = (batch_collect empty_batch_result out)
             \<lparr>br_RowsSkipped := length (br_SkippedRows (batch_collect empty_batch_result out))\<rparr>"
  using assms unfolding batch_body_def Let_def
  by (auto split: sum.splits prod.splits db_fault.splits dest: same_tables_pop_fault)

lemma EnqueueValidatedBatch_safe: "queue_safe s (snd (EnqueueValidatedBatch ctx rows s))"
proof (cases "rows = []")
  case False
  obtain r1 s1 where b: "batch_inputs rows [] s = (r1, s1)" by (cases "batch_inputs rows [] s")
  have s1: "queue_safe s s1" using batch_inputs_same [OF b] by (rule queue_safe_same)
  have body: "queue_safe t t'" if "batch_body inputs t = (Inr x, t')"
    for t t' :: "'a db_scheme" and x inputs
  proof -
    from that obtain out t1 where t1: "in_tx (batch_stmt inputs) t = (Inr out, t1)" "same_tables t1 t'"
      by (rule batch_body_Inr)
    have "queue_safe t t1" by (rule in_tx_safe [OF t1(1)]) (rule batch_stmt_safe)
    then show ?thesis using t1(2) queue_safe_same queue_safe_trans by blast
  qed
  have tx: "queue_safe s1 (snd (transaction ob oc (batch_body inputs) s1))" for ob oc inputs
    by (rule transaction_relation [OF queue_safe_relation _ prod.collapse [symmetric]]) (rule body)
  show ?thesis
    using False b s1 queue_safe_trans [OF s1 tx]
    by (auto simp: EnqueueValidatedBatch_def split: sum.splits)
qed (simp add: EnqueueValidatedBatch_def)


section \<open>Claim\<close>

text \<open>\<open>claimable\<close> is sorted by creation time, then id.\<close>

lemma claimable_first:
  assumes "claimable s = q # qs" "r \<in> set (db_tasks s)" "trow_status r = TaskStatusQueued"
    "trow_id r \<notin> set (db_locked s)"
  shows "trow_created_at q < trow_created_at r \<or>
    (trow_created_at q = trow_created_at r \<and> trow_id q \<le> trow_id r)"
proof -
  let ?xs = "sort_key trow_id (filter (\<lambda>r. trow_status r = TaskStatusQueued \<and> trow_id r \<notin> set (db_locked s)) (db_tasks s))"
  let ?k = "trow_created_at q"
  have r: "r \<in> set (claimable s)" using assms(2-4) by (simp add: claimable_def)
  have sorted: "sorted (map trow_created_at (claimable s))" by (simp add: claimable_def)
  then have le: "?k \<le> trow_created_at r" using r unfolding assms(1) by auto
  have eq: "filter (\<lambda>x. trow_created_at x = ?k) (claimable s) = filter (\<lambda>x. trow_created_at x = ?k) ?xs"
    unfolding claimable_def by (rule sort_key_stable)
  show ?thesis
  proof (cases "trow_created_at r = ?k")
    case True
    have "sorted (map trow_id (filter (\<lambda>x. trow_created_at x = ?k) ?xs))"
      by (rule sorted_filter) simp
    then have "sorted (map trow_id (filter (\<lambda>x. trow_created_at x = ?k) (claimable s)))" by (simp only: eq)
    moreover have "r \<in> set (filter (\<lambda>x. trow_created_at x = ?k) (claimable s))" using r True by simp
    ultimately have "trow_id q \<le> trow_id r" using assms(1) by auto
    then show ?thesis using True by simp
  qed (use le in simp)
qed

end
