(* ===== verification/Task_Queue.thy ===== *)
theory Task_Queue
  imports Task_Lifecycle
begin

text \<open>
  The contract of the task queue, operation by operation: what a claim, a completion, an
  administrator's transition, a retry and a batch import have done when they return, also when they
  return an error.
\<close>

section \<open>Which updates the constraints accept\<close>

lemma claim_row_ok:
  assumes "task_row_ok r" "trow_status r = TaskStatusQueued" "trow_attempt r < int4_max" "TrimSpace w \<noteq> ''''"
  shows "task_row_ok (claim_row w now r)"
  using assms trim_space_nonblank [OF assms(4)]
  by (auto simp: task_row_ok_def claim_row_def chk_tasks_lifecycle_consistency_def nonblank_def
      chk_tasks_lifecycle_temporal_order_def le_unless_null_def Let_def)

lemma complete_row_ok:
  assumes "task_row_ok r" "trow_status r = TaskStatusRunning" "\<forall>t. trow_started_at r = Some t \<longrightarrow> t \<le> now"
    "final \<in> {TaskStatusSuccess, TaskStatusRetry, TaskStatusFail}"
    "final = TaskStatusSuccess \<longrightarrow> code = None \<and> reason = None"
    "final \<noteq> TaskStatusSuccess \<longrightarrow> nonblank (map_option error_code_str code) \<or> nonblank reason"
  shows "task_row_ok (complete_row final code reason now r)"
  using assms
  by (auto simp: task_row_ok_def complete_row_def chk_tasks_lifecycle_consistency_def
      chk_tasks_lifecycle_temporal_order_def le_unless_null_def Let_def split: option.splits)

lemma admin_row_ok:
  assumes "task_row_ok r" "to = TaskStatusQueued \<or> to = TaskStatusCanceled \<and> nonblank reason"
  shows "task_row_ok (admin_row to reason now r)"
  using assms
  by (auto simp: task_row_ok_def admin_row_def chk_tasks_lifecycle_consistency_def
      chk_tasks_lifecycle_temporal_order_def le_unless_null_def Let_def)

text \<open>The clock has not gone back since a task was started.\<close>

definition clock_ok :: "'x db_scheme \<Rightarrow> bool" where
  "clock_ok s \<longleftrightarrow> (\<forall>r \<in> set (db_tasks s). \<forall>t. trow_started_at r = Some t \<longrightarrow> t \<le> db_now s)"


section \<open>Claim\<close>

definition same_others :: "'x db_scheme \<Rightarrow> 'x db_scheme \<Rightarrow> bool" where
  "same_others s s' \<longleftrightarrow>
     db_accounts s' = db_accounts s \<and> db_proxies s' = db_proxies s \<and>
     db_sessions s' = db_sessions s \<and> db_results s' = db_results s"

text \<open>\<open>claims w s s' q\<close>: between the two states worker \<open>w\<close> has taken \<open>q\<close>, the oldest free task.\<close>

definition claims :: "string \<Rightarrow> 'x db_scheme \<Rightarrow> 'x db_scheme \<Rightarrow> task_row \<Rightarrow> bool" where
  "claims w s s' q \<longleftrightarrow>
     q \<in> set (db_tasks s) \<and> trow_status q = TaskStatusQueued \<and> trow_id q \<notin> set (db_locked s) \<and>
     (\<forall>r \<in> set (db_tasks s). trow_status r = TaskStatusQueued \<and> trow_id r \<notin> set (db_locked s) \<longrightarrow>
        trow_created_at q < trow_created_at r \<or>
        (trow_created_at q = trow_created_at r \<and> trow_id q \<le> trow_id r)) \<and>
     db_tasks s' = put_task (claim_row w (db_now s) q) (db_tasks s) \<and> same_others s s'"

lemma claim_next_claims:
  assumes "claim_next w s = Inr (r, s')" "db_ok s"
  shows "\<exists>q. claims w s s' q \<and> r = claim_row w (db_now s) q"
proof -
  from assms(1) obtain q qs where q: "claimable s = q # qs"
    and up: "update_task (\<lambda>x. trow_id x = trow_id q) (claim_row w (db_now s)) s = Inr (r, s')"
    by (auto simp: claim_next_def split: list.splits)
  have "q \<in> set (claimable s)" using q by simp
  then have q_in: "q \<in> set (db_tasks s)" "trow_status q = TaskStatusQueued" "trow_id q \<notin> set (db_locked s)"
    by (auto simp: claimable_def)
  from up obtain q' where q': "q' \<in> set (db_tasks s)" "trow_id q' = trow_id q"
    "r = claim_row w (db_now s) q'" "s' = s\<lparr>db_tasks := put_task r (db_tasks s)\<rparr>"
    by (rule update_task_Inr)
  have "distinct (map trow_id (db_tasks s))" using assms(2) by (simp add: db_ok_def tasks_ok_def)
  then have "q' = q" using distinct_id_eq q'(1,2) q_in(1) by blast
  then show ?thesis using q_in q' claimable_first [OF q] by (auto simp: claims_def same_others_def)
qed

lemma claims_same:
  "same_tables s s1 \<Longrightarrow> claims w s1 s2 q \<Longrightarrow> same_tables s2 s' \<Longrightarrow> claims w s s' q"
  by (simp add: claims_def same_others_def same_tables_def)

lemma claims_core: "claims w s s1 q \<Longrightarrow> same_core s1 s' \<Longrightarrow> claims w s s' q"
  by (simp add: claims_def same_others_def same_core_def)

lemma claim_next_NoRows: "claimable s = [] \<Longrightarrow> claim_next w s = Inl NoRows"
  by (simp add: claim_next_def)

lemma claimable_Nil:
  "claimable s = [] \<longleftrightarrow> (\<forall>r \<in> set (db_tasks s). trow_status r = TaskStatusQueued \<longrightarrow> trow_id r \<in> set (db_locked s))"
proof -
  have "claimable s = [] \<longleftrightarrow> set (claimable s) = {}" by simp
  also have "set (claimable s) = {r \<in> set (db_tasks s). trow_status r = TaskStatusQueued \<and> trow_id r \<notin> set (db_locked s)}"
    by (auto simp: claimable_def)
  finally show ?thesis by auto
qed

lemma claimable_same: "same_tables s s' \<Longrightarrow> claimable s' = claimable s"
  by (simp add: claimable_def same_tables_def)

text \<open>A statement that finds a free task never reports that there is none, unless the driver says so.\<close>

definition honest_faults :: "'x db_scheme \<Rightarrow> bool" where
  "honest_faults s \<longleftrightarrow>
     (\<forall>f \<in> set (db_faults s). case f of NoFault \<Rightarrow> True
        | Failed e \<Rightarrow> \<not> errors_is e NoRows | ReplyLost e \<Rightarrow> \<not> errors_is e NoRows)"

lemma honest_pop:
  "honest_faults s \<Longrightarrow> pop_fault s = (f, s') \<Longrightarrow>
   honest_faults s' \<and> f \<noteq> Failed NoRows \<and>
   (\<forall>e. f = Failed e \<or> f = ReplyLost e \<longrightarrow> \<not> errors_is e NoRows)"
  by (auto simp: honest_faults_def pop_fault_def split: list.splits)

lemma constraint_error_is [simp]: "errors_is (constraint_error n) t = False"
  by (simp add: constraint_error_def)

lemma update_task_NoRows:
  "update_task cond upd s = Inl e \<Longrightarrow> errors_is e NoRows \<Longrightarrow> \<forall>r \<in> set (db_tasks s). \<not> cond r"
  by (auto simp: update_task_def split: option.splits if_splits dest: find_NoneD)

lemma claim_next_Inl_NoRows:
  assumes "claim_next w s = Inl e" "errors_is e NoRows"
  shows "claimable s = []"
proof (cases "claimable s")
  case (Cons q qs)
  then have up: "update_task (\<lambda>x. trow_id x = trow_id q) (claim_row w (db_now s)) s = Inl e"
    using assms(1) by (simp add: claim_next_def)
  have "q \<in> set (claimable s)" using Cons by simp
  then have "q \<in> set (db_tasks s)" by (simp add: claimable_def)
  then show ?thesis using update_task_NoRows [OF up assms(2)] by blast
qed simp

lemma claim_body_None:
  assumes "claim_body w s = (Inr None, s')" "honest_faults s"
  shows "claimable s = []"
proof -
  obtain f s1 where pf: "pop_fault s = (f, s1)" by (cases "pop_fault s")
  from assms(1) obtain e s2 where e: "in_tx (claim_next w) s = (Inl e, s2)" "errors_is e NoRows"
    by (auto simp: claim_body_def scanTask_def split: sum.splits prod.splits if_splits)
  with pf honest_pop [OF assms(2) pf] have "claim_next w s1 = Inl e"
    by (auto simp: in_tx_def split: db_fault.splits sum.splits prod.splits)
  then show ?thesis using claim_next_Inl_NoRows e(2) claimable_same [OF same_tables_pop_fault [OF pf]] by metis
qed

lemma claim_body_Some:
  assumes "claim_body w s1 = (Inr (Some tk), s2)" "TrimSpace w \<noteq> ''''" "db_ok s" "same_tables s s1" "same_tables s2 s'"
  shows "\<exists>q. claims w s s' q \<and> tk = task_of_row (claim_row w (db_now s) q)"
proof -
  from claim_body_cases [OF assms(1,2)] obtain x t where t: "same_tables s1 t"
    "claim_next w t = Inr (x, s2)" "tk = task_of_row x" by auto
  have st: "same_tables s t" using assms(4) t(1) by (rule same_tables_trans)
  have "db_ok t" using db_ok_same_tables [OF st] assms(3) by simp
  from claim_next_claims [OF t(2) this] obtain q where "claims w t s2 q" "x = claim_row w (db_now t) q"
    by blast
  moreover have "db_now t = db_now s" using st by (simp add: same_tables_def)
  ultimately show ?thesis using claims_same [OF st _ assms(5)] t(3) by auto
qed

lemma ClaimNextQueued_effect:
  assumes "audit_wired auditLog" "db_ok s" "honest_faults s"
  shows "case ClaimNextQueued auditLog ctx w s of
      (Inl e, s') \<Rightarrow> same_tables s s' \<or> (\<exists>q. claims w s s' q)
    | (Inr None, s') \<Rightarrow> claimable s = [] \<and> same_tables s s'
    | (Inr (Some tk), s') \<Rightarrow> \<exists>q. claims w s s' q \<and> tk = task_of_row (claim_row w (db_now s) q)"
proof (cases "TrimSpace w = ''''")
  case False
  let ?oc = "\<lambda>found e. case found of None \<Rightarrow> e | Some tk \<Rightarrow> with_stack e"
  obtain r s3 where tx: "transaction with_stack ?oc (claim_body w) s = (r, s3)"
    by (cases "transaction with_stack ?oc (claim_body w) s")
  have taken: "\<exists>q. claims w s s3 q \<and> tk = task_of_row (claim_row w (db_now s) q)"
    if "same_tables s s1" "claim_body w s1 = (Inr (Some tk), s2)" "same_tables s2 s3" for s1 s2 tk
    using claim_body_Some [OF that(2) False assms(2) that(1,3)] .
  have none: "claimable s = [] \<and> same_tables s s3"
    if "same_tables s s1" "claim_body w s1 = (Inr None, s2)" "same_tables s2 s3" "honest_faults s1" for s1 s2
    using claim_body_None [OF that(2,4)] claimable_same [OF that(1)] claim_body_cases [OF that(2) False]
      same_tables_trans [OF same_tables_trans [OF that(1)] that(3)] by simp
  have honest: "honest_faults s1" if "pop_fault s = (NoFault, s1)" for s1
    using honest_pop [OF assms(3) that] by simp
  show ?thesis
  proof (cases r)
    case (Inl e)
    then have "same_tables s s3 \<or> (\<exists>q. claims w s s3 q)"
      using transaction_cases [OF tx] taken claim_body_cases [OF _ False] same_tables_trans
      by (metis (no_types, lifting) option.case_eq_if option.exhaust_sel)
    then show ?thesis using False tx Inl by (simp add: ClaimNextQueued_def)
  next
    case (Inr found)
    then obtain s1 s2 where p: "pop_fault s = (NoFault, s1)" "claim_body w s1 = (Inr found, s2)"
      "pop_fault s2 = (NoFault, s3)"
      using tx by (auto simp: transaction_def split: prod.splits db_fault.splits sum.splits)
    have b: "same_tables s s1" "same_tables s2 s3" "honest_faults s1"
      using p same_tables_pop_fault honest by blast+
    note b = b(1) p(2) b(2,3)
    show ?thesis
    proof (cases found)
      case None
      then show ?thesis using none b False tx Inr by (simp add: ClaimNextQueued_def)
    next
      case (Some tk)
      then obtain q where "claims w s s3 q" "tk = task_of_row (claim_row w (db_now s) q)"
        using taken b by blast
      moreover have "same_core s3 (recordClaimedAudit auditLog ctx tk s3)"
        unfolding recordClaimedAudit_def by (rule audit_best_effort_core [OF assms(1)])
      ultimately have "claims w s (recordClaimedAudit auditLog ctx tk s3) q \<and>
          tk = task_of_row (claim_row w (db_now s) q)" using claims_core by blast
      then show ?thesis using Some False tx Inr by (simp add: ClaimNextQueued_def) blast
    qed
  qed
qed (simp add: ClaimNextQueued_def)

text \<open>
  What a claim promises, column by column.  \<open>task_taken w s s' q\<close>: \<open>q\<close> is the queued row that nobody has locked with the
  least creation time, then identifier; it alone is changed, and how is spelled out.  \<open>told_task\<close> is the task the worker
  is told.
\<close>

definition task_taken :: "string \<Rightarrow> 'x db_scheme \<Rightarrow> 'x db_scheme \<Rightarrow> task_row \<Rightarrow> bool" where
  "task_taken w s s' q \<longleftrightarrow>
     q \<in> set (db_tasks s) \<and> trow_status q = TaskStatusQueued \<and> trow_id q \<notin> set (db_locked s) \<and>
     (\<forall>r \<in> set (db_tasks s). trow_status r = TaskStatusQueued \<and> trow_id r \<notin> set (db_locked s) \<longrightarrow>
        trow_created_at q < trow_created_at r \<or>
        (trow_created_at q = trow_created_at r \<and> trow_id q \<le> trow_id r)) \<and>
     db_tasks s' = map (\<lambda>r. if trow_id r = trow_id q
        then q\<lparr>trow_status := TaskStatusRunning, trow_claimed_by := Some w, trow_claimed_at := Some (db_now s),
               trow_started_at := Some (db_now s), trow_attempt := trow_attempt q + 1, trow_updated_at := db_now s\<rparr>
        else r) (db_tasks s) \<and>
     db_accounts s' = db_accounts s \<and> db_proxies s' = db_proxies s \<and> db_sessions s' = db_sessions s \<and>
     db_results s' = db_results s"

definition told_task :: "string \<Rightarrow> time \<Rightarrow> task_row \<Rightarrow> task" where
  "told_task w now q =
     \<lparr>task_ID = trow_id q, task_SourceTaskID = trow_source_task_id q, task_AccountID = trow_account_id q,
      task_TargetProfile = trow_target_profile q, task_Status = TaskStatusRunning, task_Attempt = trow_attempt q + 1,
      task_ClaimedBy = w, task_ClaimedAt = Some now, task_StartedAt = Some now, task_FinishedAt = trow_finished_at q,
      task_ErrorCode = (case trow_error_code q of None \<Rightarrow> no_error_code | Some c \<Rightarrow> c),
      task_ResultReason = (case trow_result_reason q of None \<Rightarrow> '''' | Some v \<Rightarrow> v),
      task_CreatedAt = trow_created_at q, task_UpdatedAt = now\<rparr>"

lemma claims_taken: "claims w s s' q \<longleftrightarrow> task_taken w s s' q"
  by (simp add: claims_def task_taken_def put_task_def claim_row_def same_others_def)

lemma told_task_row: "task_of_row (claim_row w now q) = told_task w now q"
  by (simp add: task_of_row_def claim_row_def told_task_def)

lemma pop_fault_cases:
  assumes "pop_fault s = (f, s1)"
  shows "db_faults s = [] \<and> f = NoFault \<and> db_faults s1 = [] \<or> db_faults s = f # db_faults s1"
  using assms by (auto simp: pop_fault_def split: list.splits)

lemma claim_body_Some_faults:
  assumes "claim_body w s = (Inr (Some tk), s')"
  shows "db_faults s = [] \<and> db_faults s' = [] \<or> db_faults s = NoFault # db_faults s'"
proof -
  obtain f t where p: "pop_fault s = (f, t)" by fastforce
  from assms p obtain r where "f = NoFault" and c: "claim_next w t = Inr (r, s')"
    by (auto simp: claim_body_def scanTask_def in_tx_def split: sum.splits prod.splits db_fault.splits if_splits)
  moreover from c have "db_faults s' = db_faults t"
    by (auto simp: claim_next_def update_task_def split: list.splits option.splits if_splits)
  ultimately show ?thesis using pop_fault_cases [OF p] by auto
qed

lemma ClaimNextQueued_lost_reply:
  assumes "ClaimNextQueued auditLog ctx w s = (Inl e, s')" "db_ok s"
  shows "same_tables s s' \<or>
    (\<exists>q e' fs. task_taken w s s' q \<and> db_faults s = NoFault # NoFault # ReplyLost e' # fs \<and> e = with_stack e')"
proof (cases "TrimSpace w = ''''")
  case True
  then show ?thesis using assms(1) by (simp add: ClaimNextQueued_def)
next
  case False
  let ?oc = "\<lambda>found e. case found of None \<Rightarrow> e | Some tk \<Rightarrow> with_stack e"
  have tx: "transaction with_stack ?oc (claim_body w) s = (Inl e, s')"
    using assms(1) False by (auto simp: ClaimNextQueued_def split: sum.splits prod.splits option.splits)
  note nonblank = False
  obtain f s1 where p: "pop_fault s = (f, s1)" by fastforce
  obtain r s2 where b: "claim_body w s1 = (r, s2)" by fastforce
  obtain g s3 where q: "pop_fault s2 = (g, s3)" by fastforce
  note same = same_tables_pop_fault [OF p] same_tables_pop_fault [OF q]
  have rolled: "same_tables s (rollback s1 t)" for t using same_tables_trans [OF same(1) same_tables_rollback] .
  show ?thesis
  proof (cases "\<exists>tk e'. f = NoFault \<and> r = Inr (Some tk) \<and> g = ReplyLost e'")
    case True
    then obtain tk e' where c: "f = NoFault" "r = Inr (Some tk)" "g = ReplyLost e'" by blast
    have "s' = s3" "e = with_stack e'" using tx p b q c by (simp_all add: transaction_def)
    moreover obtain x where "claims w s s3 x"
      using claim_body_Some [OF b [unfolded c(2)] nonblank assms(2) same] by blast
    moreover have "db_faults s = NoFault # NoFault # ReplyLost e' # db_faults s3"
      using pop_fault_cases [OF p] pop_fault_cases [OF q] claim_body_Some_faults [OF b [unfolded c(2)]] c(1,3) by auto
    ultimately show ?thesis using claims_taken by blast
  next
    case False
    have "same_tables s s'"
    proof (cases "f = NoFault \<and> r = Inr None")
      case True
      then have "same_tables s1 s2" using claim_body_cases [of w s1 None s2] b nonblank by simp
      then have "same_tables s s3" using same same_tables_trans by blast
      then show ?thesis using True tx p b q rolled by (auto simp: transaction_def split: db_fault.splits)
    next
      case no: False
      then show ?thesis using False tx p b q rolled same(1)
        by (cases f; cases r; cases g) (auto simp: transaction_def split: option.splits)
    qed
    then show ?thesis ..
  qed
qed

text \<open>
  C4.  A claim takes the oldest queued task that nobody has locked, for exactly this worker, with one more attempt, and
  changes no other row; the worker is told this task.  The answer that there is no task comes only when none is free,
  and then nothing has changed.  An error means that nothing has changed, but for one case: the claim succeeded up to
  the commit, whose reply was lost, and then the error is that of the commit and the claim is in the table.
\<close>

theorem ClaimNextQueued_outcome:
  assumes "audit_wired auditLog" "db_ok s" "honest_faults s"
  shows "case ClaimNextQueued auditLog ctx w s of
      (Inl e, s') \<Rightarrow> same_tables s s' \<or>
        (\<exists>q e' fs. task_taken w s s' q \<and> db_faults s = NoFault # NoFault # ReplyLost e' # fs \<and> e = with_stack e')
    | (Inr None, s') \<Rightarrow> (\<forall>r \<in> set (db_tasks s). trow_status r = TaskStatusQueued \<longrightarrow> trow_id r \<in> set (db_locked s)) \<and>
        same_tables s s'
    | (Inr (Some tk), s') \<Rightarrow> \<exists>q. task_taken w s s' q \<and> tk = told_task w (db_now s) q"
proof (cases "fst (ClaimNextQueued auditLog ctx w s)")
  case (Inl e)
  then obtain s' where "ClaimNextQueued auditLog ctx w s = (Inl e, s')" by (metis prod.collapse)
  with ClaimNextQueued_lost_reply [OF this assms(2)] show ?thesis by simp
next
  case (Inr found)
  then obtain s' where run: "ClaimNextQueued auditLog ctx w s = (Inr found, s')" by (metis prod.collapse)
  show ?thesis
    using ClaimNextQueued_effect [OF assms, where ctx = ctx and w = w] run
    by (auto simp: claimable_Nil claims_taken told_task_row split: option.splits)
qed


section \<open>A database for the examples\<close>

definition sample_account :: account_row where
  "sample_account =
     \<lparr>arow_id = ''a1'', arow_username = ''user'', arow_proxy_id = Some ''p1'',
      arow_credential_source = CredentialSourceManual, arow_credential_ref = ''manual://legacy'',
      arow_operational_state = AccountStateActive, arow_is_active = True, arow_is_ready = True,
      arow_is_quarantined = False, arow_is_restricted = False, arow_limit_reached = False,
      arow_active_execution_context_id = None, arow_created_at = 1, arow_updated_at = 1\<rparr>"

definition sample_proxy :: proxy where
  "sample_proxy = \<lparr>proxy_ID = ''p1'', proxy_Host = ''h'', proxy_Port = 8080, proxy_IsActive = True,
                   proxy_CreatedAt = 1, proxy_UpdatedAt = 1\<rparr>"

definition sample_target :: string where
  "sample_target = ''https://oskelly.ru/profile/7''"

definition sample_db :: "task_row list \<Rightarrow> db" where
  "sample_db tasks =
     \<lparr>db_tasks = tasks, db_accounts = [sample_account], db_proxies = [sample_proxy], db_sessions = [],
      db_results = [], db_audit = [], db_now = 10, db_uuid_src = (\<lambda>n. CHR ''u'' # nat_str n),
      db_uuid_next = 0, db_faults = [], db_locked = []\<rparr>"

definition sample_queued :: task_row where
  "sample_queued = queued_row ''t1'' None ''a1'' sample_target 0 5"

definition sample_running :: task_row where
  "sample_running = claim_row ''w1'' 6 sample_queued"

definition sample_failed :: task_row where
  "sample_failed = complete_row TaskStatusFail (Some ErrorCodeAccountBusy) None 8 sample_running"

lemmas sample_defs = sample_db_def sample_account_def sample_proxy_def sample_target_def
  sample_queued_def sample_running_def sample_failed_def

lemma sample_rows_ok:
  "task_row_ok sample_queued" "task_row_ok sample_running" "task_row_ok sample_failed"
  by code_simp+

lemma sample_db_ok:
  assumes "r \<in> {sample_queued, sample_running, sample_failed}"
  shows "db_ok (sample_db [r])" "honest_faults (sample_db [r])" "audit_wired (Some pg_audit_log)"
proof -
  have "task_row_ok r" using assms sample_rows_ok by blast
  moreover have "account_row_ok sample_account" by code_simp
  moreover have "trow_account_id r = ''a1''" "trow_source_task_id r = None"
    using assms by (auto simp: sample_defs queued_row_def row_updates)
  ultimately show "db_ok (sample_db [r])"
    by (simp add: db_ok_def sample_db_def tasks_ok_def accounts_ok_def sessions_ok_def results_ok_def
        active_contexts_def List.map_filter_simps sample_account_def sample_proxy_def)
  show "honest_faults (sample_db [r])" by (simp add: honest_faults_def sample_db_def)
  show "audit_wired (Some pg_audit_log)" by (simp add: audit_wired_def)
qed

lemma ClaimNextQueued_outcome_witness:
  "\<exists>tk s' q. ClaimNextQueued None Background ''w1'' (sample_db [sample_queued]) = (Inr (Some tk), s') \<and>
     task_taken ''w1'' (sample_db [sample_queued]) s' q \<and> tk = told_task ''w1'' 10 q"
proof -
  have run: "fst (ClaimNextQueued None Background ''w1'' (sample_db [sample_queued])) =
      Inr (Some (told_task ''w1'' 10 sample_queued))" by code_simp
  obtain s' where s': "ClaimNextQueued None Background ''w1'' (sample_db [sample_queued]) =
      (Inr (Some (told_task ''w1'' 10 sample_queued)), s')"
    using run by (metis prod.collapse)
  have "db_now (sample_db [sample_queued]) = 10" by (simp add: sample_db_def)
  then show ?thesis
    using ClaimNextQueued_outcome [where auditLog = None and s = "sample_db [sample_queued]" and
        ctx = Background and w = "''w1''"]
      sample_db_ok [of sample_queued] s' by (auto simp: audit_wired_def)
qed


section \<open>Completion\<close>

lemma scan_autocommit_Inr:
  assumes "scanTask (autocommit st s) = (Inr tk, s')"
  shows "\<exists>t r. same_tables s t \<and> st t = Inr (r, s') \<and> tk = task_of_row r"
proof -
  from scanTask_Inr [OF assms] obtain r where r: "autocommit st s = (Inr r, s')" "tk = task_of_row r" by blast
  from autocommit_Inr [OF r(1)] show ?thesis using r(2) by blast
qed

lemma Complete_effect:
  assumes "audit_wired auditLog" "Complete auditLog other ctx tid w final code reason s = (Inr tk, s')"
  shows "\<exists>t q. t = other 0 (snd (GetByID ctx tid s)) \<and>
    q \<in> set (db_tasks t) \<and> trow_id q = tid \<and> trow_claimed_by q = Some w \<and>
    trow_status q = TaskStatusRunning \<and> final \<in> {TaskStatusSuccess, TaskStatusRetry, TaskStatusFail} \<and>
    (let q' = complete_row final
                (if final = TaskStatusSuccess then None else nullableErrorCode code)
                (if final = TaskStatusSuccess then None else nullableString reason) (db_now t) q
     in tk = task_of_row q' \<and> db_tasks s' = put_task q' (db_tasks t) \<and> same_others t s')"
proof -
  obtain r1 s1 where g: "GetByID ctx tid s = (r1, s1)" by (cases "GetByID ctx tid s")
  let ?code = "nullableErrorCode (if final = TaskStatusSuccess then no_error_code else code)"
  let ?reason = "nullableString (if final = TaskStatusSuccess then '''' else reason)"
  from assms(2) g obtain s2 where v: "final \<in> {TaskStatusSuccess, TaskStatusRetry, TaskStatusFail}"
    and c: "scanTask (autocommit (complete_stmt tid w final ?code ?reason) (other 0 s1)) = (Inr tk, s2)"
    and s': "s' = recordCompletedAudit auditLog ctx tk s2"
    unfolding Complete_def Let_def
    by (auto simp: ValidateTaskCompletion_None split: if_splits sum.splits prod.splits option.splits)
  from scan_autocommit_Inr [OF c] obtain t r where t: "same_tables (other 0 s1) t"
    "complete_stmt tid w final ?code ?reason t = Inr (r, s2)" "tk = task_of_row r" by blast
  from t(2) [unfolded complete_stmt_def] obtain q where q: "q \<in> set (db_tasks t)" "trow_id q = tid"
    "trow_claimed_by q = Some w" "trow_status q = TaskStatusRunning"
    "r = complete_row final ?code ?reason (db_now t) q" "s2 = t\<lparr>db_tasks := put_task r (db_tasks t)\<rparr>"
    by (auto elim: update_task_Inr)
  have core: "same_core s2 s'"
    unfolding s' recordCompletedAudit_def by (rule audit_best_effort_core [OF assms(1)])
  have codes: "?code = (if final = TaskStatusSuccess then None else nullableErrorCode code)"
    "?reason = (if final = TaskStatusSuccess then None else nullableString reason)"
    by (simp_all add: nullableErrorCode_def nullableString_def)
  have "other 0 (snd (GetByID ctx tid s)) = other 0 s1" using g by simp
  moreover have "db_tasks (other 0 s1) = db_tasks t" "db_now (other 0 s1) = db_now t"
    "same_others (other 0 s1) t" using t(1) by (simp_all add: same_tables_def same_others_def)
  moreover have "db_tasks s' = put_task r (db_tasks t)" "same_others t s'"
    using core q(6) by (simp_all add: same_core_def same_others_def)
  ultimately show ?thesis
    using v q(1-5) t(3) unfolding Let_def codes same_others_def by (intro exI [of _ "other 0 s1"] exI [of _ q]) simp
qed

text \<open>
  C5.  Whatever other workers do between its two statements, a completion that returns a task has moved
  exactly that task, which at the moment of the update was running and claimed by this worker, to the
  requested final status, and has touched no other row; an error code or reason is kept only with
  \<open>retry\<close> and \<open>fail\<close>.
\<close>

theorem Complete_owner_only:
  assumes "audit_wired auditLog" "Complete auditLog other ctx tid w final code reason s = (Inr tk, s')"
  shows "\<exists>t q. t = other 0 (snd (GetByID ctx tid s)) \<and>
    q \<in> set (db_tasks t) \<and> trow_id q = tid \<and> trow_claimed_by q = Some w \<and>
    trow_status q = TaskStatusRunning \<and> final \<in> {TaskStatusSuccess, TaskStatusRetry, TaskStatusFail} \<and>
    (let q' = complete_row final
                (if final = TaskStatusSuccess then None else nullableErrorCode code)
                (if final = TaskStatusSuccess then None else nullableString reason) (db_now t) q
     in tk = task_of_row q' \<and> db_tasks s' = put_task q' (db_tasks t) \<and> same_others t s')"
  by (rule Complete_effect [OF assms])

lemma Complete_finishes:
  assumes "audit_wired auditLog" "db_ok s" "clock_ok s" "db_faults s = []"
    "q \<in> set (db_tasks s)" "trow_id q = tid" "tid \<noteq> uuid_Nil"
    "trow_status q = TaskStatusRunning" "trow_claimed_by q = Some w" "TrimSpace w \<noteq> ''''"
    "ValidateTaskCompletion TaskStatusRunning final code reason = None"
  shows "\<exists>tk s'. Complete auditLog (\<lambda>k t. t) ctx tid w final code reason s = (Inr tk, s') \<and>
    task_ID tk = tid \<and> task_Status tk = final \<and> task_FinishedAt tk = Some (db_now s)"
proof -
  have dist: "distinct (map trow_id (db_tasks s))" using assms(2) by (simp add: db_ok_def tasks_ok_def)
  have ok: "task_row_ok q" using assms(2,5) by (auto simp: db_ok_def tasks_ok_def list_all_iff)
  have find_id: "find (\<lambda>r. trow_id r = tid) (db_tasks s) = Some q"
    using find_map_of [OF dist assms(5)] assms(6) by simp
  have find_owner: "find (\<lambda>r. trow_id r = tid \<and> trow_claimed_by r = Some w \<and> trow_status r = TaskStatusRunning)
      (db_tasks s) = Some q" (is "find ?P _ = _")
  proof (cases "find ?P (db_tasks s)")
    case None
    then show ?thesis using find_NoneD [OF None assms(5)] assms(6,8,9) by simp
  next
    case (Some x)
    then show ?thesis using find_SomeD [OF Some] distinct_id_eq [OF dist _ assms(5)] assms(6) by auto
  qed
  let ?code = "nullableErrorCode (if final = TaskStatusSuccess then no_error_code else code)"
  let ?reason = "nullableString (if final = TaskStatusSuccess then '''' else reason)"
  have final: "final \<in> {TaskStatusSuccess, TaskStatusRetry, TaskStatusFail}"
    using assms(11) by (simp add: ValidateTaskCompletion_None)
  have why: "final \<noteq> TaskStatusSuccess \<longrightarrow> nonblank (map_option error_code_str ?code) \<or> nonblank ?reason"
    using assms(11) trim_space_nonblank TrimSpace_nonempty
    by (auto simp: ValidateTaskCompletion_None nullableErrorCode_def nullableString_def nonblank_def)
  have "task_row_ok (complete_row final ?code ?reason (db_now s) q)"
    using complete_row_ok [OF ok assms(8) _ final _ why] assms(3,5)
    by (auto simp: clock_ok_def nullableErrorCode_def nullableString_def)
  moreover have get: "GetByID ctx tid s = (Inr (task_of_row q), s)"
    using assms(4,7) find_id
    by (simp add: GetByID_def scanTask_def autocommit_def select_task_def)
  ultimately show ?thesis
    using assms(4,7,8,9,10,11) find_owner final
    unfolding Complete_def Let_def get
    by (simp add: scanTask_def autocommit_def complete_stmt_def update_task_def task_of_row_def
        complete_row_def assms(6))
qed

text \<open>
  C30.  The worker that holds a running task can always complete it: without a fault of the driver and
  without interference a completion that passes the code's own check returns the finished task.  So no
  completion the code lets through is refused by a constraint of the database.
\<close>

theorem Complete_succeeds:
  assumes "audit_wired auditLog" "db_ok s" "clock_ok s" "db_faults s = []"
    "q \<in> set (db_tasks s)" "trow_id q = tid" "tid \<noteq> uuid_Nil"
    "trow_status q = TaskStatusRunning" "trow_claimed_by q = Some w" "TrimSpace w \<noteq> ''''"
    "ValidateTaskCompletion TaskStatusRunning final code reason = None"
  shows "\<exists>tk s'. Complete auditLog (\<lambda>k t. t) ctx tid w final code reason s = (Inr tk, s') \<and>
    task_ID tk = tid \<and> task_Status tk = final \<and> task_FinishedAt tk = Some (db_now s)"
  by (rule Complete_finishes [OF assms])

lemma Complete_owner_only_witness:
  "\<exists>tk s' q. Complete None (\<lambda>k t. t) Background ''t1'' ''w1'' TaskStatusFail ErrorCodeAccountBusy ''''
       (sample_db [sample_running]) = (Inr tk, s') \<and>
     q \<in> set (db_tasks (sample_db [sample_running])) \<and> trow_claimed_by q = Some ''w1'' \<and>
     task_Status tk = TaskStatusFail"
proof -
  let ?s = "sample_db [sample_running]"
  let ?r = "Complete None (\<lambda>k t. t) Background ''t1'' ''w1'' TaskStatusFail ErrorCodeAccountBusy '''' ?s"
  have "\<exists>tk. fst ?r = Inr tk"
  proof -
    have "(case fst ?r of Inl e \<Rightarrow> False | Inr tk \<Rightarrow> True)" by code_simp
    then show ?thesis by (simp split: sum.splits)
  qed
  then obtain tk s' where run: "?r = (Inr tk, s')" by (metis prod.collapse)
  have get: "snd (GetByID Background ''t1'' ?s) = ?s"
    by (simp add: GetByID_def scanTask_def autocommit_def select_task_def sample_db_def uuid_Nil_def
        split: option.splits)
  from Complete_owner_only [OF _ run] get show ?thesis
    using run by (auto simp: audit_wired_def Let_def task_of_row_def complete_row_def)
qed

lemma Complete_succeeds_witness:
  "\<exists>tk s'. Complete None (\<lambda>k t. t) Background ''t1'' ''w1'' TaskStatusSuccess no_error_code ''''
       (sample_db [sample_running]) = (Inr tk, s') \<and> task_Status tk = TaskStatusSuccess"
proof -
  have clock: "clock_ok (sample_db [sample_running])"
    by (simp add: clock_ok_def sample_defs row_updates queued_row_def)
  have row: "trow_id sample_running = ''t1''" "trow_status sample_running = TaskStatusRunning"
    "trow_claimed_by sample_running = Some ''w1''"
    by (simp_all add: sample_defs row_updates queued_row_def)
  have w: "TrimSpace ''w1'' \<noteq> ''''" by code_simp
  have v: "ValidateTaskCompletion TaskStatusRunning TaskStatusSuccess no_error_code '''' = None" by code_simp
  from Complete_succeeds [of None "sample_db [sample_running]" sample_running "''t1''" "''w1''"
      TaskStatusSuccess no_error_code "''''" Background] clock row w v sample_db_ok [of sample_running]
  show ?thesis by (fastforce simp: audit_wired_def sample_db_def uuid_Nil_def)
qed


section \<open>Administrator\<close>

lemma in_tx_audit_Inr:
  assumes "in_tx (insert_audit a) s = (Inr x, s')"
  shows "same_core s s' \<and> db_audit s' = db_audit s @ [a]"
proof -
  from in_tx_Inr [OF assms] obtain t where "same_tables s t" "insert_audit a t = Inr (x, s')" by blast
  then show ?thesis using insert_audit_Inr by (fastforce simp: same_tables_def same_core_def)
qed

lemma new_uuid_core: "new_uuid s = (u, s') \<Longrightarrow> same_core s s' \<and> db_audit s' = db_audit s"
  by (auto simp: new_uuid_def same_core_def)

lemma adminMutationDiagnosticFields_safe:
  "\<forall>kv \<in> set (adminMutationDiagnosticFields ctx a tid extra). safe_entry kv"
  using sanitize_loop_safe [of "[]"] by (simp add: adminMutationDiagnosticFields_def SanitizeDiagnosticFields_def)

text \<open>The audit record of an administrator's action: actor of the context, target, sanitized details.\<close>

definition admin_audit :: "go_context \<Rightarrow> uuid \<Rightarrow> string \<Rightarrow> audit_record \<Rightarrow> bool" where
  "admin_audit ctx target action a \<longleftrightarrow>
     record_ActorType a = actor_Type (ActorFromContext ctx) \<and>
     record_ActorID a = actor_ID (ActorFromContext ctx) \<and>
     record_Action a = action \<and> record_TargetType a = ''task'' \<and> record_TargetID a = target \<and>
     (\<forall>kv \<in> set (record_DiagnosticFields a). safe_entry kv)"

definition transition_action_name :: "task_admin_action \<Rightarrow> string" where
  "transition_action_name action =
     (case action of TaskAdminActionRetry \<Rightarrow> ''task.retried'' | TaskAdminActionCancel \<Rightarrow> ''task.canceled''
      | TaskAdminActionOther a \<Rightarrow> ''task.admin_transitioned'')"

lemma exec_audit_Inr:
  assumes "exec_audit mk s = (Inr u, s')"
  shows "\<exists>uid now. same_core s s' \<and> db_audit s' = db_audit s @ [mk uid now]"
proof -
  obtain uid s1 where n: "new_uuid s = (uid, s1)" by (cases "new_uuid s")
  with assms obtain x where x: "in_tx (insert_audit (mk uid (db_now s1))) s1 = (Inr x, s')"
    by (auto simp: exec_audit_def split: prod.splits sum.splits)
  then show ?thesis using in_tx_audit_Inr [OF x] new_uuid_core [OF n] same_core_trans by metis
qed

lemma admin_audit_records:
  "admin_audit ctx (task_ID a) (transition_action_name (transition_Action tr))
     (adminTransitionRecord ctx b a tr uid now)"
  "admin_audit ctx (task_ID a) ''task.retried'' (taskRetryRecord ctx b a uid now)"
  by (simp_all add: admin_audit_def adminTransitionRecord_def taskRetryRecord_def
      transition_action_name_def adminMutationDiagnosticFields_safe Let_def)

lemma append_audit_Inr:
  "appendAdminTransitionAuditLog ctx b a tr s = (Inr u, s') \<Longrightarrow>
   \<exists>rec. same_core s s' \<and> db_audit s' = db_audit s @ [rec] \<and>
     admin_audit ctx (task_ID a) (transition_action_name (transition_Action tr)) rec"
  "appendTaskRetryAuditLog ctx b a s = (Inr u, s') \<Longrightarrow>
   \<exists>rec. same_core s s' \<and> db_audit s' = db_audit s @ [rec] \<and> admin_audit ctx (task_ID a) ''task.retried'' rec"
  unfolding appendAdminTransitionAuditLog_def appendTaskRetryAuditLog_def
  using exec_audit_Inr admin_audit_records by blast+

lemma scan_in_tx_Inr:
  assumes "scanTask (in_tx st s) = (Inr tk, s')"
  shows "\<exists>t r. same_tables s t \<and> st t = Inr (r, s') \<and> tk = task_of_row r"
proof -
  from scanTask_Inr [OF assms] obtain r where r: "in_tx st s = (Inr r, s')" "tk = task_of_row r" by blast
  from in_tx_Inr [OF r(1)] show ?thesis using r(2) by blast
qed

text \<open>What an administrator's transition on task \<open>tid\<close> does when it takes effect.\<close>

definition admin_applied ::
  "go_context \<Rightarrow> uuid \<Rightarrow> task_admin_action \<Rightarrow> 'x db_scheme \<Rightarrow> 'x db_scheme \<Rightarrow> task \<Rightarrow> bool" where
  "admin_applied ctx tid action s s' tk \<longleftrightarrow>
     (\<exists>q tr why rec. q \<in> set (db_tasks s) \<and> trow_id q = tid \<and>
        EvaluateTaskAdminTransition (trow_status q) action = Inr tr \<and>
        (let q' = admin_row (transition_ToStatus tr) why (db_now s) q
         in tk = task_of_row q' \<and> db_tasks s' = put_task q' (db_tasks s) \<and> task_row_ok q') \<and>
        db_audit s' = db_audit s @ [rec] \<and> admin_audit ctx tid (transition_action_name action) rec \<and>
        same_others s s')"

lemma EvaluateTaskAdminTransition_action:
  "EvaluateTaskAdminTransition st action = Inr tr \<Longrightarrow> transition_Action tr = action"
  by (auto simp: EvaluateTaskAdminTransition_def split: if_splits option.splits)

lemma admin_body_applied:
  assumes "admin_transition_body ctx tid action reason s = (Inr tk, s')" "db_ok s"
  shows "admin_applied ctx tid action s s' tk"
proof -
  from assms(1) obtain locked tr s1 s2 why where st:
    "scanTask (in_tx (select_task tid) s) = (Inr locked, s1)"
    "EvaluateTaskAdminTransition (task_Status locked) action = Inr tr"
    "scanTask (in_tx (admin_stmt tid (transition_ToStatus tr) why) s1) = (Inr tk, s2)"
    "appendAdminTransitionAuditLog ctx locked tk tr s2 = (Inr (), s')"
    by (rule admin_transition_body_Inr)
  from st(1) obtain q where q: "q \<in> set (db_tasks s)" "trow_id q = tid" "locked = task_of_row q"
    "same_tables s s1" by (rule select_task_Inr)
  from scan_in_tx_Inr [OF st(3)] obtain t r where t: "same_tables s1 t"
    "admin_stmt tid (transition_ToStatus tr) why t = Inr (r, s2)" "tk = task_of_row r" by blast
  have same: "same_tables s t" using q(4) t(1) by (rule same_tables_trans)
  from t(2) [unfolded admin_stmt_def] obtain q2 where q2: "q2 \<in> set (db_tasks t)" "trow_id q2 = tid"
    "r = admin_row (transition_ToStatus tr) why (db_now t) q2" "task_row_ok r"
    "s2 = t\<lparr>db_tasks := put_task r (db_tasks t)\<rparr>" by (rule update_task_Inr)
  have "distinct (map trow_id (db_tasks s))" using assms(2) by (simp add: db_ok_def tasks_ok_def)
  then have "q2 = q" using distinct_id_eq [of "db_tasks s" q2 q] q(1,2) q2(1,2) same by (simp add: same_tables_def)
  have tid: "task_ID tk = tid" using t(3) q2(2,3) by (simp add: task_of_row_def admin_row_def)
  have tr: "EvaluateTaskAdminTransition (trow_status q) action = Inr tr"
    using st(2) q(3) by (simp add: task_of_row_def)
  from append_audit_Inr(1) [OF st(4)] obtain rec where rec: "same_core s2 s'"
    "db_audit s' = db_audit s2 @ [rec]" "admin_audit ctx tid (transition_action_name action) rec"
    using tid EvaluateTaskAdminTransition_action [OF tr] by auto
  show ?thesis
    unfolding admin_applied_def Let_def
    using q(1,2) tr rec q2(3-5) \<open>q2 = q\<close> t(3) same
    by (intro exI [of _ q] exI [of _ tr] exI [of _ why] exI [of _ rec])
      (simp add: same_tables_def same_core_def same_others_def)
qed


section \<open>Retry\<close>

text \<open>What a retry of task \<open>tid\<close> does when it takes effect.\<close>

definition retry_applied :: "go_context \<Rightarrow> uuid \<Rightarrow> 'x db_scheme \<Rightarrow> 'x db_scheme \<Rightarrow> task \<Rightarrow> bool" where
  "retry_applied ctx tid s s' tk \<longleftrightarrow>
     (\<exists>q newid rec. q \<in> set (db_tasks s) \<and> trow_id q = tid \<and>
        trow_status q \<in> {TaskStatusRetry, TaskStatusFail} \<and> newid \<notin> set (map trow_id (db_tasks s)) \<and>
        (let n = queued_row newid (Some tid) (trow_account_id q) (trow_target_profile q) 0 (db_now s)
         in tk = task_of_row n \<and> db_tasks s' = db_tasks s @ [n] \<and> task_row_ok n) \<and>
        db_audit s' = db_audit s @ [rec] \<and> admin_audit ctx newid ''task.retried'' rec \<and> same_others s s')"

lemma retry_body_applied:
  assumes "retry_body ctx tid s = (Inr tk, s')"
  shows "retry_applied ctx tid s s' tk"
proof -
  from assms obtain source tr s1 s2 s3 newid where st:
    "scanTask (in_tx (select_task tid) s) = (Inr source, s1)"
    "EvaluateTaskAdminTransition (task_Status source) TaskAdminActionRetry = Inr tr"
    "new_uuid s1 = (newid, s2)"
    "scanTask (in_tx (\<lambda>s. insert_task (queued_row newid (Some (task_ID source)) (task_AccountID source)
       (task_TargetProfile source) 0 (db_now s)) s) s2) = (Inr tk, s3)"
    "appendTaskRetryAuditLog ctx source tk s3 = (Inr (), s')"
    by (rule retry_body_Inr)
  from st(1) obtain q where q: "q \<in> set (db_tasks s)" "trow_id q = tid" "source = task_of_row q"
    "same_tables s s1" by (rule select_task_Inr)
  from scan_in_tx_Inr [OF st(4)] obtain t r where t: "same_tables s2 t"
    "insert_task (queued_row newid (Some (task_ID source)) (task_AccountID source)
       (task_TargetProfile source) 0 (db_now t)) t = Inr (r, s3)" "tk = task_of_row r" by blast
  have same: "same_tables s t"
    using q(4) same_tables_new_uuid [OF st(3)] t(1) by (blast intro: same_tables_trans)
  note ins = insert_task_Inr [OF t(2)]
  from append_audit_Inr(2) [OF st(5)] obtain rec where rec: "same_core s3 s'"
    "db_audit s' = db_audit s3 @ [rec]" "admin_audit ctx (task_ID tk) ''task.retried'' rec" by blast
  have tk: "task_ID tk = newid" using t(3) ins by (simp add: task_of_row_def queued_row_def)
  have status: "trow_status q \<in> {TaskStatusRetry, TaskStatusFail}"
    using st(2) q(3) by (auto simp: EvaluateTaskAdminTransition_retry task_of_row_def)
  show ?thesis
    unfolding retry_applied_def Let_def
    using q(1,2) status rec(2,3) tk ins t(3) same rec(1) q(3)
    by (intro exI [of _ q] exI [of _ newid] exI [of _ rec])
      (simp add: same_tables_def same_core_def same_others_def task_of_row_def queued_row_def)
qed

end
