(* ===== verification/Account_Repository.thy ===== *)
theory Account_Repository
  imports Task_Queue
begin

text \<open>
  \<open>internal/repository/postgres/account_postgres.go\<close>: accounts and their active execution context, the
  lock that lets one worker at a time act under an account.  \<open>account_step\<close> is what one operation may
  do to the account table; the theorems say that a claim is exclusive, that a release undoes it, and
  what the unique index on the execution context does to a worker whose release failed.
\<close>

section \<open>Rows\<close>

definition normalizeCredentialRef :: "string \<Rightarrow> string" where
  "normalizeCredentialRef reference =
     (let normalized = TrimSpace reference in if normalized = '''' then ''manual://legacy'' else normalized)"

definition account_of_row :: "account_row \<Rightarrow> account" where
  "account_of_row r =
     \<lparr>account_ID = arow_id r,
      account_Username = arow_username r,
      account_ProxyID = (case arow_proxy_id r of None \<Rightarrow> uuid_Nil | Some p \<Rightarrow> p),
      account_CredentialSource = NormalizeCredentialSource (arow_credential_source r),
      account_CredentialRef = normalizeCredentialRef (arow_credential_ref r),
      account_OperationalState = arow_operational_state r,
      account_IsActive = arow_is_active r,
      account_IsReady = arow_is_ready r,
      account_IsQuarantined = arow_is_quarantined r,
      account_IsRestricted = arow_is_restricted r,
      account_LimitReached = arow_limit_reached r,
      account_ActiveExecutionContextID =
        (case arow_active_execution_context_id r of None \<Rightarrow> '''' | Some c \<Rightarrow> c),
      account_CreatedAt = arow_created_at r,
      account_UpdatedAt = arow_updated_at r\<rparr>"

record account_with_optional_proxy =
  awop_Account :: account
  awop_Proxy :: "proxy option"

definition toAccountWithProxy :: "account_with_optional_proxy \<Rightarrow> account_with_proxy" where
  "toAccountWithProxy a =
     \<lparr>awp_Account = awop_Account a,
      awp_Proxy = (case awop_Proxy a of
          None \<Rightarrow> \<lparr>proxy_ID = uuid_Nil, proxy_Host = '''', proxy_Port = 0, proxy_IsActive = False,
                   proxy_CreatedAt = 0, proxy_UpdatedAt = 0\<rparr>
        | Some p \<Rightarrow> p)\<rparr>"


section \<open>Statements\<close>

text \<open>\<open>accounts a LEFT JOIN proxies p ON p.id = a.proxy_id WHERE a.id = $1\<close>.\<close>

definition select_account :: "uuid \<Rightarrow> (account_with_optional_proxy, ('x) db_scheme) stmt" where
  "select_account acc s =
     (case find (\<lambda>r. arow_id r = acc) (db_accounts s) of
        None \<Rightarrow> Inl NoRows
      | Some r \<Rightarrow>
          Inr (\<lparr>awop_Account = account_of_row r,
                awop_Proxy = (case arow_proxy_id r of
                    None \<Rightarrow> None
                  | Some p \<Rightarrow> find (\<lambda>q. proxy_ID q = p) (db_proxies s))\<rparr>, s))"

definition put_account :: "account_row \<Rightarrow> account_row list \<Rightarrow> account_row list" where
  "put_account r accounts = map (\<lambda>x. if arow_id x = arow_id r then r else x) accounts"

text \<open>
  An update of one account: the row's own constraints and the unique index on the active execution
  context are checked; the operations here change neither the name nor the proxy.
\<close>

definition update_account ::
  "(account_row \<Rightarrow> bool) \<Rightarrow> (account_row \<Rightarrow> account_row) \<Rightarrow> (account_row, ('x) db_scheme) stmt" where
  "update_account cond upd s =
     (case find cond (db_accounts s) of
        None \<Rightarrow> Inl NoRows
      | Some r \<Rightarrow>
          if \<not> account_row_ok (upd r) then Inl (constraint_error ''accounts_check'')
          else if \<not> distinct (active_contexts (put_account (upd r) (db_accounts s))) then
            Inl (constraint_error ''ux_accounts_active_execution_context'')
          else Inr (upd r, s\<lparr>db_accounts := put_account (upd r) (db_accounts s)\<rparr>))"

definition insert_proxy :: "proxy \<Rightarrow> (unit, ('x) db_scheme) stmt" where
  "insert_proxy p s =
     (if proxy_ID p \<in> set (map proxy_ID (db_proxies s)) then Inl (constraint_error ''proxies_pkey'')
      else if proxy_Port p \<le> 0 then Inl (constraint_error ''proxies_port_check'')
      else Inr ((), s\<lparr>db_proxies := db_proxies s @
             [p\<lparr>proxy_CreatedAt := db_now s, proxy_UpdatedAt := db_now s\<rparr>]\<rparr>))"

definition insert_account :: "account_row \<Rightarrow> (unit, ('x) db_scheme) stmt" where
  "insert_account r s =
     (if accounts_ok (db_proxies s) (db_accounts s @ [r]) then
        Inr ((), s\<lparr>db_accounts := db_accounts s @ [r]\<rparr>)
      else Inl (constraint_error ''accounts''))"

text \<open>
  PostgreSQL refuses an \<open>INSERT\<close> that names more columns than it gives values for, and a statement
  whose arguments are not as many as its placeholders.
\<close>

definition insert_arity :: "nat \<Rightarrow> nat \<Rightarrow> nat \<Rightarrow> ('a, 's) stmt \<Rightarrow> ('a, 's) stmt" where
  "insert_arity columns values arguments st s =
     (if columns \<noteq> values \<or> arguments \<noteq> values then
        Inl (PlainErr ''INSERT has more target columns than expressions'')
      else st s)"

definition claim_account_row :: "string \<Rightarrow> time \<Rightarrow> account_row \<Rightarrow> account_row" where
  "claim_account_row ectx now r =
     r\<lparr>arow_active_execution_context_id := Some ectx, arow_operational_state := AccountStateBusy,
       arow_updated_at := now\<rparr>"

definition busy_account_row :: "time \<Rightarrow> account_row \<Rightarrow> account_row" where
  "busy_account_row now r = r\<lparr>arow_operational_state := AccountStateBusy, arow_updated_at := now\<rparr>"

definition released_state :: "account_row \<Rightarrow> account_operational_state" where
  "released_state r =
     (if arow_is_quarantined r then AccountStateQuarantined
      else if arow_is_restricted r then AccountStateRestricted
      else if \<not> arow_is_active r then AccountStateRestricted
      else if \<not> arow_is_ready r then AccountStateInvalidSession
      else AccountStateActive)"

definition release_account_row :: "time \<Rightarrow> account_row \<Rightarrow> account_row" where
  "release_account_row now r =
     r\<lparr>arow_active_execution_context_id := None, arow_operational_state := released_state r,
       arow_updated_at := now\<rparr>"

definition state_account_row ::
  "account_operational_state \<Rightarrow> bool \<Rightarrow> bool \<Rightarrow> bool \<Rightarrow> bool \<Rightarrow> time \<Rightarrow> account_row \<Rightarrow> account_row" where
  "state_account_row st ready quarantined restricted limit now r =
     r\<lparr>arow_operational_state := st, arow_is_ready := ready, arow_is_quarantined := quarantined,
       arow_is_restricted := restricted, arow_limit_reached := limit, arow_updated_at := now\<rparr>"


section \<open>Operations\<close>

record 'x account_repository =
  arepo_guardrails :: runtime_guardrails
  arepo_auditLog :: "'x audit_log option"

definition NewAccountRepository :: "runtime_guardrails \<Rightarrow> 'x audit_log option \<Rightarrow> 'x account_repository" where
  "NewAccountRepository guardrails auditLog =
     \<lparr>arepo_guardrails = Normalized guardrails, arepo_auditLog = auditLog\<rparr>"

definition account_not_found :: "uuid \<Rightarrow> go_error" where
  "account_not_found acc = NewDomainError ErrorCodeAccountNotFound (''account '' @ acc @ '' not found'')"

definition CreateProxy :: "go_context \<Rightarrow> proxy \<Rightarrow> 'x db_scheme \<Rightarrow> go_error option \<times> 'x db_scheme" where
  "CreateProxy ctx p s =
     (case autocommit (insert_proxy p) s of
        (Inl e, s1) \<Rightarrow> (WithStack (Some e), s1)
      | (Inr u, s1) \<Rightarrow> (WithStack None, s1))"

definition CreateAccount :: "go_context \<Rightarrow> account \<Rightarrow> 'x db_scheme \<Rightarrow> go_error option \<times> 'x db_scheme" where
  "CreateAccount ctx a s =
     (if \<not> AccountState_IsValid (account_OperationalState a) then
        (Some (NewDomainError ErrorCodeInvalidOperationalState
                 (''invalid account operational state: '' @ account_state_str (account_OperationalState a))), s)
      else case autocommit (\<lambda>s1. insert_arity 12 10 12
            (insert_account
               \<lparr>arow_id = account_ID a, arow_username = account_Username a,
                arow_proxy_id = nullableUUID (account_ProxyID a),
                arow_credential_source = NormalizeCredentialSource (account_CredentialSource a),
                arow_credential_ref = normalizeCredentialRef (account_CredentialRef a),
                arow_operational_state = account_OperationalState a,
                arow_is_active = account_IsActive a, arow_is_ready = account_IsReady a,
                arow_is_quarantined = account_IsQuarantined a, arow_is_restricted = account_IsRestricted a,
                arow_limit_reached = account_LimitReached a,
                arow_active_execution_context_id = nullableString (account_ActiveExecutionContextID a),
                arow_created_at = db_now s1, arow_updated_at = db_now s1\<rparr>) s1) s of
        (Inl e, s1) \<Rightarrow> (WithStack (Some e), s1)
      | (Inr u, s1) \<Rightarrow> (WithStack None, s1))"

definition scan_optional_proxy :: "(go_error + 'a) \<times> 's \<Rightarrow> (go_error + 'a) \<times> 's" where
  "scan_optional_proxy res = (case res of (Inl e, s) \<Rightarrow> (Inl (with_stack e), s) | (Inr x, s) \<Rightarrow> (Inr x, s))"

definition GetAccountWithProxy ::
  "go_context \<Rightarrow> uuid \<Rightarrow> 'x db_scheme \<Rightarrow> (go_error + account_with_proxy) \<times> 'x db_scheme" where
  "GetAccountWithProxy ctx acc s =
     (case scan_optional_proxy (autocommit (select_account acc) s) of
        (Inr a, s1) \<Rightarrow> (Inr (toAccountWithProxy a), s1)
      | (Inl e, s1) \<Rightarrow>
          if errors_is e NoRows then (Inl (account_not_found acc), s1) else (Inl (with_stack e), s1))"

definition CheckEligibility ::
  "'x account_repository \<Rightarrow> go_context \<Rightarrow> uuid \<Rightarrow> 'x db_scheme \<Rightarrow> (go_error + eligibility_decision) \<times> 'x db_scheme" where
  "CheckEligibility repo ctx acc s =
     (case scan_optional_proxy (autocommit (select_account acc) s) of
        (Inl e, s1) \<Rightarrow>
          if errors_is e NoRows then
            (Inr (ineligibleDecision EligibilityOutcomeExcluded ErrorCodeAccountNotFound), s1)
          else (Inl (with_stack e), s1)
      | (Inr a, s1) \<Rightarrow>
          (Inr (EvaluateAccountEligibilityWithGuardrails (awop_Account a) (awop_Proxy a)
                  (arepo_guardrails repo)), s1))"

definition recordLifecycleAudit ::
  "string \<Rightarrow> string \<Rightarrow> 'x account_repository \<Rightarrow> go_context \<Rightarrow> uuid \<Rightarrow> string \<Rightarrow> account_operational_state \<Rightarrow>
   'x db_scheme \<Rightarrow> 'x db_scheme" where
  "recordLifecycleAudit action summary repo ctx acc ectx st s =
     audit_best_effort (arepo_auditLog repo) ctx
       \<lparr>event_Actor = no_actor, event_Action = action, event_TargetType = ''account'',
        event_TargetID = acc, event_ChangeSummary = summary,
        event_DiagnosticFields =
          [(''execution_context_id'', ectx), (''operational_state'', account_state_str st)]\<rparr> s"

definition recordLifecycleAuditClaim ::
  "'x account_repository \<Rightarrow> go_context \<Rightarrow> uuid \<Rightarrow> string \<Rightarrow> account_operational_state \<Rightarrow>
   'x db_scheme \<Rightarrow> 'x db_scheme" where
  "recordLifecycleAuditClaim = recordLifecycleAudit ''account.claimed'' ''account claimed for active execution''"

definition recordLifecycleAuditRelease ::
  "'x account_repository \<Rightarrow> go_context \<Rightarrow> uuid \<Rightarrow> string \<Rightarrow> account_operational_state \<Rightarrow>
   'x db_scheme \<Rightarrow> 'x db_scheme" where
  "recordLifecycleAuditRelease =
     recordLifecycleAudit ''account.released'' ''account released from active execution''"

definition UpdateAccountState ::
  "'x account_repository \<Rightarrow> go_context \<Rightarrow> uuid \<Rightarrow> account_operational_state \<Rightarrow> bool \<Rightarrow> bool \<Rightarrow> bool \<Rightarrow> bool \<Rightarrow>
   'x db_scheme \<Rightarrow> go_error option \<times> 'x db_scheme" where
  "UpdateAccountState repo ctx acc st isReady isQuarantined isRestricted limitReached s =
     (if \<not> AccountState_IsValid st then
        (Some (NewDomainError ErrorCodeInvalidOperationalState
                 (''invalid account operational state: '' @ account_state_str st)), s)
      else case autocommit (\<lambda>s1. case update_account (\<lambda>r. arow_id r = acc)
               (state_account_row st isReady isQuarantined isRestricted limitReached (db_now s1)) s1 of
             Inl e \<Rightarrow> if e = NoRows then Inr (False, s1) else Inl e
           | Inr (r, s2) \<Rightarrow> Inr (True, s2)) s of
        (Inl e, s1) \<Rightarrow> (WithStack (Some e), s1)
      | (Inr affected, s1) \<Rightarrow>
          if \<not> affected then (Some (account_not_found acc), s1)
          else (None, audit_best_effort (arepo_auditLog repo) ctx
            \<lparr>event_Actor = no_actor, event_Action = ''account.state_changed'', event_TargetType = ''account'',
             event_TargetID = acc,
             event_ChangeSummary = ''account operational state changed to '' @ account_state_str st,
             event_DiagnosticFields =
               [(''operational_state'', account_state_str st), (''is_ready'', FormatBool isReady),
                (''is_quarantined'', FormatBool isQuarantined), (''is_restricted'', FormatBool isRestricted),
                (''limit_reached'', FormatBool limitReached)]\<rparr> s1))"

definition scanAccount :: "(go_error + account_row) \<times> 's \<Rightarrow> (go_error + account) \<times> 's" where
  "scanAccount res =
     (case res of (Inl e, s) \<Rightarrow> (Inl (with_stack e), s) | (Inr r, s) \<Rightarrow> (Inr (account_of_row r), s))"

text \<open>The transaction of a claim; the flag tells whether the code records the claim in the audit log.\<close>

definition claim_account_body ::
  "'x account_repository \<Rightarrow> uuid \<Rightarrow> string \<Rightarrow> 'x db_scheme \<Rightarrow> (go_error + (account \<times> bool)) \<times> 'x db_scheme" where
  "claim_account_body repo acc ectx s =
     (case scan_optional_proxy (in_tx (select_account acc) s) of
        (Inl e, s1) \<Rightarrow>
          if errors_is e NoRows then (Inl (account_not_found acc), s1) else (Inl (with_stack e), s1)
      | (Inr a, s1) \<Rightarrow>
        if account_ActiveExecutionContextID (awop_Account a) = ectx then
          if account_OperationalState (awop_Account a) \<noteq> AccountStateBusy then
            (case scanAccount (in_tx (\<lambda>s. update_account (\<lambda>r. arow_id r = acc) (busy_account_row (db_now s)) s) s1) of
               (Inl e, s2) \<Rightarrow> (Inl (with_stack e), s2)
             | (Inr claimed, s2) \<Rightarrow> (Inr (claimed, True), s2))
          else (Inr (awop_Account a, False), s1)
        else
          let decision = EvaluateAccountEligibilityWithGuardrails (awop_Account a) (awop_Proxy a)
                           (arepo_guardrails repo)
          in if \<not> decision_Eligible decision then
               (Inl (NewDomainError (decision_ReasonCode decision) (''account '' @ acc @ '' is not eligible'')), s1)
             else case EnsureSingleActiveExecution (awop_Account a) ectx of
               Some err \<Rightarrow> (Inl (with_stack err), s1)
             | None \<Rightarrow>
               (case scanAccount (in_tx (\<lambda>s. update_account (\<lambda>r. arow_id r = acc)
                        (claim_account_row ectx (db_now s)) s) s1) of
                  (Inl e, s2) \<Rightarrow> (Inl (with_stack e), s2)
                | (Inr claimed, s2) \<Rightarrow> (Inr (claimed, True), s2)))"

definition ClaimAccount ::
  "'x account_repository \<Rightarrow> go_context \<Rightarrow> uuid \<Rightarrow> string \<Rightarrow> 'x db_scheme \<Rightarrow> (go_error + account) \<times> 'x db_scheme" where
  "ClaimAccount repo ctx acc ectx s =
     (if ectx = '''' then
        (Inl (NewDomainError ErrorCodeInvalidExecutionContext ''execution context id must not be empty''), s)
      else case transaction with_stack (\<lambda>x. with_stack) (claim_account_body repo acc ectx) s of
        (Inl e, s1) \<Rightarrow> (Inl e, s1)
      | (Inr (a, audited), s1) \<Rightarrow>
          (Inr a, if audited
                  then recordLifecycleAuditClaim repo ctx acc ectx (account_OperationalState a) s1 else s1))"

definition ReleaseAccount ::
  "'x account_repository \<Rightarrow> go_context \<Rightarrow> uuid \<Rightarrow> string \<Rightarrow> 'x db_scheme \<Rightarrow> go_error option \<times> 'x db_scheme" where
  "ReleaseAccount repo ctx acc ectx s =
     (case autocommit (\<lambda>s. update_account
             (\<lambda>r. arow_id r = acc \<and> arow_active_execution_context_id r = Some ectx)
             (release_account_row (db_now s)) s) s of
        (Inl e, s1) \<Rightarrow>
          if errors_is e NoRows then
            (Some (NewDomainError ErrorCodeAccountContextMismatch
                     (''account '' @ acc @ '' is not claimed by execution context '' @ ectx)), s1)
          else (Some (with_stack e), s1)
      | (Inr r, s1) \<Rightarrow>
          (None, recordLifecycleAuditRelease repo ctx acc ectx (arow_operational_state r) s1))"

definition count_by_state :: "account_row list \<Rightarrow> (account_operational_state \<times> nat) list" where
  "count_by_state accounts =
     (let valid = filter AccountState_IsValid (map arow_operational_state accounts)
      in map (\<lambda>st. (st, count_list valid st)) (remdups valid))"

definition OperationalStateSnapshot ::
  "go_context \<Rightarrow> 'x db_scheme \<Rightarrow> (go_error + (account_operational_state \<Rightarrow> nat option)) \<times> 'x db_scheme" where
  "OperationalStateSnapshot ctx s =
     (let snapshot = Map.empty(AccountStateActive \<mapsto> 0, AccountStateBusy \<mapsto> 0, AccountStateInvalidSession \<mapsto> 0,
                               AccountStateQuarantined \<mapsto> 0, AccountStateRestricted \<mapsto> 0)
      in case autocommit (\<lambda>s. Inr (count_by_state (db_accounts s), s)) s of
           (Inl e, s1) \<Rightarrow> (Inl (with_stack e), s1)
         | (Inr rows, s1) \<Rightarrow> (Inr (snapshot_loop AccountState_IsValid snapshot rows), s1))"


section \<open>What an operation may do\<close>

lemmas account_row_updates = claim_account_row_def busy_account_row_def release_account_row_def
  state_account_row_def

definition account_frame :: "'x db_scheme \<Rightarrow> 'x db_scheme \<Rightarrow> bool" where
  "account_frame s s' \<longleftrightarrow>
     db_tasks s' = db_tasks s \<and> db_proxies s' = db_proxies s \<and> db_sessions s' = db_sessions s \<and>
     db_results s' = db_results s \<and> map arow_id (db_accounts s') = map arow_id (db_accounts s)"

definition account_safe :: "'x db_scheme \<Rightarrow> 'x db_scheme \<Rightarrow> bool" where
  "account_safe s s' \<longleftrightarrow> (db_ok s \<longrightarrow> db_ok s' \<and> account_frame s s')"

lemma account_safe_refl [simp]: "account_safe s s"
  by (simp add: account_safe_def account_frame_def)

lemma account_safe_trans [trans]: "account_safe s t \<Longrightarrow> account_safe t u \<Longrightarrow> account_safe s u"
  by (simp add: account_safe_def account_frame_def)

lemma account_safe_same: "same_tables s s' \<Longrightarrow> account_safe s s'"
  by (simp add: account_safe_def account_frame_def db_ok_same_tables) (simp add: same_tables_def)

lemma account_safe_relation: "table_relation account_safe"
  unfolding table_relation_def by (blast intro: account_safe_same account_safe_trans)

lemma map_put_account:
  assumes "\<And>x. x \<in> set xs \<Longrightarrow> arow_id x = arow_id r' \<Longrightarrow> f x = f r'"
  shows "map f (put_account r' xs) = map f xs"
  using assms by (induction xs) (auto simp: put_account_def)

lemma distinct_account_eq:
  "distinct (map arow_id xs) \<Longrightarrow> x \<in> set xs \<Longrightarrow> r \<in> set xs \<Longrightarrow> arow_id x = arow_id r \<Longrightarrow> x = r"
  by (meson distinct_map inj_onD)

lemma update_account_Inr:
  assumes "update_account cond upd s = Inr (r', s')"
  obtains r where "r \<in> set (db_accounts s)" "cond r" "r' = upd r" "account_row_ok r'"
    "distinct (active_contexts (put_account r' (db_accounts s)))"
    "s' = s\<lparr>db_accounts := put_account r' (db_accounts s)\<rparr>"
  using assms unfolding update_account_def by (auto split: option.splits if_splits dest: find_SomeD)

lemma accounts_ok_put:
  assumes ok: "accounts_ok proxies xs" and r: "r \<in> set xs" and r': "account_row_ok r'"
    and keep: "arow_id r' = arow_id r" "arow_username r' = arow_username r" "arow_proxy_id r' = arow_proxy_id r"
    and ctxs: "distinct (active_contexts (put_account r' xs))"
  shows "accounts_ok proxies (put_account r' xs) \<and> map arow_id (put_account r' xs) = map arow_id xs"
proof -
  have dist: "distinct (map arow_id xs)" using ok by (simp add: accounts_ok_def)
  have r_eq: "x = r" if "x \<in> set xs" "arow_id x = arow_id r'" for x
    using distinct_account_eq [OF dist that(1) r] that(2) keep(1) by simp
  have ids: "map arow_id (put_account r' xs) = map arow_id xs" by (rule map_put_account) simp
  have names: "map arow_username (put_account r' xs) = map arow_username xs"
    by (rule map_put_account) (use r_eq keep in auto)
  have mem: "x \<in> set (put_account r' xs) \<Longrightarrow> x = r' \<or> x \<in> set xs" for x
    by (auto simp: put_account_def split: if_splits)
  have fk: "case arow_proxy_id r of None \<Rightarrow> True | Some p \<Rightarrow> p \<in> set (map proxy_ID proxies)"
    using ok r by (simp only: accounts_ok_def list_all_iff)
  have rows: "account_row_ok x \<and> (case arow_proxy_id x of None \<Rightarrow> True | Some p \<Rightarrow> p \<in> set (map proxy_ID proxies))"
    if "x \<in> set (put_account r' xs)" for x
    using mem [OF that]
  proof
    assume "x = r'" then show ?thesis using r' fk keep(3) by simp
  next
    assume "x \<in> set xs" then show ?thesis using ok by (simp only: accounts_ok_def list_all_iff)
  qed
  show ?thesis using rows ok ctxs by (simp only: accounts_ok_def ids names list_all_iff) blast
qed

lemma ok_account_ids:
  assumes "map arow_id as = map arow_id bs"
  shows "tasks_ok as ts = tasks_ok bs ts" "sessions_ok as ss = sessions_ok bs ss"
    "results_ok as ts rs = results_ok bs ts rs"
  unfolding tasks_ok_def sessions_ok_def results_ok_def assms by (rule refl)+

lemma update_account_safe:
  assumes "update_account cond upd s = Inr (r', s')"
    and keep: "\<And>r. arow_id (upd r) = arow_id r \<and> arow_username (upd r) = arow_username r \<and>
                     arow_proxy_id (upd r) = arow_proxy_id r"
  shows "account_safe s s'"
  unfolding account_safe_def
proof
  assume ok: "db_ok s"
  from assms(1) obtain r where r: "r \<in> set (db_accounts s)" "r' = upd r" "account_row_ok r'"
    "distinct (active_contexts (put_account r' (db_accounts s)))"
    "s' = s\<lparr>db_accounts := put_account r' (db_accounts s)\<rparr>" by (rule update_account_Inr)
  have put: "accounts_ok (db_proxies s) (put_account r' (db_accounts s)) \<and>
      map arow_id (put_account r' (db_accounts s)) = map arow_id (db_accounts s)"
    using ok r(2) keep by (intro accounts_ok_put [OF _ r(1,3) _ _ _ r(4)]) (simp_all add: db_ok_def)
  have "db_ok s'"
    using ok put ok_account_ids [of "put_account r' (db_accounts s)" "db_accounts s"]
    by (simp add: db_ok_def r(5))
  then show "db_ok s' \<and> account_frame s s'" using put by (simp add: r(5) account_frame_def)
qed

lemma audit_best_effort_account:
  assumes "audit_wired auditLog"
  shows "account_safe s (audit_best_effort auditLog ctx ev s)"
proof -
  have "same_core s (audit_best_effort auditLog ctx ev s)" by (rule audit_best_effort_core [OF assms])
  moreover have "queue_safe s (audit_best_effort auditLog ctx ev s)" by (rule audit_best_effort_safe [OF assms])
  ultimately show ?thesis
    by (simp add: account_safe_def queue_safe_def account_frame_def same_core_def)
qed

lemma account_audit_safe:
  assumes "audit_wired (arepo_auditLog repo)"
  shows "account_safe s (recordLifecycleAuditClaim repo ctx acc ectx st s)"
    "account_safe s (recordLifecycleAuditRelease repo ctx acc ectx st s)"
  by (simp_all add: recordLifecycleAuditClaim_def recordLifecycleAuditRelease_def recordLifecycleAudit_def
      audit_best_effort_account [OF assms])

lemma scan_optional_proxy_Inr: "scan_optional_proxy x = (Inr a, s') \<Longrightarrow> x = (Inr a, s')"
  by (auto simp: scan_optional_proxy_def split: sum.splits prod.splits)

lemma scanAccount_Inr: "scanAccount x = (Inr a, s') \<Longrightarrow> \<exists>r. x = (Inr r, s') \<and> a = account_of_row r"
  by (auto simp: scanAccount_def split: sum.splits prod.splits)

lemma select_account_Inr:
  "select_account acc s = Inr (a, s') \<Longrightarrow>
   s' = s \<and> (\<exists>r \<in> set (db_accounts s). arow_id r = acc \<and> awop_Account a = account_of_row r \<and>
     awop_Proxy a = (case arow_proxy_id r of None \<Rightarrow> None | Some p \<Rightarrow> find (\<lambda>q. proxy_ID q = p) (db_proxies s)))"
  unfolding select_account_def by (fastforce split: option.splits dest: find_SomeD)


section \<open>Claim\<close>

text \<open>The row after a claim of \<open>q\<close> by \<open>ectx\<close>.\<close>

definition claimed_row :: "string \<Rightarrow> time \<Rightarrow> account_row \<Rightarrow> account_row" where
  "claimed_row ectx now q =
     (if arow_active_execution_context_id q = Some ectx then
        (if arow_operational_state q = AccountStateBusy then q else busy_account_row now q)
      else claim_account_row ectx now q)"

definition proxy_of :: "'x db_scheme \<Rightarrow> account_row \<Rightarrow> proxy option" where
  "proxy_of s q =
     (case arow_proxy_id q of None \<Rightarrow> None | Some p \<Rightarrow> find (\<lambda>r. proxy_ID r = p) (db_proxies s))"

definition account_claimed ::
  "'x account_repository \<Rightarrow> uuid \<Rightarrow> string \<Rightarrow> 'x db_scheme \<Rightarrow> 'x db_scheme \<Rightarrow> account \<Rightarrow> bool" where
  "account_claimed repo acc ectx s s' a \<longleftrightarrow>
     (\<exists>q \<in> set (db_accounts s). arow_id q = acc \<and>
        (arow_active_execution_context_id q = Some ectx \<or>
         account_suitable (Normalized (arepo_guardrails repo)) (account_of_row q) (proxy_of s q)) \<and>
        a = account_of_row (claimed_row ectx (db_now s) q) \<and>
        db_accounts s' = put_account (claimed_row ectx (db_now s) q) (db_accounts s) \<and>
        distinct (active_contexts (db_accounts s')) \<and>
        db_tasks s' = db_tasks s \<and> db_proxies s' = db_proxies s \<and> db_sessions s' = db_sessions s \<and>
        db_results s' = db_results s)"

lemma ctx_of_row:
  "account_ActiveExecutionContextID (account_of_row q) = ectx \<Longrightarrow> ectx \<noteq> '''' \<Longrightarrow>
   arow_active_execution_context_id q = Some ectx"
  by (auto simp: account_of_row_def split: option.splits)

lemma put_account_same: "distinct (map arow_id xs) \<Longrightarrow> q \<in> set xs \<Longrightarrow> put_account q xs = xs"
  unfolding put_account_def using distinct_account_eq by (intro map_idI) (auto split: if_splits)

lemma claim_update:
  assumes "in_tx (\<lambda>s. update_account (\<lambda>r. arow_id r = acc) (upd (db_now s)) s) s1 = (Inr r, s2)"
    "db_ok s" "same_tables s s1" "q \<in> set (db_accounts s)" "arow_id q = acc"
  shows "r = upd (db_now s) q \<and> db_accounts s2 = put_account r (db_accounts s) \<and>
    distinct (active_contexts (put_account r (db_accounts s))) \<and> db_tasks s2 = db_tasks s \<and>
    db_proxies s2 = db_proxies s \<and> db_sessions s2 = db_sessions s \<and> db_results s2 = db_results s"
proof -
  from in_tx_Inr [OF assms(1)] obtain t where t: "same_tables s1 t"
    "update_account (\<lambda>r. arow_id r = acc) (upd (db_now t)) t = Inr (r, s2)" by blast
  have same: "same_tables s t" using assms(3) t(1) by (rule same_tables_trans)
  from t(2) obtain q' where q': "q' \<in> set (db_accounts t)" "arow_id q' = acc" "r = upd (db_now t) q'"
    "distinct (active_contexts (put_account r (db_accounts t)))"
    "s2 = t\<lparr>db_accounts := put_account r (db_accounts t)\<rparr>" by (rule update_account_Inr)
  have "distinct (map arow_id (db_accounts s))" using assms(2) by (simp add: db_ok_def accounts_ok_def)
  then have "q' = q" using distinct_account_eq [of "db_accounts s" q' q] q'(1,2) assms(4,5) same
    by (simp add: same_tables_def)
  then show ?thesis using q' same by (simp add: same_tables_def)
qed

lemma proxy_of_same: "db_proxies s' = db_proxies s \<Longrightarrow> proxy_of s' q = proxy_of s q"
  by (simp only: proxy_of_def)

lemma claim_account_body_claims:
  assumes "claim_account_body repo acc ectx s = (Inr (a, audited), s')" "db_ok s" "ectx \<noteq> ''''"
  shows "account_claimed repo acc ectx s s' a"
proof -
  from assms(1) obtain sel s1 where sel: "scan_optional_proxy (in_tx (select_account acc) s) = (Inr sel, s1)"
    by (auto simp: claim_account_body_def split: sum.splits prod.splits if_splits)
  from in_tx_Inr [OF scan_optional_proxy_Inr [OF sel]] obtain t where t: "same_tables s t"
    "select_account acc t = Inr (sel, s1)" by blast
  from select_account_Inr [OF t(2)] obtain q where q: "s1 = t" "q \<in> set (db_accounts t)" "arow_id q = acc"
    "awop_Account sel = account_of_row q" "awop_Proxy sel = proxy_of t q"
    by (auto simp: proxy_of_def)
  have q_in: "q \<in> set (db_accounts s)" using q(2) t(1) by (simp add: same_tables_def)
  have prox: "awop_Proxy sel = proxy_of s q" using q(5) t(1) proxy_of_same [of t s q] by (simp add: same_tables_def)
  have dist: "distinct (map arow_id (db_accounts s))" "distinct (active_contexts (db_accounts s))"
    using assms(2) by (simp_all add: db_ok_def accounts_ok_def)
  show ?thesis
  proof (cases "account_ActiveExecutionContextID (account_of_row q) = ectx")
    case True
    note own = ctx_of_row [OF True assms(3)]
    show ?thesis
    proof (cases "arow_operational_state q = AccountStateBusy")
      case busy: True
      then have "s' = t" "a = account_of_row q" using assms(1) sel q True
        by (auto simp: claim_account_body_def account_of_row_def)
      then show ?thesis
        unfolding account_claimed_def claimed_row_def
        using q_in q(3) own busy dist t(1) put_account_same [OF dist(1) q_in]
        by (intro bexI [of _ q]) (simp_all add: same_tables_def)
    next
      case notbusy: False
      then obtain r where r: "in_tx (\<lambda>s. update_account (\<lambda>r. arow_id r = acc) (busy_account_row (db_now s)) s) t = (Inr r, s')"
        "a = account_of_row r"
        using assms(1) sel q True
        by (auto simp: claim_account_body_def account_of_row_def dest: scanAccount_Inr split: sum.splits prod.splits)
      from claim_update [OF r(1) assms(2) t(1) q_in q(3)] show ?thesis
        unfolding account_claimed_def claimed_row_def
        using q_in q(3) own notbusy r(2) by (intro bexI [of _ q]) auto
    qed
  next
    case False
    then have notown: "arow_active_execution_context_id q \<noteq> Some ectx" by (auto simp: account_of_row_def)
    from False assms(1) sel q obtain r where r:
      "decision_Eligible (EvaluateAccountEligibilityWithGuardrails (account_of_row q) (awop_Proxy sel)
         (arepo_guardrails repo))"
      "in_tx (\<lambda>s. update_account (\<lambda>r. arow_id r = acc) (claim_account_row ectx (db_now s)) s) t = (Inr r, s')"
      "a = account_of_row r"
      by (auto simp: claim_account_body_def Let_def dest: scanAccount_Inr
          split: sum.splits prod.splits if_splits option.splits)
    from claim_update [OF r(2) assms(2) t(1) q_in q(3)] show ?thesis
      unfolding account_claimed_def claimed_row_def
      using q_in q(3) notown r(1,3) prox
      by (intro bexI [of _ q]) (auto simp: EvaluateAccountEligibility_iff)
  qed
qed

lemma account_claimed_same:
  assumes "same_tables s s1" "account_claimed repo acc ectx s1 s2 a" "same_tables s2 s' \<or> same_core s2 s'"
  shows "account_claimed repo acc ectx s s' a"
proof -
  have s1: "db_accounts s1 = db_accounts s" "db_now s1 = db_now s" "db_tasks s1 = db_tasks s"
    "db_proxies s1 = db_proxies s" "db_sessions s1 = db_sessions s" "db_results s1 = db_results s"
    using assms(1) by (simp_all add: same_tables_def)
  have s2: "db_accounts s' = db_accounts s2" "db_tasks s' = db_tasks s2" "db_proxies s' = db_proxies s2"
    "db_sessions s' = db_sessions s2" "db_results s' = db_results s2"
    using assms(3) by (auto simp: same_tables_def same_core_def)
  show ?thesis
    using assms(2) unfolding account_claimed_def s1 s2 proxy_of_same [OF s1(4)] .
qed

lemma ClaimAccount_cases:
  assumes "db_ok s" "audit_wired (arepo_auditLog repo)" "ClaimAccount repo ctx acc ectx s = (r, s')"
  shows "case r of Inr a \<Rightarrow> account_claimed repo acc ectx s s' a \<and>
        account_ActiveExecutionContextID a = ectx \<and> account_OperationalState a = AccountStateBusy
    | Inl e \<Rightarrow> same_tables s s' \<or> (\<exists>a. account_claimed repo acc ectx s s' a)"
proof (cases "ectx = ''''")
  case True
  then show ?thesis using assms(3) by (auto simp: ClaimAccount_def)
next
  case False
  obtain rt s3 where tx: "transaction with_stack (\<lambda>x. with_stack) (claim_account_body repo acc ectx) s = (rt, s3)"
    by (cases "transaction with_stack (\<lambda>x. with_stack) (claim_account_body repo acc ectx) s")
  have claimed: "account_claimed repo acc ectx s s3 a"
    if "same_tables s s1" "claim_account_body repo acc ectx s1 = (Inr (a, b), s2)" "same_tables s2 s3"
    for s1 s2 a b
    using account_claimed_same [OF that(1) claim_account_body_claims [OF that(2) _ False]] that(3)
      db_ok_same_tables [OF that(1)] assms(1) by blast
  show ?thesis
  proof (cases rt)
    case (Inl e)
    then have "r = Inl e" "s' = s3" using assms(3) tx False by (auto simp: ClaimAccount_def)
    moreover have "same_tables s s3 \<or> (\<exists>a. account_claimed repo acc ectx s s3 a)"
      using transaction_cases [OF tx] claimed by fastforce
    ultimately show ?thesis by simp
  next
    case (Inr ab)
    then obtain a b where ab: "rt = Inr (a, b)" by (cases ab) auto
    then obtain s1 s2 where "same_tables s s1" "claim_account_body repo acc ectx s1 = (Inr (a, b), s2)"
      "same_tables s2 s3" using transaction_cases [OF tx] by auto
    then have c: "account_claimed repo acc ectx s s3 a" by (rule claimed)
    have "same_core s3 s'" "r = Inr a"
      using assms(3) tx False ab audit_best_effort_core [OF assms(2)]
      by (auto simp: ClaimAccount_def recordLifecycleAuditClaim_def recordLifecycleAudit_def split: if_splits)
    moreover have "account_ActiveExecutionContextID a = ectx \<and> account_OperationalState a = AccountStateBusy"
      using c by (auto simp: account_claimed_def claimed_row_def account_row_updates account_of_row_def)
    ultimately show ?thesis using account_claimed_same [OF same_tables_refl c] by simp
  qed
qed

text \<open>
  C13.  A claim of an account that succeeds leaves it busy and held by exactly this execution context;
  before it the account was free and eligible under the guardrails, or already held by the same context.
  No two accounts are ever held by one context.  When the claim returns an error, nothing has changed,
  unless the reply to the commit was lost.
\<close>

theorem ClaimAccount_outcome:
  assumes "db_ok s" "audit_wired (arepo_auditLog repo)" "ClaimAccount repo ctx acc ectx s = (r, s')"
  shows "case r of Inr a \<Rightarrow> account_claimed repo acc ectx s s' a \<and>
        account_ActiveExecutionContextID a = ectx \<and> account_OperationalState a = AccountStateBusy
    | Inl e \<Rightarrow> same_tables s s' \<or> (\<exists>a. account_claimed repo acc ectx s s' a)"
  by (rule ClaimAccount_cases [OF assms])

definition sample_repo :: "unit account_repository" where
  "sample_repo = \<lparr>arepo_guardrails = DefaultRuntimeGuardrails, arepo_auditLog = None\<rparr>"

lemma ClaimAccount_outcome_witness:
  "\<exists>a s'. ClaimAccount sample_repo Background ''a1'' ''w1'' (sample_db [sample_queued]) = (Inr a, s') \<and>
     account_claimed sample_repo ''a1'' ''w1'' (sample_db [sample_queued]) s' a"
proof -
  let ?r = "ClaimAccount sample_repo Background ''a1'' ''w1'' (sample_db [sample_queued])"
  have "(case fst ?r of Inl e \<Rightarrow> False | Inr a \<Rightarrow> True)" by code_simp
  then obtain a s' where run: "?r = (Inr a, s')" by (cases ?r) (auto split: sum.splits)
  have "audit_wired (arepo_auditLog sample_repo)" by (simp add: sample_repo_def audit_wired_def)
  from ClaimAccount_outcome [OF sample_db_ok(1) this run] run show ?thesis by auto
qed

lemma active_contexts_Cons:
  "active_contexts (r # rs) =
   (case arow_active_execution_context_id r of None \<Rightarrow> active_contexts rs | Some c \<Rightarrow> c # active_contexts rs)"
  by (simp add: active_contexts_def List.map_filter_simps split: option.splits)

lemma active_contexts_member:
  "x \<in> set xs \<Longrightarrow> arow_active_execution_context_id x = Some c \<Longrightarrow> c \<in> set (active_contexts xs)"
  by (induction xs) (auto simp: active_contexts_Cons split: option.splits)

lemma active_contexts_unique:
  assumes "distinct (active_contexts xs)" "x \<in> set xs" "y \<in> set xs"
    "arow_active_execution_context_id x = Some c" "arow_active_execution_context_id y = Some c"
  shows "x = y"
  using assms
proof (induction xs)
  case (Cons r rs)
  have "distinct (active_contexts rs)" using Cons.prems(1) by (auto simp: active_contexts_Cons split: option.splits)
  moreover have "c \<notin> set (active_contexts rs)" if "arow_active_execution_context_id r = Some c"
    using Cons.prems(1) that by (simp add: active_contexts_Cons)
  ultimately show ?case using Cons active_contexts_member by (metis set_ConsD)
qed simp

lemma update_account_find:
  assumes "db_ok s" "q \<in> set (db_accounts s)" "arow_id q = acc"
  shows "find (\<lambda>r. arow_id r = acc) (db_accounts s) = Some q"
  using find_map_of [of arow_id "db_accounts s" q] assms by (simp add: db_ok_def accounts_ok_def)

lemma select_account_Some:
  assumes "db_ok s" "q \<in> set (db_accounts s)" "arow_id q = acc"
  shows "select_account acc s = Inr (\<lparr>awop_Account = account_of_row q, awop_Proxy = proxy_of s q\<rparr>, s)"
  using update_account_find [OF assms] by (simp add: select_account_def proxy_of_def)

text \<open>
  While an account is held by one execution context, no other context can claim it: the claim
  returns an error and leaves the account table as it is.
\<close>

theorem ClaimAccount_exclusive:
  assumes "db_ok s" "q \<in> set (db_accounts s)" "arow_id q = acc"
    "arow_active_execution_context_id q = Some holder" "holder \<noteq> ''''" "ectx \<noteq> holder"
  shows "\<exists>e. fst (ClaimAccount repo ctx acc ectx s) = Inl e \<and>
    db_accounts (snd (ClaimAccount repo ctx acc ectx s)) = db_accounts s"
proof (cases "ectx = ''''")
  case True
  then show ?thesis by (simp add: ClaimAccount_def)
next
  case False
  have body: "\<exists>e s2. claim_account_body repo acc ectx s1 = (Inl e, s2)" if same: "same_tables s s1" for s1
  proof -
    obtain f s2 where pf: "pop_fault s1 = (f, s2)" by (cases "pop_fault s1")
    have same2: "same_tables s s2" using same same_tables_pop_fault [OF pf] by (rule same_tables_trans)
    have sel: "select_account acc s2 = Inr (\<lparr>awop_Account = account_of_row q, awop_Proxy = proxy_of s2 q\<rparr>, s2)"
      using assms(1,2,3) same2 db_ok_same_tables [OF same2]
      by (intro select_account_Some) (simp_all add: same_tables_def)
    have "account_ActiveExecutionContextID (account_of_row q) = holder"
      using assms(4) by (simp add: account_of_row_def)
    moreover have "\<not> decision_Eligible (EvaluateAccountEligibilityWithGuardrails (account_of_row q) p g)" for p g
      using assms(5) calculation by (simp add: EvaluateAccountEligibility_iff account_suitable_def)
    ultimately show ?thesis
      using pf sel assms(6)
      by (cases f) (auto simp: claim_account_body_def scan_optional_proxy_def in_tx_def Let_def)
  qed
  obtain r s3 where tx: "transaction with_stack (\<lambda>x. with_stack) (claim_account_body repo acc ectx) s = (r, s3)"
    by (cases "transaction with_stack (\<lambda>x. with_stack) (claim_account_body repo acc ectx) s")
  then have "(\<exists>e. r = Inl e) \<and> same_tables s s3" using transaction_cases [OF tx] body by fastforce
  then show ?thesis using False tx by (auto simp: ClaimAccount_def same_tables_def)
qed

text \<open>
  C28.  The unique index on the execution context turns a lost release into a lock-out of the worker:
  as long as another account is still held by its context, every claim it makes of an eligible account
  is refused by the database, with an error that is not a domain error (and so counts as internal).
\<close>

theorem ClaimAccount_lockout:
  assumes "db_ok s" "db_faults s = []" "q \<in> set (db_accounts s)" "arow_id q = acc"
    "arow_active_execution_context_id q = None"
    "account_suitable (Normalized (arepo_guardrails repo)) (account_of_row q) (proxy_of s q)"
    "stuck \<in> set (db_accounts s)" "arow_active_execution_context_id stuck = Some ectx" "ectx \<noteq> ''''"
  shows "ClaimAccount repo ctx acc ectx s =
    (Inl (with_stack (constraint_error ''ux_accounts_active_execution_context'')), s)"
proof -
  let ?upd = "claim_account_row ectx (db_now s)"
  have dist: "distinct (map arow_id (db_accounts s))" using assms(1) by (simp add: db_ok_def accounts_ok_def)
  have neq: "arow_id stuck \<noteq> acc" using distinct_account_eq [OF dist assms(7,3)] assms(4,5,8) by auto
  have row_ok: "account_row_ok q" using assms(1,3) by (auto simp: db_ok_def accounts_ok_def list_all_iff)
  have clash: "\<not> distinct (active_contexts (put_account (?upd q) (db_accounts s)))"
  proof
    assume d: "distinct (active_contexts (put_account (?upd q) (db_accounts s)))"
    let ?xs = "put_account (?upd q) (db_accounts s)"
    have "?upd q \<in> set ?xs" "stuck \<in> set ?xs" "?upd q \<noteq> stuck"
      using assms(3,4,7) neq by (auto simp: put_account_def claim_account_row_def)
    moreover have "arow_active_execution_context_id (?upd q) = Some ectx" by (simp add: claim_account_row_def)
    ultimately show False using active_contexts_unique [OF d] assms(8) by blast
  qed
  have "update_account (\<lambda>r. arow_id r = acc) ?upd s = Inl (constraint_error ''ux_accounts_active_execution_context'')"
    using update_account_find [OF assms(1,3,4)] row_ok clash
    by (simp add: update_account_def account_row_ok_def claim_account_row_def)
  moreover have "claim_account_body repo acc ectx s = (Inl (with_stack e), s)"
    if "update_account (\<lambda>r. arow_id r = acc) ?upd s = Inl e" for e
    using that assms(2,5,6,9) select_account_Some [OF assms(1,3,4)]
      EvaluateAccountEligibility_iff [of "account_of_row q" "proxy_of s q" "arepo_guardrails repo"]
    by (simp add: claim_account_body_def scan_optional_proxy_def in_tx_def account_of_row_def Let_def
        EnsureSingleActiveExecution_def scanAccount_def)
  ultimately show ?thesis
    using assms(2,9) by (simp add: ClaimAccount_def transaction_def rollback_def)
qed

text \<open>
  C32.  No account can be created through the repository: the \<open>INSERT\<close> of \<open>CreateAccount\<close> names twelve
  columns and gives ten values, so it fails whatever the account, and the tables stay as they are.
\<close>

theorem CreateAccount_never_succeeds:
  "fst (CreateAccount ctx a s) \<noteq> None \<and> same_tables s (snd (CreateAccount ctx a s))"
proof -
  obtain f s1 where pf: "pop_fault s = (f, s1)" by (cases "pop_fault s")
  then show ?thesis using same_tables_pop_fault [OF pf]
    by (cases f) (auto simp: CreateAccount_def autocommit_def insert_arity_def)
qed

definition sample_held :: db where
  "sample_held =
     (sample_db [])\<lparr>db_accounts :=
        [sample_account,
         sample_account\<lparr>arow_id := ''a2'', arow_username := ''other'',
           arow_operational_state := AccountStateBusy,
           arow_active_execution_context_id := Some ''w1''\<rparr>]\<rparr>"

lemma sample_held_ok: "db_ok sample_held"
proof -
  have rows: "account_row_ok sample_account"
    "account_row_ok (sample_account\<lparr>arow_id := ''a2'', arow_username := ''other'',
           arow_operational_state := AccountStateBusy,
           arow_active_execution_context_id := Some ''w1''\<rparr>)" by code_simp+
  show ?thesis
    using rows
    by (simp add: db_ok_def sample_held_def sample_db_def tasks_ok_def accounts_ok_def sessions_ok_def
        results_ok_def active_contexts_def List.map_filter_simps)
      (simp add: sample_account_def sample_proxy_def)
qed

lemma ClaimAccount_exclusive_witness:
  "\<exists>e. fst (ClaimAccount sample_repo Background ''a2'' ''w2'' sample_held) = Inl e"
  using ClaimAccount_exclusive [OF sample_held_ok, of "sample_account\<lparr>arow_id := ''a2'',
      arow_username := ''other'', arow_operational_state := AccountStateBusy,
      arow_active_execution_context_id := Some ''w1''\<rparr>" "''a2''" "''w1''" "''w2''" sample_repo Background]
  by (auto simp: sample_held_def)

lemma ClaimAccount_lockout_witness:
  "fst (ClaimAccount sample_repo Background ''a1'' ''w1'' sample_held) =
     Inl (with_stack (constraint_error ''ux_accounts_active_execution_context''))"
proof -
  have suit: "account_suitable (Normalized (arepo_guardrails sample_repo)) (account_of_row sample_account)
      (proxy_of sample_held sample_account)"
    by (simp add: account_suitable_def Normalized_def DefaultRuntimeGuardrails_def sample_repo_def Let_def
        empty_guardrails_def account_of_row_def sample_account_def proxy_of_def sample_held_def sample_db_def
        sample_proxy_def uuid_Nil_def)
  show ?thesis
    using ClaimAccount_lockout [OF sample_held_ok _ _ _ _ suit, of "''a1''"
        "sample_account\<lparr>arow_id := ''a2'', arow_username := ''other'',
         arow_operational_state := AccountStateBusy, arow_active_execution_context_id := Some ''w1''\<rparr>"
        "''w1''" Background]
    by (simp add: sample_held_def sample_db_def) (simp add: sample_account_def)
qed


section \<open>Release\<close>

lemma released_eligible:
  "account_suitable g (account_of_row q) p \<Longrightarrow> released_state (claim_account_row ectx now q) = AccountStateActive"
  by (simp add: account_suitable_def released_state_def claim_account_row_def account_of_row_def)

lemma active_contexts_release:
  assumes "distinct (active_contexts xs)"
  shows "distinct (active_contexts (put_account (release_account_row now q) xs)) \<and>
    set (active_contexts (put_account (release_account_row now q) xs)) \<subseteq> set (active_contexts xs)"
  using assms
proof (induction xs)
  case (Cons r rs)
  let ?q = "release_account_row now q"
  have "distinct (active_contexts rs)"
    using Cons.prems by (auto simp: active_contexts_Cons split: option.splits)
  note IH = Cons.IH [OF this]
  have step: "put_account ?q (r # rs) = (if arow_id r = arow_id q then ?q else r) # put_account ?q rs"
    by (simp add: put_account_def release_account_row_def)
  show ?case
  proof (cases "arow_id r = arow_id q")
    case True
    have "arow_active_execution_context_id ?q = None" by (simp add: release_account_row_def)
    then have "active_contexts (put_account ?q (r # rs)) = active_contexts (put_account ?q rs)"
      by (simp only: step True if_True simp_thms active_contexts_Cons option.case)
    then show ?thesis using IH by (auto simp: active_contexts_Cons split: option.splits)
  next
    case False
    have "active_contexts (put_account ?q (r # rs)) =
        (case arow_active_execution_context_id r of None \<Rightarrow> active_contexts (put_account ?q rs)
         | Some c \<Rightarrow> c # active_contexts (put_account ?q rs))"
      by (simp only: step False if_False active_contexts_Cons)
    then show ?thesis using IH Cons.prems by (auto simp: active_contexts_Cons split: option.splits)
  qed
qed (simp add: put_account_def active_contexts_def List.map_filter_simps)

lemma ReleaseAccount_effect:
  assumes "db_ok s" "db_faults s = []" "audit_wired (arepo_auditLog repo)"
    "q \<in> set (db_accounts s)" "arow_id q = acc"
    "ReleaseAccount repo ctx acc ectx s = (err, s')"
  shows "if arow_active_execution_context_id q = Some ectx then
      err = None \<and> db_accounts s' = put_account (release_account_row (db_now s) q) (db_accounts s) \<and>
      db_tasks s' = db_tasks s \<and> db_proxies s' = db_proxies s \<and> db_sessions s' = db_sessions s \<and> db_results s' = db_results s
    else IsDomainErrorCode err ErrorCodeAccountContextMismatch \<and> s' = s"
proof -
  let ?cond = "\<lambda>r. arow_id r = acc \<and> arow_active_execution_context_id r = Some ectx"
  let ?upd = "release_account_row (db_now s)"
  have dist: "distinct (map arow_id (db_accounts s))" "distinct (active_contexts (db_accounts s))"
    and row: "account_row_ok q"
    using assms(1,4) by (auto simp: db_ok_def accounts_ok_def list_all_iff)
  show ?thesis
  proof (cases "arow_active_execution_context_id q = Some ectx")
    case True
    have "find ?cond (db_accounts s) = Some q"
    proof (cases "find ?cond (db_accounts s)")
      case None
      then show ?thesis using find_NoneD [OF None assms(4)] True assms(5) by simp
    next
      case (Some x)
      then show ?thesis using find_SomeD [OF Some] distinct_account_eq [OF dist(1) _ assms(4)] assms(5) by auto
    qed
    moreover have "account_row_ok (?upd q)"
      using row by (simp add: account_row_ok_def release_account_row_def released_state_def)
    moreover have "distinct (active_contexts (put_account (?upd q) (db_accounts s)))"
      using active_contexts_release [OF dist(2)] by blast
    ultimately have up: "update_account ?cond ?upd s =
        Inr (?upd q, s\<lparr>db_accounts := put_account (?upd q) (db_accounts s)\<rparr>)"
      by (simp add: update_account_def)
    have core: "same_core t (recordLifecycleAuditRelease repo ctx acc ectx st t)" for st t
      unfolding recordLifecycleAuditRelease_def recordLifecycleAudit_def
      by (rule audit_best_effort_core [OF assms(3)])
    have "err = None \<and> (\<exists>st. s' = recordLifecycleAuditRelease repo ctx acc ectx st
            (s\<lparr>db_accounts := put_account (?upd q) (db_accounts s)\<rparr>))"
      using assms(2,6) up by (auto simp: ReleaseAccount_def autocommit_def)
    then show ?thesis using True core by (auto simp: same_core_def)
  next
    case False
    have "find ?cond (db_accounts s) = None"
    proof (cases "find ?cond (db_accounts s)")
      case (Some x)
      then show ?thesis using find_SomeD [OF Some] distinct_account_eq [OF dist(1) _ assms(4)] assms(5) False by auto
    qed
    then have "update_account ?cond ?upd s = Inl NoRows" by (simp add: update_account_def)
    then show ?thesis using False assms(2,6) by (auto simp: ReleaseAccount_def autocommit_def)
  qed
qed

text \<open>
  C31.  Only the holder releases an account, and the release gives it back: the context is cleared and the operational
  state becomes what the flags say: quarantined before anything else, then restricted (also when it is switched off),
  then an invalid session when it is not ready, and active only when none of these holds.  Nothing else of the row
  changes but its update time, and no other row and table.  A release by anyone else is an
  \<open>account_context_mismatch\<close> and changes nothing.
\<close>

theorem ReleaseAccount_outcome:
  assumes "db_ok s" "db_faults s = []" "audit_wired (arepo_auditLog repo)"
    "q \<in> set (db_accounts s)" "arow_id q = acc"
    "ReleaseAccount repo ctx acc ectx s = (err, s')"
  shows "if arow_active_execution_context_id q = Some ectx then
      err = None \<and>
      (\<exists>st. db_accounts s' = map (\<lambda>r. if arow_id r = acc
          then q\<lparr>arow_active_execution_context_id := None, arow_operational_state := st, arow_updated_at := db_now s\<rparr>
          else r) (db_accounts s) \<and>
        (arow_is_quarantined q \<longrightarrow> st = AccountStateQuarantined) \<and>
        (\<not> arow_is_quarantined q \<and> (arow_is_restricted q \<or> \<not> arow_is_active q) \<longrightarrow> st = AccountStateRestricted) \<and>
        (\<not> arow_is_quarantined q \<and> \<not> arow_is_restricted q \<and> arow_is_active q \<and> \<not> arow_is_ready q \<longrightarrow>
           st = AccountStateInvalidSession) \<and>
        (\<not> arow_is_quarantined q \<and> \<not> arow_is_restricted q \<and> arow_is_active q \<and> arow_is_ready q \<longrightarrow>
           st = AccountStateActive)) \<and>
      db_tasks s' = db_tasks s \<and> db_proxies s' = db_proxies s \<and> db_sessions s' = db_sessions s \<and>
      db_results s' = db_results s
    else IsDomainErrorCode err ErrorCodeAccountContextMismatch \<and> s' = s"
proof -
  have "put_account (release_account_row (db_now s) q) (db_accounts s) =
      map (\<lambda>r. if arow_id r = acc
        then q\<lparr>arow_active_execution_context_id := None, arow_operational_state := released_state q, arow_updated_at := db_now s\<rparr>
        else r) (db_accounts s)"
    by (simp add: put_account_def release_account_row_def assms(5))
  with ReleaseAccount_effect [OF assms] show ?thesis
    by (auto simp: released_state_def intro!: exI [of _ "released_state q"])
qed

lemma ReleaseAccount_outcome_witness:
  "fst (ReleaseAccount sample_repo Background ''a2'' ''w1'' sample_held) = None \<and>
   map arow_operational_state (db_accounts (snd (ReleaseAccount sample_repo Background ''a2'' ''w1'' sample_held))) =
     [AccountStateActive, AccountStateActive]"
proof -
  let ?q = "sample_account\<lparr>arow_id := ''a2'', arow_username := ''other'',
         arow_operational_state := AccountStateBusy, arow_active_execution_context_id := Some ''w1''\<rparr>"
  have held: "db_faults sample_held = []" "?q \<in> set (db_accounts sample_held)"
    by (simp_all add: sample_held_def sample_db_def)
  have wired: "audit_wired (arepo_auditLog sample_repo)" by (simp add: sample_repo_def audit_wired_def)
  from ReleaseAccount_outcome [OF sample_held_ok held(1) wired held(2), where acc = "''a2''" and ctx = Background and
      ectx = "''w1''", OF _ prod.collapse [symmetric]]
  show ?thesis by (simp add: sample_held_def sample_db_def sample_account_def)
qed

end
