(* ===== verification/Session_Repository.thy ===== *)
theory Session_Repository
  imports Account_Repository
begin

text \<open>
  \<open>internal/repository/postgres/session_postgres.go\<close>: the metadata of the stored browser session of an
  account.  The record is a row of \<open>account_sessions\<close>; the payload itself is an object of the storage.
  The theorems say what an upsert, a status change and a restore leave in the table, that a metadata
  value the code accepts is accepted by the constraints of the table, and that it is read back as
  written.
\<close>

section \<open>Rows\<close>

definition session_of_row :: "session_row \<Rightarrow> session_metadata" where
  "session_of_row r =
     \<lparr>session_AccountID = srow_account_id r,
      session_Revision = srow_revision r,
      session_Status = srow_status r,
      session_ObjectKey = srow_object_key r,
      session_ErrorCode = (case srow_error_code r of None \<Rightarrow> no_error_code | Some c \<Rightarrow> c),
      session_LastRestoredAt = srow_last_restored_at r,
      session_CreatedAt = srow_created_at r,
      session_UpdatedAt = srow_updated_at r\<rparr>"

definition scanSessionMetadata :: "(go_error + session_row) \<times> 's \<Rightarrow> (go_error + session_metadata) \<times> 's" where
  "scanSessionMetadata res =
     (case res of (Inl e, s) \<Rightarrow> (Inl (with_stack e), s) | (Inr r, s) \<Rightarrow> (Inr (session_of_row r), s))"


section \<open>Statements\<close>

definition find_session :: "uuid \<Rightarrow> session_row list \<Rightarrow> session_row option" where
  "find_session acc rs = find (\<lambda>r. srow_account_id r = acc) rs"

definition select_session :: "uuid \<Rightarrow> (session_row, ('x) db_scheme) stmt" where
  "select_session acc s =
     (case find_session acc (db_sessions s) of None \<Rightarrow> Inl NoRows | Some r \<Rightarrow> Inr (r, s))"

definition put_session :: "session_row \<Rightarrow> session_row list \<Rightarrow> session_row list" where
  "put_session r rs = map (\<lambda>x. if srow_account_id x = srow_account_id r then r else x) rs"

text \<open>\<open>INSERT ... ON CONFLICT (account_id) DO UPDATE\<close>.\<close>

definition upserted_session :: "session_metadata \<Rightarrow> time \<Rightarrow> session_row option \<Rightarrow> session_row" where
  "upserted_session m now old =
     \<lparr>srow_account_id = session_AccountID m,
      srow_revision = session_Revision m,
      srow_status = session_Status m,
      srow_object_key = session_ObjectKey m,
      srow_error_code = nullableErrorCode (session_ErrorCode m),
      srow_last_restored_at =
        (case session_LastRestoredAt m of
           Some t \<Rightarrow> Some t
         | None \<Rightarrow> (case old of None \<Rightarrow> None | Some r \<Rightarrow> srow_last_restored_at r)),
      srow_created_at = (case old of None \<Rightarrow> now | Some r \<Rightarrow> srow_created_at r),
      srow_updated_at = now\<rparr>"

definition upsert_session :: "session_metadata \<Rightarrow> (session_row, ('x) db_scheme) stmt" where
  "upsert_session m s =
     (let old = find_session (session_AccountID m) (db_sessions s);
          r = upserted_session m (db_now s) old
      in if \<not> session_row_ok r then Inl (constraint_error ''account_sessions_check'')
         else if session_AccountID m \<notin> set (map arow_id (db_accounts s)) then
           Inl (constraint_error ''account_sessions_account_id_fkey'')
         else Inr (r, s\<lparr>db_sessions :=
                (case old of None \<Rightarrow> db_sessions s @ [r] | Some q \<Rightarrow> put_session r (db_sessions s))\<rparr>))"

definition update_session ::
  "uuid \<Rightarrow> (session_row \<Rightarrow> session_row) \<Rightarrow> (session_row, ('x) db_scheme) stmt" where
  "update_session acc upd s =
     (case find_session acc (db_sessions s) of
        None \<Rightarrow> Inl NoRows
      | Some r \<Rightarrow>
          if \<not> session_row_ok (upd r) then Inl (constraint_error ''account_sessions_check'')
          else Inr (upd r, s\<lparr>db_sessions := put_session (upd r) (db_sessions s)\<rparr>))"

definition status_session_row :: "session_status \<Rightarrow> error_code option \<Rightarrow> time \<Rightarrow> session_row \<Rightarrow> session_row" where
  "status_session_row st code now r =
     r\<lparr>srow_status := st, srow_error_code := code, srow_updated_at := now\<rparr>"

definition restored_session_row :: "time \<Rightarrow> session_row \<Rightarrow> session_row" where
  "restored_session_row now r =
     r\<lparr>srow_status := SessionStatusValid, srow_error_code := None, srow_last_restored_at := Some now,
       srow_updated_at := now\<rparr>"


section \<open>Operations\<close>

record 'x session_repository =
  srepo_auditLog :: "'x audit_log option"

definition NewSessionRepository :: "'x audit_log list \<Rightarrow> 'x session_repository" where
  "NewSessionRepository auditLog =
     \<lparr>srepo_auditLog = (case auditLog of [] \<Rightarrow> None | l # ls \<Rightarrow> Some l)\<rparr>"

definition session_not_found :: "uuid \<Rightarrow> go_error" where
  "session_not_found acc =
     NewDomainError ErrorCodeSessionMetadataNotFound (''session metadata for account '' @ acc @ '' not found'')"

definition GetByAccountID ::
  "go_context \<Rightarrow> uuid \<Rightarrow> 'x db_scheme \<Rightarrow> (go_error + session_metadata) \<times> 'x db_scheme" where
  "GetByAccountID ctx acc s =
     (case scanSessionMetadata (autocommit (select_session acc) s) of
        (Inl e, s1) \<Rightarrow>
          if errors_is e NoRows then (Inl (session_not_found acc), s1) else (Inl (with_stack e), s1)
      | (Inr m, s1) \<Rightarrow> (Inr m, s1))"

definition count_by_session_status :: "session_row list \<Rightarrow> (session_status \<times> nat) list" where
  "count_by_session_status rs =
     (let valid = filter SessionStatus_IsValid (map srow_status rs)
      in map (\<lambda>st. (st, count_list valid st)) (remdups valid))"

definition StatusSnapshot ::
  "go_context \<Rightarrow> 'x db_scheme \<Rightarrow> (go_error + (session_status \<Rightarrow> nat option)) \<times> 'x db_scheme" where
  "StatusSnapshot ctx s =
     (let snapshot = Map.empty(SessionStatusValid \<mapsto> 0, SessionStatusInvalid \<mapsto> 0,
                               SessionStatusUnavailable \<mapsto> 0)
      in case autocommit (\<lambda>s. Inr (count_by_session_status (db_sessions s), s)) s of
           (Inl e, s1) \<Rightarrow> (Inl (with_stack e), s1)
         | (Inr rows, s1) \<Rightarrow> (Inr (snapshot_loop SessionStatus_IsValid snapshot rows), s1))"

definition Session_Upsert ::
  "'x session_repository \<Rightarrow> go_context \<Rightarrow> session_metadata \<Rightarrow> 'x db_scheme \<Rightarrow>
   (go_error + session_metadata) \<times> 'x db_scheme" where
  "Session_Upsert repo ctx m s =
     (case SessionMetadata_Validate m of
        Some err \<Rightarrow> (Inl (with_stack err), s)
      | None \<Rightarrow>
        (case scanSessionMetadata (autocommit (upsert_session m) s) of
           (Inl e, s1) \<Rightarrow> (Inl (with_stack e), s1)
         | (Inr updated, s1) \<Rightarrow>
             (Inr updated, audit_best_effort (srepo_auditLog repo) ctx
                \<lparr>event_Actor = no_actor, event_Action = ''session.metadata_upserted'',
                 event_TargetType = ''session'', event_TargetID = session_AccountID m,
                 event_ChangeSummary = ''session metadata upserted'',
                 event_DiagnosticFields =
                   [(''revision'', Itoa (session_Revision updated)),
                    (''status'', session_status_str (session_Status updated)),
                    (''error_code'', error_code_str (session_ErrorCode updated))]\<rparr> s1)))"

definition UpdateStatus ::
  "'x session_repository \<Rightarrow> go_context \<Rightarrow> uuid \<Rightarrow> session_status \<Rightarrow> error_code \<Rightarrow> 'x db_scheme \<Rightarrow>
   (go_error + session_metadata) \<times> 'x db_scheme" where
  "UpdateStatus repo ctx acc st code s =
     (if \<not> SessionStatus_IsValid st then
        (Inl (NewDomainError ErrorCodeInvalidSessionStatus
                (''invalid session status: '' @ session_status_str st)), s)
      else if st = SessionStatusValid \<and> error_code_str code \<noteq> '''' then
        (Inl (NewDomainError ErrorCodeInvalidSessionStatus ''valid session status must not have error code''), s)
      else case scanSessionMetadata (autocommit
               (\<lambda>s1. update_session acc (status_session_row st (nullableErrorCode code) (db_now s1)) s1) s) of
        (Inl e, s1) \<Rightarrow>
          if errors_is e NoRows then (Inl (session_not_found acc), s1) else (Inl (with_stack e), s1)
      | (Inr m, s1) \<Rightarrow>
          (Inr m, audit_best_effort (srepo_auditLog repo) ctx
             \<lparr>event_Actor = no_actor, event_Action = ''session.status_changed'',
              event_TargetType = ''session'', event_TargetID = acc,
              event_ChangeSummary = ''session status changed to '' @ session_status_str st,
              event_DiagnosticFields =
                [(''status'', session_status_str (session_Status m)),
                 (''error_code'', error_code_str (session_ErrorCode m))]\<rparr> s1))"

definition MarkRestored ::
  "'x session_repository \<Rightarrow> go_context \<Rightarrow> uuid \<Rightarrow> 'x db_scheme \<Rightarrow>
   (go_error + session_metadata) \<times> 'x db_scheme" where
  "MarkRestored repo ctx acc s =
     (case scanSessionMetadata (autocommit
               (\<lambda>s1. update_session acc (restored_session_row (db_now s1)) s1) s) of
        (Inl e, s1) \<Rightarrow>
          if errors_is e NoRows then (Inl (session_not_found acc), s1) else (Inl (with_stack e), s1)
      | (Inr m, s1) \<Rightarrow>
          (Inr m, audit_best_effort (srepo_auditLog repo) ctx
             \<lparr>event_Actor = no_actor, event_Action = ''session.restored'',
              event_TargetType = ''session'', event_TargetID = acc,
              event_ChangeSummary = ''session restored and marked valid'',
              event_DiagnosticFields =
                [(''revision'', Itoa (session_Revision m)),
                 (''status'', session_status_str (session_Status m))]\<rparr> s1))"



section \<open>The session table as a map\<close>

definition session_map :: "'x db_scheme \<Rightarrow> uuid \<Rightarrow> session_row option" where
  "session_map s acc = find_session acc (db_sessions s)"

definition session_frame :: "'x db_scheme \<Rightarrow> 'x db_scheme \<Rightarrow> bool" where
  "session_frame s s' \<longleftrightarrow>
     db_tasks s' = db_tasks s \<and> db_accounts s' = db_accounts s \<and> db_proxies s' = db_proxies s \<and>
     db_results s' = db_results s \<and> db_now s' = db_now s"

definition session_safe :: "'x db_scheme \<Rightarrow> 'x db_scheme \<Rightarrow> bool" where
  "session_safe s s' \<longleftrightarrow> (db_ok s \<longrightarrow> db_ok s' \<and> session_frame s s')"

lemma session_safe_refl [simp]: "session_safe s s"
  by (simp add: session_safe_def session_frame_def)

lemma session_safe_trans [trans]: "session_safe s t \<Longrightarrow> session_safe t u \<Longrightarrow> session_safe s u"
  by (simp add: session_safe_def session_frame_def)

lemma session_safe_same: "same_tables s s' \<Longrightarrow> session_safe s s'"
  by (simp add: session_safe_def session_frame_def db_ok_same_tables) (simp add: same_tables_def)

lemma session_safe_relation: "table_relation session_safe"
  unfolding table_relation_def by (blast intro: session_safe_same session_safe_trans)

lemma session_map_same: "db_sessions s' = db_sessions s \<Longrightarrow> session_map s' = session_map s"
  by (rule ext) (simp add: session_map_def)

lemma find_session_mem: "find_session acc rs = Some r \<Longrightarrow> acc \<in> set (map srow_account_id rs)"
  unfolding find_session_def by (blast dest: find_key_Some)

lemma find_session_Some: "find_session acc rs = Some r \<Longrightarrow> r \<in> set rs \<and> srow_account_id r = acc"
  unfolding find_session_def by (blast dest: find_key_Some)

lemma find_session_None: "find_session acc rs = None \<longleftrightarrow> acc \<notin> set (map srow_account_id rs)"
  unfolding find_session_def by (rule find_key_None)

lemma find_session_put:
  "find_session acc (put_session r rs) =
   (if acc = srow_account_id r then (if acc \<in> set (map srow_account_id rs) then Some r else None)
    else find_session acc rs)"
  unfolding find_session_def put_session_def by (rule find_key_put)

lemma put_session_ids: "map srow_account_id (put_session r rs) = map srow_account_id rs"
  unfolding put_session_def by (rule map_key_put)

lemma set_put_session: "x \<in> set (put_session r rs) \<Longrightarrow> x = r \<or> x \<in> set rs"
  by (auto simp: put_session_def split: if_splits)

lemma sessions_ok_put:
  assumes "sessions_ok accounts rs" "session_row_ok r" "srow_account_id r \<in> set (map srow_account_id rs)"
  shows "sessions_ok accounts (put_session r rs)"
proof -
  have "srow_account_id r \<in> set (map arow_id accounts)"
    using assms(1,3) by (auto simp: sessions_ok_def list_all_iff)
  then have "session_row_ok x \<and> srow_account_id x \<in> set (map arow_id accounts)"
    if "x \<in> set (put_session r rs)" for x
    using set_put_session [OF that] assms(1,2) by (auto simp: sessions_ok_def list_all_iff)
  then show ?thesis using assms(1) by (simp add: sessions_ok_def put_session_ids list_all_iff)
qed

lemma db_ok_sessions:
  "db_ok s \<Longrightarrow> sessions_ok (db_accounts s) rs \<Longrightarrow> db_ok (s\<lparr>db_sessions := rs\<rparr>)"
  by (simp add: db_ok_def)

lemma upsert_session_Inr:
  assumes "upsert_session m s = Inr (r, s')"
  shows "r = upserted_session m (db_now s) (session_map s (session_AccountID m)) \<and> session_row_ok r \<and>
    session_AccountID m \<in> set (map arow_id (db_accounts s)) \<and>
    session_map s' = (session_map s)(session_AccountID m \<mapsto> r) \<and> session_safe s s' \<and>
    (\<exists>rs. s' = s\<lparr>db_sessions := rs\<rparr>)"
proof -
  let ?acc = "session_AccountID m"
  let ?old = "find_session ?acc (db_sessions s)"
  let ?rs = "case ?old of None \<Rightarrow> db_sessions s @ [r] | Some q \<Rightarrow> put_session r (db_sessions s)"
  have r: "r = upserted_session m (db_now s) ?old" "session_row_ok r"
    "?acc \<in> set (map arow_id (db_accounts s))" "s' = s\<lparr>db_sessions := ?rs\<rparr>"
    using assms by (auto simp: upsert_session_def Let_def split: if_splits)
  have acc: "srow_account_id r = ?acc" by (simp add: r(1) upserted_session_def)
  have "find_session a ?rs = (if a = ?acc then Some r else find_session a (db_sessions s))" for a
    unfolding find_session_def put_session_def by (rule find_key_upsert [where k = srow_account_id, OF acc])
  then have map: "session_map s' = (session_map s)(?acc \<mapsto> r)"
    by (auto simp: session_map_def r(4) fun_eq_iff)
  have "sessions_ok (db_accounts s) ?rs" if "sessions_ok (db_accounts s) (db_sessions s)"
  proof (cases ?old)
    case None
    then have "?acc \<notin> set (map srow_account_id (db_sessions s))" by (simp only: find_session_None simp_thms)
    with None that r(2,3) acc show ?thesis by (auto simp: sessions_ok_def)
  next
    case (Some q)
    then have "?acc \<in> set (map srow_account_id (db_sessions s))" by (rule find_session_mem)
    with Some that r(2) acc show ?thesis by (simp add: sessions_ok_put)
  qed
  then have "session_safe s s'"
    by (auto simp: session_safe_def session_frame_def r(4) intro!: db_ok_sessions) (simp add: db_ok_def)
  then show ?thesis using r map by (auto simp: session_map_def)
qed

lemma update_session_Inr:
  assumes "update_session acc upd s = Inr (r', s')"
    and keep: "\<And>r. srow_account_id (upd r) = srow_account_id r"
  shows "\<exists>r. session_map s acc = Some r \<and> r' = upd r \<and> session_row_ok r' \<and>
    session_map s' = (session_map s)(acc \<mapsto> r') \<and> session_safe s s' \<and> (\<exists>rs. s' = s\<lparr>db_sessions := rs\<rparr>)"
proof -
  from assms(1) obtain r where r: "find_session acc (db_sessions s) = Some r" "r' = upd r" "session_row_ok r'"
    "s' = s\<lparr>db_sessions := put_session r' (db_sessions s)\<rparr>"
    by (auto simp: update_session_def split: option.splits if_splits)
  have acc: "srow_account_id r' = acc" using find_session_Some [OF r(1)] keep r(2) by simp
  have mem: "acc \<in> set (map srow_account_id (db_sessions s))" using r(1) by (rule find_session_mem)
  have "session_map s' = (session_map s)(acc \<mapsto> r')"
    using mem by (auto simp: session_map_def r(4) fun_eq_iff find_session_put acc)
  moreover have "session_safe s s'"
    using r(3) mem acc
    by (auto simp: session_safe_def session_frame_def r(4) intro!: db_ok_sessions sessions_ok_put)
      (simp add: db_ok_def)
  ultimately show ?thesis using r by (auto simp: session_map_def)
qed

lemma scanSession_Inr: "scanSessionMetadata x = (Inr m, s') \<Longrightarrow> \<exists>r. x = (Inr r, s') \<and> m = session_of_row r"
  by (auto simp: scanSessionMetadata_def split: sum.splits prod.splits)

lemma snd_scanSession: "snd (scanSessionMetadata x) = snd x"
  by (auto simp: scanSessionMetadata_def split: sum.splits prod.splits)

lemma audit_best_effort_session:
  assumes "audit_wired auditLog"
  shows "session_safe s (audit_best_effort auditLog ctx ev s) \<and>
    db_sessions (audit_best_effort auditLog ctx ev s) = db_sessions s"
proof -
  have "same_core s (audit_best_effort auditLog ctx ev s)" by (rule audit_best_effort_core [OF assms])
  moreover have "queue_safe s (audit_best_effort auditLog ctx ev s)" by (rule audit_best_effort_safe [OF assms])
  ultimately show ?thesis
    by (simp add: session_safe_def queue_safe_def session_frame_def same_core_def)
qed


section \<open>What the operations do\<close>

text \<open>\<open>session_change acc row r s s'\<close>: the call either failed and left the table alone, or wrote \<open>row\<close>.\<close>

definition session_change ::
  "uuid \<Rightarrow> session_row \<Rightarrow> go_error + session_metadata \<Rightarrow> 'x db_scheme \<Rightarrow> 'x db_scheme \<Rightarrow> bool" where
  "session_change acc row r s s' \<longleftrightarrow>
     (\<exists>e. r = Inl e) \<and> session_map s' = session_map s \<or>
     (r = Inr (session_of_row row) \<or> (\<exists>e. r = Inl e)) \<and> session_row_ok row \<and>
       session_map s' = (session_map s)(acc \<mapsto> row)"

lemma session_change_audit:
  assumes "session_change acc row r s s1" "audit_wired auditLog"
  shows "session_change acc row r s (audit_best_effort auditLog ctx ev s1)"
proof -
  have "session_map (audit_best_effort auditLog ctx ev s1) = session_map s1"
    using audit_best_effort_session [OF assms(2)] by (intro session_map_same) simp
  then show ?thesis using assms(1) by (simp add: session_change_def)
qed

lemma same_tables_sessions:
  "same_tables s s' \<Longrightarrow> db_sessions s' = db_sessions s \<and> session_map s' = session_map s \<and> db_now s' = db_now s"
  by (auto simp: same_tables_def intro: session_map_same)

lemma autocommit_session:
  assumes st: "\<And>t r' t'. same_tables s t \<Longrightarrow> st t = Inr (r', t') \<Longrightarrow>
      r' = row \<and> session_row_ok row \<and> session_map t' = (session_map t)(acc \<mapsto> row) \<and> session_safe t t'"
    and run: "scanSessionMetadata (autocommit st s) = (r, s')"
  shows "session_change acc row r s s' \<and> session_safe s s'"
proof -
  obtain r0 where ac: "autocommit st s = (r0, s')"
    and r: "r = (case r0 of Inl e \<Rightarrow> Inl (with_stack e) | Inr x \<Rightarrow> Inr (session_of_row x))"
    using run by (cases "autocommit st s") (auto simp: scanSessionMetadata_def split: sum.splits)
  from ac show ?thesis
  proof (cases rule: autocommit_cases)
    case (rejected e s1)
    then show ?thesis using r session_safe_same same_tables_sessions by (auto simp: session_change_def)
  next
    case (ran x s1 s2)
    note eff = st [OF ran(1,2)]
    have "session_map s' = (session_map s)(acc \<mapsto> row)"
      using eff ran(3) same_tables_sessions [OF ran(1)] by simp
    moreover have "session_safe s s'"
      using eff ran(1,3) session_safe_same session_safe_trans by blast
    ultimately show ?thesis using eff r ran(4) by (auto simp: session_change_def)
  qed
qed

lemma Session_Upsert_cases:
  assumes wired: "audit_wired (srepo_auditLog repo)" and run: "Session_Upsert repo ctx m s = (r, s')"
  shows "session_safe s s' \<and>
    session_change (session_AccountID m)
      (upserted_session m (db_now s) (session_map s (session_AccountID m))) r s s' \<and>
    (session_map s' \<noteq> session_map s \<longrightarrow> SessionMetadata_Validate m = None) \<and>
    ((\<exists>u. r = Inr u) \<longrightarrow> SessionMetadata_Validate m = None)"
proof (cases "SessionMetadata_Validate m")
  case (Some err)
  then show ?thesis using run by (auto simp: Session_Upsert_def session_change_def)
next
  case None
  let ?row = "upserted_session m (db_now s) (session_map s (session_AccountID m))"
  obtain r1 s1 where ac: "scanSessionMetadata (autocommit (upsert_session m) s) = (r1, s1)"
    by (cases "scanSessionMetadata (autocommit (upsert_session m) s)")
  have "session_change (session_AccountID m) ?row r1 s s1 \<and> session_safe s s1"
  proof (rule autocommit_session [OF _ ac])
    fix t r' t' assume "same_tables s t" "upsert_session m t = Inr (r', t')"
    then show "r' = ?row \<and> session_row_ok ?row \<and>
        session_map t' = (session_map t)(session_AccountID m \<mapsto> ?row) \<and> session_safe t t'"
      using upsert_session_Inr [of m t r' t'] same_tables_sessions [of s t] by auto
  qed
  then show ?thesis
    using run None ac audit_best_effort_session [OF wired] session_change_audit [OF _ wired]
      session_safe_trans
    by (auto simp: Session_Upsert_def session_change_def split: sum.splits) blast+
qed

lemma update_session_cases:
  assumes keep: "\<And>r. srow_account_id (upd (db_now s) r) = srow_account_id r"
    and run: "scanSessionMetadata (autocommit (\<lambda>s1. update_session acc (upd (db_now s1)) s1) s) = (r, s')"
  shows "session_safe s s' \<and>
    (case session_map s acc of
       None \<Rightarrow> (\<exists>e. r = Inl e) \<and> session_map s' = session_map s
     | Some q \<Rightarrow> session_change acc (upd (db_now s) q) r s s')"
proof (cases "session_map s acc")
  case None
  obtain r0 where ac: "autocommit (\<lambda>s1. update_session acc (upd (db_now s1)) s1) s = (r0, s')"
    and r: "r = (case r0 of Inl e \<Rightarrow> Inl (with_stack e) | Inr x \<Rightarrow> Inr (session_of_row x))"
    using run by (cases "autocommit (\<lambda>s1. update_session acc (upd (db_now s1)) s1) s")
      (auto simp: scanSessionMetadata_def split: sum.splits)
  from ac show ?thesis
  proof (cases rule: autocommit_cases)
    case (rejected e s1)
    then show ?thesis using None r session_safe_same same_tables_sessions by auto
  next
    case (ran x s1 s2)
    have "find_session acc (db_sessions s1) = None"
      using None same_tables_sessions [OF ran(1)] by (simp add: session_map_def)
    then show ?thesis using ran(2) by (simp add: update_session_def)
  qed
next
  case (Some q)
  have "session_change acc (upd (db_now s) q) r s s' \<and> session_safe s s'"
  proof (rule autocommit_session [OF _ run])
    fix t r' t' assume t: "same_tables s t" "update_session acc (upd (db_now t)) t = Inr (r', t')"
    have eq: "db_now t = db_now s" "session_map t = session_map s" using same_tables_sessions [OF t(1)] by simp_all
    show "r' = upd (db_now s) q \<and> session_row_ok (upd (db_now s) q) \<and>
        session_map t' = (session_map t)(acc \<mapsto> upd (db_now s) q) \<and> session_safe t t'"
      using update_session_Inr [OF t(2)] keep eq Some by auto
  qed
  then show ?thesis using Some by simp
qed

lemma error_code_str_Nil: "error_code_str c = '''' \<longleftrightarrow> c = no_error_code"
  by (cases c) simp_all

lemma nullableErrorCode_back:
  "(case nullableErrorCode c of None \<Rightarrow> no_error_code | Some x \<Rightarrow> x) = c"
  by (simp add: nullableErrorCode_def error_code_str_Nil)

lemma session_row_ok_upserted:
  "SessionMetadata_Validate m = None \<Longrightarrow> session_row_ok (upserted_session m now old)"
  by (simp add: SessionMetadata_Validate_None session_row_ok_def upserted_session_def nullableErrorCode_def)

lemma audit_no_faults:
  assumes "audit_wired auditLog" "db_faults s = []"
  shows "db_faults (audit_best_effort auditLog ctx ev s) = []"
  using assms
  by (auto simp: audit_wired_def audit_best_effort_def pg_audit_log_def Log_Record_def Let_def new_uuid_def
      Audit_Append_def autocommit_def insert_audit_def split: option.splits)

lemma UpdateStatus_cases:
  assumes wired: "audit_wired (srepo_auditLog repo)" and run: "UpdateStatus repo ctx acc st code s = (r, s')"
  shows "session_safe s s' \<and>
    (case session_map s acc of
       None \<Rightarrow> (\<exists>e. r = Inl e) \<and> session_map s' = session_map s
     | Some q \<Rightarrow> session_change acc (status_session_row st (nullableErrorCode code) (db_now s) q) r s s')"
proof (cases "SessionStatus_IsValid st \<and> \<not> (st = SessionStatusValid \<and> error_code_str code \<noteq> '''')")
  case False
  then show ?thesis
    using run by (auto simp: UpdateStatus_def session_change_def split: if_splits option.splits)
next
  case True
  let ?st = "\<lambda>s1. update_session acc (status_session_row st (nullableErrorCode code) (db_now s1)) s1"
  obtain r1 s1 where ac: "scanSessionMetadata (autocommit ?st s) = (r1, s1)"
    by (cases "scanSessionMetadata (autocommit ?st s)")
  have one: "session_safe s s1 \<and>
    (case session_map s acc of
       None \<Rightarrow> (\<exists>e. r1 = Inl e) \<and> session_map s1 = session_map s
     | Some q \<Rightarrow> session_change acc (status_session_row st (nullableErrorCode code) (db_now s) q) r1 s s1)"
    by (rule update_session_cases [OF _ ac]) (simp add: status_session_row_def)
  show ?thesis
  proof (cases r1)
    case (Inl e)
    then show ?thesis using True run ac one
      by (auto simp: UpdateStatus_def session_change_def split: if_splits option.splits)
  next
    case (Inr m)
    then show ?thesis using True run ac one audit_best_effort_session [OF wired]
        session_change_audit [OF _ wired] session_safe_trans
      by (auto simp: UpdateStatus_def split: option.splits) blast+
  qed
qed

lemma MarkRestored_cases:
  assumes wired: "audit_wired (srepo_auditLog repo)" and run: "MarkRestored repo ctx acc s = (r, s')"
  shows "session_safe s s' \<and>
    (case session_map s acc of
       None \<Rightarrow> (\<exists>e. r = Inl e) \<and> session_map s' = session_map s
     | Some q \<Rightarrow> session_change acc (restored_session_row (db_now s) q) r s s')"
proof -
  let ?st = "\<lambda>s1. update_session acc (restored_session_row (db_now s1)) s1"
  obtain r1 s1 where ac: "scanSessionMetadata (autocommit ?st s) = (r1, s1)"
    by (cases "scanSessionMetadata (autocommit ?st s)")
  have one: "session_safe s s1 \<and>
    (case session_map s acc of
       None \<Rightarrow> (\<exists>e. r1 = Inl e) \<and> session_map s1 = session_map s
     | Some q \<Rightarrow> session_change acc (restored_session_row (db_now s) q) r1 s s1)"
    by (rule update_session_cases [OF _ ac]) (simp add: restored_session_row_def)
  show ?thesis
  proof (cases r1)
    case (Inl e)
    then show ?thesis using run ac one
      by (auto simp: MarkRestored_def session_change_def split: if_splits option.splits)
  next
    case (Inr m)
    then show ?thesis using run ac one audit_best_effort_session [OF wired]
        session_change_audit [OF _ wired] session_safe_trans
      by (auto simp: MarkRestored_def split: option.splits) blast+
  qed
qed


section \<open>Theorems\<close>

lemma Session_Upsert_stored:
  assumes "SessionMetadata_Validate m = None" "session_AccountID m \<in> set (map arow_id (db_accounts s))"
    "db_faults s = []" "audit_wired (srepo_auditLog repo)"
  defines "row \<equiv> upserted_session m (db_now s) (session_map s (session_AccountID m))"
  shows "\<exists>s'. Session_Upsert repo ctx m s = (Inr (session_of_row row), s') \<and> db_faults s' = [] \<and>
    session_map s' = (session_map s)(session_AccountID m \<mapsto> row) \<and> db_now s' = db_now s \<and>
    db_accounts s' = db_accounts s"
proof -
  let ?acc = "session_AccountID m"
  have ok: "session_row_ok row" unfolding row_def by (rule session_row_ok_upserted [OF assms(1)])
  obtain rs where up: "upsert_session m s = Inr (row, s\<lparr>db_sessions := rs\<rparr>)"
    using ok assms(2) by (simp add: upsert_session_def Let_def session_map_def row_def)
  have map: "session_map (s\<lparr>db_sessions := rs\<rparr>) = (session_map s)(?acc \<mapsto> row)"
    using upsert_session_Inr [OF up] by simp
  obtain ev where run: "Session_Upsert repo ctx m s =
      (Inr (session_of_row row), audit_best_effort (srepo_auditLog repo) ctx ev (s\<lparr>db_sessions := rs\<rparr>))"
    using assms(1,3) up by (auto simp: Session_Upsert_def autocommit_def scanSessionMetadata_def)
  let ?s' = "audit_best_effort (srepo_auditLog repo) ctx ev (s\<lparr>db_sessions := rs\<rparr>)"
  have "db_faults ?s' = []" by (rule audit_no_faults) (use assms in simp_all)
  moreover have "session_map ?s' = (session_map s)(?acc \<mapsto> row)"
    using audit_best_effort_session [OF assms(4), of "s\<lparr>db_sessions := rs\<rparr>"] session_map_same map by metis
  moreover have "same_core (s\<lparr>db_sessions := rs\<rparr>) ?s'" by (rule audit_best_effort_core [OF assms(4)])
  ultimately show ?thesis using run by (auto simp: same_core_def)
qed

lemma GetByAccountID_found:
  assumes "db_faults s = []" "session_map s acc = Some row"
  shows "GetByAccountID ctx acc s = (Inr (session_of_row row), s)"
  using assms by (simp add: GetByAccountID_def autocommit_def scanSessionMetadata_def select_session_def session_map_def)

text \<open>
  C33.  Metadata the code accepts, of an account that exists, is stored: no check of the table refuses
  it.  It is read back with the revision, status, object key and error code given; the time of creation
  is kept from the row before, and no other account's session changes.
\<close>

theorem Session_Upsert_roundtrip:
  assumes "SessionMetadata_Validate m = None" "session_AccountID m \<in> set (map arow_id (db_accounts s))"
    "db_faults s = []" "audit_wired (srepo_auditLog repo)"
    "Session_Upsert repo ctx m s = (r, s')"
  shows "\<exists>u. r = Inr u \<and> fst (GetByAccountID ctx' (session_AccountID m) s') = Inr u \<and>
    session_Revision u = session_Revision m \<and> session_Status u = session_Status m \<and>
    session_ObjectKey u = session_ObjectKey m \<and> session_ErrorCode u = session_ErrorCode m \<and>
    session_CreatedAt u = (case session_map s (session_AccountID m) of None \<Rightarrow> db_now s | Some q \<Rightarrow> srow_created_at q) \<and>
    (\<forall>acc. acc \<noteq> session_AccountID m \<longrightarrow> session_map s' acc = session_map s acc)"
proof -
  let ?acc = "session_AccountID m"
  let ?row = "upserted_session m (db_now s) (session_map s ?acc)"
  have run: "r = Inr (session_of_row ?row)" "db_faults s' = []" "session_map s' = (session_map s)(?acc \<mapsto> ?row)"
    using Session_Upsert_stored [OF assms(1-4), of ctx] assms(5) by auto
  then have "fst (GetByAccountID ctx' ?acc s') = Inr (session_of_row ?row)" by (simp add: GetByAccountID_found)
  then show ?thesis using run
    by (auto simp: session_of_row_def upserted_session_def nullableErrorCode_back split: option.splits)
qed

definition sample_metadata :: session_metadata where
  "sample_metadata =
     \<lparr>session_AccountID = ''a1'', session_Revision = 4, session_Status = SessionStatusValid,
      session_ObjectKey = ''u_example.com/latest.json'', session_ErrorCode = no_error_code,
      session_LastRestoredAt = None, session_CreatedAt = 0, session_UpdatedAt = 0\<rparr>"

definition sample_session_repo :: "unit session_repository" where
  "sample_session_repo = NewSessionRepository [pg_audit_log]"

lemma sample_session_wired: "audit_wired (srepo_auditLog sample_session_repo)"
  by (simp add: sample_session_repo_def NewSessionRepository_def audit_wired_def)

lemma Session_Upsert_roundtrip_witness:
  "\<exists>u. fst (Session_Upsert sample_session_repo Background sample_metadata (sample_db [])) = Inr u \<and>
       session_Revision u = 4"
proof -
  have "SessionMetadata_Validate sample_metadata = None" by code_simp
  moreover have "session_AccountID sample_metadata \<in> set (map arow_id (db_accounts (sample_db [])))" by code_simp
  moreover have "db_faults (sample_db []) = []" by (simp add: sample_db_def)
  ultimately obtain u where u: "fst (Session_Upsert sample_session_repo Background sample_metadata (sample_db [])) = Inr u"
    "session_Revision u = session_Revision sample_metadata"
    using Session_Upsert_roundtrip [OF _ _ _ sample_session_wired prod.collapse [symmetric],
        where m = sample_metadata and s = "sample_db []" and ctx = Background] by blast
  then show ?thesis by (simp add: sample_metadata_def)
qed

definition session_pointers :: "'x db_scheme \<Rightarrow> uuid \<Rightarrow> (int \<times> string \<times> time) option" where
  "session_pointers s acc =
     map_option (\<lambda>q. (srow_revision q, srow_object_key q, srow_created_at q)) (session_map s acc)"

lemma session_change_pointers:
  assumes "session_change acc row r s s'" "session_map s acc = Some q"
    "srow_revision row = srow_revision q" "srow_object_key row = srow_object_key q"
    "srow_created_at row = srow_created_at q"
  shows "session_pointers s' = session_pointers s"
  using assms by (auto simp: session_change_def session_pointers_def fun_eq_iff)

text \<open>
  A status change and a restore move neither the revision nor the object key of any session, so
  the metadata keeps pointing at the payload last saved; when they succeed the session shows exactly
  the status and error code asked for, a restored one being valid without error and restored now.
\<close>

theorem session_status_keeps_pointer:
  assumes "audit_wired (srepo_auditLog repo)"
    "UpdateStatus repo ctx acc st code s = (r, s')" "MarkRestored repo ctx acc t = (r', t')"
  shows "session_pointers s' = session_pointers s \<and> session_pointers t' = session_pointers t \<and>
    (\<forall>m. r = Inr m \<longrightarrow> session_Status m = st \<and> session_ErrorCode m = code) \<and>
    (\<forall>m. r' = Inr m \<longrightarrow> session_Status m = SessionStatusValid \<and> session_ErrorCode m = no_error_code \<and>
           session_LastRestoredAt m = Some (db_now t) \<and>
           (\<exists>q. session_map t acc = Some q \<and> session_Revision m = srow_revision q \<and>
                session_ObjectKey m = srow_object_key q))"
proof -
  note u = UpdateStatus_cases [OF assms(1,2)] and k = MarkRestored_cases [OF assms(1,3)]
  have "session_pointers s' = session_pointers s \<and>
      (\<forall>m. r = Inr m \<longrightarrow> session_Status m = st \<and> session_ErrorCode m = code)"
  proof (cases "session_map s acc")
    case None
    then show ?thesis using u by (auto simp: session_pointers_def fun_eq_iff)
  next
    case (Some q)
    then have ch: "session_change acc (status_session_row st (nullableErrorCode code) (db_now s) q) r s s'"
      using u by simp
    then show ?thesis
      using session_change_pointers [OF ch Some]
      by (auto simp: session_change_def status_session_row_def session_of_row_def nullableErrorCode_back)
  qed
  moreover have "session_pointers t' = session_pointers t \<and>
      (\<forall>m. r' = Inr m \<longrightarrow> (\<exists>q. session_map t acc = Some q \<and>
          m = session_of_row (restored_session_row (db_now t) q)))"
  proof (cases "session_map t acc")
    case None
    then show ?thesis using k by (auto simp: session_pointers_def fun_eq_iff)
  next
    case (Some q)
    then have ch: "session_change acc (restored_session_row (db_now t) q) r' t t'" using k by simp
    then show ?thesis
      using session_change_pointers [OF ch Some] Some
      by (auto simp: session_change_def restored_session_row_def)
  qed
  ultimately show ?thesis by (auto simp: session_of_row_def restored_session_row_def)
qed

definition sample_session :: session_row where
  "sample_session =
     \<lparr>srow_account_id = ''a1'', srow_revision = 3, srow_status = SessionStatusInvalid,
      srow_object_key = ''u_example.com/latest.json'', srow_error_code = Some ErrorCodeSessionPayloadMissing,
      srow_last_restored_at = None, srow_created_at = 1, srow_updated_at = 1\<rparr>"

definition sample_session_db :: db where
  "sample_session_db = (sample_db [])\<lparr>db_sessions := [sample_session]\<rparr>"

lemma session_status_keeps_pointer_witness:
  "session_pointers (snd (MarkRestored sample_session_repo Background ''a1'' sample_session_db)) ''a1'' =
     Some (3, ''u_example.com/latest.json'', 1)"
proof -
  have "session_pointers sample_session_db ''a1'' = Some (3, ''u_example.com/latest.json'', 1)" by code_simp
  then show ?thesis
    using session_status_keeps_pointer [OF sample_session_wired prod.collapse [symmetric] prod.collapse [symmetric],
        where s = sample_session_db and t = sample_session_db and acc = "''a1''" and ctx = Background
          and st = SessionStatusInvalid and code = no_error_code] by simp
qed

end
