(* ===== verification/Worker_Policy.thy ===== *)
theory Worker_Policy
  imports Follow_Domain
begin

text \<open>
  What the worker makes of the outcome of an execution: \<open>internal/worker/lifecycle_policy.go\<close> and the
  classifiers of \<open>claim_loop.go\<close> and \<open>execution_service.go\<close>.  Each takes the errors and results of an
  execution to the final status, error code and reason of the task.

  The lemmas say that every such triple passes \<open>ValidateTaskCompletion\<close>, that only a verified follow is
  a success, and that the code hidden in the message of a failed session save is read back.
\<close>

section \<open>Error codes as text\<close>

text \<open>\<open>domain.ErrorCode(s)\<close>: the constant of that text, if there is one.\<close>

definition known_error_codes :: "error_code list" where
  "known_error_codes =
     [ErrorCodeEligible, ErrorCodeInternal, ErrorCodeAccountNotFound, ErrorCodeAccountBusy,
      ErrorCodeAccountInactive, ErrorCodeAccountNotReady, ErrorCodeAccountQuarantined,
      ErrorCodeAccountRestricted, ErrorCodeAccountMissingProxy, ErrorCodeAccountProxyInactive,
      ErrorCodeAccountLimitReached, ErrorCodeAccountContextMismatch, ErrorCodeInvalidOperationalState,
      ErrorCodeInvalidExecutionContext, ErrorCodeInvalidAccountIdentifier,
      ErrorCodeSessionMetadataNotFound, ErrorCodeSessionPayloadMissing, ErrorCodeSessionPayloadCorrupted,
      ErrorCodeSessionOwnershipMismatch, ErrorCodeSessionPayloadInvalid, ErrorCodeInvalidSessionStatus,
      ErrorCodeInvalidSessionRevision, ErrorCodeInvalidSessionObjectKey, ErrorCodeTaskNotFound,
      ErrorCodeTaskNotRunning, ErrorCodeTaskStateConflict, ErrorCodeRetryNotAllowed,
      ErrorCodeCancelNotAllowed, ErrorCodeTaskClaimOwnerMismatch, ErrorCodeTaskQueueWriteFailed,
      ErrorCodeInvalidTaskIdentifier, ErrorCodeInvalidTaskStatus, ErrorCodeInvalidTaskTransition,
      ErrorCodeInvalidTaskClaimedBy, ErrorCodeTaskCompletionReason, ErrorCodeFollowTargetProfile,
      ErrorCodeFollowActionUnavailable, ErrorCodeFollowTargetUnreachable,
      ErrorCodeFollowNavigationFailed, ErrorCodeFollowVerifyFailed, ErrorCodeArtifactPersistFailed,
      ErrorCodeFollowResultPersistFailed, ErrorCodeFollowResultNotFound, ErrorCodeSessionSaveFailed,
      ErrorCodeAuthBootstrapRequired, ErrorCodeAuthBootstrapFailed, ErrorCodeAuthInvalidCredentials,
      ErrorCodeAuthChallengeBlocked, ErrorCodeAuthBootstrapDisabled]"

definition error_code_of :: "string \<Rightarrow> error_code" where
  "error_code_of s = (case find (\<lambda>c. error_code_str c = s) known_error_codes of Some c \<Rightarrow> c | None \<Rightarrow> ErrorCodeOther s)"


section \<open>Lifecycle policy\<close>

definition deterministicTerminalErrorCodes :: "error_code list" where
  "deterministicTerminalErrorCodes =
     [ErrorCodeFollowActionUnavailable, ErrorCodeFollowTargetUnreachable, ErrorCodeFollowTargetProfile,
      ErrorCodeSessionOwnershipMismatch, ErrorCodeSessionPayloadInvalid, ErrorCodeSessionPayloadCorrupted,
      ErrorCodeAccountContextMismatch, ErrorCodeAccountNotFound, ErrorCodeAccountInactive,
      ErrorCodeAccountQuarantined, ErrorCodeAccountRestricted, ErrorCodeAccountMissingProxy,
      ErrorCodeAccountProxyInactive, ErrorCodeAccountLimitReached, ErrorCodeAuthInvalidCredentials,
      ErrorCodeAuthChallengeBlocked, ErrorCodeAuthBootstrapDisabled]"

definition deterministicStatusForErrorCode :: "error_code \<Rightarrow> task_status" where
  "deterministicStatusForErrorCode errorCode =
     (if errorCode \<in> set deterministicTerminalErrorCodes then TaskStatusFail else TaskStatusRetry)"

definition deterministicStatusForSessionSaveSource :: "error_code \<Rightarrow> task_status" where
  "deterministicStatusForSessionSaveSource sourceErrorCode =
     (if error_code_str sourceErrorCode = '''' then TaskStatusRetry
      else deterministicStatusForErrorCode sourceErrorCode)"

definition lifecycleErrorCode :: "go_error \<Rightarrow> error_code" where
  "lifecycleErrorCode err = (case as_domain err of Some (code, _) \<Rightarrow> code | None \<Rightarrow> ErrorCodeInternal)"

definition classifyLifecycleExecutionFailure :: "go_error \<Rightarrow> task_status \<times> error_code" where
  "classifyLifecycleExecutionFailure err =
     (let errorCode = lifecycleErrorCode err in (deterministicStatusForErrorCode errorCode, errorCode))"

definition status_and_code :: "task_status \<Rightarrow> error_code \<Rightarrow> string" where
  "status_and_code finalStatus errorCode =
     ''(status='' @ task_status_str finalStatus @ '', error_code='' @ error_code_str errorCode"

definition classifyLifecyclePreparationFailure :: "go_error \<Rightarrow> task_status \<times> error_code \<times> string" where
  "classifyLifecyclePreparationFailure err =
     (let errorCode = lifecycleErrorCode err; finalStatus = deterministicStatusForErrorCode errorCode
      in (finalStatus, errorCode,
          ''execution context preparation failed '' @ status_and_code finalStatus errorCode @ '')''))"


section \<open>Session save errors\<close>

definition newSessionSaveFailedError :: "string \<Rightarrow> error_code \<Rightarrow> go_error" where
  "newSessionSaveFailedError message sourceCode0 =
     (let sourceCode = (if TrimSpace (error_code_str sourceCode0) = '''' then ErrorCodeInternal else sourceCode0)
      in NewDomainError ErrorCodeSessionSaveFailed
           (TrimSpace message @ '' (source_error_code='' @ error_code_str sourceCode @ '')''))"

text \<open>The characters at which the code stops reading.\<close>

definition code_stop :: "char \<Rightarrow> bool" where
  "code_stop c \<longleftrightarrow> c \<in> set ''), '' \<or> c \<in> {CHR 0x09, CHR 0x0A, CHR 0x0D}"

definition source_marker :: string where
  "source_marker = ''source_error_code=''"

definition sessionSaveSourceErrorCode :: "go_error \<Rightarrow> error_code" where
  "sessionSaveSourceErrorCode err =
     (case as_domain err of
        None \<Rightarrow> no_error_code
      | Some (code, message0) \<Rightarrow>
        if code \<noteq> ErrorCodeSessionSaveFailed then no_error_code
        else let message = TrimSpace message0 in
          (case StrIndex message source_marker of
             None \<Rightarrow> no_error_code
           | Some index \<Rightarrow>
             let value = TrimSpace (drop (index + length source_marker) message) in
             if value = '''' then no_error_code
             else error_code_of (TrimSpace (takeWhile (\<lambda>c. \<not> code_stop c) value))))"


section \<open>Outcomes\<close>

definition followOutcomeIsSuccess :: "follow_flow_outcome \<Rightarrow> bool" where
  "followOutcomeIsSuccess outcome \<longleftrightarrow>
     outcome = FollowFlowOutcomeCompleted \<or> outcome = FollowFlowOutcomeAlreadyDone"

fun followOutcomeErrorCode :: "follow_flow_outcome \<Rightarrow> error_code" where
  "followOutcomeErrorCode FollowFlowOutcomeActionUnavailable = ErrorCodeFollowActionUnavailable"
| "followOutcomeErrorCode FollowFlowOutcomeTargetUnreachable = ErrorCodeFollowTargetUnreachable"
| "followOutcomeErrorCode FollowFlowOutcomeNavigationFailed = ErrorCodeFollowNavigationFailed"
| "followOutcomeErrorCode outcome = ErrorCodeInternal"

definition normalizeFollowOutcome :: "follow_flow_outcome \<Rightarrow> go_error option \<Rightarrow> follow_flow_outcome" where
  "normalizeFollowOutcome outcome err =
     (if FollowFlowOutcome_IsValid outcome then outcome
      else case err of
        None \<Rightarrow> FollowFlowOutcomeNavigationFailed
      | Some e \<Rightarrow>
        (case lifecycleErrorCode e of
           ErrorCodeFollowActionUnavailable \<Rightarrow> FollowFlowOutcomeActionUnavailable
         | ErrorCodeFollowTargetUnreachable \<Rightarrow> FollowFlowOutcomeTargetUnreachable
         | _ \<Rightarrow> FollowFlowOutcomeNavigationFailed))"

definition bytes_of :: "string \<Rightarrow> bytes" where
  "bytes_of s = map of_char s"

definition verificationFromError :: "go_error \<Rightarrow> follow_verification_result" where
  "verificationFromError err =
     (let errorCode = lifecycleErrorCode err
      in \<lparr>fvr_Verified = False, fvr_Signal = FollowVerificationSignalVerifyFailed,
          fvr_Reason = ''follow verification error: '' @ error_code_str errorCode,
          fvr_ErrorCode = errorCode, fvr_SessionChanged = False,
          fvr_ScreenshotPayload = bytes_of ''verify-screenshot:error'', fvr_SessionPayload = []\<rparr>)"

definition sessionPayloadForFinalization :: "follow_verification_result \<Rightarrow> bytes" where
  "sessionPayloadForFinalization verification =
     (if \<not> fvr_SessionChanged verification then [] else fvr_SessionPayload verification)"

definition followErrorRequiresBootstrap :: "go_error option \<Rightarrow> bool" where
  "followErrorRequiresBootstrap err =
     (case err of None \<Rightarrow> False | Some e \<Rightarrow> lifecycleErrorCode e = ErrorCodeAuthBootstrapRequired)"

definition verificationRequestsBootstrap :: "follow_verification_result \<Rightarrow> go_error option \<Rightarrow> bool" where
  "verificationRequestsBootstrap verification verifyErr =
     (case verifyErr of
        Some e \<Rightarrow> lifecycleErrorCode e = ErrorCodeAuthBootstrapRequired
      | None \<Rightarrow> \<not> fvr_Verified verification \<and> fvr_ErrorCode verification = ErrorCodeAuthBootstrapRequired)"

definition classifyFollowCompletionResult ::
  "follow_flow_outcome \<Rightarrow> go_error option \<Rightarrow> follow_verification_result \<Rightarrow> go_error option \<Rightarrow>
   task_status \<times> error_code \<times> string" where
  "classifyFollowCompletionResult outcome followErr verification verifyErr =
     (let failed = (\<lambda>what errorCode.
            let finalStatus = deterministicStatusForErrorCode errorCode
            in (finalStatus, errorCode, what @ '' failed '' @ status_and_code finalStatus errorCode @ '')''));
          returned = (\<lambda>what finalStatus errorCode.
            (finalStatus, errorCode, ''follow flow returned '' @ what @ '' '' @ status_and_code finalStatus errorCode @
               '', outcome='' @ follow_outcome_str outcome @ '')''))
      in case verifyErr of
           Some e \<Rightarrow> failed ''follow verification'' (lifecycleErrorCode e)
         | None \<Rightarrow>
           if \<not> fvr_Verified verification then
             let errorCode = (if TrimSpace (error_code_str (fvr_ErrorCode verification)) = ''''
                              then followOutcomeErrorCode outcome else fvr_ErrorCode verification);
                 finalStatus = deterministicStatusForErrorCode errorCode
             in (finalStatus, errorCode,
                 ''follow verification returned unverified outcome '' @ status_and_code finalStatus errorCode @
                 '', signal='' @ verification_signal_str (fvr_Signal verification) @ '')'')
           else case followErr of
             Some e \<Rightarrow> failed ''follow flow execution'' (lifecycleErrorCode e)
           | None \<Rightarrow>
             (case outcome of
                FollowFlowOutcomeCompleted \<Rightarrow> (TaskStatusSuccess, no_error_code, '''')
              | FollowFlowOutcomeAlreadyDone \<Rightarrow> (TaskStatusSuccess, no_error_code, '''')
              | FollowFlowOutcomeActionUnavailable \<Rightarrow> returned ''outcome'' TaskStatusFail ErrorCodeFollowActionUnavailable
              | FollowFlowOutcomeTargetUnreachable \<Rightarrow> returned ''outcome'' TaskStatusFail ErrorCodeFollowTargetUnreachable
              | FollowFlowOutcomeNavigationFailed \<Rightarrow> returned ''outcome'' TaskStatusRetry ErrorCodeFollowNavigationFailed
              | FollowFlowOutcomeOther s \<Rightarrow> returned ''unsupported outcome'' TaskStatusRetry ErrorCodeInternal))"

definition classifyFinalizationError :: "go_error \<Rightarrow> task_status \<times> error_code \<times> string" where
  "classifyFinalizationError err =
     (let errorCode = lifecycleErrorCode err;
          sourceErrorCode = sessionSaveSourceErrorCode err;
          finalStatus = (if errorCode = ErrorCodeSessionSaveFailed
                         then deterministicStatusForSessionSaveSource sourceErrorCode
                         else deterministicStatusForErrorCode errorCode)
      in if TrimSpace (error_code_str sourceErrorCode) \<noteq> '''' then
           (finalStatus, errorCode,
            ''follow execution finalization failed '' @ status_and_code finalStatus errorCode @
            '', source_error_code='' @ error_code_str sourceErrorCode @ '')'')
         else
           (finalStatus, errorCode,
            ''follow execution finalization failed '' @ status_and_code finalStatus errorCode @ '')''))"

definition bootstrapErrorCodeForOutcome :: "bootstrap_login_outcome \<Rightarrow> error_code" where
  "bootstrapErrorCodeForOutcome outcome =
     (case outcome of
        BootstrapLoginOutcomeAuthInvalidCredentials \<Rightarrow> ErrorCodeAuthInvalidCredentials
      | BootstrapLoginOutcomeAuthChallenge \<Rightarrow> ErrorCodeAuthChallengeBlocked
      | BootstrapLoginOutcomeAuthRuntimeError \<Rightarrow> ErrorCodeAuthBootstrapFailed
      | _ \<Rightarrow> ErrorCodeAuthBootstrapFailed)"

text \<open>The reason of a task that failed before or while its follow was prepared.\<close>

definition execution_failure_reason :: "string \<Rightarrow> task_status \<Rightarrow> error_code \<Rightarrow> string" where
  "execution_failure_reason resultReason finalStatus errorCode =
     (let reasonPrefix = (if TrimSpace resultReason = '''' then ''execution_failed'' else TrimSpace resultReason)
      in reasonPrefix @ '' '' @ status_and_code finalStatus errorCode @ '')'')"



section \<open>Lemmas\<close>

lemma known_error_code_str:
  assumes "c \<in> set known_error_codes"
  shows "error_code_str c \<noteq> ''''" "list_all (\<lambda>x. \<not> code_stop x \<and> \<not> is_space x) (error_code_str c)"
    "error_code_of (error_code_str c) = c"
proof -
  have "list_all (\<lambda>c. error_code_str c \<noteq> '''' \<and> list_all (\<lambda>x. \<not> code_stop x \<and> \<not> is_space x) (error_code_str c) \<and>
      error_code_of (error_code_str c) = c) known_error_codes" by code_simp
  then show "error_code_str c \<noteq> ''''" "list_all (\<lambda>x. \<not> code_stop x \<and> \<not> is_space x) (error_code_str c)"
    "error_code_of (error_code_str c) = c"
    using assms by (simp_all add: list_all_iff)
qed

lemma deterministic_status: "deterministicStatusForErrorCode c \<in> {TaskStatusFail, TaskStatusRetry}"
  by (simp add: deterministicStatusForErrorCode_def)

lemma deterministic_save_status: "deterministicStatusForSessionSaveSource c \<in> {TaskStatusFail, TaskStatusRetry}"
  using deterministic_status by (simp add: deterministicStatusForSessionSaveSource_def)

lemma TrimSpace_nonblank: "x \<in> set s \<Longrightarrow> \<not> is_space x \<Longrightarrow> TrimSpace s \<noteq> ''''"
  by (auto simp: TrimSpace_eq_Nil)

lemma completion_valid:
  assumes "st \<in> {TaskStatusFail, TaskStatusRetry}" "CHR ''('' \<in> set reason"
  shows "ValidateTaskCompletion TaskStatusRunning st code reason = None"
  using assms TrimSpace_nonblank [OF assms(2)] by (auto simp: ValidateTaskCompletion_def is_space_def)

lemma success_valid: "ValidateTaskCompletion TaskStatusRunning TaskStatusSuccess code reason = None"
  by (simp add: ValidateTaskCompletion_def)

lemma reason_has_paren: "CHR ''('' \<in> set (status_and_code st code)"
  by (simp add: status_and_code_def)

lemma classifyFollowCompletionResult_status:
  "fst (classifyFollowCompletionResult outcome followErr verification verifyErr) = TaskStatusSuccess \<longleftrightarrow>
     verifyErr = None \<and> fvr_Verified verification \<and> followErr = None \<and> followOutcomeIsSuccess outcome"
  "fst (classifyFollowCompletionResult outcome followErr verification verifyErr) = TaskStatusSuccess \<or>
   fst (classifyFollowCompletionResult outcome followErr verification verifyErr) \<in> {TaskStatusFail, TaskStatusRetry} \<and>
     CHR ''('' \<in> set (snd (snd (classifyFollowCompletionResult outcome followErr verification verifyErr)))"
  using deterministic_status reason_has_paren
  by (auto simp: classifyFollowCompletionResult_def Let_def followOutcomeIsSuccess_def deterministicStatusForErrorCode_def
      split: option.splits follow_flow_outcome.splits)

lemma StrIndex_here:
  "HasPrefix v p \<Longrightarrow> \<forall>i < length u. \<not> HasPrefix (drop i (u @ v)) p \<Longrightarrow> StrIndex (u @ v) p = Some (length u)"
proof (induction u)
  case Nil
  then show ?case by (cases v) (auto simp: HasPrefix_def)
next
  case (Cons c u)
  have "\<not> HasPrefix (c # u @ v) p" using Cons.prems(2) by (auto dest: spec [of _ 0])
  moreover have "\<forall>i < length u. \<not> HasPrefix (drop i (u @ v)) p"
  proof (intro allI impI)
    fix i assume "i < length u"
    then show "\<not> HasPrefix (drop i (u @ v)) p" using Cons.prems(2) [rule_format, of "Suc i"] by simp
  qed
  ultimately show ?case using Cons.IH Cons.prems(1) by simp
qed

lemma StrIndex_bracket:
  assumes "\<not> Contains m p" "p \<noteq> ''''" "CHR '' '' \<notin> set p" "CHR ''('' \<notin> set p"
  shows "StrIndex (m @ '' ('' @ p @ r) p = Some (length m + 2)"
proof -
  have "\<not> HasPrefix (drop i ((m @ '' ('') @ p @ r)) p" if i: "i < length (m @ '' ('')" for i
  proof
    assume pre: "HasPrefix (drop i ((m @ '' ('') @ p @ r)) p"
    have "drop (i - length m) ('' ('' @ p @ r) = drop (i - length m) '' ('' @ p @ r"
      using i by (cases "i - length m") (auto simp: less_Suc_eq)
    then obtain t where t: "drop i m @ drop (i - length m) '' ('' @ p @ r = p @ t"
      using pre by (auto simp: HasPrefix_iff)
    obtain us where us0: "drop i m = p @ us \<or> drop i m @ us = p \<and> drop (i - length m) '' ('' @ p @ r = us @ t"
      using t unfolding append_eq_append_conv2 by blast
    show False
    proof (cases "drop i m = p @ us")
      case True
      then have "m = take i m @ p @ us" by (metis append_take_drop_id)
      then show False using assms(1) by (auto simp: Contains_iff)
    next
      case False
      then have us: "drop i m @ us = p" "drop (i - length m) '' ('' @ p @ r = us @ t" using us0 by simp_all
      show False
      proof (cases us)
        case Nil
        then have "m = take i m @ p @ ''''" using us(1) by (metis append_Nil2 append_take_drop_id)
        then show False using assms(1) unfolding Contains_iff by blast
      next
        case (Cons x xs)
        have "x \<in> {CHR '' '', CHR ''(''}"
          using i us(2) Cons by (cases "i - length m") (auto simp: less_Suc_eq)
        then show False using us(1) Cons assms(3,4) by auto
      qed
    qed
  qed
  then show ?thesis using StrIndex_here [of "p @ r" p "m @ '' (''"] by (simp add: HasPrefix_def)
qed

text \<open>The code in the message of a failed save is read back, whatever else the message says.\<close>

lemma sessionSaveSource_read:
  assumes "\<not> Contains (TrimSpace message) source_marker" "TrimSpace message \<noteq> ''''" "code \<in> set known_error_codes"
  shows "sessionSaveSourceErrorCode (newSessionSaveFailedError message code) = code"
proof -
  let ?m = "TrimSpace message" and ?c = "error_code_str code"
  note c = known_error_code_str [OF assms(3)]
  have trim_c: "TrimSpace ?c \<noteq> ''''" using c(1,2) by (auto simp: TrimSpace_eq_Nil list_all_iff neq_Nil_conv)
  define txt' where "txt' = ?m @ '' ('' @ source_marker @ ?c @ '')''"
  have msg: "newSessionSaveFailedError message code = NewDomainError ErrorCodeSessionSaveFailed txt'"
    using trim_c by (simp add: newSessionSaveFailedError_def source_marker_def txt'_def)
  have hd_m: "\<not> is_space (hd ?m)"
    using trim_both_ends [of is_space message] assms(2) by (simp add: TrimSpace_def)
  have "hd txt' = hd ?m" "last txt' = CHR '')''" using assms(2) by (simp_all add: txt'_def hd_append)
  then have trim_text: "TrimSpace txt' = txt'"
    unfolding TrimSpace_def [of txt'] by (intro trim_both_id) (use hd_m in \<open>simp add: is_space_def\<close>)
  have idx: "StrIndex txt' source_marker = Some (length ?m + 2)"
    unfolding txt'_def by (rule StrIndex_bracket [OF assms(1)]) (simp_all add: source_marker_def)
  have "\<not> is_space (hd (?c @ '')''))" using c(1,2) by (cases ?c) simp_all
  then have trim_v: "TrimSpace (?c @ '')'') = ?c @ '')''"
    unfolding TrimSpace_def by (intro trim_both_id) (simp add: is_space_def)
  have "takeWhile (\<lambda>x. \<not> code_stop x) (?c @ '')'') = ?c"
    using c(2) by (simp add: list_all_iff takeWhile_append2 code_stop_def)
  moreover have "TrimSpace ?c = ?c"
    unfolding TrimSpace_def by (rule trim_both_id) (use c(1,2) in \<open>auto simp: list_all_iff\<close>)
  moreover have "drop (length ?m + 2 + length source_marker) txt' = ?c @ '')''" by (simp add: txt'_def)
  ultimately show ?thesis using c(3)
    by (simp add: sessionSaveSourceErrorCode_def msg trim_text idx trim_v Let_def)
qed


section \<open>Theorems\<close>

text \<open>
  C37.  Whatever happened to a task, the completion the worker asks for is one a running task may take: every
  classifier gives a final status, and a retry or a failure with a reason.
\<close>

theorem worker_completions_valid:
  "(case classifyFollowCompletionResult outcome followErr verification verifyErr of
      (st, code, reason) \<Rightarrow> ValidateTaskCompletion TaskStatusRunning st code reason = None) \<and>
   (case classifyFinalizationError err of
      (st, code, reason) \<Rightarrow> ValidateTaskCompletion TaskStatusRunning st code reason = None) \<and>
   (case classifyLifecyclePreparationFailure err of
      (st, code, reason) \<Rightarrow> ValidateTaskCompletion TaskStatusRunning st code reason = None) \<and>
   (case classifyLifecycleExecutionFailure err of
      (st, code) \<Rightarrow> ValidateTaskCompletion TaskStatusRunning st code (execution_failure_reason what st code) = None)"
proof (intro conjI)
  show "case classifyFollowCompletionResult outcome followErr verification verifyErr of
      (st, code, reason) \<Rightarrow> ValidateTaskCompletion TaskStatusRunning st code reason = None"
    using classifyFollowCompletionResult_status(2) [of outcome followErr verification verifyErr]
    by (auto simp: success_valid intro: completion_valid split: prod.splits)
  show "case classifyFinalizationError err of
      (st, code, reason) \<Rightarrow> ValidateTaskCompletion TaskStatusRunning st code reason = None"
    using deterministic_status deterministic_save_status reason_has_paren
    by (auto simp: classifyFinalizationError_def Let_def intro!: completion_valid)
  show "case classifyLifecyclePreparationFailure err of
      (st, code, reason) \<Rightarrow> ValidateTaskCompletion TaskStatusRunning st code reason = None"
    using deterministic_status reason_has_paren
    by (auto simp: classifyLifecyclePreparationFailure_def Let_def intro!: completion_valid)
  show "case classifyLifecycleExecutionFailure err of
      (st, code) \<Rightarrow> ValidateTaskCompletion TaskStatusRunning st code (execution_failure_reason what st code) = None"
    using deterministic_status reason_has_paren
    by (auto simp: classifyLifecycleExecutionFailure_def execution_failure_reason_def Let_def intro!: completion_valid)
qed

text \<open>
  C24.  A task succeeds exactly when the follow was verified, nothing failed on the way and the flow says the
  follow was done or was there already; no classifier of a failure ever calls it a success.
\<close>

theorem success_iff_verified_follow:
  "(fst (classifyFollowCompletionResult outcome followErr verification verifyErr) = TaskStatusSuccess) =
     (verifyErr = None \<and> fvr_Verified verification \<and> followErr = None \<and>
      outcome \<in> {FollowFlowOutcomeCompleted, FollowFlowOutcomeAlreadyDone}) \<and>
   fst (classifyFinalizationError err) \<noteq> TaskStatusSuccess \<and>
   fst (classifyLifecyclePreparationFailure err) \<noteq> TaskStatusSuccess \<and>
   fst (classifyLifecycleExecutionFailure err) \<noteq> TaskStatusSuccess"
  using deterministic_status [of "lifecycleErrorCode err"]
    deterministic_save_status [of "sessionSaveSourceErrorCode err"]
  by (auto simp: classifyFollowCompletionResult_status(1) followOutcomeIsSuccess_def classifyFinalizationError_def
      classifyLifecyclePreparationFailure_def classifyLifecycleExecutionFailure_def Let_def)

text \<open>
  The error code of a failed session save travels in the text of its message and is read back from it,
  for every code of the service; the task is then retried or failed by that code.
\<close>

theorem session_save_source_roundtrip:
  assumes "code \<in> set known_error_codes" "TrimSpace message \<noteq> ''''" "\<not> Contains (TrimSpace message) source_marker"
  shows "sessionSaveSourceErrorCode (newSessionSaveFailedError message code) = code \<and>
    fst (classifyFinalizationError (newSessionSaveFailedError message code)) = deterministicStatusForErrorCode code \<and>
    fst (snd (classifyFinalizationError (newSessionSaveFailedError message code))) = ErrorCodeSessionSaveFailed"
proof -
  have "lifecycleErrorCode (newSessionSaveFailedError message code) = ErrorCodeSessionSaveFailed"
    by (simp add: newSessionSaveFailedError_def lifecycleErrorCode_def Let_def)
  then show ?thesis
    using sessionSaveSource_read [OF assms(3,2,1)] known_error_code_str(1) [OF assms(1)]
    by (simp add: classifyFinalizationError_def deterministicStatusForSessionSaveSource_def Let_def)
qed

lemma session_save_source_roundtrip_witness:
  "sessionSaveSourceErrorCode
     (newSessionSaveFailedError ''session payload persistence failed'' ErrorCodeSessionPayloadInvalid) =
   ErrorCodeSessionPayloadInvalid"
proof -
  have "ErrorCodeSessionPayloadInvalid \<in> set known_error_codes" "TrimSpace ''session payload persistence failed'' \<noteq> ''''"
    "\<not> Contains (TrimSpace ''session payload persistence failed'') source_marker" by code_simp+
  from session_save_source_roundtrip [OF this] show ?thesis by blast
qed

end
