(* ===== verification/Account_Guard.thy ===== *)
theory Account_Guard
  imports Session_Repository Worker_Policy
begin

text \<open>
  \<open>internal/worker/quota_service.go\<close> and \<open>account_guard.go\<close>: taking an account for an execution context,
  giving it back, and what an ineligible account is turned into.

  The interface \<open>repository.AccountRepository\<close> is a record of the methods used here; the locale
  \<open>account_locks\<close> states what the guard relies on, that a claim by one context succeeds only on an
  account no other context holds, and that nothing but claims and releases moves a hold.  It is
  interpreted on \<open>AccountPostgresRepository\<close>.  What is logged is left out.
\<close>

record 'w account_repo =
  ar_GetAccountWithProxy :: "go_context \<Rightarrow> uuid \<Rightarrow> 'w \<Rightarrow> (go_error + account_with_proxy) \<times> 'w"
  ar_UpdateAccountState :: "go_context \<Rightarrow> uuid \<Rightarrow> account_operational_state \<Rightarrow> bool \<Rightarrow> bool \<Rightarrow> bool \<Rightarrow> bool \<Rightarrow>
     'w \<Rightarrow> go_error option \<times> 'w"
  ar_CheckEligibility :: "go_context \<Rightarrow> uuid \<Rightarrow> 'w \<Rightarrow> (go_error + eligibility_decision) \<times> 'w"
  ar_ClaimAccount :: "go_context \<Rightarrow> uuid \<Rightarrow> string \<Rightarrow> 'w \<Rightarrow> (go_error + account) \<times> 'w"
  ar_ReleaseAccount :: "go_context \<Rightarrow> uuid \<Rightarrow> string \<Rightarrow> 'w \<Rightarrow> go_error option \<times> 'w"


section \<open>QuotaService\<close>

record 'w quota_service =
  quota_repository :: "'w account_repo"
  quota_guardrails :: runtime_guardrails

definition NewQuotaService :: "'w account_repo \<Rightarrow> runtime_guardrails \<Rightarrow> 'w quota_service" where
  "NewQuotaService repo guardrails = \<lparr>quota_repository = repo, quota_guardrails = Normalized guardrails\<rparr>"

definition currentAccount :: "'w quota_service \<Rightarrow> go_context \<Rightarrow> uuid \<Rightarrow> 'w \<Rightarrow> (go_error + account) \<times> 'w" where
  "currentAccount q ctx acc w =
     (case ar_GetAccountWithProxy (quota_repository q) ctx acc w of
        (Inl err, w1) \<Rightarrow> (Inl (with_stack err), w1)
      | (Inr a, w1) \<Rightarrow> (Inr (awp_Account a), w1))"

definition quota_actor :: actor where
  "quota_actor = \<lparr>actor_Type = ActorTypeInternalProcess, actor_ID = ''worker.quota_service''\<rparr>"

definition ApplyDecision ::
  "'w quota_service \<Rightarrow> go_context \<Rightarrow> uuid \<Rightarrow> eligibility_decision \<Rightarrow> 'w \<Rightarrow> go_error option \<times> 'w" where
  "ApplyDecision q ctx acc decision w =
     (if decision_Eligible decision then (None, w)
      else case decision_ReasonCode decision of
        ErrorCodeAccountLimitReached \<Rightarrow>
          if \<not> QuarantineOnLimitReached (quota_guardrails q) then (None, w)
          else (case currentAccount q ctx acc w of
            (Inl err, w1) \<Rightarrow> (Some (with_stack err), w1)
          | (Inr a, w1) \<Rightarrow>
              ar_UpdateAccountState (quota_repository q) (WithActor ctx quota_actor) acc AccountStateQuarantined
                (account_IsReady a) True (account_IsRestricted a) True w1)
      | ErrorCodeAccountRestricted \<Rightarrow>
          (case currentAccount q ctx acc w of
            (Inl err, w1) \<Rightarrow> (Some (with_stack err), w1)
          | (Inr a, w1) \<Rightarrow>
              if account_IsQuarantined a \<or> account_OperationalState a = AccountStateQuarantined then (None, w1)
              else ar_UpdateAccountState (quota_repository q) (WithActor ctx quota_actor) acc AccountStateRestricted
                (account_IsReady a) (account_IsQuarantined a) True (account_LimitReached a) w1)
      | _ \<Rightarrow> (None, w))"

definition EventName :: "'w quota_service \<Rightarrow> eligibility_decision \<Rightarrow> string" where
  "EventName q decision =
     (case decision_ReasonCode decision of
        ErrorCodeAccountLimitReached \<Rightarrow>
          if QuarantineOnLimitReached (quota_guardrails q) then ''account.quarantined'' else ''account.limit_reached''
      | ErrorCodeAccountRestricted \<Rightarrow> ''account.restricted''
      | _ \<Rightarrow> ''account.eligibility_rejected'')"


section \<open>AccountGuard\<close>

record 'w account_guard =
  guard_repository :: "'w account_repo"
  guard_quota :: "'w quota_service"

definition NewAccountGuard :: "'w account_repo \<Rightarrow> runtime_guardrails \<Rightarrow> 'w account_guard" where
  "NewAccountGuard repo guardrails =
     \<lparr>guard_repository = repo, guard_quota = NewQuotaService repo guardrails\<rparr>"

definition normalizeEligibilityDecision :: "eligibility_decision \<Rightarrow> eligibility_decision" where
  "normalizeEligibilityDecision decision =
     (if decision_Eligible decision then
        let d1 = (if eligibility_outcome_str (decision_Outcome decision) = ''''
                  then decision\<lparr>decision_Outcome := EligibilityOutcomeEligible\<rparr> else decision)
        in (if error_code_str (decision_ReasonCode d1) = ''''
            then d1\<lparr>decision_ReasonCode := ErrorCodeEligible\<rparr> else d1)
      else if eligibility_outcome_str (decision_Outcome decision) = ''''
           then decision\<lparr>decision_Outcome := EligibilityOutcomeExcluded\<rparr> else decision)"

definition not_eligible :: "eligibility_decision \<Rightarrow> go_error" where
  "not_eligible decision =
     NewDomainError (decision_ReasonCode decision)
       (''account eligibility outcome='' @ eligibility_outcome_str (decision_Outcome decision))"

text \<open>The part of \<open>Acquire\<close> behind the eligibility check.\<close>

definition acquire_claim ::
  "'w account_guard \<Rightarrow> go_context \<Rightarrow> uuid \<Rightarrow> string \<Rightarrow> 'w \<Rightarrow> (go_error + account_with_proxy) \<times> 'w" where
  "acquire_claim g ctx acc ectx w =
     (case ar_ClaimAccount (guard_repository g) ctx acc ectx w of
        (Inl err, w1) \<Rightarrow> (Inl (with_stack err), w1)
      | (Inr claimed, w1) \<Rightarrow>
        (case ar_GetAccountWithProxy (guard_repository g) ctx acc w1 of
           (Inr a, w2) \<Rightarrow> (Inr a, w2)
         | (Inl err, w2) \<Rightarrow>
           (case ar_ReleaseAccount (guard_repository g) ctx acc ectx w2 of
              (Some releaseErr, w3) \<Rightarrow>
                (Inl (JoinErr [with_stack err,
                               stackerr_Wrap (Some releaseErr) ''failed to release claimed account'']), w3)
            | (None, w3) \<Rightarrow> (Inl (with_stack err), w3))))"

definition Guard_Acquire ::
  "'w account_guard \<Rightarrow> go_context \<Rightarrow> uuid \<Rightarrow> string \<Rightarrow> 'w \<Rightarrow> (go_error + account_with_proxy) \<times> 'w" where
  "Guard_Acquire g ctx acc ectx w =
     (case ar_CheckEligibility (guard_repository g) ctx acc w of
        (Inl err, w1) \<Rightarrow> (Inl (with_stack err), w1)
      | (Inr decision0, w1) \<Rightarrow>
        let decision = normalizeEligibilityDecision decision0 in
        if \<not> decision_Eligible decision0 \<and> decision_ReasonCode decision \<noteq> ErrorCodeAccountBusy then
          (case ApplyDecision (guard_quota g) ctx acc decision w1 of
             (Some applyErr, w2) \<Rightarrow>
               (Inl (JoinErr [not_eligible decision, stackerr_Wrap (Some applyErr) ''apply quota decision'']), w2)
           | (None, w2) \<Rightarrow> (Inl (not_eligible decision), w2))
        else acquire_claim g ctx acc ectx w1)"

definition Guard_Release :: "'w account_guard \<Rightarrow> go_context \<Rightarrow> uuid \<Rightarrow> string \<Rightarrow> 'w \<Rightarrow> go_error option \<times> 'w" where
  "Guard_Release g ctx acc ectx w =
     (case ar_ReleaseAccount (guard_repository g) ctx acc ectx w of
        (Some err, w1) \<Rightarrow> (Some (with_stack err), w1)
      | (None, w1) \<Rightarrow> (None, w1))"

definition guard_actor :: actor where
  "guard_actor = \<lparr>actor_Type = ActorTypeInternalProcess, actor_ID = ''worker.account_guard''\<rparr>"

definition MarkQuarantined :: "'w account_guard \<Rightarrow> go_context \<Rightarrow> uuid \<Rightarrow> 'w \<Rightarrow> go_error option \<times> 'w" where
  "MarkQuarantined g ctx acc w =
     (case ar_UpdateAccountState (guard_repository g) (WithActor ctx guard_actor) acc AccountStateQuarantined
             False True False False w of
        (Some err, w1) \<Rightarrow> (Some (with_stack err), w1)
      | (None, w1) \<Rightarrow> (None, w1))"


section \<open>The interface of the account locks\<close>

text \<open>\<open>holder w acc\<close> is the execution context that holds the account, empty when it is free.\<close>

locale account_locks =
  fixes repo :: "'w account_repo"
    and holder :: "'w \<Rightarrow> uuid \<Rightarrow> string"
    and ok :: "'w \<Rightarrow> bool"
  assumes get_keeps: "ok w \<Longrightarrow> ar_GetAccountWithProxy repo ctx acc w = (g, w1) \<Longrightarrow> ok w1 \<and> holder w1 = holder w"
    and check_keeps: "ok w \<Longrightarrow> ar_CheckEligibility repo ctx acc w = (d, w1) \<Longrightarrow> ok w1 \<and> holder w1 = holder w"
    and update_keeps: "ok w \<Longrightarrow> ar_UpdateAccountState repo ctx acc st b1 b2 b3 b4 w = (e, w1) \<Longrightarrow>
      ok w1 \<and> holder w1 = holder w"
    and claim_Inr: "ok w \<Longrightarrow> ar_ClaimAccount repo ctx acc ectx w = (Inr a, w1) \<Longrightarrow>
      ok w1 \<and> holder w acc \<in> {'''', ectx} \<and> holder w1 = (holder w)(acc := ectx)"
    and claim_Inl: "ok w \<Longrightarrow> ar_ClaimAccount repo ctx acc ectx w = (Inl e', w1) \<Longrightarrow>
      ok w1 \<and> (holder w1 = holder w \<or> holder w acc \<in> {'''', ectx} \<and> holder w1 = (holder w)(acc := ectx))"
    and release_None: "ok w \<Longrightarrow> ar_ReleaseAccount repo ctx acc ectx w = (None, w1) \<Longrightarrow>
      ok w1 \<and> holder w acc = ectx \<and> holder w1 = (holder w)(acc := '''')"
    and release_Some: "ok w \<Longrightarrow> ar_ReleaseAccount repo ctx acc ectx w = (Some e'', w1) \<Longrightarrow>
      ok w1 \<and> (holder w1 = holder w \<or> holder w acc = ectx \<and> holder w1 = (holder w)(acc := ''''))"
begin

lemma ApplyDecision_keeps:
  assumes "ok w" "ApplyDecision (NewQuotaService repo g) ctx acc d w = (e, w1)"
  shows "ok w1 \<and> holder w1 = holder w"
proof -
  obtain a wa where cur: "currentAccount (NewQuotaService repo g) ctx acc w = (a, wa)"
    by (cases "currentAccount (NewQuotaService repo g) ctx acc w")
  have keep: "ok wa \<and> holder wa = holder w"
    using cur get_keeps [OF assms(1)]
    by (auto simp: currentAccount_def NewQuotaService_def split: prod.splits sum.splits)
  have "w1 = w \<or> w1 = wa \<or> (\<exists>ctx st b1 b2 b3 b4. ar_UpdateAccountState repo ctx acc st b1 b2 b3 b4 wa = (e, w1))"
    using assms(2) cur
    by (auto simp: ApplyDecision_def NewQuotaService_def split: if_splits error_code.splits sum.splits)
  then show ?thesis using keep assms(1) update_keeps [of wa] by auto
qed

text \<open>
  An account is acquired by a context only when no other context holds it, and then this context does; a
  failed attempt never takes an account from another context and touches no other account.
\<close>

lemma Acquire_effect:
  assumes "ok w" "Guard_Acquire (NewAccountGuard repo g) ctx acc ectx w = (r, w')"
  shows "ok w' \<and> (case r of
      Inr a \<Rightarrow> holder w acc \<in> {'''', ectx} \<and> holder w' = (holder w)(acc := ectx)
    | Inl e \<Rightarrow> holder w' = holder w \<or>
        holder w acc \<in> {'''', ectx} \<and> holder w' \<in> {(holder w)(acc := ectx), (holder w)(acc := '''')})"
proof -
  let ?G = "NewAccountGuard repo g"
  have repo: "guard_repository ?G = repo" "guard_quota ?G = NewQuotaService repo g" by (simp_all add: NewAccountGuard_def)
  obtain d w1 where c: "ar_CheckEligibility repo ctx acc w = (d, w1)" by (cases "ar_CheckEligibility repo ctx acc w")
  note C = check_keeps [OF assms(1) c]
  show ?thesis
  proof (cases "\<exists>d0. d = Inr d0 \<and> (decision_Eligible d0 \<or> decision_ReasonCode (normalizeEligibilityDecision d0) = ErrorCodeAccountBusy)")
    case False
    have "(\<exists>e. r = Inl e) \<and> (w' = w1 \<or> (\<exists>d e. ApplyDecision (NewQuotaService repo g) ctx acc d w1 = (e, w')))"
    proof (cases d)
      case (Inl e)
      then show ?thesis using assms(2) c by (auto simp: Guard_Acquire_def repo)
    next
      case (Inr d0)
      obtain e w2 where a: "ApplyDecision (NewQuotaService repo g) ctx acc (normalizeEligibilityDecision d0) w1 = (e, w2)"
        by (cases "ApplyDecision (NewQuotaService repo g) ctx acc (normalizeEligibilityDecision d0) w1")
      then have "w' = w2 \<and> (\<exists>e. r = Inl e)" using assms(2) c Inr False
        by (cases e) (auto simp: Guard_Acquire_def repo Let_def)
      then show ?thesis using a by blast
    qed
    then show ?thesis using C ApplyDecision_keeps [of w1] by auto
  next
    case True
    then have run: "acquire_claim ?G ctx acc ectx w1 = (r, w')" using assms(2) c
      by (auto simp: Guard_Acquire_def repo Let_def)
    obtain cl w2 where cl: "ar_ClaimAccount repo ctx acc ectx w1 = (cl, w2)" by (cases "ar_ClaimAccount repo ctx acc ectx w1")
    show ?thesis
    proof (cases cl)
      case (Inl e)
      then have "r = Inl (with_stack e)" "w' = w2" using run cl by (auto simp: acquire_claim_def repo)
      then show ?thesis using claim_Inl [of w1 ctx acc ectx e w2] cl Inl C by auto
    next
      case (Inr a)
      have held: "ok w2" "holder w acc \<in> {'''', ectx}" "holder w2 = (holder w)(acc := ectx)"
        using claim_Inr [of w1 ctx acc ectx a w2] cl Inr C by auto
      obtain gt w3 where gt: "ar_GetAccountWithProxy repo ctx acc w2 = (gt, w3)" by (cases "ar_GetAccountWithProxy repo ctx acc w2")
      note G = get_keeps [OF held(1) gt]
      show ?thesis
      proof (cases gt)
        case (Inr a')
        then have "r = Inr a'" "w' = w3" using run cl \<open>cl = Inr a\<close> gt by (auto simp: acquire_claim_def repo)
        then show ?thesis using G held by simp
      next
        case (Inl e)
        obtain re w4 where re: "ar_ReleaseAccount repo ctx acc ectx w3 = (re, w4)" by (cases "ar_ReleaseAccount repo ctx acc ectx w3")
        have "w' = w4 \<and> (\<exists>e. r = Inl e)" using run cl \<open>cl = Inr a\<close> gt Inl re
          by (cases re) (auto simp: acquire_claim_def repo)
        moreover have "ok w4 \<and> (holder w4 = holder w3 \<or> holder w4 = (holder w3)(acc := ''''))"
          using release_None [of w3 ctx acc ectx w4] release_Some [of w3 ctx acc ectx _ w4] re G by (cases re) auto
        ultimately show ?thesis using G held by auto
      qed
    qed
  qed
qed

lemma Release_effect:
  assumes "ok w" "Guard_Release (NewAccountGuard repo g) ctx acc ectx w = (err, w')"
  shows "ok w' \<and> (holder w' = holder w \<and> err \<noteq> None \<or> holder w acc = ectx \<and> holder w' = (holder w)(acc := ''''))"
proof -
  obtain re w1 where re: "ar_ReleaseAccount repo ctx acc ectx w = (re, w1)" by (cases "ar_ReleaseAccount repo ctx acc ectx w")
  then have "w' = w1 \<and> (err = None \<longleftrightarrow> re = None)" using assms(2)
    by (cases re) (auto simp: Guard_Release_def NewAccountGuard_def)
  then show ?thesis using release_None [OF assms(1), of ctx acc ectx w1] release_Some [OF assms(1), of ctx acc ectx _ w1] re
    by (cases re) auto
qed

end


section \<open>The locks of the database\<close>

definition account_table :: "'x account_repository \<Rightarrow> 'x db_scheme account_repo" where
  "account_table repo =
     \<lparr>ar_GetAccountWithProxy = GetAccountWithProxy, ar_UpdateAccountState = UpdateAccountState repo,
      ar_CheckEligibility = CheckEligibility repo, ar_ClaimAccount = ClaimAccount repo,
      ar_ReleaseAccount = ReleaseAccount repo\<rparr>"

lemma account_table_simps [simp]:
  "ar_GetAccountWithProxy (account_table repo) = GetAccountWithProxy"
  "ar_UpdateAccountState (account_table repo) = UpdateAccountState repo"
  "ar_CheckEligibility (account_table repo) = CheckEligibility repo"
  "ar_ClaimAccount (account_table repo) = ClaimAccount repo"
  "ar_ReleaseAccount (account_table repo) = ReleaseAccount repo"
  by (simp_all add: account_table_def)

definition account_holder :: "'x db_scheme \<Rightarrow> uuid \<Rightarrow> string" where
  "account_holder s acc =
     (case find (\<lambda>r. arow_id r = acc) (db_accounts s) of
        None \<Rightarrow> '''' | Some r \<Rightarrow> account_ActiveExecutionContextID (account_of_row r))"

lemma account_holder_accounts: "db_accounts s' = db_accounts s \<Longrightarrow> account_holder s' = account_holder s"
  by (simp add: account_holder_def [abs_def])

lemma account_holder_put:
  assumes "q \<in> set (db_accounts s)" "arow_id q = acc" "arow_id q' = acc"
    "db_accounts s' = put_account q' (db_accounts s)"
  shows "account_holder s' = (account_holder s)(acc := account_ActiveExecutionContextID (account_of_row q'))"
proof
  fix a
  have mem: "arow_id q' \<in> set (map arow_id (db_accounts s))" using assms(1-3) by auto
  have "find (\<lambda>r. arow_id r = a) (put_account q' (db_accounts s)) =
      (if a = arow_id q' then (if a \<in> set (map arow_id (db_accounts s)) then Some q' else None)
       else find (\<lambda>r. arow_id r = a) (db_accounts s))"
    unfolding put_account_def by (rule find_key_put)
  also have "\<dots> = (if a = acc then Some q' else find (\<lambda>r. arow_id r = a) (db_accounts s))"
    using mem assms(3) by (simp only: if_True cong: if_cong)
  finally show "account_holder s' a = ((account_holder s)(acc := account_ActiveExecutionContextID (account_of_row q'))) a"
    by (simp add: account_holder_def assms(4))
qed

lemma account_holder_row:
  "db_ok s \<Longrightarrow> q \<in> set (db_accounts s) \<Longrightarrow> arow_id q = acc \<Longrightarrow>
   account_holder s acc = account_ActiveExecutionContextID (account_of_row q)"
  by (simp add: account_holder_def update_account_find)

lemma in_tx_account_safe:
  assumes "in_tx (update_account_stmt :: 'x db_scheme \<Rightarrow> _) s = (r, s')"
    "\<And>t r' t'. update_account_stmt t = Inr (r', t') \<Longrightarrow> account_safe t t'"
  shows "account_safe s s'"
proof -
  obtain f s1 where pf: "pop_fault s = (f, s1)" by (cases "pop_fault s")
  note same = account_safe_same [OF same_tables_pop_fault [OF pf]]
  show ?thesis using assms(1) pf same account_safe_trans [OF same] assms(2) [of s1]
    by (cases f; cases "update_account_stmt s1") (auto simp: in_tx_def)
qed

lemma account_row_updates_keep:
  "arow_id (claim_account_row ectx now r) = arow_id r" "arow_id (busy_account_row now r) = arow_id r"
  "arow_id (release_account_row now r) = arow_id r" "arow_id (state_account_row st b1 b2 b3 b4 now r) = arow_id r"
  "arow_username (claim_account_row ectx now r) = arow_username r" "arow_username (busy_account_row now r) = arow_username r"
  "arow_username (release_account_row now r) = arow_username r" "arow_username (state_account_row st b1 b2 b3 b4 now r) = arow_username r"
  "arow_proxy_id (claim_account_row ectx now r) = arow_proxy_id r" "arow_proxy_id (busy_account_row now r) = arow_proxy_id r"
  "arow_proxy_id (release_account_row now r) = arow_proxy_id r" "arow_proxy_id (state_account_row st b1 b2 b3 b4 now r) = arow_proxy_id r"
  by (simp_all add: account_row_updates)

lemma claim_account_body_safe:
  assumes "claim_account_body repo acc ectx s = (Inr x, s')"
  shows "account_safe s s'"
proof -
  obtain sel s1 where sel: "scan_optional_proxy (in_tx (select_account acc) s) = (sel, s1)"
    by (cases "scan_optional_proxy (in_tx (select_account acc) s)")
  obtain a where a: "sel = Inr a" using assms sel by (auto simp: claim_account_body_def split: sum.splits if_splits)
  have "account_safe s s1"
    using in_tx_Inr [OF scan_optional_proxy_Inr [OF sel [unfolded a]]] select_account_Inr account_safe_same by metis
  moreover have "s' = s1 \<or> (\<exists>upd r. in_tx (\<lambda>s. update_account (\<lambda>r. arow_id r = acc) (upd (db_now s)) s) s1 = (r, s') \<and>
      upd \<in> {busy_account_row, claim_account_row ectx})"
    using assms sel a by (auto simp: claim_account_body_def Let_def scanAccount_def split: sum.splits if_splits
        option.splits prod.splits)
  moreover have "account_safe s1 s'" if "in_tx (\<lambda>s. update_account (\<lambda>r. arow_id r = acc) (upd (db_now s)) s) s1 = (r, s')"
    "upd \<in> {busy_account_row, claim_account_row ectx}" for upd r
  proof (rule in_tx_account_safe [OF that(1)])
    fix t r' t' assume t: "update_account (\<lambda>r. arow_id r = acc) (upd (db_now t)) t = Inr (r', t')"
    show "account_safe t t'"
      by (rule update_account_safe [OF t]) (use that(2) in \<open>auto simp: account_row_updates_keep\<close>)
  qed
  ultimately show ?thesis using account_safe_trans by blast
qed

lemma ClaimAccount_safe:
  assumes "audit_wired (arepo_auditLog repo)" "ClaimAccount repo ctx acc ectx s = (r, s')"
  shows "account_safe s s'"
proof (cases "ectx = ''''")
  case False
  obtain rt s3 where tx: "transaction with_stack (\<lambda>x. with_stack) (claim_account_body repo acc ectx) s = (rt, s3)"
    by (cases "transaction with_stack (\<lambda>x. with_stack) (claim_account_body repo acc ectx) s")
  have "account_safe s s3" by (rule transaction_relation [OF account_safe_relation claim_account_body_safe tx])
  moreover have "s' = s3 \<or> (\<exists>st. s' = recordLifecycleAuditClaim repo ctx acc ectx st s3)"
    using assms(2) tx False by (auto simp: ClaimAccount_def split: sum.splits if_splits)
  ultimately show ?thesis using account_audit_safe(1) [OF assms(1)] account_safe_trans by blast
qed (use assms in \<open>simp add: ClaimAccount_def\<close>)

lemma select_account_same: "autocommit (select_account acc) s = (r, s') \<Longrightarrow> same_tables s s'"
  by (erule autocommit_cases) (auto dest: select_account_Inr)

lemma account_reads_same:
  assumes "GetAccountWithProxy ctx acc s = (r, s') \<or> CheckEligibility repo ctx acc s = (d, s')"
  shows "same_tables s s'"
proof -
  obtain res s1 where ac: "autocommit (select_account acc) s = (res, s1)" by (cases "autocommit (select_account acc) s")
  have "s' = s1" using assms ac
    by (cases res) (auto simp: GetAccountWithProxy_def CheckEligibility_def scan_optional_proxy_def split: if_splits)
  then show ?thesis using select_account_same [OF ac] by simp
qed

text \<open>What an update of one row does to the hold, the driver failing or not.\<close>

lemma autocommit_account_row:
  fixes s :: "'x db_scheme"
  assumes ok: "db_ok s" and keep: "\<And>now r. arow_id (upd now r) = arow_id r \<and> arow_username (upd now r) = arow_username r \<and>
        arow_proxy_id (upd now r) = arow_proxy_id r"
    and run: "autocommit (\<lambda>s. update_account (\<lambda>r. arow_id r = acc \<and> P r) (upd (db_now s)) s) s = (res, s')"
  shows "account_safe s s' \<and>
    (account_holder s' = account_holder s \<and> (\<exists>e. res = Inl e) \<or>
     (\<exists>q \<in> set (db_accounts s). arow_id q = acc \<and> P q \<and> (\<forall>x. res = Inr x \<longrightarrow> x = upd (db_now s) q) \<and>
        account_holder s' = (account_holder s)(acc := account_ActiveExecutionContextID (account_of_row (upd (db_now s) q)))))"
  using run
proof (cases rule: autocommit_cases)
  case (rejected e s1)
  then have "account_holder s' = account_holder s" by (intro account_holder_accounts) (simp add: same_tables_def)
  then show ?thesis using rejected account_safe_same by blast
next
  case (ran x s1 s2)
  have same: "db_accounts s1 = db_accounts s" "db_now s1 = db_now s" using ran(1) by (simp_all add: same_tables_def)
  from ran(2) obtain q where q: "q \<in> set (db_accounts s1)" "arow_id q = acc \<and> P q" "x = upd (db_now s1) q"
    "s2 = s1\<lparr>db_accounts := put_account x (db_accounts s1)\<rparr>" by (rule update_account_Inr)
  have "account_safe s s2"
    using update_account_safe [OF ran(2)] keep account_safe_trans [OF account_safe_same [OF ran(1)]] by blast
  moreover have "account_holder s2 = (account_holder s)(acc := account_ActiveExecutionContextID (account_of_row x))"
    by (rule account_holder_put [of q]) (use q same keep in auto)
  ultimately show ?thesis using ran q same by auto
qed

lemma holder_audit:
  assumes "audit_wired (arepo_auditLog repo)"
  shows "account_holder (audit_best_effort (arepo_auditLog repo) ctx ev s) = account_holder s"
  using audit_best_effort_core [OF assms] by (intro account_holder_accounts) (simp add: same_core_def)

lemma ReleaseAccount_cases:
  assumes ok: "db_ok s" and wired: "audit_wired (arepo_auditLog repo)" and run: "ReleaseAccount repo ctx acc ectx s = (err, s')"
  shows "account_safe s s' \<and>
    (account_holder s' = account_holder s \<and> err \<noteq> None \<or>
     account_holder s acc = ectx \<and> account_holder s' = (account_holder s)(acc := ''''))"
proof -
  let ?st = "\<lambda>s. update_account (\<lambda>r. arow_id r = acc \<and> arow_active_execution_context_id r = Some ectx)
             (release_account_row (db_now s)) s"
  obtain res s1 where ac: "autocommit ?st s = (res, s1)" by (cases "autocommit ?st s")
  have one: "account_safe s s1 \<and> (account_holder s1 = account_holder s \<and> (\<exists>e. res = Inl e) \<or>
      account_holder s acc = ectx \<and> account_holder s1 = (account_holder s)(acc := ''''))"
    using autocommit_account_row [OF ok _ ac] account_row_updates_keep account_holder_row [OF ok]
    by (auto simp: release_account_row_def account_of_row_def)
  show ?thesis
  proof (cases res)
    case (Inl e)
    then show ?thesis using one run ac by (auto simp: ReleaseAccount_def split: if_splits)
  next
    case (Inr r)
    then have "err = None" "s' = recordLifecycleAuditRelease repo ctx acc ectx (arow_operational_state r) s1"
      using run ac by (auto simp: ReleaseAccount_def)
    then show ?thesis using one Inr account_audit_safe(2) [OF wired] account_safe_trans
        holder_audit [OF wired] by (auto simp: recordLifecycleAuditRelease_def recordLifecycleAudit_def) blast+
  qed
qed

lemma UpdateAccountState_cases:
  assumes ok: "db_ok s" and wired: "audit_wired (arepo_auditLog repo)"
    and run: "UpdateAccountState repo ctx acc st b1 b2 b3 b4 s = (err, s')"
  shows "account_safe s s' \<and> account_holder s' = account_holder s"
proof -
  let ?upd = "state_account_row st b1 b2 b3 b4"
  let ?st = "\<lambda>s1. case update_account (\<lambda>r. arow_id r = acc) (?upd (db_now s1)) s1 of
             Inl e \<Rightarrow> if e = NoRows then Inr (False, s1) else Inl e
           | Inr (r, s2) \<Rightarrow> Inr (True, s2)"
  obtain res s1 where ac: "autocommit ?st s = (res, s1)" by (cases "autocommit ?st s")
  have "account_safe s s1 \<and> account_holder s1 = account_holder s" using ac
  proof (cases rule: autocommit_cases)
    case (rejected e t)
    then show ?thesis using account_safe_same account_holder_accounts [of t s] by (simp add: same_tables_def)
  next
    case (ran x t t')
    show ?thesis
    proof (cases "update_account (\<lambda>r. arow_id r = acc) (?upd (db_now t)) t")
      case (Inl e)
      then have "t' = t" using ran(2) by (auto split: if_splits)
      then show ?thesis using ran(1,3) account_safe_same account_holder_accounts [of t s] by (simp add: same_tables_def)
    next
      case (Inr y)
      then obtain r where r: "update_account (\<lambda>r. arow_id r = acc) (?upd (db_now t)) t = Inr (r, t')"
        using ran(2) by (cases y) auto
      have okt: "db_ok t" using ok db_ok_same_tables [OF ran(1)] by simp
      have ht: "account_holder t = account_holder s" using ran(1) by (intro account_holder_accounts) (simp add: same_tables_def)
      from r obtain q where q: "q \<in> set (db_accounts t)" "arow_id q = acc" "r = ?upd (db_now t) q"
        "t' = t\<lparr>db_accounts := put_account r (db_accounts t)\<rparr>" by (rule update_account_Inr)
      have "account_holder t' = (account_holder t)(acc := account_ActiveExecutionContextID (account_of_row r))"
        by (rule account_holder_put [of q]) (use q account_row_updates_keep in auto)
      also have "\<dots> = account_holder t"
        using account_holder_row [OF okt q(1,2)] by (auto simp: q(3) state_account_row_def account_of_row_def)
      finally show ?thesis
        using update_account_safe [OF r] account_row_updates_keep account_safe_trans [OF account_safe_same [OF ran(1)]]
          ran(3) ht by simp
    qed
  qed
  moreover have "s' = s \<or> s' = s1 \<or> (\<exists>ev. s' = audit_best_effort (arepo_auditLog repo) ctx ev s1)"
    using run ac by (auto simp: UpdateAccountState_def split: if_splits sum.splits)
  ultimately show ?thesis
    using audit_best_effort_account [OF wired] holder_audit [OF wired] account_safe_trans account_safe_refl by metis
qed

lemma ClaimAccount_holder:
  assumes ok: "db_ok s" and wired: "audit_wired (arepo_auditLog repo)" and run: "ClaimAccount repo ctx acc ectx s = (r, s')"
  shows "(\<exists>e. r = Inl e) \<and> account_holder s' = account_holder s \<or>
    account_holder s acc \<in> {'''', ectx} \<and> account_holder s' = (account_holder s)(acc := ectx)"
proof -
  have claimed: "account_holder s acc \<in> {'''', ectx} \<and> account_holder s' = (account_holder s)(acc := ectx)"
    if c: "account_claimed repo acc ectx s s' a" for a
  proof -
    from c obtain q where q: "q \<in> set (db_accounts s)" "arow_id q = acc"
      "arow_active_execution_context_id q = Some ectx \<or>
       account_suitable (Normalized (arepo_guardrails repo)) (account_of_row q) (proxy_of s q)"
      "db_accounts s' = put_account (claimed_row ectx (db_now s) q) (db_accounts s)"
      by (auto simp: account_claimed_def)
    have "account_holder s' = (account_holder s)(acc :=
        account_ActiveExecutionContextID (account_of_row (claimed_row ectx (db_now s) q)))"
      by (rule account_holder_put [OF q(1,2) _ q(4)]) (use q(2) in \<open>simp add: claimed_row_def account_row_updates_keep\<close>)
    moreover have "account_ActiveExecutionContextID (account_of_row (claimed_row ectx (db_now s) q)) = ectx"
      by (simp add: claimed_row_def account_row_updates account_of_row_def)
    moreover have "account_holder s acc \<in> {'''', ectx}"
      using q(3) account_holder_row [OF ok q(1,2)] by (auto simp: account_suitable_def account_of_row_def)
    ultimately show ?thesis by simp
  qed
  show ?thesis using ClaimAccount_cases [OF ok wired run] claimed account_holder_accounts [of s' s]
    by (cases r) (auto simp: same_tables_def)
qed

lemma account_locks_of_table:
  assumes "audit_wired (arepo_auditLog repo)"
  shows "account_locks (account_table repo) account_holder db_ok"
proof
  fix ctx acc ectx st b1 b2 b3 b4 g d e and w w1 :: "'a db_scheme" and a e' e''
  assume ok: "db_ok w"
  have safe: "account_safe w w1 \<Longrightarrow> db_ok w1" using ok by (simp add: account_safe_def)
  have same: "same_tables w w1 \<Longrightarrow> db_ok w1 \<and> account_holder w1 = account_holder w"
    using ok db_ok_same_tables [of w w1] account_holder_accounts [of w1 w] by (simp add: same_tables_def)
  show "ar_GetAccountWithProxy (account_table repo) ctx acc w = (g, w1) \<Longrightarrow> db_ok w1 \<and> account_holder w1 = account_holder w"
    using account_reads_same [of ctx acc w g w1] same by simp
  show "ar_CheckEligibility (account_table repo) ctx acc w = (d, w1) \<Longrightarrow> db_ok w1 \<and> account_holder w1 = account_holder w"
    using account_reads_same [of ctx acc w _ w1 repo d] same by simp
  show "ar_UpdateAccountState (account_table repo) ctx acc st b1 b2 b3 b4 w = (e, w1) \<Longrightarrow>
      db_ok w1 \<and> account_holder w1 = account_holder w"
    using UpdateAccountState_cases [OF ok assms] safe by simp
  show "ar_ClaimAccount (account_table repo) ctx acc ectx w = (Inr a, w1) \<Longrightarrow>
      db_ok w1 \<and> account_holder w acc \<in> {'''', ectx} \<and> account_holder w1 = (account_holder w)(acc := ectx)"
    using ClaimAccount_holder [OF ok assms, of ctx acc ectx "Inr a" w1] ClaimAccount_safe [OF assms] safe by simp
  show "ar_ClaimAccount (account_table repo) ctx acc ectx w = (Inl e', w1) \<Longrightarrow>
      db_ok w1 \<and> (account_holder w1 = account_holder w \<or>
        account_holder w acc \<in> {'''', ectx} \<and> account_holder w1 = (account_holder w)(acc := ectx))"
    using ClaimAccount_holder [OF ok assms, of ctx acc ectx "Inl e'" w1] ClaimAccount_safe [OF assms] safe by auto
  show "ar_ReleaseAccount (account_table repo) ctx acc ectx w = (None, w1) \<Longrightarrow>
      db_ok w1 \<and> account_holder w acc = ectx \<and> account_holder w1 = (account_holder w)(acc := '''')"
    using ReleaseAccount_cases [OF ok assms, of ctx acc ectx None w1] safe by auto
  show "ar_ReleaseAccount (account_table repo) ctx acc ectx w = (Some e'', w1) \<Longrightarrow>
      db_ok w1 \<and> (account_holder w1 = account_holder w \<or>
        account_holder w acc = ectx \<and> account_holder w1 = (account_holder w)(acc := ''''))"
    using ReleaseAccount_cases [OF ok assms, of ctx acc ectx "Some e''" w1] safe by auto
qed

interpretation pg_accounts: account_locks "account_table (NewAccountRepository guardrails (Some pg_audit_log))"
    account_holder db_ok
  for guardrails :: runtime_guardrails
  by (rule account_locks_of_table) (simp add: NewAccountRepository_def audit_wired_def)



section \<open>Theorems\<close>

definition pg_guard :: "runtime_guardrails \<Rightarrow> 'x db_scheme account_guard" where
  "pg_guard guardrails = NewAccountGuard (account_table (NewAccountRepository guardrails (Some pg_audit_log))) guardrails"

text \<open>
  C27.  An account is acquired for an execution context only when it is free or already held by this context,
  and then this context holds it.  Whatever fails, no other account is touched, an account another
  context holds stays with it, and the tables stay consistent.
\<close>

theorem guard_acquire_exclusive:
  assumes "db_ok s" "Guard_Acquire (pg_guard guardrails) ctx acc ectx s = (r, s')"
  shows "db_ok s' \<and> (\<forall>a. a \<noteq> acc \<longrightarrow> account_holder s' a = account_holder s a) \<and>
    (account_holder s acc \<notin> {'''', ectx} \<longrightarrow> account_holder s' acc = account_holder s acc) \<and>
    (\<forall>a. r = Inr a \<longrightarrow> account_holder s acc \<in> {'''', ectx} \<and> account_holder s' acc = ectx)"
  using pg_accounts.Acquire_effect [OF assms(1) assms(2) [unfolded pg_guard_def]] by (cases r) auto

lemma guard_acquire_exclusive_witness:
  "account_holder (snd (Guard_Acquire (pg_guard DefaultRuntimeGuardrails) Background ''a2'' ''w2'' sample_held)) ''a2'' = ''w1''"
proof -
  have "account_holder sample_held ''a2'' = ''w1''" by code_simp
  then show ?thesis
    using guard_acquire_exclusive [OF sample_held_ok prod.collapse [symmetric], where guardrails = DefaultRuntimeGuardrails
        and ctx = Background and acc = "''a2''" and ectx = "''w2''"] by simp
qed

lemma active_contexts_map: "active_contexts xs = List.map_filter id (map arow_active_execution_context_id xs)"
  by (simp add: active_contexts_def List.map_filter_def o_def filter_map comp_def)

lemma UpdateAccountState_stored:
  assumes ok: "db_ok s" "db_faults s = []" "audit_wired (arepo_auditLog repo)" and q: "q \<in> set (db_accounts s)" "arow_id q = acc"
    and st: "AccountState_IsValid st"
  shows "\<exists>s'. UpdateAccountState repo ctx acc st b1 b2 b3 b4 s = (None, s') \<and>
    db_accounts s' = put_account (state_account_row st b1 b2 b3 b4 (db_now s) q) (db_accounts s) \<and> db_proxies s' = db_proxies s"
proof -
  let ?q = "state_account_row st b1 b2 b3 b4 (db_now s) q"
  have dist: "distinct (map arow_id (db_accounts s))" "distinct (active_contexts (db_accounts s))" and row: "account_row_ok q"
    using ok(1) q(1) by (auto simp: db_ok_def accounts_ok_def list_all_iff)
  have "map arow_active_execution_context_id (put_account ?q (db_accounts s)) = map arow_active_execution_context_id (db_accounts s)"
    by (rule map_put_account) (use distinct_account_eq [OF dist(1) _ q(1)] account_row_updates_keep in \<open>auto simp: state_account_row_def\<close>)
  then have "distinct (active_contexts (put_account ?q (db_accounts s)))" using dist(2) by (simp add: active_contexts_map)
  moreover have "account_row_ok ?q" using row st by (simp add: account_row_ok_def state_account_row_def)
  ultimately have up: "update_account (\<lambda>r. arow_id r = acc) (state_account_row st b1 b2 b3 b4 (db_now s)) s =
      Inr (?q, s\<lparr>db_accounts := put_account ?q (db_accounts s)\<rparr>)"
    using update_account_find [OF ok(1) q] by (simp add: update_account_def)
  obtain ev where "UpdateAccountState repo ctx acc st b1 b2 b3 b4 s =
      (None, audit_best_effort (arepo_auditLog repo) ctx ev (s\<lparr>db_accounts := put_account ?q (db_accounts s)\<rparr>))"
    using st ok(2) up by (auto simp: UpdateAccountState_def autocommit_def)
  moreover have "same_core (s\<lparr>db_accounts := put_account ?q (db_accounts s)\<rparr>)
      (audit_best_effort (arepo_auditLog repo) ctx ev (s\<lparr>db_accounts := put_account ?q (db_accounts s)\<rparr>))"
    by (rule audit_best_effort_core [OF ok(3)])
  ultimately show ?thesis by (auto simp: same_core_def)
qed

text \<open>
  A worker that meets an account that has reached its limit, under guardrails that quarantine it, puts
  it into quarantine and gets the limit as its error; nobody's hold changes, and from then on the
  account is not eligible because it is quarantined.
\<close>

theorem limit_reached_quarantines:
  assumes "db_ok s" "db_faults s = []" "q \<in> set (db_accounts s)" "arow_id q = acc"
    "decision_ReasonCode (EvaluateAccountEligibilityWithGuardrails (account_of_row q) (proxy_of s q) guardrails) =
       ErrorCodeAccountLimitReached"
    "QuarantineOnLimitReached (Normalized guardrails)"
    "Guard_Acquire (pg_guard guardrails) ctx acc ectx s = (r, s')"
  shows "(\<exists>e. r = Inl e \<and> IsDomainErrorCode (Some e) ErrorCodeAccountLimitReached) \<and>
    (\<exists>q' \<in> set (db_accounts s'). arow_id q' = acc \<and> arow_is_quarantined q' \<and>
       arow_operational_state q' = AccountStateQuarantined \<and>
       arow_active_execution_context_id q' = arow_active_execution_context_id q \<and>
       decision_ReasonCode (EvaluateAccountEligibilityWithGuardrails (account_of_row q') (proxy_of s' q') guardrails) =
         ErrorCodeAccountQuarantined)"
proof -
  let ?repo = "NewAccountRepository guardrails (Some pg_audit_log) :: 'a account_repository"
  let ?d = "EvaluateAccountEligibilityWithGuardrails (account_of_row q) (proxy_of s q) (Normalized guardrails)"
  have same: "EvaluateAccountEligibilityWithGuardrails a p (Normalized guardrails) =
      EvaluateAccountEligibilityWithGuardrails a p guardrails" for a p
    by (simp add: EvaluateAccountEligibilityWithGuardrails_def Normalized_idem)
  have code: "decision_ReasonCode ?d = ErrorCodeAccountLimitReached" using assms(5) by (simp add: same)
  have wired: "audit_wired (arepo_auditLog ?repo)" by (simp add: NewAccountRepository_def audit_wired_def)
  have inel: "\<not> decision_Eligible ?d"
    using code EvaluateAccountEligibility_reason(1) [of "account_of_row q" "proxy_of s q" "Normalized guardrails"] by simp
  note sel = select_account_Some [OF assms(1,3,4)]
  have check: "CheckEligibility ?repo ctx acc s = (Inr ?d, s)"
    using sel assms(2) by (simp add: CheckEligibility_def autocommit_def scan_optional_proxy_def NewAccountRepository_def)
  have norm: "normalizeEligibilityDecision ?d = ?d"
    using inel by (auto simp: normalizeEligibilityDecision_def EvaluateAccountEligibilityWithGuardrails_def Let_def)
  have get: "GetAccountWithProxy ctx acc s =
      (Inr (toAccountWithProxy \<lparr>awop_Account = account_of_row q, awop_Proxy = proxy_of s q\<rparr>), s)"
    using sel assms(2) by (simp add: GetAccountWithProxy_def autocommit_def scan_optional_proxy_def)
  let ?q = "state_account_row AccountStateQuarantined (arow_is_ready q) True (arow_is_restricted q) True (db_now s) q"
  obtain s1 where up: "UpdateAccountState ?repo (WithActor ctx quota_actor) acc AccountStateQuarantined (arow_is_ready q) True
        (arow_is_restricted q) True s = (None, s1)"
      "db_accounts s1 = put_account ?q (db_accounts s)" "db_proxies s1 = db_proxies s"
    using UpdateAccountState_stored [OF assms(1,2) wired assms(3,4)] by force
  have cur: "currentAccount (NewQuotaService (account_table ?repo) guardrails) ctx acc s = (Inr (account_of_row q), s)"
    using get by (simp add: currentAccount_def NewQuotaService_def toAccountWithProxy_def)
  have app: "ApplyDecision (NewQuotaService (account_table ?repo) guardrails) ctx acc ?d s = (None, s1)"
    using inel code assms(6) cur up(1)
    by (simp add: ApplyDecision_def NewQuotaService_def account_of_row_def)
  have "Guard_Acquire (pg_guard guardrails) ctx acc ectx s = (Inl (not_eligible ?d), s1)"
    using check inel norm code app by (simp add: Guard_Acquire_def pg_guard_def NewAccountGuard_def)
  then have r: "r = Inl (not_eligible ?d)" "s' = s1" using assms(7) by simp_all
  have mem: "?q \<in> set (db_accounts s1)"
    using assms(3,4) by (auto simp: up(2) put_account_def account_row_updates_keep)
  have prox: "proxy_of s1 ?q = proxy_of s q"
    using proxy_of_same [OF up(3), of ?q] by (simp add: proxy_of_def state_account_row_def)
  have "decision_ReasonCode (EvaluateAccountEligibilityWithGuardrails (account_of_row ?q) (proxy_of s q) guardrails) =
      ErrorCodeAccountQuarantined"
    using assms(5) by (auto simp: EvaluateAccountEligibilityWithGuardrails_def Let_def state_account_row_def account_of_row_def
        Account_Limits_def split: if_splits)
  then show ?thesis using r mem prox code assms(4)
    by (auto simp: not_eligible_def state_account_row_def intro!: bexI [of _ ?q])
qed

definition sample_limit :: account_row where
  "sample_limit = sample_account\<lparr>arow_limit_reached := True\<rparr>"

lemma limit_reached_quarantines_witness:
  "\<exists>q' \<in> set (db_accounts (snd (Guard_Acquire (pg_guard DefaultRuntimeGuardrails) Background ''a1'' ''w1''
      ((sample_db [])\<lparr>db_accounts := [sample_limit]\<rparr>)))). arow_id q' = ''a1'' \<and> arow_is_quarantined q'"
proof -
  let ?s = "(sample_db [])\<lparr>db_accounts := [sample_limit]\<rparr>"
  have "account_row_ok sample_limit" by code_simp
  then have "db_ok ?s"
    by (simp add: db_ok_def sample_db_def tasks_ok_def accounts_ok_def sessions_ok_def results_ok_def
        active_contexts_def List.map_filter_simps sample_limit_def sample_account_def sample_proxy_def)
  moreover have "db_faults ?s = []" "sample_limit \<in> set (db_accounts ?s)" "arow_id sample_limit = ''a1''"
    by (simp_all add: sample_db_def sample_limit_def sample_account_def)
  moreover have "decision_ReasonCode (EvaluateAccountEligibilityWithGuardrails (account_of_row sample_limit)
      (proxy_of ?s sample_limit) DefaultRuntimeGuardrails) = ErrorCodeAccountLimitReached"
    "QuarantineOnLimitReached (Normalized DefaultRuntimeGuardrails)" by code_simp+
  ultimately show ?thesis
    using limit_reached_quarantines [OF _ _ _ _ _ _ prod.collapse [symmetric], where s = ?s and q = sample_limit
        and acc = "''a1''" and guardrails = DefaultRuntimeGuardrails and ctx = Background and ectx = "''w1''"] by blast
qed

end
