(* ===== verification/Object_Keys.thy ===== *)
theory Object_Keys
  imports Prelude
begin

text \<open>
  \<open>internal/storage/object_keys.go\<close>: the names of the objects of the storage.  An account's objects are
  under a prefix computed from its login: the latest session, older sessions, screenshots and execution
  artifacts.  Names that carry a time take it from a sequencer that never gives the same second twice to
  one owner and kind.

  Of the library, \<open>path.Clean\<close> and \<open>path.Join\<close> and the layout \<open>2006-01-02-150405\<close> of \<open>time.Format\<close> in
  UTC are modelled; an instant is the number of nanoseconds since 1970-01-01 00:00 UTC.

  The lemmas say that the formatted second determines the second, that the sequencer is strictly
  increasing, and which names the two ownership checks accept.
\<close>

section \<open>Package path\<close>

fun split_path :: "string \<Rightarrow> string list" where
  "split_path [] = ['''']"
| "split_path (c # cs) =
     (case split_path cs of
        [] \<Rightarrow> [[c]]
      | w # ws \<Rightarrow> if c = CHR ''/'' then '''' # w # ws else (c # w) # ws)"

text \<open>The elements kept so far are \<open>out\<close>, the last first.\<close>

fun clean_elems :: "bool \<Rightarrow> string list \<Rightarrow> string list \<Rightarrow> string list" where
  "clean_elems rooted out [] = rev out"
| "clean_elems rooted out (w # ws) =
     (if w = '''' \<or> w = ''.'' then clean_elems rooted out ws
      else if w = ''..'' then
        (case out of
           [] \<Rightarrow> clean_elems rooted (if rooted then [] else [''..'']) ws
         | v # out' \<Rightarrow> if v = ''..'' then clean_elems rooted (''..'' # out) ws
                      else clean_elems rooted out' ws)
      else clean_elems rooted (w # out) ws)"

definition path_Clean :: "string \<Rightarrow> string" where
  "path_Clean p =
     (let rooted = HasPrefix p ''/'';
          body = Join (clean_elems rooted [] (split_path p)) ''/'';
          res = (if rooted then CHR ''/'' # body else body)
      in if res = '''' then ''.'' else res)"

definition path_Join :: "string list \<Rightarrow> string" where
  "path_Join elems =
     (let es = filter (\<lambda>w. w \<noteq> '''') elems in if es = [] then '''' else path_Clean (Join es ''/''))"


section \<open>Calendar\<close>

definition is_leap :: "int \<Rightarrow> bool" where
  "is_leap y \<longleftrightarrow> y mod 4 = 0 \<and> (y mod 100 \<noteq> 0 \<or> y mod 400 = 0)"

definition year_days :: "int \<Rightarrow> nat" where
  "year_days y = (if is_leap y then 366 else 365)"

definition month_lengths :: "int \<Rightarrow> nat list" where
  "month_lengths y = [31, if is_leap y then 29 else 28, 31, 30, 31, 30, 31, 31, 30, 31, 30, 31]"

text \<open>The year and the day in it, of the \<open>d\<close>-th day counted from the first of \<open>y\<close>.\<close>

function split_year :: "int \<Rightarrow> nat \<Rightarrow> int \<times> nat" where
  "split_year y d = (if d < year_days y then (y, d) else split_year (y + 1) (d - year_days y))"
  by auto
termination by (relation "measure snd") (auto simp: year_days_def)

declare split_year.simps [simp del]

text \<open>The month, counted from 1, and the day in it, counted from 1.\<close>

fun split_month :: "nat \<Rightarrow> nat list \<Rightarrow> nat \<Rightarrow> nat \<times> nat" where
  "split_month m [] d = (m, Suc d)"
| "split_month m (l # ls) d = (if d < l then (m, Suc d) else split_month (Suc m) ls (d - l))"

text \<open>400 years of the calendar have 146097 days.\<close>

definition civil_date :: "int \<Rightarrow> int \<times> nat \<times> nat" where
  "civil_date days =
     (let (y, d) = split_year 1970 (nat (days mod 146097));
          (m, dm) = split_month 1 (month_lengths y) d
      in (y + 400 * (days div 146097), m, dm))"

definition pad2 :: "nat \<Rightarrow> string" where
  "pad2 n = [digit_char (n div 10), digit_char (n mod 10)]"

definition pad_year :: "int \<Rightarrow> string" where
  "pad_year y =
     (let ds = nat_str (nat \<bar>y\<bar>)
      in (if y < 0 then ''-'' else '''') @ replicate (4 - length ds) (CHR ''0'') @ ds)"

definition nanos_per_second :: int where
  "nanos_per_second = 1000000000"

definition formatKeyTimestamp :: "time \<Rightarrow> string" where
  "formatKeyTimestamp at =
     (let secs = at div nanos_per_second;
          (y, m, d) = civil_date (secs div 86400);
          sd = nat (secs mod 86400)
      in pad_year y @ ''-'' @ pad2 m @ ''-'' @ pad2 d @ ''-'' @
         pad2 (sd div 3600) @ pad2 (sd mod 3600 div 60) @ pad2 (sd mod 60))"


section \<open>Object keys\<close>

definition normalizeLoginPart :: "string \<Rightarrow> string" where
  "normalizeLoginPart v = filter (\<lambda>c. c \<notin> set ''@.-+'') (TrimSpace v)"

definition NormalizeOSKELLYLoginKey :: "string \<Rightarrow> string" where
  "NormalizeOSKELLYLoginKey login =
     (let normalized = ToLower (TrimSpace login) in
      if normalized = '''' then ''unknown''
      else
        let local_part = normalizeLoginPart (takeWhile (\<lambda>c. c \<noteq> CHR ''@'') normalized) in
        if CHR ''@'' \<notin> set normalized then
          (if local_part = '''' then ''unknown'' else local_part)
        else
          let domain_part = normalizeLoginPart (tl (dropWhile (\<lambda>c. c \<noteq> CHR ''@'') normalized)) in
          if local_part = '''' \<and> domain_part = '''' then ''unknown''
          else if local_part = '''' then domain_part
          else if domain_part = '''' then local_part
          else local_part @ ''_'' @ domain_part)"

definition SessionPayloadPrefix :: "string \<Rightarrow> string" where
  "SessionPayloadPrefix ownerKey = NormalizeOSKELLYLoginKey ownerKey @ ''/''"

definition SessionPayloadObjectKey :: "string \<Rightarrow> string" where
  "SessionPayloadObjectKey ownerKey = path_Join [NormalizeOSKELLYLoginKey ownerKey, ''latest.json'']"

definition SessionHistoryObjectKey :: "string \<Rightarrow> time \<Rightarrow> string" where
  "SessionHistoryObjectKey ownerKey at =
     path_Join [NormalizeOSKELLYLoginKey ownerKey, ''history'', formatKeyTimestamp at @ ''.json'']"

definition ScreenshotObjectKey :: "string \<Rightarrow> time \<Rightarrow> string" where
  "ScreenshotObjectKey ownerKey at =
     path_Join [NormalizeOSKELLYLoginKey ownerKey, ''screenshot'', formatKeyTimestamp at @ ''.png'']"

definition ExecutionArtifactObjectKey :: "string \<Rightarrow> time \<Rightarrow> string" where
  "ExecutionArtifactObjectKey ownerKey at =
     path_Join [NormalizeOSKELLYLoginKey ownerKey, ''artifacts'', formatKeyTimestamp at @ ''.json'']"

definition ResolveObjectOwnerKey :: "string \<Rightarrow> uuid \<Rightarrow> string" where
  "ResolveObjectOwnerKey accountLogin accountID =
     (if TrimSpace accountLogin \<noteq> '''' then accountLogin
      else if accountID = uuid_Nil then ''unknown''
      else accountID)"

text \<open>\<open>keyTimestampSequencer.last\<close> is the argument \<open>lasts\<close>; the mutex makes a call atomic.\<close>

definition sequence_key :: "string \<Rightarrow> string \<Rightarrow> string" where
  "sequence_key ownerKey objectKind =
     NormalizeOSKELLYLoginKey ownerKey @ ''|'' @ TrimSpace (ToLower objectKind)"

definition NextUniqueKeyTimestamp ::
  "string \<Rightarrow> string \<Rightarrow> time \<Rightarrow> (string \<Rightarrow> time option) \<Rightarrow> time \<times> (string \<Rightarrow> time option)" where
  "NextUniqueKeyTimestamp ownerKey objectKind now lasts =
     (let base = now - now mod nanos_per_second;
          k = sequence_key ownerKey objectKind;
          base' = (case lasts k of
                     Some last_ \<Rightarrow> if \<not> base > last_ then last_ + nanos_per_second else base
                   | None \<Rightarrow> base)
      in (base', lasts(k \<mapsto> base')))"

definition foreign_path :: "string \<Rightarrow> bool" where
  "foreign_path normalized \<longleftrightarrow>
     normalized = ''.'' \<or> HasPrefix normalized ''/'' \<or> HasPrefix normalized ''../''"

definition IsSessionObjectOwnedByAccount :: "uuid \<Rightarrow> string \<Rightarrow> bool" where
  "IsSessionObjectOwnedByAccount accountID objectKey =
     (let normalized = path_Clean (TrimSpace objectKey) in
      if foreign_path normalized then False
      else HasPrefix normalized (SessionPayloadPrefix accountID) \<or>
           (HasSuffix normalized ''/latest.json'' \<and> CountChar normalized (CHR ''/'') = 1))"

definition IsTaskArtifactOwnedByAccount :: "uuid \<Rightarrow> string \<Rightarrow> bool" where
  "IsTaskArtifactOwnedByAccount accountID objectKey =
     (let normalized = path_Clean (TrimSpace objectKey) in
      if foreign_path normalized then False
      else if HasPrefix normalized (SessionPayloadPrefix accountID) then True
      else if CountChar normalized (CHR ''/'') < 2 then False
      else Contains normalized ''/screenshot/'' \<or> Contains normalized ''/artifacts/'' \<or>
           Contains normalized ''/history/'')"



section \<open>The formatted time determines the second\<close>

definition digits_val :: "string \<Rightarrow> nat" where
  "digits_val s = foldl (\<lambda>a c. a * 10 + (of_char c - 48)) 0 s"

lemma digit_char_val: "d < 10 \<Longrightarrow> of_char (digit_char d) = 48 + d"
  by (simp add: digit_char_def)

lemma digits_val_snoc: "digits_val (s @ [c]) = digits_val s * 10 + (of_char c - 48)"
  by (simp add: digits_val_def)

lemma digits_val_nat_str: "digits_val (nat_str n) = n"
proof (induction n rule: nat_str.induct)
  case (1 n)
  show ?case
  proof (cases "n < 10")
    case True
    then show ?thesis by (simp add: nat_str.simps [of n] digits_val_def digit_char_val)
  next
    case False
    then have "nat_str n = nat_str (n div 10) @ [digit_char (n mod 10)]" by (simp add: nat_str.simps [of n])
    then show ?thesis using 1 [OF False] by (simp add: digits_val_snoc digit_char_val)
  qed
qed

lemma digits_val_zeros: "digits_val (replicate k (CHR ''0'') @ s) = digits_val s"
  by (induction k) (simp_all add: digits_val_def)

lemma digit_char_not_minus: "d < 10 \<Longrightarrow> digit_char d \<noteq> CHR ''-''"
proof
  assume "d < 10" "digit_char d = CHR ''-''"
  then have "48 + d = of_char (CHR ''-'')" using digit_char_val by metis
  then show False by simp
qed

lemma nat_str_no_minus: "CHR ''-'' \<notin> set (nat_str n)"
proof (induction n rule: nat_str.induct)
  case (1 n)
  show ?case
  proof (cases "n < 10")
    case True
    then show ?thesis using digit_char_not_minus [of n] by (simp add: nat_str.simps [of n])
  next
    case False
    then have eq: "nat_str n = nat_str (n div 10) @ [digit_char (n mod 10)]" by (simp add: nat_str.simps [of n])
    have "CHR ''-'' \<noteq> digit_char (n mod 10)" using digit_char_not_minus [of "n mod 10"] by auto
    then show ?thesis using 1 [OF False] by (simp add: eq)
  qed
qed

lemma pad_year_inj:
  assumes "pad_year y = pad_year z" shows "y = z"
proof -
  let ?body = "\<lambda>y. replicate (4 - length (nat_str (nat \<bar>y\<bar>))) (CHR ''0'') @ nat_str (nat \<bar>y\<bar>)"
  have body: "pad_year y = (if y < 0 then CHR ''-'' # ?body y else ?body y)" for y by (simp add: pad_year_def Let_def)
  have no_minus: "CHR ''-'' \<notin> set (?body y)" for y using nat_str_no_minus by (simp add: set_replicate_conv_if)
  have sgn: "(y < 0) = (z < 0)"
    using assms no_minus [of y] no_minus [of z] body [of y] body [of z] by (metis list.set_intros(1))
  then have "?body y = ?body z" using assms body [of y] body [of z] by (simp split: if_splits)
  then have "digits_val (?body y) = digits_val (?body z)" by (simp only:)
  then have "nat \<bar>y\<bar> = nat \<bar>z\<bar>" by (simp only: digits_val_zeros digits_val_nat_str)
  then show ?thesis using sgn by linarith
qed

lemma pad2_inj: "pad2 m = pad2 n \<Longrightarrow> m < 100 \<Longrightarrow> n < 100 \<Longrightarrow> m = n"
proof -
  assume eq: "pad2 m = pad2 n" and b: "m < 100" "n < 100"
  have lt: "m div 10 < 10" "n div 10 < 10" using b by simp_all
  have "(of_char (digit_char (m div 10)) :: nat) = of_char (digit_char (n div 10))"
    "(of_char (digit_char (m mod 10)) :: nat) = of_char (digit_char (n mod 10))"
    using eq by (simp_all add: pad2_def)
  then have "m div 10 = n div 10" "m mod 10 = n mod 10" using lt by (simp_all add: digit_char_val)
  then show "m = n" by (metis div_mult_mod_eq)
qed

lemma length_pad2 [simp]: "length (pad2 n) = 2"
  by (simp add: pad2_def)

lemma split_year_sum:
  "split_year y d = (y', d') \<Longrightarrow> y \<le> y' \<and> d = (\<Sum>i\<in>{y..<y'}. year_days i) + d' \<and> d' < year_days y'"
proof (induction y d arbitrary: y' d' rule: split_year.induct)
  case (1 y d)
  show ?case
  proof (cases "d < year_days y")
    case True
    then show ?thesis using 1(2) by (simp add: split_year.simps [of y d])
  next
    case False
    then have "split_year (y + 1) (d - year_days y) = (y', d')" using 1(2) by (simp add: split_year.simps [of y d])
    from 1(1) [OF False this] have IH: "y + 1 \<le> y'"
      "d - year_days y = (\<Sum>i\<in>{y + 1..<y'}. year_days i) + d'" "d' < year_days y'" by auto
    have "{y..<y'} = insert y {y + 1..<y'}" using IH(1) by auto
    then show ?thesis using IH False by simp
  qed
qed

lemma split_month_sum:
  "split_month m ls d = (m', dm) \<Longrightarrow> m \<le> m' \<and> m' \<le> m + length ls \<and> Suc d = sum_list (take (m' - m) ls) + dm"
proof (induction m ls d rule: split_month.induct)
  case (2 m l ls d)
  then show ?case by (cases "d < l") (auto simp: take_Cons' Suc_diff_le)
qed simp

lemma split_month_bound:
  "split_month m ls d = (m', dm) \<Longrightarrow> d < sum_list ls \<Longrightarrow> (\<forall>l \<in> set ls. l \<le> b) \<Longrightarrow> dm \<le> b"
  by (induction m ls d rule: split_month.induct) (auto split: if_splits)

lemma month_lengths_props:
  "sum_list (month_lengths y) = year_days y" "length (month_lengths y) = 12" "\<forall>l \<in> set (month_lengths y). l \<le> 31"
  by (simp_all add: month_lengths_def year_days_def)

lemma cycle_days: "(\<Sum>i\<in>{1970..<2370}. year_days i) = 146097"
proof -
  have leaps: "sum_list (map (\<lambda>y. if is_leap y then 1 else 0 :: int) [1970..2369]) = 97" by code_simp
  have "int (\<Sum>i\<in>{1970..<2370}. year_days i) = (\<Sum>i\<in>{1970..<2370}. 365 + (if is_leap i then 1 else 0))"
    unfolding of_nat_sum by (rule sum.cong) (simp_all add: year_days_def)
  also have "\<dots> = 400 * 365 + (\<Sum>i\<in>{1970..<2370}. if is_leap i then 1 else 0)" by (simp add: sum.distrib)
  also have "(\<Sum>i\<in>{1970..<2370::int}. if is_leap i then 1 else 0 :: int) =
      sum_list (map (\<lambda>y. if is_leap y then 1 else 0) [1970..2369])"
    by (subst sum_list_distinct_conv_sum_set) (auto intro!: sum.cong simp only: distinct_upto set_upto atLeastLessThan_iff atLeastAtMost_iff)
  finally have "int (\<Sum>i\<in>{1970..<2370}. year_days i) = 400 * 365 + 97" by (simp only: leaps)
  then show ?thesis by linarith
qed

lemma civil_date_props:
  assumes "civil_date days = (y, m, d)"
  obtains r yr where "split_year 1970 (nat (days mod 146097)) = (yr, r)" "yr < 2370" "1970 \<le> yr"
    "y = yr + 400 * (days div 146097)" "split_month 1 (month_lengths yr) r = (m, d)" "m < 100" "d < 100"
proof -
  obtain yr r where s: "split_year 1970 (nat (days mod 146097)) = (yr, r)"
    by (cases "split_year 1970 (nat (days mod 146097))")
  obtain m' d' where mo: "split_month 1 (month_lengths yr) r = (m', d')"
    by (cases "split_month 1 (month_lengths yr) r")
  note sum = split_year_sum [OF s]
  have yr: "yr < 2370"
  proof (rule ccontr)
    assume "\<not> yr < 2370"
    then have "{1970..<2370} \<subseteq> {1970..<yr}" by auto
    then have "(\<Sum>i\<in>{1970..<2370}. year_days i) \<le> (\<Sum>i\<in>{1970..<yr}. year_days i)"
      by (intro sum_mono2) simp_all
    then have "146097 \<le> nat (days mod 146097)" using sum cycle_days by linarith
    then show False by (simp add: nat_le_iff)
  qed
  have "m' < 100" using split_month_sum [OF mo] by (simp add: month_lengths_props)
  moreover have "d' < 100"
    using split_month_bound [OF mo, of 31] sum by (simp add: month_lengths_props)
  moreover have "y = yr + 400 * (days div 146097)" "m' = m" "d' = d" using assms s mo by (simp_all add: civil_date_def)
  ultimately show ?thesis using that [OF s yr] mo sum by blast
qed

lemma civil_date_inj:
  assumes "civil_date a = civil_date b" shows "a = b"
proof -
  obtain y m d where d: "civil_date a = (y, m, d)" by (cases "civil_date a") auto
  then have d': "civil_date b = (y, m, d)" using assms by simp
  from d obtain r yr where a: "split_year 1970 (nat (a mod 146097)) = (yr, r)" "yr < 2370" "1970 \<le> yr"
    "y = yr + 400 * (a div 146097)" "split_month 1 (month_lengths yr) r = (m, d)" by (rule civil_date_props)
  from d' obtain q zr where b: "split_year 1970 (nat (b mod 146097)) = (zr, q)" "zr < 2370" "1970 \<le> zr"
    "y = zr + 400 * (b div 146097)" "split_month 1 (month_lengths zr) q = (m, d)" by (rule civil_date_props)
  have same_cycle: "a div 146097 = b div 146097" using a(2-4) b(2-4) by linarith
  then have div: "a div 146097 = b div 146097" "yr = zr" using a(4) b(4) by simp_all
  then have "r = q" using split_month_sum [OF a(5)] split_month_sum [OF b(5)] by simp
  then have "nat (a mod 146097) = nat (b mod 146097)"
    using split_year_sum [OF a(1)] split_year_sum [OF b(1)] div(2) by simp
  then have "a mod 146097 = b mod 146097" by simp
  then show ?thesis using div(1) by (metis div_mult_mod_eq)
qed

lemma formatKeyTimestamp_inj:
  assumes eq: "formatKeyTimestamp a = formatKeyTimestamp b"
  shows "a div nanos_per_second = b div nanos_per_second"
proof -
  define s where "s = a div nanos_per_second"
  define t where "t = b div nanos_per_second"
  obtain y m d where ca: "civil_date (s div 86400) = (y, m, d)" by (cases "civil_date (s div 86400)") auto
  obtain z n e where cb: "civil_date (t div 86400) = (z, n, e)" by (cases "civil_date (t div 86400)") auto
  let ?p = "nat (s mod 86400)" and ?q = "nat (t mod 86400)"
  have lt: "?p < 86400" "?q < 86400" by (simp_all add: nat_less_iff)
  from ca have md: "m < 100" "d < 100" by (rule civil_date_props, simp)+
  from cb have ne: "n < 100" "e < 100" by (rule civil_date_props, simp)+
  have h: "?p div 3600 < 100" "?q div 3600 < 100" using lt by (simp_all add: less_mult_imp_div_less)
  have mi: "?p mod 3600 div 60 < 100" "?q mod 3600 div 60 < 100" by (simp_all add: less_mult_imp_div_less)
  have se: "?p mod 60 < 100" "?q mod 60 < 100"
    using mod_less_divisor [of 60 ?p] mod_less_divisor [of 60 ?q] by linarith+
  have e: "pad_year y @ ''-'' @ pad2 m @ ''-'' @ pad2 d @ ''-'' @
         pad2 (?p div 3600) @ pad2 (?p mod 3600 div 60) @ pad2 (?p mod 60) =
       pad_year z @ ''-'' @ pad2 n @ ''-'' @ pad2 e @ ''-'' @
         pad2 (?q div 3600) @ pad2 (?q mod 3600 div 60) @ pad2 (?q mod 60)"
    using eq ca cb by (simp add: formatKeyTimestamp_def Let_def s_def t_def)
  have split: "u = v \<and> u' = v'" if "u @ u' = v @ v'" "length u' = length v'" for u u' v v' :: string
    using that by simp
  have ys: "pad_year y = pad_year z" "pad2 m = pad2 n" "pad2 d = pad2 e"
    "pad2 (?p div 3600) = pad2 (?q div 3600)" "pad2 (?p mod 3600 div 60) = pad2 (?q mod 3600 div 60)"
    "pad2 (?p mod 60) = pad2 (?q mod 60)"
    using split [OF e] by simp_all
  have date: "y = z" "m = n" "d = e"
    using pad_year_inj [OF ys(1)] pad2_inj [OF ys(2) md(1) ne(1)] pad2_inj [OF ys(3) md(2) ne(2)] by simp_all
  then have days: "s div 86400 = t div 86400" using civil_date_inj ca cb by simp
  have clock: "?p div 3600 = ?q div 3600" "?p mod 3600 div 60 = ?q mod 3600 div 60" "?p mod 60 = ?q mod 60"
    using pad2_inj [OF ys(4) h] pad2_inj [OF ys(5) mi] pad2_inj [OF ys(6) se] by simp_all
  have "n = n div 3600 * 3600 + n mod 3600 div 60 * 60 + n mod 60" for n :: nat
  proof -
    have "n mod 3600 mod 60 = n mod 60" by (rule mod_mod_cancel) simp
    then show ?thesis using div_mult_mod_eq [of n 3600] div_mult_mod_eq [of "n mod 3600" 60] by linarith
  qed
  then have "?p = ?q" using clock by metis
  then have "s mod 86400 = t mod 86400" by simp
  then show ?thesis using days unfolding s_def t_def by (metis div_mult_mod_eq)
qed


section \<open>Paths\<close>

lemma split_path_not_Nil [simp]: "split_path p \<noteq> []"
  by (induction p) (auto split: list.splits)

lemma split_path_plain: "CHR ''/'' \<notin> set w \<Longrightarrow> split_path w = [w]"
  by (induction w) auto

lemma split_path_slash: "split_path (a @ CHR ''/'' # b) = split_path a @ split_path b"
proof (induction a)
  case Nil
  then show ?case by (cases "split_path b") simp_all
next
  case (Cons c a)
  then show ?case by (cases "split_path a") simp_all
qed

definition plain_elem :: "string \<Rightarrow> bool" where
  "plain_elem w \<longleftrightarrow> w \<notin> {'''', ''.'', ''..''} \<and> CHR ''/'' \<notin> set w"

lemma clean_elems_snoc:
  "plain_elem w \<Longrightarrow> clean_elems rooted out (ws @ [w]) = clean_elems rooted out ws @ [w]"
  by (induction rooted out ws rule: clean_elems.induct) (auto simp: plain_elem_def split: list.splits)

lemma Join_snoc: "xs \<noteq> [] \<Longrightarrow> Join (xs @ [w]) sep = Join xs sep @ sep @ w"
proof (induction xs sep rule: Join.induct)
  case (3 s t ss sep)
  then show ?case by (cases ss) simp_all
qed simp_all

lemma NormalizeOSKELLYLoginKey_nonempty: "NormalizeOSKELLYLoginKey login \<noteq> ''''"
  by (simp add: NormalizeOSKELLYLoginKey_def Let_def)

text \<open>A name two levels below the owner is a prefix that depends on the owner and the level only, then the file.\<close>

lemma path_Join_file:
  assumes "plain_elem d" "plain_elem f" "u \<noteq> ''''"
  shows "path_Join [u, d, f] =
    (let rooted = HasPrefix u ''/'' in
     (if rooted then ''/'' else '''') @ Join (clean_elems rooted [] (split_path u) @ [d]) ''/'' @ ''/'' @ f)"
proof -
  have ne: "d \<noteq> ''''" "f \<noteq> ''''" using assms by (auto simp: plain_elem_def)
  have j: "filter (\<lambda>w. w \<noteq> '''') [u, d, f] = [u, d, f]" using assms(3) ne by simp
  have join: "Join [u, d, f] ''/'' = u @ CHR ''/'' # (d @ CHR ''/'' # f)" by simp
  have rooted: "HasPrefix (u @ v) ''/'' = HasPrefix u ''/''" for v
    using assms(3) by (cases u) (simp_all add: HasPrefix_def)
  have split: "split_path (u @ CHR ''/'' # (d @ CHR ''/'' # f)) = (split_path u @ [d]) @ [f]"
    using assms(1,2) by (simp add: split_path_slash split_path_plain plain_elem_def)
  have clean: "clean_elems r [] ((split_path u @ [d]) @ [f]) = (clean_elems r [] (split_path u) @ [d]) @ [f]" for r
    using assms(1,2) by (simp only: clean_elems_snoc)
  show ?thesis
    unfolding path_Join_def Let_def j join path_Clean_def rooted split clean
    by (simp add: Join_snoc del: append_assoc)
qed

lemma digit_char_not_slash: "d < 10 \<Longrightarrow> digit_char d \<noteq> CHR ''/''"
proof
  assume "d < 10" "digit_char d = CHR ''/''"
  then have "48 + d = of_char (CHR ''/'')" using digit_char_val by metis
  then show False by simp
qed

lemma nat_str_no_slash: "CHR ''/'' \<notin> set (nat_str n)"
proof (induction n rule: nat_str.induct)
  case (1 n)
  show ?case
  proof (cases "n < 10")
    case True
    then show ?thesis using digit_char_not_slash [of n] by (simp add: nat_str.simps [of n])
  next
    case False
    then have eq: "nat_str n = nat_str (n div 10) @ [digit_char (n mod 10)]" by (simp add: nat_str.simps [of n])
    have "CHR ''/'' \<noteq> digit_char (n mod 10)" using digit_char_not_slash [of "n mod 10"] by auto
    then show ?thesis using 1 [OF False] by (simp add: eq)
  qed
qed

lemma pad2_no_slash: "n < 100 \<Longrightarrow> CHR ''/'' \<notin> set (pad2 n)"
  using digit_char_not_slash [of "n div 10"] digit_char_not_slash [of "n mod 10"] less_mult_imp_div_less [of n 10 10]
  by (auto simp: pad2_def dest: sym)

lemma formatKeyTimestamp_no_slash: "CHR ''/'' \<notin> set (formatKeyTimestamp t)"
proof -
  let ?s = "t div nanos_per_second"
  obtain y m d where c: "civil_date (?s div 86400) = (y, m, d)" by (cases "civil_date (?s div 86400)") auto
  from c have md: "m < 100" "d < 100" by (rule civil_date_props, simp)+
  let ?p = "nat (?s mod 86400)"
  have lt: "?p < 86400" by (simp add: nat_less_iff)
  have h: "?p div 3600 < 100" using lt by (simp add: less_mult_imp_div_less)
  have mi: "?p mod 3600 div 60 < 100" by (simp add: less_mult_imp_div_less)
  have se: "?p mod 60 < 100" using mod_less_divisor [of 60 ?p] by linarith
  show ?thesis
    using c pad2_no_slash [OF md(1)] pad2_no_slash [OF md(2)] pad2_no_slash [OF h] pad2_no_slash [OF mi]
      pad2_no_slash [OF se] nat_str_no_slash [of "nat \<bar>y\<bar>"]
    by (auto simp: formatKeyTimestamp_def Let_def pad_year_def)
qed

lemma timestamp_file_plain:
  assumes "ext \<in> {''.json'', ''.png''}"
  shows "plain_elem (formatKeyTimestamp t @ ext)"
proof -
  have "CHR ''/'' \<notin> set ext" using assms by auto
  moreover have "length (formatKeyTimestamp t @ ext) > 3" using assms by auto
  then have "formatKeyTimestamp t @ ext \<notin> {'''', ''.'', ''..''}" by (auto dest: arg_cong [where f = length])
  ultimately show ?thesis using formatKeyTimestamp_no_slash by (simp add: plain_elem_def)
qed

lemma timed_key_inj:
  assumes "path_Join [NormalizeOSKELLYLoginKey u, d, formatKeyTimestamp a @ ext] =
           path_Join [NormalizeOSKELLYLoginKey v, d, formatKeyTimestamp b @ ext]"
    "NormalizeOSKELLYLoginKey u = NormalizeOSKELLYLoginKey v" "plain_elem d" "ext \<in> {''.json'', ''.png''}"
  shows "a div nanos_per_second = b div nanos_per_second"
proof -
  note named = path_Join_file [OF assms(3) timestamp_file_plain [OF assms(4)] NormalizeOSKELLYLoginKey_nonempty]
  have "formatKeyTimestamp a = formatKeyTimestamp b"
    using assms(1,2) by (simp add: named Let_def)
  then show ?thesis by (rule formatKeyTimestamp_inj)
qed


section \<open>The sequencer\<close>

text \<open>The times a sequence of calls \<open>(owner, kind, now)\<close> gets.\<close>

fun key_times :: "(string \<Rightarrow> time option) \<Rightarrow> (string \<times> string \<times> time) list \<Rightarrow> time list" where
  "key_times lasts [] = []"
| "key_times lasts ((owner, kind, now) # reqs) =
     (let (t, lasts') = NextUniqueKeyTimestamp owner kind now lasts in t # key_times lasts' reqs)"

definition whole_seconds :: "(string \<Rightarrow> time option) \<Rightarrow> bool" where
  "whole_seconds lasts \<longleftrightarrow> (\<forall>k t. lasts k = Some t \<longrightarrow> t mod nanos_per_second = 0)"

lemma length_key_times [simp]: "length (key_times lasts reqs) = length reqs"
  by (induction lasts reqs rule: key_times.induct) (auto simp: Let_def split: prod.splits)

lemma NextUnique_props:
  assumes "NextUniqueKeyTimestamp owner kind now lasts = (t, lasts')" "whole_seconds lasts"
  shows "t mod nanos_per_second = 0 \<and> whole_seconds lasts' \<and> lasts' = lasts(sequence_key owner kind \<mapsto> t) \<and>
    (\<forall>l. lasts (sequence_key owner kind) = Some l \<longrightarrow> l < t) \<and> t \<ge> now - now mod nanos_per_second"
proof -
  let ?k = "sequence_key owner kind" and ?base = "now - now mod nanos_per_second"
  have base: "?base mod nanos_per_second = 0" by (simp add: mod_diff_right_eq nanos_per_second_def)
  have t: "t = (case lasts ?k of Some l \<Rightarrow> if \<not> ?base > l then l + nanos_per_second else ?base | None \<Rightarrow> ?base)"
    and lasts': "lasts' = lasts(?k \<mapsto> t)"
    using assms(1) by (auto simp: NextUniqueKeyTimestamp_def Let_def)
  have t0: "t mod nanos_per_second = 0" using t base assms(2) by (auto simp: whole_seconds_def split: option.splits)
  then have ws: "whole_seconds lasts'" using assms(2) by (simp add: whole_seconds_def lasts')
  have "\<forall>l. lasts ?k = Some l \<longrightarrow> l < t" using t by (auto simp: nanos_per_second_def)
  moreover have "t \<ge> ?base"
  proof (cases "lasts ?k")
    case (Some l)
    show ?thesis
    proof (cases "?base > l")
      case False
      then show ?thesis using Some t by (simp add: nanos_per_second_def)
    qed (use Some t in simp)
  qed (use t in simp)
  ultimately show ?thesis using t0 ws lasts' by blast
qed

lemma key_times_later:
  "whole_seconds lasts \<Longrightarrow> j < length reqs \<Longrightarrow> reqs ! j = (owner, kind, now) \<Longrightarrow>
   lasts (sequence_key owner kind) = Some l \<Longrightarrow> l < key_times lasts reqs ! j"
proof (induction lasts reqs arbitrary: j l rule: key_times.induct)
  case (2 lasts owner' kind' now' reqs)
  obtain t lasts' where n: "NextUniqueKeyTimestamp owner' kind' now' lasts = (t, lasts')"
    by (cases "NextUniqueKeyTimestamp owner' kind' now' lasts")
  note props = NextUnique_props [OF n 2(2)]
  have ws: "whole_seconds lasts'" using props by blast
  show ?case
  proof (cases j)
    case 0
    then show ?thesis using 2(4,5) props n by auto
  next
    case (Suc i)
    obtain l' where l': "lasts' (sequence_key owner kind) = Some l'" "l \<le> l'"
      using props 2(5) by (cases "sequence_key owner kind = sequence_key owner' kind'") auto
    have "l' < key_times lasts' reqs ! i"
      using 2(1) [OF n [symmetric] refl ws, of i l'] 2(3,4) l'(1) Suc by simp
    then show ?thesis using l'(2) Suc n by simp
  qed
qed simp

lemma key_times_increasing:
  "whole_seconds lasts \<Longrightarrow> i < j \<Longrightarrow> j < length reqs \<Longrightarrow> reqs ! i = (owner, kind, n1) \<Longrightarrow>
   reqs ! j = (owner', kind', n2) \<Longrightarrow> sequence_key owner kind = sequence_key owner' kind' \<Longrightarrow>
   key_times lasts reqs ! i < key_times lasts reqs ! j \<and>
   key_times lasts reqs ! i mod nanos_per_second = 0 \<and> key_times lasts reqs ! j mod nanos_per_second = 0"
proof (induction lasts reqs arbitrary: i j rule: key_times.induct)
  case (2 lasts o' k' now' reqs)
  obtain t lasts' where n: "NextUniqueKeyTimestamp o' k' now' lasts = (t, lasts')"
    by (cases "NextUniqueKeyTimestamp o' k' now' lasts")
  note props = NextUnique_props [OF n 2(2)]
  have ws: "whole_seconds lasts'" using props by blast
  have whole: "whole_seconds ls \<Longrightarrow> m < length rs \<Longrightarrow> key_times ls rs ! m mod nanos_per_second = 0" for ls rs m
  proof (induction ls rs arbitrary: m rule: key_times.induct)
    case (2 ls p q r rs)
    then show ?case using NextUnique_props
      by (cases m) (auto simp: Let_def split: prod.splits)
  qed simp
  show ?case
  proof (cases i)
    case 0
    obtain j' where j: "j = Suc j'" using 2(3) by (cases j) auto
    have "lasts' (sequence_key owner' kind') = Some t" using 0 2(5,7) props by auto
    then have "t < key_times lasts' reqs ! j'"
      using key_times_later [OF ws, of j' reqs owner' kind' n2 t] 2(4,6) j by simp
    then show ?thesis using 0 j n conjunct1 [OF props] whole [OF ws, of j' reqs] 2(4) by simp
  next
    case (Suc i')
    obtain j' where j: "j = Suc j'" using 2(3) by (cases j) auto
    show ?thesis using 2(1) [OF n [symmetric] refl ws, of i' j'] 2(3-7) Suc j n by simp
  qed
qed simp

lemma later_second:
  "a < b \<Longrightarrow> a mod nanos_per_second = 0 \<Longrightarrow> b mod nanos_per_second = 0 \<Longrightarrow>
   a div nanos_per_second \<noteq> b div nanos_per_second"
  by (metis add.right_neutral div_mult_mod_eq less_irrefl)

text \<open>
  C21.  In one process no two objects of the same kind and owner get the same name, however fast they are
  saved and wherever the clock jumps: the sequencer hands out strictly increasing seconds, and the name
  shows the second.
\<close>

theorem timed_object_keys_distinct:
  assumes "i < j" "j < length reqs" "reqs ! i = (owner, kind, n1)" "reqs ! j = (owner', kind, n2)"
    "NormalizeOSKELLYLoginKey owner = NormalizeOSKELLYLoginKey owner'" "whole_seconds lasts"
  shows "key_times lasts reqs ! i < key_times lasts reqs ! j \<and>
    ScreenshotObjectKey owner (key_times lasts reqs ! i) \<noteq> ScreenshotObjectKey owner' (key_times lasts reqs ! j) \<and>
    ExecutionArtifactObjectKey owner (key_times lasts reqs ! i) \<noteq>
      ExecutionArtifactObjectKey owner' (key_times lasts reqs ! j) \<and>
    SessionHistoryObjectKey owner (key_times lasts reqs ! i) \<noteq>
      SessionHistoryObjectKey owner' (key_times lasts reqs ! j)"
proof -
  have "sequence_key owner kind = sequence_key owner' kind" using assms(5) by (simp add: sequence_key_def)
  note inc = key_times_increasing [OF assms(6,1,2,3,4) this]
  have "key_times lasts reqs ! i div nanos_per_second \<noteq> key_times lasts reqs ! j div nanos_per_second"
    using inc by (intro later_second) auto
  moreover have "plain_elem ''screenshot''" "plain_elem ''artifacts''" "plain_elem ''history''"
    by (simp_all add: plain_elem_def)
  ultimately show ?thesis
    using inc timed_key_inj [OF _ assms(5)]
    unfolding ScreenshotObjectKey_def ExecutionArtifactObjectKey_def SessionHistoryObjectKey_def by blast
qed

lemma timed_object_keys_distinct_witness:
  "ScreenshotObjectKey ''a@x.ru'' (key_times Map.empty [(''a@x.ru'', ''screenshot'', 5), (''A@xru'', ''screenshot'', 3)] ! 0) \<noteq>
   ScreenshotObjectKey ''A@xru'' (key_times Map.empty [(''a@x.ru'', ''screenshot'', 5), (''A@xru'', ''screenshot'', 3)] ! 1)"
proof -
  have "NormalizeOSKELLYLoginKey ''a@x.ru'' = NormalizeOSKELLYLoginKey ''A@xru''" by code_simp
  then show ?thesis
    using timed_object_keys_distinct [where i = 0 and j = 1 and owner = "''a@x.ru''" and owner' = "''A@xru''"
        and kind = "''screenshot''" and lasts = Map.empty
        and reqs = "[(''a@x.ru'', ''screenshot'', 5), (''A@xru'', ''screenshot'', 3)]"]
    by (simp add: whole_seconds_def)
qed


section \<open>Ownership\<close>

lemma clean_elems_plain: "list_all plain_elem ws \<Longrightarrow> clean_elems rooted out ws = rev out @ ws"
  by (induction ws arbitrary: out) (auto simp: plain_elem_def)

lemma split_Join_plain: "ws \<noteq> [] \<Longrightarrow> list_all plain_elem ws \<Longrightarrow> split_path (Join ws ''/'') = ws"
proof (induction ws "''/''" rule: Join.induct)
  case (3 s t ss)
  then show ?case using split_path_slash [of s "Join (t # ss) ''/''"]
    by (simp add: split_path_plain plain_elem_def)
qed (simp_all add: split_path_plain plain_elem_def)

lemma path_Clean_plain:
  assumes "ws \<noteq> []" "list_all plain_elem ws"
  shows "path_Clean (Join ws ''/'') = Join ws ''/''" "path_Join ws = Join ws ''/''"
    "\<not> HasPrefix (Join ws ''/'') ''/''" "Join ws ''/'' \<noteq> ''''"
proof -
  obtain w ws' where ws: "ws = w # ws'" using assms(1) by (cases ws) auto
  then obtain c cs where w: "w = c # cs" "c \<noteq> CHR ''/''"
    using assms(2) by (cases w) (auto simp: plain_elem_def)
  have hd: "\<exists>v. Join ws ''/'' = c # v" using ws w by (cases ws') auto
  then show r: "\<not> HasPrefix (Join ws ''/'') ''/''" and ne: "Join ws ''/'' \<noteq> ''''"
    using w(2) by (auto simp: HasPrefix_def)
  then show clean: "path_Clean (Join ws ''/'') = Join ws ''/''"
    using assms by (simp add: path_Clean_def Let_def split_Join_plain clean_elems_plain)
  have "filter (\<lambda>w. w \<noteq> '''') ws = ws" using assms(2) by (induction ws) (auto simp: plain_elem_def)
  then show "path_Join ws = Join ws ''/''" using assms(1) clean by (simp add: path_Join_def)
qed

text \<open>A login without white space and slashes inside gives an ordinary directory name.\<close>

definition plain_login :: "string \<Rightarrow> bool" where
  "plain_login login \<longleftrightarrow> list_all (\<lambda>c. c \<noteq> CHR ''/'' \<and> \<not> is_space c) (TrimSpace login)"

lemma to_lower_char_cases: "to_lower_char c = c \<or> (of_char (to_lower_char c) :: nat) \<ge> 97"
proof (cases "65 \<le> (of_char c :: nat) \<and> (of_char c :: nat) \<le> 90")
  case True
  define n where "n = (of_char c :: nat)"
  have n: "65 \<le> n" "n \<le> 90" "to_lower_char c = char_of (n + 32)"
    using True by (auto simp: to_lower_char_def n_def Let_def)
  have "(of_char (to_lower_char c) :: nat) = n + 32" unfolding n(3) of_char_of using n(1,2) by simp
  then show ?thesis using n(1) by simp
qed (auto simp: to_lower_char_def Let_def)

lemma to_lower_char_keeps: "d \<noteq> c \<Longrightarrow> (of_char c :: nat) < 97 \<Longrightarrow> to_lower_char d \<noteq> c"
  using to_lower_char_cases [of d] by auto

lemma to_lower_char_space: "\<not> is_space c \<Longrightarrow> \<not> is_space (to_lower_char c)"
proof
  assume c: "\<not> is_space c" "is_space (to_lower_char c)"
  then have "(of_char (to_lower_char c) :: nat) \<le> 32" unfolding is_space_def by (elim insertE) simp_all
  then show False using c to_lower_char_cases [of c] by auto
qed

lemma to_lower_char_safe: "c \<noteq> CHR ''/'' \<Longrightarrow> \<not> is_space c \<Longrightarrow> to_lower_char c \<noteq> CHR ''/'' \<and> \<not> is_space (to_lower_char c)"
  using to_lower_char_keeps [of c "CHR ''/''"] to_lower_char_space by simp

lemma set_normalizeLoginPart:
  "c \<in> set (normalizeLoginPart v) \<Longrightarrow> c \<in> set v \<and> c \<noteq> CHR ''.''"
  using set_trim_both [of is_space v] by (auto simp: normalizeLoginPart_def TrimSpace_def)

lemma plain_login_key:
  assumes "plain_login login"
  shows "plain_elem (NormalizeOSKELLYLoginKey login)" "\<forall>c \<in> set (NormalizeOSKELLYLoginKey login). \<not> is_space c"
proof -
  let ?n = "ToLower (TrimSpace login)"
  have n: "c \<noteq> CHR ''/'' \<and> \<not> is_space c" if "c \<in> set ?n" for c
    using that assms to_lower_char_safe by (auto simp: ToLower_def plain_login_def list_all_iff)
  have dw: "set (tl (dropWhile P v)) \<subseteq> set v" for P :: "char \<Rightarrow> bool" and v
    by (metis list.set_sel(2) set_dropWhileD subsetI tl_Nil)
  have part: "c \<noteq> CHR ''/'' \<and> \<not> is_space c \<and> c \<noteq> CHR ''.''"
    if "c \<in> set (normalizeLoginPart v)" "set v \<subseteq> set ?n" for c v
    using set_normalizeLoginPart [OF that(1)] that(2) n by blast
  have tw: "set (takeWhile P ?n) \<subseteq> set ?n" for P by (auto dest: set_takeWhileD)
  have lits: "\<forall>c \<in> set ''unknown_''. c \<noteq> CHR ''/'' \<and> \<not> is_space c \<and> c \<noteq> CHR ''.''" by code_simp
  have key: "c \<noteq> CHR ''/'' \<and> \<not> is_space c \<and> c \<noteq> CHR ''.''" if "c \<in> set (NormalizeOSKELLYLoginKey login)" for c
  proof -
    let ?l = "normalizeLoginPart (takeWhile (\<lambda>c. c \<noteq> CHR ''@'') ?n)"
    let ?d = "normalizeLoginPart (tl (dropWhile (\<lambda>c. c \<noteq> CHR ''@'') ?n))"
    have "NormalizeOSKELLYLoginKey login \<in> {''unknown'', ?l, ?d, ?l @ ''_'' @ ?d}"
      by (simp add: NormalizeOSKELLYLoginKey_def Let_def)
    then have "c \<in> set ''unknown_'' \<or> c \<in> set ?l \<or> c \<in> set ?d" using that by (elim insertE; simp; blast)
    then show ?thesis
    proof (elim disjE)
      assume "c \<in> set ''unknown_''"
      with lits show ?thesis by (rule bspec)
    next
      assume "c \<in> set ?l"
      then show ?thesis by (rule part [OF _ tw])
    next
      assume "c \<in> set ?d"
      then show ?thesis by (rule part [OF _ dw])
    qed
  qed
  then show "\<forall>c \<in> set (NormalizeOSKELLYLoginKey login). \<not> is_space c" by blast
  have dot: "CHR ''.'' \<notin> set (NormalizeOSKELLYLoginKey login)" "CHR ''/'' \<notin> set (NormalizeOSKELLYLoginKey login)"
    using key by blast+
  have "NormalizeOSKELLYLoginKey login \<noteq> ''.''" "NormalizeOSKELLYLoginKey login \<noteq> ''..''"
    using dot(1) by (metis list.set_intros(1))+
  then show "plain_elem (NormalizeOSKELLYLoginKey login)"
    unfolding plain_elem_def using dot(2) NormalizeOSKELLYLoginKey_nonempty by blast
qed

lemma TrimSpace_ends: "v \<noteq> [] \<Longrightarrow> \<not> is_space (hd v) \<Longrightarrow> \<not> is_space (last v) \<Longrightarrow> TrimSpace v = v"
  by (simp add: TrimSpace_def trim_both_id)

lemma plain_key:
  assumes "plain_login login" "list_all plain_elem ws" "ws \<noteq> []" "\<not> is_space (last (last ws))"
  defines "key \<equiv> path_Join (NormalizeOSKELLYLoginKey login # ws)"
  shows "key = NormalizeOSKELLYLoginKey login @ ''/'' @ Join ws ''/''"
    "path_Clean (TrimSpace key) = key" "\<not> foreign_path key"
proof -
  let ?u = "NormalizeOSKELLYLoginKey login"
  have u: "plain_elem ?u" "\<forall>c \<in> set ?u. \<not> is_space c" using plain_login_key [OF assms(1)] by auto
  have all: "list_all plain_elem (?u # ws)" using u assms(2) by simp
  note clean = path_Clean_plain [OF list.distinct(2) all]
  obtain w ws' where ws: "ws = w # ws'" using assms(3) by (cases ws) auto
  show key: "key = ?u @ ''/'' @ Join ws ''/''" unfolding key_def clean(2) by (simp add: ws)
  have ne: "?u \<noteq> []" by (rule NormalizeOSKELLYLoginKey_nonempty)
  have lastJ: "xs \<noteq> [] \<Longrightarrow> list_all plain_elem xs \<Longrightarrow> Join xs ''/'' \<noteq> [] \<and> last (Join xs ''/'') = last (last xs)" for xs
  proof (induction xs "''/''" rule: Join.induct)
    case (3 s t ss)
    then show ?case by simp
  qed (simp_all add: plain_elem_def)
  have J: "Join ws ''/'' \<noteq> [] \<and> last (Join ws ''/'') = last (last ws)" by (rule lastJ [OF assms(3,2)])
  have "TrimSpace key = key"
    by (rule TrimSpace_ends) (use ne u(2) J assms(4) in \<open>simp_all add: key\<close>)
  then show cl: "path_Clean (TrimSpace key) = key" using clean(1,2) by (simp add: key_def)
  obtain c cs where c: "?u = c # cs" using ne by (cases ?u) auto
  have "HasPrefix key ''../'' \<Longrightarrow> ?u = ''..''"
  proof -
    assume "HasPrefix key ''../''"
    then obtain v where v: "?u @ ''/'' @ Join ws ''/'' = ''../'' @ v" by (auto simp: key HasPrefix_iff)
    have "takeWhile (\<lambda>c. c \<noteq> CHR ''/'') (?u @ ''/'' @ Join ws ''/'') = ?u"
      using u(1) by (simp add: plain_elem_def takeWhile_append)
    then show ?thesis using v by simp
  qed
  moreover have "key \<noteq> ''.''" using ne J by (cases ?u) (auto simp: key)
  ultimately show "\<not> foreign_path key"
    using u(1) clean(2,3) by (auto simp: foreign_path_def key_def plain_elem_def)
qed

lemma session_key_owned:
  assumes "plain_login login"
  shows "IsSessionObjectOwnedByAccount acc (SessionPayloadObjectKey login)"
proof -
  let ?u = "NormalizeOSKELLYLoginKey login"
  have lits: "plain_elem ''latest.json''" "\<not> is_space (CHR ''n'')" by (simp_all add: plain_elem_def is_space_def)
  have u: "CountChar ?u (CHR ''/'') = 0"
    using plain_login_key(1) [OF assms] by (auto simp: plain_elem_def CountChar_def filter_empty_conv)
  note k = plain_key [OF assms, where ws = "[''latest.json'']"]
  have "SessionPayloadObjectKey login = ?u @ ''/'' @ ''latest.json''"
    using k(1) lits by (simp add: SessionPayloadObjectKey_def)
  then show ?thesis using k(2,3) lits u
    by (simp add: IsSessionObjectOwnedByAccount_def SessionPayloadObjectKey_def Let_def HasSuffix_iff CountChar_def)
qed

text \<open>
  C36.  The names the code gives to the session, the screenshots and the artifacts of a login without
  slash and white space pass the ownership checks of every account, the account that owns them among
  them.  The checks therefore never keep an account from its own objects, and never from another one's.
\<close>

theorem object_keys_owned_by_everyone:
  assumes "plain_login login"
  shows "IsSessionObjectOwnedByAccount acc (SessionPayloadObjectKey login) \<and>
    IsTaskArtifactOwnedByAccount acc (ScreenshotObjectKey login t) \<and>
    IsTaskArtifactOwnedByAccount acc (ExecutionArtifactObjectKey login t)"
proof -
  let ?u = "NormalizeOSKELLYLoginKey login"
  have lits: "plain_elem ''latest.json''" "plain_elem ''screenshot''" "plain_elem ''artifacts''"
    "\<not> is_space (CHR ''n'')" "\<not> is_space (CHR ''g'')" by (simp_all add: plain_elem_def is_space_def)
  have files: "plain_elem (formatKeyTimestamp t @ ''.png'')" "plain_elem (formatKeyTimestamp t @ ''.json'')"
    by (rule timestamp_file_plain, simp)+
  have task: "IsTaskArtifactOwnedByAccount acc (path_Join [?u, d, f])"
    if "d = ''screenshot'' \<or> d = ''artifacts''" "plain_elem d" "plain_elem f" "\<not> is_space (last f)" for d f
  proof -
    note k = plain_key [OF assms, where ws = "[d, f]"]
    have key: "path_Join [?u, d, f] = ?u @ (''/'' @ d @ ''/'') @ f" using k(1) that by simp
    have "Contains (path_Join [?u, d, f]) (''/'' @ d @ ''/'')" unfolding Contains_iff key by blast
    moreover have "\<not> CountChar (path_Join [?u, d, f]) (CHR ''/'') < 2" unfolding key by (simp add: CountChar_def)
    ultimately show ?thesis using k(2,3) that by (auto simp: IsTaskArtifactOwnedByAccount_def Let_def)
  qed
  show ?thesis using session_key_owned [OF assms] task files lits
    by (simp add: ScreenshotObjectKey_def ExecutionArtifactObjectKey_def)
qed

lemma object_keys_owned_by_everyone_witness:
  "IsSessionObjectOwnedByAccount ''another-account'' (SessionPayloadObjectKey ''User@Mail.ru'')"
  using object_keys_owned_by_everyone [of "''User@Mail.ru''" "''another-account''"] by code_simp

lemma TrimSpace_no_space: "list_all (\<lambda>x. \<not> is_space x) v \<Longrightarrow> TrimSpace v = v"
  by (cases "v = []") (auto simp: TrimSpace_ends list_all_iff)

text \<open>
  Full stops, hyphens and plus signs are dropped from a login, so two logins that differ by one of
  them in the local part name the same session object: saving one account's session moves the other's to
  the history and takes its place.
\<close>

theorem session_keys_collide:
  assumes "c \<in> set ''.-+''" "u \<noteq> ''''" "list_all (\<lambda>x. \<not> is_space x \<and> x \<noteq> CHR ''@'') (u @ v)"
    "list_all (\<lambda>x. \<not> is_space x) d"
  shows "SessionPayloadObjectKey (u @ [c] @ v @ ''@'' @ d) = SessionPayloadObjectKey (u @ v @ ''@'' @ d)"
proof -
  let ?L = "map to_lower_char"
  have c: "to_lower_char c = c" "\<not> is_space c" "c \<noteq> CHR ''@''" "c \<in> set ''@.-+''"
    using assms(1) by (auto simp: to_lower_char_def is_space_def)
  have at: "to_lower_char (CHR ''@'') = CHR ''@''" "\<not> is_space (CHR ''@'')"
    by (simp_all add: to_lower_char_def is_space_def)
  have low: "list_all (\<lambda>x. \<not> is_space x \<and> x \<noteq> CHR ''@'') (?L w)"
    if "list_all (\<lambda>x. \<not> is_space x \<and> x \<noteq> CHR ''@'') w" for w
    using that to_lower_char_space to_lower_char_keeps [of _ "CHR ''@''"] by (auto simp: list_all_iff)
  have key: "NormalizeOSKELLYLoginKey (w @ CHR ''@'' # d) =
      (let l = filter (\<lambda>c. c \<notin> set ''@.-+'') (?L w); r = normalizeLoginPart (?L d)
       in if l = '''' \<and> r = '''' then ''unknown'' else if l = '''' then r else if r = '''' then l else l @ ''_'' @ r)"
    if w: "list_all (\<lambda>x. \<not> is_space x \<and> x \<noteq> CHR ''@'') w" for w
  proof -
    have all: "list_all (\<lambda>x. \<not> is_space x) (w @ CHR ''@'' # d)" using w assms(4) at by (auto simp: list_all_iff)
    have n: "ToLower (TrimSpace (w @ CHR ''@'' # d)) = ?L w @ CHR ''@'' # ?L d"
      unfolding TrimSpace_no_space [OF all] by (simp add: ToLower_def at)
    have lw: "\<forall>x \<in> set (?L w). x \<noteq> CHR ''@'' \<and> \<not> is_space x" using low [OF w] by (auto simp: list_all_iff)
    have tw: "takeWhile (\<lambda>c. c \<noteq> CHR ''@'') (?L w @ CHR ''@'' # ?L d) = ?L w"
      and dw: "dropWhile (\<lambda>c. c \<noteq> CHR ''@'') (?L w @ CHR ''@'' # ?L d) = CHR ''@'' # ?L d"
      using lw by (induction w) simp_all
    have part: "normalizeLoginPart (?L w) = filter (\<lambda>c. c \<notin> set ''@.-+'') (?L w)"
      unfolding normalizeLoginPart_def using TrimSpace_no_space [of "?L w"] lw by (simp add: list_all_iff)
    show ?thesis unfolding NormalizeOSKELLYLoginKey_def n tw dw part list.sel Let_def by simp
  qed
  have same: "filter (\<lambda>c. c \<notin> set ''@.-+'') (?L (u @ [c] @ v)) = filter (\<lambda>c. c \<notin> set ''@.-+'') (?L (u @ v))"
    using c(1,4) by (simp only: map_append filter_append list.map filter.simps simp_thms if_False append_Nil)
  have "list_all (\<lambda>x. \<not> is_space x \<and> x \<noteq> CHR ''@'') (u @ [c] @ v)" using assms(3) c(2,3) by simp
  from key [OF this] key [OF assms(3)]
  have "NormalizeOSKELLYLoginKey ((u @ [c] @ v) @ CHR ''@'' # d) = NormalizeOSKELLYLoginKey ((u @ v) @ CHR ''@'' # d)"
    unfolding same by (rule trans [OF _ sym])
  then show ?thesis by (simp add: SessionPayloadObjectKey_def)
qed

lemma session_keys_collide_witness:
  "SessionPayloadObjectKey ''ann.lee@mail.ru'' = SessionPayloadObjectKey ''annlee@mail.ru''"
  using session_keys_collide [of "CHR ''.''" "''ann''" "''lee''" "''mail.ru''"] by (simp add: is_space_def)

end
