(* ===== verification/Storage.thy ===== *)
theory Storage
  imports Object_Keys Session_Repository
begin

text \<open>
  \<open>internal/storage\<close>: the stores for sessions, screenshots and execution artifacts, and the client they
  reach the object storage with.

  The interface \<open>sessionObjectClient\<close> is a record of its three methods; what the stores rely on is the
  locale \<open>object_storage\<close>: a put that succeeds writes the object, one that fails wrote it or not, a get
  returns what is there and says \<open>session_payload_missing\<close> only when nothing is, and no call touches
  anything else.  \<open>healthy_storage\<close> adds that calls succeed while the storage is healthy.
  \<open>MinioSessionObjectClient\<close> is built from the client of package minio, which is not part of the
  repository and is the parameter \<open>sdk\<close>; the interpretation gives it a bucket that can fail.

  The state is the database with the sequencer of \<open>object_keys.go\<close>; the storage itself is in what
  extends it.
\<close>

section \<open>Client\<close>

record storage = db +
  seq_last :: "string \<Rightarrow> time option"

record 'w object_client =
  oc_Put :: "go_context \<Rightarrow> string \<Rightarrow> string \<Rightarrow> bytes \<Rightarrow> 'w \<Rightarrow> go_error option \<times> 'w"
  oc_Get :: "go_context \<Rightarrow> string \<Rightarrow> string \<Rightarrow> 'w \<Rightarrow> (go_error + bytes) \<times> 'w"
  oc_Delete :: "go_context \<Rightarrow> string \<Rightarrow> string \<Rightarrow> 'w \<Rightarrow> go_error option \<times> 'w"

text \<open>
  Of minio: \<open>PutObject\<close> with its content type, \<open>GetObject\<close>, reading the object it returned to the end,
  \<open>RemoveObject\<close>, and \<open>errors.As\<close> for a \<open>minio.ErrorResponse\<close> with its status and code.
\<close>

record ('r, 'w) minio_sdk =
  sdk_PutObject :: "string \<Rightarrow> string \<Rightarrow> bytes \<Rightarrow> string \<Rightarrow> 'w \<Rightarrow> go_error option \<times> 'w"
  sdk_GetObject :: "string \<Rightarrow> string \<Rightarrow> 'w \<Rightarrow> (go_error + 'r) \<times> 'w"
  sdk_ReadAll :: "'r \<Rightarrow> 'w \<Rightarrow> (go_error + bytes) \<times> 'w"
  sdk_RemoveObject :: "string \<Rightarrow> string \<Rightarrow> 'w \<Rightarrow> go_error option \<times> 'w"
  sdk_response :: "go_error \<Rightarrow> (int \<times> string) option"

definition isMissingObjectError :: "(go_error \<Rightarrow> (int \<times> string) option) \<Rightarrow> go_error \<Rightarrow> bool" where
  "isMissingObjectError response err =
     (case response err of
        Some (status, code) \<Rightarrow> status = 404 \<or> code = ''NoSuchKey'' \<or> code = ''NoSuchObject''
      | None \<Rightarrow>
          let message = ToLower (error_text err) in
          Contains message ''no such key'' \<or> Contains message ''specified key does not exist'' \<or>
          Contains message ''not found'')"

definition contentTypeForObject :: "string \<Rightarrow> bytes \<Rightarrow> string" where
  "contentTypeForObject objectKey payload =
     (let normalizedKey = ToLower (TrimSpace objectKey) in
      if HasSuffix normalizedKey ''.png'' \<or> take 4 payload = [0x89, 0x50, 0x4e, 0x47] then ''image/png''
      else if HasSuffix normalizedKey ''.json'' then ''application/json''
      else ''application/octet-stream'')"

definition Minio_Put ::
  "('r, 'w) minio_sdk \<Rightarrow> go_context \<Rightarrow> string \<Rightarrow> string \<Rightarrow> bytes \<Rightarrow> 'w \<Rightarrow> go_error option \<times> 'w" where
  "Minio_Put sdk ctx bucket objectKey payload w =
     (case sdk_PutObject sdk bucket objectKey payload (contentTypeForObject objectKey payload) w of
        (err, w1) \<Rightarrow> (WithStack err, w1))"

definition Minio_Get ::
  "('r, 'w) minio_sdk \<Rightarrow> go_context \<Rightarrow> string \<Rightarrow> string \<Rightarrow> 'w \<Rightarrow> (go_error + bytes) \<times> 'w" where
  "Minio_Get sdk ctx bucket objectKey w =
     (case sdk_GetObject sdk bucket objectKey w of
        (Inl err, w1) \<Rightarrow> (Inl (with_stack err), w1)
      | (Inr object, w1) \<Rightarrow>
        (case sdk_ReadAll sdk object w1 of
           (Inl err, w2) \<Rightarrow>
             if isMissingObjectError (sdk_response sdk) err then
               (Inl (NewDomainError ErrorCodeSessionPayloadMissing
                       (''session payload object '' @ Quoted objectKey @ '' is missing'')), w2)
             else (Inl (with_stack err), w2)
         | (Inr payload, w2) \<Rightarrow> (Inr payload, w2)))"

definition Minio_Delete ::
  "('r, 'w) minio_sdk \<Rightarrow> go_context \<Rightarrow> string \<Rightarrow> string \<Rightarrow> 'w \<Rightarrow> go_error option \<times> 'w" where
  "Minio_Delete sdk ctx bucket objectKey w = sdk_RemoveObject sdk bucket objectKey w"

definition NewMinioSessionObjectClient :: "('r, 'w) minio_sdk \<Rightarrow> 'w object_client" where
  "NewMinioSessionObjectClient sdk =
     \<lparr>oc_Put = Minio_Put sdk, oc_Get = Minio_Get sdk, oc_Delete = Minio_Delete sdk\<rparr>"


section \<open>Stores\<close>

text \<open>\<open>SessionStore\<close>, \<open>ScreenshotStore\<close> and \<open>ArtifactStore\<close> hold the same two fields.\<close>

record 'w object_store =
  os_client :: "'w object_client"
  os_bucket :: string

definition next_timestamp ::
  "string \<Rightarrow> string \<Rightarrow> 'x storage_scheme \<Rightarrow> time \<times> 'x storage_scheme" where
  "next_timestamp ownerKey kind w =
     (case NextUniqueKeyTimestamp ownerKey kind (db_now w) (seq_last w) of
        (t, lasts) \<Rightarrow> (t, w\<lparr>seq_last := lasts\<rparr>))"

text \<open>
  \<open>SessionStore.Save\<close>.  The file holds an unresolved merge conflict around the two error returns after
  the first put; its sides differ in a \<open>stackerr.WithStack\<close> only, and the second side is modelled.
\<close>

definition SessionStore_Save ::
  "'x storage_scheme object_store \<Rightarrow> go_context \<Rightarrow> uuid \<Rightarrow> string \<Rightarrow> int \<Rightarrow> bytes \<Rightarrow> 'x storage_scheme \<Rightarrow>
   (go_error + string) \<times> 'x storage_scheme" where
  "SessionStore_Save st ctx accountID accountLogin revision payload w =
     (if accountID = uuid_Nil then
        (Inl (NewDomainError ErrorCodeInvalidAccountIdentifier
                ''session payload save requires non-empty account id''), w)
      else if revision \<le> 0 then
        (Inl (NewDomainError ErrorCodeInvalidSessionRevision
                (''session revision must be positive, got '' @ Itoa revision)), w)
      else if \<not> json_Valid payload then
        (Inl (NewDomainError ErrorCodeSessionPayloadInvalid ''session payload must be valid JSON''), w)
      else
        let ownerKey = ResolveObjectOwnerKey accountLogin accountID;
            objectKey = SessionPayloadObjectKey ownerKey;
            (history, w2) =
              (case oc_Get (os_client st) ctx (os_bucket st) objectKey w of
                 (Inr existingPayload, w1) \<Rightarrow>
                   (let (t, w1') = next_timestamp ownerKey ''history'' w1
                    in oc_Put (os_client st) ctx (os_bucket st) (SessionHistoryObjectKey ownerKey t)
                         existingPayload w1')
               | (Inl err, w1) \<Rightarrow>
                   if \<not> IsDomainErrorCode (Some err) ErrorCodeSessionPayloadMissing then (Some err, w1)
                   else (None, w1))
        in case history of
             Some err \<Rightarrow> (Inl (with_stack err), w2)
           | None \<Rightarrow>
             (case oc_Put (os_client st) ctx (os_bucket st) objectKey payload w2 of
                (Some err, w3) \<Rightarrow> (Inl (with_stack err), w3)
              | (None, w3) \<Rightarrow> (Inr objectKey, w3)))"

definition SessionStore_Load ::
  "'w object_store \<Rightarrow> go_context \<Rightarrow> uuid \<Rightarrow> string \<Rightarrow> 'w \<Rightarrow> (go_error + bytes) \<times> 'w" where
  "SessionStore_Load st ctx accountID objectKey w =
     (if \<not> IsSessionObjectOwnedByAccount accountID objectKey then
        (Inl (NewDomainError ErrorCodeSessionOwnershipMismatch
                (''session object '' @ Quoted objectKey @ '' does not belong to account '' @ accountID)), w)
      else case oc_Get (os_client st) ctx (os_bucket st) objectKey w of
        (Inl err, w1) \<Rightarrow> (Inl (with_stack err), w1)
      | (Inr payload, w1) \<Rightarrow>
          if \<not> json_Valid payload then
            (Inl (NewDomainError ErrorCodeSessionPayloadCorrupted
                    (''session object '' @ Quoted objectKey @ '' contains invalid JSON'')), w1)
          else (Inr payload, w1))"

definition Store_Delete :: "'w object_store \<Rightarrow> go_context \<Rightarrow> string \<Rightarrow> 'w \<Rightarrow> go_error option \<times> 'w" where
  "Store_Delete st ctx objectKey w = oc_Delete (os_client st) ctx (os_bucket st) objectKey w"

definition ScreenshotStore_Save ::
  "'x storage_scheme object_store \<Rightarrow> go_context \<Rightarrow> uuid \<Rightarrow> string \<Rightarrow> bytes \<Rightarrow> 'x storage_scheme \<Rightarrow>
   (go_error + string) \<times> 'x storage_scheme" where
  "ScreenshotStore_Save st ctx accountID accountLogin payload w =
     (if accountID = uuid_Nil then
        (Inl (NewDomainError ErrorCodeInvalidAccountIdentifier
                ''screenshot save requires non-empty account id''), w)
      else if payload = [] then
        (Inl (NewDomainError ErrorCodeArtifactPersistFailed ''screenshot payload must not be empty''), w)
      else
        let ownerKey = ResolveObjectOwnerKey accountLogin accountID;
            (t, w1) = next_timestamp ownerKey ''screenshot'' w;
            objectKey = ScreenshotObjectKey ownerKey t
        in case oc_Put (os_client st) ctx (os_bucket st) objectKey payload w1 of
             (Some err, w2) \<Rightarrow>
               (Inl (NewDomainError ErrorCodeArtifactPersistFailed
                       (''save screenshot object '' @ Quoted objectKey @ '': '' @ error_text err)), w2)
           | (None, w2) \<Rightarrow> (Inr objectKey, w2))"

definition ScreenshotStore_Load ::
  "'w object_store \<Rightarrow> go_context \<Rightarrow> uuid \<Rightarrow> string \<Rightarrow> 'w \<Rightarrow> (go_error + bytes) \<times> 'w" where
  "ScreenshotStore_Load st ctx accountID objectKey w =
     (if \<not> IsTaskArtifactOwnedByAccount accountID objectKey then
        (Inl (NewDomainError ErrorCodeSessionOwnershipMismatch
                (''screenshot object '' @ Quoted objectKey @ '' does not belong to account '' @ accountID)), w)
      else case oc_Get (os_client st) ctx (os_bucket st) objectKey w of
        (Inl err, w1) \<Rightarrow>
          (Inl (NewDomainError ErrorCodeArtifactPersistFailed
                  (''load screenshot object '' @ Quoted objectKey @ '': '' @ error_text err)), w1)
      | (Inr payload, w1) \<Rightarrow> (Inr payload, w1))"

definition ArtifactStore_Save ::
  "'x storage_scheme object_store \<Rightarrow> go_context \<Rightarrow> uuid \<Rightarrow> string \<Rightarrow> bytes \<Rightarrow> 'x storage_scheme \<Rightarrow>
   (go_error + string) \<times> 'x storage_scheme" where
  "ArtifactStore_Save st ctx accountID accountLogin payload w =
     (if accountID = uuid_Nil then
        (Inl (NewDomainError ErrorCodeInvalidAccountIdentifier
                ''artifact save requires non-empty account id''), w)
      else if payload = [] then
        (Inl (NewDomainError ErrorCodeArtifactPersistFailed ''artifact payload must not be empty''), w)
      else
        let ownerKey = ResolveObjectOwnerKey accountLogin accountID;
            (t, w1) = next_timestamp ownerKey ''artifact'' w;
            objectKey = ExecutionArtifactObjectKey ownerKey t
        in case oc_Put (os_client st) ctx (os_bucket st) objectKey payload w1 of
             (Some err, w2) \<Rightarrow>
               (Inl (NewDomainError ErrorCodeArtifactPersistFailed
                       (''save artifact object '' @ Quoted objectKey @ '': '' @ error_text err)), w2)
           | (None, w2) \<Rightarrow> (Inr objectKey, w2))"



section \<open>The interface of the object storage\<close>

text \<open>What is stored is a map of bucket and key, read off what extends the state.\<close>

locale object_storage =
  fixes client :: "'x storage_scheme object_client"
    and view :: "'x storage_scheme \<Rightarrow> string \<times> string \<Rightarrow> bytes option"
  assumes view_ext: "storage.more w' = storage.more w \<Longrightarrow> view w' = view w"
    and put_ok: "oc_Put client ctx b k p w = (None, w') \<Longrightarrow>
      view w' = (view w)((b, k) \<mapsto> p)"
    and put_err: "oc_Put client ctx b k p w = (Some e, w') \<Longrightarrow>
      view w' = view w \<or>
      view w' = (view w)((b, k) \<mapsto> p)"
    and get_ok: "oc_Get client ctx b k w = (Inr p, w') \<Longrightarrow>
      view w (b, k) = Some p \<and> view w' = view w"
    and get_err: "oc_Get client ctx b k w = (Inl e, w') \<Longrightarrow>
      view w' = view w \<and>
      (IsDomainErrorCode (Some e) ErrorCodeSessionPayloadMissing \<longrightarrow> view w (b, k) = None)"
    and del_ok: "oc_Delete client ctx b k w = (None, w') \<Longrightarrow>
      view w' = (view w)((b, k) := None)"
    and del_err: "oc_Delete client ctx b k w = (Some e, w') \<Longrightarrow>
      view w' = view w \<or>
      view w' = (view w)((b, k) := None)"
    and frame: "oc_Put client ctx b k p w = (err, w') \<Longrightarrow> storage.truncate w' = storage.truncate w"
      "oc_Get client ctx b k w = (res, w'') \<Longrightarrow> storage.truncate w'' = storage.truncate w"
      "oc_Delete client ctx b k w = (err', w''') \<Longrightarrow> storage.truncate w''' = storage.truncate w"

locale healthy_storage = object_storage +
  fixes healthy :: "'a storage_scheme \<Rightarrow> bool"
  assumes healthy_ext: "storage.more w' = storage.more w \<Longrightarrow> healthy w' = healthy w"
    and put_healthy: "healthy w \<Longrightarrow>
      \<exists>w'. oc_Put client ctx b k p w = (None, w') \<and> healthy w'"
    and get_healthy: "healthy w \<Longrightarrow> \<exists>w'. healthy w' \<and>
      (case view w (b, k) of
         Some p \<Rightarrow> oc_Get client ctx b k w = (Inr p, w')
       | None \<Rightarrow> (\<exists>e. oc_Get client ctx b k w = (Inl e, w') \<and>
                      IsDomainErrorCode (Some e) ErrorCodeSessionPayloadMissing))"
    and del_healthy: "healthy w \<Longrightarrow>
      \<exists>w'. oc_Delete client ctx b k w = (None, w') \<and> healthy w'"

text \<open>The database part of the state.\<close>

definition db_part :: "'x storage_scheme \<Rightarrow> db" where
  "db_part w = db.truncate w"

lemma db_part_truncate: "storage.truncate w' = storage.truncate w \<Longrightarrow> db_part w' = db_part w \<and> seq_last w' = seq_last w"
  by (simp add: db_part_def storage.defs db.defs)

lemma next_timestamp_db:
  "next_timestamp owner kind w = (t, w') \<Longrightarrow> db_part w' = db_part w \<and> storage.more w' = storage.more w"
  by (auto simp: next_timestamp_def db_part_def db.defs split: prod.splits)

text \<open>An older session never gets the name of the latest one.\<close>

lemma path_Join_last:
  assumes "plain_elem f" "u \<noteq> ''''"
  shows "\<exists>v. path_Join [u, f] = v @ f"
proof -
  have ne: "f \<noteq> ''''" using assms(1) by (simp add: plain_elem_def)
  have j: "filter (\<lambda>w. w \<noteq> '''') [u, f] = [u, f]" using assms(2) ne by simp
  have join: "Join [u, f] ''/'' = u @ CHR ''/'' # f" by simp
  have split: "split_path (u @ CHR ''/'' # f) = split_path u @ [f]"
    using assms(1) by (simp add: split_path_slash split_path_plain plain_elem_def)
  let ?pre = "\<lambda>r. clean_elems r [] (split_path u)"
  have clean: "clean_elems r [] (split_path u @ [f]) = ?pre r @ [f]" for r
    using assms(1) by (simp only: clean_elems_snoc)
  have "\<exists>v. Join (?pre r @ [f]) ''/'' = v @ f" for r
    by (cases "?pre r = []") (auto simp: Join_snoc)
  then obtain v where "\<And>r. Join (?pre r @ [f]) ''/'' = v r @ f" by metis
  then have J: "Join (?pre r @ [f]) ''/'' = v r @ f" for r .
  have nn: "v r @ f \<noteq> ''''" for r using ne by simp
  have "path_Join [u, f] = (if HasPrefix (u @ CHR ''/'' # f) ''/'' then CHR ''/'' # v True @ f else v False @ f)"
    unfolding path_Join_def Let_def j join path_Clean_def split clean J using ne nn by simp
  then have "path_Join [u, f] = (CHR ''/'' # v True) @ f \<or> path_Join [u, f] = v False @ f" by simp
  then show ?thesis by blast
qed

lemma history_key_differs: "SessionHistoryObjectKey owner t \<noteq> SessionPayloadObjectKey owner"
proof
  assume eq: "SessionHistoryObjectKey owner t = SessionPayloadObjectKey owner"
  let ?u = "NormalizeOSKELLYLoginKey owner"
  have u: "?u \<noteq> ''''" by (rule NormalizeOSKELLYLoginKey_nonempty)
  have "plain_elem ''latest.json''" "plain_elem ''history''" by (simp_all add: plain_elem_def)
  note plain = this
  obtain v where v: "SessionPayloadObjectKey owner = v @ ''latest.json''"
    using path_Join_last [OF plain(1) u] unfolding SessionPayloadObjectKey_def by blast
  have named: "plain_elem (formatKeyTimestamp t @ ''.json'')" by (rule timestamp_file_plain) simp
  have "\<exists>w. SessionHistoryObjectKey owner t = w @ formatKeyTimestamp t @ ''.json''"
    unfolding SessionHistoryObjectKey_def path_Join_file [OF plain(2) named u] Let_def
    by (intro exI) (simp only: append_assoc [symmetric])
  then obtain w where w: "SessionHistoryObjectKey owner t = w @ formatKeyTimestamp t @ ''.json''" by blast
  obtain p n where p: "formatKeyTimestamp t = p @ pad2 n" "n < 100"
  proof -
    let ?s = "t div nanos_per_second"
    obtain y m d where c: "civil_date (?s div 86400) = (y, m, d)" by (cases "civil_date (?s div 86400)") auto
    have "nat (?s mod 86400) mod 60 < 100" using mod_less_divisor [of 60 "nat (?s mod 86400)"] by linarith
    then show thesis using that [of "pad_year y @ ''-'' @ pad2 m @ ''-'' @ pad2 d @ ''-'' @
         pad2 (nat (?s mod 86400) div 3600) @ pad2 (nat (?s mod 86400) mod 3600 div 60)"] c
      by (simp add: formatKeyTimestamp_def Let_def)
  qed
  have "(w @ p @ pad2 n) @ ''.json'' = (v @ ''latest'') @ ''.json''" using eq v w p(1) by simp
  then have "w @ p @ pad2 n = v @ ''latest''" by (simp only: append_same_eq)
  then have "digit_char (n mod 10) = CHR ''t''" by (simp add: pad2_def flip: append_assoc)
  then have "48 + n mod 10 = of_char (CHR ''t'')" using digit_char_val [of "n mod 10"] by simp
  then show False by simp
qed


section \<open>What the stores guarantee on any such client\<close>

context object_storage
begin

lemma Delete_effect:
  assumes "Store_Delete \<lparr>os_client = client, os_bucket = b\<rparr> ctx key w = (err, w')"
  shows "(view w' = view w \<or> view w' = (view w)((b, key) := None)) \<and>
    (err = None \<longrightarrow> view w' (b, key) = None) \<and> db_part w' = db_part w \<and> seq_last w' = seq_last w"
  using assms del_ok [of ctx b key w w'] del_err [of ctx b key w] frame(3) [of ctx b key w err w'] db_part_truncate
  by (cases err) (auto simp: Store_Delete_def)

lemma Load_effect:
  assumes "SessionStore_Load \<lparr>os_client = client, os_bucket = b\<rparr> ctx acc key w = (r, w')"
  shows "view w' = view w \<and> db_part w' = db_part w \<and> seq_last w' = seq_last w \<and>
    (\<forall>p. r = Inr p \<longrightarrow> view w (b, key) = Some p \<and> json_Valid p \<and> IsSessionObjectOwnedByAccount acc key)"
proof (cases "IsSessionObjectOwnedByAccount acc key")
  case True
  obtain g w1 where g: "oc_Get client ctx b key w = (g, w1)" by (cases "oc_Get client ctx b key w")
  have "w' = w1" using assms True g by (auto simp: SessionStore_Load_def split: sum.splits if_splits)
  moreover have "view w1 = view w" using g get_ok get_err by (cases g) auto
  ultimately show ?thesis
    using assms True g get_ok [of ctx b key w] db_part_truncate frame(2) [OF g]
    by (auto simp: SessionStore_Load_def split: sum.splits if_splits)
qed (use assms in \<open>auto simp: SessionStore_Load_def\<close>)

text \<open>
  A save touches two names, the latest session and one older one; it never loses the payload that was
  there, and says where the new one is only when it is there.
\<close>

lemma Save_effect:
  assumes run: "SessionStore_Save \<lparr>os_client = client, os_bucket = b\<rparr> ctx acc login revision payload w = (r, w')"
  defines "owner \<equiv> ResolveObjectOwnerKey login acc"
  defines "key \<equiv> SessionPayloadObjectKey owner"
  shows "\<exists>t. db_part w' = db_part w \<and>
    (\<forall>k. k \<noteq> (b, key) \<longrightarrow> k \<noteq> (b, SessionHistoryObjectKey owner t) \<longrightarrow> view w' k = view w k) \<and>
    view w' (b, key) \<in> {view w (b, key), Some payload} \<and>
    (\<forall>p. view w (b, key) = Some p \<longrightarrow>
       view w' (b, key) = Some p \<or> view w' (b, SessionHistoryObjectKey owner t) = Some p) \<and>
    (\<forall>k. r = Inr k \<longrightarrow> k = key \<and> view w' (b, key) = Some payload \<and> json_Valid payload \<and>
       acc \<noteq> uuid_Nil \<and> 0 < revision)"
proof (cases "acc = uuid_Nil \<or> revision \<le> 0 \<or> \<not> json_Valid payload")
  case True
  then have "w' = w" "\<exists>e. r = Inl e"
    using run by (cases "acc = uuid_Nil"; cases "revision \<le> 0"; simp add: SessionStore_Save_def; blast?)+
  then show ?thesis by (intro exI [of _ 0]) (elim exE; simp)
next
  case False
  obtain g w1 where g: "oc_Get client ctx b key w = (g, w1)" by (cases "oc_Get client ctx b key w")
  have "view w1 = view w" using g get_ok get_err by (cases g) auto
  moreover have "db_part w1 = db_part w" using db_part_truncate [OF frame(2) [OF g]] by simp
  ultimately have o1: "view w1 = view w" "db_part w1 = db_part w" by simp_all
  obtain t w1' where t: "next_timestamp owner ''history'' w1 = (t, w1')" by (cases "next_timestamp owner ''history'' w1")
  have "view w1' = view w1" by (rule view_ext) (use next_timestamp_db [OF t] in simp)
  then have o1': "view w1' = view w" "db_part w1' = db_part w" using next_timestamp_db [OF t] o1 by simp_all
  let ?hist = "(b, SessionHistoryObjectKey owner t)"
  have hk: "?hist \<noteq> (b, key)" using history_key_differs by (simp add: key_def)
  define h where "h = (case g of
      Inr p0 \<Rightarrow> oc_Put client ctx b (SessionHistoryObjectKey owner t) p0 w1'
    | Inl e \<Rightarrow> if \<not> IsDomainErrorCode (Some e) ErrorCodeSessionPayloadMissing then (Some e, w1) else (None, w1))"
  obtain herr w2 where h2: "h = (herr, w2)" by (cases h)
  have rest: "(case herr of
      Some err \<Rightarrow> (Inl (with_stack err), w2)
    | None \<Rightarrow> (case oc_Put client ctx b key payload w2 of
         (Some err, w3) \<Rightarrow> (Inl (with_stack err), w3) | (None, w3) \<Rightarrow> (Inr key, w3))) = (r, w')"
    using run False g t h2
    by (cases g) (simp_all add: SessionStore_Save_def Let_def h_def key_def flip: owner_def
        cong del: option.case_cong_weak)
  have step1: "db_part w2 = db_part w \<and> (\<forall>k. k \<noteq> ?hist \<longrightarrow> view w2 k = view w k) \<and>
      (herr = None \<longrightarrow> (\<forall>p. view w (b, key) = Some p \<longrightarrow> view w2 ?hist = Some p))"
  proof (cases g)
    case (Inl e)
    then show ?thesis using h2 g get_err [of ctx b key w e w1] o1 by (auto simp: h_def split: if_splits)
  next
    case (Inr p0)
    then have put: "oc_Put client ctx b (SessionHistoryObjectKey owner t) p0 w1' = (herr, w2)" using h2 by (simp add: h_def)
    have "view w (b, key) = Some p0" using g Inr get_ok by blast
    moreover have "view w2 = view w \<and> herr \<noteq> None \<or> view w2 = (view w)(?hist \<mapsto> p0)"
      using put put_ok put_err unfolding o1'(1) [symmetric] by (cases herr) auto
    ultimately show ?thesis using o1' db_part_truncate [OF frame(1) [OF put]] by auto
  qed
  show ?thesis
  proof (cases herr)
    case (Some e)
    then show ?thesis using rest step1 hk by (intro exI [of _ t]) auto
  next
    case None
    obtain perr w3 where p: "oc_Put client ctx b key payload w2 = (perr, w3)" by (cases "oc_Put client ctx b key payload w2")
    have w': "w' = w3" "r = (case perr of Some e \<Rightarrow> Inl (with_stack e) | None \<Rightarrow> Inr key)"
      using rest None p by (auto split: option.splits)
    have "view w3 = view w2 \<and> perr \<noteq> None \<or> view w3 = (view w2)((b, key) \<mapsto> payload)"
      using p put_ok put_err by (cases perr) auto
    moreover have "db_part w3 = db_part w" using step1 db_part_truncate [OF frame(1) [OF p]] by simp
    ultimately show ?thesis using step1 None hk w' False
      by (intro exI [of _ t]) (auto split: option.splits)
  qed
qed

end

context healthy_storage
begin

lemma Save_succeeds:
  assumes "healthy w" "acc \<noteq> uuid_Nil" "0 < revision" "json_Valid payload"
  shows "\<exists>w'. SessionStore_Save \<lparr>os_client = client, os_bucket = b\<rparr> ctx acc login revision payload w =
      (Inr (SessionPayloadObjectKey (ResolveObjectOwnerKey login acc)), w') \<and> healthy w'"
proof -
  let ?owner = "ResolveObjectOwnerKey login acc" let ?key = "SessionPayloadObjectKey ?owner"
  obtain w1 where h1: "healthy w1" and g: "case view w (b, ?key) of
       Some p \<Rightarrow> oc_Get client ctx b ?key w = (Inr p, w1)
     | None \<Rightarrow> (\<exists>e. oc_Get client ctx b ?key w = (Inl e, w1) \<and> IsDomainErrorCode (Some e) ErrorCodeSessionPayloadMissing)"
    using get_healthy [OF assms(1), of ctx b ?key] by blast
  obtain t w1' where t: "next_timestamp ?owner ''history'' w1 = (t, w1')" by (cases "next_timestamp ?owner ''history'' w1")
  have "healthy w1' = healthy w1" by (rule healthy_ext) (use next_timestamp_db [OF t] in simp)
  then have h1': "healthy w1'" using h1 by simp
  show ?thesis
  proof (cases "view w (b, ?key)")
    case None
    obtain w3 where "oc_Put client ctx b ?key payload w1 = (None, w3)" "healthy w3"
      using put_healthy [OF h1] by blast
    then show ?thesis using None g assms(2-4) by (auto simp: SessionStore_Save_def Let_def)
  next
    case (Some p)
    obtain w2 where p2: "oc_Put client ctx b (SessionHistoryObjectKey ?owner t) p w1' = (None, w2)"
      and h2: "healthy w2" using put_healthy [OF h1'] by blast
    obtain w3 where "oc_Put client ctx b ?key payload w2 = (None, w3)" "healthy w3"
      using put_healthy [OF h2] by blast
    then show ?thesis using Some g p2 t assms(2-4) by (auto simp: SessionStore_Save_def Let_def)
  qed
qed

lemma Load_succeeds:
  assumes "healthy w" "IsSessionObjectOwnedByAccount acc key" "view w (b, key) = Some p"
    "json_Valid p"
  shows "\<exists>w'. SessionStore_Load \<lparr>os_client = client, os_bucket = b\<rparr> ctx acc key w = (Inr p, w') \<and>
      healthy w'"
  using get_healthy [OF assms(1), of ctx b key] assms(2-4) by (auto simp: SessionStore_Load_def)

lemma Load_missing:
  assumes "healthy w" "IsSessionObjectOwnedByAccount acc key" "view w (b, key) = None"
  shows "\<exists>e w'. SessionStore_Load \<lparr>os_client = client, os_bucket = b\<rparr> ctx acc key w = (Inl e, w') \<and>
      IsDomainErrorCode (Some e) ErrorCodeSessionPayloadMissing \<and> healthy w'"
  using get_healthy [OF assms(1), of ctx b key] assms(2,3) by (auto simp: SessionStore_Load_def)

lemma Delete_succeeds:
  assumes "healthy w"
  shows "\<exists>w'. Store_Delete \<lparr>os_client = client, os_bucket = b\<rparr> ctx key w = (None, w') \<and> healthy w'"
  using del_healthy [OF assms] by (simp add: Store_Delete_def)

end


section \<open>The client of package minio\<close>

text \<open>
  What is relied on of minio: a read returns the object the reader was made for or an error; an error that
  looks like a missing object is given only when there is none; no error of minio is a domain error.
\<close>

locale minio_bucket =
  fixes sdk :: "('r, 'x storage_scheme) minio_sdk"
    and view :: "'x storage_scheme \<Rightarrow> string \<times> string \<Rightarrow> bytes option"
    and target :: "'r \<Rightarrow> string \<times> string"
  assumes sdk_ext: "storage.more w' = storage.more w \<Longrightarrow> view w' = view w"
    and put_done: "sdk_PutObject sdk b k p ct w = (None, w') \<Longrightarrow> view w' = (view w)((b, k) \<mapsto> p)"
    and put_failed: "sdk_PutObject sdk b k p ct w = (Some e, w') \<Longrightarrow>
      view w' = view w \<or> view w' = (view w)((b, k) \<mapsto> p)"
    and open_object: "sdk_GetObject sdk b k w = (res, w') \<Longrightarrow> view w' = view w \<and>
      (case res of Inr rd \<Rightarrow> target rd = (b, k) | Inl e \<Rightarrow> as_domain e = None)"
    and read_object: "sdk_ReadAll sdk rd w = (bs, w') \<Longrightarrow> view w' = view w \<and>
      (case bs of Inr p \<Rightarrow> view w (target rd) = Some p
       | Inl e \<Rightarrow> as_domain e = None \<and>
           (isMissingObjectError (sdk_response sdk) e \<longrightarrow> view w (target rd) = None))"
    and remove_done: "sdk_RemoveObject sdk b k w = (None, w') \<Longrightarrow> view w' = (view w)((b, k) := None)"
    and remove_failed: "sdk_RemoveObject sdk b k w = (Some e, w') \<Longrightarrow>
      view w' = view w \<or> view w' = (view w)((b, k) := None)"
    and sdk_frame: "sdk_PutObject sdk b k p ct w = (err, w') \<Longrightarrow> storage.truncate w' = storage.truncate w"
      "sdk_GetObject sdk b k w = (res, w') \<Longrightarrow> storage.truncate w' = storage.truncate w"
      "sdk_ReadAll sdk rd w = (bs, w') \<Longrightarrow> storage.truncate w' = storage.truncate w"
      "sdk_RemoveObject sdk b k w = (err, w') \<Longrightarrow> storage.truncate w' = storage.truncate w"

sublocale minio_bucket \<subseteq> object_storage "NewMinioSessionObjectClient sdk" view
proof
  show "view w' = view w" if "storage.more w' = storage.more w" for w w' by (rule sdk_ext [OF that])
next
  fix ctx b k p w w'
  show "oc_Put (NewMinioSessionObjectClient sdk) ctx b k p w = (None, w') \<Longrightarrow> view w' = (view w)((b, k) \<mapsto> p)"
    using put_done by (auto simp: NewMinioSessionObjectClient_def Minio_Put_def WithStack_def split: prod.splits)
  show "oc_Put (NewMinioSessionObjectClient sdk) ctx b k p w = (Some e, w') \<Longrightarrow>
      view w' = view w \<or> view w' = (view w)((b, k) \<mapsto> p)" for e
    using put_failed by (fastforce simp: NewMinioSessionObjectClient_def Minio_Put_def WithStack_def split: prod.splits)
  show "oc_Put (NewMinioSessionObjectClient sdk) ctx b k p w = (err, w') \<Longrightarrow>
      storage.truncate w' = storage.truncate w" for err
    using sdk_frame(1) by (auto simp: NewMinioSessionObjectClient_def Minio_Put_def split: prod.splits)
next
  fix ctx b k w w' res
  assume get: "oc_Get (NewMinioSessionObjectClient sdk) ctx b k w = (res, w')"
  obtain ob w1 where o1: "sdk_GetObject sdk b k w = (ob, w1)" by (cases "sdk_GetObject sdk b k w")
  show "storage.truncate w' = storage.truncate w"
  proof (cases ob)
    case (Inl e')
    then show ?thesis using get o1 sdk_frame(2) [OF o1] by (auto simp: NewMinioSessionObjectClient_def Minio_Get_def)
  next
    case (Inr rd)
    obtain bs w2 where r: "sdk_ReadAll sdk rd w1 = (bs, w2)" by (cases "sdk_ReadAll sdk rd w1")
    have "w' = w2" using get o1 Inr r
      by (auto simp: NewMinioSessionObjectClient_def Minio_Get_def split: sum.splits if_splits)
    then show ?thesis using sdk_frame(2) [OF o1] sdk_frame(3) [OF r] by simp
  qed
next
  fix ctx b k w w' p
  assume get: "oc_Get (NewMinioSessionObjectClient sdk) ctx b k w = (Inr p, w')"
  obtain ob w1 where o1: "sdk_GetObject sdk b k w = (ob, w1)" by (cases "sdk_GetObject sdk b k w")
  show "view w (b, k) = Some p \<and> view w' = view w"
  proof (cases ob)
    case (Inl e')
    then show ?thesis using get o1 by (auto simp: NewMinioSessionObjectClient_def Minio_Get_def)
  next
    case (Inr rd)
    obtain bs w2 where r: "sdk_ReadAll sdk rd w1 = (bs, w2)" by (cases "sdk_ReadAll sdk rd w1")
    have "w' = w2 \<and> bs = Inr p" using get o1 Inr r
      by (auto simp: NewMinioSessionObjectClient_def Minio_Get_def split: sum.splits if_splits)
    then show ?thesis using Inr open_object [OF o1] read_object [OF r] by simp
  qed
next
  fix ctx b k w w' e
  assume get: "oc_Get (NewMinioSessionObjectClient sdk) ctx b k w = (Inl e, w')"
  obtain ob w1 where o1: "sdk_GetObject sdk b k w = (ob, w1)" by (cases "sdk_GetObject sdk b k w")
  show "view w' = view w \<and> (IsDomainErrorCode (Some e) ErrorCodeSessionPayloadMissing \<longrightarrow> view w (b, k) = None)"
  proof (cases ob)
    case (Inl e')
    then show ?thesis using get o1 open_object [OF o1]
      by (auto simp: NewMinioSessionObjectClient_def Minio_Get_def)
  next
    case (Inr rd)
    obtain bs w2 where r: "sdk_ReadAll sdk rd w1 = (bs, w2)" by (cases "sdk_ReadAll sdk rd w1")
    show ?thesis using get o1 Inr r open_object [OF o1] read_object [OF r]
      by (auto simp: NewMinioSessionObjectClient_def Minio_Get_def split: sum.splits if_splits)
  qed
next
  fix ctx b k w w'
  show "oc_Delete (NewMinioSessionObjectClient sdk) ctx b k w = (None, w') \<Longrightarrow> view w' = (view w)((b, k) := None)"
    using remove_done by (simp add: NewMinioSessionObjectClient_def Minio_Delete_def)
  show "oc_Delete (NewMinioSessionObjectClient sdk) ctx b k w = (Some e, w') \<Longrightarrow>
      view w' = view w \<or> view w' = (view w)((b, k) := None)" for e
    using remove_failed by (simp add: NewMinioSessionObjectClient_def Minio_Delete_def)
  show "oc_Delete (NewMinioSessionObjectClient sdk) ctx b k w = (err, w') \<Longrightarrow>
      storage.truncate w' = storage.truncate w" for err
    using sdk_frame(4) by (simp add: NewMinioSessionObjectClient_def Minio_Delete_def)
qed


section \<open>A bucket\<close>

text \<open>
  The state of the whole program: the database, the sequencer, and the objects of the storage with the
  faults its next calls meet.  \<open>bucket_sdk\<close> is a client of minio on it.
\<close>

record world = storage +
  w_objects :: "string \<times> string \<Rightarrow> bytes option"
  w_object_faults :: "db_fault list"

definition pop_object_fault :: "'z world_scheme \<Rightarrow> db_fault \<times> 'z world_scheme" where
  "pop_object_fault w =
     (case w_object_faults w of [] \<Rightarrow> (NoFault, w) | f # fs \<Rightarrow> (f, w\<lparr>w_object_faults := fs\<rparr>))"

definition s3_error :: "go_error \<Rightarrow> go_error" where
  "s3_error e = PlainErr (''s3: '' @ error_text e)"

definition no_such_key :: go_error where
  "no_such_key = PlainErr ''The specified key does not exist.''"

definition bucket_write ::
  "string \<Rightarrow> string \<Rightarrow> bytes option \<Rightarrow> 'z world_scheme \<Rightarrow> go_error option \<times> 'z world_scheme" where
  "bucket_write b k v w =
     (case pop_object_fault w of
        (NoFault, w1) \<Rightarrow> (None, w1\<lparr>w_objects := (w_objects w1)((b, k) := v)\<rparr>)
      | (Failed e, w1) \<Rightarrow> (Some (s3_error e), w1)
      | (ReplyLost e, w1) \<Rightarrow> (Some (s3_error e), w1\<lparr>w_objects := (w_objects w1)((b, k) := v)\<rparr>))"

definition bucket_read :: "string \<times> string \<Rightarrow> 'z world_scheme \<Rightarrow> (go_error + bytes) \<times> 'z world_scheme" where
  "bucket_read bk w =
     (case pop_object_fault w of
        (NoFault, w1) \<Rightarrow> (case w_objects w1 bk of None \<Rightarrow> (Inl no_such_key, w1) | Some p \<Rightarrow> (Inr p, w1))
      | (Failed e, w1) \<Rightarrow> (Inl (s3_error e), w1)
      | (ReplyLost e, w1) \<Rightarrow> (Inl (s3_error e), w1))"

definition bucket_sdk :: "(string \<times> string, 'z world_scheme) minio_sdk" where
  "bucket_sdk =
     \<lparr>sdk_PutObject = (\<lambda>b k p ct. bucket_write b k (Some p)),
      sdk_GetObject = (\<lambda>b k w. (Inr (b, k), w)),
      sdk_ReadAll = bucket_read,
      sdk_RemoveObject = (\<lambda>b k. bucket_write b k None),
      sdk_response = (\<lambda>e. Some (if e = no_such_key then (404, ''NoSuchKey'') else (503, ''SlowDown'')))\<rparr>"

abbreviation minio_client :: "'z world_scheme object_client" where
  "minio_client \<equiv> NewMinioSessionObjectClient bucket_sdk"

lemma world_ext: "storage.more w' = storage.more w \<Longrightarrow> w_objects w' = w_objects w \<and> w_object_faults w' = w_object_faults w"
  by (cases w; cases w') simp

lemma pop_object_frame:
  "pop_object_fault w = (f, w') \<Longrightarrow> w_objects w' = w_objects w \<and> storage.truncate w' = storage.truncate w"
  by (auto simp: pop_object_fault_def storage.defs split: list.splits)

lemma bucket_write_cases:
  assumes "bucket_write b k v w = (err, w')"
  shows "storage.truncate w' = storage.truncate w \<and>
    (w_objects w' = (w_objects w)((b, k) := v) \<or> err \<noteq> None \<and> w_objects w' = w_objects w)"
proof -
  obtain f w1 where p: "pop_object_fault w = (f, w1)" by (cases "pop_object_fault w")
  show ?thesis using assms p pop_object_frame [OF p]
    by (cases f) (auto simp: bucket_write_def storage.defs)
qed

lemma s3_error_simps: "as_domain (s3_error e) = None" "s3_error e \<noteq> no_such_key" "as_domain no_such_key = None"
  by (simp_all add: s3_error_def no_such_key_def)

lemma bucket_read_cases:
  assumes "bucket_read bk w = (r, w')"
  shows "storage.truncate w' = storage.truncate w \<and> w_objects w' = w_objects w \<and>
    (case r of Inr p \<Rightarrow> w_objects w bk = Some p
     | Inl e \<Rightarrow> as_domain e = None \<and> (e = no_such_key \<longrightarrow> w_objects w bk = None))"
proof -
  obtain f w1 where p: "pop_object_fault w = (f, w1)" by (cases "pop_object_fault w")
  show ?thesis using assms p pop_object_frame [OF p] s3_error_simps
    by (cases f) (auto simp: bucket_read_def split: option.splits)
qed

interpretation bucket: minio_bucket bucket_sdk w_objects "\<lambda>rd. rd"
proof
  fix w w' :: "'z world_scheme" and b k p ct e err res bs and rd :: "string \<times> string"
  show "storage.more w' = storage.more w \<Longrightarrow> w_objects w' = w_objects w" using world_ext by blast
  show "sdk_PutObject bucket_sdk b k p ct w = (None, w') \<Longrightarrow> w_objects w' = (w_objects w)((b, k) \<mapsto> p)"
    using bucket_write_cases [of b k "Some p" w None w'] by (simp add: bucket_sdk_def)
  show "sdk_PutObject bucket_sdk b k p ct w = (Some e, w') \<Longrightarrow>
      w_objects w' = w_objects w \<or> w_objects w' = (w_objects w)((b, k) \<mapsto> p)"
    using bucket_write_cases [of b k "Some p" w "Some e" w'] by (auto simp: bucket_sdk_def)
  show "sdk_GetObject bucket_sdk b k w = (res, w') \<Longrightarrow> w_objects w' = w_objects w \<and>
      (case res of Inr rd \<Rightarrow> rd = (b, k) | Inl e \<Rightarrow> as_domain e = None)"
    by (auto simp: bucket_sdk_def)
  show "sdk_ReadAll bucket_sdk rd w = (bs, w') \<Longrightarrow> w_objects w' = w_objects w \<and>
      (case bs of Inr p \<Rightarrow> w_objects w rd = Some p
       | Inl e \<Rightarrow> as_domain e = None \<and>
           (isMissingObjectError (sdk_response bucket_sdk) e \<longrightarrow> w_objects w rd = None))"
    using bucket_read_cases [of rd w bs w']
    by (auto simp: bucket_sdk_def isMissingObjectError_def split: sum.splits if_splits)
  show "sdk_RemoveObject bucket_sdk b k w = (None, w') \<Longrightarrow> w_objects w' = (w_objects w)((b, k) := None)"
    using bucket_write_cases [of b k None w None w'] by (simp add: bucket_sdk_def)
  show "sdk_RemoveObject bucket_sdk b k w = (Some e, w') \<Longrightarrow>
      w_objects w' = w_objects w \<or> w_objects w' = (w_objects w)((b, k) := None)"
    using bucket_write_cases [of b k None w "Some e" w'] by (auto simp: bucket_sdk_def)
  show "sdk_PutObject bucket_sdk b k p ct w = (err, w') \<Longrightarrow> storage.truncate w' = storage.truncate w"
    "sdk_RemoveObject bucket_sdk b k w = (err, w') \<Longrightarrow> storage.truncate w' = storage.truncate w"
    using bucket_write_cases [of b k "Some p" w err w'] bucket_write_cases [of b k None w err w']
    by (simp_all add: bucket_sdk_def)
  show "sdk_GetObject bucket_sdk b k w = (res, w') \<Longrightarrow> storage.truncate w' = storage.truncate w"
    by (simp add: bucket_sdk_def)
  show "sdk_ReadAll bucket_sdk rd w = (bs, w') \<Longrightarrow> storage.truncate w' = storage.truncate w"
    using bucket_read_cases [of rd w bs w'] by (simp add: bucket_sdk_def)
qed

interpretation bucket_up: healthy_storage minio_client w_objects "\<lambda>w. w_object_faults w = []"
proof
  fix w w' :: "'z world_scheme" and ctx b k p
  show "storage.more w' = storage.more w \<Longrightarrow> (w_object_faults w' = []) = (w_object_faults w = [])"
    using world_ext by metis
  assume up: "w_object_faults w = []"
  then have pop: "pop_object_fault w = (NoFault, w)" by (simp add: pop_object_fault_def)
  show "\<exists>w'. oc_Put minio_client ctx b k p w = (None, w') \<and> w_object_faults w' = []"
    "\<exists>w'. oc_Delete minio_client ctx b k w = (None, w') \<and> w_object_faults w' = []"
    using up by (simp_all add: NewMinioSessionObjectClient_def Minio_Put_def Minio_Delete_def bucket_sdk_def
        bucket_write_def pop)
  show "\<exists>w'. w_object_faults w' = [] \<and> (case w_objects w (b, k) of
         Some p \<Rightarrow> oc_Get minio_client ctx b k w = (Inr p, w')
       | None \<Rightarrow> (\<exists>e. oc_Get minio_client ctx b k w = (Inl e, w') \<and>
                      IsDomainErrorCode (Some e) ErrorCodeSessionPayloadMissing))"
    using up by (auto simp: NewMinioSessionObjectClient_def Minio_Get_def bucket_sdk_def bucket_read_def pop
        isMissingObjectError_def split: option.splits)
qed


section \<open>Theorems\<close>

text \<open>
  C20.  Saving a session touches two objects, the latest session of the login and one older session.
  Whatever fails, the payload that was there before is still under one of the two names, and the database
  is untouched; a name is returned only for a valid JSON payload that is now stored under it.
\<close>

theorem SessionStore_Save_keeps_payloads:
  assumes "object_storage client view"
    "SessionStore_Save \<lparr>os_client = client, os_bucket = b\<rparr> ctx acc login revision payload w = (r, w')"
    "owner = ResolveObjectOwnerKey login acc" "key = SessionPayloadObjectKey owner"
  shows "\<exists>t. db_part w' = db_part w \<and>
    (\<forall>k. k \<noteq> (b, key) \<longrightarrow> k \<noteq> (b, SessionHistoryObjectKey owner t) \<longrightarrow> view w' k = view w k) \<and>
    view w' (b, key) \<in> {view w (b, key), Some payload} \<and>
    (\<forall>p. view w (b, key) = Some p \<longrightarrow>
       view w' (b, key) = Some p \<or> view w' (b, SessionHistoryObjectKey owner t) = Some p) \<and>
    (\<forall>k. r = Inr k \<longrightarrow> k = key \<and> view w' (b, key) = Some payload \<and> json_Valid payload \<and>
       acc \<noteq> uuid_Nil \<and> 0 < revision)"
  unfolding assms(3,4) by (rule object_storage.Save_effect [OF assms(1,2)])

definition world_of :: "db \<Rightarrow> (string \<times> string \<Rightarrow> bytes option) \<Rightarrow> world" where
  "world_of d objs =
     storage.extend (db.extend d (storage.fields Map.empty)) (world.fields objs [])"

text \<open>\<open>{}\<close> and \<open>[]\<close> as bytes.\<close>

definition json_object :: bytes where
  "json_object = [123, 125]"

definition json_array :: bytes where
  "json_array = [91, 93]"

definition sample_world :: world where
  "sample_world = world_of sample_session_db [(''sessions'', ''user/latest.json'') \<mapsto> json_object]"

definition sample_store :: "world object_store" where
  "sample_store = \<lparr>os_client = minio_client, os_bucket = ''sessions''\<rparr>"

definition sample_save :: "(go_error + string) \<times> world" where
  "sample_save = SessionStore_Save sample_store Background ''a1'' ''user'' 4 json_array sample_world"

lemma SessionStore_Save_keeps_payloads_witness:
  "\<exists>t. fst sample_save = Inr ''user/latest.json'' \<and>
    w_objects (snd sample_save) (''sessions'', ''user/latest.json'') = Some json_array \<and>
    w_objects (snd sample_save) (''sessions'', SessionHistoryObjectKey ''user'' t) = Some json_object"
proof -
  have key: "SessionPayloadObjectKey ''user'' = ''user/latest.json''" by code_simp
  have owner: "ResolveObjectOwnerKey ''user'' ''a1'' = ''user''" by code_simp
  have old: "w_objects sample_world (''sessions'', ''user/latest.json'') = Some json_object" by code_simp
  have ne: "Some json_array \<noteq> Some json_object" by code_simp
  have run: "SessionStore_Save \<lparr>os_client = minio_client, os_bucket = ''sessions''\<rparr> Background ''a1'' ''user'' 4
      json_array sample_world = (fst sample_save, snd sample_save)"
    by (simp only: sample_save_def sample_store_def prod.collapse)
  have "w_object_faults sample_world = []" by (simp add: sample_world_def world_of_def storage.defs world.defs)
  moreover have "''a1'' \<noteq> uuid_Nil" "json_Valid json_array" by code_simp+
  ultimately obtain w' where "SessionStore_Save \<lparr>os_client = minio_client, os_bucket = ''sessions''\<rparr> Background ''a1'' ''user'' 4
      json_array sample_world = (Inr ''user/latest.json'', w')"
    using bucket_up.Save_succeeds [of sample_world "''a1''" 4 json_array "''sessions''" Background "''user''"]
    by (auto simp: owner key)
  from trans [OF run [symmetric] this] have res: "fst sample_save = Inr ''user/latest.json''" by (rule Pair_inject)
  from SessionStore_Save_keeps_payloads [OF bucket.object_storage_axioms run refl refl, unfolded key owner]
  obtain t where t: "\<forall>p. w_objects sample_world (''sessions'', ''user/latest.json'') = Some p \<longrightarrow>
       w_objects (snd sample_save) (''sessions'', ''user/latest.json'') = Some p \<or>
       w_objects (snd sample_save) (''sessions'', SessionHistoryObjectKey ''user'' t) = Some p"
    "\<forall>k. fst sample_save = Inr k \<longrightarrow> k = ''user/latest.json'' \<and>
       w_objects (snd sample_save) (''sessions'', ''user/latest.json'') = Some json_array \<and>
       json_Valid json_array \<and> ''a1'' \<noteq> uuid_Nil \<and> (0::int) < 4"
    by (elim exE conjE)
  have new: "w_objects (snd sample_save) (''sessions'', ''user/latest.json'') = Some json_array"
    using t(2) [rule_format, OF res] by (elim conjE)
  show ?thesis using res new t(1) [rule_format, OF old] ne by (metis (no_types))
qed

end
