(* ===== verification/Session_Restorer.thy ===== *)
theory Session_Restorer
  imports Storage
begin

text \<open>
  \<open>internal/browser/session_restorer.go\<close>: loading and saving the browser session of an account, its
  metadata in the database and its payload in the storage.

  The two dependencies are records of the methods the restorer calls, \<open>repository.SessionRepository\<close> and
  \<open>sessionPayloadStore\<close>.  The locale \<open>restorer_env\<close> states what the restorer relies on of both, over the
  metadata and the payloads they show (\<open>honest\<close>: the driver does not pass its own failures off as a
  missing row); it is interpreted on \<open>SessionPostgresRepository\<close> and
  \<open>SessionStore\<close>.  What it logs is left out.
\<close>

record 'w session_repo =
  sr_GetByAccountID :: "go_context \<Rightarrow> uuid \<Rightarrow> 'w \<Rightarrow> (go_error + session_metadata) \<times> 'w"
  sr_Upsert :: "go_context \<Rightarrow> session_metadata \<Rightarrow> 'w \<Rightarrow> (go_error + session_metadata) \<times> 'w"
  sr_UpdateStatus :: "go_context \<Rightarrow> uuid \<Rightarrow> session_status \<Rightarrow> error_code \<Rightarrow> 'w \<Rightarrow> (go_error + session_metadata) \<times> 'w"
  sr_MarkRestored :: "go_context \<Rightarrow> uuid \<Rightarrow> 'w \<Rightarrow> (go_error + session_metadata) \<times> 'w"

record 'w payload_store =
  ps_Save :: "go_context \<Rightarrow> uuid \<Rightarrow> string \<Rightarrow> int \<Rightarrow> bytes \<Rightarrow> 'w \<Rightarrow> (go_error + string) \<times> 'w"
  ps_Load :: "go_context \<Rightarrow> uuid \<Rightarrow> string \<Rightarrow> 'w \<Rightarrow> (go_error + bytes) \<times> 'w"
  ps_Delete :: "go_context \<Rightarrow> string \<Rightarrow> 'w \<Rightarrow> go_error option \<times> 'w"

record 'w session_restorer =
  restorer_repository :: "'w session_repo"
  restorer_store :: "'w payload_store"

definition NewSessionRestorer :: "'w session_repo \<Rightarrow> 'w payload_store \<Rightarrow> 'w session_restorer" where
  "NewSessionRestorer repo store = \<lparr>restorer_repository = repo, restorer_store = store\<rparr>"

definition zero_metadata :: session_metadata where
  "zero_metadata =
     \<lparr>session_AccountID = uuid_Nil, session_Revision = 0, session_Status = SessionStatusOther '''',
      session_ObjectKey = '''', session_ErrorCode = no_error_code, session_LastRestoredAt = None,
      session_CreatedAt = 0, session_UpdatedAt = 0\<rparr>"

definition restorer_actor :: actor where
  "restorer_actor = \<lparr>actor_Type = ActorTypeInternalProcess, actor_ID = ''browser.session_restorer''\<rparr>"

definition statusForRestoreError :: "go_error \<Rightarrow> session_status" where
  "statusForRestoreError err =
     (if IsDomainErrorCode (Some err) ErrorCodeSessionPayloadMissing then SessionStatusUnavailable
      else if IsDomainErrorCode (Some err) ErrorCodeSessionPayloadCorrupted then SessionStatusInvalid
      else if IsDomainErrorCode (Some err) ErrorCodeSessionOwnershipMismatch then SessionStatusInvalid
      else SessionStatusInvalid)"

definition resolveErrorCode :: "go_error \<Rightarrow> error_code" where
  "resolveErrorCode err = (case as_domain err of Some (code, _) \<Rightarrow> code | None \<Rightarrow> ErrorCodeInternal)"

definition BootstrapReasonForRestoreError :: "go_error option \<Rightarrow> error_code \<times> bool" where
  "BootstrapReasonForRestoreError err =
     (if IsDomainErrorCode err ErrorCodeSessionMetadataNotFound then (ErrorCodeAuthBootstrapRequired, True)
      else if IsDomainErrorCode err ErrorCodeSessionPayloadMissing then (ErrorCodeAuthBootstrapRequired, True)
      else (no_error_code, False))"

text \<open>The results are the metadata, the payload and the error, as the code returns them.\<close>

definition Restore ::
  "'w session_restorer \<Rightarrow> go_context \<Rightarrow> uuid \<Rightarrow> 'w \<Rightarrow> (session_metadata \<times> bytes \<times> go_error option) \<times> 'w" where
  "Restore r ctx accountID w =
     (case sr_GetByAccountID (restorer_repository r) ctx accountID w of
        (Inl err, w1) \<Rightarrow> ((zero_metadata, [], Some (with_stack err)), w1)
      | (Inr metadata, w1) \<Rightarrow>
        (case ps_Load (restorer_store r) ctx accountID (session_ObjectKey metadata) w1 of
           (Inl err, w2) \<Rightarrow>
             (case sr_UpdateStatus (restorer_repository r) (WithActor ctx restorer_actor) accountID
                     (statusForRestoreError err) (resolveErrorCode err) w2 of
                (Inl statusErr, w3) \<Rightarrow>
                  ((metadata, [], Some (with_stack (JoinErr
                      [with_stack err, stackerr_Wrap (Some statusErr) ''failed to update session status'']))), w3)
              | (Inr m, w3) \<Rightarrow> ((metadata, [], Some (with_stack err)), w3))
         | (Inr payload, w2) \<Rightarrow>
             (case sr_MarkRestored (restorer_repository r) (WithActor ctx restorer_actor) accountID w2 of
                (Inl err, w3) \<Rightarrow> ((zero_metadata, [], Some (with_stack err)), w3)
              | (Inr m, w3) \<Rightarrow> ((m, payload, None), w3))))"

text \<open>The revision is an \<open>int64\<close>.\<close>

definition int64 :: "int \<Rightarrow> int" where
  "int64 v = (v + 2 ^ 63) mod 2 ^ 64 - 2 ^ 63"

lemma int64_small: "- (2 ^ 63) \<le> v \<Longrightarrow> v < 2 ^ 63 \<Longrightarrow> int64 v = v"
  by (simp add: int64_def)

definition saved_metadata :: "uuid \<Rightarrow> int \<Rightarrow> string \<Rightarrow> session_metadata" where
  "saved_metadata accountID nextRevision objectKey =
     zero_metadata\<lparr>session_AccountID := accountID, session_Revision := nextRevision,
       session_Status := SessionStatusValid, session_ObjectKey := objectKey\<rparr>"

definition next_revision :: "go_error + session_metadata \<Rightarrow> go_error + int" where
  "next_revision current =
     (case current of
        Inr m \<Rightarrow> Inr (int64 (session_Revision m + 1))
      | Inl err \<Rightarrow>
          if \<not> IsDomainErrorCode (Some err) ErrorCodeSessionMetadataNotFound then Inl err else Inr 1)"

definition Restorer_Save ::
  "'w session_restorer \<Rightarrow> go_context \<Rightarrow> uuid \<Rightarrow> string \<Rightarrow> bytes \<Rightarrow> 'w \<Rightarrow>
   (go_error + session_metadata) \<times> 'w" where
  "Restorer_Save r ctx accountID accountLogin payload w =
     (case sr_GetByAccountID (restorer_repository r) ctx accountID w of (current, w1) \<Rightarrow>
        (case next_revision current of
           Inl err \<Rightarrow> (Inl (with_stack err), w1)
         | Inr nextRevision \<Rightarrow>
           (case ps_Save (restorer_store r) ctx accountID accountLogin nextRevision payload w1 of
              (Inl err, w2) \<Rightarrow> (Inl (with_stack err), w2)
            | (Inr objectKey, w2) \<Rightarrow>
              (case sr_Upsert (restorer_repository r) (WithActor ctx restorer_actor)
                      (saved_metadata accountID nextRevision objectKey) w2 of
                 (Inr savedMetadata, w3) \<Rightarrow> (Inr savedMetadata, w3)
               | (Inl err, w3) \<Rightarrow>
                 (case ps_Delete (restorer_store r) ctx objectKey w3 of
                    (None, w4) \<Rightarrow> (Inl (with_stack err), w4)
                  | (Some cleanupErr, w4) \<Rightarrow>
                      (Inl (with_stack (JoinErr
                         [with_stack err, stackerr_Wrap (Some cleanupErr) ''failed to cleanup session object''])),
                       w4))))))"


section \<open>The interface of the two stores\<close>

locale restorer_env =
  fixes repo :: "'w session_repo" and store :: "'w payload_store"
    and meta :: "'w \<Rightarrow> uuid \<Rightarrow> session_metadata option"
    and payloads :: "'w \<Rightarrow> string \<Rightarrow> bytes option"
    and honest :: "'w \<Rightarrow> bool"
  assumes get: "sr_GetByAccountID repo ctx acc w = (g, w1) \<Longrightarrow> meta w1 = meta w \<and> payloads w1 = payloads w \<and>
      (case g of Inr m \<Rightarrow> meta w acc = Some m
       | Inl e \<Rightarrow> honest w \<longrightarrow> IsDomainErrorCode (Some e) ErrorCodeSessionMetadataNotFound \<longrightarrow>
                meta w acc = None)"
    and status: "sr_UpdateStatus repo ctx acc st code w = (g, w1) \<Longrightarrow> payloads w1 = payloads w \<and>
      (meta w1 = meta w \<and> (\<exists>e. g = Inl e) \<or>
       (\<exists>m m'. meta w acc = Some m \<and> meta w1 = (meta w)(acc \<mapsto> m') \<and> (\<forall>x. g = Inr x \<longrightarrow> x = m') \<and>
          session_Status m' = st \<and> session_ErrorCode m' = code \<and>
          session_Revision m' = session_Revision m \<and> session_ObjectKey m' = session_ObjectKey m))"
    and mark: "sr_MarkRestored repo ctx acc w = (g, w1) \<Longrightarrow> payloads w1 = payloads w \<and>
      (meta w1 = meta w \<and> (\<exists>e. g = Inl e) \<or>
       (\<exists>m m'. meta w acc = Some m \<and> meta w1 = (meta w)(acc \<mapsto> m') \<and> (\<forall>x. g = Inr x \<longrightarrow> x = m') \<and>
          session_Status m' = SessionStatusValid \<and> session_ErrorCode m' = no_error_code \<and>
          session_Revision m' = session_Revision m \<and> session_ObjectKey m' = session_ObjectKey m))"
    and upsert: "sr_Upsert repo ctx x w = (g, w1) \<Longrightarrow> payloads w1 = payloads w \<and>
      (meta w1 = meta w \<and> (\<exists>e. g = Inl e) \<or>
       (\<exists>m'. meta w1 = (meta w)(session_AccountID x \<mapsto> m') \<and> (\<forall>y. g = Inr y \<longrightarrow> y = m') \<and>
          session_Status m' = session_Status x \<and> session_ErrorCode m' = session_ErrorCode x \<and>
          session_Revision m' = session_Revision x \<and> session_ObjectKey m' = session_ObjectKey x))"
    and load: "ps_Load store ctx acc k w = (l, w1) \<Longrightarrow> meta w1 = meta w \<and> payloads w1 = payloads w \<and>
      (\<forall>p. l = Inr p \<longrightarrow> payloads w k = Some p \<and> json_Valid p)"
    and save: "ps_Save store ctx acc login n p w = (sv, w1) \<Longrightarrow> meta w1 = meta w \<and>
      (\<forall>k. sv = Inr k \<longrightarrow> payloads w1 k = Some p \<and> json_Valid p)"
    and del: "ps_Delete store ctx k w = (d, w1) \<Longrightarrow> meta w1 = meta w \<and>
      (payloads w1 = payloads w \<or> payloads w1 = (payloads w)(k := None))"
begin

text \<open>
  A restore that succeeds returns the payload the metadata point at and leaves a valid session; one that
  fails leaves every payload alone and never moves the pointer.
\<close>

lemma Restore_effect:
  assumes run: "Restore \<lparr>restorer_repository = repo, restorer_store = store\<rparr> ctx acc w = ((m, p, err), w')"
  shows "payloads w' = payloads w \<and>
    (\<forall>a. map_option (\<lambda>m. (session_Revision m, session_ObjectKey m)) (meta w' a) =
         map_option (\<lambda>m. (session_Revision m, session_ObjectKey m)) (meta w a)) \<and>
    (\<forall>a. a \<noteq> acc \<longrightarrow> meta w' a = meta w a) \<and>
    (err = None \<longrightarrow> meta w' acc = Some m \<and> payloads w (session_ObjectKey m) = Some p \<and> json_Valid p \<and>
       session_Status m = SessionStatusValid \<and> session_ErrorCode m = no_error_code) \<and>
    (err \<noteq> None \<longrightarrow> p = [])"
proof -
  let ?rev = "\<lambda>m. (session_Revision m, session_ObjectKey m)"
  obtain g w1 where g: "sr_GetByAccountID repo ctx acc w = (g, w1)" by (cases "sr_GetByAccountID repo ctx acc w")
  note G = get [OF g]
  show ?thesis
  proof (cases g)
    case (Inl e)
    then show ?thesis using run g G by (auto simp: Restore_def)
  next
    case (Inr m0)
    obtain l w2 where l: "ps_Load store ctx acc (session_ObjectKey m0) w1 = (l, w2)"
      by (cases "ps_Load store ctx acc (session_ObjectKey m0) w1")
    note L = load [OF l]
    show ?thesis
    proof (cases l)
      case (Inl e)
      obtain u w3 where u: "sr_UpdateStatus repo (WithActor ctx restorer_actor) acc (statusForRestoreError e)
          (resolveErrorCode e) w2 = (u, w3)"
        by (cases "sr_UpdateStatus repo (WithActor ctx restorer_actor) acc (statusForRestoreError e)
            (resolveErrorCode e) w2")
      have w': "w' = w3" "err \<noteq> None" "p = []"
        using run g Inr l Inl u by (auto simp: Restore_def split: sum.splits)
      have "payloads w3 = payloads w2 \<and> (\<forall>a. map_option ?rev (meta w3 a) = map_option ?rev (meta w2 a)) \<and>
          (\<forall>a. a \<noteq> acc \<longrightarrow> meta w3 a = meta w2 a)"
        using status [OF u] by auto
      then show ?thesis using w' G L by simp
    next
      case (Inr p0)
      obtain k w3 where k: "sr_MarkRestored repo (WithActor ctx restorer_actor) acc w2 = (k, w3)"
        by (cases "sr_MarkRestored repo (WithActor ctx restorer_actor) acc w2")
      have w': "w' = w3" "k = Inr m \<and> p = p0 \<and> err = None \<or> err \<noteq> None \<and> p = []"
        using run g \<open>g = Inr m0\<close> l Inr k by (auto simp: Restore_def split: sum.splits)
      have "payloads w3 = payloads w2 \<and> (\<forall>a. map_option ?rev (meta w3 a) = map_option ?rev (meta w2 a)) \<and>
          (\<forall>a. a \<noteq> acc \<longrightarrow> meta w3 a = meta w2 a)"
        using mark [OF k] by auto
      moreover have "meta w3 acc = Some m \<and> session_ObjectKey m = session_ObjectKey m0 \<and>
          session_Status m = SessionStatusValid \<and> session_ErrorCode m = no_error_code" if "k = Inr m"
        using mark [OF k] that G L \<open>g = Inr m0\<close> by auto
      ultimately show ?thesis using w' G L Inr by auto
    qed
  qed
qed

text \<open>
  A save that succeeds moves the account's metadata to the payload just stored, with the next revision.
\<close>

lemma Save_effect:
  assumes run: "Restorer_Save \<lparr>restorer_repository = repo, restorer_store = store\<rparr> ctx acc login p w = (Inr m, w')"
  shows "meta w' = (meta w)(acc \<mapsto> m) \<and> payloads w' (session_ObjectKey m) = Some p \<and> json_Valid p \<and>
    session_Status m = SessionStatusValid \<and> session_ErrorCode m = no_error_code \<and>
    (honest w \<longrightarrow>
      session_Revision m = (case meta w acc of None \<Rightarrow> 1 | Some q \<Rightarrow> int64 (session_Revision q + 1)))"
proof -
  obtain g w1 where g: "sr_GetByAccountID repo ctx acc w = (g, w1)" by (cases "sr_GetByAccountID repo ctx acc w")
  note G = get [OF g]
  obtain n where n: "next_revision g = Inr n" using run g by (auto simp: Restorer_Save_def split: sum.splits)
  then have n': "honest w \<Longrightarrow> n = (case meta w acc of None \<Rightarrow> 1 | Some q \<Rightarrow> int64 (session_Revision q + 1))"
    using G by (auto simp: next_revision_def split: sum.splits if_splits)
  obtain sv w2 where sv: "ps_Save store ctx acc login n p w1 = (sv, w2)" by (cases "ps_Save store ctx acc login n p w1")
  obtain k where k: "sv = Inr k" using run g n sv by (cases sv) (auto simp: Restorer_Save_def)
  obtain u w3 where u: "sr_Upsert repo (WithActor ctx restorer_actor) (saved_metadata acc n k) w2 = (u, w3)"
    by (cases "sr_Upsert repo (WithActor ctx restorer_actor) (saved_metadata acc n k) w2")
  have "u = Inr m \<and> w' = w3"
    using run g n sv k u by (auto simp: Restorer_Save_def split: sum.splits prod.splits option.splits)
  then show ?thesis
    using upsert [OF u] save [OF sv] G k n' by (auto simp: saved_metadata_def zero_metadata_def)
qed

end


section \<open>The session table and the bucket\<close>

definition session_payload_store :: "'x storage_scheme object_store \<Rightarrow> 'x storage_scheme payload_store" where
  "session_payload_store st = \<lparr>ps_Save = SessionStore_Save st, ps_Load = SessionStore_Load st, ps_Delete = Store_Delete st\<rparr>"

definition session_table :: "'x session_repository \<Rightarrow> 'x db_scheme session_repo" where
  "session_table repo =
     \<lparr>sr_GetByAccountID = GetByAccountID, sr_Upsert = Session_Upsert repo, sr_UpdateStatus = UpdateStatus repo,
      sr_MarkRestored = MarkRestored repo\<rparr>"

definition metadata_of :: "'x db_scheme \<Rightarrow> uuid \<Rightarrow> session_metadata option" where
  "metadata_of w acc = map_option session_of_row (session_map w acc)"

text \<open>The failures of the driver are its own errors: no domain error, and not \<open>pgx.ErrNoRows\<close>.\<close>

definition driver_errors :: "'x db_scheme \<Rightarrow> bool" where
  "driver_errors s \<longleftrightarrow>
     (\<forall>f \<in> set (db_faults s). case f of NoFault \<Rightarrow> True
        | Failed e \<Rightarrow> \<not> errors_is e NoRows \<and> as_domain e = None
        | ReplyLost e \<Rightarrow> \<not> errors_is e NoRows \<and> as_domain e = None)"

lemma more_pop_fault: "pop_fault s = (f, s') \<Longrightarrow> db.more s' = db.more s"
  by (auto simp: pop_fault_def split: list.splits)

lemma more_autocommit:
  assumes "\<And>s x s'. st s = Inr (x, s') \<Longrightarrow> db.more s' = db.more s" "autocommit st s = (r, s')"
  shows "db.more s' = db.more s"
proof -
  obtain f s1 where pf: "pop_fault s = (f, s1)" by (cases "pop_fault s")
  show ?thesis using assms pf more_pop_fault [OF pf]
    by (cases f; cases "st s1") (auto simp: autocommit_def)
qed

lemma more_audit_best_effort:
  assumes "audit_wired auditLog"
  shows "db.more (audit_best_effort auditLog ctx ev s) = db.more s"
proof -
  have ins: "insert_audit r s = Inr (x, s') \<Longrightarrow> db.more s' = db.more s" for r and s s' :: "'a db_scheme" and x
    by (auto simp: insert_audit_def split: if_splits)
  have app: "db.more (snd (Audit_Append ctx r s)) = db.more s" for r and s :: "'a db_scheme"
    using more_autocommit [OF ins] by (cases "autocommit (insert_audit r) s")
      (auto simp: Audit_Append_def split: sum.splits)
  have uuid: "db.more (snd (new_uuid s)) = db.more s" for s :: "'a db_scheme" by (simp add: new_uuid_def)
  have "db.more (snd (Log_Record pg_audit_log ctx ev s)) = db.more s"
  proof (cases "validateEvent ev")
    case None
    obtain u s1 where u: "new_uuid s = (u, s1)" by (cases "new_uuid s")
    then show ?thesis using None app uuid [of s] by (simp add: Log_Record_def pg_audit_log_def Let_def)
  qed (simp add: Log_Record_def pg_audit_log_def)
  then show ?thesis using assms by (auto simp: audit_wired_def audit_best_effort_def)
qed

lemma session_statements_more:
  "select_session acc s = Inr (x, s') \<Longrightarrow> db.more s' = db.more s"
  "upsert_session m s = Inr (x, s') \<Longrightarrow> db.more s' = db.more s"
  "update_session acc upd s = Inr (x, s') \<Longrightarrow> db.more s' = db.more s"
  by (auto simp: select_session_def upsert_session_def update_session_def Let_def split: option.splits if_splits)

lemma scan_more:
  assumes "\<And>s x s'. st s = Inr (x, s') \<Longrightarrow> db.more s' = db.more s"
  shows "db.more (snd (scanSessionMetadata (autocommit st s))) = db.more s"
  unfolding snd_scanSession using more_autocommit [OF assms] by (cases "autocommit st s") simp

lemma session_repo_more:
  assumes "audit_wired (srepo_auditLog repo)"
  shows "db.more (snd (GetByAccountID ctx acc s)) = db.more s"
    "db.more (snd (Session_Upsert repo ctx m s)) = db.more s"
    "db.more (snd (UpdateStatus repo ctx acc st code s)) = db.more s"
    "db.more (snd (MarkRestored repo ctx acc s)) = db.more s"
proof -
  note audit = more_audit_best_effort [OF assms]
  show "db.more (snd (GetByAccountID ctx acc s)) = db.more s"
    using scan_more [where st = "select_session acc" and s = s, OF session_statements_more(1)]
    by (auto simp: GetByAccountID_def split: sum.splits prod.splits)
  show "db.more (snd (Session_Upsert repo ctx m s)) = db.more s"
    using scan_more [where st = "upsert_session m" and s = s, OF session_statements_more(2)]
    by (auto simp: Session_Upsert_def audit split: option.splits sum.splits prod.splits)
  let ?u = "\<lambda>s1. update_session acc (status_session_row st (nullableErrorCode code) (db_now s1)) s1"
  have "db.more (snd (scanSessionMetadata (autocommit ?u s))) = db.more s"
    by (rule scan_more) (rule session_statements_more(3))
  then show "db.more (snd (UpdateStatus repo ctx acc st code s)) = db.more s"
    by (auto simp: UpdateStatus_def audit split: sum.splits prod.splits)
  let ?k = "\<lambda>s1. update_session acc (restored_session_row (db_now s1)) s1"
  have "db.more (snd (scanSessionMetadata (autocommit ?k s))) = db.more s"
    by (rule scan_more) (rule session_statements_more(3))
  then show "db.more (snd (MarkRestored repo ctx acc s)) = db.more s"
    by (auto simp: MarkRestored_def audit split: sum.splits prod.splits)
qed


text \<open>The storage sees the objects through what extends the database, the session table through the rest.\<close>

lemma metadata_of_db: "db_part w' = db_part w \<Longrightarrow> metadata_of w' = metadata_of w"
  by (simp add: db_part_def db.defs metadata_of_def [abs_def] session_map_def)

lemma storage_of_more:
  fixes w w' :: "'x storage_scheme"
  shows "db.more w' = db.more w \<Longrightarrow> storage.more w' = storage.more w"
  by (cases w; cases w') simp

lemma metadata_change:
  assumes "session_change acc row g w w1"
  shows "metadata_of w1 = metadata_of w \<and> (\<exists>e. g = Inl e) \<or>
    metadata_of w1 = (metadata_of w)(acc \<mapsto> session_of_row row) \<and> (\<forall>x. g = Inr x \<longrightarrow> x = session_of_row row)"
  using assms by (auto simp: session_change_def metadata_of_def [abs_def] fun_eq_iff)

lemma select_session_Inl:
  "select_session acc s = Inl e \<Longrightarrow> e = NoRows \<and> session_map s acc = None"
  by (auto simp: select_session_def session_map_def split: option.splits)

lemma GetByAccountID_cases:
  assumes "GetByAccountID ctx acc w = (g, w1)"
  shows "metadata_of w1 = metadata_of w \<and>
    (case g of Inr m \<Rightarrow> metadata_of w acc = Some m
     | Inl e \<Rightarrow> driver_errors w \<longrightarrow> IsDomainErrorCode (Some e) ErrorCodeSessionMetadataNotFound \<longrightarrow>
              metadata_of w acc = None)"
proof -
  obtain r w2 where ac: "autocommit (select_session acc) w = (r, w2)" by (cases "autocommit (select_session acc) w")
  obtain f s1 where pf: "pop_fault w = (f, s1)" by (cases "pop_fault w")
  have same: "session_map s1 = session_map w" using same_tables_sessions [OF same_tables_pop_fault [OF pf]] by simp
  have sel: "select_session acc s1 = (case session_map w acc of None \<Rightarrow> Inl NoRows | Some r \<Rightarrow> Inr (r, s1))"
    by (simp add: select_session_def same [symmetric]) (simp add: session_map_def)
  have w2: "w2 = s1" "r = (case f of NoFault \<Rightarrow> (case session_map w acc of None \<Rightarrow> Inl NoRows | Some q \<Rightarrow> Inr q)
      | Failed e \<Rightarrow> Inl e | ReplyLost e \<Rightarrow> Inl e)"
    using ac pf sel by (auto simp: autocommit_def split: db_fault.splits option.splits)
  have plain: "\<not> errors_is e NoRows \<and> as_domain e = None" if "driver_errors w" "f = Failed e \<or> f = ReplyLost e" for e
    using that pf by (auto simp: driver_errors_def pop_fault_def split: list.splits)
  have "g = (case r of Inl e \<Rightarrow> Inl (if errors_is (with_stack e) NoRows then session_not_found acc
                                    else with_stack (with_stack e)) | Inr q \<Rightarrow> Inr (session_of_row q))" "w1 = w2"
    using assms ac by (auto simp: GetByAccountID_def scanSessionMetadata_def split: sum.splits if_splits)
  then show ?thesis using w2 same plain
    by (cases f; cases "session_map w acc") (auto simp: metadata_of_def [abs_def] IsDomainErrorCode_def split: if_splits)
qed

text \<open>On any object storage the table and the store are such an environment.\<close>

lemma restorer_env_of_storage:
  fixes client :: "'x storage_scheme object_client"
  assumes "object_storage client view"
  shows "restorer_env (session_table (NewSessionRepository [pg_audit_log]))
    (session_payload_store \<lparr>os_client = client, os_bucket = b\<rparr>) metadata_of (\<lambda>w k. view w (b, k)) driver_errors"
proof
  let ?repo = "NewSessionRepository [pg_audit_log]"
  have wired: "audit_wired (srepo_auditLog ?repo)" by (simp add: NewSessionRepository_def audit_wired_def)
  note more = session_repo_more [OF wired, THEN storage_of_more, THEN object_storage.view_ext [OF assms]]
  fix ctx acc st code x login n p k and w w1 :: "'x storage_scheme" and g l sv d
  show "sr_GetByAccountID (session_table ?repo) ctx acc w = (g, w1) \<Longrightarrow>
      metadata_of w1 = metadata_of w \<and> (\<lambda>k. view w1 (b, k)) = (\<lambda>k. view w (b, k)) \<and>
      (case g of Inl e \<Rightarrow> driver_errors w \<longrightarrow> IsDomainErrorCode (Some e) ErrorCodeSessionMetadataNotFound \<longrightarrow>
          metadata_of w acc = None | Inr m \<Rightarrow> metadata_of w acc = Some m)"
    using GetByAccountID_cases [of ctx acc w g w1] more(1) [of ctx acc w] by (simp add: session_table_def)
  show "sr_UpdateStatus (session_table ?repo) ctx acc st code w = (g, w1) \<Longrightarrow>
      (\<lambda>k. view w1 (b, k)) = (\<lambda>k. view w (b, k)) \<and>
      (metadata_of w1 = metadata_of w \<and> (\<exists>e. g = Inl e) \<or>
       (\<exists>m m'. metadata_of w acc = Some m \<and> metadata_of w1 = (metadata_of w)(acc \<mapsto> m') \<and>
          (\<forall>x. g = Inr x \<longrightarrow> x = m') \<and> session_Status m' = st \<and> session_ErrorCode m' = code \<and>
          session_Revision m' = session_Revision m \<and> session_ObjectKey m' = session_ObjectKey m))"
  proof -
    assume "sr_UpdateStatus (session_table ?repo) ctx acc st code w = (g, w1)"
    then have run: "UpdateStatus ?repo ctx acc st code w = (g, w1)" by (simp add: session_table_def)
    note c = UpdateStatus_cases [OF wired run] and o = more(3) [of ctx acc st code w]
    show ?thesis
    proof (cases "session_map w acc")
      case None
      then show ?thesis using c o run by (auto simp: metadata_of_def [abs_def])
    next
      case (Some q)
      then have "session_change acc (status_session_row st (nullableErrorCode code) (db_now w) q) g w w1" using c by simp
      from metadata_change [OF this] show ?thesis using Some o run nullableErrorCode_back [of code]
        by (auto simp: metadata_of_def status_session_row_def session_of_row_def)
    qed
  qed
  show "sr_MarkRestored (session_table ?repo) ctx acc w = (g, w1) \<Longrightarrow>
      (\<lambda>k. view w1 (b, k)) = (\<lambda>k. view w (b, k)) \<and>
      (metadata_of w1 = metadata_of w \<and> (\<exists>e. g = Inl e) \<or>
       (\<exists>m m'. metadata_of w acc = Some m \<and> metadata_of w1 = (metadata_of w)(acc \<mapsto> m') \<and>
          (\<forall>x. g = Inr x \<longrightarrow> x = m') \<and> session_Status m' = SessionStatusValid \<and> session_ErrorCode m' = no_error_code \<and>
          session_Revision m' = session_Revision m \<and> session_ObjectKey m' = session_ObjectKey m))"
  proof -
    assume "sr_MarkRestored (session_table ?repo) ctx acc w = (g, w1)"
    then have run: "MarkRestored ?repo ctx acc w = (g, w1)" by (simp add: session_table_def)
    note c = MarkRestored_cases [OF wired run] and o = more(4) [of ctx acc w]
    show ?thesis
    proof (cases "session_map w acc")
      case None
      then show ?thesis using c o run by (auto simp: metadata_of_def [abs_def])
    next
      case (Some q)
      then have "session_change acc (restored_session_row (db_now w) q) g w w1" using c by simp
      from metadata_change [OF this] show ?thesis using Some o run
        by (auto simp: metadata_of_def restored_session_row_def session_of_row_def)
    qed
  qed
  show "sr_Upsert (session_table ?repo) ctx x w = (g, w1) \<Longrightarrow>
      (\<lambda>k. view w1 (b, k)) = (\<lambda>k. view w (b, k)) \<and>
      (metadata_of w1 = metadata_of w \<and> (\<exists>e. g = Inl e) \<or>
       (\<exists>m'. metadata_of w1 = (metadata_of w)(session_AccountID x \<mapsto> m') \<and> (\<forall>y. g = Inr y \<longrightarrow> y = m') \<and>
          session_Status m' = session_Status x \<and> session_ErrorCode m' = session_ErrorCode x \<and>
          session_Revision m' = session_Revision x \<and> session_ObjectKey m' = session_ObjectKey x))"
  proof -
    assume "sr_Upsert (session_table ?repo) ctx x w = (g, w1)"
    then have run: "Session_Upsert ?repo ctx x w = (g, w1)" by (simp add: session_table_def)
    have "session_change (session_AccountID x)
      (upserted_session x (db_now w) (session_map w (session_AccountID x))) g w w1"
      using Session_Upsert_cases [OF wired run] by simp
    from metadata_change [OF this] show ?thesis using more(2) [of ctx x w] run
      nullableErrorCode_back [of "session_ErrorCode x"]
      by (auto simp: upserted_session_def session_of_row_def)
  qed
  show "ps_Load (session_payload_store \<lparr>os_client = client, os_bucket = b\<rparr>) ctx acc k w = (l, w1) \<Longrightarrow>
      metadata_of w1 = metadata_of w \<and> (\<lambda>k. view w1 (b, k)) = (\<lambda>k. view w (b, k)) \<and>
      (\<forall>p. l = Inr p \<longrightarrow> view w (b, k) = Some p \<and> json_Valid p)"
    using object_storage.Load_effect [OF assms, of b ctx acc k w l w1] metadata_of_db [of w1 w] by (simp add: session_payload_store_def)
  show "ps_Save (session_payload_store \<lparr>os_client = client, os_bucket = b\<rparr>) ctx acc login n p w = (sv, w1) \<Longrightarrow>
      metadata_of w1 = metadata_of w \<and> (\<forall>k. sv = Inr k \<longrightarrow> view w1 (b, k) = Some p \<and> json_Valid p)"
    using object_storage.Save_effect [OF assms, of b ctx acc login n p w sv w1] metadata_of_db [of w1 w] by (auto simp: session_payload_store_def)
  show "ps_Delete (session_payload_store \<lparr>os_client = client, os_bucket = b\<rparr>) ctx k w = (d, w1) \<Longrightarrow>
      metadata_of w1 = metadata_of w \<and> ((\<lambda>k. view w1 (b, k)) = (\<lambda>k. view w (b, k)) \<or>
       (\<lambda>k. view w1 (b, k)) = (\<lambda>k. view w (b, k))(k := None))"
    using object_storage.Delete_effect [OF assms, of b ctx k w d w1] metadata_of_db [of w1 w]
    by (auto simp: session_payload_store_def fun_eq_iff)
qed

interpretation pg_sessions: restorer_env "session_table (NewSessionRepository [pg_audit_log])"
    "session_payload_store \<lparr>os_client = minio_client, os_bucket = b\<rparr>" metadata_of "\<lambda>w k. w_objects w (b, k)" driver_errors
  for b :: string
  by (rule restorer_env_of_storage [OF bucket.object_storage_axioms])



section \<open>Theorems\<close>

definition pg_restorer :: "'x storage_scheme object_client \<Rightarrow> string \<Rightarrow> 'x storage_scheme session_restorer" where
  "pg_restorer client b =
     NewSessionRestorer (session_table (NewSessionRepository [pg_audit_log]))
       (session_payload_store \<lparr>os_client = client, os_bucket = b\<rparr>)"

text \<open>
  C26.  Restoring a session changes no payload and moves no pointer, whatever fails on the way, and
  touches the metadata of no other account.  It succeeds only with the payload the metadata point at,
  valid JSON, and then the stored session is valid without an error; a failure returns no payload.
\<close>

theorem session_restore_outcome:
  assumes "object_storage client view" "Restore (pg_restorer client b) ctx acc w = ((m, p, err), w')"
  shows "(\<forall>k. view w' (b, k) = view w (b, k)) \<and>
    (\<forall>a. map_option (\<lambda>m. (session_Revision m, session_ObjectKey m)) (metadata_of w' a) =
         map_option (\<lambda>m. (session_Revision m, session_ObjectKey m)) (metadata_of w a)) \<and>
    (\<forall>a. a \<noteq> acc \<longrightarrow> metadata_of w' a = metadata_of w a) \<and>
    (err = None \<longrightarrow> metadata_of w' acc = Some m \<and> view w (b, session_ObjectKey m) = Some p \<and> json_Valid p \<and>
       session_Status m = SessionStatusValid \<and> session_ErrorCode m = no_error_code) \<and>
    (err \<noteq> None \<longrightarrow> p = [])"
  using restorer_env.Restore_effect [OF restorer_env_of_storage [OF assms(1)]
      assms(2) [unfolded pg_restorer_def NewSessionRestorer_def]]
  by (auto dest: fun_cong)

lemma session_table_simps [simp]:
  "sr_GetByAccountID (session_table repo) = GetByAccountID" "sr_Upsert (session_table repo) = Session_Upsert repo"
  "sr_UpdateStatus (session_table repo) = UpdateStatus repo" "sr_MarkRestored (session_table repo) = MarkRestored repo"
  by (simp_all add: session_table_def)

lemma session_payload_store_simps [simp]:
  "ps_Save (session_payload_store st) = SessionStore_Save st" "ps_Load (session_payload_store st) = SessionStore_Load st"
  "ps_Delete (session_payload_store st) = Store_Delete st"
  by (simp_all add: session_payload_store_def)

lemma pg_audit_wired: "audit_wired (srepo_auditLog (NewSessionRepository [pg_audit_log]))"
  by (simp add: NewSessionRepository_def audit_wired_def)

lemma db_part_fields:
  "db_part w' = db_part w \<Longrightarrow> db_faults w' = db_faults w \<and> session_map w' = session_map w \<and>
     db_accounts w' = db_accounts w \<and> db_now w' = db_now w"
  by (simp add: db_part_def db.defs session_map_def [abs_def])

lemma GetByAccountID_none:
  "db_faults s = [] \<Longrightarrow> session_map s acc = None \<Longrightarrow> GetByAccountID ctx acc s = (Inl (session_not_found acc), s)"
  by (simp add: GetByAccountID_def autocommit_def scanSessionMetadata_def select_session_def session_map_def)

lemma MarkRestored_stored:
  assumes "db_faults s = []" "session_map s acc = Some q" "session_row_ok q"
  shows "\<exists>s'. MarkRestored repo ctx acc s = (Inr (session_of_row (restored_session_row (db_now s) q)), s')"
proof -
  have "session_row_ok (restored_session_row (db_now s) q)"
    using assms(3) by (simp add: session_row_ok_def restored_session_row_def)
  then show ?thesis using assms(1,2)
    by (simp add: MarkRestored_def autocommit_def scanSessionMetadata_def update_session_def session_map_def)
qed

text \<open>The revision the next save gives an account.\<close>

definition following_revision :: "'x db_scheme \<Rightarrow> uuid \<Rightarrow> int" where
  "following_revision w acc = (case metadata_of w acc of None \<Rightarrow> 1 | Some q \<Rightarrow> int64 (session_Revision q + 1))"

lemma following_revision_read:
  assumes "db_faults w = []"
  shows "next_revision (fst (GetByAccountID ctx acc w)) = Inr (following_revision w acc) \<and> snd (GetByAccountID ctx acc w) = w"
proof (cases "session_map w acc")
  case None
  then show ?thesis using assms
    by (simp add: GetByAccountID_none next_revision_def session_not_found_def following_revision_def metadata_of_def)
next
  case (Some q)
  then show ?thesis using assms
    by (simp add: GetByAccountID_found next_revision_def following_revision_def metadata_of_def)
qed

lemma SessionPayloadObjectKey_nonempty: "SessionPayloadObjectKey owner \<noteq> ''''"
  using path_Join_last [of "''latest.json''" "NormalizeOSKELLYLoginKey owner", OF _ NormalizeOSKELLYLoginKey_nonempty]
  by (auto simp: SessionPayloadObjectKey_def plain_elem_def)

context healthy_storage
begin

lemma Restorer_Save_stored:
  assumes w: "healthy w" "db_faults w = []" and acc: "acc \<noteq> uuid_Nil" "acc \<in> set (map arow_id (db_accounts w))"
    and p: "json_Valid p" and pos: "0 < following_revision w acc"
    and key_def: "key = SessionPayloadObjectKey (ResolveObjectOwnerKey login acc)"
  shows "\<exists>w' row. Restorer_Save (pg_restorer client b) ctx acc login p w = (Inr (session_of_row row), w') \<and>
    healthy w' \<and> db_faults w' = [] \<and> session_map w' acc = Some row \<and> session_row_ok row \<and>
    srow_object_key row = key \<and> view w' (b, key) = Some p \<and> srow_revision row = following_revision w acc"
proof -
  let ?n = "following_revision w acc" and ?repo = "NewSessionRepository [pg_audit_log] :: 'a storage_ext session_repository"
  let ?m = "saved_metadata acc ?n key"
  obtain w2 where s: "SessionStore_Save \<lparr>os_client = client, os_bucket = b\<rparr> ctx acc login ?n p w = (Inr key, w2)" "healthy w2"
    using Save_succeeds [OF w(1) acc(1) pos p] unfolding key_def by blast
  have db2: "db_part w2 = db_part w" "view w2 (b, key) = Some p"
    using Save_effect [OF s(1)] unfolding key_def by blast+
  note f2 = db_part_fields [OF db2(1)]
  have valid: "SessionMetadata_Validate ?m = None"
    using pos acc(1) SessionPayloadObjectKey_nonempty
    by (simp add: saved_metadata_def zero_metadata_def SessionMetadata_Validate_None key_def)
  let ?row = "upserted_session ?m (db_now w2) (session_map w2 acc)"
  have id: "session_AccountID ?m = acc" by (simp add: saved_metadata_def)
  obtain w3 where u: "Session_Upsert ?repo (WithActor ctx restorer_actor) ?m w2 = (Inr (session_of_row ?row), w3)"
    "db_faults w3 = []" "session_map w3 = (session_map w2)(acc \<mapsto> ?row)"
    using Session_Upsert_stored [OF valid, of w2 ?repo "WithActor ctx restorer_actor", unfolded id] f2 w(2) acc(2)
      pg_audit_wired by auto
  have more: "storage.more w3 = storage.more w2"
    using session_repo_more(2) [OF pg_audit_wired, of "WithActor ctx restorer_actor" ?m w2] u(1) by (intro storage_of_more) simp
  have "Restorer_Save (pg_restorer client b) ctx acc login p w = (Inr (session_of_row ?row), w3)"
    using following_revision_read [OF w(2), of ctx acc] s(1) u(1)
    by (cases "GetByAccountID ctx acc w") (simp add: Restorer_Save_def pg_restorer_def NewSessionRestorer_def)
  moreover have "session_row_ok ?row" by (rule session_row_ok_upserted [OF valid])
  ultimately show ?thesis
    using u db2(2) view_ext [OF more] healthy_ext [OF more] s(2)
    by (intro exI [of _ w3] exI [of _ ?row]) (simp add: upserted_session_def saved_metadata_def)
qed

lemma Restore_stored:
  assumes w: "healthy w" "db_faults w = []" and row: "session_map w acc = Some row" "session_row_ok row"
    and p: "view w (b, srow_object_key row) = Some p" "json_Valid p"
    and own: "IsSessionObjectOwnedByAccount acc (srow_object_key row)"
  shows "\<exists>m w'. Restore (pg_restorer client b) ctx acc w = ((m, p, None), w') \<and>
    session_Revision m = srow_revision row \<and> session_Status m = SessionStatusValid"
proof -
  let ?key = "srow_object_key row" and ?repo = "NewSessionRepository [pg_audit_log] :: 'a storage_ext session_repository"
  obtain w2 where l: "SessionStore_Load \<lparr>os_client = client, os_bucket = b\<rparr> ctx acc ?key w = (Inr p, w2)"
    using Load_succeeds [OF w(1) own p] by blast
  note f2 = db_part_fields [of w2 w]
  have "db_part w2 = db_part w" using Load_effect [OF l] by simp
  note f2 = db_part_fields [OF this]
  obtain w3 where k: "MarkRestored ?repo (WithActor ctx restorer_actor) acc w2 =
      (Inr (session_of_row (restored_session_row (db_now w2) row)), w3)"
    using MarkRestored_stored [of w2 acc row] f2 w(2) row by fastforce
  have key: "session_ObjectKey (session_of_row row) = ?key" by (simp add: session_of_row_def)
  have "Restore (pg_restorer client b) ctx acc w =
      ((session_of_row (restored_session_row (db_now w2) row), p, None), w3)"
    using GetByAccountID_found [OF w(2) row(1)] l k
    by (simp add: Restore_def pg_restorer_def NewSessionRestorer_def key)
  then show ?thesis by (simp add: session_of_row_def restored_session_row_def)
qed

text \<open>A save whose last statement fails takes the payload the metadata point at away.\<close>

lemma Restorer_Save_lost:
  assumes w: "healthy w" "db_faults w = [NoFault, Failed e]" and acc: "acc \<noteq> uuid_Nil" "session_map w acc = Some row"
    and p: "json_Valid p" and pos: "0 < following_revision w acc"
    and key_def: "key = SessionPayloadObjectKey (ResolveObjectOwnerKey login acc)"
  shows "\<exists>w' x. Restorer_Save (pg_restorer client b) ctx acc login p w = (Inl x, w') \<and>
    healthy w' \<and> db_faults w' = [] \<and> session_map w' acc = Some row \<and> view w' (b, key) = None"
proof -
  let ?n = "following_revision w acc" and ?repo = "NewSessionRepository [pg_audit_log] :: 'a storage_ext session_repository"
  let ?m = "saved_metadata acc ?n key" and ?w1 = "w\<lparr>db_faults := [Failed e]\<rparr>"
  have g: "GetByAccountID ctx acc w = (Inr (session_of_row row), ?w1)"
    using w(2) acc(2)
    by (simp add: GetByAccountID_def autocommit_def pop_fault_def scanSessionMetadata_def select_session_def session_map_def)
  have next_: "next_revision (Inr (session_of_row row)) = Inr ?n"
    using acc(2) by (simp add: next_revision_def following_revision_def metadata_of_def)
  have "storage.more ?w1 = storage.more w" by simp
  then have h1: "healthy ?w1" using healthy_ext w(1) by blast
  obtain w2 where s: "SessionStore_Save \<lparr>os_client = client, os_bucket = b\<rparr> ctx acc login ?n p ?w1 = (Inr key, w2)" "healthy w2"
    using Save_succeeds [OF h1 acc(1) pos p] unfolding key_def by blast
  have db2: "db_part w2 = db_part ?w1" using Save_effect [OF s(1)] by blast
  have f2: "db_faults w2 = [Failed e]" "session_map w2 acc = Some row"
    using db_part_fields [OF db2] acc(2) by (simp_all add: session_map_def)
  let ?w3 = "w2\<lparr>db_faults := []\<rparr>"
  have valid: "SessionMetadata_Validate ?m = None"
    using pos acc(1) SessionPayloadObjectKey_nonempty
    by (simp add: saved_metadata_def zero_metadata_def SessionMetadata_Validate_None key_def)
  have u: "\<exists>x. Session_Upsert ?repo (WithActor ctx restorer_actor) ?m w2 = (Inl x, ?w3)"
    using valid f2 by (simp add: Session_Upsert_def autocommit_def pop_fault_def scanSessionMetadata_def)
  have "storage.more ?w3 = storage.more w2" by simp
  then have h3: "healthy ?w3" using healthy_ext s(2) by blast
  obtain w4 where d: "Store_Delete \<lparr>os_client = client, os_bucket = b\<rparr> ctx key ?w3 = (None, w4)" "healthy w4"
    using Delete_succeeds [OF h3] by blast
  have "\<exists>x. Restorer_Save (pg_restorer client b) ctx acc login p w = (Inl x, w4)"
    using g next_ s(1) u d(1) by (auto simp: Restorer_Save_def pg_restorer_def NewSessionRestorer_def)
  moreover have "db_part w4 = db_part ?w3" "view w4 (b, key) = None" using Delete_effect [OF d(1)] by simp_all
  moreover have "session_map ?w3 = session_map w2" by (rule session_map_same) simp
  ultimately show ?thesis using db_part_fields [of w4 ?w3] d(2) f2 by auto
qed

lemma Restore_missing:
  assumes w: "healthy w" "db_faults w = []" and row: "session_map w acc = Some row"
    and p: "view w (b, srow_object_key row) = None" and own: "IsSessionObjectOwnedByAccount acc (srow_object_key row)"
  shows "IsDomainErrorCode (snd (snd (fst (Restore (pg_restorer client b) ctx acc w)))) ErrorCodeSessionPayloadMissing"
proof -
  let ?key = "srow_object_key row"
  obtain x w2 where l: "SessionStore_Load \<lparr>os_client = client, os_bucket = b\<rparr> ctx acc ?key w = (Inl x, w2)"
    "IsDomainErrorCode (Some x) ErrorCodeSessionPayloadMissing"
    using Load_missing [OF w(1) own p] by blast
  have key: "session_ObjectKey (session_of_row row) = ?key" by (simp add: session_of_row_def)
  show ?thesis using GetByAccountID_found [OF w(2) row] l
    by (auto simp: Restore_def pg_restorer_def NewSessionRestorer_def key IsDomainErrorCode_def
        split: sum.splits prod.splits option.splits)
qed

end

text \<open>
  C14.  What is saved is what is restored: with the database and the storage up, saving a valid payload for
  an account that exists succeeds, and restoring then returns that payload with the next revision.
\<close>

theorem session_save_restore_roundtrip:
  assumes "healthy_storage client view healthy" "healthy w" "db_faults w = []"
    "acc \<noteq> uuid_Nil" "acc \<in> set (map arow_id (db_accounts w))" "json_Valid p"
    "0 < following_revision w acc" "plain_login (ResolveObjectOwnerKey login acc)"
    "Restorer_Save (pg_restorer client b) ctx acc login p w = (r, w')"
    "Restore (pg_restorer client b) ctx' acc w' = ((m, q, err), w'')"
  shows "(\<exists>u. r = Inr u) \<and> err = None \<and> q = p \<and> session_Revision m = following_revision w acc"
proof -
  let ?key = "SessionPayloadObjectKey (ResolveObjectOwnerKey login acc)"
  from healthy_storage.Restorer_Save_stored [where login = login and b = b and ctx = ctx, OF assms(1-7) refl] obtain row where
    row: "\<exists>u. r = Inr u" "healthy w'" "db_faults w' = []" "session_map w' acc = Some row" "session_row_ok row"
      "srow_object_key row = ?key" "view w' (b, ?key) = Some p" "srow_revision row = following_revision w acc"
    using assms(9) by auto
  have "IsSessionObjectOwnedByAccount acc ?key" by (rule session_key_owned [OF assms(8)])
  from healthy_storage.Restore_stored [where b = b and ctx = ctx', OF assms(1) row(2-5) _ assms(6)] this row(6,7)
  show ?thesis using row(1,8) assms(10) by auto
qed

text \<open>
  C29.  A save whose metadata cannot be written takes the stored session with it: the cleanup removes the
  object the old metadata still point at, and the account has to log in again at its next task.
\<close>

theorem failed_save_loses_session:
  assumes "healthy_storage client view healthy" "healthy w" "db_faults w = [NoFault, Failed e]"
    "acc \<noteq> uuid_Nil" "session_map w acc = Some row" "json_Valid p" "0 < following_revision w acc"
    "srow_object_key row = SessionPayloadObjectKey (ResolveObjectOwnerKey login acc)"
    "plain_login (ResolveObjectOwnerKey login acc)"
    "Restorer_Save (pg_restorer client b) ctx acc login p w = (r, w')"
    "Restore (pg_restorer client b) ctx' acc w' = ((m, q, err), w'')"
  shows "(\<exists>x. r = Inl x) \<and> session_map w' acc = Some row \<and> view w' (b, srow_object_key row) = None \<and>
    BootstrapReasonForRestoreError err = (ErrorCodeAuthBootstrapRequired, True)"
proof -
  from healthy_storage.Restorer_Save_lost [where b = b and ctx = ctx, OF assms(1-8)] have
    w': "\<exists>x. r = Inl x" "healthy w'" "db_faults w' = []" "session_map w' acc = Some row"
      "view w' (b, srow_object_key row) = None"
    using assms(10) by auto
  have "IsSessionObjectOwnedByAccount acc (srow_object_key row)"
    using session_key_owned [OF assms(9)] assms(8) by simp
  from healthy_storage.Restore_missing [where b = b and ctx = ctx', OF assms(1) w'(2-5) this]
  have "IsDomainErrorCode err ErrorCodeSessionPayloadMissing" using assms(11) by simp
  then show ?thesis using w' by (simp add: BootstrapReasonForRestoreError_def IsDomainErrorCode_def)
qed

lemma session_restore_outcome_witness:
  "w_objects (snd (Restore (pg_restorer minio_client ''sessions'') Background ''a1'' sample_world))
     (''sessions'', ''user/latest.json'') = Some json_object"
proof -
  let ?run = "Restore (pg_restorer minio_client ''sessions'') Background ''a1'' sample_world"
  have old: "w_objects sample_world (''sessions'', ''user/latest.json'') = Some json_object" by code_simp
  obtain m p err w' where run: "?run = ((m, p, err), w')" by (cases ?run) auto
  show ?thesis
    using session_restore_outcome [OF bucket.object_storage_axioms run] old unfolding run by simp
qed

definition sample_saved :: "(go_error + session_metadata) \<times> world" where
  "sample_saved = Restorer_Save (pg_restorer minio_client ''sessions'') Background ''a1'' ''user'' json_array sample_world"

definition sample_restored :: "(session_metadata \<times> bytes \<times> go_error option) \<times> world" where
  "sample_restored = Restore (pg_restorer minio_client ''sessions'') Background ''a1'' (snd sample_saved)"

lemma sample_world_facts:
  "w_object_faults sample_world = []" "db_faults sample_world = []" "''a1'' \<noteq> uuid_Nil"
  "''a1'' \<in> set (map arow_id (db_accounts sample_world))" "json_Valid json_array"
  "following_revision sample_world ''a1'' = 4" "plain_login (ResolveObjectOwnerKey ''user'' ''a1'')"
  by code_simp+

lemma session_save_restore_roundtrip_witness:
  "fst (snd (fst sample_restored)) = json_array \<and> session_Revision (fst (fst sample_restored)) = 4"
proof -
  obtain r w' where s: "sample_saved = (r, w')" by (cases sample_saved)
  obtain m q err w'' where t: "sample_restored = ((m, q, err), w'')" by (cases sample_restored) auto
  have pos: "0 < following_revision sample_world ''a1''" by (simp add: sample_world_facts)
  have run: "Restorer_Save (pg_restorer minio_client ''sessions'') Background ''a1'' ''user'' json_array sample_world = (r, w')"
    "Restore (pg_restorer minio_client ''sessions'') Background ''a1'' w' = ((m, q, err), w'')"
    using s t by (simp_all add: sample_saved_def sample_restored_def)
  have "q = json_array \<and> session_Revision m = following_revision sample_world ''a1''"
    using session_save_restore_roundtrip [OF bucket_up.healthy_storage_axioms sample_world_facts(1-5) pos
        sample_world_facts(7) run] by blast
  then show ?thesis unfolding t by (simp add: sample_world_facts)
qed

definition sample_outage :: world where
  "sample_outage =
     world_of (sample_session_db\<lparr>db_sessions := [sample_session\<lparr>srow_object_key := ''user/latest.json''\<rparr>],
                 db_faults := [NoFault, Failed (PlainErr ''connection reset'')]\<rparr>)
       [(''sessions'', ''user/latest.json'') \<mapsto> json_object]"

lemma sample_outage_facts:
  "w_object_faults sample_outage = []" "db_faults sample_outage = [NoFault, Failed (PlainErr ''connection reset'')]"
  "''a1'' \<noteq> uuid_Nil" "session_map sample_outage ''a1'' = Some (sample_session\<lparr>srow_object_key := ''user/latest.json''\<rparr>)"
  "json_Valid json_array" "0 < following_revision sample_outage ''a1''"
  "srow_object_key (sample_session\<lparr>srow_object_key := ''user/latest.json''\<rparr>) =
     SessionPayloadObjectKey (ResolveObjectOwnerKey ''user'' ''a1'')"
  "plain_login (ResolveObjectOwnerKey ''user'' ''a1'')"
  by code_simp+

lemma failed_save_loses_session_witness:
  "w_objects sample_outage (''sessions'', ''user/latest.json'') = Some json_object \<and>
   w_objects (snd (Restorer_Save (pg_restorer minio_client ''sessions'') Background ''a1'' ''user'' json_array sample_outage))
     (''sessions'', ''user/latest.json'') = None"
proof -
  let ?save = "Restorer_Save (pg_restorer minio_client ''sessions'') Background ''a1'' ''user'' json_array sample_outage"
  obtain r w' where s: "?save = (r, w')" by (cases ?save)
  let ?restore = "Restore (pg_restorer minio_client ''sessions'') Background ''a1'' w'"
  obtain m q err w'' where t: "?restore = ((m, q, err), w'')" by (cases ?restore) auto
  have "w_objects w' (''sessions'', ''user/latest.json'') = None"
    using failed_save_loses_session [OF bucket_up.healthy_storage_axioms sample_outage_facts s t] by simp
  moreover have "w_objects sample_outage (''sessions'', ''user/latest.json'') = Some json_object" by code_simp
  ultimately show ?thesis unfolding s by simp
qed

end
