(* ===== verification/Result_Repository.thy ===== *)
theory Result_Repository
  imports Session_Repository "HOL-Library.Product_Lexorder"
begin

text \<open>
  \<open>internal/repository/postgres/result_postgres.go\<close>: the stored outcome of each attempt of a task, and
  the history an administrator reads.  The query that \<open>buildFollowResultsHistoryStatement\<close> writes is
  modelled by what it selects.  The theorems say that a validated result is stored and read back, where
  the code's own check and the table's disagree, and what a page of the history holds.
\<close>

section \<open>Rows\<close>

definition nullableInt64 :: "int \<Rightarrow> int option" where
  "nullableInt64 v = (if v = 0 then None else Some v)"

definition result_of_row :: "result_row \<Rightarrow> follow_result" where
  "result_of_row r =
     \<lparr>fr_TaskID = rrow_task_id r,
      fr_AccountID = rrow_account_id r,
      fr_TargetProfile = rrow_target_profile r,
      fr_Attempt = rrow_attempt r,
      fr_Outcome = rrow_outcome r,
      fr_Verified = rrow_verified r,
      fr_VerificationSignal = rrow_verification_signal r,
      fr_VerificationReason =
        TrimSpace (case rrow_verification_reason r of None \<Rightarrow> '''' | Some v \<Rightarrow> v),
      fr_ErrorCode = (case rrow_error_code r of None \<Rightarrow> no_error_code | Some c \<Rightarrow> c),
      fr_ScreenshotObjectKey = rrow_screenshot_object_key r,
      fr_ArtifactObjectKeys = rrow_artifact_object_keys r,
      fr_SessionRevision = (case rrow_session_revision r of None \<Rightarrow> 0 | Some v \<Rightarrow> v),
      fr_CreatedAt = rrow_created_at r,
      fr_UpdatedAt = rrow_updated_at r\<rparr>"

definition scanFollowResult :: "(go_error + result_row) \<times> 's \<Rightarrow> (go_error + follow_result) \<times> 's" where
  "scanFollowResult res =
     (case res of (Inl e, s) \<Rightarrow> (Inl (with_stack e), s) | (Inr r, s) \<Rightarrow> (Inr (result_of_row r), s))"

record follow_result_history_entry =
  fhe_TaskID :: uuid
  fhe_AccountID :: uuid
  fhe_TargetProfile :: string
  fhe_Attempt :: int
  fhe_TaskStatus :: task_status
  fhe_FollowOutcome :: follow_flow_outcome
  fhe_Verified :: bool
  fhe_VerificationSignal :: follow_verification_signal
  fhe_ErrorCode :: error_code
  fhe_ResultReason :: string
  fhe_CreatedAt :: time
  fhe_UpdatedAt :: time

definition scanFollowResultHistoryEntry :: "result_row \<times> task_row \<Rightarrow> follow_result_history_entry" where
  "scanFollowResultHistoryEntry rt =
     (let r = fst rt; t = snd rt in
      \<lparr>fhe_TaskID = rrow_task_id r,
       fhe_AccountID = rrow_account_id r,
       fhe_TargetProfile = rrow_target_profile r,
       fhe_Attempt = rrow_attempt r,
       fhe_TaskStatus = trow_status t,
       fhe_FollowOutcome = rrow_outcome r,
       fhe_Verified = rrow_verified r,
       fhe_VerificationSignal = rrow_verification_signal r,
       fhe_ErrorCode = (case rrow_error_code r of None \<Rightarrow> no_error_code | Some c \<Rightarrow> c),
       fhe_ResultReason = TrimSpace (case trow_result_reason t of None \<Rightarrow> '''' | Some v \<Rightarrow> v),
       fhe_CreatedAt = rrow_created_at r,
       fhe_UpdatedAt = rrow_updated_at r\<rparr>)"


section \<open>Statements\<close>

definition result_key :: "result_row \<Rightarrow> uuid \<times> int" where
  "result_key r = (rrow_task_id r, rrow_attempt r)"

definition find_result :: "uuid \<times> int \<Rightarrow> result_row list \<Rightarrow> result_row option" where
  "find_result k rs = find (\<lambda>r. result_key r = k) rs"

definition select_result :: "uuid \<Rightarrow> int \<Rightarrow> (result_row, ('x) db_scheme) stmt" where
  "select_result tid attempt s =
     (case find_result (tid, attempt) (db_results s) of None \<Rightarrow> Inl NoRows | Some r \<Rightarrow> Inr (r, s))"

definition put_result :: "result_row \<Rightarrow> result_row list \<Rightarrow> result_row list" where
  "put_result r rs = map (\<lambda>x. if result_key x = result_key r then r else x) rs"

text \<open>\<open>INSERT ... ON CONFLICT (task_id, attempt) DO UPDATE\<close>.\<close>

definition upserted_result :: "follow_result \<Rightarrow> time \<Rightarrow> result_row option \<Rightarrow> result_row" where
  "upserted_result res now old =
     \<lparr>rrow_task_id = fr_TaskID res,
      rrow_attempt = fr_Attempt res,
      rrow_account_id = fr_AccountID res,
      rrow_target_profile = fr_TargetProfile res,
      rrow_outcome = fr_Outcome res,
      rrow_verified = fr_Verified res,
      rrow_verification_signal = fr_VerificationSignal res,
      rrow_verification_reason = nullableString (fr_VerificationReason res),
      rrow_error_code = nullableErrorCode (fr_ErrorCode res),
      rrow_screenshot_object_key = fr_ScreenshotObjectKey res,
      rrow_artifact_object_keys = fr_ArtifactObjectKeys res,
      rrow_session_revision = nullableInt64 (fr_SessionRevision res),
      rrow_created_at = (case old of None \<Rightarrow> now | Some r \<Rightarrow> rrow_created_at r),
      rrow_updated_at = now\<rparr>"

definition upsert_result :: "follow_result \<Rightarrow> (result_row, ('x) db_scheme) stmt" where
  "upsert_result res s =
     (let old = find_result (fr_TaskID res, fr_Attempt res) (db_results s);
          r = upserted_result res (db_now s) old
      in if \<not> result_row_ok r then Inl (constraint_error ''follow_results_check'')
         else if fr_AccountID res \<notin> set (map arow_id (db_accounts s)) then
           Inl (constraint_error ''follow_results_account_id_fkey'')
         else if (fr_TaskID res, fr_AccountID res) \<notin>
                 set (map (\<lambda>t. (trow_id t, trow_account_id t)) (db_tasks s)) then
           Inl (constraint_error ''fk_follow_results_task_account'')
         else Inr (r, s\<lparr>db_results :=
                (case old of None \<Rightarrow> db_results s @ [r] | Some q \<Rightarrow> put_result r (db_results s))\<rparr>))"

text \<open>The \<open>WHERE\<close> clause: a filter that is not given is left out of the statement.\<close>

definition history_filter :: "follow_results_history_query \<Rightarrow> result_row \<times> task_row \<Rightarrow> bool" where
  "history_filter query rt =
     (let r = fst rt; t = snd rt in
      (hq_AccountID query \<noteq> uuid_Nil \<longrightarrow> rrow_account_id r = hq_AccountID query) \<and>
      (TrimSpace (hq_TargetProfile query) \<noteq> '''' \<longrightarrow> rrow_target_profile r = hq_TargetProfile query) \<and>
      (follow_outcome_str (hq_Outcome query) \<noteq> '''' \<longrightarrow> rrow_outcome r = hq_Outcome query) \<and>
      (task_status_str (hq_TaskStatus query) \<noteq> '''' \<longrightarrow> trow_status t = hq_TaskStatus query) \<and>
      (case hq_From query of None \<Rightarrow> True | Some from_ \<Rightarrow> rrow_created_at r \<ge> from_) \<and>
      (case hq_To query of None \<Rightarrow> True | Some to_ \<Rightarrow> rrow_created_at r \<le> to_))"

definition history_order :: "result_row \<times> task_row \<Rightarrow> time \<times> uuid \<times> int" where
  "history_order rt = (rrow_created_at (fst rt), rrow_task_id (fst rt), rrow_attempt (fst rt))"

definition history_rows :: "follow_results_history_query \<Rightarrow> ('x) db_scheme \<Rightarrow> (result_row \<times> task_row) list" where
  "history_rows query s =
     rev (sort_key history_order
       (filter (history_filter query)
          (concat (map (\<lambda>r. map (Pair r) (filter (\<lambda>t. trow_id t = rrow_task_id r) (db_tasks s)))
             (db_results s)))))"

definition select_history ::
  "follow_results_history_query \<Rightarrow> ((result_row \<times> task_row) list, ('x) db_scheme) stmt" where
  "select_history query s =
     Inr (take (nat (hq_Limit query)) (drop (nat (hq_Offset query)) (history_rows query s)), s)"


section \<open>Operations\<close>

record 'x result_repository =
  rrepo_auditLog :: "'x audit_log option"

definition NewResultRepository :: "'x audit_log list \<Rightarrow> 'x result_repository" where
  "NewResultRepository auditLog =
     \<lparr>rrepo_auditLog = (case auditLog of [] \<Rightarrow> None | l # ls \<Rightarrow> Some l)\<rparr>"

definition persist_failed :: "string \<Rightarrow> go_error \<Rightarrow> go_error" where
  "persist_failed what e = NewDomainError ErrorCodeFollowResultPersistFailed (what @ '': '' @ error_text e)"

definition Result_Upsert ::
  "'x result_repository \<Rightarrow> go_context \<Rightarrow> follow_result \<Rightarrow> 'x db_scheme \<Rightarrow>
   (go_error + follow_result) \<times> 'x db_scheme" where
  "Result_Upsert repo ctx res s =
     (case FollowResult_Validate res of
        Some err \<Rightarrow> (Inl (with_stack err), s)
      | None \<Rightarrow>
        (case scanFollowResult (autocommit (upsert_result res) s) of
           (Inl e, s1) \<Rightarrow> (Inl (persist_failed ''upsert follow result failed'' e), s1)
         | (Inr stored, s1) \<Rightarrow>
             (Inr stored, audit_best_effort (rrepo_auditLog repo) ctx
                \<lparr>event_Actor = no_actor, event_Action = ''follow.result.persisted'',
                 event_TargetType = ''follow_result'',
                 event_TargetID = fr_TaskID stored @ '':'' @ Itoa (fr_Attempt stored),
                 event_ChangeSummary = ''follow result persisted'',
                 event_DiagnosticFields =
                   [(''task_id'', fr_TaskID stored),
                    (''account_id'', fr_AccountID stored),
                    (''attempt'', Itoa (fr_Attempt stored)),
                    (''outcome'', follow_outcome_str (fr_Outcome stored)),
                    (''verified'', FormatBool (fr_Verified stored)),
                    (''verification_signal'', verification_signal_str (fr_VerificationSignal stored)),
                    (''error_code'', error_code_str (fr_ErrorCode stored))]\<rparr> s1)))"

definition GetByTaskAttempt ::
  "go_context \<Rightarrow> uuid \<Rightarrow> int \<Rightarrow> 'x db_scheme \<Rightarrow> (go_error + follow_result) \<times> 'x db_scheme" where
  "GetByTaskAttempt ctx tid attempt s =
     (if tid = uuid_Nil then
        (Inl (NewDomainError ErrorCodeInvalidTaskIdentifier ''task id must not be empty''), s)
      else if attempt \<le> 0 then
        (Inl (NewDomainError ErrorCodeInvalidTaskTransition (''attempt must be > 0, got '' @ Itoa attempt)), s)
      else case scanFollowResult (autocommit (select_result tid attempt) s) of
        (Inl e, s1) \<Rightarrow>
          if errors_is e NoRows then
            (Inl (NewDomainError ErrorCodeFollowResultNotFound
                    (''follow result for task '' @ tid @ '' attempt '' @ Itoa attempt @ '' not found'')), s1)
          else (Inl (persist_failed ''get follow result failed'' e), s1)
      | (Inr r, s1) \<Rightarrow> (Inr r, s1))"

definition ListHistory ::
  "go_context \<Rightarrow> follow_results_history_query \<Rightarrow> 'x db_scheme \<Rightarrow>
   (go_error + follow_result_history_entry list) \<times> 'x db_scheme" where
  "ListHistory ctx query s =
     (case FollowResultsHistoryQuery_Validate query of
        Some err \<Rightarrow> (Inl (with_stack err), s)
      | None \<Rightarrow>
        (case autocommit (select_history query) s of
           (Inl e, s1) \<Rightarrow> (Inl (persist_failed ''list follow result history failed'' e), s1)
         | (Inr rows, s1) \<Rightarrow> (Inr (map scanFollowResultHistoryEntry rows), s1)))"



section \<open>What an upsert does\<close>

definition result_map :: "'x db_scheme \<Rightarrow> uuid \<times> int \<Rightarrow> result_row option" where
  "result_map s k = find_result k (db_results s)"

definition result_frame :: "'x db_scheme \<Rightarrow> 'x db_scheme \<Rightarrow> bool" where
  "result_frame s s' \<longleftrightarrow>
     db_tasks s' = db_tasks s \<and> db_accounts s' = db_accounts s \<and> db_proxies s' = db_proxies s \<and>
     db_sessions s' = db_sessions s \<and> db_now s' = db_now s"

definition result_safe :: "'x db_scheme \<Rightarrow> 'x db_scheme \<Rightarrow> bool" where
  "result_safe s s' \<longleftrightarrow> (db_ok s \<longrightarrow> db_ok s' \<and> result_frame s s')"

lemma result_safe_refl [simp]: "result_safe s s"
  by (simp add: result_safe_def result_frame_def)

lemma result_safe_trans [trans]: "result_safe s t \<Longrightarrow> result_safe t u \<Longrightarrow> result_safe s u"
  by (simp add: result_safe_def result_frame_def)

lemma result_safe_same: "same_tables s s' \<Longrightarrow> result_safe s s'"
  by (simp add: result_safe_def result_frame_def db_ok_same_tables) (simp add: same_tables_def)

lemma result_safe_relation: "table_relation result_safe"
  unfolding table_relation_def by (blast intro: result_safe_same result_safe_trans)

lemma result_map_same: "db_results s' = db_results s \<Longrightarrow> result_map s' = result_map s"
  by (rule ext) (simp add: result_map_def)

lemma put_result_keys: "map result_key (put_result r rs) = map result_key rs"
  unfolding put_result_def by (rule map_key_put)

lemma set_put_result: "x \<in> set (put_result r rs) \<Longrightarrow> x = r \<or> x \<in> set rs"
  by (auto simp: put_result_def split: if_splits)

lemma results_ok_upsert:
  assumes ok: "results_ok accounts tasks rs" and r: "result_row_ok r"
    and acc: "rrow_account_id r \<in> set (map arow_id accounts)"
    and fk: "(rrow_task_id r, rrow_account_id r) \<in> set (map (\<lambda>t. (trow_id t, trow_account_id t)) tasks)"
    and key: "result_key r = k"
  shows "results_ok accounts tasks
    (case find_result k rs of None \<Rightarrow> rs @ [r] | Some q \<Rightarrow> put_result r rs)" (is "results_ok _ _ ?rs")
proof -
  have keys: "results_ok accounts tasks xs \<longleftrightarrow> distinct (map result_key xs) \<and> list_all result_row_ok xs \<and>
      list_all (\<lambda>r. rrow_account_id r \<in> set (map arow_id accounts) \<and>
         (rrow_task_id r, rrow_account_id r) \<in> set (map (\<lambda>t. (trow_id t, trow_account_id t)) tasks)) xs" for xs
    by (simp add: results_ok_def result_key_def [abs_def])
  show ?thesis
  proof (cases "find_result k rs")
    case None
    then have "k \<notin> set (map result_key rs)" unfolding find_result_def by (simp only: find_key_None simp_thms)
    then show ?thesis using None ok r acc fk key by (auto simp: keys)
  next
    case (Some q)
    have "result_row_ok x \<and> rrow_account_id x \<in> set (map arow_id accounts) \<and>
        (rrow_task_id x, rrow_account_id x) \<in> set (map (\<lambda>t. (trow_id t, trow_account_id t)) tasks)"
      if "x \<in> set (put_result r rs)" for x
      using set_put_result [OF that]
    proof
      assume "x = r" then show ?thesis using r acc fk by simp
    next
      assume "x \<in> set rs" then show ?thesis using ok by (simp only: keys list_all_iff)
    qed
    then show ?thesis using Some ok by (simp add: keys put_result_keys list_all_iff)
  qed
qed

lemma upsert_result_Inr:
  assumes "upsert_result res s = Inr (r, s')"
  shows "r = upserted_result res (db_now s) (result_map s (fr_TaskID res, fr_Attempt res)) \<and> result_row_ok r \<and>
    result_map s' = (result_map s)((fr_TaskID res, fr_Attempt res) \<mapsto> r) \<and> result_safe s s' \<and>
    (\<exists>rs. s' = s\<lparr>db_results := rs\<rparr>)"
proof -
  let ?k = "(fr_TaskID res, fr_Attempt res)"
  let ?rs = "case find_result ?k (db_results s) of None \<Rightarrow> db_results s @ [r] | Some q \<Rightarrow> put_result r (db_results s)"
  have r: "r = upserted_result res (db_now s) (find_result ?k (db_results s))" "result_row_ok r"
    "fr_AccountID res \<in> set (map arow_id (db_accounts s))"
    "(fr_TaskID res, fr_AccountID res) \<in> set (map (\<lambda>t. (trow_id t, trow_account_id t)) (db_tasks s))"
    "s' = s\<lparr>db_results := ?rs\<rparr>"
    using assms by (auto simp: upsert_result_def Let_def split: if_splits)
  have key: "result_key r = ?k" by (simp add: r(1) upserted_result_def result_key_def)
  have fields: "rrow_account_id r = fr_AccountID res" "rrow_task_id r = fr_TaskID res"
    by (simp_all add: r(1) upserted_result_def)
  have "find_result k ?rs = (if k = ?k then Some r else find_result k (db_results s))" for k
    unfolding find_result_def put_result_def by (rule find_key_upsert [where k = result_key, OF key])
  then have map: "result_map s' = (result_map s)(?k \<mapsto> r)"
    by (auto simp: result_map_def r(5) fun_eq_iff)
  have "results_ok (db_accounts s) (db_tasks s) ?rs" if "results_ok (db_accounts s) (db_tasks s) (db_results s)"
    by (rule results_ok_upsert [OF that r(2) _ _ key]) (use r(3,4) fields in simp_all)
  then have "result_safe s s'"
    unfolding r(5) by (simp add: result_safe_def result_frame_def db_ok_def)
  then show ?thesis using r(1,2,5) map by (auto simp: result_map_def)
qed

lemma audit_best_effort_result:
  assumes "audit_wired auditLog"
  shows "result_safe s (audit_best_effort auditLog ctx ev s) \<and>
    db_results (audit_best_effort auditLog ctx ev s) = db_results s"
proof -
  have "same_core s (audit_best_effort auditLog ctx ev s)" by (rule audit_best_effort_core [OF assms])
  moreover have "queue_safe s (audit_best_effort auditLog ctx ev s)" by (rule audit_best_effort_safe [OF assms])
  ultimately show ?thesis
    by (simp add: result_safe_def queue_safe_def result_frame_def same_core_def)
qed

lemma Result_Upsert_safe:
  assumes wired: "audit_wired (rrepo_auditLog repo)" and run: "Result_Upsert repo ctx res s = (r, s')"
  shows "result_safe s s'"
proof (cases "FollowResult_Validate res")
  case (Some err)
  then show ?thesis using run by (simp add: Result_Upsert_def)
next
  case None
  obtain r1 s1 where ac: "autocommit (upsert_result res) s = (r1, s1)" by (cases "autocommit (upsert_result res) s")
  have "result_safe s s1"
    by (rule autocommit_relation [OF result_safe_relation _ ac]) (use upsert_result_Inr in blast)
  moreover have "s' = s1 \<or> (\<exists>ev. s' = audit_best_effort (rrepo_auditLog repo) ctx ev s1)"
    using run None ac by (auto simp: Result_Upsert_def scanFollowResult_def split: sum.splits)
  ultimately show ?thesis using audit_best_effort_result [OF wired] result_safe_trans by blast
qed

lemma result_row_ok_upserted:
  assumes "FollowResult_Validate res = None" "fr_Attempt res \<le> int4_max"
  shows "result_row_ok (upserted_result res now old) \<longleftrightarrow> (fr_Verified res \<longrightarrow> fr_ErrorCode res = no_error_code)"
  using assms trim_space_nonblank
  by (auto simp: FollowResult_Validate_None result_row_ok_def upserted_result_def nullableErrorCode_def
      nullableInt64_def error_code_str_Nil nonblank_def)


section \<open>Theorems\<close>

text \<open>
  C34.  A validated result of an attempt of an existing task is stored and read back field by field, its
  reason trimmed, and no other attempt's result changes.  Of a verified result this holds when the error
  code is empty; \<open>Validate\<close> also lets pass one of white space only, see the next property.
\<close>

theorem Result_Upsert_roundtrip:
  assumes "FollowResult_Validate res = None" "fr_Attempt res \<le> int4_max"
    "fr_Verified res \<longrightarrow> fr_ErrorCode res = no_error_code"
    "\<exists>t \<in> set (db_tasks s). trow_id t = fr_TaskID res \<and> trow_account_id t = fr_AccountID res"
    "db_ok s" "db_faults s = []" "audit_wired (rrepo_auditLog repo)"
    "Result_Upsert repo ctx res s = (r, s')"
  shows "\<exists>u. r = Inr u \<and> fst (GetByTaskAttempt ctx' (fr_TaskID res) (fr_Attempt res) s') = Inr u \<and>
    u = res\<lparr>fr_VerificationReason := TrimSpace (fr_VerificationReason res),
            fr_CreatedAt := fr_CreatedAt u, fr_UpdatedAt := db_now s\<rparr> \<and>
    (\<forall>k. k \<noteq> (fr_TaskID res, fr_Attempt res) \<longrightarrow> result_map s' k = result_map s k) \<and>
    db_ok s' \<and> result_frame s s'"
proof -
  let ?k = "(fr_TaskID res, fr_Attempt res)"
  let ?row = "upserted_result res (db_now s) (result_map s ?k)"
  have ok: "result_row_ok ?row" using assms(3) by (simp add: result_row_ok_upserted [OF assms(1,2)])
  obtain t where t: "t \<in> set (db_tasks s)" "trow_id t = fr_TaskID res" "trow_account_id t = fr_AccountID res"
    using assms(4) by blast
  have acc: "fr_AccountID res \<in> set (map arow_id (db_accounts s))"
    using assms(5) t(1) unfolding t(3) [symmetric] by (simp only: db_ok_def tasks_ok_def list_all_iff)
  have fk: "(fr_TaskID res, fr_AccountID res) \<in> set (map (\<lambda>t. (trow_id t, trow_account_id t)) (db_tasks s))"
    using t by force
  obtain rs where up: "upsert_result res s = Inr (?row, s\<lparr>db_results := rs\<rparr>)"
    using ok acc fk by (simp add: upsert_result_def Let_def result_map_def)
  have map: "result_map (s\<lparr>db_results := rs\<rparr>) = (result_map s)(?k \<mapsto> ?row)"
    using upsert_result_Inr [OF up] by simp
  obtain ev where run: "r = Inr (result_of_row ?row)"
    "s' = audit_best_effort (rrepo_auditLog repo) ctx ev (s\<lparr>db_results := rs\<rparr>)"
    using assms(1,6,8) up by (auto simp: Result_Upsert_def autocommit_def scanFollowResult_def)
  have faults: "db_faults s' = []" unfolding run(2) by (rule audit_no_faults) (use assms in simp_all)
  have map': "result_map s' = (result_map s)(?k \<mapsto> ?row)"
    using audit_best_effort_result [OF assms(7), of "s\<lparr>db_results := rs\<rparr>"] result_map_same map run(2) by metis
  then have "select_result (fr_TaskID res) (fr_Attempt res) s' = Inr (?row, s')"
    by (simp add: select_result_def flip: result_map_def)
  then have get: "fst (GetByTaskAttempt ctx' (fr_TaskID res) (fr_Attempt res) s') = Inr (result_of_row ?row)"
    using faults assms(1) by (simp add: GetByTaskAttempt_def autocommit_def scanFollowResult_def FollowResult_Validate_None)
  have same: "result_of_row ?row = res\<lparr>fr_VerificationReason := TrimSpace (fr_VerificationReason res),
      fr_CreatedAt := fr_CreatedAt (result_of_row ?row), fr_UpdatedAt := db_now s\<rparr>"
    using nullableErrorCode_back [of "fr_ErrorCode res"]
    by (cases res) (simp add: result_of_row_def upserted_result_def nullableString_def nullableInt64_def)
  have "db_ok s' \<and> result_frame s s'"
    using Result_Upsert_safe [OF assms(7,8)] assms(5) by (simp add: result_safe_def)
  then show ?thesis using run(1) map' get same by auto
qed

definition sample_result :: follow_result where
  "sample_result =
     \<lparr>fr_TaskID = ''t1'', fr_AccountID = ''a1'', fr_TargetProfile = sample_target, fr_Attempt = 1,
      fr_Outcome = FollowFlowOutcomeCompleted, fr_Verified = True,
      fr_VerificationSignal = FollowVerificationSignalFollowConfirmed, fr_VerificationReason = '' ok '',
      fr_ErrorCode = no_error_code, fr_ScreenshotObjectKey = ''u/s.png'',
      fr_ArtifactObjectKeys = [''u/a.json''], fr_SessionRevision = 0, fr_CreatedAt = 0, fr_UpdatedAt = 0\<rparr>"

definition sample_result_repo :: "unit result_repository" where
  "sample_result_repo = NewResultRepository [pg_audit_log]"

lemma sample_result_wired: "audit_wired (rrepo_auditLog sample_result_repo)"
  by (simp add: sample_result_repo_def NewResultRepository_def audit_wired_def)

lemma sample_running_db_ok: "db_ok (sample_db [sample_running])"
  by (rule sample_db_ok) (use sample_rows_ok in simp_all)

lemma Result_Upsert_roundtrip_witness:
  "\<exists>u. fst (Result_Upsert sample_result_repo Background sample_result (sample_db [sample_running])) = Inr u \<and>
       fr_VerificationReason u = ''ok''"
proof -
  have "FollowResult_Validate sample_result = None" by code_simp
  moreover have "fr_Attempt sample_result \<le> int4_max" by code_simp
  moreover have "fr_Verified sample_result \<longrightarrow> fr_ErrorCode sample_result = no_error_code" by code_simp
  moreover have "\<exists>t \<in> set (db_tasks (sample_db [sample_running])).
      trow_id t = fr_TaskID sample_result \<and> trow_account_id t = fr_AccountID sample_result" by code_simp
  moreover have "db_faults (sample_db [sample_running]) = []" by (simp add: sample_db_def)
  ultimately obtain u where u:
    "fst (Result_Upsert sample_result_repo Background sample_result (sample_db [sample_running])) = Inr u"
    "u = sample_result\<lparr>fr_VerificationReason := TrimSpace (fr_VerificationReason sample_result),
            fr_CreatedAt := fr_CreatedAt u, fr_UpdatedAt := db_now (sample_db [sample_running])\<rparr>"
    using Result_Upsert_roundtrip [OF _ _ _ _ sample_running_db_ok _ sample_result_wired prod.collapse [symmetric],
        where res = sample_result and ctx = Background] by blast
  have "fr_VerificationReason u = TrimSpace (fr_VerificationReason sample_result)" by (subst u(2)) simp
  also have "\<dots> = ''ok''" by code_simp
  finally show ?thesis using u(1) by blast
qed

text \<open>
  \<open>FollowResult.Validate\<close> trims the error code of a verified result before it asks that it be empty,
  the column does not: a verified result whose error code is white space passes the validation and is
  then always refused by \<open>chk_follow_results_verified_vs_error\<close>, with \<open>follow_result_persist_failed\<close>.
\<close>

theorem Result_Upsert_blank_code_refused:
  assumes "fr_Verified res" "error_code_str (fr_ErrorCode res) \<noteq> ''''" "FollowResult_Validate res = None"
    "db_faults s = []"
  shows "TrimSpace (error_code_str (fr_ErrorCode res)) = '''' \<and>
    IsDomainErrorCode (case fst (Result_Upsert repo ctx res s) of Inl e \<Rightarrow> Some e | Inr u \<Rightarrow> None)
      ErrorCodeFollowResultPersistFailed \<and>
    snd (Result_Upsert repo ctx res s) = s"
proof -
  have "\<not> result_row_ok (upserted_result res now old)" for now old
    using assms(1,2) by (simp add: result_row_ok_def upserted_result_def nullableErrorCode_def)
  then have "upsert_result res s = Inl (constraint_error ''follow_results_check'')"
    by (simp add: upsert_result_def Let_def)
  then have "Result_Upsert repo ctx res s =
      (Inl (persist_failed ''upsert follow result failed'' (with_stack (constraint_error ''follow_results_check''))), s)"
    using assms(3,4) by (simp add: Result_Upsert_def autocommit_def scanFollowResult_def)
  then show ?thesis
    using assms(1,3) by (simp add: persist_failed_def FollowResult_Validate_None)
qed

lemma Result_Upsert_blank_code_refused_witness:
  "snd (Result_Upsert sample_result_repo Background
     (sample_result\<lparr>fr_ErrorCode := ErrorCodeOther '' ''\<rparr>) (sample_db [sample_running])) =
   sample_db [sample_running]"
proof -
  let ?res = "sample_result\<lparr>fr_ErrorCode := ErrorCodeOther '' ''\<rparr>"
  have "fr_Verified ?res" "error_code_str (fr_ErrorCode ?res) \<noteq> ''''" by (simp_all add: sample_result_def)
  moreover have "FollowResult_Validate ?res = None" by code_simp
  moreover have "db_faults (sample_db [sample_running]) = []" by (simp add: sample_db_def)
  ultimately show ?thesis using Result_Upsert_blank_code_refused by blast
qed


section \<open>History\<close>

lemma follow_outcome_str_valid: "FollowFlowOutcome_IsValid oc \<Longrightarrow> follow_outcome_str oc \<noteq> ''''"
  by (cases oc) simp_all

lemma set_history_rows:
  "set (history_rows query s) =
   {(r, t). r \<in> set (db_results s) \<and> t \<in> set (db_tasks s) \<and> trow_id t = rrow_task_id r \<and>
            history_filter query (r, t)}"
  by (auto simp: history_rows_def)

lemma filter_task_id:
  assumes "distinct (map trow_id ts)" "t \<in> set ts"
  shows "filter (\<lambda>x. trow_id x = trow_id t) ts = [t]"
  using assms
proof (induction ts)
  case (Cons a ts)
  show ?case
  proof (cases "t = a")
    case True
    then have "trow_id t \<notin> trow_id ` set ts" using Cons.prems(1) by simp
    then have "\<forall>x \<in> set ts. trow_id x \<noteq> trow_id t" by (metis image_eqI)
    then show ?thesis using True by (simp add: filter_empty_conv)
  next
    case False
    then have "trow_id a \<noteq> trow_id t" using Cons.prems by auto
    then show ?thesis using Cons False by simp
  qed
qed simp

lemma history_rows_keys:
  assumes "db_ok s"
  shows "distinct (map (\<lambda>rt. result_key (fst rt)) (history_rows query s))"
proof -
  let ?join = "\<lambda>rs. concat (map (\<lambda>r. map (Pair r) (filter (\<lambda>t. trow_id t = rrow_task_id r) (db_tasks s))) rs)"
  have dist: "distinct (map trow_id (db_tasks s))" "distinct (map result_key (db_results s))"
    using assms by (simp_all add: db_ok_def tasks_ok_def results_ok_def result_key_def [abs_def])
  have one: "\<exists>t. filter (\<lambda>t. trow_id t = rrow_task_id r) (db_tasks s) = [t]" if r: "r \<in> set (db_results s)" for r
  proof -
    obtain t where "t \<in> set (db_tasks s)" "trow_id t = rrow_task_id r"
      using assms r by (auto simp: db_ok_def results_ok_def list_all_iff)
    then show ?thesis using filter_task_id [OF dist(1)] by fastforce
  qed
  have "map (\<lambda>rt. result_key (fst rt)) (?join rs) = map result_key rs" if "set rs \<subseteq> set (db_results s)" for rs
    using that
  proof (induction rs)
    case (Cons r rs)
    then show ?case using one [of r] by auto
  qed simp
  then have "map (\<lambda>rt. result_key (fst rt)) (?join (db_results s)) = map result_key (db_results s)" by simp
  then have "distinct (map (\<lambda>rt. result_key (fst rt)) (?join (db_results s)))" using dist(2) by (simp only:)
  then have "distinct (map (\<lambda>rt. result_key (fst rt)) (filter (history_filter query) (?join (db_results s))))"
    by (rule distinct_map_filter)
  then show ?thesis
    unfolding history_rows_def distinct_map by (simp only: set_rev set_sort distinct_rev distinct_sort)
qed

lemma history_rows_sorted: "sorted_wrt (\<lambda>a b. history_order b \<le> history_order a) (history_rows query s)"
  unfolding history_rows_def sorted_wrt_rev
  using sorted_sort_key [of history_order] unfolding sorted_map by blast

text \<open>What the administrator asks for, and what is shown of a result and its task, column by column.\<close>

definition asked_for :: "follow_results_history_query \<Rightarrow> result_row \<Rightarrow> task_row \<Rightarrow> bool" where
  "asked_for query r t \<longleftrightarrow>
     (hq_AccountID query = uuid_Nil \<or> hq_AccountID query = rrow_account_id r) \<and>
     (TrimSpace (hq_TargetProfile query) = '''' \<or> hq_TargetProfile query = rrow_target_profile r) \<and>
     (follow_outcome_str (hq_Outcome query) = '''' \<or> hq_Outcome query = rrow_outcome r) \<and>
     (task_status_str (hq_TaskStatus query) = '''' \<or> hq_TaskStatus query = trow_status t) \<and>
     (\<forall>first. hq_From query = Some first \<longrightarrow> first \<le> rrow_created_at r) \<and>
     (\<forall>last. hq_To query = Some last \<longrightarrow> rrow_created_at r \<le> last)"

definition shown_entry :: "result_row \<Rightarrow> task_row \<Rightarrow> follow_result_history_entry" where
  "shown_entry r t =
     \<lparr>fhe_TaskID = rrow_task_id r, fhe_AccountID = rrow_account_id r, fhe_TargetProfile = rrow_target_profile r,
      fhe_Attempt = rrow_attempt r, fhe_TaskStatus = trow_status t, fhe_FollowOutcome = rrow_outcome r,
      fhe_Verified = rrow_verified r, fhe_VerificationSignal = rrow_verification_signal r,
      fhe_ErrorCode = (case rrow_error_code r of None \<Rightarrow> no_error_code | Some c \<Rightarrow> c),
      fhe_ResultReason = (case trow_result_reason t of None \<Rightarrow> '''' | Some v \<Rightarrow> TrimSpace v),
      fhe_CreatedAt = rrow_created_at r, fhe_UpdatedAt = rrow_updated_at r\<rparr>"

text \<open>Of two results the one created last comes first, then the greater task identifier, then the later attempt.\<close>

definition shown_before :: "result_row \<Rightarrow> result_row \<Rightarrow> bool" where
  "shown_before a b \<longleftrightarrow>
     rrow_created_at b < rrow_created_at a \<or>
     rrow_created_at b = rrow_created_at a \<and>
       (rrow_task_id b < rrow_task_id a \<or> rrow_task_id b = rrow_task_id a \<and> rrow_attempt b \<le> rrow_attempt a)"

lemma history_filter_asked: "history_filter query (r, t) \<longleftrightarrow> asked_for query r t"
  by (auto simp: history_filter_def asked_for_def Let_def split: option.splits)

lemma scan_shown: "scanFollowResultHistoryEntry rt = (case rt of (r, t) \<Rightarrow> shown_entry r t)"
  by (cases rt; cases "trow_result_reason (snd rt)") (simp_all add: scanFollowResultHistoryEntry_def shown_entry_def)

lemma history_order_shown: "history_order b \<le> history_order a \<longleftrightarrow> shown_before (fst a) (fst b)"
  by (auto simp: history_order_def shown_before_def less_eq_prod_def)

lemma ListHistory_rows:
  assumes "db_faults s = []" "FollowResultsHistoryQuery_Validate query = None"
  shows "fst (ListHistory ctx query s) =
    Inr (map (\<lambda>(r, t). shown_entry r t) (take (nat (hq_Limit query)) (drop (nat (hq_Offset query)) (history_rows query s))))"
  using assms by (simp add: ListHistory_def autocommit_def select_history_def scan_shown [abs_def])

lemma history_rows_paged [simp]: "history_rows (query\<lparr>hq_Limit := l, hq_Offset := d\<rparr>) s = history_rows query s"
proof -
  have "history_filter (query\<lparr>hq_Limit := l, hq_Offset := d\<rparr>) = history_filter query"
    by (rule ext) (simp add: history_filter_def)
  then show ?thesis by (simp add: history_rows_def)
qed

lemma history_query_paged:
  assumes "FollowResultsHistoryQuery_Validate query = None" "l > 0" "d \<ge> 0"
  shows "FollowResultsHistoryQuery_Validate (query\<lparr>hq_Limit := l, hq_Offset := d\<rparr>) = None"
  using assms
  by (cases "hq_From query"; cases "hq_To query")
    (auto simp: FollowResultsHistoryQuery_Validate_def Let_def split: option.splits if_splits)

text \<open>
  C35.  A page of the history is a slice of one fixed list: the pairs of a stored result and its task that agree with
  every filter given (account, profile, outcome, status of the task, first and last time), each result once, the one
  created last first.  So a page has at most \<open>limit\<close> entries, and consecutive pages neither repeat nor skip one while
  the tables stay the same.  An entry shows the columns of the two rows.
\<close>

theorem ListHistory_page:
  assumes "db_ok s" "db_faults s = []" "FollowResultsHistoryQuery_Validate query = None"
  shows "\<exists>rows. fst (ListHistory ctx query s) =
      Inr (map (\<lambda>(r, t). shown_entry r t) (take (nat (hq_Limit query)) (drop (nat (hq_Offset query)) rows))) \<and>
    set rows = {(r, t). r \<in> set (db_results s) \<and> t \<in> set (db_tasks s) \<and> trow_id t = rrow_task_id r \<and> asked_for query r t} \<and>
    distinct (map (\<lambda>rt. (rrow_task_id (fst rt), rrow_attempt (fst rt))) rows) \<and>
    sorted_wrt (\<lambda>a b. shown_before (fst a) (fst b)) rows \<and>
    (\<forall>limit offset. limit > 0 \<longrightarrow> offset \<ge> 0 \<longrightarrow>
       fst (ListHistory ctx (query\<lparr>hq_Limit := limit, hq_Offset := offset\<rparr>) s) =
       Inr (map (\<lambda>(r, t). shown_entry r t) (take (nat limit) (drop (nat offset) rows))))"
proof (rule exI [of _ "history_rows query s"], intro conjI allI impI)
  show "fst (ListHistory ctx query s) =
      Inr (map (\<lambda>(r, t). shown_entry r t) (take (nat (hq_Limit query)) (drop (nat (hq_Offset query)) (history_rows query s))))"
    by (rule ListHistory_rows [OF assms(2,3)])
  show "set (history_rows query s) =
      {(r, t). r \<in> set (db_results s) \<and> t \<in> set (db_tasks s) \<and> trow_id t = rrow_task_id r \<and> asked_for query r t}"
    by (simp add: set_history_rows history_filter_asked)
  show "distinct (map (\<lambda>rt. (rrow_task_id (fst rt), rrow_attempt (fst rt))) (history_rows query s))"
    using history_rows_keys [OF assms(1)] by (simp add: result_key_def)
  show "sorted_wrt (\<lambda>a b. shown_before (fst a) (fst b)) (history_rows query s)"
    using history_rows_sorted by (simp add: history_order_shown)
  fix limit offset :: int
  assume "limit > 0" "offset \<ge> 0"
  with ListHistory_rows [OF assms(2) history_query_paged [OF assms(3)]]
  show "fst (ListHistory ctx (query\<lparr>hq_Limit := limit, hq_Offset := offset\<rparr>) s) =
      Inr (map (\<lambda>(r, t). shown_entry r t) (take (nat limit) (drop (nat offset) (history_rows query s))))"
    by simp
qed

definition sample_history_db :: db where
  "sample_history_db = (sample_db [sample_running])\<lparr>db_results := [upserted_result sample_result 5 None]\<rparr>"

definition sample_query :: follow_results_history_query where
  "sample_query =
     \<lparr>hq_AccountID = ''a1'', hq_TargetProfile = '''', hq_Outcome = FollowFlowOutcomeCompleted,
      hq_TaskStatus = TaskStatusRunning, hq_From = Some 1, hq_To = None, hq_Limit = 10, hq_Offset = 0\<rparr>"

lemma sample_history_db_ok: "db_ok sample_history_db"
proof -
  have "results_ok (db_accounts sample_history_db) (db_tasks sample_history_db) (db_results sample_history_db)"
    by code_simp
  then show ?thesis using sample_running_db_ok by (simp add: db_ok_def sample_history_db_def)
qed

lemma ListHistory_page_witness:
  "\<exists>rows. fst (ListHistory Background sample_query sample_history_db) =
      Inr (map (\<lambda>(r, t). shown_entry r t) (take 10 rows)) \<and>
    set rows = {(upserted_result sample_result 5 None, sample_running)}"
proof -
  let ?r = "upserted_result sample_result 5 None"
  have tables: "db_faults sample_history_db = []" "db_results sample_history_db = [?r]" "db_tasks sample_history_db = [sample_running]"
    by (simp_all add: sample_history_db_def sample_db_def)
  have valid: "FollowResultsHistoryQuery_Validate sample_query = None" by code_simp
  have "trow_id sample_running = rrow_task_id ?r" by code_simp
  moreover have "history_filter sample_query (?r, sample_running)" by code_simp
  ultimately have one: "{(r, t). r \<in> set [?r] \<and> t \<in> set [sample_running] \<and> trow_id t = rrow_task_id r \<and> asked_for sample_query r t} =
      {(?r, sample_running)}"
    unfolding history_filter_asked by auto
  obtain rows where rows: "fst (ListHistory Background sample_query sample_history_db) =
      Inr (map (\<lambda>(r, t). shown_entry r t) (take (nat (hq_Limit sample_query)) (drop (nat (hq_Offset sample_query)) rows)))"
    "set rows = {(r, t). r \<in> set (db_results sample_history_db) \<and> t \<in> set (db_tasks sample_history_db) \<and>
        trow_id t = rrow_task_id r \<and> asked_for sample_query r t}"
    using ListHistory_page [OF sample_history_db_ok tables(1) valid, of Background] by blast
  have page: "nat (hq_Limit sample_query) = 10" "drop (nat (hq_Offset sample_query)) rows = rows"
    by (simp_all add: sample_query_def)
  show ?thesis using rows(1) rows(2) [unfolded tables(2,3) one] unfolding page by blast
qed

end
