(* ===== verification/Json_Encode.thy ===== *)
theory Json_Encode
  imports Json
begin

text \<open>
  \<open>json.Marshal\<close> of package \<open>encoding/json\<close> on the values the service writes: texts with the escapes of the
  library (quote, backslash, control characters, and the three HTML characters), integers, booleans,
  \<open>[]byte\<close> in standard base64, arrays, and structs and maps as objects.  A text is ASCII.

  What is written is always accepted by \<open>json.Valid\<close>.
\<close>

datatype json =
    JNull
  | JBool bool
  | JInt int
  | JString string
  | JArray "json list"
  | JObject "(string \<times> json) list"

definition hex_digit :: "nat \<Rightarrow> char" where
  "hex_digit n = (if n < 10 then char_of (48 + n) else char_of (87 + n))"

definition json_char :: "char \<Rightarrow> string" where
  "json_char c =
     (let n = (of_char c :: nat); esc = (\<lambda>d. [CHR 0x5C, d]) in
      if n = 34 \<or> n = 92 then esc c
      else if n = 8 then esc (CHR ''b'')
      else if n = 12 then esc (CHR ''f'')
      else if n = 10 then esc (CHR ''n'')
      else if n = 13 then esc (CHR ''r'')
      else if n = 9 then esc (CHR ''t'')
      else if n < 32 \<or> n = 60 \<or> n = 62 \<or> n = 38 then
        esc (CHR ''u'') @ ''00'' @ [hex_digit (n div 16), hex_digit (n mod 16)]
      else [c])"

definition json_text :: "string \<Rightarrow> string" where
  "json_text s = [CHR 0x22] @ concat (map json_char s) @ [CHR 0x22]"

fun json_write :: "json \<Rightarrow> string" where
  "json_write JNull = ''null''"
| "json_write (JBool b) = FormatBool b"
| "json_write (JInt i) = Itoa i"
| "json_write (JString s) = json_text s"
| "json_write (JArray js) = ''['' @ Join (map json_write js) '','' @ '']''"
| "json_write (JObject fs) = ''{'' @ Join (map (\<lambda>f. json_text (fst f) @ '':'' @ json_write (snd f)) fs) '','' @ ''}''"

fun json_depth :: "json \<Rightarrow> nat" where
  "json_depth (JArray js) = Suc (Max (set (0 # map json_depth js)))"
| "json_depth (JObject fs) = Suc (Max (set (0 # map (\<lambda>f. json_depth (snd f)) fs)))"
| "json_depth _ = 0"

text \<open>Standard base64 with padding.\<close>

definition base64_digit :: "nat \<Rightarrow> char" where
  "base64_digit n =
     (if n < 26 then char_of (65 + n) else if n < 52 then char_of (71 + n)
      else if n < 62 then char_of (n - 4) else if n = 62 then CHR ''+'' else CHR ''/'')"

fun base64 :: "bytes \<Rightarrow> string" where
  "base64 [] = ''''"
| "base64 [a] = [base64_digit (a div 4), base64_digit (a mod 4 * 16)] @ ''==''"
| "base64 [a, b] = [base64_digit (a div 4), base64_digit (a mod 4 * 16 + b div 16), base64_digit (b mod 16 * 4)] @ ''=''"
| "base64 (a # b # c # rest) =
     [base64_digit (a div 4), base64_digit (a mod 4 * 16 + b div 16),
      base64_digit (b mod 16 * 4 + c div 64), base64_digit (c mod 64)] @ base64 rest"

text \<open>A \<open>[]byte\<close>; the nil slice is \<open>null\<close>.\<close>

definition JBytes :: "bytes \<Rightarrow> json" where
  "JBytes bs = (if bs = [] then JNull else JString (base64 bs))"

definition json_Marshal :: "json \<Rightarrow> bytes" where
  "json_Marshal j = ascii (json_write j)"


section \<open>What is written is valid\<close>

lemma ascii_simps [simp]: "ascii [] = []" "ascii (c # s) = of_char c # ascii s" "ascii (s @ t) = ascii s @ ascii t"
  by (simp_all add: ascii_def)

lemma ascii_256: "b \<in> set (ascii s) \<Longrightarrow> b < 256"
  by (auto simp: ascii_def)

lemma hex_digit_code: "n < 16 \<Longrightarrow> json_hex (of_char (hex_digit n))"
  by (auto simp: hex_digit_def json_hex_def json_digit_def)

lemma scan_json_char: "json_scan InString stk (ascii (json_char c) @ rest) = json_scan InString stk rest"
proof -
  let ?n = "of_char c :: nat"
  have div: "?n div 16 < 16" using nat_of_char_less_256 [of c] by (simp only: div_less_iff_less_mult [of 16])
  have hex: "json_hex (of_char (hex_digit (?n div 16)))" "json_hex (of_char (hex_digit (?n mod 16)))"
    using hex_digit_code div by simp_all
  have zero: "json_hex 48" by (simp add: json_hex_def json_digit_def)
  show ?thesis
    using hex zero by (auto simp: json_char_def Let_def ascii_def)
qed

lemma scan_json_chars: "json_scan InString stk (ascii (concat (map json_char s)) @ rest) = json_scan InString stk rest"
  by (induction s) (simp_all add: scan_json_char)

lemma scan_json_text:
  "json_scan BeginValue stk (ascii (json_text s) @ rest) = json_scan EndValue stk rest"
  "json_scan BeginString stk (ascii (json_text s) @ rest) = json_scan EndValue stk rest"
  "json_scan BeginStringOrEmpty stk (ascii (json_text s) @ rest) = json_scan EndValue stk rest"
  by (simp_all add: json_text_def json_begin_value_def json_space_def scan_json_chars)

text \<open>A number ends where something else begins.\<close>

definition json_delim :: "bytes \<Rightarrow> bool" where
  "json_delim rest \<longleftrightarrow> rest = [] \<or> hd rest \<in> {44, 93, 125, 10}"

lemma json_delim_simps [simp]: "json_delim []" "json_delim (44 # r)" "json_delim (93 # r)" "json_delim (125 # r)" "json_delim (10 # r)"
  by (simp_all add: json_delim_def)

lemma scan_number_end:
  assumes "json_delim rest" "st \<in> {NumZero, NumDigits}"
  shows "json_scan st stk rest = json_scan EndValue stk rest"
  using assms by (cases rest) (auto simp: json_delim_def json_accepting_def json_digit_def)

lemma digit_char_byte: "d < 10 \<Longrightarrow> (of_char (digit_char d) :: nat) = 48 + d"
  by (simp add: digit_char_def)

lemma nat_str_small: "n < 10 \<Longrightarrow> nat_str n = [digit_char n]"
  by (subst nat_str.simps) simp

lemma nat_str_large: "\<not> n < 10 \<Longrightarrow> nat_str n = nat_str (n div 10) @ [digit_char (n mod 10)]"
  by (subst nat_str.simps) simp

lemma nat_str_byte: "ascii (nat_str n) = (if n < 10 then [48 + n] else ascii (nat_str (n div 10)) @ [48 + n mod 10])"
  by (simp add: nat_str_small nat_str_large digit_char_byte)

lemma scan_digits:
  "0 < n \<Longrightarrow> st \<in> {BeginValue, NumNeg} \<Longrightarrow>
   json_scan st stk (ascii (nat_str n) @ rest) = json_scan NumDigits stk rest"
proof (induction n arbitrary: rest rule: nat_str.induct)
  case (1 n)
  show ?case
  proof (cases "n < 10")
    case True
    then show ?thesis using "1.prems"
      by (auto simp: nat_str_byte [of n] json_begin_value_def json_space_def json_digit_def)
  next
    case False
    then have "0 < n div 10" by simp
    have "json_scan st stk (ascii (nat_str n) @ rest) = json_scan st stk (ascii (nat_str (n div 10)) @ (48 + n mod 10) # rest)"
      using False by (simp add: nat_str_byte [of n])
    also have "\<dots> = json_scan NumDigits stk ((48 + n mod 10) # rest)"
      by (rule "1.IH" [OF False \<open>0 < n div 10\<close> "1.prems"(2)])
    also have "\<dots> = json_scan NumDigits stk rest"
    proof -
      have "json_digit (48 + n mod 10)" using mod_less_divisor [of 10 n] by (simp add: json_digit_def)
      then show ?thesis by simp
    qed
    finally show ?thesis .
  qed
qed

lemma scan_Itoa:
  assumes "json_delim rest"
  shows "json_scan BeginValue stk (ascii (Itoa i) @ rest) = json_scan EndValue stk rest"
proof -
  consider "i < 0" | "i = 0" | "0 < i" by linarith
  then show ?thesis
  proof cases
    case 1
    then show ?thesis using scan_digits [of "nat (- i)" NumNeg stk rest] scan_number_end [OF assms]
      by (simp add: Itoa_def json_begin_value_def json_space_def)
  next
    case 2
    then show ?thesis using scan_number_end [OF assms]
      by (simp add: Itoa_def nat_str_byte [of 0] json_begin_value_def json_space_def)
  next
    case 3
    then show ?thesis using scan_digits [of "nat i" BeginValue stk rest] scan_number_end [OF assms]
      by (simp add: Itoa_def)
  qed
qed

text \<open>The first byte of a value is neither white space nor a closing bracket.\<close>

lemma json_write_first: "\<exists>b bs. ascii (json_write j) = b # bs \<and> \<not> json_space b \<and> b \<noteq> 93 \<and> b \<noteq> 125"
proof -
  have digits: "\<exists>b bs. ascii (nat_str n) = b # bs \<and> \<not> json_space b \<and> b \<noteq> 93 \<and> b \<noteq> 125" for n
  proof (induction n rule: nat_str.induct)
    case (1 n)
    then show ?case by (cases "n < 10") (auto simp: nat_str_byte [of n] json_space_def)
  qed
  then show ?thesis
    by (cases j) (auto simp: FormatBool_def Itoa_def json_text_def json_space_def)
qed

lemma scan_begin_or_empty:
  "json_scan BeginValueOrEmpty stk (ascii (json_write j) @ rest) = json_scan BeginValue stk (ascii (json_write j) @ rest)"
proof -
  obtain b bs where b: "ascii (json_write j) = b # bs" "\<not> json_space b" "b \<noteq> 93" using json_write_first by blast
  show ?thesis unfolding b(1) using b(2,3) by simp
qed

lemma scan_Join_array:
  assumes "\<And>j rest. j \<in> set js \<Longrightarrow> json_delim rest \<Longrightarrow>
      json_scan BeginValue (ArrayValue # stk) (ascii (json_write j) @ rest) = json_scan EndValue (ArrayValue # stk) rest"
    "js \<noteq> []"
  shows "json_scan BeginValue (ArrayValue # stk) (ascii (Join (map json_write js) '','') @ 93 # rest) =
    json_scan EndValue stk rest"
  using assms
proof (induction js rule: induct_list012)
  case (2 j)
  then show ?case by (simp add: json_space_def)
next
  case (3 i j js)
  have "json_scan BeginValue (ArrayValue # stk) (ascii (json_write i) @ 44 # ascii (Join (map json_write (j # js)) '','') @ 93 # rest) =
      json_scan EndValue (ArrayValue # stk) (44 # ascii (Join (map json_write (j # js)) '','') @ 93 # rest)"
    by (rule "3.prems"(1)) simp_all
  also have "\<dots> = json_scan BeginValue (ArrayValue # stk) (ascii (Join (map json_write (j # js)) '','') @ 93 # rest)"
    by (simp add: json_space_def)
  also have "\<dots> = json_scan EndValue stk rest" by (rule "3.IH"(2)) (use "3.prems" in simp_all)
  finally show ?case by simp
qed simp

lemma scan_field:
  assumes "\<And>rest. json_delim rest \<Longrightarrow> json_scan BeginValue (ObjectValue # stk) (ascii (json_write (snd f)) @ rest) =
      json_scan EndValue (ObjectValue # stk) rest"
    "json_delim rest" "st \<in> {BeginString, BeginStringOrEmpty}"
  shows "json_scan st (ObjectKey # stk) (ascii (json_text (fst f) @ '':'' @ json_write (snd f)) @ rest) =
    json_scan EndValue (ObjectValue # stk) rest"
proof -
  have "json_scan st (ObjectKey # stk) (ascii (json_text (fst f)) @ 58 # ascii (json_write (snd f)) @ rest) =
      json_scan EndValue (ObjectKey # stk) (58 # ascii (json_write (snd f)) @ rest)"
    using assms(3) scan_json_text(2,3) by blast
  also have "\<dots> = json_scan EndValue (ObjectValue # stk) rest"
    using assms(1,2) by (simp add: json_space_def)
  finally show ?thesis by simp
qed

lemma scan_Join_object:
  assumes "\<And>f rest. f \<in> set fs \<Longrightarrow> json_delim rest \<Longrightarrow>
      json_scan BeginValue (ObjectValue # stk) (ascii (json_write (snd f)) @ rest) = json_scan EndValue (ObjectValue # stk) rest"
    "fs \<noteq> []" "st \<in> {BeginString, BeginStringOrEmpty}"
  shows "json_scan st (ObjectKey # stk)
      (ascii (Join (map (\<lambda>f. json_text (fst f) @ '':'' @ json_write (snd f)) fs) '','') @ 125 # rest) =
    json_scan EndValue stk rest"
  using assms
proof (induction fs arbitrary: st rule: induct_list012)
  case (2 f)
  have "json_scan st (ObjectKey # stk) (ascii (json_text (fst f) @ '':'' @ json_write (snd f)) @ 125 # rest) =
      json_scan EndValue (ObjectValue # stk) (125 # rest)"
    by (rule scan_field) (use "2.prems" in simp_all)
  then show ?case by (simp add: json_space_def)
next
  case (3 f g fs)
  let ?tail = "ascii (Join (map (\<lambda>f. json_text (fst f) @ '':'' @ json_write (snd f)) (g # fs)) '','') @ 125 # rest"
  have "json_scan st (ObjectKey # stk) (ascii (json_text (fst f) @ '':'' @ json_write (snd f)) @ 44 # ?tail) =
      json_scan EndValue (ObjectValue # stk) (44 # ?tail)"
    by (rule scan_field) (use "3.prems" in simp_all)
  also have "\<dots> = json_scan BeginString (ObjectKey # stk) ?tail" by (simp add: json_space_def)
  also have "\<dots> = json_scan EndValue stk rest" by (rule "3.IH"(2)) (use "3.prems" in simp_all)
  finally show ?case by simp
qed simp

lemma scan_json_write:
  "length stk + json_depth j \<le> max_nesting \<Longrightarrow> json_delim rest \<Longrightarrow>
   json_scan BeginValue stk (ascii (json_write j) @ rest) = json_scan EndValue stk rest"
proof (induction j arbitrary: stk rest)
  case (JArray js)
  show ?case
  proof (cases "js = []")
    case True
    then show ?thesis using JArray.prems
      by (simp add: json_begin_value_def json_space_def json_push_def)
  next
    case False
    have push: "length stk < max_nesting" using JArray.prems by simp
    have elem: "json_scan BeginValue (ArrayValue # stk) (ascii (json_write j) @ rest') = json_scan EndValue (ArrayValue # stk) rest'"
      if "j \<in> set js" "json_delim rest'" for j rest'
    proof (rule JArray.IH [OF that(1) _ that(2)])
      have "json_depth j \<le> Max (set (0 # map json_depth js))" using that(1) by (intro Max_ge) auto
      then show "length (ArrayValue # stk) + json_depth j \<le> max_nesting" using JArray.prems(1) by simp
    qed
    obtain j js' where js: "js = j # js'" using False by (cases js) auto
    have tail: "\<exists>t. Join (map json_write js) '','' = json_write j @ t" by (cases js') (auto simp: js)
    then obtain t where t: "Join (map json_write js) '','' = json_write j @ t" by blast
    have "json_scan BeginValueOrEmpty (ArrayValue # stk) (ascii (Join (map json_write js) '','') @ 93 # rest) =
        json_scan BeginValue (ArrayValue # stk) (ascii (Join (map json_write js) '','') @ 93 # rest)"
      using scan_begin_or_empty [of "ArrayValue # stk" j "ascii t @ 93 # rest"] by (simp add: t)
    also have "\<dots> = json_scan EndValue stk rest" by (rule scan_Join_array [OF elem False])
    finally show ?thesis using push by (simp add: json_begin_value_def json_space_def json_push_def)
  qed
next
  case (JObject fs)
  show ?case
  proof (cases "fs = []")
    case True
    then show ?thesis using JObject.prems
      by (simp add: json_begin_value_def json_space_def json_push_def)
  next
    case False
    have push: "length stk < max_nesting" using JObject.prems by simp
    have elem: "json_scan BeginValue (ObjectValue # stk) (ascii (json_write (snd f)) @ rest') = json_scan EndValue (ObjectValue # stk) rest'"
      if "f \<in> set fs" "json_delim rest'" for f rest'
    proof (rule JObject.IH [OF that(1) _ _ that(2)])
      show "snd f \<in> Basic_BNFs.snds f" by (cases f) simp
      have "json_depth (snd f) \<le> Max (set (0 # map (\<lambda>f. json_depth (snd f)) fs))" using that(1) by (intro Max_ge) auto
      then show "length (ObjectValue # stk) + json_depth (snd f) \<le> max_nesting" using JObject.prems(1) by simp
    qed
    have "json_scan BeginStringOrEmpty (ObjectKey # stk)
        (ascii (Join (map (\<lambda>f. json_text (fst f) @ '':'' @ json_write (snd f)) fs) '','') @ 125 # rest) =
      json_scan EndValue stk rest"
      by (rule scan_Join_object [OF elem False]) simp_all
    then show ?thesis using push by (simp add: json_begin_value_def json_space_def json_push_def)
  qed
next
  case (JBool b)
  then show ?case by (cases b) (simp_all add: FormatBool_def json_begin_value_def json_space_def json_digit_def)
next
  case JNull
  then show ?case by (simp add: json_begin_value_def json_space_def json_digit_def)
next
  case (JInt i)
  then show ?case by (simp add: scan_Itoa)
next
  case (JString s)
  then show ?case by (simp add: scan_json_text(1))
qed

lemma json_Marshal_Valid: "json_depth j \<le> max_nesting \<Longrightarrow> json_Valid (json_Marshal j)"
  using scan_json_write [of "[]" j "[]"] by (simp add: json_Valid_def json_Marshal_def json_accepting_def)

end
