(* ===== verification/Execution_Service.thy ===== *)
theory Execution_Service
  imports Account_Guard Storage Session_Restorer Result_Repository Json_Encode
begin

text \<open>
  \<open>internal/worker/execution_service.go\<close> and \<open>screenshot_payload.go\<close>: preparing an account and its
  session for a claimed task, the bootstrap login, running and verifying the follow, and storing what it
  left behind.

  Every dependency is a field of the service, a function on the state \<open>'w\<close> of the world; a dependency
  that may be nil is an option.  The encoder of package \<open>image/png\<close> is the parameter \<open>png_Encode\<close>, a
  function of the pixels.  Log lines are left out.
\<close>

section \<open>Dependencies\<close>

record 'w execution_guard =
  eg_Acquire :: "go_context \<Rightarrow> uuid \<Rightarrow> string \<Rightarrow> 'w \<Rightarrow> (go_error + account_with_proxy) \<times> 'w"
  eg_Release :: "go_context \<Rightarrow> uuid \<Rightarrow> string \<Rightarrow> 'w \<Rightarrow> go_error option \<times> 'w"

type_synonym 'w execution_restorer =
  "go_context \<Rightarrow> uuid \<Rightarrow> 'w \<Rightarrow> (session_metadata \<times> bytes \<times> go_error option) \<times> 'w"

type_synonym 'w task_completer =
  "go_context \<Rightarrow> uuid \<Rightarrow> string \<Rightarrow> task_status \<Rightarrow> error_code \<Rightarrow> string \<Rightarrow> 'w \<Rightarrow> (go_error + task) \<times> 'w"

type_synonym 'w follow_runner =
  "go_context \<Rightarrow> follow_flow_input \<Rightarrow> 'w \<Rightarrow> (follow_flow_outcome \<times> follow_flow_diagnostics \<times> go_error option) \<times> 'w"

type_synonym 'w verify_runner =
  "go_context \<Rightarrow> follow_verification_input \<Rightarrow> 'w \<Rightarrow> (go_error + follow_verification_result) \<times> 'w"

type_synonym 'w bootstrap_runner =
  "go_context \<Rightarrow> bootstrap_login_input \<Rightarrow> 'w \<Rightarrow> (go_error + bootstrap_login_result) \<times> 'w"

record 'w result_store =
  rs_Upsert :: "go_context \<Rightarrow> follow_result \<Rightarrow> 'w \<Rightarrow> (go_error + follow_result) \<times> 'w"
  rs_ListHistory :: "go_context \<Rightarrow> follow_results_history_query \<Rightarrow> 'w \<Rightarrow> (go_error + follow_result_history_entry list) \<times> 'w"

type_synonym 'w session_saver =
  "go_context \<Rightarrow> uuid \<Rightarrow> string \<Rightarrow> bytes \<Rightarrow> 'w \<Rightarrow> (go_error + session_metadata) \<times> 'w"

record 'w blob_store =
  bs_Save :: "go_context \<Rightarrow> uuid \<Rightarrow> string \<Rightarrow> bytes \<Rightarrow> 'w \<Rightarrow> (go_error + string) \<times> 'w"
  bs_Delete :: "go_context \<Rightarrow> string \<Rightarrow> 'w \<Rightarrow> go_error option \<times> 'w"

record preparation_trace =
  trace_TaskID :: uuid
  trace_Attempt :: int

record prepared_context =
  pc_AccountWithProxy :: account_with_proxy
  pc_SessionMetadata :: session_metadata
  pc_SessionPayload :: bytes
  pc_TaskID :: uuid
  pc_Attempt :: int
  pc_ExecutionContextID :: string
  pc_ReadyForFollowFlow :: bool
  pc_BootstrapRequired :: bool
  pc_BootstrapReason :: error_code
  pc_BootstrapSource :: error_code

record session_bootstrap_policy =
  BootstrapLoginEnabled :: bool
  AllowMissingPayloadOnFirstRun :: bool

type_synonym rgba = "nat \<times> nat \<times> nat \<times> nat"

record 'w execution_service =
  es_guard :: "'w execution_guard"
  es_restorer :: "'w execution_restorer"
  es_sessionSaver :: "'w session_saver option"
  es_completer :: "'w task_completer option"
  es_bootstrapRunner :: "'w bootstrap_runner option"
  es_followRunner :: "'w follow_runner option"
  es_verifyRunner :: "'w verify_runner option"
  es_resultRepository :: "'w result_store option"
  es_screenshotStore :: "'w blob_store option"
  es_artifactStore :: "'w blob_store option"
  es_bootstrapPolicy :: session_bootstrap_policy
  es_png_Encode :: "rgba list list \<Rightarrow> go_error + bytes"

text \<open>
  The constructor and its options; \<open>saver\<close> is what the type assertion on the restorer gives.
\<close>

definition NewExecutionService ::
  "(rgba list list \<Rightarrow> go_error + bytes) \<Rightarrow> 'w execution_guard \<Rightarrow> 'w execution_restorer \<Rightarrow> 'w session_saver option \<Rightarrow>
   'w task_completer list \<Rightarrow> 'w execution_service" where
  "NewExecutionService png guard restorer saver taskCompleter =
     \<lparr>es_guard = guard, es_restorer = restorer, es_sessionSaver = saver,
      es_completer = (case taskCompleter of [] \<Rightarrow> None | c # cs \<Rightarrow> Some c),
      es_bootstrapRunner = None, es_followRunner = None, es_verifyRunner = None, es_resultRepository = None,
      es_screenshotStore = None, es_artifactStore = None,
      es_bootstrapPolicy = \<lparr>BootstrapLoginEnabled = False, AllowMissingPayloadOnFirstRun = False\<rparr>,
      es_png_Encode = png\<rparr>"

definition WithFollowFlowRunner :: "'w follow_runner option \<Rightarrow> 'w execution_service \<Rightarrow> 'w execution_service" where
  "WithFollowFlowRunner runner s = s\<lparr>es_followRunner := runner\<rparr>"

definition WithVerifyFlowRunner :: "'w verify_runner option \<Rightarrow> 'w execution_service \<Rightarrow> 'w execution_service" where
  "WithVerifyFlowRunner runner s = s\<lparr>es_verifyRunner := runner\<rparr>"

definition WithResultRepository :: "'w result_store option \<Rightarrow> 'w execution_service \<Rightarrow> 'w execution_service" where
  "WithResultRepository repository s = s\<lparr>es_resultRepository := repository\<rparr>"

definition WithScreenshotStore :: "'w blob_store option \<Rightarrow> 'w execution_service \<Rightarrow> 'w execution_service" where
  "WithScreenshotStore store s = s\<lparr>es_screenshotStore := store\<rparr>"

definition WithArtifactStore :: "'w blob_store option \<Rightarrow> 'w execution_service \<Rightarrow> 'w execution_service" where
  "WithArtifactStore store s = s\<lparr>es_artifactStore := store\<rparr>"

definition WithSessionSaver :: "'w session_saver option \<Rightarrow> 'w execution_service \<Rightarrow> 'w execution_service" where
  "WithSessionSaver saver s = s\<lparr>es_sessionSaver := saver\<rparr>"

definition WithBootstrapLoginRunner :: "'w bootstrap_runner option \<Rightarrow> 'w execution_service \<Rightarrow> 'w execution_service" where
  "WithBootstrapLoginRunner runner s = s\<lparr>es_bootstrapRunner := runner\<rparr>"

definition WithSessionBootstrapPolicy :: "session_bootstrap_policy \<Rightarrow> 'w execution_service \<Rightarrow> 'w execution_service" where
  "WithSessionBootstrapPolicy policy s = s\<lparr>es_bootstrapPolicy := policy\<rparr>"


section \<open>Preparation\<close>

definition validateClaimedTaskForPreparation :: "task \<Rightarrow> go_error option" where
  "validateClaimedTaskForPreparation tk =
     (if task_ID tk = uuid_Nil then
        Some (NewDomainError ErrorCodeInvalidTaskIdentifier ''claimed task id must not be empty'')
      else if task_AccountID tk = uuid_Nil then
        Some (NewDomainError ErrorCodeInvalidAccountIdentifier ''claimed task account id must not be empty'')
      else if task_Status tk \<noteq> TaskStatusRunning then
        Some (NewDomainError ErrorCodeTaskNotRunning
                (''claimed task must be in running status, got '' @ task_status_str (task_Status tk)))
      else if TrimSpace (task_ClaimedBy tk) = '''' then
        Some (NewDomainError ErrorCodeInvalidTaskClaimedBy ''claimed task claimed_by must not be empty'')
      else None)"

definition shouldCreateBootstrapDecisionForSource :: "'w execution_service \<Rightarrow> error_code \<Rightarrow> bool" where
  "shouldCreateBootstrapDecisionForSource s sourceCode =
     (case sourceCode of
        ErrorCodeSessionMetadataNotFound \<Rightarrow> True
      | ErrorCodeSessionPayloadMissing \<Rightarrow> AllowMissingPayloadOnFirstRun (es_bootstrapPolicy s)
      | _ \<Rightarrow> False)"

definition bootstrapPreparationContextFromRestoreError ::
  "'w execution_service \<Rightarrow> go_error \<Rightarrow> account_with_proxy \<Rightarrow> string \<Rightarrow> preparation_trace \<Rightarrow> prepared_context option" where
  "bootstrapPreparationContextFromRestoreError s restoreErr awp ectx trace =
     (case BootstrapReasonForRestoreError (Some restoreErr) of (bootstrapReason0, bootstrapCandidate) \<Rightarrow>
        if \<not> bootstrapCandidate then None
        else
          let sourceCode = lifecycleErrorCode restoreErr;
              bootstrapReason = (if TrimSpace (error_code_str bootstrapReason0) = ''''
                                 then ErrorCodeAuthBootstrapRequired else bootstrapReason0)
          in if \<not> shouldCreateBootstrapDecisionForSource s sourceCode then None
             else Some
               \<lparr>pc_AccountWithProxy = awp, pc_SessionMetadata = zero_metadata, pc_SessionPayload = [],
                pc_TaskID = trace_TaskID trace, pc_Attempt = trace_Attempt trace, pc_ExecutionContextID = ectx,
                pc_ReadyForFollowFlow = False, pc_BootstrapRequired = True, pc_BootstrapReason = bootstrapReason,
                pc_BootstrapSource = sourceCode\<rparr>)"

definition prepareExecutionContext ::
  "'w execution_service \<Rightarrow> go_context \<Rightarrow> uuid \<Rightarrow> string \<Rightarrow> preparation_trace \<Rightarrow> 'w \<Rightarrow>
   (go_error + prepared_context) \<times> 'w" where
  "prepareExecutionContext s ctx accountID ectx trace w =
     (if accountID = uuid_Nil then
        (Inl (NewDomainError ErrorCodeInvalidAccountIdentifier ''account id must not be empty''), w)
      else if ectx = '''' then
        (Inl (NewDomainError ErrorCodeInvalidExecutionContext ''execution context id must not be empty''), w)
      else case eg_Acquire (es_guard s) ctx accountID ectx w of
        (Inl err, w1) \<Rightarrow> (Inl (with_stack err), w1)
      | (Inr awp, w1) \<Rightarrow>
        let restoreCtx = (if trace_TaskID trace \<noteq> uuid_Nil \<and> trace_Attempt trace > 0
                          then WithRestoreLifecycleContext ctx (trace_TaskID trace) (trace_Attempt trace) else ctx)
        in case es_restorer s restoreCtx accountID w1 of
          ((metadata, payload, None), w2) \<Rightarrow>
            (Inr \<lparr>pc_AccountWithProxy = awp, pc_SessionMetadata = metadata, pc_SessionPayload = payload,
                  pc_TaskID = trace_TaskID trace, pc_Attempt = trace_Attempt trace, pc_ExecutionContextID = ectx,
                  pc_ReadyForFollowFlow = True, pc_BootstrapRequired = False, pc_BootstrapReason = no_error_code,
                  pc_BootstrapSource = no_error_code\<rparr>, w2)
        | ((metadata, payload, Some err), w2) \<Rightarrow>
          (case bootstrapPreparationContextFromRestoreError s err awp ectx trace of
             Some prepared \<Rightarrow> (Inr prepared, w2)
           | None \<Rightarrow>
             (case eg_Release (es_guard s) ctx accountID ectx w2 of
                (None, w3) \<Rightarrow> (Inl (with_stack err), w3)
              | (Some releaseErr, w3) \<Rightarrow>
                  (Inl (with_stack (JoinErr [err, stackerr_Wrap (Some releaseErr)
                                                    ''failed to release account after restore error''])), w3))))"

definition PrepareExecutionContext ::
  "'w execution_service \<Rightarrow> go_context \<Rightarrow> uuid \<Rightarrow> string \<Rightarrow> 'w \<Rightarrow> (go_error + prepared_context) \<times> 'w" where
  "PrepareExecutionContext s ctx accountID ectx w =
     prepareExecutionContext s ctx accountID ectx \<lparr>trace_TaskID = uuid_Nil, trace_Attempt = 0\<rparr> w"

definition completePreparationFailure ::
  "'w execution_service \<Rightarrow> go_context \<Rightarrow> task \<Rightarrow> go_error \<Rightarrow> 'w \<Rightarrow> go_error \<times> 'w" where
  "completePreparationFailure s ctx tk prepareErr w =
     (case es_completer s of
        None \<Rightarrow> (prepareErr, w)
      | Some complete \<Rightarrow>
        if task_ID tk = uuid_Nil \<or> TrimSpace (task_ClaimedBy tk) = '''' then (prepareErr, w)
        else case classifyLifecyclePreparationFailure prepareErr of (finalStatus, errorCode, resultReason) \<Rightarrow>
          (case complete ctx (task_ID tk) (task_ClaimedBy tk) finalStatus errorCode resultReason w of
             (Inl completionErr, w1) \<Rightarrow>
               (JoinErr [prepareErr, stackerr_Wrap (Some completionErr)
                                       ''failed to record preparation failure outcome''], w1)
           | (Inr t, w1) \<Rightarrow> (prepareErr, w1)))"

definition PrepareClaimedTaskContext ::
  "'w execution_service \<Rightarrow> go_context \<Rightarrow> task \<Rightarrow> 'w \<Rightarrow> (go_error + prepared_context) \<times> 'w" where
  "PrepareClaimedTaskContext s ctx tk w =
     (case validateClaimedTaskForPreparation tk of
        Some err \<Rightarrow> (Inl (with_stack err), w)
      | None \<Rightarrow>
        (case prepareExecutionContext s ctx (task_AccountID tk) (task_ClaimedBy tk)
                \<lparr>trace_TaskID = task_ID tk, trace_Attempt = task_Attempt tk\<rparr> w of
           (Inr prepared, w1) \<Rightarrow> (Inr prepared, w1)
         | (Inl err, w1) \<Rightarrow>
             (case completePreparationFailure s ctx tk err w1 of (e, w2) \<Rightarrow> (Inl e, w2))))"

definition ReleaseExecutionContext ::
  "'w execution_service \<Rightarrow> go_context \<Rightarrow> uuid \<Rightarrow> string \<Rightarrow> 'w \<Rightarrow> go_error option \<times> 'w" where
  "ReleaseExecutionContext s ctx accountID ectx w = eg_Release (es_guard s) ctx accountID ectx w"


section \<open>Bootstrap login\<close>

definition saveSessionPayload ::
  "'w execution_service \<Rightarrow> go_context \<Rightarrow> uuid \<Rightarrow> string \<Rightarrow> bytes \<Rightarrow> 'w \<Rightarrow> (go_error + session_metadata) \<times> 'w" where
  "saveSessionPayload s ctx accountID accountLogin payload w =
     (case es_sessionSaver s of
        None \<Rightarrow> (Inl (newSessionSaveFailedError ''session saver is not configured'' ErrorCodeInternal), w)
      | Some save \<Rightarrow>
        (case save ctx accountID accountLogin payload w of
           (Inl err, w1) \<Rightarrow>
             (Inl (newSessionSaveFailedError ''session payload persistence failed'' (lifecycleErrorCode err)), w1)
         | (Inr metadata, w1) \<Rightarrow> (Inr metadata, w1)))"

text \<open>The name an authentication screenshot is logged under.\<close>

fun slug_of :: "bool \<Rightarrow> string \<Rightarrow> string" where
  "slug_of lastDash [] = ''''"
| "slug_of lastDash (c # cs) =
     (let n = (of_char c :: nat) in
      if 97 \<le> n \<and> n \<le> 122 \<or> 48 \<le> n \<and> n \<le> 57 then c # slug_of False cs
      else if \<not> lastDash then CHR ''-'' # slug_of True cs
      else slug_of True cs)"

definition bootstrapAuthScreenshotArtifactName :: "string \<Rightarrow> string" where
  "bootstrapAuthScreenshotArtifactName stage =
     (let normalized = ToLower (TrimSpace stage);
          slug = trim_both (\<lambda>c. c = CHR ''-'') (slug_of False normalized)
      in if normalized = '''' then ''bootstrap-auth.png''
         else if slug = '''' then ''bootstrap-auth.png''
         else ''bootstrap-'' @ slug @ ''.png'')"

fun persist_screenshots ::
  "'w blob_store \<Rightarrow> go_context \<Rightarrow> uuid \<Rightarrow> (string \<times> bytes) list \<Rightarrow> string list \<Rightarrow> 'w \<Rightarrow> 'w" where
  "persist_screenshots store ctx accountID screenshots [] w = w"
| "persist_screenshots store ctx accountID screenshots (stage # stages) w =
     (case map_of screenshots stage of
        None \<Rightarrow> persist_screenshots store ctx accountID screenshots stages w
      | Some payload \<Rightarrow>
          if payload = [] then persist_screenshots store ctx accountID screenshots stages w
          else persist_screenshots store ctx accountID screenshots stages
                 (snd (bs_Save store ctx accountID '''' payload w)))"

definition persistBootstrapAuthScreenshots ::
  "'w execution_service \<Rightarrow> go_context \<Rightarrow> task \<Rightarrow> (string \<times> bytes) list \<Rightarrow> 'w \<Rightarrow> 'w" where
  "persistBootstrapAuthScreenshots s ctx tk screenshots w =
     (case es_artifactStore s of
        None \<Rightarrow> w
      | Some store \<Rightarrow>
          if screenshots = [] then w
          else persist_screenshots store ctx (task_AccountID tk) screenshots
                 (sort (filter (\<lambda>stage. TrimSpace stage \<noteq> '''') (map fst screenshots))) w)"

text \<open>What \<open>ResolveBootstrapForClaimedTask\<close> does with the result of the login.\<close>

definition bootstrap_result ::
  "'w execution_service \<Rightarrow> go_context \<Rightarrow> task \<Rightarrow> prepared_context \<Rightarrow> bootstrap_login_result \<Rightarrow> 'w \<Rightarrow>
   (go_error + prepared_context) \<times> 'w" where
  "bootstrap_result s ctx tk prepared result w =
     (let w1 = persistBootstrapAuthScreenshots s ctx tk (blr_AuthScreenshots result) w in
      if blr_Outcome result \<noteq> BootstrapLoginOutcomeSuccess then
        (Inl (NewDomainError (bootstrapErrorCodeForOutcome (blr_Outcome result))
                (''bootstrap login failed with outcome '' @ bootstrap_login_outcome_str (blr_Outcome result))), w1)
      else if es_sessionSaver s = None then
        (Inl (NewDomainError ErrorCodeSessionSaveFailed ''session saver is not configured''), w1)
      else
        (case saveSessionPayload s ctx (task_AccountID tk) (account_Username (awp_Account (pc_AccountWithProxy prepared)))
                (blr_SessionPayload result) w1 of
           (Inl saveErr, w2) \<Rightarrow> (Inl saveErr, w2)
         | (Inr metadata, w2) \<Rightarrow>
             (Inr (prepared\<lparr>pc_SessionMetadata := metadata, pc_SessionPayload := blr_SessionPayload result,
                           pc_ReadyForFollowFlow := True, pc_BootstrapRequired := False,
                           pc_BootstrapReason := no_error_code, pc_BootstrapSource := no_error_code\<rparr>), w2)))"

definition ResolveBootstrapForClaimedTask ::
  "'w execution_service \<Rightarrow> go_context \<Rightarrow> task \<Rightarrow> prepared_context \<Rightarrow> 'w \<Rightarrow> (go_error + prepared_context) \<times> 'w" where
  "ResolveBootstrapForClaimedTask s ctx tk prepared w =
     (if \<not> pc_BootstrapRequired prepared then (Inr prepared, w)
      else if \<not> BootstrapLoginEnabled (es_bootstrapPolicy s) then
        (Inl (NewDomainError ErrorCodeAuthBootstrapDisabled
                ''bootstrap login is disabled by session.bootstrap_login_enabled policy''), w)
      else case es_bootstrapRunner s of
        None \<Rightarrow>
          (Inl (NewDomainError ErrorCodeAuthBootstrapRequired
                  ''bootstrap login runner is not configured; bootstrap resolution is pending''), w)
      | Some login \<Rightarrow>
        let a = awp_Account (pc_AccountWithProxy prepared);
            credentialSource = NormalizeCredentialSource (account_CredentialSource a);
            credentialRef = TrimSpace (account_CredentialRef a)
        in if credentialRef = '''' then
             (Inl (NewDomainError ErrorCodeAuthBootstrapFailed ''bootstrap credential reference is missing''), w)
           else case login ctx
               \<lparr>bli_TaskID = task_ID tk, bli_AccountID = task_AccountID tk, bli_Attempt = task_Attempt tk,
                bli_ExecutionContextID = pc_ExecutionContextID prepared, bli_CredentialSource = credentialSource,
                bli_CredentialRef = credentialRef\<rparr> w of
             (Inl err, w1) \<Rightarrow> (Inl (with_stack err), w1)
           | (Inr result, w1) \<Rightarrow>
             (case BootstrapLoginResult_Validate result of
                Some err \<Rightarrow> (Inl (with_stack err), w1)
              | None \<Rightarrow> bootstrap_result s ctx tk prepared result w1))"


section \<open>Follow and verification\<close>

definition zero_diagnostics :: follow_flow_diagnostics where
  "zero_diagnostics =
     \<lparr>ffd_Engine = '''', ffd_WarmupCompleted = False, ffd_WarmupDurationMS = 0, ffd_ExecutionDurationMS = 0\<rparr>"

definition Service_RunFollowFlow :: "'w execution_service \<Rightarrow> 'w follow_runner" where
  "Service_RunFollowFlow s ctx input w =
     (case es_followRunner s of
        None \<Rightarrow>
          ((FollowFlowOutcomeOther '''', zero_diagnostics,
            Some (NewDomainError ErrorCodeInternal ''follow flow runner is not configured'')), w)
      | Some run \<Rightarrow> run ctx input w)"

definition Service_VerifyFollowResult :: "'w execution_service \<Rightarrow> 'w verify_runner" where
  "Service_VerifyFollowResult s ctx input w =
     (case es_verifyRunner s of
        None \<Rightarrow> (Inl (NewDomainError ErrorCodeFollowVerifyFailed ''verify flow runner is not configured''), w)
      | Some verify \<Rightarrow>
        (case verify ctx input w of
           (Inl err, w1) \<Rightarrow> (Inl (with_stack err), w1)
         | (Inr result, w1) \<Rightarrow>
           (case FollowVerificationResult_Validate result of
              Some err \<Rightarrow> (Inl (with_stack err), w1)
            | None \<Rightarrow> (Inr result, w1))))"

definition GetFollowResultsHistory ::
  "'w execution_service \<Rightarrow> go_context \<Rightarrow> follow_results_history_query \<Rightarrow> 'w \<Rightarrow>
   (go_error + follow_result_history_entry list) \<times> 'w" where
  "GetFollowResultsHistory s ctx query w =
     (case FollowResultsHistoryQuery_Validate query of
        Some err \<Rightarrow> (Inl (with_stack err), w)
      | None \<Rightarrow>
        (case es_resultRepository s of
           None \<Rightarrow>
             (Inl (NewDomainError ErrorCodeFollowResultPersistFailed ''follow result repository is not configured''), w)
         | Some repo \<Rightarrow>
           (case rs_ListHistory repo ctx query w of
              (Inl err, w1) \<Rightarrow> (Inl (with_stack err), w1)
            | (Inr history, w1) \<Rightarrow> (Inr history, w1))))"


section \<open>Finalization\<close>

definition pngSignature :: bytes where
  "pngSignature = [0x89, 0x50, 0x4e, 0x47, 0x0d, 0x0a, 0x1a, 0x0a]"

definition normalizeScreenshotPayload :: "(rgba list list \<Rightarrow> go_error + bytes) \<Rightarrow> bytes \<Rightarrow> go_error + bytes" where
  "normalizeScreenshotPayload png payload =
     (if take (length pngSignature) payload = pngSignature then Inr payload
      else case png (replicate 2 (replicate 2 (242, 242, 242, 255))) of
        Inl err \<Rightarrow> Inl (with_stack err) | Inr out \<Rightarrow> Inr out)"

text \<open>The object the artifact is, its session payload left out by the tag \<open>json:"-"\<close>.\<close>

definition execution_artifact :: "follow_flow_diagnostics \<Rightarrow> follow_verification_result \<Rightarrow> json" where
  "execution_artifact d v =
     JObject
       [(''diagnostics'', JObject
           [(''Engine'', JString (ffd_Engine d)),
            (''WarmupCompleted'', JBool (ffd_WarmupCompleted d)),
            (''WarmupDurationMS'', JInt (ffd_WarmupDurationMS d)),
            (''ExecutionDurationMS'', JInt (ffd_ExecutionDurationMS d))]),
        (''verification'', JObject
           [(''Verified'', JBool (fvr_Verified v)),
            (''Signal'', JString (verification_signal_str (fvr_Signal v))),
            (''Reason'', JString (fvr_Reason v)),
            (''ErrorCode'', JString (error_code_str (fvr_ErrorCode v))),
            (''SessionChanged'', JBool (fvr_SessionChanged v)),
            (''ScreenshotPayload'', JBytes (fvr_ScreenshotPayload v))])]"

definition artifact_failed :: "string \<Rightarrow> go_error \<Rightarrow> go_error" where
  "artifact_failed what err = NewDomainError ErrorCodeArtifactPersistFailed (what @ '' failed: '' @ error_text err)"

definition persistFollowArtifacts ::
  "'w execution_service \<Rightarrow> 'w blob_store \<Rightarrow> 'w blob_store \<Rightarrow> go_context \<Rightarrow> follow_finalization_input \<Rightarrow> 'w \<Rightarrow>
   (go_error + string \<times> string list) \<times> 'w" where
  "persistFollowArtifacts s screenshots artifacts ctx input w =
     (case normalizeScreenshotPayload (es_png_Encode s) (fvr_ScreenshotPayload (ffin_Verification input)) of
        Inl err \<Rightarrow> (Inl (artifact_failed ''normalize screenshot payload'' err), w)
      | Inr screenshotPayload \<Rightarrow>
        (case bs_Save screenshots ctx (ffin_AccountID input) (ffin_AccountLogin input) screenshotPayload w of
           (Inl err, w1) \<Rightarrow> (Inl (artifact_failed ''persist screenshot'' err), w1)
         | (Inr screenshotObjectKey, w1) \<Rightarrow>
           (case bs_Save artifacts ctx (ffin_AccountID input) (ffin_AccountLogin input)
                   (json_Marshal (execution_artifact (ffin_FollowDiagnostics input) (ffin_Verification input))) w1 of
              (Inr artifactObjectKey, w2) \<Rightarrow> (Inr (screenshotObjectKey, [artifactObjectKey]), w2)
            | (Inl err, w2) \<Rightarrow>
              (case bs_Delete screenshots ctx screenshotObjectKey w2 of
                 (None, w3) \<Rightarrow> (Inl (artifact_failed ''persist execution artifact'' err), w3)
               | (Some cleanupErr, w3) \<Rightarrow>
                   (Inl (JoinErr [artifact_failed ''persist execution artifact'' err, cleanupErr]), w3)))))"

fun cleanup_artifacts ::
  "'w blob_store \<Rightarrow> go_context \<Rightarrow> string list \<Rightarrow> go_error option \<Rightarrow> 'w \<Rightarrow> go_error option \<times> 'w" where
  "cleanup_artifacts store ctx [] cleanupErr w = (cleanupErr, w)"
| "cleanup_artifacts store ctx (objectKey # keys) cleanupErr w =
     (if TrimSpace objectKey = '''' then cleanup_artifacts store ctx keys cleanupErr w
      else case bs_Delete store ctx objectKey w of
        (None, w1) \<Rightarrow> cleanup_artifacts store ctx keys cleanupErr w1
      | (Some err, w1) \<Rightarrow> cleanup_artifacts store ctx keys (errors_join [cleanupErr, Some err]) w1)"

definition cleanupFollowArtifacts ::
  "'w blob_store \<Rightarrow> 'w blob_store \<Rightarrow> go_context \<Rightarrow> string \<Rightarrow> string list \<Rightarrow> 'w \<Rightarrow> go_error option \<times> 'w" where
  "cleanupFollowArtifacts screenshots artifacts ctx screenshotObjectKey artifactObjectKeys w =
     (if TrimSpace screenshotObjectKey \<noteq> '''' then
        (case bs_Delete screenshots ctx screenshotObjectKey w of
           (None, w1) \<Rightarrow> cleanup_artifacts artifacts ctx artifactObjectKeys None w1
         | (Some err, w1) \<Rightarrow> cleanup_artifacts artifacts ctx artifactObjectKeys (errors_join [None, Some err]) w1)
      else cleanup_artifacts artifacts ctx artifactObjectKeys None w)"

definition result_of_finalization :: "follow_finalization_input \<Rightarrow> string \<Rightarrow> string list \<Rightarrow> int \<Rightarrow> follow_result" where
  "result_of_finalization input screenshotObjectKey artifactObjectKeys sessionRevision =
     \<lparr>fr_TaskID = ffin_TaskID input, fr_AccountID = ffin_AccountID input,
      fr_TargetProfile = ffin_TargetProfile input, fr_Attempt = ffin_Attempt input,
      fr_Outcome = ffin_FollowOutcome input, fr_Verified = fvr_Verified (ffin_Verification input),
      fr_VerificationSignal = fvr_Signal (ffin_Verification input),
      fr_VerificationReason = fvr_Reason (ffin_Verification input),
      fr_ErrorCode = fvr_ErrorCode (ffin_Verification input), fr_ScreenshotObjectKey = screenshotObjectKey,
      fr_ArtifactObjectKeys = artifactObjectKeys, fr_SessionRevision = sessionRevision,
      fr_CreatedAt = 0, fr_UpdatedAt = 0\<rparr>"

text \<open>The part of \<open>FinalizeFollowExecution\<close> behind the session: the result row.\<close>

definition store_result ::
  "'w result_store \<Rightarrow> 'w blob_store \<Rightarrow> 'w blob_store \<Rightarrow> go_context \<Rightarrow> follow_result \<Rightarrow> 'w \<Rightarrow> (go_error + follow_result) \<times> 'w" where
  "store_result repo screenshots artifacts ctx result w =
     (case rs_Upsert repo ctx result w of
        (Inr stored, w1) \<Rightarrow> (Inr stored, w1)
      | (Inl err, w1) \<Rightarrow>
        let persistErr = NewDomainError ErrorCodeFollowResultPersistFailed (''persist follow result failed: '' @ error_text err)
        in case cleanupFollowArtifacts screenshots artifacts ctx (fr_ScreenshotObjectKey result) (fr_ArtifactObjectKeys result) w1 of
             (None, w2) \<Rightarrow> (Inl (with_stack persistErr), w2)
           | (Some cleanupErr, w2) \<Rightarrow> (Inl (with_stack (JoinErr [persistErr, with_stack cleanupErr])), w2))"

definition FinalizeFollowExecution ::
  "'w execution_service \<Rightarrow> go_context \<Rightarrow> follow_finalization_input \<Rightarrow> 'w \<Rightarrow> (go_error + follow_result) \<times> 'w" where
  "FinalizeFollowExecution s ctx input w =
     (case FollowExecutionFinalizationInput_Validate input of
        Some err \<Rightarrow> (Inl (with_stack err), w)
      | None \<Rightarrow>
        (case (es_screenshotStore s, es_artifactStore s) of
           (Some screenshots, Some artifacts) \<Rightarrow>
           (case es_resultRepository s of
              None \<Rightarrow>
                (Inl (NewDomainError ErrorCodeFollowResultPersistFailed ''follow result repository is not configured''), w)
            | Some repo \<Rightarrow>
              (case persistFollowArtifacts s screenshots artifacts ctx input w of
                 (Inl err, w1) \<Rightarrow> (Inl (with_stack err), w1)
               | (Inr (screenshotObjectKey, artifactObjectKeys), w1) \<Rightarrow>
                 if fvr_SessionChanged (ffin_Verification input) then
                   (case saveSessionPayload s ctx (ffin_AccountID input) (ffin_AccountLogin input)
                           (ffin_SessionPayload input) w1 of
                      (Inr metadata, w2) \<Rightarrow>
                        store_result repo screenshots artifacts ctx
                          (result_of_finalization input screenshotObjectKey artifactObjectKeys (session_Revision metadata)) w2
                    | (Inl saveErr, w2) \<Rightarrow>
                      (case cleanupFollowArtifacts screenshots artifacts ctx screenshotObjectKey artifactObjectKeys w2 of
                         (None, w3) \<Rightarrow> (Inl (with_stack saveErr), w3)
                       | (Some cleanupErr, w3) \<Rightarrow> (Inl (JoinErr [with_stack saveErr, with_stack cleanupErr]), w3)))
                 else store_result repo screenshots artifacts ctx
                        (result_of_finalization input screenshotObjectKey artifactObjectKeys (ffin_SessionRevision input)) w1))
         | _ \<Rightarrow> (Inl (NewDomainError ErrorCodeArtifactPersistFailed ''artifact stores are not configured''), w)))"

end
