(* ===== verification/Observability.thy ===== *)
theory Observability
  imports Session_Repository Task_Queue
begin

text \<open>
  \<open>internal/observability/task_metrics.go\<close>, \<open>admin_api_metrics.go\<close>, \<open>health.go\<close> and
  \<open>internal/app/operational_metrics_refresher.go\<close>: the counters and gauges of the service, its readiness
  and the refresh of the gauges.

  A vector of package \<open>prometheus\<close> is a map from the label values in use to the value of the metric; a
  metric that may be nil is an option.  The names and help texts of the metrics are left out; a histogram
  is the list of what it observed.

  The lemmas say that no input ever makes a label outside of the fixed sets, that a readiness snapshot
  does not depend on the order in which its checks end, and what a refresh leaves in the gauges.
\<close>

section \<open>Labels\<close>

definition setOf :: "string list \<Rightarrow> string list" where
  "setOf values = map (\<lambda>v. TrimSpace (ToLower v)) values"

definition normalizeBoundedLabel :: "string \<Rightarrow> string list \<Rightarrow> string \<Rightarrow> string" where
  "normalizeBoundedLabel value allowed fallback =
     (let normalized = TrimSpace (ToLower value)
      in if normalized \<in> set allowed then normalized else fallback)"

definition taskSnapshotStatuses :: "task_status list" where
  "taskSnapshotStatuses =
     [TaskStatusQueued, TaskStatusRunning, TaskStatusSuccess, TaskStatusRetry, TaskStatusFail, TaskStatusCanceled]"

definition accountSnapshotStates :: "account_operational_state list" where
  "accountSnapshotStates =
     [AccountStateActive, AccountStateBusy, AccountStateInvalidSession, AccountStateQuarantined, AccountStateRestricted]"

definition sessionSnapshotStatuses :: "session_status list" where
  "sessionSnapshotStatuses = [SessionStatusValid, SessionStatusInvalid, SessionStatusUnavailable]"

definition allowedTaskStatuses :: "string list" where
  "allowedTaskStatuses =
     setOf [task_status_str TaskStatusQueued, task_status_str TaskStatusRunning, task_status_str TaskStatusSuccess,
            task_status_str TaskStatusRetry, task_status_str TaskStatusFail, task_status_str TaskStatusCanceled,
            ''unknown'']"

definition allowedStages :: "string list" where
  "allowedStages =
     setOf [''claim'', ''complete'', ''follow.warmup'', ''follow.execution'', ''follow.verify'', ''follow.finalize'',
            ''release'', ''refresh'', ''unknown'']"

definition allowedExecutionOutcomes :: "string list" where
  "allowedExecutionOutcomes =
     setOf [follow_outcome_str FollowFlowOutcomeCompleted, follow_outcome_str FollowFlowOutcomeAlreadyDone,
            follow_outcome_str FollowFlowOutcomeActionUnavailable, follow_outcome_str FollowFlowOutcomeTargetUnreachable,
            follow_outcome_str FollowFlowOutcomeNavigationFailed, ''unknown'']"

definition allowedDependencies :: "string list" where
  "allowedDependencies = setOf [''postgres'', ''minio'', ''playwright'', ''unknown'']"

definition allowedErrorCodes :: "string list" where
  "allowedErrorCodes =
     setOf (map error_code_str
       [ErrorCodeEligible, ErrorCodeInternal, ErrorCodeAccountNotFound, ErrorCodeAccountBusy,
        ErrorCodeAccountInactive, ErrorCodeAccountNotReady, ErrorCodeAccountQuarantined, ErrorCodeAccountRestricted,
        ErrorCodeAccountMissingProxy, ErrorCodeAccountProxyInactive, ErrorCodeAccountLimitReached,
        ErrorCodeAccountContextMismatch, ErrorCodeInvalidOperationalState, ErrorCodeInvalidExecutionContext,
        ErrorCodeInvalidAccountIdentifier, ErrorCodeSessionMetadataNotFound, ErrorCodeSessionPayloadMissing,
        ErrorCodeSessionPayloadCorrupted, ErrorCodeSessionOwnershipMismatch, ErrorCodeSessionPayloadInvalid,
        ErrorCodeInvalidSessionStatus, ErrorCodeInvalidSessionRevision, ErrorCodeInvalidSessionObjectKey,
        ErrorCodeTaskNotFound, ErrorCodeTaskNotRunning, ErrorCodeTaskClaimOwnerMismatch,
        ErrorCodeInvalidTaskIdentifier, ErrorCodeInvalidTaskStatus, ErrorCodeInvalidTaskTransition,
        ErrorCodeInvalidTaskClaimedBy, ErrorCodeTaskCompletionReason, ErrorCodeFollowTargetProfile,
        ErrorCodeFollowActionUnavailable, ErrorCodeFollowTargetUnreachable, ErrorCodeFollowNavigationFailed,
        ErrorCodeFollowVerifyFailed, ErrorCodeArtifactPersistFailed, ErrorCodeFollowResultPersistFailed,
        ErrorCodeFollowResultNotFound, ErrorCodeSessionSaveFailed] @ [''unknown''])"

definition normalizeTaskStatusLabel :: "string \<Rightarrow> string" where
  "normalizeTaskStatusLabel status = normalizeBoundedLabel status allowedTaskStatuses ''unknown''"

definition normalizeStageLabel :: "string \<Rightarrow> string" where
  "normalizeStageLabel stage = normalizeBoundedLabel stage allowedStages ''unknown''"

definition normalizeExecutionOutcomeLabel :: "string \<Rightarrow> string" where
  "normalizeExecutionOutcomeLabel outcome = normalizeBoundedLabel outcome allowedExecutionOutcomes ''unknown''"

definition normalizeDependencyLabel :: "string \<Rightarrow> string" where
  "normalizeDependencyLabel dependency = normalizeBoundedLabel dependency allowedDependencies ''unknown''"

definition normalizeErrorCodeLabel :: "string \<Rightarrow> string" where
  "normalizeErrorCodeLabel code =
     normalizeBoundedLabel code allowedErrorCodes (error_code_str ErrorCodeInternal)"


section \<open>Metrics of the task lifecycle\<close>

definition inc_label :: "('l \<Rightarrow> nat option) \<Rightarrow> 'l \<Rightarrow> ('l \<Rightarrow> nat option)" where
  "inc_label m l = m(l \<mapsto> (case m l of None \<Rightarrow> 1 | Some n \<Rightarrow> n + 1))"

record task_metrics =
  tm_claimedTotal :: nat
  tm_startedTotal :: nat
  tm_completedTotal :: "string \<Rightarrow> nat option"
  tm_errorTotal :: "string \<Rightarrow> nat option"
  tm_errorCodeTotal :: "string \<times> string \<Rightarrow> nat option"
  tm_queueTotal :: "string \<Rightarrow> int option"
  tm_executionOutcomeTotal :: "string \<Rightarrow> nat option"
  tm_dependencyReady :: "string \<Rightarrow> int option"
  tm_accountOperational :: "string \<Rightarrow> int option"
  tm_sessionStatus :: "string \<Rightarrow> int option"

definition NewTaskLifecycleMetrics :: task_metrics where
  "NewTaskLifecycleMetrics =
     \<lparr>tm_claimedTotal = 0, tm_startedTotal = 0, tm_completedTotal = Map.empty, tm_errorTotal = Map.empty,
      tm_errorCodeTotal = Map.empty, tm_queueTotal = Map.empty, tm_executionOutcomeTotal = Map.empty,
      tm_dependencyReady = Map.empty, tm_accountOperational = Map.empty, tm_sessionStatus = Map.empty\<rparr>"

definition RecordClaimed :: "task_metrics option \<Rightarrow> task_metrics option" where
  "RecordClaimed = map_option (\<lambda>m. m\<lparr>tm_claimedTotal := tm_claimedTotal m + 1\<rparr>)"

definition RecordStarted :: "task_metrics option \<Rightarrow> task_metrics option" where
  "RecordStarted = map_option (\<lambda>m. m\<lparr>tm_startedTotal := tm_startedTotal m + 1\<rparr>)"

definition RecordCompleted :: "string \<Rightarrow> task_metrics option \<Rightarrow> task_metrics option" where
  "RecordCompleted status = map_option (\<lambda>m.
     m\<lparr>tm_completedTotal := inc_label (tm_completedTotal m) (normalizeTaskStatusLabel status)\<rparr>)"

definition RecordError :: "string \<Rightarrow> task_metrics option \<Rightarrow> task_metrics option" where
  "RecordError stage = map_option (\<lambda>m.
     m\<lparr>tm_errorTotal := inc_label (tm_errorTotal m) (normalizeStageLabel stage)\<rparr>)"

definition RecordErrorCode :: "string \<Rightarrow> string \<Rightarrow> task_metrics option \<Rightarrow> task_metrics option" where
  "RecordErrorCode stage errorCode = map_option (\<lambda>m.
     m\<lparr>tm_errorCodeTotal := inc_label (tm_errorCodeTotal m)
                            (normalizeStageLabel stage, normalizeErrorCodeLabel errorCode)\<rparr>)"

definition RecordExecutionOutcome :: "string \<Rightarrow> task_metrics option \<Rightarrow> task_metrics option" where
  "RecordExecutionOutcome outcome = map_option (\<lambda>m.
     m\<lparr>tm_executionOutcomeTotal := inc_label (tm_executionOutcomeTotal m) (normalizeExecutionOutcomeLabel outcome)\<rparr>)"

definition RecordDependencyReady :: "string \<Rightarrow> bool \<Rightarrow> task_metrics option \<Rightarrow> task_metrics option" where
  "RecordDependencyReady dependency ready = map_option (\<lambda>m.
     m\<lparr>tm_dependencyReady := (tm_dependencyReady m)(normalizeDependencyLabel dependency \<mapsto> (if ready then 1 else 0))\<rparr>)"

text \<open>The loop of the three snapshot methods: one gauge for every known status, never negative.\<close>

fun set_gauges :: "('k \<Rightarrow> string) \<Rightarrow> ('k \<Rightarrow> int option) \<Rightarrow> 'k list \<Rightarrow> (string \<Rightarrow> int option) \<Rightarrow> (string \<Rightarrow> int option)" where
  "set_gauges str snapshot [] gauges = gauges"
| "set_gauges str snapshot (k # ks) gauges =
     (let value = (case snapshot k of None \<Rightarrow> 0 | Some v \<Rightarrow> v);
          value = (if value < 0 then 0 else value)
      in set_gauges str snapshot ks (gauges(str k \<mapsto> value)))"

definition SetTaskQueueSnapshot :: "(task_status \<Rightarrow> int option) \<Rightarrow> task_metrics option \<Rightarrow> task_metrics option" where
  "SetTaskQueueSnapshot snapshot = map_option (\<lambda>m.
     m\<lparr>tm_queueTotal := set_gauges task_status_str snapshot taskSnapshotStatuses (tm_queueTotal m)\<rparr>)"

definition SetAccountOperationalSnapshot ::
  "(account_operational_state \<Rightarrow> int option) \<Rightarrow> task_metrics option \<Rightarrow> task_metrics option" where
  "SetAccountOperationalSnapshot snapshot = map_option (\<lambda>m.
     m\<lparr>tm_accountOperational := set_gauges account_state_str snapshot accountSnapshotStates (tm_accountOperational m)\<rparr>)"

definition SetSessionStatusSnapshot :: "(session_status \<Rightarrow> int option) \<Rightarrow> task_metrics option \<Rightarrow> task_metrics option" where
  "SetSessionStatusSnapshot snapshot = map_option (\<lambda>m.
     m\<lparr>tm_sessionStatus := set_gauges session_status_str snapshot sessionSnapshotStatuses (tm_sessionStatus m)\<rparr>)"


section \<open>Metrics of the admin API\<close>

definition allowedAdminRoutes :: "string list" where
  "allowedAdminRoutes =
     setOf [''/api/v1/tasks'', ''/api/v1/tasks/{id}'', ''/api/v1/tasks/{id}/retry'', ''/api/v1/tasks/{id}/cancel'',
            ''/api/v1/tasks/failures'', ''/api/v1/tasks:csv'', ''/api/v1/unknown'']"

definition allowedAdminMethods :: "string list" where
  "allowedAdminMethods =
     setOf [''get'', ''post'', ''put'', ''patch'', ''delete'', ''head'', ''options'', ''unknown'']"

definition allowedAdminStatusClasses :: "string list" where
  "allowedAdminStatusClasses = setOf [''1xx'', ''2xx'', ''3xx'', ''4xx'', ''5xx'', ''unknown'']"

definition allowedAdminOutcomes :: "string list" where
  "allowedAdminOutcomes = setOf [''success'', ''error'', ''rejected'', ''unknown'']"

definition allowedAdminErrorCodes :: "string list" where
  "allowedAdminErrorCodes =
     setOf [''task_not_found'', ''task_id_invalid'', ''task_state_conflict'', ''retry_not_allowed'',
            ''cancel_not_allowed'', ''internal_admin_api_error'', ''csv_schema_invalid'', ''csv_row_invalid'',
            ''queue_write_failed'', ''admin_endpoint_not_implemented'', ''admin_endpoint_not_available'',
            ''none'', ''unknown'']"

definition normalizeAdminRouteLabel :: "string \<Rightarrow> string" where
  "normalizeAdminRouteLabel route =
     (let trimmed = TrimSpace route in
      if trimmed = '''' then ''/api/v1/unknown''
      else
        let trimmed = (if \<not> HasPrefix trimmed ''/'' then CHR ''/'' # trimmed else trimmed);
            trimmed = (if \<not> HasPrefix trimmed ''/api/v1'' then ''/api/v1'' @ trimmed else trimmed)
        in normalizeBoundedLabel trimmed allowedAdminRoutes ''/api/v1/unknown'')"

definition normalizeAdminMethodLabel :: "string \<Rightarrow> string" where
  "normalizeAdminMethodLabel method = normalizeBoundedLabel method allowedAdminMethods ''unknown''"

definition normalizeAdminStatusClassLabel :: "int \<Rightarrow> string" where
  "normalizeAdminStatusClassLabel statusCode =
     (if statusCode < 100 \<or> statusCode > 599 then ''unknown''
      else normalizeBoundedLabel (Itoa (statusCode div 100) @ ''xx'') allowedAdminStatusClasses ''unknown'')"

definition normalizeAdminOutcomeLabel :: "string \<Rightarrow> string" where
  "normalizeAdminOutcomeLabel outcome = normalizeBoundedLabel outcome allowedAdminOutcomes ''unknown''"

definition normalizeAdminErrorCodeLabel :: "string \<Rightarrow> string" where
  "normalizeAdminErrorCodeLabel code = normalizeBoundedLabel code allowedAdminErrorCodes ''unknown''"

type_synonym admin_labels = "string \<times> string \<times> string \<times> string \<times> string"

record admin_metrics =
  am_requestsTotal :: "admin_labels \<Rightarrow> nat option"
  am_errorsTotal :: "admin_labels \<Rightarrow> nat option"
  am_requestDuration :: "admin_labels \<Rightarrow> int list option"

definition NewAdminAPIMetrics :: admin_metrics where
  "NewAdminAPIMetrics = \<lparr>am_requestsTotal = Map.empty, am_errorsTotal = Map.empty, am_requestDuration = Map.empty\<rparr>"

definition RecordRequest ::
  "string \<Rightarrow> string \<Rightarrow> int \<Rightarrow> string \<Rightarrow> string \<Rightarrow> int \<Rightarrow> admin_metrics option \<Rightarrow> admin_metrics option" where
  "RecordRequest route method statusCode outcome errorCode duration = map_option (\<lambda>m.
     let statusClassLabel = normalizeAdminStatusClassLabel statusCode;
         outcomeLabel = normalizeAdminOutcomeLabel outcome;
         labels = (normalizeAdminRouteLabel route, normalizeAdminMethodLabel method, statusClassLabel, outcomeLabel,
                   normalizeAdminErrorCodeLabel errorCode);
         m = m\<lparr>am_requestsTotal := inc_label (am_requestsTotal m) labels,
               am_requestDuration := (am_requestDuration m)(labels \<mapsto>
                 (case am_requestDuration m labels of None \<Rightarrow> [duration] | Some ds \<Rightarrow> ds @ [duration]))\<rparr>
     in if outcomeLabel = ''error'' \<or> HasPrefix statusClassLabel ''5'' \<or> HasPrefix statusClassLabel ''4''
        then m\<lparr>am_errorsTotal := inc_label (am_errorsTotal m) labels\<rparr> else m)"


section \<open>Readiness\<close>

datatype health_word = StatusReady | StatusNotReady

record 'w dependency =
  dep_Name :: string
  dep_Critical :: bool
  dep_Checker :: "go_context \<Rightarrow> 'w \<Rightarrow> go_error option \<times> 'w"

record dependency_status =
  ds_Name :: string
  ds_Status :: health_word
  ds_Critical :: bool

record health_status =
  hs_Status :: health_word
  hs_Dependencies :: "dependency_status list"
  hs_Version :: string
  hs_Diagnostics :: string_map

record 'w health_service =
  health_dependencies :: "'w dependency list"
  health_version :: string
  health_diagnostics :: string_map
  health_observer :: "(string \<Rightarrow> bool \<Rightarrow> 'w \<Rightarrow> 'w) option"

definition NewHealthService :: "'w dependency list \<Rightarrow> string \<Rightarrow> string_map list \<Rightarrow> 'w health_service" where
  "NewHealthService dependencies version diagnostics =
     \<lparr>health_dependencies = dependencies, health_version = version,
      health_diagnostics = (case diagnostics of [] \<Rightarrow> [] | d # ds \<Rightarrow> d), health_observer = None\<rparr>"

definition SetDependencyObserver ::
  "(string \<Rightarrow> bool \<Rightarrow> 'w \<Rightarrow> 'w) option \<Rightarrow> 'w health_service option \<Rightarrow> 'w health_service option" where
  "SetDependencyObserver observer = map_option (\<lambda>s. s\<lparr>health_observer := observer\<rparr>)"

record dependency_result =
  dr_index :: nat
  dr_status :: dependency_status
  dr_criticalNotReady :: bool
  dr_ready :: bool

text \<open>One goroutine: a check and the result it sends.\<close>

definition run_check ::
  "'w dependency list \<Rightarrow> go_context \<Rightarrow> nat \<Rightarrow> 'w \<Rightarrow> dependency_result \<times> 'w" where
  "run_check deps ctx i w =
     (let dep = deps ! i in
      case dep_Checker dep ctx w of (err, w1) \<Rightarrow>
        let status = (if err = None then StatusReady else StatusNotReady)
        in (\<lparr>dr_index = i,
             dr_status = \<lparr>ds_Name = dep_Name dep, ds_Status = status, ds_Critical = dep_Critical dep\<rparr>,
             dr_criticalNotReady = (dep_Critical dep \<and> status = StatusNotReady),
             dr_ready = (status = StatusReady)\<rparr>, w1))"

text \<open>The goroutines in the order in which they end, which is the order of the channel.\<close>

fun run_checks ::
  "'w dependency list \<Rightarrow> go_context \<Rightarrow> nat list \<Rightarrow> 'w \<Rightarrow> dependency_result list \<times> 'w" where
  "run_checks deps ctx [] w = ([], w)"
| "run_checks deps ctx (i # order) w =
     (case run_check deps ctx i w of (r, w1) \<Rightarrow>
      case run_checks deps ctx order w1 of (rs, w2) \<Rightarrow> (r # rs, w2))"

definition no_status :: dependency_status where
  "no_status = \<lparr>ds_Name = '''', ds_Status = StatusNotReady, ds_Critical = False\<rparr>"

fun collect_results ::
  "(string \<Rightarrow> bool \<Rightarrow> 'w \<Rightarrow> 'w) option \<Rightarrow> dependency_result list \<Rightarrow>
   dependency_status list \<times> health_word \<times> 'w \<Rightarrow> dependency_status list \<times> health_word \<times> 'w" where
  "collect_results observer [] acc = acc"
| "collect_results observer (r # rs) (dependencies, overall, w) =
     collect_results observer rs
       (dependencies[dr_index r := dr_status r],
        (if dr_criticalNotReady r then StatusNotReady else overall),
        (case observer of None \<Rightarrow> w | Some f \<Rightarrow> f (ds_Name (dr_status r)) (dr_ready r) w))"

text \<open>
  \<open>order\<close> is the order in which the goroutines end, a permutation of the indices of the dependencies.
\<close>

definition Health_Snapshot :: "'w health_service \<Rightarrow> nat list \<Rightarrow> go_context \<Rightarrow> 'w \<Rightarrow> health_status \<times> 'w" where
  "Health_Snapshot s order ctx w =
     (let deps = health_dependencies s in
      case run_checks deps ctx order w of (results, w1) \<Rightarrow>
      case collect_results (health_observer s) results (replicate (length deps) no_status, StatusReady, w1) of
        (dependencies, overall, w2) \<Rightarrow>
          (\<lparr>hs_Status = overall, hs_Dependencies = dependencies, hs_Version = health_version s,
            hs_Diagnostics = health_diagnostics s\<rparr>, w2))"



section \<open>The refresh of the gauges\<close>

record 'w metrics_refresher =
  mr_taskRepository :: "go_context \<Rightarrow> 'w \<Rightarrow> (go_error + (task_status \<Rightarrow> nat option)) \<times> 'w"
  mr_accountRepository :: "go_context \<Rightarrow> 'w \<Rightarrow> (go_error + (account_operational_state \<Rightarrow> nat option)) \<times> 'w"
  mr_sessionRepository :: "go_context \<Rightarrow> 'w \<Rightarrow> (go_error + (session_status \<Rightarrow> nat option)) \<times> 'w"
  mr_interval :: int

definition second_ns :: int where
  "second_ns = 1000000000"

definition newOperationalMetricsRefresher ::
  "(go_context \<Rightarrow> 'w \<Rightarrow> (go_error + (task_status \<Rightarrow> nat option)) \<times> 'w) \<Rightarrow>
   (go_context \<Rightarrow> 'w \<Rightarrow> (go_error + (account_operational_state \<Rightarrow> nat option)) \<times> 'w) \<Rightarrow>
   (go_context \<Rightarrow> 'w \<Rightarrow> (go_error + (session_status \<Rightarrow> nat option)) \<times> 'w) \<Rightarrow> int \<Rightarrow> 'w metrics_refresher" where
  "newOperationalMetricsRefresher tasks accounts sessions interval =
     \<lparr>mr_taskRepository = tasks, mr_accountRepository = accounts, mr_sessionRepository = sessions,
      mr_interval = (if interval \<le> 0 then 30 * second_ns else interval)\<rparr>"

definition queryTimeout :: "'w metrics_refresher \<Rightarrow> int" where
  "queryTimeout r =
     (let timeout = mr_interval r div 2;
          timeout = (if timeout < second_ns then second_ns else timeout)
      in if timeout > 5 * second_ns then 5 * second_ns else timeout)"

definition operationalMetricsRefreshInterval :: "int \<Rightarrow> int" where
  "operationalMetricsRefreshInterval loopIntervalSeconds =
     (let seconds = (if loopIntervalSeconds \<le> 0 then 30 else loopIntervalSeconds);
          seconds = (if seconds < 5 then 5 else seconds);
          seconds = (if seconds > 300 then 300 else seconds)
      in seconds * second_ns)"

definition appLifecycleErrorCode :: "go_error option \<Rightarrow> string" where
  "appLifecycleErrorCode err =
     (case err of
        None \<Rightarrow> error_code_str ErrorCodeEligible
      | Some e \<Rightarrow> (case as_domain e of
                     Some (code, message) \<Rightarrow> error_code_str code
                   | None \<Rightarrow> error_code_str ErrorCodeInternal))"

definition recordRefreshError :: "go_error \<Rightarrow> task_metrics option \<Rightarrow> task_metrics option" where
  "recordRefreshError err m =
     (let errorCode = (case as_domain err of Some (code, message) \<Rightarrow> code | None \<Rightarrow> ErrorCodeInternal)
      in RecordErrorCode ''refresh'' (error_code_str errorCode) (RecordError ''refresh'' m))"

text \<open>
  \<open>ctxErr\<close> is what \<open>ctx.Err()\<close> gives in a state of the world, \<open>refreshErr\<close> the same of the context with
  the timeout.  One of the three parts: \<open>Inl\<close> when the refresh ends because its context did.
\<close>

definition refresh_part ::
  "go_error option \<Rightarrow> string \<Rightarrow> (('k \<Rightarrow> int option) \<Rightarrow> task_metrics option \<Rightarrow> task_metrics option) \<Rightarrow>
   go_error + ('k \<Rightarrow> nat option) \<Rightarrow> go_error option list \<times> task_metrics option \<Rightarrow>
   go_error + (go_error option list \<times> task_metrics option)" where
  "refresh_part ctxErr prefix set_snapshot res acc =
     (case acc of (errs, m) \<Rightarrow>
      case res of
        Inr snapshot \<Rightarrow> Inr (errs, set_snapshot (map_option int \<circ> snapshot) m)
      | Inl err \<Rightarrow>
          let failed = Inr (errs @ [Some (FmtWrapErr prefix err)], recordRefreshError err m)
          in (case ctxErr of
                Some e \<Rightarrow> if errors_is err e then Inl e else failed
              | None \<Rightarrow> failed))"

definition RefreshOnce ::
  "'w metrics_refresher option \<Rightarrow> go_context \<Rightarrow> ('w \<Rightarrow> go_error option) \<Rightarrow> ('w \<Rightarrow> go_error option) \<Rightarrow>
   task_metrics option \<Rightarrow> 'w \<Rightarrow> go_error option \<times> task_metrics option \<times> 'w" where
  "RefreshOnce r0 ctx ctxErr refreshErr m w =
     (case r0 of
        None \<Rightarrow> (None, m, w)
      | Some r \<Rightarrow>
        (case refreshErr w of
           Some e \<Rightarrow> (Some (with_stack e), m, w)
         | None \<Rightarrow>
           (case mr_taskRepository r ctx w of (tasks, w1) \<Rightarrow>
            case refresh_part (ctxErr w1) ''task queue snapshot: '' SetTaskQueueSnapshot tasks ([], m) of
              Inl e \<Rightarrow> (Some (with_stack e), m, w1)
            | Inr (errs1, m1) \<Rightarrow>
           (case mr_accountRepository r ctx w1 of (accounts, w2) \<Rightarrow>
            case refresh_part (ctxErr w2) ''account operational snapshot: '' SetAccountOperationalSnapshot accounts (errs1, m1) of
              Inl e \<Rightarrow> (Some (with_stack e), m1, w2)
            | Inr (errs2, m2) \<Rightarrow>
           (case mr_sessionRepository r ctx w2 of (sessions, w3) \<Rightarrow>
            case refresh_part (ctxErr w3) ''session status snapshot: '' SetSessionStatusSnapshot sessions (errs2, m2) of
              Inl e \<Rightarrow> (Some (with_stack e), m2, w3)
            | Inr (errs3, m3) \<Rightarrow> (WithStack (errors_join errs3), m3, w3))))))"

definition shouldLogRefreshError :: "go_error option \<Rightarrow> go_error option \<Rightarrow> bool" where
  "shouldLogRefreshError ctxErr err =
     (case err of
        None \<Rightarrow> False
      | Some e \<Rightarrow> (case ctxErr of None \<Rightarrow> True | Some c \<Rightarrow> \<not> errors_is e c))"

text \<open>
  The loop of \<open>Run\<close>: a refresh at once and one for each tick that comes before the context is done.
\<close>

fun refresh_ticks ::
  "'w metrics_refresher option \<Rightarrow> go_context \<Rightarrow> ('w \<Rightarrow> go_error option) \<Rightarrow> ('w \<Rightarrow> go_error option) \<Rightarrow> nat \<Rightarrow>
   task_metrics option \<Rightarrow> 'w \<Rightarrow> task_metrics option \<times> 'w" where
  "refresh_ticks r ctx ctxErr refreshErr 0 m w = (m, w)"
| "refresh_ticks r ctx ctxErr refreshErr (Suc n) m w =
     (case RefreshOnce r ctx ctxErr refreshErr m w of (err, m1, w1) \<Rightarrow>
      refresh_ticks r ctx ctxErr refreshErr n m1 w1)"

definition Refresher_Run ::
  "'w metrics_refresher option \<Rightarrow> go_context \<Rightarrow> ('w \<Rightarrow> go_error option) \<Rightarrow> ('w \<Rightarrow> go_error option) \<Rightarrow> nat \<Rightarrow>
   task_metrics option \<Rightarrow> 'w \<Rightarrow> task_metrics option \<times> 'w" where
  "Refresher_Run r ctx ctxErr refreshErr ticks m w =
     (if r = None then (m, w) else refresh_ticks r ctx ctxErr refreshErr (Suc ticks) m w)"


section \<open>Lemmas\<close>

text \<open>The metrics a process can come to, whatever it reports.\<close>

inductive metrics_reachable :: "task_metrics option \<Rightarrow> bool" where
  metrics_new: "metrics_reachable (Some NewTaskLifecycleMetrics)"
| metrics_claimed: "metrics_reachable m \<Longrightarrow> metrics_reachable (RecordClaimed m)"
| metrics_started: "metrics_reachable m \<Longrightarrow> metrics_reachable (RecordStarted m)"
| metrics_completed: "metrics_reachable m \<Longrightarrow> metrics_reachable (RecordCompleted status m)"
| metrics_error: "metrics_reachable m \<Longrightarrow> metrics_reachable (RecordError stage m)"
| metrics_error_code: "metrics_reachable m \<Longrightarrow> metrics_reachable (RecordErrorCode stage code m)"
| metrics_outcome: "metrics_reachable m \<Longrightarrow> metrics_reachable (RecordExecutionOutcome outcome m)"
| metrics_dependency: "metrics_reachable m \<Longrightarrow> metrics_reachable (RecordDependencyReady dependency ready m)"
| metrics_queue: "metrics_reachable m \<Longrightarrow> metrics_reachable (SetTaskQueueSnapshot tasks m)"
| metrics_accounts: "metrics_reachable m \<Longrightarrow> metrics_reachable (SetAccountOperationalSnapshot accounts m)"
| metrics_sessions: "metrics_reachable m \<Longrightarrow> metrics_reachable (SetSessionStatusSnapshot sessions m)"

definition gauges_ok :: "string list \<Rightarrow> (string \<Rightarrow> int option) \<Rightarrow> bool" where
  "gauges_ok labels gauges \<longleftrightarrow> (\<forall>l v. gauges l = Some v \<longrightarrow> l \<in> set labels \<and> 0 \<le> v)"

definition labels_ok :: "task_metrics \<Rightarrow> bool" where
  "labels_ok m \<longleftrightarrow>
     dom (tm_completedTotal m) \<subseteq> set allowedTaskStatuses \<and>
     dom (tm_errorTotal m) \<subseteq> set allowedStages \<and>
     dom (tm_errorCodeTotal m) \<subseteq> set allowedStages \<times> set allowedErrorCodes \<and>
     dom (tm_executionOutcomeTotal m) \<subseteq> set allowedExecutionOutcomes \<and>
     gauges_ok allowedDependencies (tm_dependencyReady m) \<and>
     gauges_ok (map task_status_str taskSnapshotStatuses) (tm_queueTotal m) \<and>
     gauges_ok (map account_state_str accountSnapshotStates) (tm_accountOperational m) \<and>
     gauges_ok (map session_status_str sessionSnapshotStatuses) (tm_sessionStatus m)"

lemma normalizeBoundedLabel_in: "fallback \<in> set allowed \<Longrightarrow> normalizeBoundedLabel value allowed fallback \<in> set allowed"
  by (simp add: normalizeBoundedLabel_def Let_def)

lemma label_in:
  "normalizeTaskStatusLabel s \<in> set allowedTaskStatuses" "normalizeStageLabel s \<in> set allowedStages"
  "normalizeExecutionOutcomeLabel s \<in> set allowedExecutionOutcomes" "normalizeDependencyLabel s \<in> set allowedDependencies"
  "normalizeErrorCodeLabel s \<in> set allowedErrorCodes"
proof -
  have "''unknown'' \<in> set allowedTaskStatuses" "''unknown'' \<in> set allowedStages"
    "''unknown'' \<in> set allowedExecutionOutcomes" "''unknown'' \<in> set allowedDependencies"
    "error_code_str ErrorCodeInternal \<in> set allowedErrorCodes" by code_simp+
  then show "normalizeTaskStatusLabel s \<in> set allowedTaskStatuses" "normalizeStageLabel s \<in> set allowedStages"
    "normalizeExecutionOutcomeLabel s \<in> set allowedExecutionOutcomes" "normalizeDependencyLabel s \<in> set allowedDependencies"
    "normalizeErrorCodeLabel s \<in> set allowedErrorCodes"
    by (simp_all add: normalizeTaskStatusLabel_def normalizeStageLabel_def normalizeExecutionOutcomeLabel_def
        normalizeDependencyLabel_def normalizeErrorCodeLabel_def normalizeBoundedLabel_in)
qed

lemma set_gauges_ok: "gauges_ok labels g \<Longrightarrow> set (map str ks) \<subseteq> set labels \<Longrightarrow> gauges_ok labels (set_gauges str snap ks g)"
proof (induction ks arbitrary: g)
  case (Cons k ks)
  show ?case unfolding set_gauges.simps Let_def
    by (rule Cons.IH) (use Cons.prems in \<open>auto simp: gauges_ok_def split: option.splits\<close>)
qed simp

lemma set_gauges_value:
  "distinct (map str ks) \<Longrightarrow> k \<in> set ks \<Longrightarrow>
   set_gauges str snap ks g (str k) = Some (max 0 (case snap k of None \<Rightarrow> 0 | Some v \<Rightarrow> v))"
proof -
  have keep: "l \<notin> set (map str ks) \<Longrightarrow> set_gauges str snap ks g l = g l" for l ks g
    by (induction ks arbitrary: g) (auto simp: Let_def)
  show "distinct (map str ks) \<Longrightarrow> k \<in> set ks \<Longrightarrow>
    set_gauges str snap ks g (str k) = Some (max 0 (case snap k of None \<Rightarrow> 0 | Some v \<Rightarrow> v))"
    by (induction ks arbitrary: g) (auto simp: Let_def keep)
qed

lemma labels_ok_steps:
  assumes "labels_ok m"
  shows "labels_ok (the (RecordClaimed (Some m)))" "labels_ok (the (RecordStarted (Some m)))"
    "labels_ok (the (RecordCompleted s (Some m)))" "labels_ok (the (RecordError s (Some m)))"
    "labels_ok (the (RecordErrorCode s c (Some m)))" "labels_ok (the (RecordExecutionOutcome s (Some m)))"
    "labels_ok (the (RecordDependencyReady s b (Some m)))" "labels_ok (the (SetTaskQueueSnapshot t (Some m)))"
    "labels_ok (the (SetAccountOperationalSnapshot a (Some m)))" "labels_ok (the (SetSessionStatusSnapshot ss (Some m)))"
  using assms label_in
  by (auto simp: labels_ok_def RecordClaimed_def RecordStarted_def RecordCompleted_def RecordError_def
      RecordErrorCode_def RecordExecutionOutcome_def RecordDependencyReady_def inc_label_def SetTaskQueueSnapshot_def
      SetAccountOperationalSnapshot_def SetSessionStatusSnapshot_def gauges_ok_def [of allowedDependencies]
      intro!: set_gauges_ok split: if_splits)

lemma reachable_labels_ok: "metrics_reachable r \<Longrightarrow> \<exists>m. r = Some m \<and> labels_ok m"
proof (induction rule: metrics_reachable.induct)
  case metrics_new
  show ?case by (simp add: labels_ok_def NewTaskLifecycleMetrics_def gauges_ok_def)
qed (use labels_ok_steps in \<open>force simp: RecordClaimed_def RecordStarted_def RecordCompleted_def RecordError_def
      RecordErrorCode_def RecordExecutionOutcome_def RecordDependencyReady_def SetTaskQueueSnapshot_def
      SetAccountOperationalSnapshot_def SetSessionStatusSnapshot_def\<close>)+


text \<open>The snapshot of checks that do not touch the world, in the order of the dependencies.\<close>

definition health_reference ::
  "'w dependency list \<Rightarrow> ('w dependency \<Rightarrow> go_error option) \<Rightarrow> health_word \<times> dependency_status list" where
  "health_reference deps outcome =
     ((if \<exists>d \<in> set deps. dep_Critical d \<and> outcome d \<noteq> None then StatusNotReady else StatusReady),
      map (\<lambda>d. \<lparr>ds_Name = dep_Name d,
                ds_Status = (if outcome d = None then StatusReady else StatusNotReady),
                ds_Critical = dep_Critical d\<rparr>) deps)"

definition result_of :: "'w dependency list \<Rightarrow> ('w dependency \<Rightarrow> go_error option) \<Rightarrow> nat \<Rightarrow> dependency_result" where
  "result_of deps outcome i =
     (let d = deps ! i; st = (if outcome d = None then StatusReady else StatusNotReady)
      in \<lparr>dr_index = i, dr_status = \<lparr>ds_Name = dep_Name d, ds_Status = st, ds_Critical = dep_Critical d\<rparr>,
          dr_criticalNotReady = (dep_Critical d \<and> st = StatusNotReady), dr_ready = (st = StatusReady)\<rparr>)"

lemma run_checks_pure:
  assumes "\<forall>d \<in> set deps. \<forall>w. dep_Checker d ctx w = (outcome d, w)" "set order \<subseteq> {..<length deps}"
  shows "run_checks deps ctx order w = (map (result_of deps outcome) order, w)"
  using assms(2)
  by (induction order arbitrary: w) (use assms(1) in \<open>auto simp: run_check_def result_of_def Let_def\<close>)

lemma collect_results_status:
  "fst (snd (collect_results obs rs (ds, ov, w))) =
     (if \<exists>r \<in> set rs. dr_criticalNotReady r then StatusNotReady else ov)"
  by (induction rs arbitrary: ds ov w) auto

lemma collect_results_deps:
  "fst (collect_results obs rs (ds, ov, w)) = fold (\<lambda>r ds. ds[dr_index r := dr_status r]) rs ds"
  by (induction rs arbitrary: ds ov w) auto

lemma fold_updates:
  "i < length ds \<Longrightarrow> distinct is \<Longrightarrow>
   fold (\<lambda>j ds. ds[j := f j]) is ds ! i = (if i \<in> set is then f i else ds ! i)"
proof (induction "is" arbitrary: ds)
  case (Cons j js)
  then show ?case by (auto simp: nth_list_update)
qed simp

lemma fold_results:
  "fold (\<lambda>r ds. ds[dr_index r := dr_status r]) (map (result_of deps outcome) order) ds =
   fold (\<lambda>j ds. ds[j := dr_status (result_of deps outcome j)]) order ds"
proof -
  have "dr_index (result_of deps outcome j) = j" for j by (simp add: result_of_def Let_def)
  then show ?thesis by (induction order arbitrary: ds) simp_all
qed

lemma fold_updates_length: "length (fold (\<lambda>j ds. ds[j := f j]) is ds) = length ds"
  by (induction "is" arbitrary: ds) auto


section \<open>Theorems\<close>

text \<open>
  C38.  Whatever a process reports, the metrics of the task lifecycle only ever have label values of the fixed
  sets of the code, so their number is bounded, and no gauge is negative.
\<close>

theorem metrics_labels_bounded:
  assumes "metrics_reachable (Some m)"
  shows "dom (tm_completedTotal m) \<subseteq> set allowedTaskStatuses \<and>
    dom (tm_errorTotal m) \<subseteq> set allowedStages \<and>
    dom (tm_errorCodeTotal m) \<subseteq> set allowedStages \<times> set allowedErrorCodes \<and>
    dom (tm_executionOutcomeTotal m) \<subseteq> set allowedExecutionOutcomes \<and>
    gauges_ok allowedDependencies (tm_dependencyReady m) \<and>
    gauges_ok (map task_status_str taskSnapshotStatuses) (tm_queueTotal m) \<and>
    gauges_ok (map account_state_str accountSnapshotStates) (tm_accountOperational m) \<and>
    gauges_ok (map session_status_str sessionSnapshotStatuses) (tm_sessionStatus m)"
  using reachable_labels_ok [OF assms] by (simp add: labels_ok_def)

lemma metrics_labels_bounded_witness:
  "dom (tm_errorCodeTotal (the (RecordErrorCode ''No Such Stage'' '' Account_Busy '' (Some NewTaskLifecycleMetrics))))
     \<subseteq> set allowedStages \<times> set allowedErrorCodes"
proof -
  have "metrics_reachable (Some (the (RecordErrorCode ''No Such Stage'' '' Account_Busy '' (Some NewTaskLifecycleMetrics))))"
    using metrics_error_code [OF metrics_new] by (simp add: RecordErrorCode_def)
  from metrics_labels_bounded [OF this] show ?thesis by blast
qed

text \<open>
  C39.  The readiness snapshot runs its checks at once and collects them in the order they end in; the status
  and the list it reports are those of checking the dependencies one after the other, whatever that order
  is: the service is not ready exactly when a critical check fails.
\<close>

theorem health_snapshot_order_independent:
  assumes "\<forall>d \<in> set (health_dependencies s). \<forall>w. dep_Checker d ctx w = (outcome d, w)"
    "distinct order" "set order = {..<length (health_dependencies s)}"
  shows "(case Health_Snapshot s order ctx w of (h, w') \<Rightarrow> (hs_Status h, hs_Dependencies h)) =
    health_reference (health_dependencies s) outcome"
proof -
  let ?deps = "health_dependencies s"
  let ?rs = "map (result_of ?deps outcome) order"
  let ?ds = "fold (\<lambda>r ds. ds[dr_index r := dr_status r]) ?rs (replicate (length ?deps) no_status)"
  have run: "run_checks ?deps ctx order w = (?rs, w)" using run_checks_pure [OF assms(1)] assms(3) by blast
  obtain ds ov w2 where col: "collect_results (health_observer s) ?rs (replicate (length ?deps) no_status, StatusReady, w) = (ds, ov, w2)"
    by (cases "collect_results (health_observer s) ?rs (replicate (length ?deps) no_status, StatusReady, w)") auto
  have ov: "ov = (if \<exists>r \<in> set ?rs. dr_criticalNotReady r then StatusNotReady else StatusReady)"
    
    using collect_results_status [of "health_observer s" ?rs "replicate (length ?deps) no_status" StatusReady w]
    by (simp only: col fst_conv snd_conv)
  have "(\<exists>r \<in> set ?rs. dr_criticalNotReady r) \<longleftrightarrow> (\<exists>i < length ?deps. dep_Critical (?deps ! i) \<and> outcome (?deps ! i) \<noteq> None)"
    using assms(3) by (auto simp: result_of_def Let_def split: if_splits)
  also have "\<dots> \<longleftrightarrow> (\<exists>d \<in> set ?deps. dep_Critical d \<and> outcome d \<noteq> None)" by (metis in_set_conv_nth)
  finally have ov': "ov = fst (health_reference ?deps outcome)" using ov by (simp add: health_reference_def)
  have "fst (collect_results (health_observer s) ?rs (replicate (length ?deps) no_status, StatusReady, w)) = ?ds"
    by (rule collect_results_deps)
  then have "ds = ?ds" by (simp only: col fst_conv)
  then have ds: "ds = fold (\<lambda>j ds. ds[j := dr_status (result_of ?deps outcome j)]) order (replicate (length ?deps) no_status)"
    by (simp only: fold_results)
  have "ds = snd (health_reference ?deps outcome)"
  proof (rule nth_equalityI)
    show "length ds = length (snd (health_reference ?deps outcome))"
      by (simp add: ds fold_updates_length health_reference_def)
    fix i assume "i < length ds"
    then have "i < length ?deps" by (simp add: ds fold_updates_length)
    then show "ds ! i = snd (health_reference ?deps outcome) ! i"
      using fold_updates [of i "replicate (length ?deps) no_status" order] assms(2,3)
      by (simp add: ds health_reference_def result_of_def Let_def)
  qed
  then show ?thesis using run col ov' by (simp add: Health_Snapshot_def Let_def)
qed

definition sample_deps :: "unit dependency list" where
  "sample_deps =
     [\<lparr>dep_Name = ''postgres'', dep_Critical = True, dep_Checker = (\<lambda>ctx w. (None, w))\<rparr>,
      \<lparr>dep_Name = ''minio'', dep_Critical = False, dep_Checker = (\<lambda>ctx w. (Some CtxDeadlineExceeded, w))\<rparr>]"

lemma health_snapshot_order_independent_witness:
  "hs_Status (fst (Health_Snapshot (NewHealthService sample_deps ''1'' []) [1, 0] Background ())) = StatusReady"
proof -
  let ?s = "NewHealthService sample_deps ''1'' []"
  let ?out = "\<lambda>d :: unit dependency. if dep_Critical d then None else Some CtxDeadlineExceeded"
  have "\<forall>d \<in> set (health_dependencies ?s). \<forall>w. dep_Checker d Background w = (?out d, w)" "distinct [1 :: nat, 0]"
    "set [1, 0] = {..<length (health_dependencies ?s)}"
    by (simp_all add: NewHealthService_def sample_deps_def lessThan_Suc insert_commute)
  from health_snapshot_order_independent [OF this, of "()"]
  have "hs_Status (fst (Health_Snapshot ?s [1, 0] Background ())) = fst (health_reference (health_dependencies ?s) ?out)"
    by (cases "Health_Snapshot ?s [1, 0] Background ()") (auto dest: arg_cong [of _ _ fst])
  also have "\<dots> = StatusReady" by code_simp
  finally show ?thesis .
qed


text \<open>The refresh over the repositories of the database.\<close>

definition pg_refresher :: "int \<Rightarrow> 'x db_scheme metrics_refresher" where
  "pg_refresher interval =
     newOperationalMetricsRefresher TaskQueueSnapshot OperationalStateSnapshot StatusSnapshot interval"

lemma snapshot_loop_counts:
  "distinct ks \<Longrightarrow> list_all valid ks \<Longrightarrow>
   snapshot_loop valid snap (map (\<lambda>k. (k, f k)) ks) k = (if k \<in> set ks then Some (f k) else snap k)"
  by (induction ks arbitrary: snap) auto

lemma snapshot_counts:
  assumes "valid k" "snap k = Some 0"
  shows "snapshot_loop valid snap (let v = filter valid xs in map (\<lambda>k. (k, count_list v k)) (remdups v)) k =
    Some (count_list xs k)"
proof -
  have c: "count_list (filter valid xs) k = count_list xs k" using assms(1) by (induction xs) auto
  have "list_all valid (remdups (filter valid xs))" by (simp add: list_all_iff)
  note loop = snapshot_loop_counts [OF distinct_remdups this, of snap "count_list (filter valid xs)" k]
  show ?thesis
  proof (cases "k \<in> set xs")
    case True
    then show ?thesis using loop assms c by (simp add: Let_def)
  next
    case False
    then show ?thesis using loop assms by (simp add: Let_def)
  qed
qed

lemma snapshots_count:
  assumes "db_faults s = []"
  shows "\<exists>f. TaskQueueSnapshot ctx s = (Inr f, s) \<and> (\<forall>st \<in> set taskSnapshotStatuses. f st = Some (count_list (map trow_status (db_tasks s)) st))"
    "\<exists>f. OperationalStateSnapshot ctx s = (Inr f, s) \<and>
      (\<forall>st \<in> set accountSnapshotStates. f st = Some (count_list (map arow_operational_state (db_accounts s)) st))"
    "\<exists>f. StatusSnapshot ctx s = (Inr f, s) \<and>
      (\<forall>st \<in> set sessionSnapshotStatuses. f st = Some (count_list (map srow_status (db_sessions s)) st))"
  using assms
  by (auto simp: TaskQueueSnapshot_def OperationalStateSnapshot_def StatusSnapshot_def autocommit_def pop_fault_def
      count_by_status_def count_by_state_def count_by_session_status_def snapshot_counts
      taskSnapshotStatuses_def accountSnapshotStates_def sessionSnapshotStatuses_def)

text \<open>
  After a refresh that meets no failure each gauge shows the number of rows in its status: of the queue,
  of the accounts and of the sessions; the database is not changed.
\<close>

theorem refresh_shows_the_tables:
  assumes "db_faults s = []"
    "RefreshOnce (Some (pg_refresher interval)) ctx (\<lambda>_. None) (\<lambda>_. None) (Some m) s = (err, m', s')"
  shows "err = None \<and> s' = s \<and>
    (\<forall>st \<in> set taskSnapshotStatuses.
       tm_queueTotal (the m') (task_status_str st) = Some (int (count_list (map trow_status (db_tasks s)) st))) \<and>
    (\<forall>st \<in> set accountSnapshotStates.
       tm_accountOperational (the m') (account_state_str st) =
         Some (int (count_list (map arow_operational_state (db_accounts s)) st))) \<and>
    (\<forall>st \<in> set sessionSnapshotStatuses.
       tm_sessionStatus (the m') (session_status_str st) = Some (int (count_list (map srow_status (db_sessions s)) st)))"
proof -
  obtain f g h where
    f: "TaskQueueSnapshot ctx s = (Inr f, s)" "\<forall>st \<in> set taskSnapshotStatuses. f st = Some (count_list (map trow_status (db_tasks s)) st)" and
    g: "OperationalStateSnapshot ctx s = (Inr g, s)"
      "\<forall>st \<in> set accountSnapshotStates. g st = Some (count_list (map arow_operational_state (db_accounts s)) st)" and
    h: "StatusSnapshot ctx s = (Inr h, s)"
      "\<forall>st \<in> set sessionSnapshotStatuses. h st = Some (count_list (map srow_status (db_sessions s)) st)"
    using snapshots_count [OF assms(1)] by blast
  have dist: "distinct (map task_status_str taskSnapshotStatuses)" "distinct (map account_state_str accountSnapshotStates)"
    "distinct (map session_status_str sessionSnapshotStatuses)" by code_simp+
  have run: "err = None" "s' = s"
    "m' = SetSessionStatusSnapshot (map_option int \<circ> h) (SetAccountOperationalSnapshot (map_option int \<circ> g)
       (SetTaskQueueSnapshot (map_option int \<circ> f) (Some m)))"
    using assms(2)
    by (auto simp: RefreshOnce_def pg_refresher_def newOperationalMetricsRefresher_def refresh_part_def f(1) g(1) h(1)
        errors_join_def WithStack_def List.map_filter_simps)
  show ?thesis
    using f(2) g(2) h(2)
    by (auto simp: run SetSessionStatusSnapshot_def SetAccountOperationalSnapshot_def SetTaskQueueSnapshot_def
        set_gauges_value [OF dist(1)] set_gauges_value [OF dist(2)] set_gauges_value [OF dist(3)])
qed

lemma refresh_shows_the_tables_witness:
  "tm_queueTotal (the (fst (snd (RefreshOnce (Some (pg_refresher 0)) Background (\<lambda>_. None) (\<lambda>_. None)
      (Some NewTaskLifecycleMetrics) (sample_db [sample_queued, sample_failed]))))) ''queued'' = Some 1"
proof -
  let ?s = "sample_db [sample_queued, sample_failed]"
  have "db_faults ?s = []" by (simp add: sample_db_def)
  note r = refresh_shows_the_tables [OF this, where interval = 0 and ctx = Background and m = NewTaskLifecycleMetrics]
  obtain err m' s' where run: "RefreshOnce (Some (pg_refresher 0)) Background (\<lambda>_. None) (\<lambda>_. None)
      (Some NewTaskLifecycleMetrics) ?s = (err, m', s')"
    by (cases "RefreshOnce (Some (pg_refresher 0)) Background (\<lambda>_. None) (\<lambda>_. None) (Some NewTaskLifecycleMetrics) ?s") auto
  have "tm_queueTotal (the m') (task_status_str TaskStatusQueued) =
      Some (int (count_list (map trow_status (db_tasks ?s)) TaskStatusQueued))"
    using r [OF run] by (simp add: taskSnapshotStatuses_def)
  also have "count_list (map trow_status (db_tasks ?s)) TaskStatusQueued = 1" by code_simp
  finally show ?thesis by (simp add: run)
qed

text \<open>
  The set of error codes of the metrics was not extended with the later codes of the service: an
  authentication failure and a refused administrator action are counted as internal errors.
\<close>

theorem auth_errors_counted_as_internal:
  "code \<in> {ErrorCodeAuthBootstrapRequired, ErrorCodeAuthBootstrapFailed, ErrorCodeAuthInvalidCredentials,
            ErrorCodeAuthChallengeBlocked, ErrorCodeAuthBootstrapDisabled, ErrorCodeTaskStateConflict,
            ErrorCodeRetryNotAllowed, ErrorCodeCancelNotAllowed, ErrorCodeTaskQueueWriteFailed} \<Longrightarrow>
   RecordErrorCode stage (error_code_str code) m = RecordErrorCode stage (error_code_str ErrorCodeInternal) m"
proof -
  have "list_all (\<lambda>code. normalizeErrorCodeLabel (error_code_str code) = error_code_str ErrorCodeInternal)
      [ErrorCodeAuthBootstrapRequired, ErrorCodeAuthBootstrapFailed, ErrorCodeAuthInvalidCredentials,
       ErrorCodeAuthChallengeBlocked, ErrorCodeAuthBootstrapDisabled, ErrorCodeTaskStateConflict,
       ErrorCodeRetryNotAllowed, ErrorCodeCancelNotAllowed, ErrorCodeTaskQueueWriteFailed, ErrorCodeInternal]"
    by code_simp
  then show "code \<in> {ErrorCodeAuthBootstrapRequired, ErrorCodeAuthBootstrapFailed, ErrorCodeAuthInvalidCredentials,
      ErrorCodeAuthChallengeBlocked, ErrorCodeAuthBootstrapDisabled, ErrorCodeTaskStateConflict,
      ErrorCodeRetryNotAllowed, ErrorCodeCancelNotAllowed, ErrorCodeTaskQueueWriteFailed} \<Longrightarrow> ?thesis"
    by (auto simp: RecordErrorCode_def)
qed

lemma auth_errors_counted_as_internal_witness:
  "RecordErrorCode ''follow.execution'' ''auth_invalid_credentials'' (Some NewTaskLifecycleMetrics) =
   RecordErrorCode ''follow.execution'' ''internal_error'' (Some NewTaskLifecycleMetrics)"
  using auth_errors_counted_as_internal [of ErrorCodeAuthInvalidCredentials "''follow.execution''" "Some NewTaskLifecycleMetrics"]
  by simp

end
