(* ===== verification/Claim_Loop.thy ===== *)
theory Claim_Loop
  imports Execution_Service Observability
begin

text \<open>
  \<open>internal/worker/claim_loop.go\<close>: claiming a task, executing it and completing it.

  The loop calls the task repository, the readiness snapshot, the metrics and the execution service; each
  is a record of functions on the state \<open>'w\<close> of the world, an option where the field may be nil.  Log
  lines are left out.  A context carries its values only: that it is cancelled shows in the errors of the
  calls made with it, so \<open>context.WithoutCancel\<close> and \<open>context.WithTimeout\<close> keep it as it is.

  \<open>executeClaimedTask\<close> is a sequence of stages, one definition each; the deferred release follows the
  stages behind a successful preparation on every path.
\<close>

section \<open>Dependencies\<close>

record 'w loop_tasks =
  lt_ClaimNextQueued :: "go_context \<Rightarrow> string \<Rightarrow> 'w \<Rightarrow> (go_error + task option) \<times> 'w"
  lt_Complete :: "'w task_completer"

record 'w loop_metrics =
  lm_RecordClaimed :: "'w \<Rightarrow> 'w"
  lm_RecordStarted :: "'w \<Rightarrow> 'w"
  lm_RecordCompleted :: "string \<Rightarrow> 'w \<Rightarrow> 'w"
  lm_RecordError :: "string \<Rightarrow> 'w \<Rightarrow> 'w"

record 'w loop_extended_metrics =
  lx_RecordErrorCode :: "string \<Rightarrow> string \<Rightarrow> 'w \<Rightarrow> 'w"
  lx_RecordExecutionOutcome :: "string \<Rightarrow> 'w \<Rightarrow> 'w"

record 'w loop_execution =
  le_Prepare :: "go_context \<Rightarrow> task \<Rightarrow> 'w \<Rightarrow> (go_error + prepared_context) \<times> 'w"
  le_ResolveBootstrap :: "go_context \<Rightarrow> task \<Rightarrow> prepared_context \<Rightarrow> 'w \<Rightarrow> (go_error + prepared_context) \<times> 'w"
  le_RunFollowFlow :: "'w follow_runner"
  le_VerifyFollowResult :: "'w verify_runner"
  le_Finalize :: "go_context \<Rightarrow> follow_finalization_input \<Rightarrow> 'w \<Rightarrow> (go_error + follow_result) \<times> 'w"
  le_Release :: "go_context \<Rightarrow> uuid \<Rightarrow> string \<Rightarrow> 'w \<Rightarrow> go_error option \<times> 'w"

text \<open>
  \<open>cl_extended\<close> is what the type assertion on the metrics gives.
\<close>

record 'w claim_loop =
  cl_repository :: "'w loop_tasks"
  cl_health :: "(go_context \<Rightarrow> 'w \<Rightarrow> health_status \<times> 'w) option"
  cl_metrics :: "'w loop_metrics option"
  cl_extended :: "'w loop_extended_metrics option"
  cl_execution :: "'w loop_execution option"
  cl_workerID :: string
  cl_loopInterval :: int

definition NewClaimLoop ::
  "'w loop_tasks \<Rightarrow> (go_context \<Rightarrow> 'w \<Rightarrow> health_status \<times> 'w) option \<Rightarrow> 'w loop_metrics option \<Rightarrow>
   'w loop_extended_metrics option \<Rightarrow> string \<Rightarrow> int \<Rightarrow> 'w loop_execution list \<Rightarrow> 'w claim_loop" where
  "NewClaimLoop repository health metrics extended workerID loopInterval executionServices =
     \<lparr>cl_repository = repository, cl_health = health, cl_metrics = metrics, cl_extended = extended,
      cl_execution = (case executionServices of [] \<Rightarrow> None | e # es \<Rightarrow> Some e), cl_workerID = workerID,
      cl_loopInterval = (if loopInterval \<le> 0 then second_ns else loopInterval)\<rparr>"


section \<open>Metrics\<close>

definition recordErrorMetric :: "'w claim_loop \<Rightarrow> string \<Rightarrow> error_code \<Rightarrow> 'w \<Rightarrow> 'w" where
  "recordErrorMetric l stage errorCode w =
     (case cl_metrics l of
        None \<Rightarrow> w
      | Some m \<Rightarrow>
        let w1 = lm_RecordError m stage w
        in case cl_extended l of None \<Rightarrow> w1 | Some x \<Rightarrow> lx_RecordErrorCode x stage (error_code_str errorCode) w1)"

definition recordExecutionOutcomeMetric :: "'w claim_loop \<Rightarrow> follow_flow_outcome \<Rightarrow> 'w \<Rightarrow> 'w" where
  "recordExecutionOutcomeMetric l outcome w =
     (case cl_metrics l of
        None \<Rightarrow> w
      | Some m \<Rightarrow>
        (case cl_extended l of None \<Rightarrow> w | Some x \<Rightarrow> lx_RecordExecutionOutcome x (follow_outcome_str outcome) w))"


section \<open>Claiming and completing\<close>

definition ClaimOnce :: "'w claim_loop \<Rightarrow> go_context \<Rightarrow> 'w \<Rightarrow> (go_error + task option) \<times> 'w" where
  "ClaimOnce l ctx w =
     (let claim = (\<lambda>w. case lt_ClaimNextQueued (cl_repository l) ctx (cl_workerID l) w of
          (Inl err, w1) \<Rightarrow> (Inl (with_stack err), recordErrorMetric l ''claim'' (lifecycleErrorCode err) w1)
        | (Inr None, w1) \<Rightarrow> (Inr None, w1)
        | (Inr (Some tk), w1) \<Rightarrow>
            (Inr (Some tk), (case cl_metrics l of None \<Rightarrow> w1
                             | Some m \<Rightarrow> lm_RecordStarted m (lm_RecordClaimed m w1))))
      in case cl_health l of
           None \<Rightarrow> claim w
         | Some snapshot \<Rightarrow>
           (case snapshot ctx w of (h, w0) \<Rightarrow>
              if hs_Status h \<noteq> StatusReady then (Inr None, w0) else claim w0))"

definition Loop_Complete ::
  "'w claim_loop \<Rightarrow> go_context \<Rightarrow> uuid \<Rightarrow> task_status \<Rightarrow> error_code \<Rightarrow> string \<Rightarrow> 'w \<Rightarrow> (go_error + task) \<times> 'w" where
  "Loop_Complete l ctx taskID finalStatus errorCode resultReason w =
     (case lt_Complete (cl_repository l) ctx taskID (cl_workerID l) finalStatus errorCode resultReason w of
        (Inl err, w1) \<Rightarrow> (Inl (with_stack err), recordErrorMetric l ''complete'' (lifecycleErrorCode err) w1)
      | (Inr tk, w1) \<Rightarrow>
          (Inr tk, (case cl_metrics l of None \<Rightarrow> w1
                    | Some m \<Rightarrow> lm_RecordCompleted m (task_status_str (task_Status tk)) w1)))"

definition completeAfterExecutionError :: "'w claim_loop \<Rightarrow> go_context \<Rightarrow> task \<Rightarrow> string \<Rightarrow> go_error \<Rightarrow> 'w \<Rightarrow> 'w" where
  "completeAfterExecutionError l ctx tk resultReason err w =
     (case classifyLifecycleExecutionFailure err of (finalStatus, errorCode) \<Rightarrow>
        snd (Loop_Complete l ctx (task_ID tk) finalStatus errorCode
               (execution_failure_reason resultReason finalStatus errorCode) w))"


section \<open>Stages\<close>

definition runFollowStage ::
  "'w claim_loop \<Rightarrow> 'w loop_execution \<Rightarrow> go_context \<Rightarrow> follow_flow_input \<Rightarrow> 'w \<Rightarrow>
   (follow_flow_outcome \<times> follow_flow_diagnostics \<times> go_error option) \<times> 'w" where
  "runFollowStage l ex ctx input w =
     (case le_RunFollowFlow ex ctx input w of ((outcome, diagnostics, err), w1) \<Rightarrow>
        case err of
          Some e \<Rightarrow>
            if \<not> ffd_WarmupCompleted diagnostics then
              ((FollowFlowOutcomeOther '''', diagnostics, Some (with_stack e)),
               recordErrorMetric l ''follow.warmup'' (lifecycleErrorCode e) w1)
            else
              ((FollowFlowOutcomeOther '''', diagnostics, Some (with_stack e)),
               recordErrorMetric l ''follow.execution'' (lifecycleErrorCode e) w1)
        | None \<Rightarrow>
            if followOutcomeIsSuccess outcome then ((outcome, diagnostics, None), w1)
            else ((outcome, diagnostics, None),
                  recordErrorMetric l ''follow.execution'' (followOutcomeErrorCode outcome) w1))"

definition no_verification :: follow_verification_result where
  "no_verification =
     \<lparr>fvr_Verified = False, fvr_Signal = FollowVerificationSignalOther '''', fvr_Reason = '''',
      fvr_ErrorCode = no_error_code, fvr_SessionChanged = False, fvr_ScreenshotPayload = [], fvr_SessionPayload = []\<rparr>"

definition runVerifyStage ::
  "'w claim_loop \<Rightarrow> 'w loop_execution \<Rightarrow> go_context \<Rightarrow> follow_verification_input \<Rightarrow> 'w \<Rightarrow>
   (follow_verification_result \<times> go_error option) \<times> 'w" where
  "runVerifyStage l ex ctx input w =
     (case le_VerifyFollowResult ex ctx input w of
        (Inl err, w1) \<Rightarrow>
          ((no_verification, Some (with_stack err)), recordErrorMetric l ''follow.verify'' (lifecycleErrorCode err) w1)
      | (Inr verification, w1) \<Rightarrow>
          if \<not> fvr_Verified verification then
            ((verification, None), recordErrorMetric l ''follow.verify'' (fvr_ErrorCode verification) w1)
          else ((verification, None), w1))"

definition resolveAuthBootstrapForPreparedTask ::
  "'w loop_execution \<Rightarrow> go_context \<Rightarrow> task \<Rightarrow> prepared_context \<Rightarrow> 'w \<Rightarrow> (go_error + prepared_context) \<times> 'w" where
  "resolveAuthBootstrapForPreparedTask ex ctx tk prepared w =
     (case le_ResolveBootstrap ex ctx tk
             (prepared\<lparr>pc_BootstrapRequired := True, pc_ReadyForFollowFlow := False,
                       pc_BootstrapReason := ErrorCodeAuthBootstrapRequired,
                       pc_BootstrapSource := ErrorCodeAuthBootstrapRequired\<rparr>) w of
        (Inl err, w1) \<Rightarrow> (Inl (with_stack err), w1)
      | (Inr resolved, w1) \<Rightarrow>
          if \<not> pc_ReadyForFollowFlow resolved then
            (Inl (NewDomainError ErrorCodeInternal
                    ''bootstrap resolution completed but follow flow is still not ready''), w1)
          else (Inr resolved, w1))"

text \<open>What the stages of one attempt leave behind.\<close>

record attempt_state =
  at_prepared :: prepared_context
  at_outcome :: follow_flow_outcome
  at_diagnostics :: follow_flow_diagnostics
  at_followErr :: "go_error option"
  at_recovered :: bool

definition follow_input :: "task \<Rightarrow> string \<Rightarrow> prepared_context \<Rightarrow> follow_flow_input" where
  "follow_input tk ectx prepared =
     \<lparr>ffi_TaskID = task_ID tk, ffi_AccountID = task_AccountID tk, ffi_Attempt = task_Attempt tk,
      ffi_ExecutionContextID = ectx, ffi_SessionMetadata = pc_SessionMetadata prepared,
      ffi_SessionPayload = pc_SessionPayload prepared, ffi_TargetProfile = task_TargetProfile tk\<rparr>"

definition verify_input :: "task \<Rightarrow> string \<Rightarrow> prepared_context \<Rightarrow> follow_flow_outcome \<Rightarrow> follow_verification_input" where
  "verify_input tk ectx prepared resolvedOutcome =
     \<lparr>fvi_TaskID = task_ID tk, fvi_AccountID = task_AccountID tk, fvi_Attempt = task_Attempt tk,
      fvi_ExecutionContextID = ectx, fvi_TargetProfile = task_TargetProfile tk, fvi_Outcome = resolvedOutcome,
      fvi_SessionPayload = pc_SessionPayload prepared\<rparr>"

definition finalize_input ::
  "task \<Rightarrow> prepared_context \<Rightarrow> follow_flow_outcome \<Rightarrow> follow_flow_diagnostics \<Rightarrow> follow_verification_result \<Rightarrow>
   follow_finalization_input" where
  "finalize_input tk prepared resolvedOutcome diagnostics verification =
     \<lparr>ffin_TaskID = task_ID tk, ffin_AccountID = task_AccountID tk,
      ffin_AccountLogin = account_Username (awp_Account (pc_AccountWithProxy prepared)),
      ffin_TargetProfile = task_TargetProfile tk, ffin_Attempt = task_Attempt tk,
      ffin_SessionRevision = session_Revision (pc_SessionMetadata prepared),
      ffin_FollowOutcome = resolvedOutcome, ffin_FollowDiagnostics = diagnostics,
      ffin_Verification = verification, ffin_SessionPayload = sessionPayloadForFinalization verification\<rparr>"


text \<open>The first follow, with the login it may ask for.\<close>

definition follow_stage ::
  "'w claim_loop \<Rightarrow> 'w loop_execution \<Rightarrow> go_context \<Rightarrow> task \<Rightarrow> string \<Rightarrow> prepared_context \<Rightarrow> 'w \<Rightarrow>
   (go_error + attempt_state) \<times> 'w" where
  "follow_stage l ex ctx tk ectx prepared w =
     (case runFollowStage l ex ctx (follow_input tk ectx prepared) w of ((outcome, diagnostics, followErr), w1) \<Rightarrow>
        if followErrorRequiresBootstrap followErr then
          (case resolveAuthBootstrapForPreparedTask ex ctx tk prepared w1 of
             (Inl err, w2) \<Rightarrow> (Inl err, w2)
           | (Inr prepared', w2) \<Rightarrow>
             (case runFollowStage l ex ctx (follow_input tk ectx prepared') w2 of ((outcome', diagnostics', followErr'), w3) \<Rightarrow>
                (Inr \<lparr>at_prepared = prepared', at_outcome = outcome', at_diagnostics = diagnostics',
                      at_followErr = followErr', at_recovered = True\<rparr>, w3)))
        else
          (Inr \<lparr>at_prepared = prepared, at_outcome = outcome, at_diagnostics = diagnostics,
                at_followErr = followErr, at_recovered = False\<rparr>, w1))"

text \<open>The verification, with the login and the second follow it may ask for.\<close>

definition verify_stage ::
  "'w claim_loop \<Rightarrow> 'w loop_execution \<Rightarrow> go_context \<Rightarrow> task \<Rightarrow> string \<Rightarrow> attempt_state \<Rightarrow> 'w \<Rightarrow>
   (go_error + attempt_state \<times> follow_flow_outcome \<times> follow_verification_result \<times> go_error option) \<times> 'w" where
  "verify_stage l ex ctx tk ectx a w =
     (let resolvedOutcome = normalizeFollowOutcome (at_outcome a) (at_followErr a);
          w0 = recordExecutionOutcomeMetric l resolvedOutcome w
      in case runVerifyStage l ex ctx (verify_input tk ectx (at_prepared a) resolvedOutcome) w0 of
        ((verification, verifyErr), w1) \<Rightarrow>
          if \<not> at_recovered a \<and> verificationRequestsBootstrap verification verifyErr then
            (case resolveAuthBootstrapForPreparedTask ex ctx tk (at_prepared a) w1 of
               (Inl err, w2) \<Rightarrow> (Inl err, w2)
             | (Inr prepared, w2) \<Rightarrow>
               (case runFollowStage l ex ctx (follow_input tk ectx prepared) w2 of ((outcome, diagnostics, followErr), w3) \<Rightarrow>
                  let resolvedOutcome = normalizeFollowOutcome outcome followErr;
                      w4 = recordExecutionOutcomeMetric l resolvedOutcome w3
                  in case runVerifyStage l ex ctx (verify_input tk ectx prepared resolvedOutcome) w4 of
                    ((verification, verifyErr), w5) \<Rightarrow>
                      (Inr (\<lparr>at_prepared = prepared, at_outcome = outcome, at_diagnostics = diagnostics,
                             at_followErr = followErr, at_recovered = at_recovered a\<rparr>,
                            resolvedOutcome, verification, verifyErr), w5)))
          else (Inr (a, resolvedOutcome, verification, verifyErr), w1))"

text \<open>Storing the result and completing the task.\<close>

definition finalize_stage ::
  "'w claim_loop \<Rightarrow> 'w loop_execution \<Rightarrow> go_context \<Rightarrow> task \<Rightarrow> attempt_state \<Rightarrow> follow_flow_outcome \<Rightarrow>
   follow_verification_result \<Rightarrow> go_error option \<Rightarrow> 'w \<Rightarrow> 'w" where
  "finalize_stage l ex ctx tk a resolvedOutcome verification0 verifyErr w =
     (let verification = (case verifyErr of Some e \<Rightarrow> verificationFromError e | None \<Rightarrow> verification0)
      in case le_Finalize ex ctx (finalize_input tk (at_prepared a) resolvedOutcome (at_diagnostics a) verification) w of
           (Inl finalizeErr, w1) \<Rightarrow>
             let w2 = recordErrorMetric l ''follow.finalize'' (lifecycleErrorCode finalizeErr) w1
             in (case classifyFinalizationError finalizeErr of (finalStatus, errorCode, resultReason) \<Rightarrow>
                   snd (Loop_Complete l ctx (task_ID tk) finalStatus errorCode resultReason w2))
         | (Inr stored, w1) \<Rightarrow>
             (case classifyFollowCompletionResult resolvedOutcome (at_followErr a) verification verifyErr of
                (finalStatus, errorCode, resultReason) \<Rightarrow>
                   snd (Loop_Complete l ctx (task_ID tk) finalStatus errorCode resultReason w1)))"

text \<open>What happens between the preparation and the deferred release.\<close>

definition execute_prepared ::
  "'w claim_loop \<Rightarrow> 'w loop_execution \<Rightarrow> go_context \<Rightarrow> task \<Rightarrow> string \<Rightarrow> prepared_context \<Rightarrow> 'w \<Rightarrow> 'w" where
  "execute_prepared l ex ctx tk ectx prepared0 w =
     (case le_ResolveBootstrap ex ctx tk prepared0 w of
        (Inl err, w1) \<Rightarrow>
          completeAfterExecutionError l ctx tk
            (if lifecycleErrorCode err = ErrorCodeAuthBootstrapRequired then ''bootstrap_pending''
             else ''bootstrap_login_failed'') err w1
      | (Inr prepared, w1) \<Rightarrow>
          if \<not> pc_ReadyForFollowFlow prepared then
            completeAfterExecutionError l ctx tk ''follow_prerequisites_not_ready''
              (NewDomainError ErrorCodeInternal ''prepared execution context is not ready for follow flow'') w1
          else
            (case follow_stage l ex ctx tk ectx prepared w1 of
               (Inl err, w2) \<Rightarrow> completeAfterExecutionError l ctx tk ''bootstrap_login_failed'' err w2
             | (Inr a, w2) \<Rightarrow>
               (case verify_stage l ex ctx tk ectx a w2 of
                  (Inl err, w3) \<Rightarrow> completeAfterExecutionError l ctx tk ''bootstrap_login_failed'' err w3
                | (Inr (a', resolvedOutcome, verification, verifyErr), w3) \<Rightarrow>
                    finalize_stage l ex ctx tk a' resolvedOutcome verification verifyErr w3)))"

definition releaseExecutionContext ::
  "'w claim_loop \<Rightarrow> 'w loop_execution \<Rightarrow> go_context \<Rightarrow> task \<Rightarrow> string \<Rightarrow> 'w \<Rightarrow> 'w" where
  "releaseExecutionContext l ex ctx tk executionContextID w =
     (case le_Release ex ctx (task_AccountID tk) executionContextID w of
        (Some err, w1) \<Rightarrow> recordErrorMetric l ''release'' (lifecycleErrorCode err) w1
      | (None, w1) \<Rightarrow> w1)"

definition executeClaimedTask :: "'w claim_loop \<Rightarrow> go_context \<Rightarrow> task \<Rightarrow> 'w \<Rightarrow> 'w" where
  "executeClaimedTask l ctx tk w =
     (case cl_execution l of
        None \<Rightarrow>
          completeAfterExecutionError l ctx tk ''execution_service_not_configured''
            (NewDomainError ErrorCodeInternal ''execution service is not configured'') w
      | Some ex \<Rightarrow>
        (case le_Prepare ex ctx tk w of
           (Inl err, w1) \<Rightarrow> w1
         | (Inr prepared, w1) \<Rightarrow>
           let executionContextID = (if pc_ExecutionContextID prepared = '''' then task_ClaimedBy tk
                                     else pc_ExecutionContextID prepared)
           in releaseExecutionContext l ex ctx tk executionContextID
                (execute_prepared l ex ctx tk executionContextID prepared w1)))"

definition runIteration :: "'w claim_loop \<Rightarrow> go_context \<Rightarrow> 'w \<Rightarrow> 'w" where
  "runIteration l ctx w =
     (case ClaimOnce l ctx w of
        (Inl err, w1) \<Rightarrow> w1
      | (Inr None, w1) \<Rightarrow> w1
      | (Inr (Some tk), w1) \<Rightarrow> executeClaimedTask l ctx tk w1)"

text \<open>
  \<open>Run\<close> with the number of ticks that come before its context is done: an iteration at once and one for
  each tick.
\<close>

fun loop_ticks :: "'w claim_loop \<Rightarrow> go_context \<Rightarrow> nat \<Rightarrow> 'w \<Rightarrow> 'w" where
  "loop_ticks l ctx 0 w = w"
| "loop_ticks l ctx (Suc n) w = loop_ticks l ctx n (runIteration l ctx w)"

definition Loop_Run :: "'w claim_loop \<Rightarrow> go_context \<Rightarrow> nat \<Rightarrow> 'w \<Rightarrow> 'w" where
  "Loop_Run l ctx ticks w = loop_ticks l ctx ticks (runIteration l ctx w)"


section \<open>The protocol of an execution\<close>

text \<open>
  The calls of an execution that others see, with what matters of their results, and the order they may
  come in, as an automaton.  The boolean of \<open>PReady\<close> and \<open>PFollowed\<close> says that the one extra login was
  used; \<open>good\<close> says that everything up to there went well.
\<close>

datatype loop_event =
    EvPrepare bool
  | EvResolve bool
  | EvFollow bool bool
  | EvVerify bool bool
  | EvFinalize bool
  | EvComplete uuid string task_status
  | EvRelease uuid string

datatype phase =
    PStart | PPrepared | PReady bool | PLogin | PFollowed bool bool | PVerified bool | PFailed
  | PFinalized bool | PCompleted | PReleased | PStopped

fun protocol_step :: "phase \<Rightarrow> loop_event \<Rightarrow> phase option" where
  "protocol_step PStart (EvPrepare ok) = Some (if ok then PPrepared else PStopped)"
| "protocol_step PPrepared (EvResolve ready) = Some (if ready then PReady False else PFailed)"
| "protocol_step PLogin (EvResolve ready) = Some (if ready then PReady True else PFailed)"
| "protocol_step (PReady used) (EvFollow wants_login good) =
     Some (if wants_login \<and> \<not> used then PLogin else PFollowed used good)"
| "protocol_step (PFollowed used good) (EvVerify wants_login verified) =
     Some (if wants_login \<and> \<not> used then PLogin else PVerified (good \<and> verified))"
| "protocol_step (PVerified good) (EvFinalize ok) = Some (PFinalized (good \<and> ok))"
| "protocol_step PFailed (EvComplete tk w st) = (if st \<in> {TaskStatusFail, TaskStatusRetry} then Some PCompleted else None)"
| "protocol_step (PFinalized good) (EvComplete tk w st) =
     (if (if good then st = TaskStatusSuccess else st \<in> {TaskStatusFail, TaskStatusRetry}) then Some PCompleted else None)"
| "protocol_step PCompleted (EvRelease a ectx) = Some PReleased"
| "protocol_step p e = None"

fun protocol_run :: "phase \<Rightarrow> loop_event list \<Rightarrow> phase option" where
  "protocol_run p [] = Some p"
| "protocol_run p (e # es) = (case protocol_step p e of None \<Rightarrow> None | Some q \<Rightarrow> protocol_run q es)"

text \<open>A loop whose calls are written down: its world is a world and the events so far.\<close>

definition watched :: "('w \<Rightarrow> 'r \<times> 'w) \<Rightarrow> ('r \<Rightarrow> loop_event) \<Rightarrow> 'w \<times> loop_event list \<Rightarrow> 'r \<times> 'w \<times> loop_event list" where
  "watched call event wt =
     (case call (fst wt) of (r, w1) \<Rightarrow> (r, (w1, snd wt @ [event r])))"

definition unseen :: "('w \<Rightarrow> 'w) \<Rightarrow> 'w \<times> loop_event list \<Rightarrow> 'w \<times> loop_event list" where
  "unseen call wt = (call (fst wt), snd wt)"

definition ready_result :: "go_error + prepared_context \<Rightarrow> bool" where
  "ready_result r = (case r of Inl e \<Rightarrow> False | Inr p \<Rightarrow> pc_ReadyForFollowFlow p)"

definition follow_event :: "follow_flow_outcome \<times> follow_flow_diagnostics \<times> go_error option \<Rightarrow> loop_event" where
  "follow_event r = (case r of (outcome, diagnostics, err) \<Rightarrow>
     EvFollow (followErrorRequiresBootstrap err) (err = None \<and> followOutcomeIsSuccess outcome))"

definition verify_event :: "go_error + follow_verification_result \<Rightarrow> loop_event" where
  "verify_event r =
     (case r of
        Inl e \<Rightarrow> EvVerify (verificationRequestsBootstrap no_verification (Some e)) False
      | Inr v \<Rightarrow> EvVerify (verificationRequestsBootstrap v None) (fvr_Verified v))"

definition watched_execution :: "'w loop_execution \<Rightarrow> ('w \<times> loop_event list) loop_execution" where
  "watched_execution ex =
     \<lparr>le_Prepare = (\<lambda>ctx tk. watched (le_Prepare ex ctx tk) (\<lambda>r. EvPrepare (\<not> isl r))),
      le_ResolveBootstrap = (\<lambda>ctx tk p. watched (le_ResolveBootstrap ex ctx tk p) (\<lambda>r. EvResolve (ready_result r))),
      le_RunFollowFlow = (\<lambda>ctx i. watched (le_RunFollowFlow ex ctx i) follow_event),
      le_VerifyFollowResult = (\<lambda>ctx i. watched (le_VerifyFollowResult ex ctx i) verify_event),
      le_Finalize = (\<lambda>ctx i. watched (le_Finalize ex ctx i) (\<lambda>r. EvFinalize (\<not> isl r))),
      le_Release = (\<lambda>ctx acc ectx. watched (le_Release ex ctx acc ectx) (\<lambda>r. EvRelease acc ectx))\<rparr>"

definition watched_loop :: "'w claim_loop \<Rightarrow> ('w \<times> loop_event list) claim_loop" where
  "watched_loop l =
     \<lparr>cl_repository =
        \<lparr>lt_ClaimNextQueued = (\<lambda>ctx by wt. case lt_ClaimNextQueued (cl_repository l) ctx by (fst wt) of
                                  (r, w1) \<Rightarrow> (r, (w1, snd wt))),
         lt_Complete = (\<lambda>ctx tk by st code reason.
            watched (lt_Complete (cl_repository l) ctx tk by st code reason) (\<lambda>r. EvComplete tk by st))\<rparr>,
      cl_health = map_option (\<lambda>h ctx wt. case h ctx (fst wt) of (r, w1) \<Rightarrow> (r, (w1, snd wt))) (cl_health l),
      cl_metrics = map_option (\<lambda>m.
        \<lparr>lm_RecordClaimed = unseen (lm_RecordClaimed m), lm_RecordStarted = unseen (lm_RecordStarted m),
         lm_RecordCompleted = (\<lambda>st. unseen (lm_RecordCompleted m st)),
         lm_RecordError = (\<lambda>st. unseen (lm_RecordError m st))\<rparr>) (cl_metrics l),
      cl_extended = map_option (\<lambda>x.
        \<lparr>lx_RecordErrorCode = (\<lambda>st code. unseen (lx_RecordErrorCode x st code)),
         lx_RecordExecutionOutcome = (\<lambda>oc. unseen (lx_RecordExecutionOutcome x oc))\<rparr>) (cl_extended l),
      cl_execution = map_option watched_execution (cl_execution l),
      cl_workerID = cl_workerID l, cl_loopInterval = cl_loopInterval l\<rparr>"



section \<open>Lemmas\<close>

lemma protocol_run_append:
  "protocol_run p (es @ fs) = (case protocol_run p es of None \<Rightarrow> None | Some q \<Rightarrow> protocol_run q fs)"
  by (induction p es rule: protocol_run.induct) (auto split: option.split)

lemma lifecycleErrorCode_stack [simp]: "lifecycleErrorCode (with_stack e) = lifecycleErrorCode e"
  by (simp add: lifecycleErrorCode_def)

lemma watched_loop_simps [simp]:
  "cl_workerID (watched_loop l) = cl_workerID l" "cl_execution (watched_loop l) = map_option watched_execution (cl_execution l)"
  by (simp_all add: watched_loop_def)

lemma recordErrorMetric_w [simp]: "recordErrorMetric (watched_loop l) s c (w, t) = (recordErrorMetric l s c w, t)"
  by (auto simp: recordErrorMetric_def watched_loop_def unseen_def Let_def split: option.splits)

lemma recordOutcome_w [simp]: "recordExecutionOutcomeMetric (watched_loop l) oc (w, t) = (recordExecutionOutcomeMetric l oc w, t)"
  by (auto simp: recordExecutionOutcomeMetric_def watched_loop_def unseen_def split: option.splits)

lemma Loop_Complete_w:
  "Loop_Complete (watched_loop l) ctx tid st c reason (w, t) =
   (case Loop_Complete l ctx tid st c reason w of (r, w1) \<Rightarrow> (r, (w1, t @ [EvComplete tid (cl_workerID l) st])))"
proof -
  obtain r w1 where r: "lt_Complete (cl_repository l) ctx tid (cl_workerID l) st c reason w = (r, w1)"
    by (cases "lt_Complete (cl_repository l) ctx tid (cl_workerID l) st c reason w")
  have "lt_Complete (cl_repository (watched_loop l)) ctx tid (cl_workerID l) st c reason (w, t) =
      (r, (w1, t @ [EvComplete tid (cl_workerID l) st]))"
    using r by (simp add: watched_loop_def watched_def)
  then show ?thesis using r
    by (cases r; cases "cl_metrics l") (auto simp: Loop_Complete_def, auto simp: watched_loop_def unseen_def)
qed

lemma completeAfterExecutionError_w:
  "completeAfterExecutionError (watched_loop l) ctx tk what err (w, t) =
   (completeAfterExecutionError l ctx tk what err w,
    t @ [EvComplete (task_ID tk) (cl_workerID l) (deterministicStatusForErrorCode (lifecycleErrorCode err))])"
  by (simp add: completeAfterExecutionError_def classifyLifecycleExecutionFailure_def Let_def Loop_Complete_w split: prod.split)

lemma runFollowStage_w:
  "runFollowStage (watched_loop l) (watched_execution ex) ctx i (w, t) =
   (case runFollowStage l ex ctx i w of (r, w1) \<Rightarrow> (r, (w1, t @ [follow_event r])))"
proof -
  obtain oc d e w1 where r: "le_RunFollowFlow ex ctx i w = ((oc, d, e), w1)" by (metis prod.collapse)
  then have "le_RunFollowFlow (watched_execution ex) ctx i (w, t) = ((oc, d, e), (w1, t @ [follow_event (oc, d, e)]))"
    by (simp add: watched_execution_def watched_def)
  then show ?thesis using r
    by (cases e) (simp_all add: runFollowStage_def follow_event_def followErrorRequiresBootstrap_def)
qed

lemma runVerifyStage_w:
  "runVerifyStage (watched_loop l) (watched_execution ex) ctx i (w, t) =
   (case runVerifyStage l ex ctx i w of ((v, err), w1) \<Rightarrow>
      ((v, err), (w1, t @ [EvVerify (verificationRequestsBootstrap v err) (err = None \<and> fvr_Verified v)])))"
proof -
  obtain r w1 where r: "le_VerifyFollowResult ex ctx i w = (r, w1)" by (cases "le_VerifyFollowResult ex ctx i w")
  then have "le_VerifyFollowResult (watched_execution ex) ctx i (w, t) = (r, (w1, t @ [verify_event r]))"
    by (simp add: watched_execution_def watched_def)
  then show ?thesis using r
    by (cases r) (simp_all add: runVerifyStage_def verify_event_def verificationRequestsBootstrap_def no_verification_def)
qed

lemma resolveAuth_w:
  "resolveAuthBootstrapForPreparedTask (watched_execution ex) ctx tk p (w, t) =
   (case resolveAuthBootstrapForPreparedTask ex ctx tk p w of (r, w1) \<Rightarrow> (r, (w1, t @ [EvResolve (\<exists>q. r = Inr q)])))"
proof -
  let ?p = "p\<lparr>pc_BootstrapRequired := True, pc_ReadyForFollowFlow := False,
              pc_BootstrapReason := ErrorCodeAuthBootstrapRequired, pc_BootstrapSource := ErrorCodeAuthBootstrapRequired\<rparr>"
  obtain r w1 where r: "le_ResolveBootstrap ex ctx tk ?p w = (r, w1)" by (cases "le_ResolveBootstrap ex ctx tk ?p w")
  then have "le_ResolveBootstrap (watched_execution ex) ctx tk ?p (w, t) = (r, (w1, t @ [EvResolve (ready_result r)]))"
    by (simp add: watched_execution_def watched_def)
  then show ?thesis using r
    by (cases r) (simp_all add: resolveAuthBootstrapForPreparedTask_def ready_result_def)
qed

text \<open>
  The watched run of a stage is the run of the stage, and the events it adds take the automaton from where
  the stage starts to where its result says.
\<close>

definition follow_phase :: "attempt_state \<Rightarrow> phase" where
  "follow_phase a = PFollowed (at_recovered a) (at_followErr a = None \<and> followOutcomeIsSuccess (at_outcome a))"

lemma follow_stage_w:
  assumes "follow_stage l ex ctx tk ectx p w = (r, w')"
  shows "\<exists>es. follow_stage (watched_loop l) (watched_execution ex) ctx tk ectx p (w, t) = (r, (w', t @ es)) \<and>
    protocol_run (PReady False) es = Some (case r of Inl e \<Rightarrow> PFailed | Inr a \<Rightarrow> follow_phase a)"
proof -
  obtain oc d e w1 where f: "runFollowStage l ex ctx (follow_input tk ectx p) w = ((oc, d, e), w1)" by (metis prod.collapse)
  obtain q w2 where q: "resolveAuthBootstrapForPreparedTask ex ctx tk p w1 = (q, w2)"
    by (cases "resolveAuthBootstrapForPreparedTask ex ctx tk p w1")
  show ?thesis
  proof (cases "followErrorRequiresBootstrap e")
    case False
    then have "r = Inr \<lparr>at_prepared = p, at_outcome = oc, at_diagnostics = d, at_followErr = e, at_recovered = False\<rparr>" "w' = w1"
      using assms f by (simp_all add: follow_stage_def)
    then show ?thesis using False f
      by (intro exI [of _ "[follow_event (oc, d, e)]"])
        (simp add: follow_stage_def runFollowStage_w follow_event_def follow_phase_def)
  next
    case True
    note login = True
    show ?thesis
    proof (cases q)
      case (Inl err)
      then have "r = Inl err" "w' = w2" using assms f q login by (simp_all add: follow_stage_def)
      then show ?thesis using login f q Inl
        by (intro exI [of _ "[follow_event (oc, d, e), EvResolve False]"])
          (simp add: follow_stage_def runFollowStage_w resolveAuth_w follow_event_def)
    next
      case (Inr p')
      obtain oc' d' e' w3 where g: "runFollowStage l ex ctx (follow_input tk ectx p') w2 = ((oc', d', e'), w3)"
        by (metis prod.collapse)
      then have "r = Inr \<lparr>at_prepared = p', at_outcome = oc', at_diagnostics = d', at_followErr = e', at_recovered = True\<rparr>" "w' = w3"
        using assms f q Inr login by (simp_all add: follow_stage_def)
      then show ?thesis using login f q Inr g
        by (intro exI [of _ "[follow_event (oc, d, e), EvResolve True, follow_event (oc', d', e')]"])
          (simp add: follow_stage_def runFollowStage_w resolveAuth_w follow_event_def follow_phase_def)
    qed
  qed
qed

definition verify_phase :: "attempt_state \<times> follow_flow_outcome \<times> follow_verification_result \<times> go_error option \<Rightarrow> phase" where
  "verify_phase r = (case r of (a, oc, v, err) \<Rightarrow>
     PVerified (at_followErr a = None \<and> followOutcomeIsSuccess (at_outcome a) \<and> err = None \<and> fvr_Verified v))"

lemma verify_stage_w:
  assumes "verify_stage l ex ctx tk ectx a w = (r, w')"
  shows "\<exists>es. verify_stage (watched_loop l) (watched_execution ex) ctx tk ectx a (w, t) = (r, (w', t @ es)) \<and>
    protocol_run (follow_phase a) es = Some (case r of Inl e \<Rightarrow> PFailed | Inr x \<Rightarrow> verify_phase x) \<and>
    (\<forall>a' oc v err. r = Inr (a', oc, v, err) \<longrightarrow> oc = normalizeFollowOutcome (at_outcome a') (at_followErr a'))"
proof -
  let ?oc = "normalizeFollowOutcome (at_outcome a) (at_followErr a)"
  let ?w0 = "recordExecutionOutcomeMetric l ?oc w"
  obtain v err w1 where f: "runVerifyStage l ex ctx (verify_input tk ectx (at_prepared a) ?oc) ?w0 = ((v, err), w1)"
    by (metis prod.collapse)
  let ?ev = "EvVerify (verificationRequestsBootstrap v err) (err = None \<and> fvr_Verified v)"
  obtain q w2 where q: "resolveAuthBootstrapForPreparedTask ex ctx tk (at_prepared a) w1 = (q, w2)"
    by (cases "resolveAuthBootstrapForPreparedTask ex ctx tk (at_prepared a) w1")
  show ?thesis
  proof (cases "\<not> at_recovered a \<and> verificationRequestsBootstrap v err")
    case False
    then have "r = Inr (a, ?oc, v, err)" "w' = w1" using assms f by (auto simp: verify_stage_def Let_def)
    then show ?thesis using False f
      by (intro exI [of _ "[?ev]"]) (auto simp: verify_stage_def runVerifyStage_w verify_phase_def follow_phase_def Let_def)
  next
    case True
    note login = True
    show ?thesis
    proof (cases q)
      case (Inl e)
      then have "r = Inl e" "w' = w2" using assms f q login by (simp_all add: verify_stage_def Let_def)
      then show ?thesis using login f q Inl
        by (intro exI [of _ "[?ev, EvResolve False]"])
          (simp add: verify_stage_def runVerifyStage_w resolveAuth_w follow_phase_def Let_def)
    next
      case (Inr p')
      obtain oc' d' e' w3 where g: "runFollowStage l ex ctx (follow_input tk ectx p') w2 = ((oc', d', e'), w3)"
        by (metis prod.collapse)
      let ?oc' = "normalizeFollowOutcome oc' e'"
      obtain v' err' w5 where h: "runVerifyStage l ex ctx (verify_input tk ectx p' ?oc') (recordExecutionOutcomeMetric l ?oc' w3) =
          ((v', err'), w5)" by (metis prod.collapse)
      have "r = Inr (\<lparr>at_prepared = p', at_outcome = oc', at_diagnostics = d', at_followErr = e', at_recovered = at_recovered a\<rparr>,
          ?oc', v', err')" "w' = w5"
        using assms f q Inr login g h by (simp_all add: verify_stage_def Let_def)
      then show ?thesis using login f q Inr g h
        by (intro exI [of _ "[?ev, EvResolve True, follow_event (oc', d', e'),
              EvVerify (verificationRequestsBootstrap v' err') (err' = None \<and> fvr_Verified v')]"])
          (auto simp: verify_stage_def runVerifyStage_w runFollowStage_w resolveAuth_w follow_event_def follow_phase_def
             verify_phase_def Let_def)
    qed
  qed
qed

lemma normalized_success:
  "followOutcomeIsSuccess (normalizeFollowOutcome oc None) \<longleftrightarrow> followOutcomeIsSuccess oc"
  by (cases oc) (auto simp: normalizeFollowOutcome_def followOutcomeIsSuccess_def)

lemma classifyFinalization_status: "fst (classifyFinalizationError e) \<in> {TaskStatusFail, TaskStatusRetry}"
  using deterministic_status deterministic_save_status
  by (simp add: classifyFinalizationError_def Let_def)

lemma finalize_stage_w:
  assumes "oc = normalizeFollowOutcome (at_outcome a) (at_followErr a)"
  shows "\<exists>es. finalize_stage (watched_loop l) (watched_execution ex) ctx tk a oc v err (w, t) =
      (finalize_stage l ex ctx tk a oc v err w, t @ es) \<and>
    protocol_run (verify_phase (a, oc, v, err)) es = Some PCompleted \<and>
    (\<exists>ok st. es = [EvFinalize ok, EvComplete (task_ID tk) (cl_workerID l) st])"
proof -
  define v1 where "v1 = (case err of Some e \<Rightarrow> verificationFromError e | None \<Rightarrow> v)"
  let ?i = "finalize_input tk (at_prepared a) oc (at_diagnostics a) v1"
  obtain r w1 where r: "le_Finalize ex ctx ?i w = (r, w1)" by (cases "le_Finalize ex ctx ?i w")
  then have rw: "le_Finalize (watched_execution ex) ctx ?i (w, t) = (r, (w1, t @ [EvFinalize (\<not> isl r)]))"
    by (simp add: watched_execution_def watched_def)
  show ?thesis
  proof (cases r)
    case (Inl fe)
    obtain st code reason where c: "classifyFinalizationError fe = (st, code, reason)" by (metis prod.collapse)
    have st: "st \<in> {TaskStatusFail, TaskStatusRetry}" using classifyFinalization_status [of fe] c by simp
    show ?thesis
      using st by (intro exI [of _ "[EvFinalize False, EvComplete (task_ID tk) (cl_workerID l) st]"])
        (auto simp: finalize_stage_def v1_def [symmetric] r rw Inl c Loop_Complete_w verify_phase_def split: prod.split)
  next
    case (Inr stored)
    obtain st code reason where c: "classifyFollowCompletionResult oc (at_followErr a) v1 err = (st, code, reason)"
      by (metis prod.collapse)
    have "fst (classifyFollowCompletionResult oc (at_followErr a) v1 err) = TaskStatusSuccess \<longleftrightarrow>
        at_followErr a = None \<and> followOutcomeIsSuccess (at_outcome a) \<and> err = None \<and> fvr_Verified v"
      unfolding classifyFollowCompletionResult_status(1) assms v1_def
      by (cases "at_followErr a"; cases err) (simp_all add: normalized_success, auto)
    then have st: "if at_followErr a = None \<and> followOutcomeIsSuccess (at_outcome a) \<and> err = None \<and> fvr_Verified v
        then st = TaskStatusSuccess else st \<in> {TaskStatusFail, TaskStatusRetry}"
      using classifyFollowCompletionResult_status(2) [of oc "at_followErr a" v1 err] c by auto
    then show ?thesis
      by (intro exI [of _ "[EvFinalize True, EvComplete (task_ID tk) (cl_workerID l) st]"])
        (auto simp: finalize_stage_def v1_def [symmetric] r rw Inr c Loop_Complete_w verify_phase_def split: prod.split)
  qed
qed


lemma execute_prepared_w:
  "\<exists>es. execute_prepared (watched_loop l) (watched_execution ex) ctx tk ectx p (w, t) =
      (execute_prepared l ex ctx tk ectx p w, t @ es) \<and>
    protocol_run PPrepared es = Some PCompleted \<and>
    (\<exists>mid st. es = mid @ [EvComplete (task_ID tk) (cl_workerID l) st])"
proof -
  have failed: "protocol_step PFailed (EvComplete i who (deterministicStatusForErrorCode c)) = Some PCompleted" for i who c
    using deterministic_status [of c] by auto
  obtain q w1 where q: "le_ResolveBootstrap ex ctx tk p w = (q, w1)" by (cases "le_ResolveBootstrap ex ctx tk p w")
  then have qw: "le_ResolveBootstrap (watched_execution ex) ctx tk p (w, t) = (q, (w1, t @ [EvResolve (ready_result q)]))"
    by (simp add: watched_execution_def watched_def)
  show ?thesis
  proof (cases q)
    case (Inl err)
    then show ?thesis using failed
      by (intro exI [of _ "[EvResolve False, EvComplete (task_ID tk) (cl_workerID l)
            (deterministicStatusForErrorCode (lifecycleErrorCode err))]"])
        (simp add: execute_prepared_def q qw ready_result_def completeAfterExecutionError_w del: protocol_step.simps(7))
  next
    case (Inr p1)
    show ?thesis
    proof (cases "pc_ReadyForFollowFlow p1")
      case False
      let ?err = "NewDomainError ErrorCodeInternal ''prepared execution context is not ready for follow flow''"
      show ?thesis using failed False
        by (intro exI [of _ "[EvResolve False, EvComplete (task_ID tk) (cl_workerID l)
              (deterministicStatusForErrorCode (lifecycleErrorCode ?err))]"])
          (simp add: execute_prepared_def q qw Inr ready_result_def completeAfterExecutionError_w del: protocol_step.simps(7))
    next
      case True
      obtain r2 w2 where f: "follow_stage l ex ctx tk ectx p1 w1 = (r2, w2)" by (cases "follow_stage l ex ctx tk ectx p1 w1")
      obtain es2 where fw: "follow_stage (watched_loop l) (watched_execution ex) ctx tk ectx p1 (w1, t @ [EvResolve True]) =
            (r2, (w2, (t @ [EvResolve True]) @ es2))"
          "protocol_run (PReady False) es2 = Some (case r2 of Inl e \<Rightarrow> PFailed | Inr a \<Rightarrow> follow_phase a)"
        using follow_stage_w [OF f] by blast
      have start: "protocol_run PPrepared (EvResolve True # es) = protocol_run (PReady False) es" for es by simp
      show ?thesis
      proof (cases r2)
        case (Inl err)
        let ?ev = "EvComplete (task_ID tk) (cl_workerID l) (deterministicStatusForErrorCode (lifecycleErrorCode err))"
        show ?thesis
          using failed fw True
          by (intro exI [of _ "EvResolve True # es2 @ [?ev]"])
            (simp add: execute_prepared_def q qw Inr ready_result_def f Inl completeAfterExecutionError_w
               protocol_run_append del: protocol_step.simps(7))
      next
        case (Inr a)
        obtain r3 w3 where v: "verify_stage l ex ctx tk ectx a w2 = (r3, w3)" by (cases "verify_stage l ex ctx tk ectx a w2")
        obtain es3 where vw: "verify_stage (watched_loop l) (watched_execution ex) ctx tk ectx a (w2, (t @ [EvResolve True]) @ es2) =
              (r3, (w3, ((t @ [EvResolve True]) @ es2) @ es3))"
            "protocol_run (follow_phase a) es3 = Some (case r3 of Inl e \<Rightarrow> PFailed | Inr x \<Rightarrow> verify_phase x)"
            "\<forall>a' oc v err. r3 = Inr (a', oc, v, err) \<longrightarrow> oc = normalizeFollowOutcome (at_outcome a') (at_followErr a')"
          using verify_stage_w [OF v] by blast
        show ?thesis
        proof (cases r3)
          case (Inl err)
          let ?ev = "EvComplete (task_ID tk) (cl_workerID l) (deterministicStatusForErrorCode (lifecycleErrorCode err))"
          show ?thesis
            using failed fw vw(1,2) True
            by (intro exI [of _ "EvResolve True # es2 @ es3 @ [?ev]"])
              (simp add: execute_prepared_def q qw \<open>q = Inr p1\<close> \<open>r2 = Inr a\<close> ready_result_def f v Inl
                 completeAfterExecutionError_w protocol_run_append del: protocol_step.simps(7))
        next
          case (Inr x)
          obtain a' oc vf err where x: "x = (a', oc, vf, err)" by (metis prod.collapse)
          have fin: "oc = normalizeFollowOutcome (at_outcome a') (at_followErr a')" using vw(3) Inr x by blast
          obtain es4 ok st where z: "finalize_stage (watched_loop l) (watched_execution ex) ctx tk a' oc vf err
                (w3, ((t @ [EvResolve True]) @ es2) @ es3) =
                (finalize_stage l ex ctx tk a' oc vf err w3, (((t @ [EvResolve True]) @ es2) @ es3) @ es4)"
              "protocol_run (verify_phase (a', oc, vf, err)) es4 = Some PCompleted"
              "es4 = [EvFinalize ok, EvComplete (task_ID tk) (cl_workerID l) st]"
            using finalize_stage_w [OF fin, where l = l and ex = ex and ctx = ctx and tk = tk and v = vf and err = err and w = w3
                and t = "((t @ [EvResolve True]) @ es2) @ es3"] by blast
          show ?thesis
            using fw vw(1,2) True z(1,2)
            by (intro exI [of _ "EvResolve True # es2 @ es3 @ es4"])
              (simp add: execute_prepared_def q qw \<open>q = Inr p1\<close> \<open>r2 = Inr a\<close> ready_result_def f v Inr x
                 protocol_run_append, simp add: z(3))
        qed
      qed
    qed
  qed
qed

text \<open>What an execution that follows the automaton has done when it is in a phase.\<close>

abbreviation n_of :: "(loop_event \<Rightarrow> bool) \<Rightarrow> loop_event list \<Rightarrow> nat" where
  "n_of P es \<equiv> length (filter P es)"

fun is_resolve :: "loop_event \<Rightarrow> bool" where
  "is_resolve (EvResolve r) = True" | "is_resolve e = False"
fun is_follow :: "loop_event \<Rightarrow> bool" where
  "is_follow (EvFollow b g) = True" | "is_follow e = False"
fun is_verify :: "loop_event \<Rightarrow> bool" where
  "is_verify (EvVerify b g) = True" | "is_verify e = False"
fun is_complete :: "loop_event \<Rightarrow> bool" where
  "is_complete (EvComplete i b st) = True" | "is_complete e = False"
fun is_success :: "loop_event \<Rightarrow> bool" where
  "is_success (EvComplete i b st) = (st = TaskStatusSuccess)" | "is_success e = False"

definition followed_well :: "loop_event list \<Rightarrow> bool" where
  "followed_well es \<longleftrightarrow> (\<exists>b. EvFollow b True \<in> set es)"

definition verified_well :: "loop_event list \<Rightarrow> bool" where
  "verified_well es \<longleftrightarrow> (\<exists>b. EvVerify b True \<in> set es)"

definition stored_well :: "loop_event list \<Rightarrow> bool" where
  "stored_well es \<longleftrightarrow> followed_well es \<and> verified_well es \<and> EvFinalize True \<in> set es"

fun phase_inv :: "loop_event list \<Rightarrow> phase \<Rightarrow> bool" where
  "phase_inv es PStart = (es = [])"
| "phase_inv es PPrepared = (n_of is_resolve es = 0 \<and> n_of is_follow es = 0 \<and> n_of is_verify es = 0 \<and> n_of is_complete es = 0)"
| "phase_inv es (PReady used) = (n_of is_resolve es = (if used then 2 else 1) \<and> n_of is_follow es = (if used then 1 else 0) \<and>
     n_of is_verify es \<le> (if used then 1 else 0) \<and> n_of is_complete es = 0)"
| "phase_inv es PLogin = (n_of is_resolve es = 1 \<and> n_of is_follow es = 1 \<and> n_of is_verify es \<le> 1 \<and> n_of is_complete es = 0)"
| "phase_inv es (PFollowed used good) = (n_of is_resolve es \<le> 2 \<and> n_of is_follow es \<le> 2 \<and>
     n_of is_verify es \<le> 1 \<and> n_of is_complete es = 0 \<and> (good \<longrightarrow> followed_well es) \<and>
     (\<not> used \<longrightarrow> n_of is_resolve es = 1 \<and> n_of is_follow es = 1 \<and> n_of is_verify es = 0))"
| "phase_inv es (PVerified good) = (n_of is_resolve es \<le> 2 \<and> n_of is_follow es \<le> 2 \<and> n_of is_verify es \<le> 2 \<and>
     n_of is_complete es = 0 \<and> (good \<longrightarrow> followed_well es \<and> verified_well es))"
| "phase_inv es PFailed = (n_of is_resolve es \<le> 2 \<and> n_of is_follow es \<le> 2 \<and> n_of is_verify es \<le> 2 \<and> n_of is_complete es = 0)"
| "phase_inv es (PFinalized good) = (n_of is_resolve es \<le> 2 \<and> n_of is_follow es \<le> 2 \<and> n_of is_verify es \<le> 2 \<and>
     n_of is_complete es = 0 \<and> (good \<longrightarrow> stored_well es))"
| "phase_inv es PCompleted = (n_of is_resolve es \<le> 2 \<and> n_of is_follow es \<le> 2 \<and> n_of is_verify es \<le> 2 \<and>
     n_of is_complete es = 1 \<and> (list_ex is_success es \<longrightarrow> stored_well es))"
| "phase_inv es PReleased = (n_of is_resolve es \<le> 2 \<and> n_of is_follow es \<le> 2 \<and> n_of is_verify es \<le> 2 \<and>
     n_of is_complete es = 1 \<and> (list_ex is_success es \<longrightarrow> stored_well es))"
| "phase_inv es PStopped = (es = [EvPrepare False])"

lemma well_append:
  "followed_well es \<Longrightarrow> followed_well (es @ fs)" "verified_well es \<Longrightarrow> verified_well (es @ fs)"
  "stored_well es \<Longrightarrow> stored_well (es @ fs)"
  by (auto simp: followed_well_def verified_well_def stored_well_def)

lemma no_complete_no_success: "n_of is_complete es = 0 \<Longrightarrow> \<not> list_ex is_success es"
proof -
  have "is_success e \<Longrightarrow> is_complete e" for e by (cases e) auto
  then show "n_of is_complete es = 0 \<Longrightarrow> \<not> list_ex is_success es" by (auto simp: filter_empty_conv list_ex_iff)
qed

lemma phase_inv_step: "phase_inv es p \<Longrightarrow> protocol_step p e = Some q \<Longrightarrow> phase_inv (es @ [e]) q"
  using no_complete_no_success [of es]
  by (induction p e rule: protocol_step.induct)
    (auto simp: well_append split: if_splits, auto simp: followed_well_def verified_well_def stored_well_def)

lemma phase_inv_run: "phase_inv es p \<Longrightarrow> protocol_run p fs = Some q \<Longrightarrow> phase_inv (es @ fs) q"
proof (induction fs arbitrary: es p)
  case (Cons f fs)
  then obtain p1 where p1: "protocol_step p f = Some p1" "protocol_run p1 fs = Some q" by (auto split: option.splits)
  have "phase_inv ((es @ [f]) @ fs) q" by (rule Cons.IH [OF phase_inv_step [OF Cons.prems(1) p1(1)] p1(2)])
  then show ?case by simp
qed simp


text \<open>
  An invariant that the calls of an execution keep holds when it asks for the completion, and what it asks
  for is a completion a running task may take.
\<close>

definition loop_keeps :: "'w claim_loop \<Rightarrow> 'w loop_execution \<Rightarrow> ('w \<Rightarrow> bool) \<Rightarrow> bool" where
  "loop_keeps l ex J \<longleftrightarrow>
     (\<forall>w. J w \<longrightarrow>
       (\<forall>ctx tk p. J (snd (le_ResolveBootstrap ex ctx tk p w))) \<and> (\<forall>ctx i. J (snd (le_RunFollowFlow ex ctx i w))) \<and>
       (\<forall>ctx i. J (snd (le_VerifyFollowResult ex ctx i w))) \<and> (\<forall>ctx i. J (snd (le_Finalize ex ctx i w))) \<and>
       (\<forall>st c. J (recordErrorMetric l st c w)) \<and> (\<forall>oc. J (recordExecutionOutcomeMetric l oc w)))"

definition valid_completion :: "task_status \<times> error_code \<times> string \<Rightarrow> bool" where
  "valid_completion c = (case c of (st, code, reason) \<Rightarrow> ValidateTaskCompletion TaskStatusRunning st code reason = None)"

lemma classifiers_valid:
  "valid_completion (classifyFollowCompletionResult oc fe v ve)" "valid_completion (classifyFinalizationError e)"
  "valid_completion (st, code, execution_failure_reason what st code) \<longleftrightarrow> st \<in> {TaskStatusSuccess, TaskStatusFail, TaskStatusRetry}"
proof -
  show "valid_completion (classifyFollowCompletionResult oc fe v ve)"
    using classifyFollowCompletionResult_status(2) [of oc fe v ve]
    by (auto simp: valid_completion_def success_valid intro: completion_valid split: prod.splits)
  show "valid_completion (classifyFinalizationError e)"
    using deterministic_status deterministic_save_status reason_has_paren
    by (auto simp: valid_completion_def classifyFinalizationError_def Let_def intro!: completion_valid)
  show "valid_completion (st, code, execution_failure_reason what st code) \<longleftrightarrow> st \<in> {TaskStatusSuccess, TaskStatusFail, TaskStatusRetry}"
    using reason_has_paren completion_valid [of st "execution_failure_reason what st code" code] success_valid
    by (auto simp: valid_completion_def execution_failure_reason_def Let_def ValidateTaskCompletion_None)
qed

lemma loop_keepsD:
  assumes "loop_keeps l ex J" "J w"
  shows "le_ResolveBootstrap ex ctx tk p w = (r1, w') \<Longrightarrow> J w'" "le_RunFollowFlow ex ctx fi w = (r2, w') \<Longrightarrow> J w'"
    "le_VerifyFollowResult ex ctx vi w = (r3, w') \<Longrightarrow> J w'" "le_Finalize ex ctx i w = (r4, w') \<Longrightarrow> J w'"
    "J (recordErrorMetric l st c w)" "J (recordExecutionOutcomeMetric l oc w)"
  using assms unfolding loop_keeps_def by (metis snd_conv)+

lemma runFollowStage_keeps:
  assumes "loop_keeps l ex J" "J w" "runFollowStage l ex ctx fi w = (r, w')"
  shows "J w'"
proof -
  obtain oc d e w1 where f: "le_RunFollowFlow ex ctx fi w = ((oc, d, e), w1)" by (metis prod.collapse)
  have "w' = w1 \<or> (\<exists>st c. w' = recordErrorMetric l st c w1)"
    using assms(3) f by (auto simp: runFollowStage_def split: option.splits if_splits)
  then show ?thesis using loop_keepsD(2) [OF assms(1,2) f] loop_keepsD(5) [OF assms(1)] by blast
qed

lemma runVerifyStage_keeps:
  assumes "loop_keeps l ex J" "J w" "runVerifyStage l ex ctx vi w = (r, w')"
  shows "J w'"
proof -
  obtain v w1 where f: "le_VerifyFollowResult ex ctx vi w = (v, w1)" by (cases "le_VerifyFollowResult ex ctx vi w")
  have "w' = w1 \<or> (\<exists>st c. w' = recordErrorMetric l st c w1)"
    using assms(3) f by (auto simp: runVerifyStage_def split: sum.splits if_splits)
  then show ?thesis using loop_keepsD(3) [OF assms(1,2) f] loop_keepsD(5) [OF assms(1)] by blast
qed

lemma resolveAuth_keeps:
  assumes "loop_keeps l ex J" "J w" "resolveAuthBootstrapForPreparedTask ex ctx tk p w = (r, w')"
  shows "J w'"
proof -
  have "\<exists>p' q. le_ResolveBootstrap ex ctx tk p' w = (q, w')"
    using assms(3) by (auto simp: resolveAuthBootstrapForPreparedTask_def split: prod.splits sum.splits if_splits)
  then show ?thesis using loop_keepsD(1) [OF assms(1,2)] by blast
qed

lemma follow_stage_keeps:
  assumes "loop_keeps l ex J" "J w" "follow_stage l ex ctx tk ectx p w = (r, w')"
  shows "J w'"
proof -
  obtain oc d e w1 where f: "runFollowStage l ex ctx (follow_input tk ectx p) w = ((oc, d, e), w1)" by (metis prod.collapse)
  obtain q w2 where q: "resolveAuthBootstrapForPreparedTask ex ctx tk p w1 = (q, w2)"
    by (cases "resolveAuthBootstrapForPreparedTask ex ctx tk p w1")
  note J1 = runFollowStage_keeps [OF assms(1,2) f]
  note J2 = resolveAuth_keeps [OF assms(1) J1 q]
  have "w' = w1 \<or> w' = w2 \<or> (\<exists>fi r. runFollowStage l ex ctx fi w2 = (r, w'))"
    using assms(3) f q by (cases q) (auto simp: follow_stage_def split: if_splits prod.splits)
  then show ?thesis using J1 J2 runFollowStage_keeps [OF assms(1) J2] by blast
qed

lemma verify_stage_keeps:
  assumes "loop_keeps l ex J" "J w" "verify_stage l ex ctx tk ectx a w = (r, w')"
  shows "J w'"
proof -
  let ?oc = "normalizeFollowOutcome (at_outcome a) (at_followErr a)"
  let ?w0 = "recordExecutionOutcomeMetric l ?oc w"
  have J0: "J ?w0" by (rule loop_keepsD(6) [OF assms(1,2)])
  obtain v err w1 where f: "runVerifyStage l ex ctx (verify_input tk ectx (at_prepared a) ?oc) ?w0 = ((v, err), w1)"
    by (metis prod.collapse)
  obtain q w2 where q: "resolveAuthBootstrapForPreparedTask ex ctx tk (at_prepared a) w1 = (q, w2)"
    by (cases "resolveAuthBootstrapForPreparedTask ex ctx tk (at_prepared a) w1")
  note J1 = runVerifyStage_keeps [OF assms(1) J0 f]
  note J2 = resolveAuth_keeps [OF assms(1) J1 q]
  have "w' = w1 \<or> w' = w2 \<or> (\<exists>fi rf w3 oc vi rv. runFollowStage l ex ctx fi w2 = (rf, w3) \<and>
      runVerifyStage l ex ctx vi (recordExecutionOutcomeMetric l oc w3) = (rv, w'))"
    using assms(3) f q by (cases q) (auto simp: verify_stage_def Let_def split: if_splits prod.splits)
  then show ?thesis using J1 J2 runFollowStage_keeps [OF assms(1) J2] loop_keepsD(6) [OF assms(1)]
      runVerifyStage_keeps [OF assms(1)] by blast
qed

definition completes :: "'w claim_loop \<Rightarrow> go_context \<Rightarrow> task \<Rightarrow> ('w \<Rightarrow> bool) \<Rightarrow> 'w \<Rightarrow> bool" where
  "completes l ctx tk J w' \<longleftrightarrow>
     (\<exists>w st code reason. J w \<and> valid_completion (st, code, reason) \<and>
        w' = snd (Loop_Complete l ctx (task_ID tk) st code reason w))"

lemma error_completes: "J w \<Longrightarrow> completes l ctx tk J (completeAfterExecutionError l ctx tk what err w)"
  unfolding completes_def completeAfterExecutionError_def classifyLifecycleExecutionFailure_def Let_def prod.case
  using classifiers_valid(3) deterministic_status [of "lifecycleErrorCode err"] by blast

lemma finalize_completes:
  assumes "loop_keeps l ex J" "J w"
  shows "completes l ctx tk J (finalize_stage l ex ctx tk a oc v err w)"
proof -
  let ?v = "case err of Some e \<Rightarrow> verificationFromError e | None \<Rightarrow> v"
  obtain r w1 where r: "le_Finalize ex ctx (finalize_input tk (at_prepared a) oc (at_diagnostics a) ?v) w = (r, w1)"
    by (cases "le_Finalize ex ctx (finalize_input tk (at_prepared a) oc (at_diagnostics a) ?v) w")
  note J1 = loop_keepsD(4) [OF assms r]
  show ?thesis
  proof (cases r)
    case (Inl fe)
    obtain st code reason where c: "classifyFinalizationError fe = (st, code, reason)" by (metis prod.collapse)
    have "finalize_stage l ex ctx tk a oc v err w = snd (Loop_Complete l ctx (task_ID tk) st code reason
        (recordErrorMetric l ''follow.finalize'' (lifecycleErrorCode fe) w1))"
      using r Inl c by (simp add: finalize_stage_def Let_def)
    then show ?thesis
      using classifiers_valid(2) [of fe] c loop_keepsD(5) [OF assms(1) J1] by (auto simp: completes_def)
  next
    case (Inr x)
    obtain st code reason where c: "classifyFollowCompletionResult oc (at_followErr a) ?v err = (st, code, reason)"
      by (metis prod.collapse)
    have "finalize_stage l ex ctx tk a oc v err w = snd (Loop_Complete l ctx (task_ID tk) st code reason w1)"
      using r Inr c by (simp add: finalize_stage_def Let_def)
    then show ?thesis
      using classifiers_valid(1) [of oc "at_followErr a" ?v err] c J1 by (auto simp: completes_def)
  qed
qed

lemma execute_prepared_completes:
  assumes "loop_keeps l ex J" "J w"
  shows "completes l ctx tk J (execute_prepared l ex ctx tk ectx p w)"
proof -
  obtain q w1 where q: "le_ResolveBootstrap ex ctx tk p w = (q, w1)" by (cases "le_ResolveBootstrap ex ctx tk p w")
  note J1 = loop_keepsD(1) [OF assms q]
  show ?thesis
  proof (cases "\<exists>p1. q = Inr p1 \<and> pc_ReadyForFollowFlow p1")
    case False
    then show ?thesis using q error_completes [of J w1, OF J1]
      by (cases q) (simp_all add: execute_prepared_def)
  next
    case True
    then obtain p1 where p1: "q = Inr p1" "pc_ReadyForFollowFlow p1" by blast
    obtain r2 w2 where f: "follow_stage l ex ctx tk ectx p1 w1 = (r2, w2)" by (cases "follow_stage l ex ctx tk ectx p1 w1")
    note J2 = follow_stage_keeps [OF assms(1) J1 f]
    show ?thesis
    proof (cases r2)
      case (Inl e)
      then show ?thesis using q p1 f error_completes [of J w2, OF J2] by (simp add: execute_prepared_def)
    next
      case (Inr a)
      obtain r3 w3 where v: "verify_stage l ex ctx tk ectx a w2 = (r3, w3)" by (cases "verify_stage l ex ctx tk ectx a w2")
      note J3 = verify_stage_keeps [OF assms(1) J2 v]
      show ?thesis
      proof (cases r3)
        case (Inl e)
        then show ?thesis using q p1 f Inr v error_completes [of J w3, OF J3] by (simp add: execute_prepared_def)
      next
        case r3: (Inr x)
        obtain a' oc vf err where x: "x = (a', oc, vf, err)" by (metis prod.collapse)
        have "execute_prepared l ex ctx tk ectx p w = finalize_stage l ex ctx tk a' oc vf err w3"
          using q p1 f Inr v r3 x by (simp add: execute_prepared_def)
        then show ?thesis using finalize_completes [OF assms(1) J3] by simp
      qed
    qed
  qed
qed


lemma protocol_bounds:
  assumes "protocol_run PStart es = Some q"
  shows "length (filter is_resolve es) \<le> 2 \<and> length (filter is_follow es) \<le> 2 \<and> length (filter is_verify es) \<le> 2 \<and>
    length (filter is_complete es) \<le> 1 \<and>
    (list_ex is_success es \<longrightarrow>
       (\<exists>b. EvFollow b True \<in> set es) \<and> (\<exists>b. EvVerify b True \<in> set es) \<and> EvFinalize True \<in> set es)"
proof -
  have "phase_inv ([] @ es) q" by (rule phase_inv_run [OF _ assms]) simp
  then have inv: "phase_inv es q" by simp
  then show ?thesis using no_complete_no_success [of es]
    by (cases q) (auto simp: stored_well_def followed_well_def verified_well_def split: if_splits)
qed


section \<open>Theorems\<close>

lemma execution_trace:
  assumes "cl_execution l = Some ex" "executeClaimedTask (watched_loop l) ctx tk (w, []) = (w', es)"
  shows "w' = executeClaimedTask l ctx tk w \<and>
    (es = [EvPrepare False] \<or>
     (\<exists>mid st ectx. es = EvPrepare True # mid @ [EvComplete (task_ID tk) (cl_workerID l) st, EvRelease (task_AccountID tk) ectx] \<and>
        protocol_run PStart es = Some PReleased))"
proof -
  obtain r w1 where r: "le_Prepare ex ctx tk w = (r, w1)" by (cases "le_Prepare ex ctx tk w")
  then have rw: "le_Prepare (watched_execution ex) ctx tk (w, []) = (r, (w1, [EvPrepare (\<not> isl r)]))"
    by (simp add: watched_execution_def watched_def)
  show ?thesis
  proof (cases r)
    case (Inl e)
    then show ?thesis using assms r rw by (auto simp: executeClaimedTask_def)
  next
    case (Inr p)
    define ectx where "ectx = (if pc_ExecutionContextID p = '''' then task_ClaimedBy tk else pc_ExecutionContextID p)"
    obtain es1 mid st where x: "execute_prepared (watched_loop l) (watched_execution ex) ctx tk ectx p (w1, [EvPrepare True]) =
          (execute_prepared l ex ctx tk ectx p w1, [EvPrepare True] @ es1)"
        "protocol_run PPrepared es1 = Some PCompleted" "es1 = mid @ [EvComplete (task_ID tk) (cl_workerID l) st]"
      using execute_prepared_w [of l ex ctx tk ectx p w1 "[EvPrepare True]"] by blast
    have rel: "releaseExecutionContext (watched_loop l) (watched_execution ex) ctx tk ectx (v, t) =
        (releaseExecutionContext l ex ctx tk ectx v, t @ [EvRelease (task_AccountID tk) ectx])" for v t
      by (auto simp: releaseExecutionContext_def watched_execution_def watched_def split: prod.splits option.splits)
    have run: "executeClaimedTask l ctx tk w = releaseExecutionContext l ex ctx tk ectx (execute_prepared l ex ctx tk ectx p w1)"
      using assms(1) r Inr by (simp add: executeClaimedTask_def ectx_def Let_def)
    have "executeClaimedTask (watched_loop l) ctx tk (w, []) =
        (executeClaimedTask l ctx tk w, ([EvPrepare True] @ es1) @ [EvRelease (task_AccountID tk) ectx])"
      unfolding run using assms(1) rw Inr x(1) by (simp add: executeClaimedTask_def ectx_def [symmetric] rel)
    then have "w' = executeClaimedTask l ctx tk w" "es = EvPrepare True # es1 @ [EvRelease (task_AccountID tk) ectx]"
      using assms(2) by simp_all
    moreover have "protocol_run PStart (EvPrepare True # es1 @ [EvRelease (task_AccountID tk) ectx]) = Some PReleased"
      using x(2) by (simp add: protocol_run_append)
    ultimately have "w' = executeClaimedTask l ctx tk w \<and>
        (es = EvPrepare True # mid @ [EvComplete (task_ID tk) (cl_workerID l) st, EvRelease (task_AccountID tk) ectx] \<and>
         protocol_run PStart es = Some PReleased)" using x(3) by simp
    then show ?thesis by blast
  qed
qed

text \<open>
  C3.  Executing a claimed task follows the protocol: its calls drive the automaton from the start to the end,
  and watching them changes nothing.  Either the preparation failed and there is no call behind it, or the
  task was completed, once, by this worker, and after that, as the last call, its account was released.
\<close>

theorem execution_follows_protocol:
  assumes "cl_execution l = Some ex" "executeClaimedTask (watched_loop l) ctx tk (w, []) = (w', es)"
  shows "w' = executeClaimedTask l ctx tk w \<and>
    (es = [EvPrepare False] \<or>
     (\<exists>mid st ectx. es = EvPrepare True # mid @ [EvComplete (task_ID tk) (cl_workerID l) st, EvRelease (task_AccountID tk) ectx] \<and>
        protocol_run PStart es = Some PReleased))"
  by (rule execution_trace [OF assms])

text \<open>The methods of the service are those the loop calls.\<close>

definition execution_of_service :: "'w execution_service \<Rightarrow> 'w loop_execution" where
  "execution_of_service s =
     \<lparr>le_Prepare = PrepareClaimedTaskContext s, le_ResolveBootstrap = ResolveBootstrapForClaimedTask s,
      le_RunFollowFlow = Service_RunFollowFlow s, le_VerifyFollowResult = Service_VerifyFollowResult s,
      le_Finalize = FinalizeFollowExecution s, le_Release = ReleaseExecutionContext s\<rparr>"

definition sample_verified :: follow_verification_result where
  "sample_verified =
     \<lparr>fvr_Verified = True, fvr_Signal = FollowVerificationSignalFollowConfirmed, fvr_Reason = ''seen'',
      fvr_ErrorCode = no_error_code, fvr_SessionChanged = False, fvr_ScreenshotPayload = [1], fvr_SessionPayload = []\<rparr>"

definition sample_blobs :: "unit blob_store" where
  "sample_blobs = \<lparr>bs_Save = (\<lambda>ctx acc login payload w. (Inr ''key'', w)), bs_Delete = (\<lambda>ctx key w. (None, w))\<rparr>"

definition sample_service :: "unit execution_service" where
  "sample_service =
     WithScreenshotStore (Some sample_blobs) (WithArtifactStore (Some sample_blobs)
       (WithResultRepository (Some \<lparr>rs_Upsert = (\<lambda>ctx r w. (Inr r, w)), rs_ListHistory = (\<lambda>ctx q w. (Inr [], w))\<rparr>)
       (WithVerifyFlowRunner (Some (\<lambda>ctx i w. (Inr sample_verified, w)))
       (WithFollowFlowRunner (Some (\<lambda>ctx i w. ((FollowFlowOutcomeCompleted, zero_diagnostics, None), w)))
       (NewExecutionService (\<lambda>px. Inr [])
          \<lparr>eg_Acquire = (\<lambda>ctx acc ectx w. (Inr (toAccountWithProxy
              \<lparr>awop_Account = account_of_row sample_account, awop_Proxy = Some sample_proxy\<rparr>), w)),
           eg_Release = (\<lambda>ctx acc ectx w. (None, w))\<rparr>
          (\<lambda>ctx acc w. ((zero_metadata\<lparr>session_Revision := 1\<rparr>, [1], None), w)) None [])))))"

definition sample_loop :: "unit claim_loop" where
  "sample_loop =
     NewClaimLoop
       \<lparr>lt_ClaimNextQueued = (\<lambda>ctx who w. (Inr None, w)),
        lt_Complete = (\<lambda>ctx i who st code reason w. (Inr (task_of_row sample_running), w))\<rparr>
       None None None ''w1'' 0 [execution_of_service sample_service]"

definition sample_trace :: "loop_event list" where
  "sample_trace =
     [EvPrepare True, EvResolve True, EvFollow False True, EvVerify False True, EvFinalize True,
      EvComplete ''t1'' ''w1'' TaskStatusSuccess, EvRelease ''a1'' ''w1'']"

lemma sample_execution:
  "executeClaimedTask (watched_loop sample_loop) Background (task_of_row sample_running) ((), []) = ((), sample_trace)"
  "cl_execution sample_loop = Some (execution_of_service sample_service)"
proof -
  show "executeClaimedTask (watched_loop sample_loop) Background (task_of_row sample_running) ((), []) = ((), sample_trace)"
    by code_simp
  show "cl_execution sample_loop = Some (execution_of_service sample_service)"
    by (simp add: sample_loop_def NewClaimLoop_def)
qed

lemma execution_follows_protocol_witness:
  "executeClaimedTask (watched_loop sample_loop) Background (task_of_row sample_running) ((), []) = ((), sample_trace) \<and>
   protocol_run PStart sample_trace = Some PReleased"
  using execution_follows_protocol [OF sample_execution(2,1)] sample_execution(1) by (simp add: sample_trace_def)

text \<open>
  C25.  Whatever its calls return, the execution of a claimed task asks for at most two logins, runs the follow at most
  twice and verifies it at most twice; it completes the task once when it was prepared and not at all otherwise, and
  calls it a success only when a follow went well, its result was verified and the result was stored.
\<close>

theorem execution_bounds:
  assumes "cl_execution l = Some ex" "executeClaimedTask (watched_loop l) ctx tk (w, []) = (w', es)"
  shows "length (filter is_resolve es) \<le> 2 \<and> length (filter is_follow es) \<le> 2 \<and> length (filter is_verify es) \<le> 2 \<and>
    length (filter is_complete es) = (if EvPrepare True \<in> set es then 1 else 0) \<and>
    (list_ex is_success es \<longrightarrow>
       (\<exists>b. EvFollow b True \<in> set es) \<and> (\<exists>b. EvVerify b True \<in> set es) \<and> EvFinalize True \<in> set es)"
proof -
  consider "es = [EvPrepare False]" | mid st ectx where "protocol_run PStart es = Some PReleased"
    "es = EvPrepare True # mid @ [EvComplete (task_ID tk) (cl_workerID l) st, EvRelease (task_AccountID tk) ectx]"
    using execution_trace [OF assms] by blast
  then show ?thesis
  proof cases
    case 1
    then show ?thesis by simp
  next
    case 2
    from protocol_bounds [OF 2(1)] have "length (filter is_complete es) \<le> 1" by simp
    moreover have "0 < length (filter is_complete es)" "EvPrepare True \<in> set es" by (simp_all add: 2(2))
    ultimately have "length (filter is_complete es) = 1" by linarith
    then show ?thesis using protocol_bounds [OF 2(1)] \<open>EvPrepare True \<in> set es\<close> by simp
  qed
qed

lemma execution_bounds_witness:
  "executeClaimedTask (watched_loop sample_loop) Background (task_of_row sample_running) ((), []) = ((), sample_trace) \<and>
   list_ex is_success sample_trace \<and> length (filter is_complete sample_trace) = 1 \<and> (\<exists>b. EvVerify b True \<in> set sample_trace)"
proof -
  have "EvPrepare True \<in> set sample_trace" "list_ex is_success sample_trace" by (simp_all add: sample_trace_def)
  then show ?thesis using execution_bounds [OF sample_execution(2,1)] sample_execution(1) by simp
qed

end
