(* ===== verification/Worker_System.thy ===== *)
theory Worker_System
  imports Claim_Loop
begin

text \<open>
  The worker put together, \<open>buildRuntimeDependencies\<close> of \<open>internal/app/runtime_dependencies.go\<close>: the claim
  loop over the execution service over the repositories, the guard, the restorer and the stores, all on
  one database and one bucket.

  The browser flows, the object client, the metrics and the encoder of images are parameters; what is
  assumed of them is that they do not write to the tables of the database (\<open>off_tables\<close>).

  The lemmas follow one iteration of the loop over a database whose driver does not fail, and show that
  it leaves no task running and no account held.
\<close>

section \<open>Wiring\<close>

record 'w worker_parts =
  wp_guardrails :: runtime_guardrails
  wp_policy :: session_bootstrap_policy
  wp_client :: "'w object_client"
  wp_bucket :: string
  wp_bootstrap :: "'w bootstrap_runner"
  wp_follow :: "'w follow_runner"
  wp_verify :: "'w verify_runner"
  wp_png :: "rgba list list \<Rightarrow> go_error + bytes"
  wp_health :: "go_context \<Rightarrow> 'w \<Rightarrow> health_status \<times> 'w"
  wp_metrics :: "'w loop_metrics"
  wp_extended :: "'w loop_extended_metrics"
  wp_workerID :: string
  wp_interval :: int

definition task_table :: "'x db_scheme loop_tasks" where
  "task_table =
     \<lparr>lt_ClaimNextQueued = ClaimNextQueued (Some pg_audit_log),
      lt_Complete = Complete (Some pg_audit_log) (\<lambda>k s. s)\<rparr>"

definition result_table :: "'x db_scheme result_store" where
  "result_table =
     \<lparr>rs_Upsert = Result_Upsert (NewResultRepository [pg_audit_log]),
      rs_ListHistory = ListHistory\<rparr>"

definition wired_execution :: "'x storage_scheme worker_parts \<Rightarrow> 'x storage_scheme execution_service" where
  "wired_execution p =
     (let objects = \<lparr>os_client = wp_client p, os_bucket = wp_bucket p\<rparr>;
          guard = pg_guard (wp_guardrails p);
          restorer = NewSessionRestorer (session_table (NewSessionRepository [pg_audit_log])) (session_payload_store objects)
      in WithArtifactStore (Some \<lparr>bs_Save = ArtifactStore_Save objects, bs_Delete = Store_Delete objects\<rparr>)
         (WithScreenshotStore (Some \<lparr>bs_Save = ScreenshotStore_Save objects, bs_Delete = Store_Delete objects\<rparr>)
         (WithResultRepository (Some result_table)
         (WithVerifyFlowRunner (Some (wp_verify p))
         (WithFollowFlowRunner (Some (wp_follow p))
         (WithBootstrapLoginRunner (Some (wp_bootstrap p))
         (WithSessionBootstrapPolicy (wp_policy p)
         (NewExecutionService (wp_png p) \<lparr>eg_Acquire = Guard_Acquire guard, eg_Release = Guard_Release guard\<rparr>
            (Restore restorer) (Some (Restorer_Save restorer)) [lt_Complete task_table]))))))))"

definition wired_loop :: "'x storage_scheme worker_parts \<Rightarrow> 'x storage_scheme claim_loop" where
  "wired_loop p =
     NewClaimLoop task_table (Some (wp_health p)) (Some (wp_metrics p)) (Some (wp_extended p)) (wp_workerID p)
       (wp_interval p) [execution_of_service (wired_execution p)]"


section \<open>Calls that leave the driver quiet\<close>

text \<open>No operation of the repositories makes the driver fail, moves the clock or locks a row for others.\<close>

definition quiet :: "'x db_scheme \<Rightarrow> 'x db_scheme \<Rightarrow> bool" where
  "quiet s s' \<longleftrightarrow> (db_faults s = [] \<longrightarrow> db_faults s' = []) \<and> db_now s' = db_now s \<and> db_locked s' = db_locked s"

lemma quiet_refl [simp]: "quiet s s"
  by (simp add: quiet_def)

lemma quiet_trans: "quiet s t \<Longrightarrow> quiet t u \<Longrightarrow> quiet s u"
  by (simp add: quiet_def)

definition quiet_stmt :: "('a, 'x db_scheme) stmt \<Rightarrow> bool" where
  "quiet_stmt st \<longleftrightarrow> (\<forall>s x s'. st s = Inr (x, s') \<longrightarrow> db_faults s' = db_faults s \<and> db_now s' = db_now s \<and> db_locked s' = db_locked s)"

lemma quiet_pop: "pop_fault s = (f, s') \<Longrightarrow> quiet s s'"
  by (auto simp: pop_fault_def quiet_def split: list.splits)

lemma quiet_uuid: "new_uuid s = (u, s') \<Longrightarrow> quiet s s'"
  by (auto simp: new_uuid_def quiet_def)

lemma quiet_autocommit:
  assumes "quiet_stmt st"
  shows "quiet s (snd (autocommit st s))"
proof -
  obtain f s1 where pf: "pop_fault s = (f, s1)" by (cases "pop_fault s")
  have "st s1 = Inr (x, s2) \<Longrightarrow> quiet s1 s2" for x s2 using assms by (auto simp: quiet_stmt_def quiet_def)
  then show ?thesis using quiet_pop [OF pf] pf quiet_trans [OF quiet_pop [OF pf]]
    by (cases f; cases "st s1") (auto simp: autocommit_def)
qed

lemma quiet_in_tx:
  assumes "quiet_stmt st"
  shows "quiet s (snd (in_tx st s))"
proof -
  obtain f s1 where pf: "pop_fault s = (f, s1)" by (cases "pop_fault s")
  have "st s1 = Inr (x, s2) \<Longrightarrow> quiet s1 s2" for x s2 using assms by (auto simp: quiet_stmt_def quiet_def)
  then show ?thesis using quiet_pop [OF pf] pf quiet_trans [OF quiet_pop [OF pf]]
    by (cases f; cases "st s1") (auto simp: in_tx_def)
qed

lemma quiet_transaction:
  assumes body: "\<And>s. quiet s (snd (body s))"
  shows "quiet s (snd (transaction on_begin on_commit body s))"
proof -
  obtain f s1 where pf: "pop_fault s = (f, s1)" by (cases "pop_fault s")
  obtain rb s2 where b: "body s1 = (rb, s2)" by (cases "body s1")
  obtain f2 s3 where pf2: "pop_fault s2 = (f2, s3)" by (cases "pop_fault s2")
  have 1: "quiet s s1" "quiet s1 s2" "quiet s2 s3"
    using quiet_pop [OF pf] quiet_pop [OF pf2] body [of s1] b by simp_all
  then have 2: "quiet s s3" "quiet s (rollback s1 s2)" "quiet s (rollback s1 s3)"
    by (auto simp: quiet_def rollback_def)
  show ?thesis using pf b pf2 1 2 by (cases f; cases rb; cases f2) (auto simp: transaction_def)
qed

lemma quiet_audit:
  assumes "audit_wired auditLog"
  shows "quiet s (audit_best_effort auditLog ctx ev s)"
proof -
  have "quiet_stmt (insert_audit r)" for r :: audit_record
    by (auto simp: quiet_stmt_def insert_audit_def split: if_splits)
  then have app: "quiet s (snd (Audit_Append ctx r s))" for r and s :: "'a db_scheme"
    using quiet_autocommit [of "insert_audit r" s] by (cases "autocommit (insert_audit r) s")
      (auto simp: Audit_Append_def split: sum.splits)
  have "quiet s (snd (Log_Record pg_audit_log ctx ev s))"
  proof (cases "validateEvent ev")
    case None
    obtain u s1 where u: "new_uuid s = (u, s1)" by (cases "new_uuid s")
    then show ?thesis using None quiet_trans [OF quiet_uuid [OF u] app] by (simp add: Log_Record_def pg_audit_log_def Let_def)
  qed (simp add: Log_Record_def pg_audit_log_def)
  then show ?thesis using assms by (auto simp: audit_wired_def audit_best_effort_def)
qed

lemmas statement_defs = select_task_def claim_next_def complete_stmt_def update_task_def select_account_def
  update_account_def select_session_def upsert_session_def update_session_def upsert_result_def select_result_def

lemma quiet_statements:
  "quiet_stmt (select_task tid)" "quiet_stmt (claim_next w)" "quiet_stmt (complete_stmt tid w st code reason)"
  "quiet_stmt (select_account acc)" "quiet_stmt (\<lambda>s. update_account P (upd (db_now s)) s)"
  "quiet_stmt (select_session acc)" "quiet_stmt (upsert_session m)" "quiet_stmt (\<lambda>s. update_session acc (supd (db_now s)) s)"
  "quiet_stmt (upsert_result fr)"
  by (auto simp: quiet_stmt_def statement_defs Let_def split: option.splits list.splits if_splits)


lemma snd_scans: "snd (scanAccount x) = snd x" "snd (scan_optional_proxy y) = snd y"
  by (auto simp: scanAccount_def scan_optional_proxy_def split: sum.splits prod.splits)

lemma quiet_tasks:
  "quiet s (snd (GetByID ctx tid s))"
  "quiet s (snd (ClaimNextQueued (Some pg_audit_log) ctx w s))"
  "quiet s (snd (Complete (Some pg_audit_log) (\<lambda>k s. s) ctx tid w st code reason s))"
proof -
  have wired: "audit_wired (Some pg_audit_log)" by (simp add: audit_wired_def)
  have get: "quiet s (snd (GetByID ctx tid s))" for s :: "'a db_scheme"
  proof (cases "tid = uuid_Nil")
    case False
    have "quiet s (snd (scanTask (autocommit (select_task tid) s)))"
      unfolding snd_scanTask by (rule quiet_autocommit [OF quiet_statements(1)])
    then show ?thesis using False unfolding GetByID_def by (auto split: prod.splits sum.splits)
  qed (simp add: GetByID_def)
  then show "quiet s (snd (GetByID ctx tid s))" .
  have body: "quiet s (snd (claim_body w s))" for s :: "'a db_scheme"
  proof -
    have "quiet s (snd (scanTask (in_tx (claim_next w) s)))"
      unfolding snd_scanTask by (rule quiet_in_tx [OF quiet_statements(2)])
    then show ?thesis unfolding claim_body_def by (auto split: prod.splits sum.splits)
  qed
  show "quiet s (snd (ClaimNextQueued (Some pg_audit_log) ctx w s))"
  proof (cases "TrimSpace w = ''''")
    case False
    let ?oc = "\<lambda>found e. case found of None \<Rightarrow> e | Some tk \<Rightarrow> with_stack e"
    have "quiet s (snd (transaction with_stack ?oc (claim_body w) s))" by (rule quiet_transaction [OF body])
    then show ?thesis using False quiet_audit [OF wired] quiet_trans unfolding ClaimNextQueued_def recordClaimedAudit_def
      by (auto split: prod.splits sum.splits option.splits) blast
  qed (simp add: ClaimNextQueued_def)
  show "quiet s (snd (Complete (Some pg_audit_log) (\<lambda>k s. s) ctx tid w st code reason s))"
  proof (cases "tid = uuid_Nil \<or> TrimSpace w = ''''")
    case False
    let ?code = "nullableErrorCode (if st = TaskStatusSuccess then no_error_code else code)"
    let ?reason = "nullableString (if st = TaskStatusSuccess then '''' else reason)"
    obtain r s1 where g: "GetByID ctx tid s = (r, s1)" by (cases "GetByID ctx tid s")
    obtain c s2 where c: "scanTask (autocommit (complete_stmt tid w st ?code ?reason) s1) = (c, s2)"
      by (cases "scanTask (autocommit (complete_stmt tid w st ?code ?reason) s1)")
    have 1: "quiet s s1" using get [of s] g by simp
    have "quiet s1 s2" using quiet_autocommit [OF quiet_statements(3) [of tid w st ?code ?reason], of s1] c
      by (simp add: snd_scanTask [symmetric])
    then have 2: "quiet s s2" using 1 quiet_trans by blast
    have 3: "quiet s (snd (GetByID ctx tid s2))" "quiet s (recordCompletedAudit (Some pg_audit_log) ctx tk s2)" for tk
      using 2 get quiet_audit [OF wired] quiet_trans unfolding recordCompletedAudit_def by blast+
    have "snd (Complete (Some pg_audit_log) (\<lambda>k s. s) ctx tid w st code reason s) \<in>
        {s1, s2, snd (GetByID ctx tid s2)} \<union> range (\<lambda>tk. recordCompletedAudit (Some pg_audit_log) ctx tk s2)"
    proof (cases r)
      case (Inl e)
      then show ?thesis using False g by (simp add: Complete_def)
    next
      case (Inr cur)
      show ?thesis
      proof (cases "task_ClaimedBy cur = w \<and> ValidateTaskCompletion (task_Status cur) st code reason = None")
        case owner: True
        obtain l s3 where l: "GetByID ctx tid s2 = (l, s3)" by (cases "GetByID ctx tid s2")
        show ?thesis using False g Inr owner c l
          by (cases c; cases l) (simp_all add: Complete_def Let_def)
      next
        case other: False
        then show ?thesis using False g Inr
          by (cases "ValidateTaskCompletion (task_Status cur) st code reason") (auto simp: Complete_def)
      qed
    qed
    then show ?thesis using 1 2 3 by auto
  qed (auto simp: Complete_def)
qed


text \<open>Calls beside the queue and the accounts: they keep both tables and every constraint.\<close>

definition aside :: "'x db_scheme \<Rightarrow> 'x db_scheme \<Rightarrow> bool" where
  "aside s s' \<longleftrightarrow> quiet s s' \<and>
     (db_ok s \<longrightarrow> db_ok s' \<and> db_tasks s' = db_tasks s \<and> db_accounts s' = db_accounts s)"

lemma aside_refl [simp]: "aside s s"
  by (simp add: aside_def)

lemma aside_trans: "aside s t \<Longrightarrow> aside t u \<Longrightarrow> aside s u"
  unfolding aside_def using quiet_trans by auto

lemma aside_bind:
  "aside s (snd x) \<Longrightarrow> (\<And>r t. x = (r, t) \<Longrightarrow> aside t (snd (f r t))) \<Longrightarrow> aside s (snd (case x of (r, t) \<Rightarrow> f r t))"
  using aside_trans by (cases x) auto

lemma aside_step: "aside s (snd x) \<Longrightarrow> x = (r, t) \<Longrightarrow> aside s t"
  by simp

abbreviation calls_aside :: "('x db_scheme \<Rightarrow> 'r \<times> 'x db_scheme) \<Rightarrow> bool" where
  "calls_aside call \<equiv> (\<forall>s. aside s (snd (call s)))"

lemma aside_sessions:
  assumes "audit_wired (srepo_auditLog repo)"
  shows "aside s (snd (GetByAccountID ctx acc s))" "aside s (snd (Session_Upsert repo ctx m s))"
    "aside s (snd (UpdateStatus repo ctx acc st code s))" "aside s (snd (MarkRestored repo ctx acc s))"
proof -
  have frame: "session_safe s s' \<Longrightarrow> quiet s s' \<Longrightarrow> aside s s'" for s s' :: "'a db_scheme"
    by (auto simp: session_safe_def session_frame_def aside_def)
  have scan: "quiet_stmt st \<Longrightarrow> quiet s (snd (scanSessionMetadata (autocommit st s)))" for st and s :: "'a db_scheme"
    unfolding snd_scanSession by (rule quiet_autocommit)
  note audit = quiet_trans [OF _ quiet_audit [OF assms]]
  have "quiet s (snd (GetByAccountID ctx acc s))"
    using scan [OF quiet_statements(6) [of acc], of s] by (auto simp: GetByAccountID_def split: sum.splits prod.splits)
  moreover have "session_safe s (snd (GetByAccountID ctx acc s))"
  proof -
    have sel: "select_session acc t = Inr (x, t') \<Longrightarrow> session_safe t t'" for t x and t' :: "'a db_scheme"
      by (auto simp: select_session_def split: option.splits)
    obtain r s1 where ac: "autocommit (select_session acc) s = (r, s1)" by (cases "autocommit (select_session acc) s")
    have "session_safe s s1" by (rule autocommit_relation [OF session_safe_relation sel ac])
    moreover have "snd (scanSessionMetadata (autocommit (select_session acc) s)) = s1" by (simp add: snd_scanSession ac)
    ultimately show ?thesis by (auto simp: GetByAccountID_def split: sum.splits prod.splits)
  qed
  ultimately show "aside s (snd (GetByAccountID ctx acc s))" by (rule frame [rotated])
  have "quiet s (snd (Session_Upsert repo ctx m s))"
    using scan [OF quiet_statements(7) [of m], of s] audit
    by (auto simp: Session_Upsert_def split: sum.splits prod.splits option.splits)
  then show "aside s (snd (Session_Upsert repo ctx m s))"
    using Session_Upsert_cases [OF assms prod.collapse [symmetric]] frame by blast
  have "quiet s (snd (UpdateStatus repo ctx acc st code s))"
    using scan [OF quiet_statements(8) [of acc "status_session_row st (nullableErrorCode code)"], of s] audit
    by (auto simp: UpdateStatus_def split: sum.splits prod.splits)
  then show "aside s (snd (UpdateStatus repo ctx acc st code s))"
    using UpdateStatus_cases [OF assms prod.collapse [symmetric]] frame by blast
  have "quiet s (snd (MarkRestored repo ctx acc s))"
    using scan [OF quiet_statements(8) [of acc restored_session_row], of s] audit
    by (auto simp: MarkRestored_def split: sum.splits prod.splits)
  then show "aside s (snd (MarkRestored repo ctx acc s))"
    using MarkRestored_cases [OF assms prod.collapse [symmetric]] frame by blast
qed

lemma aside_result:
  assumes "audit_wired (rrepo_auditLog repo)"
  shows "aside s (snd (Result_Upsert repo ctx fr s))"
proof -
  have "snd (scanFollowResult x) = snd x" for x :: "(go_error + result_row) \<times> 'a db_scheme"
    by (auto simp: scanFollowResult_def split: sum.splits prod.splits)
  then have "quiet s (snd (scanFollowResult (autocommit (upsert_result fr) s)))"
    using quiet_autocommit [OF quiet_statements(9) [of fr], of s] by simp
  then have "quiet s (snd (Result_Upsert repo ctx fr s))" using quiet_trans [OF _ quiet_audit [OF assms]]
    by (auto simp: Result_Upsert_def split: sum.splits prod.splits option.splits)
  then show ?thesis using Result_Upsert_safe [OF assms, of ctx fr s]
    by (cases "Result_Upsert repo ctx fr s") (auto simp: result_safe_def result_frame_def aside_def)
qed

text \<open>What runs outside of the database.\<close>

definition off_tables :: "('x storage_scheme \<Rightarrow> 'r \<times> 'x storage_scheme) \<Rightarrow> bool" where
  "off_tables call \<longleftrightarrow> (\<forall>w. db_part (snd (call w)) = db_part w)"

lemma db_part_aside: "db_part w' = db_part w \<Longrightarrow> aside w w'"
  by (simp add: db_part_def db.defs aside_def quiet_def db_ok_def)

lemma off_tables_aside: "off_tables call \<Longrightarrow> call w = (r, w') \<Longrightarrow> aside w w'"
  unfolding off_tables_def by (metis db_part_aside snd_conv)

definition client_off_tables :: "'x storage_scheme object_client \<Rightarrow> bool" where
  "client_off_tables c \<longleftrightarrow>
     (\<forall>ctx b k p. off_tables (oc_Put c ctx b k p)) \<and> (\<forall>ctx b k. off_tables (oc_Get c ctx b k)) \<and>
     (\<forall>ctx b k. off_tables (oc_Delete c ctx b k))"

lemma aside_stores:
  assumes "client_off_tables c"
  shows "aside w (snd (SessionStore_Save \<lparr>os_client = c, os_bucket = b\<rparr> ctx acc login n p w))"
    "aside w (snd (SessionStore_Load \<lparr>os_client = c, os_bucket = b\<rparr> ctx acc k w))"
    "aside w (snd (Store_Delete \<lparr>os_client = c, os_bucket = b\<rparr> ctx k w))"
    "aside w (snd (ScreenshotStore_Save \<lparr>os_client = c, os_bucket = b\<rparr> ctx acc login p w))"
    "aside w (snd (ArtifactStore_Save \<lparr>os_client = c, os_bucket = b\<rparr> ctx acc login p w))"
proof -
  have put: "oc_Put c ctx b k p w = (r, w') \<Longrightarrow> aside w w'" and get: "oc_Get c ctx b k w = (g, w') \<Longrightarrow> aside w w'"
    and del: "oc_Delete c ctx b k w = (r, w') \<Longrightarrow> aside w w'" for ctx b k p r g w w'
    using assms off_tables_aside [of "oc_Put c ctx b k p" w r w'] off_tables_aside [of "oc_Get c ctx b k" w g w']
      off_tables_aside [of "oc_Delete c ctx b k" w r w'] by (auto simp: client_off_tables_def)
  have stamp: "next_timestamp owner kind w = (t, w') \<Longrightarrow> aside w w'" for owner kind t and w w' :: "'a storage_scheme"
    using next_timestamp_db db_part_aside by blast
  have named: "next_timestamp owner kind w = (t, w1) \<Longrightarrow> oc_Put c ctx b k p w1 = (r, w2) \<Longrightarrow> aside w w2"
    for owner kind t ctx b k p r and w w1 w2 :: "'a storage_scheme"
    using aside_trans [OF stamp put] .
  show "aside w (snd (SessionStore_Load \<lparr>os_client = c, os_bucket = b\<rparr> ctx acc k w))"
    using get by (auto simp: SessionStore_Load_def split: prod.splits sum.splits)
  show "aside w (snd (Store_Delete \<lparr>os_client = c, os_bucket = b\<rparr> ctx k w))"
    using del by (cases "oc_Delete c ctx b k w") (auto simp: Store_Delete_def)
  show "aside w (snd (ScreenshotStore_Save \<lparr>os_client = c, os_bucket = b\<rparr> ctx acc login p w))"
    using named by (auto simp: ScreenshotStore_Save_def Let_def split: prod.splits option.splits)
  show "aside w (snd (ArtifactStore_Save \<lparr>os_client = c, os_bucket = b\<rparr> ctx acc login p w))"
    using named by (auto simp: ArtifactStore_Save_def Let_def split: prod.splits option.splits)
  show "aside w (snd (SessionStore_Save \<lparr>os_client = c, os_bucket = b\<rparr> ctx acc login n p w))"
  proof (cases "acc = uuid_Nil \<or> n \<le> 0 \<or> \<not> json_Valid p")
    case False
    let ?o = "ResolveObjectOwnerKey login acc"
    obtain g w1 where g: "oc_Get c ctx b (SessionPayloadObjectKey ?o) w = (g, w1)"
      by (cases "oc_Get c ctx b (SessionPayloadObjectKey ?o) w")
    obtain t w1' where t: "next_timestamp ?o ''history'' w1 = (t, w1')" by (cases "next_timestamp ?o ''history'' w1")
    define second where "second w2 = (case oc_Put c ctx b (SessionPayloadObjectKey ?o) p w2 of
        (Some err, w3) \<Rightarrow> (Inl (with_stack err), w3) | (None, w3) \<Rightarrow> (Inr (SessionPayloadObjectKey ?o), w3))"
      for w2 :: "'a storage_scheme"
    have sec: "aside w2 (snd (second w2))" for w2
      using put by (auto simp: second_def split: prod.splits option.splits)
    note w1 = get [OF g]
    note w1' = aside_trans [OF w1 stamp [OF t]]
    show ?thesis
    proof (cases g)
      case (Inl e)
      then have "snd (SessionStore_Save \<lparr>os_client = c, os_bucket = b\<rparr> ctx acc login n p w) \<in> {w1, snd (second w1)}"
        using False g by (simp add: SessionStore_Save_def Let_def second_def)
      then show ?thesis using w1 aside_trans [OF w1 sec] by auto
    next
      case (Inr old)
      obtain h w2 where h: "oc_Put c ctx b (SessionHistoryObjectKey ?o t) old w1' = (h, w2)"
        by (cases "oc_Put c ctx b (SessionHistoryObjectKey ?o t) old w1'")
      have "snd (SessionStore_Save \<lparr>os_client = c, os_bucket = b\<rparr> ctx acc login n p w) \<in> {w2, snd (second w2)}"
        using False g Inr t h by (cases h) (simp_all add: SessionStore_Save_def Let_def second_def)
      then show ?thesis using aside_trans [OF w1' put [OF h]] aside_trans [OF aside_trans [OF w1' put [OF h]] sec] by auto
    qed
  qed (auto simp: SessionStore_Save_def)
qed



section \<open>The execution service beside the queue and the accounts\<close>

definition parts_off_tables :: "'x storage_scheme worker_parts \<Rightarrow> bool" where
  "parts_off_tables p \<longleftrightarrow>
     client_off_tables (wp_client p) \<and> (\<forall>ctx i. off_tables (wp_bootstrap p ctx i)) \<and>
     (\<forall>ctx i. off_tables (wp_follow p ctx i)) \<and> (\<forall>ctx i. off_tables (wp_verify p ctx i)) \<and>
     (\<forall>ctx. off_tables (wp_health p ctx)) \<and>
     (\<forall>w. db_part (lm_RecordClaimed (wp_metrics p) w) = db_part w) \<and>
     (\<forall>w. db_part (lm_RecordStarted (wp_metrics p) w) = db_part w) \<and>
     (\<forall>st w. db_part (lm_RecordCompleted (wp_metrics p) st w) = db_part w) \<and>
     (\<forall>st w. db_part (lm_RecordError (wp_metrics p) st w) = db_part w) \<and>
     (\<forall>st c w. db_part (lx_RecordErrorCode (wp_extended p) st c w) = db_part w) \<and>
     (\<forall>oc w. db_part (lx_RecordExecutionOutcome (wp_extended p) oc w) = db_part w)"

definition wired_restorer :: "'x storage_scheme worker_parts \<Rightarrow> 'x storage_scheme session_restorer" where
  "wired_restorer p =
     \<lparr>restorer_repository = session_table (NewSessionRepository [pg_audit_log]),
      restorer_store = session_payload_store \<lparr>os_client = wp_client p, os_bucket = wp_bucket p\<rparr>\<rparr>"

lemma wired_execution_fields [simp]:
  "es_guard (wired_execution p) =
     \<lparr>eg_Acquire = Guard_Acquire (pg_guard (wp_guardrails p)), eg_Release = Guard_Release (pg_guard (wp_guardrails p))\<rparr>"
  "es_restorer (wired_execution p) = Restore (wired_restorer p)"
  "es_sessionSaver (wired_execution p) = Some (Restorer_Save (wired_restorer p))"
  "es_completer (wired_execution p) = Some (lt_Complete task_table)"
  "es_bootstrapRunner (wired_execution p) = Some (wp_bootstrap p)"
  "es_followRunner (wired_execution p) = Some (wp_follow p)" "es_verifyRunner (wired_execution p) = Some (wp_verify p)"
  "es_resultRepository (wired_execution p) = Some result_table"
  "es_screenshotStore (wired_execution p) = Some \<lparr>bs_Save = ScreenshotStore_Save \<lparr>os_client = wp_client p, os_bucket = wp_bucket p\<rparr>,
      bs_Delete = Store_Delete \<lparr>os_client = wp_client p, os_bucket = wp_bucket p\<rparr>\<rparr>"
  "es_artifactStore (wired_execution p) = Some \<lparr>bs_Save = ArtifactStore_Save \<lparr>os_client = wp_client p, os_bucket = wp_bucket p\<rparr>,
      bs_Delete = Store_Delete \<lparr>os_client = wp_client p, os_bucket = wp_bucket p\<rparr>\<rparr>"
  "es_bootstrapPolicy (wired_execution p) = wp_policy p"
  by (simp_all add: wired_execution_def Let_def NewExecutionService_def WithArtifactStore_def WithScreenshotStore_def
      WithResultRepository_def WithVerifyFlowRunner_def WithFollowFlowRunner_def WithBootstrapLoginRunner_def
      WithSessionBootstrapPolicy_def NewSessionRestorer_def wired_restorer_def)

lemma session_wired: "audit_wired (srepo_auditLog (NewSessionRepository [pg_audit_log]))"
  by (rule pg_audit_wired)

lemma aside_restore:
  assumes "client_off_tables (wp_client p)" "Restore (wired_restorer p) ctx acc w = (r, w')"
  shows "aside w w'"
proof -
  let ?R = "session_table (NewSessionRepository [pg_audit_log])"
  let ?S = "session_payload_store \<lparr>os_client = wp_client p, os_bucket = wp_bucket p\<rparr>"
  obtain g w1 where g: "sr_GetByAccountID ?R ctx acc w = (g, w1)" by (cases "sr_GetByAccountID ?R ctx acc w")
  have 1: "aside w w1" using aside_sessions(1) [OF session_wired, of w ctx acc] g by (simp add: session_table_def)
  show ?thesis
  proof (cases g)
    case (Inl e)
    then show ?thesis using assms(2) g 1 by (simp add: Restore_def wired_restorer_def)
  next
    case (Inr m)
    obtain ld w2 where ld: "ps_Load ?S ctx acc (session_ObjectKey m) w1 = (ld, w2)"
      by (cases "ps_Load ?S ctx acc (session_ObjectKey m) w1")
    have 2: "aside w w2" using aside_trans [OF 1] aside_stores(2) [OF assms(1), of w1 "wp_bucket p" ctx acc "session_ObjectKey m"] ld
      by (simp add: session_payload_store_def)
    have st: "aside w2 (snd (sr_UpdateStatus ?R c a st code w2))" "aside w2 (snd (sr_MarkRestored ?R c a w2))" for c a st code
      using aside_sessions(3,4) [OF session_wired] by (simp_all add: session_table_def)
    have "w' = w2 \<or> (\<exists>c a st code. w' = snd (sr_UpdateStatus ?R c a st code w2)) \<or> (\<exists>c a. w' = snd (sr_MarkRestored ?R c a w2))"
    proof (cases ld)
      case (Inl e)
      let ?u = "sr_UpdateStatus ?R (WithActor ctx restorer_actor) acc (statusForRestoreError e) (resolveErrorCode e) w2"
      have "w' = snd ?u" using assms(2) g Inr ld Inl
        by (cases "fst ?u"; cases ?u) (auto simp: Restore_def wired_restorer_def)
      then show ?thesis by blast
    next
      case (Inr pl)
      let ?u = "sr_MarkRestored ?R (WithActor ctx restorer_actor) acc w2"
      have "w' = snd ?u" using assms(2) g \<open>g = Inr m\<close> ld Inr
        by (cases "fst ?u"; cases ?u) (auto simp: Restore_def wired_restorer_def)
      then show ?thesis by blast
    qed
    then show ?thesis using 2 aside_trans [OF 2] st by blast
  qed
qed

lemma aside_session_save:
  assumes "client_off_tables (wp_client p)" "Restorer_Save (wired_restorer p) ctx acc login pl w = (r, w')"
  shows "aside w w'"
proof -
  let ?R = "session_table (NewSessionRepository [pg_audit_log])"
  let ?S = "session_payload_store \<lparr>os_client = wp_client p, os_bucket = wp_bucket p\<rparr>"
  obtain g w1 where g: "sr_GetByAccountID ?R ctx acc w = (g, w1)" by (cases "sr_GetByAccountID ?R ctx acc w")
  have 1: "aside w w1" using aside_sessions(1) [OF session_wired, of w ctx acc] g by (simp add: session_table_def)
  show ?thesis
  proof (cases "next_revision g")
    case (Inl e)
    then show ?thesis using assms(2) g 1 by (simp add: Restorer_Save_def wired_restorer_def)
  next
    case (Inr n)
    obtain sv w2 where sv: "ps_Save ?S ctx acc login n pl w1 = (sv, w2)" by (cases "ps_Save ?S ctx acc login n pl w1")
    have 2: "aside w w2" using aside_trans [OF 1] aside_stores(1) [OF assms(1), of w1 "wp_bucket p" ctx acc login n pl] sv
      by (simp add: session_payload_store_def)
    show ?thesis
    proof (cases sv)
      case (Inl e)
      then show ?thesis using assms(2) g Inr sv 2 by (simp add: Restorer_Save_def wired_restorer_def)
    next
      case (Inr k)
      let ?c = "WithActor ctx restorer_actor"
      obtain u w3 where u: "sr_Upsert ?R ?c (saved_metadata acc n k) w2 = (u, w3)" by (cases "sr_Upsert ?R ?c (saved_metadata acc n k) w2")
      have 3: "aside w w3" using aside_trans [OF 2] aside_sessions(2) [OF session_wired, of w2 ?c "saved_metadata acc n k"] u
        by (simp add: session_table_def)
      obtain d w4 where d: "ps_Delete ?S ctx k w3 = (d, w4)" by (cases "ps_Delete ?S ctx k w3")
      have 4: "aside w w4" using aside_trans [OF 3] aside_stores(3) [OF assms(1), of w3 "wp_bucket p" ctx k] d
        by (simp add: session_payload_store_def)
      have "w' = w3 \<or> w' = w4" using assms(2) g \<open>next_revision g = Inr n\<close> sv Inr u d
        by (cases u; cases d) (auto simp: Restorer_Save_def wired_restorer_def)
      then show ?thesis using 3 4 by blast
    qed
  qed
qed

lemma aside_saveSessionPayload:
  assumes "client_off_tables (wp_client p)"
  shows "aside w (snd (saveSessionPayload (wired_execution p) ctx acc login pl w))"
proof -
  obtain r w1 where r: "Restorer_Save (wired_restorer p) ctx acc login pl w = (r, w1)"
    by (cases "Restorer_Save (wired_restorer p) ctx acc login pl w")
  then show ?thesis using aside_session_save [OF assms r] by (cases r) (simp_all add: saveSessionPayload_def)
qed

lemma aside_screenshots:
  assumes "client_off_tables c"
  shows "aside w (persist_screenshots \<lparr>bs_Save = ArtifactStore_Save \<lparr>os_client = c, os_bucket = b\<rparr>, bs_Delete = del\<rparr> ctx acc sh stages w)"
proof (induction stages arbitrary: w)
  case (Cons st sts)
  have "aside w (snd (ArtifactStore_Save \<lparr>os_client = c, os_bucket = b\<rparr> ctx acc '''' pl w))" for pl
    by (rule aside_stores(5) [OF assms])
  then show ?case using Cons.IH aside_trans by (auto split: option.split) blast
qed simp

lemma aside_resolve:
  assumes "parts_off_tables p" "ResolveBootstrapForClaimedTask (wired_execution p) ctx tk pr w = (r, w')"
  shows "aside w w'"
proof -
  have off: "client_off_tables (wp_client p)" "\<And>ctx i. off_tables (wp_bootstrap p ctx i)"
    using assms(1) by (simp_all add: parts_off_tables_def)
  have shots: "aside w1 (persistBootstrapAuthScreenshots (wired_execution p) ctx tk sh w1)" for sh w1
    using aside_screenshots [OF off(1)] by (simp add: persistBootstrapAuthScreenshots_def)
  have res: "aside w1 (snd (bootstrap_result (wired_execution p) ctx tk pr br w1))" for br w1
  proof -
    let ?w2 = "persistBootstrapAuthScreenshots (wired_execution p) ctx tk (blr_AuthScreenshots br) w1"
    let ?sv = "saveSessionPayload (wired_execution p) ctx (task_AccountID tk) (account_Username (awp_Account (pc_AccountWithProxy pr)))
        (blr_SessionPayload br) ?w2"
    have "aside ?w2 (snd ?sv)" by (rule aside_saveSessionPayload [OF off(1)])
    then have 2: "aside w1 ?w2" "aside w1 (snd ?sv)" using shots aside_trans by blast+
    have "snd (bootstrap_result (wired_execution p) ctx tk pr br w1) \<in> {?w2, snd ?sv}"
      by (cases "fst ?sv"; cases ?sv) (auto simp: bootstrap_result_def Let_def)
    then show ?thesis using 2 by auto
  qed
  show ?thesis
  proof (cases "pc_BootstrapRequired pr \<and> BootstrapLoginEnabled (wp_policy p) \<and>
      TrimSpace (account_CredentialRef (awp_Account (pc_AccountWithProxy pr))) \<noteq> ''''")
    case False
    then show ?thesis using assms(2) by (auto simp: ResolveBootstrapForClaimedTask_def Let_def split: if_splits)
  next
    case True
    define i where "i = \<lparr>bli_TaskID = task_ID tk, bli_AccountID = task_AccountID tk, bli_Attempt = task_Attempt tk,
        bli_ExecutionContextID = pc_ExecutionContextID pr,
        bli_CredentialSource = NormalizeCredentialSource (account_CredentialSource (awp_Account (pc_AccountWithProxy pr))),
        bli_CredentialRef = TrimSpace (account_CredentialRef (awp_Account (pc_AccountWithProxy pr)))\<rparr>"
    obtain b w1 where b: "wp_bootstrap p ctx i w = (b, w1)" by (cases "wp_bootstrap p ctx i w")
    have 1: "aside w w1" by (rule off_tables_aside [OF off(2) b])
    have "w' = w1 \<or> (\<exists>br. w' = snd (bootstrap_result (wired_execution p) ctx tk pr br w1))"
      using assms(2) True b [unfolded i_def]
      by (auto simp: ResolveBootstrapForClaimedTask_def Let_def split: sum.splits option.splits prod.splits) (metis snd_conv)+
    then show ?thesis using 1 aside_trans [OF 1 res] by auto
  qed
qed


lemma aside_cleanup:
  assumes "client_off_tables c"
  shows "aside w (snd (cleanup_artifacts \<lparr>bs_Save = sv, bs_Delete = Store_Delete \<lparr>os_client = c, os_bucket = b\<rparr>\<rparr> ctx ks e w))"
    "aside w (snd (cleanupFollowArtifacts \<lparr>bs_Save = sv', bs_Delete = Store_Delete \<lparr>os_client = c, os_bucket = b\<rparr>\<rparr>
        \<lparr>bs_Save = sv, bs_Delete = Store_Delete \<lparr>os_client = c, os_bucket = b\<rparr>\<rparr> ctx k ks w))"
proof -
  have del: "Store_Delete \<lparr>os_client = c, os_bucket = b\<rparr> ctx k w = (r, w') \<Longrightarrow> aside w w'" for k r w w'
    using aside_stores(3) [OF assms, of w b ctx k] by simp
  show one: "aside w (snd (cleanup_artifacts \<lparr>bs_Save = sv, bs_Delete = Store_Delete \<lparr>os_client = c, os_bucket = b\<rparr>\<rparr> ctx ks e w))" for ks e w
  proof (induction ks arbitrary: e w)
    case (Cons k ks)
    obtain r w1 where r: "Store_Delete \<lparr>os_client = c, os_bucket = b\<rparr> ctx k w = (r, w1)"
      by (cases "Store_Delete \<lparr>os_client = c, os_bucket = b\<rparr> ctx k w")
    show ?case using Cons.IH aside_trans [OF del [OF r]] r by (cases r) auto
  qed simp
  obtain r w1 where r: "Store_Delete \<lparr>os_client = c, os_bucket = b\<rparr> ctx k w = (r, w1)"
    by (cases "Store_Delete \<lparr>os_client = c, os_bucket = b\<rparr> ctx k w")
  show "aside w (snd (cleanupFollowArtifacts \<lparr>bs_Save = sv', bs_Delete = Store_Delete \<lparr>os_client = c, os_bucket = b\<rparr>\<rparr>
        \<lparr>bs_Save = sv, bs_Delete = Store_Delete \<lparr>os_client = c, os_bucket = b\<rparr>\<rparr> ctx k ks w))"
    using one aside_trans [OF del [OF r]] r by (cases r) (auto simp: cleanupFollowArtifacts_def)
qed

lemma aside_finalize:
  assumes "client_off_tables (wp_client p)" "FinalizeFollowExecution (wired_execution p) ctx i w = (r, w')"
  shows "aside w w'"
proof (cases "FollowExecutionFinalizationInput_Validate i")
  case (Some err)
  then show ?thesis using assms(2) by (simp add: FinalizeFollowExecution_def)
next
  case None
  let ?st = "\<lparr>os_client = wp_client p, os_bucket = wp_bucket p\<rparr>"
  let ?sc = "\<lparr>bs_Save = ScreenshotStore_Save ?st, bs_Delete = Store_Delete ?st\<rparr>"
  let ?ar = "\<lparr>bs_Save = ArtifactStore_Save ?st, bs_Delete = Store_Delete ?st\<rparr>"
  have save: "ScreenshotStore_Save ?st ctx acc login pl v = (x, v') \<Longrightarrow> aside v v'"
    "ArtifactStore_Save ?st ctx acc login pl v = (x, v') \<Longrightarrow> aside v v'"
    "Store_Delete ?st ctx k v = (y, v') \<Longrightarrow> aside v v'" for acc login pl k x y v v'
    using aside_stores(3,4,5) [OF assms(1)] by (metis snd_conv)+
  obtain pa w1 where pa: "persistFollowArtifacts (wired_execution p) ?sc ?ar ctx i w = (pa, w1)"
    by (cases "persistFollowArtifacts (wired_execution p) ?sc ?ar ctx i w")
  have 1: "aside w w1"
  proof (cases "normalizeScreenshotPayload (es_png_Encode (wired_execution p)) (fvr_ScreenshotPayload (ffin_Verification i))")
    case (Inl e)
    then show ?thesis using pa by (simp add: persistFollowArtifacts_def)
  next
    case (Inr pl)
    obtain k1 v1 where k1: "ScreenshotStore_Save ?st ctx (ffin_AccountID i) (ffin_AccountLogin i) pl w = (k1, v1)"
      by (cases "ScreenshotStore_Save ?st ctx (ffin_AccountID i) (ffin_AccountLogin i) pl w")
    let ?m = "json_Marshal (execution_artifact (ffin_FollowDiagnostics i) (ffin_Verification i))"
    obtain k2 v2 where k2: "ArtifactStore_Save ?st ctx (ffin_AccountID i) (ffin_AccountLogin i) ?m v1 = (k2, v2)"
      by (cases "ArtifactStore_Save ?st ctx (ffin_AccountID i) (ffin_AccountLogin i) ?m v1")
    obtain d v3 where d: "Store_Delete ?st ctx (projr k1) v2 = (d, v3)" by (cases "Store_Delete ?st ctx (projr k1) v2")
    have "w1 = v1 \<or> w1 = v2 \<or> w1 = v3"
      using pa Inr k1 k2 d by (cases k1; cases k2; cases d) (auto simp: persistFollowArtifacts_def)
    moreover have "aside w v1" "aside w v2" "aside w v3"
      using save(1) [OF k1] aside_trans [OF save(1) [OF k1] save(2) [OF k2]]
        aside_trans [OF aside_trans [OF save(1) [OF k1] save(2) [OF k2]] save(3) [OF d]] by blast+
    ultimately show ?thesis by blast
  qed
  show ?thesis
  proof (cases pa)
    case (Inl e)
    then show ?thesis using assms(2) None pa 1 by (simp add: FinalizeFollowExecution_def)
  next
    case (Inr ks)
    obtain k1 ks' where ks: "ks = (k1, ks')" by (cases ks)
    have clean: "aside v (snd (cleanupFollowArtifacts ?sc ?ar ctx kk kks v))" for kk kks v
      by (rule aside_cleanup(2) [OF assms(1)])
    have store: "aside v (snd (store_result result_table ?sc ?ar ctx fr v))" for fr v
    proof -
      obtain u v1 where u: "rs_Upsert result_table ctx fr v = (u, v1)" by (cases "rs_Upsert result_table ctx fr v")
      have up: "aside v v1"
        using aside_result [of "NewResultRepository [pg_audit_log]" v ctx fr] u
        by (simp add: result_table_def NewResultRepository_def audit_wired_def)
      obtain c v2 where c: "cleanupFollowArtifacts ?sc ?ar ctx (fr_ScreenshotObjectKey fr) (fr_ArtifactObjectKeys fr) v1 = (c, v2)"
        by (cases "cleanupFollowArtifacts ?sc ?ar ctx (fr_ScreenshotObjectKey fr) (fr_ArtifactObjectKeys fr) v1")
      have "aside v v2" using aside_trans [OF up clean [where v = v1]] c by (metis snd_conv)
      then show ?thesis using up u c by (cases u; cases c) (auto simp: store_result_def Let_def)
    qed
    obtain sv w2 where sv: "saveSessionPayload (wired_execution p) ctx (ffin_AccountID i) (ffin_AccountLogin i)
        (ffin_SessionPayload i) w1 = (sv, w2)"
      by (cases "saveSessionPayload (wired_execution p) ctx (ffin_AccountID i) (ffin_AccountLogin i) (ffin_SessionPayload i) w1")
    have 2: "aside w w2" using aside_trans [OF 1 aside_saveSessionPayload [OF assms(1)]] sv by (metis snd_conv)
    have "(\<exists>fr. w' = snd (store_result result_table ?sc ?ar ctx fr w1)) \<or>
        (\<exists>fr. w' = snd (store_result result_table ?sc ?ar ctx fr w2)) \<or>
        w' = snd (cleanupFollowArtifacts ?sc ?ar ctx k1 ks' w2)"
    proof (cases "fvr_SessionChanged (ffin_Verification i)")
      case False
      then have "store_result result_table ?sc ?ar ctx (result_of_finalization i k1 ks' (ffin_SessionRevision i)) w1 = (r, w')"
        using assms(2) None pa Inr ks by (simp add: FinalizeFollowExecution_def)
      then have "w' = snd (store_result result_table ?sc ?ar ctx (result_of_finalization i k1 ks' (ffin_SessionRevision i)) w1)"
        by simp
      then show ?thesis by blast
    next
      case True
      show ?thesis
      proof (cases sv)
        case (Inr m)
        then have "store_result result_table ?sc ?ar ctx (result_of_finalization i k1 ks' (session_Revision m)) w2 = (r, w')"
          using assms(2) None pa \<open>pa = Inr ks\<close> ks True sv by (simp add: FinalizeFollowExecution_def)
        then have "w' = snd (store_result result_table ?sc ?ar ctx (result_of_finalization i k1 ks' (session_Revision m)) w2)"
          by simp
        then show ?thesis by blast
      next
        case (Inl e)
        obtain c v2 where c: "cleanupFollowArtifacts ?sc ?ar ctx k1 ks' w2 = (c, v2)"
          by (cases "cleanupFollowArtifacts ?sc ?ar ctx k1 ks' w2")
        have "w' = v2" using assms(2) None pa \<open>pa = Inr ks\<close> ks True sv Inl c
          by (cases c) (simp_all add: FinalizeFollowExecution_def)
        then show ?thesis using c by simp
      qed
    qed
    then show ?thesis using aside_trans [OF 1 store] aside_trans [OF 2 store] aside_trans [OF 2 clean] by blast
  qed
qed

lemma aside_metrics:
  assumes "parts_off_tables p"
  shows "aside w (recordErrorMetric (wired_loop p) st c w)" "aside w (recordExecutionOutcomeMetric (wired_loop p) oc w)"
  using assms by (auto simp: parts_off_tables_def recordErrorMetric_def recordExecutionOutcomeMetric_def wired_loop_def
      NewClaimLoop_def Let_def intro!: db_part_aside)

text \<open>So an execution keeps whatever depends on the two tables only.\<close>

lemma wired_keeps:
  assumes "parts_off_tables p" and J: "\<And>w w'. J w \<Longrightarrow> aside w w' \<Longrightarrow> J w'"
  shows "loop_keeps (wired_loop p) (execution_of_service (wired_execution p)) J"
proof -
  have off: "client_off_tables (wp_client p)" "\<And>ctx i. off_tables (wp_follow p ctx i)" "\<And>ctx i. off_tables (wp_verify p ctx i)"
    using assms(1) by (simp_all add: parts_off_tables_def)
  have 1: "aside w (snd (ResolveBootstrapForClaimedTask (wired_execution p) ctx tk pr w))" for ctx tk pr w
    using aside_resolve [OF assms(1)] by (cases "ResolveBootstrapForClaimedTask (wired_execution p) ctx tk pr w") simp
  have 2: "aside w (snd (Service_RunFollowFlow (wired_execution p) ctx i w))" for ctx i w
    using off_tables_aside [OF off(2)] by (cases "wp_follow p ctx i w") (simp add: Service_RunFollowFlow_def)
  have 3: "aside w (snd (Service_VerifyFollowResult (wired_execution p) ctx i w))" for ctx i w
    using off_tables_aside [OF off(3)]
    by (cases "wp_verify p ctx i w") (auto simp: Service_VerifyFollowResult_def split: sum.splits option.splits)
  have 4: "aside w (snd (FinalizeFollowExecution (wired_execution p) ctx i w))" for ctx i w
    using aside_finalize [OF off(1)] by (cases "FinalizeFollowExecution (wired_execution p) ctx i w") simp
  show ?thesis
    using J 1 2 3 4 aside_metrics [OF assms(1)] by (simp add: loop_keeps_def execution_of_service_def)
qed



section \<open>What a worker has in its hands\<close>

definition worker_tasks :: "string \<Rightarrow> 'x db_scheme \<Rightarrow> uuid set" where
  "worker_tasks who s =
     {trow_id q | q. q \<in> set (db_tasks s) \<and> trow_status q = TaskStatusRunning \<and> trow_claimed_by q = Some who}"

definition worker_accounts :: "string \<Rightarrow> 'x db_scheme \<Rightarrow> uuid set" where
  "worker_accounts who s = {acc. account_holder s acc = who}"

definition task_finished :: "uuid \<Rightarrow> 'x db_scheme \<Rightarrow> bool" where
  "task_finished tid s \<longleftrightarrow>
     (\<exists>q \<in> set (db_tasks s). trow_id q = tid \<and> trow_status q \<in> {TaskStatusSuccess, TaskStatusRetry, TaskStatusFail})"

definition other_rows :: "uuid \<Rightarrow> 'x db_scheme \<Rightarrow> task_row set" where
  "other_rows tid s = {q \<in> set (db_tasks s). trow_id q \<noteq> tid}"

lemma other_rows_same: "db_tasks s' = db_tasks s \<Longrightarrow> other_rows tid s' = other_rows tid s"
  by (simp add: other_rows_def)

text \<open>A consistent database whose driver does not fail, with no row locked by others and none under the nil
  identifier.\<close>

definition calm :: "'x db_scheme \<Rightarrow> bool" where
  "calm s \<longleftrightarrow> db_ok s \<and> db_faults s = [] \<and> db_locked s = [] \<and> clock_ok s \<and>
     (\<forall>q \<in> set (db_tasks s). trow_id q \<noteq> uuid_Nil \<and> trow_account_id q \<noteq> uuid_Nil)"

lemma worker_tasks_same: "db_tasks s' = db_tasks s \<Longrightarrow> worker_tasks who s' = worker_tasks who s"
  by (simp add: worker_tasks_def)

lemma task_finished_same: "db_tasks s' = db_tasks s \<Longrightarrow> task_finished tid s' = task_finished tid s"
  by (simp add: task_finished_def)

lemma calm_aside:
  assumes "calm s" "aside s s'"
  shows "calm s' \<and> db_tasks s' = db_tasks s \<and> account_holder s' = account_holder s"
  using assms account_holder_accounts [of s' s] by (auto simp: calm_def aside_def quiet_def clock_ok_def)

lemma calm_accounts:
  assumes "calm s" "account_safe s s'" "quiet s s'"
  shows "calm s' \<and> db_tasks s' = db_tasks s"
  using assms by (auto simp: calm_def account_safe_def account_frame_def quiet_def clock_ok_def)

abbreviation pg_account_repo :: "runtime_guardrails \<Rightarrow> 'x account_repository" where
  "pg_account_repo g \<equiv> NewAccountRepository g (Some pg_audit_log)"

lemma account_wired: "audit_wired (arepo_auditLog (pg_account_repo g))"
  by (simp add: NewAccountRepository_def audit_wired_def)

lemma transaction_calm:
  assumes "db_faults s = []" "\<And>s. quiet s (snd (body s))" "transaction on_begin on_commit body s = (Inl e, s')"
  shows "same_tables s s'"
proof -
  obtain rb s2 where b: "body s = (rb, s2)" by (cases "body s")
  have "db_faults s2 = []" using assms(1,2) b by (metis quiet_def snd_conv)
  then show ?thesis using assms(1,3) b same_tables_rollback by (cases rb) (auto simp: transaction_def)
qed

lemma quiet_accounts:
  "quiet s (snd (GetAccountWithProxy ctx acc s))" "quiet s (snd (CheckEligibility repo ctx acc s))"
  "audit_wired (arepo_auditLog repo) \<Longrightarrow> quiet s (snd (UpdateAccountState repo ctx acc st b1 b2 b3 b4 s))"
  "audit_wired (arepo_auditLog repo) \<Longrightarrow> quiet s (snd (ClaimAccount repo ctx acc ectx s))"
  "audit_wired (arepo_auditLog repo) \<Longrightarrow> quiet s (snd (ReleaseAccount repo ctx acc ectx s))"
  "quiet s (snd (claim_account_body repo acc ectx s))"
proof -
  have sel: "quiet s (snd (scan_optional_proxy (autocommit (select_account acc) s)))" for acc and s :: "'a db_scheme"
    unfolding snd_scans by (rule quiet_autocommit [OF quiet_statements(4)])
  have sel_tx: "quiet s (snd (scan_optional_proxy (in_tx (select_account acc) s)))" for acc and s :: "'a db_scheme"
    unfolding snd_scans by (rule quiet_in_tx [OF quiet_statements(4)])
  have up_tx: "quiet s (snd (scanAccount (in_tx (\<lambda>s. update_account P (upd (db_now s)) s) s)))" for P upd and s :: "'a db_scheme"
    unfolding snd_scans by (rule quiet_in_tx [OF quiet_statements(5)])
  show "quiet s (snd (GetAccountWithProxy ctx acc s))" for s :: "'a db_scheme"
    using sel [of s acc] by (auto simp: GetAccountWithProxy_def split: sum.splits prod.splits)
  show "quiet s (snd (CheckEligibility repo ctx acc s))" for s :: "'a db_scheme"
    using sel [of s acc] by (auto simp: CheckEligibility_def split: sum.splits prod.splits)
  have body: "quiet s (snd (claim_account_body repo acc ectx s))" for s :: "'a db_scheme"
  proof -
    obtain a s1 where a: "scan_optional_proxy (in_tx (select_account acc) s) = (a, s1)"
      by (cases "scan_optional_proxy (in_tx (select_account acc) s)")
    have 1: "quiet s s1" using sel_tx [of s acc] a by simp
    let ?u = "\<lambda>upd. scanAccount (in_tx (\<lambda>s. update_account (\<lambda>r. arow_id r = acc) (upd (db_now s)) s) s1)"
    have "snd (claim_account_body repo acc ectx s) \<in> {s1} \<union> range (\<lambda>upd. snd (?u upd))"
    proof (cases a)
      case (Inl e)
      then show ?thesis using a by (simp add: claim_account_body_def)
    next
      case (Inr x)
      have u: "snd (case ?u upd of (Inl e, s2) \<Rightarrow> (Inl (with_stack e), s2) | (Inr c, s2) \<Rightarrow> (Inr (c, True), s2)) = snd (?u upd)" for upd
        by (auto split: sum.splits prod.splits)
      show ?thesis using a Inr u by (simp add: claim_account_body_def Let_def split: option.split)
    qed
    then show ?thesis using 1 quiet_trans [OF 1 up_tx] by auto
  qed
  then show "quiet s (snd (claim_account_body repo acc ectx s))" for s :: "'a db_scheme" .
  assume wired: "audit_wired (arepo_auditLog repo)"
  note audit = quiet_trans [OF _ quiet_audit [OF wired]]
  let ?st = "\<lambda>s1. case update_account (\<lambda>r. arow_id r = acc) (state_account_row st b1 b2 b3 b4 (db_now s1)) s1 of
             Inl e \<Rightarrow> if e = NoRows then Inr (False, s1) else Inl e
           | Inr (r, s2) \<Rightarrow> Inr (True, s2)"
  have "quiet_stmt ?st"
    by (auto simp: quiet_stmt_def update_account_def Let_def split: sum.splits option.splits if_splits)
  from quiet_autocommit [OF this, of s] show "quiet s (snd (UpdateAccountState repo ctx acc st b1 b2 b3 b4 s))"
    using audit by (auto simp: UpdateAccountState_def split: sum.splits prod.splits)
  have "quiet s (snd (transaction with_stack (\<lambda>x. with_stack) (claim_account_body repo acc ectx) s))"
    by (rule quiet_transaction [OF body])
  then show "quiet s (snd (ClaimAccount repo ctx acc ectx s))"
    using audit by (auto simp: ClaimAccount_def recordLifecycleAuditClaim_def recordLifecycleAudit_def split: sum.splits prod.splits)
  have "quiet s (snd (autocommit (\<lambda>s. update_account (\<lambda>r. arow_id r = acc \<and> arow_active_execution_context_id r = Some ectx)
             (release_account_row (db_now s)) s) s))"
    by (rule quiet_autocommit [OF quiet_statements(5)])
  then show "quiet s (snd (ReleaseAccount repo ctx acc ectx s))"
    using audit by (auto simp: ReleaseAccount_def recordLifecycleAuditRelease_def recordLifecycleAudit_def split: sum.splits prod.splits)
qed



section \<open>One iteration, step by step\<close>

lemma calm_claim:
  assumes "calm s" "TrimSpace who \<noteq> ''''" "ClaimNextQueued (Some pg_audit_log) ctx who s = (r, s')"
  shows "calm s' \<and> account_holder s' = account_holder s \<and>
    (case r of
       Inr (Some tk) \<Rightarrow> worker_tasks who s' = insert (task_ID tk) (worker_tasks who s) \<and>
         task_ID tk \<noteq> uuid_Nil \<and> task_AccountID tk \<noteq> uuid_Nil \<and> task_Status tk = TaskStatusRunning \<and>
         task_ClaimedBy tk = who \<and> task_ID tk \<in> trow_id ` set (claimable s) \<and>
         other_rows (task_ID tk) s' = other_rows (task_ID tk) s
     | _ \<Rightarrow> db_tasks s' = db_tasks s \<and> (r = Inr None \<longrightarrow> claimable s = []))"
proof -
  have wired: "audit_wired (Some pg_audit_log)" by (simp add: audit_wired_def)
  have c: "db_ok s" "db_faults s = []" "clock_ok s"
    "\<And>q. q \<in> set (db_tasks s) \<Longrightarrow> trow_id q \<noteq> uuid_Nil \<and> trow_account_id q \<noteq> uuid_Nil"
    using assms(1) by (auto simp: calm_def)
  have q: "quiet s s'" using quiet_tasks(2) [where s = s and ctx = ctx and w = who] assms(3) by simp
  have safe: "queue_safe s s'" using ClaimNextQueued_safe [OF wired, where s = s and ctx = ctx and w = who] assms(3) by simp
  then have ok: "db_ok s'" "db_accounts s' = db_accounts s" using c(1) by (auto simp: queue_safe_def queue_step_def)
  note holder = account_holder_accounts [OF ok(2)]
  have eff: "case (r, s') of
      (Inl e, s') \<Rightarrow> same_tables s s' \<or> (\<exists>q. claims who s s' q)
    | (Inr None, s') \<Rightarrow> claimable s = [] \<and> same_tables s s'
    | (Inr (Some tk), s') \<Rightarrow> \<exists>q. claims who s s' q \<and> tk = task_of_row (claim_row who (db_now s) q)"
    using ClaimNextQueued_effect [OF wired c(1), where ctx = ctx and w = who] c(2) assms(3) by (simp add: honest_faults_def)
  have same: "same_tables s s' \<Longrightarrow> calm s' \<and> db_tasks s' = db_tasks s"
    using assms(1) q db_ok_same_tables [of s s']
    by (auto simp: calm_def quiet_def clock_ok_def same_tables_def)
  show ?thesis
  proof (cases r)
    case (Inl e)
    let ?oc = "\<lambda>found e. case found of None \<Rightarrow> e | Some tk \<Rightarrow> with_stack e"
    have body: "quiet t (snd (claim_body who t))" for t :: "'a db_scheme"
    proof -
      have "quiet t (snd (scanTask (in_tx (claim_next who) t)))"
        unfolding snd_scanTask by (rule quiet_in_tx [OF quiet_statements(2)])
      then show ?thesis unfolding claim_body_def by (auto split: prod.splits sum.splits)
    qed
    have "transaction with_stack ?oc (claim_body who) s = (Inl e, s')"
      using assms(2,3) Inl by (auto simp: ClaimNextQueued_def split: prod.splits sum.splits option.splits)
    from transaction_calm [OF c(2) body this] show ?thesis using Inl same holder by simp
  next
    case (Inr found)
    show ?thesis
    proof (cases found)
      case None
      then show ?thesis using eff Inr same holder by simp
    next
      case (Some tk)
      then obtain x where x: "claims who s s' x" "tk = task_of_row (claim_row who (db_now s) x)" using eff Inr by auto
      let ?x = "claim_row who (db_now s) x"
      have mem: "x \<in> set (db_tasks s)" "trow_status x = TaskStatusQueued" "trow_id x \<notin> set (db_locked s)"
        and tasks: "db_tasks s' = put_task ?x (db_tasks s)"
        using x(1) by (auto simp: claims_def)
      have dist: "distinct (map trow_id (db_tasks s))" using c(1) by (simp add: db_ok_def tasks_ok_def)
      have row: "y \<in> set (db_tasks s') \<longleftrightarrow> y = ?x \<or> y \<in> set (db_tasks s) \<and> trow_id y \<noteq> trow_id x" for y
        using mem(1) by (auto simp: tasks put_task_def claim_row_def)
      have wt: "worker_tasks who s' = insert (trow_id x) (worker_tasks who s)"
      proof
        show "worker_tasks who s' \<subseteq> insert (trow_id x) (worker_tasks who s)"
          by (auto simp: worker_tasks_def row claim_row_def)
        have "trow_id y \<noteq> trow_id x" if "y \<in> set (db_tasks s)" "trow_status y = TaskStatusRunning" for y
          using distinct_id_eq [OF dist that(1) mem(1)] that(2) mem(2) by auto
        then have "worker_tasks who s \<subseteq> worker_tasks who s'" unfolding worker_tasks_def row by blast
        moreover have "?x \<in> set (db_tasks s')" "trow_id ?x = trow_id x" "trow_status ?x = TaskStatusRunning"
          "trow_claimed_by ?x = Some who" by (simp_all add: row) (simp_all add: claim_row_def)
        then have "trow_id x \<in> worker_tasks who s'" unfolding worker_tasks_def mem_Collect_eq by (intro exI [of _ ?x]) simp
        ultimately show "insert (trow_id x) (worker_tasks who s) \<subseteq> worker_tasks who s'" by blast
      qed
      have "calm s'" using assms(1) ok q mem(1)
        by (auto simp: calm_def quiet_def clock_ok_def row) (auto simp: claim_row_def)
      moreover have "x \<in> set (claimable s)" using mem by (simp add: claimable_def)
      moreover have "other_rows (trow_id x) s' = other_rows (trow_id x) s"
        by (auto simp: other_rows_def row) (simp add: claim_row_def)
      ultimately show ?thesis using Inr Some holder wt c(4) [OF mem(1)] x(2)
        by (auto simp: task_of_row_def claim_row_def)
    qed
  qed
qed

lemma calm_complete:
  assumes "calm s" "TrimSpace who \<noteq> ''''" "tid \<in> worker_tasks who s" "tid \<noteq> uuid_Nil" "valid_completion (st, code, reason)"
    "Complete (Some pg_audit_log) (\<lambda>k t. t) ctx tid who st code reason s = (r, s')"
  shows "calm s' \<and> account_holder s' = account_holder s \<and> worker_tasks who s' = worker_tasks who s - {tid} \<and>
    task_finished tid s' \<and> other_rows tid s' = other_rows tid s \<and> (\<exists>tk. r = Inr tk)"
proof -
  have wired: "audit_wired (Some pg_audit_log)" by (simp add: audit_wired_def)
  have c: "db_ok s" "db_faults s = []" "clock_ok s" using assms(1) by (auto simp: calm_def)
  from assms(3) obtain x where x: "x \<in> set (db_tasks s)" "trow_id x = tid" "trow_status x = TaskStatusRunning"
    "trow_claimed_by x = Some who" by (auto simp: worker_tasks_def)
  obtain tk where tk: "r = Inr tk"
    using Complete_finishes [OF wired c(1,3,2) x(1,2) assms(4) x(3,4) assms(2), where final = st and code = code and reason = reason and ctx = ctx] assms(5,6)
    by (auto simp: valid_completion_def)
  have get: "GetByID ctx tid s = (Inr (task_of_row x), s)"
  proof -
    have "distinct (map trow_id (db_tasks s))" using c(1) by (simp add: db_ok_def tasks_ok_def)
    then have "find (\<lambda>r. trow_id r = tid) (db_tasks s) = Some x" using find_map_of [OF _ x(1), of trow_id] x(2) by simp
    then show ?thesis using c(2) assms(4) by (simp add: GetByID_def scanTask_def autocommit_def select_task_def)
  qed
  from Complete_effect [OF wired assms(6) [unfolded tk]] get obtain y where y: "y \<in> set (db_tasks s)" "trow_id y = tid"
      "st \<in> {TaskStatusSuccess, TaskStatusRetry, TaskStatusFail}" and
      t: "\<exists>cd rs. db_tasks s' = put_task (complete_row st cd rs (db_now s) y) (db_tasks s)" and same: "same_others s s'"
    by (auto simp: Let_def)
  from t obtain cd rs where tasks: "db_tasks s' = put_task (complete_row st cd rs (db_now s) y) (db_tasks s)" by blast
  let ?y = "complete_row st cd rs (db_now s) y"
  have dist: "distinct (map trow_id (db_tasks s))" using c(1) by (simp add: db_ok_def tasks_ok_def)
  have row: "z \<in> set (db_tasks s') \<longleftrightarrow> z = ?y \<or> z \<in> set (db_tasks s) \<and> trow_id z \<noteq> tid" for z
    using y(1,2) by (auto simp: tasks put_task_def complete_row_def)
  have "queue_safe s s'" using Complete_safe [OF wired, where other = "\<lambda>k t. t" and s = s and ctx = ctx and tid = tid and w = who and final = st and code = code and reason = reason] assms(6) by simp
  then have ok: "db_ok s'" "db_accounts s' = db_accounts s" using c(1) by (auto simp: queue_safe_def queue_step_def)
  have q: "quiet s s'" using quiet_tasks(3) [where s = s and ctx = ctx and tid = tid and w = who and st = st and code = code and reason = reason] assms(6) by simp
  have "calm s'" using assms(1) ok q y(1)
    by (auto simp: calm_def quiet_def clock_ok_def row) (auto simp: complete_row_def)
  moreover have "worker_tasks who s' = worker_tasks who s - {tid}"
    using y(2,3) by (auto simp: worker_tasks_def row) (auto simp: complete_row_def)
  moreover have "task_finished tid s'" using y(2,3) row [of ?y] by (auto simp: task_finished_def complete_row_def intro!: bexI [of _ ?y])
  moreover have "other_rows tid s' = other_rows tid s"
    using y(2) by (auto simp: other_rows_def row) (simp add: complete_row_def)
  ultimately show ?thesis using account_holder_accounts [OF ok(2)] tk by simp
qed

lemma quiet_guard:
  "quiet s (snd (Guard_Acquire (pg_guard g) ctx acc ectx s))" "quiet s (snd (Guard_Release (pg_guard g) ctx acc ectx s))"
proof -
  let ?repo = "pg_account_repo g :: 'a account_repository"
  note acc_quiet = quiet_accounts(1) quiet_accounts(2) [where repo = ?repo] quiet_accounts(3-5) [where repo = ?repo, OF account_wired]
  have fields: "guard_repository (pg_guard g) = account_table ?repo" "guard_quota (pg_guard g) = NewQuotaService (account_table ?repo) g"
    by (simp_all add: pg_guard_def NewAccountGuard_def)
  show "quiet s (snd (Guard_Release (pg_guard g) ctx acc ectx s))"
    using acc_quiet(5) [of s ctx acc ectx] by (auto simp: Guard_Release_def fields split: prod.splits option.splits)
  have cur: "quiet s (snd (currentAccount (NewQuotaService (account_table ?repo) g) ctx acc s))" for s :: "'a db_scheme"
    using acc_quiet(1) [of s ctx acc]
    by (cases "GetAccountWithProxy ctx acc s") (auto simp: currentAccount_def NewQuotaService_def split: sum.splits)
  have app: "quiet s (snd (ApplyDecision (NewQuotaService (account_table ?repo) g) ctx acc d s))" for s :: "'a db_scheme" and d
  proof -
    obtain a s1 where a: "currentAccount (NewQuotaService (account_table ?repo) g) ctx acc s = (a, s1)"
      by (cases "currentAccount (NewQuotaService (account_table ?repo) g) ctx acc s")
    have 1: "quiet s s1" using cur [of s] a by simp
    have up: "quiet s (snd (UpdateAccountState ?repo c acc st b1 b2 b3 b4 s1))" for c st b1 b2 b3 b4
      using quiet_trans [OF 1 acc_quiet(3)] .
    have fld: "quota_repository (NewQuotaService (account_table ?repo) g) = account_table ?repo"
      by (simp add: NewQuotaService_def)
    show ?thesis using a 1 up unfolding ApplyDecision_def fld by (auto split: if_splits error_code.splits sum.splits)
  qed
  show "quiet s (snd (Guard_Acquire (pg_guard g) ctx acc ectx s))"
  proof -
    obtain d s1 where d: "CheckEligibility ?repo ctx acc s = (d, s1)" by (cases "CheckEligibility ?repo ctx acc s")
    have 1: "quiet s s1" using acc_quiet(2) [of s ctx acc] d by simp
    have cl: "quiet s1 (snd (acquire_claim (pg_guard g) ctx acc ectx s1))"
    proof -
      obtain a s2 where a: "ClaimAccount ?repo ctx acc ectx s1 = (a, s2)" by (cases "ClaimAccount ?repo ctx acc ectx s1")
      have 2: "quiet s1 s2" using acc_quiet(4) [of s1 ctx acc ectx] a by simp
      obtain b s3 where b: "GetAccountWithProxy ctx acc s2 = (b, s3)" by (cases "GetAccountWithProxy ctx acc s2")
      have 3: "quiet s1 s3" using quiet_trans [OF 2] acc_quiet(1) [of s2 ctx acc] b by simp
      obtain e s4 where e: "ReleaseAccount ?repo ctx acc ectx s3 = (e, s4)" by (cases "ReleaseAccount ?repo ctx acc ectx s3")
      have 4: "quiet s1 s4" using quiet_trans [OF 3] acc_quiet(5) [of s3 ctx acc ectx] e by simp
      show ?thesis using a b e 2 3 4 by (cases a; cases b; cases e) (simp_all add: acquire_claim_def fields)
    qed
    obtain ap s2 where ap: "ApplyDecision (NewQuotaService (account_table ?repo) g) ctx acc
        (normalizeEligibilityDecision (projr d)) s1 = (ap, s2)"
      by (cases "ApplyDecision (NewQuotaService (account_table ?repo) g) ctx acc (normalizeEligibilityDecision (projr d)) s1")
    have 2: "quiet s s2" using quiet_trans [OF 1 app] ap by (metis snd_conv)
    show ?thesis using d 1 2 ap quiet_trans [OF 1 cl]
      by (cases d; cases ap) (auto simp: Guard_Acquire_def fields Let_def)
  qed
qed


lemma calm_same:
  assumes "calm s" "same_tables s t" "quiet s t"
  shows "calm t \<and> db_tasks t = db_tasks s \<and> account_holder t = account_holder s"
  using calm_accounts [OF assms(1) account_safe_same [OF assms(2)] assms(3)] account_holder_accounts [of t s] assms(2)
  by (simp add: same_tables_def)

lemma calm_decision:
  assumes "calm s" "ApplyDecision (NewQuotaService (account_table (pg_account_repo g)) g) ctx acc d s = (e, s')"
  shows "calm s' \<and> db_tasks s' = db_tasks s \<and> account_holder s' = account_holder s"
proof -
  let ?repo = "pg_account_repo g :: 'a account_repository"
  have fld: "quota_repository (NewQuotaService (account_table ?repo) g) = account_table ?repo"
    by (simp add: NewQuotaService_def)
  obtain a s1 where a: "currentAccount (NewQuotaService (account_table ?repo) g) ctx acc s = (a, s1)"
    by (cases "currentAccount (NewQuotaService (account_table ?repo) g) ctx acc s")
  obtain b s0 where b: "GetAccountWithProxy ctx acc s = (b, s0)" by (cases "GetAccountWithProxy ctx acc s")
  have "s1 = s0" using a b by (cases b) (auto simp: currentAccount_def fld)
  then have "same_tables s s1" "quiet s s1"
    using account_reads_same [of ctx acc s b s0] quiet_accounts(1) [of s ctx acc] b by auto
  note one = calm_same [OF assms(1) this]
  have up: "calm s2 \<and> db_tasks s2 = db_tasks s \<and> account_holder s2 = account_holder s"
    if "UpdateAccountState ?repo c acc st b1 b2 b3 b4 s1 = (x, s2)" for c st b1 b2 b3 b4 x s2
  proof -
    have ok: "db_ok s1" using one by (simp add: calm_def)
    have "quiet s1 s2" using quiet_accounts(3) [OF account_wired, where s = s1 and ctx = c and acc = acc and st = st
        and ?b1.0 = b1 and ?b2.0 = b2 and ?b3.0 = b3 and ?b4.0 = b4] that by (metis snd_conv)
    then show ?thesis using UpdateAccountState_cases [OF ok account_wired that] calm_accounts [of s1 s2] one by auto
  qed
  have "s' = s \<or> s' = s1 \<or> (\<exists>c st b1 b2 b3 b4 x. UpdateAccountState ?repo c acc st b1 b2 b3 b4 s1 = (x, s'))"
    using assms(2) a unfolding ApplyDecision_def fld by (auto split: if_splits error_code.splits sum.splits)
  then show ?thesis using one up assms(1) by auto
qed

lemma calm_acquire:
  assumes "calm s" "ectx \<noteq> ''''" "Guard_Acquire (pg_guard g) ctx acc ectx s = (r, s')"
  shows "calm s' \<and> db_tasks s' = db_tasks s \<and>
    account_holder s' = (case r of Inr a \<Rightarrow> (account_holder s)(acc := ectx) | Inl e \<Rightarrow> account_holder s)"
proof -
  let ?repo = "pg_account_repo g :: 'a account_repository"
  have fields: "guard_repository (pg_guard g) = account_table ?repo" "guard_quota (pg_guard g) = NewQuotaService (account_table ?repo) g"
    by (simp_all add: pg_guard_def NewAccountGuard_def)
  obtain d s1 where d: "CheckEligibility ?repo ctx acc s = (d, s1)" by (cases "CheckEligibility ?repo ctx acc s")
  have "same_tables s s1" "quiet s s1"
    using account_reads_same [of ctx acc s _ s1 ?repo d] quiet_accounts(2) [where repo = ?repo and s = s and ctx = ctx and acc = acc] d
    by auto
  note one = calm_same [OF assms(1) this]
  show ?thesis
  proof (cases "\<exists>d0. d = Inr d0 \<and> (decision_Eligible d0 \<or> decision_ReasonCode (normalizeEligibilityDecision d0) = ErrorCodeAccountBusy)")
    case False
    have "(\<exists>e. r = Inl e) \<and> (s' = s1 \<or> (\<exists>d e. ApplyDecision (NewQuotaService (account_table ?repo) g) ctx acc d s1 = (e, s')))"
    proof (cases d)
      case (Inl e)
      then show ?thesis using assms(3) d by (auto simp: Guard_Acquire_def fields)
    next
      case (Inr d0)
      obtain e s2 where a: "ApplyDecision (NewQuotaService (account_table ?repo) g) ctx acc (normalizeEligibilityDecision d0) s1 = (e, s2)"
        by (cases "ApplyDecision (NewQuotaService (account_table ?repo) g) ctx acc (normalizeEligibilityDecision d0) s1")
      then have "s' = s2 \<and> (\<exists>e. r = Inl e)" using assms(3) d Inr False
        by (cases e) (auto simp: Guard_Acquire_def fields Let_def)
      then show ?thesis using a by blast
    qed
    then show ?thesis using one calm_decision [of s1 g ctx acc] by auto
  next
    case True
    then have run: "acquire_claim (pg_guard g) ctx acc ectx s1 = (r, s')" using assms(3) d
      by (auto simp: Guard_Acquire_def fields Let_def)
    obtain cl s2 where cl: "ClaimAccount ?repo ctx acc ectx s1 = (cl, s2)" by (cases "ClaimAccount ?repo ctx acc ectx s1")
    have q2: "quiet s1 s2" using quiet_accounts(4) [OF account_wired, where s = s1 and ctx = ctx and acc = acc and ectx = ectx] cl
      by (metis snd_conv)
    have ok1: "db_ok s1" "db_faults s1 = []" using one by (simp_all add: calm_def)
    note safe = ClaimAccount_safe [OF account_wired cl]
    note two = calm_accounts [OF _ safe q2]
    show ?thesis
    proof (cases cl)
      case (Inl e)
      then have r: "r = Inl (with_stack e)" "s' = s2" using run cl by (auto simp: acquire_claim_def fields)
      have "transaction with_stack (\<lambda>x. with_stack) (claim_account_body ?repo acc ectx) s1 = (Inl e, s2)"
        using cl Inl assms(2) by (auto simp: ClaimAccount_def split: prod.splits sum.splits)
      from transaction_calm [OF ok1(2) quiet_accounts(6) this] have "same_tables s1 s2" .
      from calm_same [OF _ this q2] show ?thesis using r one by simp
    next
      case (Inr a)
      have held: "account_holder s2 = (account_holder s1)(acc := ectx)"
        using ClaimAccount_holder [OF ok1(1) account_wired cl] Inr by auto
      have "account_claimed ?repo acc ectx s1 s2 a" using ClaimAccount_cases [OF ok1(1) account_wired cl] Inr by simp
      then have "acc \<in> set (map arow_id (db_accounts s1))" by (auto simp: account_claimed_def)
      then have "acc \<in> set (map arow_id (db_accounts s2))" using safe ok1(1) by (simp add: account_safe_def account_frame_def)
      then obtain q where q: "q \<in> set (db_accounts s2)" "arow_id q = acc" by auto
      have c2: "calm s2" using two one by simp
      then have ok2: "db_ok s2" "db_faults s2 = []" by (simp_all add: calm_def)
      obtain b where b: "GetAccountWithProxy ctx acc s2 = (Inr b, s2)"
        using select_account_Some [OF ok2(1) q] ok2(2) by (simp add: GetAccountWithProxy_def autocommit_def scan_optional_proxy_def)
      then have "r = Inr b" "s' = s2" using run cl Inr by (auto simp: acquire_claim_def fields)
      then show ?thesis using one two held by simp
    qed
  qed
qed

lemma calm_release:
  assumes "calm s" "account_holder s acc = ectx" "ectx \<noteq> ''''" "Guard_Release (pg_guard g) ctx acc ectx s = (err, s')"
  shows "calm s' \<and> db_tasks s' = db_tasks s \<and> account_holder s' = (account_holder s)(acc := '''') \<and> err = None"
proof -
  let ?repo = "pg_account_repo g :: 'a account_repository"
  have ok: "db_ok s" "db_faults s = []" using assms(1) by (simp_all add: calm_def)
  obtain e s1 where e: "ReleaseAccount ?repo ctx acc ectx s = (e, s1)" by (cases "ReleaseAccount ?repo ctx acc ectx s")
  have run: "s' = s1" "err = None \<longleftrightarrow> e = None"
    using assms(4) e by (cases e; auto simp: Guard_Release_def pg_guard_def NewAccountGuard_def)+
  from assms(2,3) obtain q where q: "q \<in> set (db_accounts s)" "arow_id q = acc" "arow_active_execution_context_id q = Some ectx"
    by (auto simp: account_holder_def account_of_row_def split: option.splits dest: find_SomeD)
  have none: "e = None" using ReleaseAccount_effect [OF ok account_wired q(1,2) e] q(3) by simp
  have "quiet s s1" using quiet_accounts(5) [OF account_wired, where s = s and ctx = ctx and acc = acc and ectx = ectx] e
    by (metis snd_conv)
  then show ?thesis using ReleaseAccount_cases [OF ok(1) account_wired e] calm_accounts [OF assms(1), of s1] none run by auto
qed

definition finished_by :: "string \<Rightarrow> task \<Rightarrow> 'x db_scheme \<Rightarrow> 'x db_scheme \<Rightarrow> bool" where
  "finished_by who tk s s' \<longleftrightarrow> calm s' \<and> worker_tasks who s' = worker_tasks who s - {task_ID tk} \<and> task_finished (task_ID tk) s' \<and>
     other_rows (task_ID tk) s' = other_rows (task_ID tk) s"

text \<open>A failed preparation completes the task and holds no account; another holds the account.\<close>

lemma calm_prepare:
  assumes off: "client_off_tables (wp_client p)" and "calm s" "TrimSpace who \<noteq> ''''" "account_holder s (task_AccountID tk) \<noteq> who"
    and tk: "task_ID tk \<in> worker_tasks who s" "task_ID tk \<noteq> uuid_Nil" "task_AccountID tk \<noteq> uuid_Nil"
      "task_Status tk = TaskStatusRunning" "task_ClaimedBy tk = who"
    and run: "PrepareClaimedTaskContext (wired_execution p) ctx tk s = (r, s')"
  shows "case r of
      Inr pr \<Rightarrow> calm s' \<and> db_tasks s' = db_tasks s \<and> account_holder s' = (account_holder s)(task_AccountID tk := who) \<and>
        pc_ExecutionContextID pr = who
    | Inl e \<Rightarrow> finished_by who tk s s' \<and>
        account_holder s' \<in> {account_holder s, (account_holder s)(task_AccountID tk := '''')}"
proof -
  let ?acc = "task_AccountID tk" and ?S = "wired_execution p"
  let ?tr = "\<lparr>trace_TaskID = task_ID tk, trace_Attempt = task_Attempt tk\<rparr>"
  have who: "who \<noteq> ''''" using assms(3) by auto
  have valid: "validateClaimedTaskForPreparation tk = None" using tk assms(3) by (simp add: validateClaimedTaskForPreparation_def)
  obtain x s1 where x: "prepareExecutionContext ?S ctx ?acc who ?tr s = (x, s1)"
    by (cases "prepareExecutionContext ?S ctx ?acc who ?tr s")
  have prep: "calm s1 \<and> db_tasks s1 = db_tasks s \<and> (case x of
      Inr pr \<Rightarrow> account_holder s1 = (account_holder s)(?acc := who) \<and> pc_ExecutionContextID pr = who
    | Inl e \<Rightarrow> account_holder s1 \<in> {account_holder s, (account_holder s)(?acc := '''')})"
  proof -
    obtain a s2 where a: "Guard_Acquire (pg_guard (wp_guardrails p)) ctx ?acc who s = (a, s2)"
      by (cases "Guard_Acquire (pg_guard (wp_guardrails p)) ctx ?acc who s")
    note two = calm_acquire [OF assms(2) who a]
    show ?thesis
    proof (cases a)
      case (Inl e)
      then show ?thesis using x a two tk(3) who by (auto simp: prepareExecutionContext_def)
    next
      case (Inr awp)
      define rctx where "rctx = (if trace_TaskID ?tr \<noteq> uuid_Nil \<and> trace_Attempt ?tr > 0
          then WithRestoreLifecycleContext ctx (trace_TaskID ?tr) (trace_Attempt ?tr) else ctx)"
      obtain m pl err s3 where re: "Restore (wired_restorer p) rctx ?acc s2 = ((m, pl, err), s3)" by (metis prod.collapse)
      have step: "(x, s1) = (case err of
            None \<Rightarrow> (Inr \<lparr>pc_AccountWithProxy = awp, pc_SessionMetadata = m, pc_SessionPayload = pl,
                  pc_TaskID = trace_TaskID ?tr, pc_Attempt = trace_Attempt ?tr, pc_ExecutionContextID = who,
                  pc_ReadyForFollowFlow = True, pc_BootstrapRequired = False, pc_BootstrapReason = no_error_code,
                  pc_BootstrapSource = no_error_code\<rparr>, s3)
          | Some e \<Rightarrow> (case bootstrapPreparationContextFromRestoreError ?S e awp who ?tr of
               Some prepared \<Rightarrow> (Inr prepared, s3)
             | None \<Rightarrow> (case Guard_Release (pg_guard (wp_guardrails p)) ctx ?acc who s3 of
                 (None, w3) \<Rightarrow> (Inl (with_stack e), w3)
               | (Some releaseErr, w3) \<Rightarrow>
                   (Inl (with_stack (JoinErr [e, stackerr_Wrap (Some releaseErr)
                                                    ''failed to release account after restore error''])), w3))))"
        unfolding x [symmetric] prepareExecutionContext_def Let_def rctx_def [symmetric] wired_execution_fields a [unfolded Inr]
        using tk(3) who by (simp add: a [unfolded Inr] re split: option.split)
      note three = calm_aside [OF _ aside_restore [OF off re]]
      have c3: "calm s3" "db_tasks s3 = db_tasks s" "account_holder s3 = (account_holder s)(?acc := who)"
        using three two Inr by simp_all
      obtain rel s4 where rel: "Guard_Release (pg_guard (wp_guardrails p)) ctx ?acc who s3 = (rel, s4)"
        by (cases "Guard_Release (pg_guard (wp_guardrails p)) ctx ?acc who s3")
      have four: "calm s4" "db_tasks s4 = db_tasks s" "account_holder s4 = (account_holder s)(?acc := '''')"
        using calm_release [OF c3(1) _ who rel] c3 by simp_all
      show ?thesis
      proof (cases err)
        case None
        then show ?thesis using step c3 by simp
      next
        case (Some e)
        show ?thesis
        proof (cases "bootstrapPreparationContextFromRestoreError ?S e awp who ?tr")
          case None
          then have "s1 = s4" "\<exists>e. x = Inl e" using step Some rel
            by (cases rel; auto)+
          then show ?thesis using four by auto
        next
          case (Some pr)
          then have "s1 = s3" "x = Inr pr" using step \<open>err = Some e\<close> by simp_all
          moreover have "pc_ExecutionContextID pr = who" using Some
            by (auto simp: bootstrapPreparationContextFromRestoreError_def Let_def split: prod.splits if_splits)
          ultimately show ?thesis using c3 by simp
        qed
      qed
    qed
  qed
  show ?thesis
  proof (cases x)
    case (Inr pr)
    then show ?thesis using run valid x tk(5) prep by (auto simp: PrepareClaimedTaskContext_def)
  next
    case (Inl e)
    obtain st code reason where c: "classifyLifecyclePreparationFailure e = (st, code, reason)" by (metis prod.collapse)
    have vc: "valid_completion (st, code, reason)"
      using c deterministic_status reason_has_paren
      by (auto simp: valid_completion_def classifyLifecyclePreparationFailure_def Let_def intro!: completion_valid)
    obtain t s2 where t: "Complete (Some pg_audit_log) (\<lambda>k t. t) ctx (task_ID tk) who st code reason s1 = (t, s2)"
      by (cases "Complete (Some pg_audit_log) (\<lambda>k t. t) ctx (task_ID tk) who st code reason s1")
    have c1: "calm s1" "db_tasks s1 = db_tasks s" using prep by simp_all
    have held: "task_ID tk \<in> worker_tasks who s1" using tk(1) worker_tasks_same [OF c1(2)] by simp
    have "s' = s2" "\<exists>e. r = Inl e" using run valid x tk(2,5) Inl c t assms(3)
      by (cases t; auto simp: PrepareClaimedTaskContext_def completePreparationFailure_def task_table_def)+
    then show ?thesis
      using calm_complete [OF c1(1) assms(3) held tk(2) vc t] prep Inl worker_tasks_same [OF c1(2), of who]
        other_rows_same [OF c1(2)]
      by (auto simp: finished_by_def)
  qed
qed


section \<open>One iteration\<close>

definition idle :: "string \<Rightarrow> 'x db_scheme \<Rightarrow> bool" where
  "idle who s \<longleftrightarrow> worker_tasks who s = {} \<and> worker_accounts who s = {}"

lemma idle_same: "db_tasks s' = db_tasks s \<Longrightarrow> account_holder s' = account_holder s \<Longrightarrow> idle who s' = idle who s"
  by (simp add: idle_def worker_tasks_def worker_accounts_def)

lemma claim_succeeds:
  assumes "calm s" "TrimSpace who \<noteq> ''''" "claimable s \<noteq> []" "\<forall>q \<in> set (claimable s). trow_attempt q < int4_max"
  shows "\<exists>tk s'. ClaimNextQueued (Some pg_audit_log) ctx who s = (Inr (Some tk), s')"
proof -
  have c: "db_ok s" "db_faults s = []" using assms(1) by (auto simp: calm_def)
  obtain q qs where q: "claimable s = q # qs" using assms(3) by (cases "claimable s") auto
  then have "q \<in> set (claimable s)" by simp
  then have mem: "q \<in> set (db_tasks s)" "trow_status q = TaskStatusQueued" by (auto simp: claimable_def)
  have dist: "distinct (map trow_id (db_tasks s))" and ok: "task_row_ok q"
    using c(1) mem(1) by (auto simp: db_ok_def tasks_ok_def list_all_iff)
  have "find (\<lambda>x. trow_id x = trow_id q) (db_tasks s) = Some q" using find_map_of [OF dist mem(1)] .
  moreover have "task_row_ok (claim_row who (db_now s) q)"
    using claim_row_ok [OF ok mem(2) _ assms(2)] assms(4) q by simp
  ultimately obtain tk s1 where "claim_body who s = (Inr (Some tk), s1)" "db_faults s1 = []"
    using c(2) q by (simp add: claim_body_def scanTask_def in_tx_def pop_fault_def claim_next_def update_task_def)
  then show ?thesis using assms(2) c(2) by (simp add: ClaimNextQueued_def transaction_def pop_fault_def)
qed

text \<open>A task in the hands of the worker is executed: it ends finished, with its account released.\<close>

lemma execution_ends:
  assumes parts: "parts_off_tables p" "wp_workerID p = who" and calm: "calm s" and who: "TrimSpace who \<noteq> ''''"
    and none: "worker_accounts who s = {}"
    and tk: "worker_tasks who s = {task_ID tk}" "task_ID tk \<noteq> uuid_Nil" "task_AccountID tk \<noteq> uuid_Nil"
      "task_Status tk = TaskStatusRunning" "task_ClaimedBy tk = who"
  shows "calm (executeClaimedTask (wired_loop p) ctx tk s) \<and> idle who (executeClaimedTask (wired_loop p) ctx tk s) \<and>
    task_finished (task_ID tk) (executeClaimedTask (wired_loop p) ctx tk s) \<and>
    other_rows (task_ID tk) (executeClaimedTask (wired_loop p) ctx tk s) = other_rows (task_ID tk) s"
proof -
  let ?l = "wired_loop p" and ?ex = "execution_of_service (wired_execution p)"
  have ne: "who \<noteq> ''''" using who by auto
  have off: "client_off_tables (wp_client p)" using parts(1) by (simp add: parts_off_tables_def)
  have wired: "cl_execution ?l = Some ?ex" "cl_workerID ?l = who" "cl_repository ?l = task_table"
    using parts(2) by (simp_all add: wired_loop_def NewClaimLoop_def)
  have free: "account_holder s acc \<noteq> who" for acc using none by (auto simp: worker_accounts_def)
  obtain r w1 where r: "le_Prepare ?ex ctx tk s = (r, w1)" by (cases "le_Prepare ?ex ctx tk s")
  have held: "task_ID tk \<in> worker_tasks who s" using tk(1) by simp
  have prep: "PrepareClaimedTaskContext (wired_execution p) ctx tk s = (r, w1)"
    using r by (simp add: execution_of_service_def)
  note P = calm_prepare [OF off calm who free held tk(2-5) prep]
  show ?thesis
  proof (cases r)
    case (Inl e)
    then have "executeClaimedTask ?l ctx tk s = w1" using wired r by (simp add: executeClaimedTask_def)
    moreover have "finished_by who tk s w1" "account_holder w1 \<in> {account_holder s, (account_holder s)(task_AccountID tk := '''')}"
      using P Inl by simp_all
    moreover have "account_holder w1 acc \<noteq> who" for acc using P Inl free [of acc] ne by (auto split: if_splits)
    then have "worker_accounts who w1 = {}" by (simp add: worker_accounts_def)
    ultimately show ?thesis using tk(1) by (simp add: finished_by_def idle_def)
  next
    case (Inr pr)
    define H where "H = (account_holder s)(task_AccountID tk := who)"
    define J where "J = (\<lambda>w :: 'a storage_scheme. calm w \<and> worker_tasks who w = {task_ID tk} \<and> account_holder w = H \<and>
        other_rows (task_ID tk) w = other_rows (task_ID tk) s)"
    have "db_tasks w1 = db_tasks s" using P Inr by simp
    then have Jw1: "J w1" and ectx: "pc_ExecutionContextID pr = who"
      using P Inr tk(1) worker_tasks_same [of w1 s who] other_rows_same [of w1 s] by (simp_all add: J_def H_def)
    have J: "J w \<Longrightarrow> aside w w' \<Longrightarrow> J w'" for w w' :: "'a storage_scheme"
      using calm_aside [of w w'] worker_tasks_same [of w' w who] other_rows_same [of w' w] by (auto simp: J_def)
    have "completes ?l ctx tk J (execute_prepared ?l ?ex ctx tk who pr w1)"
      using execute_prepared_completes [where J = J and w = w1 and l = ?l and ex = ?ex] wired_keeps [where J = J and p = p] parts(1) J Jw1
      by blast
    then obtain w st code reason where w: "J w" "valid_completion (st, code, reason)"
      "execute_prepared ?l ?ex ctx tk who pr w1 = snd (Loop_Complete ?l ctx (task_ID tk) st code reason w)"
      by (auto simp: completes_def)
    obtain c w2 where c: "Complete (Some pg_audit_log) (\<lambda>k t. t) ctx (task_ID tk) who st code reason w = (c, w2)"
      by (cases "Complete (Some pg_audit_log) (\<lambda>k t. t) ctx (task_ID tk) who st code reason w")
    have "calm w" "task_ID tk \<in> worker_tasks who w" using w(1) by (simp_all add: J_def)
    from calm_complete [OF this(1) who this(2) tk(2) w(2) c] w(1)
    obtain tk2 where two: "calm w2" "worker_tasks who w2 = {}" "account_holder w2 = H" "task_finished (task_ID tk) w2" "c = Inr tk2"
      "other_rows (task_ID tk) w2 = other_rows (task_ID tk) s"
      by (auto simp: J_def)
    define w3 where "w3 = snd (Loop_Complete ?l ctx (task_ID tk) st code reason w)"
    have "db_part w3 = db_part w2"
      using c two(5) wired parts(1)
      by (simp add: w3_def Loop_Complete_def task_table_def wired_loop_def NewClaimLoop_def parts_off_tables_def)
    then have a3: "aside w2 w3" by (rule db_part_aside)
    note three = calm_aside [OF two(1) a3]
    have c3: "calm w3" "worker_tasks who w3 = {}" "account_holder w3 = H" "task_finished (task_ID tk) w3"
      "other_rows (task_ID tk) w3 = other_rows (task_ID tk) s"
      using three two other_rows_same [of w3 w2] worker_tasks_same [of w3 w2 who] task_finished_same [of w3 w2 "task_ID tk"] by simp_all
    obtain e w4 where e: "Guard_Release (pg_guard (wp_guardrails p)) ctx (task_AccountID tk) who w3 = (e, w4)"
      by (cases "Guard_Release (pg_guard (wp_guardrails p)) ctx (task_AccountID tk) who w3")
    have "account_holder w3 (task_AccountID tk) = who" using c3(3) by (simp add: H_def)
    from calm_release [OF c3(1) this ne e] have four: "calm w4" "db_tasks w4 = db_tasks w3"
      "account_holder w4 = (account_holder w3)(task_AccountID tk := '''')" "e = None" by simp_all
    have "le_Release ?ex ctx (task_AccountID tk) who w3 = (None, w4)"
      using e four(4) tk(3) ne by (simp add: execution_of_service_def ReleaseExecutionContext_def)
    then have "executeClaimedTask ?l ctx tk s = w4"
      using wired(1) r Inr ectx ne w(3) w3_def [symmetric] by (simp add: executeClaimedTask_def releaseExecutionContext_def)
    moreover have "account_holder w4 acc \<noteq> who" for acc using four(3) c3(3) free [of acc] ne by (simp add: H_def)
    then have "worker_accounts who w4 = {}" by (simp add: worker_accounts_def)
    moreover have "worker_tasks who w4 = {}" "task_finished (task_ID tk) w4"
      "other_rows (task_ID tk) w4 = other_rows (task_ID tk) s"
      using four(2) c3 other_rows_same [of w4 w3] worker_tasks_same [of w4 w3 who] task_finished_same [of w4 w3 "task_ID tk"] by simp_all
    ultimately show ?thesis using four(1) by (simp add: idle_def)
  qed
qed


definition queued_rows :: "'x db_scheme \<Rightarrow> task_row set" where
  "queued_rows s = {q \<in> set (db_tasks s). trow_status q = TaskStatusQueued}"

text \<open>From \<open>s\<close> to \<open>s'\<close> the worker has finished the task of a queued row and touched no other row.\<close>

definition finished_one :: "'x db_scheme \<Rightarrow> 'x db_scheme \<Rightarrow> bool" where
  "finished_one s s' \<longleftrightarrow>
     (\<exists>q \<in> queued_rows s. task_finished (trow_id q) s' \<and> other_rows (trow_id q) s' = other_rows (trow_id q) s)"

lemma claimable_queued: "calm s \<Longrightarrow> set (claimable s) = queued_rows s"
  by (auto simp: calm_def claimable_def queued_rows_def)

lemma iteration_ends:
  assumes parts: "parts_off_tables p" "wp_workerID p = who" and calm: "calm s" and who: "TrimSpace who \<noteq> ''''"
    and idle: "idle who s"
  shows "calm (runIteration (wired_loop p) ctx s) \<and> idle who (runIteration (wired_loop p) ctx s) \<and>
    (db_tasks (runIteration (wired_loop p) ctx s) = db_tasks s \<or> finished_one s (runIteration (wired_loop p) ctx s)) \<and>
    (hs_Status (fst (wp_health p ctx s)) = StatusReady \<and> queued_rows s \<noteq> {} \<and>
       (\<forall>q \<in> queued_rows s. trow_attempt q < int4_max) \<longrightarrow> finished_one s (runIteration (wired_loop p) ctx s))"
proof -
  let ?l = "wired_loop p"
  have fields: "cl_health ?l = Some (wp_health p)" "cl_metrics ?l = Some (wp_metrics p)" "cl_workerID ?l = who"
    "cl_repository ?l = task_table" "lt_ClaimNextQueued task_table = ClaimNextQueued (Some pg_audit_log)"
    using parts(2) by (simp_all add: wired_loop_def NewClaimLoop_def task_table_def)
  obtain h s0 where h: "wp_health p ctx s = (h, s0)" by (cases "wp_health p ctx s")
  have "off_tables (wp_health p ctx)" using parts(1) by (simp add: parts_off_tables_def)
  from off_tables_aside [OF this h] have a0: "aside s s0" .
  have 0: "calm s0" "db_tasks s0 = db_tasks s" "idle who s0"
    using calm_aside [OF calm a0] idle_same [of s0 s who] idle by auto
  have rows: "queued_rows s0 = queued_rows s" "other_rows tid s0 = other_rows tid s" for tid
    using 0(2) by (simp_all add: queued_rows_def other_rows_def)
  obtain r s1 where r: "ClaimNextQueued (Some pg_audit_log) ctx who s0 = (r, s1)"
    by (cases "ClaimNextQueued (Some pg_audit_log) ctx who s0")
  note C = calm_claim [OF 0(1) who r]
  show ?thesis
  proof (cases "hs_Status h = StatusReady")
    case False
    then have "runIteration ?l ctx s = s0" using h by (simp add: runIteration_def ClaimOnce_def fields)
    then show ?thesis using 0 False h by simp
  next
    case ready: True
    show ?thesis
    proof (cases "\<exists>tk. r = Inr (Some tk)")
      case False
      define w1 where "w1 = runIteration ?l ctx s"
      have "w1 = s1 \<or> (\<exists>st c. w1 = recordErrorMetric ?l st c s1)"
        using False ready h r by (cases r) (auto simp: w1_def runIteration_def ClaimOnce_def fields split: option.splits)
      then have a1: "aside s1 w1" using aside_metrics(1) [OF parts(1)] aside_refl by auto
      have 1: "calm s1" "db_tasks s1 = db_tasks s0" "account_holder s1 = account_holder s0"
        using C False by (auto split: sum.splits option.splits)
      have 2: "calm w1" "db_tasks w1 = db_tasks s0" "idle who w1"
        using calm_aside [OF 1(1) a1] 1 idle_same [of w1 s0 who] 0(3) by auto
      have "queued_rows s = {} \<or> \<not> (\<forall>q \<in> queued_rows s. trow_attempt q < int4_max)"
        using claim_succeeds [OF 0(1) who, of ctx] r False claimable_queued [OF 0(1)] rows(1)
        by (cases "claimable s0 = []") auto
      then show ?thesis using 2 0(2) by (auto simp: w1_def [symmetric])
    next
      case True
      then obtain tk where tk: "r = Inr (Some tk)" by blast
      let ?m = "wp_metrics p"
      define w1 where "w1 = lm_RecordStarted ?m (lm_RecordClaimed ?m s1)"
      have "db_part w1 = db_part s1" using parts(1) by (simp add: w1_def parts_off_tables_def)
      then have a1: "aside s1 w1" by (rule db_part_aside)
      have 1: "calm s1" "account_holder s1 = account_holder s0" "worker_tasks who s1 = insert (task_ID tk) (worker_tasks who s0)"
        "task_ID tk \<noteq> uuid_Nil" "task_AccountID tk \<noteq> uuid_Nil" "task_Status tk = TaskStatusRunning"
        "task_ClaimedBy tk = who" "task_ID tk \<in> trow_id ` queued_rows s0"
        "other_rows (task_ID tk) s1 = other_rows (task_ID tk) s0"
        using C tk claimable_queued [OF 0(1)] by simp_all
      have 2: "calm w1" "db_tasks w1 = db_tasks s1" "account_holder w1 = account_holder s0"
        using calm_aside [OF 1(1) a1] 1(2) by simp_all
      have "worker_accounts who w1 = {}" "worker_tasks who w1 = {task_ID tk}"
        using 0(3) 1(3) 2 worker_tasks_same [of w1 s1 who] by (simp_all add: idle_def worker_accounts_def)
      from execution_ends [OF parts 2(1) who this 1(4-7), of ctx]
      have 3: "calm (executeClaimedTask ?l ctx tk w1)" "idle who (executeClaimedTask ?l ctx tk w1)"
        "task_finished (task_ID tk) (executeClaimedTask ?l ctx tk w1)"
        "other_rows (task_ID tk) (executeClaimedTask ?l ctx tk w1) = other_rows (task_ID tk) w1" by simp_all
      have run: "runIteration ?l ctx s = executeClaimedTask ?l ctx tk w1"
        using ready h r tk by (simp add: runIteration_def ClaimOnce_def fields w1_def)
      have "finished_one s (runIteration ?l ctx s)"
        using 3(3,4) 1(8,9) rows other_rows_same [OF 2(2), of "task_ID tk"] by (auto simp: finished_one_def run)
      then show ?thesis using 3(1,2) by (simp add: run)
    qed
  qed
qed

lemma finished_one_rows:
  assumes "finished_one s s'" "calm s" "calm s'"
  shows "queued_rows s' \<subset> queued_rows s" "\<forall>q \<in> queued_rows s - queued_rows s'. task_finished (trow_id q) s'"
    "task_finished tid s \<Longrightarrow> task_finished tid s'"
proof -
  from assms(1) obtain q where q: "q \<in> queued_rows s" "task_finished (trow_id q) s'"
    "other_rows (trow_id q) s' = other_rows (trow_id q) s" by (auto simp: finished_one_def)
  from q(2) obtain x where x: "x \<in> set (db_tasks s')" "trow_id x = trow_id q" "trow_status x \<noteq> TaskStatusQueued"
    by (auto simp: task_finished_def)
  have dist: "distinct (map trow_id (db_tasks s))" "distinct (map trow_id (db_tasks s'))"
    using assms(2,3) by (simp_all add: calm_def db_ok_def tasks_ok_def)
  have other: "y \<in> set (db_tasks s') \<longleftrightarrow> y \<in> set (db_tasks s)" if "trow_id y \<noteq> trow_id q" for y
    using q(3) that by (auto simp: other_rows_def)
  have gone: "y \<notin> queued_rows s'" if "trow_id y = trow_id q" for y
    using distinct_id_eq [OF dist(2) _ x(1), of y] that x(2,3) by (auto simp: queued_rows_def)
  have new: "queued_rows s' = queued_rows s - {y. trow_id y = trow_id q}"
    using gone other by (auto simp: queued_rows_def)
  then show "queued_rows s' \<subset> queued_rows s" using q(1) by auto
  have "y = q" if "y \<in> queued_rows s" "trow_id y = trow_id q" for y
    using distinct_id_eq [OF dist(1)] that q(1) by (auto simp: queued_rows_def)
  then show "\<forall>q \<in> queued_rows s - queued_rows s'. task_finished (trow_id q) s'" using new q(2) by auto
  show "task_finished tid s'" if "task_finished tid s"
  proof (cases "tid = trow_id q")
    case False
    then show ?thesis using that other by (auto simp: task_finished_def)
  qed (use q(2) in simp)
qed

lemma ticks_end:
  assumes parts: "parts_off_tables p" "wp_workerID p = who" and who: "TrimSpace who \<noteq> ''''"
    and "calm s" "idle who s"
  shows "calm (loop_ticks (wired_loop p) ctx n s) \<and> idle who (loop_ticks (wired_loop p) ctx n s)"
  using assms(4,5)
proof (induction n arbitrary: s)
  case (Suc n)
  from iteration_ends [OF parts Suc.prems(1) who Suc.prems(2), of ctx] Suc.IH show ?case by simp
qed simp

lemma ticks_drain:
  assumes parts: "parts_off_tables p" "wp_workerID p = who" and who: "TrimSpace who \<noteq> ''''"
    and ready: "\<And>s. hs_Status (fst (wp_health p ctx s)) = StatusReady"
    and "calm s" "idle who s" "\<forall>q \<in> queued_rows s. trow_attempt q < int4_max" "card (queued_rows s) \<le> n"
  shows "queued_rows (loop_ticks (wired_loop p) ctx n s) = {} \<and>
    (\<forall>tid. tid \<in> trow_id ` queued_rows s \<or> task_finished tid s \<longrightarrow> task_finished tid (loop_ticks (wired_loop p) ctx n s))"
  using assms(5-8)
proof (induction n arbitrary: s)
  case 0
  have "finite (queued_rows s)" by (simp add: queued_rows_def)
  then show ?case using 0 by simp
next
  case (Suc n)
  let ?s = "runIteration (wired_loop p) ctx s"
  have fin: "finite (queued_rows s)" by (simp add: queued_rows_def)
  note it = iteration_ends [OF parts Suc.prems(1) who Suc.prems(2), of ctx]
  show ?case
  proof (cases "queued_rows s = {}")
    case True
    then have "\<not> finished_one s ?s" by (simp add: finished_one_def)
    then have "db_tasks ?s = db_tasks s" using it by blast
    then have "queued_rows ?s = {}" "\<And>tid. task_finished tid ?s = task_finished tid s"
      using True task_finished_same by (auto simp: queued_rows_def)
    then show ?thesis using Suc.IH [of ?s] it True by simp
  next
    case False
    then have one: "finished_one s ?s" using it ready [of s] Suc.prems(3) by simp
    have calm': "calm ?s" using it by simp
    note rows = finished_one_rows [OF one Suc.prems(1) calm']
    have "card (queued_rows ?s) < card (queued_rows s)" using psubset_card_mono [OF fin rows(1)] .
    then have "queued_rows (loop_ticks (wired_loop p) ctx n ?s) = {} \<and> (\<forall>tid. tid \<in> trow_id ` queued_rows ?s \<or>
        task_finished tid ?s \<longrightarrow> task_finished tid (loop_ticks (wired_loop p) ctx n ?s))"
      using Suc.IH [of ?s] it rows(1) Suc.prems(3,4) by auto
    moreover have "tid \<in> trow_id ` queued_rows s \<or> task_finished tid s \<Longrightarrow>
        tid \<in> trow_id ` queued_rows ?s \<or> task_finished tid ?s" for tid using rows(2,3) by blast
    ultimately show ?thesis unfolding loop_ticks.simps by blast
  qed
qed



section \<open>Theorems\<close>

text \<open>
  C1.  On a database whose driver does not fail, however often it ticks and whatever the browser, the object
  storage and the health check answer, a worker that starts with nothing in its hands ends with nothing in
  its hands: no task is running in its name, it holds no account, and all constraints hold.
\<close>

theorem worker_leaves_nothing_behind:
  assumes "parts_off_tables p" "TrimSpace (wp_workerID p) \<noteq> ''''" "calm s" "idle (wp_workerID p) s"
  shows "calm (Loop_Run (wired_loop p) ctx n s) \<and> idle (wp_workerID p) (Loop_Run (wired_loop p) ctx n s)"
  using ticks_end [OF assms(1) refl assms(2-4), of ctx "Suc n"] by (simp add: Loop_Run_def)

text \<open>
  C2.  And while the health check reports the worker ready, it finishes a queued task with every tick: with
  as many ticks as there are queued tasks none is left, and each of them has ended as a success, a failure
  or for a retry.  (Every attempt counter has room for one more.)
\<close>

theorem worker_drains_the_queue:
  assumes "parts_off_tables p" "TrimSpace (wp_workerID p) \<noteq> ''''" "calm s" "idle (wp_workerID p) s"
    "\<And>w. hs_Status (fst (wp_health p ctx w)) = StatusReady" "\<forall>q \<in> queued_rows s. trow_attempt q < int4_max"
    "card (queued_rows s) \<le> n + 1"
  shows "queued_rows (Loop_Run (wired_loop p) ctx n s) = {} \<and>
    (\<forall>q \<in> queued_rows s. task_finished (trow_id q) (Loop_Run (wired_loop p) ctx n s))"
  using ticks_drain [OF assms(1) refl assms(2,5,3,4,6), of "Suc n"] assms(7) by (simp add: Loop_Run_def)

text \<open>A worker whose site always follows and verifies, on a bucket and a database with one queued task.\<close>

definition sample_parts :: "world worker_parts" where
  "sample_parts =
     \<lparr>wp_guardrails = DefaultRuntimeGuardrails,
      wp_policy = \<lparr>BootstrapLoginEnabled = False, AllowMissingPayloadOnFirstRun = False\<rparr>,
      wp_client = minio_client, wp_bucket = ''sessions'',
      wp_bootstrap = (\<lambda>ctx i w. (Inl (PlainErr ''no browser''), w)),
      wp_follow = (\<lambda>ctx i w. ((FollowFlowOutcomeCompleted, zero_diagnostics, None), w)),
      wp_verify = (\<lambda>ctx i w. (Inr sample_verified, w)), wp_png = (\<lambda>px. Inr []),
      wp_health = (\<lambda>ctx w. (\<lparr>hs_Status = StatusReady, hs_Dependencies = [], hs_Version = '''', hs_Diagnostics = []\<rparr>, w)),
      wp_metrics = \<lparr>lm_RecordClaimed = (\<lambda>w. w), lm_RecordStarted = (\<lambda>w. w), lm_RecordCompleted = (\<lambda>st w. w),
                    lm_RecordError = (\<lambda>st w. w)\<rparr>,
      wp_extended = \<lparr>lx_RecordErrorCode = (\<lambda>st c w. w), lx_RecordExecutionOutcome = (\<lambda>oc w. w)\<rparr>,
      wp_workerID = ''w1'', wp_interval = 1000000000\<rparr>"

definition sample_work :: world where
  "sample_work = world_of (sample_db [sample_queued]) Map.empty"

lemma minio_off_tables: "client_off_tables minio_client"
proof -
  have same: "db_part (snd r) = db_part w" if "storage.truncate (snd r) = storage.truncate w"
    for r :: "'r \<times> 'z world_scheme" and w :: "'z world_scheme"
    using db_part_truncate [OF that] by simp
  show ?thesis
    unfolding client_off_tables_def off_tables_def
    by (intro conjI allI; rule same; rule bucket.frame [OF prod.collapse [symmetric]])
qed

lemma sample_parts_facts:
  "parts_off_tables sample_parts" "TrimSpace (wp_workerID sample_parts) \<noteq> ''''"
  "calm sample_work" "idle (wp_workerID sample_parts) sample_work"
  "\<And>ctx w. hs_Status (fst (wp_health sample_parts ctx w)) = StatusReady" "queued_rows sample_work = {sample_queued}"
proof -
  show "parts_off_tables sample_parts"
    using minio_off_tables by (simp add: parts_off_tables_def sample_parts_def off_tables_def)
  show "TrimSpace (wp_workerID sample_parts) \<noteq> ''''" by code_simp
  show "\<And>ctx w. hs_Status (fst (wp_health sample_parts ctx w)) = StatusReady" by (simp add: sample_parts_def)
  have tables: "db_tasks sample_work = [sample_queued]" "db_accounts sample_work = [sample_account]"
    "db_proxies sample_work = [sample_proxy]" "db_sessions sample_work = []" "db_results sample_work = []"
    "db_audit sample_work = []" "db_now sample_work = 10" "db_faults sample_work = []" "db_locked sample_work = []"
    by (simp_all add: sample_work_def world_of_def sample_db_def storage.defs world.defs db.defs)
  show "queued_rows sample_work = {sample_queued}"
    by (auto simp: queued_rows_def tables) (simp add: sample_queued_def queued_row_def)
  show "calm sample_work"
    using sample_db_ok(1) [of sample_queued] unfolding calm_def db_ok_def
    by (simp add: tables) (simp add: sample_db_def clock_ok_def tables sample_queued_def queued_row_def uuid_Nil_def)
  show "idle (wp_workerID sample_parts) sample_work"
    by (auto simp: idle_def worker_tasks_def worker_accounts_def account_holder_def tables sample_parts_def
        sample_queued_def queued_row_def sample_account_def account_of_row_def split: option.splits)
qed

lemma worker_leaves_nothing_behind_witness:
  "idle ''w1'' (Loop_Run (wired_loop sample_parts) Background 3 sample_work)"
  using worker_leaves_nothing_behind [OF sample_parts_facts(1-4), where ctx = Background and n = 3] by (simp add: sample_parts_def)

lemma worker_drains_the_queue_witness:
  "trow_status sample_queued = TaskStatusQueued \<and>
   task_finished ''t1'' (Loop_Run (wired_loop sample_parts) Background 0 sample_work)"
proof -
  have "trow_attempt sample_queued < int4_max" "trow_id sample_queued = ''t1''" "trow_status sample_queued = TaskStatusQueued"
    by (simp_all add: sample_queued_def queued_row_def int4_max_def)
  then show ?thesis
    using worker_drains_the_queue [OF sample_parts_facts(1-5), where ctx = Background and n = 0] sample_parts_facts(6) by simp
qed

end
