(* ===== verification/Browser_Rules.thy ===== *)
theory Browser_Rules
  imports Follow_Domain
begin

text \<open>
  \<open>internal/browser/oskelly_follow_rules.go\<close>, \<open>oskelly_verify_rules.go\<close> and the text rules of
  \<open>auth_detection.go\<close>, \<open>verify_flow.go\<close> and \<open>playwright_follow_adapter.go\<close>: the selectors that are looked
  for, which address is a login page and which a profile, and the codes that errors of the browser are
  reduced to.

  The Russian texts are their UTF-8 bytes.  \<open>strings.ToLower\<close> of a button text lowers Latin and Russian
  letters (\<open>ToLowerText\<close>); addresses and error texts are ASCII.
\<close>

section \<open>Selectors\<close>

definition ru_followed_f :: string where
  "ru_followed_f = [CHR 0xD0, CHR 0x9F, CHR 0xD0, CHR 0xBE, CHR 0xD0, CHR 0xB4, CHR 0xD0, CHR 0xBF, CHR 0xD0,
     CHR 0xB8, CHR 0xD1, CHR 0x81, CHR 0xD0, CHR 0xB0, CHR 0xD0, CHR 0xBD, CHR 0x20, CHR 0x28,
     CHR 0x2D, CHR 0xD0, CHR 0xB0, CHR 0x29]"

definition ru_followed :: string where
  "ru_followed = [CHR 0xD0, CHR 0x9F, CHR 0xD0, CHR 0xBE, CHR 0xD0, CHR 0xB4, CHR 0xD0, CHR 0xBF, CHR 0xD0,
     CHR 0xB8, CHR 0xD1, CHR 0x81, CHR 0xD0, CHR 0xB0, CHR 0xD0, CHR 0xBD]"

definition ru_followed_pl :: string where
  "ru_followed_pl = [CHR 0xD0, CHR 0x9F, CHR 0xD0, CHR 0xBE, CHR 0xD0, CHR 0xB4, CHR 0xD0, CHR 0xBF, CHR 0xD0,
     CHR 0xB8, CHR 0xD1, CHR 0x81, CHR 0xD0, CHR 0xB0, CHR 0xD0, CHR 0xBD, CHR 0xD1, CHR 0x8B]"

definition ru_you_follow :: string where
  "ru_you_follow = [CHR 0xD0, CHR 0x92, CHR 0xD1, CHR 0x8B, CHR 0x20, CHR 0xD0, CHR 0xBF, CHR 0xD0, CHR 0xBE,
     CHR 0xD0, CHR 0xB4, CHR 0xD0, CHR 0xBF, CHR 0xD0, CHR 0xB8, CHR 0xD1, CHR 0x81, CHR 0xD0,
     CHR 0xB0, CHR 0xD0, CHR 0xBD, CHR 0xD1, CHR 0x8B]"

definition ru_unfollow :: string where
  "ru_unfollow = [CHR 0xD0, CHR 0x9E, CHR 0xD1, CHR 0x82, CHR 0xD0, CHR 0xBF, CHR 0xD0, CHR 0xB8, CHR 0xD1,
     CHR 0x81, CHR 0xD0, CHR 0xB0, CHR 0xD1, CHR 0x82, CHR 0xD1, CHR 0x8C, CHR 0xD1, CHR 0x81,
     CHR 0xD1, CHR 0x8F]"

definition ru_follow :: string where
  "ru_follow = [CHR 0xD0, CHR 0x9F, CHR 0xD0, CHR 0xBE, CHR 0xD0, CHR 0xB4, CHR 0xD0, CHR 0xBF, CHR 0xD0,
     CHR 0xB8, CHR 0xD1, CHR 0x81, CHR 0xD0, CHR 0xB0, CHR 0xD1, CHR 0x82, CHR 0xD1, CHR 0x8C,
     CHR 0xD1, CHR 0x81, CHR 0xD1, CHR 0x8F]"

definition ru_follow_seller :: string where
  "ru_follow_seller = [CHR 0xD0, CHR 0x9F, CHR 0xD0, CHR 0xBE, CHR 0xD0, CHR 0xB4, CHR 0xD0, CHR 0xBF, CHR 0xD0,
     CHR 0xB8, CHR 0xD1, CHR 0x81, CHR 0xD0, CHR 0xB0, CHR 0xD1, CHR 0x82, CHR 0xD1, CHR 0x8C,
     CHR 0xD1, CHR 0x81, CHR 0xD1, CHR 0x8F, CHR 0x20, CHR 0xD0, CHR 0xBD, CHR 0xD0, CHR 0xB0,
     CHR 0x20, CHR 0xD0, CHR 0xBF, CHR 0xD1, CHR 0x80, CHR 0xD0, CHR 0xBE, CHR 0xD0, CHR 0xB4,
     CHR 0xD0, CHR 0xB0, CHR 0xD0, CHR 0xB2, CHR 0xD1, CHR 0x86, CHR 0xD0, CHR 0xB0]"

definition ru_not_found :: string where
  "ru_not_found = [CHR 0xD0, CHR 0x9F, CHR 0xD1, CHR 0x80, CHR 0xD0, CHR 0xBE, CHR 0xD1, CHR 0x84, CHR 0xD0,
     CHR 0xB8, CHR 0xD0, CHR 0xBB, CHR 0xD1, CHR 0x8C, CHR 0x20, CHR 0xD0, CHR 0xBD, CHR 0xD0,
     CHR 0xB5, CHR 0x20, CHR 0xD0, CHR 0xBD, CHR 0xD0, CHR 0xB0, CHR 0xD0, CHR 0xB9, CHR 0xD0,
     CHR 0xB4, CHR 0xD0, CHR 0xB5, CHR 0xD0, CHR 0xBD]"

definition has_text :: "string \<Rightarrow> string \<Rightarrow> string" where
  "has_text element t = element @ '':has-text('' @ [CHR 0x27] @ t @ [CHR 0x27] @ '')''"

definition ready_signals :: "string list" where
  "ready_signals =
     [''main'', ''[class*='' @ [CHR 0x27] @ ''profile'' @ [CHR 0x27] @ '']'',
      ''section[class*='' @ [CHR 0x27] @ ''profile'' @ [CHR 0x27] @ '']'',
      ''[data-testid='' @ [CHR 0x27] @ ''profile'' @ [CHR 0x27] @ '']'']"

definition attr_is :: "string \<Rightarrow> string \<Rightarrow> string" where
  "attr_is name v = ''['' @ name @ ''='' @ [CHR 0x27] @ v @ [CHR 0x27] @ '']''"

definition auth_required_signals :: "string list" where
  "auth_required_signals =
     [''button.osk-button.osk-button_color-secondary.osk-button_size-m.osk-button_full-width'' @ attr_is ''type'' ''button'',
      ''input.osk-input__input'' @ attr_is ''type'' ''text'' @ attr_is ''autocomplete'' ''email'',
      ''input.osk-input__input.osk-input__input_password'' @ attr_is ''type'' ''password'' @
        attr_is ''autocomplete'' ''current-password'',
      ''button.osk-button.osk-button_color-primary.osk-button_size-m.osk-button_full-width.osk-auth-login-dialog__button'' @
        attr_is ''type'' ''submit'']"

record follow_selector_rules =
  fsr_ReadySignals :: "string list"
  fsr_AlreadyDoneSignals :: "string list"
  fsr_FollowControlPaths :: "string list"
  fsr_UnavailableSignals :: "string list"
  fsr_PostFollowSignals :: "string list"
  fsr_AuthRequiredSignals :: "string list"

record follow_timeout_rules =
  ftr_Navigation :: time
  ftr_Readiness :: time
  ftr_PostClick :: time

record follow_rules =
  fr_Selectors :: follow_selector_rules
  fr_Timeouts :: follow_timeout_rules

definition seconds :: "int \<Rightarrow> time" where
  "seconds n = n * 1000000000"

definition followed_buttons :: "string list" where
  "followed_buttons =
     map (has_text ''button'') [ru_followed_f, ru_followed, ru_followed_pl, ru_you_follow, ru_unfollow, ''Following'']"

definition defaultOskellyFollowRules :: follow_rules where
  "defaultOskellyFollowRules =
     \<lparr>fr_Selectors =
        \<lparr>fsr_ReadySignals = ready_signals,
         fsr_AlreadyDoneSignals = followed_buttons,
         fsr_FollowControlPaths =
           map (has_text ''button'') [ru_follow, ru_follow_seller, ''Follow''] @
           [''button'' @ attr_is ''data-testid'' ''follow-button'',
            ''[class*='' @ [CHR 0x27] @ ''follow'' @ [CHR 0x27] @ ''] button''],
         fsr_UnavailableSignals =
           [attr_is ''data-testid'' ''profile-not-found'', ''.error-404'', ''text='' @ ru_not_found,
            ''text=Profile not found''],
         fsr_PostFollowSignals = followed_buttons,
         fsr_AuthRequiredSignals = auth_required_signals\<rparr>,
      fr_Timeouts =
        \<lparr>ftr_Navigation = seconds 45, ftr_Readiness = seconds 15, ftr_PostClick = seconds 10\<rparr>\<rparr>"

record verify_selector_rules =
  vsr_ReadySignals :: "string list"
  vsr_FollowConfirmedSignals :: "string list"
  vsr_ActionUnavailableSignals :: "string list"
  vsr_TargetUnreachableSignals :: "string list"
  vsr_AuthRequiredSignals :: "string list"

record verify_timeout_rules =
  vtr_Navigation :: time
  vtr_Readiness :: time

record verify_rules =
  vr_Selectors :: verify_selector_rules
  vr_Timeouts :: verify_timeout_rules

definition defaultOskellyVerifyRules :: verify_rules where
  "defaultOskellyVerifyRules =
     \<lparr>vr_Selectors =
        \<lparr>vsr_ReadySignals = ready_signals,
         vsr_FollowConfirmedSignals =
           map (has_text ''button'')
             [''Following'', ''Followed'', ru_followed_f, ru_followed, ru_followed_pl, ru_you_follow, ru_unfollow],
         vsr_ActionUnavailableSignals =
           [attr_is ''data-testid'' ''follow-button'' @ ''[disabled]'', has_text ''button[disabled]'' ''Follow'',
            has_text ''button[disabled]'' ru_follow,
            ''[class*='' @ [CHR 0x27] @ ''follow'' @ [CHR 0x27] @ ''] button[disabled]''],
         vsr_TargetUnreachableSignals =
           [attr_is ''data-testid'' ''profile-not-found'', ''.error-404'', ''text=Profile not found'',
            ''text='' @ ru_not_found],
         vsr_AuthRequiredSignals = auth_required_signals\<rparr>,
      vr_Timeouts = \<lparr>vtr_Navigation = seconds 45, vtr_Readiness = seconds 15\<rparr>\<rparr>"

definition playwrightVerifyReadySelectors :: "string list" where
  "playwrightVerifyReadySelectors =
     (let s = vr_Selectors defaultOskellyVerifyRules in
      vsr_ReadySignals s @ vsr_FollowConfirmedSignals s @ vsr_ActionUnavailableSignals s @
      vsr_TargetUnreachableSignals s @ vsr_AuthRequiredSignals s)"

definition playwrightWarmupReadySelectors :: "string list" where
  "playwrightWarmupReadySelectors =
     (let s = fr_Selectors defaultOskellyFollowRules in
      fsr_ReadySignals s @ fsr_AlreadyDoneSignals s @ fsr_FollowControlPaths s @ fsr_UnavailableSignals s)"

definition playwrightFollowInteractiveSelectors :: "string list" where
  "playwrightFollowInteractiveSelectors =
     (let s = fr_Selectors defaultOskellyFollowRules in
      fsr_AlreadyDoneSignals s @ fsr_FollowControlPaths s @ fsr_UnavailableSignals s)"


section \<open>Addresses\<close>

definition isAuthenticationRequiredURL :: "string \<Rightarrow> bool" where
  "isAuthenticationRequiredURL pageURL \<longleftrightarrow>
     (let normalized = ToLower (TrimSpace pageURL) in
      normalized \<noteq> '''' \<and>
      (Contains normalized ''/login'' \<or> Contains normalized ''/auth'' \<or> Contains normalized ''/authorization''))"

definition isAuthenticatedURL :: "string \<Rightarrow> bool" where
  "isAuthenticatedURL pageURL \<longleftrightarrow> \<not> isAuthenticationRequiredURL pageURL"

text \<open>\<open>^/profile/[0-9]+$\<close>\<close>

definition oskellyProfilePathMatcher :: "string \<Rightarrow> bool" where
  "oskellyProfilePathMatcher path \<longleftrightarrow>
     HasPrefix path ''/profile/'' \<and> (let ds = drop 9 path in ds \<noteq> [] \<and> list_all is_digit ds)"

definition isResolvedOskellyProfileURL :: "string \<Rightarrow> bool" where
  "isResolvedOskellyProfileURL rawURL \<longleftrightarrow>
     (let normalized = TrimSpace (ToLower rawURL) in
      normalized \<noteq> '''' \<and>
      (HasPrefix normalized ''https://oskelly.ru'' \<or> HasPrefix normalized ''http://oskelly.ru'') \<and>
      (case StrIndex normalized ''://oskelly.ru'' of
         None \<Rightarrow> False
       | Some pathStart \<Rightarrow>
           let path = drop (pathStart + 13) normalized
           in oskellyProfilePathMatcher (takeWhile (\<lambda>c. c \<noteq> CHR ''?'' \<and> c \<noteq> CHR ''#'') path)))"


section \<open>Texts of buttons\<close>

fun ToLowerText :: "string \<Rightarrow> string" where
  "ToLowerText [] = []"
| "ToLowerText [c] = [to_lower_char c]"
| "ToLowerText (c # d # s) =
     (let n = (of_char d :: nat) in
      if c = CHR 0xD0 \<and> 0x90 \<le> n \<and> n \<le> 0x9F then c # char_of (n + 0x20) # ToLowerText s
      else if c = CHR 0xD0 \<and> 0xA0 \<le> n \<and> n \<le> 0xAF then CHR 0xD1 # char_of (n - 0x20) # ToLowerText s
      else if c = CHR 0xD0 \<and> n = 0x81 then [CHR 0xD1, CHR 0x91] @ ToLowerText s
      else to_lower_char c # ToLowerText (d # s))"

definition ru_followed_low :: string where
  "ru_followed_low = [CHR 0xD0, CHR 0xBF, CHR 0xD0, CHR 0xBE, CHR 0xD0, CHR 0xB4, CHR 0xD0, CHR 0xBF, CHR 0xD0,
     CHR 0xB8, CHR 0xD1, CHR 0x81, CHR 0xD0, CHR 0xB0, CHR 0xD0, CHR 0xBD]"

definition ru_unfollow_low :: string where
  "ru_unfollow_low = [CHR 0xD0, CHR 0xBE, CHR 0xD1, CHR 0x82, CHR 0xD0, CHR 0xBF, CHR 0xD0, CHR 0xB8, CHR 0xD1,
     CHR 0x81, CHR 0xD0, CHR 0xB0, CHR 0xD1, CHR 0x82, CHR 0xD1, CHR 0x8C, CHR 0xD1, CHR 0x81,
     CHR 0xD1, CHR 0x8F]"

definition ru_follow_low :: string where
  "ru_follow_low = [CHR 0xD0, CHR 0xBF, CHR 0xD0, CHR 0xBE, CHR 0xD0, CHR 0xB4, CHR 0xD0, CHR 0xBF, CHR 0xD0,
     CHR 0xB8, CHR 0xD1, CHR 0x81, CHR 0xD0, CHR 0xB0, CHR 0xD1, CHR 0x82, CHR 0xD1, CHR 0x8C,
     CHR 0xD1, CHR 0x81, CHR 0xD1, CHR 0x8F]"

definition confirmed_text :: "string \<Rightarrow> bool" where
  "confirmed_text t \<longleftrightarrow>
     (let normalized = ToLowerText (TrimSpace t) in
      normalized \<noteq> '''' \<and>
      (Contains normalized ru_followed_low \<or> Contains normalized ''following'' \<or> Contains normalized ''followed'' \<or>
       Contains normalized ru_unfollow_low))"

definition subscribe_text :: "string \<Rightarrow> bool" where
  "subscribe_text t \<longleftrightarrow>
     (let normalized = ToLowerText (TrimSpace t) in
      normalized \<noteq> '''' \<and> (Contains normalized ru_follow_low \<or> normalized = ''follow''))"


section \<open>Errors\<close>

definition follow_error_codes :: "error_code list" where
  "follow_error_codes =
     [ErrorCodeFollowTargetProfile, ErrorCodeSessionPayloadInvalid, ErrorCodeFollowActionUnavailable,
      ErrorCodeFollowTargetUnreachable, ErrorCodeFollowNavigationFailed, ErrorCodeAuthBootstrapRequired]"

definition follow_error_of_text :: "string \<Rightarrow> go_error" where
  "follow_error_of_text lowered =
     (if containsAny lowered
           [''/login'', ''authentication required'', ''authorization required'', ''unauthorized'', ''forbidden''] then
        NewDomainError ErrorCodeAuthBootstrapRequired ''session authentication is required before follow flow''
      else if containsAny lowered
           [''net::err_name_not_resolved'', ''net::err_connection'', ''net::err_internet_disconnected'', ''status=404'',
            ''status=410'', ''not found'', ''target unreachable''] then
        NewDomainError ErrorCodeFollowTargetUnreachable ''target profile is unreachable''
      else if containsAny lowered
           [''not visible'', ''not enabled'', ''element is disabled'', ''action unavailable''] then
        NewDomainError ErrorCodeFollowActionUnavailable ''follow action is unavailable''
      else NewDomainError ErrorCodeFollowNavigationFailed ''playwright follow flow failed'')"

definition normalizePlaywrightFollowError :: "go_error \<Rightarrow> go_error" where
  "normalizePlaywrightFollowError err =
     (if isContextDoneError err then
        NewDomainError ErrorCodeFollowNavigationFailed ''playwright follow flow timed out''
      else case as_domain err of
        Some (code, message) \<Rightarrow>
          if code \<in> set follow_error_codes then DomainErr code message
          else follow_error_of_text (ToLower (error_text err))
      | None \<Rightarrow> follow_error_of_text (ToLower (error_text err)))"

definition verify_error_codes :: "error_code list" where
  "verify_error_codes =
     [ErrorCodeFollowVerifyFailed, ErrorCodeFollowTargetProfile, ErrorCodeSessionPayloadInvalid,
      ErrorCodeAuthBootstrapRequired]"

definition normalizePlaywrightVerifyError :: "go_error \<Rightarrow> go_error" where
  "normalizePlaywrightVerifyError err =
     (if isContextDoneError err then
        NewDomainError ErrorCodeFollowVerifyFailed
          ''playwright verify was interrupted by context cancellation/timeout''
      else case as_domain err of
        Some (code, message) \<Rightarrow>
          if code \<in> set verify_error_codes then DomainErr code message
          else NewDomainError ErrorCodeFollowVerifyFailed ''playwright verify runtime failure''
      | None \<Rightarrow> NewDomainError ErrorCodeFollowVerifyFailed ''playwright verify runtime failure'')"

definition normalizeWarmupError :: "go_error \<Rightarrow> go_error" where
  "normalizeWarmupError err =
     (if isContextDoneError err then
        NewDomainError ErrorCodeFollowNavigationFailed ''follow warmup interrupted by context timeout/cancel''
      else with_stack err)"


section \<open>Lemmas\<close>

lemma normalized_follow_error:
  "\<exists>code message. normalizePlaywrightFollowError err = DomainErr code message \<and> code \<in> set follow_error_codes"
  by (auto simp: normalizePlaywrightFollowError_def follow_error_of_text_def NewDomainError_def follow_error_codes_def
      split: option.splits)

lemma normalized_verify_error:
  "\<exists>code message. normalizePlaywrightVerifyError err = DomainErr code message \<and> code \<in> set verify_error_codes"
  by (auto simp: normalizePlaywrightVerifyError_def NewDomainError_def verify_error_codes_def split: option.splits)

lemma normalizePlaywrightFollowError_idem [simp]:
  "normalizePlaywrightFollowError (normalizePlaywrightFollowError err) = normalizePlaywrightFollowError err"
proof -
  obtain code message where e: "normalizePlaywrightFollowError err = DomainErr code message" "code \<in> set follow_error_codes"
    using normalized_follow_error by blast
  then show ?thesis unfolding e(1) by (simp add: normalizePlaywrightFollowError_def isContextDoneError_def)
qed

text \<open>A normalized target is the address of a profile, whatever its case and query.\<close>

lemma digits_lower: "list_all is_digit ds \<Longrightarrow> ToLower ds = ds"
  by (induction ds) (auto simp: ToLower_def is_digit_def to_lower_char_def)

lemma digit_not_space: "is_digit c \<Longrightarrow> \<not> is_space c"
  by (auto simp: is_digit_def is_space_def)

lemma digit_not_query: "is_digit c \<Longrightarrow> c \<noteq> CHR ''?'' \<and> c \<noteq> CHR ''#''"
  by (auto simp: is_digit_def)

lemma normalized_target_resolved:
  assumes "NormalizeOskellyTargetProfileURL t = Inr u"
  shows "isResolvedOskellyProfileURL u"
proof -
  obtain ds where u: "u = TrimSpace t" "u = oskelly_profile_prefix @ ds" "ds \<noteq> []" "list_all is_digit ds"
    using NormalizeOskellyTargetProfileURL_Inr [OF assms] by (auto simp: list_all_iff)
  have low: "ToLower u = oskelly_profile_prefix @ ds"
    using digits_lower [OF u(4)] unfolding u(2) by (simp add: ToLower_def oskelly_profile_prefix_def to_lower_char_def)
  have trim: "TrimSpace (oskelly_profile_prefix @ ds) = oskelly_profile_prefix @ ds"
    using u(1,2) TrimSpace_idem [of t] by simp
  have idx: "StrIndex (oskelly_profile_prefix @ ds) ''://oskelly.ru'' = Some 5"
    by (simp add: oskelly_profile_prefix_def HasPrefix_def)
  have path: "drop 18 (oskelly_profile_prefix @ ds) = ''/profile/'' @ ds"
    by (simp add: oskelly_profile_prefix_def)
  have tw: "takeWhile (\<lambda>c. c \<noteq> CHR ''?'' \<and> c \<noteq> CHR ''#'') ds = ds"
    using u(4) by (auto simp: takeWhile_eq_all_conv list_all_iff dest: digit_not_query)
  have "HasPrefix (oskelly_profile_prefix @ ds) ''https://oskelly.ru''"
    by (simp add: oskelly_profile_prefix_def HasPrefix_def)
  moreover have "oskellyProfilePathMatcher (''/profile/'' @ ds)"
    using u(3,4) by (simp add: oskellyProfilePathMatcher_def HasPrefix_def)
  moreover have "drop (5 + 13) (oskelly_profile_prefix @ ds) = ''/profile/'' @ ds" using path by simp
  moreover have "oskelly_profile_prefix @ ds \<noteq> ''''" by (simp add: oskelly_profile_prefix_def)
  ultimately show ?thesis unfolding isResolvedOskellyProfileURL_def Let_def low trim idx option.case by (simp add: tw)
qed

end
