(* ===== verification/Browser_Flows.thy ===== *)
theory Browser_Flows
  imports Browser_Rules Execution_Service
begin

text \<open>
  The runners of \<open>internal/browser\<close>: \<open>warmup_flow.go\<close>, \<open>follow_flow.go\<close>, \<open>verify_flow.go\<close> and the runners
  of \<open>bootstrap_login_flow.go\<close>, each for the engine \<open>mock\<close> and for \<open>playwright\<close>.

  What drives the browser is behind an interface, a record of functions on the state \<open>'w\<close> of the world;
  \<open>Page_Adapters\<close> has the implementations.  The runtime gives the clock and the error of a context.  The
  decoder of a storage state, a type of package playwright, is a parameter.
\<close>

record 'w runtime_env =
  env_now :: "'w \<Rightarrow> time"
  env_ctxErr :: "go_context \<Rightarrow> 'w \<Rightarrow> go_error option"

definition since_ms :: "'w runtime_env \<Rightarrow> time \<Rightarrow> 'w \<Rightarrow> int" where
  "since_ms env started w = (env_now env w - started) div 1000000"

definition no_outcome :: follow_flow_outcome where
  "no_outcome = FollowFlowOutcomeOther ''''"


section \<open>Warmup\<close>

type_synonym 'w warmup_step = "go_context \<Rightarrow> follow_flow_input \<Rightarrow> 'w \<Rightarrow> go_error option \<times> 'w"

type_synonym 'w follow_step = "go_context \<Rightarrow> follow_flow_input \<Rightarrow> 'w \<Rightarrow> (go_error + follow_flow_outcome) \<times> 'w"

record 'w follow_adapter =
  fa_Warmup :: "'w warmup_step"
  fa_RunFollowAction :: "'w follow_step"

definition parsePlaywrightStorageStatePayload :: "(bytes \<Rightarrow> 's option) \<Rightarrow> bytes \<Rightarrow> go_error + 's" where
  "parsePlaywrightStorageStatePayload decode payload =
     (case decode payload of
        None \<Rightarrow> Inl (NewDomainError ErrorCodeSessionPayloadInvalid
                       ''session payload is not a valid playwright storage state'')
      | Some st \<Rightarrow> Inr st)"

definition runMockWarmupFlow :: "'w runtime_env \<Rightarrow> 'w warmup_step" where
  "runMockWarmupFlow env ctx input w =
     (case env_ctxErr env ctx w of
        Some err \<Rightarrow> (Some (with_stack err), w)
      | None \<Rightarrow> (WithStack (TargetProfile_Validate (ffi_TargetProfile input)), w))"

text \<open>\<open>adapters\<close> is the variadic argument; the first of it is used unless it is missing or nil.\<close>

definition selected_adapter :: "'a \<Rightarrow> 'a option list \<Rightarrow> 'a" where
  "selected_adapter dflt adapters = (case adapters of Some a # rest \<Rightarrow> a | _ \<Rightarrow> dflt)"

definition runPlaywrightWarmupFlow ::
  "'w runtime_env \<Rightarrow> (bytes \<Rightarrow> 's option) \<Rightarrow> 'w follow_adapter \<Rightarrow> 'w follow_adapter option list \<Rightarrow> 'w warmup_step" where
  "runPlaywrightWarmupFlow env decode dflt adapters ctx input w =
     (case env_ctxErr env ctx w of
        Some err \<Rightarrow> (Some (with_stack err), w)
      | None \<Rightarrow>
        (case TargetProfile_Validate (ffi_TargetProfile input) of
           Some err \<Rightarrow> (Some (with_stack err), w)
         | None \<Rightarrow>
           (case NormalizeOskellyTargetProfileURL (ffi_TargetProfile input) of
              Inl err \<Rightarrow> (Some (with_stack err), w)
            | Inr url \<Rightarrow>
              (case parsePlaywrightStorageStatePayload decode (ffi_SessionPayload input) of
                 Inl err \<Rightarrow> (Some (with_stack err), w)
               | Inr st \<Rightarrow>
                 (case fa_Warmup (selected_adapter dflt adapters) ctx input w of
                    (Some err, w1) \<Rightarrow> (Some (with_stack (normalizePlaywrightFollowError err)), w1)
                  | (None, w1) \<Rightarrow> (None, w1))))))"


section \<open>Follow\<close>

definition runFollowFlow ::
  "'w runtime_env \<Rightarrow> string \<Rightarrow> 'w warmup_step \<Rightarrow> 'w follow_step \<Rightarrow> 'w follow_runner" where
  "runFollowFlow env engine warmup follow ctx input w =
     (let diagnostics = \<lparr>ffd_Engine = engine, ffd_WarmupCompleted = False, ffd_WarmupDurationMS = 0,
                         ffd_ExecutionDurationMS = 0\<rparr>
      in case FollowFlowInput_Validate input of
        Some err \<Rightarrow> ((no_outcome, diagnostics, Some (with_stack err)), w)
      | None \<Rightarrow>
        (case warmup ctx input w of
           (Some err, w1) \<Rightarrow>
             ((no_outcome, diagnostics\<lparr>ffd_WarmupDurationMS := since_ms env (env_now env w) w1\<rparr>,
               Some (with_stack (normalizeWarmupError err))), w1)
         | (None, w1) \<Rightarrow>
             let warm = diagnostics\<lparr>ffd_WarmupCompleted := True,
                                    ffd_WarmupDurationMS := since_ms env (env_now env w) w1\<rparr>
             in (case follow ctx input w1 of (res, w2) \<Rightarrow>
                 let ran = warm\<lparr>ffd_ExecutionDurationMS := since_ms env (env_now env w1) w2\<rparr>
                 in case res of
                      Inl err \<Rightarrow> ((no_outcome, ran, Some (with_stack err)), w2)
                    | Inr outcome \<Rightarrow>
                        if \<not> FollowFlowOutcome_IsValid outcome then
                          ((no_outcome, ran, Some (NewDomainError ErrorCodeInternal
                              (''invalid follow flow outcome: '' @ follow_outcome_str outcome))), w2)
                        else ((outcome, ran, None), w2))))"

record mock_follow_runner =
  mfr_outcomesByTarget :: "string \<Rightarrow> follow_flow_outcome option"
  mfr_errorsByTarget :: "string \<Rightarrow> go_error option option"

definition NewMockFollowFlowRunner ::
  "(string \<Rightarrow> follow_flow_outcome option) \<Rightarrow> (string \<Rightarrow> go_error option option) \<Rightarrow> mock_follow_runner" where
  "NewMockFollowFlowRunner outcomesByTarget errorsByTarget =
     \<lparr>mfr_outcomesByTarget = outcomesByTarget, mfr_errorsByTarget = errorsByTarget\<rparr>"

definition Mock_runFollowAction :: "'w runtime_env \<Rightarrow> mock_follow_runner \<Rightarrow> 'w follow_step" where
  "Mock_runFollowAction env r ctx input w =
     (case env_ctxErr env ctx w of
        Some err \<Rightarrow> (Inl (with_stack err), w)
      | None \<Rightarrow>
        (case mfr_errorsByTarget r (ffi_TargetProfile input) of
           Some (Some followErr) \<Rightarrow> (Inl followErr, w)
         | _ \<Rightarrow>
           (case mfr_outcomesByTarget r (ffi_TargetProfile input) of
              Some outcome \<Rightarrow> (Inr outcome, w)
            | None \<Rightarrow> (Inr FollowFlowOutcomeCompleted, w))))"

definition Mock_RunFollowFlow :: "'w runtime_env \<Rightarrow> mock_follow_runner \<Rightarrow> 'w follow_runner" where
  "Mock_RunFollowFlow env r = runFollowFlow env ''mock'' (runMockWarmupFlow env) (Mock_runFollowAction env r)"

record 'w playwright_follow_runner =
  pfr_adapter :: "'w follow_adapter option"

definition NewPlaywrightFollowFlowRunner ::
  "'w follow_adapter \<Rightarrow> 'w follow_adapter option list \<Rightarrow> 'w playwright_follow_runner" where
  "NewPlaywrightFollowFlowRunner dflt adapters = \<lparr>pfr_adapter = Some (selected_adapter dflt adapters)\<rparr>"

definition Playwright_runFollowAction :: "'w runtime_env \<Rightarrow> 'w playwright_follow_runner \<Rightarrow> 'w follow_step" where
  "Playwright_runFollowAction env r ctx input w =
     (case env_ctxErr env ctx w of
        Some err \<Rightarrow> (Inl (with_stack err), w)
      | None \<Rightarrow>
        (case TargetProfile_Validate (ffi_TargetProfile input) of
           Some err \<Rightarrow> (Inl (with_stack err), w)
         | None \<Rightarrow>
           (case pfr_adapter r of
              None \<Rightarrow> (Inl (NewDomainError ErrorCodeFollowNavigationFailed
                             ''playwright follow adapter is not configured''), w)
            | Some adapter \<Rightarrow>
              (case fa_RunFollowAction adapter ctx input w of
                 (Inl err, w1) \<Rightarrow> (Inl (with_stack (normalizePlaywrightFollowError err)), w1)
               | (Inr outcome, w1) \<Rightarrow>
                   if \<not> FollowFlowOutcome_IsValid outcome then
                     (Inl (NewDomainError ErrorCodeFollowNavigationFailed
                             ''playwright follow action returned invalid outcome''), w1)
                   else (Inr outcome, w1)))))"

definition Playwright_RunFollowFlow ::
  "'w runtime_env \<Rightarrow> (bytes \<Rightarrow> 's option) \<Rightarrow> 'w follow_adapter \<Rightarrow> 'w playwright_follow_runner \<Rightarrow> 'w follow_runner" where
  "Playwright_RunFollowFlow env decode dflt r =
     runFollowFlow env ''playwright'' (runPlaywrightWarmupFlow env decode dflt [pfr_adapter r])
       (Playwright_runFollowAction env r)"

definition NewFollowFlowRunner ::
  "'w runtime_env \<Rightarrow> (bytes \<Rightarrow> 's option) \<Rightarrow> 'w follow_adapter \<Rightarrow> string \<Rightarrow> go_error + 'w follow_runner" where
  "NewFollowFlowRunner env decode dflt engine =
     (if engine = ''mock'' then Inr (Mock_RunFollowFlow env (NewMockFollowFlowRunner Map.empty Map.empty))
      else if engine = ''playwright'' then
        Inr (Playwright_RunFollowFlow env decode dflt (NewPlaywrightFollowFlowRunner dflt []))
      else Inl (NewDomainError ErrorCodeInvalidOperationalState (''unsupported browser engine: '' @ engine)))"


section \<open>Verification\<close>

definition clonePayload :: "bytes \<Rightarrow> bytes" where
  "clonePayload payload = payload"

definition verify_screenshot :: "string \<Rightarrow> bytes" where
  "verify_screenshot suffix = ascii (''verify-screenshot:'' @ suffix)"

definition verifyFailedResult :: "string \<Rightarrow> bytes \<Rightarrow> follow_verification_result" where
  "verifyFailedResult reason screenshot =
     \<lparr>fvr_Verified = False, fvr_Signal = FollowVerificationSignalVerifyFailed, fvr_Reason = reason,
      fvr_ErrorCode = ErrorCodeFollowVerifyFailed, fvr_SessionChanged = False, fvr_ScreenshotPayload = screenshot,
      fvr_SessionPayload = []\<rparr>"

definition verifyAuthRequiredResult :: "string \<Rightarrow> bytes \<Rightarrow> follow_verification_result" where
  "verifyAuthRequiredResult reason screenshot =
     (verifyFailedResult reason screenshot)\<lparr>fvr_ErrorCode := ErrorCodeAuthBootstrapRequired\<rparr>"

text \<open>A result that is not verified for the reason the follow gave.\<close>

definition unverified ::
  "follow_verification_signal \<Rightarrow> error_code \<Rightarrow> string \<Rightarrow> bytes \<Rightarrow> follow_verification_result" where
  "unverified sig code reason screenshot =
     \<lparr>fvr_Verified = False, fvr_Signal = sig, fvr_Reason = reason, fvr_ErrorCode = code, fvr_SessionChanged = False,
      fvr_ScreenshotPayload = screenshot, fvr_SessionPayload = []\<rparr>"

definition verified_changed :: "follow_verification_input \<Rightarrow> string \<Rightarrow> bytes \<Rightarrow> follow_verification_result" where
  "verified_changed input reason screenshot =
     \<lparr>fvr_Verified = True, fvr_Signal = FollowVerificationSignalFollowConfirmed, fvr_Reason = reason,
      fvr_ErrorCode = no_error_code, fvr_SessionChanged = True, fvr_ScreenshotPayload = screenshot,
      fvr_SessionPayload = clonePayload (fvi_SessionPayload input)\<rparr>"

definition verified_already :: "string \<Rightarrow> bytes \<Rightarrow> follow_verification_result" where
  "verified_already reason screenshot =
     \<lparr>fvr_Verified = True, fvr_Signal = FollowVerificationSignalAlreadyDone, fvr_Reason = reason,
      fvr_ErrorCode = no_error_code, fvr_SessionChanged = False, fvr_ScreenshotPayload = screenshot,
      fvr_SessionPayload = []\<rparr>"

fun defaultVerificationResult :: "follow_flow_outcome \<Rightarrow> follow_verification_input \<Rightarrow> follow_verification_result" where
  "defaultVerificationResult FollowFlowOutcomeCompleted input =
     verified_changed input ''target profile reflects follow success'' (verify_screenshot ''completed'')"
| "defaultVerificationResult FollowFlowOutcomeAlreadyDone input =
     verified_already ''target profile already in followed state'' (verify_screenshot ''already-done'')"
| "defaultVerificationResult FollowFlowOutcomeActionUnavailable input =
     unverified FollowVerificationSignalActionUnavailable ErrorCodeFollowActionUnavailable
       ''follow action is unavailable for target profile'' (verify_screenshot ''action-unavailable'')"
| "defaultVerificationResult FollowFlowOutcomeTargetUnreachable input =
     unverified FollowVerificationSignalTargetUnreachable ErrorCodeFollowTargetUnreachable
       ''target profile is unreachable'' (verify_screenshot ''target-unreachable'')"
| "defaultVerificationResult _ input =
     unverified FollowVerificationSignalNavigationFailed ErrorCodeFollowNavigationFailed
       ''follow verification failed due to navigation/runtime error'' (verify_screenshot ''navigation-failed'')"

definition runVerifyFlow ::
  "'w runtime_env \<Rightarrow> (follow_flow_outcome \<Rightarrow> follow_verification_result option) \<Rightarrow> 'w verify_runner" where
  "runVerifyFlow env overrides ctx input w =
     (case env_ctxErr env ctx w of
        Some err \<Rightarrow> (Inl (with_stack err), w)
      | None \<Rightarrow>
        (case FollowVerificationInput_Validate input of
           Some err \<Rightarrow> (Inl (with_stack err), w)
         | None \<Rightarrow>
           let checked = (\<lambda>result. case FollowVerificationResult_Validate result of
                 Some err \<Rightarrow> (Inl (with_stack err), w) | None \<Rightarrow> (Inr result, w))
           in (case overrides (fvi_Outcome input) of
                 Some override0 \<Rightarrow>
                   let override1 = (if fvr_ScreenshotPayload override0 = []
                         then override0\<lparr>fvr_ScreenshotPayload := verify_screenshot (fvi_TaskID input)\<rparr> else override0);
                       override2 = (if fvr_SessionChanged override1 \<and> fvr_SessionPayload override1 = []
                         then override1\<lparr>fvr_SessionPayload := clonePayload (fvi_SessionPayload input)\<rparr> else override1)
                   in checked override2
               | None \<Rightarrow> checked (defaultVerificationResult (fvi_Outcome input) input))))"

datatype verify_state =
    VerifyFollowConfirmed
  | VerifyActionUnavailable
  | VerifyTargetUnreachable
  | VerifyAuthRequired
  | VerifyUnknown

record verify_detection =
  vd_State :: verify_state
  vd_ScreenshotPayload :: bytes
  vd_Reason :: string

type_synonym 'w verify_adapter =
  "go_context \<Rightarrow> follow_verification_input \<Rightarrow> 'w \<Rightarrow> (go_error + verify_detection) \<times> 'w"

definition normalizeVerifyReason :: "string \<Rightarrow> string" where
  "normalizeVerifyReason reason =
     (let normalized = TrimSpace reason in
      if normalized = '''' then ''verify UI could not determine a supported follow state'' else normalized)"

definition ensureVerifyScreenshotPayload :: "bytes \<Rightarrow> follow_flow_outcome \<Rightarrow> bytes" where
  "ensureVerifyScreenshotPayload payload outcome =
     (if payload \<noteq> [] then payload else verify_screenshot (follow_outcome_str outcome))"

definition mapPlaywrightVerificationResult ::
  "follow_verification_input \<Rightarrow> verify_detection \<Rightarrow> follow_verification_result" where
  "mapPlaywrightVerificationResult input detection =
     (let reason = normalizeVerifyReason (vd_Reason detection); shot = vd_ScreenshotPayload detection;
          action_unavailable = unverified FollowVerificationSignalActionUnavailable ErrorCodeFollowActionUnavailable reason shot;
          target_unreachable = unverified FollowVerificationSignalTargetUnreachable ErrorCodeFollowTargetUnreachable reason shot
      in if vd_State detection = VerifyAuthRequired then verifyAuthRequiredResult reason shot
         else case fvi_Outcome input of
             FollowFlowOutcomeCompleted \<Rightarrow>
               if vd_State detection = VerifyFollowConfirmed then verified_changed input reason shot
               else verifyFailedResult reason shot
           | FollowFlowOutcomeAlreadyDone \<Rightarrow>
               if vd_State detection = VerifyFollowConfirmed then verified_already reason shot
               else verifyFailedResult reason shot
           | FollowFlowOutcomeActionUnavailable \<Rightarrow> action_unavailable
           | FollowFlowOutcomeTargetUnreachable \<Rightarrow> target_unreachable
           | _ \<Rightarrow>
               if vd_State detection = VerifyTargetUnreachable then target_unreachable
               else if vd_State detection = VerifyActionUnavailable then action_unavailable
               else verifyFailedResult reason shot)"

definition Playwright_VerifyFollowResult :: "'w runtime_env \<Rightarrow> 'w verify_adapter option \<Rightarrow> 'w verify_runner" where
  "Playwright_VerifyFollowResult env adapter ctx input w =
     (case env_ctxErr env ctx w of
        Some err \<Rightarrow> (Inl (with_stack err), w)
      | None \<Rightarrow>
        (case FollowVerificationInput_Validate input of
           Some err \<Rightarrow> (Inl (with_stack err), w)
         | None \<Rightarrow>
           (case adapter of
              None \<Rightarrow> (Inl (NewDomainError ErrorCodeFollowVerifyFailed
                             ''playwright verify adapter is not configured''), w)
            | Some inspect \<Rightarrow>
              (case inspect ctx input w of
                 (Inl err, w1) \<Rightarrow> (Inl (with_stack (normalizePlaywrightVerifyError err)), w1)
               | (Inr detection0, w1) \<Rightarrow>
                   let detection = detection0\<lparr>vd_ScreenshotPayload :=
                         ensureVerifyScreenshotPayload (vd_ScreenshotPayload detection0) (fvi_Outcome input)\<rparr>;
                       result = mapPlaywrightVerificationResult input detection
                   in case FollowVerificationResult_Validate result of
                        Some err \<Rightarrow> (Inl (with_stack err), w1)
                      | None \<Rightarrow> (Inr result, w1)))))"

definition NewPlaywrightVerifyFlowRunner ::
  "'w runtime_env \<Rightarrow> 'w verify_adapter \<Rightarrow> 'w verify_adapter option list \<Rightarrow> 'w verify_runner" where
  "NewPlaywrightVerifyFlowRunner env dflt adapters =
     Playwright_VerifyFollowResult env (Some (selected_adapter dflt adapters))"

definition NewVerifyFlowRunner ::
  "'w runtime_env \<Rightarrow> 'w verify_adapter \<Rightarrow> string \<Rightarrow> go_error + 'w verify_runner" where
  "NewVerifyFlowRunner env dflt engine =
     (if engine = ''mock'' then Inr (runVerifyFlow env Map.empty)
      else if engine = ''playwright'' then Inr (NewPlaywrightVerifyFlowRunner env dflt [])
      else Inl (NewDomainError ErrorCodeInvalidOperationalState
                  (''unsupported browser engine for verify runner: '' @ engine)))"


section \<open>Bootstrap login\<close>

type_synonym 'w credential_resolver =
  "go_context \<Rightarrow> credential_source \<Rightarrow> string \<Rightarrow> 'w \<Rightarrow> (go_error + account_credentials) \<times> 'w"

type_synonym 'w bootstrap_adapter =
  "go_context \<Rightarrow> account_credentials \<Rightarrow> 'w \<Rightarrow>
   (bootstrap_login_outcome \<times> bytes \<times> (string \<times> bytes) list \<times> go_error option) \<times> 'w"

text \<open>The screenshots are a map; here the list of its entries, each key once.\<close>

definition put_entry :: "'k \<Rightarrow> 'v \<Rightarrow> ('k \<times> 'v) list \<Rightarrow> ('k \<times> 'v) list" where
  "put_entry k v es = filter (\<lambda>e. fst e \<noteq> k) es @ [(k, v)]"

definition cloneBootstrapScreenshots :: "(string \<times> bytes) list \<Rightarrow> (string \<times> bytes) list" where
  "cloneBootstrapScreenshots source =
     foldl (\<lambda>cloned (key, payload).
        if TrimSpace key = '''' \<or> payload = [] then cloned else put_entry (TrimSpace key) payload cloned) [] source"

definition mock_session :: json where
  "mock_session =
     JObject [(''cookies'', JArray [JObject [(''name'', JString ''sid''), (''value'', JString ''bootstrap-mock-session'')]])]"

text \<open>What both runners do before the login: check the input and resolve the credentials.\<close>

definition login_result :: "bootstrap_login_outcome \<Rightarrow> string \<Rightarrow> bootstrap_login_result" where
  "login_result outcome engine =
     \<lparr>blr_Outcome = outcome, blr_SessionPayload = [], blr_AuthScreenshots = [], blr_Engine = engine, blr_DurationMS = 0\<rparr>"

definition with_credentials ::
  "'w runtime_env \<Rightarrow> 'w credential_resolver option \<Rightarrow> go_error option \<Rightarrow> string \<Rightarrow>
   (account_credentials \<Rightarrow> 'w \<Rightarrow> (go_error + bootstrap_login_result) \<times> 'w) \<Rightarrow> 'w bootstrap_runner" where
  "with_credentials env resolver unconfigured engine login ctx input w =
     (case env_ctxErr env ctx w of
        Some err \<Rightarrow> (Inl (with_stack err), w)
      | None \<Rightarrow>
        (case BootstrapLoginInput_Validate input of
           Some err \<Rightarrow> (Inl (with_stack err), w)
         | None \<Rightarrow>
           (case resolver of
              None \<Rightarrow> (Inl (NewDomainError ErrorCodeAuthBootstrapFailed
                             ''bootstrap credential resolver is not configured''), w)
            | Some resolve \<Rightarrow>
              (case unconfigured of
                 Some err \<Rightarrow> (Inl err, w)
               | None \<Rightarrow>
                 (case resolve ctx (bli_CredentialSource input) (bli_CredentialRef input) w of
                    (Inl err, w1) \<Rightarrow> (Inl (with_stack err), w1)
                  | (Inr credentials, w1) \<Rightarrow>
                      if AccountCredentials_Validate credentials \<noteq> None then
                        (Inr (login_result BootstrapLoginOutcomeAuthInvalidCredentials engine), w1)
                      else login credentials w1)))))"

definition Mock_RunBootstrapLogin ::
  "'w runtime_env \<Rightarrow> 'w credential_resolver option \<Rightarrow> (string \<Rightarrow> bootstrap_login_outcome option) \<Rightarrow> 'w bootstrap_runner" where
  "Mock_RunBootstrapLogin env resolver outcomesByRef ctx input =
     with_credentials env resolver None ''mock''
       (\<lambda>credentials w.
          let outcome = (case outcomesByRef (bli_CredentialRef input) of
                           Some configured \<Rightarrow> configured | None \<Rightarrow> BootstrapLoginOutcomeSuccess);
              result = (login_result outcome ''mock'')
                         \<lparr>blr_SessionPayload := (if outcome = BootstrapLoginOutcomeSuccess then json_Marshal mock_session else [])\<rparr>
          in case BootstrapLoginResult_Validate result of
               Some err \<Rightarrow> (Inl (with_stack err), w)
             | None \<Rightarrow> (Inr result, w)) ctx input"

definition Playwright_RunBootstrapLogin ::
  "'w runtime_env \<Rightarrow> 'w credential_resolver option \<Rightarrow> 'w bootstrap_adapter option \<Rightarrow> 'w bootstrap_runner" where
  "Playwright_RunBootstrapLogin env resolver adapter ctx input =
     with_credentials env resolver
       (if adapter = None then Some (NewDomainError ErrorCodeAuthBootstrapFailed
                                       ''playwright bootstrap adapter is not configured'') else None) ''playwright''
       (\<lambda>credentials w.
          case the adapter ctx credentials w of ((outcome, payload, shots, runtimeErr), w1) \<Rightarrow>
            let outcome' = (if \<not> BootstrapLoginOutcome_IsValid outcome then BootstrapLoginOutcomeAuthRuntimeError else outcome);
                result =
                  \<lparr>blr_Outcome = outcome',
                   blr_SessionPayload = (if outcome' \<noteq> BootstrapLoginOutcomeSuccess then [] else payload),
                   blr_AuthScreenshots = cloneBootstrapScreenshots shots, blr_Engine = ''playwright'',
                   blr_DurationMS = since_ms env (env_now env w) w1\<rparr>
            in case BootstrapLoginResult_Validate result of
                 Some err \<Rightarrow> (Inl (with_stack err), w1)
               | None \<Rightarrow> (Inr result, w1)) ctx input"

definition NewPlaywrightBootstrapLoginRunner ::
  "'w runtime_env \<Rightarrow> 'w credential_resolver option \<Rightarrow> 'w bootstrap_adapter \<Rightarrow> 'w bootstrap_adapter option list \<Rightarrow>
   'w bootstrap_runner" where
  "NewPlaywrightBootstrapLoginRunner env resolver dflt adapters =
     Playwright_RunBootstrapLogin env resolver (Some (selected_adapter dflt adapters))"

definition NewBootstrapLoginRunner ::
  "'w runtime_env \<Rightarrow> 'w bootstrap_adapter \<Rightarrow> string \<Rightarrow> 'w credential_resolver option \<Rightarrow> go_error + 'w bootstrap_runner" where
  "NewBootstrapLoginRunner env dflt engine resolver =
     (if engine = ''mock'' then Inr (Mock_RunBootstrapLogin env resolver Map.empty)
      else if engine = ''playwright'' then Inr (NewPlaywrightBootstrapLoginRunner env resolver dflt [])
      else Inl (NewDomainError ErrorCodeInvalidOperationalState
                  (''unsupported browser engine for bootstrap login runner: '' @ engine)))"

end
