(* ===== verification/Engine_Contract.thy ===== *)
theory Engine_Contract
  imports Claim_Loop Browser_Flows
begin

text \<open>
  What the claim loop relies on of a browser engine, as two locales, and that both engines of
  \<open>internal/browser\<close> provide it: a follow either fails or gives one of the five outcomes after a completed
  warmup, and a verification either fails with an error code or gives a valid result.  From the second the
  input of the finalization the claim loop builds is always valid.
\<close>

definition coded :: "go_error \<Rightarrow> bool" where
  "coded err = (TrimSpace (error_code_str (lifecycleErrorCode err)) \<noteq> '''')"

text \<open>\<open>Err\<close> of a context is nil, \<open>Canceled\<close> or \<open>DeadlineExceeded\<close>.\<close>

definition context_errors :: "'w runtime_env \<Rightarrow> bool" where
  "context_errors env = (\<forall>ctx w err. env_ctxErr env ctx w = Some err \<longrightarrow> err = CtxCanceled \<or> err = CtxDeadlineExceeded)"

definition well_run :: "follow_flow_outcome \<times> follow_flow_diagnostics \<times> go_error option \<Rightarrow> bool" where
  "well_run r = (case r of (outcome, diagnostics, err) \<Rightarrow>
     if err = None then FollowFlowOutcome_IsValid outcome \<and> ffd_WarmupCompleted diagnostics else outcome = no_outcome)"

definition well_verified :: "go_error + follow_verification_result \<Rightarrow> bool" where
  "well_verified r = (case r of Inl err \<Rightarrow> coded err | Inr result \<Rightarrow> FollowVerificationResult_Validate result = None)"

lemma coded_stack [simp]: "coded (with_stack err) = coded err"
  by (simp add: coded_def lifecycleErrorCode_def)

lemma coded_known:
  assumes "code \<in> set known_error_codes"
  shows "coded (DomainErr code message)"
  using known_error_code_str [OF assms]
  by (auto simp: coded_def lifecycleErrorCode_def TrimSpace_eq_Nil list_all_iff neq_Nil_conv)

lemma coded_contexts [simp]: "coded CtxCanceled" "coded CtxDeadlineExceeded"
  by (simp_all add: coded_def lifecycleErrorCode_def TrimSpace_def trim_both_def is_space_def)

lemma coded_context:
  assumes "context_errors env" "env_ctxErr env ctx w = Some err"
  shows "coded err"
  using assms coded_contexts by (metis context_errors_def)

lemma validated_coded:
  "TargetProfile_Validate t = Some err \<Longrightarrow> coded err"
  "FollowVerificationInput_Validate i = Some err \<Longrightarrow> coded err"
  "FollowVerificationResult_Validate r = Some err \<Longrightarrow> coded err"
  by (auto simp: TargetProfile_Validate_def FollowVerificationInput_Validate_def FollowVerificationResult_Validate_def
      NewDomainError_def known_error_codes_def intro!: coded_known split: if_splits option.splits)

lemma well_verified_simps [simp]:
  "well_verified (Inl err) = coded err"
  "well_verified (Inr result) = (FollowVerificationResult_Validate result = None)"
  by (simp_all add: well_verified_def)

lemma normalized_outcome_valid [simp]: "FollowFlowOutcome_IsValid (normalizeFollowOutcome outcome err)"
  by (auto simp: normalizeFollowOutcome_def split: option.splits error_code.splits)


section \<open>The contracts\<close>

locale follow_flow =
  fixes run :: "'w follow_runner"
  assumes runs_well: "well_run (fst (run ctx input w))"
begin

lemma no_error_valid: "run ctx input w = ((outcome, diagnostics, None), w1) \<Longrightarrow> FollowFlowOutcome_IsValid outcome"
  using runs_well [of ctx input w] by (simp add: well_run_def)

lemma failed_no_outcome: "run ctx input w = ((outcome, diagnostics, Some err), w1) \<Longrightarrow> outcome = no_outcome"
  using runs_well [of ctx input w] by (simp add: well_run_def)

end

locale verify_flow =
  fixes verify :: "'w verify_runner"
  assumes verifies_well: "well_verified (fst (verify ctx input w))"
begin

lemma verified_by_service:
  assumes "es_verifyRunner s = Some verify"
  shows "well_verified (fst (Service_VerifyFollowResult s ctx input w))"
proof -
  obtain r w1 where r: "verify ctx input w = (r, w1)" by (cases "verify ctx input w")
  have "well_verified r" using verifies_well [of ctx input w] r by simp
  then show ?thesis using assms r by (cases r) (simp_all add: Service_VerifyFollowResult_def)
qed

end

definition result_or_error :: "follow_verification_result \<Rightarrow> go_error option \<Rightarrow> follow_verification_result" where
  "result_or_error v err = (case err of Some e \<Rightarrow> verificationFromError e | None \<Rightarrow> v)"

lemma coded_error_result: "coded e \<Longrightarrow> FollowVerificationResult_Validate (verificationFromError e) = None"
  by (simp add: FollowVerificationResult_Validate_None verificationFromError_def coded_def bytes_of_def Let_def)

lemma runVerifyStage_well:
  assumes "\<And>w. well_verified (fst (le_VerifyFollowResult ex ctx input w))"
    and "runVerifyStage l ex ctx input w = ((v, err), w1)"
  shows "FollowVerificationResult_Validate (result_or_error v err) = None"
proof -
  obtain r w2 where r: "le_VerifyFollowResult ex ctx input w = (r, w2)" by (cases "le_VerifyFollowResult ex ctx input w")
  have "well_verified r" using assms(1) [of w] r by simp
  then show ?thesis
    using assms(2) r coded_error_result [of "with_stack _"]
    by (auto simp: runVerifyStage_def result_or_error_def split: sum.splits if_splits)
qed

lemma verify_stage_well:
  assumes "\<And>input w. well_verified (fst (le_VerifyFollowResult ex ctx input w))"
    and "verify_stage l ex ctx tk ectx a w = (Inr (a', outcome, v, err), w1)"
  shows "FollowFlowOutcome_IsValid outcome \<and> FollowVerificationResult_Validate (result_or_error v err) = None"
proof -
  note well = runVerifyStage_well [OF assms(1)]
  show ?thesis
    using assms(2) well
    by (auto simp: verify_stage_def Let_def split: prod.splits sum.splits if_splits)
qed


section \<open>The two engines\<close>

lemma runFollowFlow_well: "well_run (fst (runFollowFlow env engine warmup follow ctx input w))"
  by (auto simp: runFollowFlow_def well_run_def Let_def split: option.splits prod.splits sum.splits)

lemma runVerifyFlow_well:
  assumes "context_errors env"
  shows "well_verified (fst (runVerifyFlow env overrides ctx input w))"
  using coded_context [OF assms] validated_coded
  by (auto simp: runVerifyFlow_def Let_def split: option.splits)

lemma Playwright_VerifyFollowResult_well:
  assumes "context_errors env"
  shows "well_verified (fst (Playwright_VerifyFollowResult env adapter ctx input w))"
proof (cases "env_ctxErr env ctx w = None \<and> FollowVerificationInput_Validate input = None")
  case False
  then show ?thesis
    using coded_context [OF assms] validated_coded
    by (auto simp: Playwright_VerifyFollowResult_def Let_def split: option.splits)
next
  case ok: True
  show ?thesis
  proof (cases adapter)
    case None
    then show ?thesis
      using ok by (simp add: Playwright_VerifyFollowResult_def NewDomainError_def coded_known known_error_codes_def)
  next
    case (Some inspect)
    obtain r w1 where r: "inspect ctx input w = (r, w1)" by (cases "inspect ctx input w")
    have "coded (normalizePlaywrightVerifyError e)" for e
      using normalized_verify_error [of e] by (auto simp: verify_error_codes_def known_error_codes_def intro!: coded_known)
    then show ?thesis
      using ok Some r validated_coded(3)
      by (cases r) (auto simp: Playwright_VerifyFollowResult_def Let_def split: option.splits)
  qed
qed

text \<open>The runtime with every error of a context one of the two; a runtime whose contexts only have those is unchanged.\<close>

definition calm :: "'w runtime_env \<Rightarrow> 'w runtime_env" where
  "calm env = env\<lparr>env_ctxErr := (\<lambda>ctx w. case env_ctxErr env ctx w of
       Some err \<Rightarrow> if err = CtxDeadlineExceeded then Some CtxDeadlineExceeded else Some CtxCanceled | None \<Rightarrow> None)\<rparr>"

lemma calm_errors [simp]: "context_errors (calm env)"
  by (auto simp: context_errors_def calm_def split: option.splits if_splits)

interpretation mock_follows: follow_flow "Mock_RunFollowFlow env r"
  by unfold_locales (simp add: Mock_RunFollowFlow_def runFollowFlow_well)

interpretation playwright_follows: follow_flow "Playwright_RunFollowFlow env decode dflt r"
  by unfold_locales (simp add: Playwright_RunFollowFlow_def runFollowFlow_well)

interpretation mock_verifies: verify_flow "runVerifyFlow (calm env) overrides"
  by unfold_locales (simp add: runVerifyFlow_well)

interpretation playwright_verifies: verify_flow "Playwright_VerifyFollowResult (calm env) adapter"
  by unfold_locales (simp add: Playwright_VerifyFollowResult_well)

lemma calm_env_same:
  assumes "context_errors env"
  shows "calm env = env"
proof -
  have "env_ctxErr (calm env) ctx w = env_ctxErr env ctx w" for ctx w
  proof (cases "env_ctxErr env ctx w")
    case (Some err)
    then have "err = CtxCanceled \<or> err = CtxDeadlineExceeded" using assms by (simp add: context_errors_def)
    with Some show ?thesis by (auto simp: calm_def)
  qed (simp add: calm_def)
  then show ?thesis by (simp add: calm_def fun_eq_iff)
qed

lemma mock_runner_verifies: "context_errors env \<Longrightarrow> verify_flow (runVerifyFlow env overrides)"
  using mock_verifies.verify_flow_axioms [of env overrides] by (simp add: calm_env_same)

lemma playwright_runner_verifies: "context_errors env \<Longrightarrow> verify_flow (Playwright_VerifyFollowResult env adapter)"
  using playwright_verifies.verify_flow_axioms [of env adapter] by (simp add: calm_env_same)

lemma engine_verifies:
  assumes "context_errors env" "NewVerifyFlowRunner env dflt engine = Inr verify"
  shows "verify_flow verify"
  using assms mock_runner_verifies playwright_runner_verifies
  by (auto simp: NewVerifyFlowRunner_def NewPlaywrightVerifyFlowRunner_def split: if_splits)


section \<open>The errors of a follow\<close>

definition known_code :: "go_error \<Rightarrow> bool" where
  "known_code err \<longleftrightarrow> lifecycleErrorCode err \<in> set known_error_codes"

lemma known_code_simps [simp]:
  "known_code (with_stack err) = known_code err"
  "known_code (DomainErr code message) = (code \<in> set known_error_codes)"
  "known_code CtxCanceled" "known_code CtxDeadlineExceeded"
  by (simp_all add: known_code_def lifecycleErrorCode_def known_error_codes_def)

lemma known_context: "context_errors env \<Longrightarrow> env_ctxErr env ctx w = Some err \<Longrightarrow> known_code err"
  using known_code_simps(3,4) by (metis context_errors_def)

lemma known_follow_error: "known_code (normalizePlaywrightFollowError err)"
proof -
  have "set follow_error_codes \<subseteq> set known_error_codes" by code_simp
  then show ?thesis using normalized_follow_error [of err] by auto
qed

lemma known_warmup_error: "known_code err \<Longrightarrow> known_code (normalizeWarmupError err)"
  by (simp add: normalizeWarmupError_def NewDomainError_def known_error_codes_def)

lemma known_validation:
  "TargetProfile_Validate t = Some err \<Longrightarrow> known_code err"
  "FollowFlowInput_Validate i = Some err \<Longrightarrow> known_code err"
  "NormalizeOskellyTargetProfileURL t = Inl err \<Longrightarrow> known_code err"
  "parsePlaywrightStorageStatePayload decode payload = Inl err \<Longrightarrow> known_code err"
  by (auto simp: TargetProfile_Validate_def FollowFlowInput_Validate_def NormalizeOskellyTargetProfileURL_def
      parsePlaywrightStorageStatePayload_def NewDomainError_def known_error_codes_def Let_def
      split: if_splits option.splits)

text \<open>What a follow gives: one of the five outcomes after a warmup, or an error with a known code.\<close>

definition follow_reported :: "string \<Rightarrow> follow_flow_outcome \<times> follow_flow_diagnostics \<times> go_error option \<Rightarrow> bool" where
  "follow_reported engine r \<longleftrightarrow> (case r of (outcome, diagnostics, err) \<Rightarrow>
     ffd_Engine diagnostics = engine \<and>
     (case err of
        None \<Rightarrow> ffd_WarmupCompleted diagnostics \<and>
          outcome \<in> {FollowFlowOutcomeCompleted, FollowFlowOutcomeAlreadyDone, FollowFlowOutcomeActionUnavailable,
                     FollowFlowOutcomeTargetUnreachable, FollowFlowOutcomeNavigationFailed}
      | Some e \<Rightarrow> outcome = no_outcome \<and> lifecycleErrorCode e \<in> set known_error_codes))"

lemma valid_outcomes:
  "FollowFlowOutcome_IsValid outcome \<longleftrightarrow>
   outcome \<in> {FollowFlowOutcomeCompleted, FollowFlowOutcomeAlreadyDone, FollowFlowOutcomeActionUnavailable,
     FollowFlowOutcomeTargetUnreachable, FollowFlowOutcomeNavigationFailed}"
  by (cases outcome) simp_all

lemma runFollowFlow_reported:
  assumes "\<And>w err w1. warmup ctx input w = (Some err, w1) \<Longrightarrow> known_code err"
    and "\<And>w err w1. follow ctx input w = (Inl err, w1) \<Longrightarrow> known_code err"
  shows "follow_reported engine (fst (runFollowFlow env engine warmup follow ctx input w))"
proof -
  have internal: "lifecycleErrorCode (NewDomainError ErrorCodeInternal message) \<in> set known_error_codes" for message
    by (simp add: NewDomainError_def lifecycleErrorCode_def known_error_codes_def)
  have stacked: "lifecycleErrorCode (with_stack err) \<in> set known_error_codes" if "known_code err" for err
    using that by (simp add: known_code_def lifecycleErrorCode_def)
  show ?thesis
    using stacked [OF assms(2)] stacked [OF known_warmup_error [OF assms(1)]] stacked [OF known_validation(2)] internal
    by (auto simp: runFollowFlow_def follow_reported_def Let_def valid_outcomes split: option.splits prod.splits sum.splits)
qed

lemma warmup_known:
  assumes "context_errors env"
  shows "runMockWarmupFlow env ctx input w = (Some err, w1) \<Longrightarrow> known_code err"
    and "runPlaywrightWarmupFlow env decode dflt adapters ctx input w = (Some err, w1) \<Longrightarrow> known_code err"
  using known_context [OF assms] known_validation known_follow_error
  by (auto simp: runMockWarmupFlow_def runPlaywrightWarmupFlow_def WithStack_def split: option.splits sum.splits prod.splits)

lemma action_known:
  assumes "context_errors env"
  shows "Mock_runFollowAction env (NewMockFollowFlowRunner Map.empty Map.empty) ctx input w = (Inl err, w1) \<Longrightarrow> known_code err"
    and "Playwright_runFollowAction env r ctx input w = (Inl err, w1) \<Longrightarrow> known_code err"
  using known_context [OF assms] known_validation known_follow_error
  by (auto simp: Mock_runFollowAction_def Playwright_runFollowAction_def NewMockFollowFlowRunner_def NewDomainError_def
      known_error_codes_def split: option.splits sum.splits prod.splits if_splits)

lemma engine_follows:
  assumes "context_errors env" "NewFollowFlowRunner env decode dflt engine = Inr follow"
  shows "follow_reported engine (fst (follow ctx input w))"
  using assms(2)
  by (auto simp: NewFollowFlowRunner_def Mock_RunFollowFlow_def Playwright_RunFollowFlow_def split: if_splits
      intro!: runFollowFlow_reported elim: warmup_known [OF assms(1)] action_known [OF assms(1)])


section \<open>Properties\<close>

text \<open>
  C17.  Either engine reports a follow as one of the five outcomes, after a completed warmup, or as an error with a code
  of the domain and no outcome, and names itself in the diagnostics.  Whatever the follow and the verification of the
  engine and the login did, the input of the finalization the claim loop builds for a task from the queue passes its own
  validation: the outcome is one of the five, the verification is valid and has an error code when it is not verified, a
  changed session comes with its payload.
\<close>

theorem finalization_input_well_formed:
  assumes "context_errors env" "NewFollowFlowRunner env decode adapter engine = Inr follow"
    and "NewVerifyFlowRunner env dflt engine = Inr verify" "es_verifyRunner s = Some verify"
    and "verify_stage l (execution_of_service s) ctx tk ectx a w = (Inr (a', outcome, v, err), w')"
    and "task_ID tk \<noteq> uuid_Nil" "task_AccountID tk \<noteq> uuid_Nil" "0 < task_Attempt tk"
    and "TrimSpace (task_TargetProfile tk) \<noteq> ''''"
    and "0 \<le> session_Revision (pc_SessionMetadata (at_prepared a'))"
  shows "follow_reported engine (fst (follow fctx input w0)) \<and>
    FollowExecutionFinalizationInput_Validate
      (finalize_input tk (at_prepared a') outcome (at_diagnostics a') (result_or_error v err)) = None"
proof
  show "follow_reported engine (fst (follow fctx input w0))" by (rule engine_follows [OF assms(1,2)])
  have "well_verified (fst (le_VerifyFollowResult (execution_of_service s) ctx input w))" for input w
    using verify_flow.verified_by_service [OF engine_verifies [OF assms(1,3)] assms(4)]
    by (simp add: execution_of_service_def)
  then have "FollowFlowOutcome_IsValid outcome \<and> FollowVerificationResult_Validate (result_or_error v err) = None"
    by (rule verify_stage_well [OF _ assms(5)])
  then show "FollowExecutionFinalizationInput_Validate
      (finalize_input tk (at_prepared a') outcome (at_diagnostics a') (result_or_error v err)) = None"
    using assms(6-10)
    by (simp add: FollowExecutionFinalizationInput_Validate_None FollowVerificationResult_Validate_None
        finalize_input_def sessionPayloadForFinalization_def)
qed

definition calm_world :: "unit runtime_env" where
  "calm_world = \<lparr>env_now = (\<lambda>w. 0), env_ctxErr = (\<lambda>ctx w. None)\<rparr>"

definition sample_attempt :: "go_error option \<Rightarrow> attempt_state" where
  "sample_attempt err =
     \<lparr>at_prepared = \<lparr>pc_AccountWithProxy = toAccountWithProxy
         \<lparr>awop_Account = account_of_row sample_account, awop_Proxy = Some sample_proxy\<rparr>,
       pc_SessionMetadata = zero_metadata, pc_SessionPayload = [1], pc_TaskID = ''t1'', pc_Attempt = 1,
       pc_ExecutionContextID = ''w1'', pc_ReadyForFollowFlow = True, pc_BootstrapRequired = False,
       pc_BootstrapReason = no_error_code, pc_BootstrapSource = no_error_code\<rparr>,
      at_outcome = no_outcome, at_diagnostics = zero_diagnostics, at_followErr = err, at_recovered = False\<rparr>"

definition blind_verify :: "unit verify_adapter" where
  "blind_verify ctx input w = (Inl (PlainErr ''page crashed''), w)"

definition broken_follow :: "unit follow_adapter" where
  "broken_follow = \<lparr>fa_Warmup = (\<lambda>ctx i w. (None, w)), fa_RunFollowAction = (\<lambda>ctx i w. (Inl CtxCanceled, w))\<rparr>"

definition sample_followed :: follow_flow_input where
  "sample_followed =
     \<lparr>ffi_TaskID = ''t1'', ffi_AccountID = ''a1'', ffi_Attempt = 1, ffi_ExecutionContextID = ''w1'',
      ffi_SessionMetadata = zero_metadata, ffi_SessionPayload = [1], ffi_TargetProfile = sample_target\<rparr>"

lemma finalization_input_well_formed_witness:
  "follow_reported ''playwright''
     (fst (Playwright_RunFollowFlow calm_world (\<lambda>b. Some ()) broken_follow (NewPlaywrightFollowFlowRunner broken_follow [])
       Background sample_followed ())) \<and>
   FollowExecutionFinalizationInput_Validate
     (finalize_input (task_of_row sample_running) (at_prepared (sample_attempt (Some CtxCanceled)))
        FollowFlowOutcomeNavigationFailed zero_diagnostics
        (verificationFromError (with_stack (with_stack (with_stack
           (NewDomainError ErrorCodeFollowVerifyFailed ''playwright verify runtime failure'')))))) = None"
proof -
  let ?s = "WithVerifyFlowRunner (Some (NewPlaywrightVerifyFlowRunner calm_world blind_verify [])) sample_service"
  let ?e = "with_stack (with_stack (with_stack (NewDomainError ErrorCodeFollowVerifyFailed ''playwright verify runtime failure'')))"
  have stage: "verify_stage sample_loop (execution_of_service ?s) Background (task_of_row sample_running) ''w1''
      (sample_attempt (Some CtxCanceled)) () =
      (Inr (sample_attempt (Some CtxCanceled), FollowFlowOutcomeNavigationFailed, no_verification, Some ?e), ())"
    by code_simp
  have row: "task_ID (task_of_row sample_running) \<noteq> uuid_Nil" "task_AccountID (task_of_row sample_running) \<noteq> uuid_Nil"
    "0 < task_Attempt (task_of_row sample_running)" "TrimSpace (task_TargetProfile (task_of_row sample_running)) \<noteq> ''''"
    "0 \<le> session_Revision (pc_SessionMetadata (at_prepared (sample_attempt (Some CtxCanceled))))"
    by code_simp+
  have calm: "context_errors calm_world" by (simp add: context_errors_def calm_world_def)
  have follow: "NewFollowFlowRunner calm_world (\<lambda>b. Some ()) broken_follow ''playwright'' =
      Inr (Playwright_RunFollowFlow calm_world (\<lambda>b. Some ()) broken_follow (NewPlaywrightFollowFlowRunner broken_follow []))"
    by (simp add: NewFollowFlowRunner_def)
  have verify: "NewVerifyFlowRunner calm_world blind_verify ''playwright'' =
      Inr (NewPlaywrightVerifyFlowRunner calm_world blind_verify [])" by (simp add: NewVerifyFlowRunner_def)
  have wired: "es_verifyRunner ?s = Some (NewPlaywrightVerifyFlowRunner calm_world blind_verify [])"
    by (simp add: WithVerifyFlowRunner_def)
  from finalization_input_well_formed [OF calm follow verify wired stage row, of Background sample_followed "()"]
  show ?thesis by (simp add: result_or_error_def sample_attempt_def)
qed

text \<open>
  C12.  The runner of engine playwright calls a follow verified exactly when the follow said it was made or
  already there and the page shows it; the session counts as changed exactly when it was made and is verified,
  and a new login is asked for exactly when the page asks for one.
\<close>

theorem playwright_verified_iff_shown:
  assumes "Playwright_VerifyFollowResult env (Some inspect) ctx input w = (Inr r, w')"
  shows "\<exists>detection. inspect ctx input w = (Inr detection, w') \<and>
    (fvr_Verified r \<longleftrightarrow> fvi_Outcome input \<in> {FollowFlowOutcomeCompleted, FollowFlowOutcomeAlreadyDone} \<and>
       vd_State detection = VerifyFollowConfirmed) \<and>
    (fvr_SessionChanged r \<longleftrightarrow> fvr_Verified r \<and> fvi_Outcome input = FollowFlowOutcomeCompleted) \<and>
    (fvr_ErrorCode r = ErrorCodeAuthBootstrapRequired \<longleftrightarrow> vd_State detection = VerifyAuthRequired) \<and>
    fvr_ScreenshotPayload r \<noteq> [] \<and> (fvr_SessionChanged r \<longrightarrow> fvr_SessionPayload r = fvi_SessionPayload input)"
proof -
  note run = assms [unfolded Playwright_VerifyFollowResult_def Let_def option.case]
  obtain detection where d: "inspect ctx input w = (Inr detection, w')"
    using run by (auto split: option.splits prod.splits sum.splits)
  define d' where "d' = detection\<lparr>vd_ScreenshotPayload :=
      ensureVerifyScreenshotPayload (vd_ScreenshotPayload detection) (fvi_Outcome input)\<rparr>"
  have r: "r = mapPlaywrightVerificationResult input d'" "FollowVerificationResult_Validate r = None"
    using run d by (auto simp: d'_def split: option.splits)
  have same: "vd_State d' = vd_State detection" by (simp add: d'_def)
  have "fvr_ScreenshotPayload r \<noteq> []" using r(2) by (simp add: FollowVerificationResult_Validate_None)
  then show ?thesis
    using d same unfolding r(1) mapPlaywrightVerificationResult_def Let_def
    by (cases "fvi_Outcome input"; cases "vd_State detection")
      (simp_all add: verified_changed_def verified_already_def verifyFailedResult_def verifyAuthRequiredResult_def
        unverified_def clonePayload_def)
qed

definition seen_follow :: "unit verify_adapter" where
  "seen_follow ctx input w =
     (Inr \<lparr>vd_State = VerifyFollowConfirmed, vd_ScreenshotPayload = [], vd_Reason = ''''\<rparr>, w)"

definition sample_verify_input :: follow_verification_input where
  "sample_verify_input =
     \<lparr>fvi_TaskID = ''t1'', fvi_AccountID = ''a1'', fvi_Attempt = 1, fvi_ExecutionContextID = ''w1'',
      fvi_TargetProfile = ''https://oskelly.ru/profile/7'', fvi_Outcome = FollowFlowOutcomeCompleted,
      fvi_SessionPayload = [9]\<rparr>"

lemma playwright_verified_iff_shown_witness:
  "\<exists>r. Playwright_VerifyFollowResult calm_world (Some seen_follow) Background sample_verify_input () = (Inr r, ()) \<and>
     fvr_Verified r \<and> fvr_SessionPayload r = [9]"
proof -
  define r where "r = verified_changed sample_verify_input ''verify UI could not determine a supported follow state''
      (verify_screenshot ''follow_completed'')"
  have run: "Playwright_VerifyFollowResult calm_world (Some seen_follow) Background sample_verify_input () = (Inr r, ())"
    unfolding r_def by code_simp
  from playwright_verified_iff_shown [OF run] have "fvr_Verified r \<and> fvr_SessionPayload r = [9]"
    by (auto simp: seen_follow_def sample_verify_input_def)
  with run show ?thesis by blast
qed

end
