(* ===== verification/Page_Adapters.thy ===== *)
theory Page_Adapters
  imports Browser_Flows "HOL-Library.Monad_Syntax"
begin

text \<open>
  The adapters that drive a page: \<open>playwright_follow_adapter.go\<close>, \<open>playwright_verify_adapter.go\<close>, the page
  part of \<open>auth_detection.go\<close> and \<open>defaultPlaywrightBootstrapAdapter\<close> of \<open>bootstrap_login_flow.go\<close>.

  Package playwright is the record \<open>page_sdk\<close> of the calls the adapters make, on handles \<open>'h\<close>, storage states
  \<open>'s\<close> and the state \<open>'w\<close> of the world.  A loop that polls until a deadline is a partial function: it ends only
  if the clock gets there, so an adapter that waits gives \<open>None\<close> when it does not return.  Durations are in
  nanoseconds, the timeouts given to the package in milliseconds, as in the code.
\<close>

section \<open>The calls of the package\<close>

datatype js_value =
    JsNil
  | JsText string
  | JsArray "js_value list"
  | JsOther

record ('h, 's, 'w) page_sdk =
  pg_Run :: "'w \<Rightarrow> (go_error + 'h) \<times> 'w"
  pg_Stop :: "'h \<Rightarrow> 'w \<Rightarrow> go_error option \<times> 'w"
  pg_Launch :: "'h \<Rightarrow> 'w \<Rightarrow> (go_error + 'h) \<times> 'w"
  pg_CloseBrowser :: "'h \<Rightarrow> 'w \<Rightarrow> go_error option \<times> 'w"
  pg_NewContext :: "'h \<Rightarrow> 's option \<Rightarrow> 'w \<Rightarrow> (go_error + 'h) \<times> 'w"
  pg_CloseContext :: "'h \<Rightarrow> 'w \<Rightarrow> go_error option \<times> 'w"
  pg_NewPage :: "'h \<Rightarrow> 'w \<Rightarrow> (go_error + 'h) \<times> 'w"
  pg_Goto :: "'h \<Rightarrow> string \<Rightarrow> int \<Rightarrow> 'w \<Rightarrow> (go_error + int option) \<times> 'w"
  pg_URL :: "'h \<Rightarrow> 'w \<Rightarrow> string \<times> 'w"
  pg_IsVisible :: "'h \<Rightarrow> string \<Rightarrow> 'w \<Rightarrow> (go_error + bool) \<times> 'w"
  pg_Count :: "'h \<Rightarrow> string \<Rightarrow> 'w \<Rightarrow> (go_error + int) \<times> 'w"
  pg_NthVisible :: "'h \<Rightarrow> string \<Rightarrow> nat \<Rightarrow> 'w \<Rightarrow> (go_error + bool) \<times> 'w"
  pg_NthEnabled :: "'h \<Rightarrow> string \<Rightarrow> nat \<Rightarrow> 'w \<Rightarrow> (go_error + bool) \<times> 'w"
  pg_NthAttribute :: "'h \<Rightarrow> string \<Rightarrow> nat \<Rightarrow> string \<Rightarrow> 'w \<Rightarrow> (go_error + string) \<times> 'w"
  pg_NthScroll :: "'h \<Rightarrow> string \<Rightarrow> nat \<Rightarrow> 'w \<Rightarrow> go_error option \<times> 'w"
  pg_NthClick :: "'h \<Rightarrow> string \<Rightarrow> nat \<Rightarrow> int \<Rightarrow> 'w \<Rightarrow> go_error option \<times> 'w"
  pg_Evaluate :: "'h \<Rightarrow> string \<Rightarrow> 'w \<Rightarrow> (go_error + js_value) \<times> 'w"
  pg_Screenshot :: "'h \<Rightarrow> 'w \<Rightarrow> (go_error + bytes) \<times> 'w"
  pg_WaitForSelector :: "'h \<Rightarrow> string \<Rightarrow> int \<Rightarrow> 'w \<Rightarrow> go_error option \<times> 'w"
  pg_Click :: "'h \<Rightarrow> string \<Rightarrow> int option \<Rightarrow> 'w \<Rightarrow> go_error option \<times> 'w"
  pg_Fill :: "'h \<Rightarrow> string \<Rightarrow> string \<Rightarrow> 'w \<Rightarrow> go_error option \<times> 'w"
  pg_QuerySelector :: "'h \<Rightarrow> string \<Rightarrow> 'w \<Rightarrow> (go_error + bool) \<times> 'w"
  pg_Content :: "'h \<Rightarrow> 'w \<Rightarrow> (go_error + string) \<times> 'w"
  pg_StorageState :: "'h \<Rightarrow> 'w \<Rightarrow> (go_error + 's) \<times> 'w"
  pg_Sleep :: "int \<Rightarrow> 'w \<Rightarrow> 'w"

abbreviation milliseconds :: "int \<Rightarrow> time" where
  "milliseconds n \<equiv> n * 1000000"


section \<open>Reading a page\<close>

fun hasAnyVisibleSelector :: "('h, 's, 'w) page_sdk \<Rightarrow> 'h \<Rightarrow> string list \<Rightarrow> 'w \<Rightarrow> bool \<times> 'w" where
  "hasAnyVisibleSelector sdk page [] w = (False, w)"
| "hasAnyVisibleSelector sdk page (sel # sels) w =
     (case pg_IsVisible sdk page sel w of
        (Inr True, w1) \<Rightarrow> (True, w1)
      | (r, w1) \<Rightarrow> hasAnyVisibleSelector sdk page sels w1)"

definition isAuthenticationRequiredPage :: "('h, 's, 'w) page_sdk \<Rightarrow> 'h \<Rightarrow> string list \<Rightarrow> 'w \<Rightarrow> bool \<times> 'w" where
  "isAuthenticationRequiredPage sdk page selectors w =
     (case pg_URL sdk page w of (url, w1) \<Rightarrow>
        if isAuthenticationRequiredURL url then (True, w1)
        else if selectors \<noteq> [] then hasAnyVisibleSelector sdk page selectors w1
        else (False, w1))"

text \<open>The loop over the elements from \<open>idx\<close> on, \<open>n\<close> of them.\<close>

fun nth_visible :: "('h, 's, 'w) page_sdk \<Rightarrow> 'h \<Rightarrow> string \<Rightarrow> nat \<Rightarrow> nat \<Rightarrow> 'w \<Rightarrow> bool \<times> 'w" where
  "nth_visible sdk page sel idx 0 w = (False, w)"
| "nth_visible sdk page sel idx (Suc n) w =
     (case pg_NthVisible sdk page sel idx w of
        (Inr True, w1) \<Rightarrow> (True, w1)
      | (r, w1) \<Rightarrow> nth_visible sdk page sel (Suc idx) n w1)"

definition selectorHasVisibleElement :: "('h, 's, 'w) page_sdk \<Rightarrow> 'h \<Rightarrow> string \<Rightarrow> 'w \<Rightarrow> (go_error + bool) \<times> 'w" where
  "selectorHasVisibleElement sdk page sel w =
     (case pg_Count sdk page sel w of
        (Inl err, w1) \<Rightarrow> (Inl (with_stack err), w1)
      | (Inr count, w1) \<Rightarrow>
          if count = 0 then (Inr False, w1)
          else (case nth_visible sdk page sel 0 (nat (min count 5)) w1 of (visible, w2) \<Rightarrow> (Inr visible, w2)))"

fun hasAnySelector :: "('h, 's, 'w) page_sdk \<Rightarrow> 'h \<Rightarrow> string list \<Rightarrow> 'w \<Rightarrow> bool \<times> 'w" where
  "hasAnySelector sdk page [] w = (False, w)"
| "hasAnySelector sdk page (sel # sels) w =
     (case selectorHasVisibleElement sdk page sel w of
        (Inr True, w1) \<Rightarrow> (True, w1)
      | (r, w1) \<Rightarrow> hasAnySelector sdk page sels w1)"

text \<open>The selector and that it exists are an option.\<close>

fun firstVisibleSelector :: "('h, 's, 'w) page_sdk \<Rightarrow> 'h \<Rightarrow> string list \<Rightarrow> 'w \<Rightarrow> (go_error + string option) \<times> 'w" where
  "firstVisibleSelector sdk page [] w = (Inr None, w)"
| "firstVisibleSelector sdk page (sel # sels) w =
     (case selectorHasVisibleElement sdk page sel w of
        (Inl err, w1) \<Rightarrow> (Inl (with_stack err), w1)
      | (Inr visible, w1) \<Rightarrow>
          if \<not> visible then firstVisibleSelector sdk page sels w1 else (Inr (Some sel), w1))"

text \<open>The attributes are read one after the other; an attribute that cannot be read does not count.\<close>

definition attribute_says ::
  "('h, 's, 'w) page_sdk \<Rightarrow> 'h \<Rightarrow> string \<Rightarrow> string \<Rightarrow> (string \<Rightarrow> bool) \<Rightarrow> 'w \<Rightarrow> bool \<times> 'w" where
  "attribute_says sdk page sel name says w =
     (case pg_NthAttribute sdk page sel 0 name w of
        (Inr v, w1) \<Rightarrow> (says v, w1)
      | (Inl err, w1) \<Rightarrow> (False, w1))"

definition selectorIsEnabled :: "('h, 's, 'w) page_sdk \<Rightarrow> 'h \<Rightarrow> string \<Rightarrow> 'w \<Rightarrow> (go_error + bool) \<times> 'w" where
  "selectorIsEnabled sdk page sel w =
     (case pg_Count sdk page sel w of
        (Inl err, w1) \<Rightarrow> (Inl (with_stack err), w1)
      | (Inr count, w1) \<Rightarrow>
          if count = 0 then (Inr False, w1)
          else (case pg_NthEnabled sdk page sel 0 w1 of
              (Inl err, w2) \<Rightarrow> (Inl (with_stack err), w2)
            | (Inr isEnabled, w2) \<Rightarrow>
                if \<not> isEnabled then (Inr False, w2)
                else (case attribute_says sdk page sel ''aria-disabled'' (\<lambda>v. ToLower (TrimSpace v) = ''true'') w2 of
                    (True, w3) \<Rightarrow> (Inr False, w3)
                  | (False, w3) \<Rightarrow>
                    (case attribute_says sdk page sel ''disabled'' (\<lambda>v. TrimSpace v \<noteq> '''') w3 of
                       (True, w4) \<Rightarrow> (Inr False, w4)
                     | (False, w4) \<Rightarrow>
                       (case attribute_says sdk page sel ''class''
                               (\<lambda>v. containsAny (ToLower v) [''disabled'', ''is-disabled'']) w4 of
                          (disabled, w5) \<Rightarrow> (Inr (\<not> disabled), w5))))))"

definition button_texts_script :: string where
  "button_texts_script =
     ''() => Array.from(document.querySelectorAll('' @ [CHR 0x27] @ ''button'' @ [CHR 0x27] @
     '')).map((button) => (button.innerText || '' @ [CHR 0x27, CHR 0x27] @ '').trim())''"

fun typed_text :: "js_value \<Rightarrow> string list" where
  "typed_text (JsText t) = (if TrimSpace t = '''' then [] else [TrimSpace t])"
| "typed_text _ = []"

definition pageButtonTexts :: "('h, 's, 'w) page_sdk \<Rightarrow> 'h \<Rightarrow> 'w \<Rightarrow> (go_error + string list) \<times> 'w" where
  "pageButtonTexts sdk page w =
     (case pg_Evaluate sdk page button_texts_script w of
        (Inl err, w1) \<Rightarrow> (Inl (with_stack err), w1)
      | (Inr (JsArray entries), w1) \<Rightarrow> (Inr (concat (map typed_text entries)), w1)
      | (Inr v, w1) \<Rightarrow> (Inr [], w1))"

definition hasFollowConfirmedButtonText :: "('h, 's, 'w) page_sdk \<Rightarrow> 'h \<Rightarrow> 'w \<Rightarrow> bool \<times> 'w" where
  "hasFollowConfirmedButtonText sdk page w =
     (case pageButtonTexts sdk page w of
        (Inl err, w1) \<Rightarrow> (False, w1)
      | (Inr texts, w1) \<Rightarrow> (list_ex confirmed_text texts, w1))"

definition hasSubscribeButtonText :: "('h, 's, 'w) page_sdk \<Rightarrow> 'h \<Rightarrow> 'w \<Rightarrow> bool \<times> 'w" where
  "hasSubscribeButtonText sdk page w =
     (case pageButtonTexts sdk page w of
        (Inl err, w1) \<Rightarrow> (False, w1)
      | (Inr texts, w1) \<Rightarrow> (list_ex subscribe_text texts, w1))"

text \<open>Screenshots: of a verification, with a text to fall back to, and of a login, when there is one.\<close>

definition captureVerifyScreenshot :: "('h, 's, 'w) page_sdk \<Rightarrow> 'h \<Rightarrow> string \<Rightarrow> 'w \<Rightarrow> bytes \<times> 'w" where
  "captureVerifyScreenshot sdk page fallbackSuffix w =
     (case pg_Screenshot sdk page w of
        (Inr screenshot, w1) \<Rightarrow> (if screenshot \<noteq> [] then screenshot else verify_screenshot fallbackSuffix, w1)
      | (Inl err, w1) \<Rightarrow> (verify_screenshot fallbackSuffix, w1))"

definition captureBootstrapScreenshot ::
  "('h, 's, 'w) page_sdk \<Rightarrow> 'h \<Rightarrow> (string \<times> bytes) list \<Rightarrow> string \<Rightarrow> 'w \<Rightarrow> (string \<times> bytes) list \<times> 'w" where
  "captureBootstrapScreenshot sdk page dest stage w =
     (let trimmedStage = TrimSpace stage in
      if trimmedStage = '''' then (dest, w)
      else case pg_Screenshot sdk page w of
        (Inr screenshot, w1) \<Rightarrow>
          (if screenshot = [] then dest else put_entry trimmedStage screenshot dest, w1)
      | (Inl err, w1) \<Rightarrow> (dest, w1))"


section \<open>Waiting\<close>

text \<open>\<open>probe\<close> is what is looked for in every round, and whether to give up.\<close>

partial_function (option) poll_until ::
  "('w \<Rightarrow> time) \<Rightarrow> (int \<Rightarrow> 'w \<Rightarrow> 'w) \<Rightarrow> ('w \<Rightarrow> bool) \<Rightarrow> ('w \<Rightarrow> bool \<times> 'w) \<Rightarrow> time \<Rightarrow> 'w \<Rightarrow> (bool \<times> 'w) option" where
  "poll_until now sleep gives_up probe deadline w =
     (if \<not> now w < deadline then Some (False, w)
      else if gives_up w then Some (False, w)
      else if fst (probe w) then Some (True, snd (probe w))
      else poll_until now sleep gives_up probe deadline (sleep (milliseconds 200) (snd (probe w))))"

definition waitAnySelectorWithContext ::
  "('h, 's, 'w) page_sdk \<Rightarrow> 'w runtime_env \<Rightarrow> go_context \<Rightarrow> 'h \<Rightarrow> string list \<Rightarrow> time \<Rightarrow> 'w \<Rightarrow> (bool \<times> 'w) option" where
  "waitAnySelectorWithContext sdk env ctx page selectors timeout w =
     poll_until (env_now env) (pg_Sleep sdk) (\<lambda>w. env_ctxErr env ctx w \<noteq> None) (hasAnySelector sdk page selectors)
       (env_now env w + timeout) w"

fun queryAnySelector :: "('h, 's, 'w) page_sdk \<Rightarrow> 'h \<Rightarrow> string list \<Rightarrow> 'w \<Rightarrow> bool \<times> 'w" where
  "queryAnySelector sdk page [] w = (False, w)"
| "queryAnySelector sdk page (sel # sels) w =
     (case pg_QuerySelector sdk page sel w of
        (Inr True, w1) \<Rightarrow> (True, w1)
      | (r, w1) \<Rightarrow> queryAnySelector sdk page sels w1)"

definition waitAnySelector ::
  "('h, 's, 'w) page_sdk \<Rightarrow> 'w runtime_env \<Rightarrow> 'h \<Rightarrow> string list \<Rightarrow> time \<Rightarrow> 'w \<Rightarrow> (bool \<times> 'w) option" where
  "waitAnySelector sdk env page selectors timeout w =
     poll_until (env_now env) (pg_Sleep sdk) (\<lambda>w. False) (queryAnySelector sdk page selectors)
       (env_now env w + timeout) w"



section \<open>The browser of an attempt\<close>

record 'h page_runtime =
  prt_playwright :: 'h
  prt_browser :: 'h
  prt_context :: 'h
  prt_page :: 'h

definition close_runtime :: "('h, 's, 'w) page_sdk \<Rightarrow> 'h page_runtime \<Rightarrow> 'w \<Rightarrow> 'w" where
  "close_runtime sdk rt w =
     snd (pg_Stop sdk (prt_playwright rt)
       (snd (pg_CloseBrowser sdk (prt_browser rt) (snd (pg_CloseContext sdk (prt_context rt) w)))))"

text \<open>
  Starting the package, a browser, a context and a page.  A step that fails closes what the steps before it
  opened, the last first: by explicit calls in the follow adapter, deferred in the other two.
\<close>

definition open_page :: "('h, 's, 'w) page_sdk \<Rightarrow> 's option \<Rightarrow> 'w \<Rightarrow> (go_error + 'h page_runtime) \<times> 'w" where
  "open_page sdk storageState w =
     (case pg_Run sdk w of
        (Inl err, w1) \<Rightarrow> (Inl (with_stack err), w1)
      | (Inr pw, w1) \<Rightarrow>
        (case pg_Launch sdk pw w1 of
           (Inl err, w2) \<Rightarrow> (Inl (with_stack err), snd (pg_Stop sdk pw w2))
         | (Inr browser, w2) \<Rightarrow>
           (case pg_NewContext sdk browser storageState w2 of
              (Inl err, w3) \<Rightarrow> (Inl (with_stack err), snd (pg_Stop sdk pw (snd (pg_CloseBrowser sdk browser w3))))
            | (Inr browserContext, w3) \<Rightarrow>
              (case pg_NewPage sdk browserContext w3 of
                 (Inl err, w4) \<Rightarrow>
                   (Inl (with_stack err),
                    snd (pg_Stop sdk pw (snd (pg_CloseBrowser sdk browser (snd (pg_CloseContext sdk browserContext w4))))))
               | (Inr page, w4) \<Rightarrow>
                   (Inr \<lparr>prt_playwright = pw, prt_browser = browser, prt_context = browserContext, prt_page = page\<rparr>, w4)))))"

definition unreachable_status :: "int option \<Rightarrow> bool" where
  "unreachable_status status = (case status of Some s \<Rightarrow> s \<ge> 400 | None \<Rightarrow> False)"


section \<open>The follow adapter\<close>

definition follow_auth_signals :: "string list" where
  "follow_auth_signals = fsr_AuthRequiredSignals (fr_Selectors defaultOskellyFollowRules)"

definition newPlaywrightFollowRuntime ::
  "('h, 's, 'w) page_sdk \<Rightarrow> 'w runtime_env \<Rightarrow> (bytes \<Rightarrow> 's option) \<Rightarrow> go_context \<Rightarrow> follow_flow_input \<Rightarrow> 'w \<Rightarrow>
   (go_error + 'h page_runtime) \<times> 'w" where
  "newPlaywrightFollowRuntime sdk env decode ctx input w =
     (case env_ctxErr env ctx w of
        Some err \<Rightarrow> (Inl (with_stack err), w)
      | None \<Rightarrow>
        (case NormalizeOskellyTargetProfileURL (ffi_TargetProfile input) of
           Inl err \<Rightarrow> (Inl (with_stack err), w)
         | Inr targetURL \<Rightarrow>
           (case parsePlaywrightStorageStatePayload decode (ffi_SessionPayload input) of
              Inl err \<Rightarrow> (Inl (with_stack err), w)
            | Inr storageState \<Rightarrow>
              (case open_page sdk (Some storageState) w of
                 (Inl err, w1) \<Rightarrow> (Inl err, w1)
               | (Inr rt, w1) \<Rightarrow>
                 (case pg_Goto sdk (prt_page rt) targetURL
                         (ftr_Navigation (fr_Timeouts defaultOskellyFollowRules) div 1000000) w1 of
                    (Inl err, w2) \<Rightarrow> (Inl (with_stack (normalizePlaywrightFollowError err)), close_runtime sdk rt w2)
                  | (Inr status, w2) \<Rightarrow>
                      if unreachable_status status then
                        (Inl (NewDomainError ErrorCodeFollowTargetUnreachable
                                (''target profile navigation failed with status='' @ Itoa (the status))),
                         close_runtime sdk rt w2)
                      else (case isAuthenticationRequiredPage sdk (prt_page rt) follow_auth_signals w2 of
                          (True, w3) \<Rightarrow>
                            (Inl (NewDomainError ErrorCodeAuthBootstrapRequired
                                    ''session restore requires authentication before follow flow''),
                             close_runtime sdk rt w3)
                        | (False, w3) \<Rightarrow>
                          (case pg_URL sdk (prt_page rt) w3 of (url, w4) \<Rightarrow>
                             if \<not> isResolvedOskellyProfileURL url then
                               (Inl (NewDomainError ErrorCodeFollowTargetUnreachable
                                       ''navigated page is not a supported oskelly profile''),
                                close_runtime sdk rt w4)
                             else (Inr rt, w4))))))))"

text \<open>What the two operations do before the deferred close.\<close>

definition warmup_page ::
  "('h, 's, 'w) page_sdk \<Rightarrow> 'w runtime_env \<Rightarrow> go_context \<Rightarrow> 'h \<Rightarrow> 'w \<Rightarrow> (go_error option \<times> 'w) option" where
  "warmup_page sdk env ctx page w =
     (let auth_required = NewDomainError ErrorCodeAuthBootstrapRequired ''follow warmup requires authenticated session''
      in case isAuthenticationRequiredPage sdk page follow_auth_signals w of
        (True, w1) \<Rightarrow> Some (Some auth_required, w1)
      | (False, w1) \<Rightarrow>
        (case waitAnySelectorWithContext sdk env ctx page playwrightWarmupReadySelectors
                (ftr_Readiness (fr_Timeouts defaultOskellyFollowRules)) w1 of
           None \<Rightarrow> None
         | Some (True, w2) \<Rightarrow> Some (None, w2)
         | Some (False, w2) \<Rightarrow>
           (case isAuthenticationRequiredPage sdk page follow_auth_signals w2 of
              (True, w3) \<Rightarrow> Some (Some auth_required, w3)
            | (False, w3) \<Rightarrow>
                Some (Some (NewDomainError ErrorCodeFollowActionUnavailable
                              ''follow warmup could not detect supported profile UI controls''), w3))))"

definition Adapter_Warmup ::
  "('h, 's, 'w) page_sdk \<Rightarrow> 'w runtime_env \<Rightarrow> (bytes \<Rightarrow> 's option) \<Rightarrow> go_context \<Rightarrow> follow_flow_input \<Rightarrow> 'w \<Rightarrow>
   (go_error option \<times> 'w) option" where
  "Adapter_Warmup sdk env decode ctx input w =
     (case newPlaywrightFollowRuntime sdk env decode ctx input w of
        (Inl err, w1) \<Rightarrow> Some (Some (with_stack err), w1)
      | (Inr rt, w1) \<Rightarrow>
          map_option (\<lambda>(r, w2). (r, close_runtime sdk rt w2)) (warmup_page sdk env ctx (prt_page rt) w1))"

datatype follow_control_state =
    followControlStateUnknown
  | followControlStateActionable
  | followControlStateAlreadyDone
  | followControlStateUnavailable

definition detectPlaywrightFollowState ::
  "('h, 's, 'w) page_sdk \<Rightarrow> 'h \<Rightarrow> 'w \<Rightarrow> (go_error + follow_control_state \<times> string) \<times> 'w" where
  "detectPlaywrightFollowState sdk page w =
     (let rules = fr_Selectors defaultOskellyFollowRules in
      case hasAnySelector sdk page (fsr_AlreadyDoneSignals rules) w of
        (True, w1) \<Rightarrow> (Inr (followControlStateAlreadyDone, ''''), w1)
      | (False, w1) \<Rightarrow>
        (case hasAnySelector sdk page (fsr_UnavailableSignals rules) w1 of
           (True, w2) \<Rightarrow> (Inr (followControlStateUnavailable, ''''), w2)
         | (False, w2) \<Rightarrow>
           (case firstVisibleSelector sdk page (fsr_FollowControlPaths rules) w2 of
              (Inl err, w3) \<Rightarrow> (Inl (with_stack err), w3)
            | (Inr None, w3) \<Rightarrow> (Inr (followControlStateUnavailable, ''''), w3)
            | (Inr (Some sel), w3) \<Rightarrow>
              (case selectorIsEnabled sdk page sel w3 of
                 (Inl err, w4) \<Rightarrow> (Inl (with_stack err), w4)
               | (Inr enabled, w4) \<Rightarrow>
                   (Inr (if \<not> enabled then followControlStateUnavailable else followControlStateActionable, sel), w4)))))"

text \<open>The loop over the elements of the control; \<open>lastErr\<close> is the last click that failed.\<close>

fun click_candidates ::
  "('h, 's, 'w) page_sdk \<Rightarrow> 'h \<Rightarrow> string \<Rightarrow> nat \<Rightarrow> nat \<Rightarrow> go_error option \<Rightarrow> 'w \<Rightarrow> (go_error + bool) \<times> 'w" where
  "click_candidates sdk page sel idx 0 lastErr w =
     (case lastErr of Some err \<Rightarrow> (Inl err, w) | None \<Rightarrow> (Inr False, w))"
| "click_candidates sdk page sel idx (Suc n) lastErr w =
     (case pg_NthVisible sdk page sel idx w of
        (Inr True, w1) \<Rightarrow>
          (case pg_NthEnabled sdk page sel idx w1 of
             (Inr True, w2) \<Rightarrow>
               (case pg_NthClick sdk page sel idx 5000 (snd (pg_NthScroll sdk page sel idx w2)) of
                  (Some clickErr, w3) \<Rightarrow> click_candidates sdk page sel (Suc idx) n (Some clickErr) w3
                | (None, w3) \<Rightarrow> (Inr True, w3))
           | (r, w2) \<Rightarrow> click_candidates sdk page sel (Suc idx) n lastErr w2)
      | (r, w1) \<Rightarrow> click_candidates sdk page sel (Suc idx) n lastErr w1)"

definition clickVisibleFollowControl ::
  "('h, 's, 'w) page_sdk \<Rightarrow> 'h \<Rightarrow> string \<Rightarrow> 'w \<Rightarrow> (go_error + bool) \<times> 'w" where
  "clickVisibleFollowControl sdk page sel w =
     (case pg_Count sdk page sel w of
        (Inl err, w1) \<Rightarrow> (Inl (with_stack err), w1)
      | (Inr count, w1) \<Rightarrow>
          if count = 0 then (Inr False, w1)
          else click_candidates sdk page sel 0 (nat (min count 5)) None w1)"

text \<open>\<open>n\<close> attempts are left; only between attempts is the text of the control looked at.\<close>

fun follow_attempts ::
  "('h, 's, 'w) page_sdk \<Rightarrow> 'w runtime_env \<Rightarrow> go_context \<Rightarrow> 'h \<Rightarrow> string \<Rightarrow> nat \<Rightarrow> 'w \<Rightarrow>
   ((go_error + follow_flow_outcome) \<times> 'w) option" where
  "follow_attempts sdk env ctx page sel 0 w = Some (Inr FollowFlowOutcomeNavigationFailed, w)"
| "follow_attempts sdk env ctx page sel (Suc n) w =
     (case clickVisibleFollowControl sdk page sel w of
        (Inl clickErr, w1) \<Rightarrow> Some (Inl (normalizePlaywrightFollowError clickErr), w1)
      | (Inr False, w1) \<Rightarrow> Some (Inr FollowFlowOutcomeActionUnavailable, w1)
      | (Inr True, w1) \<Rightarrow>
        (case waitAnySelectorWithContext sdk env ctx page (fsr_PostFollowSignals (fr_Selectors defaultOskellyFollowRules))
                (ftr_PostClick (fr_Timeouts defaultOskellyFollowRules)) w1 of
           None \<Rightarrow> None
         | Some (True, w2) \<Rightarrow> Some (Inr FollowFlowOutcomeCompleted, w2)
         | Some (False, w2) \<Rightarrow>
           (case hasFollowConfirmedButtonText sdk page w2 of
              (True, w3) \<Rightarrow> Some (Inr FollowFlowOutcomeCompleted, w3)
            | (False, w3) \<Rightarrow>
              (case waitAnySelectorWithContext sdk env ctx page (fsr_UnavailableSignals (fr_Selectors defaultOskellyFollowRules))
                      (seconds 2) w3 of
                 None \<Rightarrow> None
               | Some (True, w4) \<Rightarrow> Some (Inr FollowFlowOutcomeActionUnavailable, w4)
               | Some (False, w4) \<Rightarrow>
                 (case isAuthenticationRequiredPage sdk page follow_auth_signals w4 of
                    (True, w5) \<Rightarrow>
                      Some (Inl (NewDomainError ErrorCodeAuthBootstrapRequired
                                   ''follow flow requires authenticated session''), w5)
                  | (False, w5) \<Rightarrow>
                      if n > 0 then
                        (case hasSubscribeButtonText sdk page w5 of
                           (True, w6) \<Rightarrow> follow_attempts sdk env ctx page sel n (pg_Sleep sdk (milliseconds 800) w6)
                         | (False, w6) \<Rightarrow> follow_attempts sdk env ctx page sel n w6)
                      else follow_attempts sdk env ctx page sel n w5)))))"

definition follow_page ::
  "('h, 's, 'w) page_sdk \<Rightarrow> 'w runtime_env \<Rightarrow> go_context \<Rightarrow> 'h \<Rightarrow> 'w \<Rightarrow> ((go_error + follow_flow_outcome) \<times> 'w) option" where
  "follow_page sdk env ctx page w =
     (let auth_required = NewDomainError ErrorCodeAuthBootstrapRequired ''follow flow requires authenticated session''
      in case isAuthenticationRequiredPage sdk page follow_auth_signals w of
        (True, w1) \<Rightarrow> Some (Inl auth_required, w1)
      | (False, w1) \<Rightarrow>
        (case waitAnySelectorWithContext sdk env ctx page playwrightFollowInteractiveSelectors
                (ftr_Readiness (fr_Timeouts defaultOskellyFollowRules)) w1 of
           None \<Rightarrow> None
         | Some (False, w2) \<Rightarrow>
           (case isAuthenticationRequiredPage sdk page follow_auth_signals w2 of
              (True, w3) \<Rightarrow> Some (Inl auth_required, w3)
            | (False, w3) \<Rightarrow> Some (Inr FollowFlowOutcomeActionUnavailable, w3))
         | Some (True, w2) \<Rightarrow>
           (case detectPlaywrightFollowState sdk page w2 of
              (Inl detectErr, w3) \<Rightarrow> Some (Inl detectErr, w3)
            | (Inr (state, sel), w3) \<Rightarrow>
                if state = followControlStateAlreadyDone then Some (Inr FollowFlowOutcomeAlreadyDone, w3)
                else if state = followControlStateUnavailable then Some (Inr FollowFlowOutcomeActionUnavailable, w3)
                else if state = followControlStateActionable then
                  (if TrimSpace sel = '''' then Some (Inr FollowFlowOutcomeActionUnavailable, w3)
                   else follow_attempts sdk env ctx page sel 2 w3)
                else Some (Inr FollowFlowOutcomeNavigationFailed, w3))))"

definition Adapter_RunFollowAction ::
  "('h, 's, 'w) page_sdk \<Rightarrow> 'w runtime_env \<Rightarrow> (bytes \<Rightarrow> 's option) \<Rightarrow> go_context \<Rightarrow> follow_flow_input \<Rightarrow> 'w \<Rightarrow>
   ((go_error + follow_flow_outcome) \<times> 'w) option" where
  "Adapter_RunFollowAction sdk env decode ctx input w =
     (case newPlaywrightFollowRuntime sdk env decode ctx input w of
        (Inl err, w1) \<Rightarrow> Some (Inl (with_stack err), w1)
      | (Inr rt, w1) \<Rightarrow>
          map_option (\<lambda>(r, w2). (r, close_runtime sdk rt w2)) (follow_page sdk env ctx (prt_page rt) w1))"



section \<open>The verify adapter\<close>

definition verify_auth_signals :: "string list" where
  "verify_auth_signals = vsr_AuthRequiredSignals (vr_Selectors defaultOskellyVerifyRules)"

text \<open>A detection with a screenshot of the page as it is.\<close>

definition detected ::
  "('h, 's, 'w) page_sdk \<Rightarrow> 'h \<Rightarrow> verify_state \<Rightarrow> string \<Rightarrow> string \<Rightarrow> 'w \<Rightarrow> verify_detection \<times> 'w" where
  "detected sdk page state suffix reason w =
     (case captureVerifyScreenshot sdk page suffix w of
        (shot, w1) \<Rightarrow> (\<lparr>vd_State = state, vd_ScreenshotPayload = shot, vd_Reason = reason\<rparr>, w1))"

text \<open>The last switch: the first condition that holds decides state and reason.\<close>

definition verify_switch :: "('h, 's, 'w) page_sdk \<Rightarrow> 'h \<Rightarrow> 'w \<Rightarrow> (verify_state \<times> string) \<times> 'w" where
  "verify_switch sdk page w =
     (let rules = vr_Selectors defaultOskellyVerifyRules in
      case hasAnySelector sdk page verify_auth_signals w of
        (True, w1) \<Rightarrow>
          ((VerifyAuthRequired, ''verify UI requires authentication before follow state can be detected''), w1)
      | (False, w1) \<Rightarrow>
        (case hasAnySelector sdk page (vsr_TargetUnreachableSignals rules) w1 of
           (True, w2) \<Rightarrow> ((VerifyTargetUnreachable, ''verify UI indicates target profile is unreachable''), w2)
         | (False, w2) \<Rightarrow>
           (case hasAnySelector sdk page (vsr_ActionUnavailableSignals rules) w2 of
              (True, w3) \<Rightarrow> ((VerifyActionUnavailable, ''verify UI indicates follow action is unavailable''), w3)
            | (False, w3) \<Rightarrow>
              (case hasAnySelector sdk page (vsr_FollowConfirmedSignals rules) w3 of
                 (True, w4) \<Rightarrow> ((VerifyFollowConfirmed, ''verify UI confirms followed state''), w4)
               | (False, w4) \<Rightarrow>
                 (case hasFollowConfirmedButtonText sdk page w4 of
                    (True, w5) \<Rightarrow>
                      ((VerifyFollowConfirmed, ''verify UI confirms followed state (button text fallback)''), w5)
                  | (False, w5) \<Rightarrow> ((VerifyUnknown, ''verify UI did not match a supported follow state''), w5))))))"

definition inspect_page ::
  "('h, 's, 'w) page_sdk \<Rightarrow> 'w runtime_env \<Rightarrow> go_context \<Rightarrow> 'h \<Rightarrow> string \<Rightarrow> 'w \<Rightarrow> (verify_detection \<times> 'w) option" where
  "inspect_page sdk env ctx page targetURL w =
     (let auth_reason = ''verify UI requires authentication before follow state can be detected''
      in case pg_Goto sdk page targetURL (vtr_Navigation (vr_Timeouts defaultOskellyVerifyRules) div 1000000) w of
        (Inl gotoErr, w1) \<Rightarrow>
          Some (detected sdk page VerifyUnknown ''navigation-runtime-failure''
                  ''verify navigation failed before supported UI signals were observed'' w1)
      | (Inr status, w1) \<Rightarrow>
          if unreachable_status status then
            Some (detected sdk page VerifyTargetUnreachable ''target-unreachable''
                    ''verify navigation returned unreachable target status'' w1)
          else (case isAuthenticationRequiredPage sdk page verify_auth_signals w1 of
              (True, w2) \<Rightarrow> Some (detected sdk page VerifyAuthRequired ''auth-required'' auth_reason w2)
            | (False, w2) \<Rightarrow>
              (case pg_URL sdk page w2 of (url, w3) \<Rightarrow>
                 if \<not> isResolvedOskellyProfileURL url then
                   Some (detected sdk page VerifyTargetUnreachable ''target-unreachable''
                           ''verify resolved to a page outside supported oskelly profile path'' w3)
                 else (case waitAnySelectorWithContext sdk env ctx page playwrightVerifyReadySelectors
                         (vtr_Readiness (vr_Timeouts defaultOskellyVerifyRules)) w3 of
                     None \<Rightarrow> None
                   | Some (False, w4) \<Rightarrow>
                     (case isAuthenticationRequiredPage sdk page verify_auth_signals w4 of
                        (True, w5) \<Rightarrow> Some (detected sdk page VerifyAuthRequired ''auth-required'' auth_reason w5)
                      | (False, w5) \<Rightarrow>
                          Some (detected sdk page VerifyUnknown ''ready-timeout''
                                  ''verify UI ready signal was not detected before timeout'' w5))
                   | Some (True, w4) \<Rightarrow>
                     (case captureVerifyScreenshot sdk page ''ui-unknown'' w4 of (shot, w5) \<Rightarrow>
                      (case verify_switch sdk page w5 of ((state, reason), w6) \<Rightarrow>
                         Some (\<lparr>vd_State = state, vd_ScreenshotPayload = shot, vd_Reason = reason\<rparr>, w6)))))))"

definition Adapter_InspectFollowState ::
  "('h, 's, 'w) page_sdk \<Rightarrow> 'w runtime_env \<Rightarrow> (bytes \<Rightarrow> 's option) \<Rightarrow> go_context \<Rightarrow> follow_verification_input \<Rightarrow>
   'w \<Rightarrow> ((go_error + verify_detection) \<times> 'w) option" where
  "Adapter_InspectFollowState sdk env decode ctx input w =
     (case env_ctxErr env ctx w of
        Some err \<Rightarrow> Some (Inl (with_stack err), w)
      | None \<Rightarrow>
        (case NormalizeOskellyTargetProfileURL (fvi_TargetProfile input) of
           Inl err \<Rightarrow> Some (Inl (with_stack err), w)
         | Inr targetURL \<Rightarrow>
           (case parsePlaywrightStorageStatePayload decode (fvi_SessionPayload input) of
              Inl err \<Rightarrow> Some (Inl (with_stack err), w)
            | Inr storageState \<Rightarrow>
              (case open_page sdk (Some storageState) w of
                 (Inl err, w1) \<Rightarrow> Some (Inl err, w1)
               | (Inr rt, w1) \<Rightarrow>
                   map_option (\<lambda>(d, w2). (Inr d, close_runtime sdk rt w2))
                     (inspect_page sdk env ctx (prt_page rt) targetURL w1)))))"


section \<open>The login adapter\<close>

text \<open>
  The clicks and inputs of the login as data, each with the name its screenshot gets when it fails; they run
  in this order and stop at the first that fails.
\<close>

datatype login_step =
    AwaitVisible string string
  | ClickOn string string
  | FillIn string string string
  | Capture string

definition profileIconSelector :: string where
  "profileIconSelector = ''svg.osk-icon.osk-icon_size-l.osk-header-top-actions__link''"

definition emailPasswordLoginSelector :: string where
  "emailPasswordLoginSelector =
     ''button.osk-button.osk-button_color-secondary.osk-button_size-m.osk-button_full-width'' @ attr_is ''type'' ''button''"

definition emailInputSelector :: string where
  "emailInputSelector = ''input.osk-input__input'' @ attr_is ''type'' ''text'' @ attr_is ''autocomplete'' ''email''"

definition passwordInputSelector :: string where
  "passwordInputSelector =
     ''input.osk-input__input.osk-input__input_password'' @ attr_is ''type'' ''password'' @
     attr_is ''autocomplete'' ''current-password''"

definition submitSelector :: string where
  "submitSelector =
     ''button.osk-button.osk-button_color-primary.osk-button_size-m.osk-button_full-width.osk-auth-login-dialog__button'' @
     attr_is ''type'' ''submit''"

definition login_steps :: "account_credentials \<Rightarrow> login_step list" where
  "login_steps credentials =
     [AwaitVisible profileIconSelector ''auth-profile-icon-wait-error'',
      ClickOn profileIconSelector ''auth-profile-icon-error'',
      Capture ''auth-profile-icon'',
      AwaitVisible emailPasswordLoginSelector ''auth-email-password-button-wait-error'',
      ClickOn emailPasswordLoginSelector ''auth-email-password-button-error'',
      Capture ''auth-email-password-form'',
      AwaitVisible emailInputSelector ''auth-email-wait-error'',
      FillIn emailInputSelector (credentials_Username credentials) ''auth-email-fill-error'',
      AwaitVisible passwordInputSelector ''auth-password-wait-error'',
      FillIn passwordInputSelector (credentials_Password credentials) ''auth-password-fill-error'',
      Capture ''auth-credentials-filled'',
      AwaitVisible submitSelector ''auth-submit-wait-error'',
      ClickOn submitSelector ''auth-submit-error'',
      Capture ''auth-submit'']"

fun login_call :: "('h, 's, 'w) page_sdk \<Rightarrow> 'h \<Rightarrow> login_step \<Rightarrow> 'w \<Rightarrow> go_error option \<times> 'w" where
  "login_call sdk page (AwaitVisible sel failed) w = pg_WaitForSelector sdk page sel 15000 w"
| "login_call sdk page (ClickOn sel failed) w = pg_Click sdk page sel (Some 15000) w"
| "login_call sdk page (FillIn sel v failed) w = pg_Fill sdk page sel v w"
| "login_call sdk page (Capture stage) w = (None, w)"

fun failed_stage :: "login_step \<Rightarrow> string" where
  "failed_stage (AwaitVisible sel failed) = failed"
| "failed_stage (ClickOn sel failed) = failed"
| "failed_stage (FillIn sel v failed) = failed"
| "failed_stage (Capture stage) = stage"

fun run_login_steps ::
  "('h, 's, 'w) page_sdk \<Rightarrow> 'h \<Rightarrow> login_step list \<Rightarrow> (string \<times> bytes) list \<Rightarrow> 'w \<Rightarrow>
   (go_error option \<times> (string \<times> bytes) list) \<times> 'w" where
  "run_login_steps sdk page [] shots w = ((None, shots), w)"
| "run_login_steps sdk page (Capture stage # steps) shots w =
     (case captureBootstrapScreenshot sdk page shots stage w of (shots1, w1) \<Rightarrow> run_login_steps sdk page steps shots1 w1)"
| "run_login_steps sdk page (step # steps) shots w =
     (case login_call sdk page step w of
        (Some err, w1) \<Rightarrow>
          (case captureBootstrapScreenshot sdk page shots (failed_stage step) w1 of
             (shots1, w2) \<Rightarrow> ((Some (with_stack err), shots1), w2))
      | (None, w1) \<Rightarrow> run_login_steps sdk page steps shots w1)"

definition login_page ::
  "('h, 's, 'w) page_sdk \<Rightarrow> ('s \<Rightarrow> go_error + bytes) \<Rightarrow> 'h page_runtime \<Rightarrow> account_credentials \<Rightarrow> 'w \<Rightarrow>
   (bootstrap_login_outcome \<times> bytes \<times> (string \<times> bytes) list \<times> go_error option) \<times> 'w" where
  "login_page sdk encode rt credentials w =
     (let page = prt_page rt; failed = (\<lambda>shots err. (BootstrapLoginOutcomeAuthRuntimeError, [], shots, Some err))
      in case pg_Goto sdk page ''https://oskelly.ru'' 45000 w of
        (Inl err, w1) \<Rightarrow>
          (case captureBootstrapScreenshot sdk page [] ''auth-goto-home-error'' w1 of
             (shots, w2) \<Rightarrow> (failed shots (with_stack err), w2))
      | (Inr status, w1) \<Rightarrow>
        (case captureBootstrapScreenshot sdk page [] ''auth-home'' w1 of (shots0, w2) \<Rightarrow>
         (case run_login_steps sdk page (login_steps credentials) shots0 w2 of
            ((Some err, shots), w3) \<Rightarrow> (failed shots err, w3)
          | ((None, shots1), w3) \<Rightarrow>
            (case captureBootstrapScreenshot sdk page shots1 ''auth-post-submit'' (pg_Sleep sdk (seconds 2) w3) of
               (shots, w4) \<Rightarrow>
               (case hasAnySelector sdk page
                       [emailPasswordLoginSelector, emailInputSelector, passwordInputSelector, submitSelector] w4 of
                  (True, w5) \<Rightarrow>
                    (failed shots (NewDomainError ErrorCodeAuthBootstrapFailed
                                     ''login form remains available after submit''), w5)
                | (False, w5) \<Rightarrow>
                  (case pg_StorageState sdk (prt_context rt) w5 of
                     (Inl stateErr, w6) \<Rightarrow>
                       (case captureBootstrapScreenshot sdk page shots ''auth-storage-state-error'' w6 of
                          (shots', w7) \<Rightarrow> (failed shots' (with_stack stateErr), w7))
                   | (Inr st, w6) \<Rightarrow>
                     (case encode st of
                        Inl marshalErr \<Rightarrow> (failed shots (with_stack marshalErr), w6)
                      | Inr payload \<Rightarrow> ((BootstrapLoginOutcomeSuccess, payload, shots, None), w6))))))))"

definition Adapter_Execute ::
  "('h, 's, 'w) page_sdk \<Rightarrow> 'w runtime_env \<Rightarrow> ('s \<Rightarrow> go_error + bytes) \<Rightarrow> 'w bootstrap_adapter" where
  "Adapter_Execute sdk env encode ctx credentials w =
     (case env_ctxErr env ctx w of
        Some err \<Rightarrow> ((BootstrapLoginOutcomeAuthRuntimeError, [], [], Some (with_stack err)), w)
      | None \<Rightarrow>
          if AccountCredentials_Validate credentials \<noteq> None then
            ((BootstrapLoginOutcomeAuthInvalidCredentials, [], [], None), w)
          else (case open_page sdk None w of
              (Inl err, w1) \<Rightarrow> ((BootstrapLoginOutcomeAuthRuntimeError, [], [], Some err), w1)
            | (Inr rt, w1) \<Rightarrow>
              (case login_page sdk encode rt credentials w1 of (r, w2) \<Rightarrow> (r, close_runtime sdk rt w2))))"



section \<open>The old login\<close>

text \<open>
  \<open>executeLegacy\<close> is not called any more.  Its Russian texts for a refused login and a challenge were encoded
  twice; they are the bytes of the file.
\<close>

fun firstExistingSelector :: "('h, 's, 'w) page_sdk \<Rightarrow> 'h \<Rightarrow> string list \<Rightarrow> 'w \<Rightarrow> (go_error + string) \<times> 'w" where
  "firstExistingSelector sdk page [] w =
     (Inl (NewDomainError ErrorCodeAuthBootstrapFailed ''required bootstrap login UI element not found''), w)"
| "firstExistingSelector sdk page (sel # sels) w =
     (case pg_QuerySelector sdk page sel w of
        (Inr True, w1) \<Rightarrow> (Inr sel, w1)
      | (r, w1) \<Rightarrow> firstExistingSelector sdk page sels w1)"

definition fillFirstSelector ::
  "('h, 's, 'w) page_sdk \<Rightarrow> 'h \<Rightarrow> string list \<Rightarrow> string \<Rightarrow> 'w \<Rightarrow> go_error option \<times> 'w" where
  "fillFirstSelector sdk page selectors v w =
     (case firstExistingSelector sdk page selectors w of
        (Inl err, w1) \<Rightarrow> (Some (with_stack err), w1)
      | (Inr sel, w1) \<Rightarrow> pg_Fill sdk page sel v w1)"

definition clickFirstSelector :: "('h, 's, 'w) page_sdk \<Rightarrow> 'h \<Rightarrow> string list \<Rightarrow> 'w \<Rightarrow> go_error option \<times> 'w" where
  "clickFirstSelector sdk page selectors w =
     (case firstExistingSelector sdk page selectors w of
        (Inl err, w1) \<Rightarrow> (Some (with_stack err), w1)
      | (Inr sel, w1) \<Rightarrow> pg_Click sdk page sel None w1)"

definition ru_enter :: string where
  "ru_enter = [CHR 0xD0, CHR 0x92, CHR 0xD0, CHR 0xBE, CHR 0xD0, CHR 0xB9, CHR 0xD1, CHR 0x82, CHR 0xD0, CHR 0xB8]"

definition legacy_refused :: "string list" where
  "legacy_refused =
     [[CHR 0xD0, CHR 0xA0, CHR 0xD0, CHR 0x85, CHR 0xD0, CHR 0xA0, CHR 0xC2, CHR 0xB5, CHR 0xD0,
     CHR 0xA0, CHR 0xD0, CHR 0x86, CHR 0xD0, CHR 0xA0, CHR 0xC2, CHR 0xB5, CHR 0xD0, CHR 0xA1,
     CHR 0xD0, CHR 0x82, CHR 0xD0, CHR 0xA0, CHR 0xD0, CHR 0x85],
      [CHR 0xD0, CHR 0xA0, CHR 0xD0, CHR 0x85, CHR 0xD0, CHR 0xA0, CHR 0xC2, CHR 0xB5, CHR 0xD0,
     CHR 0xA0, CHR 0xD1, CHR 0x97, CHR 0xD0, CHR 0xA1, CHR 0xD0, CHR 0x82, CHR 0xD0, CHR 0xA0,
     CHR 0xC2, CHR 0xB0, CHR 0xD0, CHR 0xA0, CHR 0xD0, CHR 0x86, CHR 0xD0, CHR 0xA0, CHR 0xD1,
     CHR 0x91, CHR 0xD0, CHR 0xA0, CHR 0xC2, CHR 0xBB, CHR 0xD0, CHR 0xA1, CHR 0xD0, CHR 0x8A,
     CHR 0xD0, CHR 0xA0, CHR 0xD0, CHR 0x85],
      ''invalid credentials'', ''incorrect password'', ''wrong password'']"

definition legacy_challenged :: "string list" where
  "legacy_challenged =
     [''captcha'',
      [CHR 0xD0, CHR 0xA0, CHR 0xD1, CHR 0x97, CHR 0xD0, CHR 0xA0, CHR 0xD1, CHR 0x95, CHR 0xD0,
     CHR 0xA0, CHR 0xD2, CHR 0x91, CHR 0xD0, CHR 0xA1, CHR 0xE2, CHR 0x80, CHR 0x9A, CHR 0xD0,
     CHR 0xA0, CHR 0xD0, CHR 0x86, CHR 0xD0, CHR 0xA0, CHR 0xC2, CHR 0xB5, CHR 0xD0, CHR 0xA1,
     CHR 0xD0, CHR 0x82, CHR 0xD0, CHR 0xA0, CHR 0xD2, CHR 0x91],
      [CHR 0xD0, CHR 0xA0, CHR 0xD1, CHR 0x97, CHR 0xD0, CHR 0xA1, CHR 0xD0, CHR 0x82, CHR 0xD0,
     CHR 0xA0, CHR 0xD1, CHR 0x95, CHR 0xD0, CHR 0xA0, CHR 0xD0, CHR 0x86, CHR 0xD0, CHR 0xA0,
     CHR 0xC2, CHR 0xB5, CHR 0xD0, CHR 0xA1, CHR 0xD0, CHR 0x82, CHR 0xD0, CHR 0xA0, CHR 0xD1,
     CHR 0x94],
      ''challenge'', ''verification required'']"

definition legacy_submit_selectors :: "string list" where
  "legacy_submit_selectors =
     [''section.authorization .login.active .submit input.form_submit'',
      ''.authorization .login.active input.form_submit'',
      ''form[action*='' @ [CHR 0x27] @ ''/login'' @ [CHR 0x27] @ ''] input.form_submit'',
      ''input.form_submit[value*='' @ [CHR 0x27] @ ru_enter @ [CHR 0x27] @ '']'',
      ''input.form_submit'', ''button'' @ attr_is ''type'' ''submit'', ''input'' @ attr_is ''type'' ''submit'',
      ''.submit input'' @ attr_is ''type'' ''submit'', has_text ''button'' ru_enter, has_text ''button'' ''Login'']"

type_synonym login_outcome = "bootstrap_login_outcome \<times> bytes \<times> go_error option"

definition runtime_error :: "go_error \<Rightarrow> login_outcome" where
  "runtime_error err = (BootstrapLoginOutcomeAuthRuntimeError, [], Some err)"

definition legacy_result ::
  "('h, 's, 'w) page_sdk \<Rightarrow> ('s \<Rightarrow> go_error + bytes) \<Rightarrow> 'h page_runtime \<Rightarrow> bool \<Rightarrow> 'w \<Rightarrow> login_outcome \<times> 'w" where
  "legacy_result sdk encode rt authenticated w =
     (let content = (\<lambda>w. case pg_Content sdk (prt_page rt) w of
            (pageContent, w1) \<Rightarrow>
              let loweredContent = ToLowerText (case pageContent of Inr c \<Rightarrow> c | Inl err \<Rightarrow> '''') in
              if containsAny loweredContent legacy_refused then
                ((BootstrapLoginOutcomeAuthInvalidCredentials, [], None), w1)
              else if containsAny loweredContent legacy_challenged then
                ((BootstrapLoginOutcomeAuthChallenge, [], None), w1)
              else (runtime_error (PlainErr ''authenticated oskelly UI signal was not detected after login submit''), w1));
          signed_in = (\<lambda>w. case pg_StorageState sdk (prt_context rt) w of
            (Inl stateErr, w1) \<Rightarrow> (runtime_error (with_stack stateErr), w1)
          | (Inr st, w1) \<Rightarrow>
              (case encode st of
                 Inl marshalErr \<Rightarrow> (runtime_error (with_stack marshalErr), w1)
               | Inr payload \<Rightarrow> ((BootstrapLoginOutcomeSuccess, payload, None), w1)))
      in if authenticated then signed_in w
         else case pg_URL sdk (prt_page rt) w of
           (url, w1) \<Rightarrow> if isAuthenticatedURL url then signed_in w1 else content w1)"

definition legacy_page ::
  "('h, 's, 'w) page_sdk \<Rightarrow> 'w runtime_env \<Rightarrow> ('s \<Rightarrow> go_error + bytes) \<Rightarrow> 'h page_runtime \<Rightarrow> account_credentials \<Rightarrow>
   'w \<Rightarrow> (login_outcome \<times> 'w) option" where
  "legacy_page sdk env encode rt credentials w =
     (let page = prt_page rt in
      case pg_Goto sdk page ''https://oskelly.ru/login'' 45000 w of
        (Inl err, w1) \<Rightarrow> Some (runtime_error (with_stack err), w1)
      | (Inr status, w1) \<Rightarrow>
        (case fillFirstSelector sdk page
                (map (\<lambda>(name, v). ''input'' @ attr_is name v)
                   [(''name'', ''email''), (''type'', ''email''), (''name'', ''login''), (''name'', ''username'')])
                (credentials_Username credentials) w1 of
           (Some err, w2) \<Rightarrow> Some (runtime_error (with_stack err), w2)
         | (None, w2) \<Rightarrow>
           (case fillFirstSelector sdk page
                   [''input'' @ attr_is ''name'' ''password'', ''input'' @ attr_is ''type'' ''password'']
                   (credentials_Password credentials) w2 of
              (Some err, w3) \<Rightarrow> Some (runtime_error (with_stack err), w3)
            | (None, w3) \<Rightarrow>
              (case clickFirstSelector sdk page legacy_submit_selectors w3 of
                 (Some err, w4) \<Rightarrow> Some (runtime_error (with_stack err), w4)
               | (None, w4) \<Rightarrow>
                 (case waitAnySelector sdk env page
                         [attr_is ''data-testid'' ''profile-avatar'', ''.header__profile'',
                          ''a[href*='' @ [CHR 0x27] @ ''/profile'' @ [CHR 0x27] @ '']'',
                          ''[class*='' @ [CHR 0x27] @ ''account'' @ [CHR 0x27] @ '']''] (seconds 30) w4 of
                    None \<Rightarrow> None
                  | Some (authenticated, w5) \<Rightarrow> Some (legacy_result sdk encode rt authenticated w5))))))"

definition executeLegacy ::
  "('h, 's, 'w) page_sdk \<Rightarrow> 'w runtime_env \<Rightarrow> ('s \<Rightarrow> go_error + bytes) \<Rightarrow> go_context \<Rightarrow> account_credentials \<Rightarrow>
   'w \<Rightarrow> (login_outcome \<times> 'w) option" where
  "executeLegacy sdk env encode ctx credentials w =
     (case env_ctxErr env ctx w of
        Some err \<Rightarrow> Some (runtime_error (with_stack err), w)
      | None \<Rightarrow>
          if AccountCredentials_Validate credentials \<noteq> None then
            Some ((BootstrapLoginOutcomeAuthInvalidCredentials, [], None), w)
          else (case open_page sdk None w of
              (Inl err, w1) \<Rightarrow> Some (runtime_error err, w1)
            | (Inr rt, w1) \<Rightarrow>
                map_option (\<lambda>(r, w2). (r, close_runtime sdk rt w2)) (legacy_page sdk env encode rt credentials w1)))"


section \<open>The default adapters\<close>

text \<open>
  What the runners use unless they are given another adapter.  The runners call an adapter that returns; that
  these do is \<open>adapters_return\<close> below.
\<close>

definition defaultPlaywrightFollowAdapter ::
  "('h, 's, 'w) page_sdk \<Rightarrow> 'w runtime_env \<Rightarrow> (bytes \<Rightarrow> 's option) \<Rightarrow> 'w follow_adapter" where
  "defaultPlaywrightFollowAdapter sdk env decode =
     \<lparr>fa_Warmup = (\<lambda>ctx input w. the (Adapter_Warmup sdk env decode ctx input w)),
      fa_RunFollowAction = (\<lambda>ctx input w. the (Adapter_RunFollowAction sdk env decode ctx input w))\<rparr>"

definition defaultPlaywrightVerifyAdapter ::
  "('h, 's, 'w) page_sdk \<Rightarrow> 'w runtime_env \<Rightarrow> (bytes \<Rightarrow> 's option) \<Rightarrow> 'w verify_adapter" where
  "defaultPlaywrightVerifyAdapter sdk env decode ctx input w =
     the (Adapter_InspectFollowState sdk env decode ctx input w)"

end
