(* ===== verification/Page_Safety.thy ===== *)
theory Page_Safety
  imports Page_Adapters
begin

text \<open>
  What the adapters promise whatever the page does: each of them returns if the clock moves, closes what it
  opened on every path, and clicks the follow control at most twice.

  \<open>page_frame\<close> is what a reading call may do to the world; it is used for the trace of the calls that matter
  (\<open>watched_page\<close>), which reading leaves alone, and for the clock (\<open>timed_page\<close>), which it does not turn back.
\<close>

section \<open>What reading a page keeps\<close>

locale page_frame =
  fixes sdk :: "('h, 's, 'w) page_sdk" and R :: "'w \<Rightarrow> 'w \<Rightarrow> bool"
  assumes refl: "R w w" and trans: "R u v \<Longrightarrow> R v w \<Longrightarrow> R u w"
    and URL: "R w (snd (pg_URL sdk p w))" and IsVisible: "R w (snd (pg_IsVisible sdk p s w))"
    and Count: "R w (snd (pg_Count sdk p s w))" and NthVisible: "R w (snd (pg_NthVisible sdk p s i w))"
    and NthEnabled: "R w (snd (pg_NthEnabled sdk p s i w))"
    and NthAttribute: "R w (snd (pg_NthAttribute sdk p s i a w))" and NthScroll: "R w (snd (pg_NthScroll sdk p s i w))"
    and Evaluate: "R w (snd (pg_Evaluate sdk p code w))" and Screenshot: "R w (snd (pg_Screenshot sdk p w))"
    and QuerySelector: "R w (snd (pg_QuerySelector sdk p s w))" and Sleep: "0 \<le> d \<Longrightarrow> R w (pg_Sleep sdk d w)"
begin

lemma after: "R w (snd c) \<Longrightarrow> (\<And>r w1. c = (r, w1) \<Longrightarrow> R w1 (snd (k r w1))) \<Longrightarrow> R w (snd (case c of (r, w1) \<Rightarrow> k r w1))"
  by (cases c) (auto intro: trans)

lemma hasAnyVisibleSelector: "R w (snd (hasAnyVisibleSelector sdk p sels w))"
proof (induction sels arbitrary: w)
  case (Cons sel sels)
  show ?case unfolding hasAnyVisibleSelector.simps
    by (rule after [OF IsVisible]) (auto intro: refl Cons split: sum.splits bool.splits)
qed (simp add: refl)

lemma isAuthenticationRequiredPage: "R w (snd (isAuthenticationRequiredPage sdk p sels w))"
  unfolding isAuthenticationRequiredPage_def by (rule after [OF URL]) (auto intro: refl hasAnyVisibleSelector)

lemma nth_visible: "R w (snd (nth_visible sdk p sel i n w))"
proof (induction n arbitrary: i w)
  case (Suc n)
  show ?case unfolding nth_visible.simps
    by (rule after [OF NthVisible]) (auto intro: refl Suc split: sum.splits bool.splits)
qed (simp add: refl)

lemma selectorHasVisibleElement: "R w (snd (selectorHasVisibleElement sdk p sel w))"
proof -
  have "R w1 (snd (case nth_visible sdk p sel 0 n w1 of (visible, w2) \<Rightarrow> (Inr visible :: go_error + bool, w2)))" for n w1
    by (rule after [OF nth_visible]) (simp add: refl)
  then show ?thesis
    unfolding selectorHasVisibleElement_def by (intro after [OF Count]) (auto intro: refl split: sum.split)
qed

lemma hasAnySelector: "R w (snd (hasAnySelector sdk p sels w))"
proof (induction sels arbitrary: w)
  case (Cons sel sels)
  show ?case unfolding hasAnySelector.simps
    by (rule after [OF selectorHasVisibleElement]) (auto intro: refl Cons split: sum.splits bool.splits)
qed (simp add: refl)

lemma queryAnySelector: "R w (snd (queryAnySelector sdk p sels w))"
proof (induction sels arbitrary: w)
  case (Cons sel sels)
  show ?case unfolding queryAnySelector.simps
    by (rule after [OF QuerySelector]) (auto intro: refl Cons split: sum.splits bool.splits)
qed (simp add: refl)

lemma firstExistingSelector: "R w (snd (firstExistingSelector sdk p sels w))"
proof (induction sels arbitrary: w)
  case (Cons sel sels)
  show ?case unfolding firstExistingSelector.simps
    by (rule after [OF QuerySelector]) (auto intro: refl Cons split: sum.splits bool.splits)
qed (simp add: refl)

lemma firstVisibleSelector: "R w (snd (firstVisibleSelector sdk p sels w))"
proof (induction sels arbitrary: w)
  case (Cons sel sels)
  show ?case unfolding firstVisibleSelector.simps
    by (rule after [OF selectorHasVisibleElement]) (auto intro: refl Cons split: sum.splits)
qed (simp add: refl)

lemma attribute_says: "R w (snd (attribute_says sdk p sel name says w))"
  unfolding attribute_says_def by (rule after [OF NthAttribute]) (auto intro: refl split: sum.splits)

lemma selectorIsEnabled: "R w (snd (selectorIsEnabled sdk p sel w))"
proof -
  note attr = after [OF attribute_says]
  have 1: "R w (snd (case attribute_says sdk p sel n f w of (d, w5) \<Rightarrow> (Inr (\<not> d) :: go_error + bool, w5)))" for n f w
    by (rule attr) (simp add: refl)
  have 2: "R w (snd (case attribute_says sdk p sel n f w of (True, w4) \<Rightarrow> (Inr False :: go_error + bool, w4)
      | (False, w4) \<Rightarrow> k w4))" if "\<And>w. R w (snd (k w))" for n f w k
    by (rule attr) (auto intro: refl that split: bool.split)
  have 3: "R w (snd (case pg_NthEnabled sdk p sel i w of (Inl err, w2) \<Rightarrow> (Inl (with_stack err), w2)
      | (Inr isEnabled, w2) \<Rightarrow> if \<not> isEnabled then (Inr False :: go_error + bool, w2) else k w2))"
    if "\<And>w. R w (snd (k w))" for i w k
    by (rule after [OF NthEnabled]) (auto intro: refl that split: sum.split)
  show ?thesis
    unfolding selectorIsEnabled_def
    by (rule after [OF Count]) (auto split: sum.split intro!: refl 3 2 1)
qed

lemma detectPlaywrightFollowState: "R w (snd (detectPlaywrightFollowState sdk p w))"
proof -
  have 1: "R w (snd (case selectorIsEnabled sdk p sel w of (Inl err, w4) \<Rightarrow> (Inl (f err), w4)
      | (Inr enabled, w4) \<Rightarrow> (Inr (g enabled), w4)))" for w sel f g
    by (rule after [OF selectorIsEnabled]) (auto intro: refl split: sum.split)
  have 2: "R w (snd (case firstVisibleSelector sdk p sels w of (Inl err, w3) \<Rightarrow> (Inl (f err), w3)
      | (Inr None, w3) \<Rightarrow> (Inr x, w3) | (Inr (Some sel), w3) \<Rightarrow> k sel w3))" if "\<And>sel w. R w (snd (k sel w))" for w sels f x k
    by (rule after [OF firstVisibleSelector]) (auto intro: refl that split: sum.split option.split)
  have 3: "R w (snd (case hasAnySelector sdk p sels w of (True, w1) \<Rightarrow> (x, w1) | (False, w1) \<Rightarrow> k w1))"
    if "\<And>w. R w (snd (k w))" for w sels x k
    by (rule after [OF hasAnySelector]) (auto intro: refl that split: bool.split)
  show ?thesis unfolding detectPlaywrightFollowState_def Let_def by (intro 3 2 1)
qed

lemma pageButtonTexts: "R w (snd (pageButtonTexts sdk p w))"
  unfolding pageButtonTexts_def by (rule after [OF Evaluate]) (auto intro: refl split: sum.split js_value.split)

lemma hasFollowConfirmedButtonText: "R w (snd (hasFollowConfirmedButtonText sdk p w))"
  unfolding hasFollowConfirmedButtonText_def by (rule after [OF pageButtonTexts]) (auto intro: refl split: sum.split)

lemma hasSubscribeButtonText: "R w (snd (hasSubscribeButtonText sdk p w))"
  unfolding hasSubscribeButtonText_def by (rule after [OF pageButtonTexts]) (auto intro: refl split: sum.split)

lemma captureVerifyScreenshot: "R w (snd (captureVerifyScreenshot sdk p suffix w))"
  unfolding captureVerifyScreenshot_def by (rule after [OF Screenshot]) (auto intro: refl split: sum.split)

lemma captureBootstrapScreenshot: "R w (snd (captureBootstrapScreenshot sdk p dest stage w))"
proof (cases "TrimSpace stage = ''''")
  case False
  then have "captureBootstrapScreenshot sdk p dest stage w = (case pg_Screenshot sdk p w of
      (Inr shot, w1) \<Rightarrow> (if shot = [] then dest else put_entry (TrimSpace stage) shot dest, w1) | (Inl err, w1) \<Rightarrow> (dest, w1))"
    by (simp add: captureBootstrapScreenshot_def)
  then show ?thesis by (simp only:) (rule after [OF Screenshot], auto intro: refl split: sum.split)
qed (simp add: captureBootstrapScreenshot_def refl)

lemma verify_switch: "R w (snd (verify_switch sdk p w))"
proof -
  have 1: "R w (snd (case hasFollowConfirmedButtonText sdk p w of (True, w1) \<Rightarrow> (x, w1) | (False, w1) \<Rightarrow> (y, w1)))" for w x y
    by (rule after [OF hasFollowConfirmedButtonText]) (auto intro: refl split: bool.split)
  have 2: "R w (snd (case hasAnySelector sdk p sels w of (True, w1) \<Rightarrow> (x, w1) | (False, w1) \<Rightarrow> k w1))"
    if "\<And>w. R w (snd (k w))" for w sels x k
    by (rule after [OF hasAnySelector]) (auto intro: refl that split: bool.split)
  show ?thesis unfolding verify_switch_def Let_def by (intro 2 1)
qed

lemma poll_until:
  assumes "poll_until now (pg_Sleep sdk) gives_up probe deadline w = Some (found, w1)" "\<And>w. R w (snd (probe w))"
  shows "R w w1"
proof -
  let ?P = "\<lambda>n sl g pr d w y. sl = pg_Sleep sdk \<longrightarrow> (\<forall>w. R w (snd (pr w))) \<longrightarrow> R w (snd y)"
  have "?P n sl g pr d w y" if "Page_Adapters.poll_until n sl g pr d w = Some y" for n sl g pr d w y
  proof (rule poll_until.raw_induct [where P = ?P, OF _ that], intro impI)
    fix f :: "('w \<Rightarrow> time) \<Rightarrow> (int \<Rightarrow> 'w \<Rightarrow> 'w) \<Rightarrow> ('w \<Rightarrow> bool) \<Rightarrow> ('w \<Rightarrow> bool \<times> 'w) \<Rightarrow> time \<Rightarrow> 'w \<Rightarrow> (bool \<times> 'w) option"
    fix n sl g pr d w y
    assume ih: "\<And>n sl g pr d w y. f n sl g pr d w = Some y \<Longrightarrow> ?P n sl g pr d w y"
      and step: "(if \<not> n w < d then Some (False, w) else if g w then Some (False, w)
        else if fst (pr w) then Some (True, snd (pr w)) else f n sl g pr d (sl (milliseconds 200) (snd (pr w)))) = Some y"
      and s: "sl = pg_Sleep sdk" and pr: "\<forall>w. R w (snd (pr w))"
    have "R w (sl (milliseconds 200) (snd (pr w)))"
      using trans [OF _ Sleep [of "milliseconds 200" "snd (pr w)"]] pr s by simp
    then show "R w (snd y)" using step ih s pr refl trans by (auto split: if_splits)
  qed
  from this [OF assms(1)] show ?thesis using assms(2) by simp
qed

lemma waitAnySelectorWithContext: "waitAnySelectorWithContext sdk env ctx p sels t w = Some (found, w1) \<Longrightarrow> R w w1"
  unfolding waitAnySelectorWithContext_def by (erule poll_until) (rule hasAnySelector)

lemma waitAnySelector: "waitAnySelector sdk env p sels t w = Some (found, w1) \<Longrightarrow> R w w1"
  unfolding waitAnySelector_def by (erule poll_until) (rule queryAnySelector)

end



section \<open>The trace of a page\<close>

text \<open>
  The calls that open and close parts of the browser and the clicks and inputs that went through, written down
  beside the world by a wrapper around any package.
\<close>

datatype page_part = EnginePart | BrowserPart | ContextPart

datatype 'h page_event =
    Opened page_part 'h
  | Closed page_part 'h
  | Clicked string
  | Filled string

definition noting :: "('w \<Rightarrow> 'r \<times> 'w) \<Rightarrow> ('r \<Rightarrow> 'e list) \<Rightarrow> 'w \<times> 'e list \<Rightarrow> 'r \<times> ('w \<times> 'e list)" where
  "noting f ev s = (case f (fst s) of (r, w1) \<Rightarrow> (r, (w1, snd s @ ev r)))"

abbreviation silent :: "('w \<Rightarrow> 'r \<times> 'w) \<Rightarrow> 'w \<times> 'e list \<Rightarrow> 'r \<times> ('w \<times> 'e list)" where
  "silent f \<equiv> noting f (\<lambda>r. [])"

fun opened :: "page_part \<Rightarrow> go_error + 'h \<Rightarrow> 'h page_event list" where
  "opened part (Inr h) = [Opened part h]"
| "opened part (Inl err) = []"

fun if_ok :: "'h page_event \<Rightarrow> go_error option \<Rightarrow> 'h page_event list" where
  "if_ok ev None = [ev]"
| "if_ok ev (Some err) = []"

definition watched_page :: "('h, 's, 'w) page_sdk \<Rightarrow> ('h, 's, 'w \<times> 'h page_event list) page_sdk" where
  "watched_page sdk =
     \<lparr>pg_Run = noting (pg_Run sdk) (opened EnginePart), pg_Stop = (\<lambda>h. noting (pg_Stop sdk h) (\<lambda>r. [Closed EnginePart h])),
      pg_Launch = (\<lambda>h. noting (pg_Launch sdk h) (opened BrowserPart)),
      pg_CloseBrowser = (\<lambda>h. noting (pg_CloseBrowser sdk h) (\<lambda>r. [Closed BrowserPart h])),
      pg_NewContext = (\<lambda>h st. noting (pg_NewContext sdk h st) (opened ContextPart)),
      pg_CloseContext = (\<lambda>h. noting (pg_CloseContext sdk h) (\<lambda>r. [Closed ContextPart h])),
      pg_NewPage = (\<lambda>h. silent (pg_NewPage sdk h)), pg_Goto = (\<lambda>h u t. silent (pg_Goto sdk h u t)),
      pg_URL = (\<lambda>h. silent (pg_URL sdk h)), pg_IsVisible = (\<lambda>h s. silent (pg_IsVisible sdk h s)),
      pg_Count = (\<lambda>h s. silent (pg_Count sdk h s)), pg_NthVisible = (\<lambda>h s i. silent (pg_NthVisible sdk h s i)),
      pg_NthEnabled = (\<lambda>h s i. silent (pg_NthEnabled sdk h s i)),
      pg_NthAttribute = (\<lambda>h s i a. silent (pg_NthAttribute sdk h s i a)),
      pg_NthScroll = (\<lambda>h s i. silent (pg_NthScroll sdk h s i)),
      pg_NthClick = (\<lambda>h s i t. noting (pg_NthClick sdk h s i t) (if_ok (Clicked s))),
      pg_Evaluate = (\<lambda>h c. silent (pg_Evaluate sdk h c)), pg_Screenshot = (\<lambda>h. silent (pg_Screenshot sdk h)),
      pg_WaitForSelector = (\<lambda>h s t. silent (pg_WaitForSelector sdk h s t)),
      pg_Click = (\<lambda>h s t. noting (pg_Click sdk h s t) (if_ok (Clicked s))),
      pg_Fill = (\<lambda>h s v. noting (pg_Fill sdk h s v) (if_ok (Filled s))),
      pg_QuerySelector = (\<lambda>h s. silent (pg_QuerySelector sdk h s)), pg_Content = (\<lambda>h. silent (pg_Content sdk h)),
      pg_StorageState = (\<lambda>h. silent (pg_StorageState sdk h)), pg_Sleep = (\<lambda>d s. (pg_Sleep sdk d (fst s), snd s))\<rparr>"

lemma noting_trace [simp]: "snd (snd (noting f ev s)) = snd s @ ev (fst (noting f ev s))"
  by (simp add: noting_def split: prod.split)

lemma watched_sleep [simp]: "pg_Sleep (watched_page sdk) d s = (pg_Sleep sdk d (fst s), snd s)"
  by (simp add: watched_page_def)

interpretation reads: page_frame "watched_page sdk" "\<lambda>s s'. snd s' = snd s"
  by unfold_locales (simp_all add: watched_page_def)

text \<open>What is open after a trace, the last opened first; \<open>None\<close> when something is closed that is not on top.\<close>

fun settle :: "(page_part \<times> 'h) list \<Rightarrow> 'h page_event list \<Rightarrow> (page_part \<times> 'h) list option" where
  "settle st [] = Some st"
| "settle st (Opened p h # es) = settle ((p, h) # st) es"
| "settle [] (Closed p h # es) = None"
| "settle (part # st) (Closed p h # es) = (if part = (p, h) then settle st es else None)"
| "settle st (Clicked s # es) = settle st es"
| "settle st (Filled s # es) = settle st es"

fun clicks :: "'h page_event list \<Rightarrow> nat" where
  "clicks [] = 0"
| "clicks (Clicked s # es) = Suc (clicks es)"
| "clicks (e # es) = clicks es"

lemma settle_append: "settle st (es @ fs) = Option.bind (settle st es) (\<lambda>st'. settle st' fs)"
  by (induction st es rule: settle.induct) auto

lemma clicks_append [simp]: "clicks (es @ fs) = clicks es + clicks fs"
  by (induction es rule: clicks.induct) auto

text \<open>From \<open>s\<close> to \<open>s'\<close> the open parts change from \<open>st\<close> to \<open>st'\<close>, with \<open>n\<close> clicks.\<close>

definition moves ::
  "(page_part \<times> 'h) list \<Rightarrow> nat \<Rightarrow> (page_part \<times> 'h) list \<Rightarrow> 'w \<times> 'h page_event list \<Rightarrow> 'w \<times> 'h page_event list \<Rightarrow> bool" where
  "moves st n st' s s' \<longleftrightarrow> (\<exists>es. snd s' = snd s @ es \<and> settle st es = Some st' \<and> clicks es = n)"

lemma moves_read: "snd s' = snd s \<Longrightarrow> moves st 0 st s s'"
  by (auto simp: moves_def)

lemma moves_trans: "moves st n st1 s s1 \<Longrightarrow> moves st1 m st2 s1 s2 \<Longrightarrow> moves st (n + m) st2 s s2"
  by (auto simp: moves_def settle_append)

lemma moves_read_after: "moves st n st' s s1 \<Longrightarrow> snd s2 = snd s1 \<Longrightarrow> moves st n st' s s2"
  by (simp add: moves_def)

lemma moves_after_read: "snd s1 = snd s \<Longrightarrow> moves st n st' s1 s2 \<Longrightarrow> moves st n st' s s2"
  by (simp add: moves_def)

definition runtime_parts :: "'h page_runtime \<Rightarrow> (page_part \<times> 'h) list" where
  "runtime_parts rt = [(ContextPart, prt_context rt), (BrowserPart, prt_browser rt), (EnginePart, prt_playwright rt)]"

lemma noting_result: "noting f ev s = (r, s1) \<longleftrightarrow> (\<exists>w1. f (fst s) = (r, w1) \<and> s1 = (w1, snd s @ ev r))"
  by (auto simp: noting_def split: prod.splits)

lemma close_runtime_moves: "moves (runtime_parts rt @ st) 0 st s (close_runtime (watched_page sdk) rt s)"
  by (simp add: moves_def close_runtime_def watched_page_def runtime_parts_def)

lemma open_page_moves:
  assumes "open_page (watched_page sdk) state s = (r, s1)"
  shows "moves st 0 (case r of Inr rt \<Rightarrow> runtime_parts rt @ st | Inl err \<Rightarrow> st) s s1"
  using assms
  by (auto simp: open_page_def watched_page_def moves_def runtime_parts_def noting_result
      split: prod.splits sum.splits)

text \<open>What the reading calls leave behind, as facts about their results.\<close>

lemma read_results:
  "pg_Goto (watched_page sdk) h url t s = (r1, s1) \<Longrightarrow> snd s1 = snd s"
  "pg_URL (watched_page sdk) h s = (r2, s1) \<Longrightarrow> snd s1 = snd s"
  "pg_Count (watched_page sdk) h sel s = (r3, s1) \<Longrightarrow> snd s1 = snd s"
  "pg_NthVisible (watched_page sdk) h sel i s = (r4, s1) \<Longrightarrow> snd s1 = snd s"
  "pg_NthEnabled (watched_page sdk) h sel i s = (r4, s1) \<Longrightarrow> snd s1 = snd s"
  "pg_WaitForSelector (watched_page sdk) h sel t s = (r5, s1) \<Longrightarrow> snd s1 = snd s"
  "pg_StorageState (watched_page sdk) h s = (r6, s1) \<Longrightarrow> snd s1 = snd s"
  "isAuthenticationRequiredPage (watched_page sdk) h sels s = (b, s1) \<Longrightarrow> snd s1 = snd s"
  "hasAnySelector (watched_page sdk) h sels s = (b, s1) \<Longrightarrow> snd s1 = snd s"
  "hasFollowConfirmedButtonText (watched_page sdk) h s = (b, s1) \<Longrightarrow> snd s1 = snd s"
  "hasSubscribeButtonText (watched_page sdk) h s = (b, s1) \<Longrightarrow> snd s1 = snd s"
  "detectPlaywrightFollowState (watched_page sdk) h s = (r7, s1) \<Longrightarrow> snd s1 = snd s"
  "verify_switch (watched_page sdk) h s = (r8, s1) \<Longrightarrow> snd s1 = snd s"
  "captureVerifyScreenshot (watched_page sdk) h suffix s = (r9, s1) \<Longrightarrow> snd s1 = snd s"
  "captureBootstrapScreenshot (watched_page sdk) h dest stage s = (r10, s1) \<Longrightarrow> snd s1 = snd s"
  using reads.isAuthenticationRequiredPage [of sdk h sels s] reads.hasAnySelector [of sdk h sels s]
    reads.hasFollowConfirmedButtonText [of sdk h s] reads.hasSubscribeButtonText [of sdk h s]
    reads.detectPlaywrightFollowState [of sdk h s] reads.verify_switch [of sdk h s]
    reads.captureVerifyScreenshot [of sdk h suffix s] reads.captureBootstrapScreenshot [of sdk h dest stage s]
  by (auto simp: watched_page_def noting_result)

lemmas wait_results = reads.waitAnySelectorWithContext reads.waitAnySelector

lemma moves_close:
  assumes "moves st 0 (runtime_parts rt @ st) s s1" "moves (runtime_parts rt @ st) n (runtime_parts rt @ st) s1 s2"
  shows "moves st n st s (close_runtime (watched_page sdk) rt s2)"
  using moves_trans [OF moves_trans [OF assms] close_runtime_moves] by simp

lemmas moves_close_read = moves_close [OF _ moves_read]

lemma newPlaywrightFollowRuntime_moves:
  assumes "newPlaywrightFollowRuntime (watched_page sdk) env decode ctx input s = (r, s')"
  shows "moves st 0 (case r of Inr rt \<Rightarrow> runtime_parts rt @ st | Inl err \<Rightarrow> st) s s'"
proof (cases "env_ctxErr env ctx s = None \<and> isl (NormalizeOskellyTargetProfileURL (ffi_TargetProfile input)) = False \<and>
    isl (parsePlaywrightStorageStatePayload decode (ffi_SessionPayload input)) = False")
  case False
  then show ?thesis using assms moves_read [of s s st]
    by (auto simp: newPlaywrightFollowRuntime_def split: option.splits sum.splits)
next
  case True
  then obtain url state where pre: "env_ctxErr env ctx s = None"
    "NormalizeOskellyTargetProfileURL (ffi_TargetProfile input) = Inr url"
    "parsePlaywrightStorageStatePayload decode (ffi_SessionPayload input) = Inr state"
    by (auto simp: isl_def) (metis sum.exhaust)
  obtain o1 s1 where o1: "open_page (watched_page sdk) (Some state) s = (o1, s1)" by (cases "open_page (watched_page sdk) (Some state) s")
  note run = assms [unfolded newPlaywrightFollowRuntime_def pre option.case sum.case o1 prod.case]
  note op = open_page_moves [OF o1, of st]
  show ?thesis
  proof (cases o1)
    case (Inl err)
    then show ?thesis using run op by auto
  next
    case (Inr rt)
    then have op': "moves st 0 (runtime_parts rt @ st) s s1" using op by simp
    show ?thesis
      using run [unfolded Inr sum.case]
      by (auto split: prod.splits sum.splits if_splits bool.splits dest!: read_results
          intro!: moves_close_read [OF op'] moves_read_after [OF op'])
  qed
qed

lemma warmup_page_moves: "warmup_page (watched_page sdk) env ctx page s = Some (r, s1) \<Longrightarrow> snd s1 = snd s"
  by (auto simp: warmup_page_def Let_def split: prod.splits option.splits bool.splits dest!: read_results wait_results)

lemma inspect_page_moves:
  "inspect_page (watched_page sdk) env ctx page url s = Some (r, s1) \<Longrightarrow> snd s1 = snd s"
  by (auto simp: inspect_page_def detected_def Let_def split: prod.splits sum.splits option.splits bool.splits if_splits
      dest!: read_results wait_results)

text \<open>A click of the follow control that goes through ends the search.\<close>

lemma click_candidates_moves:
  "click_candidates (watched_page sdk) page sel i n e s = (r, s1) \<Longrightarrow>
   moves st (if r = Inr True then 1 else 0) st s s1"
proof (induction n arbitrary: i e s)
  case 0
  then show ?case by (auto split: option.splits intro: moves_read)
next
  case (Suc n)
  let ?sdk = "watched_page sdk"
  obtain v s2 where v: "pg_NthVisible ?sdk page sel i s = (v, s2)" by (cases "pg_NthVisible ?sdk page sel i s")
  note rv = read_results(4) [OF v]
  show ?case
  proof (cases "v = Inr True")
    case False
    then have "click_candidates ?sdk page sel (Suc i) n e s2 = (r, s1)"
      using Suc.prems v by (cases v) auto
    from Suc.IH [OF this] show ?thesis by (rule moves_after_read [OF rv])
  next
    case True
    obtain b s3 where b: "pg_NthEnabled ?sdk page sel i s2 = (b, s3)" by (cases "pg_NthEnabled ?sdk page sel i s2")
    have rb: "snd s3 = snd s" using read_results(5) [OF b] rv by simp
    show ?thesis
    proof (cases "b = Inr True")
      case False
      then have "click_candidates ?sdk page sel (Suc i) n e s3 = (r, s1)"
        using Suc.prems v True b by (cases b) auto
      from Suc.IH [OF this] show ?thesis by (rule moves_after_read [OF rb])
    next
      case bT: True
      define s4 where "s4 = snd (pg_NthScroll ?sdk page sel i s3)"
      have r4: "snd s4 = snd s" using reads.NthScroll [of sdk page sel i s3] rb by (simp add: s4_def)
      obtain c s5 where c: "pg_NthClick ?sdk page sel i 5000 s4 = (c, s5)" by (cases "pg_NthClick ?sdk page sel i 5000 s4")
      have c': "snd s5 = snd s @ if_ok (Clicked sel) c" using c r4 by (auto simp: watched_page_def noting_result)
      show ?thesis
      proof (cases c)
        case None
        then have "r = Inr True \<and> s1 = s5" using Suc.prems v True b bT c by (auto simp: s4_def)
        then show ?thesis using c' None by (auto simp: moves_def)
      next
        case (Some err)
        then have "click_candidates ?sdk page sel (Suc i) n (Some err) s5 = (r, s1)"
          using Suc.prems v True b bT c by (auto simp: s4_def)
        from Suc.IH [OF this] show ?thesis by (rule moves_after_read [rotated]) (simp add: c' Some)
      qed
    qed
  qed
qed

lemma clickVisibleFollowControl_moves:
  assumes "clickVisibleFollowControl (watched_page sdk) page sel s = (r, s1)"
  shows "moves st (if r = Inr True then 1 else 0) st s s1"
proof -
  obtain c s2 where c: "pg_Count (watched_page sdk) page sel s = (c, s2)" by (cases "pg_Count (watched_page sdk) page sel s")
  note rc = read_results(3) [OF c]
  show ?thesis
    using assms c moves_read [OF rc, of st]
    by (cases c) (auto simp: clickVisibleFollowControl_def split: if_splits
        dest!: moves_after_read [OF rc click_candidates_moves [where st = st]])
qed

text \<open>With \<open>n\<close> attempts at most \<open>n\<close> clicks; a completed follow has clicked.\<close>

lemma follow_attempts_moves:
  "follow_attempts (watched_page sdk) env ctx page sel n s = Some (r, s1) \<Longrightarrow>
   \<exists>k \<le> n. moves st k st s s1 \<and> (r = Inr FollowFlowOutcomeCompleted \<longrightarrow> 0 < k) \<and> r \<noteq> Inr FollowFlowOutcomeAlreadyDone"
proof (induction n arbitrary: s)
  case 0
  then show ?case by (auto intro: moves_read)
next
  case (Suc n)
  let ?sdk = "watched_page sdk"
  obtain c s2 where c: "clickVisibleFollowControl ?sdk page sel s = (c, s2)" by (cases "clickVisibleFollowControl ?sdk page sel s")
  note mc = clickVisibleFollowControl_moves [OF c, of st]
  note run = Suc.prems [unfolded follow_attempts.simps c prod.case]
  show ?case
  proof (cases "c = Inr True")
    case False
    then have "s1 = s2 \<and> r \<noteq> Inr FollowFlowOutcomeCompleted \<and> r \<noteq> Inr FollowFlowOutcomeAlreadyDone"
      using run by (auto split: sum.splits bool.splits)
    then show ?thesis using mc False by (intro exI [of _ 0]) auto
  next
    case True
    have m1: "moves st 1 st s s'" if "snd s' = snd s2" for s'
      using moves_read_after [OF _ that, of st 1 st s] mc True by simp
    note run' = run [unfolded True sum.case bool.case]
    have "(snd s1 = snd s2 \<and> r \<noteq> Inr FollowFlowOutcomeAlreadyDone) \<or>
        (\<exists>w. follow_attempts ?sdk env ctx page sel n (w, snd s2) = Some (r, s1))"
      using run'
      by (auto split: prod.splits option.splits bool.splits if_splits dest!: read_results wait_results)
    then consider "snd s1 = snd s2" "r \<noteq> Inr FollowFlowOutcomeAlreadyDone"
      | s3 where "snd s3 = snd s2" "follow_attempts ?sdk env ctx page sel n s3 = Some (r, s1)"
      by auto
    then show ?thesis
    proof cases
      case 1
      then show ?thesis using m1 by (intro exI [of _ 1]) auto
    next
      case 2
      obtain k where k: "k \<le> n" "moves st k st s3 s1" "r \<noteq> Inr FollowFlowOutcomeAlreadyDone"
        using Suc.IH [OF 2(2)] by auto
      then show ?thesis using moves_trans [OF m1 [OF 2(1)] k(2)] by (intro exI [of _ "Suc k"]) auto
    qed
  qed
qed

text \<open>
  A page that always shows one of some elements; the elements that mark a profile as followed, or as not to be found.
\<close>

definition shows_one_of :: "('h, 's, 'w) page_sdk \<Rightarrow> string list \<Rightarrow> bool" where
  "shows_one_of sdk sels \<longleftrightarrow>
     (\<exists>sel \<in> set sels. \<forall>p w. (\<exists>n. fst (pg_Count sdk p sel w) = Inr n \<and> 0 < n) \<and> fst (pg_NthVisible sdk p sel 0 w) = Inr True)"

abbreviation followed_signals :: "string list" where
  "followed_signals \<equiv> fsr_AlreadyDoneSignals (fr_Selectors defaultOskellyFollowRules)"

abbreviation unavailable_signals :: "string list" where
  "unavailable_signals \<equiv> fsr_UnavailableSignals (fr_Selectors defaultOskellyFollowRules)"

lemma shows_one_of_watched: "shows_one_of sdk sels \<Longrightarrow> shows_one_of (watched_page sdk) sels"
  by (simp add: shows_one_of_def watched_page_def noting_def split: prod.split) (metis fst_conv)

lemma hasAnySelector_shown:
  assumes "shows_one_of sdk sels"
  shows "\<exists>w1. hasAnySelector sdk page sels w = (True, w1)"
proof -
  obtain sel where sel: "sel \<in> set sels" and shown: "\<And>p w. \<exists>n. fst (pg_Count sdk p sel w) = Inr n \<and> 0 < n"
    "\<And>p w. fst (pg_NthVisible sdk p sel 0 w) = Inr True"
    using assms unfolding shows_one_of_def by blast
  have here: "\<exists>w1. selectorHasVisibleElement sdk page sel w = (Inr True, w1)" for w
  proof -
    obtain n w1 where n: "pg_Count sdk page sel w = (Inr n, w1)" "0 < n" using shown(1) [of page w] by (metis prod.collapse)
    obtain w2 where w2: "pg_NthVisible sdk page sel 0 w1 = (Inr True, w2)" using shown(2) [of page w1] by (metis prod.collapse)
    obtain m where "nat (min n 5) = Suc m" using n(2) by (metis Suc_pred zero_less_nat_eq min_less_iff_conj zero_less_numeral)
    then show ?thesis using n w2 by (simp add: selectorHasVisibleElement_def)
  qed
  show ?thesis using sel
  proof (induction sels arbitrary: w)
    case (Cons x xs)
    show ?case
    proof (cases "x = sel")
      case True
      then show ?thesis using here [of w] by auto
    next
      case False
      then show ?thesis using Cons by (auto split: prod.split sum.split bool.split)
    qed
  qed simp
qed

lemma detect_shown:
  assumes "shows_one_of sdk followed_signals \<or> shows_one_of sdk unavailable_signals"
  shows "\<exists>state w1. detectPlaywrightFollowState sdk page w = (Inr (state, ''''), w1) \<and>
    (state = followControlStateAlreadyDone \<or> state = followControlStateUnavailable)"
proof -
  obtain b w1 where b: "hasAnySelector sdk page followed_signals w = (b, w1)" by fastforce
  obtain c w2 where c: "hasAnySelector sdk page unavailable_signals w1 = (c, w2)" by fastforce
  have "b" if "shows_one_of sdk followed_signals" using hasAnySelector_shown [OF that, of page w] b by simp
  moreover have "c" if "shows_one_of sdk unavailable_signals" using hasAnySelector_shown [OF that, of page w1] c by simp
  ultimately have "b \<or> c" using assms by blast
  then show ?thesis by (cases b; cases c) (simp_all add: detectPlaywrightFollowState_def Let_def b c)
qed

lemma follow_page_shown:
  assumes "follow_page (watched_page sdk) env ctx page s = Some (r, s1)"
    "shows_one_of sdk followed_signals \<or> shows_one_of sdk unavailable_signals"
  shows "snd s1 = snd s"
proof -
  have "\<exists>state w1. detectPlaywrightFollowState (watched_page sdk) page w = (Inr (state, ''''), w1) \<and>
      (state = followControlStateAlreadyDone \<or> state = followControlStateUnavailable)" for w
    using assms(2) shows_one_of_watched by (intro detect_shown) blast
  then have never: "detectPlaywrightFollowState (watched_page sdk) page w \<noteq> (Inr (followControlStateActionable, sel), w1)" for w sel w1
    by (metis Pair_inject sum.inject(2) follow_control_state.distinct)
  show ?thesis
    using assms(1)
    by (auto simp: follow_page_def Let_def never split: prod.splits sum.splits option.splits bool.splits if_splits
        dest!: read_results wait_results)
qed

lemma follow_page_moves:
  assumes "follow_page (watched_page sdk) env ctx page s = Some (r, s1)"
  shows "\<exists>k \<le> 2. moves st k st s s1 \<and> (r = Inr FollowFlowOutcomeCompleted \<longrightarrow> 0 < k) \<and>
    (r = Inr FollowFlowOutcomeAlreadyDone \<longrightarrow> k = 0)"
proof -
  consider "snd s1 = snd s" "r \<noteq> Inr FollowFlowOutcomeCompleted"
    | sel s2 where "snd s2 = snd s" "follow_attempts (watched_page sdk) env ctx page sel 2 s2 = Some (r, s1)"
    using assms
    by (auto simp: follow_page_def Let_def split: prod.splits sum.splits option.splits bool.splits if_splits
        dest!: read_results wait_results)
  then show ?thesis
  proof cases
    case 1
    then show ?thesis by (intro exI [of _ 0]) (auto intro: moves_read)
  next
    case 2
    from follow_attempts_moves [OF 2(2), of st] show ?thesis using moves_after_read [OF 2(1)] by blast
  qed
qed

text \<open>The login opens and closes nothing.\<close>

lemma run_login_steps_moves:
  "run_login_steps (watched_page sdk) page steps shots s = (r, s1) \<Longrightarrow> \<exists>k. moves st k st s s1"
proof (induction steps arbitrary: shots s)
  case Nil
  then show ?case by (auto intro: moves_read exI [of _ 0])
next
  case (Cons step steps)
  let ?sdk = "watched_page sdk"
  have call: "\<exists>k. moves st k st s s'" if "login_call ?sdk page step s = (e, s')" for e s'
    using that
    by (cases step; cases e) (auto simp: watched_page_def noting_result moves_def)
  show ?case
  proof (cases "\<exists>stage. step = Capture stage")
    case True
    then obtain stage where [simp]: "step = Capture stage" by blast
    obtain shots1 s2 where c: "captureBootstrapScreenshot ?sdk page shots stage s = (shots1, s2)"
      by (cases "captureBootstrapScreenshot ?sdk page shots stage s")
    have "run_login_steps ?sdk page steps shots1 s2 = (r, s1)" using Cons.prems c by simp
    from Cons.IH [OF this] show ?thesis using moves_after_read [OF read_results(15) [OF c]] by blast
  next
    case False
    obtain e s2 where e: "login_call ?sdk page step s = (e, s2)" by (cases "login_call ?sdk page step s")
    obtain k where k: "moves st k st s s2" using call [OF e] by blast
    have step: "run_login_steps ?sdk page (step # steps) shots s = (case login_call ?sdk page step s of
        (Some err, w1) \<Rightarrow> (case captureBootstrapScreenshot ?sdk page shots (failed_stage step) w1 of
             (shots1, w2) \<Rightarrow> ((Some (with_stack err), shots1), w2))
      | (None, w1) \<Rightarrow> run_login_steps ?sdk page steps shots w1)"
      using False by (cases step) auto
    show ?thesis
    proof (cases e)
      case None
      then have "run_login_steps ?sdk page steps shots s2 = (r, s1)" using Cons.prems step e by simp
      then show ?thesis using Cons.IH moves_trans [OF k] by blast
    next
      case (Some err)
      then have "snd s1 = snd s2" using Cons.prems step e by (auto split: prod.splits dest!: read_results)
      then show ?thesis using moves_read_after [OF k] by blast
    qed
  qed
qed

lemma login_page_moves:
  assumes "login_page (watched_page sdk) encode rt credentials s = (r, s1)"
  shows "\<exists>k. moves st k st s s1"
proof -
  let ?sdk = "watched_page sdk" and ?p = "prt_page rt"
  obtain g s2 where g: "pg_Goto ?sdk ?p ''https://oskelly.ru'' 45000 s = (g, s2)"
    by (cases "pg_Goto ?sdk ?p ''https://oskelly.ru'' 45000 s")
  note rg = read_results(1) [OF g]
  note run = assms [unfolded login_page_def Let_def g prod.case]
  show ?thesis
  proof (cases g)
    case (Inl err)
    then have "snd s1 = snd s" using run rg by (auto split: prod.splits dest!: read_results)
    then show ?thesis using moves_read by blast
  next
    case (Inr status)
    obtain shots0 s3 where c: "captureBootstrapScreenshot ?sdk ?p [] ''auth-home'' s2 = (shots0, s3)"
      by (cases "captureBootstrapScreenshot ?sdk ?p [] ''auth-home'' s2")
    obtain x s4 where x: "run_login_steps ?sdk ?p (login_steps credentials) shots0 s3 = (x, s4)"
      by (cases "run_login_steps ?sdk ?p (login_steps credentials) shots0 s3")
    obtain k where k: "moves st k st s3 s4" using run_login_steps_moves [OF x] by blast
    obtain e shots1 where xe: "x = (e, shots1)" by (cases x)
    note run' = run [unfolded Inr sum.case c prod.case x xe]
    have "snd s1 = snd s4"
    proof (cases e)
      case (Some err)
      then show ?thesis using run' by simp
    next
      case None
      obtain shots s5 where c5: "captureBootstrapScreenshot ?sdk ?p shots1 ''auth-post-submit'' (pg_Sleep ?sdk (seconds 2) s4) = (shots, s5)"
        by (cases "captureBootstrapScreenshot ?sdk ?p shots1 ''auth-post-submit'' (pg_Sleep ?sdk (seconds 2) s4)")
      have "snd s5 = snd s4" using read_results(15) [OF c5] by simp
      then show ?thesis
        using run' [unfolded None option.case c5 prod.case]
        by (auto simp del: hasAnySelector.simps split: prod.splits sum.splits bool.splits dest!: read_results)
    qed
    moreover have "snd s3 = snd s" using read_results(15) [OF c] rg by simp
    ultimately show ?thesis using moves_read_after [OF moves_after_read [OF _ k]] by blast
  qed
qed

section \<open>Waiting ends\<close>

text \<open>
  Reading a page does not turn the clock back and a sleep moves it on, by as much as it is asked for.  Then a
  loop that polls ends: a round brings the clock a fifth of a second nearer to the deadline.
\<close>

locale page_clock = page_frame sdk "\<lambda>w w'. env_now env w \<le> env_now env w'"
  for sdk :: "('h, 's, 'w) page_sdk" and env :: "'w runtime_env" +
  assumes sleeps: "0 \<le> d \<Longrightarrow> env_now env w + d \<le> env_now env (pg_Sleep sdk d w)"
begin

lemma poll_returns:
  assumes "\<And>w. env_now env w \<le> env_now env (snd (probe w))"
  shows "Page_Adapters.poll_until (env_now env) (pg_Sleep sdk) g probe deadline w \<noteq> None"
proof (induction "nat (deadline - env_now env w)" arbitrary: w rule: less_induct)
  case less
  let ?w = "pg_Sleep sdk (milliseconds 200) (snd (probe w))"
  have "env_now env w < env_now env ?w"
    using sleeps [of "milliseconds 200" "snd (probe w)"] assms [of w] by simp
  then have "Page_Adapters.poll_until (env_now env) (pg_Sleep sdk) g probe deadline ?w \<noteq> None"
    if "env_now env w < deadline" using less [of ?w] that by simp
  then show ?case by (subst poll_until.simps) auto
qed

lemma wait_returns [simp]:
  "Page_Adapters.waitAnySelectorWithContext sdk env ctx p sels t w \<noteq> None"
  "Page_Adapters.waitAnySelector sdk env p sels t w \<noteq> None"
  unfolding waitAnySelectorWithContext_def waitAnySelector_def
  by (rule poll_returns, rule hasAnySelector) (rule poll_returns, rule queryAnySelector)

lemma follow_attempts_return [simp]: "follow_attempts sdk env ctx p sel n w \<noteq> None"
proof (induction n arbitrary: w)
  case (Suc n)
  then show ?case by (simp del: not_None_eq split: prod.split sum.split bool.split option.split)
qed simp

lemma pages_return:
  "warmup_page sdk env ctx p w \<noteq> None" "follow_page sdk env ctx p w \<noteq> None"
  "inspect_page sdk env ctx p url w \<noteq> None" "legacy_page sdk env encode rt credentials w \<noteq> None"
  by (simp_all add: warmup_page_def follow_page_def inspect_page_def legacy_page_def Let_def del: not_None_eq
      split: prod.split sum.split bool.split option.split)

end

text \<open>Any package, with a clock that every reading call moves by what it costs.\<close>

definition timed :: "('w \<Rightarrow> nat) \<Rightarrow> ('w \<Rightarrow> 'r \<times> 'w) \<Rightarrow> 'w \<times> time \<Rightarrow> 'r \<times> ('w \<times> time)" where
  "timed cost f s = (case f (fst s) of (r, w1) \<Rightarrow> (r, (w1, snd s + int (cost (fst s)))))"

definition timed_page :: "('w \<Rightarrow> nat) \<Rightarrow> ('h, 's, 'w) page_sdk \<Rightarrow> ('h, 's, 'w \<times> time) page_sdk" where
  "timed_page cost sdk =
     \<lparr>pg_Run = timed cost (pg_Run sdk), pg_Stop = (\<lambda>h. timed cost (pg_Stop sdk h)),
      pg_Launch = (\<lambda>h. timed cost (pg_Launch sdk h)), pg_CloseBrowser = (\<lambda>h. timed cost (pg_CloseBrowser sdk h)),
      pg_NewContext = (\<lambda>h st. timed cost (pg_NewContext sdk h st)),
      pg_CloseContext = (\<lambda>h. timed cost (pg_CloseContext sdk h)), pg_NewPage = (\<lambda>h. timed cost (pg_NewPage sdk h)),
      pg_Goto = (\<lambda>h u t. timed cost (pg_Goto sdk h u t)), pg_URL = (\<lambda>h. timed cost (pg_URL sdk h)),
      pg_IsVisible = (\<lambda>h s. timed cost (pg_IsVisible sdk h s)), pg_Count = (\<lambda>h s. timed cost (pg_Count sdk h s)),
      pg_NthVisible = (\<lambda>h s i. timed cost (pg_NthVisible sdk h s i)),
      pg_NthEnabled = (\<lambda>h s i. timed cost (pg_NthEnabled sdk h s i)),
      pg_NthAttribute = (\<lambda>h s i a. timed cost (pg_NthAttribute sdk h s i a)),
      pg_NthScroll = (\<lambda>h s i. timed cost (pg_NthScroll sdk h s i)),
      pg_NthClick = (\<lambda>h s i t. timed cost (pg_NthClick sdk h s i t)),
      pg_Evaluate = (\<lambda>h c. timed cost (pg_Evaluate sdk h c)), pg_Screenshot = (\<lambda>h. timed cost (pg_Screenshot sdk h)),
      pg_WaitForSelector = (\<lambda>h s t. timed cost (pg_WaitForSelector sdk h s t)),
      pg_Click = (\<lambda>h s t. timed cost (pg_Click sdk h s t)), pg_Fill = (\<lambda>h s v. timed cost (pg_Fill sdk h s v)),
      pg_QuerySelector = (\<lambda>h s. timed cost (pg_QuerySelector sdk h s)),
      pg_Content = (\<lambda>h. timed cost (pg_Content sdk h)), pg_StorageState = (\<lambda>h. timed cost (pg_StorageState sdk h)),
      pg_Sleep = (\<lambda>d s. (pg_Sleep sdk d (fst s), snd s + d))\<rparr>"

definition timed_env :: "(go_context \<Rightarrow> 'w \<Rightarrow> go_error option) \<Rightarrow> ('w \<times> time) runtime_env" where
  "timed_env errs = \<lparr>env_now = snd, env_ctxErr = (\<lambda>ctx s. errs ctx (fst s))\<rparr>"

lemma timed_clock [simp]: "snd (snd (timed cost f s)) = snd s + int (cost (fst s))"
  by (simp add: timed_def split: prod.split)

interpretation wall: page_clock "timed_page cost sdk" "timed_env errs"
  by unfold_locales (simp_all add: timed_page_def timed_env_def)


section \<open>Properties\<close>

text \<open>
  C15.  The adapters return: with a clock that reading does not turn back and sleeping moves on, no wait for a
  selector lasts for ever, so warmup, follow, verification and the old login give a result for every page.
\<close>

theorem adapters_return:
  assumes "page_clock sdk env"
  shows "Adapter_Warmup sdk env decode ctx input w \<noteq> None \<and> Adapter_RunFollowAction sdk env decode ctx input w \<noteq> None \<and>
    Adapter_InspectFollowState sdk env decode ctx verification w \<noteq> None \<and>
    executeLegacy sdk env encode ctx credentials w \<noteq> None"
proof -
  note returns = page_clock.pages_return [OF assms]
  have "Adapter_Warmup sdk env decode ctx input w \<noteq> None" "Adapter_RunFollowAction sdk env decode ctx input w \<noteq> None"
    using returns(1,2) by (auto simp: Adapter_Warmup_def Adapter_RunFollowAction_def split: prod.split sum.split)
  moreover have "Adapter_InspectFollowState sdk env decode ctx verification w \<noteq> None"
    using returns(3) by (auto simp: Adapter_InspectFollowState_def split: prod.split sum.split option.split)
  moreover have "executeLegacy sdk env encode ctx credentials w \<noteq> None"
    using returns(4) by (auto simp: executeLegacy_def runtime_error_def split: prod.split sum.split option.split)
  ultimately show ?thesis by blast
qed

lemma adapter_moves:
  "Adapter_Warmup (watched_page sdk) env decode ctx input s = Some (r1, s1) \<Longrightarrow> moves [] 0 [] s s1"
  "Adapter_InspectFollowState (watched_page sdk) env decode ctx verification s = Some (r2, s2) \<Longrightarrow> moves [] 0 [] s s2"
  "Adapter_Execute (watched_page sdk) env encode ctx credentials s = (r3, s3) \<Longrightarrow> \<exists>k. moves [] k [] s s3"
proof -
  let ?sdk = "watched_page sdk"
  show "moves [] 0 [] s s1" if a: "Adapter_Warmup ?sdk env decode ctx input s = Some (r1, s1)"
  proof -
    obtain o1 s4 where o1: "newPlaywrightFollowRuntime ?sdk env decode ctx input s = (o1, s4)"
      by (cases "newPlaywrightFollowRuntime ?sdk env decode ctx input s")
    show ?thesis
      using a newPlaywrightFollowRuntime_moves [OF o1, of "[]"]
      by (cases o1)
        (auto simp: Adapter_Warmup_def o1 dest!: warmup_page_moves intro!: moves_close_read [where st = "[]", simplified])
  qed
  show "moves [] 0 [] s s2" if a: "Adapter_InspectFollowState ?sdk env decode ctx verification s = Some (r2, s2)"
  proof -
    consider "s2 = s" | st o1 s4 where "open_page ?sdk (Some st) s = (Inl o1, s4)" "s2 = s4"
      | st rt url d s4 s5 where "open_page ?sdk (Some st) s = (Inr rt, s4)"
        "inspect_page ?sdk env ctx (prt_page rt) url s4 = Some (d, s5)" "s2 = close_runtime ?sdk rt s5"
      using a by (auto simp: Adapter_InspectFollowState_def split: option.splits sum.splits prod.splits)
    then show ?thesis
    proof cases
      case 1
      then show ?thesis by (simp add: moves_read)
    next
      case 2
      then show ?thesis using open_page_moves [OF 2(1), of "[]"] by simp
    next
      case 3
      then show ?thesis
        using open_page_moves [OF 3(1), of "[]"] moves_close_read [where rt = rt and st = "[]" and s = s and ?s1.0 = s4 and ?s2.0 = s5] inspect_page_moves [OF 3(2)] by simp
    qed
  qed
  show "\<exists>k. moves [] k [] s s3" if a: "Adapter_Execute ?sdk env encode ctx credentials s = (r3, s3)"
  proof -
    consider "s3 = s" | o1 s4 where "open_page ?sdk None s = (Inl o1, s4)" "s3 = s4"
      | rt d s4 s5 where "open_page ?sdk None s = (Inr rt, s4)"
        "login_page ?sdk encode rt credentials s4 = (d, s5)" "s3 = close_runtime ?sdk rt s5"
      using a by (auto simp: Adapter_Execute_def split: option.splits sum.splits prod.splits if_splits)
    then show ?thesis
    proof cases
      case 1
      then show ?thesis using moves_read by blast
    next
      case 2
      then show ?thesis using open_page_moves [OF 2(1), of "[]"] by auto
    next
      case 3
      obtain k where k: "moves (runtime_parts rt @ []) k (runtime_parts rt @ []) s4 s5"
        using login_page_moves [OF 3(2)] by blast
      have "moves [] 0 (runtime_parts rt @ []) s s4" using open_page_moves [OF 3(1), of "[]"] by simp
      from moves_close [OF this k, of sdk] show ?thesis using 3(3) by blast
    qed
  qed
qed

lemma follow_adapter_moves:
  assumes "Adapter_RunFollowAction (watched_page sdk) env decode ctx input s = Some (r, s1)"
  shows "\<exists>k \<le> 2. moves [] k [] s s1 \<and> (r = Inr FollowFlowOutcomeCompleted \<longrightarrow> 0 < k) \<and>
    (r = Inr FollowFlowOutcomeAlreadyDone \<longrightarrow> k = 0) \<and>
    (shows_one_of sdk followed_signals \<or> shows_one_of sdk unavailable_signals \<longrightarrow> k = 0)"
proof -
  let ?sdk = "watched_page sdk"
  obtain o1 s2 where o1: "newPlaywrightFollowRuntime ?sdk env decode ctx input s = (o1, s2)"
    by (cases "newPlaywrightFollowRuntime ?sdk env decode ctx input s")
  note m = newPlaywrightFollowRuntime_moves [OF o1, of "[]"]
  show ?thesis
  proof (cases o1)
    case (Inl err)
    then show ?thesis using assms m by (auto simp: Adapter_RunFollowAction_def o1 intro!: exI [of _ 0])
  next
    case (Inr rt)
    then obtain s3 where s3: "follow_page ?sdk env ctx (prt_page rt) s2 = Some (r, s3)" "s1 = close_runtime ?sdk rt s3"
      using assms by (auto simp: Adapter_RunFollowAction_def o1)
    obtain k where k: "k \<le> 2" "moves (runtime_parts rt @ []) k (runtime_parts rt @ []) s2 s3"
      "r = Inr FollowFlowOutcomeCompleted \<longrightarrow> 0 < k" "r = Inr FollowFlowOutcomeAlreadyDone \<longrightarrow> k = 0"
      using follow_page_moves [OF s3(1)] by blast
    have still: "k = 0" if "shows_one_of sdk followed_signals \<or> shows_one_of sdk unavailable_signals"
      using follow_page_shown [OF s3(1) that] k(2) by (auto simp: moves_def)
    have "moves [] 0 (runtime_parts rt @ []) s s2" using m Inr by simp
    from moves_close [OF this k(2), of sdk] show ?thesis using k still s3(2) by blast
  qed
qed

text \<open>
  C11.  Whatever the page, the network and the package answer, a warmup, a follow, a verification and a login close every
  engine, browser and context they opened, the last first; a warmup and a verification click nothing, a follow at most
  twice.
\<close>

theorem adapters_leave_nothing_open:
  "(Adapter_Warmup (watched_page sdk) env decode ctx input (w, []) = Some (r1, (w1, es1)) \<longrightarrow>
      settle [] es1 = Some [] \<and> clicks es1 = 0) \<and>
   (Adapter_RunFollowAction (watched_page sdk) env decode ctx input (w, []) = Some (r4, (w4, es4)) \<longrightarrow>
      settle [] es4 = Some [] \<and> clicks es4 \<le> 2) \<and>
   (Adapter_InspectFollowState (watched_page sdk) env decode ctx verification (w, []) = Some (r2, (w2, es2)) \<longrightarrow>
      settle [] es2 = Some [] \<and> clicks es2 = 0) \<and>
   (Adapter_Execute (watched_page sdk) env encode ctx credentials (w, []) = (r3, (w3, es3)) \<longrightarrow>
      settle [] es3 = Some [])"
  using adapter_moves(1) [of sdk env decode ctx input "(w, [])" r1 "(w1, es1)"]
    adapter_moves(2) [of sdk env decode ctx verification "(w, [])" r2 "(w2, es2)"]
    adapter_moves(3) [of sdk env encode ctx credentials "(w, [])" r3 "(w3, es3)"]
    follow_adapter_moves [of sdk env decode ctx input "(w, [])" r4 "(w4, es4)"]
  by (auto simp: moves_def)



section \<open>A small page\<close>

declare poll_until.simps [code]

text \<open>A profile whose follow button turns into another when it is clicked; the world is how often it was.\<close>

definition shows_selector :: "nat \<Rightarrow> string \<Rightarrow> bool" where
  "shows_selector n sel \<longleftrightarrow> sel = has_text ''button'' (if n = 0 then ''Follow'' else ''Following'')"

definition sample_page :: "(nat, unit, nat) page_sdk" where
  "sample_page =
     \<lparr>pg_Run = (\<lambda>n. (Inr 1, n)), pg_Stop = (\<lambda>h n. (None, n)), pg_Launch = (\<lambda>h n. (Inr 2, n)),
      pg_CloseBrowser = (\<lambda>h n. (None, n)), pg_NewContext = (\<lambda>h st n. (Inr 3, n)),
      pg_CloseContext = (\<lambda>h n. (None, n)), pg_NewPage = (\<lambda>h n. (Inr 4, n)),
      pg_Goto = (\<lambda>h u t n. (Inr (Some 200), n)), pg_URL = (\<lambda>h n. (''https://oskelly.ru/profile/7'', n)),
      pg_IsVisible = (\<lambda>h s n. (Inr False, n)), pg_Count = (\<lambda>h s n. (Inr (if shows_selector n s then 1 else 0), n)),
      pg_NthVisible = (\<lambda>h s i n. (Inr True, n)), pg_NthEnabled = (\<lambda>h s i n. (Inr True, n)),
      pg_NthAttribute = (\<lambda>h s i a n. (Inr '''', n)), pg_NthScroll = (\<lambda>h s i n. (None, n)),
      pg_NthClick = (\<lambda>h s i t n. (None, Suc n)), pg_Evaluate = (\<lambda>h c n. (Inr JsNil, n)),
      pg_Screenshot = (\<lambda>h n. (Inr [], n)), pg_WaitForSelector = (\<lambda>h s t n. (None, n)),
      pg_Click = (\<lambda>h s t n. (None, n)), pg_Fill = (\<lambda>h s v n. (None, n)), pg_QuerySelector = (\<lambda>h s n. (Inr False, n)),
      pg_Content = (\<lambda>h n. (Inr '''', n)), pg_StorageState = (\<lambda>h n. (Inr (), n)), pg_Sleep = (\<lambda>d n. n)\<rparr>"

definition still_env :: "'w runtime_env" where
  "still_env = \<lparr>env_now = (\<lambda>w. 0), env_ctxErr = (\<lambda>ctx w. None)\<rparr>"

definition sample_follow :: follow_flow_input where
  "sample_follow =
     \<lparr>ffi_TaskID = ''t1'', ffi_AccountID = ''a1'', ffi_Attempt = 1, ffi_ExecutionContextID = ''w1'',
      ffi_SessionMetadata = zero_metadata, ffi_SessionPayload = [1],
      ffi_TargetProfile = ''https://oskelly.ru/profile/7''\<rparr>"




lemma adapters_leave_nothing_open_witness:
  "\<exists>w es. Adapter_Warmup (watched_page sample_page) still_env (\<lambda>b. Some ()) Background sample_follow (0, []) =
     Some (None, (w, es)) \<and> settle [] es = Some [] \<and> length es = 6"
proof -
  let ?es = "[Opened EnginePart 1, Opened BrowserPart 2, Opened ContextPart 3, Closed ContextPart 3, Closed BrowserPart 2,
      Closed EnginePart (1 :: nat)]"
  have run: "Adapter_Warmup (watched_page sample_page) still_env (\<lambda>b. Some ()) Background sample_follow (0, []) =
      Some (None, (0, ?es))" by code_simp
  with adapters_leave_nothing_open [THEN conjunct1, of sample_page still_env "\<lambda>b. Some ()" Background sample_follow 0 None 0 ?es]
  have "settle [] ?es = Some []" by blast
  with run show ?thesis by auto
qed

lemma adapters_return_witness:
  "Adapter_RunFollowAction (timed_page (\<lambda>n. 5) sample_page) (timed_env (\<lambda>ctx n. None)) (\<lambda>b. Some ()) Background
     (sample_follow\<lparr>ffi_TargetProfile := ''https://oskelly.ru/profile/8''\<rparr>) (7, 0) \<noteq> None"
  using adapters_return [OF wall.page_clock_axioms [of "\<lambda>n. 5" sample_page "\<lambda>ctx n. None"],
      where input = "sample_follow\<lparr>ffi_TargetProfile := ''https://oskelly.ru/profile/8''\<rparr>" and ctx = Background
        and decode = "\<lambda>b. Some ()" and w = "(7, 0)"]
  by blast

end
