(* ===== verification/Batch_Import.thy ===== *)
theory Batch_Import
  imports Task_Queue "HOL-Library.Multiset"
begin

text \<open>
  The batch import \<open>EnqueueValidatedBatch\<close> of \<open>task_postgres.go\<close>: every input row is accounted for, no
  second active task for an account and a target comes out of it, and where its counting goes wrong.
\<close>

type_synonym task_key = "uuid \<times> string"

definition input_key :: "input_row \<Rightarrow> task_key" where
  "input_key r = (ir_account_id r, ir_target_profile r)"

definition task_key_of :: "task_row \<Rightarrow> task_key" where
  "task_key_of t = (trow_account_id t, trow_target_profile t)"

definition active_keys :: "task_row list \<Rightarrow> task_key list" where
  "active_keys tasks =
     map task_key_of (filter (\<lambda>t. trow_status t \<in> {TaskStatusQueued, TaskStatusRunning}) tasks)"

lemma payload_split_parts:
  "payload_split seen rows = (us, ds) \<Longrightarrow>
   mset us + mset ds = mset rows \<and> distinct (map input_key us) \<and> set (map input_key us) \<inter> set seen = {}"
proof (induction seen rows arbitrary: us ds rule: payload_split.induct)
  case (2 seen r rows)
  show ?case
  proof (cases "input_key r \<in> set seen")
    case True
    then obtain ds' where "payload_split seen rows = (us, ds')" "ds = r # ds'"
      using "2.prems" by (auto simp: Let_def input_key_def split: prod.splits)
    with "2.IH"(1) [OF refl] True show ?thesis by (simp add: input_key_def)
  next
    case False
    then obtain us' where "payload_split (input_key r # seen) rows = (us', ds)" "us = r # us'"
      using "2.prems" by (auto simp: Let_def input_key_def split: prod.splits)
    with "2.IH"(2) [OF refl] False show ?thesis by (auto simp: input_key_def)
  qed
qed simp

lemma batch_collect_counts:
  "br_RowsCreated (batch_collect res out) = br_RowsCreated res + length (filter (\<lambda>x. fst x = Created) out)"
  "length (br_SkippedRows (batch_collect res out)) =
     length (br_SkippedRows res) + length (filter (\<lambda>x. fst x \<noteq> Created) out)"
  by (induction res out rule: batch_collect.induct) simp_all

lemma batch_inputs_Inr:
  "batch_inputs rows acc s = (Inr inputs, s') \<Longrightarrow>
   map ir_row_index inputs = map ir_row_index acc @ map (\<lambda>r. int32 (er_Row r)) rows \<and>
   map ir_account_id inputs = map ir_account_id acc @ map er_AccountID rows \<and>
   map ir_target_profile inputs = map ir_target_profile acc @ map (\<lambda>r. TrimSpace (er_TargetProfile r)) rows"
  by (induction rows acc s rule: batch_inputs.induct) (auto split: if_splits prod.splits)

lemma insert_all_Inr:
  "insert_all rows s = Inr (u, s') \<Longrightarrow>
   s' = s\<lparr>db_tasks := db_tasks s @ rows\<rparr> \<and> (\<forall>r \<in> set rows. task_row_ok r \<and>
     trow_account_id r \<in> set (map arow_id (db_accounts s)))"
proof (induction rows s rule: insert_all.induct)
  case (2 r rows s)
  from "2.prems" obtain r' s1 where r: "insert_task r s = Inr (r', s1)" "insert_all rows s1 = Inr (u, s')"
    by (auto split: sum.splits)
  note ins = insert_task_Inr [OF r(1)]
  from "2.IH" [OF r(1) refl r(2)] ins show ?case by auto
qed simp

text \<open>The number of active tasks an input row collides with.\<close>

definition collisions :: "task_row list \<Rightarrow> input_row \<Rightarrow> nat" where
  "collisions tasks r = count_list (active_keys tasks) (input_key r)"

lemma collisions_alt:
  "collisions tasks r =
   length (filter (\<lambda>t. trow_account_id t = ir_account_id r \<and> trow_target_profile t = ir_target_profile r \<and>
                       trow_status t \<in> {TaskStatusQueued, TaskStatusRunning}) tasks)"
  unfolding collisions_def active_keys_def count_list_eq_length_filter
  by (induction tasks) (auto simp: task_key_of_def input_key_def)

lemma active_duplicates_Cons:
  "active_duplicates tasks (r # us) =
   replicate (collisions tasks r) (ir_row_index r) @ active_duplicates tasks us"
  by (simp add: active_duplicates_def collisions_alt map_replicate_const)

lemma length_active_duplicates:
  "length (active_duplicates tasks us) = sum_list (map (collisions tasks) us)"
  by (induction us) (simp_all add: active_duplicates_Cons, simp add: active_duplicates_def)

lemma set_active_duplicates:
  "set (active_duplicates tasks us) = ir_row_index ` {x \<in> set us. collisions tasks x > 0}"
proof (induction us)
  case (Cons r us)
  then show ?case by (cases "collisions tasks r > 0") (auto simp: active_duplicates_Cons)
qed (simp add: active_duplicates_def)

lemma active_duplicates_index:
  assumes "distinct (map ir_row_index us)" "r \<in> set us"
  shows "ir_row_index r \<in> set (active_duplicates tasks us) \<longleftrightarrow> collisions tasks r > 0"
proof -
  have same: "x = r" if "x \<in> set us" "ir_row_index x = ir_row_index r" for x
    using assms that by (meson distinct_map inj_onD)
  show ?thesis
  proof
    assume "ir_row_index r \<in> set (active_duplicates tasks us)"
    then obtain x where x: "x \<in> set us" "collisions tasks x > 0" "ir_row_index r = ir_row_index x"
      unfolding set_active_duplicates by (elim imageE CollectE conjE)
    then show "collisions tasks r > 0" using same [OF x(1) x(3) [symmetric]] by simp
  next
    assume "collisions tasks r > 0"
    then show "ir_row_index r \<in> set (active_duplicates tasks us)"
      unfolding set_active_duplicates using assms(2) by (intro imageI CollectI conjI)
  qed
qed

lemma missing_accounts_index:
  assumes "distinct (map ir_row_index us)" "r \<in> set us"
  shows "ir_row_index r \<in> set (missing_accounts accounts us) \<longleftrightarrow>
    ir_account_id r \<notin> set (map arow_id accounts)"
proof -
  have same: "x = r" if "x \<in> set us" "ir_row_index x = ir_row_index r" for x
    using assms that by (meson distinct_map inj_onD)
  then show ?thesis using assms(2) by (auto simp: missing_accounts_def)
qed

lemma split_count:
  assumes "\<And>r. r \<in> set us \<Longrightarrow> miss r \<Longrightarrow> c r = 0"
  shows "length us \<le> length (filter (\<lambda>r. \<not> miss r \<and> c r = 0) us) + length (filter miss us) +
           sum_list (map c us)"
    "(\<forall>r \<in> set us. c r \<le> (1::nat)) \<Longrightarrow>
     length us = length (filter (\<lambda>r. \<not> miss r \<and> c r = 0) us) + length (filter miss us) + sum_list (map c us)"
  using assms by (induction us) (auto simp: le_Suc_eq)

lemma collisions_missing:
  assumes "db_ok s" "ir_account_id r \<notin> set (map arow_id (db_accounts s))"
  shows "collisions (db_tasks s) r = 0"
proof -
  have "trow_account_id t \<in> set (map arow_id (db_accounts s))" if "t \<in> set (db_tasks s)" for t
    using assms(1) that by (simp only: db_ok_def tasks_ok_def list_all_iff)
  then have "trow_account_id t \<noteq> ir_account_id r" if "t \<in> set (db_tasks s)" for t
    using assms(2) that by metis
  then show ?thesis by (simp add: collisions_alt filter_empty_conv)
qed

lemma distinct_count_list: "distinct xs \<Longrightarrow> count_list xs x \<le> 1"
  by (induction xs) (auto simp: count_list_0_iff)

text \<open>The account of one run of the statement.\<close>

lemma batch_stmt_account:
  assumes st: "batch_stmt inputs s = Inr (out, s')" and ok: "db_ok s"
    and dist: "distinct (map ir_row_index inputs)"
  defines "created \<equiv> length (filter (\<lambda>x. fst x = Created) out)"
  defines "skipped \<equiv> length (filter (\<lambda>x. fst x \<noteq> Created) out)"
  shows "\<exists>new. s' = s\<lparr>db_tasks := db_tasks s @ new\<rparr> \<and> length new = created \<and>
      distinct (active_keys new) \<and> set (active_keys new) \<inter> set (active_keys (db_tasks s)) = {} \<and>
      (\<forall>n \<in> set new. trow_status n = TaskStatusQueued \<and> trow_attempt n = 0 \<and> task_row_ok n)"
    "length inputs \<le> created + skipped"
    "distinct (active_keys (db_tasks s)) \<Longrightarrow> length inputs = created + skipped"
proof -
  let ?rows = "sort_key ir_row_index (sort_key ir_task_id
       (map (\<lambda>r. r\<lparr>ir_target_profile := BTRIM (ir_target_profile r)\<rparr>) inputs))"
  let ?miss = "\<lambda>r. ir_account_id r \<notin> set (map arow_id (db_accounts s))"
  let ?c = "collisions (db_tasks s)"
  from st obtain us ds ins u where parts:
    "payload_split [] ?rows = (us, ds)"
    "ins = filter (\<lambda>r. ir_row_index r \<notin> set (missing_accounts (db_accounts s) us) \<and>
                      ir_row_index r \<notin> set (active_duplicates (db_tasks s) us)) us"
    "insert_all (map (\<lambda>r. queued_row (ir_task_id r) None (ir_account_id r) (ir_target_profile r) 0 (db_now s))
       ins) s = Inr (u, s')"
    "out = sort_key snd
       (map (\<lambda>r. (Created, ir_row_index r)) ins @
        map (\<lambda>r. (Skipped ''duplicate_active_task'', ir_row_index r)) ds @
        map (\<lambda>i. (Skipped ''account_not_found'', i)) (missing_accounts (db_accounts s) us) @
        map (\<lambda>i. (Skipped ''duplicate_active_task'', i)) (active_duplicates (db_tasks s) us))"
    by (rule batch_stmt_Inr)
  note ps = payload_split_parts [OF parts(1)]
  have part: "mset us + mset ds = mset ?rows" using ps by (elim conjE)
  have len: "length us + length ds = length inputs"
    using arg_cong [OF part, of size] by simp
  have "image_mset ir_row_index (mset ?rows) = mset (map ir_row_index inputs)"
    by (simp add: multiset.map_comp comp_def)
  then have "mset (map ir_row_index us @ map ir_row_index ds) = mset (map ir_row_index inputs)"
    using arg_cong [OF part, of "image_mset ir_row_index"] by simp
  then have "distinct (map ir_row_index us @ map ir_row_index ds)"
    using dist mset_eq_imp_distinct_iff by blast
  then have dist_us: "distinct (map ir_row_index us)" by simp
  have ins: "ins = filter (\<lambda>r. \<not> ?miss r \<and> ?c r = 0) us"
    unfolding parts(2) using missing_accounts_index [OF dist_us] active_duplicates_index [OF dist_us]
    by (intro filter_cong) auto
  have miss: "length (missing_accounts (db_accounts s) us) = length (filter ?miss us)"
    by (simp add: missing_accounts_def)
  have counts: "created = length ins"
    "skipped = length ds + length (filter ?miss us) + sum_list (map ?c us)"
    unfolding created_def skipped_def parts(4)
    by (simp_all add: filter_sort comp_def miss length_active_duplicates)
  have zero: "?c r = 0" if "?miss r" for r using collisions_missing [OF ok that] .
  show "length inputs \<le> created + skipped"
    using split_count(1) [of us ?miss ?c] zero len unfolding counts ins by simp
  show "length inputs = created + skipped" if "distinct (active_keys (db_tasks s))"
  proof -
    have "\<forall>r \<in> set us. ?c r \<le> 1"
      unfolding collisions_def using distinct_count_list [OF that] by blast
    then show ?thesis using split_count(2) [of us ?miss ?c] zero len unfolding counts ins by simp
  qed
  let ?q = "\<lambda>r. queued_row (ir_task_id r) None (ir_account_id r) (ir_target_profile r) 0 (db_now s)"
  note added = insert_all_Inr [OF parts(3)]
  have keys: "active_keys (map ?q ins) = map input_key ins"
    by (simp add: active_keys_def queued_row_def task_key_of_def input_key_def comp_def)
  have status: "trow_status (?q r) = TaskStatusQueued \<and> trow_attempt (?q r) = 0" for r
    by (simp add: queued_row_def)
  have "distinct (map input_key ins)" using ps by (simp add: ins distinct_map_filter)
  moreover have "input_key r \<notin> set (active_keys (db_tasks s))" if "r \<in> set ins" for r
    using that by (simp add: ins collisions_def count_list_0_iff)
  ultimately show "\<exists>new. s' = s\<lparr>db_tasks := db_tasks s @ new\<rparr> \<and> length new = created \<and>
      distinct (active_keys new) \<and> set (active_keys new) \<inter> set (active_keys (db_tasks s)) = {} \<and>
      (\<forall>n \<in> set new. trow_status n = TaskStatusQueued \<and> trow_attempt n = 0 \<and> task_row_ok n)"
    using added status unfolding counts(1)
    by (intro exI [of _ "map ?q ins"]) (auto simp: keys)
qed

lemma batch_account_same:
  assumes "same_tables s s1" "same_tables s2 s'"
    "s2 = s1\<lparr>db_tasks := db_tasks s1 @ new\<rparr>"
  shows "db_tasks s' = db_tasks s @ new" "same_others s s'" "db_audit s' = db_audit s"
  using assms by (simp_all add: same_tables_def same_others_def)

text \<open>
  What a batch import that has taken effect leaves: exactly \<open>RowsCreated\<close> queued tasks and no other change,
  none of them for an account and target that already had an active task or twice for the same pair, and
  counters that cover every input row.  They add up exactly when no two tasks that were active before share an
  account and a target.
\<close>

definition batch_accounted :: "enqueue_row list \<Rightarrow> 'x db_scheme \<Rightarrow> batch_result \<Rightarrow> 'x db_scheme \<Rightarrow> bool" where
  "batch_accounted rows s res s' \<longleftrightarrow>
     br_RowsSkipped res = length (br_SkippedRows res) \<and>
     length rows \<le> br_RowsCreated res + br_RowsSkipped res \<and>
     (distinct (active_keys (db_tasks s)) \<longrightarrow> length rows = br_RowsCreated res + br_RowsSkipped res) \<and>
     (\<exists>new. db_tasks s' = db_tasks s @ new \<and> length new = br_RowsCreated res \<and>
        distinct (active_keys new) \<and> set (active_keys new) \<inter> set (active_keys (db_tasks s)) = {} \<and>
        (\<forall>n \<in> set new. trow_status n = TaskStatusQueued \<and> trow_attempt n = 0)) \<and>
     same_others s s' \<and> db_audit s' = db_audit s"

lemma batch_body_accounts:
  assumes b: "batch_inputs rows [] s = (Inr inputs, s1)"
    and t: "same_tables s1 t1" "batch_body inputs t1 = (Inr res, t2)" "same_tables t2 s'"
    and ok: "db_ok s" and dist: "distinct (map (\<lambda>r. int32 (er_Row r)) rows)"
  shows "batch_accounted rows s res s'"
proof -
  note idx = batch_inputs_Inr [OF b]
  have len: "length inputs = length rows" using idx by (metis append_Nil length_map list.map(1))
  from t(2) obtain out t3 where out: "in_tx (batch_stmt inputs) t1 = (Inr out, t3)" "same_tables t3 t2"
    "res = (batch_collect empty_batch_result out)
             \<lparr>br_RowsSkipped := length (br_SkippedRows (batch_collect empty_batch_result out))\<rparr>"
    by (rule batch_body_Inr)
  from in_tx_Inr [OF out(1)] obtain t0 where t0: "same_tables t1 t0" "batch_stmt inputs t0 = Inr (out, t3)"
    by blast
  have pre: "same_tables s t0" using batch_inputs_same [OF b] t(1) t0(1) same_tables_trans by blast
  have post: "same_tables t3 s'" using out(2) t(3) by (rule same_tables_trans)
  have ok0: "db_ok t0" using db_ok_same_tables [OF pre] ok by simp
  have dist0: "distinct (map ir_row_index inputs)" using idx dist by simp
  note account = batch_stmt_account [OF t0(2) ok0 dist0]
  have counts: "br_RowsCreated res = length (filter (\<lambda>x. fst x = Created) out)"
    "br_RowsSkipped res = length (filter (\<lambda>x. fst x \<noteq> Created) out)"
    "br_RowsSkipped res = length (br_SkippedRows res)"
    unfolding out(3) by (simp_all add: batch_collect_counts empty_batch_result_def)
  from account(1) obtain new where new: "t3 = t0\<lparr>db_tasks := db_tasks t0 @ new\<rparr>"
    "length new = br_RowsCreated res" "distinct (active_keys new)"
    "set (active_keys new) \<inter> set (active_keys (db_tasks t0)) = {}"
    "\<forall>n \<in> set new. trow_status n = TaskStatusQueued \<and> trow_attempt n = 0"
    unfolding counts(1) by blast
  have "db_tasks t0 = db_tasks s" using pre by (simp add: same_tables_def)
  then show ?thesis
    unfolding batch_accounted_def
    using account(2,3) len counts new batch_account_same [OF pre post new(1)] by auto
qed

lemma EnqueueValidatedBatch_outcome:
  assumes "EnqueueValidatedBatch ctx rows s = (r, s')" "db_ok s" "distinct (map (\<lambda>r. int32 (er_Row r)) rows)"
  shows "case r of Inr res \<Rightarrow> batch_accounted rows s res s'
    | Inl e \<Rightarrow> same_tables s s' \<or> (\<exists>res. batch_accounted rows s res s')"
proof (cases "rows = []")
  case True
  then show ?thesis using assms(1)
    by (auto simp: EnqueueValidatedBatch_def empty_batch_result_def same_others_def active_keys_def batch_accounted_def)
next
  case False
  obtain rb s1 where b: "batch_inputs rows [] s = (rb, s1)" by (cases "batch_inputs rows [] s")
  note same = batch_inputs_same [OF b]
  show ?thesis
  proof (cases rb)
    case (Inl e)
    then show ?thesis using assms(1) False b same by (auto simp: EnqueueValidatedBatch_def)
  next
    case (Inr inputs)
    then have "transaction (queue_write_failed ''begin batch enqueue transaction'')
        (\<lambda>x. queue_write_failed ''commit batch enqueue transaction'') (batch_body inputs) s1 = (r, s')"
      using assms(1) False b by (simp add: EnqueueValidatedBatch_def)
    then show ?thesis
    proof (cases rule: transaction_ends)
      case (ran res t1 t2)
      then show ?thesis using batch_body_accounts [OF b [unfolded Inr] ran(1-3) assms(2,3)] by auto
    qed (use same same_tables_trans in \<open>auto\<close>)
  qed
qed

text \<open>
  The counters can exceed the number of input rows: with two active tasks for the same account and
  target (two retries of one failed task are enough) a batch of one row reports two skipped rows.
\<close>

definition sample_duplicates :: db where
  "sample_duplicates =
     snd (RetryFromTask Background ''t1'' (snd (RetryFromTask Background ''t1'' (sample_db [sample_failed]))))"

theorem EnqueueValidatedBatch_overcounts:
  "db_ok sample_duplicates \<and>
   (\<exists>res s'. EnqueueValidatedBatch Background
       [\<lparr>er_Row = 2, er_AccountID = ''a1'', er_TargetProfile = sample_target\<rparr>] sample_duplicates = (Inr res, s') \<and>
     br_RowsCreated res = 0 \<and> br_RowsSkipped res = 2)"
proof
  show "db_ok sample_duplicates"
    unfolding sample_duplicates_def
    using RetryFromTask_safe [of "sample_db [sample_failed]"] RetryFromTask_safe sample_db_ok(1) [of sample_failed]
    unfolding queue_safe_def by blast
  let ?r = "EnqueueValidatedBatch Background
       [\<lparr>er_Row = 2, er_AccountID = ''a1'', er_TargetProfile = sample_target\<rparr>] sample_duplicates"
  have "(case fst ?r of Inl e \<Rightarrow> False | Inr res \<Rightarrow> br_RowsCreated res = 0 \<and> br_RowsSkipped res = 2)"
    by code_simp
  then show "\<exists>res s'. ?r = (Inr res, s') \<and> br_RowsCreated res = 0 \<and> br_RowsSkipped res = 2"
    by (cases ?r) (auto split: sum.splits)
qed

end
