(* ===== verification/Admin_Csv.thy ===== *)
theory Admin_Csv
  imports Batch_Import Json_Encode
begin

text \<open>
  \<open>internal/transport/http/admin_csv_validator.go\<close>: the validation of an uploaded table of accounts and
  targets, over the reader of package \<open>encoding/csv\<close> with its default comma, strict quotes and any number of
  fields.  The reader is written out on the lines of the input; the text of its errors, with their position,
  and \<open>uuid.Parse\<close> are parameters.
\<close>

section \<open>Reading\<close>

datatype csv_error = ErrBareQuote | ErrQuote

fun raw_lines :: "string \<Rightarrow> string \<Rightarrow> string list" where
  "raw_lines acc [] = (if acc = [] then [] else [acc])"
| "raw_lines acc (c # cs) =
     (if c = CHR 0x0A then (acc @ [c]) # raw_lines [] cs else raw_lines (acc @ [c]) cs)"

text \<open>A carriage return before a newline or at the end of the input is dropped.\<close>

definition normal_line :: "string \<Rightarrow> string" where
  "normal_line line =
     (if HasSuffix line [CHR 0x0D, CHR 0x0A] then take (length line - 2) line @ [CHR 0x0A]
      else if HasSuffix line [CHR 0x0D] then take (length line - 1) line
      else line)"

definition csv_lines :: "string \<Rightarrow> string list" where
  "csv_lines input = filter (\<lambda>line. line \<noteq> []) (map normal_line (raw_lines [] input))"

definition strip_newline :: "string \<Rightarrow> string" where
  "strip_newline line = (if HasSuffix line [CHR 0x0A] then take (length line - 1) line else line)"

text \<open>
  A quoted field from behind its opening quote: its text, whether a comma follows, and what is left of the line
  and of the lines after it.
\<close>

fun scan_quoted :: "string \<Rightarrow> string \<Rightarrow> string list \<Rightarrow> csv_error + string \<times> bool \<times> string \<times> string list" where
  "scan_quoted acc [] [] = Inl ErrQuote"
| "scan_quoted acc [] (line # lines) = scan_quoted acc line lines"
| "scan_quoted acc (c # cs) lines =
     (if c \<noteq> CHR 0x22 then scan_quoted (acc @ [c]) cs lines
      else case cs of
        [] \<Rightarrow> Inr (acc, False, [], lines)
      | d # ds \<Rightarrow>
          if d = CHR 0x22 then scan_quoted (acc @ [d]) ds lines
          else if d = CHR '','' then Inr (acc, True, ds, lines)
          else if cs = [CHR 0x0A] then Inr (acc, False, [], lines)
          else Inl ErrQuote)"

definition rest_size :: "string \<Rightarrow> string list \<Rightarrow> nat" where
  "rest_size line lines = length line + length (concat lines)"

lemma scan_quoted_size:
  "scan_quoted acc line lines = Inr (cell, again, rest, lines') \<Longrightarrow>
   rest_size rest lines' \<le> rest_size line lines \<and> length lines' \<le> length lines"
  by (induction acc line lines rule: scan_quoted.induct) (auto simp: rest_size_def split: if_splits list.splits)

function parse_fields :: "string \<Rightarrow> string list \<Rightarrow> csv_error + string list \<times> string list" where
  "parse_fields line lines =
     (if line = [] \<or> hd line \<noteq> CHR 0x22 then
        (if CHR '','' \<in> set line then
           (let cell = takeWhile (\<lambda>c. c \<noteq> CHR '','') line in
            if CHR 0x22 \<in> set cell then Inl ErrBareQuote
            else case parse_fields (drop (Suc (length cell)) line) lines of
              Inl err \<Rightarrow> Inl err
            | Inr (cells, lines') \<Rightarrow> Inr (cell # cells, lines'))
         else if CHR 0x22 \<in> set (strip_newline line) then Inl ErrBareQuote
         else Inr ([strip_newline line], lines))
      else case scan_quoted [] (tl line) lines of
        Inl err \<Rightarrow> Inl err
      | Inr (cell, again, rest, lines') \<Rightarrow>
          if again then (case parse_fields rest lines' of
              Inl err \<Rightarrow> Inl err
            | Inr (cells, lines'') \<Rightarrow> Inr (cell # cells, lines''))
          else Inr ([cell], lines'))"
  by pat_completeness auto
termination
  by (relation "measure (\<lambda>(line, lines). rest_size line lines)")
    (auto simp: rest_size_def dest!: scan_quoted_size dest: length_pos_if_in_set intro: le_less_trans [of _ "length (tl _) + _"])

declare parse_fields.simps [simp del]

text \<open>
  \<open>Read\<close>: the next record, \<open>None\<close> at the end of the input.  An empty line is skipped.
\<close>

fun csv_Read :: "string list \<Rightarrow> (csv_error + string list \<times> string list) option" where
  "csv_Read [] = None"
| "csv_Read (line # lines) = (if line = [CHR 0x0A] then csv_Read lines else Some (parse_fields line lines))"

lemma parse_fields_shorter:
  "parse_fields line lines = Inr (cells, lines') \<Longrightarrow> length lines' \<le> length lines"
proof (induction line lines arbitrary: cells lines' rule: parse_fields.induct)
  case (1 line lines)
  then show ?case
    by (subst (asm) (3) parse_fields.simps,
        auto simp: Let_def split: if_splits sum.splits prod.splits dest!: scan_quoted_size, meson le_trans)
qed

lemma csv_Read_shorter: "csv_Read lines = Some (Inr (cells, lines')) \<Longrightarrow> length lines' < length lines"
  by (induction lines) (auto split: if_splits dest!: parse_fields_shorter)


section \<open>Validation\<close>

record csv_row_error =
  cre_Row :: int
  cre_Code :: string
  cre_Field :: string
  cre_Message :: string

record csv_validated_row =
  cvr_Row :: int
  cvr_AccountID :: uuid
  cvr_TargetProfile :: string

record csv_validation_result =
  cvs_RowsTotal :: int
  cvs_RowsValid :: int
  cvs_RowsInvalid :: int
  cvs_InvalidRows :: "csv_row_error list"
  cvs_ValidRows :: "csv_validated_row list"

record csv_schema_error =
  cse_message :: string
  cse_details :: "(string \<times> json) list"

definition Details :: "csv_schema_error option \<Rightarrow> (string \<times> json) list" where
  "Details e = (case e of None \<Rightarrow> [] | Some e \<Rightarrow> cse_details e)"

definition newAdminCSVSchemaError :: "string \<Rightarrow> (string \<times> json) list \<Rightarrow> csv_schema_error" where
  "newAdminCSVSchemaError message details = \<lparr>cse_message = message, cse_details = details\<rparr>"

definition normalizeCSVHeader :: "string list \<Rightarrow> string list" where
  "normalizeCSVHeader header = map (\<lambda>column. TrimSpace (ToLower column)) header"

definition isExpectedCSVHeader :: "string list \<Rightarrow> bool" where
  "isExpectedCSVHeader header \<longleftrightarrow> normalizeCSVHeader header = [''account_id'', ''target_profile'']"

definition csv_row_invalid_code :: string where
  "csv_row_invalid_code = ''CSV_ROW_INVALID''"

definition invalid_row :: "int \<Rightarrow> string \<Rightarrow> string \<Rightarrow> csv_row_error" where
  "invalid_row row cell message =
     \<lparr>cre_Row = row, cre_Code = csv_row_invalid_code, cre_Field = cell, cre_Message = message\<rparr>"

definition check_record :: "(string \<Rightarrow> uuid option) \<Rightarrow> int \<Rightarrow> string list \<Rightarrow> csv_row_error + csv_validated_row" where
  "check_record parse_uuid row rcd =
     (if length rcd \<noteq> 2 then
        Inl (invalid_row row ''row'' (''row must contain exactly 2 columns, got '' @ Itoa (int (length rcd))))
      else case parse_uuid (TrimSpace (rcd ! 0)) of
        None \<Rightarrow> Inl (invalid_row row ''account_id'' ''account_id must be a valid UUID'')
      | Some accountID \<Rightarrow>
        (case NormalizeOskellyTargetProfileURL (TrimSpace (rcd ! 1)) of
           Inl err \<Rightarrow>
             Inl (invalid_row row ''target_profile'' ''target_profile must match https://oskelly.ru/profile/<NUM>'')
         | Inr targetProfile \<Rightarrow>
             Inr \<lparr>cvr_Row = row, cvr_AccountID = accountID, cvr_TargetProfile = targetProfile\<rparr>))"

text \<open>The loop over the rows; \<open>row\<close> is the number of the next one.\<close>

function check_rows ::
  "(string \<Rightarrow> uuid option) \<Rightarrow> (csv_error \<Rightarrow> string) \<Rightarrow> int \<Rightarrow> string list \<Rightarrow> csv_validation_result \<Rightarrow>
   csv_schema_error + csv_validation_result" where
  "check_rows parse_uuid reason row lines result =
     (case csv_Read lines of
        None \<Rightarrow> Inr result
      | Some (Inl err) \<Rightarrow>
          Inl (newAdminCSVSchemaError ''CSV row parsing failed''
                 [(''row'', JInt row), (''reason'', JString (reason err))])
      | Some (Inr (rcd, lines')) \<Rightarrow>
          let counted = result\<lparr>cvs_RowsTotal := cvs_RowsTotal result + 1\<rparr>
          in check_rows parse_uuid reason (row + 1) lines'
               (case check_record parse_uuid row rcd of
                  Inl e \<Rightarrow> counted\<lparr>cvs_InvalidRows := cvs_InvalidRows counted @ [e]\<rparr>
                | Inr v \<Rightarrow> counted\<lparr>cvs_ValidRows := cvs_ValidRows counted @ [v]\<rparr>))"
  by pat_completeness auto
termination
  by (relation "measure (\<lambda>(parse_uuid, reason, row, lines, result). length lines)") (auto dest: csv_Read_shorter)

declare check_rows.simps [simp del]

definition expected_columns :: "string \<times> json" where
  "expected_columns = (''expected_columns'', JArray [JString ''account_id'', JString ''target_profile''])"

definition empty_result :: csv_validation_result where
  "empty_result =
     \<lparr>cvs_RowsTotal = 0, cvs_RowsValid = 0, cvs_RowsInvalid = 0, cvs_InvalidRows = [], cvs_ValidRows = []\<rparr>"

definition Csv_Validate ::
  "(string \<Rightarrow> uuid option) \<Rightarrow> (csv_error \<Rightarrow> string) \<Rightarrow> string \<Rightarrow> csv_schema_error + csv_validation_result" where
  "Csv_Validate parse_uuid reason input =
     (case csv_Read (csv_lines input) of
        None \<Rightarrow> Inl (newAdminCSVSchemaError ''CSV header is required'' [expected_columns])
      | Some (Inl err) \<Rightarrow>
          Inl (newAdminCSVSchemaError ''CSV schema could not be parsed'' [(''reason'', JString (reason err))])
      | Some (Inr (header, lines)) \<Rightarrow>
          if \<not> isExpectedCSVHeader header then
            Inl (newAdminCSVSchemaError ''CSV header must be exactly account_id,target_profile''
                   [expected_columns,
                    (''actual_columns'', JArray (map JString (normalizeCSVHeader header)))])
          else map_sum id
              (\<lambda>result. result\<lparr>cvs_RowsValid := int (length (cvs_ValidRows result)),
                               cvs_RowsInvalid := int (length (cvs_InvalidRows result))\<rparr>)
              (check_rows parse_uuid reason 2 lines empty_result))"

record csv_validation_report =
  cvp_RowsTotal :: int
  cvp_RowsValid :: int
  cvp_RowsInvalid :: int
  cvp_InvalidRows :: "csv_row_error list"

definition report :: "csv_validation_result \<Rightarrow> csv_validation_report" where
  "report result =
     \<lparr>cvp_RowsTotal = cvs_RowsTotal result, cvp_RowsValid = cvs_RowsValid result,
      cvp_RowsInvalid = cvs_RowsInvalid result, cvp_InvalidRows = cvs_InvalidRows result\<rparr>"

section \<open>Counting the rows\<close>

definition csv_counted :: "int \<Rightarrow> csv_validation_result \<Rightarrow> bool" where
  "csv_counted row r \<longleftrightarrow>
     2 \<le> row \<and> cvs_RowsTotal r = row - 2 \<and>
     mset (map cvr_Row (cvs_ValidRows r)) + mset (map cre_Row (cvs_InvalidRows r)) = mset [2..row - 1] \<and>
     (\<forall>v \<in> set (cvs_ValidRows r). NormalizeOskellyTargetProfileURL (cvr_TargetProfile v) = Inr (cvr_TargetProfile v))"

lemma check_record_row:
  "check_record parse_uuid row rcd = Inl e \<Longrightarrow> cre_Row e = row"
  "check_record parse_uuid row rcd = Inr v \<Longrightarrow> cvr_Row v = row \<and>
     NormalizeOskellyTargetProfileURL (cvr_TargetProfile v) = Inr (cvr_TargetProfile v)"
  by (auto simp: check_record_def invalid_row_def split: if_splits option.splits sum.splits
      dest: NormalizeOskellyTargetProfileURL_idem)

lemma csv_counted_step:
  assumes "csv_counted row result"
  shows "csv_counted (row + 1) (case check_record parse_uuid row rcd of
      Inl e \<Rightarrow> result\<lparr>cvs_RowsTotal := cvs_RowsTotal result + 1, cvs_InvalidRows := cvs_InvalidRows result @ [e]\<rparr>
    | Inr v \<Rightarrow> result\<lparr>cvs_RowsTotal := cvs_RowsTotal result + 1, cvs_ValidRows := cvs_ValidRows result @ [v]\<rparr>)"
proof -
  have "[2..row] = [2..row - 1] @ [row]" using assms by (simp add: csv_counted_def upto_rec2)
  then show ?thesis
    using assms check_record_row [of parse_uuid row rcd]
    by (auto simp: csv_counted_def split: sum.split)
qed

lemma check_rows_counted:
  "check_rows parse_uuid reason row lines result = Inr out \<Longrightarrow> csv_counted row result \<Longrightarrow>
   \<exists>row'. csv_counted row' out"
proof (induction parse_uuid reason row lines result rule: check_rows.induct)
  case (1 parse_uuid reason row lines result)
  show ?case
  proof (cases "csv_Read lines")
    case None
    then show ?thesis using 1(2,3) by (auto simp: check_rows.simps [of _ _ _ lines])
  next
    case (Some r)
    then obtain rcd lines' where r: "r = Inr (rcd, lines')"
      using 1(2) by (cases r) (auto simp: check_rows.simps [of _ _ _ lines])
    note step = 1(2) [unfolded check_rows.simps [of _ _ _ lines] Some r option.case sum.case prod.case Let_def]
    show ?thesis
      using 1(1) [OF Some r refl refl, simplified, OF step [simplified]] csv_counted_step [OF 1(3), of parse_uuid rcd]
      by (auto split: sum.splits)
  qed
qed

text \<open>
  An upload that passes its header accounts for every row: the counters add up, each row number from two on is
  that of exactly one valid or one invalid row, and the targets of the valid rows are in normal form.
\<close>

lemma csv_rows_accounted:
  assumes "Csv_Validate parse_uuid reason input = Inr r"
  shows "cvs_RowsTotal r = cvs_RowsValid r + cvs_RowsInvalid r \<and> cvs_RowsValid r = int (length (cvs_ValidRows r)) \<and>
    cvs_RowsInvalid r = int (length (cvs_InvalidRows r)) \<and>
    mset (map cvr_Row (cvs_ValidRows r)) + mset (map cre_Row (cvs_InvalidRows r)) = mset [2..cvs_RowsTotal r + 1] \<and>
    (\<forall>v \<in> set (cvs_ValidRows r). NormalizeOskellyTargetProfileURL (cvr_TargetProfile v) = Inr (cvr_TargetProfile v))"
proof -
  obtain lines out where out: "check_rows parse_uuid reason 2 lines empty_result = Inr out"
    and r: "r = out\<lparr>cvs_RowsValid := int (length (cvs_ValidRows out)), cvs_RowsInvalid := int (length (cvs_InvalidRows out))\<rparr>"
    using assms by (auto simp: Csv_Validate_def map_sum_def split: option.splits sum.splits if_splits)
  have "csv_counted 2 empty_result" by (simp add: csv_counted_def empty_result_def)
  then obtain row where c: "csv_counted row out" using check_rows_counted [OF out] by blast
  have "size (mset (map cvr_Row (cvs_ValidRows out)) + mset (map cre_Row (cvs_InvalidRows out))) = size (mset [2..row - 1])"
    using c by (simp add: csv_counted_def)
  then have "length (cvs_ValidRows out) + length (cvs_InvalidRows out) = nat (row - 2)" by simp
  then show ?thesis using c r by (auto simp: csv_counted_def algebra_simps)
qed


section \<open>A plain file\<close>

definition plain :: "string \<Rightarrow> bool" where
  "plain s = list_all (\<lambda>c. c \<noteq> CHR '','' \<and> c \<noteq> CHR 0x22 \<and> c \<noteq> CHR 0x0A \<and> c \<noteq> CHR 0x0D) s"

definition csv_line :: "string \<times> string \<Rightarrow> string" where
  "csv_line row = fst row @ '','' @ snd row @ [CHR 0x0A]"

definition csv_file :: "(string \<times> string) list \<Rightarrow> string" where
  "csv_file rows = concat (map csv_line ((''account_id'', ''target_profile'') # rows))"

lemma raw_lines_line: "CHR 0x0A \<notin> set l \<Longrightarrow> raw_lines acc (l @ CHR 0x0A # rest) = (acc @ l @ [CHR 0x0A]) # raw_lines [] rest"
  by (induction l arbitrary: acc) auto

lemma plain_line: "plain a \<Longrightarrow> plain t \<Longrightarrow> CHR 0x0A \<notin> set (a @ '','' @ t) \<and> CHR 0x0D \<notin> set (a @ '','' @ t)"
  by (auto simp: plain_def list_all_iff)

lemma normal_line_plain:
  assumes "CHR 0x0D \<notin> set l"
  shows "normal_line (l @ [CHR 0x0A]) = l @ [CHR 0x0A]"
proof -
  have "rev l \<noteq> CHR 0x0D # r" for r using assms by (metis list.set_intros(1) set_rev)
  then have "\<not> HasSuffix (l @ [CHR 0x0A]) [CHR 0x0D, CHR 0x0A]" by (auto simp: HasSuffix_def HasPrefix_iff)
  moreover have "\<not> HasSuffix (l @ [CHR 0x0A]) [CHR 0x0D]" by (simp add: HasSuffix_def HasPrefix_iff)
  ultimately show ?thesis by (simp add: normal_line_def)
qed

lemma csv_lines_plain:
  "\<forall>(a, t) \<in> set rows. plain a \<and> plain t \<Longrightarrow> csv_lines (concat (map csv_line rows)) = map csv_line rows"
proof (induction rows)
  case (Cons row rows)
  obtain a t where row: "row = (a, t)" by (cases row)
  then have p: "CHR 0x0A \<notin> set (a @ '','' @ t)" "CHR 0x0D \<notin> set (a @ '','' @ t)"
    using plain_line [of a t] Cons.prems by auto
  have raw: "raw_lines [] (concat (map csv_line (row # rows))) = csv_line row # raw_lines [] (concat (map csv_line rows))"
    using raw_lines_line [of "a @ '','' @ t" "[]" "concat (map csv_line rows)"] p(1) by (simp add: csv_line_def row)
  have "normal_line (csv_line row) = csv_line row"
    using normal_line_plain [OF p(2)] by (simp add: csv_line_def row)
  then show ?case
    using raw Cons by (simp add: csv_lines_def) (simp add: csv_line_def)
qed (simp add: csv_lines_def)

lemma parse_fields_last:
  assumes "plain t"
  shows "parse_fields (t @ [CHR 0x0A]) lines = Inr ([t], lines)"
proof -
  have "strip_newline (t @ [CHR 0x0A]) = t" by (simp add: strip_newline_def HasSuffix_def HasPrefix_def)
  moreover have "CHR '','' \<notin> set (t @ [CHR 0x0A])" "CHR 0x22 \<notin> set t" "hd (t @ [CHR 0x0A]) \<noteq> CHR 0x22"
    using assms by (cases t; auto simp: plain_def list_all_iff)+
  ultimately show ?thesis by (subst parse_fields.simps) simp
qed

lemma parse_fields_plain:
  assumes "plain a" "plain t"
  shows "parse_fields (csv_line (a, t)) lines = Inr ([a, t], lines)"
proof -
  have a: "CHR '','' \<notin> set a" "CHR 0x22 \<notin> set a" "hd (a @ '','' @ t @ [CHR 0x0A]) \<noteq> CHR 0x22"
    using assms(1) by (cases a; auto simp: plain_def list_all_iff)+
  then have "takeWhile (\<lambda>c. c \<noteq> CHR '','') (a @ CHR '','' # t @ [CHR 0x0A]) = a"
    by (subst takeWhile_append2) auto
  then show ?thesis
    using a parse_fields_last [OF assms(2)] by (subst parse_fields.simps) (simp add: csv_line_def)
qed

lemma csv_Read_plain: "plain a \<Longrightarrow> plain t \<Longrightarrow> csv_Read (csv_line (a, t) # lines) = Some (Inr ([a, t], lines))"
  using parse_fields_plain [of a t lines] by (cases a) (auto simp: csv_line_def)

text \<open>What the loop adds for rows that are all valid.\<close>

definition valid_rows :: "int \<Rightarrow> (string \<times> string) list \<Rightarrow> csv_validated_row list" where
  "valid_rows row rows =
     map2 (\<lambda>i (a, t). \<lparr>cvr_Row = i, cvr_AccountID = a, cvr_TargetProfile = t\<rparr>) [row..row + int (length rows) - 1] rows"

lemma valid_rows_Cons: "valid_rows row ((a, t) # rows) =
    \<lparr>cvr_Row = row, cvr_AccountID = a, cvr_TargetProfile = t\<rparr> # valid_rows (row + 1) rows"
  by (simp add: valid_rows_def upto_rec1 [of row] algebra_simps)

lemma check_rows_plain:
  assumes "\<forall>(a, t) \<in> set rows. plain a \<and> plain t \<and> parse_uuid (TrimSpace a) = Some a \<and>
      NormalizeOskellyTargetProfileURL (TrimSpace t) = Inr t"
  shows "check_rows parse_uuid reason row (map csv_line rows) result =
    Inr (result\<lparr>cvs_RowsTotal := cvs_RowsTotal result + int (length rows),
                cvs_ValidRows := cvs_ValidRows result @ valid_rows row rows\<rparr>)"
  using assms
proof (induction rows arbitrary: row result)
  case Nil
  then show ?case by (simp add: check_rows.simps valid_rows_def)
next
  case (Cons r rows)
  obtain a t where r: "r = (a, t)" by (cases r)
  then have p: "plain a" "plain t" "parse_uuid (TrimSpace a) = Some a" "NormalizeOskellyTargetProfileURL (TrimSpace t) = Inr t"
    using Cons.prems by auto
  have "check_record parse_uuid row [a, t] = Inr \<lparr>cvr_Row = row, cvr_AccountID = a, cvr_TargetProfile = t\<rparr>"
    using p by (simp add: check_record_def)
  then show ?case
    using Cons.IH [of "row + 1"] Cons.prems csv_Read_plain [OF p(1,2), of "map csv_line rows"]
    by (subst check_rows.simps) (simp add: r valid_rows_Cons Let_def)
qed

text \<open>
  C19.  A plain file of valid rows, a header and a line for each, comes back as exactly these rows, in their
  order and numbered from two, with nothing refused.
\<close>

theorem csv_plain_roundtrip:
  assumes "\<forall>(a, t) \<in> set rows. plain a \<and> plain t \<and> parse_uuid (TrimSpace a) = Some a \<and>
      NormalizeOskellyTargetProfileURL (TrimSpace t) = Inr t"
  shows "\<exists>r. Csv_Validate parse_uuid reason (csv_file rows) = Inr r \<and>
    map (\<lambda>v. (cvr_AccountID v, cvr_TargetProfile v)) (cvs_ValidRows r) = rows \<and>
    map cvr_Row (cvs_ValidRows r) = [2..int (length rows) + 1] \<and> cvs_InvalidRows r = []"
proof -
  have hdr: "plain ''account_id'' \<and> plain ''target_profile''" by code_simp
  have lines: "csv_lines (csv_file rows) = csv_line (''account_id'', ''target_profile'') # map csv_line rows"
    unfolding csv_file_def
    by (subst csv_lines_plain) (use assms hdr in auto)
  have "isExpectedCSVHeader [''account_id'', ''target_profile'']" by code_simp
  then have run: "Csv_Validate parse_uuid reason (csv_file rows) =
      Inr (empty_result\<lparr>cvs_RowsTotal := int (length rows), cvs_ValidRows := valid_rows 2 rows,
        cvs_RowsValid := int (length (valid_rows 2 rows)), cvs_RowsInvalid := 0\<rparr>)"
    using check_rows_plain [OF assms, of reason 2 empty_result]
      csv_Read_plain [of "''account_id''" "''target_profile''" "map csv_line rows"] hdr
    by (simp add: Csv_Validate_def lines) (simp add: empty_result_def)
  have "map (\<lambda>v. (cvr_AccountID v, cvr_TargetProfile v)) (valid_rows i rows) = rows" for i
    by (induction rows arbitrary: i) (auto simp: valid_rows_Cons, simp add: valid_rows_def)
  moreover have "map cvr_Row (valid_rows i rows) = [i..i + int (length rows) - 1]" for i
    by (induction rows arbitrary: i) (auto simp: valid_rows_Cons upto_rec1 algebra_simps, simp add: valid_rows_def)
  ultimately show ?thesis using run by (auto simp: empty_result_def add.commute)
qed

definition sample_csv_rows :: "(string \<times> string) list" where
  "sample_csv_rows = [(''a1'', ''https://oskelly.ru/profile/7''), (''a2'', ''https://oskelly.ru/profile/15'')]"

lemma csv_plain_roundtrip_witness:
  "\<exists>r. Csv_Validate Some (\<lambda>e. '''') (csv_file sample_csv_rows) = Inr r \<and>
     map (\<lambda>v. (cvr_AccountID v, cvr_TargetProfile v)) (cvs_ValidRows r) = sample_csv_rows"
proof -
  have "\<forall>(a, t) \<in> set sample_csv_rows. plain a \<and> plain t \<and> Some (TrimSpace a) = Some a \<and>
      NormalizeOskellyTargetProfileURL (TrimSpace t) = Inr t" by code_simp
  from csv_plain_roundtrip [of sample_csv_rows Some, OF this] show ?thesis by blast
qed

end
