(* ===== verification/Admin_Http.thy ===== *)
theory Admin_Http
  imports Admin_Csv Diagnostics Follow_Domain
begin

text \<open>
  The responses, the data and the middleware of the administration interface: \<open>admin_response.go\<close>, the
  \<open>admin_task_*_dto.go\<close> files and \<open>admin_middleware.go\<close> of \<open>internal/transport/http\<close>.

  A response writer is a record that is passed along: the header of the correlation, what was sent and what
  the telemetry of the middleware has noted.  Bodies are kept as the values the encoder is given.  The log
  lines of the operations are left out; the context they put their values into is kept.
\<close>

section \<open>Data\<close>

record task_list_dto =
  tld_ID :: string
  tld_AccountID :: string
  tld_TargetProfile :: string
  tld_Status :: string
  tld_Attempt :: int
  tld_ErrorCode :: "string option"
  tld_ResultReason :: "string option"
  tld_UpdatedAt :: time

record task_attempt_context_dto =
  tac_Outcome :: string
  tac_Verified :: bool
  tac_VerificationSignal :: string
  tac_VerificationReason :: "string option"
  tac_ErrorCode :: "string option"
  tac_ScreenshotObjectKey :: string
  tac_ArtifactObjectKeys :: "string list"

record task_detail_dto =
  tdd_ID :: string
  tdd_SourceTaskID :: "string option"
  tdd_AccountID :: string
  tdd_TargetProfile :: string
  tdd_Status :: string
  tdd_Attempt :: int
  tdd_ClaimedBy :: "string option"
  tdd_ClaimedAt :: "time option"
  tdd_StartedAt :: "time option"
  tdd_FinishedAt :: "time option"
  tdd_ErrorCode :: "string option"
  tdd_ResultReason :: "string option"
  tdd_CreatedAt :: time
  tdd_UpdatedAt :: time
  tdd_AttemptContext :: "task_attempt_context_dto option"

record task_failure_dto =
  tfd_ID :: string
  tfd_AccountID :: string
  tfd_TargetProfile :: string
  tfd_Status :: string
  tfd_Attempt :: int
  tfd_ErrorCode :: "string option"
  tfd_ResultReason :: "string option"
  tfd_UpdatedAt :: time
  tfd_FollowOutcome :: "string option"
  tfd_VerificationSignal :: "string option"

definition adminNullableString :: "string \<Rightarrow> string option" where
  "adminNullableString v = (let normalized = TrimSpace v in if normalized = '''' then None else Some normalized)"

definition adminNullableUUID :: "uuid option \<Rightarrow> string option" where
  "adminNullableUUID v = (case v of None \<Rightarrow> None | Some u \<Rightarrow> if u = uuid_Nil then None else Some u)"

definition newAdminTaskListDTO :: "task \<Rightarrow> task_list_dto" where
  "newAdminTaskListDTO tk =
     \<lparr>tld_ID = task_ID tk, tld_AccountID = task_AccountID tk, tld_TargetProfile = task_TargetProfile tk,
      tld_Status = task_status_str (task_Status tk), tld_Attempt = task_Attempt tk,
      tld_ErrorCode = adminNullableString (error_code_str (task_ErrorCode tk)),
      tld_ResultReason = adminNullableString (task_ResultReason tk), tld_UpdatedAt = task_UpdatedAt tk\<rparr>"

definition newAdminTaskAttemptContextDTO :: "follow_result \<Rightarrow> task_attempt_context_dto" where
  "newAdminTaskAttemptContextDTO r =
     \<lparr>tac_Outcome = follow_outcome_str (fr_Outcome r), tac_Verified = fr_Verified r,
      tac_VerificationSignal = verification_signal_str (fr_VerificationSignal r),
      tac_VerificationReason = adminNullableString (fr_VerificationReason r),
      tac_ErrorCode = adminNullableString (error_code_str (fr_ErrorCode r)),
      tac_ScreenshotObjectKey = fr_ScreenshotObjectKey r, tac_ArtifactObjectKeys = fr_ArtifactObjectKeys r\<rparr>"

definition newAdminTaskDetailDTO :: "task \<Rightarrow> task_detail_dto" where
  "newAdminTaskDetailDTO tk =
     \<lparr>tdd_ID = task_ID tk, tdd_SourceTaskID = adminNullableUUID (task_SourceTaskID tk),
      tdd_AccountID = task_AccountID tk, tdd_TargetProfile = task_TargetProfile tk,
      tdd_Status = task_status_str (task_Status tk), tdd_Attempt = task_Attempt tk,
      tdd_ClaimedBy = adminNullableString (task_ClaimedBy tk), tdd_ClaimedAt = task_ClaimedAt tk,
      tdd_StartedAt = task_StartedAt tk, tdd_FinishedAt = task_FinishedAt tk,
      tdd_ErrorCode = adminNullableString (error_code_str (task_ErrorCode tk)),
      tdd_ResultReason = adminNullableString (task_ResultReason tk), tdd_CreatedAt = task_CreatedAt tk,
      tdd_UpdatedAt = task_UpdatedAt tk, tdd_AttemptContext = None\<rparr>"

definition newAdminTaskFailureDTO :: "task \<Rightarrow> task_failure_dto" where
  "newAdminTaskFailureDTO tk =
     \<lparr>tfd_ID = task_ID tk, tfd_AccountID = task_AccountID tk, tfd_TargetProfile = task_TargetProfile tk,
      tfd_Status = task_status_str (task_Status tk), tfd_Attempt = task_Attempt tk,
      tfd_ErrorCode = adminNullableString (error_code_str (task_ErrorCode tk)),
      tfd_ResultReason = adminNullableString (task_ResultReason tk), tfd_UpdatedAt = task_UpdatedAt tk,
      tfd_FollowOutcome = None, tfd_VerificationSignal = None\<rparr>"

definition enrichAdminTaskFailureDTO :: "task_failure_dto \<Rightarrow> follow_result \<Rightarrow> task_failure_dto" where
  "enrichAdminTaskFailureDTO dto r =
     dto\<lparr>tfd_FollowOutcome := adminNullableString (follow_outcome_str (fr_Outcome r)),
         tfd_VerificationSignal := adminNullableString (verification_signal_str (fr_VerificationSignal r))\<rparr>"

record task_retry_response =
  trr_SourceTaskID :: string
  trr_NewTaskID :: string
  trr_Status :: string
  trr_CorrelationID :: "string option"

record task_cancel_response =
  tcr_TaskID :: string
  tcr_Status :: string
  tcr_ResultReason :: string
  tcr_CorrelationID :: "string option"

record csv_import_report =
  cir_RowsTotal :: int
  cir_RowsValid :: int
  cir_RowsInvalid :: int
  cir_RowsCreated :: nat
  cir_RowsSkipped :: nat
  cir_Created :: nat
  cir_Skipped :: nat
  cir_Errors :: int
  cir_InvalidRows :: "csv_row_error list"
  cir_SkippedRows :: "skipped_row list"

datatype response_data =
    DataTasks "task_list_dto list"
  | DataFailures "task_failure_dto list"
  | DataDetail task_detail_dto
  | DataRetry task_retry_response
  | DataCancel task_cancel_response
  | DataImport csv_import_report


section \<open>Responses\<close>

datatype admin_error_code =
    AdminErrorCodeTaskNotFound
  | AdminErrorCodeTaskIDInvalid
  | AdminErrorCodeTaskStateConflict
  | AdminErrorCodeRetryNotAllowed
  | AdminErrorCodeCancelNotAllowed
  | AdminErrorCodeInternalAdminAPIError
  | AdminErrorCodeCSVSchemaInvalid
  | AdminErrorCodeCSVRowInvalid
  | AdminErrorCodeQueueWriteFailed
  | AdminErrorCodeEndpointNotImplemented
  | AdminErrorCodeEndpointTemporarilyClosed

primrec admin_code_str :: "admin_error_code \<Rightarrow> string" where
  "admin_code_str AdminErrorCodeTaskNotFound = ''TASK_NOT_FOUND''"
| "admin_code_str AdminErrorCodeTaskIDInvalid = ''TASK_ID_INVALID''"
| "admin_code_str AdminErrorCodeTaskStateConflict = ''TASK_STATE_CONFLICT''"
| "admin_code_str AdminErrorCodeRetryNotAllowed = ''RETRY_NOT_ALLOWED''"
| "admin_code_str AdminErrorCodeCancelNotAllowed = ''CANCEL_NOT_ALLOWED''"
| "admin_code_str AdminErrorCodeInternalAdminAPIError = ''INTERNAL_ADMIN_API_ERROR''"
| "admin_code_str AdminErrorCodeCSVSchemaInvalid = ''CSV_SCHEMA_INVALID''"
| "admin_code_str AdminErrorCodeCSVRowInvalid = ''CSV_ROW_INVALID''"
| "admin_code_str AdminErrorCodeQueueWriteFailed = ''QUEUE_WRITE_FAILED''"
| "admin_code_str AdminErrorCodeEndpointNotImplemented = ''ADMIN_ENDPOINT_NOT_IMPLEMENTED''"
| "admin_code_str AdminErrorCodeEndpointTemporarilyClosed = ''ADMIN_ENDPOINT_NOT_AVAILABLE''"

datatype error_details = NoDetails | DetailMap "(string \<times> json) list" | DetailReport csv_validation_report

record admin_error_payload =
  aep_Code :: string
  aep_Message :: string
  aep_Details :: error_details

record admin_envelope =
  env_Data :: "response_data option"
  env_Error :: "admin_error_payload option"
  env_CorrelationID :: string

datatype response_body = EnvelopeBody admin_envelope | TextBody string

record response_writer =
  rw_Correlation :: string
  rw_ContentType :: string
  rw_Sent :: "int option"
  rw_Body :: "response_body option"
  rw_statusCode :: int
  rw_outcome :: string
  rw_errorCode :: string

definition newAdminTelemetryResponseWriter :: "response_writer \<Rightarrow> response_writer" where
  "newAdminTelemetryResponseWriter w = w\<lparr>rw_statusCode := 0, rw_outcome := ''unknown'', rw_errorCode := ''unknown''\<rparr>"

text \<open>Only the first status reaches the client.\<close>

definition WriteHeader :: "int \<Rightarrow> response_writer \<Rightarrow> response_writer" where
  "WriteHeader statusCode w =
     w\<lparr>rw_statusCode := statusCode, rw_Sent := (case rw_Sent w of None \<Rightarrow> Some statusCode | Some s \<Rightarrow> Some s)\<rparr>"

definition Write :: "response_body \<Rightarrow> response_writer \<Rightarrow> response_writer" where
  "Write body w =
     w\<lparr>rw_statusCode := (if rw_statusCode w = 0 then 200 else rw_statusCode w),
       rw_Sent := (case rw_Sent w of None \<Rightarrow> Some 200 | Some s \<Rightarrow> Some s), rw_Body := Some body\<rparr>"

definition setAdminResponseTelemetry :: "string \<Rightarrow> string \<Rightarrow> response_writer \<Rightarrow> response_writer" where
  "setAdminResponseTelemetry outcome errorCode w =
     (let outcome' = TrimSpace (ToLower outcome); code = TrimSpace (ToLower errorCode)
      in w\<lparr>rw_outcome := (if outcome' = '''' then ''unknown'' else outcome'),
           rw_errorCode := (if code = '''' then ''unknown'' else code)\<rparr>)"

definition statusCodeOrDefault :: "response_writer \<Rightarrow> int" where
  "statusCodeOrDefault w = (if rw_statusCode w \<noteq> 0 then rw_statusCode w else 200)"

definition annotateAdminResponseTelemetry :: "string \<Rightarrow> string \<Rightarrow> response_writer \<Rightarrow> response_writer" where
  "annotateAdminResponseTelemetry outcome errorCode w =
     setAdminResponseTelemetry outcome (TrimSpace (ToLower errorCode)) w"

definition writeAdminEnvelope :: "int \<Rightarrow> admin_envelope \<Rightarrow> response_writer \<Rightarrow> response_writer" where
  "writeAdminEnvelope statusCode envelope0 w =
     (let envelope = (if TrimSpace (env_CorrelationID envelope0) = ''''
                      then envelope0\<lparr>env_CorrelationID := TrimSpace (rw_Correlation w)\<rparr> else envelope0);
          w1 = (if TrimSpace (env_CorrelationID envelope) \<noteq> ''''
                then w\<lparr>rw_Correlation := env_CorrelationID envelope\<rparr> else w)
      in Write (EnvelopeBody envelope)
           (WriteHeader statusCode (w1\<lparr>rw_ContentType := ''application/json; charset=utf-8''\<rparr>)))"

definition writeAdminSuccessResponseWithMeta ::
  "int \<Rightarrow> response_data \<Rightarrow> string \<Rightarrow> response_writer \<Rightarrow> response_writer" where
  "writeAdminSuccessResponseWithMeta statusCode dat meta w =
     writeAdminEnvelope statusCode \<lparr>env_Data = Some dat, env_Error = None, env_CorrelationID = meta\<rparr>
       (annotateAdminResponseTelemetry ''success'' ''none'' w)"

definition writeAdminSuccessResponse :: "int \<Rightarrow> response_data \<Rightarrow> response_writer \<Rightarrow> response_writer" where
  "writeAdminSuccessResponse statusCode dat w = writeAdminSuccessResponseWithMeta statusCode dat '''' w"

definition writeAdminErrorResponseWithMeta ::
  "int \<Rightarrow> admin_error_payload \<Rightarrow> string \<Rightarrow> response_writer \<Rightarrow> response_writer" where
  "writeAdminErrorResponseWithMeta statusCode payload0 meta w =
     (let payload1 = (if TrimSpace (aep_Code payload0) = ''''
                      then payload0\<lparr>aep_Code := admin_code_str AdminErrorCodeInternalAdminAPIError\<rparr> else payload0);
          payload = (if TrimSpace (aep_Message payload1) = ''''
                     then payload1\<lparr>aep_Message := ''internal admin API error''\<rparr> else payload1)
      in writeAdminEnvelope statusCode \<lparr>env_Data = None, env_Error = Some payload, env_CorrelationID = meta\<rparr>
           (annotateAdminResponseTelemetry ''error'' (aep_Code payload) w))"

definition writeAdminErrorResponse :: "int \<Rightarrow> admin_error_payload \<Rightarrow> response_writer \<Rightarrow> response_writer" where
  "writeAdminErrorResponse statusCode payload w = writeAdminErrorResponseWithMeta statusCode payload '''' w"

definition admin_error :: "admin_error_code \<Rightarrow> string \<Rightarrow> error_details \<Rightarrow> admin_error_payload" where
  "admin_error code message details =
     \<lparr>aep_Code = admin_code_str code, aep_Message = message, aep_Details = details\<rparr>"

definition mapAdminErrorCode :: "go_error \<Rightarrow> admin_error_code" where
  "mapAdminErrorCode err =
     (case as_domain err of
        None \<Rightarrow> AdminErrorCodeInternalAdminAPIError
      | Some (code, message) \<Rightarrow>
        (case code of
           ErrorCodeTaskNotFound \<Rightarrow> AdminErrorCodeTaskNotFound
         | ErrorCodeInvalidTaskIdentifier \<Rightarrow> AdminErrorCodeTaskIDInvalid
         | ErrorCodeRetryNotAllowed \<Rightarrow> AdminErrorCodeRetryNotAllowed
         | ErrorCodeCancelNotAllowed \<Rightarrow> AdminErrorCodeCancelNotAllowed
         | ErrorCodeTaskNotRunning \<Rightarrow> AdminErrorCodeTaskStateConflict
         | ErrorCodeTaskClaimOwnerMismatch \<Rightarrow> AdminErrorCodeTaskStateConflict
         | ErrorCodeTaskStateConflict \<Rightarrow> AdminErrorCodeTaskStateConflict
         | ErrorCodeInvalidTaskTransition \<Rightarrow> AdminErrorCodeTaskStateConflict
         | _ \<Rightarrow> AdminErrorCodeInternalAdminAPIError))"

end
