(* ===== verification/Admin_Api.thy ===== *)
theory Admin_Api
  imports Admin_Http Observability
begin

text \<open>
  \<open>admin_tasks_handler.go\<close>, the request part of \<open>admin_middleware.go\<close>, \<open>health_handler.go\<close>,
  \<open>metrics_handler.go\<close> and \<open>server.go\<close>: the operations of the administration interface, the middleware
  around them and the routes.

  \<open>http.ServeMux\<close> is written out for the patterns that are registered, on clean paths.  What the handler
  depends on is a record of functions on the state \<open>'w\<close> of the world; an interface that may be missing is an
  option.  \<open>uuid.Parse\<close> and \<open>uuid.NewString\<close> are among them.
\<close>

section \<open>Requests\<close>

record http_request =
  rq_Method :: string
  rq_Path :: string
  rq_Header :: "string \<Rightarrow> string"
  rq_Body :: string
  rq_PathID :: string
  rq_Pattern :: string
  rq_Context :: go_context

definition correlationIDHeader :: string where
  "correlationIDHeader = ''X-Correlation-ID''"

definition adminActorHeader :: string where
  "adminActorHeader = ''X-Admin-Actor''"

record 'w admin_handler =
  ah_queueWriter :: "(go_context \<Rightarrow> enqueue_row list \<Rightarrow> 'w \<Rightarrow> (go_error + batch_result) \<times> 'w) option"
  ah_taskReader :: "(go_context \<Rightarrow> uuid \<Rightarrow> 'w \<Rightarrow> (go_error + task) \<times> 'w) option"
  ah_listReader :: "(go_context \<Rightarrow> int \<Rightarrow> int \<Rightarrow> 'w \<Rightarrow> (go_error + task list) \<times> 'w) option"
  ah_failuresReader :: "(go_context \<Rightarrow> int \<Rightarrow> int \<Rightarrow> 'w \<Rightarrow> (go_error + task list) \<times> 'w) option"
  ah_retrier :: "(go_context \<Rightarrow> uuid \<Rightarrow> 'w \<Rightarrow> (go_error + task) \<times> 'w) option"
  ah_canceler :: "(go_context \<Rightarrow> uuid \<Rightarrow> string \<Rightarrow> 'w \<Rightarrow> (go_error + task) \<times> 'w) option"
  ah_resultReader :: "(go_context \<Rightarrow> uuid \<Rightarrow> int \<Rightarrow> 'w \<Rightarrow> (go_error + follow_result) \<times> 'w) option"
  ah_RecordRequest :: "string \<Rightarrow> string \<Rightarrow> int \<Rightarrow> string \<Rightarrow> string \<Rightarrow> int \<Rightarrow> 'w \<Rightarrow> 'w"
  ah_ParseUUID :: "string \<Rightarrow> uuid option"
  ah_NewUUID :: "'w \<Rightarrow> uuid \<times> 'w"
  ah_CsvReason :: "csv_error \<Rightarrow> string"
  ah_Now :: "'w \<Rightarrow> time"

text \<open>What the type assertions of the constructor find on the reader it is given.\<close>

record 'w admin_task_reader =
  atr_GetByID :: "go_context \<Rightarrow> uuid \<Rightarrow> 'w \<Rightarrow> (go_error + task) \<times> 'w"
  atr_List :: "(go_context \<Rightarrow> int \<Rightarrow> int \<Rightarrow> 'w \<Rightarrow> (go_error + task list) \<times> 'w) option"
  atr_ListFailures :: "(go_context \<Rightarrow> int \<Rightarrow> int \<Rightarrow> 'w \<Rightarrow> (go_error + task list) \<times> 'w) option"
  atr_RetryFromTask :: "(go_context \<Rightarrow> uuid \<Rightarrow> 'w \<Rightarrow> (go_error + task) \<times> 'w) option"
  atr_CancelTask :: "(go_context \<Rightarrow> uuid \<Rightarrow> string \<Rightarrow> 'w \<Rightarrow> (go_error + task) \<times> 'w) option"

definition NewAdminTasksHandler ::
  "(string \<Rightarrow> uuid option) \<Rightarrow> ('w \<Rightarrow> uuid \<times> 'w) \<Rightarrow> (csv_error \<Rightarrow> string) \<Rightarrow> ('w \<Rightarrow> time) \<Rightarrow>
   (string \<Rightarrow> string \<Rightarrow> int \<Rightarrow> string \<Rightarrow> string \<Rightarrow> int \<Rightarrow> 'w \<Rightarrow> 'w) \<Rightarrow>
   (go_context \<Rightarrow> enqueue_row list \<Rightarrow> 'w \<Rightarrow> (go_error + batch_result) \<times> 'w) option \<Rightarrow> 'w admin_task_reader option \<Rightarrow>
   (go_context \<Rightarrow> uuid \<Rightarrow> int \<Rightarrow> 'w \<Rightarrow> (go_error + follow_result) \<times> 'w) option \<Rightarrow> 'w admin_handler" where
  "NewAdminTasksHandler parse fresh reason now metrics queueWriter taskReader resultReader =
     \<lparr>ah_queueWriter = queueWriter, ah_taskReader = map_option atr_GetByID taskReader,
      ah_listReader = Option.bind taskReader atr_List, ah_failuresReader = Option.bind taskReader atr_ListFailures,
      ah_retrier = Option.bind taskReader atr_RetryFromTask, ah_canceler = Option.bind taskReader atr_CancelTask,
      ah_resultReader = resultReader, ah_RecordRequest = metrics, ah_ParseUUID = parse, ah_NewUUID = fresh,
      ah_CsvReason = reason, ah_Now = now\<rparr>"

type_synonym 'w handler_func = "http_request \<Rightarrow> response_writer \<Rightarrow> 'w \<Rightarrow> response_writer \<times> 'w"


section \<open>Correlation and actor\<close>

definition is_alnum :: "char \<Rightarrow> bool" where
  "is_alnum c \<longleftrightarrow> (let n = (of_char c :: nat) in 48 \<le> n \<and> n \<le> 57 \<or> 65 \<le> n \<and> n \<le> 90 \<or> 97 \<le> n \<and> n \<le> 122)"

fun correlationIDPattern :: "string \<Rightarrow> bool" where
  "correlationIDPattern [] = False"
| "correlationIDPattern (c # cs) =
     (is_alnum c \<and> length cs \<le> 127 \<and> list_all (\<lambda>c. is_alnum c \<or> c \<in> set ''._:-'') cs)"

definition resolveCorrelationID :: "('w \<Rightarrow> uuid \<times> 'w) \<Rightarrow> string \<Rightarrow> 'w \<Rightarrow> string \<times> 'w" where
  "resolveCorrelationID fresh raw w =
     (let trimmed = TrimSpace raw in
      if trimmed = '''' then fresh w
      else if \<not> correlationIDPattern trimmed then fresh w
      else (trimmed, w))"

definition adminActorFromRequest :: "http_request \<Rightarrow> actor" where
  "adminActorFromRequest r =
     (let a0 = TrimSpace (rq_Header r adminActorHeader);
          a1 = (if a0 = '''' then TrimSpace (rq_Header r ''User-Agent'') else a0);
          a2 = (if a1 = '''' then ''system'' else a1)
      in \<lparr>actor_Type = ActorTypeAdminOperator, actor_ID = a2\<rparr>)"

text \<open>The header of the request that is set along the way is not read again.\<close>

definition prepareAdminMutationContext ::
  "'w admin_handler \<Rightarrow> http_request \<Rightarrow> string \<Rightarrow> string \<Rightarrow> 'w \<Rightarrow> (go_context \<times> string) \<times> 'w" where
  "prepareAdminMutationContext h r taskID adminAction w =
     (case resolveCorrelationID (ah_NewUUID h) (rq_Header r correlationIDHeader) w of (correlationID, w1) \<Rightarrow>
        let normalizedTaskID = (if TrimSpace taskID = '''' then ''n/a'' else TrimSpace taskID);
            ctx = WithAdminRequestContext (rq_Context r)
              \<lparr>arc_CorrelationID = correlationID, arc_AdminAction = TrimSpace adminAction, arc_TaskID = normalizedTaskID\<rparr>
        in ((WithActor ctx (adminActorFromRequest r), correlationID), w1))"

text \<open>The context of \<open>AdminInstrumentation.Start\<close>.\<close>

definition Instrumentation_Start :: "go_context \<Rightarrow> string \<Rightarrow> string \<Rightarrow> go_context" where
  "Instrumentation_Start ctx adminAction taskID =
     (let rc = AdminRequestContextFrom ctx
      in WithAdminRequestContext ctx
           (rc\<lparr>arc_AdminAction := (if TrimSpace adminAction = '''' then ''admin.unknown'' else TrimSpace adminAction),
               arc_TaskID := (if TrimSpace taskID = '''' then ''n/a'' else TrimSpace taskID)\<rparr>))"


section \<open>Reading tasks\<close>

definition writeAdminEndpointNotAvailable :: "string \<Rightarrow> response_writer \<Rightarrow> response_writer" where
  "writeAdminEndpointNotAvailable endpoint rw =
     writeAdminErrorResponse 503
       (admin_error AdminErrorCodeEndpointTemporarilyClosed ''admin endpoint is temporarily unavailable''
          (DetailMap [(''endpoint'', JString endpoint)])) rw"

definition writeAdminEndpointNotImplemented :: "string \<Rightarrow> response_writer \<Rightarrow> response_writer" where
  "writeAdminEndpointNotImplemented endpoint rw =
     writeAdminErrorResponse 501
       (admin_error AdminErrorCodeEndpointNotImplemented ''admin endpoint is not implemented yet''
          (DetailMap [(''endpoint'', JString endpoint)])) rw"

definition listTasks :: "'w admin_handler \<Rightarrow> 'w handler_func" where
  "listTasks h r rw w =
     (case ah_listReader h of
        None \<Rightarrow> (writeAdminEndpointNotAvailable ''GET /api/v1/tasks'' rw, w)
      | Some list_tasks \<Rightarrow>
        (case list_tasks (rq_Context r) 200 0 w of
           (Inl err, w1) \<Rightarrow>
             (writeAdminErrorResponse 500
                (admin_error AdminErrorCodeInternalAdminAPIError ''failed to fetch tasks'' NoDetails) rw, w1)
         | (Inr tasks, w1) \<Rightarrow>
             (writeAdminSuccessResponse 200 (DataTasks (map newAdminTaskListDTO tasks)) rw, w1)))"

definition invalid_task_id :: admin_error_payload where
  "invalid_task_id = admin_error AdminErrorCodeTaskIDInvalid ''task id must be a valid uuid'' NoDetails"

definition task_not_found :: "uuid \<Rightarrow> admin_error_payload" where
  "task_not_found taskID =
     admin_error AdminErrorCodeTaskNotFound ''task not found'' (DetailMap [(''task_id'', JString taskID)])"

definition parseAdminTaskID :: "'w admin_handler \<Rightarrow> http_request \<Rightarrow> response_writer \<Rightarrow> response_writer + uuid" where
  "parseAdminTaskID h r rw =
     (case ah_ParseUUID h (TrimSpace (rq_PathID r)) of
        None \<Rightarrow> Inl (writeAdminErrorResponse 400 invalid_task_id rw)
      | Some taskID \<Rightarrow> Inr taskID)"

text \<open>The result of the last attempt, if there is one; \<open>Inl\<close> when it could not be read.\<close>

definition attempt_result :: "'w admin_handler \<Rightarrow> go_context \<Rightarrow> task \<Rightarrow> 'w \<Rightarrow> (unit + follow_result option) \<times> 'w" where
  "attempt_result h ctx tk w =
     (case ah_resultReader h of
        None \<Rightarrow> (Inr None, w)
      | Some get \<Rightarrow>
          if task_Attempt tk > 0 then
            (case get ctx (task_ID tk) (task_Attempt tk) w of
               (Inr r, w1) \<Rightarrow> (Inr (Some r), w1)
             | (Inl err, w1) \<Rightarrow>
                 if IsDomainErrorCode (Some err) ErrorCodeFollowResultNotFound then (Inr None, w1) else (Inl (), w1))
          else (Inr None, w))"

definition attempt_unreadable :: "response_writer \<Rightarrow> response_writer" where
  "attempt_unreadable rw =
     writeAdminErrorResponse 500
       (admin_error AdminErrorCodeInternalAdminAPIError ''failed to fetch task attempt context'' NoDetails) rw"

definition getTask :: "'w admin_handler \<Rightarrow> 'w handler_func" where
  "getTask h r rw w =
     (case parseAdminTaskID h r rw of
        Inl rw1 \<Rightarrow> (rw1, w)
      | Inr taskID \<Rightarrow>
        (case ah_taskReader h of
           None \<Rightarrow> (writeAdminEndpointNotAvailable ''GET /api/v1/tasks/{id}'' rw, w)
         | Some get \<Rightarrow>
           (case get (rq_Context r) taskID w of
              (Inl err, w1) \<Rightarrow>
                (if IsDomainErrorCode (Some err) ErrorCodeTaskNotFound then
                   writeAdminErrorResponse 404 (task_not_found taskID) rw
                 else if IsDomainErrorCode (Some err) ErrorCodeInvalidTaskIdentifier then
                   writeAdminErrorResponse 400 invalid_task_id rw
                 else writeAdminErrorResponse 500
                        (admin_error AdminErrorCodeInternalAdminAPIError ''failed to fetch task detail'' NoDetails) rw, w1)
            | (Inr tk, w1) \<Rightarrow>
              (case attempt_result h (rq_Context r) tk w1 of
                 (Inl u, w2) \<Rightarrow> (attempt_unreadable rw, w2)
               | (Inr found, w2) \<Rightarrow>
                   (writeAdminSuccessResponse 200
                      (DataDetail ((newAdminTaskDetailDTO tk)
                         \<lparr>tdd_AttemptContext := map_option newAdminTaskAttemptContextDTO found\<rparr>)) rw, w2)))))"

fun failure_items ::
  "'w admin_handler \<Rightarrow> go_context \<Rightarrow> task list \<Rightarrow> task_failure_dto list \<Rightarrow> 'w \<Rightarrow> (unit + task_failure_dto list) \<times> 'w" where
  "failure_items h ctx [] items w = (Inr items, w)"
| "failure_items h ctx (tk # tasks) items w =
     (case attempt_result h ctx tk w of
        (Inl u, w1) \<Rightarrow> (Inl u, w1)
      | (Inr found, w1) \<Rightarrow>
          let item = newAdminTaskFailureDTO tk
          in failure_items h ctx tasks
               (items @ [case found of None \<Rightarrow> item | Some res \<Rightarrow> enrichAdminTaskFailureDTO item res]) w1)"

definition listFailures :: "'w admin_handler \<Rightarrow> 'w handler_func" where
  "listFailures h r rw w =
     (case ah_failuresReader h of
        None \<Rightarrow> (writeAdminEndpointNotAvailable ''GET /api/v1/tasks/failures'' rw, w)
      | Some list_failures \<Rightarrow>
        (case list_failures (rq_Context r) 200 0 w of
           (Inl err, w1) \<Rightarrow>
             (writeAdminErrorResponse 500
                (admin_error AdminErrorCodeInternalAdminAPIError ''failed to fetch triage tasks'' NoDetails) rw, w1)
         | (Inr tasks, w1) \<Rightarrow>
           (case failure_items h (rq_Context r) tasks [] w1 of
              (Inl u, w2) \<Rightarrow> (attempt_unreadable rw, w2)
            | (Inr items, w2) \<Rightarrow> (writeAdminSuccessResponse 200 (DataFailures items) rw, w2))))"

section \<open>Retry and cancel\<close>

text \<open>
  The response to an error of the transition; the two operations differ in the refusal they know and in the
  last message.
\<close>

definition transition_failed ::
  "error_code \<Rightarrow> admin_error_payload \<Rightarrow> string \<Rightarrow> uuid \<Rightarrow> go_error \<Rightarrow> int \<times> admin_error_payload" where
  "transition_failed refusal refused failed taskID err =
     (if IsDomainErrorCode (Some err) ErrorCodeTaskNotFound then (404, task_not_found taskID)
      else if IsDomainErrorCode (Some err) refusal then (409, refused)
      else if IsDomainErrorCode (Some err) ErrorCodeTaskStateConflict \<or>
              IsDomainErrorCode (Some err) ErrorCodeInvalidTaskTransition then
        (409, admin_error AdminErrorCodeTaskStateConflict ''task state conflict'' NoDetails)
      else if IsDomainErrorCode (Some err) ErrorCodeInvalidTaskIdentifier then (400, invalid_task_id)
      else (500, admin_error AdminErrorCodeInternalAdminAPIError failed NoDetails))"

definition mutation_unavailable :: "string \<Rightarrow> admin_error_payload" where
  "mutation_unavailable endpoint =
     admin_error AdminErrorCodeEndpointTemporarilyClosed ''admin endpoint is temporarily unavailable''
       (DetailMap [(''endpoint'', JString endpoint)])"

text \<open>The context a mutation of the task of the path runs under, with its correlation.\<close>

definition mutation_context :: "'w admin_handler \<Rightarrow> string \<Rightarrow> http_request \<Rightarrow> 'w \<Rightarrow> (go_context \<times> string) \<times> 'w" where
  "mutation_context h event r w =
     (let taskIDForContext = (case ah_ParseUUID h (TrimSpace (rq_PathID r)) of Some u \<Rightarrow> u | None \<Rightarrow> ''n/a'')
      in case prepareAdminMutationContext h r taskIDForContext event w of ((ctx, meta), w1) \<Rightarrow>
           ((Instrumentation_Start ctx event taskIDForContext, meta), w1))"

definition retryTask :: "'w admin_handler \<Rightarrow> 'w handler_func" where
  "retryTask h r rw w =
     (case mutation_context h ''admin.retry_task'' r w of ((ctx, meta), w1) \<Rightarrow>
      (case ah_ParseUUID h (TrimSpace (rq_PathID r)) of
         None \<Rightarrow> (writeAdminErrorResponseWithMeta 400 invalid_task_id meta rw, w1)
       | Some taskID \<Rightarrow>
         (case ah_retrier h of
            None \<Rightarrow>
              (writeAdminErrorResponseWithMeta 503 (mutation_unavailable ''POST /api/v1/tasks/{id}/retry'') meta rw, w1)
          | Some retry \<Rightarrow>
            (case retry ctx taskID w1 of
               (Inl err, w2) \<Rightarrow>
                 (case transition_failed ErrorCodeRetryNotAllowed
                         (admin_error AdminErrorCodeRetryNotAllowed
                            ''retry is not allowed for the current task status'' NoDetails)
                         ''failed to retry task'' taskID err of
                    (status, payload) \<Rightarrow> (writeAdminErrorResponseWithMeta status payload meta rw, w2))
             | (Inr retried, w2) \<Rightarrow>
                 (writeAdminSuccessResponseWithMeta 200
                    (DataRetry \<lparr>trr_SourceTaskID = taskID, trr_NewTaskID = task_ID retried,
                                trr_Status = task_status_str (task_Status retried),
                                trr_CorrelationID = Some meta\<rparr>) meta rw, w2)))))"

definition cancelTask :: "'w admin_handler \<Rightarrow> 'w handler_func" where
  "cancelTask h r rw w =
     (case mutation_context h ''admin.cancel_task'' r w of ((ctx, meta), w1) \<Rightarrow>
      (case ah_ParseUUID h (TrimSpace (rq_PathID r)) of
         None \<Rightarrow> (writeAdminErrorResponseWithMeta 400 invalid_task_id meta rw, w1)
       | Some taskID \<Rightarrow>
         (case ah_canceler h of
            None \<Rightarrow>
              (writeAdminErrorResponseWithMeta 503 (mutation_unavailable ''POST /api/v1/tasks/{id}/cancel'') meta rw, w1)
          | Some cancel \<Rightarrow>
            (case cancel ctx taskID '''' w1 of
               (Inl err, w2) \<Rightarrow>
                 (case transition_failed ErrorCodeCancelNotAllowed
                         (admin_error AdminErrorCodeCancelNotAllowed
                            ''cancel is not allowed for the current task status'' NoDetails)
                         ''failed to cancel task'' taskID err of
                    (status, payload) \<Rightarrow> (writeAdminErrorResponseWithMeta status payload meta rw, w2))
             | (Inr canceled, w2) \<Rightarrow>
                 (writeAdminSuccessResponseWithMeta 200
                    (DataCancel \<lparr>tcr_TaskID = task_ID canceled, tcr_Status = task_status_str (task_Status canceled),
                                 tcr_ResultReason = TrimSpace (task_ResultReason canceled),
                                 tcr_CorrelationID = Some meta\<rparr>) meta rw, w2)))))"


section \<open>Import\<close>

definition enqueue_rows :: "csv_validated_row list \<Rightarrow> enqueue_row list" where
  "enqueue_rows rows =
     map (\<lambda>v. \<lparr>er_Row = cvr_Row v, er_AccountID = cvr_AccountID v, er_TargetProfile = cvr_TargetProfile v\<rparr>) rows"

definition import_report :: "csv_validation_result \<Rightarrow> batch_result \<Rightarrow> csv_import_report" where
  "import_report v b =
     \<lparr>cir_RowsTotal = cvs_RowsTotal v, cir_RowsValid = cvs_RowsValid v, cir_RowsInvalid = cvs_RowsInvalid v,
      cir_RowsCreated = br_RowsCreated b, cir_RowsSkipped = br_RowsSkipped b, cir_Created = br_RowsCreated b,
      cir_Skipped = br_RowsSkipped b, cir_Errors = cvs_RowsInvalid v, cir_InvalidRows = cvs_InvalidRows v,
      cir_SkippedRows = br_SkippedRows b\<rparr>"

definition importCSV :: "'w admin_handler \<Rightarrow> 'w handler_func" where
  "importCSV h r rw w =
     (case prepareAdminMutationContext h r ''n/a'' ''admin.csv_import'' w of ((ctx0, meta), w1) \<Rightarrow>
      let ctx = Instrumentation_Start ctx0 ''admin.csv_import'' ''n/a''
      in case Csv_Validate (ah_ParseUUID h) (ah_CsvReason h) (rq_Body r) of
        Inl schemaErr \<Rightarrow>
          (writeAdminErrorResponseWithMeta 400
             (admin_error AdminErrorCodeCSVSchemaInvalid (cse_message schemaErr)
                (DetailMap (Details (Some schemaErr) @
                   [(''rows_total'', JInt 0), (''rows_valid'', JInt 0), (''rows_invalid'', JInt 0)]))) meta rw, w1)
      | Inr result \<Rightarrow>
          let details = DetailReport (report result)
          in if cvs_RowsValid result = 0 then
               (writeAdminErrorResponseWithMeta 422
                  (admin_error AdminErrorCodeCSVRowInvalid ''CSV payload contains no valid rows'' details) meta rw, w1)
             else case ah_queueWriter h of
               None \<Rightarrow>
                 (writeAdminErrorResponseWithMeta 500
                    (admin_error AdminErrorCodeInternalAdminAPIError ''queue writer is not configured'' details) meta rw, w1)
             | Some enqueue \<Rightarrow>
               (case enqueue ctx (enqueue_rows (cvs_ValidRows result)) w1 of
                  (Inl writeErr, w2) \<Rightarrow>
                    (writeAdminErrorResponseWithMeta 500
                       (admin_error
                          (if IsDomainErrorCode (Some writeErr) ErrorCodeTaskQueueWriteFailed
                           then AdminErrorCodeQueueWriteFailed else AdminErrorCodeInternalAdminAPIError)
                          ''failed to persist queued tasks'' details) meta rw, w2)
                | (Inr batch, w2) \<Rightarrow>
                    (writeAdminSuccessResponseWithMeta 200 (DataImport (import_report result batch)) meta rw, w2)))"


section \<open>Routes\<close>

fun path_segments :: "string \<Rightarrow> string \<Rightarrow> string list" where
  "path_segments acc [] = [acc]"
| "path_segments acc (c # cs) =
     (if c = CHR ''/'' then acc # path_segments [] cs else path_segments (acc @ [c]) cs)"

datatype admin_route =
    RouteList
  | RouteGet string
  | RouteRetry string
  | RouteCancel string
  | RouteFailures
  | RouteImport
  | RouteMethodNotAllowed
  | RouteNotFound

text \<open>A pattern of method GET takes HEAD too; of two patterns that match, the more specific wins.\<close>

definition is_get :: "string \<Rightarrow> bool" where
  "is_get method \<longleftrightarrow> method = ''GET'' \<or> method = ''HEAD''"

definition admin_route :: "string \<Rightarrow> string \<Rightarrow> admin_route" where
  "admin_route method path =
     (let allowed = (\<lambda>ok route. if ok then route else RouteMethodNotAllowed) in
      case path_segments [] path of
        [[], a] \<Rightarrow>
          if a = ''tasks'' then allowed (is_get method) RouteList
          else if a = ''tasks:csv'' then allowed (method = ''POST'') RouteImport
          else RouteNotFound
      | [[], a, i] \<Rightarrow>
          if a \<noteq> ''tasks'' \<or> i = '''' then RouteNotFound
          else if i = ''failures'' then allowed (is_get method) RouteFailures
          else allowed (is_get method) (RouteGet i)
      | [[], a, i, b] \<Rightarrow>
          if a \<noteq> ''tasks'' \<or> i = '''' then RouteNotFound
          else if b = ''retry'' then allowed (method = ''POST'') (RouteRetry i)
          else if b = ''cancel'' then allowed (method = ''POST'') (RouteCancel i)
          else RouteNotFound
      | _ \<Rightarrow> RouteNotFound)"

fun route_pattern :: "admin_route \<Rightarrow> string" where
  "route_pattern RouteList = ''GET /tasks''"
| "route_pattern (RouteGet i) = ''GET /tasks/{id}''"
| "route_pattern (RouteRetry i) = ''POST /tasks/{id}/retry''"
| "route_pattern (RouteCancel i) = ''POST /tasks/{id}/cancel''"
| "route_pattern RouteFailures = ''GET /tasks/failures''"
| "route_pattern RouteImport = ''POST /tasks:csv''"
| "route_pattern _ = ''''"

fun route_id :: "admin_route \<Rightarrow> string" where
  "route_id (RouteGet i) = i"
| "route_id (RouteRetry i) = i"
| "route_id (RouteCancel i) = i"
| "route_id _ = ''''"

definition plain_error :: "int \<Rightarrow> string \<Rightarrow> response_writer \<Rightarrow> response_writer" where
  "plain_error statusCode message rw =
     Write (TextBody (message @ [CHR 0x0A]))
       (WriteHeader statusCode (rw\<lparr>rw_ContentType := ''text/plain; charset=utf-8''\<rparr>))"

fun route_handler :: "'w admin_handler \<Rightarrow> admin_route \<Rightarrow> 'w handler_func" where
  "route_handler h RouteList = listTasks h"
| "route_handler h (RouteGet i) = getTask h"
| "route_handler h (RouteRetry i) = retryTask h"
| "route_handler h (RouteCancel i) = cancelTask h"
| "route_handler h RouteFailures = listFailures h"
| "route_handler h RouteImport = importCSV h"
| "route_handler h RouteMethodNotAllowed = (\<lambda>r rw w. (plain_error 405 ''Method Not Allowed'' rw, w))"
| "route_handler h RouteNotFound = (\<lambda>r rw w. (plain_error 404 ''404 page not found'' rw, w))"

text \<open>Routing leaves the pattern and the path value in the request.\<close>

definition routed :: "http_request \<Rightarrow> http_request" where
  "routed r =
     (let route = admin_route (rq_Method r) (rq_Path r)
      in r\<lparr>rq_Pattern := route_pattern route, rq_PathID := route_id route\<rparr>)"

definition admin_mux :: "'w admin_handler \<Rightarrow> 'w handler_func" where
  "admin_mux h r rw w = route_handler h (admin_route (rq_Method r) (rq_Path r)) (routed r) rw w"


section \<open>Middleware\<close>

definition canonicalAdminRouteLabel :: "http_request \<Rightarrow> string" where
  "canonicalAdminRouteLabel r =
     (let p0 = TrimSpace (rq_Pattern r);
          p1 = (if p0 \<noteq> '''' then (case StrIndex p0 '' '' of Some i \<Rightarrow> TrimSpace (drop (i + 1) p0) | None \<Rightarrow> p0)
                else TrimSpace (rq_Path r))
      in if p1 = '''' then ''/api/v1/unknown''
         else let p2 = (if \<not> HasPrefix p1 ''/'' then CHR ''/'' # p1 else p1)
              in if \<not> HasPrefix p2 ''/api/v1'' then ''/api/v1'' @ p2 else p2)"

definition buildAdminActionLabel :: "string \<Rightarrow> string \<Rightarrow> string" where
  "buildAdminActionLabel method route =
     (let normalizedMethod = TrimSpace (ToLower method);
          route0 = TrimSpace (ToLower route);
          route1 = TrimPrefix (if route0 = '''' then ''/api/v1/unknown'' else route0) ''/'';
          dots = map (\<lambda>c. if c = CHR ''/'' then CHR ''.'' else c) route1
      in ''admin.'' @ (if normalizedMethod = '''' then ''unknown'' else normalizedMethod) @ ''.'' @
         filter (\<lambda>c. c \<notin> set ''{}:'') dots)"

definition normalizeAdminTaskIDFromPath :: "(string \<Rightarrow> uuid option) \<Rightarrow> string \<Rightarrow> string" where
  "normalizeAdminTaskIDFromPath parse pathTaskID =
     (let trimmed = TrimSpace pathTaskID in
      if trimmed = '''' then ''n/a'' else if parse trimmed = None then ''n/a'' else trimmed)"

definition wrapWithAdminMiddleware :: "'w admin_handler \<Rightarrow> 'w handler_func option \<Rightarrow> 'w handler_func" where
  "wrapWithAdminMiddleware h handler r rw w =
     (case handler of
        None \<Rightarrow> (plain_error 404 ''404 page not found'' rw, w)
      | Some serve \<Rightarrow>
        (case resolveCorrelationID (ah_NewUUID h) (rq_Header r correlationIDHeader) w of (correlationID, w1) \<Rightarrow>
         let ctx = WithAdminRequestContext (rq_Context r)
               \<lparr>arc_CorrelationID = correlationID, arc_AdminAction = buildAdminActionLabel (rq_Method r) (rq_Path r),
                arc_TaskID = normalizeAdminTaskIDFromPath (ah_ParseUUID h) (rq_PathID r)\<rparr>;
             request = r\<lparr>rq_Context := ctx\<rparr>
         in case serve request (newAdminTelemetryResponseWriter (rw\<lparr>rw_Correlation := correlationID\<rparr>)) w1 of
              (rw2, w2) \<Rightarrow>
                let statusCode = statusCodeOrDefault rw2;
                    outcome = (if rw_outcome rw2 = ''unknown''
                               then (if statusCode \<ge> 400 then ''error'' else ''success'') else rw_outcome rw2);
                    errorCode = (if rw_errorCode rw2 = ''unknown''
                                 then (if statusCode \<ge> 400
                                       then ToLower (admin_code_str AdminErrorCodeInternalAdminAPIError) else ''none'')
                                 else rw_errorCode rw2)
                in (rw2, ah_RecordRequest h (canonicalAdminRouteLabel (routed request)) (rq_Method request) statusCode
                           outcome errorCode (ah_Now h w2 - ah_Now h w) w2)))"

definition admin_tasks_handler :: "'w admin_handler \<Rightarrow> 'w handler_func" where
  "admin_tasks_handler h = wrapWithAdminMiddleware h (Some (admin_mux h))"


section \<open>Health, metrics and the server\<close>

datatype server_body = ServedAdmin response_writer | ServedHealth int health_status | ServedStatus int | ServedMetrics

definition NewHealthHandler :: "(go_context \<Rightarrow> 'w \<Rightarrow> health_status \<times> 'w) \<Rightarrow> http_request \<Rightarrow> 'w \<Rightarrow> server_body \<times> 'w" where
  "NewHealthHandler snapshot r w =
     (if rq_Method r \<noteq> ''GET'' then (ServedStatus 405, w)
      else case snapshot (rq_Context r) w of
        (health, w1) \<Rightarrow> (ServedHealth (if hs_Status health = StatusNotReady then 503 else 200) health, w1))"

definition NewMetricsHandler :: "('w \<Rightarrow> 'w) \<Rightarrow> http_request \<Rightarrow> 'w \<Rightarrow> server_body \<times> 'w" where
  "NewMetricsHandler serve r w =
     (if rq_Method r \<noteq> ''GET'' then (ServedStatus 405, w) else (ServedMetrics, serve w))"

definition fresh_writer :: response_writer where
  "fresh_writer =
     \<lparr>rw_Correlation = '''', rw_ContentType = '''', rw_Sent = None, rw_Body = None, rw_statusCode = 0,
      rw_outcome = ''unknown'', rw_errorCode = ''unknown''\<rparr>"

definition NewServer ::
  "(http_request \<Rightarrow> 'w \<Rightarrow> server_body \<times> 'w) \<Rightarrow> (http_request \<Rightarrow> 'w \<Rightarrow> server_body \<times> 'w) \<Rightarrow> 'w admin_handler \<Rightarrow>
   'w admin_handler option list \<Rightarrow> http_request \<Rightarrow> 'w \<Rightarrow> server_body \<times> 'w" where
  "NewServer health metrics unwired admin r w =
     (let h = (case admin of Some h # rest \<Rightarrow> h | _ \<Rightarrow> unwired) in
      if rq_Path r = ''/healthz'' then health r w
      else if rq_Path r = ''/metrics'' then metrics r w
      else if HasPrefix (rq_Path r) ''/api/v1/'' then
        (case admin_tasks_handler h (r\<lparr>rq_Path := drop 7 (rq_Path r)\<rparr>) fresh_writer w of
           (rw, w1) \<Rightarrow> (ServedAdmin rw, w1))
      else if rq_Path r = ''/api/v1'' then (ServedStatus 301, w)
      else (ServedStatus 404, w))"

end
