(* ===== verification/Admin_Promises.thy ===== *)
theory Admin_Promises
  imports Admin_Api
begin

text \<open>
  What the administration interface promises its clients: every answer of an operation is one envelope with
  either data or an error and the correlation of the request; an answer to a retry or a cancel tells whether the
  table changed; an import accounts for every uploaded row.
\<close>

section \<open>The form of an answer\<close>

text \<open>The two ways an operation ends.\<close>

definition answered :: "string \<Rightarrow> response_writer \<Rightarrow> response_writer \<Rightarrow> bool" where
  "answered meta rw rw' \<longleftrightarrow>
     (\<exists>d. rw' = writeAdminSuccessResponseWithMeta 200 d meta rw) \<or>
     (\<exists>st code message details. st \<in> {400, 404, 409, 422, 500, 503} \<and> TrimSpace message \<noteq> '''' \<and>
        rw' = writeAdminErrorResponseWithMeta st (admin_error code message details) meta rw)"

lemma answered_intros:
  "answered meta rw (writeAdminSuccessResponseWithMeta 200 d meta rw)"
  "st \<in> {400, 404, 409, 422, 500, 503} \<Longrightarrow> TrimSpace message \<noteq> '''' \<Longrightarrow>
   answered meta rw (writeAdminErrorResponseWithMeta st (admin_error code message details) meta rw)"
  unfolding answered_def by blast+

lemma trim_Cons [simp]: "\<not> is_space c \<Longrightarrow> TrimSpace (c # s) \<noteq> ''''"
  by (auto simp: TrimSpace_eq_Nil)

lemma answered_payloads:
  "st \<in> {400, 404, 409, 422, 500, 503} \<Longrightarrow> answered meta rw (writeAdminErrorResponseWithMeta st invalid_task_id meta rw)"
  "st \<in> {400, 404, 409, 422, 500, 503} \<Longrightarrow> answered meta rw (writeAdminErrorResponseWithMeta st (task_not_found tid) meta rw)"
  "st \<in> {400, 404, 409, 422, 500, 503} \<Longrightarrow> answered meta rw (writeAdminErrorResponseWithMeta st (mutation_unavailable e) meta rw)"
  unfolding invalid_task_id_def task_not_found_def mutation_unavailable_def
  by (rule answered_intros; simp add: is_space_def)+

lemmas plain_answers = writeAdminSuccessResponse_def writeAdminErrorResponse_def writeAdminEndpointNotAvailable_def
  attempt_unreadable_def parseAdminTaskID_def

lemma listTasks_answered: "answered '''' rw (fst (listTasks h r rw w))"
  unfolding listTasks_def plain_answers
  by (auto split: option.split prod.split sum.split intro!: answered_intros simp: is_space_def)

lemma getTask_answered: "answered '''' rw (fst (getTask h r rw w))"
  unfolding getTask_def plain_answers
  by (auto split: option.splits prod.splits sum.splits intro!: answered_intros answered_payloads simp: is_space_def)

lemma listFailures_answered: "answered '''' rw (fst (listFailures h r rw w))"
  unfolding listFailures_def plain_answers
  by (auto split: option.split prod.split sum.split intro!: answered_intros simp: is_space_def)

lemma transition_failed_answered:
  assumes "TrimSpace failed \<noteq> ''''" "TrimSpace message \<noteq> ''''"
    "transition_failed refusal (admin_error code message details) failed tid err = (st, payload)"
  shows "answered meta rw (writeAdminErrorResponseWithMeta st payload meta rw)"
  using assms
  by (auto simp: transition_failed_def is_space_def split: if_splits intro!: answered_intros answered_payloads)

lemma retryTask_answered:
  "mutation_context h ''admin.retry_task'' r w = ((ctx, meta), w1) \<Longrightarrow> answered meta rw (fst (retryTask h r rw w))"
  unfolding retryTask_def
  by (auto split: option.split prod.split sum.split intro!: answered_intros answered_payloads
      transition_failed_answered simp: is_space_def)

lemma cancelTask_answered:
  "mutation_context h ''admin.cancel_task'' r w = ((ctx, meta), w1) \<Longrightarrow> answered meta rw (fst (cancelTask h r rw w))"
  unfolding cancelTask_def
  by (auto split: option.split prod.split sum.split intro!: answered_intros answered_payloads
      transition_failed_answered simp: is_space_def)

lemma schema_error_message:
  "Csv_Validate parse reason input = Inl e \<Longrightarrow> TrimSpace (cse_message e) \<noteq> ''''"
proof -
  have "check_rows parse reason row lines result = Inl e \<Longrightarrow> cse_message e = ''CSV row parsing failed''" for row lines result
  proof (induction parse reason row lines result rule: check_rows.induct)
    case (1 parse reason row lines result)
    note run = 1(2) [unfolded check_rows.simps [of _ _ _ lines]]
    show ?case
    proof (cases "csv_Read lines")
      case (Some r)
      show ?thesis
      proof (cases r)
        case (Inl err)
        then show ?thesis using run Some by (auto simp: newAdminCSVSchemaError_def)
      next
        case (Inr x)
        obtain rcd lines' where x: "x = (rcd, lines')" by (cases x)
        show ?thesis
          using 1(1) [OF Some Inr [unfolded x] refl refl] run Some Inr x by (simp add: Let_def split: sum.splits)
      qed
    qed (use run in simp)
  qed
  then show "Csv_Validate parse reason input = Inl e \<Longrightarrow> ?thesis"
    by (auto simp: Csv_Validate_def newAdminCSVSchemaError_def map_sum_def is_space_def
        split: option.splits sum.splits if_splits)
qed

lemma importCSV_answered:
  "prepareAdminMutationContext h r ''n/a'' ''admin.csv_import'' w = ((ctx, meta), w1) \<Longrightarrow>
   answered meta rw (fst (importCSV h r rw w))"
  unfolding importCSV_def Let_def
  by (auto split: option.split prod.split sum.split intro!: answered_intros schema_error_message simp: is_space_def)

text \<open>
  The correlation of an answer: what the request gave, when it is well formed, or a fresh identifier.  The identifiers drawn from the worlds of \<open>W\<close>, which drawing does not
  leave, are not blank.
\<close>

definition fresh_ids :: "'w admin_handler \<Rightarrow> ('w \<Rightarrow> bool) \<Rightarrow> bool" where
  "fresh_ids h W \<longleftrightarrow>
     (\<forall>w. W w \<longrightarrow> (case ah_NewUUID h w of (c, w1) \<Rightarrow> c \<noteq> '''' \<and> TrimSpace c = c \<and> W w1))"

definition correlates :: "http_request \<Rightarrow> string \<Rightarrow> bool" where
  "correlates r c \<longleftrightarrow> c \<noteq> '''' \<and> TrimSpace c = c \<and>
     (correlationIDPattern (TrimSpace (rq_Header r correlationIDHeader)) \<longrightarrow> c = TrimSpace (rq_Header r correlationIDHeader))"

lemma resolveCorrelationID_correlates:
  assumes "fresh_ids h W" "W w" "resolveCorrelationID (ah_NewUUID h) (rq_Header r correlationIDHeader) w = (c, w1)"
  shows "correlates r c" "W w1"
proof -
  have "ah_NewUUID h w = (c, w1) \<Longrightarrow> c \<noteq> '''' \<and> TrimSpace c = c \<and> W w1" using assms(1,2) by (auto simp: fresh_ids_def)
  then show "correlates r c" "W w1"
    using assms(2,3) by (auto simp: resolveCorrelationID_def Let_def correlates_def split: if_splits)
qed

lemma prepare_correlates:
  assumes "fresh_ids h W" "W w" "prepareAdminMutationContext h r tid event w = ((ctx, meta), w1)"
  shows "correlates r meta"
  using assms(3) resolveCorrelationID_correlates(1) [OF assms(1,2)]
  by (auto simp: prepareAdminMutationContext_def Let_def split: prod.splits)

lemma mutation_correlates:
  assumes "fresh_ids h W" "W w" "mutation_context h event r w = ((ctx, meta), w1)"
  shows "correlates r meta"
  using assms(3) prepare_correlates [OF assms(1,2)] by (auto simp: mutation_context_def Let_def split: prod.splits)

lemma correlates_routed [simp]: "correlates (routed r) c = correlates r c"
  by (simp add: correlates_def routed_def Let_def)

definition is_operation :: "admin_route \<Rightarrow> bool" where
  "is_operation route \<longleftrightarrow> route \<noteq> RouteNotFound \<and> route \<noteq> RouteMethodNotAllowed"

lemma mutation_answered:
  assumes "fresh_ids h W" "W w" "\<And>ctx meta w1. mutation_context h event r w = ((ctx, meta), w1) \<Longrightarrow> answered meta rw rw'"
  shows "\<exists>meta. (meta = '''' \<or> correlates r meta) \<and> answered meta rw rw'"
  using mutation_correlates [OF assms(1,2)] assms(3) by (metis prod.collapse)

lemma admin_mux_answered:
  assumes "fresh_ids h W" "W w" "is_operation (admin_route (rq_Method r) (rq_Path r))"
  shows "\<exists>meta. (meta = '''' \<or> correlates r meta) \<and> answered meta rw (fst (admin_mux h r rw w))"
proof (cases "admin_route (rq_Method r) (rq_Path r)")
  case RouteList
  then show ?thesis using listTasks_answered [of rw h "routed r" w] by (force simp: admin_mux_def)
next
  case (RouteGet i)
  then show ?thesis using getTask_answered [of rw h "routed r" w] by (force simp: admin_mux_def)
next
  case (RouteRetry i)
  then show ?thesis
    using mutation_answered [OF assms(1,2) retryTask_answered, of _ "routed r"] by (simp add: admin_mux_def)
next
  case (RouteCancel i)
  then show ?thesis
    using mutation_answered [OF assms(1,2) cancelTask_answered, of _ "routed r"] by (simp add: admin_mux_def)
next
  case RouteFailures
  then show ?thesis using listFailures_answered [of rw h "routed r" w] by (force simp: admin_mux_def)
next
  case RouteImport
  obtain ctx meta w1 where "prepareAdminMutationContext h (routed r) ''n/a'' ''admin.csv_import'' w = ((ctx, meta), w1)"
    by (metis prod.collapse)
  then show ?thesis
    using RouteImport importCSV_answered prepare_correlates [OF assms(1,2)] by (fastforce simp: admin_mux_def)
qed (use assms(3) in \<open>simp_all add: is_operation_def\<close>)

text \<open>An envelope as the header of the handler file describes it.\<close>

definition good_answer :: "http_request \<Rightarrow> response_writer \<Rightarrow> bool" where
  "good_answer r rw \<longleftrightarrow>
     (\<exists>st env. rw_Sent rw = Some st \<and> rw_Body rw = Some (EnvelopeBody env) \<and> rw_Correlation rw = env_CorrelationID env \<and>
        correlates r (env_CorrelationID env) \<and>
        (case env_Error env of
           None \<Rightarrow> st = 200 \<and> env_Data env \<noteq> None \<and> rw_outcome rw = ''success''
         | Some e \<Rightarrow> st \<in> {400, 404, 409, 422, 500, 503} \<and> env_Data env = None \<and> rw_outcome rw = ''error'' \<and>
             (\<exists>code. aep_Code e = admin_code_str code) \<and> TrimSpace (aep_Message e) \<noteq> ''''))"

lemma admin_code_nonblank: "TrimSpace (admin_code_str code) \<noteq> ''''"
  by (cases code) (simp_all add: is_space_def)

lemma telemetry_words: "TrimSpace (ToLower ''success'') = ''success''" "TrimSpace (ToLower ''error'') = ''error''"
  by code_simp+

lemma answered_good:
  assumes "answered meta rw rw'" "rw_Sent rw = None" "meta = '''' \<and> correlates r (rw_Correlation rw) \<or> correlates r meta"
  shows "good_answer r rw'"
proof -
  have blank: "TrimSpace '''' = ''''" by (simp add: TrimSpace_def trim_both_def)
  note defs = writeAdminEnvelope_def Let_def Write_def WriteHeader_def annotateAdminResponseTelemetry_def
    setAdminResponseTelemetry_def good_answer_def telemetry_words
  from assms(1) show ?thesis unfolding answered_def
  proof (elim disjE exE conjE)
    fix d assume "rw' = writeAdminSuccessResponseWithMeta 200 d meta rw"
    then show ?thesis using assms(2,3) blank
      by (auto simp: writeAdminSuccessResponseWithMeta_def defs correlates_def)
  next
    fix st code message details
    assume a: "st \<in> {400, 404, 409, 422, 500, 503}" "TrimSpace message \<noteq> ''''"
      "rw' = writeAdminErrorResponseWithMeta st (admin_error code message details) meta rw"
    have rw': "rw' = writeAdminEnvelope st \<lparr>env_Data = None, env_Error = Some (admin_error code message details),
        env_CorrelationID = meta\<rparr> (annotateAdminResponseTelemetry ''error'' (admin_code_str code) rw)"
      using a(2,3) admin_code_nonblank [of code]
      by (simp add: writeAdminErrorResponseWithMeta_def admin_error_def Let_def)
    show ?thesis unfolding rw' using assms(2,3) blank a(1,2)
      by (auto simp: defs correlates_def admin_error_def)
  qed
qed

text \<open>What the middleware leaves around an operation.\<close>

lemma admin_tasks_handler_around:
  assumes "admin_tasks_handler h r rw0 w = (rw, w')"
  obtains c w1 ctx w2 route duration where
    "resolveCorrelationID (ah_NewUUID h) (rq_Header r correlationIDHeader) w = (c, w1)"
    "admin_mux h (r\<lparr>rq_Context := ctx\<rparr>) (newAdminTelemetryResponseWriter (rw0\<lparr>rw_Correlation := c\<rparr>)) w1 = (rw, w2)"
    "\<exists>status outcome code. w' = ah_RecordRequest h route (rq_Method r) status outcome code duration w2"
  using assms unfolding admin_tasks_handler_def wrapWithAdminMiddleware_def Let_def
  by (auto split: prod.splits) blast

lemma fresh_telemetry [simp]:
  "rw_Sent (newAdminTelemetryResponseWriter (fresh_writer\<lparr>rw_Correlation := c\<rparr>)) = None"
  "rw_Correlation (newAdminTelemetryResponseWriter (fresh_writer\<lparr>rw_Correlation := c\<rparr>)) = c"
  by (simp_all add: newAdminTelemetryResponseWriter_def fresh_writer_def)

text \<open>
  C16.  Every answer of an operation of the administration interface is one envelope: status 200 with data and
  no error, or an error status with one of the eleven codes, a message and no data.  Its correlation is that of
  the header of the answer, and that of the request when the request gave a well-formed one; the telemetry calls
  it success or error accordingly.
\<close>

theorem admin_answers_well_formed:
  assumes "fresh_ids h W" "W w" "is_operation (admin_route (rq_Method r) (rq_Path r))"
    and "admin_tasks_handler h r fresh_writer w = (rw, w')"
  shows "good_answer r rw"
proof -
  from assms(4) obtain c w1 ctx w2 where c: "resolveCorrelationID (ah_NewUUID h) (rq_Header r correlationIDHeader) w = (c, w1)"
    and mux: "admin_mux h (r\<lparr>rq_Context := ctx\<rparr>) (newAdminTelemetryResponseWriter (fresh_writer\<lparr>rw_Correlation := c\<rparr>)) w1 = (rw, w2)"
    by (rule admin_tasks_handler_around)
  let ?request = "r\<lparr>rq_Context := ctx\<rparr>" and ?rw0 = "newAdminTelemetryResponseWriter (fresh_writer\<lparr>rw_Correlation := c\<rparr>)"
  have op: "is_operation (admin_route (rq_Method ?request) (rq_Path ?request))" using assms(3) by simp
  have same: "correlates ?request m = correlates r m" for m by (simp add: correlates_def)
  note id = resolveCorrelationID_correlates [OF assms(1,2) c]
  obtain meta where "meta = '''' \<or> correlates r meta" "answered meta ?rw0 rw"
    using admin_mux_answered [OF assms(1) id(2) op, of ?rw0] same mux by auto
  then show ?thesis
    using answered_good [of meta ?rw0 rw r] id(1) by auto
qed

definition sample_request :: "string \<Rightarrow> string \<Rightarrow> string \<Rightarrow> http_request" where
  "sample_request method path body =
     \<lparr>rq_Method = method, rq_Path = path, rq_Header = (\<lambda>k. if k = correlationIDHeader then ''trace-7'' else ''ops''),
      rq_Body = body, rq_PathID = '''', rq_Pattern = '''', rq_Context = Background\<rparr>"

definition unwired_handler :: "unit admin_handler" where
  "unwired_handler =
     NewAdminTasksHandler Some (\<lambda>u. (''id-1'', u)) (\<lambda>e. '''') (\<lambda>u. 0) (\<lambda>a b c d e f u. u) None None None"

lemma admin_answers_well_formed_witness:
  "good_answer (sample_request ''POST'' ''/tasks/t1/retry'' '''')
     (fst (admin_tasks_handler unwired_handler (sample_request ''POST'' ''/tasks/t1/retry'' '''') fresh_writer ()))"
proof (rule admin_answers_well_formed [where W = "\<lambda>u. True" and w = "()", OF _ _ _ prod.collapse [symmetric]])
  show "fresh_ids unwired_handler (\<lambda>u. True)"
    by (simp add: fresh_ids_def unwired_handler_def NewAdminTasksHandler_def) code_simp
  show "is_operation (admin_route (rq_Method (sample_request ''POST'' ''/tasks/t1/retry'' ''''))
      (rq_Path (sample_request ''POST'' ''/tasks/t1/retry'' '''')))"
    by (simp add: is_operation_def sample_request_def) code_simp
qed simp

end
