(* ===== verification/Admin_Mutations.thy ===== *)
theory Admin_Mutations
  imports Admin_Promises Batch_Import Result_Repository
begin

text \<open>
  Retry and cancel through the administration interface: the handlers, their middleware and the queue of
  tasks put together, so that what the client is told can be compared with what happened to the tables.
\<close>

section \<open>How a transition of the administrator ends\<close>

text \<open>
  An error that reports a failed write may hide a commit whose reply was lost; every other error means that the
  tables are as they were.  \<open>applied\<close> stands for the effect of the transition.
\<close>

definition write_failed :: "go_error \<Rightarrow> bool" where
  "write_failed e \<longleftrightarrow> IsDomainErrorCode (Some e) ErrorCodeTaskQueueWriteFailed"

definition admin_outcome ::
  "uuid \<Rightarrow> task_admin_action \<Rightarrow> (task \<Rightarrow> bool) \<Rightarrow> ('x) db_scheme \<Rightarrow> go_error + task \<Rightarrow> ('x) db_scheme \<Rightarrow> bool" where
  "admin_outcome tid action applied s r s' \<longleftrightarrow>
     (case r of
        Inr tk \<Rightarrow> applied tk
      | Inl e \<Rightarrow>
          if write_failed e then same_tables s s' \<or> (\<exists>tk. applied tk)
          else same_tables s s' \<and>
            (IsDomainErrorCode (Some e) ErrorCodeTaskNotFound \<or> IsDomainErrorCode (Some e) ErrorCodeInvalidTaskIdentifier \<or>
             (\<exists>q \<in> set (db_tasks s). trow_id q = tid \<and>
                (\<exists>c m. EvaluateTaskAdminTransition (trow_status q) action = Inl (DomainErr c m) \<and> as_domain e = Some (c, m)))))"

lemma write_failed_queue [simp]: "write_failed (queue_write_failed what e)"
  by (simp add: write_failed_def queue_write_failed_def)

lemma EvaluateTaskAdminTransition_Inl:
  assumes "EvaluateTaskAdminTransition st action = Inl e"
  obtains c m where "e = DomainErr c m" "c \<noteq> ErrorCodeTaskQueueWriteFailed"
  using assms
  by (cases action) (auto simp: EvaluateTaskAdminTransition_def NewDomainError_def split: if_splits option.splits)

text \<open>A body refuses before it writes; an error after that is a failed write.\<close>

definition refuses :: "uuid \<Rightarrow> task_admin_action \<Rightarrow> (('x) db_scheme \<Rightarrow> (go_error + task) \<times> ('x) db_scheme) \<Rightarrow> bool" where
  "refuses tid action body \<longleftrightarrow>
     (\<forall>s e s'. body s = (Inl e, s') \<longrightarrow> write_failed e \<or> IsDomainErrorCode (Some e) ErrorCodeTaskNotFound \<or>
        (\<exists>q \<in> set (db_tasks s). trow_id q = tid \<and>
           (\<exists>c m. EvaluateTaskAdminTransition (trow_status q) action = Inl (DomainErr c m) \<and> as_domain e = Some (c, m))))"

lemma locked_refusal:
  assumes "scanTask (in_tx (select_task tid) s) = (Inr locked, s1)"
    "EvaluateTaskAdminTransition (task_Status locked) action = Inl e"
  shows "\<exists>q \<in> set (db_tasks s). trow_id q = tid \<and>
    (\<exists>c m. EvaluateTaskAdminTransition (trow_status q) action = Inl (DomainErr c m) \<and> as_domain (with_stack e) = Some (c, m))"
proof -
  from assms(1) obtain q where q: "q \<in> set (db_tasks s)" "trow_id q = tid" "locked = task_of_row q"
    by (rule select_task_Inr)
  from assms(2) obtain c m where "e = DomainErr c m" by (rule EvaluateTaskAdminTransition_Inl)
  then show ?thesis using assms(2) q by (intro bexI [of _ q]) (auto simp: task_of_row_def)
qed

lemma bodies_refuse:
  "refuses tid action (admin_transition_body ctx tid action reason)"
  "refuses tid TaskAdminActionRetry (retry_body ctx tid)"
  unfolding refuses_def admin_transition_body_def retry_body_def Let_def
  by (auto split: sum.splits prod.splits if_splits dest: locked_refusal)

lemma transaction_outcome:
  assumes run: "transaction (queue_write_failed what) (\<lambda>x. queue_write_failed what') body s = (r, s')"
    and body: "refuses tid action body"
    and applied: "\<And>s1 s2 tk. same_tables s s1 \<Longrightarrow> body s1 = (Inr tk, s2) \<Longrightarrow> same_tables s2 s' \<Longrightarrow> applied tk"
  shows "admin_outcome tid action applied s r s'"
  using run
proof (cases rule: transaction_ends)
  case (refused e s1 s2)
  have same: "db_tasks s1 = db_tasks s" using refused(2) by (simp add: same_tables_def)
  from body refused(3) have "write_failed e \<or> IsDomainErrorCode (Some e) ErrorCodeTaskNotFound \<or>
        (\<exists>q \<in> set (db_tasks s). trow_id q = tid \<and>
           (\<exists>c m. EvaluateTaskAdminTransition (trow_status q) action = Inl (DomainErr c m) \<and> as_domain e = Some (c, m)))"
    unfolding refuses_def same [symmetric] by blast
  then show ?thesis using refused(1,4) by (simp only: admin_outcome_def sum.case) presburger
next
  case (ran x s1 s2)
  have "applied x" using applied [OF ran(1-3)] .
  then show ?thesis using ran(4) by (auto simp: admin_outcome_def)
qed (auto simp: admin_outcome_def)

lemma CancelTask_outcome:
  assumes "db_ok s" "CancelTask ctx tid reason s = (r, s')"
  shows "admin_outcome tid TaskAdminActionCancel (admin_applied ctx tid TaskAdminActionCancel s s') s r s'"
proof (cases "tid = uuid_Nil")
  case True
  then show ?thesis
    using assms(2) by (auto simp: CancelTask_def applyAdminTransition_def admin_outcome_def write_failed_def)
next
  case False
  have "transaction (queue_write_failed ''begin admin transition transaction'')
      (\<lambda>x. queue_write_failed ''commit admin transition transaction'')
      (admin_transition_body ctx tid TaskAdminActionCancel reason) s = (r, s')"
    using assms(2) False by (simp add: CancelTask_def applyAdminTransition_def)
  then show ?thesis
  proof (rule transaction_outcome [OF _ bodies_refuse(1)])
    fix s1 s2 tk
    assume a: "same_tables s s1" "admin_transition_body ctx tid TaskAdminActionCancel reason s1 = (Inr tk, s2)" "same_tables s2 s'"
    then show "admin_applied ctx tid TaskAdminActionCancel s s' tk"
      using admin_body_applied [OF a(2)] assms(1) db_ok_same_tables [OF a(1)]
      by (simp add: admin_applied_def same_tables_def same_others_def)
  qed
qed

lemma RetryFromTask_outcome:
  assumes "RetryFromTask ctx tid s = (r, s')"
  shows "admin_outcome tid TaskAdminActionRetry (retry_applied ctx tid s s') s r s'"
proof (cases "tid = uuid_Nil")
  case True
  then show ?thesis using assms by (auto simp: RetryFromTask_def admin_outcome_def write_failed_def)
next
  case False
  have "transaction (queue_write_failed ''begin retry transaction'') (\<lambda>x. queue_write_failed ''commit retry transaction'')
      (retry_body ctx tid) s = (r, s')"
    using assms False by (simp add: RetryFromTask_def)
  then show ?thesis
  proof (rule transaction_outcome [OF _ bodies_refuse(2)])
    fix s1 s2 tk
    assume a: "same_tables s s1" "retry_body ctx tid s1 = (Inr tk, s2)" "same_tables s2 s'"
    then show "retry_applied ctx tid s s' tk"
      using retry_body_applied [OF a(2)] by (simp add: retry_applied_def same_tables_def same_others_def)
  qed
qed

section \<open>The interface over the repositories\<close>

text \<open>The state of the interface: the tables and the metrics of its own.\<close>

record admin_world = db +
  aw_metrics :: "admin_metrics option"

definition wired_admin :: "(string \<Rightarrow> uuid option) \<Rightarrow> (csv_error \<Rightarrow> string) \<Rightarrow> 'x admin_world_scheme admin_handler" where
  "wired_admin parse reason =
     NewAdminTasksHandler parse new_uuid reason db_now
       (\<lambda>route method statusCode outcome code duration w.
          w\<lparr>aw_metrics := RecordRequest route method statusCode outcome code duration (aw_metrics w)\<rparr>)
       (Some EnqueueValidatedBatch)
       (Some \<lparr>atr_GetByID = GetByID, atr_List = Some Task_List, atr_ListFailures = Some ListFailures,
              atr_RetryFromTask = Some RetryFromTask, atr_CancelTask = Some CancelTask\<rparr>)
       (Some GetByTaskAttempt)"

lemma wired_admin_fields [simp]:
  "ah_ParseUUID (wired_admin parse reason) = parse" "ah_NewUUID (wired_admin parse reason) = new_uuid"
  "ah_CsvReason (wired_admin parse reason) = reason" "ah_queueWriter (wired_admin parse reason) = Some EnqueueValidatedBatch"
  "ah_retrier (wired_admin parse reason) = Some RetryFromTask" "ah_canceler (wired_admin parse reason) = Some CancelTask"
  by (simp_all add: wired_admin_def NewAdminTasksHandler_def)

lemma wired_fresh_ids:
  "fresh_ids (wired_admin parse reason) (\<lambda>w. \<forall>n. db_uuid_src w n \<noteq> '''' \<and> TrimSpace (db_uuid_src w n) = db_uuid_src w n)"
  by (simp add: fresh_ids_def new_uuid_def)

lemma same_tables_metrics: "same_tables w (ah_RecordRequest (wired_admin parse reason) a b c d e f w)"
  by (simp add: wired_admin_def NewAdminTasksHandler_def same_tables_def)

lemma resolve_same: "resolveCorrelationID new_uuid raw w = (c, w1) \<Longrightarrow> same_tables w w1"
  by (auto simp: resolveCorrelationID_def Let_def same_tables_new_uuid split: if_splits)

text \<open>The middleware and the context of a mutation do not touch the tables.\<close>

lemma wired_around:
  assumes "admin_tasks_handler (wired_admin parse reason) r fresh_writer w = (rw, w')"
  obtains ctx rw0 w1 w2 where "same_tables w w1" "rw_Sent rw0 = None" "same_tables w2 w'"
    "admin_mux (wired_admin parse reason) (r\<lparr>rq_Context := ctx\<rparr>) rw0 w1 = (rw, w2)"
  using assms
proof (rule admin_tasks_handler_around)
  fix c w1 ctx w2 route duration
  let ?rw0 = "newAdminTelemetryResponseWriter (fresh_writer\<lparr>rw_Correlation := c\<rparr>)"
  assume c: "resolveCorrelationID (ah_NewUUID (wired_admin parse reason)) (rq_Header r correlationIDHeader) w = (c, w1)"
    and mux: "admin_mux (wired_admin parse reason) (r\<lparr>rq_Context := ctx\<rparr>) ?rw0 w1 = (rw, w2)"
    and m: "\<exists>status outcome code.
      w' = ah_RecordRequest (wired_admin parse reason) route (rq_Method r) status outcome code duration w2"
  have "same_tables w w1" using resolve_same c by simp
  moreover have "same_tables w2 w'" using m same_tables_metrics by metis
  ultimately show ?thesis using that [OF _ fresh_telemetry(1) _ mux] by blast
qed

lemma adminActor_normal [simp]: "normalizeActor (adminActorFromRequest r) = adminActorFromRequest r"
  by (auto simp: normalizeActor_def adminActorFromRequest_def Let_def)

lemma prepare_wired:
  assumes "prepareAdminMutationContext (wired_admin parse reason) r tid event w = ((ctx, meta), w1)"
  shows "same_tables w w1" "ActorFromContext ctx = adminActorFromRequest r"
  using assms resolve_same by (auto simp: prepareAdminMutationContext_def Let_def split: prod.splits)

lemma Instrumentation_actor [simp]: "ActorFromContext (Instrumentation_Start ctx a t) = ActorFromContext ctx"
  by (simp add: Instrumentation_Start_def ActorFromContext_def WithAdminRequestContext_def Let_def)

lemma mutation_wired:
  assumes "mutation_context (wired_admin parse reason) event r w = ((ctx, meta), w1)"
  shows "same_tables w w1" "ActorFromContext ctx = adminActorFromRequest r"
  using assms prepare_wired by (fastforce simp: mutation_context_def Let_def split: prod.splits)+

lemma adminActor_request [simp]:
  "adminActorFromRequest (routed r) = adminActorFromRequest r"
  "adminActorFromRequest (r\<lparr>rq_Context := ctx\<rparr>) = adminActorFromRequest r"
  by (simp_all add: adminActorFromRequest_def routed_def Let_def)


section \<open>What the client is told\<close>

definition mutation_route :: "task_admin_action \<Rightarrow> string \<Rightarrow> admin_route" where
  "mutation_route action i = (if action = TaskAdminActionRetry then RouteRetry i else RouteCancel i)"

text \<open>The effect of the operation for the client with context \<open>ctx\<close>, and the data that names it.\<close>

definition mutation_effect ::
  "go_context \<Rightarrow> uuid \<Rightarrow> task_admin_action \<Rightarrow> 'x db_scheme \<Rightarrow> 'x db_scheme \<Rightarrow> task \<Rightarrow> bool" where
  "mutation_effect ctx tid action s s' tk =
     (if action = TaskAdminActionRetry then retry_applied ctx tid s s' tk
      else admin_applied ctx tid TaskAdminActionCancel s s' tk)"

definition names_effect :: "task_admin_action \<Rightarrow> uuid \<Rightarrow> task \<Rightarrow> response_data \<Rightarrow> bool" where
  "names_effect action tid tk d \<longleftrightarrow>
     (if action = TaskAdminActionRetry
      then (\<exists>t. d = DataRetry t \<and> trr_SourceTaskID t = tid \<and> trr_NewTaskID t = task_ID tk \<and> trr_Status t = ''queued'')
      else (\<exists>t. d = DataCancel t \<and> tcr_TaskID t = tid \<and> tcr_Status t = ''canceled''))"

definition mutation_told ::
  "(string \<Rightarrow> uuid option) \<Rightarrow> task_admin_action \<Rightarrow> string \<Rightarrow> actor \<Rightarrow> response_writer \<Rightarrow> 'x db_scheme \<Rightarrow> 'x db_scheme \<Rightarrow> bool" where
  "mutation_told parse action i who rw s s' \<longleftrightarrow>
     (\<exists>ctx st. ActorFromContext ctx = who \<and> rw_Sent rw = Some st \<and>
        (if st = 200 then
           (\<exists>tid tk env d. parse (TrimSpace i) = Some tid \<and> mutation_effect ctx tid action s s' tk \<and>
              rw_Body rw = Some (EnvelopeBody env) \<and> env_Data env = Some d \<and> names_effect action tid tk d)
         else if st = 500 then
           same_tables s s' \<or> (\<exists>tid tk. parse (TrimSpace i) = Some tid \<and> mutation_effect ctx tid action s s' tk)
         else same_tables s s' \<and>
           (st = 409 \<longrightarrow> (\<exists>tid q e. parse (TrimSpace i) = Some tid \<and> q \<in> set (db_tasks s) \<and> trow_id q = tid \<and>
                             EvaluateTaskAdminTransition (trow_status q) action = Inl e))))"

lemma mutation_effect_same:
  assumes "same_tables s s1" "mutation_effect ctx tid action s1 s2 tk" "same_tables s2 s'"
  shows "mutation_effect ctx tid action s s' tk"
proof -
  have "db_tasks s1 = db_tasks s" "db_audit s1 = db_audit s" "db_now s1 = db_now s" "db_tasks s' = db_tasks s2"
    "db_audit s' = db_audit s2" using assms(1,3) by (simp_all add: same_tables_def)
  moreover have "same_others s1 s2 \<Longrightarrow> same_others s s'" using assms(1,3) by (simp add: same_tables_def same_others_def)
  ultimately show ?thesis
    using assms(2) unfolding mutation_effect_def retry_applied_def admin_applied_def by (simp split: if_splits) blast+
qed

text \<open>What the two responses send.\<close>

lemma sent_responses:
  assumes "rw_Sent rw = None"
  shows "rw_Sent (writeAdminErrorResponseWithMeta st payload meta rw) = Some st"
    "rw_Sent (writeAdminSuccessResponseWithMeta st d meta rw) = Some st"
    "\<exists>env. rw_Body (writeAdminSuccessResponseWithMeta st d meta rw) = Some (EnvelopeBody env) \<and> env_Data env = Some d"
  using assms
  by (simp_all add: writeAdminErrorResponseWithMeta_def writeAdminSuccessResponseWithMeta_def writeAdminEnvelope_def
      Let_def Write_def WriteHeader_def annotateAdminResponseTelemetry_def setAdminResponseTelemetry_def)

lemma refused_status:
  assumes "transition_failed refusal refused failed tid err = (st, payload)"
    and "admin_outcome tid action applied s (Inl err) s'"
    and "refusal \<in> {ErrorCodeRetryNotAllowed, ErrorCodeCancelNotAllowed}"
  shows "st \<noteq> 200 \<and> (st = 500 \<longrightarrow> same_tables s s' \<or> (\<exists>tk. applied tk)) \<and> (st \<noteq> 500 \<longrightarrow> same_tables s s') \<and>
    (st = 409 \<longrightarrow> (\<exists>q \<in> set (db_tasks s). trow_id q = tid \<and> (\<exists>e. EvaluateTaskAdminTransition (trow_status q) action = Inl e)))"
proof (cases "write_failed err")
  case True
  then have "st = 500" using assms(1,3)
    by (auto simp: write_failed_def transition_failed_def split: if_splits)
  then show ?thesis using assms(2) True by (simp add: admin_outcome_def)
next
  case False
  then have same: "same_tables s s'" and why: "IsDomainErrorCode (Some err) ErrorCodeTaskNotFound \<or>
      IsDomainErrorCode (Some err) ErrorCodeInvalidTaskIdentifier \<or>
      (\<exists>q \<in> set (db_tasks s). trow_id q = tid \<and> (\<exists>e. EvaluateTaskAdminTransition (trow_status q) action = Inl e))"
    using assms(2) by (auto simp: admin_outcome_def)
  have "st \<noteq> 200" using assms(1) by (auto simp: transition_failed_def split: if_splits)
  moreover have "st \<noteq> 409" if "IsDomainErrorCode (Some err) ErrorCodeTaskNotFound \<or>
      IsDomainErrorCode (Some err) ErrorCodeInvalidTaskIdentifier"
    using that assms(1,3) by (auto simp: transition_failed_def split: if_splits)
  ultimately show ?thesis using same why by blast
qed

text \<open>One call of the queue under the context of the request, seen from the state before and after the middleware.\<close>

lemma mutation_told_intros:
  assumes ctx: "ActorFromContext ctx = who" and w1: "same_tables s w1" and sent: "rw_Sent rw0 = None"
  shows "same_tables w1 s' \<Longrightarrow> st \<in> {400, 503} \<Longrightarrow>
      mutation_told parse action i who (writeAdminErrorResponseWithMeta st payload meta rw0) s s'"
    and "parse (TrimSpace i) = Some tid \<Longrightarrow>
      admin_outcome tid action (mutation_effect ctx tid action w1 w2) w1 (Inl err) w2 \<Longrightarrow>
      transition_failed refusal refused failed tid err = (st, payload) \<Longrightarrow>
      refusal \<in> {ErrorCodeRetryNotAllowed, ErrorCodeCancelNotAllowed} \<Longrightarrow> same_tables w2 s' \<Longrightarrow>
      mutation_told parse action i who (writeAdminErrorResponseWithMeta st payload meta rw0) s s'"
    and "parse (TrimSpace i) = Some tid \<Longrightarrow> mutation_effect ctx tid action w1 w2 tk \<Longrightarrow>
      names_effect action tid tk d \<Longrightarrow> same_tables w2 s' \<Longrightarrow>
      mutation_told parse action i who (writeAdminSuccessResponseWithMeta 200 d meta rw0) s s'"
proof -
  assume "same_tables w1 s'" "st \<in> {400, 503}"
  then show "mutation_told parse action i who (writeAdminErrorResponseWithMeta st payload meta rw0) s s'"
    unfolding mutation_told_def sent_responses(1) [OF sent] using ctx same_tables_trans [OF w1] by auto
next
  assume p: "parse (TrimSpace i) = Some tid" and out: "admin_outcome tid action (mutation_effect ctx tid action w1 w2) w1 (Inl err) w2"
    and t: "transition_failed refusal refused failed tid err = (st, payload)"
    and code: "refusal \<in> {ErrorCodeRetryNotAllowed, ErrorCodeCancelNotAllowed}" and w2: "same_tables w2 s'"
  note st = refused_status [OF t out code]
  have same: "same_tables w1 w2 \<Longrightarrow> same_tables s s'" using same_tables_trans w1 w2 by blast
  have eff: "mutation_effect ctx tid action w1 w2 tk \<Longrightarrow> mutation_effect ctx tid action s s' tk" for tk
    by (rule mutation_effect_same [OF w1 _ w2])
  have tasks: "db_tasks w1 = db_tasks s" using w1 by (simp add: same_tables_def)
  show "mutation_told parse action i who (writeAdminErrorResponseWithMeta st payload meta rw0) s s'"
    unfolding mutation_told_def sent_responses(1) [OF sent]
    using ctx p st same eff unfolding tasks by (intro exI [of _ ctx] exI [of _ st]) auto
next
  assume p: "parse (TrimSpace i) = Some tid" and e: "mutation_effect ctx tid action w1 w2 tk"
    and d: "names_effect action tid tk d" and w2: "same_tables w2 s'"
  show "mutation_told parse action i who (writeAdminSuccessResponseWithMeta 200 d meta rw0) s s'"
    unfolding mutation_told_def sent_responses(2) [OF sent]
    using ctx p mutation_effect_same [OF w1 e w2] sent_responses(3) [OF sent, of 200 d meta] d
    by (intro exI [of _ ctx] exI [of _ 200]) auto
qed

lemma effects_named:
  "retry_applied ctx tid s s' tk \<Longrightarrow> trr_Status t = task_status_str (task_Status tk) \<Longrightarrow> trr_SourceTaskID t = tid \<Longrightarrow>
   trr_NewTaskID t = task_ID tk \<Longrightarrow> names_effect TaskAdminActionRetry tid tk (DataRetry t)"
  "admin_applied ctx tid TaskAdminActionCancel s s' tk \<Longrightarrow> tcr_Status u = task_status_str (task_Status tk) \<Longrightarrow>
   tcr_TaskID u = task_ID tk \<Longrightarrow> names_effect TaskAdminActionCancel tid tk (DataCancel u)"
  by (auto simp: retry_applied_def admin_applied_def names_effect_def Let_def task_of_row_def queued_row_def admin_row_def
      EvaluateTaskAdminTransition_cancel)

lemma retryTask_told:
  assumes "rw_Sent rw0 = None" "same_tables s w" "same_tables w' s'"
    "retryTask (wired_admin parse reason) r rw0 w = (rw, w')"
  shows "mutation_told parse TaskAdminActionRetry (rq_PathID r) (adminActorFromRequest r) rw s s'"
proof -
  let ?h = "wired_admin parse reason"
  obtain ctx meta w1 where c: "mutation_context ?h ''admin.retry_task'' r w = ((ctx, meta), w1)"
    by (metis prod.collapse)
  have w1: "same_tables s w1" using assms(2) mutation_wired(1) [OF c] by (rule same_tables_trans)
  note told = mutation_told_intros [OF mutation_wired(2) [OF c] w1 assms(1), where action = TaskAdminActionRetry]
  show ?thesis
  proof (cases "parse (TrimSpace (rq_PathID r))")
    case None
    then show ?thesis using assms(3,4) c told(1) by (auto simp: retryTask_def)
  next
    case tid: (Some tid)
    obtain res w2 where run: "RetryFromTask ctx tid w1 = (res, w2)" by (cases "RetryFromTask ctx tid w1")
    have out: "admin_outcome tid TaskAdminActionRetry (mutation_effect ctx tid TaskAdminActionRetry w1 w2) w1 res w2"
      using RetryFromTask_outcome [OF run] by (simp add: mutation_effect_def [abs_def])
    show ?thesis
    proof (cases res)
      case (Inl err)
      then show ?thesis using assms(3,4) c run tid told(2) [where tid = tid and ?w2.0 = w2 and err = err and parse = parse and i = "rq_PathID r", OF tid out [unfolded Inl]]
        by (auto simp: retryTask_def split: prod.splits)
    next
      case (Inr tk)
      then have "retry_applied ctx tid w1 w2 tk" using out by (simp add: admin_outcome_def mutation_effect_def)
      then show ?thesis using assms(3,4) c run tid Inr told(3) [where tid = tid and tk = tk and ?w2.0 = w2 and parse = parse and i = "rq_PathID r", OF tid] effects_named(1) [of ctx tid w1 w2 tk]
        by (auto simp: retryTask_def mutation_effect_def)
    qed
  qed
qed

lemma cancelTask_told:
  assumes "rw_Sent rw0 = None" "same_tables s w" "same_tables w' s'" "db_ok s"
    "cancelTask (wired_admin parse reason) r rw0 w = (rw, w')"
  shows "mutation_told parse TaskAdminActionCancel (rq_PathID r) (adminActorFromRequest r) rw s s'"
proof -
  let ?h = "wired_admin parse reason"
  obtain ctx meta w1 where c: "mutation_context ?h ''admin.cancel_task'' r w = ((ctx, meta), w1)"
    by (metis prod.collapse)
  have w1: "same_tables s w1" using assms(2) mutation_wired(1) [OF c] by (rule same_tables_trans)
  note told = mutation_told_intros [OF mutation_wired(2) [OF c] w1 assms(1), where action = TaskAdminActionCancel]
  show ?thesis
  proof (cases "parse (TrimSpace (rq_PathID r))")
    case None
    then show ?thesis using assms(3,5) c told(1) by (auto simp: cancelTask_def)
  next
    case tid: (Some tid)
    obtain res w2 where run: "CancelTask ctx tid '''' w1 = (res, w2)" by (cases "CancelTask ctx tid '''' w1")
    have ok: "db_ok w1" using assms(4) db_ok_same_tables [OF w1] by simp
    have out: "admin_outcome tid TaskAdminActionCancel (mutation_effect ctx tid TaskAdminActionCancel w1 w2) w1 res w2"
      using CancelTask_outcome [OF ok run] by (simp add: mutation_effect_def [abs_def])
    show ?thesis
    proof (cases res)
      case (Inl err)
      then show ?thesis using assms(3,5) c run tid told(2) [where tid = tid and ?w2.0 = w2 and err = err and parse = parse and i = "rq_PathID r", OF tid out [unfolded Inl]]
        by (auto simp: cancelTask_def split: prod.splits)
    next
      case (Inr tk)
      then have "admin_applied ctx tid TaskAdminActionCancel w1 w2 tk" using out by (simp add: admin_outcome_def mutation_effect_def)
      then show ?thesis using assms(3,5) c run tid Inr told(3) [where tid = tid and tk = tk and ?w2.0 = w2 and parse = parse and i = "rq_PathID r", OF tid] effects_named(2) [of ctx tid w1 w2 tk]
        by (auto simp: cancelTask_def mutation_effect_def)
    qed
  qed
qed

lemma mutation_over_handler:
  assumes "db_ok s" "admin_tasks_handler (wired_admin parse reason) r fresh_writer s = (rw, s')"
    and "admin_route (rq_Method r) (rq_Path r) = mutation_route action i"
    and "action \<in> {TaskAdminActionRetry, TaskAdminActionCancel}"
  shows "mutation_told parse action i (adminActorFromRequest r) rw s s'"
  using assms(2)
proof (rule wired_around)
  fix ctx rw0 w1 w2
  assume a: "same_tables s w1" "rw_Sent rw0 = None" "same_tables w2 s'"
    and mux: "admin_mux (wired_admin parse reason) (r\<lparr>rq_Context := ctx\<rparr>) rw0 w1 = (rw, w2)"
  let ?q = "routed (r\<lparr>rq_Context := ctx\<rparr>)"
  have i: "rq_PathID ?q = i" using assms(3) by (simp add: routed_def Let_def mutation_route_def split: if_splits)
  show ?thesis
  proof (cases "action = TaskAdminActionRetry")
    case True
    then have "retryTask (wired_admin parse reason) ?q rw0 w1 = (rw, w2)"
      using mux assms(3) by (simp add: admin_mux_def mutation_route_def)
    then show ?thesis using retryTask_told [OF a(2,1,3)] i True by fastforce
  next
    case False
    then have "cancelTask (wired_admin parse reason) ?q rw0 w1 = (rw, w2)"
      using mux assms(3) by (simp add: admin_mux_def mutation_route_def)
    then show ?thesis using cancelTask_told [OF a(2,1,3) assms(1)] i False assms(4) by fastforce
  qed
qed

text \<open>
  C6.  A retry or a cancel through the administration interface tells its client the truth about the tables.
  Status 200 means that the whole transition took place, with one audit record that names the operator of the
  request, and its data names the task; 409 means that the task is there and the matrix refuses its status; an
  answer other than 200 and 500 means that no table has changed, and only 500 leaves open whether a commit whose reply
  was lost has taken place.
\<close>

theorem admin_mutations_over_http:
  assumes "db_ok s" "admin_tasks_handler (wired_admin parse reason) r fresh_writer s = (rw, s')"
    and "admin_route (rq_Method r) (rq_Path r) = mutation_route action i"
    and "action \<in> {TaskAdminActionRetry, TaskAdminActionCancel}"
  shows "mutation_told parse action i (adminActorFromRequest r) rw s s'"
  using assms by (rule mutation_over_handler)

section \<open>Import\<close>

text \<open>The report of an import that has taken effect, for the rows that passed the validator.\<close>

definition import_told :: "csv_import_report \<Rightarrow> 'x db_scheme \<Rightarrow> 'x db_scheme \<Rightarrow> bool" where
  "import_told rp s s' \<longleftrightarrow>
     cir_RowsTotal rp = cir_RowsValid rp + cir_RowsInvalid rp \<and> 0 < cir_RowsValid rp \<and>
     cir_RowsInvalid rp = int (length (cir_InvalidRows rp)) \<and> cir_RowsSkipped rp = length (cir_SkippedRows rp) \<and>
     cir_RowsValid rp \<le> int (cir_RowsCreated rp + cir_RowsSkipped rp) \<and>
     (distinct (active_keys (db_tasks s)) \<longrightarrow>
        cir_RowsTotal rp = int (cir_RowsCreated rp + cir_RowsSkipped rp) + cir_RowsInvalid rp) \<and>
     (\<exists>new. db_tasks s' = db_tasks s @ new \<and> length new = cir_RowsCreated rp \<and> distinct (active_keys new) \<and>
        set (active_keys new) \<inter> set (active_keys (db_tasks s)) = {} \<and>
        (\<forall>n \<in> set new. trow_status n = TaskStatusQueued \<and> trow_attempt n = 0)) \<and>
     same_others s s' \<and> db_audit s' = db_audit s"

lemma int32_small: "- 2147483648 \<le> i \<Longrightarrow> i < 2147483648 \<Longrightarrow> int32 i = i"
  by (simp add: int32_def)

text \<open>The rows of one upload have numbers of their own, as long as they fit the integers of the statement.\<close>

lemma validated_rows_distinct:
  assumes "Csv_Validate parse reason input = Inr v" "cvs_RowsTotal v < 2147483647"
  shows "distinct (map (\<lambda>r. int32 (er_Row r)) (enqueue_rows (cvs_ValidRows v)))"
proof -
  have m: "mset (map cvr_Row (cvs_ValidRows v)) + mset (map cre_Row (cvs_InvalidRows v)) = mset [2..cvs_RowsTotal v + 1]"
    using csv_rows_accounted [OF assms(1)] by blast
  then have "mset (map cvr_Row (cvs_ValidRows v)) \<subseteq># mset [2..cvs_RowsTotal v + 1]" by (metis mset_subset_eq_add_left)
  moreover have "distinct [2..cvs_RowsTotal v + 1]" by simp
  ultimately have d: "distinct (map cvr_Row (cvs_ValidRows v))" and r: "set (map cvr_Row (cvs_ValidRows v)) \<subseteq> {2..cvs_RowsTotal v + 1}"
    by (metis mset_subset_eq_exists_conv mset_eq_imp_distinct_iff mset_append distinct_append ex_mset)
      (metis \<open>mset (map cvr_Row (cvs_ValidRows v)) \<subseteq># _\<close> set_mset_mono set_mset_mset set_upto)
  have "int32 (cvr_Row x) = cvr_Row x" if "x \<in> set (cvs_ValidRows v)" for x
    using r that assms(2) by (intro int32_small) (auto simp: image_subset_iff)
  then have "map (\<lambda>r. int32 (er_Row r)) (enqueue_rows (cvs_ValidRows v)) = map cvr_Row (cvs_ValidRows v)"
    by (simp add: enqueue_rows_def)
  then show ?thesis using d by simp
qed

lemma import_report_told:
  assumes "Csv_Validate parse reason input = Inr v" "cvs_RowsValid v \<noteq> 0"
    and "batch_accounted (enqueue_rows (cvs_ValidRows v)) s b s'"
  shows "import_told (import_report v b) s s'"
proof -
  have "cvs_RowsTotal v = cvs_RowsValid v + cvs_RowsInvalid v" "cvs_RowsValid v = int (length (cvs_ValidRows v))"
    "cvs_RowsInvalid v = int (length (cvs_InvalidRows v))"
    using csv_rows_accounted [OF assms(1)] by blast+
  then show ?thesis
    using assms(2,3) by (auto simp: import_told_def import_report_def batch_accounted_def enqueue_rows_def)
qed

lemma batch_accounted_same:
  assumes "same_tables s s1" "batch_accounted rows s1 b s2" "same_tables s2 s'"
  shows "batch_accounted rows s b s'"
proof -
  have "db_tasks s1 = db_tasks s" "db_audit s1 = db_audit s" "db_tasks s' = db_tasks s2" "db_audit s' = db_audit s2"
    using assms(1,3) by (simp_all add: same_tables_def)
  moreover have "same_others s1 s2 \<Longrightarrow> same_others s s'" using assms(1,3) by (simp add: same_tables_def same_others_def)
  ultimately show ?thesis using assms(2) by (simp add: batch_accounted_def)
qed

lemma importCSV_wired:
  assumes "db_ok s" "same_tables s w1" "rw_Sent rw0 = None" "importCSV (wired_admin parse reason) q rw0 w1 = (rw, w2)" "same_tables w2 s'"
    and "\<And>v. Csv_Validate parse reason (rq_Body q) = Inr v \<Longrightarrow> cvs_RowsTotal v < 2147483647"
  shows "(rw_Sent rw = Some 200 \<longrightarrow>
      (\<exists>env rp. rw_Body rw = Some (EnvelopeBody env) \<and> env_Data env = Some (DataImport rp) \<and> import_told rp s s')) \<and>
    (rw_Sent rw = Some 500 \<longrightarrow> same_tables s s' \<or> (\<exists>rp. import_told rp s s')) \<and>
    (rw_Sent rw \<noteq> Some 200 \<longrightarrow> rw_Sent rw \<noteq> Some 500 \<longrightarrow> same_tables s s')"
proof -
  let ?h = "wired_admin parse reason"
  obtain ctx meta w3 where c: "prepareAdminMutationContext ?h q ''n/a'' ''admin.csv_import'' w1 = ((ctx, meta), w3)"
    by (metis prod.collapse)
  have same: "same_tables s w3" using assms(2) prepare_wired(1) [OF c] by (rule same_tables_trans)
  note run = assms(4) and w2 = assms(5)
  note answers = sent_responses [OF assms(3)]
  show ?thesis
  proof (cases "Csv_Validate parse reason (rq_Body q)")
    case (Inl e)
    then show ?thesis using run c same w2 answers by (auto simp: importCSV_def intro: same_tables_trans)
  next
    case v: (Inr v)
    show ?thesis
    proof (cases "cvs_RowsValid v = 0")
      case True
      then show ?thesis using run c v same w2 answers by (auto simp: importCSV_def Let_def intro: same_tables_trans)
    next
      case False
      let ?ctx = "Instrumentation_Start ctx ''admin.csv_import'' ''n/a''" and ?rows = "enqueue_rows (cvs_ValidRows v)"
      obtain res w4 where batch: "EnqueueValidatedBatch ?ctx ?rows w3 = (res, w4)"
        by (cases "EnqueueValidatedBatch ?ctx ?rows w3")
      have ok: "db_ok w3" using assms(1) db_ok_same_tables [OF same] by simp
      have dist: "distinct (map (\<lambda>r. int32 (er_Row r)) ?rows)" by (rule validated_rows_distinct [OF v assms(6) [OF v]])
      note out = EnqueueValidatedBatch_outcome [OF batch ok dist]
      have told: "batch_accounted ?rows w3 b w2 \<Longrightarrow> import_told (import_report v b) s s'" for b
        using import_report_told [OF v False batch_accounted_same [OF same _ w2]] by blast
      show ?thesis
      proof (cases res)
        case (Inl e)
        then have "w4 = w2" "rw_Sent rw = Some 500"
          using run c v False batch answers by (auto simp: importCSV_def Let_def)
        then show ?thesis using out Inl told same_tables_trans [OF same same_tables_trans [OF _ w2]] by auto
      next
        case (Inr b)
        then have "w4 = w2" and rw: "rw = writeAdminSuccessResponseWithMeta 200 (DataImport (import_report v b)) meta rw0"
          using run c v False batch by (auto simp: importCSV_def Let_def)
        then show ?thesis using out Inr told answers(2,3) [of 200 "DataImport (import_report v b)" meta] by auto
      qed
    qed
  qed
qed

text \<open>
  C8.  An import through the administration interface reports what it did.  With status 200 its counters cover
  every row of the upload, it has added exactly the queued tasks it counts as created, none for an account and
  target that was already active, and nothing else; with status 500 either no table has changed or the whole batch
  is there; with any other status no table has changed.
\<close>

theorem admin_import_over_http:
  assumes "db_ok s" "admin_tasks_handler (wired_admin parse reason) r fresh_writer s = (rw, s')"
    and "admin_route (rq_Method r) (rq_Path r) = RouteImport"
    and "\<And>v. Csv_Validate parse reason (rq_Body r) = Inr v \<Longrightarrow> cvs_RowsTotal v < 2147483647"
  shows "(rw_Sent rw = Some 200 \<longrightarrow>
      (\<exists>env rp. rw_Body rw = Some (EnvelopeBody env) \<and> env_Data env = Some (DataImport rp) \<and> import_told rp s s')) \<and>
    (rw_Sent rw = Some 500 \<longrightarrow> same_tables s s' \<or> (\<exists>rp. import_told rp s s')) \<and>
    (rw_Sent rw \<noteq> Some 200 \<longrightarrow> rw_Sent rw \<noteq> Some 500 \<longrightarrow> same_tables s s')"
  using assms(2)
proof (rule wired_around)
  fix rctx rw0 w1 w2
  assume w: "same_tables s w1" "rw_Sent rw0 = None" "same_tables w2 s'"
    and mux: "admin_mux (wired_admin parse reason) (r\<lparr>rq_Context := rctx\<rparr>) rw0 w1 = (rw, w2)"
  let ?q = "routed (r\<lparr>rq_Context := rctx\<rparr>)"
  have body: "rq_Body ?q = rq_Body r" by (simp add: routed_def Let_def)
  have run: "importCSV (wired_admin parse reason) ?q rw0 w1 = (rw, w2)" using mux assms(3) by (simp add: admin_mux_def)
  show ?thesis by (rule importCSV_wired [OF assms(1) w(1,2) run w(3)]) (use assms(4) in \<open>simp add: body\<close>)
qed


section \<open>Examples\<close>

definition sample_admin_world :: admin_world where
  "sample_admin_world = db.extend (sample_db [sample_queued]) \<lparr>aw_metrics = Some NewAdminAPIMetrics\<rparr>"

lemma sample_admin_world_ok: "db_ok sample_admin_world"
  using sample_db_ok(1) [of sample_queued] by (simp add: sample_admin_world_def db_ok_def db.defs)

definition sample_cancel :: "response_writer \<times> admin_world" where
  "sample_cancel = admin_tasks_handler (wired_admin Some (\<lambda>e. '''')) (sample_request ''POST'' ''/tasks/t1/cancel'' '''')
     fresh_writer sample_admin_world"

lemma admin_mutations_over_http_witness:
  "rw_Sent (fst sample_cancel) = Some 200 \<and>
   mutation_told Some TaskAdminActionCancel ''t1'' (adminActorFromRequest (sample_request ''POST'' ''/tasks/t1/cancel'' ''''))
     (fst sample_cancel) sample_admin_world (snd sample_cancel)"
proof
  show "rw_Sent (fst sample_cancel) = Some 200" by code_simp
  have route: "admin_route ''POST'' ''/tasks/t1/cancel'' = mutation_route TaskAdminActionCancel ''t1''" by code_simp
  show "mutation_told Some TaskAdminActionCancel ''t1'' (adminActorFromRequest (sample_request ''POST'' ''/tasks/t1/cancel'' ''''))
     (fst sample_cancel) sample_admin_world (snd sample_cancel)"
    by (rule admin_mutations_over_http [OF sample_admin_world_ok, of Some "\<lambda>e. ''''"])
      (use route in \<open>simp_all add: sample_cancel_def sample_request_def\<close>)
qed

definition sample_upload :: string where
  "sample_upload = ''account_id,target_profile'' @ [CHR 0x0A] @ ''a1,https://oskelly.ru/profile/7''"

definition sample_import :: "response_writer \<times> admin_world" where
  "sample_import = admin_tasks_handler (wired_admin Some (\<lambda>e. '''')) (sample_request ''POST'' ''/tasks:csv'' sample_upload)
     fresh_writer sample_admin_world"

lemma admin_import_over_http_witness:
  "\<exists>rp. import_told rp sample_admin_world (snd sample_import)"
proof -
  have sent: "rw_Sent (fst sample_import) = Some 200" by code_simp
  have route: "admin_route ''POST'' ''/tasks:csv'' = RouteImport" by code_simp
  have "(case Csv_Validate Some (\<lambda>e. '''') sample_upload of Inl e \<Rightarrow> True | Inr v \<Rightarrow> cvs_RowsTotal v < 2147483647)" by code_simp
  then have small: "Csv_Validate Some (\<lambda>e. '''') sample_upload = Inr v \<Longrightarrow> cvs_RowsTotal v < 2147483647" for v by simp
  show ?thesis
    using admin_import_over_http [OF sample_admin_world_ok sample_import_def [symmetric, THEN trans, OF prod.collapse [symmetric]]]
      route small sent by (auto simp: sample_request_def)
qed

end
