(* ===== verification/Strconv.thy ===== *)
theory Strconv
  imports Prelude
begin

text \<open>
  \<open>strconv.Atoi\<close> and \<open>strconv.ParseBool\<close>, which read the configuration, and \<open>strconv.ParseInt\<close> as
  \<open>encoding/json\<close> uses it; \<open>int\<close> is 64 bits wide.  What \<open>Itoa\<close> prints is read back.
\<close>

fun dec_value :: "nat \<Rightarrow> string \<Rightarrow> nat option" where
  "dec_value acc [] = Some acc"
| "dec_value acc (c # cs) =
     (let n = (of_char c :: nat) in if 48 \<le> n \<and> n \<le> 57 then dec_value (10 * acc + (n - 48)) cs else None)"

definition Atoi :: "string \<Rightarrow> int option" where
  "Atoi s =
     (let neg = (s \<noteq> [] \<and> hd s = CHR ''-''); ds = (if s \<noteq> [] \<and> hd s \<in> {CHR ''-'', CHR ''+''} then tl s else s)
      in if ds = [] then None
         else case dec_value 0 ds of
             None \<Rightarrow> None
           | Some n \<Rightarrow>
               let i = (if neg then - int n else int n)
               in if - (2 ^ 63) \<le> i \<and> i < 2 ^ 63 then Some i else None)"

definition ParseBool :: "string \<Rightarrow> bool option" where
  "ParseBool s =
     (if s \<in> {''1'', ''t'', ''T'', ''TRUE'', ''true'', ''True''} then Some True
      else if s \<in> {''0'', ''f'', ''F'', ''FALSE'', ''false'', ''False''} then Some False else None)"


lemma dec_value_append:
  "dec_value acc (s @ t) = (case dec_value acc s of None \<Rightarrow> None | Some n \<Rightarrow> dec_value n t)"
  by (induction s arbitrary: acc) (simp_all add: Let_def)

lemma dec_value_nat_str: "dec_value 0 (nat_str n) = Some n"
proof (induction n rule: nat_str.induct)
  case (1 n)
  have "n mod 10 \<le> 9" using mod_less_divisor [of 10 n] by linarith
  then show ?case by (subst nat_str.simps) (use 1 in \<open>simp add: dec_value_append digit_char_def Let_def\<close>)
qed

lemma nat_str_digits: "c \<in> set (nat_str n) \<Longrightarrow> (of_char c :: nat) \<in> {48..57}"
proof (induction n rule: nat_str.induct)
  case (1 n)
  then show ?case by (subst (asm) (2) nat_str.simps) (auto simp: digit_char_def split: if_splits)
qed

lemma nat_str_hd: "nat_str n \<noteq> [] \<and> hd (nat_str n) \<notin> {CHR ''-'', CHR ''+''}"
proof -
  have "nat_str n \<noteq> []" by (subst nat_str.simps) simp
  moreover from this have "(of_char (hd (nat_str n)) :: nat) \<in> {48..57}" by (intro nat_str_digits [of _ n]) simp
  ultimately show ?thesis by auto
qed

lemma Atoi_Itoa: "- (2 ^ 63) \<le> i \<Longrightarrow> i < 2 ^ 63 \<Longrightarrow> Atoi (Itoa i) = Some i"
  using nat_str_hd [of "nat i"] nat_str_hd [of "nat (- i)"]
  by (auto simp: Atoi_def Itoa_def Let_def dec_value_nat_str)

end
