(* ===== verification/Json_Decode.thy ===== *)
theory Json_Decode
  imports Json_Encode Strconv
begin

text \<open>
  \<open>json.Unmarshal\<close> of package \<open>encoding/json\<close>: the text is checked by the scanner of \<open>Json\<close> first, then read
  into a value, which the type of the destination decodes.

  A number keeps its text and a string the text between its quotes, since \<open>time.Time\<close> decodes the latter and the
  other types its unquoted form.  A decoder takes the value and what the destination holds, and gives what it holds
  afterwards; \<open>null\<close> leaves all but pointers, slices and raw messages as they are.  An error leaves the destination
  undefined: no caller looks at it then.

  The last section shows that what \<open>Json_Encode\<close> writes is read back.
\<close>

section \<open>Values\<close>

datatype jvalue =
    VNull
  | VBool bool
  | VNumber string
  | VString string
  | VArray "jvalue list"
  | VObject "(string \<times> jvalue) list"

definition json_ws :: "char \<Rightarrow> bool" where
  "json_ws c \<longleftrightarrow> json_space (of_char c)"

definition skip_ws :: "string \<Rightarrow> string" where
  "skip_ws s = dropWhile json_ws s"

definition number_char :: "char \<Rightarrow> bool" where
  "number_char c \<longleftrightarrow> json_digit (of_char c) \<or> c \<in> set ''+-.eE''"

text \<open>The text up to the closing quote, and what follows it.\<close>

fun string_lit :: "string \<Rightarrow> (string \<times> string) option" where
  "string_lit [] = None"
| "string_lit (c # cs) =
     (if c = CHR 0x22 then Some ([], cs)
      else if c = CHR 0x5C then
        (case cs of [] \<Rightarrow> None | d # ds \<Rightarrow> map_option (\<lambda>(l, r). (c # d # l, r)) (string_lit ds))
      else map_option (\<lambda>(l, r). (c # l, r)) (string_lit cs))"

text \<open>Each call uses one unit of the fuel; twice the length of the text is enough.\<close>

fun parse_value :: "nat \<Rightarrow> string \<Rightarrow> (jvalue \<times> string) option"
  and parse_elements :: "nat \<Rightarrow> string \<Rightarrow> (jvalue list \<times> string) option"
  and parse_members :: "nat \<Rightarrow> string \<Rightarrow> ((string \<times> jvalue) list \<times> string) option" where
  "parse_value 0 s = None"
| "parse_value (Suc f) s =
     (case skip_ws s of
        [] \<Rightarrow> None
      | c # r \<Rightarrow>
          if c = CHR ''{'' then map_option (\<lambda>(ms, r1). (VObject ms, r1)) (parse_members f r)
          else if c = CHR ''['' then map_option (\<lambda>(vs, r1). (VArray vs, r1)) (parse_elements f r)
          else if c = CHR 0x22 then map_option (\<lambda>(l, r1). (VString l, r1)) (string_lit r)
          else if c = CHR ''t'' then Some (VBool True, drop 3 r)
          else if c = CHR ''f'' then Some (VBool False, drop 4 r)
          else if c = CHR ''n'' then Some (VNull, drop 3 r)
          else Some (VNumber (takeWhile number_char (c # r)), dropWhile number_char (c # r)))"
| "parse_elements 0 s = None"
| "parse_elements (Suc f) s =
     (case skip_ws s of
        [] \<Rightarrow> None
      | c # r \<Rightarrow>
          if c = CHR '']'' then Some ([], r)
          else case parse_value f (c # r) of
            None \<Rightarrow> None
          | Some (v, r1) \<Rightarrow>
            (case skip_ws r1 of
               [] \<Rightarrow> None
             | d # r2 \<Rightarrow>
                 if d = CHR '','' then map_option (\<lambda>(vs, r3). (v # vs, r3)) (parse_elements f r2)
                 else if d = CHR '']'' then Some ([v], r2) else None))"
| "parse_members 0 s = None"
| "parse_members (Suc f) s =
     (case skip_ws s of
        [] \<Rightarrow> None
      | c # r \<Rightarrow>
          if c = CHR ''}'' then Some ([], r)
          else if c \<noteq> CHR 0x22 then None
          else case string_lit r of
            None \<Rightarrow> None
          | Some (k, r1) \<Rightarrow>
            (case skip_ws r1 of
               [] \<Rightarrow> None
             | colon # r2 \<Rightarrow>
                 case parse_value f r2 of
                   None \<Rightarrow> None
                 | Some (v, r3) \<Rightarrow>
                   (case skip_ws r3 of
                      [] \<Rightarrow> None
                    | d # r4 \<Rightarrow>
                        if d = CHR '','' then map_option (\<lambda>(ms, r5). ((k, v) # ms, r5)) (parse_members f r4)
                        else if d = CHR ''}'' then Some ([(k, v)], r4) else None)))"

definition parse_json :: "string \<Rightarrow> jvalue option" where
  "parse_json s = (if json_Valid (ascii s) then map_option fst (parse_value (2 * length s + 1) s) else None)"


section \<open>Unquoting\<close>

definition rune_utf8 :: "nat \<Rightarrow> string" where
  "rune_utf8 r =
     map char_of
       (if r < 128 then [r]
        else if r < 2048 then [192 + r div 64, 128 + r mod 64]
        else if r < 65536 then [224 + r div 4096, 128 + r div 64 mod 64, 128 + r mod 64]
        else [240 + r div 262144, 128 + r div 4096 mod 64, 128 + r div 64 mod 64, 128 + r mod 64])"

definition RuneError :: nat where
  "RuneError = 65533"

text \<open>The length of the well-formed sequence a text begins with; 0 if there is none.\<close>

definition utf8_len :: "string \<Rightarrow> nat" where
  "utf8_len s =
     (let byte = (\<lambda>i. if i < length s then (of_char (s ! i) :: nat) else 0);
          cont = (\<lambda>i. 128 \<le> byte i \<and> byte i < 192); b = byte 0; c = byte 1
      in if b < 128 then 1
         else if 194 \<le> b \<and> b < 224 \<and> cont 1 then 2
         else if (b = 224 \<and> 160 \<le> c \<or> b = 237 \<and> c < 160 \<or> 224 < b \<and> b < 240 \<and> b \<noteq> 237) \<and> cont 1 \<and> cont 2 then 3
         else if (b = 240 \<and> 144 \<le> c \<or> 240 < b \<and> b < 244 \<or> b = 244 \<and> c < 144) \<and> cont 1 \<and> cont 2 \<and> cont 3 then 4
         else 0)"

definition hex_value :: "char \<Rightarrow> nat" where
  "hex_value c =
     (let n = of_char c in if n < 65 then n - 48 else if n < 97 then n - 55 else n - 87)"

definition hex4 :: "string \<Rightarrow> nat" where
  "hex4 s = foldl (\<lambda>n c. 16 * n + hex_value c) 0 (take 4 s)"

text \<open>\<open>utf16.DecodeRune\<close> on the escape that follows the first half of a pair.\<close>

definition surrogate_pair :: "nat \<Rightarrow> string \<Rightarrow> nat option" where
  "surrogate_pair rr s =
     (if take 2 s = [CHR 0x5C, CHR ''u''] \<and> rr < 56320 \<and> 56320 \<le> hex4 (drop 2 s) \<and> hex4 (drop 2 s) < 57344
      then Some ((rr - 55296) * 1024 + (hex4 (drop 2 s) - 56320) + 65536) else None)"

definition escape_char :: "char \<Rightarrow> char" where
  "escape_char d =
     (if d = CHR ''b'' then CHR 0x08 else if d = CHR ''f'' then CHR 0x0C else if d = CHR ''n'' then CHR 0x0A
      else if d = CHR ''r'' then CHR 0x0D else if d = CHR ''t'' then CHR 0x09 else d)"

function unquote :: "string \<Rightarrow> string" where
  "unquote [] = []"
| "unquote (c # cs) =
     (if c = CHR 0x5C then
        (case cs of
           [] \<Rightarrow> []
         | d # ds \<Rightarrow>
             if d = CHR ''u'' then
               (if 55296 \<le> hex4 ds \<and> hex4 ds < 57344 then
                  (case surrogate_pair (hex4 ds) (drop 4 ds) of
                     Some r \<Rightarrow> rune_utf8 r @ unquote (drop 10 ds)
                   | None \<Rightarrow> rune_utf8 RuneError @ unquote (drop 4 ds))
                else rune_utf8 (hex4 ds) @ unquote (drop 4 ds))
             else escape_char d # unquote ds)
      else if utf8_len (c # cs) = 0 then rune_utf8 RuneError @ unquote cs
      else take (utf8_len (c # cs)) (c # cs) @ unquote (drop (utf8_len (c # cs) - 1) cs))"
  by pat_completeness auto
termination by (relation "measure length") auto


section \<open>Destinations\<close>

type_synonym 'a json_decoder = "jvalue \<Rightarrow> 'a \<Rightarrow> 'a option"

definition decode_string :: "string json_decoder" where
  "decode_string v old = (case v of VNull \<Rightarrow> Some old | VString l \<Rightarrow> Some (unquote l) | _ \<Rightarrow> None)"

definition decode_bool :: "bool json_decoder" where
  "decode_bool v old = (case v of VNull \<Rightarrow> Some old | VBool b \<Rightarrow> Some b | _ \<Rightarrow> None)"

definition decode_int :: "int json_decoder" where
  "decode_int v old = (case v of VNull \<Rightarrow> Some old | VNumber l \<Rightarrow> Atoi l | _ \<Rightarrow> None)"

text \<open>\<open>Time.UnmarshalJSON\<close>; \<open>parse\<close> is the strict form of RFC 3339.\<close>

definition decode_time :: "(string \<Rightarrow> time option) \<Rightarrow> time json_decoder" where
  "decode_time parse v old = (case v of VNull \<Rightarrow> Some old | VString l \<Rightarrow> parse l | _ \<Rightarrow> None)"

definition decode_ptr :: "'a \<Rightarrow> 'a json_decoder \<Rightarrow> 'a option json_decoder" where
  "decode_ptr zero dec v old =
     (case v of
        VNull \<Rightarrow> Some None
      | _ \<Rightarrow> map_option Some (dec v (case old of None \<Rightarrow> zero | Some x \<Rightarrow> x)))"

text \<open>The elements a slice already has are decoded onto.\<close>

fun decode_elements :: "'a \<Rightarrow> 'a json_decoder \<Rightarrow> jvalue list \<Rightarrow> 'a list \<Rightarrow> 'a list option" where
  "decode_elements zero dec [] old = Some []"
| "decode_elements zero dec (v # vs) old =
     (case dec v (case old of [] \<Rightarrow> zero | x # xs \<Rightarrow> x) of
        None \<Rightarrow> None
      | Some y \<Rightarrow> map_option (Cons y) (decode_elements zero dec vs (tl old)))"

definition decode_slice :: "'a \<Rightarrow> 'a json_decoder \<Rightarrow> 'a list json_decoder" where
  "decode_slice zero dec v old =
     (case v of VNull \<Rightarrow> Some [] | VArray vs \<Rightarrow> decode_elements zero dec vs old | _ \<Rightarrow> None)"

text \<open>A \<open>json.RawMessage\<close>; what it holds is decoded later, so the value stands for its text.\<close>

definition decode_raw :: "jvalue option json_decoder" where
  "decode_raw v old = Some (Some v)"

text \<open>
  A key names the field with that name, or else the first one that is equal under case folding; two runes outside
  ASCII fold into it.
\<close>

fun fold_name :: "string \<Rightarrow> string" where
  "fold_name (a # b # c # s) =
     (if [a, b] = [CHR 0xC5, CHR 0xBF] then CHR ''S'' # fold_name (c # s)
      else if [a, b, c] = [CHR 0xE2, CHR 0x84, CHR 0xAA] then CHR ''K'' # fold_name s
      else (if CHR ''a'' \<le> a \<and> a \<le> CHR ''z'' then char_of (of_char a - 32 :: nat) else a) # fold_name (b # c # s))"
| "fold_name [a, b] =
     (if [a, b] = [CHR 0xC5, CHR 0xBF] then [CHR ''S'']
      else (if CHR ''a'' \<le> a \<and> a \<le> CHR ''z'' then char_of (of_char a - 32 :: nat) else a) # fold_name [b])"
| "fold_name [a] = [if CHR ''a'' \<le> a \<and> a \<le> CHR ''z'' then char_of (of_char a - 32 :: nat) else a]"
| "fold_name [] = []"

type_synonym 'r json_fields = "(string \<times> 'r json_decoder) list"

definition jfield :: "string \<Rightarrow> ('r \<Rightarrow> 'a) \<Rightarrow> (('a \<Rightarrow> 'a) \<Rightarrow> 'r \<Rightarrow> 'r) \<Rightarrow> 'a json_decoder \<Rightarrow> string \<times> 'r json_decoder" where
  "jfield name get upd dec = (name, \<lambda>v r. map_option (\<lambda>x. upd (\<lambda>_. x) r) (dec v (get r)))"

definition field_of :: "'r json_fields \<Rightarrow> string \<Rightarrow> 'r json_decoder option" where
  "field_of fields k =
     (case map_of fields k of
        Some d \<Rightarrow> Some d
      | None \<Rightarrow> map_option snd (find (\<lambda>f. fold_name (fst f) = fold_name k) fields))"

fun decode_members :: "'r json_fields \<Rightarrow> (string \<times> jvalue) list \<Rightarrow> 'r \<Rightarrow> 'r option" where
  "decode_members fields [] r = Some r"
| "decode_members fields ((k, v) # ms) r =
     (case field_of fields (unquote k) of
        None \<Rightarrow> decode_members fields ms r
      | Some d \<Rightarrow> (case d v r of None \<Rightarrow> None | Some r' \<Rightarrow> decode_members fields ms r'))"

definition decode_struct :: "'r json_fields \<Rightarrow> 'r json_decoder" where
  "decode_struct fields v r =
     (case v of VNull \<Rightarrow> Some r | VObject ms \<Rightarrow> decode_members fields ms r | _ \<Rightarrow> None)"

definition json_Unmarshal :: "'a json_decoder \<Rightarrow> string \<Rightarrow> 'a \<Rightarrow> 'a option" where
  "json_Unmarshal dec data old = (case parse_json data of None \<Rightarrow> None | Some v \<Rightarrow> dec v old)"


section \<open>What is written is read back\<close>

definition quoted :: "string \<Rightarrow> string" where
  "quoted s = concat (map json_char s)"

fun value_of :: "json \<Rightarrow> jvalue" where
  "value_of JNull = VNull"
| "value_of (JBool b) = VBool b"
| "value_of (JInt i) = VNumber (Itoa i)"
| "value_of (JString s) = VString (quoted s)"
| "value_of (JArray js) = VArray (map value_of js)"
| "value_of (JObject fs) = VObject (map (\<lambda>f. (quoted (fst f), value_of (snd f))) fs)"

definition ascii_text :: "string \<Rightarrow> bool" where
  "ascii_text s \<longleftrightarrow> (\<forall>c \<in> set s. (of_char c :: nat) < 128)"

lemma skip_ws_Cons [simp]: "\<not> json_ws c \<Longrightarrow> skip_ws (c # s) = c # s" "json_ws c \<Longrightarrow> skip_ws (c # s) = skip_ws s"
  by (simp_all add: skip_ws_def)

lemma json_ws_punct [simp]:
  "\<not> json_ws (CHR ''{'')" "\<not> json_ws (CHR ''['')" "\<not> json_ws (CHR ''}'')" "\<not> json_ws (CHR '']'')"
  "\<not> json_ws (CHR 0x22)" "\<not> json_ws (CHR '','')" "\<not> json_ws (CHR '':'')"
  by (simp_all add: json_ws_def json_space_def)

text \<open>The characters of a written string neither close it nor start an escape of their own.\<close>

lemma char_code: "((of_char c :: nat) = of_char d) \<longleftrightarrow> c = d"
  by (rule of_char_eq_iff)

lemma char_codes:
  "(of_char c :: nat) = 34 \<longleftrightarrow> c = CHR 0x22" "(of_char c :: nat) = 92 \<longleftrightarrow> c = CHR 0x5C"
  "(of_char c :: nat) = 93 \<longleftrightarrow> c = CHR '']''" "(of_char c :: nat) = 125 \<longleftrightarrow> c = CHR ''}''"
  using char_code [of c "CHR 0x22"] char_code [of c "CHR 0x5C"] char_code [of c "CHR '']''"] char_code [of c "CHR ''}''"]
  by simp_all

lemma hex_digit_plain: "n < 16 \<Longrightarrow> hex_digit n \<noteq> CHR 0x22 \<and> hex_digit n \<noteq> CHR 0x5C"
  using hex_digit_code [of n] char_codes(1,2) [of "hex_digit n"] by (auto simp: json_hex_def json_digit_def)

lemma string_lit_char:
  "string_lit (json_char c @ s) = map_option (\<lambda>(l, r). (json_char c @ l, r)) (string_lit s)"
proof -
  let ?n = "of_char c :: nat"
  have div: "?n div 16 < 16" using nat_of_char_less_256 [of c] by (simp only: div_less_iff_less_mult [of 16])
  have hex: "hex_digit (?n div 16) \<noteq> CHR 0x22" "hex_digit (?n div 16) \<noteq> CHR 0x5C"
    "hex_digit (?n mod 16) \<noteq> CHR 0x22" "hex_digit (?n mod 16) \<noteq> CHR 0x5C"
    using hex_digit_plain [OF div] hex_digit_plain [of "?n mod 16"] by simp_all
  show ?thesis
    by (cases "string_lit s"; cases "?n = 34 \<or> ?n = 92") (simp_all add: json_char_def Let_def char_codes hex split_beta)
qed

lemma string_lit_quoted: "string_lit (quoted s @ CHR 0x22 # rest) = Some (quoted s, rest)"
  by (induction s) (simp_all add: quoted_def string_lit_char)

lemma json_text_quoted: "json_text s = CHR 0x22 # quoted s @ [CHR 0x22]"
  by (simp add: json_text_def quoted_def)

text \<open>A number ends where a character follows that is not of a number.\<close>

definition number_end :: "string \<Rightarrow> bool" where
  "number_end rest \<longleftrightarrow> rest = [] \<or> \<not> number_char (hd rest)"

lemma number_end_simps [simp]:
  "number_end []" "number_end (CHR '','' # s)" "number_end (CHR '']'' # s)" "number_end (CHR ''}'' # s)" "number_end (CHR 0x0A # s)"
  by (simp_all add: number_end_def number_char_def json_digit_def)

lemma nat_str_number: "c \<in> set (nat_str n) \<Longrightarrow> number_char c"
  using nat_str_digits [of c n] by (auto simp: number_char_def json_digit_def)

lemma Itoa_number: "c \<in> set (Itoa i) \<Longrightarrow> number_char c"
  using nat_str_number by (auto simp: Itoa_def number_char_def split: if_splits)

lemma takeWhile_number:
  assumes "number_end rest"
  shows "takeWhile number_char (Itoa i @ rest) = Itoa i" "dropWhile number_char (Itoa i @ rest) = rest"
proof -
  have all: "\<forall>c \<in> set (Itoa i). number_char c" using Itoa_number by blast
  have "takeWhile number_char rest = [] \<and> dropWhile number_char rest = rest"
    using assms by (cases rest) (auto simp: number_end_def)
  then show "takeWhile number_char (Itoa i @ rest) = Itoa i" "dropWhile number_char (Itoa i @ rest) = rest"
    using all by (simp_all add: takeWhile_append2 dropWhile_append2)
qed

lemma json_write_head:
  obtains c r where "json_write j = c # r" "\<not> json_ws c" "c \<noteq> CHR '']''" "c \<noteq> CHR ''}''"
proof -
  obtain b bs where b: "ascii (json_write j) = b # bs" "\<not> json_space b" "b \<noteq> 93" "b \<noteq> 125" using json_write_first by blast
  then obtain c r where c: "json_write j = c # r" "of_char c = b" by (cases "json_write j") auto
  then show ?thesis using that [of c r] b char_codes(3,4) [of c] by (auto simp: json_ws_def)
qed

lemma parse_elements_write:
  assumes "js \<noteq> []"
    and "\<And>j f rest. j \<in> set js \<Longrightarrow> 2 * length (json_write j) \<le> f \<Longrightarrow> number_end rest \<Longrightarrow>
      parse_value (Suc f) (json_write j @ rest) = Some (value_of j, rest)"
    and "2 * length (Join (map json_write js) '','') + 1 \<le> f"
  shows "parse_elements (Suc f) (Join (map json_write js) '','' @ '']'' @ rest) = Some (map value_of js, rest)"
  using assms
proof (induction js arbitrary: f)
  case (Cons j js)
  obtain f1 where f: "f = Suc f1" using Cons.prems(3) by (cases f) auto
  obtain c r where c: "json_write j = c # r" "\<not> json_ws c" "c \<noteq> CHR '']''" "c \<noteq> CHR ''}''" by (rule json_write_head)
  show ?case
  proof (cases js)
    case Nil
    then show ?thesis
      using Cons.prems(2) [of j f1 "'']'' @ rest"] Cons.prems(3) c by (simp add: f)
  next
    case (Cons k ks)
    let ?tail = "Join (map json_write js) '','' @ '']'' @ rest"
    have "parse_value (Suc f1) (json_write j @ CHR '','' # ?tail) = Some (value_of j, CHR '','' # ?tail)"
      using Cons.prems(2) [of j f1] Cons.prems(3) Cons by (simp add: f)
    moreover have "parse_elements (Suc f1) ?tail = Some (map value_of js, rest)"
      by (rule Cons.IH) (use Cons Cons.prems(2,3) f in simp_all)
    moreover have "Join (map json_write (j # js)) '','' = json_write j @ CHR '','' # Join (map json_write js) '',''"
      using Cons by simp
    ultimately show ?thesis using c(2,3) by (simp add: f c(1))
  qed
qed simp

lemma parse_members_write:
  assumes "fs \<noteq> []"
    and "\<And>g f rest. g \<in> set fs \<Longrightarrow> 2 * length (json_write (snd g)) \<le> f \<Longrightarrow> number_end rest \<Longrightarrow>
      parse_value (Suc f) (json_write (snd g) @ rest) = Some (value_of (snd g), rest)"
    and "2 * length (Join (map (\<lambda>f. json_text (fst f) @ '':'' @ json_write (snd f)) fs) '','') + 1 \<le> f"
  shows "parse_members (Suc f) (Join (map (\<lambda>f. json_text (fst f) @ '':'' @ json_write (snd f)) fs) '','' @ ''}'' @ rest) =
    Some (map (\<lambda>f. (quoted (fst f), value_of (snd f))) fs, rest)"
  using assms
proof (induction fs arbitrary: f)
  case (Cons g fs)
  obtain f1 where f: "f = Suc f1" using Cons.prems(3) by (cases f) auto
  have lit: "string_lit (quoted (fst g) @ CHR 0x22 # t) = Some (quoted (fst g), t)" for t by (rule string_lit_quoted)
  show ?case
  proof (cases fs)
    case Nil
    then show ?thesis
      using Cons.prems(2) [of g f1 "''}'' @ rest"] Cons.prems(3) lit by (simp add: f json_text_quoted)
  next
    case (Cons k ks)
    let ?tail = "Join (map (\<lambda>f. json_text (fst f) @ '':'' @ json_write (snd f)) fs) '','' @ ''}'' @ rest"
    have "parse_value (Suc f1) (json_write (snd g) @ CHR '','' # ?tail) = Some (value_of (snd g), CHR '','' # ?tail)"
      using Cons.prems(2) [of g f1] Cons.prems(3) Cons by (simp add: f)
    moreover have "parse_members (Suc f1) ?tail = Some (map (\<lambda>f. (quoted (fst f), value_of (snd f))) fs, rest)"
      by (rule Cons.IH) (use Cons Cons.prems(2,3) f in simp_all)
    moreover have "Join (map (\<lambda>f. json_text (fst f) @ '':'' @ json_write (snd f)) (g # fs)) '','' @ ''}'' @ rest =
        CHR 0x22 # quoted (fst g) @ CHR 0x22 # CHR '':'' # json_write (snd g) @ CHR '','' # ?tail"
      using Cons by (simp add: json_text_quoted)
    ultimately show ?thesis using lit by (simp add: f)
  qed
qed simp

lemma number_first: "\<exists>c r. Itoa i = c # r \<and> number_char c \<and> \<not> json_ws c \<and> c \<notin> set ''{[tfn'' \<and> c \<noteq> CHR 0x22"
proof -
  obtain c r where c: "Itoa i = c # r" using json_write_first [of "JInt i"] by (cases "Itoa i") auto
  have "number_char c" using Itoa_number [of c i] c by simp
  moreover have "\<not> json_ws c" using json_write_head [of "JInt i"] c by (metis json_write.simps(3) list.inject)
  moreover have "c \<notin> set ''{[tfn''" "c \<noteq> CHR 0x22"
    using \<open>number_char c\<close> by (auto simp: number_char_def json_digit_def)
  ultimately show ?thesis using c by blast
qed

lemma parse_value_write:
  "2 * length (json_write j) \<le> f \<Longrightarrow> number_end rest \<Longrightarrow>
   parse_value (Suc f) (json_write j @ rest) = Some (value_of j, rest)"
proof (induction j arbitrary: f rest)
  case JNull
  then show ?case by (simp add: json_ws_def json_space_def)
next
  case (JBool b)
  then show ?case by (cases b) (simp_all add: FormatBool_def json_ws_def json_space_def)
next
  case (JInt i)
  obtain c r where c: "Itoa i = c # r" "number_char c" "\<not> json_ws c" "c \<notin> set ''{[tfn''" "c \<noteq> CHR 0x22"
    using number_first by blast
  then show ?case using takeWhile_number [OF JInt.prems(2), of i] by (simp del: takeWhile.simps dropWhile.simps)
next
  case (JString s)
  then show ?case by (simp add: json_text_quoted string_lit_quoted)
next
  case (JArray js)
  obtain f1 where f: "f = Suc f1" using JArray.prems(1) by (cases f) auto
  show ?case
  proof (cases "js = []")
    case False
    have "parse_elements (Suc f1) (Join (map json_write js) '','' @ '']'' @ rest) = Some (map value_of js, rest)"
      by (rule parse_elements_write [OF False JArray.IH]) (use JArray.prems(1) f in simp_all)
    then show ?thesis by (simp add: f)
  qed (simp add: f)
next
  case (JObject fs)
  obtain f1 where f: "f = Suc f1" using JObject.prems(1) by (cases f) auto
  show ?case
  proof (cases "fs = []")
    case False
    have ih: "parse_value (Suc n) (json_write (snd g) @ t) = Some (value_of (snd g), t)"
      if "g \<in> set fs" "2 * length (json_write (snd g)) \<le> n" "number_end t" for g n t
      by (rule JObject.IH [OF that(1) _ that(2,3)]) (cases g, simp)
    have "parse_members (Suc f1) (Join (map (\<lambda>f. json_text (fst f) @ '':'' @ json_write (snd f)) fs) '','' @ ''}'' @ rest) =
        Some (map (\<lambda>f. (quoted (fst f), value_of (snd f))) fs, rest)"
      by (rule parse_members_write [OF False ih]) (use JObject.prems(1) f in simp_all)
    then show ?thesis by (simp add: f)
  qed (simp add: f)
qed

text \<open>\<open>Encoder.Encode\<close> ends its output with a newline.\<close>

definition json_Encode :: "json \<Rightarrow> string" where
  "json_Encode j = json_write j @ [CHR 0x0A]"

lemma parse_json_written:
  assumes "json_depth j \<le> max_nesting" "s \<in> {json_write j, json_Encode j}"
  shows "parse_json s = Some (value_of j)"
proof -
  from assms(2) obtain t where t: "s = json_write j @ t" "t = [] \<or> t = [CHR 0x0A]" by (auto simp: json_Encode_def)
  have "json_Valid (ascii s)"
    using scan_json_write [of "[]" j "ascii t"] assms(1) t
    by (auto simp: json_Valid_def json_accepting_def json_space_def)
  moreover have "parse_value (Suc (2 * length s)) s = Some (value_of j, t)"
    unfolding t(1) by (rule parse_value_write) (use t(2) in auto)
  ultimately show ?thesis by (simp add: parse_json_def)
qed

lemma json_Unmarshal_written:
  "json_depth j \<le> max_nesting \<Longrightarrow> s \<in> {json_write j, json_Encode j} \<Longrightarrow> json_Unmarshal dec s old = dec (value_of j) old"
  by (simp add: json_Unmarshal_def parse_json_written del: insert_iff)


section \<open>Texts and integers come back\<close>

lemma hex_value_digit: "n < 16 \<Longrightarrow> hex_value (hex_digit n) = n"
  by (auto simp: hex_value_def hex_digit_def Let_def)

lemma unquote_char:
  assumes "(of_char c :: nat) < 128"
  shows "unquote (json_char c @ s) = c # unquote s"
proof -
  let ?n = "of_char c :: nat"
  have again: "map char_of [?n] = [c]" by simp
  have "?n div 16 < 16" using assms by simp
  then have hex: "hex4 (CHR ''0'' # CHR ''0'' # hex_digit (?n div 16) # hex_digit (?n mod 16) # s) = ?n"
    by (simp add: hex4_def hex_value_digit) (simp add: hex_value_def)
  have len: "utf8_len (c # s) = 1" if "c \<noteq> CHR 0x5C" using assms by (simp add: utf8_len_def)
  have codes: "?n = 8 \<longleftrightarrow> c = CHR 0x08" "?n = 12 \<longleftrightarrow> c = CHR 0x0C" "?n = 10 \<longleftrightarrow> c = CHR 0x0A"
    "?n = 13 \<longleftrightarrow> c = CHR 0x0D" "?n = 9 \<longleftrightarrow> c = CHR 0x09"
    using char_code [of c "CHR 0x08"] char_code [of c "CHR 0x0C"] char_code [of c "CHR 0x0A"] char_code [of c "CHR 0x0D"]
      char_code [of c "CHR 0x09"] by simp_all
  show ?thesis
  proof (cases "c \<in> {CHR 0x22, CHR 0x5C, CHR 0x08, CHR 0x0C, CHR 0x0A, CHR 0x0D, CHR 0x09}")
    case True
    then show ?thesis by (elim insertE emptyE) (simp_all add: json_char_def escape_char_def)
  next
    case False
    then have plain: "?n \<noteq> 34" "?n \<noteq> 92" "?n \<noteq> 8" "?n \<noteq> 12" "?n \<noteq> 10" "?n \<noteq> 13" "?n \<noteq> 9" "c \<noteq> CHR 0x5C"
      using codes char_codes(1,2) [of c] by simp_all
    show ?thesis
    proof (cases "?n < 32 \<or> ?n = 60 \<or> ?n = 62 \<or> ?n = 38")
      case True
      then have "json_char c = [CHR 0x5C, CHR ''u'', CHR ''0'', CHR ''0'', hex_digit (?n div 16), hex_digit (?n mod 16)]"
        using plain by (simp add: json_char_def Let_def)
      then show ?thesis using assms hex again by (simp add: rune_utf8_def)
    next
      case False
      then have "json_char c = [c]" using plain by (simp add: json_char_def Let_def)
      then show ?thesis using len plain(8) by simp
    qed
  qed
qed

lemma unquote_quoted: "ascii_text s \<Longrightarrow> unquote (quoted s) = s"
proof (induction s)
  case (Cons c s)
  then show ?case using unquote_char [of c "quoted s"] by (simp add: ascii_text_def quoted_def)
qed (simp add: quoted_def)

lemma decode_string_written [simp]: "ascii_text s \<Longrightarrow> decode_string (VString (quoted s)) old = Some s"
  by (simp add: decode_string_def unquote_quoted)

lemma decode_int_written [simp]: "- (2 ^ 63) \<le> i \<Longrightarrow> i < 2 ^ 63 \<Longrightarrow> decode_int (VNumber (Itoa i)) old = Some i"
  by (simp add: decode_int_def Atoi_Itoa)

lemma decode_bool_written [simp]: "decode_bool (VBool b) old = Some b"
  by (simp add: decode_bool_def)

lemma decode_null [simp]:
  "decode_string VNull old = Some old" "decode_int VNull old' = Some old'" "decode_ptr zero dec VNull p = Some None"
  by (simp_all add: decode_string_def decode_int_def decode_ptr_def)


section \<open>Structs come back\<close>

text \<open>The texts of a value, and what it means for its text to be ASCII.\<close>

fun json_ascii :: "json \<Rightarrow> bool" where
  "json_ascii (JString s) = ascii_text s"
| "json_ascii (JArray js) = list_all json_ascii js"
| "json_ascii (JObject fs) = list_all (\<lambda>f. ascii_text (fst f) \<and> json_ascii (snd f)) fs"
| "json_ascii j = True"

lemma ascii_text_simps [simp]:
  "ascii_text []" "ascii_text (c # s) \<longleftrightarrow> (of_char c :: nat) < 128 \<and> ascii_text s" "ascii_text (s @ t) \<longleftrightarrow> ascii_text s \<and> ascii_text t"
  by (auto simp: ascii_text_def)

lemma ascii_json_char: "ascii_text (json_char c) \<Longrightarrow> (of_char c :: nat) < 128"
  by (auto simp: json_char_def Let_def split: if_splits)

lemma ascii_json_text: "ascii_text (json_text s) \<Longrightarrow> ascii_text s"
  by (induction s) (auto simp: json_text_def dest: ascii_json_char)

lemma ascii_Join: "ascii_text (Join xs sep) \<Longrightarrow> x \<in> set xs \<Longrightarrow> ascii_text x"
proof (induction xs)
  case (Cons y ys)
  then show ?case by (cases ys) auto
qed simp

lemma json_write_ascii: "ascii_text (json_write j) \<Longrightarrow> json_ascii j"
proof (induction j)
  case (JString s)
  then show ?case by (simp add: ascii_json_text)
next
  case (JArray js)
  have "ascii_text (json_write j)" if "j \<in> set js" for j
    by (rule ascii_Join [of "map json_write js" "'',''"]) (use JArray.prems that in auto)
  then show ?case using JArray.IH by (simp add: list_all_iff)
next
  case (JObject fs)
  have "ascii_text (fst f) \<and> json_ascii (snd f)" if f: "f \<in> set fs" for f
  proof -
    have "ascii_text (json_text (fst f) @ '':'' @ json_write (snd f))"
      by (rule ascii_Join [of "map (\<lambda>f. json_text (fst f) @ '':'' @ json_write (snd f)) fs"]) (use JObject.prems f in auto)
    moreover have "snd f \<in> Basic_BNFs.snds f" by (cases f) simp
    ultimately show ?thesis using JObject.IH [OF f] ascii_json_text by simp
  qed
  then show ?case by (simp add: list_all_iff)
qed simp_all

text \<open>Decoding what a struct or a map was written as, by the names of its fields.\<close>

fun decode_pairs :: "'r json_fields \<Rightarrow> (string \<times> json) list \<Rightarrow> 'r \<Rightarrow> 'r option" where
  "decode_pairs fields [] r = Some r"
| "decode_pairs fields ((k, j) # fs) r =
     (case field_of fields k of
        None \<Rightarrow> decode_pairs fields fs r
      | Some d \<Rightarrow> (case d (value_of j) r of None \<Rightarrow> None | Some r' \<Rightarrow> decode_pairs fields fs r'))"

lemma decode_struct_written:
  assumes "list_all (\<lambda>f. ascii_text (fst f)) fs"
  shows "decode_struct fields (value_of (JObject fs)) r = decode_pairs fields fs r"
proof -
  have "decode_members fields (map (\<lambda>f. (quoted (fst f), value_of (snd f))) fs) r = decode_pairs fields fs r"
    using assms
  proof (induction fs arbitrary: r)
    case (Cons f fs)
    then show ?case by (cases f) (simp add: unquote_quoted split: option.split)
  qed simp
  then show ?thesis by (simp add: decode_struct_def)
qed

end
