(* ===== verification/Credentials.thy ===== *)
theory Credentials
  imports Browser_Flows Json_Decode
begin

text \<open>
  \<open>internal/credentials/resolver.go\<close>: where the user name and the password of an account come from.

  \<open>os.LookupEnv\<close> and \<open>os.ReadFile\<close> are functions of the world that the resolver is made with; the file is
  decoded by \<open>json.Unmarshal\<close> as \<open>Json_Decode\<close> has it.
\<close>

section \<open>Resolver\<close>

type_synonym 'w env_reader = "'w \<Rightarrow> string \<Rightarrow> string option"
type_synonym 'w file_reader = "'w \<Rightarrow> string \<Rightarrow> go_error + string"

record 'w resolver =
  res_lookupEnv :: "'w env_reader"
  res_readFile :: "'w file_reader"

definition NewResolver :: "'w env_reader \<Rightarrow> 'w file_reader \<Rightarrow> 'w resolver" where
  "NewResolver os_LookupEnv os_ReadFile = \<lparr>res_lookupEnv = os_LookupEnv, res_readFile = os_ReadFile\<rparr>"

definition NewResolverWithDeps ::
  "'w env_reader \<Rightarrow> 'w file_reader \<Rightarrow> 'w env_reader option \<Rightarrow> 'w file_reader option \<Rightarrow> 'w resolver" where
  "NewResolverWithDeps os_LookupEnv os_ReadFile lookup read =
     \<lparr>res_lookupEnv = (case lookup of None \<Rightarrow> os_LookupEnv | Some f \<Rightarrow> f),
      res_readFile = (case read of None \<Rightarrow> os_ReadFile | Some f \<Rightarrow> f)\<rparr>"

text \<open>\<open>strings.SplitN\<close> with a separator of one character and two parts.\<close>

definition SplitN2 :: "string \<Rightarrow> char \<Rightarrow> string list" where
  "SplitN2 s sep = (case StrIndex s [sep] of None \<Rightarrow> [s] | Some i \<Rightarrow> [take i s, drop (i + 1) s])"

definition splitCredentialRefPair :: "string \<Rightarrow> string list" where
  "splitCredentialRefPair reference =
     (if Contains reference '','' then SplitN2 reference (CHR '','') else SplitN2 reference (CHR '':''))"

definition missing_variable :: "string \<Rightarrow> go_error" where
  "missing_variable v = NewDomainError ErrorCodeAuthBootstrapFailed (''env credential variable '' @ v @ '' is missing'')"

text \<open>A variable that is not set counts as one that is blank.\<close>

definition set_value :: "string option \<Rightarrow> string option" where
  "set_value found = (case found of None \<Rightarrow> None | Some v \<Rightarrow> if TrimSpace v = '''' then None else Some v)"

definition resolveFromEnv :: "'w resolver \<Rightarrow> string \<Rightarrow> 'w \<Rightarrow> go_error + account_credentials" where
  "resolveFromEnv r reference w =
     (case splitCredentialRefPair (TrimPrefix reference ''env://'') of
        [p0, p1] \<Rightarrow>
          let usernameVar = TrimSpace p0; passwordVar = TrimSpace p1 in
          if usernameVar = '''' \<or> passwordVar = '''' then
            Inl (NewDomainError ErrorCodeAuthBootstrapFailed ''env credential variable names must not be empty'')
          else (case set_value (res_lookupEnv r w usernameVar) of
              None \<Rightarrow> Inl (missing_variable usernameVar)
            | Some username \<Rightarrow>
              (case set_value (res_lookupEnv r w passwordVar) of
                 None \<Rightarrow> Inl (missing_variable passwordVar)
               | Some password \<Rightarrow>
                   let credentials = \<lparr>credentials_Username = username, credentials_Password = password\<rparr>
                   in case AccountCredentials_Validate credentials of
                        Some err \<Rightarrow> Inl err
                      | None \<Rightarrow> Inr credentials))
      | _ \<Rightarrow> Inl (NewDomainError ErrorCodeAuthBootstrapFailed
                  ''env credential reference must declare username/password variable names''))"

record credential_file =
  cf_Username :: string
  cf_Password :: string
  cf_Login :: string

definition credential_file_fields :: "credential_file json_fields" where
  "credential_file_fields =
     [jfield ''username'' cf_Username cf_Username_update decode_string,
      jfield ''password'' cf_Password cf_Password_update decode_string,
      jfield ''login'' cf_Login cf_Login_update decode_string]"

definition empty_credential_file :: credential_file where
  "empty_credential_file = \<lparr>cf_Username = '''', cf_Password = '''', cf_Login = ''''\<rparr>"

definition resolveFromFile :: "'w resolver \<Rightarrow> string \<Rightarrow> 'w \<Rightarrow> go_error + account_credentials" where
  "resolveFromFile r reference w =
     (let path = TrimSpace (TrimPrefix reference ''file://'') in
      if path = '''' then
        Inl (NewDomainError ErrorCodeAuthBootstrapFailed ''file credential path must not be empty'')
      else (case res_readFile r w path of
          Inl err \<Rightarrow> Inl (NewDomainError ErrorCodeAuthBootstrapFailed ''cannot read credential file'')
        | Inr payload \<Rightarrow>
          (case json_Unmarshal (decode_struct credential_file_fields) payload empty_credential_file of
             None \<Rightarrow> Inl (NewDomainError ErrorCodeAuthBootstrapFailed ''credential file must be valid JSON'')
           | Some raw \<Rightarrow>
               let username = (if TrimSpace (cf_Username raw) = '''' then TrimSpace (cf_Login raw)
                               else TrimSpace (cf_Username raw));
                   credentials = \<lparr>credentials_Username = username, credentials_Password = cf_Password raw\<rparr>
               in case AccountCredentials_Validate credentials of
                    Some err \<Rightarrow> Inl err
                  | None \<Rightarrow> Inr credentials)))"

definition Resolve :: "'w runtime_env \<Rightarrow> 'w resolver \<Rightarrow> 'w credential_resolver" where
  "Resolve env r ctx source reference w =
     (case env_ctxErr env ctx w of
        Some err \<Rightarrow> (Inl err, w)
      | None \<Rightarrow>
        let normalizedReference = TrimSpace reference in
        if normalizedReference = '''' then
          (Inl (NewDomainError ErrorCodeAuthBootstrapFailed ''credential reference must not be empty''), w)
        else (case NormalizeCredentialSource source of
            CredentialSourceEnv \<Rightarrow> (resolveFromEnv r normalizedReference w, w)
          | CredentialSourceFile \<Rightarrow> (resolveFromFile r normalizedReference w, w)
          | CredentialSourceVault \<Rightarrow>
              (Inl (NewDomainError ErrorCodeAuthBootstrapFailed ''credential source vault is not configured''), w)
          | _ \<Rightarrow>
              (Inl (NewDomainError ErrorCodeAuthChallengeBlocked
                      ''credential source manual requires operator interaction''), w)))"


section \<open>What a resolution gives\<close>

text \<open>The pair of variables a reference names.\<close>

definition names_variables :: "string \<Rightarrow> string \<Rightarrow> string \<Rightarrow> bool" where
  "names_variables reference u p \<longleftrightarrow>
     (\<exists>sep \<in> {CHR '','', CHR '':''}. \<exists>a b. TrimPrefix (TrimSpace reference) ''env://'' = a @ sep # b \<and> sep \<notin> set a \<and>
        TrimSpace a = u \<and> TrimSpace b = p \<and> u \<noteq> '''' \<and> p \<noteq> '''')"

text \<open>Where the credentials of an account were found.\<close>

definition found_credentials :: "'w resolver \<Rightarrow> credential_source \<Rightarrow> string \<Rightarrow> 'w \<Rightarrow> account_credentials \<Rightarrow> bool" where
  "found_credentials r source reference w c \<longleftrightarrow>
     AccountCredentials_Validate c = None \<and>
     (source = CredentialSourceEnv \<and>
        (\<exists>u p. names_variables reference u p \<and> res_lookupEnv r w u = Some (credentials_Username c) \<and>
           res_lookupEnv r w p = Some (credentials_Password c)) \<or>
      source = CredentialSourceFile \<and>
        (\<exists>payload raw. res_readFile r w (TrimSpace (TrimPrefix (TrimSpace reference) ''file://'')) = Inr payload \<and>
           json_Unmarshal (decode_struct credential_file_fields) payload empty_credential_file = Some raw \<and>
           credentials_Password c = cf_Password raw \<and>
           credentials_Username c =
             (if TrimSpace (cf_Username raw) = '''' then TrimSpace (cf_Login raw) else TrimSpace (cf_Username raw))))"

text \<open>The errors of a resolution: fixed texts, and the name of a variable the reference gives.\<close>

definition fixed_errors :: "go_error list" where
  "fixed_errors =
     map (NewDomainError ErrorCodeAuthBootstrapFailed)
       [''credential reference must not be empty'', ''credential source vault is not configured'',
        ''env credential reference must declare username/password variable names'',
        ''env credential variable names must not be empty'', ''file credential path must not be empty'',
        ''cannot read credential file'', ''credential file must be valid JSON''] @
     [NewDomainError ErrorCodeAuthInvalidCredentials ''credential username must not be empty'',
      NewDomainError ErrorCodeAuthInvalidCredentials ''credential password must not be empty'',
      NewDomainError ErrorCodeAuthChallengeBlocked ''credential source manual requires operator interaction'']"

definition resolution_errors :: "string \<Rightarrow> go_error set" where
  "resolution_errors reference =
     set fixed_errors \<union> {missing_variable v |v. \<exists>u p. names_variables reference u p \<and> v \<in> {u, p}}"

lemma StrIndex_char_first:
  "StrIndex s [c] = Some i \<Longrightarrow> s = take i s @ c # drop (i + 1) s \<and> c \<notin> set (take i s)"
  by (induction s arbitrary: i) (auto simp: HasPrefix_def split: if_splits)

lemma SplitN2_pair: "SplitN2 s sep = [a, b] \<Longrightarrow> s = a @ sep # b \<and> sep \<notin> set a"
  using StrIndex_char_first by (auto simp: SplitN2_def split: option.splits)

lemma split_names_variables:
  assumes "splitCredentialRefPair (TrimPrefix (TrimSpace reference) ''env://'') = [a, b]" "TrimSpace a \<noteq> ''''" "TrimSpace b \<noteq> ''''"
  shows "names_variables reference (TrimSpace a) (TrimSpace b)"
  using assms SplitN2_pair by (fastforce simp: names_variables_def splitCredentialRefPair_def split: if_splits)

lemma set_value_Some: "set_value found = Some v \<longleftrightarrow> found = Some v \<and> TrimSpace v \<noteq> ''''"
  by (auto simp: set_value_def split: option.splits)

lemma pair_cases:
  assumes "\<And>a b. xs = [a, b] \<Longrightarrow> P" "(\<And>f g. (case xs of [a, b] \<Rightarrow> f a b | _ \<Rightarrow> (g :: 'b)) = g) \<Longrightarrow> P"
  shows P
proof (cases "\<exists>a b. xs = [a, b]")
  case False
  then show ?thesis by (intro assms(2)) (auto split: list.split)
qed (use assms(1) in blast)

lemma fixed_resolution:
  "e \<in> set fixed_errors \<Longrightarrow> e \<in> resolution_errors reference"
  by (simp add: resolution_errors_def)

lemmas fixed_simps = fixed_errors_def list.map append.simps list.set insert_iff simp_thms

lemma Validate_credentials_error:
  "AccountCredentials_Validate c = Some e \<Longrightarrow> e \<in> resolution_errors reference"
  unfolding AccountCredentials_Validate_def
  by (rule fixed_resolution, split if_splits, simp only: fixed_simps option.inject, split if_splits)
    (auto simp only: fixed_simps option.inject option.distinct)

lemma resolveFromEnv_outcome:
  fixes r :: "'w resolver"
  shows "case resolveFromEnv r (TrimSpace reference) w of
     Inr c \<Rightarrow> found_credentials r CredentialSourceEnv reference w c
   | Inl e \<Rightarrow> e \<in> resolution_errors reference"
proof (rule pair_cases [of "splitCredentialRefPair (TrimPrefix (TrimSpace reference) ''env://'')"])
  fix a b assume pair: "splitCredentialRefPair (TrimPrefix (TrimSpace reference) ''env://'') = [a, b]"
  show ?thesis
  proof (cases "TrimSpace a = '''' \<or> TrimSpace b = ''''")
    case True
    have "NewDomainError ErrorCodeAuthBootstrapFailed ''env credential variable names must not be empty''
        \<in> resolution_errors reference" by (rule fixed_resolution) (simp only: fixed_simps)
    then show ?thesis unfolding resolveFromEnv_def pair list.case Let_def using True by (simp only: if_True sum.case)
  next
    case False
    then have names: "names_variables reference (TrimSpace a) (TrimSpace b)" using split_names_variables [OF pair] by blast
    then have missing: "missing_variable (TrimSpace a) \<in> resolution_errors reference"
      "missing_variable (TrimSpace b) \<in> resolution_errors reference" by (auto simp: resolution_errors_def)
    show ?thesis
      unfolding resolveFromEnv_def pair list.case Let_def
      using missing names False
      by (auto simp only: if_False set_value_Some sum.case found_credentials_def account_credentials.simps
          split: option.splits intro: Validate_credentials_error)
  qed
next
  assume other: "\<And>f g. (case splitCredentialRefPair (TrimPrefix (TrimSpace reference) ''env://'') of [a, b] \<Rightarrow> f a b | _ \<Rightarrow> g) = (g :: go_error + account_credentials)"
  have "NewDomainError ErrorCodeAuthBootstrapFailed ''env credential reference must declare username/password variable names''
      \<in> resolution_errors reference" by (rule fixed_resolution) (simp only: fixed_simps)
  then show ?thesis unfolding resolveFromEnv_def other by (simp only: sum.case)
qed

lemma resolveFromFile_outcome:
  fixes r :: "'w resolver"
  shows "case resolveFromFile r (TrimSpace reference) w of
     Inr c \<Rightarrow> found_credentials r CredentialSourceFile reference w c
   | Inl e \<Rightarrow> e \<in> resolution_errors reference"
proof -
  have errs: "NewDomainError ErrorCodeAuthBootstrapFailed ''file credential path must not be empty'' \<in> resolution_errors reference"
    "NewDomainError ErrorCodeAuthBootstrapFailed ''cannot read credential file'' \<in> resolution_errors reference"
    "NewDomainError ErrorCodeAuthBootstrapFailed ''credential file must be valid JSON'' \<in> resolution_errors reference"
    by (rule fixed_resolution; simp only: fixed_simps)+
  show ?thesis
    unfolding resolveFromFile_def Let_def
    using errs
    by (auto simp: found_credentials_def split: option.splits sum.splits if_splits intro: Validate_credentials_error)
qed

text \<open>
  C22.  A resolution does not change anything and always gives credentials or an error.  Credentials are complete, and
  they are the values of the two variables the reference names or the content of the file it names; other sources give
  none.  An error is that of the context, one of ten fixed ones, or the name of a variable of the reference: it never
  tells a user name or a password.
\<close>

theorem Resolve_outcome:
  "case Resolve env r ctx source reference w of (res, w') \<Rightarrow> w' = w \<and>
     (case res of
        Inr c \<Rightarrow> env_ctxErr env ctx w = None \<and> found_credentials r source reference w c
      | Inl e \<Rightarrow> env_ctxErr env ctx w = Some e \<or> e \<in> resolution_errors reference)"
proof (cases "env_ctxErr env ctx w")
  case (Some err)
  then show ?thesis by (simp add: Resolve_def)
next
  case None
  have errs: "NewDomainError ErrorCodeAuthBootstrapFailed ''credential reference must not be empty'' \<in> resolution_errors reference"
    "NewDomainError ErrorCodeAuthBootstrapFailed ''credential source vault is not configured'' \<in> resolution_errors reference"
    "NewDomainError ErrorCodeAuthChallengeBlocked ''credential source manual requires operator interaction''
       \<in> resolution_errors reference"
    by (rule fixed_resolution; simp only: fixed_simps)+
  show ?thesis
  proof (cases "TrimSpace reference = ''''")
    case True
    then show ?thesis unfolding Resolve_def None option.case Let_def using errs by (simp only: if_True prod.case sum.case simp_thms)
  next
    case False
    then show ?thesis
      unfolding Resolve_def None option.case Let_def
      using errs resolveFromEnv_outcome [where r = r and reference = reference and w = w] resolveFromFile_outcome [where r = r and reference = reference and w = w]
      by (cases source) (simp_all add: NormalizeCredentialSource_def split: sum.splits)
  qed
qed

end
