(* ===== verification/Configuration.thy ===== *)
theory Configuration
  imports Errors Strconv
begin

text \<open>
  Package \<open>internal/config\<close>: the configuration (\<open>config.go\<close>), its overrides from the environment
  (\<open>env.go\<close>), its rules (\<open>validate.go\<close>) and how the three are put together (\<open>loader.go\<close>).

  Reading the file and package yaml, which decodes it on top of the default values, are parameters of \<open>Load\<close>.
\<close>

section \<open>Values\<close>

record app_config =
  app_Name :: string
  app_Env :: string
  app_Version :: string
  app_HTTPAddress :: string
  app_ShutdownTimeoutSeconds :: int
  app_ReadTimeoutSeconds :: int
  app_WriteTimeoutSeconds :: int
  app_IdleTimeoutSeconds :: int

record minio_config =
  mc_Endpoint :: string
  mc_AccessKey :: string
  mc_SecretKey :: string
  mc_UseSSL :: bool
  mc_Bucket :: string

record session_config =
  sc_BootstrapLoginEnabled :: bool
  sc_AllowMissingPayloadOnFirstRun :: bool

record browser_config =
  bc_Engine :: string
  bc_Headless :: bool
  bc_LaunchTimeoutSeconds :: int

record guardrails_config =
  gc_ExcludeWhenLimitReached :: bool
  gc_RestrictWhenThresholdReached :: bool
  gc_QuarantineOnLimitReached :: bool

text \<open>The parts of one field (worker, postgres, proxy, smoke, policy) are that field.\<close>

record config =
  cfg_App :: app_config
  cfg_WorkerLoopIntervalSeconds :: int
  cfg_Session :: session_config
  cfg_PostgresURL :: string
  cfg_MinIO :: minio_config
  cfg_ProxyEnabled :: bool
  cfg_Browser :: browser_config
  cfg_SmokeArtifactPrefix :: string
  cfg_Guardrails :: guardrails_config

definition defaultConfig :: config where
  "defaultConfig =
     \<lparr>cfg_App = \<lparr>app_Name = '''', app_Env = ''dev'', app_Version = '''', app_HTTPAddress = '':8080'',
        app_ShutdownTimeoutSeconds = 20, app_ReadTimeoutSeconds = 10, app_WriteTimeoutSeconds = 10,
        app_IdleTimeoutSeconds = 60\<rparr>,
      cfg_WorkerLoopIntervalSeconds = 30,
      cfg_Session = \<lparr>sc_BootstrapLoginEnabled = False, sc_AllowMissingPayloadOnFirstRun = False\<rparr>,
      cfg_PostgresURL = '''',
      cfg_MinIO = \<lparr>mc_Endpoint = '''', mc_AccessKey = '''', mc_SecretKey = '''', mc_UseSSL = False, mc_Bucket = ''''\<rparr>,
      cfg_ProxyEnabled = True,
      cfg_Browser = \<lparr>bc_Engine = '''', bc_Headless = True, bc_LaunchTimeoutSeconds = 30\<rparr>,
      cfg_SmokeArtifactPrefix = ''technical-smoke'',
      cfg_Guardrails = \<lparr>gc_ExcludeWhenLimitReached = True, gc_RestrictWhenThresholdReached = True,
        gc_QuarantineOnLimitReached = True\<rparr>\<rparr>"


section \<open>Overrides\<close>

type_synonym env_lookup = "string \<Rightarrow> string option"

definition applyString :: "env_lookup \<Rightarrow> string \<Rightarrow> (string \<Rightarrow> config \<Rightarrow> config) \<Rightarrow> config \<Rightarrow> go_error + config" where
  "applyString lookup key target cfg =
     (case lookup key of None \<Rightarrow> Inr cfg | Some v \<Rightarrow> Inr (target (TrimSpace v) cfg))"

definition applyInt :: "env_lookup \<Rightarrow> string \<Rightarrow> (int \<Rightarrow> config \<Rightarrow> config) \<Rightarrow> config \<Rightarrow> go_error + config" where
  "applyInt lookup key target cfg =
     (case lookup key of
        None \<Rightarrow> Inr cfg
      | Some v \<Rightarrow>
        (case Atoi (TrimSpace v) of
           None \<Rightarrow> Inl (PlainErr (''invalid integer override for '' @ key))
         | Some parsed \<Rightarrow> Inr (target parsed cfg)))"

definition applyBool :: "env_lookup \<Rightarrow> string \<Rightarrow> (bool \<Rightarrow> config \<Rightarrow> config) \<Rightarrow> config \<Rightarrow> go_error + config" where
  "applyBool lookup key target cfg =
     (case lookup key of
        None \<Rightarrow> Inr cfg
      | Some v \<Rightarrow>
        (case ParseBool (TrimSpace v) of
           None \<Rightarrow> Inl (PlainErr (''invalid bool override for '' @ key))
         | Some parsed \<Rightarrow> Inr (target parsed cfg)))"

text \<open>One call after the other; the first error ends them.\<close>

fun apply_steps :: "(config \<Rightarrow> go_error + config) list \<Rightarrow> config \<Rightarrow> go_error + config" where
  "apply_steps [] cfg = Inr cfg"
| "apply_steps (f # fs) cfg =
     (case f cfg of Inl err \<Rightarrow> Inl (with_stack err) | Inr cfg' \<Rightarrow> apply_steps fs cfg')"

datatype setting =
    StringSetting string "string \<Rightarrow> config \<Rightarrow> config" "config \<Rightarrow> string"
  | IntSetting string "int \<Rightarrow> config \<Rightarrow> config" "config \<Rightarrow> int"
  | BoolSetting string "bool \<Rightarrow> config \<Rightarrow> config" "config \<Rightarrow> bool"

text \<open>The variables, with the field each is the target of.\<close>

definition override_settings :: "setting list" where
  "override_settings =
     [StringSetting ''FOLLOWER_APP_NAME'' (\<lambda>v. cfg_App_update (app_Name_update (\<lambda>_. v))) (app_Name \<circ> cfg_App),
      StringSetting ''FOLLOWER_APP_ENV'' (\<lambda>v. cfg_App_update (app_Env_update (\<lambda>_. v))) (app_Env \<circ> cfg_App),
      StringSetting ''FOLLOWER_APP_VERSION'' (\<lambda>v. cfg_App_update (app_Version_update (\<lambda>_. v))) (app_Version \<circ> cfg_App),
      StringSetting ''FOLLOWER_APP_HTTP_ADDRESS'' (\<lambda>v. cfg_App_update (app_HTTPAddress_update (\<lambda>_. v)))
        (app_HTTPAddress \<circ> cfg_App),
      IntSetting ''FOLLOWER_APP_SHUTDOWN_TIMEOUT_SECONDS''
        (\<lambda>v. cfg_App_update (app_ShutdownTimeoutSeconds_update (\<lambda>_. v))) (app_ShutdownTimeoutSeconds \<circ> cfg_App),
      IntSetting ''FOLLOWER_APP_READ_TIMEOUT_SECONDS''
        (\<lambda>v. cfg_App_update (app_ReadTimeoutSeconds_update (\<lambda>_. v))) (app_ReadTimeoutSeconds \<circ> cfg_App),
      IntSetting ''FOLLOWER_APP_WRITE_TIMEOUT_SECONDS''
        (\<lambda>v. cfg_App_update (app_WriteTimeoutSeconds_update (\<lambda>_. v))) (app_WriteTimeoutSeconds \<circ> cfg_App),
      IntSetting ''FOLLOWER_APP_IDLE_TIMEOUT_SECONDS''
        (\<lambda>v. cfg_App_update (app_IdleTimeoutSeconds_update (\<lambda>_. v))) (app_IdleTimeoutSeconds \<circ> cfg_App),
      IntSetting ''FOLLOWER_WORKER_LOOP_INTERVAL_SECONDS'' (\<lambda>v. cfg_WorkerLoopIntervalSeconds_update (\<lambda>_. v))
        cfg_WorkerLoopIntervalSeconds,
      BoolSetting ''FOLLOWER_SESSION_BOOTSTRAP_LOGIN_ENABLED''
        (\<lambda>v. cfg_Session_update (sc_BootstrapLoginEnabled_update (\<lambda>_. v))) (sc_BootstrapLoginEnabled \<circ> cfg_Session),
      BoolSetting ''FOLLOWER_SESSION_ALLOW_MISSING_PAYLOAD_ON_FIRST_RUN''
        (\<lambda>v. cfg_Session_update (sc_AllowMissingPayloadOnFirstRun_update (\<lambda>_. v)))
        (sc_AllowMissingPayloadOnFirstRun \<circ> cfg_Session),
      StringSetting ''FOLLOWER_POSTGRES_URL'' (\<lambda>v. cfg_PostgresURL_update (\<lambda>_. v)) cfg_PostgresURL,
      StringSetting ''FOLLOWER_MINIO_ENDPOINT'' (\<lambda>v. cfg_MinIO_update (mc_Endpoint_update (\<lambda>_. v)))
        (mc_Endpoint \<circ> cfg_MinIO),
      StringSetting ''FOLLOWER_MINIO_ACCESS_KEY'' (\<lambda>v. cfg_MinIO_update (mc_AccessKey_update (\<lambda>_. v)))
        (mc_AccessKey \<circ> cfg_MinIO),
      StringSetting ''FOLLOWER_MINIO_SECRET_KEY'' (\<lambda>v. cfg_MinIO_update (mc_SecretKey_update (\<lambda>_. v)))
        (mc_SecretKey \<circ> cfg_MinIO),
      BoolSetting ''FOLLOWER_MINIO_USE_SSL'' (\<lambda>v. cfg_MinIO_update (mc_UseSSL_update (\<lambda>_. v))) (mc_UseSSL \<circ> cfg_MinIO),
      StringSetting ''FOLLOWER_MINIO_BUCKET'' (\<lambda>v. cfg_MinIO_update (mc_Bucket_update (\<lambda>_. v))) (mc_Bucket \<circ> cfg_MinIO),
      BoolSetting ''FOLLOWER_PROXY_ENABLED'' (\<lambda>v. cfg_ProxyEnabled_update (\<lambda>_. v)) cfg_ProxyEnabled,
      StringSetting ''FOLLOWER_BROWSER_ENGINE'' (\<lambda>v. cfg_Browser_update (bc_Engine_update (\<lambda>_. v)))
        (bc_Engine \<circ> cfg_Browser),
      BoolSetting ''FOLLOWER_BROWSER_HEADLESS'' (\<lambda>v. cfg_Browser_update (bc_Headless_update (\<lambda>_. v)))
        (bc_Headless \<circ> cfg_Browser),
      IntSetting ''FOLLOWER_BROWSER_LAUNCH_TIMEOUT_SECONDS''
        (\<lambda>v. cfg_Browser_update (bc_LaunchTimeoutSeconds_update (\<lambda>_. v))) (bc_LaunchTimeoutSeconds \<circ> cfg_Browser),
      StringSetting ''FOLLOWER_SMOKE_ARTIFACT_PREFIX'' (\<lambda>v. cfg_SmokeArtifactPrefix_update (\<lambda>_. v))
        cfg_SmokeArtifactPrefix]"

fun apply_setting :: "env_lookup \<Rightarrow> setting \<Rightarrow> config \<Rightarrow> go_error + config" where
  "apply_setting lookup (StringSetting key target field) = applyString lookup key target"
| "apply_setting lookup (IntSetting key target field) = applyInt lookup key target"
| "apply_setting lookup (BoolSetting key target field) = applyBool lookup key target"

definition applyEnvOverrides :: "config \<Rightarrow> env_lookup \<Rightarrow> go_error + config" where
  "applyEnvOverrides cfg lookup = apply_steps (map (apply_setting lookup) override_settings) cfg"


section \<open>Rules\<close>

definition config_problems :: "config \<Rightarrow> string list" where
  "config_problems cfg =
     (let a = cfg_App cfg; m = cfg_MinIO cfg; b = cfg_Browser cfg; g = cfg_Guardrails cfg; s = cfg_Session cfg
      in map snd (filter fst
       [(app_Name a = '''', ''app.name is required''),
        (app_Env a \<notin> {''dev'', ''test'', ''prod''}, ''app.env must be one of dev|test|prod''),
        (app_HTTPAddress a = '''', ''app.http_address is required''),
        (app_ShutdownTimeoutSeconds a \<le> 0, ''app.shutdown_timeout_seconds must be > 0''),
        (app_ReadTimeoutSeconds a \<le> 0, ''app.read_timeout_seconds must be > 0''),
        (app_WriteTimeoutSeconds a \<le> 0, ''app.write_timeout_seconds must be > 0''),
        (app_IdleTimeoutSeconds a \<le> 0, ''app.idle_timeout_seconds must be > 0''),
        (cfg_WorkerLoopIntervalSeconds cfg \<le> 0, ''worker.loop_interval_seconds must be > 0''),
        (sc_AllowMissingPayloadOnFirstRun s \<and> \<not> sc_BootstrapLoginEnabled s,
         ''session.allow_missing_payload_on_first_run requires session.bootstrap_login_enabled=true''),
        (cfg_PostgresURL cfg = '''', ''postgres.url is required''),
        (mc_Endpoint m = '''', ''minio.endpoint is required''),
        (mc_AccessKey m = '''', ''minio.access_key is required''),
        (mc_SecretKey m = '''', ''minio.secret_key is required''),
        (mc_Bucket m = '''', ''minio.bucket is required''),
        (bc_Engine b \<notin> {''playwright'', ''mock''}, ''browser.engine must be playwright|mock''),
        (bc_LaunchTimeoutSeconds b \<le> 0, ''browser.launch_timeout_seconds must be > 0''),
        (bc_Engine b = ''mock'' \<and> app_Env a = ''prod'', ''browser.engine mock is not allowed in prod''),
        (cfg_SmokeArtifactPrefix cfg = '''', ''smoke.artifact_prefix is required''),
        (\<not> gc_ExcludeWhenLimitReached g \<and> \<not> gc_RestrictWhenThresholdReached g,
         ''policy.guardrails must enable at least one restriction rule''),
        (gc_QuarantineOnLimitReached g \<and> \<not> gc_ExcludeWhenLimitReached g,
         ''policy.guardrails.quarantine_on_limit_reached requires exclude_when_limit_reached=true'')]))"

definition Config_Validate :: "config \<Rightarrow> go_error option" where
  "Config_Validate cfg =
     (let problems = config_problems cfg
      in if problems \<noteq> [] then Some (stackerr_New (Join problems ''; '')) else None)"

definition MaskSecret :: "string \<Rightarrow> string" where
  "MaskSecret secret = (if secret = '''' then '''' else ''***len:'' @ Itoa (int (length secret)))"


section \<open>Loading\<close>

definition defaultConfigPath :: string where
  "defaultConfigPath = ''config.yaml''"

definition Load ::
  "(string \<Rightarrow> go_error + 'f) \<Rightarrow> ('f \<Rightarrow> config \<Rightarrow> go_error + config) \<Rightarrow> env_lookup \<Rightarrow> string \<Rightarrow> go_error + config" where
  "Load readFile decode lookup path =
     (let targetPath = (if TrimSpace path = '''' then defaultConfigPath else TrimSpace path) in
      case readFile targetPath of
        Inl err \<Rightarrow> Inl (stackerr_Wrap (Some err) ''read config file'')
      | Inr raw \<Rightarrow>
        (case decode raw defaultConfig of
           Inl err \<Rightarrow> Inl (stackerr_Wrap (Some err) ''parse config yaml'')
         | Inr cfg \<Rightarrow>
           (case applyEnvOverrides cfg lookup of
              Inl err \<Rightarrow> Inl (with_stack err)
            | Inr cfg' \<Rightarrow>
              (case Config_Validate cfg' of
                 Some err \<Rightarrow> Inl (with_stack err)
               | None \<Rightarrow> Inr cfg'))))"


section \<open>What a loaded configuration is\<close>

text \<open>Each variable that is set decides its field; a field whose variable is not set is as before.\<close>

fun setting_holds :: "env_lookup \<Rightarrow> config \<Rightarrow> config \<Rightarrow> setting \<Rightarrow> bool" where
  "setting_holds lookup base cfg (StringSetting key target field) \<longleftrightarrow>
     field cfg = (case lookup key of Some v \<Rightarrow> TrimSpace v | None \<Rightarrow> field base)"
| "setting_holds lookup base cfg (IntSetting key target field) \<longleftrightarrow>
     (case lookup key of Some v \<Rightarrow> Atoi (TrimSpace v) = Some (field cfg) | None \<Rightarrow> field cfg = field base)"
| "setting_holds lookup base cfg (BoolSetting key target field) \<longleftrightarrow>
     (case lookup key of Some v \<Rightarrow> ParseBool (TrimSpace v) = Some (field cfg) | None \<Rightarrow> field cfg = field base)"

text \<open>A setting writes its own field and no other.\<close>

fun same_field :: "setting \<Rightarrow> config \<Rightarrow> config \<Rightarrow> bool" where
  "same_field (StringSetting key target field) c c' \<longleftrightarrow> field c' = field c"
| "same_field (IntSetting key target field) c c' \<longleftrightarrow> field c' = field c"
| "same_field (BoolSetting key target field) c c' \<longleftrightarrow> field c' = field c"

fun keeps_field :: "setting \<Rightarrow> setting \<Rightarrow> bool" where
  "keeps_field (StringSetting key target field) t \<longleftrightarrow> (\<forall>v c. same_field t c (target v c))"
| "keeps_field (IntSetting key target field) t \<longleftrightarrow> (\<forall>v c. same_field t c (target v c))"
| "keeps_field (BoolSetting key target field) t \<longleftrightarrow> (\<forall>v c. same_field t c (target v c))"

fun writes_field :: "setting \<Rightarrow> bool" where
  "writes_field (StringSetting key target field) \<longleftrightarrow> (\<forall>v c. field (target v c) = v)"
| "writes_field (IntSetting key target field) \<longleftrightarrow> (\<forall>v c. field (target v c) = v)"
| "writes_field (BoolSetting key target field) \<longleftrightarrow> (\<forall>v c. field (target v c) = v)"

fun independent :: "setting list \<Rightarrow> bool" where
  "independent [] \<longleftrightarrow> True"
| "independent (s # ss) \<longleftrightarrow> writes_field s \<and> (\<forall>t \<in> set ss. keeps_field s t \<and> keeps_field t s) \<and> independent ss"

lemma override_settings_independent: "independent override_settings"
  by (simp add: override_settings_def)

lemma same_field_trans: "same_field t a b \<Longrightarrow> same_field t b c \<Longrightarrow> same_field t a c"
  by (cases t) auto

lemma same_field_refl [simp]: "same_field t c c"
  by (cases t) auto

lemma apply_setting_cases:
  assumes "apply_setting lookup s c = Inr c'" "writes_field s"
  shows "setting_holds lookup c c' s" "keeps_field s t \<Longrightarrow> same_field t c c'"
  using assms
  by (cases s; cases "lookup (case s of StringSetting key _ _ \<Rightarrow> key | IntSetting key _ _ \<Rightarrow> key | BoolSetting key _ _ \<Rightarrow> key)";
      auto simp: applyString_def applyInt_def applyBool_def split: option.splits)+

lemma setting_holds_same:
  "same_field s a b \<Longrightarrow> setting_holds lookup b c s \<Longrightarrow> setting_holds lookup a c s"
  "setting_holds lookup a b s \<Longrightarrow> same_field s b c \<Longrightarrow> setting_holds lookup a c s"
  by (cases s; auto split: option.splits)+

lemma apply_steps_settings:
  assumes "independent ss" "apply_steps (map (apply_setting lookup) ss) base = Inr cfg"
  shows "(\<forall>s \<in> set ss. setting_holds lookup base cfg s) \<and> (\<forall>t. (\<forall>s \<in> set ss. keeps_field s t) \<longrightarrow> same_field t base cfg)"
  using assms
proof (induction ss arbitrary: base)
  case (Cons s ss)
  from Cons.prems(2) obtain mid where mid: "apply_setting lookup s base = Inr mid"
    "apply_steps (map (apply_setting lookup) ss) mid = Inr cfg" by (auto split: sum.splits)
  note step = apply_setting_cases [OF mid(1)] and rest = Cons.IH [OF _ mid(2)]
  have ind: "writes_field s" "independent ss" "\<forall>t \<in> set ss. keeps_field s t \<and> keeps_field t s" using Cons.prems(1) by simp_all
  show ?case
  proof (intro conjI ballI allI impI)
    fix t assume t: "t \<in> set (s # ss)"
    show "setting_holds lookup base cfg t"
    proof (cases "t = s")
      case True
      then show ?thesis using step(1) rest ind setting_holds_same(2) by blast
    next
      case False
      then have "t \<in> set ss" using t by simp
      then show ?thesis using step(2) rest ind setting_holds_same(1) by blast
    qed
  next
    fix t assume "\<forall>s \<in> set (s # ss). keeps_field s t"
    then show "same_field t base cfg" using step(2) rest ind same_field_trans by (metis list.set_intros)
  qed
qed simp

lemma Load_Inr:
  assumes "Load readFile decode lookup path = Inr cfg"
  obtains raw base where "readFile (if TrimSpace path = '''' then ''config.yaml'' else TrimSpace path) = Inr raw"
    "decode raw defaultConfig = Inr base" "\<forall>s \<in> set override_settings. setting_holds lookup base cfg s"
    "config_problems cfg = []"
proof -
  from assms obtain raw base where "readFile (if TrimSpace path = '''' then ''config.yaml'' else TrimSpace path) = Inr raw"
    "decode raw defaultConfig = Inr base" "applyEnvOverrides base lookup = Inr cfg" "Config_Validate cfg = None"
    by (auto simp: Load_def defaultConfigPath_def Let_def split: sum.splits option.splits if_splits)
  then show ?thesis
    using that apply_steps_settings [OF override_settings_independent, of lookup base cfg]
    by (auto simp: applyEnvOverrides_def Config_Validate_def Let_def split: if_splits)
qed

end
