(* ===== verification/Application.thy ===== *)
theory Application
  imports Worker_System Admin_Api Batch_Import Credentials Configuration
begin

text \<open>
  The program \<open>follower\<close> put together: \<open>internal/app/bootstrap.go\<close>, \<open>runtime_dependencies.go\<close> and \<open>app.go\<close>, and
  \<open>cmd/follower/main.go\<close>.

  What the packages it starts from give (the pool of pgx, the client of minio, playwright, the process) is the record
  \<open>packages\<close>; a pool is part of the world, its clients are functions on it.  The two registries of metrics are part of
  the world too.  A duration is an \<open>int64\<close> of nanoseconds.  The goroutines that \<open>Run\<close> starts are named, not run.
\<close>

section \<open>World and packages\<close>

record app_world = storage +
  ax_taskMetrics :: "task_metrics option"
  ax_adminMetrics :: "admin_metrics option"

text \<open>How the run of playwright that a check waits for ends.\<close>

datatype playwright_check = CheckContextDone go_error | CheckRan "go_error option"

record ('c, 'm, 'r, 's, 'w) packages =
  pk_ParseConfig :: "string \<Rightarrow> go_error + 'c"
  pk_NewWithConfig :: "'c \<Rightarrow> go_error option"
  pk_ClosePool :: "'w \<Rightarrow> 'w"
  pk_minio_New :: "string \<Rightarrow> string \<Rightarrow> string \<Rightarrow> bool \<Rightarrow> go_error + 'm"
  pk_minio_sdk :: "'m \<Rightarrow> ('r, 'w) minio_sdk"
  pk_BucketExists :: "'m \<Rightarrow> go_context \<Rightarrow> string \<Rightarrow> 'w \<Rightarrow> (bool \<times> go_error option) \<times> 'w"
  pk_Connect :: "go_context \<Rightarrow> string \<Rightarrow> 'w \<Rightarrow> go_error option \<times> 'w"
  pk_Ping :: "go_context \<Rightarrow> 'w \<Rightarrow> go_error option \<times> 'w"
  pk_CloseConn :: "go_context \<Rightarrow> 'w \<Rightarrow> 'w"
  pk_RunPlaywright :: "go_context \<Rightarrow> 'w \<Rightarrow> playwright_check \<times> 'w"
  pk_runtime :: "'w runtime_env"
  pk_decode_state :: "bytes \<Rightarrow> 's option"
  pk_follow_adapter :: "'w follow_adapter"
  pk_verify_adapter :: "'w verify_adapter"
  pk_bootstrap_adapter :: "'w bootstrap_adapter"
  pk_png_Encode :: "rgba list list \<Rightarrow> go_error + bytes"
  pk_LookupEnv :: "'w env_reader"
  pk_ReadFile :: "'w file_reader"
  pk_Getpid :: int
  pk_check_order :: "'w \<Rightarrow> nat list"
  pk_uuid_Parse :: "string \<Rightarrow> uuid option"
  pk_csv_reason :: "csv_error \<Rightarrow> string"


section \<open>Health\<close>

definition postgres_Check ::
  "('c, 'm, 'r, 's, 'w) packages \<Rightarrow> string \<Rightarrow> go_context \<Rightarrow> 'w \<Rightarrow> go_error option \<times> 'w" where
  "postgres_Check pk url ctx w =
     (case pk_Connect pk ctx url w of
        (Some err, w1) \<Rightarrow> (Some (with_stack err), w1)
      | (None, w1) \<Rightarrow> (case pk_Ping pk ctx w1 of (err, w2) \<Rightarrow> (err, pk_CloseConn pk ctx w2)))"

definition minioBucketHealthError :: "string \<Rightarrow> bool \<Rightarrow> go_error option \<Rightarrow> go_error option" where
  "minioBucketHealthError bucket exists err =
     (if err \<noteq> None then WithStack err
      else if \<not> exists then Some (PlainErr (''minio bucket '' @ Quoted bucket @ '' does not exist''))
      else None)"

definition minio_Check ::
  "('c, 'm, 'r, 's, 'w) packages \<Rightarrow> minio_config \<Rightarrow> go_context \<Rightarrow> 'w \<Rightarrow> go_error option \<times> 'w" where
  "minio_Check pk c ctx w =
     (case pk_minio_New pk (mc_Endpoint c) (mc_AccessKey c) (mc_SecretKey c) (mc_UseSSL c) of
        Inl err \<Rightarrow> (Some (with_stack err), w)
      | Inr client \<Rightarrow>
        (case pk_BucketExists pk client ctx (mc_Bucket c) w of
           ((exists, err), w1) \<Rightarrow> (minioBucketHealthError (mc_Bucket c) exists err, w1)))"

definition playwright_Check ::
  "('c, 'm, 'r, 's, 'w) packages \<Rightarrow> string \<Rightarrow> go_context \<Rightarrow> 'w \<Rightarrow> go_error option \<times> 'w" where
  "playwright_Check pk engine ctx w =
     (if engine = ''mock'' then (None, w)
      else case pk_RunPlaywright pk ctx w of
        (CheckContextDone err, w1) \<Rightarrow> (Some (with_stack err), w1)
      | (CheckRan err, w1) \<Rightarrow> (WithStack err, w1))"

fun minPositive_loop :: "int list \<Rightarrow> int \<Rightarrow> int" where
  "minPositive_loop [] result = result"
| "minPositive_loop (value # values) result =
     minPositive_loop values
       (if value \<le> 0 then result else if result = 0 \<or> value < result then value else result)"

definition minPositive :: "int list \<Rightarrow> int" where
  "minPositive values = (let result = minPositive_loop values 0 in if result = 0 then 1 else result)"

definition seconds_duration :: "int \<Rightarrow> int" where
  "seconds_duration secs = int64 (secs * second_ns)"

definition healthCheckTimeout :: "config \<Rightarrow> int" where
  "healthCheckTimeout cfg =
     (let secs = minPositive [bc_LaunchTimeoutSeconds (cfg_Browser cfg), app_ReadTimeoutSeconds (cfg_App cfg),
                                 app_WriteTimeoutSeconds (cfg_App cfg)]
      in if secs \<le> 1 then second_ns else seconds_duration (secs - 1))"

text \<open>The timeout of the service bounds the context of its checks.\<close>

record 'w built_health =
  bh_service :: "'w health_service"
  bh_timeout :: int

definition buildHealthService :: "('c, 'm, 'r, 's, 'w) packages \<Rightarrow> config \<Rightarrow> 'w built_health" where
  "buildHealthService pk cfg =
     \<lparr>bh_service = NewHealthService
        [\<lparr>dep_Name = ''postgres'', dep_Critical = True, dep_Checker = postgres_Check pk (cfg_PostgresURL cfg)\<rparr>,
         \<lparr>dep_Name = ''minio'', dep_Critical = True, dep_Checker = minio_Check pk (cfg_MinIO cfg)\<rparr>,
         \<lparr>dep_Name = ''playwright'', dep_Critical = True, dep_Checker = playwright_Check pk (bc_Engine (cfg_Browser cfg))\<rparr>]
        (app_Version (cfg_App cfg))
        [[(''audit_trail_source'', ''postgres.audit_logs''), (''health_endpoint'', ''/healthz''),
          (''metrics_endpoint'', ''/metrics'')]],
      bh_timeout = healthCheckTimeout cfg\<rparr>"


section \<open>Runtime dependencies\<close>

text \<open>The metrics of the tasks, as the loop and the health service see them.\<close>

definition world_loop_metrics :: "'x app_world_scheme loop_metrics" where
  "world_loop_metrics =
     \<lparr>lm_RecordClaimed = ax_taskMetrics_update RecordClaimed, lm_RecordStarted = ax_taskMetrics_update RecordStarted,
      lm_RecordCompleted = (\<lambda>status. ax_taskMetrics_update (RecordCompleted status)),
      lm_RecordError = (\<lambda>stage. ax_taskMetrics_update (RecordError stage))\<rparr>"

definition world_extended_metrics :: "'x app_world_scheme loop_extended_metrics" where
  "world_extended_metrics =
     \<lparr>lx_RecordErrorCode = (\<lambda>stage code. ax_taskMetrics_update (RecordErrorCode stage code)),
      lx_RecordExecutionOutcome = (\<lambda>outcome. ax_taskMetrics_update (RecordExecutionOutcome outcome))\<rparr>"

definition runtime_guardrails_of :: "config \<Rightarrow> runtime_guardrails" where
  "runtime_guardrails_of cfg =
     \<lparr>ExcludeWhenLimitReached = gc_ExcludeWhenLimitReached (cfg_Guardrails cfg),
      RestrictWhenThresholdReached = gc_RestrictWhenThresholdReached (cfg_Guardrails cfg),
      QuarantineOnLimitReached = gc_QuarantineOnLimitReached (cfg_Guardrails cfg),
      RequireProxyBinding = cfg_ProxyEnabled cfg\<rparr>"

definition bootstrap_ctx :: go_context where
  "bootstrap_ctx = WithActor Background \<lparr>actor_Type = ActorTypeInternalProcess, actor_ID = ''app.bootstrap''\<rparr>"

definition guardrails_loaded :: "runtime_guardrails \<Rightarrow> audit_event" where
  "guardrails_loaded g =
     \<lparr>event_Actor = no_actor, event_Action = ''config.runtime_guardrails_loaded'', event_TargetType = ''config'',
      event_TargetID = ''policy.guardrails'', event_ChangeSummary = ''runtime guardrails loaded from configuration'',
      event_DiagnosticFields =
        [(''exclude_when_limit_reached'', FormatBool (ExcludeWhenLimitReached g)),
         (''quarantine_on_limit_reached'', FormatBool (QuarantineOnLimitReached g)),
         (''require_proxy_binding'', FormatBool (RequireProxyBinding g)),
         (''restrict_when_threshold_reached'', FormatBool (RestrictWhenThresholdReached g))]\<rparr>"

definition baseline_verified :: "string \<Rightarrow> audit_event" where
  "baseline_verified name =
     \<lparr>event_Actor = no_actor, event_Action = ''readiness.baseline_verified'', event_TargetType = ''service'',
      event_TargetID = name, event_ChangeSummary = ''technical readiness baseline initialized'',
      event_DiagnosticFields = [(''health_endpoint'', ''/healthz''), (''metrics_endpoint'', ''/metrics'')]\<rparr>"

record 'w runtime_dependencies =
  rt_executionService :: "'w execution_service"
  rt_claimLoop :: "'w claim_loop"
  rt_metricsRefresher :: "'w metrics_refresher"
  rt_taskRepository :: "'w admin_task_reader"
  rt_queueWriter :: "go_context \<Rightarrow> enqueue_row list \<Rightarrow> 'w \<Rightarrow> (go_error + batch_result) \<times> 'w"
  rt_resultRepository :: "go_context \<Rightarrow> uuid \<Rightarrow> int \<Rightarrow> 'w \<Rightarrow> (go_error + follow_result) \<times> 'w"
  rt_cleanup :: "'w \<Rightarrow> 'w"

text \<open>What the worker of a configuration is made of.\<close>

definition parts_of_config ::
  "('c, 'm, 'r, 's, 'x app_world_scheme) packages \<Rightarrow> config \<Rightarrow> 'x app_world_scheme health_service \<Rightarrow> 'm \<Rightarrow>
   'x app_world_scheme bootstrap_runner \<Rightarrow> 'x app_world_scheme follow_runner \<Rightarrow> 'x app_world_scheme verify_runner \<Rightarrow>
   'x app_world_scheme worker_parts" where
  "parts_of_config pk cfg health client bootstrapRunner followRunner verifyRunner =
     \<lparr>wp_guardrails = runtime_guardrails_of cfg,
      wp_policy = \<lparr>BootstrapLoginEnabled = sc_BootstrapLoginEnabled (cfg_Session cfg),
                   AllowMissingPayloadOnFirstRun = sc_AllowMissingPayloadOnFirstRun (cfg_Session cfg)\<rparr>,
      wp_client = NewMinioSessionObjectClient (pk_minio_sdk pk client), wp_bucket = mc_Bucket (cfg_MinIO cfg),
      wp_bootstrap = bootstrapRunner, wp_follow = followRunner, wp_verify = verifyRunner,
      wp_png = pk_png_Encode pk, wp_health = (\<lambda>ctx w. Health_Snapshot health (pk_check_order pk w) ctx w),
      wp_metrics = world_loop_metrics, wp_extended = world_extended_metrics,
      wp_workerID = app_Name (cfg_App cfg) @ ''-'' @ Itoa (pk_Getpid pk),
      wp_interval = seconds_duration (cfg_WorkerLoopIntervalSeconds cfg)\<rparr>"

text \<open>What the constructor returns at its end.\<close>

definition runtime_of ::
  "('c, 'm, 'r, 's, 'x app_world_scheme) packages \<Rightarrow> config \<Rightarrow> 'x app_world_scheme worker_parts \<Rightarrow>
   'x app_world_scheme runtime_dependencies" where
  "runtime_of pk cfg parts =
     \<lparr>rt_executionService = wired_execution parts, rt_claimLoop = wired_loop parts,
      rt_metricsRefresher = newOperationalMetricsRefresher TaskQueueSnapshot OperationalStateSnapshot StatusSnapshot
        (operationalMetricsRefreshInterval (cfg_WorkerLoopIntervalSeconds cfg)),
      rt_taskRepository =
        \<lparr>atr_GetByID = GetByID, atr_List = Some Task_List, atr_ListFailures = Some ListFailures,
         atr_RetryFromTask = Some RetryFromTask, atr_CancelTask = Some CancelTask\<rparr>,
      rt_queueWriter = EnqueueValidatedBatch, rt_resultRepository = GetByTaskAttempt, rt_cleanup = pk_ClosePool pk\<rparr>"

definition buildRuntimeDependencies ::
  "('c, 'm, 'r, 's, 'x app_world_scheme) packages \<Rightarrow> config \<Rightarrow> 'x app_world_scheme health_service \<Rightarrow> 'x app_world_scheme \<Rightarrow>
   (go_error + 'x app_world_scheme runtime_dependencies) \<times> 'x app_world_scheme" where
  "buildRuntimeDependencies pk cfg health w =
     (case pk_ParseConfig pk (cfg_PostgresURL cfg) of
        Inl err \<Rightarrow> (Inl (stackerr_Wrap (Some err) ''parse postgres config''), w)
      | Inr poolConfig \<Rightarrow>
        (case pk_NewWithConfig pk poolConfig of
           Some err \<Rightarrow> (Inl (stackerr_Wrap (Some err) ''create postgres pool''), w)
         | None \<Rightarrow>
           (case pk_minio_New pk (mc_Endpoint (cfg_MinIO cfg)) (mc_AccessKey (cfg_MinIO cfg)) (mc_SecretKey (cfg_MinIO cfg))
                   (mc_UseSSL (cfg_MinIO cfg)) of
              Inl err \<Rightarrow> (Inl (stackerr_Wrap (Some err) ''create minio client''), pk_ClosePool pk w)
            | Inr client \<Rightarrow>
              let w1 = snd (Log_Record pg_audit_log bootstrap_ctx (guardrails_loaded (runtime_guardrails_of cfg)) w);
                  w2 = snd (Log_Record pg_audit_log bootstrap_ctx (baseline_verified (app_Name (cfg_App cfg))) w1);
                  engine = bc_Engine (cfg_Browser cfg); env = pk_runtime pk;
                  resolver = Some (Resolve env (NewResolver (pk_LookupEnv pk) (pk_ReadFile pk)))
              in case NewFollowFlowRunner env (pk_decode_state pk) (pk_follow_adapter pk) engine of
                   Inl err \<Rightarrow> (Inl (stackerr_Wrap (Some err) ''create follow flow runner''), pk_ClosePool pk w2)
                 | Inr followRunner \<Rightarrow>
                   (case NewBootstrapLoginRunner env (pk_bootstrap_adapter pk) engine resolver of
                      Inl err \<Rightarrow> (Inl (stackerr_Wrap (Some err) ''create bootstrap login runner''), pk_ClosePool pk w2)
                    | Inr bootstrapRunner \<Rightarrow>
                      (case NewVerifyFlowRunner env (pk_verify_adapter pk) engine of
                         Inl err \<Rightarrow> (Inl (stackerr_Wrap (Some err) ''create verify flow runner''), pk_ClosePool pk w2)
                       | Inr verifyRunner \<Rightarrow>
                         (Inr (runtime_of pk cfg (parts_of_config pk cfg health client bootstrapRunner followRunner verifyRunner)),
                          w2))))))"


section \<open>The application\<close>

record server_config =
  sv_Address :: string
  sv_ReadTimeout :: int
  sv_WriteTimeout :: int
  sv_IdleTimeout :: int

record 'w app =
  ap_server :: server_config
  ap_serve :: "http_request \<Rightarrow> 'w \<Rightarrow> server_body \<times> 'w"
  ap_shutdownTimeout :: int
  ap_healthTimeout :: int
  ap_executionService :: "'w execution_service"
  ap_claimLoop :: "'w claim_loop"
  ap_metricsRefresher :: "'w metrics_refresher"
  ap_cleanup :: "'w \<Rightarrow> 'w"

definition observed_health :: "('c, 'm, 'r, 's, 'x app_world_scheme) packages \<Rightarrow> config \<Rightarrow> 'x app_world_scheme health_service" where
  "observed_health pk cfg =
     the (SetDependencyObserver (Some (\<lambda>name ready. ax_taskMetrics_update (RecordDependencyReady name ready)))
            (Some (bh_service (buildHealthService pk cfg))))"

definition app_admin_handler ::
  "('c, 'm, 'r, 's, 'x app_world_scheme) packages \<Rightarrow> 'x app_world_scheme runtime_dependencies \<Rightarrow> 'x app_world_scheme admin_handler" where
  "app_admin_handler pk deps =
     NewAdminTasksHandler (pk_uuid_Parse pk) new_uuid (pk_csv_reason pk) db_now
       (\<lambda>route method statusCode outcome code duration.
          ax_adminMetrics_update (RecordRequest route method statusCode outcome code duration))
       (Some (rt_queueWriter deps)) (Some (rt_taskRepository deps)) (Some (rt_resultRepository deps))"

definition App_New ::
  "('c, 'm, 'r, 's, 'x app_world_scheme) packages \<Rightarrow> config \<Rightarrow> 'x app_world_scheme \<Rightarrow>
   (go_error + 'x app_world_scheme app) \<times> 'x app_world_scheme" where
  "App_New pk cfg w =
     (let w1 = w\<lparr>ax_taskMetrics := Some NewTaskLifecycleMetrics, ax_adminMetrics := Some NewAdminAPIMetrics\<rparr>;
          health = observed_health pk cfg
      in case buildRuntimeDependencies pk cfg health w1 of
           (Inl err, w2) \<Rightarrow> (Inl (with_stack err), w2)
         | (Inr deps, w2) \<Rightarrow>
             (Inr \<lparr>ap_server = \<lparr>sv_Address = app_HTTPAddress (cfg_App cfg),
                       sv_ReadTimeout = seconds_duration (app_ReadTimeoutSeconds (cfg_App cfg)),
                       sv_WriteTimeout = seconds_duration (app_WriteTimeoutSeconds (cfg_App cfg)),
                       sv_IdleTimeout = seconds_duration (app_IdleTimeoutSeconds (cfg_App cfg))\<rparr>,
                   ap_serve = NewServer
                     (NewHealthHandler (\<lambda>ctx w. Health_Snapshot health (pk_check_order pk w) ctx w))
                     (NewMetricsHandler (\<lambda>w. w)) (app_admin_handler pk deps) [Some (app_admin_handler pk deps)],
                   ap_shutdownTimeout = seconds_duration (app_ShutdownTimeoutSeconds (cfg_App cfg)),
                   ap_healthTimeout = bh_timeout (buildHealthService pk cfg),
                   ap_executionService = rt_executionService deps, ap_claimLoop = rt_claimLoop deps,
                   ap_metricsRefresher = rt_metricsRefresher deps, ap_cleanup = rt_cleanup deps\<rparr>, w2))"

text \<open>
  What \<open>Run\<close> waits for: the server ends, with \<open>http.ErrServerClosed\<close> or another error, or the context does, and
  then the server is shut down with some result.
\<close>

datatype server_end = ServerClosed | ServerFailed go_error

datatype run_end = ServerEnded server_end | ContextEnded "go_error option"

datatype activity = MetricsRefresherRun | ClaimLoopRun | ListenAndServe

definition App_Run :: "'w app \<Rightarrow> run_end \<Rightarrow> 'w \<Rightarrow> (activity list \<times> go_error option) \<times> 'w" where
  "App_Run a ending w =
     (([MetricsRefresherRun, ClaimLoopRun, ListenAndServe],
       (case ending of
          ServerEnded ServerClosed \<Rightarrow> WithStack None
        | ServerEnded (ServerFailed err) \<Rightarrow> WithStack (Some err)
        | ContextEnded (Some err) \<Rightarrow> Some (with_stack err)
        | ContextEnded None \<Rightarrow> None)),
      ap_cleanup a w)"

text \<open>\<open>main\<close>: the exit code, and what was started.\<close>

definition follower_main ::
  "('c, 'm, 'r, 's, 'x app_world_scheme) packages \<Rightarrow> (string \<Rightarrow> go_error + 'f) \<Rightarrow> ('f \<Rightarrow> config \<Rightarrow> go_error + config) \<Rightarrow>
   env_lookup \<Rightarrow> run_end \<Rightarrow> 'x app_world_scheme \<Rightarrow> (nat \<times> activity list) \<times> 'x app_world_scheme" where
  "follower_main pk read decode lookup ending w =
     (case Load read decode lookup (case lookup ''FOLLOWER_CONFIG_PATH'' of None \<Rightarrow> '''' | Some p \<Rightarrow> p) of
        Inl err \<Rightarrow> ((1, []), w)
      | Inr cfg \<Rightarrow>
        (case App_New pk cfg w of
           (Inl err, w1) \<Rightarrow> ((1, []), w1)
         | (Inr a, w1) \<Rightarrow>
           (case App_Run a ending w1 of
              ((started, None), w2) \<Rightarrow> ((0, started), w2)
            | ((started, Some err), w2) \<Rightarrow> ((if errors_is err CtxCanceled then 0 else 1, started), w2))))"


section \<open>What a loaded configuration starts\<close>

text \<open>The packages take what the configuration gives them.\<close>

definition packages_accept :: "('c, 'm, 'r, 's, 'w) packages \<Rightarrow> config \<Rightarrow> bool" where
  "packages_accept pk cfg \<longleftrightarrow>
     (case pk_ParseConfig pk (cfg_PostgresURL cfg) of Inl e \<Rightarrow> False | Inr c \<Rightarrow> pk_NewWithConfig pk c = None) \<and>
     (case pk_minio_New pk (mc_Endpoint (cfg_MinIO cfg)) (mc_AccessKey (cfg_MinIO cfg)) (mc_SecretKey (cfg_MinIO cfg))
             (mc_UseSSL (cfg_MinIO cfg)) of Inl e \<Rightarrow> False | Inr m \<Rightarrow> True)"

text \<open>Seconds of which a duration can hold the nanoseconds: some 292 years.\<close>

definition max_seconds :: int where
  "max_seconds = 9223372036"

lemma seconds_duration_small: "0 \<le> n \<Longrightarrow> n \<le> max_seconds \<Longrightarrow> seconds_duration n = n * second_ns"
  by (simp add: seconds_duration_def max_seconds_def second_ns_def int64_small)

text \<open>An application whose parts are those of the configuration.\<close>

definition built_from ::
  "('c, 'm, 'r, 's, 'x app_world_scheme) packages \<Rightarrow> config \<Rightarrow> 'x app_world_scheme app \<Rightarrow> bool" where
  "built_from pk cfg a \<longleftrightarrow>
     (\<exists>p. ap_executionService a = wired_execution p \<and> ap_claimLoop a = wired_loop p \<and>
        wp_guardrails p = runtime_guardrails_of cfg \<and> wp_bucket p = mc_Bucket (cfg_MinIO cfg) \<and>
        BootstrapLoginEnabled (wp_policy p) = sc_BootstrapLoginEnabled (cfg_Session cfg) \<and>
        AllowMissingPayloadOnFirstRun (wp_policy p) = sc_AllowMissingPayloadOnFirstRun (cfg_Session cfg) \<and>
        Inr (wp_follow p) = NewFollowFlowRunner (pk_runtime pk) (pk_decode_state pk) (pk_follow_adapter pk) (bc_Engine (cfg_Browser cfg)) \<and>
        Inr (wp_verify p) = NewVerifyFlowRunner (pk_runtime pk) (pk_verify_adapter pk) (bc_Engine (cfg_Browser cfg)) \<and>
        Inr (wp_bootstrap p) = NewBootstrapLoginRunner (pk_runtime pk) (pk_bootstrap_adapter pk) (bc_Engine (cfg_Browser cfg))
          (Some (Resolve (pk_runtime pk) (NewResolver (pk_LookupEnv pk) (pk_ReadFile pk)))))"

text \<open>The rules that the parts rely on.\<close>

definition consistent_rules :: "config \<Rightarrow> bool" where
  "consistent_rules cfg \<longleftrightarrow>
     (let g = runtime_guardrails_of cfg; s = cfg_Session cfg; engine = bc_Engine (cfg_Browser cfg) in
      (ExcludeWhenLimitReached g \<or> RestrictWhenThresholdReached g) \<and>
      (QuarantineOnLimitReached g \<longrightarrow> ExcludeWhenLimitReached g) \<and>
      (sc_AllowMissingPayloadOnFirstRun s \<longrightarrow> sc_BootstrapLoginEnabled s) \<and>
      engine \<in> {''mock'', ''playwright''} \<and> (app_Env (cfg_App cfg) = ''prod'' \<longrightarrow> engine = ''playwright''))"

text \<open>Every rule of \<open>Validate\<close>.\<close>

definition valid_rules :: "config \<Rightarrow> bool" where
  "valid_rules cfg \<longleftrightarrow>
     app_Name (cfg_App cfg) \<noteq> '''' \<and> app_Env (cfg_App cfg) \<in> {''dev'', ''test'', ''prod''} \<and>
     app_HTTPAddress (cfg_App cfg) \<noteq> '''' \<and> 0 < app_ShutdownTimeoutSeconds (cfg_App cfg) \<and>
     0 < app_ReadTimeoutSeconds (cfg_App cfg) \<and> 0 < app_WriteTimeoutSeconds (cfg_App cfg) \<and>
     0 < app_IdleTimeoutSeconds (cfg_App cfg) \<and> 0 < cfg_WorkerLoopIntervalSeconds cfg \<and>
     (sc_AllowMissingPayloadOnFirstRun (cfg_Session cfg) \<longrightarrow> sc_BootstrapLoginEnabled (cfg_Session cfg)) \<and>
     cfg_PostgresURL cfg \<noteq> '''' \<and> mc_Endpoint (cfg_MinIO cfg) \<noteq> '''' \<and> mc_AccessKey (cfg_MinIO cfg) \<noteq> '''' \<and>
     mc_SecretKey (cfg_MinIO cfg) \<noteq> '''' \<and> mc_Bucket (cfg_MinIO cfg) \<noteq> '''' \<and>
     bc_Engine (cfg_Browser cfg) \<in> {''playwright'', ''mock''} \<and> 0 < bc_LaunchTimeoutSeconds (cfg_Browser cfg) \<and>
     \<not> (bc_Engine (cfg_Browser cfg) = ''mock'' \<and> app_Env (cfg_App cfg) = ''prod'') \<and> cfg_SmokeArtifactPrefix cfg \<noteq> '''' \<and>
     (gc_ExcludeWhenLimitReached (cfg_Guardrails cfg) \<or> gc_RestrictWhenThresholdReached (cfg_Guardrails cfg)) \<and>
     (gc_QuarantineOnLimitReached (cfg_Guardrails cfg) \<longrightarrow> gc_ExcludeWhenLimitReached (cfg_Guardrails cfg))"

text \<open>
  The least of the three limits on a health check, in seconds; and the times the application runs on: those of the
  configuration, as long as a duration can hold them.  A health check ends a second before the server and the browser
  would give up, but for a limit of one second, where it may take all of it.
\<close>

definition least_limit :: "config \<Rightarrow> int" where
  "least_limit cfg = min (bc_LaunchTimeoutSeconds (cfg_Browser cfg))
     (min (app_ReadTimeoutSeconds (cfg_App cfg)) (app_WriteTimeoutSeconds (cfg_App cfg)))"

definition good_timing :: "config \<Rightarrow> 'w app \<Rightarrow> bool" where
  "good_timing cfg a \<longleftrightarrow>
     0 < cl_loopInterval (ap_claimLoop a) \<and> 5 * second_ns \<le> mr_interval (ap_metricsRefresher a) \<and>
     mr_interval (ap_metricsRefresher a) \<le> 300 * second_ns \<and>
     (max (app_ReadTimeoutSeconds (cfg_App cfg)) (max (app_WriteTimeoutSeconds (cfg_App cfg))
        (max (app_IdleTimeoutSeconds (cfg_App cfg)) (max (app_ShutdownTimeoutSeconds (cfg_App cfg))
        (bc_LaunchTimeoutSeconds (cfg_Browser cfg))))) \<le> max_seconds \<longrightarrow>
      sv_ReadTimeout (ap_server a) = app_ReadTimeoutSeconds (cfg_App cfg) * second_ns \<and>
      sv_WriteTimeout (ap_server a) = app_WriteTimeoutSeconds (cfg_App cfg) * second_ns \<and>
      sv_IdleTimeout (ap_server a) = app_IdleTimeoutSeconds (cfg_App cfg) * second_ns \<and>
      ap_shutdownTimeout a = app_ShutdownTimeoutSeconds (cfg_App cfg) * second_ns \<and>
      ap_healthTimeout a = (if least_limit cfg = 1 then second_ns else (least_limit cfg - 1) * second_ns) \<and>
      0 < sv_ReadTimeout (ap_server a) \<and> 0 < sv_WriteTimeout (ap_server a) \<and> 0 < sv_IdleTimeout (ap_server a) \<and>
      0 < ap_shutdownTimeout a \<and> second_ns \<le> ap_healthTimeout a \<and>
      ap_healthTimeout a \<le> sv_ReadTimeout (ap_server a) \<and> ap_healthTimeout a \<le> sv_WriteTimeout (ap_server a) \<and>
      (1 < least_limit cfg \<longrightarrow>
        ap_healthTimeout a + second_ns \<le> min (sv_ReadTimeout (ap_server a)) (sv_WriteTimeout (ap_server a))))"

lemma config_problems_Nil: "config_problems cfg = [] \<longleftrightarrow> valid_rules cfg"
proof -
  have none: "map snd (filter fst xs) = [] \<longleftrightarrow> (\<forall>x \<in> set xs. \<not> fst x)" for xs :: "(bool \<times> string) list"
    by (simp add: filter_empty_conv)
  show ?thesis
    unfolding config_problems_def Let_def none list.set ball_simps fst_conv valid_rules_def imp_conv_disj
    by (simp only: not_le not_not de_Morgan_conj de_Morgan_disj simp_thms)
qed

lemma no_problems:
  assumes "config_problems cfg = []"
  shows "consistent_rules cfg" "valid_rules cfg"
    "0 < app_ReadTimeoutSeconds (cfg_App cfg)" "0 < app_WriteTimeoutSeconds (cfg_App cfg)"
    "0 < app_IdleTimeoutSeconds (cfg_App cfg)" "0 < app_ShutdownTimeoutSeconds (cfg_App cfg)"
    "0 < bc_LaunchTimeoutSeconds (cfg_Browser cfg)"
proof -
  show rules: "valid_rules cfg" using assms by (simp only: config_problems_Nil)
  then show "consistent_rules cfg"
    by (auto simp: valid_rules_def consistent_rules_def runtime_guardrails_of_def Let_def)
  show "0 < app_ReadTimeoutSeconds (cfg_App cfg)" "0 < app_WriteTimeoutSeconds (cfg_App cfg)"
    "0 < app_IdleTimeoutSeconds (cfg_App cfg)" "0 < app_ShutdownTimeoutSeconds (cfg_App cfg)"
    "0 < bc_LaunchTimeoutSeconds (cfg_Browser cfg)"
    using rules by (simp_all only: valid_rules_def simp_thms)
qed

text \<open>\<open>minPositive\<close> of positive values is the least of them.\<close>

lemma minPositive_three:
  assumes "0 < a" "0 < b" "0 < (c :: int)"
  shows "minPositive [a, b, c] = min a (min b c)"
  using assms by (simp add: minPositive_def Let_def)

lemma runners_exist:
  assumes "engine \<in> {''mock'', ''playwright''}"
  obtains f b v where "NewFollowFlowRunner env decode fa engine = Inr f" "NewBootstrapLoginRunner env ba engine resolver = Inr b"
    "NewVerifyFlowRunner env va engine = Inr v"
  using assms by (auto simp: NewFollowFlowRunner_def NewBootstrapLoginRunner_def NewVerifyFlowRunner_def)

lemma Record_same_core: "same_core w (snd (Log_Record pg_audit_log ctx ev w))"
  using pg_audit.best_effort_core [of w ctx ev] by (simp add: audit_best_effort_def pg_audit_log_def)

lemma wired_loop_interval: "0 < cl_loopInterval (wired_loop p)"
  by (simp add: wired_loop_def NewClaimLoop_def second_ns_def)

lemma refresh_interval:
  "5 * second_ns \<le> mr_interval (newOperationalMetricsRefresher t u v (operationalMetricsRefreshInterval n))"
  "mr_interval (newOperationalMetricsRefresher t u v (operationalMetricsRefreshInterval n)) \<le> 300 * second_ns"
  by (auto simp: newOperationalMetricsRefresher_def operationalMetricsRefreshInterval_def Let_def second_ns_def)

text \<open>The dependencies of a configuration with a known engine, given packages that take it.\<close>

lemma buildRuntimeDependencies_Inr:
  assumes "packages_accept pk cfg" "bc_Engine (cfg_Browser cfg) \<in> {''mock'', ''playwright''}"
  obtains p w' where "same_core w w'"
    "buildRuntimeDependencies pk cfg health w =
       (Inr (runtime_of pk cfg p), w')"
    "wp_guardrails p = runtime_guardrails_of cfg" "wp_bucket p = mc_Bucket (cfg_MinIO cfg)"
    "BootstrapLoginEnabled (wp_policy p) = sc_BootstrapLoginEnabled (cfg_Session cfg)"
    "AllowMissingPayloadOnFirstRun (wp_policy p) = sc_AllowMissingPayloadOnFirstRun (cfg_Session cfg)"
    "Inr (wp_follow p) = NewFollowFlowRunner (pk_runtime pk) (pk_decode_state pk) (pk_follow_adapter pk) (bc_Engine (cfg_Browser cfg))"
    "Inr (wp_verify p) = NewVerifyFlowRunner (pk_runtime pk) (pk_verify_adapter pk) (bc_Engine (cfg_Browser cfg))"
    "Inr (wp_bootstrap p) = NewBootstrapLoginRunner (pk_runtime pk) (pk_bootstrap_adapter pk) (bc_Engine (cfg_Browser cfg))
       (Some (Resolve (pk_runtime pk) (NewResolver (pk_LookupEnv pk) (pk_ReadFile pk))))"
proof -
  from assms(1) obtain c m where open_packages: "pk_ParseConfig pk (cfg_PostgresURL cfg) = Inr c" "pk_NewWithConfig pk c = None"
    "pk_minio_New pk (mc_Endpoint (cfg_MinIO cfg)) (mc_AccessKey (cfg_MinIO cfg)) (mc_SecretKey (cfg_MinIO cfg))
       (mc_UseSSL (cfg_MinIO cfg)) = Inr m"
    by (auto simp: packages_accept_def split: sum.splits)
  obtain f b v where runners:
    "NewFollowFlowRunner (pk_runtime pk) (pk_decode_state pk) (pk_follow_adapter pk) (bc_Engine (cfg_Browser cfg)) = Inr f"
    "NewBootstrapLoginRunner (pk_runtime pk) (pk_bootstrap_adapter pk) (bc_Engine (cfg_Browser cfg))
       (Some (Resolve (pk_runtime pk) (NewResolver (pk_LookupEnv pk) (pk_ReadFile pk)))) = Inr b"
    "NewVerifyFlowRunner (pk_runtime pk) (pk_verify_adapter pk) (bc_Engine (cfg_Browser cfg)) = Inr v"
    by (rule runners_exist [OF assms(2)])
  let ?w1 = "snd (Log_Record pg_audit_log bootstrap_ctx (guardrails_loaded (runtime_guardrails_of cfg)) w)"
  let ?w2 = "snd (Log_Record pg_audit_log bootstrap_ctx (baseline_verified (app_Name (cfg_App cfg))) ?w1)"
  have "same_core w ?w2" by (rule same_core_trans [OF Record_same_core Record_same_core])
  then show ?thesis
    using that [of ?w2 "parts_of_config pk cfg health m b f v"] open_packages runners
    by (simp add: buildRuntimeDependencies_def parts_of_config_def Let_def)
qed

lemma good_timing_config:
  assumes "config_problems cfg = []"
    "ap_server a = \<lparr>sv_Address = address, sv_ReadTimeout = seconds_duration (app_ReadTimeoutSeconds (cfg_App cfg)),
       sv_WriteTimeout = seconds_duration (app_WriteTimeoutSeconds (cfg_App cfg)),
       sv_IdleTimeout = seconds_duration (app_IdleTimeoutSeconds (cfg_App cfg))\<rparr>"
    "ap_shutdownTimeout a = seconds_duration (app_ShutdownTimeoutSeconds (cfg_App cfg))"
    "ap_healthTimeout a = healthCheckTimeout cfg" "ap_claimLoop a = wired_loop p"
    "ap_metricsRefresher a = newOperationalMetricsRefresher t u v (operationalMetricsRefreshInterval n)"
  shows "good_timing cfg a"
proof -
  note pos = no_problems(3-7) [OF assms(1)]
  have "?thesis" if big: "app_ReadTimeoutSeconds (cfg_App cfg) \<le> max_seconds" "app_WriteTimeoutSeconds (cfg_App cfg) \<le> max_seconds"
    "app_IdleTimeoutSeconds (cfg_App cfg) \<le> max_seconds" "app_ShutdownTimeoutSeconds (cfg_App cfg) \<le> max_seconds"
    "bc_LaunchTimeoutSeconds (cfg_Browser cfg) \<le> max_seconds"
  proof -
    let ?r = "app_ReadTimeoutSeconds (cfg_App cfg)" and ?w = "app_WriteTimeoutSeconds (cfg_App cfg)"
      and ?l = "bc_LaunchTimeoutSeconds (cfg_Browser cfg)"
    define m where "m = min ?l (min ?r ?w)"
    have least: "least_limit cfg = m" by (simp add: m_def least_limit_def)
    have m: "1 \<le> m" "m \<le> ?r" "m \<le> ?w" using pos by (simp_all add: m_def min_def)
    have health: "healthCheckTimeout cfg = (if m \<le> 1 then second_ns else (m - 1) * second_ns)"
      using pos m big seconds_duration_small [of "m - 1"]
      by (simp add: healthCheckTimeout_def Let_def minPositive_three flip: m_def)
    have dur: "seconds_duration s = s * second_ns" if "0 < s" "s \<le> max_seconds" for s
      using seconds_duration_small that by simp
    show ?thesis
      unfolding good_timing_def assms(2-6) server_config.simps health dur [OF pos(1) big(1)] dur [OF pos(2) big(2)]
        dur [OF pos(3) big(3)] dur [OF pos(4) big(4)] least
      using m pos refresh_interval wired_loop_interval by (auto simp: second_ns_def min_def)
  qed
  then show ?thesis
    using refresh_interval wired_loop_interval unfolding good_timing_def assms(5,6) by (meson max.bounded_iff)
qed

text \<open>
  C10.  A configuration that \<open>Load\<close> accepts obeys every rule of \<open>Validate\<close>, each variable of the environment that is set
  decides its field, and when the packages take its database and object store the process starts: with the guard rails,
  the bucket and the session policy it gives, and the three browser runners of its engine.  The intervals of the loop and
  of the metrics are positive.  Up to 9223372036 seconds (\<open>max_seconds\<close>) the timeouts of the server are those of the
  configuration, and a health check ends a second before the server gives up, or takes as long when a limit is one
  second; above, a duration wraps (\<open>accepted_timeout_wraps\<close>).  Starting changes nothing in the tables but the audit log.
\<close>

theorem loaded_config_starts:
  assumes "Load read decode lookup path = Inr cfg" "packages_accept pk cfg"
  shows "\<exists>raw base a w'. read (if TrimSpace path = '''' then ''config.yaml'' else TrimSpace path) = Inr raw \<and>
    decode raw defaultConfig = Inr base \<and> (\<forall>s \<in> set override_settings. setting_holds lookup base cfg s) \<and>
    App_New pk cfg w = (Inr a, w') \<and> valid_rules cfg \<and> consistent_rules cfg \<and> built_from pk cfg a \<and> good_timing cfg a \<and> same_core w w'"
proof -
  from assms(1) obtain raw base where loaded: "read (if TrimSpace path = '''' then ''config.yaml'' else TrimSpace path) = Inr raw"
    "decode raw defaultConfig = Inr base" "\<forall>s \<in> set override_settings. setting_holds lookup base cfg s"
    and rules: "config_problems cfg = []" by (rule Load_Inr)
  have engine: "bc_Engine (cfg_Browser cfg) \<in> {''mock'', ''playwright''}"
    using no_problems(1) [OF rules] by (auto simp: consistent_rules_def Let_def)
  let ?w1 = "w\<lparr>ax_taskMetrics := Some NewTaskLifecycleMetrics, ax_adminMetrics := Some NewAdminAPIMetrics\<rparr>"
  have w1: "same_core w ?w1" by (simp add: same_core_def)
  show ?thesis
  proof (rule buildRuntimeDependencies_Inr [OF assms(2) engine, of ?w1 "observed_health pk cfg"])
    fix p w'
    assume core: "same_core ?w1 w'" and build: "buildRuntimeDependencies pk cfg (observed_health pk cfg) ?w1 =
       (Inr (runtime_of pk cfg p), w')"
      and parts: "wp_guardrails p = runtime_guardrails_of cfg" "wp_bucket p = mc_Bucket (cfg_MinIO cfg)"
        "BootstrapLoginEnabled (wp_policy p) = sc_BootstrapLoginEnabled (cfg_Session cfg)"
        "AllowMissingPayloadOnFirstRun (wp_policy p) = sc_AllowMissingPayloadOnFirstRun (cfg_Session cfg)"
        "Inr (wp_follow p) = NewFollowFlowRunner (pk_runtime pk) (pk_decode_state pk) (pk_follow_adapter pk) (bc_Engine (cfg_Browser cfg))"
        "Inr (wp_verify p) = NewVerifyFlowRunner (pk_runtime pk) (pk_verify_adapter pk) (bc_Engine (cfg_Browser cfg))"
        "Inr (wp_bootstrap p) = NewBootstrapLoginRunner (pk_runtime pk) (pk_bootstrap_adapter pk) (bc_Engine (cfg_Browser cfg))
           (Some (Resolve (pk_runtime pk) (NewResolver (pk_LookupEnv pk) (pk_ReadFile pk))))"
    obtain a where a: "App_New pk cfg w = (Inr a, w')" by (simp add: App_New_def Let_def build)
    then have "built_from pk cfg a" using parts by (auto simp: App_New_def Let_def build built_from_def runtime_of_def)
    moreover have "good_timing cfg a"
      using a by (intro good_timing_config [OF rules]) (auto simp: App_New_def Let_def build buildHealthService_def runtime_of_def)
    ultimately show ?thesis using loaded a no_problems(1,2) [OF rules] same_core_trans [OF w1 core] by blast
  qed
qed

definition sample_config :: config where
  "sample_config = defaultConfig
     \<lparr>cfg_App := (cfg_App defaultConfig)\<lparr>app_Name := ''follower'', app_Env := ''test''\<rparr>, cfg_PostgresURL := ''postgres://db'',
      cfg_MinIO := \<lparr>mc_Endpoint = ''minio:9000'', mc_AccessKey = ''key'', mc_SecretKey = ''secret'', mc_UseSSL = False,
                    mc_Bucket = ''sessions''\<rparr>,
      cfg_Browser := \<lparr>bc_Engine = ''mock'', bc_Headless = True, bc_LaunchTimeoutSeconds = 30\<rparr>\<rparr>"

text \<open>A timeout above \<open>max_seconds\<close> is accepted and runs as a negative duration.\<close>

lemma accepted_timeout_wraps:
  "Config_Validate (sample_config\<lparr>cfg_App := (cfg_App sample_config)\<lparr>app_ReadTimeoutSeconds := max_seconds + 1\<rparr>\<rparr>) = None \<and>
   seconds_duration (max_seconds + 1) < 0"
  by code_simp

definition sample_packages :: "(unit, unit, unit, unit, app_world) packages" where
  "sample_packages =
     \<lparr>pk_ParseConfig = (\<lambda>url. Inr ()), pk_NewWithConfig = (\<lambda>c. None), pk_ClosePool = (\<lambda>w. w),
      pk_minio_New = (\<lambda>e k s u. Inr ()),
      pk_minio_sdk = (\<lambda>m. \<lparr>sdk_PutObject = (\<lambda>b k p t w. (None, w)), sdk_GetObject = (\<lambda>b k w. (Inr (), w)),
                          sdk_ReadAll = (\<lambda>r w. (Inr [], w)), sdk_RemoveObject = (\<lambda>b k w. (None, w)),
                          sdk_response = (\<lambda>e. None)\<rparr>),
      pk_BucketExists = (\<lambda>m ctx b w. ((True, None), w)), pk_Connect = (\<lambda>ctx url w. (None, w)),
      pk_Ping = (\<lambda>ctx w. (None, w)), pk_CloseConn = (\<lambda>ctx w. w), pk_RunPlaywright = (\<lambda>ctx w. (CheckRan None, w)),
      pk_runtime = \<lparr>env_now = db_now, env_ctxErr = (\<lambda>ctx w. None)\<rparr>, pk_decode_state = (\<lambda>b. None),
      pk_follow_adapter = \<lparr>fa_Warmup = (\<lambda>ctx i w. (None, w)), fa_RunFollowAction = (\<lambda>ctx i w. (Inr FollowFlowOutcomeCompleted, w))\<rparr>,
      pk_verify_adapter = (\<lambda>ctx i w. (Inl CtxCanceled, w)),
      pk_bootstrap_adapter = (\<lambda>ctx c w. ((BootstrapLoginOutcomeSuccess, [], [], None), w)), pk_png_Encode = (\<lambda>m. Inr []),
      pk_LookupEnv = (\<lambda>w k. None), pk_ReadFile = (\<lambda>w p. Inr ''{}''), pk_Getpid = 7, pk_check_order = (\<lambda>w. [0, 1, 2]),
      pk_uuid_Parse = Some, pk_csv_reason = (\<lambda>e. '''')\<rparr>"

definition sample_app_world :: app_world where
  "sample_app_world =
     storage.extend (db.extend (sample_db []) \<lparr>seq_last = Map.empty\<rparr>) \<lparr>ax_taskMetrics = None, ax_adminMetrics = None\<rparr>"

lemma sample_loads:
  "Load (\<lambda>p. Inr ()) (\<lambda>raw base. Inr (sample_config\<lparr>cfg_ProxyEnabled := True\<rparr>))
     (\<lambda>k. if k = ''FOLLOWER_PROXY_ENABLED'' then Some '' false'' else None) '''' =
   Inr (sample_config\<lparr>cfg_ProxyEnabled := False\<rparr>)"
  by code_simp

lemma sample_accepts: "packages_accept sample_packages (sample_config\<lparr>cfg_ProxyEnabled := False\<rparr>)"
  by (simp add: packages_accept_def sample_packages_def)

lemma loaded_config_starts_witness:
  "\<exists>a w'. App_New sample_packages (sample_config\<lparr>cfg_ProxyEnabled := False\<rparr>) sample_app_world = (Inr a, w') \<and>
     good_timing (sample_config\<lparr>cfg_ProxyEnabled := False\<rparr>) a \<and> same_core sample_app_world w'"
  using loaded_config_starts [OF sample_loads sample_accepts, of sample_app_world] by blast

end
