(* ===== verification/Admin_Wire.thy ===== *)
theory Admin_Wire
  imports Admin_Api Json_Decode
begin

text \<open>
  The bodies of the administration interface as the text \<open>json.Encoder\<close> writes: the field tags of the data of
  \<open>internal/transport/http\<close>, and the form in which a server answers a request.

  The text of a time (RFC 3339) is a parameter.  A field with \<open>omitempty\<close> is left out when it is empty.
\<close>

section \<open>Data\<close>

type_synonym time_text = "time \<Rightarrow> string"

definition nullable_json :: "string option \<Rightarrow> json" where
  "nullable_json v = (case v of None \<Rightarrow> JNull | Some s \<Rightarrow> JString s)"

definition time_json :: "time_text \<Rightarrow> time option \<Rightarrow> json" where
  "time_json fmt v = (case v of None \<Rightarrow> JNull | Some t \<Rightarrow> JString (fmt t))"

definition strings_json :: "string list \<Rightarrow> json" where
  "strings_json ss = (if ss = [] then JNull else JArray (map JString ss))"

definition task_list_json :: "time_text \<Rightarrow> task_list_dto \<Rightarrow> json" where
  "task_list_json fmt d = JObject
     [(''id'', JString (tld_ID d)), (''account_id'', JString (tld_AccountID d)),
      (''target_profile'', JString (tld_TargetProfile d)), (''status'', JString (tld_Status d)),
      (''attempt'', JInt (tld_Attempt d)), (''error_code'', nullable_json (tld_ErrorCode d)),
      (''result_reason'', nullable_json (tld_ResultReason d)), (''updated_at'', time_json fmt (Some (tld_UpdatedAt d)))]"

definition attempt_context_json :: "task_attempt_context_dto \<Rightarrow> json" where
  "attempt_context_json d = JObject
     [(''outcome'', JString (tac_Outcome d)), (''verified'', JBool (tac_Verified d)),
      (''verification_signal'', JString (tac_VerificationSignal d)),
      (''verification_reason'', nullable_json (tac_VerificationReason d)), (''error_code'', nullable_json (tac_ErrorCode d)),
      (''screenshot_object_key'', JString (tac_ScreenshotObjectKey d)),
      (''artifact_object_keys'', strings_json (tac_ArtifactObjectKeys d))]"

definition task_detail_json :: "time_text \<Rightarrow> task_detail_dto \<Rightarrow> json" where
  "task_detail_json fmt d = JObject
     [(''id'', JString (tdd_ID d)), (''source_task_id'', nullable_json (tdd_SourceTaskID d)),
      (''account_id'', JString (tdd_AccountID d)), (''target_profile'', JString (tdd_TargetProfile d)),
      (''status'', JString (tdd_Status d)), (''attempt'', JInt (tdd_Attempt d)),
      (''claimed_by'', nullable_json (tdd_ClaimedBy d)), (''claimed_at'', time_json fmt (tdd_ClaimedAt d)),
      (''started_at'', time_json fmt (tdd_StartedAt d)), (''finished_at'', time_json fmt (tdd_FinishedAt d)),
      (''error_code'', nullable_json (tdd_ErrorCode d)), (''result_reason'', nullable_json (tdd_ResultReason d)),
      (''created_at'', time_json fmt (Some (tdd_CreatedAt d))), (''updated_at'', time_json fmt (Some (tdd_UpdatedAt d))),
      (''attempt_context'', case tdd_AttemptContext d of None \<Rightarrow> JNull | Some c \<Rightarrow> attempt_context_json c)]"

definition task_failure_json :: "time_text \<Rightarrow> task_failure_dto \<Rightarrow> json" where
  "task_failure_json fmt d = JObject
     [(''id'', JString (tfd_ID d)), (''account_id'', JString (tfd_AccountID d)),
      (''target_profile'', JString (tfd_TargetProfile d)), (''status'', JString (tfd_Status d)),
      (''attempt'', JInt (tfd_Attempt d)), (''error_code'', nullable_json (tfd_ErrorCode d)),
      (''result_reason'', nullable_json (tfd_ResultReason d)), (''updated_at'', time_json fmt (Some (tfd_UpdatedAt d))),
      (''follow_outcome'', nullable_json (tfd_FollowOutcome d)),
      (''verification_signal'', nullable_json (tfd_VerificationSignal d))]"

text \<open>A pointer with \<open>omitempty\<close>.\<close>

definition optional_field :: "string \<Rightarrow> string option \<Rightarrow> (string \<times> json) list" where
  "optional_field name v = (case v of None \<Rightarrow> [] | Some s \<Rightarrow> [(name, JString s)])"

definition retry_json :: "task_retry_response \<Rightarrow> json" where
  "retry_json d = JObject
     ([(''source_task_id'', JString (trr_SourceTaskID d)), (''new_task_id'', JString (trr_NewTaskID d)),
       (''status'', JString (trr_Status d))] @ optional_field ''correlation_id'' (trr_CorrelationID d))"

definition cancel_json :: "task_cancel_response \<Rightarrow> json" where
  "cancel_json d = JObject
     ([(''task_id'', JString (tcr_TaskID d)), (''status'', JString (tcr_Status d)),
       (''result_reason'', JString (tcr_ResultReason d))] @ optional_field ''correlation_id'' (tcr_CorrelationID d))"

definition row_error_json :: "csv_row_error \<Rightarrow> json" where
  "row_error_json e = JObject
     [(''row'', JInt (cre_Row e)), (''code'', JString (cre_Code e)), (''field'', JString (cre_Field e)),
      (''message'', JString (cre_Message e))]"

definition skipped_row_json :: "skipped_row \<Rightarrow> json" where
  "skipped_row_json e = JObject
     [(''row'', JInt (sk_Row e)), (''code'', JString (sk_Code e)), (''message'', JString (sk_Message e))]"

definition import_json :: "csv_import_report \<Rightarrow> json" where
  "import_json d = JObject
     [(''rows_total'', JInt (cir_RowsTotal d)), (''rows_valid'', JInt (cir_RowsValid d)),
      (''rows_invalid'', JInt (cir_RowsInvalid d)), (''rows_created'', JInt (int (cir_RowsCreated d))),
      (''rows_skipped'', JInt (int (cir_RowsSkipped d))),
      (''summary'', JObject [(''created'', JInt (int (cir_Created d))), (''skipped'', JInt (int (cir_Skipped d))),
                             (''errors'', JInt (cir_Errors d))]),
      (''invalid_rows'', JArray (map row_error_json (cir_InvalidRows d))),
      (''skipped_rows'', JArray (map skipped_row_json (cir_SkippedRows d)))]"

fun data_json :: "time_text \<Rightarrow> response_data \<Rightarrow> json" where
  "data_json fmt (DataTasks ds) = JObject [(''tasks'', JArray (map (task_list_json fmt) ds))]"
| "data_json fmt (DataFailures ds) = JObject [(''tasks'', JArray (map (task_failure_json fmt) ds))]"
| "data_json fmt (DataDetail d) = task_detail_json fmt d"
| "data_json fmt (DataRetry d) = retry_json d"
| "data_json fmt (DataCancel d) = cancel_json d"
| "data_json fmt (DataImport d) = import_json d"


section \<open>Envelopes\<close>

definition report_json :: "csv_validation_report \<Rightarrow> json" where
  "report_json d = JObject
     [(''rows_total'', JInt (cvp_RowsTotal d)), (''rows_valid'', JInt (cvp_RowsValid d)),
      (''rows_invalid'', JInt (cvp_RowsInvalid d)), (''invalid_rows'', JArray (map row_error_json (cvp_InvalidRows d)))]"

text \<open>A map is written with its keys in order.\<close>

fun details_field :: "error_details \<Rightarrow> (string \<times> json) list" where
  "details_field NoDetails = []"
| "details_field (DetailMap fs) = [(''details'', JObject (sort_key fst fs))]"
| "details_field (DetailReport r) = [(''details'', report_json r)]"

definition error_json :: "admin_error_payload \<Rightarrow> json" where
  "error_json e = JObject
     ([(''code'', JString (aep_Code e)), (''message'', JString (aep_Message e))] @ details_field (aep_Details e))"

definition meta_json :: "string \<Rightarrow> json" where
  "meta_json correlationID = JObject (if correlationID = '''' then [] else [(''correlation_id'', JString correlationID)])"

definition envelope_json :: "time_text \<Rightarrow> admin_envelope \<Rightarrow> json" where
  "envelope_json fmt e = JObject
     [(''data'', case env_Data e of None \<Rightarrow> JNull | Some d \<Rightarrow> data_json fmt d),
      (''error'', case env_Error e of None \<Rightarrow> JNull | Some p \<Rightarrow> error_json p),
      (''meta'', meta_json (env_CorrelationID e))]"


section \<open>What is sent\<close>

fun body_text :: "time_text \<Rightarrow> response_body \<Rightarrow> string" where
  "body_text fmt (EnvelopeBody e) = json_Encode (envelope_json fmt e)"
| "body_text fmt (TextBody s) = s"

text \<open>The status a writer has sent and the text of its body.\<close>

definition sent_response :: "time_text \<Rightarrow> response_writer \<Rightarrow> int \<times> string" where
  "sent_response fmt rw =
     ((case rw_Sent rw of None \<Rightarrow> 200 | Some st \<Rightarrow> st), (case rw_Body rw of None \<Rightarrow> '''' | Some b \<Rightarrow> body_text fmt b))"

lemma wire_depth [simp]:
  "json_depth (nullable_json v) = 0" "json_depth (time_json fmt t) = 0" "json_depth (meta_json m) = 1"
  by (simp_all add: nullable_json_def time_json_def meta_json_def split: option.split)

lemma mutation_depth [simp]: "json_depth (retry_json r) = 1" "json_depth (cancel_json c) = 1"
  by (cases "trr_CorrelationID r"; simp add: retry_json_def optional_field_def)
    (cases "tcr_CorrelationID c"; simp add: cancel_json_def optional_field_def)

end
