(* ===== verification/Admin_Client.thy ===== *)
theory Admin_Client
  imports Json_Decode Errors Diagnostics
begin

text \<open>
  \<open>internal/cli/adminclient\<close>: the client of the administration interface, \<open>client.go\<close> and \<open>types.go\<close>.

  \<open>url.Parse\<close>, \<open>http.NewRequestWithContext\<close> and \<open>http.Client.Do\<close> are functions the client is made with; a response is its
  status and its body, or the error of reading it.  Bodies are decoded by \<open>json.Unmarshal\<close> as \<open>Json_Decode\<close> has it; the
  text of a time is read by a parameter.
\<close>

section \<open>Types\<close>

definition zero_Time :: time where
  "zero_Time = - 62135596800000000000"

record task_list_item =
  tli_ID :: string
  tli_AccountID :: string
  tli_TargetProfile :: string
  tli_Status :: string
  tli_Attempt :: int
  tli_ErrorCode :: "string option"
  tli_ResultReason :: "string option"
  tli_UpdatedAt :: time

record task_attempt_context =
  tc_Outcome :: string
  tc_Verified :: bool
  tc_VerificationSignal :: string
  tc_VerificationReason :: "string option"
  tc_ErrorCode :: "string option"
  tc_ScreenshotObjectKey :: string
  tc_ArtifactObjectKeys :: "string list"

record task_detail =
  td_ID :: string
  td_AccountID :: string
  td_TargetProfile :: string
  td_Status :: string
  td_Attempt :: int
  td_ClaimedBy :: "string option"
  td_ClaimedAt :: "time option"
  td_StartedAt :: "time option"
  td_FinishedAt :: "time option"
  td_ErrorCode :: "string option"
  td_ResultReason :: "string option"
  td_CreatedAt :: time
  td_UpdatedAt :: time
  td_AttemptContext :: "task_attempt_context option"

record task_failure_item =
  tfi_ID :: string
  tfi_AccountID :: string
  tfi_TargetProfile :: string
  tfi_Status :: string
  tfi_Attempt :: int
  tfi_ErrorCode :: "string option"
  tfi_ResultReason :: "string option"
  tfi_UpdatedAt :: time
  tfi_FollowOutcome :: "string option"
  tfi_VerificationSignal :: "string option"

record retry_response =
  rr_SourceTaskID :: string
  rr_NewTaskID :: string
  rr_Status :: string
  rr_CorrelationID :: string

record cancel_response =
  cr_TaskID :: string
  cr_Status :: string
  cr_ResultReason :: string
  cr_CorrelationID :: string

text \<open>The values a decoder starts from.\<close>

definition no_list_item :: task_list_item where
  "no_list_item = \<lparr>tli_ID = '''', tli_AccountID = '''', tli_TargetProfile = '''', tli_Status = '''', tli_Attempt = 0,
     tli_ErrorCode = None, tli_ResultReason = None, tli_UpdatedAt = zero_Time\<rparr>"

definition no_attempt_context :: task_attempt_context where
  "no_attempt_context = \<lparr>tc_Outcome = '''', tc_Verified = False, tc_VerificationSignal = '''', tc_VerificationReason = None,
     tc_ErrorCode = None, tc_ScreenshotObjectKey = '''', tc_ArtifactObjectKeys = []\<rparr>"

definition no_detail :: task_detail where
  "no_detail = \<lparr>td_ID = '''', td_AccountID = '''', td_TargetProfile = '''', td_Status = '''', td_Attempt = 0,
     td_ClaimedBy = None, td_ClaimedAt = None, td_StartedAt = None, td_FinishedAt = None, td_ErrorCode = None,
     td_ResultReason = None, td_CreatedAt = zero_Time, td_UpdatedAt = zero_Time, td_AttemptContext = None\<rparr>"

definition no_failure_item :: task_failure_item where
  "no_failure_item = \<lparr>tfi_ID = '''', tfi_AccountID = '''', tfi_TargetProfile = '''', tfi_Status = '''', tfi_Attempt = 0,
     tfi_ErrorCode = None, tfi_ResultReason = None, tfi_UpdatedAt = zero_Time, tfi_FollowOutcome = None,
     tfi_VerificationSignal = None\<rparr>"

definition no_retry :: retry_response where
  "no_retry = \<lparr>rr_SourceTaskID = '''', rr_NewTaskID = '''', rr_Status = '''', rr_CorrelationID = ''''\<rparr>"

definition no_cancel :: cancel_response where
  "no_cancel = \<lparr>cr_TaskID = '''', cr_Status = '''', cr_ResultReason = '''', cr_CorrelationID = ''''\<rparr>"

type_synonym time_parser = "string \<Rightarrow> time option"

abbreviation decode_string_ptr :: "string option json_decoder" where
  "decode_string_ptr \<equiv> decode_ptr '''' decode_string"

definition list_item_fields :: "time_parser \<Rightarrow> task_list_item json_fields" where
  "list_item_fields parse =
     [jfield ''id'' tli_ID tli_ID_update decode_string, jfield ''account_id'' tli_AccountID tli_AccountID_update decode_string,
      jfield ''target_profile'' tli_TargetProfile tli_TargetProfile_update decode_string,
      jfield ''status'' tli_Status tli_Status_update decode_string, jfield ''attempt'' tli_Attempt tli_Attempt_update decode_int,
      jfield ''error_code'' tli_ErrorCode tli_ErrorCode_update decode_string_ptr,
      jfield ''result_reason'' tli_ResultReason tli_ResultReason_update decode_string_ptr,
      jfield ''updated_at'' tli_UpdatedAt tli_UpdatedAt_update (decode_time parse)]"

definition attempt_context_fields :: "task_attempt_context json_fields" where
  "attempt_context_fields =
     [jfield ''outcome'' tc_Outcome tc_Outcome_update decode_string, jfield ''verified'' tc_Verified tc_Verified_update decode_bool,
      jfield ''verification_signal'' tc_VerificationSignal tc_VerificationSignal_update decode_string,
      jfield ''verification_reason'' tc_VerificationReason tc_VerificationReason_update decode_string_ptr,
      jfield ''error_code'' tc_ErrorCode tc_ErrorCode_update decode_string_ptr,
      jfield ''screenshot_object_key'' tc_ScreenshotObjectKey tc_ScreenshotObjectKey_update decode_string,
      jfield ''artifact_object_keys'' tc_ArtifactObjectKeys tc_ArtifactObjectKeys_update (decode_slice '''' decode_string)]"

definition detail_fields :: "time_parser \<Rightarrow> task_detail json_fields" where
  "detail_fields parse =
     [jfield ''id'' td_ID td_ID_update decode_string, jfield ''account_id'' td_AccountID td_AccountID_update decode_string,
      jfield ''target_profile'' td_TargetProfile td_TargetProfile_update decode_string,
      jfield ''status'' td_Status td_Status_update decode_string, jfield ''attempt'' td_Attempt td_Attempt_update decode_int,
      jfield ''claimed_by'' td_ClaimedBy td_ClaimedBy_update decode_string_ptr,
      jfield ''claimed_at'' td_ClaimedAt td_ClaimedAt_update (decode_ptr zero_Time (decode_time parse)),
      jfield ''started_at'' td_StartedAt td_StartedAt_update (decode_ptr zero_Time (decode_time parse)),
      jfield ''finished_at'' td_FinishedAt td_FinishedAt_update (decode_ptr zero_Time (decode_time parse)),
      jfield ''error_code'' td_ErrorCode td_ErrorCode_update decode_string_ptr,
      jfield ''result_reason'' td_ResultReason td_ResultReason_update decode_string_ptr,
      jfield ''created_at'' td_CreatedAt td_CreatedAt_update (decode_time parse),
      jfield ''updated_at'' td_UpdatedAt td_UpdatedAt_update (decode_time parse),
      jfield ''attempt_context'' td_AttemptContext td_AttemptContext_update
        (decode_ptr no_attempt_context (decode_struct attempt_context_fields))]"

definition failure_item_fields :: "time_parser \<Rightarrow> task_failure_item json_fields" where
  "failure_item_fields parse =
     [jfield ''id'' tfi_ID tfi_ID_update decode_string, jfield ''account_id'' tfi_AccountID tfi_AccountID_update decode_string,
      jfield ''target_profile'' tfi_TargetProfile tfi_TargetProfile_update decode_string,
      jfield ''status'' tfi_Status tfi_Status_update decode_string, jfield ''attempt'' tfi_Attempt tfi_Attempt_update decode_int,
      jfield ''error_code'' tfi_ErrorCode tfi_ErrorCode_update decode_string_ptr,
      jfield ''result_reason'' tfi_ResultReason tfi_ResultReason_update decode_string_ptr,
      jfield ''updated_at'' tfi_UpdatedAt tfi_UpdatedAt_update (decode_time parse),
      jfield ''follow_outcome'' tfi_FollowOutcome tfi_FollowOutcome_update decode_string_ptr,
      jfield ''verification_signal'' tfi_VerificationSignal tfi_VerificationSignal_update decode_string_ptr]"

text \<open>A list response is its one field.\<close>

definition task_list_fields :: "time_parser \<Rightarrow> task_list_item list json_fields" where
  "task_list_fields parse =
     [jfield ''tasks'' (\<lambda>ts. ts) (\<lambda>f. f) (decode_slice no_list_item (decode_struct (list_item_fields parse)))]"

definition failures_fields :: "time_parser \<Rightarrow> task_failure_item list json_fields" where
  "failures_fields parse =
     [jfield ''tasks'' (\<lambda>ts. ts) (\<lambda>f. f) (decode_slice no_failure_item (decode_struct (failure_item_fields parse)))]"

definition retry_fields :: "retry_response json_fields" where
  "retry_fields =
     [jfield ''source_task_id'' rr_SourceTaskID rr_SourceTaskID_update decode_string,
      jfield ''new_task_id'' rr_NewTaskID rr_NewTaskID_update decode_string,
      jfield ''status'' rr_Status rr_Status_update decode_string,
      jfield ''correlation_id'' rr_CorrelationID rr_CorrelationID_update decode_string]"

definition cancel_fields :: "cancel_response json_fields" where
  "cancel_fields =
     [jfield ''task_id'' cr_TaskID cr_TaskID_update decode_string, jfield ''status'' cr_Status cr_Status_update decode_string,
      jfield ''result_reason'' cr_ResultReason cr_ResultReason_update decode_string,
      jfield ''correlation_id'' cr_CorrelationID cr_CorrelationID_update decode_string]"


section \<open>Errors\<close>

datatype error_kind = ErrorKindValidation | ErrorKindNetwork | ErrorKindProtocol | ErrorKindAPI | ErrorKindOther string

text \<open>The cause is an error of a call, or of \<open>json.Unmarshal\<close>.\<close>

datatype client_cause = NoCause | CallCause go_error | JsonCause

record client_error =
  ce_Kind :: error_kind
  ce_Code :: string
  ce_Message :: string
  ce_StatusCode :: int
  ce_CorrelationID :: string
  ce_Cause :: client_cause

definition client_error_text :: "client_error option \<Rightarrow> string" where
  "client_error_text e =
     (case e of None \<Rightarrow> ''''
      | Some err \<Rightarrow> if ce_Message err \<noteq> '''' then ce_Message err else ''admin API request failed'')"

definition client_error_Unwrap :: "client_error option \<Rightarrow> client_cause" where
  "client_error_Unwrap e = (case e of None \<Rightarrow> NoCause | Some err \<Rightarrow> ce_Cause err)"

definition validation_error :: "string \<Rightarrow> string \<Rightarrow> client_cause \<Rightarrow> client_error" where
  "validation_error code message cause =
     \<lparr>ce_Kind = ErrorKindValidation, ce_Code = code, ce_Message = message, ce_StatusCode = 0, ce_CorrelationID = '''',
      ce_Cause = cause\<rparr>"

definition malformed_response :: "int \<Rightarrow> string \<Rightarrow> client_cause \<Rightarrow> client_error" where
  "malformed_response statusCode correlationID cause =
     \<lparr>ce_Kind = ErrorKindProtocol, ce_Code = ''API_MALFORMED_RESPONSE'', ce_Message = ''admin API returned malformed response'',
      ce_StatusCode = statusCode, ce_CorrelationID = correlationID, ce_Cause = cause\<rparr>"

definition network_error :: "go_error \<Rightarrow> client_error" where
  "network_error err =
     \<lparr>ce_Kind = ErrorKindNetwork, ce_Code = ''NETWORK_ERROR'', ce_Message = ''admin API request failed'', ce_StatusCode = 0,
      ce_CorrelationID = '''', ce_Cause = CallCause err\<rparr>"

definition api_failure :: "string \<Rightarrow> string \<Rightarrow> int \<Rightarrow> string \<Rightarrow> client_error" where
  "api_failure code message statusCode correlationID =
     \<lparr>ce_Kind = ErrorKindAPI, ce_Code = code, ce_Message = message, ce_StatusCode = statusCode,
      ce_CorrelationID = correlationID, ce_Cause = NoCause\<rparr>"


section \<open>Client\<close>

record http_response =
  hr_StatusCode :: int
  hr_Body :: "go_error + string"

record 'w http_client =
  hc_NewRequest :: "string \<Rightarrow> string \<Rightarrow> go_error option"
  hc_Do :: "go_context \<Rightarrow> string \<Rightarrow> string \<Rightarrow> 'w \<Rightarrow> (go_error + http_response) \<times> 'w"

record 'w admin_client =
  ac_baseURL :: string
  ac_httpClient :: "'w http_client"

text \<open>What \<open>url.Parse\<close> gives: the scheme and the host.\<close>

definition Client_New ::
  "(string \<Rightarrow> go_error + string \<times> string) \<Rightarrow> 'w http_client \<Rightarrow> string \<Rightarrow> 'w http_client option \<Rightarrow> client_error + 'w admin_client" where
  "Client_New url_Parse default_client baseURL httpClient =
     (let normalizedURL = TrimSpace baseURL in
      if normalizedURL = '''' then Inl (validation_error ''CLI_CONFIG_ERROR'' ''admin API base URL is required'' NoCause)
      else case url_Parse normalizedURL of
          Inl err \<Rightarrow> Inl (validation_error ''CLI_CONFIG_ERROR'' ''admin API base URL must be a valid absolute URL'' (CallCause err))
        | Inr (scheme, host) \<Rightarrow>
            if scheme = '''' \<or> host = '''' then
              Inl (validation_error ''CLI_CONFIG_ERROR'' ''admin API base URL must be a valid absolute URL'' NoCause)
            else Inr \<lparr>ac_baseURL = rev (dropWhile (\<lambda>c. c = CHR ''/'') (rev normalizedURL)),
                      ac_httpClient = (case httpClient of None \<Rightarrow> default_client | Some c \<Rightarrow> c)\<rparr>)"

record response_envelope =
  re_Data :: "jvalue option"
  re_Error :: "(string \<times> string) option"
  re_Meta :: "jvalue option"

text \<open>The code and the message of an error.\<close>

definition api_error_fields :: "(string \<times> string) json_fields" where
  "api_error_fields =
     [jfield ''code'' fst apfst decode_string, jfield ''message'' snd apsnd decode_string]"

definition envelope_fields :: "response_envelope json_fields" where
  "envelope_fields =
     [jfield ''data'' re_Data re_Data_update decode_raw,
      jfield ''error'' re_Error re_Error_update (decode_ptr ('''', '''') (decode_struct api_error_fields)),
      jfield ''meta'' re_Meta re_Meta_update decode_raw]"

definition no_envelope :: response_envelope where
  "no_envelope = \<lparr>re_Data = None, re_Error = None, re_Meta = None\<rparr>"

text \<open>The correlation of the metadata.\<close>

definition meta_fields :: "string json_fields" where
  "meta_fields = [jfield ''correlation_id'' (\<lambda>s. s) (\<lambda>f. f) decode_string]"

definition parseResponseMeta :: "jvalue option \<Rightarrow> string" where
  "parseResponseMeta raw =
     (case raw of
        None \<Rightarrow> ''''
      | Some VNull \<Rightarrow> ''''
      | Some v \<Rightarrow> (case decode_struct meta_fields v '''' of None \<Rightarrow> '''' | Some c \<Rightarrow> TrimSpace c))"

definition max_body :: nat where
  "max_body = 4 * 1024 * 1024"

text \<open>\<open>request\<close> from the response on.\<close>

definition read_response :: "'a json_decoder \<Rightarrow> 'a \<Rightarrow> http_response \<Rightarrow> client_error + 'a \<times> string" where
  "read_response dec zero resp =
     (case hr_Body resp of
        Inl err \<Rightarrow> Inl (malformed_response (hr_StatusCode resp) '''' (CallCause err))
      | Inr text \<Rightarrow>
        (case json_Unmarshal (decode_struct envelope_fields) (take max_body text) no_envelope of
           None \<Rightarrow> Inl (malformed_response (hr_StatusCode resp) '''' JsonCause)
         | Some envelope \<Rightarrow>
           let meta = parseResponseMeta (re_Meta envelope) in
           case re_Error envelope of
             Some (code0, message0) \<Rightarrow>
               let code = (if TrimSpace code0 = '''' then ''API_ERROR'' else TrimSpace code0);
                   message = (if TrimSpace message0 = '''' then ''admin API request failed'' else TrimSpace message0)
               in Inl (api_failure code message (hr_StatusCode resp) meta)
           | None \<Rightarrow>
               if hr_StatusCode resp < 200 \<or> hr_StatusCode resp \<ge> 300 then
                 Inl (api_failure (''HTTP_'' @ Itoa (hr_StatusCode resp))
                        (''admin API request failed with status '' @ Itoa (hr_StatusCode resp)) (hr_StatusCode resp) meta)
               else if re_Data envelope = None \<or> re_Data envelope = Some VNull then
                 Inl (malformed_response (hr_StatusCode resp) meta NoCause)
               else case dec (the (re_Data envelope)) zero of
                   None \<Rightarrow> Inl (malformed_response (hr_StatusCode resp) meta JsonCause)
                 | Some d \<Rightarrow> Inr (d, meta)))"

definition Client_request ::
  "'w admin_client \<Rightarrow> 'a json_decoder \<Rightarrow> 'a \<Rightarrow> go_context \<Rightarrow> string \<Rightarrow> string \<Rightarrow> 'w \<Rightarrow> (client_error + 'a \<times> string) \<times> 'w" where
  "Client_request c dec zero ctx method path w =
     (let url = ac_baseURL c @ path in
      case hc_NewRequest (ac_httpClient c) method url of
        Some err \<Rightarrow> (Inl (validation_error ''CLI_REQUEST_INVALID'' ''failed to prepare admin API request'' (CallCause err)), w)
      | None \<Rightarrow>
        (case hc_Do (ac_httpClient c) ctx method url w of
           (Inl err, w1) \<Rightarrow> (Inl (network_error err), w1)
         | (Inr resp, w1) \<Rightarrow> (read_response dec zero resp, w1)))"


section \<open>Operations\<close>

text \<open>\<open>url.PathEscape\<close>.\<close>

definition path_plain :: "char \<Rightarrow> bool" where
  "path_plain c \<longleftrightarrow>
     (let n = (of_char c :: nat) in 48 \<le> n \<and> n \<le> 57 \<or> 65 \<le> n \<and> n \<le> 90 \<or> 97 \<le> n \<and> n \<le> 122) \<or> c \<in> set ''-_.~$&+:=@''"

definition upper_hex :: "nat \<Rightarrow> char" where
  "upper_hex n = (if n < 10 then char_of (48 + n) else char_of (55 + n))"

definition PathEscape :: "string \<Rightarrow> string" where
  "PathEscape s =
     concat (map (\<lambda>c. if path_plain c then [c]
                      else [CHR ''%'', upper_hex (of_char c div 16), upper_hex (of_char c mod 16)]) s)"

definition normalizeTaskID :: "string \<Rightarrow> client_error + string" where
  "normalizeTaskID taskID =
     (if TrimSpace taskID = '''' then Inl (validation_error ''TASK_ID_INVALID'' ''task id is required'' NoCause)
      else Inr (TrimSpace taskID))"

definition Client_ListTasks ::
  "time_parser \<Rightarrow> 'w admin_client \<Rightarrow> go_context \<Rightarrow> 'w \<Rightarrow> (client_error + task_list_item list) \<times> 'w" where
  "Client_ListTasks parse c ctx w =
     (case Client_request c (decode_struct (task_list_fields parse)) [] ctx ''GET'' ''/api/v1/tasks'' w of
        (Inl err, w1) \<Rightarrow> (Inl err, w1) | (Inr (d, meta), w1) \<Rightarrow> (Inr d, w1))"

definition Client_GetTask ::
  "time_parser \<Rightarrow> 'w admin_client \<Rightarrow> go_context \<Rightarrow> string \<Rightarrow> 'w \<Rightarrow> (client_error + task_detail) \<times> 'w" where
  "Client_GetTask parse c ctx taskID w =
     (if TrimSpace taskID = '''' then (Inl (validation_error ''TASK_ID_INVALID'' ''task id is required'' NoCause), w)
      else case Client_request c (decode_struct (detail_fields parse)) no_detail ctx ''GET''
                  (''/api/v1/tasks/'' @ PathEscape (TrimSpace taskID)) w of
             (Inl err, w1) \<Rightarrow> (Inl err, w1) | (Inr (d, meta), w1) \<Rightarrow> (Inr d, w1))"

definition Client_ListFailures ::
  "time_parser \<Rightarrow> 'w admin_client \<Rightarrow> go_context \<Rightarrow> 'w \<Rightarrow> (client_error + task_failure_item list) \<times> 'w" where
  "Client_ListFailures parse c ctx w =
     (case Client_request c (decode_struct (failures_fields parse)) [] ctx ''GET'' ''/api/v1/tasks/failures'' w of
        (Inl err, w1) \<Rightarrow> (Inl err, w1) | (Inr (d, meta), w1) \<Rightarrow> (Inr d, w1))"

definition Client_RetryTask ::
  "'w admin_client \<Rightarrow> go_context \<Rightarrow> string \<Rightarrow> 'w \<Rightarrow> (client_error + retry_response) \<times> 'w" where
  "Client_RetryTask c ctx taskID w =
     (case normalizeTaskID taskID of
        Inl err \<Rightarrow> (Inl err, w)
      | Inr normalizedID \<Rightarrow>
        (case Client_request c (decode_struct retry_fields) no_retry ctx ''POST''
                (''/api/v1/tasks/'' @ PathEscape normalizedID @ ''/retry'') w of
           (Inl err, w1) \<Rightarrow> (Inl err, w1)
         | (Inr (d, meta), w1) \<Rightarrow> (Inr (if meta \<noteq> '''' then d\<lparr>rr_CorrelationID := meta\<rparr> else d), w1)))"

definition Client_CancelTask ::
  "'w admin_client \<Rightarrow> go_context \<Rightarrow> string \<Rightarrow> 'w \<Rightarrow> (client_error + cancel_response) \<times> 'w" where
  "Client_CancelTask c ctx taskID w =
     (case normalizeTaskID taskID of
        Inl err \<Rightarrow> (Inl err, w)
      | Inr normalizedID \<Rightarrow>
        (case Client_request c (decode_struct cancel_fields) no_cancel ctx ''POST''
                (''/api/v1/tasks/'' @ PathEscape normalizedID @ ''/cancel'') w of
           (Inl err, w1) \<Rightarrow> (Inl err, w1)
         | (Inr (d, meta), w1) \<Rightarrow> (Inr (if meta \<noteq> '''' then d\<lparr>cr_CorrelationID := meta\<rparr> else d), w1)))"

end
