(* ===== verification/Operator_Cli.thy ===== *)
theory Operator_Cli
  imports Admin_Client
begin

text \<open>
  The command \<open>followerctl\<close>: \<open>internal/cli/commands/tasks.go\<close>, \<open>internal/cli/render\<close> and \<open>cmd/followerctl/main.go\<close>.

  A command gives its exit code and what it writes to the two streams; the streams take what they are given.
  \<open>text/tabwriter\<close> and the indented form of \<open>encoding/json\<close> are written out.  The two texts of a time are parameters.
\<close>

section \<open>Rendering\<close>

datatype output_mode = OutputModeTable | OutputModeJSON

definition ParseOutputMode :: "string \<Rightarrow> go_error + output_mode" where
  "ParseOutputMode raw =
     (let normalized = ToLower (TrimSpace raw) in
      if normalized = '''' \<or> normalized = ''table'' then Inr OutputModeTable
      else if normalized = ''json'' then Inr OutputModeJSON
      else Inl (PlainErr (''unsupported output mode '' @ [CHR 0x22] @ raw @ [CHR 0x22] @ '' (allowed: table,json)'')))"

definition newline :: string where
  "newline = [CHR 0x0A]"

text \<open>The indented form: two blanks for each level, the three HTML characters as they are.\<close>

definition plain_json_char :: "char \<Rightarrow> string" where
  "plain_json_char c = (if c \<in> set ''<>&'' then [c] else json_char c)"

definition plain_json_text :: "string \<Rightarrow> string" where
  "plain_json_text s = [CHR 0x22] @ concat (map plain_json_char s) @ [CHR 0x22]"

definition indentation :: "nat \<Rightarrow> string" where
  "indentation level = newline @ replicate (2 * level) (CHR '' '')"

fun json_pretty :: "nat \<Rightarrow> json \<Rightarrow> string" where
  "json_pretty level (JString s) = plain_json_text s"
| "json_pretty level (JArray js) =
     (if js = [] then ''[]''
      else ''['' @ Join (map (\<lambda>j. indentation (level + 1) @ json_pretty (level + 1) j) js) '','' @ indentation level @ '']'')"
| "json_pretty level (JObject fs) =
     (if fs = [] then ''{}''
      else ''{'' @ Join (map (\<lambda>f. indentation (level + 1) @ plain_json_text (fst f) @ '': '' @ json_pretty (level + 1) (snd f)) fs) '',''
             @ indentation level @ ''}'')"
| "json_pretty level j = json_write j"

definition WriteJSON :: "json \<Rightarrow> string" where
  "WriteJSON payload = json_pretty 0 payload @ newline"

definition trimmed_or :: "string \<Rightarrow> string \<Rightarrow> string" where
  "trimmed_or s dflt = (if TrimSpace s = '''' then dflt else TrimSpace s)"

text \<open>A map is written with its keys in order.\<close>

definition WriteErrorJSON :: "string \<Rightarrow> string \<Rightarrow> string \<Rightarrow> string" where
  "WriteErrorJSON code message correlationID =
     WriteJSON (JObject
       ([(''error'', JObject [(''code'', JString (trimmed_or code ''CLI_ERROR'')),
                              (''message'', JString (trimmed_or message ''command failed''))])] @
        (if TrimSpace correlationID = '''' then []
         else [(''meta'', JObject [(''correlation_id'', JString (TrimSpace correlationID))])])))"

text \<open>
  \<open>tabwriter.Writer\<close> with padding 2, blanks and no flags.  A cell is ended by a tab, and adjacent lines with a cell in
  some column make a block that shares its width; the text after the last tab of a line is of no column.  A form feed
  ends the table.
\<close>

fun split_on :: "char list \<Rightarrow> string \<Rightarrow> string \<Rightarrow> string list" where
  "split_on seps acc [] = [acc]"
| "split_on seps acc (c # cs) = (if c \<in> set seps then acc # split_on seps [] cs else split_on seps (acc @ [c]) cs)"

definition has_column :: "nat \<Rightarrow> string list \<Rightarrow> bool" where
  "has_column k line \<longleftrightarrow> k + 1 < length line"

text \<open>\<open>utf8.RuneCount\<close>: a byte of no well-formed sequence counts as one.\<close>

function rune_count :: "string \<Rightarrow> nat" where
  "rune_count [] = 0"
| "rune_count (c # cs) = Suc (rune_count (drop (utf8_len (c # cs) - 1) cs))"
  by pat_completeness auto
termination by (relation "measure length") auto

definition block_width :: "nat \<Rightarrow> string list list \<Rightarrow> nat" where
  "block_width k lines = Max (set (map (\<lambda>line. rune_count (line ! k) + 2) lines))"

fun padded_cells :: "nat list \<Rightarrow> string list \<Rightarrow> string" where
  "padded_cells widths [] = ''''"
| "padded_cells widths [c] = c @ (case widths of [] \<Rightarrow> '''' | n # ns \<Rightarrow> replicate (n - rune_count c) (CHR '' ''))"
| "padded_cells widths (c # cs) =
     c @ (case widths of [] \<Rightarrow> '''' | n # ns \<Rightarrow> replicate (n - rune_count c) (CHR '' '')) @ padded_cells (tl widths) cs"

text \<open>Each line is written with the widths of the columns that have been found for it.\<close>

fun column_blocks :: "nat \<Rightarrow> string list list \<Rightarrow> string list list list" where
  "column_blocks k [] = []"
| "column_blocks k (l # ls) =
     (case column_blocks k ls of
        [] \<Rightarrow> [[l]]
      | blk # blks \<Rightarrow>
          if has_column k l = has_column k (hd blk) then (l # blk) # blks else [l] # blk # blks)"

fun tab_lines :: "nat \<Rightarrow> nat list \<Rightarrow> string list list \<Rightarrow> string list" where
  "tab_lines 0 widths lines = map (padded_cells widths) lines"
| "tab_lines (Suc f) widths lines =
     concat (map (\<lambda>blk. if has_column (length widths) (hd blk)
                        then tab_lines f (widths @ [block_width (length widths) blk]) blk
                        else map (padded_cells widths) blk)
                 (column_blocks (length widths) lines))"

definition tab_segment :: "string \<Rightarrow> string" where
  "tab_segment text =
     (let lines = map (split_on [CHR 0x09, CHR 0x0B] []) (split_on newline [] text)
      in Join (tab_lines (Max (set (map length lines))) [] lines) newline)"

definition tabwriter_Write :: "string \<Rightarrow> string" where
  "tabwriter_Write text = Join (map tab_segment (split_on [CHR 0x0C] [] text)) newline"

record table =
  tb_Headers :: "string list"
  tb_Rows :: "string list list"

fun first_bad_row :: "nat \<Rightarrow> nat \<Rightarrow> string list list \<Rightarrow> (nat \<times> nat) option" where
  "first_bad_row columns i [] = None"
| "first_bad_row columns i (r # rs) = (if length r \<noteq> columns then Some (i, length r) else first_bad_row columns (i + 1) rs)"

definition WriteTable :: "table \<Rightarrow> go_error + string" where
  "WriteTable t =
     (if tb_Headers t = [] then Inl (PlainErr ''table headers are required'')
      else case first_bad_row (length (tb_Headers t)) 0 (tb_Rows t) of
          Some (i, n) \<Rightarrow>
            Inl (PlainErr (''row '' @ Itoa (int i) @ '' has '' @ Itoa (int n) @ '' columns, expected '' @
                           Itoa (int (length (tb_Headers t)))))
        | None \<Rightarrow>
            Inr (tabwriter_Write (concat (map (\<lambda>r. Join r [CHR 0x09] @ newline) (tb_Headers t # tb_Rows t)))))"

record action_result =
  act_Action :: string
  act_TaskID :: string
  act_NewTaskID :: string

definition WriteActionResult :: "action_result \<Rightarrow> go_error + string" where
  "WriteActionResult result =
     (let action = TrimSpace (act_Action result); taskID = TrimSpace (act_TaskID result);
          newTaskID = TrimSpace (act_NewTaskID result)
      in if action = '''' then Inl (PlainErr ''action is required'')
         else Inr (Join ([action] @ (if taskID \<noteq> '''' then [''task_id='' @ taskID] else []) @
                         (if newTaskID \<noteq> '''' then [''new_task_id='' @ newTaskID] else [])) '' '' @ newline))"


section \<open>Errors\<close>

record cli_result =
  cli_Code :: nat
  cli_Stdout :: string
  cli_Stderr :: string

definition writePlainError :: "string \<Rightarrow> string \<Rightarrow> string" where
  "writePlainError code message = ''error ['' @ code @ '']: '' @ TrimSpace message @ newline"

definition cliUsageText :: string where
  "cliUsageText =
     ''usage:'' @ newline @
     ''  followerctl tasks list [--output table|json]'' @ newline @
     ''  followerctl tasks get <task-id> [--output table|json]'' @ newline @
     ''  followerctl tasks retry <task-id> [--output table|json]'' @ newline @
     ''  followerctl tasks cancel <task-id> [--output table|json]'' @ newline @
     ''  followerctl tasks failures [--output table|json]''"

definition writeUsageError :: "string \<Rightarrow> string \<Rightarrow> cli_result" where
  "writeUsageError code message =
     \<lparr>cli_Code = 1, cli_Stdout = '''', cli_Stderr = writePlainError code message @ cliUsageText @ newline\<rparr>"

definition writeCommandError :: "output_mode \<Rightarrow> string \<Rightarrow> string \<Rightarrow> string \<Rightarrow> cli_result" where
  "writeCommandError mode code message correlationID =
     (let normalizedCode = trimmed_or code ''CLI_ERROR''; normalizedMessage = trimmed_or message ''command failed'' in
      \<lparr>cli_Code = 1, cli_Stdout = '''',
       cli_Stderr = (if mode = OutputModeJSON then WriteErrorJSON normalizedCode normalizedMessage correlationID
                     else writePlainError normalizedCode normalizedMessage)\<rparr>)"

record command_error_info =
  cei_Code :: string
  cei_Message :: string
  cei_CorrelationID :: string

fun kind_code :: "error_kind \<Rightarrow> string" where
  "kind_code ErrorKindValidation = ''CLI_VALIDATION_ERROR''"
| "kind_code ErrorKindNetwork = ''NETWORK_ERROR''"
| "kind_code ErrorKindProtocol = ''API_MALFORMED_RESPONSE''"
| "kind_code ErrorKindAPI = ''API_ERROR''"
| "kind_code (ErrorKindOther s) = ''CLI_ERROR''"

text \<open>\<open>None\<close> is an error that is not one of the client.\<close>

definition normalizeError :: "client_error option \<Rightarrow> command_error_info" where
  "normalizeError err =
     (case err of
        None \<Rightarrow> \<lparr>cei_Code = ''CLI_ERROR'', cei_Message = ''command failed'', cei_CorrelationID = ''''\<rparr>
      | Some e \<Rightarrow>
        let code = trimmed_or (ce_Code e) (kind_code (ce_Kind e));
            message = trimmed_or (ce_Message e) ''command failed'';
            message = (if code = ''RETRY_NOT_ALLOWED'' then ''retry is not allowed for the current task status''
                       else if code = ''CANCEL_NOT_ALLOWED'' then ''cancel is not allowed for the current task status''
                       else if code = ''TASK_STATE_CONFLICT'' then ''task state conflict'' else message)
        in \<lparr>cei_Code = code, cei_Message = message, cei_CorrelationID = TrimSpace (ce_CorrelationID e)\<rparr>)"

definition writeNormalizedError :: "output_mode \<Rightarrow> client_error \<Rightarrow> cli_result" where
  "writeNormalizedError mode err =
     (let info = normalizeError (Some err)
      in writeCommandError mode (cei_Code info) (cei_Message info) (cei_CorrelationID info))"

text \<open>What a command ends with when it has rendered its view.\<close>

definition rendered :: "output_mode \<Rightarrow> string \<Rightarrow> go_error + string \<Rightarrow> cli_result" where
  "rendered mode failure output =
     (case output of
        Inl err \<Rightarrow> writeCommandError mode ''CLI_RENDER_ERROR'' failure ''''
      | Inr text \<Rightarrow> \<lparr>cli_Code = 0, cli_Stdout = text, cli_Stderr = ''''\<rparr>)"


section \<open>Views\<close>

text \<open>A time as the JSON output and as the tables show it.\<close>

record time_format =
  tf_RFC3339Nano :: "time \<Rightarrow> string"
  tf_RFC3339 :: "time \<Rightarrow> string"

definition derefString :: "string option \<Rightarrow> string" where
  "derefString v = (case v of None \<Rightarrow> '''' | Some s \<Rightarrow> TrimSpace s)"

definition nullableTime :: "time \<Rightarrow> time option" where
  "nullableTime t = (if t = zero_Time then None else Some t)"

definition formatOptionalTime :: "time_format \<Rightarrow> time option \<Rightarrow> string" where
  "formatOptionalTime tf v = (case v of None \<Rightarrow> '''' | Some t \<Rightarrow> if t = zero_Time then '''' else tf_RFC3339 tf t)"

definition view_string :: "string option \<Rightarrow> json" where
  "view_string v = (case v of None \<Rightarrow> JNull | Some s \<Rightarrow> JString s)"

definition view_time :: "time_format \<Rightarrow> time option \<Rightarrow> json" where
  "view_time tf v = (case v of None \<Rightarrow> JNull | Some t \<Rightarrow> JString (tf_RFC3339Nano tf t))"

record tasks_list_item =
  vli_ID :: string
  vli_AccountID :: string
  vli_TargetProfile :: string
  vli_Status :: string
  vli_Attempt :: int
  vli_ErrorCode :: "string option"
  vli_ResultReason :: "string option"
  vli_UpdatedAt :: "time option"

record task_detail_view =
  vd_ID :: string
  vd_AccountID :: string
  vd_TargetProfile :: string
  vd_Status :: string
  vd_Attempt :: int
  vd_ClaimedBy :: "string option"
  vd_ClaimedAt :: "time option"
  vd_StartedAt :: "time option"
  vd_FinishedAt :: "time option"
  vd_ErrorCode :: "string option"
  vd_ResultReason :: "string option"
  vd_CreatedAt :: "time option"
  vd_UpdatedAt :: "time option"
  vd_AttemptContext :: "task_attempt_context option"

record task_failure_item_view =
  vfi_ID :: string
  vfi_AccountID :: string
  vfi_TargetProfile :: string
  vfi_Status :: string
  vfi_Attempt :: int
  vfi_ErrorCode :: "string option"
  vfi_ResultReason :: "string option"
  vfi_FollowOutcome :: "string option"
  vfi_VerificationSignal :: "string option"
  vfi_UpdatedAt :: "time option"

record task_action_view =
  va_Action :: string
  va_TaskID :: string
  va_NewTaskID :: string
  va_CorrelationID :: string

definition mapTaskListView :: "task_list_item list \<Rightarrow> tasks_list_item list" where
  "mapTaskListView tasks =
     map (\<lambda>i. \<lparr>vli_ID = tli_ID i, vli_AccountID = tli_AccountID i, vli_TargetProfile = tli_TargetProfile i,
               vli_Status = tli_Status i, vli_Attempt = tli_Attempt i, vli_ErrorCode = tli_ErrorCode i,
               vli_ResultReason = tli_ResultReason i, vli_UpdatedAt = nullableTime (tli_UpdatedAt i)\<rparr>) tasks"

definition mapTaskDetailView :: "task_detail \<Rightarrow> task_detail_view" where
  "mapTaskDetailView d =
     \<lparr>vd_ID = td_ID d, vd_AccountID = td_AccountID d, vd_TargetProfile = td_TargetProfile d, vd_Status = td_Status d,
      vd_Attempt = td_Attempt d, vd_ClaimedBy = td_ClaimedBy d, vd_ClaimedAt = td_ClaimedAt d,
      vd_StartedAt = td_StartedAt d, vd_FinishedAt = td_FinishedAt d, vd_ErrorCode = td_ErrorCode d,
      vd_ResultReason = td_ResultReason d, vd_CreatedAt = nullableTime (td_CreatedAt d),
      vd_UpdatedAt = nullableTime (td_UpdatedAt d), vd_AttemptContext = td_AttemptContext d\<rparr>"

definition mapTaskFailuresView :: "task_failure_item list \<Rightarrow> task_failure_item_view list" where
  "mapTaskFailuresView tasks =
     map (\<lambda>i. \<lparr>vfi_ID = tfi_ID i, vfi_AccountID = tfi_AccountID i, vfi_TargetProfile = tfi_TargetProfile i,
               vfi_Status = tfi_Status i, vfi_Attempt = tfi_Attempt i, vfi_ErrorCode = tfi_ErrorCode i,
               vfi_ResultReason = tfi_ResultReason i, vfi_FollowOutcome = tfi_FollowOutcome i,
               vfi_VerificationSignal = tfi_VerificationSignal i, vfi_UpdatedAt = nullableTime (tfi_UpdatedAt i)\<rparr>) tasks"

definition list_item_view_json :: "time_format \<Rightarrow> tasks_list_item \<Rightarrow> json" where
  "list_item_view_json tf i = JObject
     [(''id'', JString (vli_ID i)), (''account_id'', JString (vli_AccountID i)),
      (''target_profile'', JString (vli_TargetProfile i)), (''status'', JString (vli_Status i)),
      (''attempt'', JInt (vli_Attempt i)), (''error_code'', view_string (vli_ErrorCode i)),
      (''result_reason'', view_string (vli_ResultReason i)), (''updated_at'', view_time tf (vli_UpdatedAt i))]"

definition attempt_context_view_json :: "task_attempt_context \<Rightarrow> json" where
  "attempt_context_view_json c = JObject
     [(''outcome'', JString (tc_Outcome c)), (''verified'', JBool (tc_Verified c)),
      (''verification_signal'', JString (tc_VerificationSignal c)),
      (''verification_reason'', view_string (tc_VerificationReason c)), (''error_code'', view_string (tc_ErrorCode c)),
      (''screenshot_object_key'', JString (tc_ScreenshotObjectKey c)),
      (''artifact_object_keys'',
       if tc_ArtifactObjectKeys c = [] then JNull else JArray (map JString (tc_ArtifactObjectKeys c)))]"

definition detail_view_json :: "time_format \<Rightarrow> task_detail_view \<Rightarrow> json" where
  "detail_view_json tf v = JObject
     [(''id'', JString (vd_ID v)), (''account_id'', JString (vd_AccountID v)),
      (''target_profile'', JString (vd_TargetProfile v)), (''status'', JString (vd_Status v)),
      (''attempt'', JInt (vd_Attempt v)), (''claimed_by'', view_string (vd_ClaimedBy v)),
      (''claimed_at'', view_time tf (vd_ClaimedAt v)), (''started_at'', view_time tf (vd_StartedAt v)),
      (''finished_at'', view_time tf (vd_FinishedAt v)), (''error_code'', view_string (vd_ErrorCode v)),
      (''result_reason'', view_string (vd_ResultReason v)), (''created_at'', view_time tf (vd_CreatedAt v)),
      (''updated_at'', view_time tf (vd_UpdatedAt v)),
      (''attempt_context'', case vd_AttemptContext v of None \<Rightarrow> JNull | Some c \<Rightarrow> attempt_context_view_json c)]"

definition failure_item_view_json :: "time_format \<Rightarrow> task_failure_item_view \<Rightarrow> json" where
  "failure_item_view_json tf i = JObject
     [(''id'', JString (vfi_ID i)), (''account_id'', JString (vfi_AccountID i)),
      (''target_profile'', JString (vfi_TargetProfile i)), (''status'', JString (vfi_Status i)),
      (''attempt'', JInt (vfi_Attempt i)), (''error_code'', view_string (vfi_ErrorCode i)),
      (''result_reason'', view_string (vfi_ResultReason i)), (''follow_outcome'', view_string (vfi_FollowOutcome i)),
      (''verification_signal'', view_string (vfi_VerificationSignal i)), (''updated_at'', view_time tf (vfi_UpdatedAt i))]"

definition renderTasksList :: "time_format \<Rightarrow> output_mode \<Rightarrow> tasks_list_item list \<Rightarrow> go_error + string" where
  "renderTasksList tf mode view =
     (if mode = OutputModeJSON then Inr (WriteJSON (JObject [(''tasks'', JArray (map (list_item_view_json tf) view))]))
      else WriteTable
        \<lparr>tb_Headers = [''ID'', ''ACCOUNT_ID'', ''TARGET_PROFILE'', ''STATUS'', ''ATTEMPT'', ''ERROR_CODE'', ''RESULT_REASON'',
                       ''UPDATED_AT''],
         tb_Rows = map (\<lambda>i. [vli_ID i, vli_AccountID i, vli_TargetProfile i, vli_Status i, Itoa (vli_Attempt i),
                             derefString (vli_ErrorCode i), derefString (vli_ResultReason i),
                             formatOptionalTime tf (vli_UpdatedAt i)]) view\<rparr>)"

definition renderTaskDetail :: "time_format \<Rightarrow> output_mode \<Rightarrow> task_detail_view \<Rightarrow> go_error + string" where
  "renderTaskDetail tf mode v =
     (if mode = OutputModeJSON then Inr (WriteJSON (detail_view_json tf v))
      else let field = (\<lambda>get. case vd_AttemptContext v of None \<Rightarrow> '''' | Some c \<Rightarrow> get c) in
        WriteTable
        \<lparr>tb_Headers = [''FIELD'', ''VALUE''],
         tb_Rows =
           [[''id'', vd_ID v], [''account_id'', vd_AccountID v], [''target_profile'', vd_TargetProfile v],
            [''status'', vd_Status v], [''attempt'', Itoa (vd_Attempt v)], [''claimed_by'', derefString (vd_ClaimedBy v)],
            [''claimed_at'', formatOptionalTime tf (vd_ClaimedAt v)], [''started_at'', formatOptionalTime tf (vd_StartedAt v)],
            [''finished_at'', formatOptionalTime tf (vd_FinishedAt v)], [''error_code'', derefString (vd_ErrorCode v)],
            [''result_reason'', derefString (vd_ResultReason v)], [''created_at'', formatOptionalTime tf (vd_CreatedAt v)],
            [''updated_at'', formatOptionalTime tf (vd_UpdatedAt v)], [''attempt_context.outcome'', field tc_Outcome],
            [''attempt_context.verified'', field (\<lambda>c. FormatBool (tc_Verified c))],
            [''attempt_context.verification_signal'', field tc_VerificationSignal],
            [''attempt_context.verification_reason'', field (\<lambda>c. derefString (tc_VerificationReason c))],
            [''attempt_context.error_code'', field (\<lambda>c. derefString (tc_ErrorCode c))],
            [''attempt_context.screenshot_object_key'', field tc_ScreenshotObjectKey],
            [''attempt_context.artifact_object_keys'', field (\<lambda>c. Join (tc_ArtifactObjectKeys c) '','')]]\<rparr>)"

definition renderTaskFailures :: "time_format \<Rightarrow> output_mode \<Rightarrow> task_failure_item_view list \<Rightarrow> go_error + string" where
  "renderTaskFailures tf mode view =
     (if mode = OutputModeJSON then Inr (WriteJSON (JObject [(''tasks'', JArray (map (failure_item_view_json tf) view))]))
      else WriteTable
        \<lparr>tb_Headers = [''ID'', ''ACCOUNT_ID'', ''TARGET_PROFILE'', ''STATUS'', ''ATTEMPT'', ''ERROR_CODE'', ''RESULT_REASON'',
                       ''FOLLOW_OUTCOME'', ''VERIFICATION_SIGNAL'', ''UPDATED_AT''],
         tb_Rows = map (\<lambda>i. [vfi_ID i, vfi_AccountID i, vfi_TargetProfile i, vfi_Status i, Itoa (vfi_Attempt i),
                             derefString (vfi_ErrorCode i), derefString (vfi_ResultReason i), derefString (vfi_FollowOutcome i),
                             derefString (vfi_VerificationSignal i), formatOptionalTime tf (vfi_UpdatedAt i)]) view\<rparr>)"

definition renderTaskAction :: "output_mode \<Rightarrow> task_action_view \<Rightarrow> go_error + string" where
  "renderTaskAction mode v =
     (if mode = OutputModeJSON then
        Inr (WriteJSON (JObject
          ([(''action'', JString (va_Action v))] @
           (if TrimSpace (va_CorrelationID v) \<noteq> '''' then
              [(''meta'', JObject [(''correlation_id'', JString (va_CorrelationID v))])] else []) @
           (if TrimSpace (va_NewTaskID v) \<noteq> '''' then [(''new_task_id'', JString (va_NewTaskID v))] else []) @
           [(''task_id'', JString (va_TaskID v))])))
      else WriteActionResult
        \<lparr>act_Action = va_Action v, act_TaskID = va_TaskID v, act_NewTaskID = va_NewTaskID v\<rparr>)"


section \<open>Commands\<close>

fun output_flag_loop :: "string list \<Rightarrow> string \<Rightarrow> string list \<Rightarrow> go_error + string \<times> string list" where
  "output_flag_loop [] modeRaw remaining = Inr (modeRaw, remaining)"
| "output_flag_loop (arg # args) modeRaw remaining =
     (if TrimSpace arg = ''--output'' then
        (case args of
           [] \<Rightarrow> Inl (PlainErr ''--output flag requires a value'')
         | v # args' \<Rightarrow> output_flag_loop args' (TrimSpace v) remaining)
      else if HasPrefix (TrimSpace arg) ''--output='' then
        output_flag_loop args (TrimSpace (TrimPrefix (TrimSpace arg) ''--output='')) remaining
      else output_flag_loop args modeRaw (remaining @ [arg]))"

definition parseOutputFlag :: "string list \<Rightarrow> go_error + output_mode \<times> string list" where
  "parseOutputFlag args =
     (case output_flag_loop args ''table'' [] of
        Inl err \<Rightarrow> Inl err
      | Inr (modeRaw, remaining) \<Rightarrow>
        (case ParseOutputMode modeRaw of
           Inl err \<Rightarrow> Inl err
         | Inr mode \<Rightarrow> Inr (mode, remaining)))"

record cli_env =
  ce_uuid_Parse :: "string \<Rightarrow> uuid option"
  ce_time_parse :: time_parser
  ce_time_format :: time_format

definition runTasksList :: "cli_env \<Rightarrow> go_context \<Rightarrow> string list \<Rightarrow> 'w admin_client \<Rightarrow> 'w \<Rightarrow> cli_result \<times> 'w" where
  "runTasksList env ctx args client w =
     (case parseOutputFlag args of
        Inl err \<Rightarrow> (writeCommandError OutputModeTable ''CLI_USAGE_ERROR'' (error_text err) '''', w)
      | Inr (mode, remaining) \<Rightarrow>
          if remaining \<noteq> [] then
            (writeCommandError mode ''CLI_USAGE_ERROR'' ''tasks list does not accept positional arguments'' '''', w)
          else case Client_ListTasks (ce_time_parse env) client ctx w of
            (Inl err, w1) \<Rightarrow> (writeNormalizedError mode err, w1)
          | (Inr response, w1) \<Rightarrow>
              (rendered mode ''failed to render tasks list output''
                 (renderTasksList (ce_time_format env) mode (mapTaskListView response)), w1))"

definition runTasksFailures :: "cli_env \<Rightarrow> go_context \<Rightarrow> string list \<Rightarrow> 'w admin_client \<Rightarrow> 'w \<Rightarrow> cli_result \<times> 'w" where
  "runTasksFailures env ctx args client w =
     (case parseOutputFlag args of
        Inl err \<Rightarrow> (writeCommandError OutputModeTable ''CLI_USAGE_ERROR'' (error_text err) '''', w)
      | Inr (mode, remaining) \<Rightarrow>
          if remaining \<noteq> [] then
            (writeCommandError mode ''CLI_USAGE_ERROR'' ''tasks failures does not accept positional arguments'' '''', w)
          else case Client_ListFailures (ce_time_parse env) client ctx w of
            (Inl err, w1) \<Rightarrow> (writeNormalizedError mode err, w1)
          | (Inr response, w1) \<Rightarrow>
              (rendered mode ''failed to render task failures output''
                 (renderTaskFailures (ce_time_format env) mode (mapTaskFailuresView response)), w1))"

text \<open>The three commands on one task differ in the call, the view and their words.\<close>

definition with_task_id ::
  "cli_env \<Rightarrow> string \<Rightarrow> string list \<Rightarrow> (output_mode \<Rightarrow> string \<Rightarrow> 'w \<Rightarrow> cli_result \<times> 'w) \<Rightarrow> 'w \<Rightarrow> cli_result \<times> 'w" where
  "with_task_id env usage args call w =
     (case parseOutputFlag args of
        Inl err \<Rightarrow> (writeCommandError OutputModeTable ''CLI_USAGE_ERROR'' (error_text err) '''', w)
      | Inr (mode, remaining) \<Rightarrow>
        (case remaining of
           [arg] \<Rightarrow>
             if ce_uuid_Parse env (TrimSpace arg) = None then
               (writeCommandError mode ''TASK_ID_INVALID'' ''task id must be a valid uuid'' '''', w)
             else call mode (TrimSpace arg) w
         | _ \<Rightarrow> (writeCommandError mode ''CLI_USAGE_ERROR'' usage '''', w)))"

definition runTasksGet :: "cli_env \<Rightarrow> go_context \<Rightarrow> string list \<Rightarrow> 'w admin_client \<Rightarrow> 'w \<Rightarrow> cli_result \<times> 'w" where
  "runTasksGet env ctx args client =
     with_task_id env ''tasks get requires exactly one task id'' args
       (\<lambda>mode taskID w.
          case Client_GetTask (ce_time_parse env) client ctx taskID w of
            (Inl err, w1) \<Rightarrow> (writeNormalizedError mode err, w1)
          | (Inr response, w1) \<Rightarrow>
              (rendered mode ''failed to render task detail output''
                 (renderTaskDetail (ce_time_format env) mode (mapTaskDetailView response)), w1))"

definition runTasksRetry :: "cli_env \<Rightarrow> go_context \<Rightarrow> string list \<Rightarrow> 'w admin_client \<Rightarrow> 'w \<Rightarrow> cli_result \<times> 'w" where
  "runTasksRetry env ctx args client =
     with_task_id env ''tasks retry requires exactly one task id'' args
       (\<lambda>mode taskID w.
          case Client_RetryTask client ctx taskID w of
            (Inl err, w1) \<Rightarrow> (writeNormalizedError mode err, w1)
          | (Inr response, w1) \<Rightarrow>
              (rendered mode ''failed to render retry output''
                 (renderTaskAction mode
                    \<lparr>va_Action = ''retry requested'', va_TaskID = rr_SourceTaskID response,
                     va_NewTaskID = rr_NewTaskID response, va_CorrelationID = rr_CorrelationID response\<rparr>), w1))"

definition runTasksCancel :: "cli_env \<Rightarrow> go_context \<Rightarrow> string list \<Rightarrow> 'w admin_client \<Rightarrow> 'w \<Rightarrow> cli_result \<times> 'w" where
  "runTasksCancel env ctx args client =
     with_task_id env ''tasks cancel requires exactly one task id'' args
       (\<lambda>mode taskID w.
          case Client_CancelTask client ctx taskID w of
            (Inl err, w1) \<Rightarrow> (writeNormalizedError mode err, w1)
          | (Inr response, w1) \<Rightarrow>
              (rendered mode ''failed to render cancel output''
                 (renderTaskAction mode
                    \<lparr>va_Action = ''cancel requested'', va_TaskID = cr_TaskID response, va_NewTaskID = '''',
                     va_CorrelationID = cr_CorrelationID response\<rparr>), w1))"

definition Execute :: "cli_env \<Rightarrow> go_context \<Rightarrow> string list \<Rightarrow> 'w admin_client option \<Rightarrow> 'w \<Rightarrow> cli_result \<times> 'w" where
  "Execute env ctx args deps_Client w =
     (case deps_Client of
        None \<Rightarrow> (\<lparr>cli_Code = 1, cli_Stdout = '''',
                  cli_Stderr = writePlainError ''CLI_CONFIG_ERROR'' ''admin client is not configured''\<rparr>, w)
      | Some client \<Rightarrow>
        (case args of
           [] \<Rightarrow> (writeUsageError ''CLI_USAGE_ERROR'' ''command is required'', w)
         | grp # rest \<Rightarrow>
             if grp \<noteq> ''tasks'' then (writeUsageError ''CLI_USAGE_ERROR'' ''only tasks command group is supported'', w)
             else (case rest of
               [] \<Rightarrow> (writeUsageError ''CLI_USAGE_ERROR'' ''tasks subcommand is required'', w)
             | command # args' \<Rightarrow>
                 if command = ''list'' then runTasksList env ctx args' client w
                 else if command = ''get'' then runTasksGet env ctx args' client w
                 else if command = ''retry'' then runTasksRetry env ctx args' client w
                 else if command = ''cancel'' then runTasksCancel env ctx args' client w
                 else if command = ''failures'' then runTasksFailures env ctx args' client w
                 else (writeUsageError ''CLI_USAGE_ERROR'' ''unsupported tasks subcommand'', w))))"

definition defaultAdminAPIBaseURL :: string where
  "defaultAdminAPIBaseURL = ''http://127.0.0.1:8080''"

text \<open>\<open>main\<close>; the environment is read through \<open>getenv\<close>.\<close>

definition followerctl_main ::
  "cli_env \<Rightarrow> (string \<Rightarrow> go_error + string \<times> string) \<Rightarrow> 'w http_client \<Rightarrow> (string \<Rightarrow> string) \<Rightarrow> string list \<Rightarrow> 'w \<Rightarrow> cli_result \<times> 'w" where
  "followerctl_main env url_Parse default_client getenv args w =
     (let baseURL = TrimSpace (getenv ''FOLLOWERCTL_API_BASE_URL'');
          baseURL = (if baseURL = '''' then defaultAdminAPIBaseURL else baseURL)
      in case Client_New url_Parse default_client baseURL None of
           Inl err \<Rightarrow>
             (\<lparr>cli_Code = 1, cli_Stdout = '''',
               cli_Stderr = ''error [CLI_CONFIG_ERROR]: '' @ client_error_text (Some err) @ newline\<rparr>, w)
         | Inr client \<Rightarrow> Execute env Background args (Some client) w)"

end
