(* ===== verification/Cli_Server.thy ===== *)
theory Cli_Server
  imports Admin_Mutations Admin_Wire Operator_Cli
begin

text \<open>
  \<open>followerctl\<close> against the administration interface: the client of \<open>Admin_Client\<close> connected to the server of
  \<open>Admin_Api\<close>, whose answers travel as the text of \<open>Admin_Wire\<close>.

  A request carries the user agent of Go's HTTP client and no header of the service.  The server decodes the path of the
  URL.  What is shown holds for answers that are ASCII, no longer than the client reads, and not nested deeper than the
  decoder allows.
\<close>

section \<open>The network\<close>

definition cli_request :: "string \<Rightarrow> string \<Rightarrow> http_request" where
  "cli_request method path =
     \<lparr>rq_Method = method, rq_Path = path,
      rq_Header = (\<lambda>k. if k = ''User-Agent'' then ''Go-http-client/1.1'' else if k = ''Accept'' then ''application/json'' else ''''),
      rq_Body = '''', rq_PathID = '''', rq_Pattern = '''', rq_Context = Background\<rparr>"

fun PathUnescape :: "string \<Rightarrow> string" where
  "PathUnescape (a # b # c # s) =
     (if a = CHR ''%'' then char_of (16 * hex_value b + hex_value c) # PathUnescape s else a # PathUnescape (b # c # s))"
| "PathUnescape s = s"

definition server_response :: "time_text \<Rightarrow> (server_body \<Rightarrow> int \<times> string) \<Rightarrow> server_body \<Rightarrow> int \<times> string" where
  "server_response fmt other body = (case body of ServedAdmin rw \<Rightarrow> sent_response fmt rw | _ \<Rightarrow> other body)"

definition served_Do ::
  "time_text \<Rightarrow> (server_body \<Rightarrow> int \<times> string) \<Rightarrow> (http_request \<Rightarrow> 'w \<Rightarrow> server_body \<times> 'w) \<Rightarrow> string \<Rightarrow>
   go_context \<Rightarrow> string \<Rightarrow> string \<Rightarrow> 'w \<Rightarrow> (go_error + http_response) \<times> 'w" where
  "served_Do fmt other serve base ctx method url w =
     (if \<not> HasPrefix url base then (Inl (PlainErr ''no such host''), w)
      else case serve (cli_request method (PathUnescape (drop (length base) url))) w of
        (body, w1) \<Rightarrow>
          (case server_response fmt other body of (st, text) \<Rightarrow>
             (Inr \<lparr>hr_StatusCode = st, hr_Body = Inr text\<rparr>, w1)))"

definition served_client ::
  "time_text \<Rightarrow> (server_body \<Rightarrow> int \<times> string) \<Rightarrow> (http_request \<Rightarrow> 'w \<Rightarrow> server_body \<times> 'w) \<Rightarrow> string \<Rightarrow> 'w admin_client" where
  "served_client fmt other serve base =
     \<lparr>ac_baseURL = base,
      ac_httpClient = \<lparr>hc_NewRequest = (\<lambda>method url. None), hc_Do = served_Do fmt other serve base\<rparr>\<rparr>"

lemma upper_hex_value: "n < 16 \<Longrightarrow> hex_value (upper_hex n) = n"
  by (auto simp: hex_value_def upper_hex_def Let_def)

lemma path_plain_not_percent: "path_plain c \<Longrightarrow> c \<noteq> CHR ''%''"
  by (auto simp: path_plain_def Let_def)

lemma PathUnescape_Cons: "c \<noteq> CHR ''%'' \<Longrightarrow> PathUnescape (c # s) = c # PathUnescape s"
  by (cases s; cases "tl s") auto

lemma PathUnescape_append_plain: "CHR ''%'' \<notin> set s \<Longrightarrow> PathUnescape (s @ t) = s @ PathUnescape t"
  by (induction s) (auto simp: PathUnescape_Cons)

lemma PathUnescape_escape: "PathUnescape (PathEscape s @ t) = s @ PathUnescape t"
proof (induction s)
  case (Cons c s)
  have "(of_char c :: nat) div 16 < 16" using nat_of_char_less_256 [of c] by (simp only: div_less_iff_less_mult [of 16])
  then have hex: "char_of (16 * hex_value (upper_hex (of_char c div 16)) + hex_value (upper_hex (of_char c mod 16))) = c"
    by (simp add: upper_hex_value)
  show ?case
  proof (cases "path_plain c")
    case True
    then show ?thesis using Cons PathUnescape_Cons [OF path_plain_not_percent] by (simp add: PathEscape_def)
  next
    case False
    then show ?thesis using Cons hex by (simp add: PathEscape_def)
  qed
qed (simp add: PathEscape_def)


section \<open>Reading an answer\<close>

definition readable :: "time_text \<Rightarrow> response_writer \<Rightarrow> bool" where
  "readable fmt rw \<longleftrightarrow>
     (case rw_Body rw of Some (EnvelopeBody e) \<Rightarrow> json_depth (envelope_json fmt e) \<le> max_nesting | _ \<Rightarrow> True) \<and>
     ascii_text (snd (sent_response fmt rw)) \<and> length (snd (sent_response fmt rw)) \<le> max_body"

lemma admin_code_trimmed: "TrimSpace (admin_code_str code) = admin_code_str code"
  unfolding TrimSpace_def by (rule trim_both_id) (cases code; simp add: is_space_def)

lemma known_fields:
  "field_of envelope_fields ''data'' = Some (snd (jfield ''data'' re_Data re_Data_update decode_raw))"
  "field_of envelope_fields ''error'' =
     Some (snd (jfield ''error'' re_Error re_Error_update (decode_ptr ('''', '''') (decode_struct api_error_fields))))"
  "field_of envelope_fields ''meta'' = Some (snd (jfield ''meta'' re_Meta re_Meta_update decode_raw))"
  "field_of api_error_fields ''code'' = Some (snd (jfield ''code'' fst apfst decode_string))"
  "field_of api_error_fields ''message'' = Some (snd (jfield ''message'' snd apsnd decode_string))"
  "field_of meta_fields ''correlation_id'' = Some (snd (jfield ''correlation_id'' (\<lambda>s. s) (\<lambda>f. f) decode_string))"
  by (simp_all add: field_of_def envelope_fields_def api_error_fields_def meta_fields_def jfield_def)

lemma no_details_field: "field_of api_error_fields ''details'' = None"
proof -
  have "Option.is_none (field_of api_error_fields ''details'')" by code_simp
  then show ?thesis by (simp add: Option.is_none_def split: option.splits)
qed

text \<open>The three parts of an envelope as the client gets them.\<close>

definition client_error_part :: "admin_error_payload option \<Rightarrow> (string \<times> string) option" where
  "client_error_part = map_option (\<lambda>e. (aep_Code e, aep_Message e))"

lemma decode_ptr_object:
  "decode_ptr zero dec (value_of (JObject fs)) None = map_option Some (dec (value_of (JObject fs)) zero)"
  by (simp add: decode_ptr_def)

lemma decode_error_part:
  assumes "json_ascii (error_json e)"
  shows "decode_ptr ('''', '''') (decode_struct api_error_fields) (value_of (error_json e)) None = Some (Some (aep_Code e, aep_Message e))"
proof -
  have keys: "list_all (\<lambda>f. ascii_text (fst f)) ([(''code'', JString (aep_Code e)), (''message'', JString (aep_Message e))] @ details_field (aep_Details e))"
    by (cases "aep_Details e") simp_all
  have "decode_pairs api_error_fields (details_field d) r = Some r" for d r
    by (cases d) (simp_all add: no_details_field)
  then show ?thesis
    using assms unfolding error_json_def decode_ptr_object decode_struct_written [OF keys]
    by (simp add: known_fields jfield_def)
qed

lemma decode_envelope:
  assumes "json_ascii (envelope_json fmt e)"
  shows "decode_struct envelope_fields (value_of (envelope_json fmt e)) no_envelope =
    Some \<lparr>re_Data = Some (case env_Data e of None \<Rightarrow> VNull | Some d \<Rightarrow> value_of (data_json fmt d)),
          re_Error = client_error_part (env_Error e), re_Meta = Some (value_of (meta_json (env_CorrelationID e)))\<rparr>"
proof -
  have err: "decode_ptr ('''', '''') (decode_struct api_error_fields)
      (value_of (case env_Error e of None \<Rightarrow> JNull | Some p \<Rightarrow> error_json p)) None = Some (client_error_part (env_Error e))"
  proof (cases "env_Error e")
    case (Some p)
    then have "json_ascii (error_json p)" using assms by (simp add: envelope_json_def)
    then show ?thesis using decode_error_part Some by (simp add: client_error_part_def)
  qed (simp add: client_error_part_def)
  have keys: "list_all (\<lambda>f. ascii_text (fst f))
      [(''data'', case env_Data e of None \<Rightarrow> JNull | Some d \<Rightarrow> data_json fmt d),
       (''error'', case env_Error e of None \<Rightarrow> JNull | Some p \<Rightarrow> error_json p), (''meta'', meta_json (env_CorrelationID e))]"
    by simp
  show ?thesis
    unfolding envelope_json_def decode_struct_written [OF keys]
    using err by (simp add: known_fields jfield_def decode_raw_def no_envelope_def split: option.split)
qed

lemma parse_meta:
  assumes "ascii_text c"
  shows "parseResponseMeta (Some (value_of (meta_json c))) = TrimSpace c"
proof -
  have "decode_struct meta_fields (value_of (meta_json c)) '''' = Some c"
    unfolding meta_json_def using assms
    by (subst decode_struct_written) (simp_all add: known_fields jfield_def)
  then show ?thesis by (simp add: parseResponseMeta_def meta_json_def)
qed

text \<open>What the client makes of an envelope it can read.\<close>

lemma read_envelope:
  assumes "readable fmt rw" "rw_Sent rw = Some st" "rw_Body rw = Some (EnvelopeBody e)"
  shows "json_ascii (envelope_json fmt e)"
    "env_Error e = Some p \<Longrightarrow> TrimSpace (aep_Code p) \<noteq> '''' \<Longrightarrow> TrimSpace (aep_Message p) \<noteq> '''' \<Longrightarrow>
     read_response dec zero \<lparr>hr_StatusCode = fst (sent_response fmt rw), hr_Body = Inr (snd (sent_response fmt rw))\<rparr> =
       Inl (api_failure (TrimSpace (aep_Code p)) (TrimSpace (aep_Message p)) st (TrimSpace (env_CorrelationID e)))"
    "env_Error e = None \<Longrightarrow> st = 200 \<Longrightarrow> env_Data e = Some d \<Longrightarrow> dec (value_of (data_json fmt d)) zero = Some x \<Longrightarrow>
     value_of (data_json fmt d) \<noteq> VNull \<Longrightarrow>
     read_response dec zero \<lparr>hr_StatusCode = fst (sent_response fmt rw), hr_Body = Inr (snd (sent_response fmt rw))\<rparr> =
       Inr (x, TrimSpace (env_CorrelationID e))"
proof -
  have sent: "sent_response fmt rw = (st, json_Encode (envelope_json fmt e))" using assms(2,3) by (simp add: sent_response_def)
  have r: "json_depth (envelope_json fmt e) \<le> max_nesting" "ascii_text (json_Encode (envelope_json fmt e))"
    "length (json_Encode (envelope_json fmt e)) \<le> max_body"
    using assms(1,3) sent by (simp_all add: readable_def)
  show ascii: "json_ascii (envelope_json fmt e)" using r(2) json_write_ascii by (simp add: json_Encode_def)
  then have corr: "ascii_text (env_CorrelationID e)" by (auto simp: envelope_json_def meta_json_def split: if_splits)
  have read: "json_Unmarshal (decode_struct envelope_fields) (take max_body (json_Encode (envelope_json fmt e))) no_envelope =
    Some \<lparr>re_Data = Some (case env_Data e of None \<Rightarrow> VNull | Some d \<Rightarrow> value_of (data_json fmt d)),
          re_Error = client_error_part (env_Error e), re_Meta = Some (value_of (meta_json (env_CorrelationID e)))\<rparr>"
    using json_Unmarshal_written [OF r(1), of "json_Encode (envelope_json fmt e)" "decode_struct envelope_fields" no_envelope]
      decode_envelope [OF ascii] r(3) by simp
  note parts = read_response_def sent fst_conv snd_conv http_response.simps sum.case read option.case response_envelope.simps
    parse_meta [OF corr] Let_def
  show "env_Error e = Some p \<Longrightarrow> TrimSpace (aep_Code p) \<noteq> '''' \<Longrightarrow> TrimSpace (aep_Message p) \<noteq> '''' \<Longrightarrow>
     read_response dec zero \<lparr>hr_StatusCode = fst (sent_response fmt rw), hr_Body = Inr (snd (sent_response fmt rw))\<rparr> =
       Inl (api_failure (TrimSpace (aep_Code p)) (TrimSpace (aep_Message p)) st (TrimSpace (env_CorrelationID e)))"
    unfolding parts by (simp add: client_error_part_def)
  show "env_Error e = None \<Longrightarrow> st = 200 \<Longrightarrow> env_Data e = Some d \<Longrightarrow> dec (value_of (data_json fmt d)) zero = Some x \<Longrightarrow>
     value_of (data_json fmt d) \<noteq> VNull \<Longrightarrow>
     read_response dec zero \<lparr>hr_StatusCode = fst (sent_response fmt rw), hr_Body = Inr (snd (sent_response fmt rw))\<rparr> =
       Inr (x, TrimSpace (env_CorrelationID e))"
    unfolding parts by (simp add: client_error_part_def)
qed


section \<open>The data of a mutation\<close>

lemma retry_field_names:
  "field_of retry_fields ''source_task_id'' = Some (snd (jfield ''source_task_id'' rr_SourceTaskID rr_SourceTaskID_update decode_string))"
  "field_of retry_fields ''new_task_id'' = Some (snd (jfield ''new_task_id'' rr_NewTaskID rr_NewTaskID_update decode_string))"
  "field_of retry_fields ''status'' = Some (snd (jfield ''status'' rr_Status rr_Status_update decode_string))"
  "field_of retry_fields ''correlation_id'' = Some (snd (jfield ''correlation_id'' rr_CorrelationID rr_CorrelationID_update decode_string))"
  "field_of cancel_fields ''task_id'' = Some (snd (jfield ''task_id'' cr_TaskID cr_TaskID_update decode_string))"
  "field_of cancel_fields ''status'' = Some (snd (jfield ''status'' cr_Status cr_Status_update decode_string))"
  "field_of cancel_fields ''result_reason'' = Some (snd (jfield ''result_reason'' cr_ResultReason cr_ResultReason_update decode_string))"
  "field_of cancel_fields ''correlation_id'' = Some (snd (jfield ''correlation_id'' cr_CorrelationID cr_CorrelationID_update decode_string))"
  by (simp_all add: field_of_def retry_fields_def cancel_fields_def jfield_def)

lemma decode_retry:
  assumes "json_ascii (retry_json t)"
  shows "decode_struct retry_fields (value_of (retry_json t)) no_retry =
    Some \<lparr>rr_SourceTaskID = trr_SourceTaskID t, rr_NewTaskID = trr_NewTaskID t, rr_Status = trr_Status t,
          rr_CorrelationID = (case trr_CorrelationID t of None \<Rightarrow> '''' | Some c \<Rightarrow> c)\<rparr>"
  using assms unfolding retry_json_def
  by (subst decode_struct_written; cases "trr_CorrelationID t")
    (simp_all add: optional_field_def retry_field_names jfield_def no_retry_def)

lemma decode_cancel:
  assumes "json_ascii (cancel_json t)"
  shows "decode_struct cancel_fields (value_of (cancel_json t)) no_cancel =
    Some \<lparr>cr_TaskID = tcr_TaskID t, cr_Status = tcr_Status t, cr_ResultReason = tcr_ResultReason t,
          cr_CorrelationID = (case tcr_CorrelationID t of None \<Rightarrow> '''' | Some c \<Rightarrow> c)\<rparr>"
  using assms unfolding cancel_json_def
  by (subst decode_struct_written; cases "tcr_CorrelationID t")
    (simp_all add: optional_field_def retry_field_names jfield_def no_cancel_def)


section \<open>How the server answers a mutation\<close>

text \<open>Success, or an error whose status is 500 only if its code says so.\<close>

definition mutation_answer :: "response_writer \<Rightarrow> bool" where
  "mutation_answer rw \<longleftrightarrow>
     (\<exists>st e. rw_Sent rw = Some st \<and> rw_Body rw = Some (EnvelopeBody e) \<and>
        (case env_Error e of
           None \<Rightarrow> st = 200
         | Some p \<Rightarrow> st \<noteq> 200 \<and>
             (\<exists>code. aep_Code p = admin_code_str code \<and> TrimSpace (aep_Message p) \<noteq> '''' \<and>
                (st = 500 \<longrightarrow> code = AdminErrorCodeInternalAdminAPIError))))"

lemma mutation_answer_intros:
  assumes "rw_Sent rw = None"
  shows "mutation_answer (writeAdminSuccessResponseWithMeta 200 d meta rw)"
    and "st \<noteq> 200 \<Longrightarrow> TrimSpace message \<noteq> '''' \<Longrightarrow> (st = 500 \<Longrightarrow> code = AdminErrorCodeInternalAdminAPIError) \<Longrightarrow>
      mutation_answer (writeAdminErrorResponseWithMeta st (admin_error code message details) meta rw)"
proof -
  note defs = writeAdminEnvelope_def Let_def Write_def WriteHeader_def annotateAdminResponseTelemetry_def
    setAdminResponseTelemetry_def mutation_answer_def admin_error_def
  show "mutation_answer (writeAdminSuccessResponseWithMeta 200 d meta rw)"
    using assms by (simp add: writeAdminSuccessResponseWithMeta_def defs)
  assume "st \<noteq> 200" "TrimSpace message \<noteq> ''''" "st = 500 \<Longrightarrow> code = AdminErrorCodeInternalAdminAPIError"
  then show "mutation_answer (writeAdminErrorResponseWithMeta st (admin_error code message details) meta rw)"
    using assms admin_code_nonblank [of code] by (auto simp: writeAdminErrorResponseWithMeta_def defs)
qed

lemma mutation_answer_payloads:
  assumes "rw_Sent rw = None" "st \<noteq> 200" "st \<noteq> 500"
  shows "mutation_answer (writeAdminErrorResponseWithMeta st invalid_task_id meta rw)"
    "mutation_answer (writeAdminErrorResponseWithMeta st (task_not_found tid) meta rw)"
    "mutation_answer (writeAdminErrorResponseWithMeta st (mutation_unavailable ep) meta rw)"
  unfolding invalid_task_id_def task_not_found_def mutation_unavailable_def
  by (rule mutation_answer_intros(2) [OF assms(1,2)]; use assms(3) in \<open>simp add: is_space_def\<close>)+

lemma transition_failed_mutation:
  assumes "rw_Sent rw = None" "TrimSpace failed \<noteq> ''''" "TrimSpace message \<noteq> ''''"
    "transition_failed refusal (admin_error code message details) failed tid err = (st, payload)"
  shows "mutation_answer (writeAdminErrorResponseWithMeta st payload meta rw)"
  using assms
  by (auto simp: transition_failed_def is_space_def split: if_splits
      intro!: mutation_answer_intros(2) mutation_answer_payloads)

lemma mutation_handlers_answer:
  assumes "rw_Sent rw = None"
  shows "mutation_answer (fst (retryTask h r rw w))" "mutation_answer (fst (cancelTask h r rw w))"
  unfolding retryTask_def cancelTask_def
  using assms
  by (auto split: option.split prod.split sum.split intro!: mutation_answer_intros mutation_answer_payloads
      transition_failed_mutation simp: is_space_def)


section \<open>The route of a mutation\<close>

definition mutation_verb :: "task_admin_action \<Rightarrow> string" where
  "mutation_verb action = (if action = TaskAdminActionRetry then ''retry'' else ''cancel'')"

definition mutation_path :: "task_admin_action \<Rightarrow> string \<Rightarrow> string" where
  "mutation_path action i = ''/tasks/'' @ i @ ''/'' @ mutation_verb action"

lemma path_segments_plain: "CHR ''/'' \<notin> set s \<Longrightarrow> path_segments acc s = [acc @ s]"
  by (induction s arbitrary: acc) auto

lemma path_segments_slash: "CHR ''/'' \<notin> set s \<Longrightarrow> path_segments acc (s @ CHR ''/'' # t) = (acc @ s) # path_segments [] t"
  by (induction s arbitrary: acc) auto

lemma mutation_routed:
  assumes "i \<noteq> ''''" "CHR ''/'' \<notin> set i" "action \<in> {TaskAdminActionRetry, TaskAdminActionCancel}"
  shows "admin_route ''POST'' (mutation_path action i) = mutation_route action i"
proof -
  have "path_segments [] (mutation_path action i) = [[], ''tasks'', i, mutation_verb action]"
    using assms(2) by (simp add: mutation_path_def path_segments_slash path_segments_plain mutation_verb_def)
  then show ?thesis using assms(1,3) by (auto simp: admin_route_def mutation_verb_def mutation_route_def)
qed

text \<open>The request of the client as the handler of the interface gets it, and its answer.\<close>

definition answered_mutation ::
  "(string \<Rightarrow> uuid option) \<Rightarrow> (csv_error \<Rightarrow> string) \<Rightarrow> task_admin_action \<Rightarrow> string \<Rightarrow> 'x admin_world_scheme \<Rightarrow>
   response_writer \<times> 'x admin_world_scheme" where
  "answered_mutation parse reason action i s =
     admin_tasks_handler (wired_admin parse reason) (cli_request ''POST'' (mutation_path action i)) fresh_writer s"

lemma answered_mutation_answer:
  assumes "answered_mutation parse reason action i s = (rw, s')" "i \<noteq> ''''" "CHR ''/'' \<notin> set i"
    "action \<in> {TaskAdminActionRetry, TaskAdminActionCancel}"
  shows "mutation_answer rw"
  using assms(1) unfolding answered_mutation_def
proof (rule wired_around)
  let ?r = "cli_request ''POST'' (mutation_path action i)" and ?h = "wired_admin parse reason"
  fix ctx rw0 w1 w2
  assume a: "rw_Sent rw0 = None" and mux: "admin_mux ?h (?r\<lparr>rq_Context := ctx\<rparr>) rw0 w1 = (rw, w2)"
  have route: "admin_route (rq_Method ?r) (rq_Path ?r) = mutation_route action i"
    using mutation_routed [OF assms(2-4)] by (simp add: cli_request_def)
  show ?thesis
    using mux route mutation_handlers_answer [OF a, of ?h "routed (?r\<lparr>rq_Context := ctx\<rparr>)" w1]
    by (cases "action = TaskAdminActionRetry") (auto simp: admin_mux_def mutation_route_def split: if_splits)
qed

text \<open>What the network does with the call.\<close>

lemma served_mutation:
  assumes "answered_mutation parse reason action i s = (rw, s')"
    "serve = NewServer health metrics unwired [Some (wired_admin parse reason)]"
  shows "served_Do fmt other serve base ctx ''POST'' (base @ ''/api/v1/tasks/'' @ PathEscape i @ ''/'' @ mutation_verb action) s =
    (Inr \<lparr>hr_StatusCode = fst (sent_response fmt rw), hr_Body = Inr (snd (sent_response fmt rw))\<rparr>, s')"
proof -
  have verb: "CHR ''%'' \<notin> set (''/'' @ mutation_verb action)" by (simp add: mutation_verb_def)
  have "PathUnescape (''/api/v1/tasks/'' @ PathEscape i @ ''/'' @ mutation_verb action) =
      ''/api/v1'' @ mutation_path action i"
    using PathUnescape_append_plain [of "''/api/v1/tasks/''"] PathUnescape_escape [of i "''/'' @ mutation_verb action"]
      PathUnescape_append_plain [OF verb, of "[]"] by (simp add: mutation_path_def)
  moreover have "serve (cli_request ''POST'' (''/api/v1'' @ mutation_path action i)) s = (ServedAdmin rw, s')"
    using assms by (simp add: NewServer_def HasPrefix_def mutation_path_def cli_request_def answered_mutation_def)
  ultimately show ?thesis
    by (simp add: served_Do_def server_response_def split: prod.split)
qed


section \<open>What the operator is told\<close>

text \<open>The parser of identifiers: what it accepts is not empty, and one segment of a path.\<close>

definition one_segment :: "(string \<Rightarrow> uuid option) \<Rightarrow> bool" where
  "one_segment parse \<longleftrightarrow> (\<forall>i u. parse i = Some u \<longrightarrow> i \<noteq> '''' \<and> CHR ''/'' \<notin> set i)"

definition cli_actor :: actor where
  "cli_actor = \<lparr>actor_Type = ActorTypeAdminOperator, actor_ID = ''Go-http-client/1.1''\<rparr>"

definition shown_action :: "task_admin_action \<Rightarrow> uuid \<Rightarrow> task \<Rightarrow> go_error + string" where
  "shown_action action tid tk = WriteActionResult
     (if action = TaskAdminActionRetry
      then \<lparr>act_Action = ''retry requested'', act_TaskID = tid, act_NewTaskID = task_ID tk\<rparr>
      else \<lparr>act_Action = ''cancel requested'', act_TaskID = tid, act_NewTaskID = ''''\<rparr>)"

definition operator_told ::
  "(string \<Rightarrow> uuid option) \<Rightarrow> task_admin_action \<Rightarrow> string \<Rightarrow> cli_result \<Rightarrow> 'x db_scheme \<Rightarrow> 'x db_scheme \<Rightarrow> bool" where
  "operator_told parse action i res s s' \<longleftrightarrow>
     (\<exists>ctx. ActorFromContext ctx = cli_actor \<and>
        (if cli_Code res = 0 then
           \<exists>tid tk. parse (TrimSpace i) = Some tid \<and> mutation_effect ctx tid action s s' tk \<and>
             shown_action action tid tk = Inr (cli_Stdout res) \<and> cli_Stderr res = ''''
         else cli_Code res = 1 \<and> cli_Stdout res = '''' \<and>
           (\<exists>code message. cli_Stderr res = writePlainError (admin_code_str code) message \<and>
              (same_tables s s' \<or>
               code = AdminErrorCodeInternalAdminAPIError \<and>
                 (\<exists>tid tk. parse (TrimSpace i) = Some tid \<and> mutation_effect ctx tid action s s' tk)))))"

lemma told_failure:
  assumes "res = \<lparr>cli_Code = 1, cli_Stdout = '''', cli_Stderr = writePlainError (admin_code_str code) message\<rparr>"
    and "ActorFromContext ctx = cli_actor"
    and "same_tables s s' \<or> code = AdminErrorCodeInternalAdminAPIError \<and>
      (\<exists>tid tk. parse (TrimSpace i) = Some tid \<and> mutation_effect ctx tid action s s' tk)"
  shows "operator_told parse action i res s s'"
  unfolding operator_told_def
proof (intro exI conjI)
  show "ActorFromContext ctx = cli_actor" by (rule assms(2))
qed (use assms(1,3) in auto)

lemma with_task_id_plain:
  assumes "TrimSpace i \<noteq> ''--output''" "\<not> HasPrefix (TrimSpace i) ''--output=''"
  shows "with_task_id env usage [i] call w =
    (if ce_uuid_Parse env (TrimSpace i) = None
     then (writeCommandError OutputModeTable ''TASK_ID_INVALID'' ''task id must be a valid uuid'' '''', w)
     else call OutputModeTable (TrimSpace i) w)"
proof -
  have table: "ParseOutputMode ''table'' = Inr OutputModeTable" by code_simp
  show ?thesis
    using assms by (simp add: with_task_id_def parseOutputFlag_def table)
qed

lemma trimmed_or_id: "TrimSpace s = s \<Longrightarrow> s \<noteq> '''' \<Longrightarrow> trimmed_or s d = s"
  by (simp add: trimmed_or_def)

text \<open>The line for an error of the interface.\<close>

lemma code_line:
  "writeCommandError OutputModeTable (admin_code_str code) message corr =
   \<lparr>cli_Code = 1, cli_Stdout = '''',
    cli_Stderr = writePlainError (admin_code_str code) (trimmed_or message ''command failed'')\<rparr>"
  by (simp add: writeCommandError_def trimmed_or_id [OF admin_code_trimmed admin_code_nonblank [unfolded admin_code_trimmed]])

lemma api_error_line:
  "\<exists>m. writeNormalizedError OutputModeTable (api_failure (admin_code_str code) message st meta) =
     \<lparr>cli_Code = 1, cli_Stdout = '''', cli_Stderr = writePlainError (admin_code_str code) m\<rparr>"
  unfolding writeNormalizedError_def normalizeError_def Let_def option.case command_error_info.simps api_failure_def
    client_error.simps trimmed_or_id [OF admin_code_trimmed admin_code_nonblank [unfolded admin_code_trimmed]] code_line
  by blast

lemma client_mutation:
  assumes "answered_mutation parse reason action i s = (rw, s')"
    "serve = NewServer health metrics unwired [Some (wired_admin parse reason)]"
  shows "Client_request (served_client fmt other serve base) dec zero ctx ''POST''
      (''/api/v1/tasks/'' @ PathEscape i @ ''/'' @ mutation_verb action) s =
    (read_response dec zero \<lparr>hr_StatusCode = fst (sent_response fmt rw), hr_Body = Inr (snd (sent_response fmt rw))\<rparr>, s')"
  using served_mutation [OF assms, where fmt = fmt and other = other and base = base and ctx = ctx] by (simp add: Client_request_def served_client_def)

text \<open>The two commands, once their call has ended.\<close>

definition plain_id :: "cli_env \<Rightarrow> string \<Rightarrow> bool" where
  "plain_id env i \<longleftrightarrow> TrimSpace i \<noteq> ''--output'' \<and> \<not> HasPrefix (TrimSpace i) ''--output='' \<and> TrimSpace i \<noteq> '''' \<and>
     ce_uuid_Parse env (TrimSpace i) \<noteq> None"

lemma with_task_id_ok: "plain_id env i \<Longrightarrow> with_task_id env usage [i] call w = call OutputModeTable (TrimSpace i) w"
  by (auto simp: plain_id_def with_task_id_plain)

lemma plain_id_nonblank: "plain_id env i \<Longrightarrow> TrimSpace i \<noteq> ''''"
  by (simp add: plain_id_def)

lemma runTasksRetry_ends:
  assumes "plain_id env i"
    "Client_request client (decode_struct retry_fields) no_retry ctx ''POST''
       (''/api/v1/tasks/'' @ PathEscape (TrimSpace i) @ ''/'' @ mutation_verb TaskAdminActionRetry) w = (res, w')"
  shows "runTasksRetry env ctx [i] client w =
    ((case res of
        Inl err \<Rightarrow> writeNormalizedError OutputModeTable err
      | Inr (d, meta) \<Rightarrow> rendered OutputModeTable ''failed to render retry output''
          (WriteActionResult \<lparr>act_Action = ''retry requested'', act_TaskID = rr_SourceTaskID d,
                              act_NewTaskID = rr_NewTaskID d\<rparr>)), w')"
  using assms plain_id_nonblank [OF assms(1)]
  by (simp add: runTasksRetry_def with_task_id_ok Client_RetryTask_def normalizeTaskID_def mutation_verb_def
      renderTaskAction_def split: sum.split prod.split)

lemma runTasksCancel_ends:
  assumes "plain_id env i"
    "Client_request client (decode_struct cancel_fields) no_cancel ctx ''POST''
       (''/api/v1/tasks/'' @ PathEscape (TrimSpace i) @ ''/'' @ mutation_verb TaskAdminActionCancel) w = (res, w')"
  shows "runTasksCancel env ctx [i] client w =
    ((case res of
        Inl err \<Rightarrow> writeNormalizedError OutputModeTable err
      | Inr (d, meta) \<Rightarrow> rendered OutputModeTable ''failed to render cancel output''
          (WriteActionResult \<lparr>act_Action = ''cancel requested'', act_TaskID = cr_TaskID d, act_NewTaskID = ''''\<rparr>)), w')"
  using assms plain_id_nonblank [OF assms(1)]
  by (simp add: runTasksCancel_def with_task_id_ok Client_CancelTask_def normalizeTaskID_def mutation_verb_def
      renderTaskAction_def split: sum.split prod.split)

lemma Execute_mutations:
  "Execute env ctx [''tasks'', ''retry'', i] (Some client) w = runTasksRetry env ctx [i] client w"
  "Execute env ctx [''tasks'', ''cancel'', i] (Some client) w = runTasksCancel env ctx [i] client w"
  by (simp_all add: Execute_def)

text \<open>The action the client shows is the one the data names.\<close>

lemma shown_action_Inr: "\<exists>line. shown_action action tid tk = Inr line"
proof -
  have "TrimSpace ''retry requested'' \<noteq> ''''" "TrimSpace ''cancel requested'' \<noteq> ''''" by (simp_all add: is_space_def)
  then show ?thesis by (simp add: shown_action_def WriteActionResult_def Let_def)
qed

text \<open>Both commands for an answer that the client reads: an error, and data that names the effect.\<close>

lemma mutation_command_fails:
  assumes id: "plain_id env i" and action: "action \<in> {TaskAdminActionRetry, TaskAdminActionCancel}"
    and answer: "answered_mutation (ce_uuid_Parse env) reason action (TrimSpace i) s = (rw, s')"
    and serve: "serve = NewServer health metrics unwired [Some (wired_admin (ce_uuid_Parse env) reason)]"
    and rd: "readable fmt rw" "rw_Sent rw = Some st" "rw_Body rw = Some (EnvelopeBody e)"
    and e: "env_Error e = Some p" "aep_Code p = admin_code_str code" "TrimSpace (aep_Message p) \<noteq> ''''"
  shows "\<exists>m. Execute env ctx [''tasks'', mutation_verb action, i] (Some (served_client fmt other serve base)) s =
    (\<lparr>cli_Code = 1, cli_Stdout = '''', cli_Stderr = writePlainError (admin_code_str code) m\<rparr>, s')"
proof -
  let ?client = "served_client fmt other serve base"
  have code: "TrimSpace (aep_Code p) \<noteq> ''''" "TrimSpace (aep_Code p) = admin_code_str code"
    using e(2) admin_code_trimmed admin_code_nonblank by simp_all
  obtain m where m: "writeNormalizedError OutputModeTable (api_failure (admin_code_str code) (TrimSpace (aep_Message p)) st
      (TrimSpace (env_CorrelationID e))) = \<lparr>cli_Code = 1, cli_Stdout = '''', cli_Stderr = writePlainError (admin_code_str code) m\<rparr>"
    using api_error_line by blast
  show ?thesis
  proof (cases "action = TaskAdminActionRetry")
    case True
    then show ?thesis
      using runTasksRetry_ends [OF id client_mutation [OF answer [unfolded True] serve, where fmt = fmt and other = other and base = base and ctx = ctx]]
        read_envelope(2) [OF rd e(1) code(1) e(3), of "decode_struct retry_fields" no_retry] m code(2)
      by (intro exI [of _ m]) (simp add: mutation_verb_def Execute_mutations)
  next
    case False
    then have cancel: "action = TaskAdminActionCancel" using action by simp
    show ?thesis
      using runTasksCancel_ends [OF id client_mutation [OF answer [unfolded cancel] serve, where fmt = fmt and other = other and base = base and ctx = ctx]]
        read_envelope(2) [OF rd e(1) code(1) e(3), of "decode_struct cancel_fields" no_cancel] m code(2)
      by (intro exI [of _ m]) (simp add: mutation_verb_def Execute_mutations cancel)
  qed
qed

lemma mutation_command_succeeds:
  assumes id: "plain_id env i" and action: "action \<in> {TaskAdminActionRetry, TaskAdminActionCancel}"
    and answer: "answered_mutation (ce_uuid_Parse env) reason action (TrimSpace i) s = (rw, s')"
    and serve: "serve = NewServer health metrics unwired [Some (wired_admin (ce_uuid_Parse env) reason)]"
    and rd: "readable fmt rw" "rw_Sent rw = Some 200" "rw_Body rw = Some (EnvelopeBody e)"
    and e: "env_Error e = None" "env_Data e = Some d" "names_effect action tid tk d"
  shows "\<exists>line. shown_action action tid tk = Inr line \<and>
    Execute env ctx [''tasks'', mutation_verb action, i] (Some (served_client fmt other serve base)) s =
    (\<lparr>cli_Code = 0, cli_Stdout = line, cli_Stderr = ''''\<rparr>, s')"
proof -
  obtain line where line: "shown_action action tid tk = Inr line" using shown_action_Inr by blast
  have ascii: "json_ascii (data_json fmt d)" using read_envelope(1) [OF rd] e(2) by (simp add: envelope_json_def)
  show ?thesis
  proof (cases "action = TaskAdminActionRetry")
    case True
    then obtain t where t: "d = DataRetry t" "trr_SourceTaskID t = tid" "trr_NewTaskID t = task_ID tk"
      using e(3) by (auto simp: names_effect_def)
    have "read_response (decode_struct retry_fields) no_retry
        \<lparr>hr_StatusCode = fst (sent_response fmt rw), hr_Body = Inr (snd (sent_response fmt rw))\<rparr> =
      Inr (\<lparr>rr_SourceTaskID = trr_SourceTaskID t, rr_NewTaskID = trr_NewTaskID t, rr_Status = trr_Status t,
            rr_CorrelationID = (case trr_CorrelationID t of None \<Rightarrow> '''' | Some c \<Rightarrow> c)\<rparr>, TrimSpace (env_CorrelationID e))"
      by (rule read_envelope(3) [OF rd e(1) refl e(2)]) (use ascii decode_retry [of t] t(1) in \<open>simp_all add: retry_json_def\<close>)
    then show ?thesis
      using runTasksRetry_ends [OF id client_mutation [OF answer [unfolded True] serve, where fmt = fmt and other = other and base = base and ctx = ctx]] line True t(2,3)
      by (simp add: mutation_verb_def Execute_mutations shown_action_def rendered_def)
  next
    case False
    then have cancel: "action = TaskAdminActionCancel" using action by simp
    then obtain t where t: "d = DataCancel t" "tcr_TaskID t = tid" using e(3) by (auto simp: names_effect_def)
    have "read_response (decode_struct cancel_fields) no_cancel
        \<lparr>hr_StatusCode = fst (sent_response fmt rw), hr_Body = Inr (snd (sent_response fmt rw))\<rparr> =
      Inr (\<lparr>cr_TaskID = tcr_TaskID t, cr_Status = tcr_Status t, cr_ResultReason = tcr_ResultReason t,
            cr_CorrelationID = (case tcr_CorrelationID t of None \<Rightarrow> '''' | Some c \<Rightarrow> c)\<rparr>, TrimSpace (env_CorrelationID e))"
      by (rule read_envelope(3) [OF rd e(1) refl e(2)]) (use ascii decode_cancel [of t] t(1) in \<open>simp_all add: cancel_json_def\<close>)
    then show ?thesis
      using runTasksCancel_ends [OF id client_mutation [OF answer [unfolded cancel] serve, where fmt = fmt and other = other and base = base and ctx = ctx]] line cancel t(2)
      by (simp add: mutation_verb_def Execute_mutations shown_action_def rendered_def)
  qed
qed

lemma cli_request_actor: "adminActorFromRequest (cli_request method path) = cli_actor"
proof -
  have "TrimSpace ''Go-http-client/1.1'' = ''Go-http-client/1.1''" by code_simp
  then show ?thesis by (simp add: adminActorFromRequest_def cli_request_def cli_actor_def adminActorHeader_def Let_def)
qed

lemma refused_id_told:
  assumes "action \<in> {TaskAdminActionRetry, TaskAdminActionCancel}" "TrimSpace i \<noteq> ''--output''" "\<not> HasPrefix (TrimSpace i) ''--output=''"
    and None: "ce_uuid_Parse env (TrimSpace i) = None"
    and "Execute env ctx [''tasks'', mutation_verb action, i] (Some client) s = (res, s')"
  shows "operator_told (ce_uuid_Parse env) action i res s s'"
proof -
  have "res = writeCommandError OutputModeTable ''TASK_ID_INVALID'' ''task id must be a valid uuid'' '''' \<and> s' = s"
    using assms(1,5)
    by (auto simp: mutation_verb_def Execute_mutations runTasksRetry_def runTasksCancel_def
        with_task_id_plain [OF assms(2,3)] None)
  then have res: "res = \<lparr>cli_Code = 1, cli_Stdout = '''', cli_Stderr = writePlainError (admin_code_str AdminErrorCodeTaskIDInvalid)
      (trimmed_or ''task id must be a valid uuid'' ''command failed'')\<rparr>" "s' = s"
    using code_line [of AdminErrorCodeTaskIDInvalid] by simp_all
  have actor: "ActorFromContext (WithActor Background cli_actor) = cli_actor" by code_simp
  show ?thesis by (rule told_failure [OF res(1) actor]) (simp add: res(2))
qed

text \<open>
  C7.  \<open>followerctl tasks retry\<close> and \<open>tasks cancel\<close> against the service tell the operator the truth.  Exit code 0 means
  that the whole transition took place, with one audit record, and the line that is printed names the task and, for a
  retry, the new task.  With exit code 1 nothing is printed on the standard output, the error line carries one of the
  codes of the interface, and no table has changed, unless that code is the internal error, which alone leaves open
  whether a commit whose reply was lost took place.  The audit names the client program, not the person behind it.
\<close>

theorem operator_mutations:
  assumes "db_ok s" "one_segment (ce_uuid_Parse env)" "action \<in> {TaskAdminActionRetry, TaskAdminActionCancel}"
    and "TrimSpace i \<noteq> ''--output''" "\<not> HasPrefix (TrimSpace i) ''--output=''"
    and "serve = NewServer health metrics unwired [Some (wired_admin (ce_uuid_Parse env) reason)]"
    and "readable fmt (fst (answered_mutation (ce_uuid_Parse env) reason action (TrimSpace i) s))"
    and "Execute env ctx [''tasks'', mutation_verb action, i] (Some (served_client fmt other serve base)) s = (res, s')"
  shows "operator_told (ce_uuid_Parse env) action i res s s'"
proof (cases "ce_uuid_Parse env (TrimSpace i)")
  case None
  show ?thesis by (rule refused_id_told [OF assms(3,4,5) None assms(8)])
next
  case tid: (Some tid)
  let ?i = "TrimSpace i" and ?parse = "ce_uuid_Parse env"
  have i: "?i \<noteq> ''''" "CHR ''/'' \<notin> set ?i" using assms(2) tid by (auto simp: one_segment_def)
  have id: "plain_id env i" using assms(4,5) i(1) tid by (simp add: plain_id_def)
  obtain rw w' where answer: "answered_mutation ?parse reason action ?i s = (rw, w')" by fastforce
  have told: "mutation_told ?parse action ?i cli_actor rw s w'"
    using mutation_over_handler [OF assms(1) answer [unfolded answered_mutation_def], of action ?i]
      mutation_routed [OF i assms(3)] assms(3) by (simp add: cli_request_actor) (simp add: cli_request_def)
  obtain st e where e: "rw_Sent rw = Some st" "rw_Body rw = Some (EnvelopeBody e)"
    "case env_Error e of None \<Rightarrow> st = 200 | Some p \<Rightarrow> st \<noteq> 200 \<and>
       (\<exists>code. aep_Code p = admin_code_str code \<and> TrimSpace (aep_Message p) \<noteq> '''' \<and>
          (st = 500 \<longrightarrow> code = AdminErrorCodeInternalAdminAPIError))"
    using answered_mutation_answer [OF answer i assms(3)] unfolding mutation_answer_def by blast
  have rd: "readable fmt rw" using assms(7) answer by simp
  show ?thesis
  proof (cases "env_Error e")
    case None
    then have sent: "rw_Sent rw = Some 200" using e(1,3) by simp
    obtain ctx' tid' tk d where d: "ActorFromContext ctx' = cli_actor" "?parse ?i = Some tid'"
      "mutation_effect ctx' tid' action s w' tk" "env_Data e = Some d" "names_effect action tid' tk d"
      using told sent e(2) by (auto simp: mutation_told_def)
    then obtain line where "shown_action action tid' tk = Inr line" "res = \<lparr>cli_Code = 0, cli_Stdout = line, cli_Stderr = ''''\<rparr>" "s' = w'"
      using mutation_command_succeeds [OF id assms(3) answer assms(6) rd sent e(2) None d(4,5), of ctx other base] assms(8) by auto
    then show ?thesis using d(1-3) by (auto simp: operator_told_def)
  next
    case (Some p)
    then obtain code where code: "st \<noteq> 200" "aep_Code p = admin_code_str code" "TrimSpace (aep_Message p) \<noteq> ''''"
      "st = 500 \<longrightarrow> code = AdminErrorCodeInternalAdminAPIError" using e(3) by auto
    obtain m where res: "res = \<lparr>cli_Code = 1, cli_Stdout = '''', cli_Stderr = writePlainError (admin_code_str code) m\<rparr>" "s' = w'"
      using mutation_command_fails [OF id assms(3) answer assms(6) rd e(1,2) Some code(2,3), of ctx other base] assms(8) by auto
    obtain ctx' where "ActorFromContext ctx' = cli_actor" "same_tables s w' \<or>
        st = 500 \<and> (\<exists>tid tk. ?parse ?i = Some tid \<and> mutation_effect ctx' tid action s w' tk)"
      using told e(1) code(1) unfolding mutation_told_def by (auto split: if_splits)
    then show ?thesis using res(2) code(4) by (intro told_failure [OF res(1)]) auto
  qed
qed

definition sample_cli_env :: cli_env where
  "sample_cli_env =
     \<lparr>ce_uuid_Parse = (\<lambda>s. if s = ''t1'' then Some ''t1'' else None), ce_time_parse = (\<lambda>s. None),
      ce_time_format = \<lparr>tf_RFC3339Nano = (\<lambda>t. ''''), tf_RFC3339 = (\<lambda>t. '''')\<rparr>\<rparr>"

definition sample_served :: "http_request \<Rightarrow> admin_world \<Rightarrow> server_body \<times> admin_world" where
  "sample_served = NewServer (\<lambda>r w. (ServedStatus 404, w)) (\<lambda>r w. (ServedStatus 404, w)) (wired_admin Some (\<lambda>e. ''''))
     [Some (wired_admin (ce_uuid_Parse sample_cli_env) (\<lambda>e. ''''))]"

definition sample_command :: "cli_result \<times> admin_world" where
  "sample_command = Execute sample_cli_env Background [''tasks'', ''cancel'', ''t1'']
     (Some (served_client (\<lambda>t. '''') (\<lambda>b. (404, '''')) sample_served ''http://h'')) sample_admin_world"

text \<open>The command cancels the task \<open>t1\<close> of the sample database, and says so.\<close>

definition sample_writer :: response_writer where
  "sample_writer = fst (answered_mutation (ce_uuid_Parse sample_cli_env) (\<lambda>e. '''') TaskAdminActionCancel (TrimSpace ''t1'')
     sample_admin_world)"

lemma sample_answer:
  "rw_Sent sample_writer = Some 200 \<and>
   rw_Body sample_writer = Some (EnvelopeBody
     \<lparr>env_Data = Some (DataCancel \<lparr>tcr_TaskID = ''t1'', tcr_Status = ''canceled'',
        tcr_ResultReason = ''task canceled by admin operator'', tcr_CorrelationID = Some ''u1''\<rparr>),
      env_Error = None, env_CorrelationID = ''u1''\<rparr>)"
  by code_simp

lemma sample_readable: "readable (\<lambda>t. '''') sample_writer"
  using sample_answer
  by (simp add: readable_def sent_response_def envelope_json_def meta_json_def cancel_json_def optional_field_def json_Encode_def
      json_text_def json_char_def max_nesting_def max_body_def)

lemma operator_mutations_witness:
  "operator_told (ce_uuid_Parse sample_cli_env) TaskAdminActionCancel ''t1'' (fst sample_command) sample_admin_world
     (snd sample_command)"
proof (rule operator_mutations [OF sample_admin_world_ok _ _ _ _ sample_served_def])
  show "one_segment (ce_uuid_Parse sample_cli_env)" by (simp add: one_segment_def sample_cli_env_def)
  show "TrimSpace ''t1'' \<noteq> ''--output''" "\<not> HasPrefix (TrimSpace ''t1'') ''--output=''" by code_simp+
  show "readable (\<lambda>t. '''')
      (fst (answered_mutation (ce_uuid_Parse sample_cli_env) (\<lambda>e. '''') TaskAdminActionCancel (TrimSpace ''t1'') sample_admin_world))"
    by (rule sample_readable [unfolded sample_writer_def])
  show "Execute sample_cli_env Background [''tasks'', mutation_verb TaskAdminActionCancel, ''t1'']
      (Some (served_client (\<lambda>t. '''') (\<lambda>b. (404, '''')) sample_served ''http://h'')) sample_admin_world =
    (fst sample_command, snd sample_command)"
    by (simp add: sample_command_def mutation_verb_def)
qed simp

end
