(* ===== verification/Cli_Reads.thy ===== *)
theory Cli_Reads
  imports Cli_Server "HOL-Library.Multiset"
begin

text \<open>
  \<open>followerctl tasks list\<close> against the service: command, client, network, server and tables together.  What is shown
  are the rows of the table.  As in \<open>Cli_Server\<close>, the answer is ASCII and small enough; the text of a time is
  read back as that time.
\<close>

section \<open>Lists on the wire\<close>

lemma decode_elements_written:
  "(\<And>d. d \<in> set ds \<Longrightarrow> dec (value_of (J d)) zero = Some (f d)) \<Longrightarrow>
   decode_elements zero dec (map value_of (map J ds)) [] = Some (map f ds)"
  by (induction ds) auto

lemma decode_slice_written:
  "(\<And>d. d \<in> set ds \<Longrightarrow> dec (value_of (J d)) zero = Some (f d)) \<Longrightarrow>
   decode_slice zero dec (value_of (JArray (map J ds))) [] = Some (map f ds)"
  using decode_elements_written [of ds dec J zero f] by (simp add: decode_slice_def comp_def)

definition client_list_item :: "task_list_dto \<Rightarrow> task_list_item" where
  "client_list_item d =
     \<lparr>tli_ID = tld_ID d, tli_AccountID = tld_AccountID d, tli_TargetProfile = tld_TargetProfile d, tli_Status = tld_Status d,
      tli_Attempt = tld_Attempt d, tli_ErrorCode = tld_ErrorCode d, tli_ResultReason = tld_ResultReason d,
      tli_UpdatedAt = tld_UpdatedAt d\<rparr>"

lemma list_field_names:
  "field_of (list_item_fields parse) ''id'' = Some (snd (jfield ''id'' tli_ID tli_ID_update decode_string))"
  "field_of (list_item_fields parse) ''account_id'' = Some (snd (jfield ''account_id'' tli_AccountID tli_AccountID_update decode_string))"
  "field_of (list_item_fields parse) ''target_profile'' =
     Some (snd (jfield ''target_profile'' tli_TargetProfile tli_TargetProfile_update decode_string))"
  "field_of (list_item_fields parse) ''status'' = Some (snd (jfield ''status'' tli_Status tli_Status_update decode_string))"
  "field_of (list_item_fields parse) ''attempt'' = Some (snd (jfield ''attempt'' tli_Attempt tli_Attempt_update decode_int))"
  "field_of (list_item_fields parse) ''error_code'' =
     Some (snd (jfield ''error_code'' tli_ErrorCode tli_ErrorCode_update decode_string_ptr))"
  "field_of (list_item_fields parse) ''result_reason'' =
     Some (snd (jfield ''result_reason'' tli_ResultReason tli_ResultReason_update decode_string_ptr))"
  "field_of (list_item_fields parse) ''updated_at'' =
     Some (snd (jfield ''updated_at'' tli_UpdatedAt tli_UpdatedAt_update (decode_time parse)))"
  by (simp_all add: field_of_def list_item_fields_def jfield_def)

lemma tasks_field_name:
  "field_of (task_list_fields parse) ''tasks'' =
     Some (snd (jfield ''tasks'' (\<lambda>ts. ts) (\<lambda>f. f) (decode_slice no_list_item (decode_struct (list_item_fields parse)))))"
  by (simp add: field_of_def task_list_fields_def jfield_def)

lemma decode_nullable:
  "json_ascii (nullable_json v) \<Longrightarrow> decode_string_ptr (value_of (nullable_json v)) None = Some v"
  by (cases v) (simp_all add: nullable_json_def decode_ptr_def)

lemma decode_list_item:
  assumes "json_ascii (task_list_json fmt d)" "\<bar>tld_Attempt d\<bar> < 2 ^ 63" "parse (quoted (fmt (tld_UpdatedAt d))) = Some (tld_UpdatedAt d)"
  shows "decode_struct (list_item_fields parse) (value_of (task_list_json fmt d)) no_list_item = Some (client_list_item d)"
proof -
  have keys: "list_all (\<lambda>f. ascii_text (fst f))
      [(''id'', JString (tld_ID d)), (''account_id'', JString (tld_AccountID d)),
      (''target_profile'', JString (tld_TargetProfile d)), (''status'', JString (tld_Status d)),
      (''attempt'', JInt (tld_Attempt d)), (''error_code'', nullable_json (tld_ErrorCode d)),
      (''result_reason'', nullable_json (tld_ResultReason d)), (''updated_at'', time_json fmt (Some (tld_UpdatedAt d)))]"
    by simp
  show ?thesis
    using assms unfolding task_list_json_def decode_struct_written [OF keys]
    by (simp add: list_field_names jfield_def decode_nullable no_list_item_def client_list_item_def time_json_def decode_time_def abs_less_iff)
qed

lemma decode_task_list:
  assumes "json_ascii (data_json fmt (DataTasks ds))"
    and "\<And>d. d \<in> set ds \<Longrightarrow> \<bar>tld_Attempt d\<bar> < 2 ^ 63 \<and> parse (quoted (fmt (tld_UpdatedAt d))) = Some (tld_UpdatedAt d)"
  shows "decode_struct (task_list_fields parse) (value_of (data_json fmt (DataTasks ds))) [] = Some (map client_list_item ds)"
proof -
  have keys: "list_all (\<lambda>f. ascii_text (fst f)) [(''tasks'', JArray (map (task_list_json fmt) ds))]" by simp
  have "decode_slice no_list_item (decode_struct (list_item_fields parse)) (value_of (JArray (map (task_list_json fmt) ds))) [] =
      Some (map client_list_item ds)"
    using assms by (intro decode_slice_written decode_list_item) (simp_all add: list_all_iff)
  then show ?thesis
    unfolding data_json.simps decode_struct_written [OF keys] by (simp add: tasks_field_name jfield_def)
qed


section \<open>What the server answers\<close>

text \<open>The page of a list: the two hundred tasks updated last, the last first.\<close>

definition newest_tasks :: "'x db_scheme \<Rightarrow> task list" where
  "newest_tasks s = map task_of_row (take 200 (rev (sort_key trow_updated_at (sort_key trow_id (db_tasks s)))))"

lemma newest_tasks_same: "same_tables s s' \<Longrightarrow> newest_tasks s' = newest_tasks s"
  by (simp add: newest_tasks_def same_tables_def)

lemma Task_List_outcome:
  assumes "Task_List ctx 200 0 w = (res, w')"
  shows "same_tables w w' \<and> (\<forall>ts. res = Inr ts \<longrightarrow> ts = newest_tasks w)"
proof -
  obtain r w1 where run: "autocommit (select_tasks_page (\<lambda>r. True) 200 0) w = (r, w1)" by fastforce
  then have out: "w' = w1" "res = (case r of Inl e \<Rightarrow> Inl (with_stack e) | Inr rs \<Rightarrow> Inr (map task_of_row rs))"
    using assms by (auto simp: Task_List_def split: sum.splits)
  from run show ?thesis
  proof (cases rule: autocommit_cases)
    case (rejected e s1)
    then show ?thesis using out by simp
  next
    case (ran x s1 s2)
    then have "s2 = s1" "x = take 200 (rev (sort_key trow_updated_at (sort_key trow_id (db_tasks w))))"
      by (auto simp: select_tasks_page_def same_tables_def)
    then show ?thesis using ran out by (auto simp: newest_tasks_def)
  qed
qed

definition answered_list ::
  "(string \<Rightarrow> uuid option) \<Rightarrow> (csv_error \<Rightarrow> string) \<Rightarrow> 'x admin_world_scheme \<Rightarrow> response_writer \<times> 'x admin_world_scheme" where
  "answered_list parse reason s = admin_tasks_handler (wired_admin parse reason) (cli_request ''GET'' ''/tasks'') fresh_writer s"

text \<open>Data is the page, and nothing else but an error is answered.\<close>

definition list_answer :: "'x db_scheme \<Rightarrow> response_writer \<Rightarrow> bool" where
  "list_answer s rw \<longleftrightarrow> mutation_answer rw \<and>
     (\<forall>e. rw_Body rw = Some (EnvelopeBody e) \<and> env_Error e = None \<longrightarrow>
        env_Data e = Some (DataTasks (map newAdminTaskListDTO (newest_tasks s))))"

lemma list_answer_written:
  assumes "list_answer s rw"
  obtains st e where "rw_Sent rw = Some st" "rw_Body rw = Some (EnvelopeBody e)"
    "env_Error e = None \<longrightarrow> st = 200 \<and> env_Data e = Some (DataTasks (map newAdminTaskListDTO (newest_tasks s)))"
    "\<forall>p. env_Error e = Some p \<longrightarrow> st \<noteq> 200 \<and> TrimSpace (aep_Code p) \<noteq> '''' \<and> TrimSpace (aep_Message p) \<noteq> ''''"
proof -
  obtain st e where e: "rw_Sent rw = Some st" "rw_Body rw = Some (EnvelopeBody e)"
    and answer: "case env_Error e of None \<Rightarrow> st = 200 | Some p \<Rightarrow> st \<noteq> 200 \<and>
      (\<exists>code. aep_Code p = admin_code_str code \<and> TrimSpace (aep_Message p) \<noteq> '''' \<and>
        (st = 500 \<longrightarrow> code = AdminErrorCodeInternalAdminAPIError))"
    using assms unfolding list_answer_def mutation_answer_def by blast
  have page: "env_Error e = None \<Longrightarrow> env_Data e = Some (DataTasks (map newAdminTaskListDTO (newest_tasks s)))"
    using assms e(2) unfolding list_answer_def by blast
  show thesis
  proof (rule that [OF e], intro impI)
    assume none: "env_Error e = None"
    then show "st = 200 \<and> env_Data e = Some (DataTasks (map newAdminTaskListDTO (newest_tasks s)))"
      using page [OF none] answer by (simp only: none option.case simp_thms)
  next
    show "\<forall>p. env_Error e = Some p \<longrightarrow> st \<noteq> 200 \<and> TrimSpace (aep_Code p) \<noteq> '''' \<and> TrimSpace (aep_Message p) \<noteq> ''''"
    proof (intro allI impI)
      fix p
      assume some: "env_Error e = Some p"
      then obtain code where "st \<noteq> 200" "aep_Code p = admin_code_str code" "TrimSpace (aep_Message p) \<noteq> ''''"
        using answer by (simp only: some option.case) blast
      then show "st \<noteq> 200 \<and> TrimSpace (aep_Code p) \<noteq> '''' \<and> TrimSpace (aep_Message p) \<noteq> ''''"
        using admin_code_nonblank [of code] by (simp only: simp_thms)
    qed
  qed
qed

lemma written_bodies:
  assumes "rw_Sent rw = None"
  shows "\<exists>e. rw_Body (writeAdminSuccessResponseWithMeta st d meta rw) = Some (EnvelopeBody e) \<and> env_Error e = None \<and> env_Data e = Some d"
    "\<exists>e. rw_Body (writeAdminErrorResponseWithMeta st p meta rw) = Some (EnvelopeBody e) \<and> env_Error e \<noteq> None"
  using assms
  by (simp_all add: writeAdminSuccessResponseWithMeta_def writeAdminErrorResponseWithMeta_def writeAdminEnvelope_def Let_def
      Write_def WriteHeader_def annotateAdminResponseTelemetry_def setAdminResponseTelemetry_def)

lemma writers_list_answer:
  assumes "rw_Sent rw = None"
  shows "list_answer s (writeAdminSuccessResponse 200 (DataTasks (map newAdminTaskListDTO (newest_tasks s))) rw)"
    "TrimSpace message \<noteq> '''' \<Longrightarrow>
     list_answer s (writeAdminErrorResponse 500 (admin_error AdminErrorCodeInternalAdminAPIError message NoDetails) rw)"
proof -
  let ?d = "DataTasks (map newAdminTaskListDTO (newest_tasks s))"
  show "list_answer s (writeAdminSuccessResponse 200 ?d rw)"
    using mutation_answer_intros(1) [OF assms, of ?d "''''"] written_bodies(1) [OF assms, of 200 ?d "''''"]
    by (auto simp: list_answer_def writeAdminSuccessResponse_def)
  let ?p = "admin_error AdminErrorCodeInternalAdminAPIError message NoDetails"
  assume "TrimSpace message \<noteq> ''''"
  then show "list_answer s (writeAdminErrorResponse 500 ?p rw)"
    using mutation_answer_intros(2) [OF assms, of 500 message AdminErrorCodeInternalAdminAPIError NoDetails "''''"]
      written_bodies(2) [OF assms, of 500 ?p "''''"]
    by (auto simp: list_answer_def writeAdminErrorResponse_def)
qed

lemma listTasks_wired:
  assumes "rw_Sent rw0 = None" "listTasks (wired_admin parse reason) r rw0 w = (rw, w')"
  shows "same_tables w w' \<and> list_answer w rw"
proof -
  obtain res w1 where l: "Task_List (rq_Context r) 200 0 w = (res, w1)" by fastforce
  have reader: "ah_listReader (wired_admin parse reason) = Some Task_List"
    by (simp add: wired_admin_def NewAdminTasksHandler_def)
  have "TrimSpace ''failed to fetch tasks'' \<noteq> ''''" by (simp add: is_space_def)
  note failed = writers_list_answer(2) [OF assms(1) this, of w] and page = writers_list_answer(1) [OF assms(1), of w]
  show ?thesis
  proof (cases res)
    case (Inl err)
    then have "rw = writeAdminErrorResponse 500 (admin_error AdminErrorCodeInternalAdminAPIError ''failed to fetch tasks'' NoDetails) rw0"
      "w' = w1"
      using assms(2) by (simp_all only: listTasks_def reader option.case l prod.case sum.case Inl prod.inject)
    then show ?thesis using failed Task_List_outcome [OF l] by (simp only: simp_thms)
  next
    case (Inr ts)
    then have "rw = writeAdminSuccessResponse 200 (DataTasks (map newAdminTaskListDTO ts)) rw0" "w' = w1"
      using assms(2) by (simp_all only: listTasks_def reader option.case l prod.case sum.case Inr prod.inject)
    moreover have "ts = newest_tasks w" "same_tables w w1" using Task_List_outcome [OF l] Inr by simp_all
    ultimately show ?thesis using page by (simp only: simp_thms)
  qed
qed

lemma answered_list_told:
  assumes "answered_list parse reason s = (rw, s')"
  shows "same_tables s s' \<and> list_answer s rw"
  using assms unfolding answered_list_def
proof (rule wired_around)
  let ?r = "cli_request ''GET'' ''/tasks''" and ?h = "wired_admin parse reason"
  fix ctx rw0 w1 w2
  assume a: "same_tables s w1" "rw_Sent rw0 = None" "same_tables w2 s'" and mux: "admin_mux ?h (?r\<lparr>rq_Context := ctx\<rparr>) rw0 w1 = (rw, w2)"
  have "admin_route ''GET'' ''/tasks'' = RouteList" by code_simp
  then have "admin_route (rq_Method ?r) (rq_Path ?r) = RouteList" by (simp add: cli_request_def)
  then have "listTasks ?h (routed (?r\<lparr>rq_Context := ctx\<rparr>)) rw0 w1 = (rw, w2)" using mux by (simp add: admin_mux_def)
  from listTasks_wired [OF a(2) this] have told: "same_tables w1 w2" "list_answer w1 rw" by simp_all
  have "same_tables s s'" using a(1,3) told(1) same_tables_trans by blast
  moreover have "list_answer s rw" using told(2) unfolding list_answer_def newest_tasks_same [OF a(1)] .
  ultimately show ?thesis ..
qed


section \<open>What the command shows\<close>

lemma client_list:
  assumes "answered_list parse reason s = (rw, s')"
    "serve = NewServer health metrics unwired [Some (wired_admin parse reason)]"
  shows "Client_request (served_client fmt other serve base) dec zero ctx ''GET'' ''/api/v1/tasks'' s =
    (read_response dec zero \<lparr>hr_StatusCode = fst (sent_response fmt rw), hr_Body = Inr (snd (sent_response fmt rw))\<rparr>, s')"
proof -
  have "PathUnescape ''/api/v1/tasks'' = ''/api/v1/tasks''" using PathUnescape_append_plain [of "''/api/v1/tasks''" "[]"] by simp
  moreover have "serve (cli_request ''GET'' ''/api/v1/tasks'') s = (ServedAdmin rw, s')"
    using assms by (simp add: NewServer_def HasPrefix_def cli_request_def answered_list_def)
  ultimately show ?thesis
    by (simp add: Client_request_def served_client_def served_Do_def server_response_def HasPrefix_def split: prod.split)
qed

lemma error_result:
  "cli_Code (writeNormalizedError mode err) = 1" "cli_Stdout (writeNormalizedError mode err) = ''''"
  by (simp_all add: writeNormalizedError_def writeCommandError_def Let_def)

text \<open>A time of a row is read back from its text.\<close>

definition times_read_back :: "time_text \<Rightarrow> time_parser \<Rightarrow> 'x db_scheme \<Rightarrow> bool" where
  "times_read_back fmt parse s \<longleftrightarrow>
     (\<forall>r \<in> set (db_tasks s). parse (quoted (fmt (trow_updated_at r))) = Some (trow_updated_at r))"

lemma newest_tasks_rows:
  assumes "tk \<in> set (newest_tasks s)"
  obtains r where "r \<in> set (db_tasks s)" "tk = task_of_row r"
  using assms by (auto simp: newest_tasks_def dest!: in_set_takeD)

lemma decode_page:
  fixes s :: "'x db_scheme"
  defines "ds \<equiv> map newAdminTaskListDTO (newest_tasks s)"
  assumes "db_ok s" "times_read_back fmt parse s" "json_ascii (data_json fmt (DataTasks ds))"
  shows "decode_struct (task_list_fields parse) (value_of (data_json fmt (DataTasks ds))) [] = Some (map client_list_item ds)"
proof (rule decode_task_list [OF assms(4)])
  fix d
  assume "d \<in> set ds"
  then obtain tk where tk: "tk \<in> set (newest_tasks s)" "d = newAdminTaskListDTO tk" by (auto simp: ds_def)
  then obtain r where r: "r \<in> set (db_tasks s)" "tk = task_of_row r" by (elim newest_tasks_rows)
  have "task_row_ok r" using assms(2) r(1) by (auto simp: db_ok_def tasks_ok_def list_all_iff)
  then show "\<bar>tld_Attempt d\<bar> < 2 ^ 63 \<and> parse (quoted (fmt (tld_UpdatedAt d))) = Some (tld_UpdatedAt d)"
    using assms(3) r tk(2)
    by (auto simp: task_row_ok_def int4_max_def times_read_back_def newAdminTaskListDTO_def task_of_row_def)
qed

section \<open>The text of a listing\<close>

text \<open>
  What a listing holds of a row of the table: the cells of a line, and the object of the JSON form.  A code or a reason
  that is missing or blank is an empty cell, and \<open>null\<close> in JSON.
\<close>

definition listed_text :: "string option \<Rightarrow> string" where
  "listed_text v = (case v of None \<Rightarrow> '''' | Some t \<Rightarrow> TrimSpace t)"

definition listed_nullable :: "string option \<Rightarrow> json" where
  "listed_nullable v = (if listed_text v = '''' then JNull else JString (listed_text v))"

definition listed_cells :: "time_format \<Rightarrow> task_row \<Rightarrow> string list" where
  "listed_cells tf r =
     [trow_id r, trow_account_id r, trow_target_profile r, task_status_str (trow_status r), Itoa (trow_attempt r),
      listed_text (map_option error_code_str (trow_error_code r)), listed_text (trow_result_reason r),
      if trow_updated_at r = zero_Time then '''' else tf_RFC3339 tf (trow_updated_at r)]"

definition listed_object :: "time_format \<Rightarrow> task_row \<Rightarrow> json" where
  "listed_object tf r = JObject
     [(''id'', JString (trow_id r)), (''account_id'', JString (trow_account_id r)),
      (''target_profile'', JString (trow_target_profile r)), (''status'', JString (task_status_str (trow_status r))),
      (''attempt'', JInt (trow_attempt r)), (''error_code'', listed_nullable (map_option error_code_str (trow_error_code r))),
      (''result_reason'', listed_nullable (trow_result_reason r)),
      (''updated_at'', if trow_updated_at r = zero_Time then JNull else JString (tf_RFC3339Nano tf (trow_updated_at r)))]"

text \<open>
  The text that \<open>text/tabwriter\<close> makes of the lines, tabs between the cells, under the line of titles; or the text
  that \<open>encoding/json\<close> makes of the object, indented.
\<close>

definition listing :: "time_format \<Rightarrow> output_mode \<Rightarrow> task_row list \<Rightarrow> string" where
  "listing tf mode rows =
     (if mode = OutputModeJSON then json_pretty 0 (JObject [(''tasks'', JArray (map (listed_object tf) rows))]) @ [CHR 0x0A]
      else tabwriter_Write (concat (map (\<lambda>cells. Join cells [CHR 0x09] @ [CHR 0x0A])
        ([''ID'', ''ACCOUNT_ID'', ''TARGET_PROFILE'', ''STATUS'', ''ATTEMPT'', ''ERROR_CODE'', ''RESULT_REASON'', ''UPDATED_AT''] #
         map (listed_cells tf) rows))))"

definition listed_before :: "task_row \<Rightarrow> task_row \<Rightarrow> bool" where
  "listed_before a b \<longleftrightarrow>
     trow_updated_at b < trow_updated_at a \<or> trow_updated_at b = trow_updated_at a \<and> trow_id b \<le> trow_id a"

lemma shown_item:
  "client_list_item (newAdminTaskListDTO (task_of_row r)) =
   \<lparr>tli_ID = trow_id r, tli_AccountID = trow_account_id r, tli_TargetProfile = trow_target_profile r,
    tli_Status = task_status_str (trow_status r), tli_Attempt = trow_attempt r,
    tli_ErrorCode = adminNullableString (listed_text (map_option error_code_str (trow_error_code r))),
    tli_ResultReason = adminNullableString (listed_text (trow_result_reason r)), tli_UpdatedAt = trow_updated_at r\<rparr>"
  by (simp add: client_list_item_def newAdminTaskListDTO_def task_of_row_def adminNullableString_def listed_text_def
      split: option.split)

lemma shown_text_cell: "derefString (adminNullableString (listed_text v)) = listed_text v"
  by (simp add: derefString_def adminNullableString_def listed_text_def Let_def split: option.split)

lemma shown_text_json: "view_string (adminNullableString (listed_text v)) = listed_nullable v"
  by (simp add: view_string_def adminNullableString_def listed_nullable_def listed_text_def Let_def split: option.split)

lemma rendered_listing:
  "renderTasksList tf mode (mapTaskListView (map (\<lambda>r. client_list_item (newAdminTaskListDTO (task_of_row r))) rows)) =
   Inr (listing tf mode rows)"
proof -
  have square: "first_bad_row 8 n (map (listed_cells tf) rs) = None" for n and rs :: "task_row list"
    by (induction rs arbitrary: n) (simp_all add: listed_cells_def)
  have cells: "[vli_ID i, vli_AccountID i, vli_TargetProfile i, vli_Status i, Itoa (vli_Attempt i), derefString (vli_ErrorCode i),
      derefString (vli_ResultReason i), formatOptionalTime tf (vli_UpdatedAt i)] = listed_cells tf r"
    and object: "list_item_view_json tf i = listed_object tf r"
    if "[i] = mapTaskListView [client_list_item (newAdminTaskListDTO (task_of_row r))]" for i r
    using that
    by (simp_all add: mapTaskListView_def shown_item listed_cells_def listed_object_def list_item_view_json_def shown_text_cell
        shown_text_json formatOptionalTime_def nullableTime_def view_time_def)
  have items: "mapTaskListView (map (\<lambda>r. client_list_item (newAdminTaskListDTO (task_of_row r))) rows) =
      map (\<lambda>r. hd (mapTaskListView [client_list_item (newAdminTaskListDTO (task_of_row r))])) rows"
    by (simp add: mapTaskListView_def)
  have one: "[hd (mapTaskListView [x])] = mapTaskListView [x]" for x by (simp add: mapTaskListView_def)
  have eight: "length [''ID'', ''ACCOUNT_ID'', ''TARGET_PROFILE'', ''STATUS'', ''ATTEMPT'', ''ERROR_CODE'', ''RESULT_REASON'',
      ''UPDATED_AT''] = 8" by simp
  show ?thesis
    unfolding items renderTasksList_def WriteTable_def listing_def WriteJSON_def newline_def table.simps list.map map_map comp_def
      cells [OF one] object [OF one] eight square option.case
    by (cases mode) (simp_all only: output_mode.distinct list.distinct if_True if_False simp_thms)
qed

lemma sorted_wrt_two_keys:
  assumes "sorted (map f zs)" "\<And>k. sorted (map g (filter (\<lambda>x. f x = k) zs))"
  shows "sorted_wrt (\<lambda>a b. f a < f b \<or> f a = f b \<and> g a \<le> g b) zs"
  using assms
proof (induction zs)
  case (Cons z zs)
  have "sorted (map g (filter (\<lambda>x. f x = k) zs))" for k
    using Cons.prems(2) [of k] by (simp split: if_splits)
  moreover have "f z < f y \<or> f z = f y \<and> g z \<le> g y" if "y \<in> set zs" for y
    using Cons.prems(1) Cons.prems(2) [of "f z"] that by (cases "f y = f z") (auto simp: order_less_le)
  ultimately show ?case using Cons by simp
qed simp

lemma newest_rows_order:
  "\<exists>rows. mset rows = mset (db_tasks s) \<and> sorted_wrt listed_before rows \<and> newest_tasks s = map task_of_row (take 200 rows)"
proof (intro exI conjI)
  let ?ids = "sort_key trow_id (db_tasks s)"
  have "sorted (map trow_id (filter (\<lambda>x. trow_updated_at x = k) (sort_key trow_updated_at ?ids)))" for k
    unfolding sort_key_stable by (rule sorted_filter) simp
  from sorted_wrt_two_keys [OF sorted_sort_key this]
  have "sorted_wrt (\<lambda>a b. listed_before b a) (sort_key trow_updated_at ?ids)"
    by (rule sorted_wrt_mono_rel [rotated]) (auto simp: listed_before_def)
  then show "sorted_wrt listed_before (rev (sort_key trow_updated_at ?ids))" by (simp add: sorted_wrt_rev)
qed (simp_all add: newest_tasks_def)

text \<open>
  C9.  \<open>followerctl tasks list\<close> shows what is in the table, in either form of output.  When the server answers 200, the
  exit code is 0 and the text is the listing of the two hundred tasks updated last, the last first: for each its
  identifier, account, profile, status, attempt, error code, reason and time in the columns of these names.  On any other
  answer the exit code is 1 and nothing is shown.  The command changes no table.
\<close>

theorem operator_list:
  assumes "db_ok s" "times_read_back fmt (ce_time_parse env) s" "parseOutputFlag args = Inr (mode, [])"
    and "serve = NewServer health metrics unwired [Some (wired_admin parse reason)]"
    and "readable fmt (fst (answered_list parse reason s))"
    and "Execute env ctx (''tasks'' # ''list'' # args) (Some (served_client fmt other serve base)) s = (res, s')"
  shows "same_tables s s' \<and>
    (if rw_Sent (fst (answered_list parse reason s)) = Some 200
     then cli_Code res = 0 \<and> cli_Stderr res = '''' \<and>
       (\<exists>rows. mset rows = mset (db_tasks s) \<and> sorted_wrt listed_before rows \<and>
          cli_Stdout res = listing (ce_time_format env) mode (take 200 rows))
     else cli_Code res = 1 \<and> cli_Stdout res = '''')"
proof -
  obtain rw w' where answer: "answered_list parse reason s = (rw, w')" by fastforce
  have told: "same_tables s w'" "list_answer s rw" using answered_list_told [OF answer] by simp_all
  obtain st e where e: "rw_Sent rw = Some st" "rw_Body rw = Some (EnvelopeBody e)"
    and page: "env_Error e = None \<longrightarrow> st = 200 \<and> env_Data e = Some (DataTasks (map newAdminTaskListDTO (newest_tasks s)))"
    and failed: "\<forall>p. env_Error e = Some p \<longrightarrow> st \<noteq> 200 \<and> TrimSpace (aep_Code p) \<noteq> '''' \<and> TrimSpace (aep_Message p) \<noteq> ''''"
    by (rule list_answer_written [OF told(2)])
  note ok = page [THEN mp] and bad = failed [THEN spec, THEN mp]
  have rd: "readable fmt rw" using assms(5) answer by simp
  let ?dec = "decode_struct (task_list_fields (ce_time_parse env))" and ?ds = "map newAdminTaskListDTO (newest_tasks s)"
  let ?resp = "\<lparr>hr_StatusCode = fst (sent_response fmt rw), hr_Body = Inr (snd (sent_response fmt rw))\<rparr>"
  have run: "Execute env ctx (''tasks'' # ''list'' # args) (Some (served_client fmt other serve base)) s =
      (case read_response ?dec [] ?resp of
         Inl err \<Rightarrow> (writeNormalizedError mode err, w')
       | Inr (d, meta) \<Rightarrow> (rendered mode ''failed to render tasks list output''
           (renderTasksList (ce_time_format env) mode (mapTaskListView d)), w'))"
    by (simp add: Execute_def runTasksList_def assms(3) Client_ListTasks_def client_list [OF answer assms(4)]
        split: sum.split prod.split)
  show ?thesis
  proof (cases "env_Error e")
    case (Some p)
    then obtain err where "read_response ?dec [] ?resp = Inl err"
      using read_envelope(2) [OF rd e(1,2) Some, of ?dec "[]"] bad [OF Some] by simp
    then have "res = writeNormalizedError mode err" "s' = w'" using run assms(6) by simp_all
    then show ?thesis using told(1) error_result [of mode err] bad [OF Some] answer e(1) by simp
  next
    case None
    have ascii: "json_ascii (data_json fmt (DataTasks ?ds))"
      using read_envelope(1) [OF rd e(1,2)] ok [OF None] by (simp add: envelope_json_def)
    have "value_of (data_json fmt (DataTasks ?ds)) \<noteq> VNull" by simp
    with decode_page [OF assms(1,2) ascii] have "read_response ?dec [] ?resp = Inr (map client_list_item ?ds, TrimSpace (env_CorrelationID e))"
      by (rule read_envelope(3) [OF rd e(1,2) None ok [OF None, THEN conjunct1] ok [OF None, THEN conjunct2]])
    then have ended: "res = rendered mode ''failed to render tasks list output''
        (renderTasksList (ce_time_format env) mode (mapTaskListView (map client_list_item ?ds)))" "s' = w'"
      using run assms(6) by simp_all
    obtain rows where rows: "mset rows = mset (db_tasks s)" "sorted_wrt listed_before rows" "newest_tasks s = map task_of_row (take 200 rows)"
      using newest_rows_order by blast
    have "res = \<lparr>cli_Code = 0, cli_Stdout = listing (ce_time_format env) mode (take 200 rows), cli_Stderr = ''''\<rparr>"
      using ended(1) rendered_listing [of _ mode "take 200 rows"] by (simp add: rows(3) comp_def rendered_def)
    then show ?thesis using rows(1,2) ended(2) told(1) ok [OF None] answer e(1) by auto
  qed
qed

text \<open>The tasks of the sample database are listed, from the text of the answer.\<close>

definition sample_list_writer :: response_writer where
  "sample_list_writer = fst (answered_list (ce_uuid_Parse sample_cli_env) (\<lambda>e. '''') sample_admin_world)"

lemma sample_list_answer:
  "rw_Sent sample_list_writer = Some 200 \<and>
   rw_Body sample_list_writer = Some (EnvelopeBody
     \<lparr>env_Data = Some (DataTasks [\<lparr>tld_ID = ''t1'', tld_AccountID = ''a1'',
        tld_TargetProfile = ''https://oskelly.ru/profile/7'', tld_Status = ''queued'', tld_Attempt = 0,
        tld_ErrorCode = None, tld_ResultReason = None, tld_UpdatedAt = 5\<rparr>]),
      env_Error = None, env_CorrelationID = ''u0''\<rparr>)"
  by code_simp

lemma Itoa_zero: "Itoa 0 = ''0''"
  by code_simp

lemma sample_list_readable: "readable (\<lambda>t. '''') sample_list_writer"
  using sample_list_answer
  by (simp add: readable_def sent_response_def envelope_json_def meta_json_def task_list_json_def Itoa_zero nullable_json_def time_json_def
      json_Encode_def json_text_def json_char_def max_nesting_def max_body_def)

definition sample_list_env :: cli_env where
  "sample_list_env = sample_cli_env\<lparr>ce_time_parse := (\<lambda>s. Some 5)\<rparr>"

definition sample_listing :: "cli_result \<times> admin_world" where
  "sample_listing = Execute sample_list_env Background [''tasks'', ''list'']
     (Some (served_client (\<lambda>t. '''') (\<lambda>b. (404, '''')) sample_served ''http://h'')) sample_admin_world"

lemma operator_list_witness:
  "same_tables sample_admin_world (snd sample_listing) \<and> cli_Code (fst sample_listing) = 0 \<and>
   cli_Stdout (fst sample_listing) = listing (ce_time_format sample_list_env) OutputModeTable [sample_queued]"
proof -
  have times: "times_read_back (\<lambda>t. '''') (ce_time_parse sample_list_env) sample_admin_world"
    by (simp add: times_read_back_def sample_list_env_def sample_admin_world_def db.defs sample_db_def sample_queued_def queued_row_def)
  have mode: "parseOutputFlag [] = Inr (OutputModeTable, [])" by code_simp
  have rd: "readable (\<lambda>t. '''') (fst (answered_list (ce_uuid_Parse sample_cli_env) (\<lambda>e. '''') sample_admin_world))"
    by (rule sample_list_readable [unfolded sample_list_writer_def])
  have run: "Execute sample_list_env Background [''tasks'', ''list'']
      (Some (served_client (\<lambda>t. '''') (\<lambda>b. (404, '''')) sample_served ''http://h'')) sample_admin_world =
    (fst sample_listing, snd sample_listing)"
    by (simp add: sample_listing_def)
  have tasks: "db_tasks sample_admin_world = [sample_queued]" by (simp add: sample_admin_world_def db.defs sample_db_def)
  obtain rows where "mset rows = mset (db_tasks sample_admin_world)" and out: "same_tables sample_admin_world (snd sample_listing)"
    "cli_Code (fst sample_listing) = 0" "cli_Stdout (fst sample_listing) = listing (ce_time_format sample_list_env) OutputModeTable (take 200 rows)"
    using operator_list [OF sample_admin_world_ok times mode sample_served_def rd run] sample_list_answer
    unfolding sample_list_writer_def by auto
  then have "rows = [sample_queued]" by (simp add: tasks)
  then show ?thesis using out by simp
qed

end
