(* ===== verification/Log_Lines.thy ===== *)
theory Log_Lines
  imports Diagnostics Strconv
begin

text \<open>
  The log: the attribute lists of \<open>internal/observability/events.go\<close> and the spans of \<open>admin_instrumentation.go\<close>, the
  value an error logs (\<open>LogValue\<close> of \<open>internal/stackerr\<close>), and the handler of \<open>internal/logger/compact_handler.go\<close>,
  which makes a line of a record.

  Of \<open>log/slog\<close> it has the kinds of values the service logs and their texts.  The frames an error carries are not part
  of the model of errors, so they are given beside it; the clock is text already.  A panic is \<open>None\<close>.
\<close>

section \<open>Values\<close>

text \<open>
  A float is its text and whether it is one; \<open>TextValue\<close> is a value of another kind, by the text package \<open>fmt\<close> has
  for it.  A \<open>LogValuer\<close> is its text and what its \<open>LogValue\<close> gives.
\<close>

datatype slog_value =
    StringValue string
  | Int64Value int
  | Uint64Value nat
  | Float64Value string bool
  | BoolValue bool
  | TextValue string
  | GroupValue "(string \<times> slog_value) list"
  | LogValuerValue string slog_value

type_synonym slog_attr = "string \<times> slog_value"

fun value_String :: "slog_value \<Rightarrow> string" where
  "value_String (StringValue s) = s"
| "value_String (Int64Value i) = Itoa i"
| "value_String (Uint64Value n) = Itoa (int n)"
| "value_String (Float64Value s one) = s"
| "value_String (BoolValue b) = FormatBool b"
| "value_String (TextValue s) = s"
| "value_String (GroupValue attrs) = ''['' @ Join (map (\<lambda>a. fst a @ ''='' @ value_String (snd a)) attrs) '' '' @ '']''"
| "value_String (LogValuerValue s v) = s"

fun value_Resolve :: "slog_value \<Rightarrow> slog_value" where
  "value_Resolve (LogValuerValue s v) = value_Resolve v"
| "value_Resolve v = v"

text \<open>\<open>Int64\<close> panics on any other kind.\<close>

fun value_Int64 :: "slog_value \<Rightarrow> int option" where
  "value_Int64 (Int64Value i) = Some i"
| "value_Int64 v = None"

text \<open>Frames as \<open>fmt.Sprint\<close> shows them.\<close>

definition frames_text :: "frame list \<Rightarrow> string" where
  "frames_text frs =
     ''['' @ Join (map (\<lambda>f. ''{'' @ frame_Function f @ '' '' @ frame_File f @ '' '' @ Itoa (frame_Line f) @ ''}'') frs) '' '' @ '']''"

definition messageForLog :: "string \<Rightarrow> string" where
  "messageForLog msg = (if TrimSpace msg \<noteq> '''' then TrimSpace msg else ''error'')"

definition LogValue :: "string \<Rightarrow> frame list \<Rightarrow> slog_value" where
  "LogValue msg stack =
     GroupValue [(''msg'', StringValue (messageForLog msg)), (''stack_trace'', TextValue (frames_text stack))]"

text \<open>An error as the value of an attribute: only \<open>stackerr.Error\<close> is a \<open>LogValuer\<close>.\<close>

fun error_value :: "frame list \<Rightarrow> go_error \<Rightarrow> slog_value" where
  "error_value stack (StackErr msg cause) = LogValuerValue (error_text (StackErr msg cause)) (LogValue msg stack)"
| "error_value stack err = TextValue (error_text err)"


section \<open>Attributes\<close>

definition LifecycleAttrs :: "lifecycle_context \<Rightarrow> slog_attr list \<Rightarrow> slog_attr list" where
  "LifecycleAttrs ctx extras =
     (let n = normalizeLifecycleContext ctx in
      [(''component'', StringValue (lc_Component n)), (''task_id'', StringValue (lc_TaskID n)),
       (''account_id'', StringValue (lc_AccountID n)), (''attempt'', Int64Value (lc_Attempt n)),
       (''error_code'', StringValue (lc_ErrorCode n)), (''duration_ms'', Int64Value (lc_DurationMS n))] @ extras)"

definition ErrorLifecycleAttrs :: "lifecycle_context \<Rightarrow> string \<Rightarrow> slog_attr list \<Rightarrow> slog_attr list" where
  "ErrorLifecycleAttrs ctx diagnosticMessage extras =
     LifecycleAttrs ctx extras @ [(''diagnostic_message'', StringValue (SanitizeDiagnosticMessage diagnosticMessage))]"

definition ErrorLifecycleAttrsWithError ::
  "frame list \<Rightarrow> lifecycle_context \<Rightarrow> go_error option \<Rightarrow> string \<Rightarrow> slog_attr list \<Rightarrow> slog_attr list" where
  "ErrorLifecycleAttrsWithError stack ctx err diagnosticMessage extras =
     ErrorLifecycleAttrs ctx diagnosticMessage extras @
     (case err of None \<Rightarrow> [] | Some e \<Rightarrow> [(''error'', error_value stack (with_stack e))])"

definition AdminLifecycleAttrs :: "admin_lifecycle_context \<Rightarrow> slog_attr list \<Rightarrow> slog_attr list" where
  "AdminLifecycleAttrs ctx extras =
     (let n = normalizeAdminLifecycleContext ctx in
      [(''correlation_id'', StringValue (alc_CorrelationID n)), (''admin.action'', StringValue (alc_AdminAction n)),
       (''task_id'', StringValue (alc_TaskID n)), (''operation.result'', StringValue (alc_OperationResult n)),
       (''error_code'', StringValue (alc_ErrorCode n)), (''duration_ms'', Int64Value (alc_DurationMS n)),
       (''http.route'', StringValue (alc_HTTPRoute n)),
       (''http.status_code'', StringValue (Itoa (alc_HTTPStatusCode n)))] @ extras)"

definition SafeStringAttrs :: "string_map \<Rightarrow> slog_attr list" where
  "SafeStringAttrs flds = map (\<lambda>kv. (fst kv, StringValue (snd kv))) (sort_key fst (SanitizeDiagnosticFields flds))"


section \<open>Handler\<close>

record compact_handler =
  ch_attrs :: "slog_attr list"
  ch_group :: string

record log_record =
  lr_Clock :: string
  lr_Level :: int
  lr_Message :: string
  lr_Attrs :: "slog_attr list"

definition NewCompactHandler :: compact_handler where
  "NewCompactHandler = \<lparr>ch_attrs = [], ch_group = ''''\<rparr>"

definition LevelInfo :: int where "LevelInfo = 0"
definition LevelWarn :: int where "LevelWarn = 4"
definition LevelError :: int where "LevelError = 8"

definition Handler_Enabled :: "int \<Rightarrow> bool" where
  "Handler_Enabled level \<longleftrightarrow> level \<ge> LevelInfo"

definition level_String :: "int \<Rightarrow> string" where
  "level_String l =
     (let str = (\<lambda>base off. if off = 0 then base else base @ (if off > 0 then ''+'' else '''') @ Itoa off) in
      if l < LevelInfo then str ''DEBUG'' (l + 4)
      else if l < LevelWarn then str ''INFO'' l
      else if l < LevelError then str ''WARN'' (l - LevelWarn)
      else str ''ERROR'' (l - LevelError))"

definition truncateID :: "string \<Rightarrow> string" where
  "truncateID s = (if length s > 8 then [CHR 0xE2, CHR 0x80, CHR 0xA6] @ drop (length s - 8) s else s)"

fun isOne :: "slog_value \<Rightarrow> bool" where
  "isOne (Int64Value i) = (i = 1)"
| "isOne (Uint64Value n) = (n = 1)"
| "isOne (Float64Value s one) = one"
| "isOne (StringValue s) = (s = ''1'')"
| "isOne v = (Atoi (value_String v) = Some 1)"

text \<open>The key after its last dot.\<close>

definition base_key :: "string \<Rightarrow> string" where
  "base_key key = rev (takeWhile (\<lambda>c. c \<noteq> CHR ''.'') (rev key))"

text \<open>The part of the line for an attribute, and the duration if it is one.\<close>

definition formatAttr :: "string \<Rightarrow> slog_value \<Rightarrow> int option \<Rightarrow> (string \<times> int option) option" where
  "formatAttr key val duration =
     (let baseKey = base_key key in
      if baseKey = ''task_id'' then Some (''task:'' @ truncateID (value_String val), duration)
      else if baseKey = ''account_id'' \<or> baseKey = ''account'' then Some (''acc:'' @ truncateID (value_String val), duration)
      else if baseKey = ''attempt'' then Some (if isOne val then '''' else key @ '':'' @ value_String val, duration)
      else if baseKey = ''error_code'' then
        Some (if value_String val = ''eligible'' then '''' else key @ '':'' @ value_String val, duration)
      else if baseKey = ''duration_ms'' then map_option (\<lambda>d. ('''', Some d)) (value_Int64 val)
      else Some (key @ '':'' @ value_String val, duration))"

definition grouped_key :: "string \<Rightarrow> string \<Rightarrow> string" where
  "grouped_key grp key = (if grp \<noteq> '''' then grp @ ''.'' @ key else key)"

fun attr_parts :: "string \<Rightarrow> slog_attr list \<Rightarrow> int option \<Rightarrow> (string list \<times> int option) option" where
  "attr_parts grp [] duration = Some ([], duration)"
| "attr_parts grp ((k, v) # attrs) duration =
     (case formatAttr (grouped_key grp k) (value_Resolve v) duration of
        None \<Rightarrow> None
      | Some (part, duration1) \<Rightarrow>
        (case attr_parts grp attrs duration1 of
           None \<Rightarrow> None
         | Some (parts, duration2) \<Rightarrow> Some (if part \<noteq> '''' then part # parts else parts, duration2)))"

definition log_newline :: char where
  "log_newline = CHR 0x0A"

definition log_line :: "compact_handler \<Rightarrow> log_record \<Rightarrow> string option" where
  "log_line h r =
     map_option (\<lambda>(parts, duration).
         lr_Clock r @ '' '' @ level_String (lr_Level r) @ ''  ['' @ lr_Message r @ '']'' @
         (if parts \<noteq> [] then ''  '' @ Join parts '' '' else '''') @
         (case duration of None \<Rightarrow> '''' | Some d \<Rightarrow> '' +'' @ Itoa d @ ''ms'') @ [log_newline])
       (attr_parts (ch_group h) (lr_Attrs r @ ch_attrs h) None)"

definition Handler_Handle ::
  "(string \<Rightarrow> 'w \<Rightarrow> go_error option \<times> 'w) \<Rightarrow> compact_handler \<Rightarrow> log_record \<Rightarrow> 'w \<Rightarrow> (go_error option \<times> 'w) option" where
  "Handler_Handle out h r w = map_option (\<lambda>text. out text w) (log_line h r)"

definition Handler_WithAttrs :: "compact_handler \<Rightarrow> slog_attr list \<Rightarrow> compact_handler" where
  "Handler_WithAttrs h attrs = h\<lparr>ch_attrs := ch_attrs h @ attrs\<rparr>"

definition Handler_WithGroup :: "compact_handler \<Rightarrow> string \<Rightarrow> compact_handler" where
  "Handler_WithGroup h name = h\<lparr>ch_group := name\<rparr>"

text \<open>A method of \<open>slog.Logger\<close>; what the handler returns is dropped.\<close>

definition logger_Log ::
  "(string \<Rightarrow> 'w \<Rightarrow> go_error option \<times> 'w) \<Rightarrow> string \<Rightarrow> compact_handler \<Rightarrow> int \<Rightarrow> string \<Rightarrow> slog_attr list \<Rightarrow> 'w \<Rightarrow> 'w option" where
  "logger_Log out clock h level msg attrs w =
     (if Handler_Enabled level then
        map_option snd (Handler_Handle out h \<lparr>lr_Clock = clock, lr_Level = level, lr_Message = msg, lr_Attrs = attrs\<rparr> w)
      else Some w)"


section \<open>Spans\<close>

text \<open>The span that \<open>Start\<close> of the instrumentation returns beside its context; \<open>startedAt\<close> is the time of the start.\<close>

record operation_span =
  os_startedAt :: time
  os_correlationID :: string
  os_adminAction :: string
  os_taskID :: string
  os_httpRoute :: string

definition Start_span :: "time \<Rightarrow> go_context \<Rightarrow> string \<Rightarrow> string \<Rightarrow> string \<Rightarrow> operation_span" where
  "Start_span now ctx adminAction taskID httpRoute =
     \<lparr>os_startedAt = now, os_correlationID = arc_CorrelationID (AdminRequestContextFrom ctx),
      os_adminAction = (if TrimSpace adminAction = '''' then ''admin.unknown'' else TrimSpace adminAction),
      os_taskID = (if TrimSpace taskID = '''' then ''n/a'' else TrimSpace taskID), os_httpRoute = TrimSpace httpRoute\<rparr>"

text \<open>The level, the message and the attributes that \<open>End\<close> logs; a time is in nanoseconds, the division goes to zero.\<close>

definition milliseconds :: "int \<Rightarrow> int" where
  "milliseconds d = (if d < 0 then - (- d div 1000000) else d div 1000000)"

definition Span_End ::
  "operation_span \<Rightarrow> time \<Rightarrow> int \<Rightarrow> string \<Rightarrow> string \<Rightarrow> slog_attr list \<Rightarrow> int \<times> string \<times> slog_attr list" where
  "Span_End span now httpStatusCode operationResult errorCode extras =
     (if TrimSpace (ToLower operationResult) = ''success'' then LevelInfo else LevelWarn, os_adminAction span,
      AdminLifecycleAttrs
        \<lparr>alc_CorrelationID = os_correlationID span, alc_AdminAction = os_adminAction span, alc_TaskID = os_taskID span,
         alc_OperationResult = operationResult, alc_ErrorCode = errorCode,
         alc_DurationMS = milliseconds (now - os_startedAt span), alc_HTTPRoute = os_httpRoute span,
         alc_HTTPStatusCode = httpStatusCode\<rparr> extras)"

section \<open>A record is a line\<close>

definition one_line :: "string \<Rightarrow> bool" where
  "one_line s \<longleftrightarrow> log_newline \<notin> set s"

lemma one_line_simps [simp]:
  "one_line []" "one_line (c # s) \<longleftrightarrow> c \<noteq> log_newline \<and> one_line s" "one_line (s @ t) \<longleftrightarrow> one_line s \<and> one_line t"
  by (auto simp: one_line_def)

lemma one_line_drop: "one_line s \<Longrightarrow> one_line (drop n s)"
  by (auto simp: one_line_def dest: in_set_dropD)

lemma one_line_Join: "one_line (Join xs sep)" if "\<forall>x \<in> set xs. one_line x" "one_line sep"
  using that by (induction xs sep rule: Join.induct) auto

lemma one_line_concat: "\<forall>x \<in> set xs. one_line x \<Longrightarrow> one_line (concat xs)"
  by (induction xs) auto

lemma one_line_Itoa: "one_line (Itoa i)"
proof -
  have "log_newline \<notin> set (nat_str n)" for n using nat_str_digits [of log_newline n] by (auto simp: log_newline_def)
  then show ?thesis by (auto simp: one_line_def Itoa_def log_newline_def)
qed

text \<open>What an attribute must be for the handler neither to panic nor to break the line.\<close>

definition loggable :: "slog_attr \<Rightarrow> bool" where
  "loggable a \<longleftrightarrow> one_line (fst a) \<and> one_line (value_String (value_Resolve (snd a))) \<and>
     (base_key (fst a) = ''duration_ms'' \<longrightarrow> value_Int64 (value_Resolve (snd a)) \<noteq> None)"

lemma base_key_group: "base_key (g @ CHR ''.'' # k) = base_key k"
  by (simp add: base_key_def takeWhile_tail)

lemma formatAttr_loggable:
  assumes "one_line key" "one_line (value_String v)" "base_key key = ''duration_ms'' \<longrightarrow> value_Int64 v \<noteq> None"
  shows "\<exists>part dur'. formatAttr key v dur = Some (part, dur') \<and> one_line part"
  using assms
  by (auto simp: formatAttr_def Let_def truncateID_def log_newline_def one_line_drop)

lemma attr_parts_loggable:
  assumes "\<forall>a \<in> set attrs. loggable a" "one_line grp"
  shows "\<exists>parts dur'. attr_parts grp attrs dur = Some (parts, dur') \<and> (\<forall>p \<in> set parts. one_line p)"
  using assms(1)
proof (induction attrs arbitrary: dur)
  case (Cons a attrs)
  obtain k v where a: "a = (k, v)" by (cases a)
  let ?key = "grouped_key grp k"
  have "one_line ?key" "base_key ?key = base_key k"
    using Cons.prems assms(2) by (auto simp: a loggable_def log_newline_def base_key_group grouped_key_def)
  then obtain part dur1 where part: "formatAttr ?key (value_Resolve v) dur = Some (part, dur1)" "one_line part"
    using formatAttr_loggable [of ?key "value_Resolve v" dur] Cons.prems by (auto simp: a loggable_def)
  obtain parts dur2 where "attr_parts grp attrs dur1 = Some (parts, dur2)" "\<forall>p \<in> set parts. one_line p"
    using Cons.IH [of dur1] Cons.prems by auto
  then show ?case using part by (auto simp: a)
qed simp

lemma level_one_line: "one_line (level_String l)"
  by (auto simp: level_String_def Let_def one_line_Itoa log_newline_def)

lemma log_line_single:
  assumes "\<forall>a \<in> set (lr_Attrs r @ ch_attrs h). loggable a" "one_line (ch_group h)" "one_line (lr_Clock r)" "one_line (lr_Message r)"
  shows "\<exists>line. log_line h r = Some (line @ [log_newline]) \<and> one_line line"
proof -
  obtain parts dur where parts: "attr_parts (ch_group h) (lr_Attrs r @ ch_attrs h) None = Some (parts, dur)" "\<forall>p \<in> set parts. one_line p"
    using attr_parts_loggable [OF assms(1,2)] by blast
  have "one_line (Join parts '' '')" using parts(2) by (intro one_line_Join) (auto simp: log_newline_def)
  then show ?thesis
    using assms(3,4) by (auto simp: log_line_def parts(1) level_one_line one_line_Itoa log_newline_def split: option.split)
qed


section \<open>What a failure writes\<close>

definition harmless :: "string \<Rightarrow> bool" where
  "harmless s \<longleftrightarrow> one_line s \<and> length s \<le> 256 \<and> \<not> containsSensitiveToken (ToLower s)"

lemma fields_loop_words: "list_all (\<lambda>c. \<not> is_space c) w \<Longrightarrow> v \<in> set (fields_loop w s) \<Longrightarrow> list_all (\<lambda>c. \<not> is_space c) v"
proof (induction s arbitrary: w)
  case Nil
  then show ?case by (cases "w = []") simp_all
next
  case (Cons c s)
  show ?case
  proof (cases "is_space c")
    case True
    then have "v = w \<or> v \<in> set (fields_loop [] s)" using Cons.prems(2) by (cases "w = []") simp_all
    then show ?thesis using Cons.prems(1) Cons.IH [of "[]"] by (elim disjE) simp_all
  next
    case False
    then have "v \<in> set (fields_loop (w @ [c]) s)" "list_all (\<lambda>c. \<not> is_space c) (w @ [c])"
      using Cons.prems by (simp_all only: fields_loop.simps if_False list_all_append list.pred_inject simp_thms)
    then show ?thesis by (rule Cons.IH [rotated])
  qed
qed

lemma Contains_take: "Contains (take n s) p \<Longrightarrow> Contains s p"
  unfolding Contains_iff by (metis append.assoc append_take_drop_id)

lemma fixed_messages:
  "ToLower ''diagnostic details unavailable'' = ''diagnostic details unavailable''"
  "ToLower ''diagnostic message redacted'' = ''diagnostic message redacted''"
  by (simp_all add: ToLower_def to_lower_char_def)

lemma fixed_messages_harmless: "harmless ''diagnostic details unavailable''" "harmless ''diagnostic message redacted''"
  unfolding harmless_def fixed_messages
  by (simp_all add: containsSensitiveToken_def sensitiveTokens_def Contains_def HasPrefix_def log_newline_def)

lemma SanitizeDiagnosticMessage_harmless: "harmless (SanitizeDiagnosticMessage message)"
proof -
  let ?n = "Join (Fields (TrimSpace message)) '' ''"
  have "one_line v" if "v \<in> set (Fields (TrimSpace message))" for v
  proof -
    have "list_all (\<lambda>c. \<not> is_space c) v" using that by (intro fields_loop_words [of "[]" v]) (simp_all add: Fields_def)
    moreover have "is_space log_newline" by (simp add: log_newline_def is_space_def)
    ultimately show ?thesis by (auto simp: one_line_def list_all_iff)
  qed
  then have lines: "one_line ?n" by (intro one_line_Join) (auto simp: log_newline_def)
  show ?thesis
  proof (cases "?n = '''' \<or> containsSensitiveToken (ToLower ?n)")
    case True
    then show ?thesis using fixed_messages_harmless by (auto simp: SanitizeDiagnosticMessage_def containsSensitiveToken_def Let_def)
  next
    case False
    then have "SanitizeDiagnosticMessage message = take 256 ?n"
      by (auto simp: SanitizeDiagnosticMessage_def containsSensitiveToken_def Let_def)
    moreover have "\<not> containsSensitiveToken (ToLower (take 256 ?n))"
      using False Contains_take [of 256 "ToLower ?n"] by (auto simp: containsSensitiveToken_def list_ex_iff ToLower_def take_map)
    moreover have "one_line (take 256 ?n)" using lines by (auto simp: one_line_def dest: in_set_takeD)
    ultimately show ?thesis by (simp add: harmless_def)
  qed
qed

lemma harmless_words:
  "CHR 0x0A \<notin> set (SanitizeDiagnosticMessage message) \<and> length (SanitizeDiagnosticMessage message) \<le> 256 \<and>
   (\<forall>word \<in> {''secret'', ''password'', ''token'', ''cookie'', ''session_payload'', ''raw_session'', ''access_key'',
      ''proxy_credential'', ''credentials''}. \<not> Contains (ToLower (SanitizeDiagnosticMessage message)) word)"
proof -
  have words: "containsSensitiveToken v \<longleftrightarrow> (\<exists>word \<in> {''secret'', ''password'', ''token'', ''cookie'', ''session_payload'', ''raw_session'',
      ''access_key'', ''proxy_credential'', ''credentials''}. Contains v word)" for v
    unfolding containsSensitiveToken_def sensitiveTokens_def list_ex_iff list.set ..
  show ?thesis using SanitizeDiagnosticMessage_harmless [of message]
    unfolding harmless_def one_line_def log_newline_def words bex_simps by blast
qed

text \<open>The values a context and an error bring into a line.\<close>

definition loggable_context :: "lifecycle_context \<Rightarrow> bool" where
  "loggable_context c \<longleftrightarrow> one_line (lc_Component c) \<and> one_line (lc_TaskID c) \<and> one_line (lc_AccountID c) \<and> one_line (lc_ErrorCode c)"

definition loggable_error :: "frame list \<Rightarrow> go_error option \<Rightarrow> bool" where
  "loggable_error stack err \<longleftrightarrow>
     (case err of None \<Rightarrow> True | Some e \<Rightarrow> one_line (value_String (value_Resolve (error_value stack (with_stack e)))))"

lemma base_keys [simp]:
  "base_key ''component'' = ''component''" "base_key ''task_id'' = ''task_id''" "base_key ''account_id'' = ''account_id''"
  "base_key ''attempt'' = ''attempt''" "base_key ''error_code'' = ''error_code''" "base_key ''duration_ms'' = ''duration_ms''"
  "base_key ''diagnostic_message'' = ''diagnostic_message''" "base_key ''error'' = ''error''"
  by (simp_all add: base_key_def)

lemma lifecycle_attrs_loggable:
  assumes "loggable_context c" "\<forall>a \<in> set extras. loggable a" "loggable_error stack err"
  shows "\<forall>a \<in> set (ErrorLifecycleAttrsWithError stack c err message extras). loggable a"
  using assms SanitizeDiagnosticMessage_harmless [of message]
  by (auto simp: ErrorLifecycleAttrsWithError_def ErrorLifecycleAttrs_def LifecycleAttrs_def normalizeLifecycleContext_def Let_def
      loggable_def loggable_context_def loggable_error_def harmless_def one_line_Itoa log_newline_def split: option.splits)

lemma attr_parts_append:
  "attr_parts grp (as @ bs) dur =
   (case attr_parts grp as dur of None \<Rightarrow> None | Some (ps, dur1) \<Rightarrow>
      (case attr_parts grp bs dur1 of None \<Rightarrow> None | Some (qs, dur2) \<Rightarrow> Some (ps @ qs, dur2)))"
proof (induction as arbitrary: dur)
  case (Cons a as)
  obtain k v where a: "a = (k, v)" by (cases a)
  show ?case
    by (cases "formatAttr (grouped_key grp k) (value_Resolve v) dur") (auto simp: a Cons.IH split: option.split prod.split)
qed (simp split: option.split prod.split)

lemma Join_middle: "Join (xs @ y # ys) sep = concat (map (\<lambda>x. x @ sep) xs) @ y @ concat (map (\<lambda>x. sep @ x) ys)"
proof (induction xs)
  case Nil
  show ?case by (induction ys arbitrary: y) simp_all
next
  case (Cons x xs)
  then show ?case by (cases "xs @ y # ys") simp_all
qed

text \<open>A log is the text written so far.\<close>

definition append_log :: "string \<Rightarrow> string \<Rightarrow> go_error option \<times> string" where
  "append_log line log = (None, log @ line)"

text \<open>The one attribute the handler panics on: a duration that is no integer.\<close>

definition printable :: "slog_attr \<Rightarrow> bool" where
  "printable a \<longleftrightarrow> (base_key (fst a) = ''duration_ms'' \<longrightarrow> value_Int64 (value_Resolve (snd a)) \<noteq> None)"

lemma formatAttr_printable: "printable (k, v) \<Longrightarrow> \<exists>part dur'. formatAttr k (value_Resolve v) dur = Some (part, dur')"
  by (auto simp: printable_def formatAttr_def Let_def)

lemma attr_parts_printable: "\<forall>a \<in> set attrs. printable a \<Longrightarrow> \<exists>parts dur'. attr_parts '''' attrs dur = Some (parts, dur')"
proof (induction attrs arbitrary: dur)
  case (Cons a attrs)
  obtain k v where a: "a = (k, v)" by (cases a)
  obtain part dur1 where "formatAttr k (value_Resolve v) dur = Some (part, dur1)"
    using formatAttr_printable [of k v dur] Cons.prems by (auto simp: a)
  moreover obtain parts dur2 where "attr_parts '''' attrs dur1 = Some (parts, dur2)" using Cons.IH [of dur1] Cons.prems by auto
  ultimately show ?case by (simp add: a grouped_key_def)
qed simp

definition error_attrs :: "frame list \<Rightarrow> go_error option \<Rightarrow> slog_attr list" where
  "error_attrs stack err = (case err of None \<Rightarrow> [] | Some e \<Rightarrow> [(''error'', error_value stack (with_stack e))])"

lemma lifecycle_attrs_printable: "\<forall>a \<in> set extras. printable a \<Longrightarrow> \<forall>a \<in> set (LifecycleAttrs c extras). printable a"
  by (auto simp: LifecycleAttrs_def Let_def printable_def)

lemma error_attrs_part:
  "attr_parts '''' (error_attrs stack err) dur =
   Some (case err of None \<Rightarrow> [] | Some e \<Rightarrow> [''error:'' @ value_String (value_Resolve (error_value stack (with_stack e)))], dur)"
  by (simp add: error_attrs_def grouped_key_def formatAttr_def split: option.split)

lemma joined_text_breaks: "\<not> one_line (error_text (JoinErr (e1 # e2 # es)))"
  by (simp add: one_line_def log_newline_def)

lemma failure_parts:
  assumes "attr_parts '''' (LifecycleAttrs c extras) None = Some (ps, d)"
  shows "attr_parts '''' (ErrorLifecycleAttrsWithError stack c err message extras) None =
    Some (ps @ (''diagnostic_message:'' @ SanitizeDiagnosticMessage message) #
      (case err of None \<Rightarrow> [] | Some e \<Rightarrow> [''error:'' @ value_String (value_Resolve (error_value stack (with_stack e)))]), d)"
proof -
  have "ErrorLifecycleAttrsWithError stack c err message extras =
      LifecycleAttrs c extras @ [(''diagnostic_message'', StringValue (SanitizeDiagnosticMessage message))] @ error_attrs stack err"
    by (simp add: ErrorLifecycleAttrsWithError_def ErrorLifecycleAttrs_def error_attrs_def)
  then show ?thesis
    by (simp add: attr_parts_append assms error_attrs_part grouped_key_def formatAttr_def)
qed

text \<open>
  C23.  Of the diagnostic message of a failure only the sanitized form is logged, at one place of the line: it has no line
  break, at most 256 bytes and none of the words of credentials, and nothing else in the line depends on the message.
  The handler does not panic, unless a caller passes a duration that is no integer.  The rest is not sanitized: the line
  is one line when the names, the extras and the text of the error are, and it is not when the error is several joined
  into one and one of them has a stack, as the restorer of sessions logs it (\<open>session_restorer.go\<close>, line 82).
\<close>

theorem failure_message_sanitized:
  assumes "\<forall>a \<in> set extras. printable a" "level \<in> {LevelInfo, LevelWarn, LevelError}"
  shows "\<exists>pre post.
    (\<forall>message log. let shown = SanitizeDiagnosticMessage message in
       logger_Log append_log clock NewCompactHandler level event (ErrorLifecycleAttrsWithError stack c err message extras) log =
         Some (log @ pre @ ''diagnostic_message:'' @ shown @ post @ [CHR 0x0A]) \<and>
       CHR 0x0A \<notin> set shown \<and> length shown \<le> 256 \<and>
       (\<forall>word \<in> {''secret'', ''password'', ''token'', ''cookie'', ''session_payload'', ''raw_session'', ''access_key'',
          ''proxy_credential'', ''credentials''}. \<not> Contains (ToLower shown) word)) \<and>
    (loggable_context c \<and> (\<forall>a \<in> set extras. loggable a) \<and> loggable_error stack err \<and> one_line clock \<and> one_line event \<longrightarrow>
       one_line pre \<and> one_line post) \<and>
    (\<forall>e1 e2 es. err = Some (JoinErr (e1 # e2 # es)) \<and> list_ex has_stack (e1 # e2 # es) \<longrightarrow> \<not> one_line post)"
proof -
  obtain ps d where A: "attr_parts '''' (LifecycleAttrs c extras) None = Some (ps, d)"
    using attr_parts_printable [OF lifecycle_attrs_printable [OF assms(1), of c], of None] by blast
  define qs where "qs = (case err of None \<Rightarrow> [] | Some e \<Rightarrow> [''error:'' @ value_String (value_Resolve (error_value stack (with_stack e)))])"
  define pre where "pre = clock @ '' '' @ level_String level @ ''  ['' @ event @ '']  '' @ concat (map (\<lambda>p. p @ '' '') ps)"
  define post where "post = concat (map (\<lambda>p. '' '' @ p) qs) @ (case d of None \<Rightarrow> '''' | Some d \<Rightarrow> '' +'' @ Itoa d @ ''ms'')"
  show ?thesis
  proof (rule exI [of _ pre], rule exI [of _ post], intro conjI allI impI)
    fix message log
    have "Handler_Enabled level" using assms(2) by (auto simp: Handler_Enabled_def LevelInfo_def LevelWarn_def LevelError_def)
    then have "logger_Log append_log clock NewCompactHandler level event (ErrorLifecycleAttrsWithError stack c err message extras) log =
        Some (log @ pre @ ''diagnostic_message:'' @ SanitizeDiagnosticMessage message @ post @ [CHR 0x0A])"
      using failure_parts [OF A, of stack err message, folded qs_def]
      by (simp add: logger_Log_def Handler_Handle_def log_line_def NewCompactHandler_def append_log_def Join_middle pre_def post_def
          log_newline_def)
    from this harmless_words [of message] show "let shown = SanitizeDiagnosticMessage message in
       logger_Log append_log clock NewCompactHandler level event (ErrorLifecycleAttrsWithError stack c err message extras) log =
         Some (log @ pre @ ''diagnostic_message:'' @ shown @ post @ [CHR 0x0A]) \<and>
       CHR 0x0A \<notin> set shown \<and> length shown \<le> 256 \<and>
       (\<forall>word \<in> {''secret'', ''password'', ''token'', ''cookie'', ''session_payload'', ''raw_session'', ''access_key'',
          ''proxy_credential'', ''credentials''}. \<not> Contains (ToLower shown) word)"
      unfolding Let_def by (rule conjI)
  next
    assume ok: "loggable_context c \<and> (\<forall>a \<in> set extras. loggable a) \<and> loggable_error stack err \<and> one_line clock \<and> one_line event"
    have "\<forall>a \<in> set (LifecycleAttrs c extras). loggable a"
      using lifecycle_attrs_loggable [of c extras stack err "''''"] ok by (auto simp: ErrorLifecycleAttrsWithError_def ErrorLifecycleAttrs_def)
    then have "\<forall>p \<in> set ps. one_line p" using attr_parts_loggable [of _ "''''" None] A by fastforce
    then show "one_line pre"
      using ok unfolding pre_def by (auto simp: level_one_line log_newline_def intro!: one_line_concat)
    show "one_line post"
      using ok unfolding post_def qs_def
      by (auto simp: one_line_Itoa loggable_error_def log_newline_def split: option.split)
  next
    fix e1 e2 es
    assume "err = Some (JoinErr (e1 # e2 # es)) \<and> list_ex has_stack (e1 # e2 # es)"
    then have "qs = [''error:'' @ error_text (JoinErr (e1 # e2 # es))]" by (simp add: qs_def with_stack_def del: error_text.simps)
    then show "\<not> one_line post" using joined_text_breaks [of e1 e2 es] by (simp add: post_def del: error_text.simps)
  qed
qed

text \<open>
  C40.  An error that carries no stack leaves no trace of itself in the log: the attribute that should show it reads the
  same for any two of them, since the wrapper it is logged in shows only its own message, which is empty.
\<close>

theorem logged_error_hides_cause:
  assumes "\<not> has_stack e1" "\<not> has_stack e2"
  shows "logger_Log out clock h level event (ErrorLifecycleAttrsWithError stack c (Some e1) message extras) w =
    logger_Log out clock h level event (ErrorLifecycleAttrsWithError stack c (Some e2) message extras) w"
proof -
  have "value_Resolve (error_value stack (with_stack e)) = LogValue '''' stack" if "\<not> has_stack e" for e
    using that by (simp add: with_stack_def LogValue_def)
  then have "attr_parts grp [(''error'', error_value stack (with_stack e1))] dur = attr_parts grp [(''error'', error_value stack (with_stack e2))] dur"
    for grp dur using assms by simp
  then have "attr_parts grp (ErrorLifecycleAttrsWithError stack c (Some e1) message extras @ rest) dur =
      attr_parts grp (ErrorLifecycleAttrsWithError stack c (Some e2) message extras @ rest) dur" for grp rest dur
    by (simp only: ErrorLifecycleAttrsWithError_def option.case append.assoc attr_parts_append)
  then show ?thesis by (simp add: logger_Log_def Handler_Handle_def log_line_def)
qed

definition sample_context :: lifecycle_context where
  "sample_context = \<lparr>lc_Component = ''worker.claim_loop'', lc_TaskID = ''t1'', lc_AccountID = ''account-0001'', lc_Attempt = 2,
     lc_ErrorCode = ''internal_error'', lc_DurationMS = 9\<rparr>"

text \<open>The error a restore logs when its status cannot be written either.\<close>

definition sample_joined :: go_error where
  "sample_joined = JoinErr [with_stack (PlainErr ''no such object''), StackErr ''failed to update session status'' (Some CtxCanceled)]"

lemma failure_message_sanitized_witness:
  "\<exists>pre post. \<not> one_line post \<and>
    logger_Log append_log ''10:00:00.000'' NewCompactHandler LevelWarn ''session.restore.failed''
      (ErrorLifecycleAttrsWithError [] sample_context (Some sample_joined) ''session restore failed'' [(''object_key'', StringValue ''k'')]) '''' =
    Some (pre @ ''diagnostic_message:'' @ SanitizeDiagnosticMessage ''session restore failed'' @ post @ [CHR 0x0A])"
proof -
  have "\<forall>a \<in> set [(''object_key'', StringValue ''k'')]. printable a" by (simp add: printable_def base_key_def)
  moreover have "LevelWarn \<in> {LevelInfo, LevelWarn, LevelError}" by simp
  ultimately obtain pre post where line: "\<And>message log.
      logger_Log append_log ''10:00:00.000'' NewCompactHandler LevelWarn ''session.restore.failed''
        (ErrorLifecycleAttrsWithError [] sample_context (Some sample_joined) message [(''object_key'', StringValue ''k'')]) log =
      Some (log @ pre @ ''diagnostic_message:'' @ SanitizeDiagnosticMessage message @ post @ [CHR 0x0A])"
    and breaks: "\<And>e1 e2 es. Some sample_joined = Some (JoinErr (e1 # e2 # es)) \<and> list_ex has_stack (e1 # e2 # es) \<longrightarrow> \<not> one_line post"
    using failure_message_sanitized [of "[(''object_key'', StringValue ''k'')]" LevelWarn "''10:00:00.000''"
        "''session.restore.failed''" "[]" sample_context "Some sample_joined"]
    unfolding Let_def by blast
  have "\<not> one_line post"
    using breaks [of "with_stack (PlainErr ''no such object'')" "StackErr ''failed to update session status'' (Some CtxCanceled)" "[]"]
    by (simp add: sample_joined_def)
  then show ?thesis using line [where log = "''''"] by auto
qed

lemma logged_error_hides_cause_witness:
  "log_line NewCompactHandler \<lparr>lr_Clock = '''', lr_Level = LevelError, lr_Message = ''m'',
      lr_Attrs = ErrorLifecycleAttrsWithError [] sample_context (Some CtxCanceled) ''m'' []\<rparr> \<noteq> None \<and>
   logger_Log append_log '''' NewCompactHandler LevelError ''m''
     (ErrorLifecycleAttrsWithError [] sample_context (Some CtxCanceled) ''m'' []) '''' =
   logger_Log append_log '''' NewCompactHandler LevelError ''m''
     (ErrorLifecycleAttrsWithError [] sample_context (Some (PlainErr ''disk full'')) ''m'' []) ''''"
proof
  show "log_line NewCompactHandler \<lparr>lr_Clock = '''', lr_Level = LevelError, lr_Message = ''m'',
      lr_Attrs = ErrorLifecycleAttrsWithError [] sample_context (Some CtxCanceled) ''m'' []\<rparr> \<noteq> None" by code_simp
qed (rule logged_error_hides_cause; simp)

end
