(* ===== verification/Spec2Isabelle.thy ===== *)
theory Spec2Isabelle
  imports Worker_System Engine_Contract Page_Safety Admin_Mutations Application Cli_Reads Log_Lines
begin

text \<open>
  Verification of the follower service.

  The program.  The service keeps a queue of tasks, \<open>follow profile p with account a\<close>, in Postgres.  An
  administrator fills the queue from a CSV file and cancels or retries tasks; a worker claims one task after
  the other, takes the account of the task for itself, restores its browser session from the object
  storage, follows the profile in a browser, verifies that, stores the result and completes the task.  Every
  step is written to an audit log and counted in metrics.

  How it is modelled.  Go values are records, enumerations with an \<open>Other\<close> constructor for any other
  string, and \<open>int\<close> with the bounds of the columns and conversions where they matter.  An error is a
  \<open>go_error\<close> (plain, domain, wrapped, joined, with a captured stack); a function that may fail returns
  \<open>go_error + 'a\<close>, or an option for a bare error.  A call with effects takes the state and returns it.  The
  state is extended as the layers need it: \<open>db\<close> (the tables, the clock, the source of identifiers, and the
  list of faults the next statements of the driver meet), \<open>storage\<close> (the timestamps handed out), \<open>world\<close>
  (the bucket).  A statement is a function on the tables that fails as a whole; a transaction runs its body
  and rolls back; the reply of a statement or of a commit may get lost after its effect.  A context holds
  its values; that it is cancelled shows in the errors of the calls made with it.  The calls that log are left out.
  Interfaces are records of functions, and laws that a client relies on are locales (\<open>audit_log\<close> and the
  storage locales among them), each interpreted on the model of the code that provides it.

  Theories, from the bottom.

  \<^item> \<open>Prelude\<close>: strings, trimming, finding and updating rows of lists; shared by all.
  \<^item> \<open>Errors\<close> (\<open>internal/stackerr\<close>, \<open>internal/domain/invariants.go\<close>), \<open>Task_Domain\<close>, \<open>Account_Domain\<close>,
    \<open>Follow_Domain\<close> (\<open>internal/domain\<close>): the values of the domain, their validation, the task life cycle,
    the eligibility of accounts, follow outcomes and verification.
  \<^item> \<open>Json\<close>, \<open>Json_Encode\<close>, \<open>Json_Decode\<close>, \<open>Strconv\<close> (\<open>encoding/json\<close> and \<open>strconv\<close> as far as the source uses
    them): validity, encoding and decoding; what is written is read back.
  \<^item> \<open>Diagnostics\<close>, \<open>Database\<close>, \<open>Audit_Trail\<close>: sanitized diagnostic fields; tables with the constraints of
    \<open>db/migrations\<close>, statements, transactions and faults; the audit log.
  \<^item> \<open>Task_Repository\<close>, \<open>Task_Lifecycle\<close>, \<open>Task_Queue\<close>, \<open>Batch_Import\<close>
    (\<open>internal/repository/postgres/task_postgres.go\<close>): the operations of the queue; that each keeps the
    constraints; what each does on every outcome; the import of a batch.
  \<^item> \<open>Account_Repository\<close>, \<open>Session_Repository\<close>, \<open>Result_Repository\<close>: the other tables, likewise.
  \<^item> \<open>Object_Keys\<close>, \<open>Storage\<close>, \<open>Session_Restorer\<close> (\<open>internal/storage\<close>,
    \<open>internal/browser/session_restorer.go\<close>): names of objects, the stores over a client of minio, saving and
    restoring a session over database and bucket.
  \<^item> \<open>Worker_Policy\<close>, \<open>Account_Guard\<close>, \<open>Execution_Service\<close>, \<open>Claim_Loop\<close> (\<open>internal/worker\<close>): which outcome
    completes a task how; taking and releasing an account; the stages of an execution; the loop.  An
    execution refines a protocol automaton (\<open>protocol_step\<close>); what bounds every run of it bounds every execution.
  \<^item> \<open>Browser_Rules\<close>, \<open>Browser_Flows\<close>, \<open>Engine_Contract\<close> (\<open>internal/browser\<close>): selectors, addresses and
    texts; the runners of the mock engine and of the browser engine; the contract both keep towards the worker
    (locales \<open>follow_flow\<close> and \<open>verify_flow\<close>, interpreted on both engines).
  \<^item> \<open>Page_Adapters\<close>, \<open>Page_Safety\<close> (\<open>playwright_follow_adapter.go\<close>, \<open>playwright_verify_adapter.go\<close>,
    \<open>bootstrap_login_flow.go\<close>): what is done on a page, over package playwright as a record of functions; every
    call returns, closes what it opened and clicks at most twice.
  \<^item> \<open>Admin_Csv\<close>, \<open>Admin_Http\<close>, \<open>Admin_Api\<close>, \<open>Admin_Promises\<close>, \<open>Admin_Mutations\<close>
    (\<open>internal/transport/http\<close>): reading and validating an upload; data and envelopes; operations, middleware
    and routes; the form of every answer; that the answer to a retry, a cancel or an import tells what happened
    to the tables.
  \<^item> \<open>Observability\<close> (\<open>internal/observability\<close>, \<open>internal/app/operational_metrics_refresher.go\<close>): counters
    and their bounded labels, the health check and its goroutines in any order, the refresh of the gauges.
  \<^item> \<open>Worker_System\<close> (\<open>internal/app/runtime_dependencies.go\<close>): all of the above wired as the process wires
    it.  The lemmas follow one iteration over a database whose driver does not fail: whatever browser,
    storage and health check answer, the task is completed and the account released, so a worker holds
    nothing between two iterations and drains the queue while it is ready.
  \<^item> \<open>Configuration\<close> (\<open>internal/config\<close>), \<open>Credentials\<close> (\<open>internal/credentials\<close>): values, overrides and
    rules; every way a reference to credentials is resolved.
  \<^item> \<open>Application\<close> (\<open>internal/app\<close>, \<open>cmd/follower\<close>): the process built from a configuration.  A configuration that
    loads and that the packages accept always starts, with the parts the configuration asks for.
  \<^item> \<open>Admin_Wire\<close> (the field tags of \<open>internal/transport/http\<close>), \<open>Admin_Client\<close> (\<open>internal/cli/adminclient\<close>),
    \<open>Operator_Cli\<close> (\<open>internal/cli/commands\<close>, \<open>internal/cli/render\<close>, \<open>cmd/followerctl\<close>), \<open>Cli_Server\<close>, \<open>Cli_Reads\<close>:
    the bodies as text, the client that reads them, the commands and what they print; command, network, server and tables
    put together, so that what the operator is told is what happened, and the list shown is the table.
  \<^item> \<open>Log_Lines\<close> (\<open>internal/logger\<close>, the attributes of \<open>internal/observability/events.go\<close>, the spans of the
    administrator operations): the line that is made of a record; of the diagnostic message of a failure only the
    sanitized form is logged, while the error beside it is not sanitized.

  Bounds.  Recursion is structural or has a measure, but for the polling of a page, which is a partial function that
  waits on the clock; that it returns is proved from the clock moving while it sleeps.  The reader of JSON has fuel,
  twice the length of its text and one more: every call but the one for a list takes a character, and
  \<open>parse_json_written\<close> shows that it is enough for all that the service writes.  A client reads four megabytes of an
  answer (\<open>max_body\<close>).  Seconds of the configuration are durations of 64 bits; up to \<open>max_seconds\<close>, some 292 years,
  they do not wrap.  The ticker of the two loops is the number of ticks that come before the context is done, a
  parameter.  The retry loop of the import and the search for a free object name are recursions on their input.

  Not modelled.  Where the modelled functions log, and with which attributes; the registry and the HTTP handler of prometheus; the link to the
  package of migrations.  Goroutines of the process are named where they start, and run one at a time.  Parameters
  that stand for packages outside of the repository: the client of minio, the driver of Postgres as far as it fails,
  the encoder of images, the pages of the browser, package yaml, the parsers of URLs and UUIDs, the transport of HTTP,
  and the text of a time.
\<close>

end
